(* ===== verification/Prelude.thy ===== *)
theory Prelude
  imports Main "HOL-Library.Word"
begin

text \<open>
  What every component shares: the names of the machine integers, byte buffers with
  explicit bounds (a C array is a list, and a write outside it is not a value),
  generic facts on \<open>take\<close>, \<open>drop\<close> and list update, and the interface of a
  wrap-safe timer, of which the sources hold several copies.

  Conventions of the development. \<open>uint8_t\<close>, \<open>uint16_t\<close> and
  \<open>uint32_t\<close> are words of that width; \<open>size_t\<close> and other lengths, which the
  sources keep far below the width of the type, are natural numbers. A pair of a data
  pointer and a length is a list. Handles to a component's own state are passed by
  value and returned updated; their NULL guards are not modelled, the NULL guards of
  optional data are.
\<close>

unbundle bit_operations_syntax

type_synonym u8 = "8 word"
type_synonym u16 = "16 word"
type_synonym u32 = "32 word"
type_synonym u64 = "64 word"
type_synonym bytes = "8 word list"

named_theorems list_window \<open>facts on windows of lists\<close>

section \<open>Windows of lists\<close>

definition window :: "'a list \<Rightarrow> nat \<Rightarrow> nat \<Rightarrow> 'a list" where
  "window xs off n = take n (drop off xs)"

definition overwrite :: "'a list \<Rightarrow> nat \<Rightarrow> 'a list \<Rightarrow> 'a list" where
  "overwrite xs off ys = take off xs @ ys @ drop (off + length ys) xs"

text \<open>A write into a C array: outside the array there is no result.\<close>

definition poke :: "'a list \<Rightarrow> nat \<Rightarrow> 'a list \<Rightarrow> 'a list option" where
  "poke xs off ys =
     (if off + length ys \<le> length xs then Some (overwrite xs off ys) else None)"

lemma length_window [simp, list_window]: "length (window xs off n) = min n (length xs - off)"
  by (simp add: window_def)

lemma length_overwrite [simp, list_window]:
  "off + length ys \<le> length xs \<Longrightarrow> length (overwrite xs off ys) = length xs"
  by (simp add: overwrite_def)

lemma window_overwrite_same [simp, list_window]:
  assumes "off + length ys \<le> length xs" "n = length ys"
  shows "window (overwrite xs off ys) off n = ys"
  using assms by (simp add: window_def overwrite_def)

lemma nth_overwrite:
  assumes "off + length ys \<le> length xs"
  shows "overwrite xs off ys ! i =
    (if off \<le> i \<and> i < off + length ys then ys ! (i - off) else xs ! i)"
proof -
  consider "i < off" | "off \<le> i" "i < off + length ys" | "off + length ys \<le> i" by linarith
  then show ?thesis
    using assms by cases (auto simp: overwrite_def nth_append)
qed

lemma window_eqI:
  assumes "length xs = length ys"
    and "\<And>i. off \<le> i \<Longrightarrow> i < off + n \<Longrightarrow> i < length xs \<Longrightarrow> xs ! i = ys ! i"
  shows "window xs off n = window ys off n"
  using assms by (intro nth_equalityI) (auto simp: window_def)

lemma window_append_left: "off + n \<le> length xs \<Longrightarrow> window (xs @ ys) off n = window xs off n"
  by (simp add: window_def)

lemma window_overwrite_before [list_window]:
  assumes "off' + n \<le> off" "off \<le> length xs"
  shows "window (overwrite xs off ys) off' n = window xs off' n"
proof -
  have "window (overwrite xs off ys) off' n = window (take off xs) off' n"
    using assms unfolding overwrite_def by (intro window_append_left) simp
  also have "\<dots> = window xs off' n"
    using assms by (simp add: window_def drop_take min_def)
  finally show ?thesis .
qed

lemma window_overwrite_after [list_window]:
  assumes "off + length ys \<le> length xs" "off + length ys \<le> off'"
  shows "window (overwrite xs off ys) off' n = window xs off' n"
proof -
  have "drop off' (overwrite xs off ys) = drop off' xs"
    using assms by (simp add: overwrite_def)
  then show ?thesis by (simp add: window_def)
qed

lemma window_window [list_window]:
  "a + b \<le> n \<Longrightarrow> window (window xs off n) a b = window xs (off + a) b"
  by (simp add: window_def drop_take add.commute)

lemma window_replicate: "off + n \<le> m \<Longrightarrow> window (replicate m x) off n = replicate n x"
  by (simp add: window_def min_def)

lemma window_split:
  "window xs off (a + b) = window xs off a @ window xs (off + a) b"
  by (simp add: window_def take_add drop_drop add.commute)

lemma window_all: "length xs = n \<Longrightarrow> window xs 0 n = xs"
  by (simp add: window_def)

section \<open>Little-endian bytes\<close>

text \<open>
  The bytes of a packed field in the memory of the target and of the host, both
  little-endian.
\<close>

definition le_bytes :: "nat \<Rightarrow> 'a::len word \<Rightarrow> bytes" where
  "le_bytes n w = map (\<lambda>i. ucast (drop_bit (8 * i) w)) [0..<n]"

fun of_le :: "bytes \<Rightarrow> 'a::len word" where
  "of_le [] = 0"
| "of_le (b # bs) = ucast b OR push_bit 8 (of_le bs)"

lemma length_le_bytes [simp]: "length (le_bytes n w) = n"
  by (simp add: le_bytes_def)

lemma bit_of_le:
  "bit (of_le bs :: 'a::len word) i \<longleftrightarrow>
     i < LENGTH('a) \<and> i < 8 * length bs \<and> bit (bs ! (i div 8)) (i mod 8)"
proof (induction bs arbitrary: i)
  case (Cons b bs)
  have "bit (of_le (b # bs) :: 'a word) i \<longleftrightarrow>
      i < LENGTH('a) \<and> (if i < 8 then bit b i else bit (of_le bs :: 'a word) (i - 8))"
    by (auto simp: bit_or_iff bit_push_bit_iff bit_ucast_iff bit_imp_le_length not_le
        dest: bit_imp_le_length)
  also have "\<dots> \<longleftrightarrow> i < LENGTH('a) \<and> i < 8 * length (b # bs) \<and> bit ((b # bs) ! (i div 8)) (i mod 8)"
  proof (cases "i < 8")
    case False
    then have "i div 8 = Suc ((i - 8) div 8)" "i mod 8 = (i - 8) mod 8"
      by (simp_all add: le_div_geq le_mod_geq)
    with False show ?thesis by (auto simp: Cons)
  qed simp
  finally show ?case .
qed simp

lemma of_le_le_bytes:
  assumes "LENGTH('a) \<le> 8 * n"
  shows "of_le (le_bytes n (w :: 'a::len word)) = w"
proof (rule bit_word_eqI)
  fix i assume i: "i < LENGTH('a)"
  then have "i div 8 < n" using assms by linarith
  then show "bit (of_le (le_bytes n w) :: 'a word) i = bit w i"
    using i assms by (auto simp: bit_of_le le_bytes_def bit_ucast_iff bit_drop_bit_eq)
qed

lemma le_bytes_of_le:
  assumes "length bs = n" "8 * n \<le> LENGTH('a)"
  shows "le_bytes n (of_le bs :: 'a::len word) = bs"
proof (rule nth_equalityI)
  fix i assume "i < length (le_bytes n (of_le bs :: 'a word))"
  then have i: "i < n" by simp
  show "le_bytes n (of_le bs :: 'a word) ! i = bs ! i"
  proof (rule bit_word_eqI)
    fix k assume k: "k < LENGTH(8)"
    have "8 * i + k < 8 * n" "8 * i + k < LENGTH('a)" using i k assms(2) by auto
    then show "bit (le_bytes n (of_le bs :: 'a word) ! i) k = bit (bs ! i) k"
      using i k assms by (simp add: le_bytes_def bit_ucast_iff bit_drop_bit_eq bit_of_le)
  qed
qed (use assms in simp)

lemma unat_u32_less: "unat (w :: u32) < 2 ^ 32"
  using unsigned_less[of w, where ?'a = nat] by simp

section \<open>Exclusive or\<close>

lemma word_xor_right_cancel [simp]: "a XOR m = b XOR m \<longleftrightarrow> a = (b :: 'a::len word)"
  by (auto simp: bit_eq_iff bit_xor_iff)

lemma word_xor_left_cancel [simp]: "m XOR a = m XOR b \<longleftrightarrow> a = (b :: 'a::len word)"
  by (auto simp: bit_eq_iff bit_xor_iff)

lemma ucast_u8_u32_inj [simp]: "(ucast a :: u32) = ucast b \<longleftrightarrow> a = (b :: u8)"
proof
  assume "(ucast a :: u32) = ucast b"
  then have e: "bit (ucast a :: u32) n = bit (ucast b :: u32) n" for n by simp
  show "a = b"
  proof (rule bit_word_eqI)
    fix n assume "n < LENGTH(8)"
    with e[of n] show "bit a n = bit b n" by (simp add: bit_ucast_iff)
  qed
qed simp

section \<open>Wrap-safe timers\<close>

text \<open>
  The sources compare 32-bit millisecond ticks by subtraction: an interval counts as
  elapsed when the wrapped difference lies in the lower half of the range and reaches the
  interval. The law below is that rule; its consequences are proved once here and hold of
  every copy.
\<close>

locale wrap_timer =
  fixes el :: "u32 \<Rightarrow> u32 \<Rightarrow> u32 \<Rightarrow> bool"
  assumes el_law: "el now since rel \<longleftrightarrow> unat (now - since) < 2 ^ 31 \<and> unat rel \<le> unat (now - since)"
begin

lemma tick_difference:
  assumes "t0 \<le> t" "t - t0 < 2 ^ 32"
  shows "unat (of_nat t - of_nat t0 :: u32) = t - t0"
proof -
  have "of_nat t - of_nat t0 = (of_nat (t - t0) :: u32)"
    using assms(1) by simp
  then show ?thesis using assms(2) by (simp add: unat_of_nat take_bit_eq_mod)
qed

lemma elapsed_iff_true_time:
  assumes "t0 \<le> t" "t - t0 < 2 ^ 31" "d < 2 ^ 32"
  shows "el (of_nat t) (of_nat t0) (of_nat d) \<longleftrightarrow> d \<le> t - t0"
  using assms by (simp add: el_law tick_difference unat_of_nat take_bit_eq_mod)

lemma not_elapsed_in_upper_half:
  assumes "t0 \<le> t" "2 ^ 31 \<le> t - t0" "t - t0 < 2 ^ 32"
  shows "\<not> el (of_nat t) (of_nat t0) d"
  using assms by (simp add: el_law tick_difference)

lemma not_elapsed_before:
  assumes "t < t0" "t0 - t \<le> 2 ^ 31"
  shows "\<not> el (of_nat t) (of_nat t0) d"
proof -
  define k where "k = t0 - t"
  have k: "t0 = t + k" "0 < k" "k \<le> 2 ^ 31"
    using assms by (auto simp: k_def)
  have "of_nat t - of_nat t0 = (word_of_int (- int k) :: u32)"
    by (simp add: k(1))
  then have "uint (of_nat t - of_nat t0 :: u32) = (- int k) mod 2 ^ 32"
    by (simp only: uint_word_of_int_eq take_bit_eq_mod) simp
  also have "\<dots> = 2 ^ 32 - int k"
    using k(2,3) by (simp add: zmod_zminus1_eq_if)
  finally have "unat (of_nat t - of_nat t0 :: u32) = 2 ^ 32 - k"
    by (simp add: unat_eq_nat_uint nat_diff_distrib)
  moreover have "\<not> 2 ^ 32 - k < (2 ^ 31 :: nat)"
    using k(3) by simp
  ultimately show ?thesis by (simp only: el_law) simp
qed

lemma elapsed_mono:
  assumes "el now since rel" "unat rel' \<le> unat rel"
  shows "el now since rel'"
  using assms by (auto simp: el_law)

lemma elapsed_zero_self: "el now now 0"
  by (simp add: el_law)

end

end
