(* ===== verification/Room_Types.thy ===== *)
theory Room_Types
  imports Prelude
begin

text \<open>
  The shared enumerations of \<open>Common/Inc/room_sensor_types.h\<close>. Each C enumeration is a
  datatype with the constructors in the order of the source; the numeric value of a
  constructor is its position, which the telemetry and command replies print.
\<close>

datatype RoomSensor_Status =
    ROOM_SENSOR_OK | ROOM_SENSOR_ERROR | ROOM_SENSOR_TIMEOUT | ROOM_SENSOR_BUSY
  | ROOM_SENSOR_NOT_FOUND

datatype DeviceState =
    DEVICE_STATE_UNKNOWN | DEVICE_STATE_NOT_FOUND | DEVICE_STATE_PROBING
  | DEVICE_STATE_INITIALIZING | DEVICE_STATE_STARTING | DEVICE_STATE_WAITING
  | DEVICE_STATE_READY | DEVICE_STATE_ERROR | DEVICE_STATE_RECOVERING

datatype DriverStatus =
    DRIVER_STATUS_OK | DRIVER_STATUS_INVALID_ARG | DRIVER_STATUS_BUS_ERROR
  | DRIVER_STATUS_TIMEOUT | DRIVER_STATUS_NOT_FOUND | DRIVER_STATUS_VERIFY_ERROR
  | DRIVER_STATUS_NOT_READY | DRIVER_STATUS_CRC_ERROR | DRIVER_STATUS_NOT_SUPPORTED
  | DRIVER_STATUS_DEVICE_ERROR

datatype LifecycleState =
    LIFECYCLE_POWER_ON | LIFECYCLE_BOOT | LIFECYCLE_PLATFORM_INIT
  | LIFECYCLE_LOAD_CONFIGURATION | LIFECYCLE_LOAD_IDENTITY | LIFECYCLE_CREATE_BOOT_SESSION
  | LIFECYCLE_SELF_TEST | LIFECYCLE_PROBE_PERIPHERALS | LIFECYCLE_INITIALIZE_DRIVERS
  | LIFECYCLE_RESTORE_RUNTIME | LIFECYCLE_READY | LIFECYCLE_OPERATIONAL
  | LIFECYCLE_DEGRADED | LIFECYCLE_SAFE_MODE

datatype BarometerProvider =
    BAROMETER_PROVIDER_NONE | BAROMETER_PROVIDER_BMP390 | BAROMETER_PROVIDER_BMP380

datatype EnvironmentProvider =
    ENVIRONMENT_PROVIDER_NONE | ENVIRONMENT_PROVIDER_SHT45 | ENVIRONMENT_PROVIDER_SCD41

datatype SystemHealthState =
    SYSTEM_HEALTH_BOOTING | SYSTEM_HEALTH_OK | SYSTEM_HEALTH_DEGRADED | SYSTEM_HEALTH_FAULT

definition CONSECUTIVE_ERROR_THRESHOLD :: u32 where "CONSECUTIVE_ERROR_THRESHOLD = 3"

section \<open>The order of the boot phases\<close>

definition lifecycle_states :: "LifecycleState list" where
  "lifecycle_states =
     [LIFECYCLE_POWER_ON, LIFECYCLE_BOOT, LIFECYCLE_PLATFORM_INIT,
      LIFECYCLE_LOAD_CONFIGURATION, LIFECYCLE_LOAD_IDENTITY, LIFECYCLE_CREATE_BOOT_SESSION,
      LIFECYCLE_SELF_TEST, LIFECYCLE_PROBE_PERIPHERALS, LIFECYCLE_INITIALIZE_DRIVERS,
      LIFECYCLE_RESTORE_RUNTIME, LIFECYCLE_READY, LIFECYCLE_OPERATIONAL,
      LIFECYCLE_DEGRADED, LIFECYCLE_SAFE_MODE]"

text \<open>The numeric value of the enumeration, the \<open>(unsigned)state\<close> of the source.\<close>

fun lifecycle_index :: "LifecycleState \<Rightarrow> nat" where
  "lifecycle_index LIFECYCLE_POWER_ON = 0"
| "lifecycle_index LIFECYCLE_BOOT = 1"
| "lifecycle_index LIFECYCLE_PLATFORM_INIT = 2"
| "lifecycle_index LIFECYCLE_LOAD_CONFIGURATION = 3"
| "lifecycle_index LIFECYCLE_LOAD_IDENTITY = 4"
| "lifecycle_index LIFECYCLE_CREATE_BOOT_SESSION = 5"
| "lifecycle_index LIFECYCLE_SELF_TEST = 6"
| "lifecycle_index LIFECYCLE_PROBE_PERIPHERALS = 7"
| "lifecycle_index LIFECYCLE_INITIALIZE_DRIVERS = 8"
| "lifecycle_index LIFECYCLE_RESTORE_RUNTIME = 9"
| "lifecycle_index LIFECYCLE_READY = 10"
| "lifecycle_index LIFECYCLE_OPERATIONAL = 11"
| "lifecycle_index LIFECYCLE_DEGRADED = 12"
| "lifecycle_index LIFECYCLE_SAFE_MODE = 13"

lemma lifecycle_index_nth: "lifecycle_states ! lifecycle_index s = s"
  by (cases s) (simp_all add: lifecycle_states_def)

lemma lifecycle_index_inj: "lifecycle_index a = lifecycle_index b \<longleftrightarrow> a = b"
  by (metis lifecycle_index_nth)

instantiation LifecycleState :: linorder
begin

definition less_eq_LifecycleState :: "LifecycleState \<Rightarrow> LifecycleState \<Rightarrow> bool" where
  "less_eq_LifecycleState a b = (lifecycle_index a \<le> lifecycle_index b)"

definition less_LifecycleState :: "LifecycleState \<Rightarrow> LifecycleState \<Rightarrow> bool" where
  "less_LifecycleState a b = (lifecycle_index a < lifecycle_index b)"

instance
  by standard
    (auto simp: less_eq_LifecycleState_def less_LifecycleState_def lifecycle_index_inj)

end

lemmas lifecycle_order = less_eq_LifecycleState_def less_LifecycleState_def

section \<open>Driver bookkeeping\<close>

record DeviceRuntime =
  dr_state :: DeviceState
  dr_init_attempts :: u32
  dr_init_failures :: u32
  dr_operation_successes :: u32
  dr_operation_failures :: u32
  dr_recovery_count :: u32
  dr_consecutive_errors :: u32
  dr_last_success_ms :: u32
  dr_last_failure_ms :: u32

end
