(* ===== verification/Lifecycle.thy ===== *)
theory Lifecycle
  imports Room_Types
begin

text \<open>
  \<open>Device/Src/device_lifecycle.c\<close> and \<open>Device/Src/boot_session.c\<close>. The static
  variables of the file are the record \<open>lifecycle\<close>; the lines that
  \<open>LogTransition\<close> prints are kept in \<open>lc_log\<close>, newest first, as the triple
  (from, to, milliseconds in the old state).
\<close>

section \<open>The transition table\<close>

definition s_edges :: "(LifecycleState \<times> LifecycleState) list" where
  "s_edges =
     [(LIFECYCLE_POWER_ON, LIFECYCLE_BOOT),
      (LIFECYCLE_BOOT, LIFECYCLE_LOAD_CONFIGURATION),
      (LIFECYCLE_LOAD_CONFIGURATION, LIFECYCLE_LOAD_IDENTITY),
      (LIFECYCLE_LOAD_IDENTITY, LIFECYCLE_CREATE_BOOT_SESSION),
      (LIFECYCLE_CREATE_BOOT_SESSION, LIFECYCLE_SELF_TEST),
      (LIFECYCLE_SELF_TEST, LIFECYCLE_PROBE_PERIPHERALS),
      (LIFECYCLE_PROBE_PERIPHERALS, LIFECYCLE_INITIALIZE_DRIVERS),
      (LIFECYCLE_INITIALIZE_DRIVERS, LIFECYCLE_READY),
      (LIFECYCLE_READY, LIFECYCLE_OPERATIONAL),
      (LIFECYCLE_OPERATIONAL, LIFECYCLE_DEGRADED),
      (LIFECYCLE_DEGRADED, LIFECYCLE_OPERATIONAL),
      (LIFECYCLE_OPERATIONAL, LIFECYCLE_SAFE_MODE),
      (LIFECYCLE_DEGRADED, LIFECYCLE_SAFE_MODE),
      (LIFECYCLE_SAFE_MODE, LIFECYCLE_OPERATIONAL),
      (LIFECYCLE_SAFE_MODE, LIFECYCLE_DEGRADED)]"

definition StateStrTable :: "string list" where
  "StateStrTable =
     [''POWER_ON'', ''BOOT'', ''PLATFORM_INIT'', ''LOAD_CONFIG'',
      ''LOAD_IDENTITY'', ''BOOT_SESSION'', ''SELF_TEST'', ''PROBE'',
      ''INIT_DRIVERS'', ''RESTORE'', ''READY'', ''OPERATIONAL'',
      ''DEGRADED'', ''SAFE_MODE'']"

definition DeviceLifecycle_StateStr :: "LifecycleState \<Rightarrow> string" where
  "DeviceLifecycle_StateStr st =
     (let idx = lifecycle_index st
      in if idx \<ge> length StateStrTable then ''?'' else StateStrTable ! idx)"

record lifecycle =
  lc_state :: LifecycleState
  lc_last_transition_ms :: u32
  lc_log :: "(string \<times> string \<times> u32) list"

definition LogTransition ::
  "u32 \<Rightarrow> LifecycleState \<Rightarrow> LifecycleState \<Rightarrow> lifecycle \<Rightarrow> lifecycle" where
  "LogTransition now from to lc =
     lc\<lparr>lc_log := (DeviceLifecycle_StateStr from, DeviceLifecycle_StateStr to,
                   now - lc_last_transition_ms lc) # lc_log lc,
        lc_last_transition_ms := now\<rparr>"

definition DeviceLifecycle_Init :: "u32 \<Rightarrow> LifecycleState \<Rightarrow> lifecycle" where
  "DeviceLifecycle_Init now initial =
     \<lparr>lc_state = initial, lc_last_transition_ms = now, lc_log = []\<rparr>"

definition DeviceLifecycle_GetState :: "lifecycle \<Rightarrow> LifecycleState" where
  "DeviceLifecycle_GetState lc = lc_state lc"

definition DeviceLifecycle_CanTransition :: "LifecycleState \<Rightarrow> LifecycleState \<Rightarrow> bool" where
  "DeviceLifecycle_CanTransition from to =
     (if from = to then True else list_ex (\<lambda>(f, t). f = from \<and> t = to) s_edges)"

definition DeviceLifecycle_TransitionTo ::
  "u32 \<Rightarrow> LifecycleState \<Rightarrow> lifecycle \<Rightarrow> bool \<times> lifecycle" where
  "DeviceLifecycle_TransitionTo now nxt lc =
     (if nxt = lc_state lc then (True, lc)
      else if \<not> DeviceLifecycle_CanTransition (lc_state lc) nxt then (False, lc)
      else (True, (LogTransition now (lc_state lc) nxt lc)\<lparr>lc_state := nxt\<rparr>))"

definition DeviceLifecycle_IsOperational :: "lifecycle \<Rightarrow> bool" where
  "DeviceLifecycle_IsOperational lc =
     (lc_state lc = LIFECYCLE_OPERATIONAL \<or> lc_state lc = LIFECYCLE_DEGRADED)"

section \<open>Boot session\<close>

text \<open>
  \<open>create\<close> stands for \<open>Platform_CreateBootId\<close>, which draws an identifier from the
  hardware: a function of the platform's state that returns the next one.
\<close>

record boot_session =
  bs_boot_id :: u64
  bs_initialized :: bool

definition BootSession_Get ::
  "('p \<Rightarrow> u64 \<times> 'p) \<Rightarrow> boot_session \<Rightarrow> 'p \<Rightarrow> u64 \<times> boot_session \<times> 'p" where
  "BootSession_Get create bs p =
     (if \<not> bs_initialized bs
      then let (i, p') = create p; bs' = bs\<lparr>bs_boot_id := i, bs_initialized := True\<rparr>
           in (bs_boot_id bs', bs', p')
      else (bs_boot_id bs, bs, p))"

section \<open>Runs of the state machine\<close>

inductive lifecycle_step :: "lifecycle \<Rightarrow> lifecycle \<Rightarrow> bool" where
  transition: "DeviceLifecycle_TransitionTo now nxt lc = (ok, lc') \<Longrightarrow> lifecycle_step lc lc'"

inductive_cases lifecycle_stepE: "lifecycle_step lc lc'"

inductive lifecycle_reach :: "lifecycle \<Rightarrow> lifecycle \<Rightarrow> bool" where
  refl: "lifecycle_reach lc lc"
| step: "lifecycle_reach lc lc' \<Longrightarrow> lifecycle_step lc' lc'' \<Longrightarrow> lifecycle_reach lc lc''"

text \<open>The phases that follow the boot sequence.\<close>

definition running_phase :: "LifecycleState \<Rightarrow> bool" where
  "running_phase s \<longleftrightarrow>
     s = LIFECYCLE_OPERATIONAL \<or> s = LIFECYCLE_DEGRADED \<or> s = LIFECYCLE_SAFE_MODE"

lemma can_transition_iff:
  "DeviceLifecycle_CanTransition a b \<longleftrightarrow> a = b \<or> (a, b) \<in> set s_edges"
  by (auto simp: DeviceLifecycle_CanTransition_def list_ex_iff)

lemma running_phase_iff: "running_phase s \<longleftrightarrow> LIFECYCLE_OPERATIONAL \<le> s"
  by (cases s) (auto simp: running_phase_def lifecycle_order)

lemma edge_forward_or_running:
  "(a, b) \<in> set s_edges \<Longrightarrow> (a < b \<and> \<not> running_phase a) \<or> (running_phase a \<and> running_phase b)"
  by (auto simp: s_edges_def lifecycle_order running_phase_def)

lemma edge_target:
  "(a, b) \<in> set s_edges \<Longrightarrow>
     b \<noteq> LIFECYCLE_PLATFORM_INIT \<and> b \<noteq> LIFECYCLE_RESTORE_RUNTIME \<and> b \<noteq> LIFECYCLE_POWER_ON"
  by (auto simp: s_edges_def)

lemma edge_into_operational:
  "(a, LIFECYCLE_OPERATIONAL) \<in> set s_edges \<Longrightarrow> a = LIFECYCLE_READY \<or> running_phase a"
  by (auto simp: s_edges_def running_phase_def)

lemma transition_cases:
  assumes "DeviceLifecycle_TransitionTo now nxt lc = (ok, lc')"
  obtains "lc' = lc" "ok \<longleftrightarrow> nxt = lc_state lc"
  | "(lc_state lc, nxt) \<in> set s_edges" "nxt \<noteq> lc_state lc" "ok" "lc_state lc' = nxt"
    "lc_last_transition_ms lc' = now"
    "lc_log lc' = (DeviceLifecycle_StateStr (lc_state lc), DeviceLifecycle_StateStr nxt,
        now - lc_last_transition_ms lc) # lc_log lc"
  using assms
  by (auto simp: DeviceLifecycle_TransitionTo_def can_transition_iff LogTransition_def
      split: if_splits)

lemma step_state:
  "lifecycle_step lc lc' \<Longrightarrow> lc_state lc' = lc_state lc \<or> (lc_state lc, lc_state lc') \<in> set s_edges"
  by (auto elim!: lifecycle_stepE elim: transition_cases)

lemma reach_monotone:
  assumes "lifecycle_reach lc lc'"
  shows "lc_state lc \<le> lc_state lc' \<or> (running_phase (lc_state lc) \<and> running_phase (lc_state lc'))"
  using assms
proof induction
  case (step lc lc' lc'')
  consider "lc_state lc'' = lc_state lc'" | "(lc_state lc', lc_state lc'') \<in> set s_edges"
    using step_state[OF step.hyps(2)] by auto
  then show ?case
  proof cases
    case 2
    from edge_forward_or_running[OF this] step.IH show ?thesis
      unfolding running_phase_iff by (metis linear order.strict_implies_order order.trans)
  qed (use step.IH in simp)
qed simp

lemma reach_phase_invariant:
  assumes "lifecycle_reach lc lc'"
    "lc_state lc \<noteq> LIFECYCLE_PLATFORM_INIT" "lc_state lc \<noteq> LIFECYCLE_RESTORE_RUNTIME"
  shows "lc_state lc' \<noteq> LIFECYCLE_PLATFORM_INIT \<and> lc_state lc' \<noteq> LIFECYCLE_RESTORE_RUNTIME"
  using assms by induction (auto dest!: step_state edge_target)

section \<open>Properties\<close>

text \<open>
  The boot sequence never runs backwards: along any sequence of
  \<open>DeviceLifecycle_TransitionTo\<close> calls the phase only advances in the order of the
  enumeration until the device runs, and once it is operational, degraded or in safe mode it
  never returns to a boot phase.
\<close>

theorem lifecycle_never_regresses:
  assumes "lifecycle_reach lc lc'"
  shows "(running_phase (lc_state lc) \<longrightarrow> running_phase (lc_state lc')) \<and>
    (\<not> running_phase (lc_state lc') \<longrightarrow> lc_state lc \<le> lc_state lc')"
  using reach_monotone[OF assms] by (auto simp: running_phase_iff)

text \<open>A boot up to the operational phase, and the degraded phase after it.\<close>

definition boot_trace :: "LifecycleState list" where
  "boot_trace =
     [LIFECYCLE_BOOT, LIFECYCLE_LOAD_CONFIGURATION, LIFECYCLE_LOAD_IDENTITY,
      LIFECYCLE_CREATE_BOOT_SESSION, LIFECYCLE_SELF_TEST, LIFECYCLE_PROBE_PERIPHERALS,
      LIFECYCLE_INITIALIZE_DRIVERS, LIFECYCLE_READY, LIFECYCLE_OPERATIONAL, LIFECYCLE_DEGRADED]"

fun lifecycle_run :: "LifecycleState list \<Rightarrow> lifecycle \<Rightarrow> lifecycle" where
  "lifecycle_run [] lc = lc"
| "lifecycle_run (s # ss) lc = lifecycle_run ss (snd (DeviceLifecycle_TransitionTo 0 s lc))"

lemma lifecycle_reach_trans:
  "lifecycle_reach b c \<Longrightarrow> lifecycle_reach a b \<Longrightarrow> lifecycle_reach a c"
  by (induction rule: lifecycle_reach.induct) (auto intro: lifecycle_reach.intros)

lemma lifecycle_run_reach: "lifecycle_reach lc (lifecycle_run ss lc)"
proof (induction ss arbitrary: lc)
  case (Cons s ss)
  have "lifecycle_step lc (snd (DeviceLifecycle_TransitionTo 0 s lc))"
    by (rule lifecycle_step.intros[OF prod.collapse[symmetric]])
  then have "lifecycle_reach lc (snd (DeviceLifecycle_TransitionTo 0 s lc))"
    by (blast intro: lifecycle_reach.intros)
  with Cons show ?case by (auto intro: lifecycle_reach_trans)
qed (simp add: lifecycle_reach.refl)

lemma lifecycle_never_regresses_witness:
  "let lc = DeviceLifecycle_Init 0 LIFECYCLE_OPERATIONAL;
       lc' = lifecycle_run [LIFECYCLE_DEGRADED, LIFECYCLE_BOOT] lc
   in lc_state lc' = LIFECYCLE_DEGRADED \<and> running_phase (lc_state lc')"
proof -
  let ?lc = "DeviceLifecycle_Init 0 LIFECYCLE_OPERATIONAL"
  have "running_phase (lc_state ?lc)"
    by (simp add: DeviceLifecycle_Init_def running_phase_def)
  then have "running_phase (lc_state (lifecycle_run [LIFECYCLE_DEGRADED, LIFECYCLE_BOOT] ?lc))"
    using lifecycle_never_regresses[OF lifecycle_run_reach] by blast
  then show ?thesis
    by (simp add: DeviceLifecycle_Init_def DeviceLifecycle_TransitionTo_def
        DeviceLifecycle_CanTransition_def s_edges_def LogTransition_def)
qed

lemma boot_trace_operational:
  "lc_state (lifecycle_run boot_trace (DeviceLifecycle_Init 0 LIFECYCLE_POWER_ON)) =
     LIFECYCLE_DEGRADED"
  by (simp add: boot_trace_def DeviceLifecycle_Init_def DeviceLifecycle_TransitionTo_def
      DeviceLifecycle_CanTransition_def s_edges_def LogTransition_def)

end
