(* ===== verification/Recovery_Policy.thy ===== *)
theory Recovery_Policy
  imports Room_Types
begin

text \<open>
  \<open>Platform/Inc/recovery_policy.h\<close>: the classification of driver failures, the bounded
  re-probe ladder of absent devices and the wrap-safe interval checks that the bus monitor
  and the sensor runtimes share.
\<close>

definition RECOVERY_BACKOFF_LEVEL0_MS :: u32 where "RECOVERY_BACKOFF_LEVEL0_MS = 5000"
definition RECOVERY_BACKOFF_LEVEL1_MS :: u32 where "RECOVERY_BACKOFF_LEVEL1_MS = 10000"
definition RECOVERY_BACKOFF_LEVEL2_MS :: u32 where "RECOVERY_BACKOFF_LEVEL2_MS = 30000"
definition RECOVERY_BACKOFF_LEVEL3_MS :: u32 where "RECOVERY_BACKOFF_LEVEL3_MS = 60000"
definition RECOVERY_BUS_WINDOW_MS :: u32 where "RECOVERY_BUS_WINDOW_MS = 10000"
definition RECOVERY_BUS_EVIDENCE_MIN :: u32 where "RECOVERY_BUS_EVIDENCE_MIN = 2"
definition RECOVERY_BUS_COOLDOWN_MS :: u32 where "RECOVERY_BUS_COOLDOWN_MS = 60000"

lemmas recovery_constants =
  RECOVERY_BACKOFF_LEVEL0_MS_def RECOVERY_BACKOFF_LEVEL1_MS_def RECOVERY_BACKOFF_LEVEL2_MS_def
  RECOVERY_BACKOFF_LEVEL3_MS_def RECOVERY_BUS_WINDOW_MS_def RECOVERY_BUS_EVIDENCE_MIN_def
  RECOVERY_BUS_COOLDOWN_MS_def

datatype RecoveryFailClass =
    FAIL_CLASS_DEVICE_LOCAL | FAIL_CLASS_TRANSPORT | FAIL_CLASS_DATA | FAIL_CLASS_ABSENT

definition RecoveryPolicy_Classify :: "DriverStatus \<Rightarrow> RecoveryFailClass" where
  "RecoveryPolicy_Classify status =
     (case status of
        DRIVER_STATUS_NOT_FOUND \<Rightarrow> FAIL_CLASS_ABSENT
      | DRIVER_STATUS_BUS_ERROR \<Rightarrow> FAIL_CLASS_TRANSPORT
      | DRIVER_STATUS_TIMEOUT \<Rightarrow> FAIL_CLASS_TRANSPORT
      | DRIVER_STATUS_CRC_ERROR \<Rightarrow> FAIL_CLASS_DATA
      | DRIVER_STATUS_VERIFY_ERROR \<Rightarrow> FAIL_CLASS_DATA
      | DRIVER_STATUS_DEVICE_ERROR \<Rightarrow> FAIL_CLASS_DEVICE_LOCAL
      | _ \<Rightarrow> FAIL_CLASS_DEVICE_LOCAL)"

definition RecoveryPolicy_BackoffMs :: "u32 \<Rightarrow> u32" where
  "RecoveryPolicy_BackoffMs consecutive_absent =
     (if consecutive_absent \<ge> 3 then RECOVERY_BACKOFF_LEVEL3_MS
      else if consecutive_absent = 2 then RECOVERY_BACKOFF_LEVEL2_MS
      else if consecutive_absent = 1 then RECOVERY_BACKOFF_LEVEL1_MS
      else RECOVERY_BACKOFF_LEVEL0_MS)"

definition RecoveryPolicy_TrackAbsence :: "u32 \<Rightarrow> bool \<Rightarrow> u32" where
  "RecoveryPolicy_TrackAbsence consecutive_absent absent =
     (if absent then consecutive_absent + 1 else 0)"

definition RecoveryPolicy_Elapsed :: "u32 \<Rightarrow> u32 \<Rightarrow> u32 \<Rightarrow> bool" where
  "RecoveryPolicy_Elapsed now since window_ms =
     (let delta = now - since in delta < 0x80000000 \<and> delta \<ge> window_ms)"

definition RecoveryPolicy_WindowWithin :: "u32 \<Rightarrow> u32 \<Rightarrow> u32 \<Rightarrow> bool" where
  "RecoveryPolicy_WindowWithin now t window_ms =
     (let delta = now - t in delta < 0x80000000 \<and> delta < window_ms)"

section \<open>The interval check is a wrap-safe timer\<close>

lemma elapsed_unat:
  "RecoveryPolicy_Elapsed now since rel \<longleftrightarrow>
     unat (now - since) < 2 ^ 31 \<and> unat rel \<le> unat (now - since)"
  by (simp add: RecoveryPolicy_Elapsed_def Let_def word_less_nat_alt word_le_nat_alt)

interpretation policy_timer: wrap_timer RecoveryPolicy_Elapsed
  by unfold_locales (rule elapsed_unat)

lemma transport_class_iff:
  "RecoveryPolicy_Classify s = FAIL_CLASS_TRANSPORT \<longleftrightarrow>
     s = DRIVER_STATUS_BUS_ERROR \<or> s = DRIVER_STATUS_TIMEOUT"
  by (cases s) (simp_all add: RecoveryPolicy_Classify_def)

lemma within_self: "0 < w \<Longrightarrow> RecoveryPolicy_WindowWithin now now w"
  by (simp add: RecoveryPolicy_WindowWithin_def)

lemma backoff_bounds:
  "RECOVERY_BACKOFF_LEVEL0_MS \<le> RecoveryPolicy_BackoffMs n \<and>
   RecoveryPolicy_BackoffMs n \<le> RECOVERY_BACKOFF_LEVEL3_MS"
  by (simp add: RecoveryPolicy_BackoffMs_def recovery_constants)

section \<open>Properties\<close>

text \<open>
  The re-probe ladder of an absent device never shrinks while the device stays
  absent and never leaves the interval from 5 to 60 seconds.
\<close>

theorem backoff_ladder_monotone:
  assumes "m \<le> n"
  shows "RecoveryPolicy_BackoffMs m \<le> RecoveryPolicy_BackoffMs n \<and>
    5000 \<le> RecoveryPolicy_BackoffMs m \<and> RecoveryPolicy_BackoffMs n \<le> 60000"
proof -
  have "unat m \<le> unat n"
    using assms by (simp add: word_le_nat_alt)
  then show ?thesis
    unfolding RecoveryPolicy_BackoffMs_def recovery_constants
    by (auto simp: word_le_nat_alt word_unat_eq_iff)
qed

lemma backoff_ladder_monotone_witness:
  "RecoveryPolicy_BackoffMs 1 \<le> RecoveryPolicy_BackoffMs 7 \<and> RecoveryPolicy_BackoffMs 7 \<le> 60000"
  using backoff_ladder_monotone[of 1 7] by simp

end
