(* ===== verification/Bus_Health.thy ===== *)
theory Bus_Health
  imports Recovery_Policy
begin

text \<open>
  \<open>Platform/Inc/i2c_bus_health.h\<close>: the monitor that decides when a shared-bus failure
  warrants a recovery. The three arrays of eight slots are lists; a slot argument is the
  \<open>uint8_t\<close> of the source, and an argument of eight or more does nothing.
\<close>

datatype I2cBusHealthState = I2C_BUS_HEALTH_OK | I2C_BUS_HEALTH_RECOVERING

record I2cBusHealth =
  bh_transport_evidence :: u32
  bh_last_transport_ms :: "u32 list"
  bh_window_open_ms :: u32
  bh_window_open :: bool
  bh_never_present :: "bool list"
  bh_previously_healthy :: "bool list"
  bh_recovery_attempts :: u32
  bh_recovery_successes :: u32
  bh_recovery_failures :: u32
  bh_last_recovery_ms :: u32
  bh_ever_recovered :: bool
  bh_state :: I2cBusHealthState

definition I2cBusHealth_Init :: I2cBusHealth where
  "I2cBusHealth_Init =
     \<lparr>bh_transport_evidence = 0, bh_last_transport_ms = replicate 8 0,
      bh_window_open_ms = 0, bh_window_open = False,
      bh_never_present = replicate 8 True, bh_previously_healthy = replicate 8 False,
      bh_recovery_attempts = 0, bh_recovery_successes = 0, bh_recovery_failures = 0,
      bh_last_recovery_ms = 0, bh_ever_recovered = False, bh_state = I2C_BUS_HEALTH_OK\<rparr>"

definition I2cBusHealth_SetDeviceKnown :: "I2cBusHealth \<Rightarrow> u8 \<Rightarrow> bool \<Rightarrow> I2cBusHealth" where
  "I2cBusHealth_SetDeviceKnown h slot ever_present =
     (if slot \<ge> 8 then h
      else if ever_present
      then h\<lparr>bh_never_present := (bh_never_present h)[unat slot := False],
             bh_previously_healthy := (bh_previously_healthy h)[unat slot := True]\<rparr>
      else if \<not> bh_previously_healthy h ! unat slot
      then h\<lparr>bh_never_present := (bh_never_present h)[unat slot := True]\<rparr>
      else h)"

definition I2cBusHealth_MarkHealth :: "I2cBusHealth \<Rightarrow> u8 \<Rightarrow> bool \<Rightarrow> I2cBusHealth" where
  "I2cBusHealth_MarkHealth h slot observed =
     (if slot \<ge> 8 then h
      else if observed
      then h\<lparr>bh_never_present := (bh_never_present h)[unat slot := False],
             bh_previously_healthy := (bh_previously_healthy h)[unat slot := True]\<rparr>
      else h)"

definition I2cBusHealth_ShouldRecover :: "I2cBusHealth \<Rightarrow> bool" where
  "I2cBusHealth_ShouldRecover h = (bh_state h = I2C_BUS_HEALTH_RECOVERING)"

definition I2cBusHealth_RecoveryEligible :: "I2cBusHealth \<Rightarrow> u32 \<Rightarrow> bool" where
  "I2cBusHealth_RecoveryEligible h now =
     (if bh_state h \<noteq> I2C_BUS_HEALTH_RECOVERING then False
      else if bh_transport_evidence h < RECOVERY_BUS_EVIDENCE_MIN then False
      else if \<not> bh_ever_recovered h then True
      else RecoveryPolicy_Elapsed now (bh_last_recovery_ms h) RECOVERY_BUS_COOLDOWN_MS)"

text \<open>A slot's record is evidence while it is set and inside the window; older ones are dropped.\<close>

definition slot_evidence :: "u32 \<Rightarrow> u32 \<Rightarrow> bool" where
  "slot_evidence now t = (t \<noteq> 0 \<and> RecoveryPolicy_WindowWithin now t RECOVERY_BUS_WINDOW_MS)"

definition I2cBusHealth_CountWithinWindow :: "I2cBusHealth \<Rightarrow> u32 \<Rightarrow> u32 \<times> I2cBusHealth" where
  "I2cBusHealth_CountWithinWindow h now =
     (let ts = bh_last_transport_ms h;
          count = of_nat (length (filter (slot_evidence now) ts))
      in (count,
          h\<lparr>bh_last_transport_ms := map (\<lambda>t. if slot_evidence now t then t else 0) ts,
            bh_transport_evidence := count\<rparr>))"

definition I2cBusHealth_Report ::
  "I2cBusHealth \<Rightarrow> u8 \<Rightarrow> DriverStatus \<Rightarrow> u32 \<Rightarrow> bool \<times> I2cBusHealth" where
  "I2cBusHealth_Report h slot status now =
     (if slot \<ge> 8 then (False, h)
      else let cls = RecoveryPolicy_Classify status in
      if cls = FAIL_CLASS_ABSENT then (False, h)
      else if cls = FAIL_CLASS_DEVICE_LOCAL \<or> cls = FAIL_CLASS_DATA then (False, h)
      else if cls = FAIL_CLASS_TRANSPORT
      then if \<not> bh_previously_healthy h ! unat slot then (False, h)
           else let
             h1 = h\<lparr>bh_last_transport_ms := (bh_last_transport_ms h)[unat slot := now]\<rparr>;
             h2 = (if \<not> bh_window_open h1
                   then h1\<lparr>bh_window_open := True, bh_window_open_ms := now\<rparr> else h1);
             h3 = (if RecoveryPolicy_Elapsed now (bh_window_open_ms h2) RECOVERY_BUS_WINDOW_MS
                   then snd (I2cBusHealth_CountWithinWindow (h2\<lparr>bh_window_open_ms := now\<rparr>) now)
                   else h2);
             (n, h4) = I2cBusHealth_CountWithinWindow h3 now;
             h5 = h4\<lparr>bh_transport_evidence := n\<rparr>;
             h6 = (if bh_transport_evidence h5 \<ge> RECOVERY_BUS_EVIDENCE_MIN
                   then h5\<lparr>bh_state := I2C_BUS_HEALTH_RECOVERING\<rparr> else h5)
           in (I2cBusHealth_RecoveryEligible h6 now, h6)
      else (I2cBusHealth_RecoveryEligible h now, h))"

definition I2cBusHealth_BeginRecovery :: "I2cBusHealth \<Rightarrow> u32 \<Rightarrow> I2cBusHealth" where
  "I2cBusHealth_BeginRecovery h now =
     h\<lparr>bh_recovery_attempts := bh_recovery_attempts h + 1,
       bh_ever_recovered := True,
       bh_last_recovery_ms := now,
       bh_state := I2C_BUS_HEALTH_OK,
       bh_window_open := False,
       bh_window_open_ms := 0,
       bh_transport_evidence := 0,
       bh_last_transport_ms := replicate 8 0\<rparr>"

definition I2cBusHealth_OnRecoverySuccess :: "I2cBusHealth \<Rightarrow> I2cBusHealth" where
  "I2cBusHealth_OnRecoverySuccess h = h\<lparr>bh_recovery_successes := bh_recovery_successes h + 1\<rparr>"

definition I2cBusHealth_OnRecoveryFailure :: "I2cBusHealth \<Rightarrow> I2cBusHealth" where
  "I2cBusHealth_OnRecoveryFailure h = h\<lparr>bh_recovery_failures := bh_recovery_failures h + 1\<rparr>"

definition I2cBusHealth_GetBusRecoveryCount :: "I2cBusHealth \<Rightarrow> u32" where
  "I2cBusHealth_GetBusRecoveryCount h = bh_recovery_successes h"

definition I2cBusHealth_GetBusRecoveryAttempts :: "I2cBusHealth \<Rightarrow> u32" where
  "I2cBusHealth_GetBusRecoveryAttempts h = bh_recovery_attempts h"

definition I2cBusHealth_GetBusRecoverySuccesses :: "I2cBusHealth \<Rightarrow> u32" where
  "I2cBusHealth_GetBusRecoverySuccesses h = bh_recovery_successes h"

definition I2cBusHealth_GetBusRecoveryFailures :: "I2cBusHealth \<Rightarrow> u32" where
  "I2cBusHealth_GetBusRecoveryFailures h = bh_recovery_failures h"

section \<open>The outcome of a report in one step\<close>

text \<open>
  Counting twice counts the same: a report of a transport failure of a healthy slot
  recounts the window once, whether or not the epoch was re-anchored.
\<close>

lemma count_idem:
  "filter (slot_evidence now) (map (\<lambda>t. if slot_evidence now t then t else 0) ts) =
     filter (slot_evidence now) ts"
  by (induction ts) (auto simp: slot_evidence_def)

lemma mask_idem:
  "map (\<lambda>t. if slot_evidence now t then t else 0) (map (\<lambda>t. if slot_evidence now t then t else 0) ts) =
     map (\<lambda>t. if slot_evidence now t then t else 0) ts"
  by (induction ts) (auto simp: slot_evidence_def)

definition recount :: "u32 \<Rightarrow> u32 list \<Rightarrow> u32" where
  "recount now ts = of_nat (length (filter (slot_evidence now) ts))"

lemma count_within_window [simp]:
  "I2cBusHealth_CountWithinWindow h now =
     (recount now (bh_last_transport_ms h),
      h\<lparr>bh_last_transport_ms := map (\<lambda>t. if slot_evidence now t then t else 0) (bh_last_transport_ms h),
        bh_transport_evidence := recount now (bh_last_transport_ms h)\<rparr>)"
  by (simp add: I2cBusHealth_CountWithinWindow_def recount_def Let_def)

lemma recount_mask:
  "recount now (map (\<lambda>t. if slot_evidence now t then t else 0) ts) = recount now ts"
  by (simp only: recount_def count_idem)

text \<open>The fields that matter after a report that is accepted as transport evidence.\<close>

lemma report_transport:
  assumes "slot < 8" "RecoveryPolicy_Classify status = FAIL_CLASS_TRANSPORT"
    "bh_previously_healthy h ! unat slot" "I2cBusHealth_Report h slot status now = (r, h')"
  defines "ts \<equiv> (bh_last_transport_ms h)[unat slot := now]"
  shows "bh_last_transport_ms h' = map (\<lambda>t. if slot_evidence now t then t else 0) ts"
    "bh_transport_evidence h' = recount now ts"
    "bh_state h' = (if recount now ts \<ge> 2 then I2C_BUS_HEALTH_RECOVERING else bh_state h)"
    "r = I2cBusHealth_RecoveryEligible h' now"
    "bh_never_present h' = bh_never_present h" "bh_previously_healthy h' = bh_previously_healthy h"
    "bh_recovery_attempts h' = bh_recovery_attempts h"
    "bh_recovery_successes h' = bh_recovery_successes h"
    "bh_recovery_failures h' = bh_recovery_failures h"
    "bh_last_recovery_ms h' = bh_last_recovery_ms h" "bh_ever_recovered h' = bh_ever_recovered h"
  using assms(4) assms(1-3)
  by (auto simp: I2cBusHealth_Report_def Let_def ts_def recount_mask mask_idem not_le
      RECOVERY_BUS_EVIDENCE_MIN_def simp del: map_map split: if_splits)

lemma report_ignored:
  assumes "\<not> slot < 8 \<or> RecoveryPolicy_Classify status \<noteq> FAIL_CLASS_TRANSPORT \<or>
    \<not> bh_previously_healthy h ! unat slot"
  shows "I2cBusHealth_Report h slot status now = (False, h)"
  using assms
  by (cases "RecoveryPolicy_Classify status")
    (auto simp: I2cBusHealth_Report_def Let_def not_le not_less)

section \<open>Well-formed monitors\<close>

text \<open>
  Eight slots; a slot is latched healthy exactly when it is not marked never present, and
  only a latched slot holds transport evidence.
\<close>

definition health_wf :: "I2cBusHealth \<Rightarrow> bool" where
  "health_wf h \<longleftrightarrow>
     length (bh_last_transport_ms h) = 8 \<and>
     length (bh_never_present h) = 8 \<and> length (bh_previously_healthy h) = 8 \<and>
     (\<forall>i<8. bh_never_present h ! i = (\<not> bh_previously_healthy h ! i)) \<and>
     (\<forall>i<8. bh_last_transport_ms h ! i \<noteq> 0 \<longrightarrow> bh_previously_healthy h ! i)"

lemma slot_bound [simp]: "slot < (8 :: u8) \<Longrightarrow> unat slot < 8"
  by (simp add: word_less_nat_alt)

lemma health_wf_init: "health_wf I2cBusHealth_Init"
  by (simp add: health_wf_def I2cBusHealth_Init_def)

lemma health_wf_known: "health_wf h \<Longrightarrow> health_wf (I2cBusHealth_SetDeviceKnown h slot b)"
  by (auto simp: health_wf_def I2cBusHealth_SetDeviceKnown_def nth_list_update not_le)

lemma health_wf_mark: "health_wf h \<Longrightarrow> health_wf (I2cBusHealth_MarkHealth h slot b)"
  by (auto simp: health_wf_def I2cBusHealth_MarkHealth_def nth_list_update not_le)

lemma health_wf_report:
  assumes "health_wf h" "I2cBusHealth_Report h slot status now = (r, h')"
  shows "health_wf h'"
proof (cases "slot < 8 \<and> RecoveryPolicy_Classify status = FAIL_CLASS_TRANSPORT \<and>
    bh_previously_healthy h ! unat slot")
  case True
  with report_transport[OF _ _ _ assms(2)] assms(1) show ?thesis
    by (auto simp: health_wf_def nth_list_update)
next
  case False
  with report_ignored assms show ?thesis by (metis prod.inject)
qed

lemma health_wf_begin: "health_wf h \<Longrightarrow> health_wf (I2cBusHealth_BeginRecovery h now)"
  by (simp add: health_wf_def I2cBusHealth_BeginRecovery_def)

lemma health_wf_done:
  "health_wf h \<Longrightarrow> health_wf (I2cBusHealth_OnRecoverySuccess h)"
  "health_wf h \<Longrightarrow> health_wf (I2cBusHealth_OnRecoveryFailure h)"
  by (simp_all add: health_wf_def I2cBusHealth_OnRecoverySuccess_def
      I2cBusHealth_OnRecoveryFailure_def)

lemmas health_wf_intros =
  health_wf_init health_wf_known health_wf_mark health_wf_begin health_wf_done

section \<open>The monitor in use\<close>

text \<open>
  The application reports results, latches health, and runs a recovery attempt as
  \<open>I2cBusHealth_BeginRecovery\<close>, the bus hook, and one of the two completions.
\<close>

definition recovery_attempt :: "I2cBusHealth \<Rightarrow> u32 \<Rightarrow> bool \<Rightarrow> I2cBusHealth" where
  "recovery_attempt h now ok =
     (let h1 = I2cBusHealth_BeginRecovery h now
      in if ok then I2cBusHealth_OnRecoverySuccess h1 else I2cBusHealth_OnRecoveryFailure h1)"

inductive monitor_reach :: "I2cBusHealth \<Rightarrow> bool" where
  init: "monitor_reach I2cBusHealth_Init"
| known: "monitor_reach h \<Longrightarrow> monitor_reach (I2cBusHealth_SetDeviceKnown h slot b)"
| mark: "monitor_reach h \<Longrightarrow> monitor_reach (I2cBusHealth_MarkHealth h slot b)"
| report: "monitor_reach h \<Longrightarrow> I2cBusHealth_Report h slot status now = (r, h') \<Longrightarrow> monitor_reach h'"
| attempt: "monitor_reach h \<Longrightarrow> monitor_reach (recovery_attempt h now ok)"

lemma monitor_reach_wf: "monitor_reach h \<Longrightarrow> health_wf h"
  by (induction rule: monitor_reach.induct)
    (auto simp: recovery_attempt_def Let_def intro: health_wf_intros health_wf_report)

lemma report_counters:
  assumes "I2cBusHealth_Report h slot status now = (r, h')"
  shows "bh_recovery_attempts h' = bh_recovery_attempts h \<and>
    bh_recovery_successes h' = bh_recovery_successes h \<and>
    bh_recovery_failures h' = bh_recovery_failures h \<and>
    bh_last_recovery_ms h' = bh_last_recovery_ms h \<and> bh_ever_recovered h' = bh_ever_recovered h"
proof (cases "slot < 8 \<and> RecoveryPolicy_Classify status = FAIL_CLASS_TRANSPORT \<and>
    bh_previously_healthy h ! unat slot")
  case True
  with report_transport[OF _ _ _ assms] show ?thesis by simp
next
  case False
  with report_ignored assms show ?thesis by (metis prod.inject)
qed

lemma latch_counters:
  "bh_recovery_attempts (I2cBusHealth_SetDeviceKnown h slot b) = bh_recovery_attempts h"
  "bh_recovery_successes (I2cBusHealth_SetDeviceKnown h slot b) = bh_recovery_successes h"
  "bh_recovery_failures (I2cBusHealth_SetDeviceKnown h slot b) = bh_recovery_failures h"
  "bh_recovery_attempts (I2cBusHealth_MarkHealth h slot b) = bh_recovery_attempts h"
  "bh_recovery_successes (I2cBusHealth_MarkHealth h slot b) = bh_recovery_successes h"
  "bh_recovery_failures (I2cBusHealth_MarkHealth h slot b) = bh_recovery_failures h"
  by (simp_all add: I2cBusHealth_SetDeviceKnown_def I2cBusHealth_MarkHealth_def)

lemma monitor_reach_counts:
  "monitor_reach h \<Longrightarrow>
     bh_recovery_attempts h = bh_recovery_successes h + bh_recovery_failures h"
proof (induction rule: monitor_reach.induct)
  case (report h slot status now r h')
  then show ?case using report_counters by metis
next
  case (attempt h now ok)
  then show ?case
    by (simp add: recovery_attempt_def Let_def I2cBusHealth_BeginRecovery_def
        I2cBusHealth_OnRecoverySuccess_def I2cBusHealth_OnRecoveryFailure_def algebra_simps)
qed (simp_all add: latch_counters I2cBusHealth_Init_def)

section \<open>Evidence\<close>

lemma two_evidence_slots:
  assumes "recount now ts \<ge> 2" "length ts = 8"
  obtains i j where "i < 8" "j < 8" "i \<noteq> j" "slot_evidence now (ts ! i)" "slot_evidence now (ts ! j)"
proof -
  let ?S = "{i. i < length ts \<and> slot_evidence now (ts ! i)}"
  have le: "length (filter (slot_evidence now) ts) \<le> 8"
    using assms(2) by (metis length_filter_le)
  then have "2 \<le> length (filter (slot_evidence now) ts)"
    using assms(1) by (simp add: recount_def word_le_nat_alt unat_of_nat take_bit_eq_mod)
  then have "2 \<le> card ?S" by (simp add: length_filter_conv_card)
  then obtain i j where "i \<in> ?S" "j \<in> ?S" "i \<noteq> j"
    by (auto simp: numeral_2_eq_2 card_le_Suc_iff)
  then show thesis using assms(2) that by auto
qed

lemma recount_two:
  assumes "length ts = 8" "i < 8" "j < 8" "i \<noteq> j"
    "slot_evidence now (ts ! i)" "slot_evidence now (ts ! j)"
  shows "recount now ts \<ge> 2"
proof -
  let ?S = "{i. i < length ts \<and> slot_evidence now (ts ! i)}"
  have "card {i, j} \<le> card ?S"
    using assms by (intro card_mono) auto
  then have "2 \<le> length (filter (slot_evidence now) ts)"
    using assms(4) by (simp add: length_filter_conv_card)
  moreover have "length (filter (slot_evidence now) ts) \<le> 8"
    using assms(1) by (metis length_filter_le)
  ultimately show ?thesis
    by (simp add: recount_def word_le_nat_alt unat_of_nat take_bit_eq_mod)
qed

lemma eligible_state:
  "I2cBusHealth_RecoveryEligible h now \<Longrightarrow>
     bh_state h = I2C_BUS_HEALTH_RECOVERING \<and> bh_transport_evidence h \<ge> 2 \<and>
     (bh_ever_recovered h \<longrightarrow>
        RecoveryPolicy_Elapsed now (bh_last_recovery_ms h) RECOVERY_BUS_COOLDOWN_MS)"
  by (auto simp: I2cBusHealth_RecoveryEligible_def RECOVERY_BUS_EVIDENCE_MIN_def not_less
      split: if_splits)

text \<open>What a positive report means for the monitor it leaves behind.\<close>

lemma positive_report:
  assumes "health_wf h" "I2cBusHealth_Report h slot status now = (True, h')"
  obtains i j where "i < 8" "j < 8" "i \<noteq> j"
    "bh_previously_healthy h' ! i" "bh_previously_healthy h' ! j"
    "slot_evidence now (bh_last_transport_ms h' ! i)"
    "slot_evidence now (bh_last_transport_ms h' ! j)"
    "bh_ever_recovered h \<longrightarrow>
       RecoveryPolicy_Elapsed now (bh_last_recovery_ms h) RECOVERY_BUS_COOLDOWN_MS"
proof -
  have acc: "slot < 8" "RecoveryPolicy_Classify status = FAIL_CLASS_TRANSPORT"
    "bh_previously_healthy h ! unat slot"
    using assms(2) report_ignored by (metis prod.inject)+
  note r = report_transport[OF acc assms(2)]
  have el: "I2cBusHealth_RecoveryEligible h' now" using r(4) by simp
  have wf': "health_wf h'" using assms by (rule health_wf_report)
  have ts: "bh_transport_evidence h' = recount now (bh_last_transport_ms h')"
    unfolding r(1,2) by (simp only: recount_mask)
  obtain i j where "i < 8" "j < 8" "i \<noteq> j"
    "slot_evidence now (bh_last_transport_ms h' ! i)"
    "slot_evidence now (bh_last_transport_ms h' ! j)"
    using two_evidence_slots[of now "bh_last_transport_ms h'"] eligible_state[OF el] ts wf'
    by (auto simp: health_wf_def)
  moreover from this wf' have "bh_previously_healthy h' ! i" "bh_previously_healthy h' ! j"
    by (auto simp: health_wf_def slot_evidence_def)
  ultimately show thesis
    using that eligible_state[OF el] report_counters[OF assms(2)] by metis
qed

section \<open>Runs of reports\<close>

fun report_run :: "(u8 \<times> DriverStatus \<times> u32) list \<Rightarrow> I2cBusHealth \<Rightarrow> bool list \<times> I2cBusHealth" where
  "report_run [] h = ([], h)"
| "report_run ((slot, status, now) # rs) h =
     (let (r, h1) = I2cBusHealth_Report h slot status now; (bs, h2) = report_run rs h1
      in (r # bs, h2))"

text \<open>No slot but \<open>k\<close> holds evidence, and no recovery is wanted.\<close>

definition only_slot :: "nat \<Rightarrow> I2cBusHealth \<Rightarrow> bool" where
  "only_slot k h \<longleftrightarrow> length (bh_last_transport_ms h) = 8 \<and> bh_state h = I2C_BUS_HEALTH_OK \<and>
     (\<forall>i<8. i \<noteq> k \<longrightarrow> bh_last_transport_ms h ! i = 0)"

lemma recount_single:
  assumes "length ts = 8" "\<And>i. i < 8 \<Longrightarrow> i \<noteq> k \<Longrightarrow> ts ! i = 0"
  shows "\<not> recount now ts \<ge> 2"
proof
  assume "recount now ts \<ge> 2"
  then obtain i j where "i < 8" "j < 8" "i \<noteq> j" "slot_evidence now (ts ! i)" "slot_evidence now (ts ! j)"
    using two_evidence_slots assms(1) by metis
  then show False using assms(2) by (metis slot_evidence_def)
qed

lemma only_slot_report:
  assumes "only_slot (unat slot) h" "I2cBusHealth_Report h slot status now = (r, h')"
  shows "\<not> r \<and> only_slot (unat slot) h'"
proof (cases "slot < 8 \<and> RecoveryPolicy_Classify status = FAIL_CLASS_TRANSPORT \<and>
    bh_previously_healthy h ! unat slot")
  case True
  define ts where "ts = (bh_last_transport_ms h)[unat slot := now]"
  have ts: "length ts = 8" "\<And>i. i < 8 \<Longrightarrow> i \<noteq> unat slot \<Longrightarrow> ts ! i = 0"
    using assms(1) by (auto simp: ts_def only_slot_def)
  note r = report_transport[OF _ _ _ assms(2), folded ts_def]
  have "bh_state h' = I2C_BUS_HEALTH_OK"
    using r(3) True recount_single[OF ts] assms(1) by (simp add: only_slot_def)
  then show ?thesis
    using r(1,4) True ts by (auto simp: only_slot_def I2cBusHealth_RecoveryEligible_def)
next
  case False
  with report_ignored assms show ?thesis by (metis prod.inject)
qed

lemma only_slot_run:
  "only_slot (unat slot) h \<Longrightarrow> (\<forall>(s, st, t) \<in> set rs. s = slot) \<Longrightarrow>
     True \<notin> set (fst (report_run rs h))"
proof (induction rs arbitrary: h)
  case (Cons x rs)
  obtain s st t where x: "x = (s, st, t)" by (cases x)
  obtain r h1 where rep: "I2cBusHealth_Report h s st t = (r, h1)" by (meson surj_pair)
  with Cons.prems x have "\<not> r" "only_slot (unat slot) h1"
    using only_slot_report[of slot h st t r h1] by auto
  moreover from this have "True \<notin> set (fst (report_run rs h1))"
    using Cons.IH[of h1] Cons.prems(2) by auto
  ultimately show ?case using x rep by (auto simp: Let_def split: prod.splits)
qed simp

lemma run_counters:
  "bh_ever_recovered (snd (report_run rs h)) = bh_ever_recovered h \<and>
   bh_last_recovery_ms (snd (report_run rs h)) = bh_last_recovery_ms h"
proof (induction rs arbitrary: h)
  case (Cons x rs)
  obtain s st t where x: "x = (s, st, t)" by (cases x)
  obtain r h1 where rep: "I2cBusHealth_Report h s st t = (r, h1)" by (meson surj_pair)
  from report_counters[OF rep] Cons[of h1] x rep show ?case by (auto simp: Let_def split: prod.splits)
qed simp

lemma report_cooldown:
  assumes "bh_ever_recovered h"
    "\<not> RecoveryPolicy_Elapsed now (bh_last_recovery_ms h) RECOVERY_BUS_COOLDOWN_MS"
  shows "\<not> fst (I2cBusHealth_Report h slot status now)"
proof
  obtain r h' where rep: "I2cBusHealth_Report h slot status now = (r, h')" by (meson surj_pair)
  assume "fst (I2cBusHealth_Report h slot status now)"
  with rep have t: "I2cBusHealth_Report h slot status now = (True, h')" by simp
  have acc: "slot < 8" "RecoveryPolicy_Classify status = FAIL_CLASS_TRANSPORT"
    "bh_previously_healthy h ! unat slot"
    using t report_ignored by (metis prod.inject)+
  have "I2cBusHealth_RecoveryEligible h' now"
    using report_transport(4)[OF acc t] by simp
  then show False
    using eligible_state report_counters[OF rep] assms by metis
qed

lemma run_cooldown:
  "bh_ever_recovered h \<Longrightarrow>
   (\<forall>(s, st, t) \<in> set rs.
      \<not> RecoveryPolicy_Elapsed t (bh_last_recovery_ms h) RECOVERY_BUS_COOLDOWN_MS) \<Longrightarrow>
   True \<notin> set (fst (report_run rs h))"
proof (induction rs arbitrary: h)
  case (Cons x rs)
  obtain s st t where x: "x = (s, st, t)" by (cases x)
  obtain r h1 where rep: "I2cBusHealth_Report h s st t = (r, h1)" by (meson surj_pair)
  have "\<not> r" using report_cooldown[of h t s st] Cons.prems x rep by auto
  moreover have "True \<notin> set (fst (report_run rs h1))"
    using Cons.IH[of h1] Cons.prems report_counters[OF rep] x by auto
  ultimately show ?case using x rep by (auto simp: Let_def split: prod.splits)
qed simp

lemma only_slot_after_attempt: "only_slot k (recovery_attempt h now ok)"
  by (simp add: only_slot_def recovery_attempt_def Let_def I2cBusHealth_BeginRecovery_def
      I2cBusHealth_OnRecoverySuccess_def I2cBusHealth_OnRecoveryFailure_def)

section \<open>The decision of the application\<close>

text \<open>
  The application does not use the answers of the reports. It asks \<open>ShouldRecover\<close> and
  \<open>RecoveryEligible\<close> after them (\<open>App_DoRetry\<close>), so the decision rests on the evidence
  the monitor holds at that time.
\<close>

definition recovery_decided :: "I2cBusHealth \<Rightarrow> u32 \<Rightarrow> bool" where
  "recovery_decided h now \<longleftrightarrow> I2cBusHealth_ShouldRecover h \<and> I2cBusHealth_RecoveryEligible h now"

text \<open>The evidence is the number of slots that hold a failure, and these lie in one window.\<close>

definition evidence_ok :: "I2cBusHealth \<Rightarrow> bool" where
  "evidence_ok h \<longleftrightarrow>
     bh_transport_evidence h = of_nat (length (filter (\<lambda>t. t \<noteq> 0) (bh_last_transport_ms h))) \<and>
     (\<exists>last. \<forall>i < length (bh_last_transport_ms h).
        bh_last_transport_ms h ! i \<noteq> 0 \<longrightarrow> last - bh_last_transport_ms h ! i < 10000)"

lemma filter_mask:
  "filter (\<lambda>t. t \<noteq> 0) (map (\<lambda>t. if slot_evidence now t then t else 0) ts) = filter (slot_evidence now) ts"
  by (induction ts) (auto simp: slot_evidence_def)

lemma evidence_ok_latch:
  "evidence_ok h \<Longrightarrow> evidence_ok (I2cBusHealth_SetDeviceKnown h slot b)"
  "evidence_ok h \<Longrightarrow> evidence_ok (I2cBusHealth_MarkHealth h slot b)"
  by (simp_all add: evidence_ok_def I2cBusHealth_SetDeviceKnown_def I2cBusHealth_MarkHealth_def)

lemma evidence_ok_report:
  assumes "evidence_ok h" "I2cBusHealth_Report h slot status now = (r, h')"
  shows "evidence_ok h'"
proof (cases "slot < 8 \<and> RecoveryPolicy_Classify status = FAIL_CLASS_TRANSPORT \<and>
    bh_previously_healthy h ! unat slot")
  case True
  note rep = report_transport(1,2)[OF _ _ _ assms(2)]
  have "now - t < 10000" if "slot_evidence now t" for t
    using that by (simp add: slot_evidence_def RecoveryPolicy_WindowWithin_def recovery_constants Let_def)
  then show ?thesis
    using True rep
    by (auto simp: evidence_ok_def filter_mask recount_def simp del: map_update intro!: exI[of _ now])
next
  case False
  with report_ignored assms show ?thesis by (metis prod.inject)
qed

lemma monitor_reach_evidence: "monitor_reach h \<Longrightarrow> evidence_ok h"
proof (induction rule: monitor_reach.induct)
  case init
  show ?case by (simp add: evidence_ok_def I2cBusHealth_Init_def)
next
  case (report h slot status now r h')
  then show ?case using evidence_ok_report by blast
next
  case (attempt h now ok)
  show ?case
    by (simp add: evidence_ok_def recovery_attempt_def Let_def I2cBusHealth_BeginRecovery_def
        I2cBusHealth_OnRecoverySuccess_def I2cBusHealth_OnRecoveryFailure_def)
qed (simp_all add: evidence_ok_latch)

lemma two_set_slots:
  assumes "(of_nat (length (filter (\<lambda>t. t \<noteq> 0) ts)) :: u32) \<ge> 2" "length ts = 8"
  obtains i j where "i < 8" "j < 8" "i \<noteq> j" "ts ! i \<noteq> 0" "ts ! j \<noteq> (0 :: u32)"
proof -
  let ?S = "{i. i < length ts \<and> ts ! i \<noteq> 0}"
  have "length (filter (\<lambda>t. t \<noteq> 0) ts) \<le> 8"
    using assms(2) by (metis length_filter_le)
  then have "2 \<le> length (filter (\<lambda>t. t \<noteq> 0) ts)"
    using assms(1) by (simp add: word_le_nat_alt unat_of_nat take_bit_eq_mod)
  then have "2 \<le> card ?S" by (simp add: length_filter_conv_card)
  then obtain i j where "i \<in> ?S" "j \<in> ?S" "i \<noteq> j"
    by (auto simp: numeral_2_eq_2 card_le_Suc_iff)
  then show thesis using assms(2) that by auto
qed

lemma decided_slots:
  assumes "monitor_reach h" "recovery_decided h now"
  obtains i j last where "i < 8" "j < 8" "i \<noteq> j"
    "bh_previously_healthy h ! i" "bh_previously_healthy h ! j"
    "bh_last_transport_ms h ! i \<noteq> 0" "bh_last_transport_ms h ! j \<noteq> 0"
    "last - bh_last_transport_ms h ! i < 10000" "last - bh_last_transport_ms h ! j < 10000"
proof -
  have el: "bh_transport_evidence h \<ge> 2"
    using assms(2) eligible_state by (auto simp: recovery_decided_def)
  have wf: "health_wf h" using monitor_reach_wf[OF assms(1)] .
  note ev = monitor_reach_evidence[OF assms(1), unfolded evidence_ok_def]
  obtain last where last: "\<And>i. i < 8 \<Longrightarrow> bh_last_transport_ms h ! i \<noteq> 0 \<Longrightarrow>
      last - bh_last_transport_ms h ! i < 10000"
    using ev wf by (auto simp: health_wf_def)
  obtain i j where "i < 8" "j < 8" "i \<noteq> j" "bh_last_transport_ms h ! i \<noteq> 0" "bh_last_transport_ms h ! j \<noteq> 0"
    using two_set_slots[of "bh_last_transport_ms h"] el ev wf by (auto simp: health_wf_def)
  then show thesis using that last wf by (auto simp: health_wf_def)
qed

text \<open>Reports that are no transport failures leave the monitor as it is.\<close>

lemma quiet_run:
  assumes "\<forall>(s, st, t) \<in> set rs. RecoveryPolicy_Classify st \<noteq> FAIL_CLASS_TRANSPORT"
  shows "snd (report_run rs h) = h"
  using assms
proof (induction rs)
  case (Cons x rs)
  obtain s st t where x: "x = (s, st, t)" by (cases x)
  then have "I2cBusHealth_Report h s st t = (False, h)" using Cons.prems by (intro report_ignored) auto
  then show ?case using Cons x by (simp add: Let_def split_def)
qed simp

section \<open>Properties\<close>

text \<open>
  Claim C6. A recovery of the shared bus takes two distinct devices, both established as healthy
  before. In every state the monitor can reach: when a report answers true, two such slots failed on
  the transport within the last ten seconds; when the application decides, which asks the monitor and
  not the report, two such slots hold failures at most ten seconds before one common tick, which need
  not be recent; and neither happens within sixty seconds of the previous attempt. No other way leads
  to a recovery: the persistent BUSY state that the comments name as a second reason does not exist.
\<close>

theorem recovery_needs_two_devices:
  assumes "monitor_reach h"
  shows "(\<forall>slot status now h'. I2cBusHealth_Report h slot status now = (True, h') \<longrightarrow>
      (\<exists>i j. i < 8 \<and> j < 8 \<and> i \<noteq> j \<and>
        bh_previously_healthy h' ! i \<and> bh_previously_healthy h' ! j \<and>
        now - bh_last_transport_ms h' ! i < 10000 \<and> now - bh_last_transport_ms h' ! j < 10000 \<and>
        (bh_ever_recovered h \<longrightarrow> 60000 \<le> now - bh_last_recovery_ms h))) \<and>
    (\<forall>now. recovery_decided h now \<longrightarrow>
      (\<exists>i j last. i < 8 \<and> j < 8 \<and> i \<noteq> j \<and>
        bh_previously_healthy h ! i \<and> bh_previously_healthy h ! j \<and>
        bh_last_transport_ms h ! i \<noteq> 0 \<and> bh_last_transport_ms h ! j \<noteq> 0 \<and>
        last - bh_last_transport_ms h ! i < 10000 \<and> last - bh_last_transport_ms h ! j < 10000 \<and>
        (bh_ever_recovered h \<longrightarrow> 60000 \<le> now - bh_last_recovery_ms h)))"
proof (intro conjI allI impI)
  fix slot status now h' assume "I2cBusHealth_Report h slot status now = (True, h')"
  with monitor_reach_wf[OF assms] obtain i j where "i < 8" "j < 8" "i \<noteq> j"
    "bh_previously_healthy h' ! i" "bh_previously_healthy h' ! j"
    "slot_evidence now (bh_last_transport_ms h' ! i)"
    "slot_evidence now (bh_last_transport_ms h' ! j)"
    "bh_ever_recovered h \<longrightarrow>
       RecoveryPolicy_Elapsed now (bh_last_recovery_ms h) RECOVERY_BUS_COOLDOWN_MS"
    by (rule positive_report)
  then show "\<exists>i j. i < 8 \<and> j < 8 \<and> i \<noteq> j \<and> bh_previously_healthy h' ! i \<and> bh_previously_healthy h' ! j \<and>
      now - bh_last_transport_ms h' ! i < 10000 \<and> now - bh_last_transport_ms h' ! j < 10000 \<and>
      (bh_ever_recovered h \<longrightarrow> 60000 \<le> now - bh_last_recovery_ms h)"
    by (auto simp: slot_evidence_def RecoveryPolicy_WindowWithin_def RecoveryPolicy_Elapsed_def
        recovery_constants Let_def)
next
  fix now assume d: "recovery_decided h now"
  then have "bh_ever_recovered h \<longrightarrow> 60000 \<le> now - bh_last_recovery_ms h"
    using eligible_state[of h now]
    by (auto simp: recovery_decided_def RecoveryPolicy_Elapsed_def recovery_constants Let_def)
  then show "\<exists>i j last. i < 8 \<and> j < 8 \<and> i \<noteq> j \<and> bh_previously_healthy h ! i \<and> bh_previously_healthy h ! j \<and>
      bh_last_transport_ms h ! i \<noteq> 0 \<and> bh_last_transport_ms h ! j \<noteq> 0 \<and>
      last - bh_last_transport_ms h ! i < 10000 \<and> last - bh_last_transport_ms h ! j < 10000 \<and>
      (bh_ever_recovered h \<longrightarrow> 60000 \<le> now - bh_last_recovery_ms h)"
    using decided_slots[OF assms d] by metis
qed

text \<open>Two devices are healthy, the first fails at tick 1000, the second at tick 4000.\<close>

definition two_healthy :: I2cBusHealth where
  "two_healthy = I2cBusHealth_MarkHealth (I2cBusHealth_MarkHealth I2cBusHealth_Init 0 True) 3 True"

lemma two_healthy_reach: "monitor_reach two_healthy"
  by (simp add: two_healthy_def monitor_reach.intros)

lemma first_failure_reach:
  "monitor_reach (snd (I2cBusHealth_Report two_healthy 0 DRIVER_STATUS_TIMEOUT 1000))"
  by (rule monitor_reach.report[OF two_healthy_reach prod.collapse[symmetric]])

lemma second_failure_recovers:
  "fst (I2cBusHealth_Report (snd (I2cBusHealth_Report two_healthy 0 DRIVER_STATUS_TIMEOUT 1000))
     3 DRIVER_STATUS_BUS_ERROR 4000)"
  by code_simp

lemma recovery_needs_two_devices_witness:
  "\<exists>h h'. I2cBusHealth_Report h 3 DRIVER_STATUS_BUS_ERROR 4000 = (True, h') \<and>
     (\<exists>i j. i < 8 \<and> j < 8 \<and> i \<noteq> j \<and> bh_previously_healthy h' ! i \<and> bh_previously_healthy h' ! j)"
proof -
  let ?h = "snd (I2cBusHealth_Report two_healthy 0 DRIVER_STATUS_TIMEOUT 1000)"
  let ?r = "I2cBusHealth_Report ?h 3 DRIVER_STATUS_BUS_ERROR 4000"
  have r: "?r = (True, snd ?r)"
    using second_failure_recovers by (simp add: prod_eq_iff)
  from recovery_needs_two_devices[OF first_failure_reach] r show ?thesis by blast
qed

text \<open>
  One device alone never resets the bus: after a boot or after a recovery attempt,
  no sequence of results of a single slot, whatever the failures and the times, makes the
  monitor ask for a recovery.
\<close>

theorem one_device_never_recovers:
  assumes "h = I2cBusHealth_MarkHealth I2cBusHealth_Init slot True \<or>
    (\<exists>h0 t ok. h = recovery_attempt h0 t ok)"
    and "\<forall>(s, st, t) \<in> set rs. s = slot"
  shows "True \<notin> set (fst (report_run rs h))"
proof -
  have "only_slot (unat slot) h"
    using assms(1) only_slot_after_attempt
    by (auto simp: only_slot_def I2cBusHealth_MarkHealth_def I2cBusHealth_Init_def)
  then show ?thesis using assms(2) by (rule only_slot_run)
qed

lemma one_device_never_recovers_witness:
  "True \<notin> set (fst (report_run
      [(2, DRIVER_STATUS_BUS_ERROR, 10), (2, DRIVER_STATUS_TIMEOUT, 20)]
      (I2cBusHealth_MarkHealth I2cBusHealth_Init 2 True)))"
  by (rule one_device_never_recovers[where slot = 2]) auto

text \<open>
  Storm protection: after a recovery attempt at tick \<open>t0\<close>, successful or not, no
  sequence of reports of any devices asks for another attempt before the cooldown of sixty
  seconds has elapsed.
\<close>

theorem cooldown_blocks_recovery:
  assumes "\<forall>(s, st, t) \<in> set rs. \<not> RecoveryPolicy_Elapsed t t0 60000"
  shows "True \<notin> set (fst (report_run rs (recovery_attempt h t0 ok)))"
proof (rule run_cooldown)
  show "bh_ever_recovered (recovery_attempt h t0 ok)"
    by (simp add: recovery_attempt_def Let_def I2cBusHealth_BeginRecovery_def
        I2cBusHealth_OnRecoverySuccess_def I2cBusHealth_OnRecoveryFailure_def)
  have "bh_last_recovery_ms (recovery_attempt h t0 ok) = t0"
    by (simp add: recovery_attempt_def Let_def I2cBusHealth_BeginRecovery_def
        I2cBusHealth_OnRecoverySuccess_def I2cBusHealth_OnRecoveryFailure_def)
  with assms show "\<forall>(s, st, t) \<in> set rs. \<not> RecoveryPolicy_Elapsed t
      (bh_last_recovery_ms (recovery_attempt h t0 ok)) RECOVERY_BUS_COOLDOWN_MS"
    by (simp add: RECOVERY_BUS_COOLDOWN_MS_def)
qed

lemma cooldown_blocks_recovery_witness:
  "True \<notin> set (fst (report_run
      [(0, DRIVER_STATUS_BUS_ERROR, 5000), (3, DRIVER_STATUS_BUS_ERROR, 5001)]
      (recovery_attempt two_healthy 1000 False)))"
  by (rule cooldown_blocks_recovery) (simp add: RecoveryPolicy_Elapsed_def)

text \<open>
  The bookkeeping of the monitor: in every reachable state the attempts are the
  successes plus the failures, every slot is either latched healthy or never present, and only
  latched slots hold evidence.
\<close>

theorem monitor_invariant:
  assumes "monitor_reach h"
  shows "bh_recovery_attempts h = bh_recovery_successes h + bh_recovery_failures h \<and>
    (\<forall>i<8. bh_never_present h ! i = (\<not> bh_previously_healthy h ! i)) \<and>
    (\<forall>i<8. bh_last_transport_ms h ! i \<noteq> 0 \<longrightarrow> bh_previously_healthy h ! i)"
  using monitor_reach_counts[OF assms] monitor_reach_wf[OF assms] by (simp add: health_wf_def)

lemma monitor_invariant_witness:
  "bh_recovery_attempts (recovery_attempt two_healthy 5 True) =
     bh_recovery_successes (recovery_attempt two_healthy 5 True) +
     bh_recovery_failures (recovery_attempt two_healthy 5 True)"
  using monitor_invariant[OF monitor_reach.attempt[OF two_healthy_reach]] by blast

text \<open>
  Claim C7. The cooldown does not let evidence expire. Two devices that fail within ten seconds of each
  other after a recovery attempt arm the monitor; then, however long both work and report nothing but
  good results, the application recovers the bus as soon as the sixty seconds are over, on failures
  that may be almost as old.
\<close>

theorem recovery_on_stale_evidence:
  assumes "monitor_reach h" "a < 8" "b < 8" "a \<noteq> b"
    and "bh_previously_healthy h ! unat a" "bh_previously_healthy h ! unat b"
    and "RecoveryPolicy_Classify s1 = FAIL_CLASS_TRANSPORT" "RecoveryPolicy_Classify s2 = FAIL_CLASS_TRANSPORT"
    and "t1 \<noteq> 0" "t2 \<noteq> 0" "t2 - t1 < 10000"
    and "\<forall>(s, st, t) \<in> set rs. RecoveryPolicy_Classify st \<noteq> FAIL_CLASS_TRANSPORT"
    and "RecoveryPolicy_Elapsed now t0 RECOVERY_BUS_COOLDOWN_MS"
  shows "recovery_decided (snd (report_run ((a, s1, t1) # (b, s2, t2) # rs) (recovery_attempt h t0 ok))) now"
proof -
  let ?h = "recovery_attempt h t0 ok"
  have sel: "bh_last_transport_ms ?h = replicate 8 0" "bh_previously_healthy ?h = bh_previously_healthy h"
    "bh_ever_recovered ?h" "bh_last_recovery_ms ?h = t0"
    by (simp_all add: recovery_attempt_def Let_def I2cBusHealth_BeginRecovery_def
        I2cBusHealth_OnRecoverySuccess_def I2cBusHealth_OnRecoveryFailure_def)
  obtain r1 h1 where 1: "I2cBusHealth_Report ?h a s1 t1 = (r1, h1)" by (meson surj_pair)
  obtain r2 h2 where 2: "I2cBusHealth_Report h1 b s2 t2 = (r2, h2)" by (meson surj_pair)
  note f1 = report_transport[OF assms(2,7) _ 1, unfolded sel, OF assms(5)]
  note f2 = report_transport[OF assms(3,8) _ 2, unfolded f1(6), OF assms(6)]
  have ab: "unat a < 8" "unat b < 8" "unat a \<noteq> unat b" using assms(2-4) by (simp_all add: word_unat_eq_iff)
  have ev: "slot_evidence t1 t1" "slot_evidence t2 t2" "slot_evidence t2 t1"
    using assms(9-11)
    by (auto simp: slot_evidence_def within_self recovery_constants RecoveryPolicy_WindowWithin_def Let_def
        intro: less_trans)
  let ?ts = "(bh_last_transport_ms h1)[unat b := t2]"
  have "2 \<le> recount t2 ?ts"
    using ab ev by (intro recount_two[of _ "unat a" "unat b"]) (simp_all add: f1(1) sel)
  then have "recovery_decided h2 now"
    using f2(2,3,10,11) f1(10,11) sel assms(13)
    by (simp add: recovery_decided_def I2cBusHealth_ShouldRecover_def I2cBusHealth_RecoveryEligible_def
        RECOVERY_BUS_EVIDENCE_MIN_def not_less)
  then show ?thesis
    using quiet_run[OF assms(12)] 1 2 by (simp add: Let_def split_def)
qed

text \<open>
  An attempt at tick 1000; two devices fail at 2000 and 3000 and work from then on. At 61000, with the
  last failure 58 seconds old, the bus is recovered.
\<close>

lemma recovery_on_stale_evidence_witness:
  "recovery_decided (snd (report_run
      [(0, DRIVER_STATUS_TIMEOUT, 2000), (3, DRIVER_STATUS_BUS_ERROR, 3000), (0, DRIVER_STATUS_OK, 8000), (3, DRIVER_STATUS_OK, 60999)]
      (recovery_attempt two_healthy 1000 True))) 61000"
  by (rule recovery_on_stale_evidence[OF two_healthy_reach])
    (simp_all add: two_healthy_def I2cBusHealth_MarkHealth_def I2cBusHealth_Init_def RecoveryPolicy_Classify_def
      RecoveryPolicy_Elapsed_def recovery_constants)

end
