(* ===== verification/Storage_Record.thy ===== *)
theory Storage_Record
  imports Prelude
begin

text \<open>
  The record format of \<open>Storage/Inc/storage.h\<close> and the CRC-32 of
  \<open>Storage/Src/storage.c\<close>. \<open>StorageRecordHeader\<close> is a packed struct of 22 bytes;
  \<open>header_bytes\<close> and \<open>header_of_bytes\<close> are its memory image, which the source
  produces and consumes by \<open>memcpy\<close>. The CRC lemmas show what it detects: a change
  confined to one byte never goes unnoticed.
\<close>

definition STORAGE_MAGIC :: u32 where "STORAGE_MAGIC = 0x52534D43"
definition STORAGE_RECORD_FORMAT_VERSION :: u16 where "STORAGE_RECORD_FORMAT_VERSION = 1"
definition STORAGE_PAYLOAD_MAX :: nat where "STORAGE_PAYLOAD_MAX = 256"
definition STORAGE_MIN_PAGES :: u32 where "STORAGE_MIN_PAGES = 6"
definition STORAGE_RECORD_TYPES :: nat where "STORAGE_RECORD_TYPES = 3"
definition STORAGE_OWNED_PAGES :: nat where "STORAGE_OWNED_PAGES = STORAGE_RECORD_TYPES * 2"
definition STORAGE_PROGRAM_UNIT_MAX :: u32 where "STORAGE_PROGRAM_UNIT_MAX = 8"
definition STORAGE_HEADER_SIZE :: nat where "STORAGE_HEADER_SIZE = 22"
definition STORAGE_RAW_MAX :: nat where "STORAGE_RAW_MAX = STORAGE_HEADER_SIZE + STORAGE_PAYLOAD_MAX"
definition STORAGE_PROGRAM_BUFFER_MAX :: nat where "STORAGE_PROGRAM_BUFFER_MAX = 280"

definition RECORD_TYPE_CONFIG :: u8 where "RECORD_TYPE_CONFIG = 1"
definition RECORD_TYPE_IDENTITY :: u8 where "RECORD_TYPE_IDENTITY = 2"
definition RECORD_TYPE_REGISTRATION :: u8 where "RECORD_TYPE_REGISTRATION = 3"

lemmas storage_constants =
  STORAGE_MAGIC_def STORAGE_RECORD_FORMAT_VERSION_def STORAGE_PAYLOAD_MAX_def
  STORAGE_MIN_PAGES_def STORAGE_RECORD_TYPES_def STORAGE_OWNED_PAGES_def
  STORAGE_PROGRAM_UNIT_MAX_def STORAGE_HEADER_SIZE_def STORAGE_RAW_MAX_def
  STORAGE_PROGRAM_BUFFER_MAX_def

lemmas record_types =
  RECORD_TYPE_CONFIG_def RECORD_TYPE_IDENTITY_def RECORD_TYPE_REGISTRATION_def

text \<open>
  The macro of the program buffer rounds the raw size up to the largest program unit; the
  static assertions of the header.
\<close>

lemma program_buffer_size:
  "STORAGE_PROGRAM_BUFFER_MAX =
     unat (((of_nat STORAGE_RAW_MAX :: u32) + STORAGE_PROGRAM_UNIT_MAX - 1) AND
           NOT (STORAGE_PROGRAM_UNIT_MAX - 1))"
  by (simp add: storage_constants)

section \<open>Header and payload\<close>

record StorageRecordHeader =
  hdr_magic :: u32
  hdr_record_format_version :: u16
  hdr_payload_size :: u16
  hdr_record_type :: u8
  hdr_flags :: u8
  hdr_sequence :: u32
  hdr_reserved :: u16
  hdr_reserved2 :: u16
  hdr_crc32 :: u32

record StoragePayload =
  pl_data :: bytes
  pl_size :: nat
  pl_record_type :: u8
  pl_sequence :: u32

text \<open>The values \<open>memset (&h, 0, sizeof h)\<close> leaves.\<close>

definition zero_header :: StorageRecordHeader where
  "zero_header =
     \<lparr>hdr_magic = 0, hdr_record_format_version = 0, hdr_payload_size = 0, hdr_record_type = 0,
      hdr_flags = 0, hdr_sequence = 0, hdr_reserved = 0, hdr_reserved2 = 0, hdr_crc32 = 0\<rparr>"

definition zero_payload :: StoragePayload where
  "zero_payload =
     \<lparr>pl_data = replicate STORAGE_PAYLOAD_MAX 0, pl_size = 0, pl_record_type = 0, pl_sequence = 0\<rparr>"

definition header_bytes :: "StorageRecordHeader \<Rightarrow> bytes" where
  "header_bytes h =
     le_bytes 4 (hdr_magic h) @ le_bytes 2 (hdr_record_format_version h) @
     le_bytes 2 (hdr_payload_size h) @ [hdr_record_type h] @ [hdr_flags h] @
     le_bytes 4 (hdr_sequence h) @ le_bytes 2 (hdr_reserved h) @
     le_bytes 2 (hdr_reserved2 h) @ le_bytes 4 (hdr_crc32 h)"

definition header_of_bytes :: "bytes \<Rightarrow> StorageRecordHeader" where
  "header_of_bytes bs =
     \<lparr>hdr_magic = of_le (window bs 0 4),
      hdr_record_format_version = of_le (window bs 4 2),
      hdr_payload_size = of_le (window bs 6 2),
      hdr_record_type = bs ! 8,
      hdr_flags = bs ! 9,
      hdr_sequence = of_le (window bs 10 4),
      hdr_reserved = of_le (window bs 14 2),
      hdr_reserved2 = of_le (window bs 16 2),
      hdr_crc32 = of_le (window bs 18 4)\<rparr>"

lemma length_header_bytes [simp]: "length (header_bytes h) = 22"
  by (simp add: header_bytes_def)

lemma header_of_header_bytes [simp]: "header_of_bytes (header_bytes h) = h"
proof -
  have f: "of_le (le_bytes 4 w) = w" for w :: u32 by (simp add: of_le_le_bytes)
  have g: "of_le (le_bytes 2 w) = w" for w :: u16 by (simp add: of_le_le_bytes)
  have len: "length (le_bytes 4 w) = 4" "length (le_bytes 2 v) = 2" for w :: u32 and v :: u16
    by simp_all
  show ?thesis
    by (simp add: header_of_bytes_def header_bytes_def window_def nth_append f g)
qed

section \<open>CRC-32\<close>

definition crc32_bit :: "u32 \<Rightarrow> u32" where
  "crc32_bit crc = (if crc AND 1 \<noteq> 0 then drop_bit 1 crc XOR 0xEDB88320 else drop_bit 1 crc)"

definition crc32_byte :: "u32 \<Rightarrow> u8 \<Rightarrow> u32" where
  "crc32_byte crc b = (crc32_bit ^^ 8) (crc XOR ucast b)"

definition Storage_Crc32 :: "bytes \<Rightarrow> u32" where
  "Storage_Crc32 data = foldl crc32_byte 0xFFFFFFFF data XOR 0xFFFFFFFF"

text \<open>
  One step of the register is injective: its top bit tells which branch was taken, because
  the polynomial has its top bit set and a shifted word does not.
\<close>

lemma crc32_bit_inj: "inj crc32_bit"
proof (rule injI, rule ccontr)
  fix a b :: u32
  assume eq: "crc32_bit a = crc32_bit b" and "a \<noteq> b"
  have top: "bit (crc32_bit x) 31 = bit x 0" for x
    by (auto simp: crc32_bit_def bit_xor_iff bit_drop_bit_eq and_one_eq bit_0
        odd_iff_mod_2_eq_one dest: bit_imp_le_length)
  have low: "bit a 0 = bit b 0"
    using top[of a] top[of b] eq by simp
  have shift: "drop_bit 1 a = drop_bit 1 b"
    using eq low by (auto simp: crc32_bit_def and_one_eq bit_0 odd_iff_mod_2_eq_one split: if_splits)
  have "bit a i = bit b i" for i
  proof (cases i)
    case (Suc k)
    have "bit (drop_bit 1 a) k = bit (drop_bit 1 b) k" using shift by simp
    then show ?thesis using Suc by (simp add: bit_drop_bit_eq)
  qed (use low in simp)
  then have "a = b" by (simp add: bit_eq_iff)
  with \<open>a \<noteq> b\<close> show False by simp
qed

lemma crc32_byte_inj: "crc32_byte c a = crc32_byte d b \<longleftrightarrow> c XOR ucast a = d XOR ucast b"
  unfolding crc32_byte_def by (rule inj_eq[OF inj_fn[OF crc32_bit_inj]])

lemma crc32_byte_inj_crc: "crc32_byte c b = crc32_byte d b \<longleftrightarrow> c = d"
  by (simp only: crc32_byte_inj word_xor_right_cancel)

lemma crc32_byte_inj_data: "crc32_byte c a = crc32_byte c b \<longleftrightarrow> a = b"
  by (simp only: crc32_byte_inj word_xor_left_cancel ucast_u8_u32_inj)

lemma crc32_fold_inj: "foldl crc32_byte c xs = foldl crc32_byte d xs \<longleftrightarrow> c = d"
  by (induction xs arbitrary: c d) (simp_all add: crc32_byte_inj_crc)

lemma crc32_detects_byte:
  assumes "i < length xs"
  shows "Storage_Crc32 (xs[i := v]) = Storage_Crc32 xs \<longleftrightarrow> v = xs ! i"
proof -
  have split: "xs = take i xs @ xs ! i # drop (Suc i) xs"
    using assms by (rule id_take_nth_drop)
  have upd: "xs[i := v] = take i xs @ v # drop (Suc i) xs"
    using assms by (rule upd_conv_take_nth_drop)
  show ?thesis
    unfolding Storage_Crc32_def word_xor_right_cancel upd
    by (subst (2) split) (simp add: crc32_fold_inj crc32_byte_inj_data)
qed

end
