(* ===== verification/Flash_Device.thy ===== *)
theory Flash_Device
  imports Prelude
begin

text \<open>
  The flash device the storage layer talks to (\<open>Platform/Inc/platform_flash.h\<close>): its
  operations as a record, the laws the storage layer relies on as the locales \<open>flash_reader\<close>,
  \<open>flash_writer\<close> and \<open>flash_device\<close> (what an operation touches, and what a successful one
  leaves), \<open>working_writer\<close> and \<open>working_flash\<close> (when the operations succeed), and the
  in-memory device of the host build, \<open>Platform/Host/Src/platform_host_flash.c\<close>, as an
  instance of all of them.
\<close>

datatype PlatformFlashStatus =
    PLATFORM_FLASH_OK | PLATFORM_FLASH_ERROR | PLATFORM_FLASH_INVALID_ARG
  | PLATFORM_FLASH_VERIFY_ERROR

record PlatformFlashInfo =
  fi_start_address :: u32
  fi_page_size :: u32
  fi_total_size :: u32
  fi_page_count :: u32
  fi_program_unit :: u32

record 'f flash_ops =
  fo_info :: "PlatformFlashInfo option"
  fo_validate :: "'f \<Rightarrow> PlatformFlashStatus"
  fo_read :: "'f \<Rightarrow> u32 \<Rightarrow> nat \<Rightarrow> PlatformFlashStatus \<times> bytes"
  fo_write :: "'f \<Rightarrow> u32 \<Rightarrow> bytes \<Rightarrow> PlatformFlashStatus \<times> 'f"
  fo_erase :: "'f \<Rightarrow> u32 \<Rightarrow> PlatformFlashStatus \<times> 'f"

section \<open>The interface\<close>

text \<open>
  The laws come in three layers, as devices keep them: what a read returns, what a write may touch
  and leaves in erased bytes, and what an erase does to the page it names. A failed access may leave
  anything in the bytes it addressed.
\<close>

locale flash_reader =
  fixes ops :: "'f flash_ops" and info :: PlatformFlashInfo
    and contents :: "'f \<Rightarrow> bytes" and valid :: "'f \<Rightarrow> bool"
  assumes info: "fo_info ops = Some info"
    and contents_length: "valid f \<Longrightarrow> length (contents f) = unat (fi_total_size info)"
    and read_ok: "valid f \<Longrightarrow> fo_read ops f off n = (PLATFORM_FLASH_OK, bs) \<Longrightarrow>
      unat off + n \<le> length (contents f) \<and> bs = window (contents f) (unat off) n"
    and read_local: "valid f \<Longrightarrow> valid g \<Longrightarrow>
      window (contents f) (unat off) n = window (contents g) (unat off) n \<Longrightarrow>
      fo_read ops f off n = fo_read ops g off n"

locale flash_writer = flash_reader +
  assumes write_valid: "valid f \<Longrightarrow> valid (snd (fo_write ops f off bs))"
    and write_frame: "valid f \<Longrightarrow> a + n \<le> unat off \<or> unat off + length bs \<le> a \<Longrightarrow>
      window (contents (snd (fo_write ops f off bs))) a n = window (contents f) a n"
    and write_ok: "valid f \<Longrightarrow> fo_write ops f off bs = (PLATFORM_FLASH_OK, g) \<Longrightarrow>
      window (contents f) (unat off) (length bs) = replicate (length bs) 255 \<Longrightarrow>
      window (contents g) (unat off) (length bs) = bs"

locale flash_device = flash_writer +
  assumes erase_valid: "valid f \<Longrightarrow> valid (snd (fo_erase ops f p))"
    and erase_frame: "valid f \<Longrightarrow>
      a + n \<le> unat p * unat (fi_page_size info) \<or>
      Suc (unat p) * unat (fi_page_size info) \<le> a \<Longrightarrow>
      window (contents (snd (fo_erase ops f p))) a n = window (contents f) a n"
    and erase_ok: "valid f \<Longrightarrow> fo_erase ops f p = (PLATFORM_FLASH_OK, g) \<Longrightarrow>
      window (contents g) (unat p * unat (fi_page_size info)) (unat (fi_page_size info)) =
        replicate (unat (fi_page_size info)) 255"

text \<open>
  When the accesses succeed. A write is only promised where the bytes are erased: real flash refuses
  to program others.
\<close>

locale working_writer = flash_writer +
  fixes working :: "'f \<Rightarrow> bool"
  assumes working_valid: "working f \<Longrightarrow> valid f"
    and working_read: "working f \<Longrightarrow> 0 < n \<Longrightarrow> unat off + n \<le> unat (fi_total_size info) \<Longrightarrow>
      fst (fo_read ops f off n) = PLATFORM_FLASH_OK"
    and working_write: "working f \<Longrightarrow> bs \<noteq> [] \<Longrightarrow>
      unat off + length bs \<le> unat (fi_total_size info) \<Longrightarrow>
      unat off mod unat (fi_program_unit info) = 0 \<Longrightarrow>
      length bs mod unat (fi_program_unit info) = 0 \<Longrightarrow>
      window (contents f) (unat off) (length bs) = replicate (length bs) 255 \<Longrightarrow>
      fst (fo_write ops f off bs) = PLATFORM_FLASH_OK \<and> working (snd (fo_write ops f off bs))"
    and page_aligned: "unat (fi_page_size info) mod unat (fi_program_unit info) = 0"

locale working_flash = flash_device + working_writer +
  assumes working_erase: "working f \<Longrightarrow> unat p < unat (fi_page_count info) \<Longrightarrow>
      fst (fo_erase ops f p) = PLATFORM_FLASH_OK \<and> working (snd (fo_erase ops f p))"

section \<open>The host device\<close>

record host_flash =
  hf_data :: bytes
  hf_write_fail :: bool

definition HOST_FLASH_PAGE_SIZE :: nat where "HOST_FLASH_PAGE_SIZE = 2048"
definition HOST_FLASH_PAGES :: nat where "HOST_FLASH_PAGES = 6"
definition HOST_FLASH_SIZE :: nat where "HOST_FLASH_SIZE = HOST_FLASH_PAGE_SIZE * HOST_FLASH_PAGES"
definition HOST_PROGRAM_UNIT :: nat where "HOST_PROGRAM_UNIT = 8"

lemmas host_geometry =
  HOST_FLASH_PAGE_SIZE_def HOST_FLASH_PAGES_def HOST_FLASH_SIZE_def HOST_PROGRAM_UNIT_def

definition HostFlash_Init :: host_flash where
  "HostFlash_Init = \<lparr>hf_data = replicate HOST_FLASH_SIZE 255, hf_write_fail = False\<rparr>"

definition HostFlash_SetWriteFail :: "bool \<Rightarrow> host_flash \<Rightarrow> host_flash" where
  "HostFlash_SetWriteFail fail f = f\<lparr>hf_write_fail := fail\<rparr>"

definition host_info :: PlatformFlashInfo where
  "host_info =
     \<lparr>fi_start_address = 0,
      fi_page_size = of_nat HOST_FLASH_PAGE_SIZE,
      fi_total_size = of_nat HOST_FLASH_SIZE,
      fi_page_count = of_nat HOST_FLASH_PAGES,
      fi_program_unit = of_nat HOST_PROGRAM_UNIT\<rparr>"

definition Host_FlashValidateConfiguration :: "host_flash \<Rightarrow> PlatformFlashStatus" where
  "Host_FlashValidateConfiguration f = PLATFORM_FLASH_OK"

definition Host_FlashRead :: "host_flash \<Rightarrow> u32 \<Rightarrow> nat \<Rightarrow> PlatformFlashStatus \<times> bytes" where
  "Host_FlashRead f offset sz =
     (if sz = 0 then (PLATFORM_FLASH_INVALID_ARG, [])
      else if unat offset > HOST_FLASH_SIZE then (PLATFORM_FLASH_INVALID_ARG, [])
      else if sz > HOST_FLASH_SIZE - unat offset then (PLATFORM_FLASH_INVALID_ARG, [])
      else (PLATFORM_FLASH_OK, window (hf_data f) (unat offset) sz))"

definition Host_FlashWrite :: "host_flash \<Rightarrow> u32 \<Rightarrow> bytes \<Rightarrow> PlatformFlashStatus \<times> host_flash" where
  "Host_FlashWrite f offset data =
     (if length data = 0 then (PLATFORM_FLASH_INVALID_ARG, f)
      else if unat offset > HOST_FLASH_SIZE then (PLATFORM_FLASH_INVALID_ARG, f)
      else if length data > HOST_FLASH_SIZE - unat offset then (PLATFORM_FLASH_INVALID_ARG, f)
      else if unat offset mod HOST_PROGRAM_UNIT \<noteq> 0 then (PLATFORM_FLASH_INVALID_ARG, f)
      else if length data mod HOST_PROGRAM_UNIT \<noteq> 0 then (PLATFORM_FLASH_INVALID_ARG, f)
      else if hf_write_fail f then (PLATFORM_FLASH_ERROR, f)
      else (PLATFORM_FLASH_OK, f\<lparr>hf_data := overwrite (hf_data f) (unat offset) data\<rparr>))"

definition Host_FlashErase :: "host_flash \<Rightarrow> u32 \<Rightarrow> PlatformFlashStatus \<times> host_flash" where
  "Host_FlashErase f page_index =
     (if hf_write_fail f then (PLATFORM_FLASH_ERROR, f)
      else if unat page_index \<ge> HOST_FLASH_PAGES then (PLATFORM_FLASH_INVALID_ARG, f)
      else let off = unat page_index * HOST_FLASH_PAGE_SIZE
      in if off \<ge> HOST_FLASH_SIZE then (PLATFORM_FLASH_INVALID_ARG, f)
         else (PLATFORM_FLASH_OK,
               f\<lparr>hf_data := overwrite (hf_data f) off (replicate HOST_FLASH_PAGE_SIZE 255)\<rparr>))"

definition host_ops :: "host_flash flash_ops" where
  "host_ops =
     \<lparr>fo_info = Some host_info, fo_validate = Host_FlashValidateConfiguration,
      fo_read = Host_FlashRead, fo_write = Host_FlashWrite, fo_erase = Host_FlashErase\<rparr>"

definition host_valid :: "host_flash \<Rightarrow> bool" where
  "host_valid f \<longleftrightarrow> length (hf_data f) = HOST_FLASH_SIZE"

definition host_working :: "host_flash \<Rightarrow> bool" where
  "host_working f \<longleftrightarrow> host_valid f \<and> \<not> hf_write_fail f"

lemma host_info_simps [simp]:
  "unat (fi_page_size host_info) = 2048" "unat (fi_total_size host_info) = 12288"
  "unat (fi_page_count host_info) = 6" "unat (fi_program_unit host_info) = 8"
  by (simp_all add: host_info_def host_geometry)

lemma host_working_init: "host_working HostFlash_Init"
  by (simp add: host_working_def host_valid_def HostFlash_Init_def)

lemma host_read_local:
  "window (hf_data f) (unat off) n = window (hf_data g) (unat off) n \<Longrightarrow>
     Host_FlashRead f off n = Host_FlashRead g off n"
  by (simp add: Host_FlashRead_def)

lemma host_write_cases:
  assumes "Host_FlashWrite f off bs = (st, g)"
  obtains "g = f" "st \<noteq> PLATFORM_FLASH_OK"
  | "st = PLATFORM_FLASH_OK" "unat off + length bs \<le> 12288"
    "g = f\<lparr>hf_data := overwrite (hf_data f) (unat off) bs\<rparr>"
  using assms by (auto simp: Host_FlashWrite_def host_geometry split: if_splits)

lemma host_erase_cases:
  assumes "Host_FlashErase f p = (st, g)"
  obtains "g = f" "st \<noteq> PLATFORM_FLASH_OK"
  | "st = PLATFORM_FLASH_OK" "unat p < 6"
    "g = f\<lparr>hf_data := overwrite (hf_data f) (unat p * 2048) (replicate 2048 255)\<rparr>"
  using assms by (auto simp: Host_FlashErase_def host_geometry Let_def split: if_splits)

interpretation host: flash_device host_ops host_info hf_data host_valid
proof (unfold_locales, goal_cases)
  case (3 f off n bs)
  then show ?case
    by (auto simp: host_ops_def Host_FlashRead_def host_geometry host_valid_def split: if_splits)
next
  case (5 f off bs)
  obtain st g where "Host_FlashWrite f off bs = (st, g)" by (meson surj_pair)
  with 5 show ?case
    by (auto simp: host_ops_def host_valid_def host_geometry elim!: host_write_cases)
next
  case (6 f a n off bs)
  obtain st g where "Host_FlashWrite f off bs = (st, g)" by (meson surj_pair)
  with 6 show ?case
    by (auto simp: host_ops_def host_valid_def host_geometry window_overwrite_before window_overwrite_after elim!: host_write_cases)
next
  case (7 f off bs g)
  then have "Host_FlashWrite f off bs = (PLATFORM_FLASH_OK, g)" by (simp add: host_ops_def)
  with 7 show ?case
    by (auto simp: host_valid_def host_geometry elim!: host_write_cases)
next
  case (8 f p)
  obtain st g where "Host_FlashErase f p = (st, g)" by (meson surj_pair)
  with 8 show ?case
    by (auto simp: host_ops_def host_valid_def host_geometry elim!: host_erase_cases)
next
  case (9 f a n p)
  obtain st g where "Host_FlashErase f p = (st, g)" by (meson surj_pair)
  with 9 show ?case
    by (auto simp: host_ops_def host_valid_def host_geometry window_overwrite_before window_overwrite_after elim!: host_erase_cases)
next
  case (10 f p g)
  then have "Host_FlashErase f p = (PLATFORM_FLASH_OK, g)" by (simp add: host_ops_def)
  with 10 show ?case
    by (auto simp: host_valid_def host_geometry elim!: host_erase_cases)
qed (auto simp: host_ops_def host_valid_def host_geometry intro: host_read_local)

interpretation host: working_flash host_ops host_info hf_data host_valid host_working
proof (unfold_locales, goal_cases)
  case (5 f p)
  then show ?case
    by (auto simp: host_working_def host_valid_def host_ops_def Host_FlashErase_def host_geometry
        Let_def)
qed (auto simp: host_working_def host_valid_def host_ops_def Host_FlashRead_def
    Host_FlashWrite_def host_geometry)

end
