(* ===== verification/Storage_Slots.thy ===== *)
theory Storage_Slots
  imports Storage_Record Flash_Device
begin

text \<open>
  The read side of \<open>Storage/Src/storage.c\<close>: geometry validation, the layout of the A/B
  slots, the classification of one slot, and the read and health matrices over a pair of
  slots. The static variables of the file are the record \<open>storage\<close>; the flash device is
  threaded through and its operations are the argument \<open>ops\<close>. An out-parameter that may
  be NULL is an optional value, returned as the source leaves it.
\<close>

record storage =
  s_initialized :: bool
  s_page_size :: u32
  s_total_size :: u32
  s_page_count :: u32
  s_program_unit :: u32

record StorageRecordLayout =
  slot_a_page :: u32
  slot_b_page :: u32
  slot_a_offset :: u32
  slot_b_offset :: u32

record StorageInfo =
  si_slot_a_valid :: bool
  si_slot_b_valid :: bool
  si_slot_a_sequence :: u32
  si_slot_b_sequence :: u32

datatype StorageReadStatus =
    STORAGE_READ_OK | STORAGE_READ_NOT_FOUND | STORAGE_READ_CORRUPT | STORAGE_READ_IO_ERROR
  | STORAGE_READ_INVALID_ARGUMENT

datatype SlotState =
    SLOT_STATE_ERASED | SLOT_STATE_VALID | SLOT_STATE_CORRUPT | SLOT_STATE_IO_ERROR

record SlotSnapshot =
  ss_state :: SlotState
  ss_header :: StorageRecordHeader
  ss_payload :: StoragePayload

datatype StorageHealth =
    STORAGE_HEALTH_HEALTHY | STORAGE_HEALTH_DEGRADED | STORAGE_HEALTH_DEGRADED_IO
  | STORAGE_HEALTH_CORRUPT | STORAGE_HEALTH_IO_ERROR

section \<open>Layout\<close>

definition Storage_IsInitialized :: "storage \<Rightarrow> bool" where
  "Storage_IsInitialized st = s_initialized st"

definition SlotPage :: "storage \<Rightarrow> u8 \<Rightarrow> u8 \<Rightarrow> (u32 \<times> u32) option" where
  "SlotPage st record_type slot_index =
     (if record_type < RECORD_TYPE_CONFIG \<or> record_type > RECORD_TYPE_REGISTRATION then None
      else if slot_index > 1 then None
      else let base = ucast (record_type - RECORD_TYPE_CONFIG) * 2;
               page = base + ucast slot_index
           in Some (page, page * s_page_size st))"

definition SlotPagePair :: "storage \<Rightarrow> u8 \<Rightarrow> (u32 \<times> u32 \<times> u32 \<times> u32) option" where
  "SlotPagePair st record_type =
     (case SlotPage st record_type 0 of None \<Rightarrow> None
      | Some (pa, oa) \<Rightarrow>
          (case SlotPage st record_type 1 of None \<Rightarrow> None
           | Some (pb, ob) \<Rightarrow> Some (pa, pb, oa, ob)))"

definition Storage_GetLayout :: "storage \<Rightarrow> u8 \<Rightarrow> StorageRecordLayout option" where
  "Storage_GetLayout st record_type =
     (if \<not> s_initialized st then None
      else case SlotPagePair st record_type of None \<Rightarrow> None
      | Some (pa, pb, oa, ob) \<Rightarrow>
          Some \<lparr>slot_a_page = pa, slot_b_page = pb, slot_a_offset = oa, slot_b_offset = ob\<rparr>)"

text \<open>The checks of one iteration of the loop over the record types.\<close>

definition slots_fit :: "storage \<Rightarrow> nat \<Rightarrow> bool" where
  "slots_fit st t =
     (case SlotPagePair st (of_nat t + RECORD_TYPE_CONFIG) of None \<Rightarrow> False
      | Some (pa, pb, oa, ob) \<Rightarrow>
          \<not> (pa = pb) \<and>
          \<not> (pa \<ge> s_page_count st \<or> pb \<ge> s_page_count st) \<and>
          \<not> (oa > s_total_size st \<or> ob > s_total_size st) \<and>
          \<not> (s_page_size st > s_total_size st - oa) \<and>
          \<not> (s_page_size st > s_total_size st - ob) \<and>
          \<not> (of_nat STORAGE_PROGRAM_BUFFER_MAX > s_page_size st))"

definition storage_reset :: storage where
  "storage_reset =
     \<lparr>s_initialized = False, s_page_size = 0, s_total_size = 0, s_page_count = 0,
      s_program_unit = 0\<rparr>"

definition Storage_Init :: "'f flash_ops \<Rightarrow> 'f \<Rightarrow> bool \<times> storage" where
  "Storage_Init ops f =
     (case fo_info ops of None \<Rightarrow> (False, storage_reset)
      | Some info \<Rightarrow>
        if fo_validate ops f \<noteq> PLATFORM_FLASH_OK then (False, storage_reset)
        else if fi_program_unit info = 0 then (False, storage_reset)
        else if fi_program_unit info > STORAGE_PROGRAM_UNIT_MAX then (False, storage_reset)
        else if fi_program_unit info AND (fi_program_unit info - 1) \<noteq> 0 then (False, storage_reset)
        else if fi_page_size info = 0 then (False, storage_reset)
        else if fi_page_count info < STORAGE_MIN_PAGES then (False, storage_reset)
        else if fi_page_size info < of_nat STORAGE_HEADER_SIZE + 1 then (False, storage_reset)
        else if fi_total_size info = 0 then (False, storage_reset)
        else if (ucast (fi_page_count info) * ucast (fi_page_size info) :: u64)
                  \<noteq> ucast (fi_total_size info) then (False, storage_reset)
        else let st = storage_reset\<lparr>s_page_size := fi_page_size info,
                                    s_total_size := fi_total_size info,
                                    s_page_count := fi_page_count info,
                                    s_program_unit := fi_program_unit info\<rparr>
             in if list_all (slots_fit st) [0..<STORAGE_RECORD_TYPES]
                then (True, st\<lparr>s_initialized := True\<rparr>)
                else (False, st))"

section \<open>One slot\<close>

definition Storage_ReadSlot ::
  "'f flash_ops \<Rightarrow> storage \<Rightarrow> 'f \<Rightarrow> u8 \<Rightarrow> u8 \<Rightarrow> StorageRecordHeader option \<Rightarrow> StoragePayload option \<Rightarrow>
   SlotState \<times> StorageRecordHeader option \<times> StoragePayload option" where
  "Storage_ReadSlot ops st f expected_record_type slot_index header payload =
     (if \<not> s_initialized st then (SLOT_STATE_IO_ERROR, header, payload)
      else if slot_index > 1 then (SLOT_STATE_IO_ERROR, header, payload)
      else case SlotPage st expected_record_type slot_index of
        None \<Rightarrow> (SLOT_STATE_IO_ERROR, header, payload)
      | Some (page, offset) \<Rightarrow>
        (case fo_read ops f offset STORAGE_HEADER_SIZE of (rs, raw_hdr) \<Rightarrow>
         if rs \<noteq> PLATFORM_FLASH_OK then (SLOT_STATE_IO_ERROR, header, payload)
         else if list_all (\<lambda>b. b = 255) raw_hdr
         then (SLOT_STATE_ERASED, map_option (\<lambda>_. zero_header) header, payload)
         else let hdr = header_of_bytes raw_hdr in
         if hdr_magic hdr \<noteq> STORAGE_MAGIC then (SLOT_STATE_CORRUPT, header, payload)
         else if hdr_record_format_version hdr \<noteq> STORAGE_RECORD_FORMAT_VERSION
         then (SLOT_STATE_CORRUPT, header, payload)
         else if hdr_record_type hdr \<noteq> expected_record_type
         then (SLOT_STATE_CORRUPT, header, payload)
         else if unat (hdr_payload_size hdr) > STORAGE_PAYLOAD_MAX
         then (SLOT_STATE_CORRUPT, header, payload)
         else if hdr_reserved hdr \<noteq> 0 then (SLOT_STATE_CORRUPT, header, payload)
         else if hdr_reserved2 hdr \<noteq> 0 then (SLOT_STATE_CORRUPT, header, payload)
         else let
           expected_crc = hdr_crc32 hdr;
           n = unat (hdr_payload_size hdr);
           (ps, body) = (if n > 0 then fo_read ops f (offset + of_nat STORAGE_HEADER_SIZE) n
                         else (PLATFORM_FLASH_OK, []))
         in if ps \<noteq> PLATFORM_FLASH_OK then (SLOT_STATE_IO_ERROR, header, payload)
         else let
           raw = header_bytes (hdr\<lparr>hdr_crc32 := 0\<rparr>) @ body;
           calc_crc = Storage_Crc32 raw
         in if calc_crc \<noteq> expected_crc then (SLOT_STATE_CORRUPT, header, payload)
         else (SLOT_STATE_VALID, map_option (\<lambda>_. hdr) header,
               map_option (\<lambda>p. p\<lparr>pl_record_type := hdr_record_type hdr,
                                 pl_sequence := hdr_sequence hdr,
                                 pl_size := n,
                                 pl_data := (if n > 0 then overwrite (pl_data p) 0 body
                                             else pl_data p)\<rparr>) payload)))"

definition ReadSlotSnapshot ::
  "'f flash_ops \<Rightarrow> storage \<Rightarrow> 'f \<Rightarrow> u8 \<Rightarrow> u8 \<Rightarrow> SlotSnapshot" where
  "ReadSlotSnapshot ops st f record_type slot_index =
     (case Storage_ReadSlot ops st f record_type slot_index (Some zero_header) (Some zero_payload) of
        (state, header, payload) \<Rightarrow>
          \<lparr>ss_state = state, ss_header = the header, ss_payload = the payload\<rparr>)"

definition SelectNewest :: "SlotSnapshot \<Rightarrow> SlotSnapshot \<Rightarrow> u8" where
  "SelectNewest a b =
     (if sint (hdr_sequence (ss_header a) - hdr_sequence (ss_header b)) \<ge> 0 then 0 else 1)"

section \<open>A pair of slots\<close>

text \<open>\<open>CopyPayload\<close> and the two reads are inlined; the order of the tests is the source's.\<close>

definition Storage_Read ::
  "'f flash_ops \<Rightarrow> storage \<Rightarrow> 'f \<Rightarrow> u8 \<Rightarrow> StoragePayload option \<Rightarrow>
   StorageReadStatus \<times> StoragePayload option" where
  "Storage_Read ops st f record_type payload =
     (case payload of None \<Rightarrow> (STORAGE_READ_INVALID_ARGUMENT, None)
      | Some _ \<Rightarrow>
        if \<not> s_initialized st then (STORAGE_READ_IO_ERROR, payload)
        else if Storage_GetLayout st record_type = None
        then (STORAGE_READ_INVALID_ARGUMENT, payload)
        else let
          a = ReadSlotSnapshot ops st f record_type 0;
          b = ReadSlotSnapshot ops st f record_type 1;
          a_valid = (ss_state a = SLOT_STATE_VALID);
          b_valid = (ss_state b = SLOT_STATE_VALID)
        in
        if a_valid \<and> b_valid
        then (STORAGE_READ_OK, Some (ss_payload (if SelectNewest a b = 0 then a else b)))
        else if a_valid \<and> ss_state b = SLOT_STATE_CORRUPT then (STORAGE_READ_OK, Some (ss_payload a))
        else if b_valid \<and> ss_state a = SLOT_STATE_CORRUPT then (STORAGE_READ_OK, Some (ss_payload b))
        else if a_valid \<and> ss_state b = SLOT_STATE_ERASED then (STORAGE_READ_OK, Some (ss_payload a))
        else if b_valid \<and> ss_state a = SLOT_STATE_ERASED then (STORAGE_READ_OK, Some (ss_payload b))
        else if a_valid \<and> ss_state b = SLOT_STATE_IO_ERROR then (STORAGE_READ_OK, Some (ss_payload a))
        else if b_valid \<and> ss_state a = SLOT_STATE_IO_ERROR then (STORAGE_READ_OK, Some (ss_payload b))
        else if ss_state a = SLOT_STATE_IO_ERROR \<or> ss_state b = SLOT_STATE_IO_ERROR
        then (STORAGE_READ_IO_ERROR, payload)
        else if ss_state a = SLOT_STATE_ERASED \<and> ss_state b = SLOT_STATE_ERASED
        then (STORAGE_READ_NOT_FOUND, payload)
        else (STORAGE_READ_CORRUPT, payload))"

definition Storage_GetHealth :: "'f flash_ops \<Rightarrow> storage \<Rightarrow> 'f \<Rightarrow> u8 \<Rightarrow> StorageHealth" where
  "Storage_GetHealth ops st f record_type =
     (if \<not> s_initialized st then STORAGE_HEALTH_IO_ERROR
      else if Storage_GetLayout st record_type = None then STORAGE_HEALTH_IO_ERROR
      else let
        a = ReadSlotSnapshot ops st f record_type 0;
        b = ReadSlotSnapshot ops st f record_type 1;
        a_valid = (ss_state a = SLOT_STATE_VALID);
        b_valid = (ss_state b = SLOT_STATE_VALID)
      in
      if a_valid \<and> b_valid then STORAGE_HEALTH_HEALTHY
      else if a_valid \<and> ss_state b = SLOT_STATE_IO_ERROR then STORAGE_HEALTH_DEGRADED_IO
      else if b_valid \<and> ss_state a = SLOT_STATE_IO_ERROR then STORAGE_HEALTH_DEGRADED_IO
      else if ss_state a = SLOT_STATE_IO_ERROR \<or> ss_state b = SLOT_STATE_IO_ERROR
      then STORAGE_HEALTH_IO_ERROR
      else if a_valid \<or> b_valid then STORAGE_HEALTH_DEGRADED
      else if ss_state a = SLOT_STATE_CORRUPT \<or> ss_state b = SLOT_STATE_CORRUPT
      then STORAGE_HEALTH_CORRUPT
      else if ss_state a = SLOT_STATE_ERASED \<and> ss_state b = SLOT_STATE_ERASED
      then STORAGE_HEALTH_HEALTHY
      else STORAGE_HEALTH_CORRUPT)"

definition Storage_GetPageInfo ::
  "'f flash_ops \<Rightarrow> storage \<Rightarrow> 'f \<Rightarrow> u8 \<Rightarrow> bool \<times> StorageInfo" where
  "Storage_GetPageInfo ops st f record_type =
     (let none = \<lparr>si_slot_a_valid = False, si_slot_b_valid = False,
                  si_slot_a_sequence = 0, si_slot_b_sequence = 0\<rparr> in
      if \<not> s_initialized st then (False, none)
      else if Storage_GetLayout st record_type = None then (False, none)
      else let
        a = ReadSlotSnapshot ops st f record_type 0;
        b = ReadSlotSnapshot ops st f record_type 1;
        av = (ss_state a = SLOT_STATE_VALID);
        bv = (ss_state b = SLOT_STATE_VALID)
      in (\<not> (ss_state a = SLOT_STATE_IO_ERROR \<or> ss_state b = SLOT_STATE_IO_ERROR),
          \<lparr>si_slot_a_valid = av, si_slot_b_valid = bv,
           si_slot_a_sequence = (if av then hdr_sequence (ss_header a) else 0),
           si_slot_b_sequence = (if bv then hdr_sequence (ss_header b) else 0)\<rparr>))"

definition Storage_GetInfo :: "'f flash_ops \<Rightarrow> storage \<Rightarrow> 'f \<Rightarrow> StorageInfo" where
  "Storage_GetInfo ops st f = snd (Storage_GetPageInfo ops st f RECORD_TYPE_CONFIG)"

end
