(* ===== verification/Storage_Write.thy ===== *)
theory Storage_Write
  imports Storage_Slots
begin

text \<open>
  The write side of \<open>Storage/Src/storage.c\<close>: choice of the slot, programming and
  verifying a record, redundancy repair, recovery of a corrupt record and formatting.
  Every operation returns its status and the flash device as it leaves it. A data pointer
  that may be NULL is a list option beside its size.
\<close>

datatype StorageWriteStatus =
    STORAGE_WRITE_OK | STORAGE_WRITE_INVALID_ARGUMENT | STORAGE_WRITE_IO_ERROR
  | STORAGE_WRITE_UNSAFE_STATE | STORAGE_WRITE_VERIFY_FAILED

datatype StorageRecoveryStatus =
    STORAGE_RECOVERY_OK | STORAGE_RECOVERY_NOT_NEEDED | STORAGE_RECOVERY_INVALID_ARGUMENT
  | STORAGE_RECOVERY_IO_ERROR | STORAGE_RECOVERY_FAILED

datatype StorageRepairStatus =
    STORAGE_REPAIR_DONE | STORAGE_REPAIR_NOT_NEEDED | STORAGE_REPAIR_NOT_FOUND
  | STORAGE_REPAIR_REFUSED | STORAGE_REPAIR_INVALID_ARGUMENT

section \<open>Choosing the slot\<close>

text \<open>The slot to write and the sequence it follows; \<open>None\<close> is the source's 0xFF.\<close>

definition SelectWriteSlot :: "'f flash_ops \<Rightarrow> storage \<Rightarrow> 'f \<Rightarrow> u8 \<Rightarrow> (u8 \<times> u32) option" where
  "SelectWriteSlot ops st f record_type =
     (let a = ReadSlotSnapshot ops st f record_type 0;
          b = ReadSlotSnapshot ops st f record_type 1
      in
      if ss_state a = SLOT_STATE_IO_ERROR \<or> ss_state b = SLOT_STATE_IO_ERROR then None
      else if ss_state a = SLOT_STATE_ERASED \<and> ss_state b = SLOT_STATE_ERASED then Some (0, 0)
      else if ss_state a = SLOT_STATE_VALID \<and> ss_state b = SLOT_STATE_ERASED
      then Some (1, hdr_sequence (ss_header a))
      else if ss_state b = SLOT_STATE_VALID \<and> ss_state a = SLOT_STATE_ERASED
      then Some (0, hdr_sequence (ss_header b))
      else if ss_state a = SLOT_STATE_VALID \<and> ss_state b = SLOT_STATE_CORRUPT
      then Some (1, hdr_sequence (ss_header a))
      else if ss_state b = SLOT_STATE_VALID \<and> ss_state a = SLOT_STATE_CORRUPT
      then Some (0, hdr_sequence (ss_header b))
      else if ss_state a = SLOT_STATE_VALID \<and> ss_state b = SLOT_STATE_VALID
      then let a_newer = (sint (hdr_sequence (ss_header a) - hdr_sequence (ss_header b)) \<ge> 0)
           in Some (if a_newer then 1 else 0,
                    if a_newer then hdr_sequence (ss_header a) else hdr_sequence (ss_header b))
      else None)"

section \<open>Programming a record\<close>

definition aligned_size :: "u32 \<Rightarrow> nat \<Rightarrow> nat" where
  "aligned_size program_unit tot =
     unat ((of_nat tot + program_unit - 1) AND NOT (program_unit - 1))"

definition record_header :: "u8 \<Rightarrow> nat \<Rightarrow> u32 \<Rightarrow> StorageRecordHeader" where
  "record_header record_type sz seq =
     zero_header\<lparr>hdr_magic := STORAGE_MAGIC,
                 hdr_record_format_version := STORAGE_RECORD_FORMAT_VERSION,
                 hdr_payload_size := of_nat sz,
                 hdr_record_type := record_type,
                 hdr_sequence := seq\<rparr>"

text \<open>
  The program buffer: erased bytes, the header and the data over them, and at the end the
  header again with the checksum of the \<open>total\<close> bytes in it.
\<close>

definition program_buffer :: "u8 \<Rightarrow> bytes \<Rightarrow> nat \<Rightarrow> u32 \<Rightarrow> bytes" where
  "program_buffer record_type data sz seq =
     (let tot = STORAGE_HEADER_SIZE + sz;
          hdr = record_header record_type sz seq;
          buf0 = replicate STORAGE_PROGRAM_BUFFER_MAX (255 :: u8);
          buf1 = overwrite buf0 0 (header_bytes hdr);
          buf2 = (if sz > 0 then overwrite buf1 STORAGE_HEADER_SIZE (take sz data) else buf1);
          buf3 = overwrite buf2 0 (header_bytes (hdr\<lparr>hdr_crc32 := 0\<rparr>));
          crc = Storage_Crc32 (take tot buf3)
      in overwrite buf3 0 (header_bytes (hdr\<lparr>hdr_crc32 := crc\<rparr>)))"

definition WriteProgramRecord ::
  "'f flash_ops \<Rightarrow> storage \<Rightarrow> 'f \<Rightarrow> u32 \<Rightarrow> u8 \<Rightarrow> bytes option \<Rightarrow> nat \<Rightarrow> u32 \<Rightarrow>
   StorageWriteStatus \<times> 'f" where
  "WriteProgramRecord ops st f write_offset record_type data sz seq =
     (if sz > STORAGE_PAYLOAD_MAX then (STORAGE_WRITE_INVALID_ARGUMENT, f)
      else if data = None \<and> sz > 0 then (STORAGE_WRITE_INVALID_ARGUMENT, f)
      else if \<not> s_initialized st then (STORAGE_WRITE_IO_ERROR, f)
      else if s_program_unit st = 0 \<or> s_program_unit st AND (s_program_unit st - 1) \<noteq> 0
      then (STORAGE_WRITE_IO_ERROR, f)
      else let
        tot = STORAGE_HEADER_SIZE + sz;
        aligned = aligned_size (s_program_unit st) tot
      in
      if aligned < tot then (STORAGE_WRITE_INVALID_ARGUMENT, f)
      else if aligned > STORAGE_PROGRAM_BUFFER_MAX then (STORAGE_WRITE_INVALID_ARGUMENT, f)
      else if aligned > unat (s_page_size st) then (STORAGE_WRITE_INVALID_ARGUMENT, f)
      else let
        program_buf = program_buffer record_type (case data of None \<Rightarrow> [] | Some d \<Rightarrow> d) sz seq;
        (ws, f1) = fo_write ops f write_offset (take aligned program_buf)
      in
      if ws \<noteq> PLATFORM_FLASH_OK then (STORAGE_WRITE_IO_ERROR, f1)
      else case fo_read ops f1 write_offset tot of (rs, verify) \<Rightarrow>
        if rs \<noteq> PLATFORM_FLASH_OK then (STORAGE_WRITE_IO_ERROR, f1)
        else if take tot program_buf \<noteq> verify then (STORAGE_WRITE_VERIFY_FAILED, f1)
        else (STORAGE_WRITE_OK, f1))"

definition Storage_WriteEx ::
  "'f flash_ops \<Rightarrow> storage \<Rightarrow> 'f \<Rightarrow> u8 \<Rightarrow> bytes option \<Rightarrow> nat \<Rightarrow> StorageWriteStatus \<times> 'f" where
  "Storage_WriteEx ops st f record_type data sz =
     (if \<not> s_initialized st then (STORAGE_WRITE_IO_ERROR, f)
      else if sz > STORAGE_PAYLOAD_MAX then (STORAGE_WRITE_INVALID_ARGUMENT, f)
      else if data = None \<and> sz > 0 then (STORAGE_WRITE_INVALID_ARGUMENT, f)
      else case Storage_GetLayout st record_type of
        None \<Rightarrow> (STORAGE_WRITE_INVALID_ARGUMENT, f)
      | Some layout \<Rightarrow>
        (case SelectWriteSlot ops st f record_type of
           None \<Rightarrow> (STORAGE_WRITE_UNSAFE_STATE, f)
         | Some (write_slot, current_seq) \<Rightarrow>
           let write_page = (if write_slot = 0 then slot_a_page layout else slot_b_page layout);
               write_offset = (if write_slot = 0 then slot_a_offset layout else slot_b_offset layout);
               next_seq = (if current_seq + 1 = 0 then 1 else current_seq + 1)
           in case fo_erase ops f write_page of (es, f1) \<Rightarrow>
             if es \<noteq> PLATFORM_FLASH_OK then (STORAGE_WRITE_IO_ERROR, f1)
             else WriteProgramRecord ops st f1 write_offset record_type data sz next_seq))"

definition Storage_Write ::
  "'f flash_ops \<Rightarrow> storage \<Rightarrow> 'f \<Rightarrow> u8 \<Rightarrow> bytes option \<Rightarrow> nat \<Rightarrow> bool \<times> 'f" where
  "Storage_Write ops st f record_type data sz =
     (case Storage_WriteEx ops st f record_type data sz of
        (s, f1) \<Rightarrow> (s = STORAGE_WRITE_OK, f1))"

section \<open>Repair, recovery and formatting\<close>

definition Storage_EnsureRedundancy ::
  "'f flash_ops \<Rightarrow> storage \<Rightarrow> 'f \<Rightarrow> u8 \<Rightarrow> StorageRepairStatus \<times> 'f" where
  "Storage_EnsureRedundancy ops st f record_type =
     (case Storage_GetLayout st record_type of
        None \<Rightarrow> (STORAGE_REPAIR_INVALID_ARGUMENT, f)
      | Some layout \<Rightarrow>
        if \<not> s_initialized st then (STORAGE_REPAIR_REFUSED, f)
        else let
          a = ReadSlotSnapshot ops st f record_type 0;
          b = ReadSlotSnapshot ops st f record_type 1;
          a_valid = (ss_state a = SLOT_STATE_VALID);
          b_valid = (ss_state b = SLOT_STATE_VALID)
        in
        if a_valid \<and> b_valid then (STORAGE_REPAIR_NOT_NEEDED, f)
        else if ss_state a = SLOT_STATE_ERASED \<and> ss_state b = SLOT_STATE_ERASED
        then (STORAGE_REPAIR_NOT_FOUND, f)
        else if ss_state a = SLOT_STATE_IO_ERROR \<or> ss_state b = SLOT_STATE_IO_ERROR
        then (STORAGE_REPAIR_REFUSED, f)
        else if \<not> (a_valid \<and> \<not> b_valid) \<and> \<not> (b_valid \<and> \<not> a_valid)
        then (STORAGE_REPAIR_REFUSED, f)
        else let
          peer_slot = (if a_valid then 1 else 0 :: u8);
          valid_src = (if a_valid then a else b);
          peer_page = (if peer_slot = 0 then slot_a_page layout else slot_b_page layout);
          peer_offset = (if peer_slot = 0 then slot_a_offset layout else slot_b_offset layout);
          payload_size = unat (hdr_payload_size (ss_header valid_src))
        in
        if payload_size > STORAGE_PAYLOAD_MAX then (STORAGE_REPAIR_REFUSED, f)
        else let
          next_seq = hdr_sequence (ss_header valid_src) + 1;
          next_seq = (if next_seq = 0 then 1 else next_seq);
          (es, f1) = fo_erase ops f peer_page
        in
        if es \<noteq> PLATFORM_FLASH_OK then (STORAGE_REPAIR_REFUSED, f1)
        else case WriteProgramRecord ops st f1 peer_offset record_type
                    (Some (pl_data (ss_payload valid_src))) payload_size next_seq of
          (ws, f2) \<Rightarrow> (if ws \<noteq> STORAGE_WRITE_OK then STORAGE_REPAIR_REFUSED else STORAGE_REPAIR_DONE,
                      f2))"

definition Storage_RecoverCorruptRecord ::
  "'f flash_ops \<Rightarrow> storage \<Rightarrow> 'f \<Rightarrow> u8 \<Rightarrow> bytes option \<Rightarrow> nat \<Rightarrow> StorageRecoveryStatus \<times> 'f" where
  "Storage_RecoverCorruptRecord ops st f record_type data sz =
     (if \<not> s_initialized st then (STORAGE_RECOVERY_FAILED, f)
      else if sz > STORAGE_PAYLOAD_MAX then (STORAGE_RECOVERY_INVALID_ARGUMENT, f)
      else if data = None \<and> sz > 0 then (STORAGE_RECOVERY_INVALID_ARGUMENT, f)
      else case Storage_GetLayout st record_type of
        None \<Rightarrow> (STORAGE_RECOVERY_INVALID_ARGUMENT, f)
      | Some layout \<Rightarrow>
        let
          a = ReadSlotSnapshot ops st f record_type 0;
          b = ReadSlotSnapshot ops st f record_type 1
        in
        if ss_state a = SLOT_STATE_IO_ERROR \<or> ss_state b = SLOT_STATE_IO_ERROR
        then (STORAGE_RECOVERY_IO_ERROR, f)
        else let
          a_valid = (ss_state a = SLOT_STATE_VALID);
          b_valid = (ss_state b = SLOT_STATE_VALID);
          a_corrupt = (ss_state a = SLOT_STATE_CORRUPT);
          b_corrupt = (ss_state b = SLOT_STATE_CORRUPT)
        in
        if a_valid \<or> b_valid then (STORAGE_RECOVERY_NOT_NEEDED, f)
        else if ss_state a = SLOT_STATE_ERASED \<and> ss_state b = SLOT_STATE_ERASED
        then (STORAGE_RECOVERY_NOT_NEEDED, f)
        else if \<not> a_corrupt \<and> \<not> b_corrupt then (STORAGE_RECOVERY_NOT_NEEDED, f)
        else case fo_erase ops f (slot_a_page layout) of (ea, f1) \<Rightarrow>
          if ea \<noteq> PLATFORM_FLASH_OK then (STORAGE_RECOVERY_FAILED, f1)
          else case fo_erase ops f1 (slot_b_page layout) of (eb, f2) \<Rightarrow>
            if eb \<noteq> PLATFORM_FLASH_OK then (STORAGE_RECOVERY_FAILED, f2)
            else case WriteProgramRecord ops st f2 (slot_a_offset layout) record_type data sz 1 of
              (ws, f3) \<Rightarrow>
                (if ws \<noteq> STORAGE_WRITE_OK then STORAGE_RECOVERY_FAILED else STORAGE_RECOVERY_OK,
                 f3))"

definition Storage_FormatRecord :: "'f flash_ops \<Rightarrow> storage \<Rightarrow> 'f \<Rightarrow> u8 \<Rightarrow> bool \<times> 'f" where
  "Storage_FormatRecord ops st f record_type =
     (if \<not> s_initialized st then (False, f)
      else case Storage_GetLayout st record_type of None \<Rightarrow> (False, f)
      | Some layout \<Rightarrow>
        (case fo_erase ops f (slot_a_page layout) of (ea, f1) \<Rightarrow>
         if ea \<noteq> PLATFORM_FLASH_OK then (False, f1)
         else case fo_erase ops f1 (slot_b_page layout) of (eb, f2) \<Rightarrow>
           (eb = PLATFORM_FLASH_OK, f2)))"

text \<open>The loop of \<open>Storage_Format\<close>, from page \<open>p\<close> on.\<close>

fun format_pages :: "'f flash_ops \<Rightarrow> 'f \<Rightarrow> nat list \<Rightarrow> bool \<times> 'f" where
  "format_pages ops f [] = (True, f)"
| "format_pages ops f (p # ps) =
     (case fo_erase ops f (of_nat p) of (es, f1) \<Rightarrow>
        if es \<noteq> PLATFORM_FLASH_OK then (False, f1) else format_pages ops f1 ps)"

definition Storage_Format :: "'f flash_ops \<Rightarrow> storage \<Rightarrow> 'f \<Rightarrow> bool \<times> 'f" where
  "Storage_Format ops st f =
     (if \<not> s_initialized st then (False, f)
      else format_pages ops f [0..<STORAGE_OWNED_PAGES])"

end
