(* ===== verification/Storage_View.thy ===== *)
theory Storage_View
  imports Storage_Write
begin

text \<open>
  What the bytes of a page mean. \<open>slot_view\<close> is the content of a slot as a function of
  its page; the lemmas show that \<open>Storage_ReadSlot\<close> computes it on every device whose
  reads succeed, that \<open>Storage_Init\<close> admits only geometries where the six slots are
  disjoint and in bounds, and that the program buffer is the image of a valid slot.
\<close>

definition record_type_ok :: "u8 \<Rightarrow> bool" where
  "record_type_ok rt \<longleftrightarrow> rt = RECORD_TYPE_CONFIG \<or> rt = RECORD_TYPE_IDENTITY \<or> rt = RECORD_TYPE_REGISTRATION"

definition page_of :: "u8 \<Rightarrow> u8 \<Rightarrow> nat" where
  "page_of rt i = 2 * (unat rt - 1) + unat i"

definition storage_ready :: "PlatformFlashInfo \<Rightarrow> storage \<Rightarrow> bool" where
  "storage_ready info st \<longleftrightarrow>
     s_initialized st \<and>
     s_page_size st = fi_page_size info \<and> s_total_size st = fi_total_size info \<and>
     s_page_count st = fi_page_count info \<and> s_program_unit st = fi_program_unit info \<and>
     280 \<le> unat (fi_page_size info) \<and> 6 \<le> unat (fi_page_count info) \<and>
     unat (fi_page_count info) * unat (fi_page_size info) = unat (fi_total_size info) \<and>
     fi_program_unit info \<in> {1, 2, 4, 8}"

section \<open>Geometry\<close>

lemma small_power_of_two:
  assumes "(u :: u32) \<noteq> 0" "\<not> u > 8" "u AND (u - 1) = 0"
  shows "u \<in> {1, 2, 4, 8}"
proof -
  have "unat u \<le> 8" using assms(2) by (simp add: word_less_nat_alt not_less)
  then have "unat u \<in> {0, 1, 2, 3, 4, 5, 6, 7, 8}" by auto
  then have "u \<in> {0, 1, 2, 3, 4, 5, 6, 7, 8}" by (simp add: word_unat_eq_iff)
  then show ?thesis using assms(1,3) by auto
qed

lemma u64_product:
  assumes "(ucast (a :: u32) * ucast (b :: u32) :: u64) = ucast (c :: u32)"
  shows "unat a * unat b = unat c"
proof -
  have a: "unat a < 2 ^ 32" and b: "unat b < 2 ^ 32" and c: "unat c < 2 ^ 32"
    using unat_u32_less[of a] unat_u32_less[of b] unat_u32_less[of c] by simp_all
  have "unat a * unat b < 2 ^ 32 * 2 ^ 32"
    using a b by (intro mult_strict_mono) simp_all
  then have ab: "unat a * unat b < 2 ^ 64" by simp
  have "unat (ucast a * ucast b :: u64) = unat (ucast c :: u64)" using assms by simp
  moreover have "unat (ucast a * ucast b :: u64) = unat a * unat b"
    using a b ab by (simp add: unat_word_ariths unsigned_ucast_eq take_bit_eq_mod)
  moreover have "unat (ucast c :: u64) = unat c"
    using c by (simp add: unsigned_ucast_eq take_bit_eq_mod)
  ultimately show ?thesis by simp
qed

lemma storage_init_ready:
  assumes "fo_info ops = Some info" "fst (Storage_Init ops f)"
  shows "storage_ready info (snd (Storage_Init ops f))"
proof -
  let ?st = "storage_reset\<lparr>s_page_size := fi_page_size info, s_total_size := fi_total_size info,
    s_page_count := fi_page_count info, s_program_unit := fi_program_unit info\<rparr>"
  have guards: "fi_program_unit info \<noteq> 0" "\<not> fi_program_unit info > STORAGE_PROGRAM_UNIT_MAX"
    "fi_program_unit info AND (fi_program_unit info - 1) = 0"
    "\<not> fi_page_count info < STORAGE_MIN_PAGES"
    "(ucast (fi_page_count info) * ucast (fi_page_size info) :: u64) = ucast (fi_total_size info)"
    "list_all (slots_fit ?st) [0..<STORAGE_RECORD_TYPES]"
    and st: "snd (Storage_Init ops f) = ?st\<lparr>s_initialized := True\<rparr>"
    using assms by (auto simp: Storage_Init_def Let_def split: if_splits)
  have "slots_fit ?st 0" using guards(6) by (simp add: STORAGE_RECORD_TYPES_def upt_conv_Cons)
  then have "280 \<le> unat (fi_page_size info)"
    by (simp add: slots_fit_def STORAGE_PROGRAM_BUFFER_MAX_def word_less_nat_alt not_less
        split: option.splits prod.splits)
  moreover have "6 \<le> unat (fi_page_count info)"
    using guards(4) by (simp add: STORAGE_MIN_PAGES_def word_less_nat_alt not_less)
  moreover have "fi_program_unit info \<in> {1, 2, 4, 8}"
    using guards(1-3) by (intro small_power_of_two) (simp_all add: STORAGE_PROGRAM_UNIT_MAX_def)
  moreover note u64_product[OF guards(5)]
  ultimately show ?thesis by (simp add: storage_ready_def st)
qed

lemma page_of_less: "record_type_ok rt \<Longrightarrow> i < 2 \<Longrightarrow> page_of rt i < 6"
  by (auto simp: record_type_ok_def record_types page_of_def word_less_nat_alt)

lemma page_of_inj:
  assumes "record_type_ok rt" "record_type_ok rt'" "i < 2" "i' < 2" "page_of rt i = page_of rt' i'"
  shows "rt = rt' \<and> i = i'"
proof -
  have "unat i < 2" "unat i' < 2" using assms(3,4) by (simp_all add: word_less_nat_alt)
  then have "unat i = unat i' \<and> rt = rt'"
    using assms(1,2,5) by (auto simp: record_type_ok_def record_types page_of_def)
  then show ?thesis by (simp add: word_unat_eq_iff)
qed

lemma page_span:
  assumes "storage_ready info st" "p < 6"
  shows "p * unat (fi_page_size info) + unat (fi_page_size info) \<le> unat (fi_total_size info)"
proof -
  have "Suc p * unat (fi_page_size info) \<le> unat (fi_page_count info) * unat (fi_page_size info)"
    using assms unfolding storage_ready_def by (intro mult_right_mono) simp_all
  then show ?thesis using assms(1) by (simp add: storage_ready_def)
qed

lemma SlotPage_ok:
  assumes "storage_ready info st" "record_type_ok rt" "i < 2"
  obtains page off where "SlotPage st rt i = Some (page, off)"
    "unat page = page_of rt i" "unat off = page_of rt i * unat (fi_page_size info)"
proof -
  define page :: u32 where "page = ucast (rt - RECORD_TYPE_CONFIG) * 2 + ucast i"
  have i: "unat i < 2" using assms(3) by (simp add: word_less_nat_alt)
  then have iu: "unat (ucast i :: u32) = unat i"
    by (simp add: unsigned_ucast_eq take_bit_eq_mod)
  have page: "unat page = page_of rt i"
    using assms(2) i iu by (auto simp: page_def page_of_def record_type_ok_def record_types unat_word_ariths)
  have bound: "page_of rt i * unat (fi_page_size info) < 2 ^ 32"
    using page_span[OF assms(1) page_of_less[OF assms(2,3)]] assms(1) unat_u32_less[of "fi_total_size info"]
    by (simp add: storage_ready_def)
  have "SlotPage st rt i = Some (page, page * s_page_size st)"
    using assms(2,3) i by (auto simp: SlotPage_def page_def Let_def record_type_ok_def record_types word_less_nat_alt)
  moreover have "unat (page * s_page_size st) = page_of rt i * unat (fi_page_size info)"
    using assms(1) bound page by (simp add: storage_ready_def unat_word_ariths)
  ultimately show ?thesis using that page by blast
qed

lemma record_type_ok_iff: "record_type_ok rt \<longleftrightarrow> \<not> (rt < RECORD_TYPE_CONFIG \<or> rt > RECORD_TYPE_REGISTRATION)"
proof
  assume "\<not> (rt < RECORD_TYPE_CONFIG \<or> rt > RECORD_TYPE_REGISTRATION)"
  then have "unat rt \<in> {1, 2, 3}" by (auto simp: record_types word_less_nat_alt)
  then show "record_type_ok rt"
    by (simp add: record_type_ok_def record_types word_unat_eq_iff)
qed (auto simp: record_type_ok_def record_types)

lemma GetLayout_None: "\<not> record_type_ok rt \<Longrightarrow> Storage_GetLayout st rt = None"
  by (simp add: Storage_GetLayout_def SlotPagePair_def SlotPage_def record_type_ok_iff)

lemma GetLayout_Some:
  assumes "storage_ready info st" "record_type_ok rt"
  obtains l where "Storage_GetLayout st rt = Some l"
    "unat (slot_a_page l) = page_of rt 0" "unat (slot_b_page l) = page_of rt 1"
    "unat (slot_a_offset l) = page_of rt 0 * unat (fi_page_size info)"
    "unat (slot_b_offset l) = page_of rt 1 * unat (fi_page_size info)"
proof -
  have lt: "(0 :: u8) < 2" "(1 :: u8) < 2" by simp_all
  obtain pa oa where a: "SlotPage st rt 0 = Some (pa, oa)" "unat pa = page_of rt 0"
    "unat oa = page_of rt 0 * unat (fi_page_size info)" using SlotPage_ok[OF assms lt(1)] .
  obtain pb ob where b: "SlotPage st rt 1 = Some (pb, ob)" "unat pb = page_of rt 1"
    "unat ob = page_of rt 1 * unat (fi_page_size info)" using SlotPage_ok[OF assms lt(2)] .
  show ?thesis
    using a b assms(1) by (intro that) (auto simp: Storage_GetLayout_def SlotPagePair_def storage_ready_def)
qed


section \<open>The content of a slot\<close>

definition header_ok :: "u8 \<Rightarrow> StorageRecordHeader \<Rightarrow> bool" where
  "header_ok rt h \<longleftrightarrow>
     hdr_magic h = STORAGE_MAGIC \<and> hdr_record_format_version h = STORAGE_RECORD_FORMAT_VERSION \<and>
     hdr_record_type h = rt \<and> unat (hdr_payload_size h) \<le> STORAGE_PAYLOAD_MAX \<and>
     hdr_reserved h = 0 \<and> hdr_reserved2 h = 0"

definition slot_payload :: "StorageRecordHeader \<Rightarrow> bytes \<Rightarrow> StoragePayload" where
  "slot_payload h body =
     zero_payload\<lparr>pl_record_type := hdr_record_type h, pl_sequence := hdr_sequence h,
                  pl_size := length body, pl_data := overwrite (pl_data zero_payload) 0 body\<rparr>"

definition slot_view :: "u8 \<Rightarrow> bytes \<Rightarrow> SlotSnapshot" where
  "slot_view rt page =
     (let raw = take 22 page; h = header_of_bytes raw;
          body = window page 22 (unat (hdr_payload_size h));
          bad = \<lparr>ss_state = SLOT_STATE_CORRUPT, ss_header = zero_header, ss_payload = zero_payload\<rparr>
      in
      if list_all (\<lambda>b. b = 255) raw
      then \<lparr>ss_state = SLOT_STATE_ERASED, ss_header = zero_header, ss_payload = zero_payload\<rparr>
      else if \<not> header_ok rt h then bad
      else if Storage_Crc32 (header_bytes (h\<lparr>hdr_crc32 := 0\<rparr>) @ body) \<noteq> hdr_crc32 h then bad
      else \<lparr>ss_state = SLOT_STATE_VALID, ss_header = h, ss_payload = slot_payload h body\<rparr>)"

definition io_view :: SlotSnapshot where
  "io_view = \<lparr>ss_state = SLOT_STATE_IO_ERROR, ss_header = zero_header, ss_payload = zero_payload\<rparr>"

definition page_at :: "PlatformFlashInfo \<Rightarrow> bytes \<Rightarrow> nat \<Rightarrow> bytes" where
  "page_at info bs p = window bs (p * unat (fi_page_size info)) (unat (fi_page_size info))"

lemma overwrite_nil [simp]: "overwrite xs 0 [] = xs"
  by (simp add: overwrite_def)

context flash_reader
begin

lemma page_at_length:
  assumes "storage_ready info st" "valid f" "p < 6"
  shows "length (page_at info (contents f) p) = unat (fi_page_size info)"
  using page_span[OF assms(1,3)] contents_length[OF assms(2)] by (simp add: page_at_def)

lemma window_in_page:
  assumes "a + n \<le> unat (fi_page_size info)"
  shows "window (contents f) (p * unat (fi_page_size info) + a) n = window (page_at info (contents f) p) a n"
  using assms by (simp add: page_at_def window_window)

text \<open>
  A slot reads as its page says, or as an IO error when the device refused a read that
  lies within its bounds.
\<close>

lemma snapshot_read_cases:
  assumes r: "storage_ready info st" "record_type_ok rt" "i < 2" and f: "valid f"
  shows "ReadSlotSnapshot ops st f rt i = slot_view rt (page_at info (contents f) (page_of rt i)) \<or>
         (ReadSlotSnapshot ops st f rt i = io_view \<and>
          (\<exists>off n. 0 < n \<and> unat off + n \<le> unat (fi_total_size info) \<and>
             fst (fo_read ops f off n) \<noteq> PLATFORM_FLASH_OK))"
    (is "?V \<or> ?IO \<and> ?R")
proof -
  let ?ps = "unat (fi_page_size info)"
  obtain page off where sp: "SlotPage st rt i = Some (page, off)" "unat off = page_of rt i * ?ps"
    using SlotPage_ok[OF r] by metis
  have ps: "280 \<le> ?ps" and si: "s_initialized st" using r(1) by (auto simp: storage_ready_def)
  have tot: "unat off + ?ps \<le> unat (fi_total_size info)"
    using page_span[OF r(1) page_of_less[OF r(2,3)]] sp(2) by simp
  then have span: "unat off + ?ps < 2 ^ 32"
    using unat_u32_less[of "fi_total_size info"] by simp
  have off22: "unat (off + 22) = page_of rt i * ?ps + 22"
    using span ps sp(2) by (simp add: unat_word_ariths)
  let ?pg = "page_at info (contents f) (page_of rt i)"
  obtain rs raw where r1: "fo_read ops f off 22 = (rs, raw)" by (meson surj_pair)
  show ?thesis
  proof (cases "rs = PLATFORM_FLASH_OK")
    case False
    then have ?IO
      using si r(3) sp(1) r1
      by (simp add: ReadSlotSnapshot_def Storage_ReadSlot_def STORAGE_HEADER_SIZE_def io_view_def word_less_nat_alt)
    moreover have ?R
      using False r1 tot ps by (intro exI[of _ off] exI[of _ 22]) simp
    ultimately show ?thesis by blast
  next
    case True
    then have raw: "raw = take 22 ?pg"
      using read_ok[OF f, of off 22 raw] r1 window_in_page[of 0 22 f "page_of rt i"] ps sp(2)
      by (simp add: window_def)
    let ?h = "header_of_bytes raw"
    let ?n = "unat (hdr_payload_size ?h)"
    obtain qs body where r2: "fo_read ops f (off + 22) ?n = (qs, body)" by (meson surj_pair)
    have body: "body = window ?pg 22 ?n" if "qs = PLATFORM_FLASH_OK" "?n \<le> 256"
      using read_ok[OF f, of "off + 22" ?n body] r2 window_in_page[of 22 ?n f "page_of rt i"]
        ps off22 that by simp
    have len: "length (window ?pg 22 ?n) = ?n" if "?n \<le> 256"
      using page_at_length[OF r(1) f page_of_less[OF r(2,3)]] ps that by simp
    have slot2: "\<not> 1 < i" using r(3) by (simp add: word_less_nat_alt)
    have unfold1: "Storage_ReadSlot ops st f rt i (Some zero_header) (Some zero_payload) =
      (if list_all (\<lambda>b. b = 255) raw then (SLOT_STATE_ERASED, Some zero_header, Some zero_payload)
       else if \<not> header_ok rt ?h then (SLOT_STATE_CORRUPT, Some zero_header, Some zero_payload)
       else if ?n > 0 \<and> qs \<noteq> PLATFORM_FLASH_OK
       then (SLOT_STATE_IO_ERROR, Some zero_header, Some zero_payload)
       else let bd = (if ?n > 0 then body else []) in
         if Storage_Crc32 (header_bytes (?h\<lparr>hdr_crc32 := 0\<rparr>) @ bd) \<noteq> hdr_crc32 ?h
         then (SLOT_STATE_CORRUPT, Some zero_header, Some zero_payload)
         else (SLOT_STATE_VALID, Some ?h, Some (zero_payload\<lparr>pl_record_type := hdr_record_type ?h,
                pl_sequence := hdr_sequence ?h, pl_size := ?n,
                pl_data := (if ?n > 0 then overwrite (pl_data zero_payload) 0 bd
                            else pl_data zero_payload)\<rparr>)))"
      using si slot2 sp(1) r1 r2 True
      by (simp add: Storage_ReadSlot_def STORAGE_HEADER_SIZE_def header_ok_def Let_def not_le)
    show ?thesis
    proof (cases "?n > 0 \<and> ?n \<le> 256 \<and> qs = PLATFORM_FLASH_OK")
      case True
      then show ?thesis
        using body len
        by (simp add: ReadSlotSnapshot_def unfold1 slot_view_def Let_def raw[symmetric] io_view_def
            slot_payload_def)
    next
      case False
      show ?thesis
      proof (cases "?n > 0 \<and> ?n \<le> 256")
        case True
        then have ?R
          using False r2 tot ps off22 sp(2) by (intro exI[of _ "off + 22"] exI[of _ ?n]) simp
        with True False show ?thesis
          by (simp add: ReadSlotSnapshot_def unfold1 slot_view_def Let_def raw[symmetric] io_view_def)
      next
        case small: False
        then show ?thesis
          by (auto simp: ReadSlotSnapshot_def unfold1 slot_view_def Let_def raw[symmetric] io_view_def
            slot_payload_def header_ok_def STORAGE_PAYLOAD_MAX_def window_def)
      qed
    qed
  qed
qed


lemma snapshot_cases:
  assumes "storage_ready info st" "record_type_ok rt" "i < 2" "valid f"
  shows "ReadSlotSnapshot ops st f rt i = slot_view rt (page_at info (contents f) (page_of rt i)) \<or>
         ReadSlotSnapshot ops st f rt i = io_view"
  using snapshot_read_cases[OF assms] by blast

text \<open>A slot depends on nothing but its page.\<close>

lemma snapshot_local:
  assumes r: "storage_ready info st" "record_type_ok rt" "i < 2" and f: "valid f" "valid g"
    and eq: "page_at info (contents f) (page_of rt i) = page_at info (contents g) (page_of rt i)"
  shows "ReadSlotSnapshot ops st f rt i = ReadSlotSnapshot ops st g rt i"
proof -
  let ?ps = "unat (fi_page_size info)"
  obtain page off where sp: "SlotPage st rt i = Some (page, off)" "unat off = page_of rt i * ?ps"
    using SlotPage_ok[OF r] by metis
  have ps: "280 \<le> ?ps" using r(1) by (auto simp: storage_ready_def)
  have span: "unat off + ?ps < 2 ^ 32"
    using page_span[OF r(1) page_of_less[OF r(2,3)]] sp(2) unat_u32_less[of "fi_total_size info"]
    by simp
  have off22: "unat (off + 22) = page_of rt i * ?ps + 22"
    using span ps sp(2) by (simp add: unat_word_ariths)
  have reads: "fo_read ops f (off + 22) n = fo_read ops g (off + 22) n" if "n \<le> 256" for n
    using read_local[OF f, of "off + 22" n] window_in_page[of 22 n _ "page_of rt i"] eq off22 ps that
    by simp
  have read0: "fo_read ops f off 22 = fo_read ops g off 22"
    using read_local[OF f, of off 22] window_in_page[of 0 22 _ "page_of rt i"] eq sp(2) ps
    by simp
  have "Storage_ReadSlot ops st f rt i h p = Storage_ReadSlot ops st g rt i h p" for h p
    using sp(1) read0 reads
    by (simp add: Storage_ReadSlot_def STORAGE_HEADER_SIZE_def STORAGE_PAYLOAD_MAX_def Let_def not_le
        split: option.split prod.split)
  then show ?thesis by (simp add: ReadSlotSnapshot_def)
qed

end

end
