(* ===== verification/Storage_Program.thy ===== *)
theory Storage_Program
  imports Storage_View
begin

text \<open>
  Programming a record: the buffer \<open>WriteProgramRecord\<close> builds is the image of a valid
  slot padded with erased bytes, it writes inside its page only, a successful status means
  that the page decodes to that record, and on a working device it succeeds.
\<close>

definition record_image :: "u8 \<Rightarrow> bytes \<Rightarrow> u32 \<Rightarrow> bytes" where
  "record_image rt d seq =
     (let h = record_header rt (length d) seq in
      header_bytes (h\<lparr>hdr_crc32 := Storage_Crc32 (header_bytes (h\<lparr>hdr_crc32 := 0\<rparr>) @ d)\<rparr>) @ d)"

definition record_snapshot :: "u8 \<Rightarrow> bytes \<Rightarrow> u32 \<Rightarrow> SlotSnapshot" where
  "record_snapshot rt d seq =
     (let h = record_header rt (length d) seq;
          h' = h\<lparr>hdr_crc32 := Storage_Crc32 (header_bytes (h\<lparr>hdr_crc32 := 0\<rparr>) @ d)\<rparr>
      in \<lparr>ss_state = SLOT_STATE_VALID, ss_header = h', ss_payload = slot_payload h' d\<rparr>)"

lemma record_snapshot_simps [simp]:
  "ss_state (record_snapshot rt d seq) = SLOT_STATE_VALID"
  "hdr_sequence (ss_header (record_snapshot rt d seq)) = seq"
  "pl_size (ss_payload (record_snapshot rt d seq)) = length d"
  "pl_sequence (ss_payload (record_snapshot rt d seq)) = seq"
  "pl_record_type (ss_payload (record_snapshot rt d seq)) = rt"
  "take (length d) (pl_data (ss_payload (record_snapshot rt d seq))) = d"
  by (simp_all add: record_snapshot_def Let_def record_header_def slot_payload_def overwrite_def)

lemma length_record_image [simp]: "length (record_image rt d seq) = 22 + length d"
  by (simp add: record_image_def Let_def)

lemma program_buffer_eq:
  assumes "sz \<le> 256" "take sz data = d" "length d = sz"
  shows "program_buffer rt data sz seq = record_image rt d seq @ replicate (258 - sz) 255"
proof -
  have ow: "overwrite (replicate 280 255) 0 (header_bytes h) = header_bytes h @ replicate 258 255"
    for h by (simp add: overwrite_def)
  have ow2: "overwrite (header_bytes h @ replicate 258 255) 22 d = header_bytes h @ d @ replicate (258 - sz) 255"
    for h using assms by (simp add: overwrite_def)
  have ow3: "overwrite (header_bytes h @ xs) 0 (header_bytes h') = header_bytes h' @ xs" for h h' xs
    by (simp add: overwrite_def)
  show ?thesis
    using assms
    by (cases "sz > 0")
      (simp_all add: program_buffer_def Let_def STORAGE_PROGRAM_BUFFER_MAX_def STORAGE_HEADER_SIZE_def ow
        ow2 ow3 record_image_def)
qed

lemma magic_bytes: "le_bytes 4 STORAGE_MAGIC = [0x43, 0x4D, 0x53, 0x52]"
  by code_simp

lemma slot_view_image:
  assumes "take (22 + length d) page = record_image rt d seq" "length d \<le> 256"
  shows "slot_view rt page = record_snapshot rt d seq"
proof -
  let ?h = "record_header rt (length d) seq"
  let ?h' = "?h\<lparr>hdr_crc32 := Storage_Crc32 (header_bytes (?h\<lparr>hdr_crc32 := 0\<rparr>) @ d)\<rparr>"
  have img: "take (22 + length d) page = header_bytes ?h' @ d"
    using assms(1) by (simp add: record_image_def Let_def)
  have "take 22 page = take 22 (take (22 + length d) page)" by simp
  also have "\<dots> = header_bytes ?h'" by (simp only: img) simp
  finally have raw: "take 22 page = header_bytes ?h'" .
  have "window page 22 (length d) = drop 22 (take (22 + length d) page)"
    by (simp add: window_def drop_take)
  also have "\<dots> = d" by (simp only: img) simp
  finally have body: "window page 22 (length d) = d" .
  have n: "unat (hdr_payload_size ?h') = length d"
    using assms(2) by (simp add: record_header_def unat_of_nat take_bit_eq_mod)
  have magic: "hd (header_bytes h) = 0x43" "header_bytes h \<noteq> []" if "hdr_magic h = STORAGE_MAGIC" for h
    using that by (simp_all add: header_bytes_def magic_bytes)
  have "hdr_magic ?h' = STORAGE_MAGIC" by (simp add: record_header_def)
  note ne = magic[OF this]
  have "\<not> list_all (\<lambda>b. b = 255) (header_bytes ?h')"
  proof
    assume "list_all (\<lambda>b. b = 255) (header_bytes ?h')"
    with hd_in_set[OF ne(2)] have "hd (header_bytes ?h') = 255" unfolding list_all_iff by blast
    with ne(1) have "(255 :: u8) = 0x43" by (rule trans[OF sym, rotated])
    then show False by simp
  qed
  moreover have "header_ok rt ?h'"
    using n assms(2) by (simp add: header_ok_def record_header_def STORAGE_PAYLOAD_MAX_def zero_header_def)
  ultimately show ?thesis
    using n by (simp add: slot_view_def raw body record_snapshot_def Let_def)
qed

lemma slot_view_erased:
  assumes "page = replicate n 255" "22 \<le> n"
  shows "slot_view rt page = \<lparr>ss_state = SLOT_STATE_ERASED, ss_header = zero_header, ss_payload = zero_payload\<rparr>"
  using assms by (simp add: slot_view_def Let_def list_all_iff)

section \<open>Alignment\<close>

lemma and_not_mask_unat:
  assumes "k \<le> 3"
  shows "unat (x AND NOT (mask k) :: u32) = unat x div 2 ^ k * 2 ^ k"
proof -
  have "x AND NOT (mask k) = push_bit k (drop_bit k x)"
    by (rule bit_word_eqI) (auto simp: bit_simps)
  then have "unat (x AND NOT (mask k)) = take_bit 32 (unat x div 2 ^ k * 2 ^ k)"
    by (simp only: unsigned_push_bit_eq unsigned_drop_bit_eq)
      (simp add: push_bit_eq_mult drop_bit_eq_div take_bit_nat_eq_self unat_u32_less[simplified])
  moreover have "unat x div 2 ^ k * 2 ^ k \<le> unat x" by simp
  then have "unat x div 2 ^ k * 2 ^ k < 2 ^ 32" using unat_u32_less[of x] by (rule le_less_trans)
  ultimately show ?thesis
    by (simp only: take_bit_eq_mod mod_less)
qed

lemma aligned_size_eq:
  assumes "pu \<in> {1, 2, 4, 8}" "n \<le> 278"
  shows "aligned_size pu n = (n + unat pu - 1) div unat pu * unat pu"
proof -
  obtain k where k: "k \<le> 3" "pu - 1 = mask k" "pu = 2 ^ k" "unat pu = 2 ^ k"
  proof -
    have "(0::nat) \<le> 3" "(1::u32) - 1 = mask 0" "(2::u32) - 1 = mask 1" "(4::u32) - 1 = mask 2" "(8::u32) - 1 = mask 3"
      by (simp_all add: mask_eq_exp_minus_1)
    then show ?thesis using assms(1) that[of 0] that[of 1] that[of 2] that[of 3] by auto
  qed
  note pu = k(4)
  have "of_nat n + pu - 1 = (of_nat (n + 2 ^ k - 1) :: u32)"
    using k(3) by (subst of_nat_diff) (simp_all add: one_le_power trans_le_add2)
  moreover have "n + 2 ^ k - 1 < 2 ^ 32" using assms pu by auto
  ultimately have "unat (of_nat n + pu - 1 :: u32) = n + 2 ^ k - 1"
    by (simp add: unat_of_nat take_bit_eq_mod)
  then show ?thesis
    by (simp only: aligned_size_def k(2) and_not_mask_unat[OF k(1)] pu)
qed

lemma aligned_size_bounds:
  assumes "pu \<in> {1, 2, 4, 8}" "n \<le> 278"
  shows "n \<le> aligned_size pu n" "aligned_size pu n \<le> 280" "aligned_size pu n mod unat pu = 0"
  using assms by (auto simp: aligned_size_eq[OF assms])

section \<open>Writing into an erased page\<close>

abbreviation data_of :: "bytes option \<Rightarrow> bytes" where
  "data_of data \<equiv> (case data of None \<Rightarrow> [] | Some d \<Rightarrow> d)"

text \<open>The outcomes of \<open>WriteProgramRecord\<close>: nothing was touched, or one write was made.\<close>

lemma WriteProgramRecord_cases:
  assumes "WriteProgramRecord ops st f off rt data sz seq = (s, g)"
  obtains (refused) "g = f" "s \<noteq> STORAGE_WRITE_OK"
  | (written) bs ws where "fo_write ops f off bs = (ws, g)" "length bs \<le> unat (s_page_size st)" "sz \<le> 256"
      "s = STORAGE_WRITE_OK \<Longrightarrow>
         fo_read ops g off (22 + sz) =
           (PLATFORM_FLASH_OK, take (22 + sz) (program_buffer rt (data_of data) sz seq))"
proof -
  let ?al = "aligned_size (s_program_unit st) (22 + sz)"
  let ?buf = "program_buffer rt (data_of data) sz seq"
  obtain ws f1 where w: "fo_write ops f off (take ?al ?buf) = (ws, f1)" by (meson surj_pair)
  obtain rs v where v: "fo_read ops f1 off (22 + sz) = (rs, v)" by (meson surj_pair)
  show ?thesis
  proof (cases "?al \<le> unat (s_page_size st) \<and> sz \<le> 256 \<and> g = f1")
    case True
    then have "s = STORAGE_WRITE_OK \<Longrightarrow> rs = PLATFORM_FLASH_OK \<and> v = take (22 + sz) ?buf"
      using assms w v
      unfolding WriteProgramRecord_def Let_def STORAGE_HEADER_SIZE_def
      by (simp split: if_splits)
    then show ?thesis
      using True w v by (intro written[of "take ?al ?buf" ws]) (auto simp: min_def)
  next
    case False
    then have "g = f \<and> s \<noteq> STORAGE_WRITE_OK"
      using assms w v
      unfolding WriteProgramRecord_def Let_def STORAGE_HEADER_SIZE_def STORAGE_PAYLOAD_MAX_def
      by (simp split: if_splits)
    then show ?thesis by (intro refused) simp_all
  qed
qed

context flash_writer
begin

lemma page_at_eqI:
  assumes "window (contents g) (p * unat (fi_page_size info)) (unat (fi_page_size info)) =
    window (contents f) (p * unat (fi_page_size info)) (unat (fi_page_size info))"
  shows "page_at info (contents g) p = page_at info (contents f) p"
  using assms by (simp add: page_at_def)

lemma write_other_page:
  assumes "valid f" "unat off = q * unat (fi_page_size info)" "length bs \<le> unat (fi_page_size info)" "p \<noteq> q"
  shows "page_at info (contents (snd (fo_write ops f off bs))) p = page_at info (contents f) p"
proof (intro page_at_eqI write_frame assms(1))
  let ?ps = "unat (fi_page_size info)"
  have "Suc p * ?ps \<le> q * ?ps \<or> Suc q * ?ps \<le> p * ?ps"
    using assms(4) by (auto intro!: mult_right_mono simp del: mult_Suc)
  then show "p * ?ps + ?ps \<le> unat off \<or> unat off + length bs \<le> p * ?ps"
    using assms(2,3) by (auto simp: add.commute)
qed

lemma WriteProgramRecord_frame:
  assumes "storage_ready info st" "valid f" "unat off = q * unat (fi_page_size info)"
  shows "valid (snd (WriteProgramRecord ops st f off rt data sz seq))"
    and "p \<noteq> q \<Longrightarrow> page_at info (contents (snd (WriteProgramRecord ops st f off rt data sz seq))) p =
      page_at info (contents f) p"
proof -
  obtain s g where W: "WriteProgramRecord ops st f off rt data sz seq = (s, g)" by (meson surj_pair)
  have "valid g \<and> (p \<noteq> q \<longrightarrow> page_at info (contents g) p = page_at info (contents f) p)"
    using W
  proof (cases rule: WriteProgramRecord_cases)
    case (written bs ws)
    then show ?thesis
      using write_valid[OF assms(2), of off bs] write_other_page[OF assms(2,3), of bs p] assms(1)
      by (simp add: storage_ready_def)
  qed (simp add: assms(2))
  then show "valid (snd (WriteProgramRecord ops st f off rt data sz seq))"
    and "p \<noteq> q \<Longrightarrow> page_at info (contents (snd (WriteProgramRecord ops st f off rt data sz seq))) p =
      page_at info (contents f) p"
    by (simp_all add: W)
qed

text \<open>A verified record decodes to what was written.\<close>

lemma WriteProgramRecord_ok:
  assumes r: "storage_ready info st" and f: "valid f" and off: "unat off = q * unat (fi_page_size info)"
    and ok: "WriteProgramRecord ops st f off rt data sz seq = (STORAGE_WRITE_OK, g)"
    and d: "take sz (data_of data) = d" "length d = sz"
  shows "slot_view rt (page_at info (contents g) q) = record_snapshot rt d seq"
proof -
  let ?buf = "program_buffer rt (data_of data) sz seq"
  obtain bs ws where w: "fo_write ops f off bs = (ws, g)" and sz: "sz \<le> 256"
    and rd2: "fo_read ops g off (22 + sz) = (PLATFORM_FLASH_OK, take (22 + sz) ?buf)"
    using ok by (cases rule: WriteProgramRecord_cases) auto
  have rd: "valid g" using write_valid[OF f, of off bs] w by simp
  note rd = rd rd2
  have buf: "take (22 + sz) ?buf = record_image rt d seq"
    using program_buffer_eq[OF sz d] d(2) by simp
  have "take (22 + sz) ?buf = window (contents g) (unat off) (22 + sz)"
    using read_ok[OF rd] by simp
  also have "\<dots> = take (22 + sz) (page_at info (contents g) q)"
    using window_in_page[of 0 "22 + sz" g q] off sz r by (simp add: storage_ready_def window_def)
  finally show ?thesis
    using buf d(2) sz by (intro slot_view_image) simp_all
qed

end

context flash_device
begin

lemma erase_other_page:
  assumes "valid f" "unat q \<noteq> p"
  shows "page_at info (contents (snd (fo_erase ops f q))) p = page_at info (contents f) p"
proof (intro page_at_eqI erase_frame assms(1))
  let ?ps = "unat (fi_page_size info)"
  have "Suc p * ?ps \<le> unat q * ?ps \<or> Suc (unat q) * ?ps \<le> p * ?ps"
    using assms(2) by (auto intro!: mult_right_mono simp del: mult_Suc)
  then show "p * ?ps + ?ps \<le> unat q * ?ps \<or> Suc (unat q) * ?ps \<le> p * ?ps" by (simp add: add.commute)
qed

lemma erase_page_ok:
  assumes "valid f" "fo_erase ops f q = (PLATFORM_FLASH_OK, g)"
  shows "valid g" "page_at info (contents g) (unat q) = replicate (unat (fi_page_size info)) 255"
  using erase_valid[OF assms(1), of q] erase_ok[OF assms] assms(2) by (simp_all add: page_at_def)

end

context working_writer
begin

lemma snapshot_working:
  assumes r: "storage_ready info st" "record_type_ok rt" "i < 2" and f: "working f"
  shows "ReadSlotSnapshot ops st f rt i = slot_view rt (page_at info (contents f) (page_of rt i))"
  using snapshot_read_cases[OF r working_valid[OF f]] working_read[OF f] by blast

lemma WriteProgramRecord_working:
  assumes r: "storage_ready info st" and f: "working f" and off: "unat off = q * unat (fi_page_size info)"
    and q: "q < 6" and e: "page_at info (contents f) q = replicate (unat (fi_page_size info)) 255"
    and d: "take sz (data_of data) = d" "length d = sz" "sz \<le> 256"
    and n: "\<not> (data = None \<and> sz > 0)"
  obtains g where "WriteProgramRecord ops st f off rt data sz seq = (STORAGE_WRITE_OK, g)" "working g"
proof -
  let ?ps = "unat (fi_page_size info)"
  let ?buf = "program_buffer rt (data_of data) sz seq"
  let ?al = "aligned_size (s_program_unit st) (22 + sz)"
  have ps: "280 \<le> ?ps" and si: "s_initialized st" and psz: "s_page_size st = fi_page_size info"
    and pu: "s_program_unit st = fi_program_unit info" "fi_program_unit info \<in> {1, 2, 4, 8}"
    using r by (auto simp: storage_ready_def)
  have al: "22 + sz \<le> ?al" "?al \<le> 280" "?al mod unat (s_program_unit st) = 0"
    using aligned_size_bounds[of "s_program_unit st" "22 + sz"] pu d(3) by simp_all
  have pow: "s_program_unit st \<noteq> 0" "s_program_unit st AND (s_program_unit st - 1) = 0"
    using pu by auto
  let ?bs = "take ?al ?buf"
  have len: "length ?bs = ?al"
    using al program_buffer_eq[OF d(3,1,2)] d(2,3) by simp
  have span: "unat off + ?ps \<le> unat (fi_total_size info)"
    using page_span[OF r q] off by simp
  have offal: "unat off mod unat (fi_program_unit info) = 0"
    using off page_aligned by (simp add: mod_eq_0_iff_dvd dvd_mult)
  have "0 < length ?bs" using len al(1) by linarith
  then have "?bs \<noteq> []" by (simp only: length_greater_0_conv not_False_eq_True)
  moreover have "unat off + length ?bs \<le> unat (fi_total_size info)"
    using len al(2) span ps by linarith
  moreover have "length ?bs mod unat (fi_program_unit info) = 0" using len al(3) pu(1) by simp
  moreover have erased: "window (contents f) (unat off) ?al = replicate ?al 255"
    using window_in_page[of 0 ?al f q] al ps off e by (simp add: window_replicate)
  ultimately have
    "fst (fo_write ops f off ?bs) = PLATFORM_FLASH_OK \<and> working (snd (fo_write ops f off ?bs))"
    using offal len by (intro working_write[OF f]) simp_all
  then obtain g where w: "fo_write ops f off ?bs = (PLATFORM_FLASH_OK, g)" "working g"
    by (metis prod.collapse)
  then have "window (contents g) (unat off) ?al = ?bs"
    using write_ok[OF working_valid[OF f] w(1)] len erased by simp
  then have "take (22 + sz) (window (contents g) (unat off) ?al) = take (22 + sz) ?bs" by simp
  then have img: "window (contents g) (unat off) (22 + sz) = take (22 + sz) ?buf"
    using al by (simp add: window_def min_absorb1)
  have "fst (fo_read ops g off (22 + sz)) = PLATFORM_FLASH_OK"
    using span ps d(3) by (intro working_read[OF w(2)]) simp_all
  then have rd: "fo_read ops g off (22 + sz) = (PLATFORM_FLASH_OK, take (22 + sz) ?buf)"
    using read_ok[OF working_valid[OF w(2)], of off "22 + sz"] img
    by (cases "fo_read ops g off (22 + sz)") auto
  have "WriteProgramRecord ops st f off rt data sz seq = (STORAGE_WRITE_OK, g)"
    using si pow al ps psz n d(3) w(1) rd
    by (simp add: WriteProgramRecord_def Let_def STORAGE_PAYLOAD_MAX_def STORAGE_HEADER_SIZE_def
        STORAGE_PROGRAM_BUFFER_MAX_def)
  then show ?thesis using that w(2) by blast
qed

end

end
