(* ===== verification/Storage_Laws.thy ===== *)
theory Storage_Laws
  imports Storage_Program
begin

text \<open>
  The contract of the storage component. \<open>record_of\<close> is what a caller reads back; the
  lemmas show that a write is an update of that map on a working device, and on a device
  that may fail at any operation that the newest copy of a record is never touched.
\<close>

named_theorems storage_op \<open>the definitions of the storage operations\<close>

definition record_of :: "'f flash_ops \<Rightarrow> storage \<Rightarrow> 'f \<Rightarrow> u8 \<Rightarrow> bytes option" where
  "record_of ops st f rt =
     (case Storage_Read ops st f rt (Some zero_payload) of
        (STORAGE_READ_OK, Some p) \<Rightarrow> Some (take (pl_size p) (pl_data p))
      | _ \<Rightarrow> None)"

abbreviation other_slot :: "u8 \<Rightarrow> u8" where
  "other_slot w \<equiv> (if w = 0 then 1 else 0)"

definition next_sequence :: "u32 \<Rightarrow> u32" where
  "next_sequence s = (if s + 1 = 0 then 1 else s + 1)"

section \<open>Sequence numbers\<close>

lemma next_sequence_newer:
  "0 \<le> sint (next_sequence s - s)" "sint (s - next_sequence s) < 0" "next_sequence s \<noteq> 0"
proof -
  have "s = -1" if "s + 1 = 0" using that by (simp add: add_eq_0_iff2)
  then have "next_sequence s - s = 1 \<or> next_sequence s - s = 2"
    by (auto simp: next_sequence_def)
  moreover from this have "s - next_sequence s = -1 \<or> s - next_sequence s = -2"
    by (metis minus_diff_eq)
  ultimately show "0 \<le> sint (next_sequence s - s)" "sint (s - next_sequence s) < 0" by auto
  show "next_sequence s \<noteq> 0" by (simp add: next_sequence_def)
qed

section \<open>The choice of the slot\<close>

lemma SelectWriteSlot_cases:
  assumes "SelectWriteSlot ops st f rt = Some (w, s)"
  obtains (fresh) "w = 0" "s = 0" "ss_state (ReadSlotSnapshot ops st f rt 0) = SLOT_STATE_ERASED"
      "ss_state (ReadSlotSnapshot ops st f rt 1) = SLOT_STATE_ERASED"
  | (a) "w = 1" "ss_state (ReadSlotSnapshot ops st f rt 0) = SLOT_STATE_VALID"
      "s = hdr_sequence (ss_header (ReadSlotSnapshot ops st f rt 0))"
      "ss_state (ReadSlotSnapshot ops st f rt 1) \<noteq> SLOT_STATE_IO_ERROR"
      "ss_state (ReadSlotSnapshot ops st f rt 1) = SLOT_STATE_VALID \<Longrightarrow>
         SelectNewest (ReadSlotSnapshot ops st f rt 0) (ReadSlotSnapshot ops st f rt 1) = 0"
  | (b) "w = 0" "ss_state (ReadSlotSnapshot ops st f rt 1) = SLOT_STATE_VALID"
      "s = hdr_sequence (ss_header (ReadSlotSnapshot ops st f rt 1))"
      "ss_state (ReadSlotSnapshot ops st f rt 0) \<noteq> SLOT_STATE_IO_ERROR"
      "ss_state (ReadSlotSnapshot ops st f rt 0) = SLOT_STATE_VALID \<Longrightarrow>
         SelectNewest (ReadSlotSnapshot ops st f rt 0) (ReadSlotSnapshot ops st f rt 1) = 1"
  using assms by (auto simp: SelectWriteSlot_def SelectNewest_def Let_def split: if_splits)

lemma SelectWriteSlot_None_iff:
  "SelectWriteSlot ops st f rt = None \<longleftrightarrow>
     (let sa = ss_state (ReadSlotSnapshot ops st f rt 0); sb = ss_state (ReadSlotSnapshot ops st f rt 1) in
      sa = SLOT_STATE_IO_ERROR \<or> sb = SLOT_STATE_IO_ERROR \<or>
      (sa \<noteq> SLOT_STATE_VALID \<and> sb \<noteq> SLOT_STATE_VALID \<and>
       \<not> (sa = SLOT_STATE_ERASED \<and> sb = SLOT_STATE_ERASED)))"
  by (cases "ss_state (ReadSlotSnapshot ops st f rt 0)"; cases "ss_state (ReadSlotSnapshot ops st f rt 1)")
    (simp_all add: SelectWriteSlot_def Let_def)

lemma slot_index_cases: "(i :: u8) < 2 \<longleftrightarrow> i = 0 \<or> i = 1"
proof
  assume "i < 2"
  then have "unat i = 0 \<or> unat i = 1" by (auto simp: word_less_nat_alt)
  then show "i = 0 \<or> i = 1" by (simp add: word_unat_eq_iff)
qed auto

section \<open>Reading the pair\<close>

lemma Storage_Read_one_valid:
  assumes "storage_ready info st" "record_type_ok rt"
    and "ss_state (ReadSlotSnapshot ops st f rt 0) = SLOT_STATE_VALID \<or>
         ss_state (ReadSlotSnapshot ops st f rt 1) = SLOT_STATE_VALID"
  shows "fst (Storage_Read ops st f rt (Some p)) = STORAGE_READ_OK"
proof -
  obtain l where "Storage_GetLayout st rt = Some l" using GetLayout_Some[OF assms(1,2)] by blast
  then show ?thesis
    using assms(1,3)
    by (cases "ss_state (ReadSlotSnapshot ops st f rt 0)"; cases "ss_state (ReadSlotSnapshot ops st f rt 1)")
      (auto simp: Storage_Read_def Let_def storage_ready_def)
qed

text \<open>A read returns the slot whose peer is not valid, or the newer of two.\<close>

lemma Storage_Read_wins:
  assumes "storage_ready info st" "record_type_ok rt" "w < 2"
    and "ss_state (ReadSlotSnapshot ops st f rt w) = SLOT_STATE_VALID"
    and "ss_state (ReadSlotSnapshot ops st f rt (other_slot w)) = SLOT_STATE_VALID \<Longrightarrow>
         SelectNewest (ReadSlotSnapshot ops st f rt 0) (ReadSlotSnapshot ops st f rt 1) = w"
  shows "Storage_Read ops st f rt (Some p) =
           (STORAGE_READ_OK, Some (ss_payload (ReadSlotSnapshot ops st f rt w)))"
proof -
  define a where "a = ReadSlotSnapshot ops st f rt 0"
  define b where "b = ReadSlotSnapshot ops st f rt 1"
  note ab = a_def[symmetric] b_def[symmetric]
  obtain l where l: "Storage_GetLayout st rt = Some l" using GetLayout_Some[OF assms(1,2)] by blast
  have i: "s_initialized st" using assms(1) by (simp add: storage_ready_def)
  have "w = 0 \<or> w = 1" using assms(3) by (simp add: slot_index_cases)
  then show ?thesis
  proof
    assume w: "w = 0"
    have "ss_state a = SLOT_STATE_VALID" "ss_state b = SLOT_STATE_VALID \<Longrightarrow> SelectNewest a b = 0"
      using assms(4,5) w by (simp_all add: ab)
    then show ?thesis unfolding w ab
      by (cases "ss_state b") (simp_all add: Storage_Read_def ab i l)
  next
    assume w: "w = 1"
    have "ss_state b = SLOT_STATE_VALID" "ss_state a = SLOT_STATE_VALID \<Longrightarrow> SelectNewest a b = 1"
      using assms(4,5) w by (simp_all add: ab)
    then show ?thesis unfolding w ab
      by (cases "ss_state a") (simp_all add: Storage_Read_def ab i l)
  qed
qed

section \<open>Writing\<close>

context flash_device
begin

text \<open>The outcomes of \<open>Storage_WriteEx\<close>.\<close>

lemma WriteEx_cases:
  assumes r: "storage_ready info st" "record_type_ok rt" and f: "valid f"
    and W: "Storage_WriteEx ops st f rt data sz = (s, g)"
  obtains (refused) "g = f" "s \<noteq> STORAGE_WRITE_OK"
  | (written) w q where "SelectWriteSlot ops st f rt = Some (w, q)" "w < 2" "valid g" "sz \<le> 256"
      "\<And>p. p \<noteq> page_of rt w \<Longrightarrow> page_at info (contents g) p = page_at info (contents f) p"
      "\<And>d. s = STORAGE_WRITE_OK \<Longrightarrow> take sz (data_of data) = d \<Longrightarrow> length d = sz \<Longrightarrow>
         slot_view rt (page_at info (contents g) (page_of rt w)) = record_snapshot rt d (next_sequence q)"
proof (cases "SelectWriteSlot ops st f rt = None \<or> sz > STORAGE_PAYLOAD_MAX \<or> data = None \<and> sz > 0")
  case True
  obtain l where "Storage_GetLayout st rt = Some l" using GetLayout_Some[OF r] by blast
  then show ?thesis
    using W True r(1) by (intro refused) (auto simp: Storage_WriteEx_def storage_ready_def split: if_splits)
next
  case False
  then have n: "\<not> (data = None \<and> sz > 0)" and sz: "\<not> sz > STORAGE_PAYLOAD_MAX" by auto
  obtain w q where sel: "SelectWriteSlot ops st f rt = Some (w, q)" using False by auto
  then have w: "w = 0 \<or> w = 1" by (cases rule: SelectWriteSlot_cases) auto
  obtain l where l: "Storage_GetLayout st rt = Some l"
    "unat (slot_a_page l) = page_of rt 0" "unat (slot_b_page l) = page_of rt 1"
    "unat (slot_a_offset l) = page_of rt 0 * unat (fi_page_size info)"
    "unat (slot_b_offset l) = page_of rt 1 * unat (fi_page_size info)"
    using GetLayout_Some[OF r] .
  define pg where "pg = (if w = 0 then slot_a_page l else slot_b_page l)"
  define off where "off = (if w = 0 then slot_a_offset l else slot_b_offset l)"
  have pg: "unat pg = page_of rt w" and off: "unat off = page_of rt w * unat (fi_page_size info)"
    using w l by (auto simp: pg_def off_def)
  obtain es f1 where e: "fo_erase ops f pg = (es, f1)" by (meson surj_pair)
  have f1: "valid f1" "\<And>p. p \<noteq> page_of rt w \<Longrightarrow> page_at info (contents f1) p = page_at info (contents f) p"
    using erase_valid[OF f, of pg] erase_other_page[OF f, of pg] e pg by auto
  have W': "(if es \<noteq> PLATFORM_FLASH_OK then (STORAGE_WRITE_IO_ERROR, f1)
      else WriteProgramRecord ops st f1 off rt data sz (next_sequence q)) = (s, g)"
    using W r(1)
    unfolding Storage_WriteEx_def storage_ready_def
    by (simp only: n sz sel l(1) e pg_def[symmetric] off_def[symmetric] next_sequence_def[symmetric]
        Let_def option.case prod.case if_False not_True_eq_False)
  show ?thesis
  proof (rule written[OF sel])
    show "w < 2" using w by auto
    show "sz \<le> 256" using sz by (simp add: STORAGE_PAYLOAD_MAX_def)
    show "valid g"
      using W' f1 WriteProgramRecord_frame(1)[OF r(1) f1(1) off, of rt data sz "next_sequence q"]
      by (auto split: if_splits)
    show "page_at info (contents g) p = page_at info (contents f) p" if "p \<noteq> page_of rt w" for p
      using W' f1(2)[OF that] WriteProgramRecord_frame(2)[OF r(1) f1(1) off that, of rt data sz "next_sequence q"]
      by (auto split: if_splits)
    show "slot_view rt (page_at info (contents g) (page_of rt w)) = record_snapshot rt d (next_sequence q)"
      if "s = STORAGE_WRITE_OK" "take sz (data_of data) = d" "length d = sz" for d
      using W' that by (intro WriteProgramRecord_ok[OF r(1) f1(1) off _ that(2,3)]) (auto split: if_splits)
  qed
qed

lemma page_of_other: "record_type_ok rt \<Longrightarrow> w < 2 \<Longrightarrow> page_of rt (other_slot w) \<noteq> page_of rt w"
  using page_of_inj[of rt rt "other_slot w" w] by (auto split: if_splits)

text \<open>The slot a write does not choose keeps its snapshot, whatever happens.\<close>

lemma WriteEx_keeps_other:
  assumes r: "storage_ready info st" "record_type_ok rt" and f: "valid f"
    and "SelectWriteSlot ops st f rt = Some (w, q)"
  shows "ReadSlotSnapshot ops st (snd (Storage_WriteEx ops st f rt data sz)) rt (other_slot w) =
         ReadSlotSnapshot ops st f rt (other_slot w)"
proof -
  obtain s g where W: "Storage_WriteEx ops st f rt data sz = (s, g)" by (meson surj_pair)
  from r f W have "ReadSlotSnapshot ops st g rt (other_slot w) = ReadSlotSnapshot ops st f rt (other_slot w)"
  proof (cases rule: WriteEx_cases)
    case (written w' q')
    then have [simp]: "w' = w" using assms(4) by simp
    show ?thesis
      using written f r by (intro snapshot_local) (auto simp: page_of_other)
  qed simp
  then show ?thesis using W by simp
qed

lemma WriteEx_keeps_record_type:
  assumes r: "storage_ready info st" "record_type_ok rt" "record_type_ok rt'" "rt' \<noteq> rt" "i < 2" and f: "valid f"
  shows "ReadSlotSnapshot ops st (snd (Storage_WriteEx ops st f rt data sz)) rt' i =
         ReadSlotSnapshot ops st f rt' i"
proof -
  obtain s g where W: "Storage_WriteEx ops st f rt data sz = (s, g)" by (meson surj_pair)
  from r(1,2) f W have "ReadSlotSnapshot ops st g rt' i = ReadSlotSnapshot ops st f rt' i"
  proof (cases rule: WriteEx_cases)
    case (written w q)
    then have "page_of rt' i \<noteq> page_of rt w" using page_of_inj[OF r(3,2)] r(4,5) by blast
    then show ?thesis using written f r by (intro snapshot_local) auto
  qed simp
  then show ?thesis using W by simp
qed

lemma Storage_Read_cong:
  assumes "\<And>i. i < 2 \<Longrightarrow> ReadSlotSnapshot ops st g rt i = ReadSlotSnapshot ops st f rt i"
  shows "Storage_Read ops st g rt p = Storage_Read ops st f rt p"
  unfolding Storage_Read_def by (simp only: assms[of 0, simplified] assms[of 1, simplified])

end

context working_flash
begin

lemma WriteEx_working:
  assumes r: "storage_ready info st" "record_type_ok rt" and f: "working f"
    and sel: "SelectWriteSlot ops st f rt = Some (w, q)" and d: "length d \<le> 256"
  obtains g where "Storage_WriteEx ops st f rt (Some d) (length d) = (STORAGE_WRITE_OK, g)" "working g"
proof -
  have w: "w = 0 \<or> w = 1" using sel by (cases rule: SelectWriteSlot_cases) auto
  obtain l where l: "Storage_GetLayout st rt = Some l"
    "unat (slot_a_page l) = page_of rt 0" "unat (slot_b_page l) = page_of rt 1"
    "unat (slot_a_offset l) = page_of rt 0 * unat (fi_page_size info)"
    "unat (slot_b_offset l) = page_of rt 1 * unat (fi_page_size info)"
    using GetLayout_Some[OF r] .
  define pg where "pg = (if w = 0 then slot_a_page l else slot_b_page l)"
  define off where "off = (if w = 0 then slot_a_offset l else slot_b_offset l)"
  have pg: "unat pg = page_of rt w" and off: "unat off = page_of rt w * unat (fi_page_size info)"
    using w l by (auto simp: pg_def off_def)
  have lt: "page_of rt w < 6" using w by (intro page_of_less[OF r(2)]) auto
  have "unat pg < unat (fi_page_count info)" using lt pg r(1) by (simp add: storage_ready_def)
  then obtain f1 where e: "fo_erase ops f pg = (PLATFORM_FLASH_OK, f1)" "working f1"
    using working_erase[OF f] by (metis prod.collapse)
  have er: "page_at info (contents f1) (page_of rt w) = replicate (unat (fi_page_size info)) 255"
    using erase_page_ok(2)[OF working_valid[OF f] e(1)] pg by simp
  obtain g where "WriteProgramRecord ops st f1 off rt (Some d) (length d) (next_sequence q) = (STORAGE_WRITE_OK, g)"
    "working g"
    using WriteProgramRecord_working[OF r(1) e(2) off lt er, of "length d" "Some d" d] d by auto
  then show ?thesis
    using r(1) sel l(1) e(1) d
    by (intro that)
      (simp_all add: Storage_WriteEx_def storage_ready_def pg_def off_def next_sequence_def Let_def
        STORAGE_PAYLOAD_MAX_def)
qed

text \<open>A completed write is what the next read returns.\<close>

lemma WriteEx_read_back:
  assumes r: "storage_ready info st" "record_type_ok rt" and f: "valid f" and g: "working g"
    and W: "Storage_WriteEx ops st f rt (Some d) (length d) = (STORAGE_WRITE_OK, g)"
  obtains q where "Storage_Read ops st g rt (Some p) =
    (STORAGE_READ_OK, Some (ss_payload (record_snapshot rt d q)))" "q \<noteq> 0"
  using r f W
proof (cases rule: WriteEx_cases)
  case (written w q)
  have new: "ReadSlotSnapshot ops st g rt w = record_snapshot rt d (next_sequence q)"
    using snapshot_working[OF r written(2) g] written(6)[of d] by simp
  have old: "ReadSlotSnapshot ops st g rt (other_slot w) = ReadSlotSnapshot ops st f rt (other_slot w)"
    using WriteEx_keeps_other[OF r f written(1), of "Some d" "length d"] W by simp
  from written(1)
  have "Storage_Read ops st g rt (Some p) =
    (STORAGE_READ_OK, Some (ss_payload (ReadSlotSnapshot ops st g rt w)))"
  proof (cases rule: SelectWriteSlot_cases)
    case fresh
    with old new show ?thesis by (intro Storage_Read_wins[OF r]) simp_all
  next
    case a
    with old new show ?thesis
      using next_sequence_newer(2)[of q]
      by (intro Storage_Read_wins[OF r]) (simp_all add: SelectNewest_def)
  next
    case b
    with old new show ?thesis
      using next_sequence_newer(1)[of q]
      by (intro Storage_Read_wins[OF r]) (simp_all add: SelectNewest_def)
  qed
  then show ?thesis using new next_sequence_newer(3) that by simp
qed simp

end

end
