(* ===== verification/Storage_Repair.thy ===== *)
theory Storage_Repair
  imports Storage_Laws
begin

text \<open>
  The other operations that erase: mirroring a record into its degraded peer, recovery of a
  record without a valid copy, and formatting. The lemmas describe, for a device that may
  fail at any point, what each of them can have touched and what its success means.
\<close>

section \<open>The payload of a valid slot\<close>

lemma length_zero_payload [simp]: "length (pl_data zero_payload) = 256"
  by (simp add: zero_payload_def STORAGE_PAYLOAD_MAX_def)

lemma slot_payload_again:
  assumes "length body \<le> 256"
  shows "take (length body) (pl_data (slot_payload h body)) = body"
  using assms by (simp add: slot_payload_def overwrite_def)

lemma slot_view_valid:
  assumes "ss_state (slot_view rt page) = SLOT_STATE_VALID" "280 \<le> length page"
  obtains body where "length body \<le> 256"
    "unat (hdr_payload_size (ss_header (slot_view rt page))) = length body"
    "ss_payload (slot_view rt page) = slot_payload (ss_header (slot_view rt page)) body"
    "hdr_record_type (ss_header (slot_view rt page)) = rt"
proof -
  let ?h = "header_of_bytes (take 22 page)"
  let ?n = "unat (hdr_payload_size ?h)"
  have v: "slot_view rt page =
      \<lparr>ss_state = SLOT_STATE_VALID, ss_header = ?h, ss_payload = slot_payload ?h (window page 22 ?n)\<rparr>"
    and h: "header_ok rt ?h"
    using assms(1) by (auto simp: slot_view_def Let_def split: if_splits)
  then have "?n \<le> 256" "hdr_record_type ?h = rt" by (auto simp: header_ok_def STORAGE_PAYLOAD_MAX_def)
  then show ?thesis using assms(2) v by (intro that[of "window page 22 ?n"]) auto
qed

context flash_device
begin

lemma snapshot_valid:
  assumes r: "storage_ready info st" "record_type_ok rt" "i < 2" and f: "valid f"
    and v: "ss_state (ReadSlotSnapshot ops st f rt i) = SLOT_STATE_VALID"
  obtains body where "length body \<le> 256"
    "unat (hdr_payload_size (ss_header (ReadSlotSnapshot ops st f rt i))) = length body"
    "ss_payload (ReadSlotSnapshot ops st f rt i) =
       slot_payload (ss_header (ReadSlotSnapshot ops st f rt i)) body"
    "hdr_record_type (ss_header (ReadSlotSnapshot ops st f rt i)) = rt"
proof -
  have "ReadSlotSnapshot ops st f rt i = slot_view rt (page_at info (contents f) (page_of rt i))"
    using snapshot_cases[OF r f] v by (auto simp: io_view_def)
  moreover have "280 \<le> length (page_at info (contents f) (page_of rt i))"
    using page_at_length[OF r(1) f page_of_less[OF r(2,3)]] r(1) by (simp add: storage_ready_def)
  ultimately show ?thesis using slot_view_valid v that by metis
qed

text \<open>A readable record as its reader sees it.\<close>

lemma record_payload:
  assumes "storage_ready info st" "record_type_ok rt" "valid f" "record_of ops st f rt = Some d"
  obtains p where "Storage_Read ops st f rt (Some zero_payload) = (STORAGE_READ_OK, Some p)"
    "pl_size p = length d" "take (length d) (pl_data p) = d" "length d \<le> 256"
proof -
  obtain p where p: "Storage_Read ops st f rt (Some zero_payload) = (STORAGE_READ_OK, Some p)"
    "take (pl_size p) (pl_data p) = d"
    using assms(4) by (auto simp: record_of_def split: prod.splits StorageReadStatus.splits option.splits)
  obtain i where i: "i < 2" "ss_state (ReadSlotSnapshot ops st f rt i) = SLOT_STATE_VALID"
    "p = ss_payload (ReadSlotSnapshot ops st f rt i)"
    using p(1) by (auto simp: Storage_Read_def Let_def slot_index_cases split: if_splits)
  obtain body where body: "length body \<le> 256"
    "ss_payload (ReadSlotSnapshot ops st f rt i) =
       slot_payload (ss_header (ReadSlotSnapshot ops st f rt i)) body"
    using snapshot_valid[OF assms(1,2) i(1) assms(3) i(2)] by metis
  then have "length (pl_data p) = 256" "pl_size p \<le> 256" using i(3) by (simp_all add: slot_payload_def)
  then show ?thesis using that p by auto
qed

section \<open>Redundancy\<close>

lemma EnsureRedundancy_cases:
  assumes r: "storage_ready info st" "record_type_ok rt" and f: "valid f"
    and W: "Storage_EnsureRedundancy ops st f rt = (s, g)"
  obtains (untouched) "g = f" "s \<noteq> STORAGE_REPAIR_DONE"
  | (repaired) v body where "v < 2" "valid g" "length body \<le> 256"
      "ss_state (ReadSlotSnapshot ops st f rt v) = SLOT_STATE_VALID"
      "ss_state (ReadSlotSnapshot ops st f rt (other_slot v)) \<noteq> SLOT_STATE_VALID"
      "ss_payload (ReadSlotSnapshot ops st f rt v) =
         slot_payload (ss_header (ReadSlotSnapshot ops st f rt v)) body"
      "\<And>p. p \<noteq> page_of rt (other_slot v) \<Longrightarrow> page_at info (contents g) p = page_at info (contents f) p"
      "s = STORAGE_REPAIR_DONE \<Longrightarrow>
         slot_view rt (page_at info (contents g) (page_of rt (other_slot v))) =
           record_snapshot rt body
             (next_sequence (hdr_sequence (ss_header (ReadSlotSnapshot ops st f rt v))))"
proof -
  obtain l where l: "Storage_GetLayout st rt = Some l"
    "unat (slot_a_page l) = page_of rt 0" "unat (slot_b_page l) = page_of rt 1"
    "unat (slot_a_offset l) = page_of rt 0 * unat (fi_page_size info)"
    "unat (slot_b_offset l) = page_of rt 1 * unat (fi_page_size info)"
    using GetLayout_Some[OF r] .
  define a where "a = ReadSlotSnapshot ops st f rt 0"
  define b where "b = ReadSlotSnapshot ops st f rt 1"
  have i: "s_initialized st" using r(1) by (simp add: storage_ready_def)
  let ?go = "(ss_state a = SLOT_STATE_VALID) \<noteq> (ss_state b = SLOT_STATE_VALID) \<and>
    ss_state a \<noteq> SLOT_STATE_IO_ERROR \<and> ss_state b \<noteq> SLOT_STATE_IO_ERROR"
  show ?thesis
  proof (cases ?go)
    case False
    then have "g = f \<and> s \<noteq> STORAGE_REPAIR_DONE"
      using W by (cases "ss_state a"; cases "ss_state b")
        (simp_all add: Storage_EnsureRedundancy_def l(1) i a_def[symmetric] b_def[symmetric])
    then show ?thesis by (intro untouched) simp_all
  next
    case True
    define v :: u8 where "v = (if ss_state a = SLOT_STATE_VALID then 0 else 1)"
    define w where "w = other_slot v"
    have vw: "v < 2" "w < 2" "v = 0 \<or> v = 1" by (auto simp: v_def w_def)
    let ?src = "ReadSlotSnapshot ops st f rt v"
    have src: "?src = (if ss_state a = SLOT_STATE_VALID then a else b)"
      and srcv: "ss_state ?src = SLOT_STATE_VALID"
      and peer: "ss_state (ReadSlotSnapshot ops st f rt (other_slot v)) \<noteq> SLOT_STATE_VALID"
      using True by (auto simp: v_def a_def b_def split: if_splits)
    obtain body where body: "length body \<le> 256" "unat (hdr_payload_size (ss_header ?src)) = length body"
      "ss_payload ?src = slot_payload (ss_header ?src) body"
      using snapshot_valid[OF r vw(1) f srcv] by metis
    define pg where "pg = (if w = 0 then slot_a_page l else slot_b_page l)"
    define off where "off = (if w = 0 then slot_a_offset l else slot_b_offset l)"
    define q where "q = next_sequence (hdr_sequence (ss_header ?src))"
    have pg: "unat pg = page_of rt w" and off: "unat off = page_of rt w * unat (fi_page_size info)"
      using vw(3) l by (auto simp: pg_def off_def w_def)
    obtain es f1 where e: "fo_erase ops f pg = (es, f1)" by (meson surj_pair)
    have f1: "valid f1" "\<And>p. p \<noteq> page_of rt w \<Longrightarrow> page_at info (contents f1) p = page_at info (contents f) p"
      using erase_valid[OF f, of pg] erase_other_page[OF f, of pg] e pg by auto
    obtain ws f2 where p: "WriteProgramRecord ops st f1 off rt (Some (pl_data (ss_payload ?src))) (length body) q = (ws, f2)"
      by (meson surj_pair)
    have f2: "valid f2" "\<And>p. p \<noteq> page_of rt w \<Longrightarrow> page_at info (contents f2) p = page_at info (contents f1) p"
      using WriteProgramRecord_frame[OF r(1) f1(1) off, where rt = rt and seq = q and sz = "length body" and data = "Some (pl_data (ss_payload ?src))"] p
      by auto
    have res: "(s, g) = (if es \<noteq> PLATFORM_FLASH_OK then (STORAGE_REPAIR_REFUSED, f1)
        else (if ws \<noteq> STORAGE_WRITE_OK then STORAGE_REPAIR_REFUSED else STORAGE_REPAIR_DONE, f2))"
    proof (cases "ss_state a = SLOT_STATE_VALID")
      case va: True
      then show ?thesis
        using W True e p body(1,2)
        by (cases "es = PLATFORM_FLASH_OK") (simp_all add: Storage_EnsureRedundancy_def l(1) i a_def[symmetric] b_def[symmetric] src v_def w_def
            pg_def off_def q_def next_sequence_def STORAGE_PAYLOAD_MAX_def Let_def)
    next
      case va: False
      then show ?thesis
        using W True e p body(1,2)
        by (cases "es = PLATFORM_FLASH_OK") (simp_all add: Storage_EnsureRedundancy_def l(1) i a_def[symmetric] b_def[symmetric] src v_def w_def
            pg_def off_def q_def next_sequence_def STORAGE_PAYLOAD_MAX_def Let_def)
    qed
    show ?thesis
    proof (rule repaired[OF vw(1) _ body(1) srcv peer body(3)])
      show "valid g"
        using res f1(1) f2(1) by (auto split: if_splits)
      show "page_at info (contents g) p = page_at info (contents f) p" if "p \<noteq> page_of rt (other_slot v)" for p
        using res f1(2)[of p] f2(2)[of p] that by (auto simp: w_def[symmetric] split: if_splits)
      show "slot_view rt (page_at info (contents g) (page_of rt (other_slot v))) =
          record_snapshot rt body (next_sequence (hdr_sequence (ss_header ?src)))"
        if "s = STORAGE_REPAIR_DONE"
        using WriteProgramRecord_ok[OF r(1) f1(1) off, of rt _ "length body" q g body] res that p body(1,3)
        by (auto simp: w_def[symmetric] q_def slot_payload_again split: if_splits)
    qed
  qed
qed

section \<open>Recovery\<close>

lemma RecoverCorrupt_cases:
  assumes r: "storage_ready info st" "record_type_ok rt" and f: "valid f"
    and W: "Storage_RecoverCorruptRecord ops st f rt data sz = (s, g)"
  obtains (untouched) "g = f" "s \<noteq> STORAGE_RECOVERY_OK"
  | (recovered) "valid g" "sz \<le> 256"
      "\<And>i. i < 2 \<Longrightarrow> ss_state (ReadSlotSnapshot ops st f rt i) \<in> {SLOT_STATE_ERASED, SLOT_STATE_CORRUPT}"
      "\<And>p. p \<noteq> page_of rt 0 \<Longrightarrow> p \<noteq> page_of rt 1 \<Longrightarrow> page_at info (contents g) p = page_at info (contents f) p"
      "\<And>d. s = STORAGE_RECOVERY_OK \<Longrightarrow> take sz (data_of data) = d \<Longrightarrow> length d = sz \<Longrightarrow>
         slot_view rt (page_at info (contents g) (page_of rt 0)) = record_snapshot rt d 1 \<and>
         page_at info (contents g) (page_of rt 1) = replicate (unat (fi_page_size info)) 255"
proof -
  obtain l where l: "Storage_GetLayout st rt = Some l"
    "unat (slot_a_page l) = page_of rt 0" "unat (slot_b_page l) = page_of rt 1"
    "unat (slot_a_offset l) = page_of rt 0 * unat (fi_page_size info)"
    using GetLayout_Some[OF r] by metis
  have ne: "page_of rt 0 \<noteq> page_of rt 1" using page_of_other[OF r(2), of 0] by simp
  define a where "a = ReadSlotSnapshot ops st f rt 0"
  define b where "b = ReadSlotSnapshot ops st f rt 1"
  have i: "s_initialized st" using r(1) by (simp add: storage_ready_def)
  let ?sts = "{SLOT_STATE_ERASED, SLOT_STATE_CORRUPT}"
  let ?go = "ss_state a \<in> ?sts \<and> ss_state b \<in> ?sts \<and>
    \<not> (ss_state a = SLOT_STATE_ERASED \<and> ss_state b = SLOT_STATE_ERASED) \<and> sz \<le> STORAGE_PAYLOAD_MAX \<and>
    \<not> (data = None \<and> sz > 0)"
  obtain ea f1 where e1: "fo_erase ops f (slot_a_page l) = (ea, f1)" by (meson surj_pair)
  obtain eb f2 where e2: "fo_erase ops f1 (slot_b_page l) = (eb, f2)" by (meson surj_pair)
  obtain ws f3 where w: "WriteProgramRecord ops st f2 (slot_a_offset l) rt data sz 1 = (ws, f3)"
    by (meson surj_pair)
  have f1: "valid f1" "p \<noteq> page_of rt 0 \<Longrightarrow> page_at info (contents f1) p = page_at info (contents f) p" for p
    using erase_valid[OF f, of "slot_a_page l"] erase_other_page[OF f, of "slot_a_page l" p] e1 l by auto
  have f2: "valid f2" "p \<noteq> page_of rt 1 \<Longrightarrow> page_at info (contents f2) p = page_at info (contents f1) p" for p
    using erase_valid[OF f1(1), of "slot_b_page l"] erase_other_page[OF f1(1), of "slot_b_page l" p] e2 l by auto
  have f3: "valid f3" "p \<noteq> page_of rt 0 \<Longrightarrow> page_at info (contents f3) p = page_at info (contents f2) p" for p
    using WriteProgramRecord_frame[OF r(1) f2(1) l(4), where data = data and sz = sz and rt = rt and seq = 1] w
    by auto
  show ?thesis
  proof (cases ?go)
    case False
    then have "g = f \<and> s \<noteq> STORAGE_RECOVERY_OK"
      using W by (cases "ss_state a"; cases "ss_state b")
        (auto simp: Storage_RecoverCorruptRecord_def l(1) i a_def[symmetric] b_def[symmetric] split: if_splits)
    then show ?thesis by (intro untouched) simp_all
  next
    case True
    have n: "\<not> (data = None \<and> sz > 0)" and sz: "\<not> sz > STORAGE_PAYLOAD_MAX" using True by auto
    have res: "(s, g) = (if ea \<noteq> PLATFORM_FLASH_OK then (STORAGE_RECOVERY_FAILED, f1)
        else if eb \<noteq> PLATFORM_FLASH_OK then (STORAGE_RECOVERY_FAILED, f2)
        else (if ws \<noteq> STORAGE_WRITE_OK then STORAGE_RECOVERY_FAILED else STORAGE_RECOVERY_OK, f3))"
      using W True
      by (cases "ss_state a"; cases "ss_state b")
        (simp_all only: Storage_RecoverCorruptRecord_def l(1) i a_def[symmetric] b_def[symmetric] n sz e1 e2 w
          Let_def prod.case option.case, simp_all)
    show ?thesis
    proof (rule recovered)
      show "valid g" using res f1(1) f2(1) f3(1) by (auto split: if_splits)
      show "sz \<le> 256" using sz by (simp add: STORAGE_PAYLOAD_MAX_def)
      show "ss_state (ReadSlotSnapshot ops st f rt i) \<in> ?sts" if "i < 2" for i
        using True that by (auto simp: slot_index_cases a_def b_def)
      show "page_at info (contents g) p = page_at info (contents f) p" if "p \<noteq> page_of rt 0" "p \<noteq> page_of rt 1" for p
        using res f1(2)[of p] f2(2)[of p] f3(2)[of p] that by (auto split: if_splits)
      show "slot_view rt (page_at info (contents g) (page_of rt 0)) = record_snapshot rt d 1 \<and>
         page_at info (contents g) (page_of rt 1) = replicate (unat (fi_page_size info)) 255"
        if "s = STORAGE_RECOVERY_OK" "take sz (data_of data) = d" "length d = sz" for d
      proof -
        have ok: "ea = PLATFORM_FLASH_OK" "eb = PLATFORM_FLASH_OK" "ws = STORAGE_WRITE_OK" "g = f3"
          using res that(1) by (auto split: if_splits)
        show ?thesis
          using WriteProgramRecord_ok[OF r(1) f2(1) l(4) _ that(2,3)] w ok
            erase_page_ok(2)[OF f1(1), of "slot_b_page l" f2] e2 l(3) f3(2)[of "page_of rt 1"] ne
          by auto
      qed
    qed
  qed
qed

section \<open>Formatting\<close>

lemma format_pages_frame:
  assumes "valid f" "\<forall>p \<in> set ps. p < 6" "6 \<le> a"
  shows "valid (snd (format_pages ops f ps)) \<and>
    page_at info (contents (snd (format_pages ops f ps))) a = page_at info (contents f) a"
  using assms
proof (induction ps arbitrary: f)
  case (Cons p ps)
  obtain es f1 where e: "fo_erase ops f (of_nat p) = (es, f1)" by (meson surj_pair)
  have p: "unat (of_nat p :: u32) = p" using Cons.prems(2) by (simp add: unat_of_nat take_bit_eq_mod)
  have "valid f1" "page_at info (contents f1) a = page_at info (contents f) a"
    using erase_valid[OF Cons.prems(1), of "of_nat p"] erase_other_page[OF Cons.prems(1), of "of_nat p" a]
      e p Cons.prems(2,3) by auto
  then show ?case using Cons.IH[of f1] Cons.prems e by auto
qed simp

lemma format_pages_erases:
  assumes "valid f" "\<forall>p \<in> set ps. p < 6" "distinct ps" "fst (format_pages ops f ps)" "q < 6"
  shows "page_at info (contents (snd (format_pages ops f ps))) q =
    (if q \<in> set ps then replicate (unat (fi_page_size info)) 255 else page_at info (contents f) q)"
  using assms
proof (induction ps arbitrary: f)
  case (Cons p ps)
  obtain es f1 where e: "fo_erase ops f (of_nat p) = (es, f1)" by (meson surj_pair)
  have p: "unat (of_nat p :: u32) = p" using Cons.prems(2) by (simp add: unat_of_nat take_bit_eq_mod)
  have es: "es = PLATFORM_FLASH_OK" using Cons.prems(4) e by (auto split: if_splits)
  have f1: "valid f1" "page_at info (contents f1) p = replicate (unat (fi_page_size info)) 255"
    using erase_page_ok[OF Cons.prems(1), of "of_nat p" f1] e es p by auto
  have "q \<noteq> p \<Longrightarrow> page_at info (contents f1) q = page_at info (contents f) q"
    using erase_other_page[OF Cons.prems(1), of "of_nat p" q] e p by auto
  then show ?case using Cons.IH[of f1] Cons.prems e es f1 by auto
qed simp

end

end
