(* ===== verification/Storage_Props.thy ===== *)
theory Storage_Props
  imports Storage_Repair
begin

text \<open>
  The properties of the storage component, stated for every flash device that obeys the
  interface of \<open>Flash_Device\<close>, with their instances on the host device.
\<close>

section \<open>The freshly initialised host device\<close>

definition host_storage :: storage where
  "host_storage = snd (Storage_Init host_ops HostFlash_Init)"

lemma slots_fit_host:
  "list_all (slots_fit \<lparr>s_initialized = False, s_page_size = 2048, s_total_size = 12288,
     s_page_count = 6, s_program_unit = 8\<rparr>) [0..<3]"
  by code_simp

lemma host_init_ok: "fst (Storage_Init host_ops f)"
  using slots_fit_host
  by (simp add: Storage_Init_def host_ops_def host_info_def host_geometry
      Host_FlashValidateConfiguration_def storage_constants storage_reset_def)

lemma host_ops_info: "fo_info host_ops = Some host_info"
  by (simp add: host_ops_def)

lemma host_storage_ready: "storage_ready host_info host_storage"
  unfolding host_storage_def by (rule storage_init_ready[OF host_ops_info host_init_ok])

lemma host_erased_page:
  assumes "p < 6"
  shows "page_at host_info (hf_data HostFlash_Init) p = replicate 2048 255"
  using assms unfolding page_at_def HostFlash_Init_def
  by (simp add: host_geometry window_replicate)

lemma host_erased_slot:
  assumes "record_type_ok rt" "i < 2"
  shows "ss_state (ReadSlotSnapshot host_ops host_storage HostFlash_Init rt i) = SLOT_STATE_ERASED"
  using host.snapshot_working[OF host_storage_ready assms host_working_init]
    slot_view_erased[OF host_erased_page[OF page_of_less[OF assms]]] by simp

lemma host_erased_select:
  assumes "record_type_ok rt"
  shows "SelectWriteSlot host_ops host_storage HostFlash_Init rt = Some (0, 0)"
  using host_erased_slot[OF assms, of 0] host_erased_slot[OF assms, of 1]
  by (simp add: SelectWriteSlot_def)

lemma record_type_ok_simps [simp]: "record_type_ok 1" "record_type_ok 2" "record_type_ok 3"
  by (simp_all add: record_type_ok_def record_types)

lemma host_first_write:
  obtains g where
    "Storage_WriteEx host_ops host_storage HostFlash_Init 1 (Some [1, 2, 3]) (length [1 :: u8, 2, 3]) =
       (STORAGE_WRITE_OK, g)"
    "host_working g"
proof -
  have "length [1 :: u8, 2, 3] \<le> 256" by simp
  from host.WriteEx_working[OF host_storage_ready record_type_ok_simps(1) host_working_init
      host_erased_select[OF record_type_ok_simps(1)] this]
  show ?thesis using that by blast
qed

section \<open>Layout\<close>

text \<open>
  Whenever \<open>Storage_Init\<close> accepts a device, the six slots (A and B of the
  three record types) are page-aligned, inside the device, large enough for the largest
  record, and pairwise disjoint.
\<close>

theorem storage_init_layout:
  assumes "fo_info ops = Some info" "fst (Storage_Init ops f)"
    and "record_type_ok rt" "i < 2" "record_type_ok rt'" "i' < 2" "(rt, i) \<noteq> (rt', i')"
  shows "\<exists>p off p' off'.
    SlotPage (snd (Storage_Init ops f)) rt i = Some (p, off) \<and>
    SlotPage (snd (Storage_Init ops f)) rt' i' = Some (p', off') \<and>
    unat off = unat p * unat (fi_page_size info) \<and>
    unat off + unat (fi_page_size info) \<le> unat (fi_total_size info) \<and>
    STORAGE_PROGRAM_BUFFER_MAX \<le> unat (fi_page_size info) \<and>
    (unat off + unat (fi_page_size info) \<le> unat off' \<or> unat off' + unat (fi_page_size info) \<le> unat off)"
proof -
  note r = storage_init_ready[OF assms(1,2)]
  let ?ps = "unat (fi_page_size info)"
  obtain p off where a: "SlotPage (snd (Storage_Init ops f)) rt i = Some (p, off)"
    "unat p = page_of rt i" "unat off = page_of rt i * ?ps" using SlotPage_ok[OF r assms(3,4)] .
  obtain p' off' where b: "SlotPage (snd (Storage_Init ops f)) rt' i' = Some (p', off')"
    "unat off' = page_of rt' i' * ?ps" using SlotPage_ok[OF r assms(5,6)] by metis
  have "page_of rt i \<noteq> page_of rt' i'" using page_of_inj[OF assms(3,5,4,6)] assms(7) by auto
  then have "Suc (page_of rt i) * ?ps \<le> page_of rt' i' * ?ps \<or> Suc (page_of rt' i') * ?ps \<le> page_of rt i * ?ps"
    by (auto intro!: mult_right_mono simp del: mult_Suc)
  then show ?thesis
    using a b page_span[OF r page_of_less[OF assms(3,4)]] r
    by (auto simp: storage_ready_def STORAGE_PROGRAM_BUFFER_MAX_def add.commute)
qed

lemma storage_init_layout_witness:
  "\<exists>p off p' off'.
    SlotPage (snd (Storage_Init host_ops HostFlash_Init)) 1 0 = Some (p, off) \<and>
    SlotPage (snd (Storage_Init host_ops HostFlash_Init)) 1 1 = Some (p', off') \<and>
    unat off = unat p * unat (fi_page_size host_info) \<and>
    unat off + unat (fi_page_size host_info) \<le> unat (fi_total_size host_info) \<and>
    STORAGE_PROGRAM_BUFFER_MAX \<le> unat (fi_page_size host_info) \<and>
    (unat off + unat (fi_page_size host_info) \<le> unat off' \<or>
     unat off' + unat (fi_page_size host_info) \<le> unat off)"
  by (rule storage_init_layout[OF host_ops_info host_init_ok]) simp_all

section \<open>Writing and reading\<close>

context working_flash
begin

lemma WriteEx_updates_record:
  assumes r: "storage_ready info st" and f: "working f" and rt: "record_type_ok rt" "record_type_ok rt'"
    and W: "Storage_WriteEx ops st f rt (Some d) (length d) = (STORAGE_WRITE_OK, g)"
  shows "working g \<and> record_of ops st g rt' = ((record_of ops st f)(rt \<mapsto> d)) rt'"
proof -
  note v = working_valid[OF f]
  have g: "working g"
    using r rt(1) v W
  proof (cases rule: WriteEx_cases)
    case (written w q)
    have "length d \<le> 256" using written by simp
    then obtain g' where "Storage_WriteEx ops st f rt (Some d) (length d) = (STORAGE_WRITE_OK, g')" "working g'"
      using WriteEx_working[OF r rt(1) f written(1)] by blast
    then show ?thesis using W by simp
  qed simp
  show ?thesis
  proof (cases "rt' = rt")
    case True
    obtain q where "Storage_Read ops st g rt (Some zero_payload) =
        (STORAGE_READ_OK, Some (ss_payload (record_snapshot rt d q)))"
      using WriteEx_read_back[OF r rt(1) v g W] by metis
    then show ?thesis using True g by (simp add: record_of_def)
  next
    case False
    have "Storage_Read ops st g rt' p = Storage_Read ops st f rt' p" for p
      using WriteEx_keeps_record_type[OF r rt False _ v, of _ "Some d" "length d"] W
      by (intro Storage_Read_cong) simp
    then show ?thesis using False g by (simp add: record_of_def)
  qed
qed

end

text \<open>
  Claim C2. Refinement: on a working device a successful \<open>Storage_WriteEx\<close> is exactly
  the update of the abstract map from record types to contents; the device keeps working,
  and no other record type changes.
\<close>

theorem storage_write_updates_record:
  assumes "working_flash ops info contents valid working" "storage_ready info st" "working f"
    and "record_type_ok rt" "record_type_ok rt'"
    and "Storage_WriteEx ops st f rt (Some d) (length d) = (STORAGE_WRITE_OK, g)"
  shows "working g \<and> record_of ops st g rt' = ((record_of ops st f)(rt \<mapsto> d)) rt'"
  using assms by (rule working_flash.WriteEx_updates_record)

lemma storage_write_updates_record_witness:
  "\<exists>g. record_of host_ops host_storage g 1 = Some [1, 2, 3]"
proof -
  obtain g where "Storage_WriteEx host_ops host_storage HostFlash_Init 1 (Some [1, 2, 3]) (length [1 :: u8, 2, 3]) =
    (STORAGE_WRITE_OK, g)" using host_first_write by auto
  from storage_write_updates_record[OF host.working_flash_axioms host_storage_ready host_working_init
      record_type_ok_simps(1) record_type_ok_simps(1) this]
  show ?thesis by (intro exI[of _ g]) simp
qed

context working_flash
begin

lemma WriteEx_succeeds_iff:
  assumes r: "storage_ready info st" and f: "working f" and rt: "record_type_ok rt" and d: "length d \<le> 256"
  shows "fst (Storage_WriteEx ops st f rt (Some d) (length d)) =
    (if SelectWriteSlot ops st f rt = None then STORAGE_WRITE_UNSAFE_STATE else STORAGE_WRITE_OK)"
proof (cases "SelectWriteSlot ops st f rt")
  case None
  obtain l where "Storage_GetLayout st rt = Some l" using GetLayout_Some[OF r rt] by blast
  then show ?thesis
    using None r d by (simp add: Storage_WriteEx_def storage_ready_def STORAGE_PAYLOAD_MAX_def)
next
  case (Some a)
  obtain w q where a: "a = (w, q)" by (meson surj_pair)
  obtain g where "Storage_WriteEx ops st f rt (Some d) (length d) = (STORAGE_WRITE_OK, g)"
    using WriteEx_working[OF r rt f Some[unfolded a] d] by blast
  then show ?thesis using Some by simp
qed

lemma working_no_io:
  assumes "storage_ready info st" "record_type_ok rt" "i < 2" "working f"
  shows "ss_state (ReadSlotSnapshot ops st f rt i) \<noteq> SLOT_STATE_IO_ERROR"
  unfolding snapshot_working[OF assms] by (simp add: slot_view_def Let_def)

end

text \<open>
  On a working device a write of at most 256 bytes succeeds exactly when the
  record is blank or holds a valid copy; with a corrupt slot and no valid copy it refuses
  with UNSAFE_STATE and leaves the flash alone.
\<close>

theorem storage_write_succeeds_iff:
  assumes "working_flash ops info contents valid working" "storage_ready info st" "working f"
    and "record_type_ok rt" "length d \<le> 256"
  defines "sa \<equiv> ss_state (ReadSlotSnapshot ops st f rt 0)"
    and "sb \<equiv> ss_state (ReadSlotSnapshot ops st f rt 1)"
  shows "(if sa = SLOT_STATE_VALID \<or> sb = SLOT_STATE_VALID \<or>
             (sa = SLOT_STATE_ERASED \<and> sb = SLOT_STATE_ERASED)
          then fst (Storage_WriteEx ops st f rt (Some d) (length d)) = STORAGE_WRITE_OK
          else Storage_WriteEx ops st f rt (Some d) (length d) = (STORAGE_WRITE_UNSAFE_STATE, f))"
proof -
  note wf = assms(1)
  note io = working_flash.working_no_io[OF wf assms(2,4) _ assms(3)]
  have sel: "SelectWriteSlot ops st f rt = None \<longleftrightarrow>
    \<not> (sa = SLOT_STATE_VALID \<or> sb = SLOT_STATE_VALID \<or> (sa = SLOT_STATE_ERASED \<and> sb = SLOT_STATE_ERASED))"
    using io[of 0] io[of 1] by (auto simp: SelectWriteSlot_None_iff sa_def sb_def Let_def)
  have st: "fst (Storage_WriteEx ops st f rt (Some d) (length d)) =
    (if SelectWriteSlot ops st f rt = None then STORAGE_WRITE_UNSAFE_STATE else STORAGE_WRITE_OK)"
    by (rule working_flash.WriteEx_succeeds_iff[OF wf assms(2-5)])
  have "snd (Storage_WriteEx ops st f rt (Some d) (length d)) = f" if "SelectWriteSlot ops st f rt = None"
    using that by (simp add: Storage_WriteEx_def split: option.split)
  then show ?thesis using sel st by (simp add: prod_eq_iff)
qed

lemma storage_write_succeeds_iff_witness:
  "fst (Storage_WriteEx host_ops host_storage HostFlash_Init 1 (Some [7]) (length [7 :: u8])) = STORAGE_WRITE_OK"
  using storage_write_succeeds_iff[OF host.working_flash_axioms host_storage_ready host_working_init
      record_type_ok_simps(1), of "[7]"] host_erased_slot[OF record_type_ok_simps(1)]
  by simp

section \<open>Safety on a device that may fail\<close>

context flash_device
begin

lemma WriteEx_crash_safe:
  assumes r: "storage_ready info st" "record_type_ok rt" and f: "valid f"
    and some: "fst (Storage_Read ops st f rt (Some zero_payload)) = STORAGE_READ_OK"
    and g_def: "g = snd (Storage_WriteEx ops st f rt data sz)"
  shows "fst (Storage_Read ops st g rt (Some zero_payload)) = STORAGE_READ_OK \<and>
    (\<exists>i < 2. ReadSlotSnapshot ops st g rt i = ReadSlotSnapshot ops st f rt i \<and>
       Storage_Read ops st f rt (Some zero_payload) =
         (STORAGE_READ_OK, Some (ss_payload (ReadSlotSnapshot ops st f rt i))))"
proof -
  let ?a = "ReadSlotSnapshot ops st f rt 0" and ?b = "ReadSlotSnapshot ops st f rt 1"
  have win: "\<exists>i < 2. Storage_Read ops st f rt (Some zero_payload) =
      (STORAGE_READ_OK, Some (ss_payload (ReadSlotSnapshot ops st f rt i)))"
    using some by (auto simp: Storage_Read_def Let_def slot_index_cases split: if_splits)
  obtain s where W: "Storage_WriteEx ops st f rt data sz = (s, g)" by (metis g_def prod.collapse)
  from r f W show ?thesis
  proof (cases rule: WriteEx_cases)
    case refused
    then show ?thesis using win some by auto
  next
    case (written w q)
    have keep: "ReadSlotSnapshot ops st g rt (other_slot w) = ReadSlotSnapshot ops st f rt (other_slot w)"
      using WriteEx_keeps_other[OF r f written(1)] by (simp add: g_def)
    have valid_other: "ss_state (ReadSlotSnapshot ops st f rt (other_slot w)) = SLOT_STATE_VALID \<and>
        Storage_Read ops st f rt (Some zero_payload) =
         (STORAGE_READ_OK, Some (ss_payload (ReadSlotSnapshot ops st f rt (other_slot w))))"
      using written(1)
    proof (cases rule: SelectWriteSlot_cases)
      case fresh
      then have False
        using some by (auto simp: Storage_Read_def Let_def split: if_splits)
      then show ?thesis ..
    next
      case a
      then show ?thesis by (auto intro!: Storage_Read_wins[OF r])
    next
      case b
      then show ?thesis by (auto intro!: Storage_Read_wins[OF r])
    qed
    moreover have "fst (Storage_Read ops st g rt (Some zero_payload)) = STORAGE_READ_OK"
      using keep valid_other by (intro Storage_Read_one_valid[OF r]) (auto split: if_splits)
    ultimately show ?thesis using keep by (intro conjI exI[of _ "other_slot w"]) auto
  qed
qed

end

text \<open>
  Claim C1. Crash safety: whatever fails during \<open>Storage_WriteEx\<close> (the erase, the
  program or the verify), a record that was readable stays readable, and the copy a read
  returned before the write is still in its slot, byte for byte as before.
\<close>

theorem storage_write_crash_safe:
  assumes "flash_device ops info contents valid" "storage_ready info st" "record_type_ok rt" "valid f"
    and "fst (Storage_Read ops st f rt (Some zero_payload)) = STORAGE_READ_OK"
  shows "fst (Storage_Read ops st (snd (Storage_WriteEx ops st f rt data sz)) rt (Some zero_payload)) =
      STORAGE_READ_OK \<and>
    (\<exists>i < 2. ReadSlotSnapshot ops st (snd (Storage_WriteEx ops st f rt data sz)) rt i =
         ReadSlotSnapshot ops st f rt i \<and>
       Storage_Read ops st f rt (Some zero_payload) =
         (STORAGE_READ_OK, Some (ss_payload (ReadSlotSnapshot ops st f rt i))))"
  using flash_device.WriteEx_crash_safe[OF assms refl] .

lemma storage_write_crash_safe_witness:
  "\<exists>g. fst (Storage_Read host_ops host_storage
     (snd (Storage_WriteEx host_ops host_storage (HostFlash_SetWriteFail True g) 1 (Some [9]) 1))
     1 (Some zero_payload)) = STORAGE_READ_OK"
proof -
  obtain g where g: "Storage_WriteEx host_ops host_storage HostFlash_Init 1 (Some [1, 2, 3])
    (length [1 :: u8, 2, 3]) = (STORAGE_WRITE_OK, g)" "host_working g" by (rule host_first_write)
  have v: "host_valid HostFlash_Init" "host_valid g" "host_valid (HostFlash_SetWriteFail True g)"
    using g(2) host_working_init by (simp_all add: host_working_def host_valid_def HostFlash_SetWriteFail_def)
  obtain q where "Storage_Read host_ops host_storage g 1 (Some zero_payload) =
      (STORAGE_READ_OK, Some (ss_payload (record_snapshot 1 [1, 2, 3] q)))"
    by (rule host.WriteEx_read_back[OF host_storage_ready record_type_ok_simps(1) v(1) g(2,1)])
  moreover have "ReadSlotSnapshot host_ops host_storage (HostFlash_SetWriteFail True g) 1 i =
      ReadSlotSnapshot host_ops host_storage g 1 i" if "i < 2" for i
    by (rule host.snapshot_local[OF host_storage_ready record_type_ok_simps(1) that v(3,2)])
      (simp add: HostFlash_SetWriteFail_def)
  then have "Storage_Read host_ops host_storage (HostFlash_SetWriteFail True g) 1 (Some zero_payload) =
      Storage_Read host_ops host_storage g 1 (Some zero_payload)"
    by (rule host.Storage_Read_cong)
  ultimately have "fst (Storage_Read host_ops host_storage (HostFlash_SetWriteFail True g) 1 (Some zero_payload)) =
      STORAGE_READ_OK" by simp
  from storage_write_crash_safe[OF host.flash_device_axioms host_storage_ready record_type_ok_simps(1) v(3) this]
  show ?thesis by blast
qed

section \<open>Isolation of the record types\<close>

context flash_device
begin

lemma two_pages_isolation:
  assumes r: "storage_ready info st" "record_type_ok rt" "record_type_ok rt'" "rt' \<noteq> rt"
    and v: "valid f" "valid g"
    and frame: "\<And>p. p \<noteq> page_of rt 0 \<Longrightarrow> p \<noteq> page_of rt 1 \<Longrightarrow>
      page_at info (contents g) p = page_at info (contents f) p"
  shows "Storage_Read ops st g rt' p = Storage_Read ops st f rt' p"
proof (intro Storage_Read_cong snapshot_local)
  fix i :: u8 assume "i < 2"
  then have "page_of rt' i \<noteq> page_of rt 0 \<and> page_of rt' i \<noteq> page_of rt 1"
    using page_of_inj[OF r(3,2)] r(4) by fastforce
  then show "page_at info (contents g) (page_of rt' i) = page_at info (contents f) (page_of rt' i)"
    using frame by blast
qed (use r v in auto)

lemma FormatRecord_frame:
  assumes r: "storage_ready info st" "record_type_ok rt" and f: "valid f"
  defines "g \<equiv> snd (Storage_FormatRecord ops st f rt)"
  shows "valid g"
    "p \<noteq> page_of rt 0 \<Longrightarrow> p \<noteq> page_of rt 1 \<Longrightarrow> page_at info (contents g) p = page_at info (contents f) p"
proof -
  obtain l where l: "Storage_GetLayout st rt = Some l"
    "unat (slot_a_page l) = page_of rt 0" "unat (slot_b_page l) = page_of rt 1"
    using GetLayout_Some[OF r] by metis
  obtain ea f1 where e1: "fo_erase ops f (slot_a_page l) = (ea, f1)" by (meson surj_pair)
  obtain eb f2 where e2: "fo_erase ops f1 (slot_b_page l) = (eb, f2)" by (meson surj_pair)
  have f1: "valid f1" "p \<noteq> page_of rt 0 \<Longrightarrow> page_at info (contents f1) p = page_at info (contents f) p" for p
    using erase_valid[OF f, of "slot_a_page l"] erase_other_page[OF f, of "slot_a_page l" p] e1 l by auto
  have f2: "valid f2" "p \<noteq> page_of rt 1 \<Longrightarrow> page_at info (contents f2) p = page_at info (contents f1) p" for p
    using erase_valid[OF f1(1), of "slot_b_page l"] erase_other_page[OF f1(1), of "slot_b_page l" p] e2 l by auto
  have "g = f1 \<or> g = f2"
    using r(1) l(1) e1 e2 by (auto simp: g_def Storage_FormatRecord_def storage_ready_def)
  then show "valid g"
    "p \<noteq> page_of rt 0 \<Longrightarrow> p \<noteq> page_of rt 1 \<Longrightarrow> page_at info (contents g) p = page_at info (contents f) p"
    using f1 f2 by auto
qed

lemma operations_isolated:
  assumes r: "storage_ready info st" "record_type_ok rt" "record_type_ok rt'" "rt' \<noteq> rt" and f: "valid f"
  shows "Storage_Read ops st (snd (Storage_WriteEx ops st f rt data sz)) rt' p = Storage_Read ops st f rt' p"
    "Storage_Read ops st (snd (Storage_EnsureRedundancy ops st f rt)) rt' p = Storage_Read ops st f rt' p"
    "Storage_Read ops st (snd (Storage_RecoverCorruptRecord ops st f rt data sz)) rt' p = Storage_Read ops st f rt' p"
    "Storage_Read ops st (snd (Storage_FormatRecord ops st f rt)) rt' p = Storage_Read ops st f rt' p"
proof -
  show "Storage_Read ops st (snd (Storage_WriteEx ops st f rt data sz)) rt' p = Storage_Read ops st f rt' p"
    using WriteEx_keeps_record_type[OF r _ f] by (rule Storage_Read_cong)
  show "Storage_Read ops st (snd (Storage_FormatRecord ops st f rt)) rt' p = Storage_Read ops st f rt' p"
    using FormatRecord_frame[OF r(1,2) f] by (intro two_pages_isolation[OF r f]) auto
  obtain s g where W: "Storage_EnsureRedundancy ops st f rt = (s, g)" by (meson surj_pair)
  from r(1,2) f W have "Storage_Read ops st g rt' p = Storage_Read ops st f rt' p"
  proof (cases rule: EnsureRedundancy_cases)
    case (repaired v body)
    show ?thesis
    proof (rule two_pages_isolation[OF r f repaired(2)])
      fix p assume "p \<noteq> page_of rt 0" "p \<noteq> page_of rt 1"
      then show "page_at info (contents g) p = page_at info (contents f) p"
        by (intro repaired(7)) auto
    qed
  qed simp
  then show "Storage_Read ops st (snd (Storage_EnsureRedundancy ops st f rt)) rt' p = Storage_Read ops st f rt' p"
    by (simp add: W)
  obtain s h where R: "Storage_RecoverCorruptRecord ops st f rt data sz = (s, h)" by (meson surj_pair)
  from r(1,2) f R have "Storage_Read ops st h rt' p = Storage_Read ops st f rt' p"
  proof (cases rule: RecoverCorrupt_cases)
    case recovered
    show ?thesis using recovered(4) by (intro two_pages_isolation[OF r f recovered(1)])
  qed simp
  then show "Storage_Read ops st (snd (Storage_RecoverCorruptRecord ops st f rt data sz)) rt' p =
      Storage_Read ops st f rt' p"
    by (simp add: R)
qed

end

text \<open>
  Isolation: no operation on one record type changes what another record type
  reads as, on any device and whether the operation succeeds or fails.
\<close>

theorem storage_records_isolated:
  assumes "flash_device ops info contents valid" "storage_ready info st" "record_type_ok rt"
    and "record_type_ok rt'" "rt' \<noteq> rt" "valid f"
    and "g \<in> {snd (Storage_WriteEx ops st f rt data sz), snd (Storage_EnsureRedundancy ops st f rt),
      snd (Storage_RecoverCorruptRecord ops st f rt data sz), snd (Storage_FormatRecord ops st f rt)}"
  shows "Storage_Read ops st g rt' p = Storage_Read ops st f rt' p"
  using flash_device.operations_isolated[OF assms(1-6)] assms(7) by auto

lemma storage_records_isolated_witness:
  "Storage_Read host_ops host_storage
     (snd (Storage_WriteEx host_ops host_storage HostFlash_Init 1 (Some [5]) 1)) 2 (Some zero_payload) =
   Storage_Read host_ops host_storage HostFlash_Init 2 (Some zero_payload)"
  by (rule storage_records_isolated[OF host.flash_device_axioms host_storage_ready record_type_ok_simps(1,2) _
        host.working_valid[OF host_working_init]]) auto

section \<open>Repair and recovery\<close>

context working_flash
begin

lemma EnsureRedundancy_working:
  assumes r: "storage_ready info st" "record_type_ok rt" and f: "working f" and v: "v < 2"
    and "ss_state (ReadSlotSnapshot ops st f rt v) = SLOT_STATE_VALID"
      "ss_state (ReadSlotSnapshot ops st f rt (other_slot v)) \<noteq> SLOT_STATE_VALID"
  obtains g where "Storage_EnsureRedundancy ops st f rt = (STORAGE_REPAIR_DONE, g)" "working g"
proof -
  have v01: "v = 0 \<or> v = 1" using v by (simp add: slot_index_cases)
  define w where "w = other_slot v"
  have w: "w < 2" using v01 by (auto simp: w_def)
  obtain l where l: "Storage_GetLayout st rt = Some l"
    "unat (slot_a_page l) = page_of rt 0" "unat (slot_b_page l) = page_of rt 1"
    "unat (slot_a_offset l) = page_of rt 0 * unat (fi_page_size info)"
    "unat (slot_b_offset l) = page_of rt 1 * unat (fi_page_size info)"
    using GetLayout_Some[OF r] .
  let ?src = "ReadSlotSnapshot ops st f rt v"
  obtain body where body: "length body \<le> 256" "unat (hdr_payload_size (ss_header ?src)) = length body"
    "ss_payload ?src = slot_payload (ss_header ?src) body"
    using snapshot_valid[OF r v working_valid[OF f] assms(5)] by metis
  define pg where "pg = (if w = 0 then slot_a_page l else slot_b_page l)"
  define off where "off = (if w = 0 then slot_a_offset l else slot_b_offset l)"
  have pg: "unat pg = page_of rt w" and off: "unat off = page_of rt w * unat (fi_page_size info)"
    using v01 l by (auto simp: pg_def off_def w_def)
  have lt: "page_of rt w < 6" by (rule page_of_less[OF r(2) w])
  have "unat pg < unat (fi_page_count info)" using lt pg r(1) by (simp add: storage_ready_def)
  then obtain f1 where e: "fo_erase ops f pg = (PLATFORM_FLASH_OK, f1)" "working f1"
    using working_erase[OF f] by (metis prod.collapse)
  have er: "page_at info (contents f1) (page_of rt w) = replicate (unat (fi_page_size info)) 255"
    using erase_page_ok(2)[OF working_valid[OF f] e(1)] pg by simp
  have d: "take (length body) (data_of (Some (pl_data (ss_payload ?src)))) = body"
    using body by (simp add: slot_payload_again)
  obtain g where p: "WriteProgramRecord ops st f1 off rt (Some (pl_data (ss_payload ?src))) (length body)
      (next_sequence (hdr_sequence (ss_header ?src))) = (STORAGE_WRITE_OK, g)" "working g"
    by (rule WriteProgramRecord_working[OF r(1) e(2) off lt er d refl body(1)]) simp
  have i: "s_initialized st" using r(1) by (simp add: storage_ready_def)
  have io: "ss_state (ReadSlotSnapshot ops st f rt (other_slot v)) \<noteq> SLOT_STATE_IO_ERROR"
    using working_no_io[OF r _ f, of "other_slot v"] v01 by auto
  have "Storage_EnsureRedundancy ops st f rt = (STORAGE_REPAIR_DONE, g)"
    using v01
  proof
    assume [simp]: "v = 0"
    show ?thesis
      using assms(5,6) io body(1,2) e(1) p(1)
      by (simp add: Storage_EnsureRedundancy_def l(1) i w_def pg_def off_def next_sequence_def
          STORAGE_PAYLOAD_MAX_def Let_def)
  next
    assume [simp]: "v = 1"
    show ?thesis
      using assms(5,6) io body(1,2) e(1) p(1)
      by (simp add: Storage_EnsureRedundancy_def l(1) i w_def pg_def off_def next_sequence_def
          STORAGE_PAYLOAD_MAX_def Let_def)
  qed
  then show ?thesis using that p(2) by blast
qed

lemma EnsureRedundancy_mirrors:
  assumes r: "storage_ready info st" "record_type_ok rt" and f: "working f" and v: "v < 2"
    and st: "ss_state (ReadSlotSnapshot ops st f rt v) = SLOT_STATE_VALID"
      "ss_state (ReadSlotSnapshot ops st f rt (other_slot v)) \<noteq> SLOT_STATE_VALID"
  shows "fst (Storage_EnsureRedundancy ops st f rt) = STORAGE_REPAIR_DONE \<and>
    (let g = snd (Storage_EnsureRedundancy ops st f rt) in
      Storage_GetHealth ops st g rt = STORAGE_HEALTH_HEALTHY \<and>
      record_of ops st g rt = record_of ops st f rt \<and>
      ReadSlotSnapshot ops st g rt v = ReadSlotSnapshot ops st f rt v)"
proof -
  have v01: "v = 0 \<or> v = 1" using v by (simp add: slot_index_cases)
  let ?w = "other_slot v"
  let ?src = "ReadSlotSnapshot ops st f rt v"
  obtain g where g: "Storage_EnsureRedundancy ops st f rt = (STORAGE_REPAIR_DONE, g)" "working g"
    using EnsureRedundancy_working[OF assms] .
  obtain l where l: "Storage_GetLayout st rt = Some l" using GetLayout_Some[OF r] by blast
  have i: "s_initialized st" using r(1) by (simp add: storage_ready_def)
  from r working_valid[OF f] g(1)
  have "\<exists>body. length body \<le> 256 \<and> ss_payload ?src = slot_payload (ss_header ?src) body \<and>
      ReadSlotSnapshot ops st g rt v = ?src \<and>
      ReadSlotSnapshot ops st g rt ?w =
        record_snapshot rt body (next_sequence (hdr_sequence (ss_header ?src)))"
  proof (cases rule: EnsureRedundancy_cases)
    case (repaired v' body)
    have vv: "v' = v"
      using repaired(1,4,5) st v01 by (auto simp: slot_index_cases split: if_splits)
    have "ReadSlotSnapshot ops st g rt v = ?src"
      using repaired(7)[of "page_of rt v"] page_of_other[OF r(2) v] working_valid g(2) f vv
      by (intro snapshot_local[OF r v]) auto
    moreover have "ReadSlotSnapshot ops st g rt ?w =
        record_snapshot rt body (next_sequence (hdr_sequence (ss_header ?src)))"
      using snapshot_working[OF r _ g(2), of ?w] repaired(8) vv v01 by auto
    ultimately show ?thesis using repaired(3,6) vv by blast
  qed simp
  then obtain body where body: "length body \<le> 256" "ss_payload ?src = slot_payload (ss_header ?src) body"
    and gv: "ReadSlotSnapshot ops st g rt v = ?src"
    and gw: "ReadSlotSnapshot ops st g rt ?w =
        record_snapshot rt body (next_sequence (hdr_sequence (ss_header ?src)))" by blast
  have "Storage_GetHealth ops st g rt = STORAGE_HEALTH_HEALTHY"
    using v01 gv gw st(1) by (auto simp: Storage_GetHealth_def Let_def l i)
  moreover have rf: "Storage_Read ops st f rt (Some zero_payload) = (STORAGE_READ_OK, Some (ss_payload ?src))"
    using st by (intro Storage_Read_wins[OF r v]) auto
  moreover have "Storage_Read ops st g rt (Some zero_payload) =
      (STORAGE_READ_OK, Some (ss_payload (ReadSlotSnapshot ops st g rt ?w)))"
    using v01 gv gw next_sequence_newer[of "hdr_sequence (ss_header ?src)"]
    by (intro Storage_Read_wins[OF r]) (auto simp: SelectNewest_def)
  then have "record_of ops st g rt = Some body" by (simp add: record_of_def gw)
  moreover have "record_of ops st f rt = Some body"
    using body slot_payload_again[OF body(1)] by (simp add: record_of_def rf slot_payload_def)
  ultimately show ?thesis by (simp add: g(1) gv)
qed

end

text \<open>
  Claim C4. On a working device \<open>Storage_EnsureRedundancy\<close> brings a record with one
  valid slot back to two: it reports DONE, the health is HEALTHY afterwards, the record
  reads as before, and the valid source slot is not touched.
\<close>

theorem storage_redundancy_restored:
  assumes "working_flash ops info contents valid working" "storage_ready info st" "record_type_ok rt"
    and "working f" "v < 2"
    and "ss_state (ReadSlotSnapshot ops st f rt v) = SLOT_STATE_VALID"
      "ss_state (ReadSlotSnapshot ops st f rt (other_slot v)) \<noteq> SLOT_STATE_VALID"
  shows "fst (Storage_EnsureRedundancy ops st f rt) = STORAGE_REPAIR_DONE \<and>
    (let g = snd (Storage_EnsureRedundancy ops st f rt) in
      Storage_GetHealth ops st g rt = STORAGE_HEALTH_HEALTHY \<and>
      record_of ops st g rt = record_of ops st f rt \<and>
      ReadSlotSnapshot ops st g rt v = ReadSlotSnapshot ops st f rt v)"
  using assms by (rule working_flash.EnsureRedundancy_mirrors)

lemma host_first_write_slots:
  obtains g where "host_working g"
    "ReadSlotSnapshot host_ops host_storage g 1 0 = record_snapshot 1 [1, 2, 3] 1"
    "ss_state (ReadSlotSnapshot host_ops host_storage g 1 1) = SLOT_STATE_ERASED"
proof -
  obtain g where g: "Storage_WriteEx host_ops host_storage HostFlash_Init 1 (Some [1, 2, 3])
    (length [1 :: u8, 2, 3]) = (STORAGE_WRITE_OK, g)" "host_working g" by (rule host_first_write)
  note sel = host_erased_select[OF record_type_ok_simps(1)]
  have "ReadSlotSnapshot host_ops host_storage g 1 1 = ReadSlotSnapshot host_ops host_storage HostFlash_Init 1 1"
    using host.WriteEx_keeps_other[OF host_storage_ready record_type_ok_simps(1)
        host.working_valid[OF host_working_init] sel, of "Some [1, 2, 3]" "length [1 :: u8, 2, 3]"] g(1)
    by simp
  then have e: "ss_state (ReadSlotSnapshot host_ops host_storage g 1 1) = SLOT_STATE_ERASED"
    using host_erased_slot[OF record_type_ok_simps(1), of 1] by simp
  from host_storage_ready record_type_ok_simps(1) host.working_valid[OF host_working_init] g(1)
  have "ReadSlotSnapshot host_ops host_storage g 1 0 = record_snapshot 1 [1, 2, 3] 1"
  proof (cases rule: host.WriteEx_cases)
    case (written w q)
    then have "w = 0" "q = 0" using sel by simp_all
    then show ?thesis
      using written(6)[OF refl, of "[1, 2, 3]"] host.snapshot_working[OF host_storage_ready
          record_type_ok_simps(1) written(2) g(2)]
      by (simp add: next_sequence_def)
  qed simp
  then show ?thesis using that g(2) e by blast
qed

lemma storage_redundancy_restored_witness:
  "\<exists>g. fst (Storage_EnsureRedundancy host_ops host_storage g 1) = STORAGE_REPAIR_DONE"
proof -
  obtain g where g: "host_working g"
    "ReadSlotSnapshot host_ops host_storage g 1 0 = record_snapshot 1 [1, 2, 3] 1"
    "ss_state (ReadSlotSnapshot host_ops host_storage g 1 1) = SLOT_STATE_ERASED"
    by (rule host_first_write_slots)
  from storage_redundancy_restored[OF host.working_flash_axioms host_storage_ready record_type_ok_simps(1) g(1), of 0]
  show ?thesis using g(2,3) by auto
qed

context working_flash
begin

lemma RecoverCorrupt_working:
  assumes r: "storage_ready info st" "record_type_ok rt" and f: "working f" and d: "length d \<le> 256"
    and c: "\<And>i. i < 2 \<Longrightarrow> ss_state (ReadSlotSnapshot ops st f rt i) \<noteq> SLOT_STATE_VALID"
      "i < 2" "ss_state (ReadSlotSnapshot ops st f rt i) = SLOT_STATE_CORRUPT"
  obtains g where "Storage_RecoverCorruptRecord ops st f rt (Some d) (length d) = (STORAGE_RECOVERY_OK, g)"
    "working g"
proof -
  obtain l where l: "Storage_GetLayout st rt = Some l"
    "unat (slot_a_page l) = page_of rt 0" "unat (slot_b_page l) = page_of rt 1"
    "unat (slot_a_offset l) = page_of rt 0 * unat (fi_page_size info)"
    using GetLayout_Some[OF r] by metis
  have lt: "page_of rt 0 < 6" "page_of rt 1 < 6" by (simp_all add: page_of_less[OF r(2)])
  then have "unat (slot_a_page l) < unat (fi_page_count info)" "unat (slot_b_page l) < unat (fi_page_count info)"
    using l(2,3) r(1) by (simp_all add: storage_ready_def)
  then obtain f1 where e1: "fo_erase ops f (slot_a_page l) = (PLATFORM_FLASH_OK, f1)" "working f1"
    using working_erase[OF f] by (metis prod.collapse)
  then obtain f2 where e2: "fo_erase ops f1 (slot_b_page l) = (PLATFORM_FLASH_OK, f2)" "working f2"
    using working_erase[OF e1(2)] \<open>unat (slot_b_page l) < _\<close> by (metis prod.collapse)
  have "page_at info (contents f2) (page_of rt 0) = page_at info (contents f1) (page_of rt 0)"
    using erase_other_page[OF working_valid[OF e1(2)], of "slot_b_page l" "page_of rt 0"] e2(1) l(3)
      page_of_other[OF r(2), of 0] by simp
  then have er: "page_at info (contents f2) (page_of rt 0) = replicate (unat (fi_page_size info)) 255"
    using erase_page_ok(2)[OF working_valid[OF f] e1(1)] l(2) by simp
  obtain g where w: "WriteProgramRecord ops st f2 (slot_a_offset l) rt (Some d) (length d) 1 = (STORAGE_WRITE_OK, g)"
    "working g"
    by (rule WriteProgramRecord_working[OF r(1) e2(2) l(4) lt(1) er _ refl d, of "Some d"]) simp_all
  have i: "s_initialized st" using r(1) by (simp add: storage_ready_def)
  define a where "a = ReadSlotSnapshot ops st f rt 0"
  define b where "b = ReadSlotSnapshot ops st f rt 1"
  have nv: "ss_state a \<noteq> SLOT_STATE_VALID" "ss_state b \<noteq> SLOT_STATE_VALID"
    using c(1) by (simp_all add: a_def b_def)
  have nio: "ss_state a \<noteq> SLOT_STATE_IO_ERROR" "ss_state b \<noteq> SLOT_STATE_IO_ERROR"
    using working_no_io[OF r _ f] by (simp_all add: a_def b_def)
  have co: "ss_state a = SLOT_STATE_CORRUPT \<or> ss_state b = SLOT_STATE_CORRUPT"
    using c(2,3) by (auto simp: slot_index_cases a_def b_def)
  have "Storage_RecoverCorruptRecord ops st f rt (Some d) (length d) = (STORAGE_RECOVERY_OK, g)"
    using nv nio co d e1(1) e2(1) w(1)
    by (auto simp: Storage_RecoverCorruptRecord_def l(1) i a_def[symmetric] b_def[symmetric]
        STORAGE_PAYLOAD_MAX_def Let_def)
  then show ?thesis using that w(2) by blast
qed

lemma RecoverCorrupt_spec:
  assumes r: "storage_ready info st" "record_type_ok rt" and f: "working f" and d: "length d \<le> 256"
  shows "(if (\<forall>i < 2. ss_state (ReadSlotSnapshot ops st f rt i) \<noteq> SLOT_STATE_VALID) \<and>
             (\<exists>i < 2. ss_state (ReadSlotSnapshot ops st f rt i) = SLOT_STATE_CORRUPT)
          then fst (Storage_RecoverCorruptRecord ops st f rt (Some d) (length d)) = STORAGE_RECOVERY_OK \<and>
               record_of ops st (snd (Storage_RecoverCorruptRecord ops st f rt (Some d) (length d))) rt = Some d
          else Storage_RecoverCorruptRecord ops st f rt (Some d) (length d) = (STORAGE_RECOVERY_NOT_NEEDED, f))"
proof (cases "(\<forall>i < 2. ss_state (ReadSlotSnapshot ops st f rt i) \<noteq> SLOT_STATE_VALID) \<and>
             (\<exists>i < 2. ss_state (ReadSlotSnapshot ops st f rt i) = SLOT_STATE_CORRUPT)")
  case True
  then obtain i where i: "i < 2" "ss_state (ReadSlotSnapshot ops st f rt i) = SLOT_STATE_CORRUPT" by blast
  have nv: "\<And>i. i < 2 \<Longrightarrow> ss_state (ReadSlotSnapshot ops st f rt i) \<noteq> SLOT_STATE_VALID" using True by blast
  obtain g where R: "Storage_RecoverCorruptRecord ops st f rt (Some d) (length d) = (STORAGE_RECOVERY_OK, g)"
    "working g" using RecoverCorrupt_working[OF r f d nv i] .
  from r working_valid[OF f] R(1)
  have "slot_view rt (page_at info (contents g) (page_of rt 0)) = record_snapshot rt d 1 \<and>
     page_at info (contents g) (page_of rt 1) = replicate (unat (fi_page_size info)) 255"
  proof (cases rule: RecoverCorrupt_cases)
    case recovered
    then show ?thesis by simp
  qed simp
  then have "ReadSlotSnapshot ops st g rt 0 = record_snapshot rt d 1"
    "ss_state (ReadSlotSnapshot ops st g rt 1) = SLOT_STATE_ERASED"
    using snapshot_working[OF r _ R(2), of 0] snapshot_working[OF r _ R(2), of 1] r(1)
    by (simp_all add: slot_view_erased storage_ready_def)
  then have "Storage_Read ops st g rt (Some zero_payload) =
      (STORAGE_READ_OK, Some (ss_payload (record_snapshot rt d 1)))"
    using Storage_Read_wins[OF r, of 0 ops g] by simp
  then show ?thesis using True R(1) by (simp add: record_of_def)
next
  case False
  obtain l where l: "Storage_GetLayout st rt = Some l" using GetLayout_Some[OF r] by blast
  have i: "s_initialized st" using r(1) by (simp add: storage_ready_def)
  define a where "a = ReadSlotSnapshot ops st f rt 0"
  define b where "b = ReadSlotSnapshot ops st f rt 1"
  have nio: "ss_state a \<noteq> SLOT_STATE_IO_ERROR" "ss_state b \<noteq> SLOT_STATE_IO_ERROR"
    using working_no_io[OF r _ f] by (simp_all add: a_def b_def)
  have F: "ss_state a = SLOT_STATE_VALID \<or> ss_state b = SLOT_STATE_VALID \<or>
    (ss_state a \<noteq> SLOT_STATE_CORRUPT \<and> ss_state b \<noteq> SLOT_STATE_CORRUPT)"
    using False by (auto simp: slot_index_cases a_def b_def)
  have "Storage_RecoverCorruptRecord ops st f rt (Some d) (length d) = (STORAGE_RECOVERY_NOT_NEEDED, f)"
    using F nio d
    by (auto simp: Storage_RecoverCorruptRecord_def l i a_def[symmetric] b_def[symmetric]
        STORAGE_PAYLOAD_MAX_def Let_def)
  then show ?thesis using False by simp
qed

end

text \<open>
  Claim C3. \<open>Storage_RecoverCorruptRecord\<close> on a working device: if no slot is valid and
  one is corrupt it reports OK and the record then reads as the given data; in every other
  state (a valid copy exists, or the record is blank) it reports NOT_NEEDED and the flash
  is unchanged, so a final valid copy is never destroyed.
\<close>

theorem storage_recovery_spec:
  assumes "working_flash ops info contents valid working" "storage_ready info st" "record_type_ok rt"
    and "working f" "length d \<le> 256"
  shows "(if (\<forall>i < 2. ss_state (ReadSlotSnapshot ops st f rt i) \<noteq> SLOT_STATE_VALID) \<and>
             (\<exists>i < 2. ss_state (ReadSlotSnapshot ops st f rt i) = SLOT_STATE_CORRUPT)
          then fst (Storage_RecoverCorruptRecord ops st f rt (Some d) (length d)) = STORAGE_RECOVERY_OK \<and>
               record_of ops st (snd (Storage_RecoverCorruptRecord ops st f rt (Some d) (length d))) rt = Some d
          else Storage_RecoverCorruptRecord ops st f rt (Some d) (length d) = (STORAGE_RECOVERY_NOT_NEEDED, f))"
  using assms by (rule working_flash.RecoverCorrupt_spec)

text \<open>A device whose first page holds no record and is not erased.\<close>

definition host_corrupt :: host_flash where
  "host_corrupt = HostFlash_Init\<lparr>hf_data := overwrite (hf_data HostFlash_Init) 0 [0]\<rparr>"

lemma host_corrupt_working: "host_working host_corrupt"
  by (simp add: host_working_def host_valid_def host_corrupt_def HostFlash_Init_def host_geometry)

lemma host_corrupt_slots:
  "ss_state (ReadSlotSnapshot host_ops host_storage host_corrupt 1 0) = SLOT_STATE_CORRUPT"
  "ss_state (ReadSlotSnapshot host_ops host_storage host_corrupt 1 1) = SLOT_STATE_ERASED"
proof -
  have p: "page_of 1 0 = 0" "page_of 1 1 = 1" by (simp_all add: page_of_def)
  have "take 22 (page_at host_info (hf_data host_corrupt) 0) = 0 # replicate 21 255"
    by (simp add: page_at_def host_corrupt_def HostFlash_Init_def overwrite_def window_def host_geometry)
  moreover have "window (0 # replicate 21 255) 0 4 = [0, 255, 255, 255 :: u8]"
    "of_le [0, 255, 255, 255] \<noteq> STORAGE_MAGIC" by code_simp+
  then have "hdr_magic (header_of_bytes (0 # replicate 21 255)) \<noteq> STORAGE_MAGIC"
    by (simp only: header_of_bytes_def StorageRecordHeader.select_convs simp_thms)
  ultimately have "ss_state (slot_view 1 (page_at host_info (hf_data host_corrupt) 0)) = SLOT_STATE_CORRUPT"
    by (simp add: slot_view_def Let_def header_ok_def)
  then show "ss_state (ReadSlotSnapshot host_ops host_storage host_corrupt 1 0) = SLOT_STATE_CORRUPT"
    using host.snapshot_working[OF host_storage_ready record_type_ok_simps(1) _ host_corrupt_working, of 0] p by simp
  have "page_at host_info (hf_data host_corrupt) 1 = replicate 2048 255"
    by (simp add: page_at_def host_corrupt_def HostFlash_Init_def overwrite_def window_def host_geometry)
  then show "ss_state (ReadSlotSnapshot host_ops host_storage host_corrupt 1 1) = SLOT_STATE_ERASED"
    using host.snapshot_working[OF host_storage_ready record_type_ok_simps(1) _ host_corrupt_working, of 1] p
      slot_view_erased[of _ 2048] by simp
qed

lemma storage_recovery_spec_witness:
  "record_of host_ops host_storage
     (snd (Storage_RecoverCorruptRecord host_ops host_storage host_corrupt 1 (Some [4]) (length [4 :: u8]))) 1 =
   Some [4]"
proof -
  have c: "(\<forall>i < 2. ss_state (ReadSlotSnapshot host_ops host_storage host_corrupt 1 i) \<noteq> SLOT_STATE_VALID) \<and>
     (\<exists>i < 2. ss_state (ReadSlotSnapshot host_ops host_storage host_corrupt 1 i) = SLOT_STATE_CORRUPT)"
    using host_corrupt_slots by (auto simp: slot_index_cases)
  have "length [4 :: u8] \<le> 256" by simp
  note spec = storage_recovery_spec[OF host.working_flash_axioms host_storage_ready record_type_ok_simps(1)
      host_corrupt_working this]
  from spec[unfolded if_P[OF c]] show ?thesis by blast
qed

end
