(* ===== verification/Storage_Integrity.thy ===== *)
theory Storage_Integrity
  imports Storage_Props
begin

text \<open>
  What the checksum of a slot detects, what formatting erases, and how the read status and
  the health of a record follow from the states of its two slots.
\<close>

section \<open>A changed byte\<close>

lemma header_bytes_of_bytes:
  assumes "length raw = 22"
  shows "header_bytes (header_of_bytes raw) = raw"
proof -
  have u32: "le_bytes 4 (of_le (window raw k 4) :: u32) = window raw k 4" if "k + 4 \<le> 22" for k
    using assms that by (intro le_bytes_of_le) simp_all
  have u16: "le_bytes 2 (of_le (window raw k 2) :: u16) = window raw k 2" if "k + 2 \<le> 22" for k
    using assms that by (intro le_bytes_of_le) simp_all
  have one: "[raw ! k] = window raw k 1" if "k < 22" for k
    using assms that by (simp add: window_def take_Suc_conv_app_nth hd_drop_conv_nth take_Suc)
  have "header_bytes (header_of_bytes raw) =
    window raw 0 4 @ window raw 4 2 @ window raw 6 2 @ window raw 8 1 @ window raw 9 1 @
    window raw 10 4 @ window raw 14 2 @ window raw 16 2 @ window raw 18 4"
    using one[of 8] one[of 9] by (simp add: header_bytes_def header_of_bytes_def u32 u16)
  also have "\<dots> = window raw 0 22"
    using window_split[of raw 16 2 4] window_split[of raw 14 2 6] window_split[of raw 10 4 8]
      window_split[of raw 9 1 12] window_split[of raw 8 1 13] window_split[of raw 6 2 14]
      window_split[of raw 4 2 16] window_split[of raw 0 4 18] by simp
  also have "\<dots> = raw" using assms by (rule window_all)
  finally show ?thesis .
qed

lemma header_bytes_without_crc:
  "header_bytes (h\<lparr>hdr_crc32 := 0\<rparr>) = take 18 (header_bytes h) @ [0, 0, 0, 0]"
proof -
  have "le_bytes 4 (0 :: u32) = [0, 0, 0, 0]" by code_simp
  then show ?thesis by (simp add: header_bytes_def)
qed

text \<open>The bytes the checksum of a page covers: the record with its checksum field zeroed.\<close>

definition crc_message :: "bytes \<Rightarrow> nat \<Rightarrow> bytes" where
  "crc_message page n = take 18 page @ [0, 0, 0, 0] @ window page 22 n"

lemma slot_view_valid_iff:
  assumes "280 \<le> length page"
  shows "ss_state (slot_view rt page) = SLOT_STATE_VALID \<longleftrightarrow>
    (let h = header_of_bytes (take 22 page) in
     \<not> list_all (\<lambda>b. b = 255) (take 22 page) \<and> header_ok rt h \<and>
     Storage_Crc32 (crc_message page (unat (hdr_payload_size h))) = of_le (window page 18 4))"
proof -
  have "header_bytes ((header_of_bytes (take 22 page))\<lparr>hdr_crc32 := 0\<rparr>) = take 18 page @ [0, 0, 0, 0]"
    using assms by (simp add: header_bytes_without_crc header_bytes_of_bytes min_absorb1)
  moreover have "hdr_crc32 (header_of_bytes (take 22 page)) = of_le (window page 18 4)"
    by (simp add: header_of_bytes_def window_def drop_take min_def)
  ultimately show ?thesis
    by (simp add: slot_view_def Let_def crc_message_def)
qed

lemma window_update_other:
  "k < off \<or> off + n \<le> k \<Longrightarrow> window (xs[k := v]) off n = window xs off n"
  by (auto simp: window_def drop_update_swap take_update_cancel)

lemma crc_message_split:
  assumes "280 \<le> length page"
  obtains z where "length z = 22" "take 18 z = take 18 page" "crc_message page n = z @ window page 22 n"
    "\<And>k v. crc_message (page[k := v]) n = (if k < 18 then z[k := v] else z) @ window (page[k := v]) 22 n"
proof (rule that)
  let ?z = "take 18 page @ [0, 0, 0, 0]"
  show "length ?z = 22" "take 18 ?z = take 18 page" "crc_message page n = ?z @ window page 22 n"
    using assms by (simp_all add: crc_message_def)
  show "crc_message (page[k := v]) n = (if k < 18 then ?z[k := v] else ?z) @ window (page[k := v]) 22 n" for k v
    using assms
    by (cases "k < 18") (simp_all add: crc_message_def take_update_swap list_update_append list_update_beyond)
qed

lemma crc_message_update:
  assumes "280 \<le> length page" "k < 22 + n" "n \<le> 256"
  shows "crc_message (page[k := v]) n =
    (if 18 \<le> k \<and> k < 22 then crc_message page n else (crc_message page n)[k := v])"
proof -
  obtain z where z: "length z = 22" "crc_message page n = z @ window page 22 n"
    "crc_message (page[k := v]) n = (if k < 18 then z[k := v] else z) @ window (page[k := v]) 22 n"
    using crc_message_split[OF assms(1)] by metis
  have "window (page[k := v]) 22 n = (if k < 22 then window page 22 n else (window page 22 n)[k - 22 := v])"
    by (simp add: window_def drop_update_swap take_update_swap)
  then show ?thesis using z by (simp add: list_update_append)
qed

lemma nth_crc_message:
  assumes "280 \<le> length page" "k < 22 + n" "n \<le> 256" "k < 18 \<or> 22 \<le> k"
  shows "crc_message page n ! k = page ! k"
proof -
  obtain z where z: "length z = 22" "take 18 z = take 18 page" "crc_message page n = z @ window page 22 n"
    using crc_message_split[OF assms(1)] by metis
  show ?thesis
  proof (cases "k < 18")
    case True
    then have "z ! k = page ! k" using z(2) by (metis nth_take)
    then show ?thesis using True z by (simp add: nth_append)
  next
    case False
    then have "22 \<le> k" using assms(4) by simp
    then show ?thesis using assms z by (simp add: nth_append window_def)
  qed
qed

lemma of_le_4_inj:
  assumes "length xs = 4" "length ys = 4" "(of_le xs :: u32) = of_le ys"
  shows "xs = ys"
proof -
  have "le_bytes 4 (of_le xs :: u32) = xs" "le_bytes 4 (of_le ys :: u32) = ys"
    using assms(1,2) by (intro le_bytes_of_le; simp)+
  then show ?thesis unfolding assms(3) by (rule trans[OF sym])
qed

lemma slot_view_detects_byte:
  assumes len: "280 \<le> length page" and v: "ss_state (slot_view rt page) = SLOT_STATE_VALID"
    and k: "k < 22 + unat (hdr_payload_size (ss_header (slot_view rt page)))" "k \<noteq> 6" "k \<noteq> 7"
    and x: "x \<noteq> page ! k"
  shows "ss_state (slot_view rt (page[k := x])) \<noteq> SLOT_STATE_VALID"
proof
  assume v': "ss_state (slot_view rt (page[k := x])) = SLOT_STATE_VALID"
  let ?n = "unat (hdr_payload_size (header_of_bytes (take 22 page)))"
  have hdr: "ss_header (slot_view rt page) = header_of_bytes (take 22 page)"
    using v by (auto simp: slot_view_def Let_def split: if_splits)
  have "window (page[k := x]) 6 2 = window page 6 2"
    using k(2,3) by (intro window_update_other) linarith
  then have n': "unat (hdr_payload_size (header_of_bytes (take 22 (page[k := x])))) = ?n"
    by (simp add: header_of_bytes_def window_def drop_take min_def)
  have n: "?n \<le> 256" "k < 22 + ?n"
    using v k(1) hdr len by (simp_all add: slot_view_valid_iff Let_def header_ok_def STORAGE_PAYLOAD_MAX_def)
  have crc: "Storage_Crc32 (crc_message page ?n) = of_le (window page 18 4)"
    "Storage_Crc32 (crc_message (page[k := x]) ?n) = of_le (window (page[k := x]) 18 4)"
    using v v' len n' by (simp_all add: slot_view_valid_iff Let_def)
  have klen: "k < length (crc_message page ?n)" using n len by (simp add: crc_message_def)
  show False
  proof (cases "18 \<le> k \<and> k < 22")
    case True
    then have "of_le (window page 18 4) = (of_le (window (page[k := x]) 18 4) :: u32)"
      using crc crc_message_update[OF len n(2,1), of x] by simp
    then have "window page 18 4 = window (page[k := x]) 18 4"
      by (rule of_le_4_inj[rotated 2]) (use len in simp_all)
    then have "window page 18 4 ! (k - 18) = window (page[k := x]) 18 4 ! (k - 18)" by simp
    moreover have "18 + (k - 18) = k" using True by linarith
    ultimately show False using True len x by (simp add: window_def)
  next
    case False
    then have "window (page[k := x]) 18 4 = window page 18 4"
      by (intro window_update_other) linarith
    then have "Storage_Crc32 ((crc_message page ?n)[k := x]) = Storage_Crc32 (crc_message page ?n)"
      using crc crc_message_update[OF len n(2,1), of x] False by simp
    then show False
      using crc32_detects_byte[OF klen, of x] nth_crc_message[OF len n(2,1)] False x by auto
  qed
qed

context flash_device
begin

lemma detects_byte:
  assumes r: "storage_ready info st" "record_type_ok rt" "i < 2" and v: "valid f" "valid g"
    and ok: "ss_state (ReadSlotSnapshot ops st f rt i) = SLOT_STATE_VALID"
    and k: "k < 22 + unat (hdr_payload_size (ss_header (ReadSlotSnapshot ops st f rt i)))" "k \<noteq> 6" "k \<noteq> 7"
    and x: "x \<noteq> page_at info (contents f) (page_of rt i) ! k"
    and g: "page_at info (contents g) (page_of rt i) = (page_at info (contents f) (page_of rt i))[k := x]"
  shows "ss_state (ReadSlotSnapshot ops st g rt i) \<noteq> SLOT_STATE_VALID"
proof -
  let ?p = "page_at info (contents f) (page_of rt i)"
  have len: "280 \<le> length ?p"
    using page_at_length[OF r(1) v(1) page_of_less[OF r(2,3)]] r(1) by (simp add: storage_ready_def)
  have f: "ReadSlotSnapshot ops st f rt i = slot_view rt ?p"
    using snapshot_cases[OF r v(1)] ok by (auto simp: io_view_def)
  have "ss_state (slot_view rt (?p[k := x])) \<noteq> SLOT_STATE_VALID"
    using ok k x unfolding f by (intro slot_view_detects_byte[OF len])
  then show ?thesis using snapshot_cases[OF r v(2)] g by (auto simp: io_view_def)
qed

end

text \<open>
  Claim C5. Integrity: if any one byte of a valid record (header or payload, except the two
  bytes of the length field) is changed to any other value, the slot no longer reads as
  valid.
\<close>

theorem storage_detects_changed_byte:
  assumes "flash_device ops info contents valid" "storage_ready info st" "record_type_ok rt" "i < 2"
    and "valid f" "valid g" "ss_state (ReadSlotSnapshot ops st f rt i) = SLOT_STATE_VALID"
    and "k < 22 + unat (hdr_payload_size (ss_header (ReadSlotSnapshot ops st f rt i)))" "k \<noteq> 6" "k \<noteq> 7"
    and "x \<noteq> page_at info (contents f) (page_of rt i) ! k"
    and "page_at info (contents g) (page_of rt i) = (page_at info (contents f) (page_of rt i))[k := x]"
  shows "ss_state (ReadSlotSnapshot ops st g rt i) \<noteq> SLOT_STATE_VALID"
  using assms by (rule flash_device.detects_byte)

lemma page_at_update:
  "k < unat (fi_page_size info) \<Longrightarrow>
     page_at info (xs[p * unat (fi_page_size info) + k := x]) p = (page_at info xs p)[k := x]"
  by (simp add: page_at_def window_def drop_update_swap take_update_swap)

lemma storage_detects_changed_byte_witness:
  "\<exists>g h. ss_state (ReadSlotSnapshot host_ops host_storage g 1 0) = SLOT_STATE_VALID \<and>
     h = g\<lparr>hf_data := (hf_data g)[22 := hf_data g ! 22 + 1]\<rparr> \<and>
     ss_state (ReadSlotSnapshot host_ops host_storage h 1 0) \<noteq> SLOT_STATE_VALID"
proof -
  obtain g where g: "host_working g" "ReadSlotSnapshot host_ops host_storage g 1 0 = record_snapshot 1 [1, 2, 3] 1"
    by (rule host_first_write_slots)
  let ?h = "g\<lparr>hf_data := (hf_data g)[22 := hf_data g ! 22 + 1]\<rparr>"
  have p: "page_of 1 0 = 0" by (simp add: page_of_def)
  have v: "host_valid g" "host_valid ?h" using g(1) by (simp_all add: host_working_def host_valid_def)
  have ok: "ss_state (ReadSlotSnapshot host_ops host_storage g 1 0) = SLOT_STATE_VALID" by (simp add: g(2))
  have k: "22 < 22 + unat (hdr_payload_size (ss_header (ReadSlotSnapshot host_ops host_storage g 1 0)))"
    by (simp add: g(2) record_snapshot_def record_header_def Let_def)
  have nth: "page_at host_info (hf_data g) (page_of 1 0) ! 22 = hf_data g ! 22"
    using v(1) by (simp add: p page_at_def window_def host_valid_def host_geometry)
  have x: "hf_data g ! 22 + 1 \<noteq> page_at host_info (hf_data g) (page_of 1 0) ! 22" by (simp add: nth)
  have pg: "page_at host_info (hf_data ?h) (page_of 1 0) =
      (page_at host_info (hf_data g) (page_of 1 0))[22 := hf_data g ! 22 + 1]"
    using page_at_update[of 22 host_info "hf_data g" 0] by (simp add: p)
  have "ss_state (ReadSlotSnapshot host_ops host_storage ?h 1 0) \<noteq> SLOT_STATE_VALID"
    by (rule storage_detects_changed_byte[OF host.flash_device_axioms host_storage_ready
          record_type_ok_simps(1) _ v ok k _ _ x pg]) simp_all
  then show ?thesis using ok by blast
qed

section \<open>Formatting\<close>

text \<open>
  \<open>Storage_Format\<close> never touches a page beyond the six it owns, whatever
  fails; when it succeeds all six owned pages are erased.
\<close>

theorem storage_format_owned_pages:
  assumes "flash_device ops info contents valid" "storage_ready info st" "valid f"
  shows "if p \<ge> STORAGE_OWNED_PAGES
    then page_at info (contents (snd (Storage_Format ops st f))) p = page_at info (contents f) p
    else fst (Storage_Format ops st f) \<longrightarrow>
      page_at info (contents (snd (Storage_Format ops st f))) p = replicate (unat (fi_page_size info)) 255"
proof -
  have "Storage_Format ops st f = format_pages ops f [0..<6]"
    using assms(2) by (simp add: Storage_Format_def storage_ready_def STORAGE_OWNED_PAGES_def STORAGE_RECORD_TYPES_def)
  then show ?thesis
    using flash_device.format_pages_frame[OF assms(1,3), of "[0..<6]" p]
      flash_device.format_pages_erases[OF assms(1,3), of "[0..<6]" p]
    by (auto simp: STORAGE_OWNED_PAGES_def STORAGE_RECORD_TYPES_def)
qed

lemma storage_format_owned_pages_witness:
  "page_at host_info (hf_data (snd (Storage_Format host_ops host_storage host_corrupt))) 7 =
   page_at host_info (hf_data host_corrupt) 7"
  using storage_format_owned_pages[OF host.flash_device_axioms host_storage_ready
      host.working_valid[OF host_corrupt_working], of 7]
  by (simp add: STORAGE_OWNED_PAGES_def STORAGE_RECORD_TYPES_def)

section \<open>Status and health\<close>

text \<open>
  The read status and the health of a record are the same verdict on its two
  slots: a read is OK exactly when a slot is valid; NOT_FOUND means blank, which is
  healthy; CORRUPT and IO_ERROR agree; and a degraded record always reads.
\<close>

theorem storage_read_health_agree:
  fixes ops :: "'f flash_ops" and f :: 'f
  assumes "storage_ready info st" "record_type_ok rt"
  defines "sa \<equiv> ss_state (ReadSlotSnapshot ops st f rt 0)"
    and "sb \<equiv> ss_state (ReadSlotSnapshot ops st f rt 1)"
    and "rd \<equiv> fst (Storage_Read ops st f rt (Some zero_payload))"
    and "he \<equiv> Storage_GetHealth ops st f rt"
  shows "(rd = STORAGE_READ_OK \<longleftrightarrow> sa = SLOT_STATE_VALID \<or> sb = SLOT_STATE_VALID) \<and>
    (rd = STORAGE_READ_NOT_FOUND \<longleftrightarrow> sa = SLOT_STATE_ERASED \<and> sb = SLOT_STATE_ERASED) \<and>
    (rd = STORAGE_READ_CORRUPT \<longleftrightarrow> he = STORAGE_HEALTH_CORRUPT) \<and>
    (rd = STORAGE_READ_IO_ERROR \<longleftrightarrow> he = STORAGE_HEALTH_IO_ERROR) \<and>
    (he \<in> {STORAGE_HEALTH_DEGRADED, STORAGE_HEALTH_DEGRADED_IO} \<longrightarrow> rd = STORAGE_READ_OK)"
proof -
  obtain l where l: "Storage_GetLayout st rt = Some l" using GetLayout_Some[OF assms(1,2)] by blast
  have i: "s_initialized st" using assms(1) by (simp add: storage_ready_def)
  have rd: "rd = (if sa = SLOT_STATE_VALID \<or> sb = SLOT_STATE_VALID then STORAGE_READ_OK
      else if sa = SLOT_STATE_IO_ERROR \<or> sb = SLOT_STATE_IO_ERROR then STORAGE_READ_IO_ERROR
      else if sa = SLOT_STATE_ERASED \<and> sb = SLOT_STATE_ERASED then STORAGE_READ_NOT_FOUND
      else STORAGE_READ_CORRUPT)"
    unfolding rd_def sa_def sb_def
    by (cases "ss_state (ReadSlotSnapshot ops st f rt 0)"; cases "ss_state (ReadSlotSnapshot ops st f rt 1)")
      (simp_all add: Storage_Read_def l i Let_def)
  have he: "he = (if sa = SLOT_STATE_VALID \<and> sb = SLOT_STATE_VALID then STORAGE_HEALTH_HEALTHY
      else if sa = SLOT_STATE_IO_ERROR \<or> sb = SLOT_STATE_IO_ERROR
      then (if sa = SLOT_STATE_VALID \<or> sb = SLOT_STATE_VALID then STORAGE_HEALTH_DEGRADED_IO
            else STORAGE_HEALTH_IO_ERROR)
      else if sa = SLOT_STATE_VALID \<or> sb = SLOT_STATE_VALID then STORAGE_HEALTH_DEGRADED
      else if sa = SLOT_STATE_CORRUPT \<or> sb = SLOT_STATE_CORRUPT then STORAGE_HEALTH_CORRUPT
      else STORAGE_HEALTH_HEALTHY)"
    unfolding he_def sa_def sb_def
    by (cases "ss_state (ReadSlotSnapshot ops st f rt 0)"; cases "ss_state (ReadSlotSnapshot ops st f rt 1)")
      (simp_all add: Storage_GetHealth_def l i Let_def)
  show ?thesis unfolding rd he by (cases sa; cases sb) simp_all
qed

lemma storage_read_health_agree_witness:
  "Storage_GetHealth host_ops host_storage host_corrupt 1 = STORAGE_HEALTH_CORRUPT \<longleftrightarrow>
   fst (Storage_Read host_ops host_storage host_corrupt 1 (Some zero_payload)) = STORAGE_READ_CORRUPT"
  using storage_read_health_agree[OF host_storage_ready record_type_ok_simps(1), of host_ops host_corrupt] by blast

end
