(* ===== verification/Decimal.thy ===== *)
theory Decimal
  imports Prelude
begin
text \<open>
  Text as ASCII codes, and decimal text: the digits of a number as \<open>%lu\<close> of \<open>printf\<close> writes them, the number a
  reader of digits computes, and that the two are inverse to each other on the text without
  leading zeros. Characters are their ASCII codes.
\<close>

definition ascii :: "string \<Rightarrow> bytes" where "ascii s = map of_char s"

definition is_digit :: "u8 \<Rightarrow> bool" where "is_digit c \<longleftrightarrow> 0x30 \<le> c \<and> c \<le> 0x39"

definition dec_number :: "bytes \<Rightarrow> nat" where
  "dec_number = foldl (\<lambda>n c. 10 * n + unat (c - 0x30)) 0"

function dec_digits :: "nat \<Rightarrow> bytes" where
  "dec_digits n = (if n < 10 then [0x30 + of_nat n] else dec_digits (n div 10) @ [0x30 + of_nat (n mod 10)])"
  by pat_completeness auto

termination
  by (relation "measure id") auto

declare dec_digits.simps [simp del]

lemma digit_of_nat:
  assumes "n < 10"
  shows "is_digit (0x30 + of_nat n)" "unat (0x30 + of_nat n - 0x30 :: u8) = n"
proof -
  have "unat (0x30 + of_nat n :: u8) = 0x30 + n"
    using assms by (simp add: unat_word_ariths unat_of_nat take_bit_eq_mod)
  then show "is_digit (0x30 + of_nat n)" using assms by (simp add: is_digit_def word_le_nat_alt)
  show "unat (0x30 + of_nat n - 0x30 :: u8) = n"
    using assms by (simp add: unat_of_nat take_bit_eq_mod)
qed

lemma digit_number_less:
  assumes "is_digit c"
  shows "unat (c - 0x30) < 10"
proof -
  have "unat (c - 0x30) = unat c - 0x30" "unat c \<le> 0x39"
    using assms by (simp_all add: is_digit_def unat_sub word_le_nat_alt)
  then show ?thesis by simp
qed

lemma digit_restore: "is_digit c \<Longrightarrow> 0x30 + of_nat (unat (c - 0x30)) = c"
  by simp

lemma dec_number_snoc: "dec_number (xs @ [c]) = 10 * dec_number xs + unat (c - 0x30)"
  by (simp add: dec_number_def)

lemma dec_digits_nonempty [simp]: "dec_digits n \<noteq> []"
  by (subst dec_digits.simps) simp

lemma dec_digits_text: "list_all is_digit (dec_digits n)"
proof (induction n rule: dec_digits.induct)
  case (1 n)
  then show ?case using digit_of_nat(1)[of n] digit_of_nat(1)[of "n mod 10"]
    by (subst dec_digits.simps) simp
qed

lemma dec_number_dec_digits [simp]: "dec_number (dec_digits n) = n"
proof (induction n rule: dec_digits.induct)
  case (1 n)
  then show ?case
    using digit_of_nat(2)[of n] digit_of_nat(2)[of "n mod 10"]
    by (subst dec_digits.simps) (simp add: dec_number_snoc dec_number_def)
qed

lemma dec_digits_no_zero: "0 < n \<Longrightarrow> hd (dec_digits n) \<noteq> 0x30"
proof (induction n rule: dec_digits.induct)
  case (1 n)
  show ?case
  proof (cases "n < 10")
    case True
    then have "unat (of_nat n :: u8) = n" by (simp add: unat_of_nat take_bit_eq_mod)
    then have "(of_nat n :: u8) \<noteq> 0" using 1(2) by (metis unat_0 less_irrefl)
    then show ?thesis using True by (subst dec_digits.simps) simp
  next
    case False
    then have "hd (dec_digits (n div 10)) \<noteq> 0x30" using 1(1) by simp
    then show ?thesis using False by (subst dec_digits.simps) simp
  qed
qed

lemma dec_number_pos:
  assumes "list_all is_digit ds" "ds \<noteq> []" "hd ds \<noteq> 0x30"
  shows "0 < dec_number ds"
  using assms
proof (induction ds rule: rev_induct)
  case (snoc c ds)
  show ?case
  proof (cases "ds = []")
    case True
    then have "unat (c - 0x30) \<noteq> 0" using snoc(4) by (simp add: unat_eq_0)
    then show ?thesis using True by (simp add: dec_number_def)
  qed (use snoc in \<open>simp add: dec_number_snoc\<close>)
qed simp

lemma dec_digits_dec_number:
  assumes "list_all is_digit ds" "ds \<noteq> []" "hd ds \<noteq> 0x30"
  shows "dec_digits (dec_number ds) = ds"
  using assms
proof (induction ds rule: rev_induct)
  case (snoc c ds)
  have c: "unat (c - 0x30) < 10" "0x30 + of_nat (unat (c - 0x30)) = c"
    using snoc(2) digit_number_less by auto
  show ?case
  proof (cases "ds = []")
    case True
    then show ?thesis using c by (subst dec_digits.simps) (simp add: dec_number_def)
  next
    case False
    then have "dec_digits (dec_number ds) = ds" "0 < dec_number ds"
      using snoc dec_number_pos[of ds] by simp_all
    then show ?thesis using c by (subst dec_digits.simps) (simp add: dec_number_snoc)
  qed
qed simp

section \<open>Hexadecimal text\<close>

text \<open>
  \<open>Common/Src/hex64.c\<close>: sixteen lowercase hexadecimal digits of a 64-bit value. The
  output buffer is a list; the function writes its first 17 bytes. \<open>hex_digit\<close> is also
  the digit table of \<open>EntityId_Format\<close> in \<open>Provisioning/Src/provisioning.c\<close>.
\<close>

definition kHexDigits :: bytes where
  "kHexDigits = [0x30, 0x31, 0x32, 0x33, 0x34, 0x35, 0x36, 0x37, 0x38, 0x39,
                 0x61, 0x62, 0x63, 0x64, 0x65, 0x66]"

text \<open>The loop, with \<open>n\<close> positions left: digit \<open>n - 1\<close> is written next.\<close>

fun hex64_loop :: "nat \<Rightarrow> u64 \<Rightarrow> bytes \<Rightarrow> bytes" where
  "hex64_loop 0 v out = out"
| "hex64_loop (Suc i) v out =
     hex64_loop i (drop_bit 4 v) (out[i := kHexDigits ! unat (v AND 0x0F)])"

definition Hex64_ToLower :: "bytes \<Rightarrow> u64 \<Rightarrow> bytes" where
  "Hex64_ToLower out v = (hex64_loop 16 v out)[16 := 0]"

text \<open>What a reader of the digits computes.\<close>

definition hex_value :: "u8 \<Rightarrow> nat" where
  "hex_value c = (if 0x30 \<le> c \<and> c \<le> 0x39 then unat c - 0x30 else unat c - 0x61 + 10)"

definition hex_number :: "bytes \<Rightarrow> nat" where
  "hex_number = foldl (\<lambda>n c. 16 * n + hex_value c) 0"

lemma nibble_mod: "unat (v AND 0x0F :: u64) = unat v mod 16"
proof -
  have "v AND 0x0F = v mod 16"
    using take_bit_eq_mask[of 4 v] take_bit_eq_mod[of 4 v] by (simp add: mask_eq_exp_minus_1)
  then show ?thesis by (simp only: unat_mod_distrib) simp
qed

lemma nibble_less: "unat (v AND 0x0F :: u64) < 16"
  by (simp add: nibble_mod)

lemma length_kHexDigits [simp]: "length kHexDigits = 16"
  by (simp add: kHexDigits_def)

lemma length_hex64_loop [simp]: "length (hex64_loop n v out) = length out"
  by (induction n arbitrary: v out) simp_all

lemma nth_hex64_loop_ge: "n \<le> i \<Longrightarrow> hex64_loop n v out ! i = out ! i"
  by (induction n arbitrary: v out) simp_all

lemma digit_value: "d < 16 \<Longrightarrow> hex_value (kHexDigits ! d) = d"
proof -
  have "\<forall>d \<in> set [0..<16]. hex_value (kHexDigits ! d) = d" by code_simp
  then show "d < 16 \<Longrightarrow> hex_value (kHexDigits ! d) = d" by simp
qed

lemma hex_number_snoc: "hex_number (xs @ [c]) = 16 * hex_number xs + hex_value c"
  by (simp add: hex_number_def)

lemma hex_number_loop:
  "n \<le> length out \<Longrightarrow> hex_number (take n (hex64_loop n v out)) = unat v mod 16 ^ n"
proof (induction n arbitrary: v out)
  case (Suc n)
  let ?out = "out[n := kHexDigits ! unat (v AND 0x0F)]"
  have "take (Suc n) (hex64_loop n (drop_bit 4 v) ?out) =
      take n (hex64_loop n (drop_bit 4 v) ?out) @ [kHexDigits ! unat (v AND 0x0F)]"
    using Suc.prems by (simp add: take_Suc_conv_app_nth nth_hex64_loop_ge)
  then have "hex_number (take (Suc n) (hex64_loop (Suc n) v out)) =
      16 * (unat (drop_bit 4 v) mod 16 ^ n) + unat v mod 16"
    using Suc.IH[of ?out "drop_bit 4 v"] Suc.prems
    by (simp add: hex_number_snoc digit_value nibble_less nibble_mod)
  also have "unat (drop_bit 4 v) = unat v div 16"
    by (simp add: drop_bit_eq_div unat_div_distrib)
  also have "16 * (unat v div 16 mod 16 ^ n) + unat v mod 16 = unat v mod 16 ^ Suc n"
    by (simp add: mod_mult2_eq)
  finally show ?case .
qed (simp add: hex_number_def)

lemma hex64_loop_digits:
  "n \<le> length out \<Longrightarrow> set (take n (hex64_loop n v out)) \<subseteq> set kHexDigits"
proof (induction n arbitrary: v out)
  case (Suc n)
  let ?out = "out[n := kHexDigits ! unat (v AND 0x0F)]"
  have "take (Suc n) (hex64_loop n (drop_bit 4 v) ?out) =
      take n (hex64_loop n (drop_bit 4 v) ?out) @ [kHexDigits ! unat (v AND 0x0F)]"
    using Suc.prems by (simp add: take_Suc_conv_app_nth nth_hex64_loop_ge)
  moreover have "kHexDigits ! unat (v AND 0x0F) \<in> set kHexDigits"
    using nibble_less by (intro nth_mem) simp
  ultimately show ?case using Suc.IH[of ?out "drop_bit 4 v"] Suc.prems by auto
qed simp

text \<open>
  \<open>Hex64_ToLower\<close> writes sixteen lowercase hexadecimal digits that denote the
  value, most significant first, and a terminating zero.
\<close>

theorem hex64_denotes_value:
  assumes "17 \<le> length out"
  shows "hex_number (take 16 (Hex64_ToLower out v)) = unat v \<and>
    set (take 16 (Hex64_ToLower out v)) \<subseteq> set kHexDigits \<and>
    Hex64_ToLower out v ! 16 = 0 \<and> drop 17 (Hex64_ToLower out v) = drop 17 out"
proof -
  have "drop 17 (hex64_loop n v out) = drop 17 out" if "n \<le> 16" for n v out
    using that by (induction n arbitrary: v out) simp_all
  moreover have "unat v < 16 ^ 16" using unsigned_less[of v, where ?'a = nat] by simp
  ultimately show ?thesis
    using assms hex_number_loop[of 16 out v] hex64_loop_digits[of 16 out v]
    by (simp add: Hex64_ToLower_def)
qed

lemma hex64_denotes_value_witness:
  "take 17 (Hex64_ToLower (replicate 17 1) 0x1F) = replicate 14 0x30 @ [0x31, 0x66, 0] \<and>
   hex_number (take 16 (Hex64_ToLower (replicate 17 1) 0x1F)) = 31"
proof
  show "take 17 (Hex64_ToLower (replicate 17 1) 0x1F) = replicate 14 0x30 @ [0x31, 0x66, 0]" by code_simp
  show "hex_number (take 16 (Hex64_ToLower (replicate 17 1) 0x1F)) = 31"
    using hex64_denotes_value[of "replicate 17 1" "0x1F"] by simp
qed

end
