(* ===== verification/Provisioning.thy ===== *)
theory Provisioning
  imports Storage_Integrity Decimal
begin

text \<open>
  \<open>Provisioning/Src/provisioning.c\<close>: entity identifiers, the validation of a
  registration, and its persistence. The static variables of the file are the record
  \<open>provisioning\<close>; the packed \<open>RegistrationStorageV1\<close> of
  \<open>provisioning_storage.h\<close> is a record with its 60-byte memory image. Characters are
  their ASCII codes. A persisted \<open>bool\<close> byte other than 0 reads as true.
\<close>

definition REGISTRATION_SCHEMA_VERSION :: u32 where "REGISTRATION_SCHEMA_VERSION = 1"
definition ENTITY_ID_SIZE :: nat where "ENTITY_ID_SIZE = 16"
definition REGISTRATION_STORAGE_V1_SIZE :: nat where "REGISTRATION_STORAGE_V1_SIZE = 60"

type_synonym EntityId = bytes

datatype ProvisioningState =
    PROVISIONING_UNPROVISIONED | PROVISIONING_DISCOVERABLE | PROVISIONING_REGISTRATION_PENDING
  | PROVISIONING_REGISTERED | PROVISIONING_CONFIGURATION_PENDING | PROVISIONING_OPERATIONAL
  | PROVISIONING_ERROR

record DeviceRegistration =
  reg_registered :: bool
  reg_installation_valid :: bool
  reg_building_valid :: bool
  reg_room_valid :: bool
  reg_installation_id :: EntityId
  reg_building_id :: EntityId
  reg_room_id :: EntityId

record ProvisioningStatus =
  ps_state :: ProvisioningState
  ps_registered :: bool
  ps_installation_valid :: bool
  ps_building_valid :: bool
  ps_room_valid :: bool
  ps_revision :: u32

record ProvisioningRuntime =
  rt_current :: DeviceRegistration
  rt_status :: ProvisioningStatus
  rt_storage_status :: StorageReadStatus

record RegistrationStorageV1 =
  rs_schema_version :: u32
  rs_revision :: u32
  rs_registered :: bool
  rs_reserved :: bytes
  rs_installation_id :: EntityId
  rs_building_id :: EntityId
  rs_room_id :: EntityId

record provisioning =
  s_current :: DeviceRegistration
  s_status :: ProvisioningStatus
  s_storage_status :: StorageReadStatus
  s_revision :: u32

section \<open>Entity identifiers\<close>

definition zero_id :: EntityId where "zero_id = replicate ENTITY_ID_SIZE 0"

definition EntityId_IsZero :: "EntityId option \<Rightarrow> bool" where
  "EntityId_IsZero ident = (case ident of None \<Rightarrow> True | Some i \<Rightarrow> i = replicate ENTITY_ID_SIZE 0)"

definition IsAllFF :: "EntityId option \<Rightarrow> bool" where
  "IsAllFF ident = (case ident of None \<Rightarrow> False | Some i \<Rightarrow> i = replicate ENTITY_ID_SIZE 255)"

definition HexVal :: "u8 \<Rightarrow> int" where
  "HexVal c =
     (if c \<ge> 0x30 \<and> c \<le> 0x39 then uint c - 0x30
      else if c \<ge> 0x61 \<and> c \<le> 0x66 then uint c - 0x61 + 10
      else if c \<ge> 0x41 \<and> c \<le> 0x46 then uint c - 0x41 + 10
      else -1)"

text \<open>The loop of \<open>EntityId_Parse\<close> from index \<open>i\<close> on; the bytes already written stay.\<close>

function parse_id_loop :: "nat \<Rightarrow> bytes \<Rightarrow> EntityId \<Rightarrow> bool \<times> EntityId" where
  "parse_id_loop i hex out =
     (if i \<ge> ENTITY_ID_SIZE then (True, out)
      else let hi = HexVal (hex ! (i * 2)); lo = HexVal (hex ! (i * 2 + 1)) in
        if hi < 0 \<or> lo < 0 then (False, out)
        else parse_id_loop (i + 1) hex (out[i := word_of_int (push_bit 4 hi OR lo)]))"
  by pat_completeness auto
termination by (relation "measure (\<lambda>(i, _). ENTITY_ID_SIZE - i)") (auto simp: ENTITY_ID_SIZE_def)

declare parse_id_loop.simps [simp del]

definition EntityId_Parse :: "EntityId \<Rightarrow> bytes option \<Rightarrow> bool \<times> EntityId" where
  "EntityId_Parse out hex =
     (case hex of None \<Rightarrow> (False, out)
      | Some h \<Rightarrow> if length h \<noteq> 2 * ENTITY_ID_SIZE then (False, out) else parse_id_loop 0 h out)"

definition format_id_digits :: "EntityId \<Rightarrow> bytes" where
  "format_id_digits ident =
     concat (map (\<lambda>b. [kHexDigits ! unat (drop_bit 4 b AND 0x0F), kHexDigits ! unat (b AND 0x0F)]) ident)"

definition EntityId_Format :: "EntityId option \<Rightarrow> bytes \<Rightarrow> nat \<Rightarrow> bytes" where
  "EntityId_Format ident out max_len =
     (case ident of None \<Rightarrow> out
      | Some i \<Rightarrow> if max_len < 2 * ENTITY_ID_SIZE + 1 then out
                  else overwrite out 0 (format_id_digits i @ [0]))"

definition Provisioning_ValidEntityId :: "EntityId option \<Rightarrow> bool" where
  "Provisioning_ValidEntityId ident =
     (case ident of None \<Rightarrow> False
      | Some i \<Rightarrow> if EntityId_IsZero ident then False else i \<noteq> replicate ENTITY_ID_SIZE 255)"

section \<open>Validation\<close>

definition ValidateFlags :: "DeviceRegistration \<Rightarrow> bool" where
  "ValidateFlags r =
     (let has_inst = Provisioning_ValidEntityId (Some (reg_installation_id r));
          has_bld = Provisioning_ValidEntityId (Some (reg_building_id r));
          has_room = Provisioning_ValidEntityId (Some (reg_room_id r))
      in
      if \<not> reg_registered r
      then (if reg_installation_valid r \<or> reg_building_valid r \<or> reg_room_valid r then False
            else \<not> (has_inst \<or> has_bld \<or> has_room))
      else if \<not> reg_installation_valid r then False
      else if \<not> has_inst then False
      else if reg_building_valid r
      then (if \<not> has_bld then False else if reg_room_valid r then has_room else \<not> has_room)
      else if reg_room_valid r then False
      else if has_bld \<or> has_room then False
      else True)"

definition blank_registration :: DeviceRegistration where
  "blank_registration =
     \<lparr>reg_registered = False, reg_installation_valid = False, reg_building_valid = False,
      reg_room_valid = False, reg_installation_id = zero_id, reg_building_id = zero_id,
      reg_room_id = zero_id\<rparr>"

definition DeriveCanonical ::
  "bool \<Rightarrow> EntityId \<Rightarrow> EntityId \<Rightarrow> EntityId \<Rightarrow> DeviceRegistration" where
  "DeriveCanonical registered inst bld room =
     (let out = blank_registration\<lparr>reg_registered := registered\<rparr> in
      if \<not> registered then out
      else let out = out\<lparr>reg_installation_id := inst,
                        reg_installation_valid := Provisioning_ValidEntityId (Some inst)\<rparr> in
      if Provisioning_ValidEntityId (Some bld)
      then let out = out\<lparr>reg_building_id := bld, reg_building_valid := True\<rparr> in
           if Provisioning_ValidEntityId (Some room)
           then out\<lparr>reg_room_id := room, reg_room_valid := True\<rparr>
           else out
      else out)"

definition ValidateRawStored :: "RegistrationStorageV1 \<Rightarrow> bool" where
  "ValidateRawStored s =
     (let inst_zero = EntityId_IsZero (Some (rs_installation_id s));
          bld_zero = EntityId_IsZero (Some (rs_building_id s));
          room_zero = EntityId_IsZero (Some (rs_room_id s));
          inst_ff = IsAllFF (Some (rs_installation_id s));
          bld_ff = IsAllFF (Some (rs_building_id s));
          room_ff = IsAllFF (Some (rs_room_id s))
      in
      if \<not> rs_registered s then inst_zero \<and> bld_zero \<and> room_zero
      else if inst_zero \<or> inst_ff then False
      else if \<not> bld_zero \<and> bld_ff then False
      else let bld_assigned = \<not> bld_zero in
      if \<not> room_zero \<and> room_ff then False
      else if \<not> room_zero \<and> \<not> bld_assigned then False
      else True)"

definition Provisioning_ValidateRegistration :: "DeviceRegistration option \<Rightarrow> bool" where
  "Provisioning_ValidateRegistration reg = (case reg of None \<Rightarrow> False | Some r \<Rightarrow> ValidateFlags r)"

definition Provisioning_IsRegistered :: "DeviceRegistration option \<Rightarrow> bool" where
  "Provisioning_IsRegistered reg =
     (case reg of None \<Rightarrow> False
      | Some r \<Rightarrow> reg_registered r \<and> Provisioning_ValidEntityId (Some (reg_installation_id r)))"

definition Provisioning_IsOperational :: "DeviceRegistration option \<Rightarrow> bool" where
  "Provisioning_IsOperational reg =
     (case reg of None \<Rightarrow> False
      | Some r \<Rightarrow> reg_registered r \<and>
          Provisioning_ValidEntityId (Some (reg_installation_id r)) \<and>
          Provisioning_ValidEntityId (Some (reg_building_id r)) \<and>
          Provisioning_ValidEntityId (Some (reg_room_id r)))"

definition Provisioning_IsHealthy :: "provisioning \<Rightarrow> bool" where
  "Provisioning_IsHealthy pv =
     (s_storage_status pv = STORAGE_READ_OK \<or> s_storage_status pv = STORAGE_READ_NOT_FOUND)"

definition Provisioning_GetStorageHealth :: "'f flash_ops \<Rightarrow> storage \<Rightarrow> 'f \<Rightarrow> StorageHealth" where
  "Provisioning_GetStorageHealth ops st f = Storage_GetHealth ops st f RECORD_TYPE_REGISTRATION"

definition Provisioning_GetStatus :: "u32 \<Rightarrow> DeviceRegistration \<Rightarrow> ProvisioningStatus" where
  "Provisioning_GetStatus revision reg =
     \<lparr>ps_state = (if \<not> reg_registered reg then PROVISIONING_DISCOVERABLE
                  else if \<not> reg_installation_valid reg then PROVISIONING_ERROR
                  else if \<not> reg_building_valid reg \<or> \<not> reg_room_valid reg
                  then PROVISIONING_CONFIGURATION_PENDING
                  else PROVISIONING_OPERATIONAL),
      ps_registered = reg_registered reg,
      ps_installation_valid = reg_installation_valid reg,
      ps_building_valid = reg_building_valid reg,
      ps_room_valid = reg_room_valid reg,
      ps_revision = revision\<rparr>"

section \<open>The stored record\<close>

definition stored_bytes :: "RegistrationStorageV1 \<Rightarrow> bytes" where
  "stored_bytes s =
     le_bytes 4 (rs_schema_version s) @ le_bytes 4 (rs_revision s) @
     [if rs_registered s then 1 else 0] @ rs_reserved s @
     rs_installation_id s @ rs_building_id s @ rs_room_id s"

definition stored_of_bytes :: "bytes \<Rightarrow> RegistrationStorageV1" where
  "stored_of_bytes bs =
     \<lparr>rs_schema_version = of_le (window bs 0 4),
      rs_revision = of_le (window bs 4 4),
      rs_registered = (bs ! 8 \<noteq> 0),
      rs_reserved = window bs 9 3,
      rs_installation_id = window bs 12 16,
      rs_building_id = window bs 28 16,
      rs_room_id = window bs 44 16\<rparr>"

definition zero_stored :: RegistrationStorageV1 where
  "zero_stored =
     \<lparr>rs_schema_version = 0, rs_revision = 0, rs_registered = False, rs_reserved = [0, 0, 0],
      rs_installation_id = zero_id, rs_building_id = zero_id, rs_room_id = zero_id\<rparr>"

section \<open>Persistence\<close>

definition Registration_Save ::
  "'f flash_ops \<Rightarrow> storage \<Rightarrow> 'f \<Rightarrow> provisioning \<Rightarrow> DeviceRegistration \<Rightarrow> bool \<times> 'f \<times> provisioning" where
  "Registration_Save ops st f pv reg =
     (if s_storage_status pv \<noteq> STORAGE_READ_OK \<and> s_storage_status pv \<noteq> STORAGE_READ_NOT_FOUND
      then (False, f, pv)
      else if \<not> ValidateFlags reg then (False, f, pv)
      else let
        stored = zero_stored\<lparr>rs_schema_version := REGISTRATION_SCHEMA_VERSION,
                             rs_revision := s_revision pv + 1,
                             rs_registered := reg_registered reg,
                             rs_installation_id := reg_installation_id reg,
                             rs_building_id := reg_building_id reg,
                             rs_room_id := reg_room_id reg\<rparr>;
        (ok, f1) = Storage_Write ops st f RECORD_TYPE_REGISTRATION (Some (stored_bytes stored))
                     REGISTRATION_STORAGE_V1_SIZE
      in
      if \<not> ok then (False, f1, pv)
      else (True, f1,
            \<lparr>s_current = reg,
             s_status = Provisioning_GetStatus (rs_revision stored) reg,
             s_storage_status = STORAGE_READ_OK,
             s_revision = rs_revision stored\<rparr>))"

definition Provisioning_Save ::
  "'f flash_ops \<Rightarrow> storage \<Rightarrow> 'f \<Rightarrow> provisioning \<Rightarrow> DeviceRegistration option \<Rightarrow>
   bool \<times> 'f \<times> provisioning" where
  "Provisioning_Save ops st f pv reg =
     (case reg of None \<Rightarrow> (False, f, pv) | Some r \<Rightarrow> Registration_Save ops st f pv r)"

definition Provisioning_Load :: "provisioning \<Rightarrow> bool \<times> DeviceRegistration" where
  "Provisioning_Load pv =
     (s_storage_status pv = STORAGE_READ_OK \<or> s_storage_status pv = STORAGE_READ_NOT_FOUND,
      s_current pv)"

definition Provisioning_GetRuntime :: "provisioning \<Rightarrow> ProvisioningRuntime" where
  "Provisioning_GetRuntime pv =
     \<lparr>rt_current = s_current pv, rt_status = s_status pv, rt_storage_status = s_storage_status pv\<rparr>"

definition Provisioning_Clear ::
  "'f flash_ops \<Rightarrow> storage \<Rightarrow> 'f \<Rightarrow> provisioning \<Rightarrow> bool \<times> 'f \<times> provisioning" where
  "Provisioning_Clear ops st f pv =
     (let stored = zero_stored\<lparr>rs_schema_version := REGISTRATION_SCHEMA_VERSION,
                              rs_revision := s_revision pv + 1, rs_registered := False\<rparr> in
      if s_storage_status pv = STORAGE_READ_IO_ERROR then (False, f, pv)
      else let
        (ok, f1) =
          (if s_storage_status pv = STORAGE_READ_CORRUPT
           then case Storage_RecoverCorruptRecord ops st f RECORD_TYPE_REGISTRATION
                       (Some (stored_bytes stored)) REGISTRATION_STORAGE_V1_SIZE of
                  (rs, f1) \<Rightarrow> (rs = STORAGE_RECOVERY_OK, f1)
           else Storage_Write ops st f RECORD_TYPE_REGISTRATION (Some (stored_bytes stored))
                  REGISTRATION_STORAGE_V1_SIZE)
      in
      if \<not> ok then (False, f1, pv)
      else (True, f1,
            \<lparr>s_current = blank_registration,
             s_status = Provisioning_GetStatus (rs_revision stored) blank_registration,
             s_storage_status = STORAGE_READ_OK,
             s_revision = rs_revision stored\<rparr>))"

definition zero_status :: ProvisioningStatus where
  "zero_status =
     \<lparr>ps_state = PROVISIONING_UNPROVISIONED, ps_registered = False, ps_installation_valid = False,
      ps_building_valid = False, ps_room_valid = False, ps_revision = 0\<rparr>"

definition Provisioning_Init :: "'f flash_ops \<Rightarrow> storage \<Rightarrow> 'f \<Rightarrow> bool \<times> provisioning" where
  "Provisioning_Init ops st f =
     (let pv0 = \<lparr>s_current = blank_registration, s_status = zero_status,
                 s_storage_status = STORAGE_READ_NOT_FOUND, s_revision = 0\<rparr>;
          fail = (\<lambda>rs. (False, pv0\<lparr>s_storage_status := rs,
                                  s_status := zero_status\<lparr>ps_state := PROVISIONING_ERROR\<rparr>\<rparr>))
      in case Storage_Read ops st f RECORD_TYPE_REGISTRATION (Some zero_payload) of (rs, payload) \<Rightarrow>
      if rs = STORAGE_READ_NOT_FOUND
      then (True, pv0\<lparr>s_status := Provisioning_GetStatus 0 blank_registration\<rparr>)
      else if rs \<noteq> STORAGE_READ_OK then fail rs
      else case payload of None \<Rightarrow> fail STORAGE_READ_CORRUPT | Some p \<Rightarrow>
      if pl_size p \<noteq> REGISTRATION_STORAGE_V1_SIZE then fail STORAGE_READ_CORRUPT
      else let stored = stored_of_bytes (take REGISTRATION_STORAGE_V1_SIZE (pl_data p)) in
      if rs_schema_version stored \<noteq> REGISTRATION_SCHEMA_VERSION then fail STORAGE_READ_CORRUPT
      else if \<not> ValidateRawStored stored then fail STORAGE_READ_CORRUPT
      else let cur = DeriveCanonical (rs_registered stored) (rs_installation_id stored)
                       (rs_building_id stored) (rs_room_id stored) in
      if reg_registered cur \<and> \<not> reg_installation_valid cur then fail STORAGE_READ_CORRUPT
      else (True, \<lparr>s_current = cur,
                   s_status = Provisioning_GetStatus (rs_revision stored) cur,
                   s_storage_status = STORAGE_READ_OK,
                   s_revision = rs_revision stored\<rparr>))"

end
