(* ===== verification/Provisioning_Props.thy ===== *)
theory Provisioning_Props
  imports Provisioning
begin

text \<open>
  The properties of provisioning: identifiers survive printing and parsing, a saved
  registration survives a reboot (exactly when it holds no all-FF identifier), the
  registration in memory is canonical in every reachable state, and mutations fail closed.
\<close>

section \<open>Identifiers\<close>

lemma HexVal_digit: "d < 16 \<Longrightarrow> HexVal (kHexDigits ! d) = int d"
proof -
  have "\<forall>d \<in> set [0..<16]. HexVal (kHexDigits ! d) = int d" by code_simp
  then show "d < 16 \<Longrightarrow> HexVal (kHexDigits ! d) = int d" by simp
qed

lemma nibbles:
  fixes b :: u8
  shows "unat (drop_bit 4 b AND 0x0F) < 16" "unat (b AND 0x0F) < 16"
    "word_of_int (push_bit 4 (uint (drop_bit 4 b AND 0x0F)) OR uint (b AND 0x0F)) = b"
proof -
  have m: "w AND 0x0F = take_bit 4 w" for w :: u8
    using take_bit_eq_mask[of 4 w] by (simp only: mask_eq_exp_minus_1) simp
  have lt: "unat (take_bit 4 w) < 16" for w :: u8
    by (simp only: take_bit_eq_mod unat_mod_distrib) simp
  show "unat (drop_bit 4 b AND 0x0F) < 16" "unat (b AND 0x0F) < 16" unfolding m by (rule lt)+
  show "word_of_int (push_bit 4 (uint (drop_bit 4 b AND 0x0F)) OR uint (b AND 0x0F)) = b"
    by (rule bit_word_eqI) (auto simp: m bit_simps)
qed

lemma HexVal_nibble:
  "HexVal (kHexDigits ! unat (w :: u8)) = uint w" if "unat w < 16"
  unfolding HexVal_digit[OF that] uint_nat ..

lemma format_id_digits_simps [simp]:
  "format_id_digits [] = []"
  "format_id_digits (b # bs) =
     kHexDigits ! unat (drop_bit 4 b AND 0x0F) # kHexDigits ! unat (b AND 0x0F) # format_id_digits bs"
  by (simp_all add: format_id_digits_def)

lemma length_format_id_digits [simp]: "length (format_id_digits ident) = 2 * length ident"
  by (induction ident) simp_all

lemma nth_format_id_digits:
  "i < length ident \<Longrightarrow> format_id_digits ident ! (i * 2) = kHexDigits ! unat (drop_bit 4 (ident ! i) AND 0x0F)"
  "i < length ident \<Longrightarrow> format_id_digits ident ! (i * 2 + 1) = kHexDigits ! unat (ident ! i AND 0x0F)"
proof (induction ident arbitrary: i)
  case (Cons b bs)
  { case 1 then show ?case using Cons by (cases i) auto }
  { case 2 then show ?case using Cons by (cases i) auto }
qed simp_all

lemma parse_format_loop:
  assumes "length ident = 16" "length out = 16" "i \<le> 16"
  shows "parse_id_loop i (format_id_digits ident) out = (True, take i out @ drop i ident)"
  using assms(2,3)
proof (induction "16 - i" arbitrary: i out)
  case 0
  then show ?case using assms(1) by (subst parse_id_loop.simps) (simp add: ENTITY_ID_SIZE_def)
next
  case (Suc n)
  then have i: "i < length ident" "i < 16" using assms(1) by auto
  have hi: "HexVal (format_id_digits ident ! (i * 2)) = uint (drop_bit 4 (ident ! i) AND 0x0F)"
    and lo: "HexVal (format_id_digits ident ! (i * 2 + 1)) = uint (ident ! i AND 0x0F)"
    unfolding nth_format_id_digits[OF i(1)] using nibbles[of "ident ! i"] by (simp_all only: HexVal_nibble)
  have "parse_id_loop i (format_id_digits ident) out =
      parse_id_loop (i + 1) (format_id_digits ident) (out[i := ident ! i])"
    by (subst parse_id_loop.simps) (simp only: hi lo nibbles(3) Let_def, use i in \<open>simp add: ENTITY_ID_SIZE_def\<close>)
  also have "\<dots> = (True, take (i + 1) (out[i := ident ! i]) @ drop (i + 1) ident)"
    using Suc.prems Suc.hyps(2) i by (intro Suc.hyps(1)) auto
  also have "\<dots> = (True, take i out @ drop i ident)"
    using i Suc.prems(1) by (simp add: take_Suc_conv_app_nth Cons_nth_drop_Suc[symmetric] assms(1))
  finally show ?case .
qed

text \<open>
  Printing an entity identifier and parsing the 32 digits gives the identifier
  back, whatever the buffers held before.
\<close>

theorem entity_id_roundtrip:
  assumes "length ident = ENTITY_ID_SIZE" "length out = ENTITY_ID_SIZE" "33 \<le> length buf"
  shows "EntityId_Parse out (Some (take 32 (EntityId_Format (Some ident) buf 33))) = (True, ident)"
proof -
  have "take 32 (EntityId_Format (Some ident) buf 33) = format_id_digits ident"
    using assms by (simp add: EntityId_Format_def ENTITY_ID_SIZE_def overwrite_def)
  then show ?thesis
    using assms parse_format_loop[of ident out 0] by (simp add: EntityId_Parse_def ENTITY_ID_SIZE_def)
qed

lemma entity_id_roundtrip_witness:
  "EntityId_Parse zero_id (Some (take 32 (EntityId_Format (Some (replicate 16 0xAB)) (replicate 40 7) 33))) =
   (True, replicate 16 0xAB)"
  by (rule entity_id_roundtrip) (simp_all add: zero_id_def ENTITY_ID_SIZE_def)

section \<open>The stored record\<close>

definition reg_wf :: "DeviceRegistration \<Rightarrow> bool" where
  "reg_wf r \<longleftrightarrow> length (reg_installation_id r) = 16 \<and> length (reg_building_id r) = 16 \<and>
     length (reg_room_id r) = 16"

definition no_all_ff :: "DeviceRegistration \<Rightarrow> bool" where
  "no_all_ff r \<longleftrightarrow> \<not> IsAllFF (Some (reg_installation_id r)) \<and> \<not> IsAllFF (Some (reg_building_id r)) \<and>
     \<not> IsAllFF (Some (reg_room_id r))"

definition stored_of_reg :: "u32 \<Rightarrow> DeviceRegistration \<Rightarrow> RegistrationStorageV1" where
  "stored_of_reg revision r =
     zero_stored\<lparr>rs_schema_version := REGISTRATION_SCHEMA_VERSION, rs_revision := revision,
                 rs_registered := reg_registered r, rs_installation_id := reg_installation_id r,
                 rs_building_id := reg_building_id r, rs_room_id := reg_room_id r\<rparr>"

lemmas entity_id_predicates =
  EntityId_IsZero_def IsAllFF_def Provisioning_ValidEntityId_def zero_id_def

lemma ENTITY_ID_SIZE_pos [simp]: "0 < ENTITY_ID_SIZE"
  by (simp add: ENTITY_ID_SIZE_def)

lemma blank_wf [simp]: "reg_wf blank_registration"
  by (simp add: reg_wf_def blank_registration_def zero_id_def ENTITY_ID_SIZE_def)

lemma blank_no_ff [simp]: "no_all_ff blank_registration"
  by (simp add: no_all_ff_def blank_registration_def zero_id_def IsAllFF_def ENTITY_ID_SIZE_def)

lemma blank_flags [simp]: "ValidateFlags blank_registration"
  by (simp add: ValidateFlags_def blank_registration_def entity_id_predicates)

lemma stored_roundtrip:
  assumes "length (rs_reserved s) = 3" "length (rs_installation_id s) = 16" "length (rs_building_id s) = 16"
    "length (rs_room_id s) = 16"
  shows "length (stored_bytes s) = 60" "stored_of_bytes (stored_bytes s) = s"
proof -
  have f: "of_le (le_bytes 4 w) = w" for w :: u32 by (simp add: of_le_le_bytes)
  show "length (stored_bytes s) = 60" using assms by (simp add: stored_bytes_def)
  show "stored_of_bytes (stored_bytes s) = s"
    using assms by (simp add: stored_of_bytes_def stored_bytes_def window_def nth_append f)
qed

lemma stored_of_reg_roundtrip:
  assumes "reg_wf r"
  shows "length (stored_bytes (stored_of_reg v r)) = 60"
    "stored_of_bytes (stored_bytes (stored_of_reg v r)) = stored_of_reg v r"
  using assms by (auto intro!: stored_roundtrip simp: stored_of_reg_def zero_stored_def reg_wf_def)

text \<open>What the strict check of the raw record accepts of an accepted registration.\<close>

lemma raw_accepts_iff:
  assumes "ValidateFlags r"
  shows "ValidateRawStored (stored_of_reg v r) \<longleftrightarrow> no_all_ff r"
  using assms
  by (auto simp: ValidateFlags_def ValidateRawStored_def no_all_ff_def stored_of_reg_def entity_id_predicates
      Let_def split: if_splits)

lemma derive_accepted:
  assumes "ValidateFlags r" "no_all_ff r"
  shows "DeriveCanonical (reg_registered r) (reg_installation_id r) (reg_building_id r) (reg_room_id r) = r"
  using assms
  by (cases r) (auto simp: ValidateFlags_def DeriveCanonical_def no_all_ff_def entity_id_predicates
      blank_registration_def Let_def split: if_splits)

lemma derive_valid:
  assumes "ValidateRawStored s"
  shows "ValidateFlags (DeriveCanonical (rs_registered s) (rs_installation_id s) (rs_building_id s) (rs_room_id s))"
  using assms
  by (auto simp: ValidateFlags_def DeriveCanonical_def ValidateRawStored_def entity_id_predicates
      blank_registration_def Let_def split: if_splits)

section \<open>Reboot\<close>

definition loaded :: "u32 \<Rightarrow> DeviceRegistration \<Rightarrow> provisioning" where
  "loaded v r = \<lparr>s_current = r, s_status = Provisioning_GetStatus v r,
     s_storage_status = STORAGE_READ_OK, s_revision = v\<rparr>"

definition rejected :: provisioning where
  "rejected = \<lparr>s_current = blank_registration,
     s_status = zero_status\<lparr>ps_state := PROVISIONING_ERROR\<rparr>,
     s_storage_status = STORAGE_READ_CORRUPT, s_revision = 0\<rparr>"

lemma Init_of_read:
  assumes "Storage_Read ops st f 3 (Some zero_payload) = (STORAGE_READ_OK, Some p)"
    and "pl_size p = 60" "take 60 (pl_data p) = stored_bytes (stored_of_reg v r)"
    and "reg_wf r" "ValidateFlags r"
  shows "Provisioning_Init ops st f = (if no_all_ff r then (True, loaded v r) else (False, rejected))"
proof -
  let ?s = "stored_of_reg v r"
  have fields: "rs_schema_version ?s = REGISTRATION_SCHEMA_VERSION" "rs_revision ?s = v"
    "rs_registered ?s = reg_registered r" "rs_installation_id ?s = reg_installation_id r"
    "rs_building_id ?s = reg_building_id r" "rs_room_id ?s = reg_room_id r"
    by (simp_all add: stored_of_reg_def)
  have inst: "(reg_registered r \<and> \<not> reg_installation_valid r) = False"
    using assms(5) by (auto simp: ValidateFlags_def Let_def split: if_splits)
  show ?thesis
    using assms(1-3) raw_accepts_iff[OF assms(5), of v] derive_accepted[OF assms(5)] inst
    by (auto simp: Provisioning_Init_def RECORD_TYPE_REGISTRATION_def REGISTRATION_STORAGE_V1_SIZE_def
        stored_of_reg_roundtrip(2)[OF assms(4)] fields loaded_def rejected_def Let_def)
qed

context flash_device
begin

lemma Init_of_record:
  assumes "storage_ready info st" "valid f"
    and "record_of ops st f 3 = Some (stored_bytes (stored_of_reg v r))" "reg_wf r" "ValidateFlags r"
  shows "Provisioning_Init ops st f = (if no_all_ff r then (True, loaded v r) else (False, rejected))"
proof -
  note len = stored_of_reg_roundtrip(1)[OF assms(4)]
  obtain p where "Storage_Read ops st f 3 (Some zero_payload) = (STORAGE_READ_OK, Some p)"
    "pl_size p = 60" "take 60 (pl_data p) = stored_bytes (stored_of_reg v r)"
    using record_payload[OF assms(1) record_type_ok_simps(3) assms(2,3)] unfolding len .
  from Init_of_read[OF this assms(4,5)] show ?thesis .
qed

end

context working_flash
begin

lemma Write_ok_record:
  assumes "storage_ready info st" "working f" "record_type_ok rt"
    and "Storage_Write ops st f rt (Some d) (length d) = (True, g)"
  shows "working g" "record_of ops st g rt = Some d"
proof -
  have "Storage_WriteEx ops st f rt (Some d) (length d) = (STORAGE_WRITE_OK, g)"
    using assms(4) by (auto simp: Storage_Write_def split: prod.splits)
  from WriteEx_updates_record[OF assms(1-3,3) this] show "working g" "record_of ops st g rt = Some d"
    by simp_all
qed

lemma Save_reboot:
  assumes r: "storage_ready info st" and f: "working f" and reg: "reg_wf reg"
    and S: "Provisioning_Save ops st f pv (Some reg) = (True, g, pv')"
  shows "working g \<and> Provisioning_Init ops st g = (if no_all_ff reg then (True, pv') else (False, rejected))"
proof -
  let ?v = "s_revision pv + 1"
  let ?d = "stored_bytes (stored_of_reg ?v reg)"
  have len: "length ?d = 60" by (rule stored_of_reg_roundtrip(1)[OF reg])
  have flags: "ValidateFlags reg" and pv': "pv' = loaded ?v reg"
    and W: "Storage_Write ops st f 3 (Some ?d) (length ?d) = (True, g)"
    using S len
    by (auto simp: Provisioning_Save_def Registration_Save_def Let_def stored_of_reg_def[symmetric]
        RECORD_TYPE_REGISTRATION_def REGISTRATION_STORAGE_V1_SIZE_def loaded_def
        split: if_splits prod.splits) (simp_all add: stored_of_reg_def)
  note wr = Write_ok_record[OF r f record_type_ok_simps(3) W]
  show ?thesis
    using wr(1) Init_of_record[OF r working_valid[OF wr(1)] wr(2) reg flags] pv' by simp
qed

end

text \<open>
  Claim C11. Save then reboot: on a working device a registration that \<open>Provisioning_Save\<close>
  accepted is loaded by the next \<open>Provisioning_Init\<close> with the same runtime state if none
  of its identifiers is all-FF; with an all-FF identifier the boot rejects the record that
  Save accepted as corrupt.
\<close>

theorem provisioning_save_reboot:
  assumes "working_flash ops info contents valid working" "storage_ready info st" "working f"
    and "reg_wf reg" "Provisioning_Save ops st f pv (Some reg) = (True, g, pv')"
  shows "Provisioning_Init ops st g = (if no_all_ff reg then (True, pv') else (False, rejected))"
  using working_flash.Save_reboot[OF assms] by simp

lemma host_first_save:
  assumes "ValidateFlags r" "reg_wf r" "s_storage_status pv = STORAGE_READ_NOT_FOUND"
  obtains g pv' where "Provisioning_Save host_ops host_storage HostFlash_Init pv (Some r) = (True, g, pv')"
    "host_working g"
proof -
  let ?d = "stored_bytes (stored_of_reg (s_revision pv + 1) r)"
  have len: "length ?d = 60" by (rule stored_of_reg_roundtrip(1)[OF assms(2)])
  then have "length ?d \<le> 256" by simp
  from host.WriteEx_working[OF host_storage_ready record_type_ok_simps(3) host_working_init
      host_erased_select[OF record_type_ok_simps(3)] this]
  obtain g where g: "Storage_WriteEx host_ops host_storage HostFlash_Init 3 (Some ?d) (length ?d) =
      (STORAGE_WRITE_OK, g)" "host_working g" .
  then have "Storage_Write host_ops host_storage HostFlash_Init 3 (Some ?d) 60 = (True, g)"
    by (simp add: Storage_Write_def len)
  then have "\<exists>pv'. Provisioning_Save host_ops host_storage HostFlash_Init pv (Some r) = (True, g, pv')"
    using assms
    by (simp add: Provisioning_Save_def Registration_Save_def Let_def
        RECORD_TYPE_REGISTRATION_def REGISTRATION_STORAGE_V1_SIZE_def stored_of_reg_def)
  then show ?thesis using that g(2) by blast
qed

definition sample_reg :: DeviceRegistration where
  "sample_reg = blank_registration\<lparr>reg_registered := True, reg_installation_valid := True,
     reg_installation_id := replicate 16 0x11\<rparr>"

definition ff_reg :: DeviceRegistration where
  "ff_reg = sample_reg\<lparr>reg_building_id := replicate 16 255\<rparr>"

lemma sample_regs:
  "ValidateFlags sample_reg" "reg_wf sample_reg" "no_all_ff sample_reg"
  "ValidateFlags ff_reg" "reg_wf ff_reg" "\<not> no_all_ff ff_reg"
proof -
  have n: "(0 :: nat) < 16" by simp
  have ne: "replicate 16 (0x11 :: u8) \<noteq> replicate 16 0" "replicate 16 (0x11 :: u8) \<noteq> replicate 16 255"
    "replicate 16 (0 :: u8) \<noteq> replicate 16 255" by (simp_all only: replicate_eq_replicate n) simp_all
  show "ValidateFlags sample_reg" "no_all_ff sample_reg" "ValidateFlags ff_reg" "\<not> no_all_ff ff_reg"
    using ne
    by (simp_all add: ValidateFlags_def sample_reg_def ff_reg_def blank_registration_def entity_id_predicates
        no_all_ff_def ENTITY_ID_SIZE_def Let_def)
  show "reg_wf sample_reg" "reg_wf ff_reg"
    by (simp_all add: reg_wf_def sample_reg_def ff_reg_def blank_registration_def zero_id_def ENTITY_ID_SIZE_def)
qed

definition fresh_pv :: provisioning where
  "fresh_pv = \<lparr>s_current = blank_registration, s_status = zero_status,
     s_storage_status = STORAGE_READ_NOT_FOUND, s_revision = 0\<rparr>"

lemma provisioning_save_reboot_witness:
  "\<exists>g pv'. Provisioning_Save host_ops host_storage HostFlash_Init fresh_pv (Some sample_reg) = (True, g, pv') \<and>
     Provisioning_Init host_ops host_storage g = (True, pv')"
proof -
  have "s_storage_status fresh_pv = STORAGE_READ_NOT_FOUND" by (simp add: fresh_pv_def)
  from host_first_save[OF sample_regs(1,2) this]
  obtain g pv' where S: "Provisioning_Save host_ops host_storage HostFlash_Init fresh_pv (Some sample_reg) =
      (True, g, pv')" by blast
  from provisioning_save_reboot[OF host.working_flash_axioms host_storage_ready host_working_init sample_regs(2) S]
  show ?thesis using S sample_regs(3) by auto
qed

section \<open>Reachable states\<close>

inductive prov_reach :: "'f flash_ops \<Rightarrow> storage \<Rightarrow> 'f \<Rightarrow> provisioning \<Rightarrow> bool" for ops st where
  boot: "Provisioning_Init ops st f = (ok, pv) \<Longrightarrow> prov_reach ops st f pv"
| save: "prov_reach ops st f pv \<Longrightarrow> Provisioning_Save ops st f pv reg = (ok, g, pv') \<Longrightarrow> prov_reach ops st g pv'"
| clear: "prov_reach ops st f pv \<Longrightarrow> Provisioning_Clear ops st f pv = (ok, g, pv') \<Longrightarrow> prov_reach ops st g pv'"

definition prov_inv :: "provisioning \<Rightarrow> bool" where
  "prov_inv pv \<longleftrightarrow>
     ValidateFlags (s_current pv) \<and>
     (if s_storage_status pv \<in> {STORAGE_READ_OK, STORAGE_READ_NOT_FOUND}
      then s_status pv = Provisioning_GetStatus (s_revision pv) (s_current pv)
      else s_current pv = blank_registration \<and> ps_state (s_status pv) = PROVISIONING_ERROR)"

lemma init_inv: "Provisioning_Init ops st f = (ok, pv) \<Longrightarrow> prov_inv pv"
  by (auto simp: Provisioning_Init_def prov_inv_def Let_def intro: derive_valid
      split: if_splits option.splits prod.splits)

lemma save_inv: "prov_inv pv \<Longrightarrow> Provisioning_Save ops st f pv reg = (ok, g, pv') \<Longrightarrow> prov_inv pv'"
  by (auto simp: Provisioning_Save_def Registration_Save_def prov_inv_def Let_def
      split: if_splits option.splits prod.splits)

lemma clear_inv: "prov_inv pv \<Longrightarrow> Provisioning_Clear ops st f pv = (ok, g, pv') \<Longrightarrow> prov_inv pv'"
  by (auto simp: Provisioning_Clear_def prov_inv_def Let_def split: if_splits prod.splits)

text \<open>
  In every state reachable by boots, saves and clears, on any flash device, the
  registration in memory is canonical; while the storage state is known (OK or NOT_FOUND)
  the reported status is the one of that registration, and otherwise the device is
  unregistered and reports an error.
\<close>

theorem provisioning_invariant:
  assumes "prov_reach ops st f pv"
  shows "ValidateFlags (s_current pv) \<and>
     (if s_storage_status pv \<in> {STORAGE_READ_OK, STORAGE_READ_NOT_FOUND}
      then s_status pv = Provisioning_GetStatus (s_revision pv) (s_current pv)
      else s_current pv = blank_registration \<and> ps_state (s_status pv) = PROVISIONING_ERROR)"
proof -
  have "prov_inv pv"
    using assms by (induction rule: prov_reach.induct) (blast intro: init_inv save_inv clear_inv)+
  then show ?thesis by (simp add: prov_inv_def)
qed

lemma provisioning_invariant_witness:
  "ValidateFlags (s_current (snd (Provisioning_Init host_ops host_storage HostFlash_Init)))"
proof -
  have "prov_reach host_ops host_storage HostFlash_Init (snd (Provisioning_Init host_ops host_storage HostFlash_Init))"
    by (rule prov_reach.boot[of _ _ _ "fst (Provisioning_Init host_ops host_storage HostFlash_Init)"]) simp
  from provisioning_invariant[OF this] show ?thesis by blast
qed

section \<open>Failing closed\<close>

text \<open>
  Claim C12. Mutations fail closed, on any flash device: a failed Save or Clear leaves the
  runtime as it was; with a CORRUPT or unreadable record Save does nothing at all, and with
  an unreadable record neither does Clear.
\<close>

theorem provisioning_fails_closed:
  "(\<not> fst (Provisioning_Save ops st f pv reg) \<longrightarrow> snd (snd (Provisioning_Save ops st f pv reg)) = pv) \<and>
   (\<not> fst (Provisioning_Clear ops st f pv) \<longrightarrow> snd (snd (Provisioning_Clear ops st f pv)) = pv) \<and>
   (\<not> Provisioning_IsHealthy pv \<longrightarrow> Provisioning_Save ops st f pv reg = (False, f, pv)) \<and>
   (s_storage_status pv = STORAGE_READ_IO_ERROR \<longrightarrow> Provisioning_Clear ops st f pv = (False, f, pv))"
  by (auto simp: Provisioning_Save_def Registration_Save_def Provisioning_Clear_def Provisioning_IsHealthy_def
      Let_def split: option.splits prod.splits)

lemma provisioning_fails_closed_witness:
  "Provisioning_Save host_ops host_storage HostFlash_Init rejected (Some sample_reg) = (False, HostFlash_Init, rejected)"
  using provisioning_fails_closed[of host_ops host_storage HostFlash_Init rejected "Some sample_reg"]
  by (simp add: Provisioning_IsHealthy_def rejected_def)

section \<open>Clearing\<close>

context working_flash
begin

lemma Clear_reboot:
  assumes r: "storage_ready info st" and f: "working f"
    and C: "Provisioning_Clear ops st f pv = (True, g, pv')"
  shows "Provisioning_Init ops st g = (True, pv') \<and> s_current pv' = blank_registration"
proof -
  let ?v = "s_revision pv + 1"
  let ?d = "stored_bytes (stored_of_reg ?v blank_registration)"
  have len: "length ?d = 60" by (rule stored_of_reg_roundtrip(1)[OF blank_wf])
  have sb: "stored_of_reg ?v blank_registration =
      zero_stored\<lparr>rs_schema_version := REGISTRATION_SCHEMA_VERSION, rs_revision := ?v, rs_registered := False\<rparr>"
    by (simp add: stored_of_reg_def zero_stored_def blank_registration_def)
  have pv': "pv' = loaded ?v blank_registration"
    using C by (auto simp: Provisioning_Clear_def loaded_def Let_def split: if_splits prod.splits)
  have "valid g \<and> record_of ops st g 3 = Some ?d"
  proof (cases "s_storage_status pv = STORAGE_READ_CORRUPT")
    case True
    then have R: "Storage_RecoverCorruptRecord ops st f 3 (Some ?d) (length ?d) = (STORAGE_RECOVERY_OK, g)"
      using C len
      by (auto simp: Provisioning_Clear_def Let_def sb RECORD_TYPE_REGISTRATION_def
          REGISTRATION_STORAGE_V1_SIZE_def split: if_splits prod.splits)
    have "length ?d \<le> 256" using len by simp
    from RecoverCorrupt_spec[OF r record_type_ok_simps(3) f this] R
    have "record_of ops st g 3 = Some ?d" by (simp split: if_splits)
    moreover from r record_type_ok_simps(3) working_valid[OF f] R have "valid g"
      by (cases rule: RecoverCorrupt_cases) simp_all
    ultimately show ?thesis by blast
  next
    case False
    then have "Storage_Write ops st f 3 (Some ?d) (length ?d) = (True, g)"
      using C len
      by (auto simp: Provisioning_Clear_def Let_def sb RECORD_TYPE_REGISTRATION_def
          REGISTRATION_STORAGE_V1_SIZE_def split: if_splits prod.splits)
    from Write_ok_record[OF r f record_type_ok_simps(3) this] show ?thesis by (simp add: working_valid)
  qed
  then show ?thesis using Init_of_record[OF r _ _ blank_wf blank_flags, of g ?v] pv'
    by (simp add: loaded_def)
qed

lemma Clear_stuck:
  assumes r: "storage_ready info st" and f: "working f"
    and read: "fst (Storage_Read ops st f RECORD_TYPE_REGISTRATION (Some zero_payload)) = STORAGE_READ_OK"
    and boot: "Provisioning_Init ops st f = (False, pv)"
  shows "Provisioning_Save ops st f pv reg = (False, f, pv) \<and> Provisioning_Clear ops st f pv = (False, f, pv)"
proof -
  have c: "s_storage_status pv = STORAGE_READ_CORRUPT"
    using boot read
    by (auto simp: Provisioning_Init_def Let_def split: if_splits prod.splits option.splits)
  have some: "\<exists>i < 2. ss_state (ReadSlotSnapshot ops st f 3 i) = SLOT_STATE_VALID"
    using read by (auto simp: Storage_Read_def RECORD_TYPE_REGISTRATION_def Let_def slot_index_cases split: if_splits)
  have rec: "Storage_RecoverCorruptRecord ops st f 3 (Some d) 60 = (STORAGE_RECOVERY_NOT_NEEDED, f)"
    if "length d = 60" for d
  proof -
    have l: "length d \<le> 256" using that by simp
    show ?thesis
      using RecoverCorrupt_spec[OF r record_type_ok_simps(3) f l] some unfolding that by (auto split: if_splits)
  qed
  let ?z = "zero_stored\<lparr>rs_schema_version := REGISTRATION_SCHEMA_VERSION, rs_revision := s_revision pv + 1,
    rs_registered := False\<rparr>"
  have "length (stored_bytes ?z) = 60"
    by (rule stored_roundtrip(1)) (simp_all add: zero_stored_def zero_id_def ENTITY_ID_SIZE_def)
  from rec[OF this] have "Provisioning_Clear ops st f pv = (False, f, pv)"
    using c by (simp add: Provisioning_Clear_def RECORD_TYPE_REGISTRATION_def REGISTRATION_STORAGE_V1_SIZE_def Let_def)
  moreover have "Provisioning_Save ops st f pv reg = (False, f, pv)"
    using c by (auto simp: Provisioning_Save_def Registration_Save_def split: option.split)
  ultimately show ?thesis by blast
qed

end

text \<open>
  A successful Clear is permanent: the next boot finds an unregistered device in
  the same runtime state, whether Clear wrote normally or recovered a corrupt record.
\<close>

theorem provisioning_clear_reboot:
  assumes "working_flash ops info contents valid working" "storage_ready info st" "working f"
    and "Provisioning_Clear ops st f pv = (True, g, pv')"
  shows "Provisioning_Init ops st g = (True, pv') \<and> s_current pv' = blank_registration"
  using assms by (rule working_flash.Clear_reboot)

lemma provisioning_clear_reboot_witness:
  "\<exists>g pv'. Provisioning_Clear host_ops host_storage HostFlash_Init fresh_pv = (True, g, pv') \<and>
     Provisioning_Init host_ops host_storage g = (True, pv')"
proof -
  let ?d = "stored_bytes (stored_of_reg 1 blank_registration)"
  have len: "length ?d = 60" by (rule stored_of_reg_roundtrip(1)[OF blank_wf])
  then have "length ?d \<le> 256" by simp
  from host.WriteEx_working[OF host_storage_ready record_type_ok_simps(3) host_working_init
      host_erased_select[OF record_type_ok_simps(3)] this]
  obtain g where "Storage_WriteEx host_ops host_storage HostFlash_Init 3 (Some ?d) (length ?d) =
      (STORAGE_WRITE_OK, g)" by blast
  then have "Storage_Write host_ops host_storage HostFlash_Init 3 (Some ?d) 60 = (True, g)"
    by (simp add: Storage_Write_def len)
  moreover have "stored_of_reg 1 blank_registration =
      zero_stored\<lparr>rs_schema_version := REGISTRATION_SCHEMA_VERSION, rs_revision := 1, rs_registered := False\<rparr>"
    by (simp add: stored_of_reg_def zero_stored_def blank_registration_def)
  ultimately obtain pv' where C: "Provisioning_Clear host_ops host_storage HostFlash_Init fresh_pv = (True, g, pv')"
    by (simp add: Provisioning_Clear_def fresh_pv_def RECORD_TYPE_REGISTRATION_def
        REGISTRATION_STORAGE_V1_SIZE_def Let_def)
  from provisioning_clear_reboot[OF host.working_flash_axioms host_storage_ready host_working_init this]
  show ?thesis using C by blast
qed

text \<open>
  Claim C13. The dead end of the recovery path: when a boot rejects a record whose checksum
  is intact (wrong size, schema or identifiers), neither Save nor Clear can change anything
  any more, because \<open>Storage_RecoverCorruptRecord\<close> finds a valid slot and declines. Every
  later boot is in the same state.
\<close>

theorem provisioning_semantic_corruption_stuck:
  assumes "working_flash ops info contents valid working" "storage_ready info st" "working f"
    and "fst (Storage_Read ops st f RECORD_TYPE_REGISTRATION (Some zero_payload)) = STORAGE_READ_OK"
    and "Provisioning_Init ops st f = (False, pv)"
  shows "Provisioning_Save ops st f pv reg = (False, f, pv) \<and> Provisioning_Clear ops st f pv = (False, f, pv)"
  using assms by (rule working_flash.Clear_stuck)

lemma provisioning_semantic_corruption_stuck_witness:
  "\<exists>g pv'. Provisioning_Save host_ops host_storage HostFlash_Init fresh_pv (Some ff_reg) = (True, g, pv') \<and>
     Provisioning_Init host_ops host_storage g = (False, rejected) \<and>
     Provisioning_Clear host_ops host_storage g rejected = (False, g, rejected)"
proof -
  have "s_storage_status fresh_pv = STORAGE_READ_NOT_FOUND" by (simp add: fresh_pv_def)
  from host_first_save[OF sample_regs(4,5) this]
  obtain g pv' where S: "Provisioning_Save host_ops host_storage HostFlash_Init fresh_pv (Some ff_reg) =
      (True, g, pv')" "host_working g" by blast
  have I: "Provisioning_Init host_ops host_storage g = (False, rejected)"
    using host.Save_reboot[OF host_storage_ready host_working_init sample_regs(5) S(1)] sample_regs(6) by simp
  have "fst (Storage_Read host_ops host_storage g RECORD_TYPE_REGISTRATION (Some zero_payload)) = STORAGE_READ_OK"
  proof -
    let ?v = "s_revision fresh_pv + 1"
    let ?d = "stored_bytes (stored_of_reg ?v ff_reg)"
    have len: "length ?d = 60" by (rule stored_of_reg_roundtrip(1)[OF sample_regs(5)])
    have "Storage_Write host_ops host_storage HostFlash_Init 3 (Some ?d) (length ?d) = (True, g)"
      using S(1) len
      by (auto simp: Provisioning_Save_def Registration_Save_def Let_def stored_of_reg_def
          RECORD_TYPE_REGISTRATION_def REGISTRATION_STORAGE_V1_SIZE_def split: if_splits prod.splits)
    from host.Write_ok_record(2)[OF host_storage_ready host_working_init record_type_ok_simps(3) this]
    show ?thesis
      by (auto simp: record_of_def RECORD_TYPE_REGISTRATION_def
          split: prod.splits StorageReadStatus.splits option.splits)
  qed
  from provisioning_semantic_corruption_stuck[OF host.working_flash_axioms host_storage_ready S(2) this I]
  show ?thesis using S(1) I by blast
qed

end
