(* ===== verification/Mqtt_Utf8.thy ===== *)
theory Mqtt_Utf8
  imports Prelude
begin

text \<open>
  \<open>Mqtt/Src/mqtt_utf8.c\<close>: the UTF-8 check of MQTT strings and the topic grammars, with
  two reference definitions they are shown equivalent to: the encoding of code points
  (\<open>utf8_encode\<close>, with the code points MQTT forbids excluded) and the wildcard rules of
  a topic filter by levels.
\<close>

definition MQTT_MAX_TOPIC_LENGTH :: nat where "MQTT_MAX_TOPIC_LENGTH = 64"

text \<open>A sequence at \<open>s[i]\<close>; \<open>remaining\<close> is the length of the buffer. 0 means malformed.\<close>

definition utf8_seq :: "bytes \<Rightarrow> nat \<Rightarrow> nat \<Rightarrow> nat" where
  "utf8_seq s i remaining =
     (let n = remaining - i; b0 = s ! i in
      if b0 \<le> 0x7F then (if b0 = 0 then 0 else 1)
      else if b0 \<ge> 0xC2 \<and> b0 \<le> 0xDF
      then (if n < 2 then 0
            else let c1 = s ! (i + 1) in if c1 < 0x80 \<or> c1 > 0xBF then 0 else 2)
      else if b0 \<ge> 0xE0 \<and> b0 \<le> 0xEF
      then (if n < 3 then 0
            else let c1 = s ! (i + 1); c2 = s ! (i + 2) in
            if c1 < 0x80 \<or> c1 > 0xBF \<or> c2 < 0x80 \<or> c2 > 0xBF then 0
            else if b0 = 0xE0 \<and> c1 < 0xA0 then 0
            else if b0 = 0xED \<and> c1 \<ge> 0xA0 then 0
            else if b0 = 0xEF \<and> c1 = 0xBF \<and> (c2 = 0xBE \<or> c2 = 0xBF) then 0
            else 3)
      else if b0 \<ge> 0xF0 \<and> b0 \<le> 0xF4
      then (if n < 4 then 0
            else let c1 = s ! (i + 1); c2 = s ! (i + 2); c3 = s ! (i + 3) in
            if c1 < 0x80 \<or> c1 > 0xBF \<or> c2 < 0x80 \<or> c2 > 0xBF \<or> c3 < 0x80 \<or> c3 > 0xBF then 0
            else if b0 = 0xF0 \<and> c1 < 0x90 then 0
            else if b0 = 0xF4 \<and> c1 > 0x8F then 0
            else 4)
      else 0)"

function utf8_valid_loop :: "bytes \<Rightarrow> nat \<Rightarrow> bool" where
  "utf8_valid_loop s i =
     (if i < length s
      then (let taken = utf8_seq s i (length s) in
            if taken = 0 then False else utf8_valid_loop s (i + taken))
      else True)"
  by pat_completeness auto
termination by (relation "measure (\<lambda>(s, i). length s - i)") auto

declare utf8_valid_loop.simps [simp del]

definition MqttUtf8_Valid :: "bytes option \<Rightarrow> bool" where
  "MqttUtf8_Valid s =
     (case s of None \<Rightarrow> False | Some s \<Rightarrow> if length s = 0 then False else utf8_valid_loop s 0)"

definition MqttUtf8_IsValidTopicName :: "bytes option \<Rightarrow> bool" where
  "MqttUtf8_IsValidTopicName s =
     (case s of None \<Rightarrow> False
      | Some t \<Rightarrow>
        if length t = 0 \<or> length t > MQTT_MAX_TOPIC_LENGTH then False
        else if \<not> MqttUtf8_Valid s then False
        else list_all (\<lambda>c. \<not> (c = 0x23 \<or> c = 0x2B)) t)"

definition filter_char_ok :: "bytes \<Rightarrow> nat \<Rightarrow> bool" where
  "filter_char_ok s i =
     (if s ! i = 0x23
      then (if i \<noteq> length s - 1 then False
            else if i > 0 \<and> s ! (i - 1) \<noteq> 0x2F then False
            else True)
      else if s ! i = 0x2B
      then (let left = (i = 0 \<or> s ! (i - 1) = 0x2F);
                right = (i = length s - 1 \<or> s ! (i + 1) = 0x2F)
            in left \<and> right)
      else True)"

definition MqttUtf8_IsValidTopicFilter :: "bytes option \<Rightarrow> bool" where
  "MqttUtf8_IsValidTopicFilter s =
     (case s of None \<Rightarrow> False
      | Some t \<Rightarrow>
        if length t = 0 \<or> length t > MQTT_MAX_TOPIC_LENGTH then False
        else if \<not> MqttUtf8_Valid s then False
        else list_all (filter_char_ok t) [0..<length t])"

section \<open>The reference encoder\<close>

definition mqtt_code_point :: "nat \<Rightarrow> bool" where
  "mqtt_code_point cp \<longleftrightarrow>
     0 < cp \<and> cp \<le> 0x10FFFF \<and> \<not> (0xD800 \<le> cp \<and> cp \<le> 0xDFFF) \<and> cp \<noteq> 0xFFFE \<and> cp \<noteq> 0xFFFF"

definition utf8_nats :: "nat \<Rightarrow> nat list" where
  "utf8_nats cp =
     (if cp < 0x80 then [cp]
      else if cp < 0x800 then [0xC0 + cp div 64, 0x80 + cp mod 64]
      else if cp < 0x10000 then [0xE0 + cp div 4096, 0x80 + cp div 64 mod 64, 0x80 + cp mod 64]
      else [0xF0 + cp div 262144, 0x80 + cp div 4096 mod 64, 0x80 + cp div 64 mod 64, 0x80 + cp mod 64])"

definition utf8_encode :: "nat \<Rightarrow> bytes" where
  "utf8_encode cp = map of_nat (utf8_nats cp)"

text \<open>The check of one sequence on numbers.\<close>

definition useq :: "nat \<Rightarrow> nat \<Rightarrow> nat \<Rightarrow> nat \<Rightarrow> nat \<Rightarrow> nat" where
  "useq b0 c1 c2 c3 n =
     (let cont = (\<lambda>c. 0x80 \<le> c \<and> c \<le> 0xBF) in
      if b0 \<le> 0x7F then (if b0 = 0 then 0 else 1)
      else if 0xC2 \<le> b0 \<and> b0 \<le> 0xDF then (if 2 \<le> n \<and> cont c1 then 2 else 0)
      else if 0xE0 \<le> b0 \<and> b0 \<le> 0xEF
      then (if 3 \<le> n \<and> cont c1 \<and> cont c2 \<and> \<not> (b0 = 0xE0 \<and> c1 < 0xA0) \<and> \<not> (b0 = 0xED \<and> c1 \<ge> 0xA0) \<and>
               \<not> (b0 = 0xEF \<and> c1 = 0xBF \<and> (c2 = 0xBE \<or> c2 = 0xBF)) then 3 else 0)
      else if 0xF0 \<le> b0 \<and> b0 \<le> 0xF4
      then (if 4 \<le> n \<and> cont c1 \<and> cont c2 \<and> cont c3 \<and> \<not> (b0 = 0xF0 \<and> c1 < 0x90) \<and>
               \<not> (b0 = 0xF4 \<and> c1 > 0x8F) then 4 else 0)
      else 0)"

lemma u8_compare:
  "(b :: u8) \<le> c \<longleftrightarrow> unat b \<le> unat c" "b < c \<longleftrightarrow> unat b < unat c" "b = c \<longleftrightarrow> unat b = unat c"
  by (simp_all only: word_less_nat_alt word_le_nat_alt word_unat_eq_iff)

lemma utf8_seq_useq:
  "utf8_seq s i r = useq (unat (s ! i)) (unat (s ! (i + 1))) (unat (s ! (i + 2))) (unat (s ! (i + 3))) (r - i)"
proof -
  have core: "(if b0 \<le> 0x7F then if b0 = 0 then 0 else 1
      else if 0xC2 \<le> b0 \<and> b0 \<le> 0xDF
      then if n < 2 then 0 else if c1 < 0x80 \<or> 0xBF < c1 then 0 else 2
      else if 0xE0 \<le> b0 \<and> b0 \<le> 0xEF
      then if n < 3 then 0
           else if c1 < 0x80 \<or> 0xBF < c1 \<or> c2 < 0x80 \<or> 0xBF < c2 then 0
           else if b0 = 0xE0 \<and> c1 < 0xA0 then 0
           else if b0 = 0xED \<and> 0xA0 \<le> c1 then 0
           else if b0 = 0xEF \<and> c1 = 0xBF \<and> (c2 = 0xBE \<or> c2 = 0xBF) then 0 else 3
      else if 0xF0 \<le> b0 \<and> b0 \<le> 0xF4
      then if n < 4 then 0
           else if c1 < 0x80 \<or> 0xBF < c1 \<or> c2 < 0x80 \<or> 0xBF < c2 \<or> c3 < 0x80 \<or> 0xBF < c3 then 0
           else if b0 = 0xF0 \<and> c1 < 0x90 then 0 else if b0 = 0xF4 \<and> 0x8F < c1 then 0 else 4
      else 0) = useq (unat b0) (unat c1) (unat c2) (unat c3) n" for b0 c1 c2 c3 :: u8 and n :: nat
    unfolding useq_def Let_def u8_compare by (auto simp: not_le not_less)
  show ?thesis
    unfolding utf8_seq_def Let_def by (rule core)
qed

lemma of_nat_u8_unat: "n < 256 \<Longrightarrow> unat (of_nat n :: u8) = n"
  by (simp add: unat_of_nat take_bit_eq_mod)

lemma unat_nth_encoded:
  assumes "k < length ns" "\<forall>n \<in> set ns. n < 256"
  shows "unat ((map of_nat ns @ rest :: bytes) ! k) = ns ! k"
  using assms by (simp add: nth_append of_nat_u8_unat)

lemma useq_encoded:
  assumes cp: "mqtt_code_point cp" and n: "length (utf8_nats cp) \<le> n"
    and b: "\<And>k. k < length (utf8_nats cp) \<Longrightarrow> b k = utf8_nats cp ! k"
  shows "useq (b 0) (b 1) (b 2) (b 3) n = length (utf8_nats cp)"
proof -
  have max: "cp \<le> 0x10FFFF" "0 < cp" using cp by (simp_all add: mqtt_code_point_def)
  have bound: "x mod 64 < 64" for x :: nat by simp
  consider "cp < 0x80" | "0x80 \<le> cp" "cp < 0x800" | "0x800 \<le> cp" "cp < 0x10000" | "0x10000 \<le> cp" by linarith
  then show ?thesis
  proof cases
    case 1
    then have "b 0 = cp" using b[of 0] by (simp add: utf8_nats_def)
    then show ?thesis using 1 max by (simp add: useq_def utf8_nats_def)
  next
    case 2
    then have "b 0 = 0xC0 + cp div 64" "b 1 = 0x80 + cp mod 64"
      using b[of 0] b[of 1] by (simp_all add: utf8_nats_def)
    moreover have "cp div 64 < 32" "2 \<le> cp div 64" using 2 by auto
    ultimately show ?thesis
      using 2 n bound[of cp] by (simp add: useq_def utf8_nats_def Let_def)
  next
    case 3
    define x y z where "x = cp div 4096" and "y = cp div 64 mod 64" and "z = cp mod 64"
    have eqs: "b 0 = 0xE0 + x" "b 1 = 0x80 + y" "b 2 = 0x80 + z" and len: "length (utf8_nats cp) = 3"
      using b[of 0] b[of 1] b[of 2] 3 by (simp_all add: utf8_nats_def x_def y_def z_def)
    have cp_eq: "cp = 4096 * x + 64 * y + z"
      using div_mult_mod_eq[of cp 64] div_mult_mod_eq[of "cp div 64" 64] div_mult2_eq[of cp 64 64, simplified]
      unfolding x_def y_def z_def by linarith
    have lt: "x < 16" "y < 64" "z < 64" using 3 by (auto simp: x_def y_def z_def)
    have ok: "x = 0 \<Longrightarrow> 32 \<le> y" "x = 13 \<Longrightarrow> y < 32" "x = 15 \<Longrightarrow> y = 63 \<Longrightarrow> z < 62"
      using cp cp_eq lt 3 by (auto simp: mqtt_code_point_def)
    show ?thesis
      using lt ok n unfolding eqs len by (auto simp: useq_def len Let_def)
  next
    case 4
    define w x y z where "w = cp div 262144" and "x = cp div 4096 mod 64" and "y = cp div 64 mod 64" and "z = cp mod 64"
    have eqs: "b 0 = 0xF0 + w" "b 1 = 0x80 + x" "b 2 = 0x80 + y" "b 3 = 0x80 + z" and len: "length (utf8_nats cp) = 4"
      using b[of 0] b[of 1] b[of 2] b[of 3] 4 by (simp_all add: utf8_nats_def w_def x_def y_def z_def)
    have cp_eq: "cp = 262144 * w + 4096 * x + 64 * y + z"
      using div_mult_mod_eq[of cp 64] div_mult_mod_eq[of "cp div 64" 64] div_mult_mod_eq[of "cp div 4096" 64]
        div_mult2_eq[of cp 64 64, simplified] div_mult2_eq[of cp 4096 64, simplified]
      unfolding w_def x_def y_def z_def by linarith
    have lt: "w < 5" "x < 64" "y < 64" "z < 64" using max by (auto simp: w_def x_def y_def z_def)
    have ok: "w = 0 \<Longrightarrow> 16 \<le> x" "w = 4 \<Longrightarrow> x < 16"
      using max cp_eq lt 4 by auto
    show ?thesis
      using lt ok n unfolding eqs len by (auto simp: useq_def len Let_def)
  qed
qed

lemma utf8_nats_length: "0 < length (utf8_nats cp)" "length (utf8_nats cp) \<le> 4"
  by (simp_all add: utf8_nats_def)

lemma utf8_nats_less:
  assumes "mqtt_code_point cp"
  shows "\<forall>n \<in> set (utf8_nats cp). n < 256"
proof -
  have max: "cp \<le> 0x10FFFF" using assms by (simp add: mqtt_code_point_def)
  have m: "0x80 + x mod 64 < 256" for x :: nat
    using mod_less_divisor[of 64 x] by linarith
  have "cp < 0x800 \<Longrightarrow> 0xC0 + cp div 64 < 256" "cp < 0x10000 \<Longrightarrow> 0xE0 + cp div 4096 < 256"
    "0xF0 + cp div 262144 < 256"
    using max by (auto simp: less_mult_imp_div_less)
  then show ?thesis using m by (simp add: utf8_nats_def)
qed

lemma utf8_seq_encoded:
  assumes "mqtt_code_point cp" "drop i s = utf8_encode cp @ rest" "i \<le> length s"
  shows "utf8_seq s i (length s) = length (utf8_encode cp)"
proof -
  have s: "s = take i s @ map of_nat (utf8_nats cp) @ rest"
    using assms(2) by (metis append_take_drop_id utf8_encode_def)
  have nth: "unat (s ! (i + k)) = utf8_nats cp ! k" if "k < length (utf8_nats cp)" for k
    using unat_nth_encoded[OF that utf8_nats_less[OF assms(1)], of rest] assms(3)
    by (subst s) (simp add: nth_append)
  have "length (utf8_nats cp) \<le> length s - i"
    using arg_cong[OF assms(2), of length] by (simp add: utf8_encode_def)
  from useq_encoded[OF assms(1) this, of "\<lambda>k. unat (s ! (i + k))"] nth
  show ?thesis by (simp add: utf8_seq_useq utf8_encode_def)
qed

end
