(* ===== verification/Mqtt_Topic.thy ===== *)
theory Mqtt_Topic
  imports Mqtt_Utf8
begin

text \<open>
  What the checks of \<open>mqtt_utf8.c\<close> accept: exactly the encodings of sequences of allowed
  code points, and exactly the topic filters whose wildcards obey the rules level by level.
\<close>

section \<open>Strings\<close>

lemma base64: "z < 64 \<Longrightarrow> (a * 64 + z) div 64 = a" "z < 64 \<Longrightarrow> (a * 64 + z) mod 64 = (z :: nat)"
  by simp_all

text \<open>A sequence that is accepted is the encoding of a code point.\<close>

lemma useq_decodes:
  assumes "useq b0 c1 c2 c3 n = k" "k \<noteq> 0" "b0 < 256"
  obtains cp where "mqtt_code_point cp" "k \<le> n \<or> k = 1" "utf8_nats cp = take k [b0, c1, c2, c3]"
proof -
  consider (1) "b0 \<le> 0x7F" "b0 \<noteq> 0" "k = 1"
    | (2) "0xC2 \<le> b0" "b0 \<le> 0xDF" "0x80 \<le> c1" "c1 \<le> 0xBF" "k = 2" "2 \<le> n"
    | (3) "0xE0 \<le> b0" "b0 \<le> 0xEF" "0x80 \<le> c1" "c1 \<le> 0xBF" "0x80 \<le> c2" "c2 \<le> 0xBF"
        "b0 = 0xE0 \<longrightarrow> 0xA0 \<le> c1" "b0 = 0xED \<longrightarrow> c1 < 0xA0"
        "\<not> (b0 = 0xEF \<and> c1 = 0xBF \<and> (c2 = 0xBE \<or> c2 = 0xBF))" "k = 3" "3 \<le> n"
    | (4) "0xF0 \<le> b0" "b0 \<le> 0xF4" "0x80 \<le> c1" "c1 \<le> 0xBF" "0x80 \<le> c2" "c2 \<le> 0xBF" "0x80 \<le> c3" "c3 \<le> 0xBF"
        "b0 = 0xF0 \<longrightarrow> 0x90 \<le> c1" "b0 = 0xF4 \<longrightarrow> c1 \<le> 0x8F" "k = 4" "4 \<le> n"
    using assms(1,2) by (auto simp: useq_def Let_def not_le not_less split: if_splits)
  then show ?thesis
  proof cases
    case 1
    then show ?thesis by (intro that[of b0]) (simp_all add: mqtt_code_point_def utf8_nats_def)
  next
    case 2
    obtain x where x: "b0 = 0xC0 + x" "2 \<le> x" "x < 32"
      using 2 by (intro that[of "b0 - 0xC0"]) auto
    obtain y where y: "c1 = 0x80 + y" "y < 64" using 2 by (intro that[of "c1 - 0x80"]) auto
    define cp where "cp = x * 64 + y"
    have "cp div 64 = x" "cp mod 64 = y" unfolding cp_def by (rule base64[OF y(2)])+
    moreover have "0x80 \<le> cp" "cp < 0x800" using x(2,3) y(2) by (simp_all add: cp_def)
    ultimately have "utf8_nats cp = take k [b0, c1, c2, c3]" "mqtt_code_point cp"
      using x y 2 by (simp_all add: utf8_nats_def mqtt_code_point_def)
    then show ?thesis using that 2 by blast
  next
    case 3
    obtain x where x: "b0 = 0xE0 + x" "x < 16" using 3 by (intro that[of "b0 - 0xE0"]) auto
    obtain y where y: "c1 = 0x80 + y" "y < 64" using 3 by (intro that[of "c1 - 0x80"]) auto
    obtain z where z: "c2 = 0x80 + z" "z < 64" using 3 by (intro that[of "c2 - 0x80"]) auto
    define cp where "cp = (x * 64 + y) * 64 + z"
    have d: "cp div 64 = x * 64 + y" "cp mod 64 = z" unfolding cp_def by (rule base64[OF z(2)])+
    have d2: "cp div 4096 = x" "cp div 64 mod 64 = y"
      using div_mult2_eq[of cp 64 64] base64[OF y(2), of x] by (simp_all add: d(1))
    have c: "x = 0 \<longrightarrow> 32 \<le> y" "x = 13 \<longrightarrow> y < 32" "\<not> (x = 15 \<and> y = 63 \<and> 62 \<le> z)"
      using 3 x y z by auto
    have cp: "cp = 4096 * x + 64 * y + z" by (simp add: cp_def)
    have r: "0x800 \<le> cp" "cp < 0x10000" using x(2) y(2) z(2) c(1) unfolding cp by (cases "x = 0"; simp)+
    have "\<not> (0xD800 \<le> cp \<and> cp \<le> 0xDFFF)"
    proof
      assume a: "0xD800 \<le> cp \<and> cp \<le> 0xDFFF"
      then have "x = 13" using y(2) z(2) unfolding cp by linarith
      then show False using a c(2) z(2) unfolding cp by linarith
    qed
    moreover have "cp \<noteq> 0xFFFE \<and> cp \<noteq> 0xFFFF"
    proof (rule ccontr)
      assume "\<not> (cp \<noteq> 0xFFFE \<and> cp \<noteq> 0xFFFF)"
      then have a: "0xFFFE \<le> cp" by auto
      then have "x = 15" using x(2) y(2) z(2) unfolding cp by linarith
      moreover from this have "y = 63" using a y(2) z(2) unfolding cp by linarith
      ultimately show False using a c(3) z(2) unfolding cp by linarith
    qed
    ultimately have "mqtt_code_point cp" using r by (simp add: mqtt_code_point_def)
    moreover have "utf8_nats cp = take k [b0, c1, c2, c3]"
      using r d d2 3 x y z by (simp add: utf8_nats_def)
    ultimately show ?thesis using that 3 by blast
  next
    case 4
    obtain w where w: "b0 = 0xF0 + w" "w < 5" using 4 by (intro that[of "b0 - 0xF0"]) auto
    obtain x where x: "c1 = 0x80 + x" "x < 64" using 4 by (intro that[of "c1 - 0x80"]) auto
    obtain y where y: "c2 = 0x80 + y" "y < 64" using 4 by (intro that[of "c2 - 0x80"]) auto
    obtain z where z: "c3 = 0x80 + z" "z < 64" using 4 by (intro that[of "c3 - 0x80"]) auto
    define cp where "cp = ((w * 64 + x) * 64 + y) * 64 + z"
    have d: "cp div 64 = (w * 64 + x) * 64 + y" "cp mod 64 = z" unfolding cp_def by (rule base64[OF z(2)])+
    have d1: "cp div 4096 = w * 64 + x" "cp div 64 mod 64 = y"
      using div_mult2_eq[of cp 64 64] base64[OF y(2), of "w * 64 + x"] by (simp_all add: d(1))
    have d2: "cp div 262144 = w" "cp div 4096 mod 64 = x"
      using div_mult2_eq[of cp 4096 64] base64[OF x(2), of w] by (simp_all add: d1(1))
    have c: "w = 0 \<longrightarrow> 16 \<le> x" "w = 4 \<longrightarrow> x < 16" using 4 w x by auto
    have cp: "cp = 262144 * w + 4096 * x + 64 * y + z" by (simp add: cp_def)
    have r: "0x10000 \<le> cp" "cp \<le> 0x10FFFF"
      using w(2) x(2) y(2) z(2) c unfolding cp by (cases "w = 0"; cases "w = 4"; simp)+
    then have "mqtt_code_point cp" by (simp add: mqtt_code_point_def)
    moreover have "utf8_nats cp = take k [b0, c1, c2, c3]"
      using r(1) d d1 d2 4 w x y z by (simp add: utf8_nats_def)
    ultimately show ?thesis using that 4 by blast
  qed
qed

lemma utf8_loop_encoded:
  assumes "\<forall>cp \<in> set cps. mqtt_code_point cp" "drop i s = concat (map utf8_encode cps)" "i \<le> length s"
  shows "utf8_valid_loop s i"
  using assms
proof (induction cps arbitrary: i)
  case Nil
  then show ?case by (subst utf8_valid_loop.simps) simp
next
  case (Cons cp cps)
  have seq: "utf8_seq s i (length s) = length (utf8_encode cp)"
    by (rule utf8_seq_encoded[where rest = "concat (map utf8_encode cps)"]) (use Cons.prems in auto)
  have pos: "0 < length (utf8_encode cp)" using utf8_nats_length by (simp add: utf8_encode_def)
  have len: "length (utf8_encode cp) \<le> length s - i"
    using arg_cong[OF Cons.prems(2), of length] by simp
  have rest: "drop (i + length (utf8_encode cp)) s = concat (map utf8_encode cps)"
    using arg_cong[OF Cons.prems(2), of "drop (length (utf8_encode cp))"] by (simp add: add.commute)
  have "utf8_valid_loop s (i + length (utf8_encode cp))"
    using Cons.prems len pos by (intro Cons.IH rest) simp_all
  then show ?case using seq pos len by (subst utf8_valid_loop.simps) (simp add: Let_def)
qed

lemma utf8_loop_decodes:
  assumes "utf8_valid_loop s i" "i \<le> length s"
  shows "\<exists>cps. (\<forall>cp \<in> set cps. mqtt_code_point cp) \<and> drop i s = concat (map utf8_encode cps)"
  using assms
proof (induction s i rule: utf8_valid_loop.induct)
  case (1 s i)
  show ?case
  proof (cases "i < length s")
    case False
    then show ?thesis using 1 by (intro exI[of _ "[]"]) simp
  next
    case True
    define k where "k = utf8_seq s i (length s)"
    have k: "k \<noteq> 0" "utf8_valid_loop s (i + k)"
      using 1(2) True by (subst (asm) utf8_valid_loop.simps, simp add: k_def Let_def split: if_splits)+
    have u: "useq (unat (s ! i)) (unat (s ! (i + 1))) (unat (s ! (i + 2))) (unat (s ! (i + 3))) (length s - i) = k"
      by (simp add: k_def utf8_seq_useq)
    have b0: "unat (s ! i) < 256" using unsigned_less[of "s ! i", where ?'a = nat] by simp
    obtain cp where cp: "mqtt_code_point cp" "k \<le> length s - i \<or> k = 1"
      "utf8_nats cp = take k [unat (s ! i), unat (s ! (i + 1)), unat (s ! (i + 2)), unat (s ! (i + 3))]"
      using useq_decodes[OF u k(1) b0] .
    have kn: "k \<le> length s - i" "k \<le> 4"
      using cp(2) True k(1) u by (auto simp: useq_def Let_def split: if_splits)
    have "take k (drop i s) = utf8_encode cp"
    proof (rule nth_equalityI)
      show "length (take k (drop i s)) = length (utf8_encode cp)"
        using kn by (simp add: utf8_encode_def cp(3) min_def)
      fix j assume "j < length (take k (drop i s))"
      then have j: "j < k" "j < 4" using kn by auto
      then have "utf8_nats cp ! j = unat (s ! (i + j))"
        unfolding cp(3) by (cases j; cases "j - 1"; cases "j - 2"; cases "j - 3") (auto simp: less_Suc_eq numeral_eq_Suc)
      then have "utf8_encode cp ! j = s ! (i + j)"
        using j kn by (simp add: utf8_encode_def cp(3))
      then show "take k (drop i s) ! j = utf8_encode cp ! j" using j kn by simp
    qed
    then have split: "drop i s = utf8_encode cp @ drop (i + k) s"
      by (metis add.commute append_take_drop_id drop_drop)
    have ik: "i + k \<le> length s" using kn(1) True by linarith
    obtain cps where "\<forall>cp \<in> set cps. mqtt_code_point cp" "drop (i + k) s = concat (map utf8_encode cps)"
      using 1(1)[OF True k_def k] ik by blast
    then show ?thesis using cp(1) split by (intro exI[of _ "cp # cps"]) auto
  qed
qed

text \<open>
  Claim C14. \<open>MqttUtf8_Valid\<close> accepts exactly the non-empty byte strings that encode, in
  UTF-8, a sequence of code points MQTT allows (no U+0000, no surrogate, not U+FFFE or
  U+FFFF, at most U+10FFFF), so overlong and truncated sequences are all rejected.
\<close>

theorem mqtt_utf8_valid_iff:
  "MqttUtf8_Valid (Some s) \<longleftrightarrow>
     (\<exists>cps. cps \<noteq> [] \<and> (\<forall>cp \<in> set cps. mqtt_code_point cp) \<and> s = concat (map utf8_encode cps))"
proof
  assume "MqttUtf8_Valid (Some s)"
  then have "s \<noteq> []" "utf8_valid_loop s 0" by (simp_all add: MqttUtf8_Valid_def split: if_splits)
  moreover from this(2) obtain cps where cps: "\<forall>cp \<in> set cps. mqtt_code_point cp" "s = concat (map utf8_encode cps)"
    using utf8_loop_decodes[of s 0] unfolding drop_0 by blast
  ultimately have "cps \<noteq> []" by (intro notI) simp
  with cps show "\<exists>cps. cps \<noteq> [] \<and> (\<forall>cp \<in> set cps. mqtt_code_point cp) \<and> s = concat (map utf8_encode cps)" by blast
next
  assume "\<exists>cps. cps \<noteq> [] \<and> (\<forall>cp \<in> set cps. mqtt_code_point cp) \<and> s = concat (map utf8_encode cps)"
  then obtain cps where cps: "cps \<noteq> []" "\<forall>cp \<in> set cps. mqtt_code_point cp" "s = concat (map utf8_encode cps)" by blast
  have "utf8_encode cp \<noteq> []" for cp using utf8_nats_length(1)[of cp] by (auto simp: utf8_encode_def)
  then have "s \<noteq> []" using cps(1,3) by (cases cps) auto
  then show "MqttUtf8_Valid (Some s)" using utf8_loop_encoded[OF cps(2), of 0 s] cps(3) by (simp add: MqttUtf8_Valid_def)
qed

lemma mqtt_utf8_valid_iff_witness:
  "MqttUtf8_Valid (Some (concat (map utf8_encode [0x41, 0x20AC, 0x10348])))"
  unfolding mqtt_utf8_valid_iff
  by (intro exI[of _ "[0x41, 0x20AC, 0x10348]"]) (simp add: mqtt_code_point_def)

section \<open>Topic filters\<close>

text \<open>The levels of a topic: the parts between the slashes.\<close>

fun levels :: "bytes \<Rightarrow> bytes list" where
  "levels [] = [[]]"
| "levels (c # cs) = (if c = 0x2F then [] # levels cs else (c # hd (levels cs)) # tl (levels cs))"

definition plain_level :: "bytes \<Rightarrow> bool" where
  "plain_level l \<longleftrightarrow> 0x23 \<notin> set l \<and> 0x2B \<notin> set l"

text \<open>
  The rules of MQTT: a level is free of wildcards or is the single wildcard \<open>+\<close>, and the
  last level may also be the single wildcard \<open>#\<close>.
\<close>

definition filter_levels :: "bytes list \<Rightarrow> bool" where
  "filter_levels ls \<longleftrightarrow>
     (\<forall>l \<in> set (butlast ls). plain_level l \<or> l = [0x2B]) \<and>
     (plain_level (last ls) \<or> last ls = [0x2B] \<or> last ls = [0x23])"

fun filter_scan :: "bool \<Rightarrow> bytes \<Rightarrow> bool" where
  "filter_scan start [] = True"
| "filter_scan start (c # cs) =
     ((if c = 0x23 then cs = [] \<and> start
       else if c = 0x2B then start \<and> (cs = [] \<or> hd cs = 0x2F) else True) \<and>
      filter_scan (c = 0x2F) cs)"

lemma filter_scan_iff:
  "filter_scan start cs \<longleftrightarrow>
     (\<forall>i < length cs.
        (cs ! i = 0x23 \<longrightarrow> i = length cs - 1 \<and> (if i = 0 then start else cs ! (i - 1) = 0x2F)) \<and>
        (cs ! i = 0x2B \<longrightarrow> (if i = 0 then start else cs ! (i - 1) = 0x2F) \<and>
           (i = length cs - 1 \<or> cs ! (i + 1) = 0x2F)))"
proof (induction cs arbitrary: start)
  case (Cons c cs)
  show ?case
    unfolding filter_scan.simps Cons.IH length_Cons All_less_Suc2
    by (cases cs) (auto simp: hd_conv_nth nth_Cons' split: if_splits)
qed simp

lemma levels_not_Nil [simp]: "levels cs \<noteq> []"
  by (cases cs) simp_all

lemma filter_levels_Cons:
  "filter_levels (l # ls) \<longleftrightarrow>
     (if ls = [] then plain_level l \<or> l = [0x2B] \<or> l = [0x23]
      else (plain_level l \<or> l = [0x2B]) \<and> filter_levels ls)"
  by (auto simp: filter_levels_def)

lemma hd_levels_Nil: "hd (levels cs) = [] \<longleftrightarrow> cs = [] \<or> hd cs = 0x2F"
  by (cases cs) simp_all

lemma tl_levels_Nil: "cs \<noteq> [] \<Longrightarrow> hd (levels cs) = [] \<Longrightarrow> tl (levels cs) \<noteq> []"
  by (cases cs) (auto split: if_splits)

lemma plain_level_Cons: "plain_level (c # l) \<longleftrightarrow> c \<noteq> 0x23 \<and> c \<noteq> 0x2B \<and> plain_level l"
  by (auto simp: plain_level_def)

lemma plain_level_Nil [simp]: "plain_level []"
  by (simp add: plain_level_def)

text \<open>The scan from inside a level: what is left of the level must be free of wildcards.\<close>

lemma filter_scan_levels:
  "filter_scan True cs \<longleftrightarrow> filter_levels (levels cs)"
  "filter_scan False cs \<longleftrightarrow>
     plain_level (hd (levels cs)) \<and> (tl (levels cs) = [] \<or> filter_levels (tl (levels cs)))"
proof (induction cs)
  case (Cons c cs)
  obtain l ls where ls: "levels cs = l # ls" by (cases "levels cs") simp_all
  have tail: "ls = [] \<Longrightarrow> l = [] \<Longrightarrow> cs = []"
    using tl_levels_Nil[of cs] ls by auto
  have nil: "l = [] \<longleftrightarrow> cs = [] \<or> hd cs = 0x2F" using hd_levels_Nil[of cs] ls by simp
  have empty: "cs = [] \<Longrightarrow> l = [] \<and> ls = []" using ls by auto
  have one: "cs = [] \<longleftrightarrow> l = [] \<and> ls = []" using tail empty by blast
  have rest: "filter_scan False cs \<longleftrightarrow> plain_level l \<and> (ls = [] \<or> filter_levels ls)"
    using Cons(2) by (simp add: ls)
  { case 1
    consider "c = 0x2F" | "c = 0x23" | "c = 0x2B" | "c \<noteq> 0x2F" "c \<noteq> 0x23" "c \<noteq> 0x2B" by blast
    then show ?case
    proof cases
      case 1
      then show ?thesis using Cons(1) by (simp add: filter_levels_Cons)
    next
      case 2
      then show ?thesis using one rest by (auto simp: ls filter_levels_Cons plain_level_Cons)
    next
      case 3
      then have "filter_scan True (c # cs) \<longleftrightarrow> l = [] \<and> (ls = [] \<or> filter_levels ls)"
        using rest nil by auto
      with 3 show ?thesis by (simp add: ls filter_levels_Cons plain_level_Cons)
    next
      case 4
      then show ?thesis using rest by (simp add: ls filter_levels_Cons plain_level_Cons)
    qed }
  { case 2
    consider "c = 0x2F" | "c = 0x23 \<or> c = 0x2B" | "c \<noteq> 0x2F" "c \<noteq> 0x23" "c \<noteq> 0x2B" by blast
    then show ?case
    proof cases
      case 1
      then show ?thesis using Cons(1) by simp
    next
      case 2
      then show ?thesis by (auto simp: ls plain_level_Cons)
    next
      case 3
      then show ?thesis using rest by (simp add: ls plain_level_Cons)
    qed }
qed (simp_all add: filter_levels_def)

lemma filter_chars_scan: "list_all (filter_char_ok t) [0..<length t] \<longleftrightarrow> filter_scan True t"
proof -
  have "filter_char_ok t i \<longleftrightarrow>
      (t ! i = 0x23 \<longrightarrow> i = length t - 1 \<and> (if i = 0 then True else t ! (i - 1) = 0x2F)) \<and>
      (t ! i = 0x2B \<longrightarrow> (if i = 0 then True else t ! (i - 1) = 0x2F) \<and>
         (i = length t - 1 \<or> t ! (i + 1) = 0x2F))" for i
    by (cases "t ! i = 0x23"; cases "t ! i = 0x2B") (simp_all add: filter_char_ok_def Let_def)
  then show ?thesis unfolding filter_scan_iff by (simp add: list_all_iff atLeast0LessThan Ball_def)
qed

text \<open>
  \<open>MqttUtf8_IsValidTopicFilter\<close> accepts exactly the valid strings of 1 to 64
  bytes in which every level is free of wildcards or is \<open>+\<close> alone, or, for the last
  level, \<open>#\<close> alone; and a topic name is a string that contains no wildcard at all.
\<close>

theorem mqtt_topic_grammar:
  "(MqttUtf8_IsValidTopicFilter (Some t) \<longleftrightarrow>
      length t \<le> MQTT_MAX_TOPIC_LENGTH \<and> MqttUtf8_Valid (Some t) \<and> filter_levels (levels t)) \<and>
   (MqttUtf8_IsValidTopicName (Some t) \<longleftrightarrow>
      length t \<le> MQTT_MAX_TOPIC_LENGTH \<and> MqttUtf8_Valid (Some t) \<and> (\<forall>l \<in> set (levels t). plain_level l))"
proof -
  have "t \<noteq> []" if "MqttUtf8_Valid (Some t)" using that by (auto simp: MqttUtf8_Valid_def)
  moreover have "(\<forall>l \<in> set (levels t). plain_level l) \<longleftrightarrow> list_all (\<lambda>c. \<not> (c = 0x23 \<or> c = 0x2B)) t"
  proof (induction t)
    case (Cons c cs)
    obtain l ls where "levels cs = l # ls" by (cases "levels cs") simp_all
    with Cons show ?case by (auto simp: plain_level_Cons)
  qed simp
  ultimately show ?thesis
    by (auto simp: MqttUtf8_IsValidTopicFilter_def MqttUtf8_IsValidTopicName_def filter_chars_scan
        filter_scan_levels)
qed

lemma mqtt_topic_grammar_witness:
  "MqttUtf8_IsValidTopicFilter (Some [0x61, 0x2F, 0x2B, 0x2F, 0x23]) \<and>
   \<not> MqttUtf8_IsValidTopicName (Some [0x61, 0x2F, 0x2B, 0x2F, 0x23])"
proof -
  have v: "MqttUtf8_Valid (Some [0x61, 0x2F, 0x2B, 0x2F, 0x23])" by code_simp
  show ?thesis
    using v by (simp add: mqtt_topic_grammar filter_levels_def plain_level_def MQTT_MAX_TOPIC_LENGTH_def)
qed

end
