(* ===== verification/Net_Ring.thy ===== *)
theory Net_Ring
  imports Prelude
begin

text \<open>
  The two byte rings of \<open>NetworkTransport\<close> (\<open>Network/Inc/network_transport.h\<close>): the fields
  \<open>tx_buf, tx_head, tx_tail, tx_len\<close> and their \<open>rx_\<close> counterparts are one record each. The
  interface \<open>byte_fifo\<close> states what the transport relies on, and both rings are instances of
  it. The two differ in how a byte leaves: the transmit ring clears the cell, the receive
  ring leaves it.
\<close>

definition NETWORK_TX_BUF_CAP :: nat where "NETWORK_TX_BUF_CAP = 256"
definition NETWORK_RX_BUF_CAP :: nat where "NETWORK_RX_BUF_CAP = 256"
definition NETWORK_MAX_RX_FETCH :: nat where "NETWORK_MAX_RX_FETCH = 64"

record ring =
  rb_buf :: bytes
  rb_head :: nat
  rb_tail :: nat
  rb_len :: nat

definition ring_zero :: ring where
  "ring_zero = \<lparr>rb_buf = replicate NETWORK_TX_BUF_CAP 0, rb_head = 0, rb_tail = 0, rb_len = 0\<rparr>"

definition ring_reset :: "ring \<Rightarrow> ring" where
  "ring_reset r = r\<lparr>rb_head := 0, rb_tail := 0, rb_len := 0\<rparr>"

definition ring_put :: "ring \<Rightarrow> u8 \<Rightarrow> ring" where
  "ring_put r b =
     r\<lparr>rb_buf := (rb_buf r)[rb_head r := b],
       rb_head := (rb_head r + 1) mod NETWORK_TX_BUF_CAP,
       rb_len := rb_len r + 1\<rparr>"

definition ring_front :: "ring \<Rightarrow> u8" where
  "ring_front r = rb_buf r ! rb_tail r"

definition ring_take :: "ring \<Rightarrow> ring" where
  "ring_take r =
     r\<lparr>rb_tail := (rb_tail r + 1) mod NETWORK_RX_BUF_CAP, rb_len := rb_len r - 1\<rparr>"

definition ring_wipe :: "ring \<Rightarrow> ring" where
  "ring_wipe r =
     r\<lparr>rb_buf := (rb_buf r)[rb_tail r := 0],
       rb_tail := (rb_tail r + 1) mod NETWORK_TX_BUF_CAP, rb_len := rb_len r - 1\<rparr>"

text \<open>The loop that gathers the pending bytes without removing them.\<close>

definition ring_gather :: "ring \<Rightarrow> bytes" where
  "ring_gather r =
     map (\<lambda>k. rb_buf r ! ((rb_tail r + k) mod NETWORK_TX_BUF_CAP))
       [0..<min (rb_len r) NETWORK_TX_BUF_CAP]"

lemmas ring_caps = NETWORK_TX_BUF_CAP_def NETWORK_RX_BUF_CAP_def NETWORK_MAX_RX_FETCH_def

section \<open>The interface of a bounded byte queue\<close>

locale byte_fifo =
  fixes content :: "'q \<Rightarrow> bytes"
    and inv :: "'q \<Rightarrow> bool"
    and put :: "'q \<Rightarrow> u8 \<Rightarrow> 'q"
    and front :: "'q \<Rightarrow> u8"
    and drop_front :: "'q \<Rightarrow> 'q"
    and len :: "'q \<Rightarrow> nat"
    and cap :: nat
  assumes content_put: "inv q \<Longrightarrow> len q < cap \<Longrightarrow> content (put q b) = content q @ [b]"
    and inv_put: "inv q \<Longrightarrow> len q < cap \<Longrightarrow> inv (put q b)"
    and content_drop: "inv q \<Longrightarrow> 0 < len q \<Longrightarrow> content (drop_front q) = tl (content q)"
    and inv_drop: "inv q \<Longrightarrow> 0 < len q \<Longrightarrow> inv (drop_front q)"
    and front_content: "inv q \<Longrightarrow> 0 < len q \<Longrightarrow> front q = hd (content q)"
    and length_content: "inv q \<Longrightarrow> length (content q) = len q"
    and len_cap: "inv q \<Longrightarrow> len q \<le> cap"
begin

lemma put_all:
  assumes "inv q" "len q + length bs \<le> cap"
  shows "inv (foldl put q bs) \<and> content (foldl put q bs) = content q @ bs"
  using assms
proof (induction bs arbitrary: q)
  case (Cons b bs)
  have room: "len q < cap" using Cons.prems(2) by simp
  have "len (put q b) = len q + 1"
    using Cons.prems(1) room content_put inv_put length_content
    by (metis Suc_eq_plus1 length_append_singleton)
  then show ?case
    using Cons.IH[of "put q b"] Cons.prems room by (simp add: content_put inv_put)
qed simp

lemma drop_all:
  assumes "inv q" "n \<le> len q"
  shows "inv ((drop_front ^^ n) q) \<and> content ((drop_front ^^ n) q) = drop n (content q)"
  using assms(2)
proof (induction n)
  case 0
  then show ?case using assms(1) by simp
next
  case (Suc n)
  then have ih: "inv ((drop_front ^^ n) q)" "content ((drop_front ^^ n) q) = drop n (content q)"
    by simp_all
  have "0 < len ((drop_front ^^ n) q)"
    using length_content[OF ih(1)] length_content[OF assms(1)] ih(2) Suc.prems by simp
  then show ?case
    using ih by (simp add: content_drop inv_drop tl_drop drop_Suc)
qed

lemma len_put_all:
  assumes "inv q" "len q + length bs \<le> cap"
  shows "len (foldl put q bs) = len q + length bs"
  using put_all[OF assms] length_content assms(1) by (metis length_append)

lemma len_drop_all:
  assumes "inv q" "n \<le> len q"
  shows "len ((drop_front ^^ n) q) = len q - n"
  using drop_all[OF assms] length_content assms(1) by (metis length_drop)

end

section \<open>The rings are such queues\<close>

definition ring_ok :: "ring \<Rightarrow> bool" where
  "ring_ok r \<longleftrightarrow> length (rb_buf r) = 256 \<and> rb_tail r < 256 \<and> rb_len r \<le> 256 \<and>
     rb_head r = (rb_tail r + rb_len r) mod 256"

lemma ring_gather_nth:
  "k < rb_len r \<Longrightarrow> ring_ok r \<Longrightarrow> ring_gather r ! k = rb_buf r ! ((rb_tail r + k) mod 256)"
  by (simp add: ring_gather_def ring_ok_def ring_caps)

lemma length_ring_gather: "ring_ok r \<Longrightarrow> length (ring_gather r) = rb_len r"
  by (simp add: ring_gather_def ring_ok_def ring_caps)

lemma ring_mod: "a < 512 \<Longrightarrow> a mod 256 = (if a < 256 then a else a - 256 :: nat)"
  by (simp add: le_mod_geq)

lemma ring_index_inj:
  assumes "t < 256" "j < 256" "k < 256" "(t + j) mod 256 = (t + k) mod (256 :: nat)"
  shows "j = k"
  using assms by (simp add: ring_mod split: if_splits)

lemma ring_ok_put:
  assumes "ring_ok r" "rb_len r < 256"
  shows "ring_ok (ring_put r b)"
  using assms by (simp add: ring_ok_def ring_put_def ring_caps mod_simps)

lemma ring_gather_put:
  assumes "ring_ok r" "rb_len r < 256"
  shows "ring_gather (ring_put r b) = ring_gather r @ [b]"
proof (rule nth_equalityI)
  show "length (ring_gather (ring_put r b)) = length (ring_gather r @ [b])"
    using assms ring_ok_put[OF assms] by (simp add: length_ring_gather) (simp add: ring_put_def)
  fix k assume "k < length (ring_gather (ring_put r b))"
  then have k: "k \<le> rb_len r"
    using ring_ok_put[OF assms] by (simp add: length_ring_gather) (simp add: ring_put_def)
  have put: "ring_gather (ring_put r b) ! k
      = (rb_buf r)[(rb_tail r + rb_len r) mod 256 := b] ! ((rb_tail r + k) mod 256)"
    using k ring_gather_nth[OF _ ring_ok_put[OF assms], of k b] assms(1)
    by (simp add: ring_put_def ring_ok_def)
  show "ring_gather (ring_put r b) ! k = (ring_gather r @ [b]) ! k"
  proof (cases "k = rb_len r")
    case True
    then show ?thesis using put assms by (simp add: nth_append length_ring_gather ring_ok_def)
  next
    case False
    then have "(rb_tail r + rb_len r) mod 256 \<noteq> (rb_tail r + k) mod 256"
      using ring_index_inj[of "rb_tail r" "rb_len r" k] k assms by (auto simp: ring_ok_def)
    then show ?thesis
      using put k False assms(1) by (simp add: nth_append length_ring_gather ring_gather_nth)
  qed
qed

lemma ring_tail_index: "t < 256 \<Longrightarrow> ((t + 1) mod 256 + k) mod 256 = (t + Suc k) mod (256 :: nat)"
  by (simp add: mod_simps)

lemma ring_gather_shift:
  assumes "ring_ok r" "0 < rb_len r" "ring_ok s"
    and "rb_tail s = (rb_tail r + 1) mod 256" "rb_len s = rb_len r - 1"
    and "\<And>i. i < 256 \<Longrightarrow> i \<noteq> rb_tail r \<Longrightarrow> rb_buf s ! i = rb_buf r ! i"
  shows "ring_gather s = tl (ring_gather r)"
proof (rule nth_equalityI)
  show "length (ring_gather s) = length (tl (ring_gather r))"
    using assms by (simp add: length_ring_gather)
  fix k assume "k < length (ring_gather s)"
  then have k: "k < rb_len r - 1" using assms by (simp add: length_ring_gather)
  have t: "rb_tail r < 256" "rb_len r \<le> 256" using assms(1) by (simp_all add: ring_ok_def)
  have "Suc k < 256" using k t(2) by linarith
  then have "(rb_tail r + Suc k) mod 256 \<noteq> (rb_tail r + 0) mod 256"
    using ring_index_inj[of "rb_tail r" "Suc k" 0] t(1) by auto
  then have "rb_buf s ! ((rb_tail r + Suc k) mod 256) = rb_buf r ! ((rb_tail r + Suc k) mod 256)"
    using t by (intro assms(6)) simp_all
  then show "ring_gather s ! k = tl (ring_gather r) ! k"
    using k t assms(1,3,4,5) ring_tail_index[OF t(1), of k]
    by (simp add: ring_gather_nth nth_tl length_ring_gather)
qed

lemma ring_tail_step:
  "0 < n \<Longrightarrow> t < 256 \<Longrightarrow> n \<le> 256 \<Longrightarrow> (t + n) mod 256 = ((t + 1) mod 256 + (n - 1)) mod (256 :: nat)"
  by (cases n) (simp_all add: mod_simps)

lemma ring_ok_take: "ring_ok r \<Longrightarrow> 0 < rb_len r \<Longrightarrow> ring_ok (ring_take r)"
  by (auto simp: ring_ok_def ring_take_def ring_caps ring_tail_step[of "rb_len r"])

lemma ring_ok_wipe: "ring_ok r \<Longrightarrow> 0 < rb_len r \<Longrightarrow> ring_ok (ring_wipe r)"
  by (auto simp: ring_ok_def ring_wipe_def ring_caps ring_tail_step[of "rb_len r"])

lemma ring_gather_take: "ring_ok r \<Longrightarrow> 0 < rb_len r \<Longrightarrow> ring_gather (ring_take r) = tl (ring_gather r)"
  by (rule ring_gather_shift) (auto intro: ring_ok_take, auto simp: ring_take_def ring_caps)

lemma ring_gather_wipe: "ring_ok r \<Longrightarrow> 0 < rb_len r \<Longrightarrow> ring_gather (ring_wipe r) = tl (ring_gather r)"
  by (rule ring_gather_shift) (auto intro: ring_ok_wipe, auto simp: ring_wipe_def ring_caps)

lemma ring_front_gather:
  assumes "ring_ok r" "0 < rb_len r"
  shows "ring_front r = hd (ring_gather r)"
proof -
  have "ring_gather r \<noteq> []" using length_ring_gather[OF assms(1)] assms(2) by auto
  then show ?thesis
    using assms ring_gather_nth[of 0 r] by (simp add: hd_conv_nth ring_front_def ring_ok_def)
qed

interpretation tx: byte_fifo ring_gather ring_ok ring_put ring_front ring_wipe rb_len 256
  by unfold_locales
    (simp_all add: ring_gather_put ring_ok_put ring_ok_wipe ring_gather_wipe ring_front_gather
      length_ring_gather, simp add: ring_ok_def)

interpretation rx: byte_fifo ring_gather ring_ok ring_put ring_front ring_take rb_len 256
  by unfold_locales
    (simp_all add: ring_gather_put ring_ok_put ring_ok_take ring_gather_take ring_front_gather
      length_ring_gather, simp add: ring_ok_def)

lemma ring_reset_ok: "length (rb_buf r) = 256 \<Longrightarrow> ring_ok (ring_reset r) \<and> ring_gather (ring_reset r) = []"
  by (simp add: ring_ok_def ring_reset_def ring_gather_def)

lemma ring_ok_reset [simp]: "ring_ok r \<Longrightarrow> ring_ok (ring_reset r)"
  using ring_reset_ok[of r] by (simp add: ring_ok_def)

lemma ring_gather_reset [simp]: "ring_gather (ring_reset r) = []"
  by (simp add: ring_reset_def ring_gather_def)

lemma ring_len_reset [simp]: "rb_len (ring_reset r) = 0"
  by (simp add: ring_reset_def)

lemma ring_zero_ok [simp]: "ring_ok ring_zero" "ring_gather ring_zero = []" "rb_len ring_zero = 0"
  by (simp_all add: ring_zero_def ring_ok_def ring_gather_def ring_caps)

end
