(* ===== verification/Net_Transport.thy ===== *)
theory Net_Transport
  imports Net_Ring
begin

text \<open>
  \<open>Network/Src/network_transport.c\<close>: the byte-stream transport over an adapter the caller
  provides. The adapter is a record of functions on its own state (the \<open>ctx\<close> of the source),
  which every operation threads through; the current tick is an argument. \<open>recv\<close> returns the
  bytes it writes, whose number is \<open>*got\<close>. The binding \<open>t->adapter\<close>, which never changes
  after \<open>NetworkTransport_Init\<close>, is the argument \<open>ad\<close>.
\<close>

datatype NetworkStatus =
    NET_OK | NET_WOULD_BLOCK | NET_IN_PROGRESS | NET_INVALID_ARG | NET_NOT_CONNECTED
  | NET_ALREADY | NET_REMOTE_CLOSED | NET_TIMEOUT | NET_TRANSPORT_ERROR

datatype NetworkState =
    NET_STATE_DISCONNECTED | NET_STATE_CONNECTING | NET_STATE_CONNECTED | NET_STATE_CLOSING
  | NET_STATE_ERROR

definition NETWORK_ENDPOINT_HOST_MAX :: nat where "NETWORK_ENDPOINT_HOST_MAX = 64"

record NetworkEndpoint =
  ep_host :: bytes
  ep_port :: u16

record 'a NetworkTransportAdapter =
  ad_open :: "'a \<Rightarrow> NetworkEndpoint \<Rightarrow> NetworkStatus \<times> 'a"
  ad_poll :: "'a \<Rightarrow> NetworkStatus \<times> 'a"
  ad_send :: "'a \<Rightarrow> bytes \<Rightarrow> NetworkStatus \<times> nat \<times> 'a"
  ad_recv :: "'a \<Rightarrow> nat \<Rightarrow> NetworkStatus \<times> bytes \<times> 'a"
  ad_close :: "'a \<Rightarrow> 'a"

record NetworkTransport =
  nt_state :: NetworkState
  nt_endpoint :: NetworkEndpoint
  nt_tx :: ring
  nt_rx :: ring
  nt_connect_deadline_ms :: u32
  nt_connect_timeout_set :: bool
  nt_tx_accepted :: u32
  nt_tx_bytes :: u32
  nt_rx_bytes :: u32
  nt_connect_attempts :: u32
  nt_connect_failures :: u32
  nt_remote_closed :: u32
  nt_transport_errors :: u32

record NetworkStats =
  ns_tx_accepted :: u32
  ns_tx_bytes :: u32
  ns_rx_bytes :: u32
  ns_connect_attempts :: u32
  ns_connect_failures :: u32
  ns_remote_closed :: u32
  ns_transport_errors :: u32

definition DeadlineElapsed :: "u32 \<Rightarrow> u32 \<Rightarrow> u32 \<Rightarrow> bool" where
  "DeadlineElapsed now deadline rel_ms =
     (let delta = now - deadline in delta < 0x80000000 \<and> delta \<ge> rel_ms)"

interpretation net_timer: wrap_timer DeadlineElapsed
  by unfold_locales (simp add: DeadlineElapsed_def Let_def word_less_nat_alt word_le_nat_alt)

text \<open>\<open>strlen\<close> counts up to the first NUL of the array.\<close>

definition EndpointValid :: "NetworkEndpoint option \<Rightarrow> bool" where
  "EndpointValid e =
     (case e of None \<Rightarrow> False
      | Some e \<Rightarrow>
        if ep_port e = 0 then False
        else if ep_host e ! 0 = 0 then False
        else if length (takeWhile (\<lambda>c. c \<noteq> 0) (ep_host e)) > NETWORK_ENDPOINT_HOST_MAX then False
        else True)"

definition NetworkTransport_Init :: "NetworkEndpoint option \<Rightarrow> NetworkStatus \<times> NetworkTransport option" where
  "NetworkTransport_Init endpoint =
     (if \<not> EndpointValid endpoint then (NET_INVALID_ARG, None)
      else (NET_OK, Some
        \<lparr>nt_state = NET_STATE_DISCONNECTED, nt_endpoint = the endpoint,
         nt_tx = ring_zero, nt_rx = ring_zero,
         nt_connect_deadline_ms = 0, nt_connect_timeout_set = False,
         nt_tx_accepted = 0, nt_tx_bytes = 0, nt_rx_bytes = 0, nt_connect_attempts = 0,
         nt_connect_failures = 0, nt_remote_closed = 0, nt_transport_errors = 0\<rparr>))"

definition NetworkTransport_Connect ::
  "'a NetworkTransportAdapter \<Rightarrow> u32 \<Rightarrow> 'a \<Rightarrow> NetworkTransport \<Rightarrow> NetworkStatus \<times> 'a \<times> NetworkTransport" where
  "NetworkTransport_Connect ad now a t =
     (if nt_state t \<noteq> NET_STATE_DISCONNECTED then (NET_ALREADY, a, t)
      else case ad_open ad a (nt_endpoint t) of (s, a) \<Rightarrow>
        if s \<noteq> NET_OK
        then (s, a, t\<lparr>nt_state := NET_STATE_ERROR, nt_connect_failures := nt_connect_failures t + 1\<rparr>)
        else (NET_IN_PROGRESS, a,
              t\<lparr>nt_state := NET_STATE_CONNECTING,
                nt_connect_attempts := nt_connect_attempts t + 1,
                nt_connect_deadline_ms := now + 10000,
                nt_connect_timeout_set := True\<rparr>))"

definition NetworkTransport_Disconnect ::
  "'a NetworkTransportAdapter \<Rightarrow> 'a \<Rightarrow> NetworkTransport \<Rightarrow> NetworkStatus \<times> 'a \<times> NetworkTransport" where
  "NetworkTransport_Disconnect ad a t =
     (NET_OK, ad_close ad a,
      t\<lparr>nt_state := NET_STATE_DISCONNECTED, nt_tx := ring_reset (nt_tx t),
        nt_rx := ring_reset (nt_rx t), nt_connect_timeout_set := False\<rparr>)"

definition NetworkTransport_GetState :: "NetworkTransport option \<Rightarrow> NetworkState" where
  "NetworkTransport_GetState t = (case t of Some t \<Rightarrow> nt_state t | None \<Rightarrow> NET_STATE_DISCONNECTED)"

definition NetworkTransport_GetStats :: "NetworkTransport \<Rightarrow> NetworkStats" where
  "NetworkTransport_GetStats t =
     \<lparr>ns_tx_accepted = nt_tx_accepted t, ns_tx_bytes = nt_tx_bytes t, ns_rx_bytes = nt_rx_bytes t,
      ns_connect_attempts = nt_connect_attempts t, ns_connect_failures = nt_connect_failures t,
      ns_remote_closed = nt_remote_closed t, ns_transport_errors = nt_transport_errors t\<rparr>"

section \<open>Progress\<close>

definition RunConnect ::
  "'a NetworkTransportAdapter \<Rightarrow> u32 \<Rightarrow> 'a \<Rightarrow> NetworkTransport \<Rightarrow> NetworkStatus \<times> 'a \<times> NetworkTransport" where
  "RunConnect ad now a t =
     (if \<not> nt_connect_timeout_set t then (NET_IN_PROGRESS, a, t)
      else case ad_poll ad a of (ps, a) \<Rightarrow>
        if ps = NET_OK
        then (NET_OK, a, t\<lparr>nt_state := NET_STATE_CONNECTED, nt_connect_timeout_set := False\<rparr>)
        else if ps = NET_IN_PROGRESS
        then (if DeadlineElapsed now (nt_connect_deadline_ms t) 0
              then (NET_TIMEOUT, a,
                    t\<lparr>nt_state := NET_STATE_ERROR, nt_connect_timeout_set := False,
                      nt_connect_failures := nt_connect_failures t + 1\<rparr>)
              else (NET_IN_PROGRESS, a, t))
        else (ps, a,
              t\<lparr>nt_state := NET_STATE_ERROR, nt_connect_timeout_set := False,
                nt_connect_failures := nt_connect_failures t + 1,
                nt_transport_errors :=
                  (if ps = NET_TRANSPORT_ERROR then nt_transport_errors t + 1
                   else nt_transport_errors t)\<rparr>))"

lemma rb_len_wipe: "rb_len ((ring_wipe ^^ n) r) = rb_len r - n"
  by (induction n) (auto simp: ring_wipe_def)

lemma rb_len_take: "rb_len ((ring_take ^^ n) r) = rb_len r - n"
  by (induction n) (auto simp: ring_take_def)

text \<open>
  \<open>DrainTx\<close> ends because every round removes at least one byte. The loop that clears the
  sent cells decrements the length once at its end; here \<open>ring_wipe\<close> does both.
\<close>

function DrainTx ::
  "'a NetworkTransportAdapter \<Rightarrow> 'a \<Rightarrow> NetworkTransport \<Rightarrow> NetworkStatus \<times> 'a \<times> NetworkTransport" where
  "DrainTx ad a t =
     (if rb_len (nt_tx t) > 0
      then let chunk = ring_gather (nt_tx t); res = ad_send ad a chunk;
               rs = fst res; sent = fst (snd res); a' = snd (snd res)
        in
        if rs = NET_WOULD_BLOCK then (NET_WOULD_BLOCK, a', t)
        else if rs \<noteq> NET_OK
        then (rs, a',
              if rs = NET_TRANSPORT_ERROR
              then t\<lparr>nt_transport_errors := nt_transport_errors t + 1\<rparr>
              else if rs = NET_REMOTE_CLOSED
              then t\<lparr>nt_remote_closed := nt_remote_closed t + 1\<rparr>
              else t)
        else if sent = 0 then (NET_WOULD_BLOCK, a', t)
        else let actual = (if sent > rb_len (nt_tx t) then rb_len (nt_tx t) else sent) in
          DrainTx ad a'
            (t\<lparr>nt_tx := (ring_wipe ^^ actual) (nt_tx t), nt_tx_bytes := nt_tx_bytes t + of_nat actual\<rparr>)
      else (NET_OK, a, t))"
  by pat_completeness auto

termination
  by (relation "measure (\<lambda>(ad, a, t). rb_len (nt_tx t))") (auto simp: rb_len_wipe)

declare DrainTx.simps [simp del]

definition RunRx ::
  "'a NetworkTransportAdapter \<Rightarrow> 'a \<Rightarrow> NetworkTransport \<Rightarrow> NetworkStatus \<times> 'a \<times> NetworkTransport" where
  "RunRx ad a t =
     (let free_rx = NETWORK_RX_BUF_CAP - rb_len (nt_rx t) in
      if free_rx = 0 then (NET_WOULD_BLOCK, a, t)
      else let want = (if free_rx > NETWORK_MAX_RX_FETCH then NETWORK_MAX_RX_FETCH else free_rx) in
        case ad_recv ad a want of (rs, data, a) \<Rightarrow>
        if rs = NET_REMOTE_CLOSED then (NET_REMOTE_CLOSED, a, t)
        else if rs = NET_WOULD_BLOCK \<or> length data = 0 then (NET_WOULD_BLOCK, a, t)
        else if rs \<noteq> NET_OK
        then (rs, a,
              if rs = NET_TRANSPORT_ERROR
              then t\<lparr>nt_transport_errors := nt_transport_errors t + 1\<rparr> else t)
        else (NET_OK, a,
              t\<lparr>nt_rx := foldl ring_put (nt_rx t) data,
                nt_rx_bytes := nt_rx_bytes t + of_nat (length data)\<rparr>))"

definition EnterError :: "NetworkTransport \<Rightarrow> NetworkTransport" where
  "EnterError t =
     t\<lparr>nt_state := NET_STATE_ERROR, nt_tx := ring_reset (nt_tx t), nt_rx := ring_reset (nt_rx t),
       nt_connect_timeout_set := False\<rparr>"

definition NetworkTransport_Run ::
  "'a NetworkTransportAdapter \<Rightarrow> u32 \<Rightarrow> 'a \<Rightarrow> NetworkTransport \<Rightarrow> NetworkStatus \<times> 'a \<times> NetworkTransport" where
  "NetworkTransport_Run ad now a t =
     (if nt_state t = NET_STATE_DISCONNECTED then (NET_NOT_CONNECTED, a, t)
      else if nt_state t = NET_STATE_ERROR then (NET_TRANSPORT_ERROR, a, t)
      else if nt_state t = NET_STATE_CONNECTING then RunConnect ad now a t
      else if nt_state t = NET_STATE_CONNECTED
      then case DrainTx ad a t of (s, a, t) \<Rightarrow>
        if s \<noteq> NET_OK \<and> s \<noteq> NET_WOULD_BLOCK then (s, a, EnterError t)
        else case RunRx ad a t of (r, a, t) \<Rightarrow>
          if r = NET_REMOTE_CLOSED
          then (NET_REMOTE_CLOSED, a,
                t\<lparr>nt_state := NET_STATE_CLOSING, nt_remote_closed := nt_remote_closed t + 1\<rparr>)
          else if r \<noteq> NET_OK \<and> r \<noteq> NET_WOULD_BLOCK then (r, a, EnterError t)
          else (NET_OK, a, t)
      else (NET_OK, a, t))"

section \<open>Send and receive\<close>

text \<open>
  \<open>src\<close> is the part of the data not yet copied; the second result is \<open>*accepted\<close>. A NULL
  pointer with a length other than 0 is \<open>None\<close>, in \<open>Send\<close> for the data and in \<open>Receive\<close> for
  the buffer, whose capacity is the argument otherwise.
\<close>

fun send_loop :: "NetworkTransport \<Rightarrow> bytes \<Rightarrow> nat \<Rightarrow> NetworkTransport \<times> nat" where
  "send_loop t [] accepted = (t, accepted)"
| "send_loop t (b # src) accepted =
     (if rb_len (nt_tx t) < NETWORK_TX_BUF_CAP
      then send_loop (t\<lparr>nt_tx := ring_put (nt_tx t) b, nt_tx_accepted := nt_tx_accepted t + 1\<rparr>)
             src (accepted + 1)
      else (t, accepted))"

definition NetworkTransport_Send ::
  "NetworkTransport \<Rightarrow> bytes option \<Rightarrow> NetworkStatus \<times> nat \<times> NetworkTransport" where
  "NetworkTransport_Send t data =
     (case data of None \<Rightarrow> (NET_INVALID_ARG, 0, t)
      | Some src \<Rightarrow>
        if nt_state t \<noteq> NET_STATE_CONNECTED then (NET_NOT_CONNECTED, 0, t)
        else if length src = 0 then (NET_OK, 0, t)
        else case send_loop t src 0 of (t, accepted) \<Rightarrow> (NET_OK, accepted, t))"

fun receive_loop :: "nat \<Rightarrow> ring \<Rightarrow> bytes \<times> ring" where
  "receive_loop 0 r = ([], r)"
| "receive_loop (Suc n) r = (case receive_loop n (ring_take r) of (bs, r') \<Rightarrow> (ring_front r # bs, r'))"

definition NetworkTransport_Receive ::
  "NetworkTransport \<Rightarrow> nat option \<Rightarrow> NetworkStatus \<times> bytes \<times> NetworkTransport" where
  "NetworkTransport_Receive t buf =
     (if nt_state t \<noteq> NET_STATE_CONNECTED \<and> nt_state t \<noteq> NET_STATE_CLOSING
      then (NET_NOT_CONNECTED, [], t)
      else case buf of None \<Rightarrow> (NET_INVALID_ARG, [], t)
      | Some cap \<Rightarrow> let
        n = (if rb_len (nt_rx t) > 0 then (if rb_len (nt_rx t) > cap then cap else rb_len (nt_rx t)) else 0);
        (bs, r) = receive_loop n (nt_rx t);
        t = t\<lparr>nt_rx := r\<rparr>
      in
      if n > 0 then (NET_OK, bs, t)
      else if nt_state t = NET_STATE_CLOSING then (NET_REMOTE_CLOSED, [], t)
      else (NET_WOULD_BLOCK, [], t))"

end
