(* ===== verification/Fake_Adapter.thy ===== *)
theory Fake_Adapter
  imports Net_Transport
begin

text \<open>
  The laws the transport relies on as a locale, and the scripted adapter of the host tests
  (\<open>test/fakes/fake_network_adapter.c\<close>), which satisfies them. The virtual clock the fake
  reads is the field \<open>fk_tick\<close>; the arrays \<open>peer_buf\<close> and \<open>tx_capture\<close> are lists, the
  latter holding only its first \<open>tx_capture_len\<close> bytes.
\<close>

locale net_adapter =
  fixes ad :: "'a NetworkTransportAdapter"
  assumes recv_bounded: "length (fst (snd (ad_recv ad a n))) \<le> n"
begin

lemma RunRx_ring:
  assumes "ring_ok (nt_rx t)" "RunRx ad a t = (r, a', t')"
  shows "ring_ok (nt_rx t') \<and> nt_tx t' = nt_tx t \<and> nt_state t' = nt_state t"
proof -
  define want where "want = min (NETWORK_RX_BUF_CAP - rb_len (nt_rx t)) NETWORK_MAX_RX_FETCH"
  obtain rs data a1 where r: "ad_recv ad a want = (rs, data, a1)" by (metis prod_cases3)
  have "length data \<le> want" using recv_bounded[of a want] r by simp
  then have "rb_len (nt_rx t) + length data \<le> 256 \<or> rb_len (nt_rx t) = 256"
    using assms(1) by (auto simp: want_def ring_ok_def ring_caps)
  moreover have "want = (if NETWORK_RX_BUF_CAP - rb_len (nt_rx t) > NETWORK_MAX_RX_FETCH
      then NETWORK_MAX_RX_FETCH else NETWORK_RX_BUF_CAP - rb_len (nt_rx t))"
    by (simp add: want_def)
  ultimately show ?thesis
    using assms r rx.put_all[OF assms(1), of data]
    by (auto simp: RunRx_def Let_def ring_caps split: if_splits)
qed

end

section \<open>The scripted adapter\<close>

definition FAKE_NET_PEER_BUF :: nat where "FAKE_NET_PEER_BUF = 512"
definition FAKE_NET_CAPTURE_MAX :: nat where "FAKE_NET_CAPTURE_MAX = 4096"

datatype FakeNetConnectMode =
    FAKE_NET_CONNECT_IMMEDIATE | FAKE_NET_CONNECT_DELAYED | FAKE_NET_CONNECT_REFUSED
  | FAKE_NET_CONNECT_TIMEOUT

datatype FakeNetSendMode =
    FAKE_NET_SEND_NONE | FAKE_NET_SEND_ALL | FAKE_NET_SEND_CAPN | FAKE_NET_SEND_OK16
  | FAKE_NET_SEND_ERROR | FAKE_NET_SEND_CAPN_THEN_ERROR

datatype FakeNetRecvMode =
    FAKE_NET_RECV_NONE | FAKE_NET_RECV_FEED | FAKE_NET_RECV_REMOTE_CLOSE | FAKE_NET_RECV_ERROR

record FakeNetworkAdapter =
  fk_tick :: u32
  fk_connect_mode :: FakeNetConnectMode
  fk_connect_delay_ms :: u32
  fk_connect_initiated :: bool
  fk_connect_start_tick :: u32
  fk_send_mode :: FakeNetSendMode
  fk_send_cap :: nat
  fk_send_error_pending :: bool
  fk_send_cap_once_used :: bool
  fk_recv_mode :: FakeNetRecvMode
  fk_peer_buf :: bytes
  fk_peer_buf_len :: nat
  fk_peer_buf_pos :: nat
  fk_recv_error_pending :: bool
  fk_accepted_total :: nat
  fk_close_count :: nat
  fk_open_count :: nat
  fk_poll_count :: nat
  fk_tx_capture :: bytes

definition net_close :: "FakeNetworkAdapter \<Rightarrow> FakeNetworkAdapter" where
  "net_close f = f\<lparr>fk_close_count := fk_close_count f + 1, fk_connect_initiated := False\<rparr>"

definition net_open :: "FakeNetworkAdapter \<Rightarrow> NetworkEndpoint \<Rightarrow> NetworkStatus \<times> FakeNetworkAdapter" where
  "net_open f ep =
     (let f = f\<lparr>fk_open_count := fk_open_count f + 1, fk_connect_initiated := True,
               fk_connect_start_tick := fk_tick f\<rparr> in
      case fk_connect_mode f of
        FAKE_NET_CONNECT_REFUSED \<Rightarrow> (NET_TRANSPORT_ERROR, f)
      | _ \<Rightarrow> (NET_OK, f))"

definition net_poll :: "FakeNetworkAdapter \<Rightarrow> NetworkStatus \<times> FakeNetworkAdapter" where
  "net_poll f =
     (let f = f\<lparr>fk_poll_count := fk_poll_count f + 1\<rparr> in
      if \<not> fk_connect_initiated f then (NET_TRANSPORT_ERROR, f)
      else case fk_connect_mode f of
        FAKE_NET_CONNECT_IMMEDIATE \<Rightarrow> (NET_OK, f)
      | FAKE_NET_CONNECT_DELAYED \<Rightarrow>
          if fk_tick f - fk_connect_start_tick f \<ge> fk_connect_delay_ms f then (NET_OK, f)
          else (NET_IN_PROGRESS, f)
      | FAKE_NET_CONNECT_TIMEOUT \<Rightarrow> (NET_IN_PROGRESS, f)
      | FAKE_NET_CONNECT_REFUSED \<Rightarrow> (NET_TRANSPORT_ERROR, f))"

definition capture_bytes :: "FakeNetworkAdapter \<Rightarrow> bytes \<Rightarrow> FakeNetworkAdapter" where
  "capture_bytes f data =
     f\<lparr>fk_tx_capture := fk_tx_capture f @ take (FAKE_NET_CAPTURE_MAX - length (fk_tx_capture f)) data\<rparr>"

definition net_send :: "FakeNetworkAdapter \<Rightarrow> bytes \<Rightarrow> NetworkStatus \<times> nat \<times> FakeNetworkAdapter" where
  "net_send f data =
     (let n = length data;
          accept = (\<lambda>f k. capture_bytes (f\<lparr>fk_accepted_total := fk_accepted_total f + k\<rparr>) (take k data))
      in
      if fk_send_error_pending f
      then (NET_TRANSPORT_ERROR, 0, f\<lparr>fk_send_error_pending := False\<rparr>)
      else case fk_send_mode f of
        FAKE_NET_SEND_NONE \<Rightarrow> (NET_WOULD_BLOCK, 0, f)
      | FAKE_NET_SEND_ERROR \<Rightarrow> (NET_TRANSPORT_ERROR, 0, f)
      | FAKE_NET_SEND_CAPN \<Rightarrow>
          let k = (if n > fk_send_cap f then fk_send_cap f else n) in (NET_OK, k, accept f k)
      | FAKE_NET_SEND_OK16 \<Rightarrow> let k = (if n > 16 then 16 else n) in (NET_OK, k, accept f k)
      | FAKE_NET_SEND_CAPN_THEN_ERROR \<Rightarrow>
          if fk_send_cap_once_used f then (NET_TRANSPORT_ERROR, 0, f)
          else let k = (if n > fk_send_cap f then fk_send_cap f else n) in
            (NET_OK, k, accept (f\<lparr>fk_send_cap_once_used := True\<rparr>) k)
      | FAKE_NET_SEND_ALL \<Rightarrow> (NET_OK, n, accept f n))"

definition net_recv :: "FakeNetworkAdapter \<Rightarrow> nat \<Rightarrow> NetworkStatus \<times> bytes \<times> FakeNetworkAdapter" where
  "net_recv f cap =
     (if fk_recv_error_pending f
      then (NET_TRANSPORT_ERROR, [], f\<lparr>fk_recv_error_pending := False\<rparr>)
      else case fk_recv_mode f of
        FAKE_NET_RECV_NONE \<Rightarrow> (NET_WOULD_BLOCK, [], f)
      | FAKE_NET_RECV_REMOTE_CLOSE \<Rightarrow> (NET_REMOTE_CLOSED, [], f)
      | FAKE_NET_RECV_ERROR \<Rightarrow> (NET_TRANSPORT_ERROR, [], f)
      | FAKE_NET_RECV_FEED \<Rightarrow>
          let avail = fk_peer_buf_len f - fk_peer_buf_pos f in
          if avail = 0 then (NET_WOULD_BLOCK, [], f)
          else let k = (if avail > cap then cap else avail) in
            (NET_OK, window (fk_peer_buf f) (fk_peer_buf_pos f) k,
             f\<lparr>fk_peer_buf_pos := fk_peer_buf_pos f + k\<rparr>))"

definition FakeNetworkAdapter_Reset :: "u32 \<Rightarrow> FakeNetworkAdapter" where
  "FakeNetworkAdapter_Reset tick =
     \<lparr>fk_tick = tick, fk_connect_mode = FAKE_NET_CONNECT_IMMEDIATE, fk_connect_delay_ms = 0,
      fk_connect_initiated = False, fk_connect_start_tick = 0, fk_send_mode = FAKE_NET_SEND_ALL,
      fk_send_cap = 0, fk_send_error_pending = False, fk_send_cap_once_used = False,
      fk_recv_mode = FAKE_NET_RECV_NONE, fk_peer_buf = replicate FAKE_NET_PEER_BUF 0,
      fk_peer_buf_len = 0, fk_peer_buf_pos = 0, fk_recv_error_pending = False,
      fk_accepted_total = 0, fk_close_count = 0, fk_open_count = 0, fk_poll_count = 0,
      fk_tx_capture = []\<rparr>"

definition fake_adapter :: "FakeNetworkAdapter NetworkTransportAdapter" where
  "fake_adapter =
     \<lparr>ad_open = net_open, ad_poll = net_poll, ad_send = net_send, ad_recv = net_recv,
      ad_close = net_close\<rparr>"

definition FakeNetworkAdapter_FeedRecv :: "FakeNetworkAdapter \<Rightarrow> bytes \<Rightarrow> FakeNetworkAdapter" where
  "FakeNetworkAdapter_FeedRecv f data =
     (if length data = 0 then f\<lparr>fk_recv_mode := FAKE_NET_RECV_NONE\<rparr>
      else let data = take FAKE_NET_PEER_BUF data in
        f\<lparr>fk_peer_buf := overwrite (fk_peer_buf f) 0 data, fk_peer_buf_len := length data,
          fk_peer_buf_pos := 0, fk_recv_mode := FAKE_NET_RECV_FEED\<rparr>)"

interpretation fake: net_adapter fake_adapter
  by unfold_locales
    (auto simp: fake_adapter_def net_recv_def Let_def split: FakeNetRecvMode.splits)

lemmas fake_ops =
  fake_adapter_def net_open_def net_poll_def net_send_def net_recv_def net_close_def
  capture_bytes_def FakeNetworkAdapter_Reset_def FakeNetworkAdapter_FeedRecv_def
  FAKE_NET_PEER_BUF_def FAKE_NET_CAPTURE_MAX_def

end
