(* ===== verification/Net_Stream.thy ===== *)
theory Net_Stream
  imports Fake_Adapter "HOL-Library.Sublist"
begin

text \<open>
  The transport is a byte stream: nothing is lost, duplicated or reordered between the
  caller and the adapter. A ghost log records what \<open>NetworkTransport_Send\<close> accepted, what the
  adapter took, what the adapter delivered and what \<open>NetworkTransport_Receive\<close> returned.
\<close>

section \<open>The logging adapter\<close>

text \<open>Its state adds the bytes that crossed the interface in either direction.\<close>

definition logged :: "'a NetworkTransportAdapter \<Rightarrow> ('a \<times> bytes \<times> bytes) NetworkTransportAdapter" where
  "logged ad =
     \<lparr>ad_open = (\<lambda>(a, w, r) ep. case ad_open ad a ep of (s, a) \<Rightarrow> (s, a, w, r)),
      ad_poll = (\<lambda>(a, w, r). case ad_poll ad a of (s, a) \<Rightarrow> (s, a, w, r)),
      ad_send = (\<lambda>(a, w, r) data. case ad_send ad a data of (s, n, a) \<Rightarrow>
        (s, n, a, if s = NET_OK then w @ take n data else w, r)),
      ad_recv = (\<lambda>(a, w, r) n. case ad_recv ad a n of (s, data, a) \<Rightarrow>
        (s, data, a, w, if s = NET_OK then r @ data else r)),
      ad_close = (\<lambda>(a, w, r). (ad_close ad a, w, r))\<rparr>"

lemma logged_sel [simp]:
  "ad_send (logged ad) (a, w, r) data = (case ad_send ad a data of (s, n, a) \<Rightarrow>
     (s, n, a, if s = NET_OK then w @ take n data else w, r))"
  "ad_recv (logged ad) (a, w, r) n = (case ad_recv ad a n of (s, data, a) \<Rightarrow>
     (s, data, a, w, if s = NET_OK then r @ data else r))"
  by (simp_all add: logged_def)

context net_adapter
begin

lemma logged_adapter: "net_adapter (logged ad)"
proof
  fix x :: "'a \<times> bytes \<times> bytes" and n
  obtain a w r where x: "x = (a, w, r)" by (metis prod_cases3)
  show "length (fst (snd (ad_recv (logged ad) x n))) \<le> n"
    using recv_bounded[of a n] by (simp add: x case_prod_beta)
qed

end

section \<open>One step\<close>

lemma DrainTx_stream:
  assumes "ring_ok (nt_tx t)" "DrainTx (logged ad) (a, w, r) t = (s, (a', w', r'), t')"
  shows "ring_ok (nt_tx t') \<and> w' @ ring_gather (nt_tx t') = w @ ring_gather (nt_tx t) \<and> r' = r \<and>
    nt_rx t' = nt_rx t \<and> nt_state t' = nt_state t"
  using assms
proof (induction "rb_len (nt_tx t)" arbitrary: a w r t rule: less_induct)
  case less
  show ?case
  proof (cases "rb_len (nt_tx t) > 0")
    case False
    then show ?thesis using less.prems by (subst (asm) DrainTx.simps) auto
  next
    case True
    obtain rs n a1 where snd: "ad_send ad a (ring_gather (nt_tx t)) = (rs, n, a1)" by (metis prod_cases3)
    define k where "k = (if n > rb_len (nt_tx t) then rb_len (nt_tx t) else n)"
    have len: "length (ring_gather (nt_tx t)) = rb_len (nt_tx t)"
      using less.prems(1) by (rule length_ring_gather)
    show ?thesis
    proof (cases "rs = NET_OK \<and> n \<noteq> 0")
      case False
      then show ?thesis
        using less.prems True snd by (subst (asm) DrainTx.simps) (auto simp: Let_def split: if_splits)
    next
      case go: True
      let ?w = "w @ take n (ring_gather (nt_tx t))"
      let ?t = "t\<lparr>nt_tx := (ring_wipe ^^ k) (nt_tx t), nt_tx_bytes := nt_tx_bytes t + of_nat k\<rparr>"
      have k: "k \<le> rb_len (nt_tx t)" "take k (ring_gather (nt_tx t)) = take n (ring_gather (nt_tx t))"
        using len by (auto simp: k_def)
      have run: "DrainTx (logged ad) (a, w, r) t = DrainTx (logged ad) (a1, ?w, r) ?t"
        using True snd go by (subst DrainTx.simps) (simp add: Let_def k_def)
      have wiped: "ring_ok (nt_tx ?t)" "ring_gather (nt_tx ?t) = drop k (ring_gather (nt_tx t))"
        using tx.drop_all[OF less.prems(1) k(1)] by simp_all
      have "rb_len (nt_tx ?t) < rb_len (nt_tx t)"
        using go True by (simp add: rb_len_wipe k_def)
      note ih = less.hyps[OF this wiped(1) less.prems(2)[unfolded run]]
      have "?w @ ring_gather (nt_tx ?t) = w @ ring_gather (nt_tx t)"
        unfolding wiped(2) k(2)[symmetric] by simp
      then show ?thesis using ih by simp
    qed
  qed
qed


lemma RunRx_stream:
  assumes "net_adapter ad" "ring_ok (nt_rx t)" "RunRx (logged ad) (a, w, r) t = (s, (a', w', r'), t')"
  shows "ring_ok (nt_rx t') \<and> (\<exists>data. ring_gather (nt_rx t') = ring_gather (nt_rx t) @ data \<and> r' = r @ data) \<and>
    w' = w \<and> nt_tx t' = nt_tx t \<and> nt_state t' = nt_state t"
proof -
  note law = net_adapter.logged_adapter[OF assms(1)]
  define want where "want = (if NETWORK_RX_BUF_CAP - rb_len (nt_rx t) > NETWORK_MAX_RX_FETCH
      then NETWORK_MAX_RX_FETCH else NETWORK_RX_BUF_CAP - rb_len (nt_rx t))"
  obtain rs data a1 where recv: "ad_recv ad a want = (rs, data, a1)" by (metis prod_cases3)
  show ?thesis
  proof (cases "rb_len (nt_rx t) = 256 \<or> rs \<noteq> NET_OK \<or> data = []")
    case True
    then have "nt_rx t' = nt_rx t \<and> r' = r \<and> w' = w"
      using assms(2,3) recv[unfolded want_def]
      by (auto simp: RunRx_def Let_def ring_caps ring_ok_def split: if_splits)
    then show ?thesis using net_adapter.RunRx_ring[OF law assms(2,3)] by simp
  next
    case False
    have room: "rb_len (nt_rx t) + length data \<le> 256"
      using net_adapter.recv_bounded[OF assms(1), of a want] recv assms(2) False
      by (auto simp: want_def ring_ok_def ring_caps split: if_splits)
    have "nt_rx t' = foldl ring_put (nt_rx t) data \<and> r' = r @ data \<and> w' = w"
      using False assms(2,3) recv[unfolded want_def]
      by (auto simp: RunRx_def Let_def ring_caps ring_ok_def split: if_splits)
    then show ?thesis
      using rx.put_all[OF assms(2) room] net_adapter.RunRx_ring[OF law assms(2,3)] by simp
  qed
qed

lemma send_loop_stream:
  assumes "ring_ok (nt_tx t)" "send_loop t data n = (t', n')"
  shows "ring_ok (nt_tx t') \<and> n' = n + min (length data) (256 - rb_len (nt_tx t)) \<and>
    ring_gather (nt_tx t') = ring_gather (nt_tx t) @ take (n' - n) data \<and>
    nt_rx t' = nt_rx t \<and> nt_state t' = nt_state t"
  using assms
proof (induction data arbitrary: t n)
  case (Cons b data)
  show ?case
  proof (cases "rb_len (nt_tx t) < 256")
    case False
    then show ?thesis using Cons.prems by (simp add: ring_caps)
  next
    case True
    let ?t = "t\<lparr>nt_tx := ring_put (nt_tx t) b, nt_tx_accepted := nt_tx_accepted t + 1\<rparr>"
    have put: "ring_ok (nt_tx ?t)" "ring_gather (nt_tx ?t) = ring_gather (nt_tx t) @ [b]"
        "rb_len (nt_tx ?t) = rb_len (nt_tx t) + 1"
      using Cons.prems(1) True by (simp_all add: ring_ok_put ring_gather_put) (simp add: ring_put_def)
    have "send_loop ?t data (n + 1) = (t', n')" using Cons.prems(2) True by (simp add: ring_caps)
    note ih = Cons.IH[OF put(1) this]
    have "n' = n + min (length (b # data)) (256 - rb_len (nt_tx t))"
      using ih put(3) True by (simp add: min_def) arith
    moreover have "take (n' - n) (b # data) = b # take (n' - (n + 1)) data"
      using ih by (cases "n' - n") auto
    then have "ring_gather (nt_tx t') = ring_gather (nt_tx t) @ take (n' - n) (b # data)"
      using ih put(2) by simp
    ultimately show ?thesis using ih by simp
  qed
qed simp

lemma receive_loop_stream:
  assumes "ring_ok r" "n \<le> rb_len r"
  shows "receive_loop n r = (take n (ring_gather r), (ring_take ^^ n) r)"
  using assms
proof (induction n arbitrary: r)
  case (Suc n)
  have r: "ring_ok (ring_take r)" "ring_gather (ring_take r) = tl (ring_gather r)"
      "ring_front r = hd (ring_gather r)" "n \<le> rb_len (ring_take r)"
    using Suc.prems by (simp_all add: ring_ok_take ring_gather_take ring_front_gather)
      (simp add: ring_take_def)
  moreover have "ring_gather r \<noteq> []"
    using length_ring_gather[OF Suc.prems(1)] Suc.prems(2) by auto
  ultimately show ?case
    using Suc.IH[OF r(1,4)] by (simp add: funpow_swap1 take_Suc)
qed simp


section \<open>Runs of operations\<close>

datatype net_op = OpRun u32 | OpSend bytes | OpReceive nat

text \<open>
  The state of a run: the logging adapter (with what crossed the wire in each direction), the
  transport, the bytes \<open>Send\<close> accepted and the bytes \<open>Receive\<close> returned, in order.
\<close>

record 'a net_run =
  nr_adapter :: "'a \<times> bytes \<times> bytes"
  nr_t :: NetworkTransport
  nr_accepted :: bytes
  nr_received :: bytes

definition net_exec :: "'a NetworkTransportAdapter \<Rightarrow> 'a net_run \<Rightarrow> net_op \<Rightarrow> 'a net_run" where
  "net_exec ad x act =
     (case act of
        OpRun now \<Rightarrow> (case NetworkTransport_Run (logged ad) now (nr_adapter x) (nr_t x) of
          (_, a, t) \<Rightarrow> x\<lparr>nr_adapter := a, nr_t := t\<rparr>)
      | OpSend data \<Rightarrow> (case NetworkTransport_Send (nr_t x) (Some data) of
          (_, n, t) \<Rightarrow> x\<lparr>nr_t := t, nr_accepted := nr_accepted x @ take n data\<rparr>)
      | OpReceive cap \<Rightarrow> (case NetworkTransport_Receive (nr_t x) (Some cap) of
          (_, bs, t) \<Rightarrow> x\<lparr>nr_t := t, nr_received := nr_received x @ bs\<rparr>))"

definition net_start :: "'a \<Rightarrow> NetworkTransport \<Rightarrow> 'a net_run" where
  "net_start a t = \<lparr>nr_adapter = (a, [], []), nr_t = t, nr_accepted = [], nr_received = []\<rparr>"

definition nr_wire :: "'a net_run \<Rightarrow> bytes" where "nr_wire x = fst (snd (nr_adapter x))"
definition nr_arrived :: "'a net_run \<Rightarrow> bytes" where "nr_arrived x = snd (snd (nr_adapter x))"

text \<open>The two rings are sound and the stream is intact, up to a cut when the connection broke.\<close>

definition stream_ok :: "'a net_run \<Rightarrow> bool" where
  "stream_ok x \<longleftrightarrow>
     ring_ok (nt_tx (nr_t x)) \<and> ring_ok (nt_rx (nr_t x)) \<and>
     nt_state (nr_t x) \<in> {NET_STATE_CONNECTED, NET_STATE_CLOSING, NET_STATE_ERROR} \<and>
     (if nt_state (nr_t x) = NET_STATE_ERROR
      then prefix (nr_wire x) (nr_accepted x) \<and> prefix (nr_received x) (nr_arrived x)
      else nr_accepted x = nr_wire x @ ring_gather (nt_tx (nr_t x)) \<and>
           nr_arrived x = nr_received x @ ring_gather (nt_rx (nr_t x)))"

lemma stream_ok_send:
  assumes "stream_ok x"
  shows "stream_ok (net_exec ad x (OpSend data))"
proof (cases "nt_state (nr_t x) = NET_STATE_CONNECTED \<and> data \<noteq> []")
  case False
  then show ?thesis
    using assms by (auto simp: net_exec_def NetworkTransport_Send_def stream_ok_def nr_wire_def nr_arrived_def)
next
  case True
  obtain t' n' where l: "send_loop (nr_t x) data 0 = (t', n')" by fastforce
  then show ?thesis
    using assms True send_loop_stream[OF _ l]
    by (simp add: net_exec_def NetworkTransport_Send_def stream_ok_def nr_wire_def nr_arrived_def)
qed

lemma stream_ok_receive:
  assumes "stream_ok x"
  shows "stream_ok (net_exec ad x (OpReceive cap))"
proof (cases "nt_state (nr_t x) = NET_STATE_ERROR")
  case True
  then show ?thesis
    using assms by (simp add: net_exec_def NetworkTransport_Receive_def stream_ok_def nr_wire_def nr_arrived_def)
next
  case False
  define n where "n = min (rb_len (nt_rx (nr_t x))) cap"
  have inv: "ring_ok (nt_rx (nr_t x))" "n \<le> rb_len (nt_rx (nr_t x))"
    using assms by (simp_all add: stream_ok_def n_def)
  have "net_exec ad x (OpReceive cap) = x\<lparr>nr_t := (nr_t x)\<lparr>nt_rx := (ring_take ^^ n) (nt_rx (nr_t x))\<rparr>,
      nr_received := nr_received x @ take n (ring_gather (nt_rx (nr_t x)))\<rparr>"
    using assms False receive_loop_stream[OF inv]
    by (auto simp: net_exec_def NetworkTransport_Receive_def stream_ok_def n_def min_def Let_def)
  then show ?thesis
    using assms False rx.drop_all[OF inv]
    by (simp add: stream_ok_def nr_wire_def nr_arrived_def)
qed


lemma EnterError_sel [simp]:
  "nt_state (EnterError t) = NET_STATE_ERROR" "nt_tx (EnterError t) = ring_reset (nt_tx t)"
  "nt_rx (EnterError t) = ring_reset (nt_rx t)"
  by (simp_all add: EnterError_def)

lemma stream_ok_run:
  assumes "net_adapter ad" "stream_ok x"
  shows "stream_ok (net_exec ad x (OpRun now))"
proof (cases "nt_state (nr_t x) = NET_STATE_CONNECTED")
  case False
  then show ?thesis
    using assms(2) by (auto simp: net_exec_def NetworkTransport_Run_def stream_ok_def nr_wire_def nr_arrived_def)
next
  case True
  obtain a w r where x: "nr_adapter x = (a, w, r)" by (metis prod_cases3)
  obtain s a1 w1 r1 t1 where d: "DrainTx (logged ad) (a, w, r) (nr_t x) = (s, (a1, w1, r1), t1)"
    by (metis prod_cases3)
  obtain rs a2 w2 r2 t2 where rx: "RunRx (logged ad) (a1, w1, r1) t1 = (rs, (a2, w2, r2), t2)"
    by (metis prod_cases3)
  have ok: "ring_ok (nt_tx (nr_t x))" "ring_ok (nt_rx (nr_t x))"
    using assms(2) by (simp_all add: stream_ok_def)
  note drain = DrainTx_stream[OF ok(1) d]
  have "ring_ok (nt_rx t1)" using drain ok(2) by simp
  note recv = RunRx_stream[OF assms(1) this rx]
  have "prefix w1 (w @ ring_gather (nt_tx (nr_t x)))" using drain by (metis prefixI)
  then show ?thesis
    using assms(2) True x drain recv d rx
    by (auto simp: net_exec_def NetworkTransport_Run_def stream_ok_def nr_wire_def nr_arrived_def)
qed

lemma stream_ok_runs:
  assumes "net_adapter ad" "stream_ok x"
  shows "stream_ok (foldl (net_exec ad) x acts)"
  using assms(2)
proof (induction acts arbitrary: x)
  case (Cons act acts)
  have "stream_ok (net_exec ad x act)"
    using assms(1) Cons.prems by (cases act) (auto intro: stream_ok_run stream_ok_send stream_ok_receive)
  then show ?case using Cons.IH by simp
qed simp

text \<open>
  Claim C15. The transport is a faithful byte stream. From a fresh connection, after any
  sequence of \<open>NetworkTransport_Run\<close>, \<open>Send\<close> and \<open>Receive\<close> calls over an adapter that
  respects the size of its receive buffer: what the adapter took from the caller is a prefix
  of what \<open>Send\<close> accepted, what \<open>Receive\<close> returned is a prefix of what the adapter
  delivered, and until a terminal error the rest of either stream is exactly the content of a
  ring, at most 256 bytes, also after the peer has closed.
\<close>

theorem net_stream_integrity:
  assumes "net_adapter ad" "nt_state t = NET_STATE_CONNECTED"
    and "nt_tx t = ring_zero" "nt_rx t = ring_zero"
    and "x = foldl (net_exec ad) (net_start a t) acts"
  shows "prefix (nr_wire x) (nr_accepted x) \<and> prefix (nr_received x) (nr_arrived x) \<and>
    rb_len (nt_tx (nr_t x)) \<le> 256 \<and> rb_len (nt_rx (nr_t x)) \<le> 256 \<and>
    (nt_state (nr_t x) \<noteq> NET_STATE_ERROR \<longrightarrow>
       nr_accepted x = nr_wire x @ ring_gather (nt_tx (nr_t x)) \<and>
       nr_arrived x = nr_received x @ ring_gather (nt_rx (nr_t x)))"
proof -
  have "stream_ok (net_start a t)"
    using assms by (simp add: stream_ok_def net_start_def nr_wire_def nr_arrived_def)
  then have "stream_ok x" using stream_ok_runs assms(1,5) by blast
  then show ?thesis by (auto simp: stream_ok_def ring_ok_def split: if_splits)
qed

definition fake_transport :: "NetworkState \<Rightarrow> NetworkTransport" where
  "fake_transport s =
     (the (snd (NetworkTransport_Init (Some \<lparr>ep_host = 0x62 # replicate 64 0, ep_port = 1883\<rparr>))))
       \<lparr>nt_state := s\<rparr>"

lemma fake_transport_sel [simp]:
  "nt_state (fake_transport s) = s" "nt_tx (fake_transport s) = ring_zero"
  "nt_rx (fake_transport s) = ring_zero"
  by (simp_all add: fake_transport_def NetworkTransport_Init_def EndpointValid_def NETWORK_ENDPOINT_HOST_MAX_def)

lemma net_stream_integrity_witness:
  "\<exists>x. x = foldl (net_exec fake_adapter) (net_start (FakeNetworkAdapter_Reset 0) (fake_transport NET_STATE_CONNECTED))
            [OpSend [1, 2, 3], OpRun 0, OpSend [4], OpReceive 10] \<and>
     prefix (nr_wire x) (nr_accepted x) \<and> prefix (nr_received x) (nr_arrived x)"
  using net_stream_integrity[OF fake.net_adapter_axioms fake_transport_sel(1,2,3) refl] by blast

end
