(* ===== verification/Net_Props.thy ===== *)
theory Net_Props
  imports Net_Stream
begin

text \<open>
  The bounded connect of the transport and what it makes of a receive error.
\<close>

text \<open>
  A connection attempt is bounded by ten seconds: while the adapter keeps reporting
  progress, \<open>NetworkTransport_Run\<close> answers \<open>NET_IN_PROGRESS\<close> and changes nothing until
  10000 ms after the \<open>Connect\<close> call, and \<open>NET_TIMEOUT\<close> with the state ERROR from then on, also
  when the tick counter wraps in between, for every poll less than 2^31 + 10000 ms after the call.
\<close>

theorem net_connect_deadline:
  assumes "nt_state t = NET_STATE_DISCONNECTED" "fst (ad_open ad a (nt_endpoint t)) = NET_OK"
    and "fst (ad_poll ad a2) = NET_IN_PROGRESS"
    and "t0 \<le> \<tau>" "\<tau> - t0 < 2 ^ 31 + 10000"
    and "NetworkTransport_Connect ad (of_nat t0) a t = (s1, a1, t1)"
    and "NetworkTransport_Run ad (of_nat \<tau>) a2 t1 = (s2, a3, t2)"
  shows "s1 = NET_IN_PROGRESS \<and>
    (if \<tau> - t0 < 10000 then s2 = NET_IN_PROGRESS \<and> t2 = t1 \<and> nt_state t2 = NET_STATE_CONNECTING
     else s2 = NET_TIMEOUT \<and> nt_state t2 = NET_STATE_ERROR \<and>
       nt_connect_failures t2 = nt_connect_failures t + 1)"
proof -
  have t1: "s1 = NET_IN_PROGRESS" "nt_state t1 = NET_STATE_CONNECTING" "nt_connect_timeout_set t1"
      "nt_connect_deadline_ms t1 = of_nat (t0 + 10000)" "nt_connect_failures t1 = nt_connect_failures t"
    using assms(1,2,6) by (auto simp: NetworkTransport_Connect_def split: prod.splits)
  have el: "DeadlineElapsed (of_nat \<tau>) (of_nat (t0 + 10000)) 0 \<longleftrightarrow> \<not> \<tau> - t0 < 10000"
  proof (cases "\<tau> - t0 < 10000")
    case True
    then have "\<not> DeadlineElapsed (of_nat \<tau>) (of_nat (t0 + 10000)) 0"
      using assms(4) by (intro net_timer.not_elapsed_before, linarith, simp)
    then show ?thesis using True by blast
  next
    case False
    then show ?thesis
      using net_timer.elapsed_iff_true_time[of "t0 + 10000" \<tau> 0] assms(4,5) by simp
  qed
  show ?thesis
    using assms(3,7) t1 el
    by (auto simp: NetworkTransport_Run_def RunConnect_def split: prod.splits if_splits)
qed

definition fake_connecting :: FakeNetworkAdapter where
  "fake_connecting =
     FakeNetworkAdapter_Reset 0\<lparr>fk_connect_mode := FAKE_NET_CONNECT_TIMEOUT, fk_connect_initiated := True\<rparr>"

lemma net_connect_deadline_witness:
  "\<exists>s1 a1 t1 s2 a3 t2.
     NetworkTransport_Connect fake_adapter (of_nat 4294967290) fake_connecting
       (fake_transport NET_STATE_DISCONNECTED) = (s1, a1, t1) \<and>
     NetworkTransport_Run fake_adapter (of_nat 4294977290) fake_connecting t1 = (s2, a3, t2) \<and>
     s2 = NET_TIMEOUT"
proof -
  obtain s1 a1 t1 where c: "NetworkTransport_Connect fake_adapter (of_nat 4294967290) fake_connecting
      (fake_transport NET_STATE_DISCONNECTED) = (s1, a1, t1)" by (metis prod_cases3)
  obtain s2 a3 t2 where r: "NetworkTransport_Run fake_adapter (of_nat 4294977290) fake_connecting t1 = (s2, a3, t2)"
    by (metis prod_cases3)
  have "s2 = NET_TIMEOUT"
    using net_connect_deadline[OF _ _ _ _ _ c r] by (simp add: fake_ops fake_connecting_def)
  then show ?thesis using c r by blast
qed

text \<open>Runs at the given ticks, with the statuses they return.\<close>

fun net_runs ::
  "'a NetworkTransportAdapter \<Rightarrow> u32 list \<Rightarrow> 'a \<Rightarrow> NetworkTransport \<Rightarrow>
   NetworkStatus list \<times> 'a \<times> NetworkTransport" where
  "net_runs ad [] a t = ([], a, t)"
| "net_runs ad (now # ticks) a t =
     (case NetworkTransport_Run ad now a t of (s, a, t) \<Rightarrow>
      case net_runs ad ticks a t of (ss, a, t) \<Rightarrow> (s # ss, a, t))"

text \<open>
  A receive error that carries no bytes is not seen: when every \<open>recv\<close> of the adapter
  reports \<open>NET_TRANSPORT_ERROR\<close> with \<open>*got = 0\<close> (the host fake does), any number of
  \<open>NetworkTransport_Run\<close> calls on an idle connection returns \<open>NET_OK\<close> and leaves the
  transport CONNECTED, with no error counted.
\<close>

theorem net_recv_error_unseen:
  assumes "nt_state t = NET_STATE_CONNECTED" "rb_len (nt_tx t) = 0" "rb_len (nt_rx t) < 256"
    and "\<And>a n. fst (ad_recv ad a n) = NET_TRANSPORT_ERROR \<and> fst (snd (ad_recv ad a n)) = []"
    and "net_runs ad ticks a t = (ss, a', t')"
  shows "ss = replicate (length ticks) NET_OK \<and> t' = t"
proof -
  have one: "\<exists>a'. NetworkTransport_Run ad now a t = (NET_OK, a', t)" for now a
  proof -
    let ?want = "if 256 - rb_len (nt_rx t) > 64 then 64 else 256 - rb_len (nt_rx t)"
    obtain a' where recv: "ad_recv ad a ?want = (NET_TRANSPORT_ERROR, [], a')"
      using assms(4)[of a ?want] by (metis prod.collapse)
    have "RunRx ad a t = (NET_WOULD_BLOCK, a', t)"
      unfolding RunRx_def ring_caps Let_def using recv assms(3) by (simp del: if_split)
    moreover have "DrainTx ad a t = (NET_OK, a, t)"
      using assms(2) by (subst DrainTx.simps) simp
    ultimately show ?thesis using assms(1) by (simp add: NetworkTransport_Run_def)
  qed
  show ?thesis using assms(5)
  proof (induction ticks arbitrary: a ss)
    case (Cons now ticks)
    obtain a1 where "NetworkTransport_Run ad now a t = (NET_OK, a1, t)" using one by blast
    then show ?case using Cons.prems Cons.IH[of a1] by (auto split: prod.splits)
  qed simp
qed

definition mute_adapter :: "FakeNetworkAdapter NetworkTransportAdapter" where
  "mute_adapter = fake_adapter\<lparr>ad_recv := \<lambda>f n. net_recv (f\<lparr>fk_recv_error_pending := True\<rparr>) n\<rparr>"

lemma net_recv_error_unseen_witness:
  "\<exists>a' t'. net_runs mute_adapter [1, 2, 3] (FakeNetworkAdapter_Reset 0)
     (fake_transport NET_STATE_CONNECTED) = ([NET_OK, NET_OK, NET_OK], a', t') \<and>
     t' = fake_transport NET_STATE_CONNECTED"
proof -
  obtain ss a' t' where r: "net_runs mute_adapter [1, 2, 3] (FakeNetworkAdapter_Reset 0)
     (fake_transport NET_STATE_CONNECTED) = (ss, a', t')" by (metis prod_cases3)
  show ?thesis
    using net_recv_error_unseen[OF _ _ _ _ r] r by (simp add: mute_adapter_def net_recv_def numeral_3_eq_3)
qed

end
