(* ===== verification/Mqtt_Codec.thy ===== *)
theory Mqtt_Codec
  imports Mqtt_Utf8 "HOL-Library.Monad_Syntax"
begin

text \<open>
  \<open>Mqtt/Src/mqtt_codec.c\<close>: the encoders and decoders of the MQTT packets. An encoder gets
  the caller's buffer and its capacity, makes every write of the source with \<open>poke\<close>, and
  returns the number of bytes with the buffer; \<open>None\<close> is a write outside the buffer. A
  decoder reads a list that holds exactly the bytes its length argument announces.
\<close>

definition MQTT_MAX_PAYLOAD_SIZE :: nat where "MQTT_MAX_PAYLOAD_SIZE = 2048"
definition MQTT_MAX_CLIENT_ID_LENGTH :: nat where "MQTT_MAX_CLIENT_ID_LENGTH = 64"
definition MQTT_MAX_PACKET_SIZE :: u32 where "MQTT_MAX_PACKET_SIZE = 2304"
definition MQTT_FIXED_HEADER_MAX :: nat where "MQTT_FIXED_HEADER_MAX = 5"
definition MQTT_PKT_CONNECT :: u8 where "MQTT_PKT_CONNECT = 1"
definition MQTT_PKT_CONNACK :: u8 where "MQTT_PKT_CONNACK = 2"
definition MQTT_PKT_PUBLISH :: u8 where "MQTT_PKT_PUBLISH = 3"
definition MQTT_PKT_PUBACK :: u8 where "MQTT_PKT_PUBACK = 4"
definition MQTT_PKT_SUBSCRIBE :: u8 where "MQTT_PKT_SUBSCRIBE = 8"
definition MQTT_PKT_SUBACK :: u8 where "MQTT_PKT_SUBACK = 9"
definition MQTT_PKT_PINGREQ :: u8 where "MQTT_PKT_PINGREQ = 12"
definition MQTT_PKT_PINGRESP :: u8 where "MQTT_PKT_PINGRESP = 13"
definition MQTT_PKT_DISCONNECT :: u8 where "MQTT_PKT_DISCONNECT = 14"
definition MQTT_PROTOCOL_LEVEL :: u8 where "MQTT_PROTOCOL_LEVEL = 4"
definition MQTT_RL_MAX_BYTES :: nat where "MQTT_RL_MAX_BYTES = 4"

lemmas mqtt_constants =
  MQTT_MAX_TOPIC_LENGTH_def MQTT_MAX_PAYLOAD_SIZE_def MQTT_MAX_CLIENT_ID_LENGTH_def
  MQTT_MAX_PACKET_SIZE_def MQTT_FIXED_HEADER_MAX_def MQTT_PROTOCOL_LEVEL_def MQTT_RL_MAX_BYTES_def

lemmas mqtt_packet_types =
  MQTT_PKT_CONNECT_def MQTT_PKT_CONNACK_def MQTT_PKT_PUBLISH_def MQTT_PKT_PUBACK_def
  MQTT_PKT_SUBSCRIBE_def MQTT_PKT_SUBACK_def MQTT_PKT_PINGREQ_def MQTT_PKT_PINGRESP_def
  MQTT_PKT_DISCONNECT_def

datatype MqttCodecStatus =
    MQTT_CODEC_OK | MQTT_CODEC_WOULD_BLOCK | MQTT_CODEC_INVALID_ARG
  | MQTT_CODEC_PACKET_TOO_LARGE | MQTT_CODEC_MALFORMED

record MqttFixedHeader =
  fh_packet_type :: u32
  fh_flags :: u32
  fh_remaining_length :: u32
  fh_fixed_header_len :: u32

record MqttConnack =
  ca_session_present :: bool
  ca_return_code :: u8

record MqttInboundPublish =
  ip_topic :: bytes
  ip_qos :: u8
  ip_retain :: bool
  ip_dup :: bool
  ip_packet_id :: u16
  ip_payload :: bytes

record MqttSuback =
  sa_packet_id :: u16
  sa_return_code :: u8
  sa_granted :: bool

section \<open>Remaining Length\<close>

text \<open>\<open>k\<close> iterations of the loop are left; \<open>buf\<close> is the part not yet consumed.\<close>

fun read_varint_loop ::
  "nat \<Rightarrow> bytes \<Rightarrow> nat \<Rightarrow> u32 \<Rightarrow> u32 \<Rightarrow> MqttCodecStatus \<times> nat \<times> u32 option" where
  "read_varint_loop 0 buf consumed multiplier rl = (MQTT_CODEC_MALFORMED, consumed, None)"
| "read_varint_loop (Suc k) [] consumed multiplier rl = (MQTT_CODEC_WOULD_BLOCK, consumed, None)"
| "read_varint_loop (Suc k) (b # buf) consumed multiplier rl =
     (let rl' = rl + ucast (b AND 0x7F) * multiplier in
      if b AND 0x80 = 0 then (MQTT_CODEC_OK, consumed + 1, Some rl')
      else if k = 0 then (MQTT_CODEC_MALFORMED, consumed + 1, None)
      else read_varint_loop k buf (consumed + 1) (multiplier * 128) rl')"

definition MqttCodec_ReadVarInt :: "bytes \<Rightarrow> MqttCodecStatus \<times> nat \<times> u32 option" where
  "MqttCodec_ReadVarInt buf = read_varint_loop MQTT_RL_MAX_BYTES buf 0 1 0"

function write_varint_loop :: "bytes \<Rightarrow> nat \<Rightarrow> u32 \<Rightarrow> nat \<Rightarrow> (nat \<times> bytes) option" where
  "write_varint_loop buf cap v n =
     (if n \<ge> cap then Some (0, buf)
      else let b = ucast (v mod 128) :: u8;
               v' = v div 128;
               b = (if v' > 0 then b OR 0x80 else b)
      in case poke buf n [b] of None \<Rightarrow> None
         | Some buf' \<Rightarrow> if v' > 0 then write_varint_loop buf' cap v' (n + 1) else Some (n + 1, buf'))"
  by pat_completeness auto
termination
  by (relation "measure (\<lambda>(_, _, v, _). unat v)") (auto simp: unat_div_distrib word_less_nat_alt)

declare write_varint_loop.simps [simp del]

definition MqttCodec_WriteVarInt :: "bytes \<Rightarrow> nat \<Rightarrow> u32 \<Rightarrow> (nat \<times> bytes) option" where
  "MqttCodec_WriteVarInt buf cap v =
     (if v > 268435455 \<or> cap = 0 then Some (0, buf) else write_varint_loop buf cap v 0)"

definition MqttCodec_DecodeFixedHeader :: "bytes \<Rightarrow> MqttCodecStatus \<times> MqttFixedHeader option" where
  "MqttCodec_DecodeFixedHeader buf =
     (if length buf = 0 then (MQTT_CODEC_WOULD_BLOCK, None)
      else let b0 = buf ! 0; typ = ucast (drop_bit 4 b0) :: u32; flags = ucast (b0 AND 0x0F) :: u32 in
      if typ < 1 \<or> typ > 14 then (MQTT_CODEC_MALFORMED, None)
      else case MqttCodec_ReadVarInt (drop 1 buf) of (rs, rl_consumed, rl_opt) \<Rightarrow>
        if rs = MQTT_CODEC_WOULD_BLOCK then (MQTT_CODEC_WOULD_BLOCK, None)
        else if rs \<noteq> MQTT_CODEC_OK then (rs, None)
        else let rl = the rl_opt in
        if rl > MQTT_MAX_PACKET_SIZE then (MQTT_CODEC_PACKET_TOO_LARGE, None)
        else (MQTT_CODEC_OK,
              Some \<lparr>fh_packet_type = typ, fh_flags = flags, fh_remaining_length = rl,
                    fh_fixed_header_len = 1 + of_nat rl_consumed\<rparr>))"

section \<open>Encoders\<close>

definition write_fixed :: "bytes \<Rightarrow> nat \<Rightarrow> u8 \<Rightarrow> u32 \<Rightarrow> (nat \<times> bytes) option" where
  "write_fixed buf cap type_flags rl =
     (if cap = 0 then Some (0, buf)
      else do {
        (nv, tmp) \<leftarrow> MqttCodec_WriteVarInt (replicate MQTT_RL_MAX_BYTES 0) MQTT_RL_MAX_BYTES rl;
        if nv = 0 \<or> 1 + nv > cap then Some (0, buf)
        else do {
          buf \<leftarrow> poke buf 0 [type_flags];
          buf \<leftarrow> poke buf 1 (take nv tmp);
          Some (1 + nv, buf)
        }
      })"

definition be16_bytes :: "u16 \<Rightarrow> bytes" where
  "be16_bytes v = [ucast (drop_bit 8 v), ucast (v AND 0xFF)]"

definition be16_put :: "bytes \<Rightarrow> nat \<Rightarrow> u16 \<Rightarrow> bytes option" where
  "be16_put buf off v = poke buf off (be16_bytes v)"

definition MqttCodec_EncodeConnect ::
  "bytes \<Rightarrow> nat \<Rightarrow> bytes option \<Rightarrow> u16 \<Rightarrow> (nat \<times> bytes) option" where
  "MqttCodec_EncodeConnect buf cap client_id keepalive_s =
     (case client_id of None \<Rightarrow> Some (0, buf)
      | Some cid \<Rightarrow>
        if length cid = 0 \<or> length cid > MQTT_MAX_CLIENT_ID_LENGTH then Some (0, buf)
        else if \<not> MqttUtf8_Valid (Some cid) then Some (0, buf)
        else let rl = 10 + 2 + of_nat (length cid) in do {
          (off, buf) \<leftarrow> write_fixed buf cap (push_bit 4 MQTT_PKT_CONNECT) rl;
          if off = 0 then Some (0, buf)
          else if off + 10 + 2 + length cid > cap then Some (0, buf)
          else do {
            buf \<leftarrow> poke buf off [0x00, 0x04, 0x4D, 0x51, 0x54, 0x54, MQTT_PROTOCOL_LEVEL, 0x02];
            buf \<leftarrow> be16_put buf (off + 8) keepalive_s;
            buf \<leftarrow> be16_put buf (off + 10) (of_nat (length cid));
            buf \<leftarrow> poke buf (off + 12) cid;
            Some (off + 12 + length cid, buf)
          }
        })"

definition MqttCodec_EncodePublish ::
  "bytes \<Rightarrow> nat \<Rightarrow> bytes option \<Rightarrow> bytes \<Rightarrow> u8 \<Rightarrow> bool \<Rightarrow> u16 \<Rightarrow> (nat \<times> bytes) option" where
  "MqttCodec_EncodePublish buf cap topic payload qos retain packet_id =
     (case topic of None \<Rightarrow> Some (0, buf)
      | Some t \<Rightarrow>
        if length t = 0 \<or> length t > MQTT_MAX_TOPIC_LENGTH \<or> qos > 1 \<or>
           length payload > MQTT_MAX_PAYLOAD_SIZE then Some (0, buf)
        else if \<not> MqttUtf8_IsValidTopicName topic then Some (0, buf)
        else let
          extra = (if qos > 0 then 2 else 0 :: u32);
          rl = 2 + of_nat (length t) + extra + of_nat (length payload);
          flags = push_bit 1 qos OR (if retain then 1 else 0)
        in do {
          (off, buf) \<leftarrow> write_fixed buf cap (push_bit 4 MQTT_PKT_PUBLISH OR flags) rl;
          if off = 0 then Some (0, buf)
          else if off + unat rl > cap then Some (0, buf)
          else do {
            buf \<leftarrow> be16_put buf off (of_nat (length t));
            buf \<leftarrow> poke buf (off + 2) t;
            let off = off + 2 + length t;
            buf \<leftarrow> (if qos > 0 then be16_put buf off packet_id else Some buf);
            let off = (if qos > 0 then off + 2 else off);
            buf \<leftarrow> (if length payload > 0 then poke buf off payload else Some buf);
            Some (off + length payload, buf)
          }
        })"

definition MqttCodec_EncodeSubscribe ::
  "bytes \<Rightarrow> nat \<Rightarrow> bytes option \<Rightarrow> u8 \<Rightarrow> u16 \<Rightarrow> (nat \<times> bytes) option" where
  "MqttCodec_EncodeSubscribe buf cap topic requested_qos packet_id =
     (case topic of None \<Rightarrow> Some (0, buf)
      | Some t \<Rightarrow>
        if length t = 0 \<or> length t > MQTT_MAX_TOPIC_LENGTH \<or> requested_qos > 1 \<or> packet_id = 0
        then Some (0, buf)
        else if \<not> MqttUtf8_IsValidTopicFilter topic then Some (0, buf)
        else let rl = 2 + of_nat (length t) + 1 :: u32 in do {
          (off, buf) \<leftarrow> write_fixed buf cap (push_bit 4 MQTT_PKT_SUBSCRIBE OR 0x02) rl;
          if off = 0 then Some (0, buf)
          else if off + unat rl > cap then Some (0, buf)
          else do {
            buf \<leftarrow> be16_put buf off packet_id;
            buf \<leftarrow> be16_put buf (off + 2) (of_nat (length t));
            buf \<leftarrow> poke buf (off + 4) t;
            buf \<leftarrow> poke buf (off + 4 + length t) [requested_qos AND 0x01];
            Some (off + 4 + length t + 1, buf)
          }
        })"

definition MqttCodec_EncodePingreq :: "bytes \<Rightarrow> nat \<Rightarrow> (nat \<times> bytes) option" where
  "MqttCodec_EncodePingreq buf cap =
     (if cap < 2 then Some (0, buf)
      else do { buf \<leftarrow> poke buf 0 [push_bit 4 MQTT_PKT_PINGREQ, 0x00]; Some (2, buf) })"

definition MqttCodec_EncodeDisconnect :: "bytes \<Rightarrow> nat \<Rightarrow> (nat \<times> bytes) option" where
  "MqttCodec_EncodeDisconnect buf cap =
     (if cap < 2 then Some (0, buf)
      else do { buf \<leftarrow> poke buf 0 [push_bit 4 MQTT_PKT_DISCONNECT, 0x00]; Some (2, buf) })"

definition MqttCodec_EncodePuback :: "bytes \<Rightarrow> nat \<Rightarrow> u16 \<Rightarrow> (nat \<times> bytes) option" where
  "MqttCodec_EncodePuback buf cap packet_id =
     (if cap < 4 \<or> packet_id = 0 then Some (0, buf)
      else do {
        buf \<leftarrow> poke buf 0 [push_bit 4 MQTT_PKT_PUBACK, 0x02, ucast (drop_bit 8 packet_id),
                            ucast (packet_id AND 0xFF)];
        Some (4, buf)
      })"

section \<open>Decoders\<close>

definition MqttCodec_DecodeConnack :: "bytes \<Rightarrow> MqttCodecStatus \<times> MqttConnack option" where
  "MqttCodec_DecodeConnack body =
     (if length body \<noteq> 2 then (MQTT_CODEC_MALFORMED, None)
      else if body ! 0 AND 0xFE \<noteq> 0 then (MQTT_CODEC_MALFORMED, None)
      else (MQTT_CODEC_OK,
            Some \<lparr>ca_session_present = (body ! 0 AND 0x01 \<noteq> 0), ca_return_code = body ! 1\<rparr>))"

definition be16_read :: "bytes \<Rightarrow> nat \<Rightarrow> u16" where
  "be16_read p off = push_bit 8 (ucast (p ! off)) OR ucast (p ! (off + 1))"

text \<open>The topic and the payload the source borrows from the body are sublists of it.\<close>

definition MqttCodec_DecodePublish ::
  "u8 \<Rightarrow> bool \<Rightarrow> bool \<Rightarrow> bytes \<Rightarrow> MqttCodecStatus \<times> MqttInboundPublish option" where
  "MqttCodec_DecodePublish qos retain dup body =
     (if length body < 2 then (MQTT_CODEC_MALFORMED, None)
      else let topic_len = unat (be16_read body 0) in
      if topic_len = 0 \<or> topic_len > MQTT_MAX_TOPIC_LENGTH then (MQTT_CODEC_MALFORMED, None)
      else if length body < topic_len + 2 then (MQTT_CODEC_MALFORMED, None)
      else let topic = window body 2 topic_len; pos = 2 + topic_len in
      if \<not> MqttUtf8_IsValidTopicName (Some topic) then (MQTT_CODEC_MALFORMED, None)
      else if qos > 0 \<and> length body < pos + 2 then (MQTT_CODEC_MALFORMED, None)
      else let packet_id = (if qos > 0 then be16_read body pos else 0) in
      if qos > 0 \<and> packet_id = 0 then (MQTT_CODEC_MALFORMED, None)
      else let
        pos = (if qos > 0 then pos + 2 else pos);
        payload = drop pos body
      in
      if length payload > MQTT_MAX_PAYLOAD_SIZE then (MQTT_CODEC_MALFORMED, None)
      else (MQTT_CODEC_OK,
            Some \<lparr>ip_topic = topic, ip_qos = qos, ip_retain = retain, ip_dup = dup,
                  ip_packet_id = packet_id, ip_payload = payload\<rparr>))"

definition MqttCodec_DecodePuback :: "bytes \<Rightarrow> MqttCodecStatus \<times> u16 option" where
  "MqttCodec_DecodePuback body =
     (if length body \<noteq> 2 then (MQTT_CODEC_MALFORMED, None)
      else if be16_read body 0 = 0 then (MQTT_CODEC_MALFORMED, None)
      else (MQTT_CODEC_OK, Some (be16_read body 0)))"

definition MqttCodec_DecodeSuback :: "bytes \<Rightarrow> MqttCodecStatus \<times> MqttSuback option" where
  "MqttCodec_DecodeSuback body =
     (if length body < 3 then (MQTT_CODEC_MALFORMED, None)
      else if be16_read body 0 = 0 then (MQTT_CODEC_MALFORMED, None)
      else (MQTT_CODEC_OK,
            Some \<lparr>sa_packet_id = be16_read body 0, sa_return_code = body ! 2,
                  sa_granted = (body ! 2 = 0x00 \<or> body ! 2 = 0x01)\<rparr>))"

end
