(* ===== verification/Mqtt_Client.thy ===== *)
theory Mqtt_Client
  imports Mqtt_Codec Net_Transport
begin

text \<open>
  \<open>Mqtt/Src/mqtt_client.c\<close>: the MQTT client over the transport. The state of a call is the
  record \<open>mqtt\<close>: the client, the transport it drives, the adapter, the state of the publish
  callback (\<open>publish_ctx\<close>) and the tick, which is read as one value during a call. The
  callback gets the client to read from and does not call it back, as the one of the
  application. Every write into \<open>rx_buf\<close> or \<open>tx_buf\<close> is a \<open>poke\<close>; \<open>None\<close> is a write outside
  the buffer. Lengths and offsets of the buffers are natural numbers.
\<close>

datatype MqttClientState =
    MQTT_STATE_DISCONNECTED | MQTT_STATE_CONNECTING_TRANSPORT | MQTT_STATE_WAIT_CONNACK
  | MQTT_STATE_CONNECTED | MQTT_STATE_DISCONNECTING | MQTT_STATE_ERROR

datatype MqttStatus =
    MQTT_OK | MQTT_WOULD_BLOCK | MQTT_IN_PROGRESS | MQTT_INVALID_ARG | MQTT_NOT_CONNECTED
  | MQTT_BUSY | MQTT_PROTOCOL_ERROR | MQTT_PACKET_TOO_LARGE | MQTT_TRANSPORT_ERROR
  | MQTT_TIMEOUT | MQTT_BROKER_REFUSED

datatype TxKind =
    TX_NONE | TX_CONNECT | TX_PINGREQ | TX_DISCONNECT | TX_PUBLISH_QOS0 | TX_PUBLISH_QOS1
  | TX_SUBSCRIBE | TX_PUBACK

definition MAX_PACKETS_PER_RUN :: nat where "MAX_PACKETS_PER_RUN = 4"
definition MQTT_CONNACK_TIMEOUT_MS :: u32 where "MQTT_CONNACK_TIMEOUT_MS = 10000"
definition MQTT_PINGRESP_TIMEOUT_MS :: u32 where "MQTT_PINGRESP_TIMEOUT_MS = 20000"

record MqttConnectConfig =
  cc_client_id :: "bytes option"
  cc_keepalive_s :: u16

record MqttStats =
  st_connect_attempts :: u32
  st_connect_successes :: u32
  st_connect_failures :: u32
  st_tx_packets :: u32
  st_rx_packets :: u32
  st_tx_bytes_protocol :: u32
  st_rx_bytes_protocol :: u32
  st_protocol_errors :: u32
  st_oversized_packets :: u32
  st_publish_qos0 :: u32
  st_publish_qos1 :: u32
  st_puback_rx :: u32
  st_puback_tx :: u32
  st_subscribe_requests :: u32
  st_suback_rx :: u32
  st_pingreq_tx :: u32
  st_pingresp_rx :: u32
  st_transport_errors :: u32
  st_timeouts :: u32

record MqttClient =
  mc_client_id :: bytes
  mc_keepalive_s :: u16
  mc_state :: MqttClientState
  mc_tx_buf :: bytes
  mc_tx_total :: nat
  mc_tx_off :: nat
  mc_tx_kind :: TxKind
  mc_tx_pending :: bool
  mc_rx_buf :: bytes
  mc_rx_len :: nat
  mc_rx_total :: nat
  mc_rx_fixed_len :: nat
  mc_rx_type :: u32
  mc_rx_flags :: u32
  mc_inflight_active :: bool
  mc_inflight_packet_id :: u16
  mc_sub_pending :: bool
  mc_sub_packet_id :: u16
  mc_ack_pending :: bool
  mc_ack_pending_id :: u16
  mc_last_activity_ms :: u32
  mc_ping_outstanding :: bool
  mc_ping_sent_ms :: u32
  mc_connack_deadline_set :: bool
  mc_connack_deadline_ms :: u32
  mc_next_packet_id :: u16
  mc_next_sub_id :: u16
  mc_stats :: MqttStats

type_synonym 'x publish_cb = "(MqttClient \<Rightarrow> 'x \<Rightarrow> MqttInboundPublish \<Rightarrow> bool \<times> 'x) option"

record ('a, 'x) mqtt =
  mq_c :: MqttClient
  mq_t :: NetworkTransport
  mq_a :: 'a
  mq_x :: 'x
  mq_now :: u32

text \<open>An update of the client, and of its counters, inside the state of a call.\<close>

definition upd_c :: "(MqttClient \<Rightarrow> MqttClient) \<Rightarrow> ('a, 'x) mqtt \<Rightarrow> ('a, 'x) mqtt" where
  "upd_c f w = w\<lparr>mq_c := f (mq_c w)\<rparr>"

definition upd_stats :: "(MqttStats \<Rightarrow> MqttStats) \<Rightarrow> MqttClient \<Rightarrow> MqttClient" where
  "upd_stats f c = c\<lparr>mc_stats := f (mc_stats c)\<rparr>"

definition Elapsed :: "u32 \<Rightarrow> u32 \<Rightarrow> u32 \<Rightarrow> bool" where
  "Elapsed now ref rel_ms = (let delta = now - ref in delta < 0x80000000 \<and> delta \<ge> rel_ms)"

interpretation mqtt_timer: wrap_timer Elapsed
  by unfold_locales (simp add: Elapsed_def Let_def word_less_nat_alt word_le_nat_alt)

definition ResetConnectionEpoch :: "MqttClient \<Rightarrow> MqttClient" where
  "ResetConnectionEpoch c =
     c\<lparr>mc_tx_pending := False, mc_tx_kind := TX_NONE, mc_tx_total := 0, mc_tx_off := 0,
       mc_rx_len := 0, mc_rx_total := 0, mc_rx_fixed_len := 0, mc_rx_type := 0, mc_rx_flags := 0,
       mc_inflight_active := False, mc_inflight_packet_id := 0, mc_sub_pending := False,
       mc_sub_packet_id := 0, mc_ack_pending := False, mc_ack_pending_id := 0,
       mc_ping_outstanding := False, mc_ping_sent_ms := 0, mc_connack_deadline_set := False,
       mc_connack_deadline_ms := 0\<rparr>"

definition MqttClient_EnterError :: "MqttStatus \<Rightarrow> MqttClient \<Rightarrow> MqttClient" where
  "MqttClient_EnterError reason c =
     (let c = ResetConnectionEpoch (c\<lparr>mc_state := MQTT_STATE_ERROR\<rparr>) in
      if reason = MQTT_TRANSPORT_ERROR
      then upd_stats (\<lambda>s. s\<lparr>st_transport_errors := st_transport_errors s + 1\<rparr>) c
      else if reason = MQTT_TIMEOUT then upd_stats (\<lambda>s. s\<lparr>st_timeouts := st_timeouts s + 1\<rparr>) c
      else if reason = MQTT_PROTOCOL_ERROR \<or> reason = MQTT_PACKET_TOO_LARGE
      then upd_stats (\<lambda>s. s\<lparr>st_protocol_errors := st_protocol_errors s + 1\<rparr>) c
      else c)"

definition CloseTransport :: "'a NetworkTransportAdapter \<Rightarrow> ('a, 'x) mqtt \<Rightarrow> ('a, 'x) mqtt" where
  "CloseTransport ad w =
     (case NetworkTransport_Disconnect ad (mq_a w) (mq_t w) of (_, a, t) \<Rightarrow> w\<lparr>mq_a := a, mq_t := t\<rparr>)"

text \<open>The two calls that end a connection on an error always come together.\<close>

definition fail_connection ::
  "'a NetworkTransportAdapter \<Rightarrow> MqttStatus \<Rightarrow> ('a, 'x) mqtt \<Rightarrow> ('a, 'x) mqtt" where
  "fail_connection ad reason w = upd_c (MqttClient_EnterError reason) (CloseTransport ad w)"

text \<open>\<open>pkt\<close> is \<open>None\<close> when the packet was encoded into \<open>tx_buf\<close> itself.\<close>

definition StartTx :: "MqttClient \<Rightarrow> bytes option \<Rightarrow> nat \<Rightarrow> TxKind \<Rightarrow> MqttClient option" where
  "StartTx c pkt n kind = do {
     buf \<leftarrow> (case pkt of Some p \<Rightarrow> if n > 0 then poke (mc_tx_buf c) 0 (take n p) else Some (mc_tx_buf c)
            | None \<Rightarrow> Some (mc_tx_buf c));
     Some (c\<lparr>mc_tx_buf := buf, mc_tx_total := n, mc_tx_off := 0, mc_tx_kind := kind,
             mc_tx_pending := (n > 0)\<rparr>)
   }"

definition tx_complete :: "u32 \<Rightarrow> MqttClient \<Rightarrow> MqttClient" where
  "tx_complete now c =
     (let k = mc_tx_kind c;
          c = upd_stats (\<lambda>s. s\<lparr>st_tx_packets := st_tx_packets s + 1,
                st_tx_bytes_protocol := st_tx_bytes_protocol s + of_nat (mc_tx_total c)\<rparr>) c;
          c = c\<lparr>mc_tx_pending := False, mc_tx_kind := TX_NONE, mc_last_activity_ms := now\<rparr>
      in case k of
        TX_CONNECT \<Rightarrow> c\<lparr>mc_state := MQTT_STATE_WAIT_CONNACK,
          mc_connack_deadline_ms := now + MQTT_CONNACK_TIMEOUT_MS, mc_connack_deadline_set := True\<rparr>
      | TX_PINGREQ \<Rightarrow> upd_stats (\<lambda>s. s\<lparr>st_pingreq_tx := st_pingreq_tx s + 1\<rparr>)
          (c\<lparr>mc_ping_outstanding := True, mc_ping_sent_ms := now\<rparr>)
      | _ \<Rightarrow> c)"

definition MqttClient_DrainTx ::
  "'a NetworkTransportAdapter \<Rightarrow> ('a, 'x) mqtt \<Rightarrow> MqttStatus \<times> ('a, 'x) mqtt" where
  "MqttClient_DrainTx ad w =
     (let c = mq_c w in
      if \<not> mc_tx_pending c then (MQTT_OK, w)
      else case NetworkTransport_Send (mq_t w)
                  (Some (window (mc_tx_buf c) (mc_tx_off c) (mc_tx_total c - mc_tx_off c))) of
        (ns, accepted, t) \<Rightarrow>
        let w = w\<lparr>mq_t := t\<rparr> in
        if ns = NET_OK
        then let c = c\<lparr>mc_tx_off := mc_tx_off c + accepted\<rparr> in
          (MQTT_OK, w\<lparr>mq_c := (if mc_tx_off c \<ge> mc_tx_total c then tx_complete (mq_now w) c else c)\<rparr>)
        else if ns = NET_WOULD_BLOCK then (MQTT_OK, w)
        else (MQTT_TRANSPORT_ERROR, fail_connection ad MQTT_TRANSPORT_ERROR w))"


section \<open>Inbound packets\<close>

definition TryParseHeader :: "MqttClient \<Rightarrow> MqttCodecStatus \<times> MqttClient" where
  "TryParseHeader c =
     (case MqttCodec_DecodeFixedHeader (take (mc_rx_len c) (mc_rx_buf c)) of (rs, fh) \<Rightarrow>
      if rs = MQTT_CODEC_WOULD_BLOCK
      then (if mc_rx_len c \<ge> MQTT_FIXED_HEADER_MAX then (MQTT_CODEC_MALFORMED, c)
            else (MQTT_CODEC_WOULD_BLOCK, c))
      else if rs \<noteq> MQTT_CODEC_OK then (rs, c)
      else let h = the fh in (MQTT_CODEC_OK,
          c\<lparr>mc_rx_fixed_len := unat (fh_fixed_header_len h), mc_rx_type := fh_packet_type h,
            mc_rx_flags := fh_flags h,
            mc_rx_total := unat (fh_fixed_header_len h + fh_remaining_length h)\<rparr>))"

text \<open>The packet types by their numbers: CONNECT 1, CONNACK 2, PUBLISH 3, PUBACK 4, PUBREC 5,
  PUBREL 6, PUBCOMP 7, SUBSCRIBE 8, SUBACK 9, UNSUBSCRIBE 10, UNSUBACK 11, PINGREQ 12,
  PINGRESP 13, DISCONNECT 14.\<close>

definition MqttClient_ValidateFlags :: "u32 \<Rightarrow> u32 \<Rightarrow> MqttCodecStatus" where
  "MqttClient_ValidateFlags typ flags =
     (if typ \<in> {1, 2, 4, 5, 6, 7, 8, 9, 10, 11, 12, 13, 14}
      then (if typ = ucast MQTT_PKT_SUBSCRIBE
            then (if flags = 0x02 then MQTT_CODEC_OK else MQTT_CODEC_MALFORMED)
            else if typ = 6 \<or> typ = 10
            then (if flags = 0x02 then MQTT_CODEC_OK else MQTT_CODEC_MALFORMED)
            else if flags = 0 then MQTT_CODEC_OK else MQTT_CODEC_MALFORMED)
      else if typ = ucast MQTT_PKT_PUBLISH
      then (let qos = drop_bit 1 flags AND 0x03; dup = (flags AND 0x08 \<noteq> 0) in
            if qos = 3 then MQTT_CODEC_MALFORMED
            else if qos = 0 \<and> dup then MQTT_CODEC_MALFORMED
            else MQTT_CODEC_OK)
      else MQTT_CODEC_MALFORMED)"

definition rx_body :: "MqttClient \<Rightarrow> bytes" where
  "rx_body c = window (mc_rx_buf c) (mc_rx_fixed_len c) (mc_rx_total c - mc_rx_fixed_len c)"

definition count_rx :: "MqttClient \<Rightarrow> MqttClient" where
  "count_rx = upd_stats (\<lambda>s. s\<lparr>st_rx_packets := st_rx_packets s + 1\<rparr>)"

definition HandleConnack ::
  "'a NetworkTransportAdapter \<Rightarrow> ('a, 'x) mqtt \<Rightarrow> MqttStatus \<times> ('a, 'x) mqtt" where
  "HandleConnack ad w =
     (let c = mq_c w in
      if mc_rx_flags c \<noteq> 0 then (MQTT_PROTOCOL_ERROR, w)
      else case MqttCodec_DecodeConnack (rx_body c) of (rs, ca) \<Rightarrow>
      if rs \<noteq> MQTT_CODEC_OK then (MQTT_PROTOCOL_ERROR, w)
      else if ca_session_present (the ca) then (MQTT_PROTOCOL_ERROR, w)
      else if ca_return_code (the ca) \<noteq> 0
      then (MQTT_BROKER_REFUSED, fail_connection ad MQTT_BROKER_REFUSED
             (upd_c (upd_stats (\<lambda>s. s\<lparr>st_connect_failures := st_connect_failures s + 1\<rparr>)) w))
      else (MQTT_OK, w\<lparr>mq_c := count_rx
             ((upd_stats (\<lambda>s. s\<lparr>st_connect_successes := st_connect_successes s + 1\<rparr>) c)
               \<lparr>mc_state := MQTT_STATE_CONNECTED, mc_connack_deadline_set := False,
                mc_last_activity_ms := mq_now w\<rparr>)\<rparr>))"

definition HandleInboundPublish ::
  "'x publish_cb \<Rightarrow> ('a, 'x) mqtt \<Rightarrow> (MqttStatus \<times> ('a, 'x) mqtt) option" where
  "HandleInboundPublish cb w =
     (let c = mq_c w;
          qos = drop_bit 1 (mc_rx_flags c) AND 0x03;
          retain = (mc_rx_flags c AND 0x01 \<noteq> 0);
          dup = (mc_rx_flags c AND 0x08 \<noteq> 0)
      in case MqttCodec_DecodePublish (ucast qos) retain dup (rx_body c) of (rs, pub_opt) \<Rightarrow>
      if rs \<noteq> MQTT_CODEC_OK then Some (MQTT_PROTOCOL_ERROR, w)
      else let
        pub = the pub_opt;
        (ack, x) = (case cb of Some f \<Rightarrow> f c (mq_x w) pub | None \<Rightarrow> (False, mq_x w));
        c = count_rx c;
        w = w\<lparr>mq_c := c, mq_x := x\<rparr>
      in
      if qos = 1 \<and> ack
      then (if mc_tx_pending c
            then Some (MQTT_OK, w\<lparr>mq_c := c\<lparr>mc_ack_pending := True, mc_ack_pending_id := ip_packet_id pub\<rparr>\<rparr>)
            else do {
              (n, pkt) \<leftarrow> MqttCodec_EncodePuback (replicate 4 0) 4 (ip_packet_id pub);
              if n = 0 then Some (MQTT_PROTOCOL_ERROR, w)
              else do {
                c \<leftarrow> StartTx c (Some pkt) n TX_PUBACK;
                Some (MQTT_OK, w\<lparr>mq_c := upd_stats (\<lambda>s. s\<lparr>st_puback_tx := st_puback_tx s + 1\<rparr>) c\<rparr>)
              }
            })
      else if qos = 2 then Some (MQTT_PROTOCOL_ERROR, w)
      else Some (MQTT_OK, w))"

definition HandlePuback :: "MqttClient \<Rightarrow> MqttStatus \<times> MqttClient" where
  "HandlePuback c =
     (if mc_rx_flags c \<noteq> 0 then (MQTT_PROTOCOL_ERROR, c)
      else case MqttCodec_DecodePuback (rx_body c) of (rs, pa) \<Rightarrow>
      if rs \<noteq> MQTT_CODEC_OK then (MQTT_PROTOCOL_ERROR, c)
      else let c = count_rx c in
      if mc_inflight_active c \<and> the pa = mc_inflight_packet_id c
      then (MQTT_OK, upd_stats (\<lambda>s. s\<lparr>st_puback_rx := st_puback_rx s + 1\<rparr>) (c\<lparr>mc_inflight_active := False\<rparr>))
      else (MQTT_OK, c))"

definition HandleSuback :: "MqttClient \<Rightarrow> MqttStatus \<times> MqttClient" where
  "HandleSuback c =
     (if mc_rx_flags c \<noteq> 0 then (MQTT_PROTOCOL_ERROR, c)
      else case MqttCodec_DecodeSuback (rx_body c) of (rs, sa) \<Rightarrow>
      if rs \<noteq> MQTT_CODEC_OK then (MQTT_PROTOCOL_ERROR, c)
      else let c = count_rx c in
      if mc_sub_pending c \<and> sa_packet_id (the sa) = mc_sub_packet_id c
      then (MQTT_OK, upd_stats (\<lambda>s. s\<lparr>st_suback_rx := st_suback_rx s + 1\<rparr>) (c\<lparr>mc_sub_pending := False\<rparr>))
      else (MQTT_OK, c))"

definition HandlePingresp :: "u32 \<Rightarrow> MqttClient \<Rightarrow> MqttStatus \<times> MqttClient" where
  "HandlePingresp now c =
     (if mc_rx_flags c \<noteq> 0 then (MQTT_PROTOCOL_ERROR, c)
      else if mc_rx_total c - mc_rx_fixed_len c \<noteq> 0 then (MQTT_PROTOCOL_ERROR, c)
      else let c = count_rx c in
      if mc_ping_outstanding c
      then (MQTT_OK, (upd_stats (\<lambda>s. s\<lparr>st_pingresp_rx := st_pingresp_rx s + 1\<rparr>)
             (c\<lparr>mc_ping_outstanding := False\<rparr>))\<lparr>mc_last_activity_ms := now\<rparr>)
      else (MQTT_OK, c))"

definition DispatchPacket ::
  "'a NetworkTransportAdapter \<Rightarrow> 'x publish_cb \<Rightarrow> ('a, 'x) mqtt \<Rightarrow> (MqttStatus \<times> ('a, 'x) mqtt) option" where
  "DispatchPacket ad cb w =
     (let c = mq_c w; on_c = (\<lambda>(s, c). Some (s, w\<lparr>mq_c := c\<rparr>)) in
      if MqttClient_ValidateFlags (mc_rx_type c) (mc_rx_flags c) \<noteq> MQTT_CODEC_OK
      then Some (MQTT_PROTOCOL_ERROR, w)
      else if mc_rx_type c = ucast MQTT_PKT_CONNACK
      then (if mc_state c \<noteq> MQTT_STATE_WAIT_CONNACK then Some (MQTT_PROTOCOL_ERROR, w)
            else Some (HandleConnack ad w))
      else if mc_rx_type c = ucast MQTT_PKT_PUBLISH then HandleInboundPublish cb w
      else if mc_rx_type c = ucast MQTT_PKT_PUBACK
      then (if mc_state c \<noteq> MQTT_STATE_CONNECTED then Some (MQTT_PROTOCOL_ERROR, w)
            else on_c (HandlePuback c))
      else if mc_rx_type c = ucast MQTT_PKT_SUBACK
      then (if mc_state c \<noteq> MQTT_STATE_CONNECTED then Some (MQTT_PROTOCOL_ERROR, w)
            else on_c (HandleSuback c))
      else if mc_rx_type c = ucast MQTT_PKT_PINGRESP
      then (if mc_state c \<noteq> MQTT_STATE_CONNECTED then Some (MQTT_PROTOCOL_ERROR, w)
            else on_c (HandlePingresp (mq_now w) c))
      else Some (MQTT_PROTOCOL_ERROR, w))"


section \<open>Ingest\<close>

text \<open>A read of the transport into \<open>rx_buf\<close> at \<open>off\<close>: status, number of bytes, new state.\<close>

definition receive_into :: "nat \<Rightarrow> nat \<Rightarrow> ('a, 'x) mqtt \<Rightarrow> (NetworkStatus \<times> nat \<times> ('a, 'x) mqtt) option" where
  "receive_into off want w =
     (case NetworkTransport_Receive (mq_t w) (Some want) of (ns, bs, t) \<Rightarrow> do {
        buf \<leftarrow> poke (mc_rx_buf (mq_c w)) off bs;
        Some (ns, length bs, w\<lparr>mq_t := t, mq_c := (mq_c w)\<lparr>mc_rx_buf := buf\<rparr>\<rparr>)
      })"

text \<open>How a part of the loop body ends: \<open>return\<close>, \<open>continue\<close>, or falling through.\<close>

datatype 'w outcome = Return MqttStatus 'w | Continue 'w | Fall 'w

text \<open>After a read: the two guards every call site repeats, then \<open>k\<close> with the byte count.\<close>

definition after_receive ::
  "'a NetworkTransportAdapter \<Rightarrow> NetworkStatus \<times> nat \<times> ('a, 'x) mqtt \<Rightarrow>
   (nat \<Rightarrow> ('a, 'x) mqtt \<Rightarrow> ('a, 'x) mqtt outcome option) \<Rightarrow> ('a, 'x) mqtt outcome option" where
  "after_receive ad res k =
     (case res of (ns, got, w) \<Rightarrow>
      if ns = NET_REMOTE_CLOSED \<or> ns = NET_TRANSPORT_ERROR
      then Some (Return MQTT_TRANSPORT_ERROR (fail_connection ad MQTT_TRANSPORT_ERROR w))
      else if ns = NET_WOULD_BLOCK \<or> got = 0 then Some (Return MQTT_WOULD_BLOCK w)
      else k got w)"

definition header_verdict ::
  "'a NetworkTransportAdapter \<Rightarrow> MqttCodecStatus \<Rightarrow> ('a, 'x) mqtt \<Rightarrow> ('a, 'x) mqtt outcome" where
  "header_verdict ad rs w =
     (if rs = MQTT_CODEC_PACKET_TOO_LARGE
      then Return MQTT_PACKET_TOO_LARGE (fail_connection ad MQTT_PACKET_TOO_LARGE
             (upd_c (upd_stats (\<lambda>s. s\<lparr>st_oversized_packets := st_oversized_packets s + 1\<rparr>)) w))
      else if rs \<noteq> MQTT_CODEC_OK
      then Return MQTT_PROTOCOL_ERROR (fail_connection ad MQTT_PROTOCOL_ERROR w)
      else Fall w)"

definition ingest_parse ::
  "'a NetworkTransportAdapter \<Rightarrow> ('a, 'x) mqtt \<Rightarrow> ('a, 'x) mqtt outcome option" where
  "ingest_parse ad w =
     (case TryParseHeader (mq_c w) of (rs, c) \<Rightarrow>
      let w = w\<lparr>mq_c := c\<rparr> in
      if rs = MQTT_CODEC_WOULD_BLOCK
      then do {
        res \<leftarrow> receive_into (mc_rx_len c) (MQTT_FIXED_HEADER_MAX - mc_rx_len c) w;
        after_receive ad res (\<lambda>got w.
          case TryParseHeader ((mq_c w)\<lparr>mc_rx_len := mc_rx_len (mq_c w) + got\<rparr>) of (rs, c) \<Rightarrow>
          let w = w\<lparr>mq_c := c\<rparr> in
          if rs = MQTT_CODEC_WOULD_BLOCK then Some (Continue w)
          else Some (header_verdict ad rs w))
      }
      else Some (header_verdict ad rs w))"

definition ingest_header ::
  "'a NetworkTransportAdapter \<Rightarrow> ('a, 'x) mqtt \<Rightarrow> ('a, 'x) mqtt outcome option" where
  "ingest_header ad w =
     (if mc_rx_len (mq_c w) = 0 \<or> mc_rx_total (mq_c w) = 0
      then (if mc_rx_len (mq_c w) = 0
            then do {
              res \<leftarrow> receive_into 0 MQTT_FIXED_HEADER_MAX w;
              after_receive ad res (\<lambda>got w. ingest_parse ad (upd_c (\<lambda>c. c\<lparr>mc_rx_len := got\<rparr>) w))
            }
            else ingest_parse ad w)
      else Some (Fall w))"

definition ingest_body ::
  "'a NetworkTransportAdapter \<Rightarrow> ('a, 'x) mqtt \<Rightarrow> ('a, 'x) mqtt outcome option" where
  "ingest_body ad w =
     (let c = mq_c w in
      if mc_rx_len c < mc_rx_total c
      then do {
        res \<leftarrow> receive_into (mc_rx_len c) (mc_rx_total c - mc_rx_len c) w;
        after_receive ad res (\<lambda>got w.
          let w = upd_c (\<lambda>c. c\<lparr>mc_rx_len := mc_rx_len c + got\<rparr>) w in
          if mc_rx_len (mq_c w) < mc_rx_total (mq_c w) then Some (Return MQTT_WOULD_BLOCK w)
          else Some (Fall w))
      }
      else Some (Fall w))"

definition reset_parser :: "MqttClient \<Rightarrow> MqttClient" where
  "reset_parser c =
     c\<lparr>mc_rx_len := 0, mc_rx_total := 0, mc_rx_fixed_len := 0, mc_rx_type := 0, mc_rx_flags := 0\<rparr>"

definition ingest_dispatch ::
  "'a NetworkTransportAdapter \<Rightarrow> 'x publish_cb \<Rightarrow> ('a, 'x) mqtt \<Rightarrow> ('a, 'x) mqtt outcome option" where
  "ingest_dispatch ad cb w = do {
     (ds, w) \<leftarrow> DispatchPacket ad cb w;
     Some (if ds \<noteq> MQTT_OK
           then Return ds (if ds = MQTT_PROTOCOL_ERROR \<or> ds = MQTT_PACKET_TOO_LARGE
                           then fail_connection ad ds w else w)
           else Fall (upd_c reset_parser w))
   }"

definition on_fall ::
  "(('a, 'x) mqtt \<Rightarrow> ('a, 'x) mqtt outcome option) \<Rightarrow> ('a, 'x) mqtt outcome \<Rightarrow> ('a, 'x) mqtt outcome option" where
  "on_fall k r = (case r of Fall w \<Rightarrow> k w | _ \<Rightarrow> Some r)"

text \<open>\<open>p\<close> rounds of the loop are left.\<close>

fun Ingest_loop ::
  "'a NetworkTransportAdapter \<Rightarrow> 'x publish_cb \<Rightarrow> nat \<Rightarrow> ('a, 'x) mqtt \<Rightarrow> (MqttStatus \<times> ('a, 'x) mqtt) option" where
  "Ingest_loop ad cb 0 w = Some (MQTT_OK, w)"
| "Ingest_loop ad cb (Suc p) w = do {
     r \<leftarrow> ingest_header ad w;
     r \<leftarrow> on_fall (ingest_body ad) r;
     r \<leftarrow> on_fall (ingest_dispatch ad cb) r;
     (case r of Return s w \<Rightarrow> Some (s, w)
      | Continue w \<Rightarrow> Ingest_loop ad cb p w
      | Fall w \<Rightarrow> Ingest_loop ad cb p w)
   }"

definition Ingest ::
  "'a NetworkTransportAdapter \<Rightarrow> 'x publish_cb \<Rightarrow> ('a, 'x) mqtt \<Rightarrow> (MqttStatus \<times> ('a, 'x) mqtt) option" where
  "Ingest ad cb w = Ingest_loop ad cb MAX_PACKETS_PER_RUN w"


section \<open>Keepalive and packet identifiers\<close>

definition RunKeepalive ::
  "'a NetworkTransportAdapter \<Rightarrow> ('a, 'x) mqtt \<Rightarrow> (MqttStatus \<times> ('a, 'x) mqtt) option" where
  "RunKeepalive ad w =
     (let c = mq_c w; now = mq_now w in
      if mc_keepalive_s c = 0 then Some (MQTT_OK, w)
      else if mc_ping_outstanding c
      then (if Elapsed now (mc_ping_sent_ms c) MQTT_PINGRESP_TIMEOUT_MS
            then Some (MQTT_TIMEOUT, fail_connection ad MQTT_TIMEOUT w)
            else Some (MQTT_OK, w))
      else if Elapsed now (mc_last_activity_ms c) (ucast (mc_keepalive_s c) * 1000)
      then do {
        (n, pkt) \<leftarrow> MqttCodec_EncodePingreq (replicate 2 0) 2;
        if n = 0 then Some (MQTT_PROTOCOL_ERROR, w)
        else if mc_tx_pending c then Some (MQTT_OK, w)
        else do {
          c \<leftarrow> StartTx c (Some pkt) n TX_PINGREQ;
          Some (MQTT_OK, w\<lparr>mq_c := c\<rparr>)
        }
      }
      else Some (MQTT_OK, w))"

definition next_id :: "u16 \<Rightarrow> u16" where
  "next_id i = (if i = 0xFFFF then 1 else i + 1)"

definition NextPacketId :: "MqttClient \<Rightarrow> u16 \<times> MqttClient" where
  "NextPacketId c =
     (mc_next_packet_id c, c\<lparr>mc_next_packet_id := next_id (mc_next_packet_id c)\<rparr>)"

section \<open>The public operations\<close>

definition zero_stats :: MqttStats where
  "zero_stats =
     \<lparr>st_connect_attempts = 0, st_connect_successes = 0, st_connect_failures = 0,
      st_tx_packets = 0, st_rx_packets = 0, st_tx_bytes_protocol = 0, st_rx_bytes_protocol = 0,
      st_protocol_errors = 0, st_oversized_packets = 0, st_publish_qos0 = 0, st_publish_qos1 = 0,
      st_puback_rx = 0, st_puback_tx = 0, st_subscribe_requests = 0, st_suback_rx = 0,
      st_pingreq_tx = 0, st_pingresp_rx = 0, st_transport_errors = 0, st_timeouts = 0\<rparr>"

definition MqttClient_Init :: "MqttConnectConfig option \<Rightarrow> MqttStatus \<times> MqttClient option" where
  "MqttClient_Init cfg =
     (case cfg of None \<Rightarrow> (MQTT_INVALID_ARG, None)
      | Some cf \<Rightarrow> (case cc_client_id cf of None \<Rightarrow> (MQTT_INVALID_ARG, None)
        | Some cid \<Rightarrow>
          if length cid = 0 \<or> length cid > MQTT_MAX_CLIENT_ID_LENGTH then (MQTT_INVALID_ARG, None)
          else (MQTT_OK, Some
            \<lparr>mc_client_id = cid, mc_keepalive_s = cc_keepalive_s cf,
             mc_state = MQTT_STATE_DISCONNECTED,
             mc_tx_buf = replicate (unat MQTT_MAX_PACKET_SIZE) 0, mc_tx_total = 0, mc_tx_off = 0,
             mc_tx_kind = TX_NONE, mc_tx_pending = False,
             mc_rx_buf = replicate (unat MQTT_MAX_PACKET_SIZE) 0, mc_rx_len = 0, mc_rx_total = 0,
             mc_rx_fixed_len = 0, mc_rx_type = 0, mc_rx_flags = 0,
             mc_inflight_active = False, mc_inflight_packet_id = 0,
             mc_sub_pending = False, mc_sub_packet_id = 0,
             mc_ack_pending = False, mc_ack_pending_id = 0,
             mc_last_activity_ms = 0, mc_ping_outstanding = False, mc_ping_sent_ms = 0,
             mc_connack_deadline_set = False, mc_connack_deadline_ms = 0,
             mc_next_packet_id = 1, mc_next_sub_id = 1, mc_stats = zero_stats\<rparr>)))"

definition MqttClient_Connect ::
  "'a NetworkTransportAdapter \<Rightarrow> ('a, 'x) mqtt \<Rightarrow> MqttStatus \<times> ('a, 'x) mqtt" where
  "MqttClient_Connect ad w =
     (if mc_state (mq_c w) \<noteq> MQTT_STATE_DISCONNECTED then (MQTT_BUSY, w)
      else case NetworkTransport_Connect ad (mq_now w) (mq_a w) (mq_t w) of (ns, a, t) \<Rightarrow>
        let w = w\<lparr>mq_a := a, mq_t := t\<rparr> in
        if ns \<noteq> NET_OK \<and> ns \<noteq> NET_IN_PROGRESS
        then (MQTT_TRANSPORT_ERROR,
              upd_c (\<lambda>c. (upd_stats (\<lambda>s. s\<lparr>st_connect_failures := st_connect_failures s + 1\<rparr>) c)
                \<lparr>mc_state := MQTT_STATE_ERROR\<rparr>) w)
        else (MQTT_IN_PROGRESS,
              upd_c (\<lambda>c. upd_stats (\<lambda>s. s\<lparr>st_connect_attempts := st_connect_attempts s + 1\<rparr>)
                (c\<lparr>mc_state := MQTT_STATE_CONNECTING_TRANSPORT\<rparr>)) w))"

text \<open>The step of \<open>MqttClient_Run\<close> that turns a connected transport into a queued CONNECT.\<close>

definition run_connecting ::
  "'a NetworkTransportAdapter \<Rightarrow> NetworkStatus \<Rightarrow> ('a, 'x) mqtt \<Rightarrow> ('a, 'x) mqtt outcome option" where
  "run_connecting ad nr w =
     (if mc_state (mq_c w) \<noteq> MQTT_STATE_CONNECTING_TRANSPORT then Some (Fall w)
      else if nr = NET_IN_PROGRESS then Some (Return MQTT_IN_PROGRESS w)
      else if nr \<noteq> NET_OK
      then let reason = (if nr = NET_TIMEOUT then MQTT_TIMEOUT else MQTT_TRANSPORT_ERROR) in
        Some (Return reason (fail_connection ad reason
          (upd_c (upd_stats (\<lambda>s. s\<lparr>st_connect_failures := st_connect_failures s + 1\<rparr>)) w)))
      else let c = mq_c w in do {
        (n, buf) \<leftarrow> MqttCodec_EncodeConnect (mc_tx_buf c) (unat MQTT_MAX_PACKET_SIZE)
                      (Some (mc_client_id c)) (mc_keepalive_s c);
        if n = 0
        then Some (Return MQTT_PROTOCOL_ERROR (fail_connection ad MQTT_PROTOCOL_ERROR
                     (w\<lparr>mq_c := c\<lparr>mc_tx_buf := buf\<rparr>\<rparr>)))
        else do {
          c \<leftarrow> StartTx (c\<lparr>mc_tx_buf := buf\<rparr>) None n TX_CONNECT;
          Some (Fall (w\<lparr>mq_c := c\<lparr>mc_state := MQTT_STATE_WAIT_CONNACK,
            mc_connack_deadline_ms := mq_now w + MQTT_CONNACK_TIMEOUT_MS,
            mc_connack_deadline_set := True\<rparr>\<rparr>))
        }
      })"

definition run_wait_connack ::
  "'a NetworkTransportAdapter \<Rightarrow> 'x publish_cb \<Rightarrow> ('a, 'x) mqtt \<Rightarrow> (MqttStatus \<times> ('a, 'x) mqtt) option" where
  "run_wait_connack ad cb w =
     (let ts2 = NetworkTransport_GetState (Some (mq_t w)); c = mq_c w in
      if ts2 = NET_STATE_ERROR \<or> ts2 = NET_STATE_CLOSING
      then Some (MQTT_TRANSPORT_ERROR, fail_connection ad MQTT_TRANSPORT_ERROR
             (upd_c (upd_stats (\<lambda>s. s\<lparr>st_connect_failures := st_connect_failures s + 1\<rparr>)) w))
      else if mc_connack_deadline_set c \<and> Elapsed (mq_now w) (mc_connack_deadline_ms c) MQTT_CONNACK_TIMEOUT_MS
      then Some (MQTT_TIMEOUT, fail_connection ad MQTT_TIMEOUT
             (upd_c (upd_stats (\<lambda>s. s\<lparr>st_timeouts := st_timeouts s + 1\<rparr>)) w))
      else do {
        (is, w) \<leftarrow> Ingest ad cb w;
        Some (if is \<noteq> MQTT_WOULD_BLOCK \<and> is \<noteq> MQTT_OK then (is, w) else (MQTT_OK, w))
      })"

definition flush_ack :: "('a, 'x) mqtt \<Rightarrow> ('a, 'x) mqtt outcome option" where
  "flush_ack w =
     (let c = mq_c w in
      if mc_ack_pending c \<and> \<not> mc_tx_pending c
      then do {
        (n, pkt) \<leftarrow> MqttCodec_EncodePuback (replicate 4 0) 4 (mc_ack_pending_id c);
        if n = 0 then Some (Return MQTT_PROTOCOL_ERROR w)
        else do {
          c \<leftarrow> StartTx c (Some pkt) n TX_PUBACK;
          Some (Fall (w\<lparr>mq_c := (upd_stats (\<lambda>s. s\<lparr>st_puback_tx := st_puback_tx s + 1\<rparr>) c)
                         \<lparr>mc_ack_pending := False\<rparr>\<rparr>))
        }
      }
      else Some (Fall w))"

definition run_connected ::
  "'a NetworkTransportAdapter \<Rightarrow> 'x publish_cb \<Rightarrow> ('a, 'x) mqtt \<Rightarrow> (MqttStatus \<times> ('a, 'x) mqtt) option" where
  "run_connected ad cb w = do {
     r \<leftarrow> flush_ack w;
     (case r of Return s w \<Rightarrow> Some (s, w) | Continue w \<Rightarrow> Some (MQTT_OK, w)
      | Fall w \<Rightarrow> do {
          (is, w) \<leftarrow> Ingest ad cb w;
          if is \<noteq> MQTT_WOULD_BLOCK \<and> is \<noteq> MQTT_OK then Some (is, w)
          else do {
            (ks, w) \<leftarrow> RunKeepalive ad w;
            Some (if ks \<noteq> MQTT_OK then (ks, w) else (MQTT_OK, w))
          }
        })
   }"

definition run_disconnecting ::
  "'a NetworkTransportAdapter \<Rightarrow> ('a, 'x) mqtt \<Rightarrow> MqttStatus \<times> ('a, 'x) mqtt" where
  "run_disconnecting ad w =
     (case (if mc_tx_pending (mq_c w) then MqttClient_DrainTx ad w else (MQTT_OK, w)) of (ds, w) \<Rightarrow>
      if ds \<noteq> MQTT_OK then (ds, w)
      else (MQTT_OK, upd_c (\<lambda>c. (ResetConnectionEpoch c)\<lparr>mc_state := MQTT_STATE_DISCONNECTED\<rparr>)
                       (CloseTransport ad w)))"

definition MqttClient_Run ::
  "'a NetworkTransportAdapter \<Rightarrow> 'x publish_cb \<Rightarrow> ('a, 'x) mqtt \<Rightarrow> (MqttStatus \<times> ('a, 'x) mqtt) option" where
  "MqttClient_Run ad cb w =
     (case NetworkTransport_Run ad (mq_now w) (mq_a w) (mq_t w) of (nr, a, t) \<Rightarrow>
      let w = w\<lparr>mq_a := a, mq_t := t\<rparr> in
      if nr = NET_TRANSPORT_ERROR
      then Some (MQTT_TRANSPORT_ERROR, fail_connection ad MQTT_TRANSPORT_ERROR w)
      else do {
        r \<leftarrow> run_connecting ad nr w;
        (case r of Return s w \<Rightarrow> Some (s, w) | Continue w \<Rightarrow> Some (MQTT_OK, w)
         | Fall w \<Rightarrow>
           case MqttClient_DrainTx ad w of (ds, w) \<Rightarrow>
           if ds \<noteq> MQTT_OK then Some (ds, w)
           else case mc_state (mq_c w) of
             MQTT_STATE_WAIT_CONNACK \<Rightarrow> run_wait_connack ad cb w
           | MQTT_STATE_CONNECTED \<Rightarrow> run_connected ad cb w
           | MQTT_STATE_DISCONNECTING \<Rightarrow> Some (run_disconnecting ad w)
           | _ \<Rightarrow> Some (MQTT_OK, w))
      })"

definition MqttClient_Disconnect ::
  "'a NetworkTransportAdapter \<Rightarrow> ('a, 'x) mqtt \<Rightarrow> (MqttStatus \<times> ('a, 'x) mqtt) option" where
  "MqttClient_Disconnect ad w =
     (let c = mq_c w in
      if mc_state c = MQTT_STATE_DISCONNECTED then Some (MQTT_OK, w)
      else if mc_state c = MQTT_STATE_CONNECTED
      then do {
        (n, pkt) \<leftarrow> MqttCodec_EncodeDisconnect (replicate 2 0) 2;
        c \<leftarrow> StartTx c (Some pkt) n TX_DISCONNECT;
        Some (MQTT_OK, w\<lparr>mq_c := c\<lparr>mc_state := MQTT_STATE_DISCONNECTING\<rparr>\<rparr>)
      }
      else Some (MQTT_OK, upd_c (\<lambda>c. (ResetConnectionEpoch c)\<lparr>mc_state := MQTT_STATE_DISCONNECTED\<rparr>)
                            (CloseTransport ad w)))"


text \<open>The argument checks; a payload of \<open>None\<close> is a NULL pointer with a length other than 0.\<close>

definition topic_len_ok :: "bytes option \<Rightarrow> bool" where
  "topic_len_ok topic =
     (case topic of None \<Rightarrow> False | Some t \<Rightarrow> \<not> (length t = 0 \<or> length t > MQTT_MAX_TOPIC_LENGTH))"

definition payload_ok :: "bytes option \<Rightarrow> bool" where
  "payload_ok payload =
     (case payload of None \<Rightarrow> False | Some p \<Rightarrow> \<not> length p > MQTT_MAX_PAYLOAD_SIZE)"

definition MqttClient_PublishQos0 ::
  "u32 \<Rightarrow> MqttClient \<Rightarrow> bytes option \<Rightarrow> bytes option \<Rightarrow> bool \<Rightarrow> (MqttStatus \<times> MqttClient) option" where
  "MqttClient_PublishQos0 now c topic payload retain =
     (if mc_state c \<noteq> MQTT_STATE_CONNECTED then Some (MQTT_NOT_CONNECTED, c)
      else if \<not> (topic_len_ok topic \<and> payload_ok payload) then Some (MQTT_INVALID_ARG, c)
      else if mc_tx_pending c then Some (MQTT_BUSY, c)
      else do {
        (n, buf) \<leftarrow> MqttCodec_EncodePublish (mc_tx_buf c) (unat MQTT_MAX_PACKET_SIZE) topic
                      (the payload) 0 retain 0;
        if n = 0 then Some (MQTT_PACKET_TOO_LARGE, c\<lparr>mc_tx_buf := buf\<rparr>)
        else do {
          c \<leftarrow> StartTx (c\<lparr>mc_tx_buf := buf\<rparr>) None n TX_PUBLISH_QOS0;
          Some (MQTT_OK, (upd_stats (\<lambda>s. s\<lparr>st_publish_qos0 := st_publish_qos0 s + 1\<rparr>) c)
                           \<lparr>mc_last_activity_ms := now\<rparr>)
        }
      })"

definition MqttClient_PublishQos1 ::
  "u32 \<Rightarrow> MqttClient \<Rightarrow> bytes option \<Rightarrow> bytes option \<Rightarrow> (MqttStatus \<times> MqttClient) option" where
  "MqttClient_PublishQos1 now c topic payload =
     (if mc_state c \<noteq> MQTT_STATE_CONNECTED then Some (MQTT_NOT_CONNECTED, c)
      else if \<not> (topic_len_ok topic \<and> payload_ok payload) then Some (MQTT_INVALID_ARG, c)
      else if mc_tx_pending c \<or> mc_inflight_active c then Some (MQTT_BUSY, c)
      else case NextPacketId c of (pid, c) \<Rightarrow> do {
        (n, buf) \<leftarrow> MqttCodec_EncodePublish (mc_tx_buf c) (unat MQTT_MAX_PACKET_SIZE) topic
                      (the payload) 1 False pid;
        if n = 0 then Some (MQTT_PACKET_TOO_LARGE, c\<lparr>mc_tx_buf := buf\<rparr>)
        else do {
          c \<leftarrow> StartTx (c\<lparr>mc_tx_buf := buf\<rparr>) None n TX_PUBLISH_QOS1;
          Some (MQTT_OK, (upd_stats (\<lambda>s. s\<lparr>st_publish_qos1 := st_publish_qos1 s + 1\<rparr>)
                           (c\<lparr>mc_inflight_active := True, mc_inflight_packet_id := pid\<rparr>))
                           \<lparr>mc_last_activity_ms := now\<rparr>)
        }
      })"

definition MqttClient_Subscribe ::
  "u32 \<Rightarrow> MqttClient \<Rightarrow> bytes option \<Rightarrow> u8 \<Rightarrow> (MqttStatus \<times> MqttClient) option" where
  "MqttClient_Subscribe now c topic requested_qos =
     (if mc_state c \<noteq> MQTT_STATE_CONNECTED then Some (MQTT_NOT_CONNECTED, c)
      else if \<not> topic_len_ok topic \<or> requested_qos > 1 then Some (MQTT_INVALID_ARG, c)
      else if mc_tx_pending c \<or> mc_sub_pending c then Some (MQTT_BUSY, c)
      else let pid = mc_next_sub_id c; c = c\<lparr>mc_next_sub_id := next_id pid\<rparr> in do {
        (n, buf) \<leftarrow> MqttCodec_EncodeSubscribe (mc_tx_buf c) (unat MQTT_MAX_PACKET_SIZE) topic
                      requested_qos pid;
        if n = 0 then Some (MQTT_PACKET_TOO_LARGE, c\<lparr>mc_tx_buf := buf\<rparr>)
        else do {
          c \<leftarrow> StartTx (c\<lparr>mc_tx_buf := buf\<rparr>) None n TX_SUBSCRIBE;
          Some (MQTT_OK, (upd_stats (\<lambda>s. s\<lparr>st_subscribe_requests := st_subscribe_requests s + 1\<rparr>)
                           (c\<lparr>mc_sub_pending := True, mc_sub_packet_id := pid\<rparr>))
                           \<lparr>mc_last_activity_ms := now\<rparr>)
        }
      })"

definition MqttClient_GetState :: "MqttClient option \<Rightarrow> MqttClientState" where
  "MqttClient_GetState c = (case c of Some c \<Rightarrow> mc_state c | None \<Rightarrow> MQTT_STATE_ERROR)"

definition MqttClient_GetStats :: "MqttClient \<Rightarrow> MqttStats" where
  "MqttClient_GetStats c = mc_stats c"

end
