(* ===== verification/Mqtt_Varint.thy ===== *)
theory Mqtt_Varint
  imports Mqtt_Codec
begin

text \<open>
  The Remaining Length of a packet: what the writer writes is the base-128 representation
  \<open>varint\<close>, and the reader reads it back.
\<close>

fun varint :: "nat \<Rightarrow> bytes" where
  "varint x = (if x < 128 then [of_nat x] else of_nat (128 + x mod 128) # varint (x div 128))"

declare varint.simps [simp del]

lemma varint_length_pos [simp]: "0 < length (varint x)" "varint x \<noteq> []"
  by (subst varint.simps, simp)+

lemma varint_length_le: "x < 128 ^ Suc k \<Longrightarrow> length (varint x) \<le> Suc k"
proof (induction k arbitrary: x)
  case 0
  then show ?case by (subst varint.simps) simp
next
  case (Suc k)
  have "x div 128 < 128 ^ Suc k" using Suc.prems by (simp add: less_mult_imp_div_less mult.commute)
  then show ?case using Suc.IH[of "x div 128"] by (subst varint.simps) simp
qed

section \<open>Bytes of seven bits\<close>

lemma u8_low7: "unat (b AND 0x7F :: u8) = unat b mod 128"
proof -
  have "b AND 0x7F = b mod 128"
    using take_bit_eq_mask[of 7 b] take_bit_eq_mod[of 7 b] by (simp add: mask_eq_exp_minus_1)
  then show ?thesis by (simp only: unat_mod_distrib) simp
qed

lemma u8_bit7: "(b AND 0x80 :: u8) = 0 \<longleftrightarrow> unat b < 128"
proof -
  have "unat b < 256" using unsigned_less[of b, where ?'a = nat] by simp
  have "(b AND 0x80) = 0 \<longleftrightarrow> \<not> bit b 7"
  proof -
    have "b AND 0x80 = b AND 2 ^ 7" by simp
    then show ?thesis by (simp only: and_exp_eq_0_iff_not_bit)
  qed
  also have "\<dots> \<longleftrightarrow> even (unat b div 128)"
  proof -
    have "bit b 7 \<longleftrightarrow> bit (unat b) 7" by (simp add: bit_unsigned_iff)
    then show ?thesis by (simp add: bit_iff_odd)
  qed
  also have "\<dots> \<longleftrightarrow> unat b < 128" 
  proof (cases "unat b < 128")
    case False
    then have "unat b div 128 = 1" using \<open>unat b < 256\<close> by (intro div_nat_eqI) simp_all
    then show ?thesis using False by simp
  qed simp
  finally show ?thesis .
qed

lemma u8_or_80:
  assumes "x < 128"
  shows "(of_nat x OR 0x80 :: u8) = of_nat (128 + x)"
proof -
  have "\<forall>x \<in> set [0..<128]. (of_nat x OR 0x80 :: u8) = of_nat (128 + x)" by code_simp
  then show ?thesis using assms by simp
qed

section \<open>Writer and reader\<close>

lemma poke_one:
  "n < length buf \<Longrightarrow> poke buf n [b] = Some (buf[n := b])"
  by (simp add: poke_def overwrite_def upd_conv_take_nth_drop)

lemma overwrite_step:
  assumes "n < length buf"
  shows "overwrite (buf[n := b]) (Suc n) ys = overwrite buf n (b # ys)"
  using assms by (simp add: overwrite_def take_Suc_conv_app_nth)

lemma write_varint_loop_eq:
  assumes "n + length (varint (unat v)) \<le> cap" "cap \<le> length buf"
  shows "write_varint_loop buf cap v n =
    Some (n + length (varint (unat v)), overwrite buf n (varint (unat v)))"
  using assms
proof (induction buf cap v n rule: write_varint_loop.induct)
  case (1 buf cap v n)
  have n: "n < cap" "n < length buf" using 1(2,3) varint_length_pos(1)[of "unat v"] by linarith+
  have v': "unat (v div 128) = unat v div 128" by (simp add: unat_div_distrib)
  have b: "(ucast (v mod 128) :: u8) = of_nat (unat v mod 128)"
    by (simp add: word_unat_eq_iff unsigned_ucast_eq unat_mod_distrib unat_of_nat take_bit_eq_mod)
  show ?case
  proof (cases "unat v < 128")
    case True
    then have "v div 128 = 0" using v' by (simp add: word_unat_eq_iff)
    then show ?thesis
      using n True b
      by (subst write_varint_loop.simps, subst (1 2) varint.simps)
        (simp add: poke_one overwrite_def upd_conv_take_nth_drop)
  next
    case False
    then have pos: "v div 128 > 0" using v' by (simp add: word_less_nat_alt)
    let ?b = "of_nat (128 + unat v mod 128) :: u8"
    have b': "(ucast (v mod 128) OR 0x80 :: u8) = ?b" unfolding b by (rule u8_or_80) simp
    have vs: "varint (unat v) = ?b # varint (unat (v div 128))"
      using False v' by (subst varint.simps) simp
    have "write_varint_loop (buf[n := ?b]) cap (v div 128) (n + 1) =
      Some (n + 1 + length (varint (unat (v div 128))), overwrite (buf[n := ?b]) (n + 1) (varint (unat (v div 128))))"
      using 1(2,3) pos n vs by (intro 1(1)[of "ucast (v mod 128)" _ ?b]) (auto simp: b' poke_one)
    then show ?thesis
      using n pos b' by (subst write_varint_loop.simps) (simp add: poke_one vs overwrite_step)
  qed
qed

lemma read_varint_loop_eq:
  assumes "length (varint x) \<le> k"
  shows "read_varint_loop k (varint x @ rest) c m rl = (MQTT_CODEC_OK, c + length (varint x), Some (rl + of_nat x * m))"
  using assms
proof (induction k arbitrary: x c m rl)
  case (Suc k)
  show ?case
  proof (cases "x < 128")
    case True
    then have u: "unat (of_nat x :: u8) = x" by (simp add: unat_of_nat take_bit_eq_mod)
    then have "(ucast (of_nat x AND 0x7F :: u8) :: u32) = of_nat x"
      using True u8_low7[of "of_nat x"] by (simp add: word_unat_eq_iff unsigned_ucast_eq unat_of_nat take_bit_eq_mod)
    then show ?thesis using True u u8_bit7[of "of_nat x"] by (simp add: varint.simps[of x])
  next
    case False
    define b :: u8 where "b = of_nat (128 + x mod 128)"
    have "x mod 128 < 128" by simp
    then have u: "unat b = 128 + x mod 128" unfolding b_def by (simp only: unat_of_nat take_bit_eq_mod) simp
    have vs: "varint x = b # varint (x div 128)" using False unfolding b_def by (subst varint.simps) simp
    have hi: "b AND 0x80 \<noteq> 0" unfolding u8_bit7 u by simp
    have lo: "(ucast (b AND 0x7F) :: u32) = of_nat (x mod 128)"
    proof -
      have "unat (b AND 0x7F) = x mod 128" unfolding u8_low7 u by simp
      then show ?thesis
        by (simp only: word_unat_eq_iff unsigned_ucast_eq unat_of_nat take_bit_eq_mod)
    qed
    have "length (varint (x div 128)) \<le> k" using Suc.prems by (simp add: vs)
    moreover from this have "k \<noteq> 0" using varint_length_pos(1)[of "x div 128"] by linarith
    ultimately have k: "length (varint (x div 128)) \<le> k" "k \<noteq> 0" .
    have x: "(of_nat x :: u32) = of_nat (x mod 128) + of_nat (x div 128) * 128"
      by (metis add.commute div_mult_mod_eq of_nat_add of_nat_mult of_nat_numeral)
    show ?thesis
      using Suc.IH[OF k(1), of "c + 1" "m * 128" "rl + of_nat (x mod 128) * m"] hi k(2)
      by (simp add: vs lo Let_def x algebra_simps)
  qed
qed (simp add: varint_length_pos)

lemma WriteVarInt_eq:
  assumes "unat v < 128 ^ 4" "4 \<le> cap" "cap \<le> length buf"
  shows "MqttCodec_WriteVarInt buf cap v = Some (length (varint (unat v)), overwrite buf 0 (varint (unat v)))"
proof -
  have "length (varint (unat v)) \<le> 4" using varint_length_le[of "unat v" 3] assms(1) by simp
  then show ?thesis
    using assms write_varint_loop_eq[of 0 v cap buf]
    by (simp add: MqttCodec_WriteVarInt_def word_less_nat_alt)
qed

text \<open>
  Remaining Length: every value up to 268435455 is written in at most four bytes,
  the minimal number, and reading those bytes gives the value and their number back,
  whatever follows them.
\<close>

theorem mqtt_varint_roundtrip:
  assumes "v \<le> 268435455" "4 \<le> cap" "cap \<le> length buf"
  shows "\<exists>n out. MqttCodec_WriteVarInt buf cap v = Some (n, out) \<and> 0 < n \<and> n \<le> 4 \<and>
    (n = 1 \<or> 128 ^ (n - 1) \<le> unat v) \<and>
    MqttCodec_ReadVarInt (take n out @ rest) = (MQTT_CODEC_OK, n, Some v)"
proof -
  have v: "unat v < 128 ^ 4" using assms(1) by (simp add: word_le_nat_alt)
  have len: "length (varint (unat v)) \<le> 4" using varint_length_le[of "unat v" 3] v by simp
  have min: "length (varint x) = 1 \<or> 128 ^ (length (varint x) - 1) \<le> x" for x
  proof (induction x rule: varint.induct)
    case (1 x)
    show ?case
    proof (cases "x < 128")
      case False
      then have vs: "length (varint x) = Suc (length (varint (x div 128)))" by (subst varint.simps) simp
      have "128 ^ length (varint (x div 128)) \<le> x"
      proof (cases "length (varint (x div 128)) = 1")
        case False2: False
        then have "128 ^ (length (varint (x div 128)) - 1) \<le> x div 128" using 1[OF False] by simp
        then have "128 * 128 ^ (length (varint (x div 128)) - 1) \<le> x"
          by (metis div_times_less_eq_dividend mult.commute mult_le_mono1 order_trans)
        then show ?thesis
          by (metis power_minus_mult varint_length_pos(1) mult.commute)
      qed (use False in simp)
      then show ?thesis using vs by simp
    qed (subst varint.simps, simp)
  qed
  have "MqttCodec_ReadVarInt (varint (unat v) @ rest) = (MQTT_CODEC_OK, length (varint (unat v)), Some v)"
    using read_varint_loop_eq[OF len, of rest 0 1 0] by (simp add: MqttCodec_ReadVarInt_def MQTT_RL_MAX_BYTES_def)
  then show ?thesis
    using WriteVarInt_eq[OF v assms(2,3)] len min[of "unat v"] assms
    by (intro exI[of _ "length (varint (unat v))"] exI[of _ "overwrite buf 0 (varint (unat v))"])
      (auto simp: overwrite_def)
qed

lemma mqtt_varint_roundtrip_witness:
  "\<exists>n out. MqttCodec_WriteVarInt [0, 0, 0, 0] 4 321 = Some (n, out) \<and> 0 < n \<and> n \<le> 4 \<and>
    (n = 1 \<or> 128 ^ (n - 1) \<le> unat (321 :: u32)) \<and>
    MqttCodec_ReadVarInt (take n out @ [7]) = (MQTT_CODEC_OK, n, Some 321)"
  by (rule mqtt_varint_roundtrip) simp_all

end
