(* ===== verification/Mqtt_Packets.thy ===== *)
theory Mqtt_Packets
  imports Mqtt_Varint
begin

text \<open>
  The encoders of \<open>mqtt_codec.c\<close> against the packet they are meant to build: a type byte, the
  Remaining Length and a body (\<open>mqtt_packet\<close>), all inside the capacity the caller gave; and
  the decoders on such packets.
\<close>

definition mqtt_packet :: "u8 \<Rightarrow> bytes \<Rightarrow> bytes" where
  "mqtt_packet tf body = tf # varint (length body) @ body"

text \<open>A result that stays inside the first \<open>cap\<close> bytes of the buffer.\<close>

definition in_cap :: "bytes \<Rightarrow> nat \<Rightarrow> (nat \<times> bytes) option \<Rightarrow> bool" where
  "in_cap buf cap r \<longleftrightarrow> (\<exists>n buf'. r = Some (n, buf') \<and> n \<le> cap \<and>
     length buf' = length buf \<and> drop cap buf' = drop cap buf)"

lemma in_cap_zero [simp]: "in_cap buf cap (Some (0, buf))"
  by (simp add: in_cap_def)

lemma in_cap_overwrite:
  "length xs \<le> cap \<Longrightarrow> cap \<le> length buf \<Longrightarrow> n \<le> cap \<Longrightarrow> in_cap buf cap (Some (n, overwrite buf 0 xs))"
  by (simp add: in_cap_def overwrite_def)

lemma poke_append:
  assumes "length xs = off" "off + length ys \<le> length buf"
  shows "poke (overwrite buf 0 xs) off ys = Some (overwrite buf 0 (xs @ ys))"
  using assms by (simp add: poke_def overwrite_def drop_drop add.commute)

lemma poke_first:
  "length ys \<le> length buf \<Longrightarrow> poke buf 0 ys = Some (overwrite buf 0 ys)"
  by (simp add: poke_def)

lemma take_overwrite: "length xs \<le> length buf \<Longrightarrow> take (length xs) (overwrite buf 0 xs) = xs"
  by (simp add: overwrite_def)

section \<open>The fixed header\<close>

lemma write_fixed_eq:
  assumes "unat rl < 128 ^ 4" "cap \<le> length buf"
  shows "write_fixed buf cap tf rl =
    (if 1 + length (varint (unat rl)) \<le> cap
     then Some (1 + length (varint (unat rl)), overwrite buf 0 (tf # varint (unat rl)))
     else Some (0, buf))"
proof (cases "cap = 0")
  case False
  have l4: "length (varint (unat rl)) \<le> 4" using varint_length_le[of "unat rl" 3] assms(1) by simp
  then have w: "MqttCodec_WriteVarInt [0, 0, 0, 0] 4 rl
      = Some (length (varint (unat rl)), varint (unat rl) @ drop (length (varint (unat rl))) [0, 0, 0, 0])"
    using WriteVarInt_eq[OF assms(1), of 4 "[0, 0, 0, 0]"] by (simp add: overwrite_def)
  have tmp: "replicate MQTT_RL_MAX_BYTES (0 :: u8) = [0, 0, 0, 0]"
    by (simp add: MQTT_RL_MAX_BYTES_def numeral_eq_Suc)
  show ?thesis
    using False assms(2) w
    unfolding write_fixed_def tmp
    by (simp add: MQTT_RL_MAX_BYTES_def poke_first poke_append)
qed (simp add: write_fixed_def)

lemma write_fixed_header:
  assumes "unat rl < 128 ^ 4" "cap \<le> length buf"
  shows "write_fixed buf cap tf rl =
    (if length (tf # varint (unat rl)) \<le> cap
     then Some (length (tf # varint (unat rl)), overwrite buf 0 (tf # varint (unat rl)))
     else Some (0, buf))"
  using write_fixed_eq[OF assms] by simp

lemma decode_header:
  assumes "1 \<le> unat tf div 16" "unat tf div 16 \<le> 14" "n \<le> 2304"
  shows "MqttCodec_DecodeFixedHeader (tf # varint n @ rest) = (MQTT_CODEC_OK,
    Some \<lparr>fh_packet_type = ucast (drop_bit 4 tf), fh_flags = ucast (tf AND 0x0F),
      fh_remaining_length = of_nat n, fh_fixed_header_len = 1 + of_nat (length (varint n))\<rparr>)"
proof -
  have "unat (drop_bit 4 tf) = unat tf div 16" by (simp add: drop_bit_eq_div unat_div_distrib)
  moreover have "unat tf div 16 < 2 ^ 32"
    using unsigned_less[of tf, where ?'a = nat] by (simp add: div_less_iff_less_mult)
  ultimately have ty: "unat (ucast (drop_bit 4 tf) :: u32) = unat tf div 16"
    by (simp add: unsigned_ucast_eq take_bit_eq_mod)
  have l: "length (varint n) \<le> MQTT_RL_MAX_BYTES"
    using varint_length_le[of n 3] assms(3) by (simp add: MQTT_RL_MAX_BYTES_def)
  have rl: "(of_nat n :: u32) \<le> MQTT_MAX_PACKET_SIZE"
    using assms(3) by (simp add: MQTT_MAX_PACKET_SIZE_def word_le_nat_alt unat_of_nat take_bit_eq_mod)
  show ?thesis
    using assms(1,2) ty rl read_varint_loop_eq[OF l, of rest 0 1 0]
    by (simp add: MqttCodec_DecodeFixedHeader_def MqttCodec_ReadVarInt_def
        word_less_nat_alt word_le_nat_alt not_less)
qed

lemma decode_header_packet:
  assumes "1 \<le> unat tf div 16" "unat tf div 16 \<le> 14" "length body \<le> 2304"
  shows "MqttCodec_DecodeFixedHeader (mqtt_packet tf body @ rest) = (MQTT_CODEC_OK,
    Some \<lparr>fh_packet_type = ucast (drop_bit 4 tf), fh_flags = ucast (tf AND 0x0F),
      fh_remaining_length = of_nat (length body),
      fh_fixed_header_len = 1 + of_nat (length (varint (length body)))\<rparr>)"
  using decode_header[OF assms, of "body @ rest"] by (simp add: mqtt_packet_def)

section \<open>Big-endian fields\<close>

lemma length_be16_bytes [simp]: "length (be16_bytes v) = 2"
  by (simp add: be16_bytes_def)

lemma be16_read_bytes: "be16_read (be16_bytes v @ rest) 0 = v"
proof -
  have low: "\<forall>n \<in> set [0..<16]. bit (0xFF :: u16) n \<longleftrightarrow> n < 8" by code_simp
  have "push_bit 8 (ucast (ucast (drop_bit 8 v) :: u8) :: u16) OR ucast (ucast (v AND 0xFF) :: u8) = v"
  proof (rule bit_word_eqI)
    fix n assume n: "n < LENGTH(16)"
    have "bit (0xFF :: u16) n \<longleftrightarrow> n < 8"
      using n low by simp
    then show "bit (push_bit 8 (ucast (ucast (drop_bit 8 v) :: u8) :: u16) OR ucast (ucast (v AND 0xFF) :: u8)) n \<longleftrightarrow> bit v n"
      using n by (auto simp: bit_or_iff bit_push_bit_iff bit_ucast_iff bit_drop_bit_eq bit_and_iff)
  qed
  then show ?thesis by (simp add: be16_read_def be16_bytes_def)
qed

lemma be16_read_at: "length xs = off \<Longrightarrow> be16_read (xs @ be16_bytes v @ rest) off = v"
  using be16_read_bytes[of v rest] by (simp add: be16_read_def be16_bytes_def nth_append)


section \<open>The encoders write the packet or nothing\<close>

definition connect_body :: "bytes \<Rightarrow> u16 \<Rightarrow> bytes" where
  "connect_body cid keepalive_s =
     [0x00, 0x04, 0x4D, 0x51, 0x54, 0x54, MQTT_PROTOCOL_LEVEL, 0x02] @ be16_bytes keepalive_s @
     be16_bytes (of_nat (length cid)) @ cid"

definition publish_body :: "bytes \<Rightarrow> bytes \<Rightarrow> u8 \<Rightarrow> u16 \<Rightarrow> bytes" where
  "publish_body t payload qos packet_id =
     be16_bytes (of_nat (length t)) @ t @ (if qos > 0 then be16_bytes packet_id else []) @ payload"

text \<open>What an encoder returns for a packet: the packet, or no bytes when it does not fit.\<close>

definition encoded :: "bytes \<Rightarrow> nat \<Rightarrow> u8 \<Rightarrow> bytes \<Rightarrow> (nat \<times> bytes) option" where
  "encoded buf cap tf body =
     (let hd = tf # varint (length body); pkt = mqtt_packet tf body in
      if length pkt \<le> cap then Some (length pkt, overwrite buf 0 pkt)
      else Some (0, if length hd \<le> cap then overwrite buf 0 hd else buf))"

lemma encoded_in_cap: "cap \<le> length buf \<Longrightarrow> in_cap buf cap (encoded buf cap tf body)"
  by (simp add: encoded_def Let_def in_cap_overwrite)

lemma encoded_nonzero:
  assumes "encoded buf cap tf body = Some (n, out)" "n \<noteq> 0" "cap \<le> length buf"
  shows "n = length (mqtt_packet tf body) \<and> take n out = mqtt_packet tf body"
  using assms by (auto simp: encoded_def Let_def take_overwrite split: if_splits)

lemma unat_of_nat_u32: "n < 2 ^ 32 \<Longrightarrow> unat (of_nat n :: u32) = n"
  by (simp add: unat_of_nat take_bit_eq_mod)

lemma EncodeConnect_eq:
  assumes "cap \<le> length buf" "length cid \<noteq> 0" "length cid \<le> 64" "MqttUtf8_Valid (Some cid)"
  shows "MqttCodec_EncodeConnect buf cap (Some cid) ka = encoded buf cap 0x10 (connect_body cid ka)"
proof -
  have body: "length (connect_body cid ka) = 12 + length cid" by (simp add: connect_body_def)
  have word: "(10 + 2 + of_nat (length cid) :: u32) = of_nat (length (connect_body cid ka))"
    by (simp add: body)
  have rl: "unat (10 + 2 + of_nat (length cid) :: u32) = length (connect_body cid ka)"
    unfolding word using assms(3) by (intro unat_of_nat_u32) (simp add: body)
  have tf: "push_bit 4 MQTT_PKT_CONNECT = 0x10" by (simp add: MQTT_PKT_CONNECT_def)
  have "unat (10 + 2 + of_nat (length cid) :: u32) < 128 ^ 4" unfolding rl body using assms(3) by simp
  note wf = write_fixed_header[OF this assms(1), of "0x10", unfolded rl]
  define hd where "hd = 0x10 # varint (length (connect_body cid ka))"
  have fits: "length hd + 10 + 2 + length cid = length (hd @ connect_body cid ka)" by (simp add: body)
  show ?thesis
    using assms(2-4) assms(1)
    unfolding MqttCodec_EncodeConnect_def option.case Let_def tf wf hd_def[symmetric] encoded_def mqtt_packet_def
      append_Cons[symmetric]
    by (simp add: MQTT_MAX_CLIENT_ID_LENGTH_def be16_put_def fits not_le poke_append)
      (simp add: connect_body_def poke_append hd_def)
qed


definition publish_flags :: "u8 \<Rightarrow> bool \<Rightarrow> u8" where
  "publish_flags qos retain = push_bit 4 MQTT_PKT_PUBLISH OR (push_bit 1 qos OR (if retain then 1 else 0))"

lemma EncodePublish_eq:
  assumes "cap \<le> length buf" "length t \<noteq> 0" "length t \<le> 64" "qos \<le> 1" "length payload \<le> 2048"
    and "MqttUtf8_IsValidTopicName (Some t)"
  shows "MqttCodec_EncodePublish buf cap (Some t) payload qos retain pid =
    encoded buf cap (publish_flags qos retain) (publish_body t payload qos pid)"
proof -
  have body: "length (publish_body t payload qos pid) = 2 + length t + (if qos > 0 then 2 else 0) + length payload"
    by (simp add: publish_body_def)
  have word: "(2 + of_nat (length t) + (if qos > 0 then 2 else 0) + of_nat (length payload) :: u32)
      = of_nat (length (publish_body t payload qos pid))"
    by (simp add: body)
  have rl: "unat (2 + of_nat (length t) + (if qos > 0 then 2 else 0) + of_nat (length payload) :: u32)
      = length (publish_body t payload qos pid)"
    unfolding word using assms(3,5) by (intro unat_of_nat_u32) (simp add: body)
  have "unat (2 + of_nat (length t) + (if qos > 0 then 2 else 0) + of_nat (length payload) :: u32) < 128 ^ 4"
    unfolding rl body using assms(3,5) by simp
  note wf = write_fixed_header[OF this assms(1), of "publish_flags qos retain", unfolded rl]
  define hd where "hd = publish_flags qos retain # varint (length (publish_body t payload qos pid))"
  have valid: "\<not> (length t = 0 \<or> MQTT_MAX_TOPIC_LENGTH < length t \<or> 1 < qos \<or> MQTT_MAX_PAYLOAD_SIZE < length payload)"
    using assms(2-5) by (simp add: MQTT_MAX_TOPIC_LENGTH_def MQTT_MAX_PAYLOAD_SIZE_def not_less)
  have guards: "(if length t = 0 \<or> MQTT_MAX_TOPIC_LENGTH < length t \<or> 1 < qos \<or> MQTT_MAX_PAYLOAD_SIZE < length payload
      then x else if \<not> MqttUtf8_IsValidTopicName (Some t) then y else z) = z" for x y z :: "(nat \<times> bytes) option"
    using valid assms(6) by auto
  show ?thesis
    using assms(1)
    unfolding MqttCodec_EncodePublish_def option.case guards Let_def publish_flags_def[symmetric] wf rl
      hd_def[symmetric] encoded_def mqtt_packet_def append_Cons[symmetric]
    by (cases "qos > 0"; cases payload)
      (simp_all add: body be16_put_def not_le poke_append publish_body_def hd_def)
qed

end
