(* ===== verification/Mqtt_Codec_Props.thy ===== *)
theory Mqtt_Codec_Props
  imports Mqtt_Packets
begin

text \<open>
  The properties of the codec: the encoders stay inside the buffer, a PUBLISH packet is read
  back as it was written, and the SUBSCRIBE packet is not well-formed.
\<close>

lemma EncodeConnect_in_cap:
  assumes "cap \<le> length buf"
  shows "in_cap buf cap (MqttCodec_EncodeConnect buf cap cid ka)"
proof (cases cid)
  case (Some c)
  show ?thesis
  proof (cases "length c \<noteq> 0 \<and> length c \<le> 64 \<and> MqttUtf8_Valid (Some c)")
    case True
    then show ?thesis using assms Some by (simp add: EncodeConnect_eq encoded_in_cap)
  next
    case False
    then show ?thesis
      unfolding Some MqttCodec_EncodeConnect_def option.case MQTT_MAX_CLIENT_ID_LENGTH_def by auto
  qed
qed (simp add: MqttCodec_EncodeConnect_def)

lemma EncodePublish_cases:
  assumes "cap \<le> length buf"
  obtains (valid) t where "topic = Some t" "length t \<noteq> 0" "length t \<le> 64" "qos \<le> 1"
      "length payload \<le> 2048" "MqttUtf8_IsValidTopicName (Some t)"
      "MqttCodec_EncodePublish buf cap topic payload qos retain pid =
        encoded buf cap (publish_flags qos retain) (publish_body t payload qos pid)"
  | (rejected) "MqttCodec_EncodePublish buf cap topic payload qos retain pid = Some (0, buf)"
proof (cases topic)
  case None
  then show ?thesis using rejected by (simp add: MqttCodec_EncodePublish_def)
next
  case (Some t)
  show ?thesis
  proof (cases "length t \<noteq> 0 \<and> length t \<le> 64 \<and> qos \<le> 1 \<and> length payload \<le> 2048 \<and>
      MqttUtf8_IsValidTopicName (Some t)")
    case True
    then show ?thesis using valid[of t] Some assms by (simp add: EncodePublish_eq)
  next
    case False
    then show ?thesis
      by (intro rejected)
        (auto simp: Some MqttCodec_EncodePublish_def MQTT_MAX_TOPIC_LENGTH_def MQTT_MAX_PAYLOAD_SIZE_def
          not_le)
  qed
qed

text \<open>
  Claim C19. The CONNECT, PUBLISH, PINGREQ, DISCONNECT and PUBACK encoders are memory-safe for
  every input: with a capacity that does not exceed the buffer they never write at or beyond
  the capacity, and report at most that many bytes.
\<close>

theorem mqtt_encoders_in_bounds:
  assumes "cap \<le> length buf"
  shows "in_cap buf cap (MqttCodec_EncodeConnect buf cap cid ka) \<and>
    in_cap buf cap (MqttCodec_EncodePublish buf cap topic payload qos retain pid) \<and>
    in_cap buf cap (MqttCodec_EncodePingreq buf cap) \<and>
    in_cap buf cap (MqttCodec_EncodeDisconnect buf cap) \<and>
    in_cap buf cap (MqttCodec_EncodePuback buf cap pid)"
proof -
  have "in_cap buf cap (MqttCodec_EncodePublish buf cap topic payload qos retain pid)"
    using assms by (cases rule: EncodePublish_cases[OF assms, of topic qos payload retain pid])
      (simp_all add: encoded_in_cap)
  then show ?thesis
    using assms EncodeConnect_in_cap
    by (auto simp: MqttCodec_EncodePingreq_def MqttCodec_EncodeDisconnect_def MqttCodec_EncodePuback_def
        poke_first in_cap_overwrite)
qed

lemma mqtt_encoders_in_bounds_witness:
  "in_cap (replicate 30 0) 20 (MqttCodec_EncodeConnect (replicate 30 0) 20 (Some [0x72, 0x73]) 60)"
  using mqtt_encoders_in_bounds[of 20 "replicate 30 0"] by simp

section \<open>PUBLISH\<close>

lemma publish_flags_values:
  assumes "qos \<le> 1"
  shows "unat (publish_flags qos retain) div 16 = 3 \<and> drop_bit 4 (publish_flags qos retain) = 3 \<and>
    (let fl = ucast (publish_flags qos retain AND 0x0F) :: u32 in
      ucast (drop_bit 1 fl AND 0x03) = qos \<and> (fl AND 0x01 \<noteq> 0) = retain \<and> (fl AND 0x08 \<noteq> 0) = False)"
proof -
  have "\<forall>q \<in> set [0, 1]. \<forall>r \<in> set [True, False].
    unat (publish_flags q r) div 16 = 3 \<and> drop_bit 4 (publish_flags q r) = 3 \<and>
    (let fl = ucast (publish_flags q r AND 0x0F) :: u32 in
      ucast (drop_bit 1 fl AND 0x03) = q \<and> (fl AND 0x01 \<noteq> 0) = r \<and> (fl AND 0x08 \<noteq> 0) = False)"
    by code_simp
  moreover have "qos \<in> set [0, 1]"
  proof -
    have "unat qos = 0 \<or> unat qos = 1" using assms by (simp add: word_le_nat_alt) linarith
    then show ?thesis by (auto simp: word_unat_eq_iff)
  qed
  ultimately show ?thesis by (cases retain) auto
qed

lemma DecodePublish_body:
  assumes "length t \<noteq> 0" "length t \<le> 64" "length payload \<le> 2048" "MqttUtf8_IsValidTopicName (Some t)"
    and "qos > 0 \<longrightarrow> pid \<noteq> 0"
  shows "MqttCodec_DecodePublish qos retain dup (publish_body t payload qos pid) =
    (MQTT_CODEC_OK, Some \<lparr>ip_topic = t, ip_qos = qos, ip_retain = retain, ip_dup = dup,
       ip_packet_id = (if qos > 0 then pid else 0), ip_payload = payload\<rparr>)"
proof -
  have len: "unat (of_nat (length t) :: u16) = length t"
    using assms(2) by (simp add: unat_of_nat take_bit_eq_mod)
  have l0: "be16_read (publish_body t payload qos pid) 0 = of_nat (length t)"
    by (simp add: publish_body_def be16_read_bytes)
  have tp: "window (publish_body t payload qos pid) 2 (length t) = t"
    by (simp add: publish_body_def window_def be16_bytes_def)
  have pid: "qos > 0 \<Longrightarrow> be16_read (publish_body t payload qos pid) (2 + length t) = pid"
    using be16_read_at[of "be16_bytes (of_nat (length t)) @ t" "2 + length t" pid payload]
    by (simp add: publish_body_def)
  have rest: "drop (if qos > 0 then 2 + length t + 2 else 2 + length t) (publish_body t payload qos pid) = payload"
    by (simp add: publish_body_def)
  have lb: "length (publish_body t payload qos pid) = 2 + length t + (if qos > 0 then 2 else 0) + length payload"
    by (simp add: publish_body_def)
  show ?thesis
    unfolding MqttCodec_DecodePublish_def Let_def l0 len tp rest
    using assms pid by (simp add: lb MQTT_MAX_TOPIC_LENGTH_def MQTT_MAX_PAYLOAD_SIZE_def)
qed

text \<open>
  Claim C18. PUBLISH: whatever \<open>MqttCodec_EncodePublish\<close> writes, the client's own decoders read
  back: the fixed header announces exactly the bytes that follow it, and topic, payload, QoS,
  retain flag and packet identifier come back unchanged.
\<close>

theorem mqtt_publish_roundtrip:
  assumes "cap \<le> length buf"
    and "MqttCodec_EncodePublish buf cap (Some t) payload qos retain pid = Some (n, out)" "n \<noteq> 0"
    and "qos > 0 \<longrightarrow> pid \<noteq> 0"
  shows "\<exists>h. MqttCodec_DecodeFixedHeader (take n out) = (MQTT_CODEC_OK, Some h) \<and>
    fh_packet_type h = ucast MQTT_PKT_PUBLISH \<and>
    n = unat (fh_fixed_header_len h) + unat (fh_remaining_length h) \<and>
    (let fl = fh_flags h in
      MqttCodec_DecodePublish (ucast (drop_bit 1 fl AND 0x03)) (fl AND 0x01 \<noteq> 0) (fl AND 0x08 \<noteq> 0)
        (drop (unat (fh_fixed_header_len h)) (take n out)) =
      (MQTT_CODEC_OK, Some \<lparr>ip_topic = t, ip_qos = qos, ip_retain = retain, ip_dup = False,
         ip_packet_id = (if qos > 0 then pid else 0), ip_payload = payload\<rparr>))"
proof (cases rule: EncodePublish_cases[OF assms(1), of "Some t" qos payload retain pid, case_names valid rejected])
  case rejected
  then show ?thesis using assms(2,3) by simp
next
  case (valid t')
  let ?body = "publish_body t payload qos pid" and ?tf = "publish_flags qos retain"
  have v: "length t \<noteq> 0" "length t \<le> 64" "MqttUtf8_IsValidTopicName (Some t)"
    using valid(1-6) by simp_all
  have "encoded buf cap ?tf ?body = Some (n, out)" using valid assms(2) by simp
  from encoded_nonzero[OF this assms(3,1)]
  have out: "n = length (mqtt_packet ?tf ?body)" "take n out = mqtt_packet ?tf ?body" by blast+
  have lb: "length ?body \<le> 2304" using valid(5) v(2) by (simp add: publish_body_def)
  have lv: "length (varint (length ?body)) \<le> 4" using varint_length_le[of "length ?body" 3] lb by simp
  note fl = publish_flags_values[OF valid(4), of retain]
  have hl: "unat (1 + of_nat (length (varint (length ?body))) :: u32) = 1 + length (varint (length ?body))"
    using lv unat_of_nat_u32[of "1 + length (varint (length ?body))"] by simp
  let ?h = "\<lparr>fh_packet_type = ucast (drop_bit 4 ?tf), fh_flags = ucast (?tf AND 0x0F),
      fh_remaining_length = of_nat (length ?body),
      fh_fixed_header_len = 1 + of_nat (length (varint (length ?body)))\<rparr>"
  have dec: "MqttCodec_DecodeFixedHeader (take n out) = (MQTT_CODEC_OK, Some ?h)"
    using decode_header_packet[of ?tf ?body "[]"] fl lb unfolding out(2) by simp
  have len: "n = unat (fh_fixed_header_len ?h) + unat (fh_remaining_length ?h)"
    using unat_of_nat_u32[of "length ?body"] lb hl by (simp add: out(1) mqtt_packet_def)
  have body: "drop (unat (fh_fixed_header_len ?h)) (take n out) = ?body"
    unfolding out(2) by (simp add: hl mqtt_packet_def)
  have ty: "fh_packet_type ?h = ucast MQTT_PKT_PUBLISH" using fl by (simp add: MQTT_PKT_PUBLISH_def)
  have "let fl = fh_flags ?h in
      MqttCodec_DecodePublish (ucast (drop_bit 1 fl AND 0x03)) (fl AND 0x01 \<noteq> 0) (fl AND 0x08 \<noteq> 0)
        (drop (unat (fh_fixed_header_len ?h)) (take n out)) =
      (MQTT_CODEC_OK, Some \<lparr>ip_topic = t, ip_qos = qos, ip_retain = retain, ip_dup = False,
         ip_packet_id = (if qos > 0 then pid else 0), ip_payload = payload\<rparr>)"
    unfolding body using DecodePublish_body[OF v(1,2) valid(5) v(3) assms(4), of retain False] fl
    by (simp add: Let_def)
  then show ?thesis using dec len ty by blast
qed

lemma mqtt_publish_roundtrip_witness:
  "\<exists>n out h. MqttCodec_EncodePublish (replicate 20 0) 16 (Some [0x61, 0x2F, 0x62]) [1, 2] 1 True 7 = Some (n, out) \<and>
     MqttCodec_DecodeFixedHeader (take n out) = (MQTT_CODEC_OK, Some h) \<and>
     n = unat (fh_fixed_header_len h) + unat (fh_remaining_length h)"
proof -
  have "MqttUtf8_IsValidTopicName (Some [0x61, 0x2F, 0x62])" by code_simp
  then have "MqttCodec_EncodePublish (replicate 20 0) 16 (Some [0x61, 0x2F, 0x62]) [1, 2] 1 True 7 =
      encoded (replicate 20 0) 16 (publish_flags 1 True) (publish_body [0x61, 0x2F, 0x62] [1, 2] 1 7)"
    by (intro EncodePublish_eq) simp_all
  moreover have "\<exists>n out. encoded (replicate 20 0) 16 (publish_flags 1 True)
      (publish_body [0x61, 0x2F, 0x62] [1, 2] 1 7) = Some (n, out) \<and> n \<noteq> 0"
    by (simp add: encoded_def mqtt_packet_def publish_body_def be16_bytes_def varint.simps Let_def)
  ultimately show ?thesis
    using mqtt_publish_roundtrip[of 16 "replicate 20 0" "[0x61, 0x2F, 0x62]" "[1, 2]" 1 True 7] by fastforce
qed

section \<open>SUBSCRIBE\<close>

lemma EncodeSubscribe_eq:
  assumes "cap \<le> length buf" "length t \<noteq> 0" "length t \<le> 64" "qos \<le> 1" "pid \<noteq> 0"
    and "MqttUtf8_IsValidTopicFilter (Some t)" "length t + 5 \<le> cap"
  shows "MqttCodec_EncodeSubscribe buf cap (Some t) qos pid =
    (if length t + 7 \<le> length buf
     then Some (length t + 7, overwrite buf 0
       ([0x82, of_nat (length t + 3)] @ be16_bytes pid @ be16_bytes (of_nat (length t)) @ t @ [qos AND 0x01]))
     else None)"
proof -
  have word: "(2 + of_nat (length t) + 1 :: u32) = of_nat (length t + 3)" by simp
  have rl: "unat (2 + of_nat (length t) + 1 :: u32) = length t + 3"
    unfolding word using assms(3) by (intro unat_of_nat_u32) simp
  have v: "varint (length t + 3) = [of_nat (length t + 3)]"
    using assms(3) by (subst varint.simps) simp
  have tf: "push_bit 4 MQTT_PKT_SUBSCRIBE OR 0x02 = (0x82 :: u8)" by (simp add: MQTT_PKT_SUBSCRIBE_def)
  have "unat (2 + of_nat (length t) + 1 :: u32) < 128 ^ 4" unfolding rl using assms(3) by simp
  note wf = write_fixed_header[OF this assms(1), of "0x82", unfolded rl v]
  have guards: "(if length t = 0 \<or> MQTT_MAX_TOPIC_LENGTH < length t \<or> 1 < qos \<or> pid = 0
      then x else if \<not> MqttUtf8_IsValidTopicFilter (Some t) then y else z) = z" for x y z :: "(nat \<times> bytes) option"
    using assms by (auto simp: MQTT_MAX_TOPIC_LENGTH_def)
  define hd :: bytes where "hd = [0x82, of_nat (length t + 3)]"
  have hd: "length hd = 2" by (simp add: hd_def)
  show ?thesis
    using assms(1,7) unfolding MqttCodec_EncodeSubscribe_def option.case guards Let_def tf wf rl hd_def[symmetric]
    by (simp add: hd be16_put_def poke_append) (simp add: poke_def hd)
qed

text \<open>
  Claim C20. The SUBSCRIBE packet is malformed for every filter: its Remaining Length leaves out
  the two bytes of the filter length, so the packet announces two bytes less than it has; and
  because the capacity check uses the same number, a caller whose buffer holds exactly the
  announced packet gets a write behind its end.
\<close>

theorem mqtt_subscribe_malformed:
  assumes "length t \<noteq> 0" "length t \<le> 64" "qos \<le> 1" "pid \<noteq> 0" "MqttUtf8_IsValidTopicFilter (Some t)"
    and "length t + 5 \<le> cap" "cap \<le> length buf"
  shows "if length buf < length t + 7 then MqttCodec_EncodeSubscribe buf cap (Some t) qos pid = None
    else \<exists>n out h. MqttCodec_EncodeSubscribe buf cap (Some t) qos pid = Some (n, out) \<and>
      MqttCodec_DecodeFixedHeader (take n out) = (MQTT_CODEC_OK, Some h) \<and>
      n = unat (fh_fixed_header_len h) + unat (fh_remaining_length h) + 2"
proof (cases "length buf < length t + 7")
  case True
  then show ?thesis using EncodeSubscribe_eq[OF assms(7,1-6)] by simp
next
  case False
  define pkt where "pkt = [0x82, of_nat (length t + 3)] @ be16_bytes pid @ be16_bytes (of_nat (length t)) @ t @ [qos AND 0x01]"
  define rest where "rest = be16_bytes pid @ be16_bytes (of_nat (length t)) @ t @ [qos AND 0x01]"
  define body where "body = take (length t + 3) rest"
  have lb: "length body = length t + 3" by (simp add: body_def rest_def)
  have v: "varint (length body) = [of_nat (length t + 3)]"
    using assms(2) unfolding lb by (subst varint.simps) simp
  have enc: "MqttCodec_EncodeSubscribe buf cap (Some t) qos pid = Some (length t + 7, overwrite buf 0 pkt)"
    using EncodeSubscribe_eq[OF assms(7,1-6)] False by (simp add: pkt_def)
  have "length pkt = length t + 7" by (simp add: pkt_def)
  then have out: "take (length t + 7) (overwrite buf 0 pkt) = pkt"
    using take_overwrite[of pkt buf] False by simp
  have "rest = body @ drop (length t + 3) rest" by (simp add: body_def)
  moreover have "pkt = [0x82, of_nat (length t + 3)] @ rest" by (simp add: pkt_def rest_def)
  ultimately have "pkt = mqtt_packet 0x82 body @ drop (length t + 3) rest"
    unfolding mqtt_packet_def v by (metis append_Cons append_Nil append_assoc)
  then have "MqttCodec_DecodeFixedHeader pkt = (MQTT_CODEC_OK,
    Some \<lparr>fh_packet_type = ucast (drop_bit 4 (0x82 :: u8)), fh_flags = ucast (0x82 AND 0x0F :: u8),
      fh_remaining_length = of_nat (length t + 3), fh_fixed_header_len = 1 + of_nat 1\<rparr>)"
    using decode_header_packet[of "0x82" body] assms(2) v[unfolded lb] by (simp add: lb)
  moreover have "length t + 7 = unat (1 + of_nat 1 :: u32) + unat (of_nat (length t + 3) :: u32) + 2"
    using assms(2) by (subst unat_of_nat_u32) simp_all
  ultimately show ?thesis using False enc out by force
qed

lemma mqtt_subscribe_malformed_witness:
  "(\<exists>n out h. MqttCodec_EncodeSubscribe (replicate 2304 0) 2304 (Some [0x61]) 1 9 = Some (n, out) \<and>
      MqttCodec_DecodeFixedHeader (take n out) = (MQTT_CODEC_OK, Some h) \<and>
      n = unat (fh_fixed_header_len h) + unat (fh_remaining_length h) + 2) \<and>
   MqttCodec_EncodeSubscribe (replicate 6 0) 6 (Some [0x61]) 1 9 = None"
proof -
  have "MqttUtf8_IsValidTopicFilter (Some [0x61])" by code_simp
  then show ?thesis
    using mqtt_subscribe_malformed[of "[0x61]" 1 9 2304 "replicate 2304 0"]
      mqtt_subscribe_malformed[of "[0x61]" 1 9 6 "replicate 6 0"] by simp
qed

end
