(* ===== verification/Mqtt_Client_Inv.thy ===== *)
theory Mqtt_Client_Inv
  imports Mqtt_Client Mqtt_Codec_Props
begin

text \<open>
  The invariant of the MQTT client, kept by every operation: sizes of the buffers, packet
  identifiers that are never 0, and connection epochs that do not leak into one another.
\<close>

definition epoch_clear :: "MqttClient \<Rightarrow> bool" where
  "epoch_clear c \<longleftrightarrow>
     \<not> mc_tx_pending c \<and> mc_tx_kind c = TX_NONE \<and> mc_rx_len c = 0 \<and> mc_rx_total c = 0 \<and>
     \<not> mc_inflight_active c \<and> \<not> mc_sub_pending c \<and> \<not> mc_ack_pending c \<and>
     \<not> mc_ping_outstanding c \<and> \<not> mc_connack_deadline_set c"

definition no_transactions :: "MqttClient \<Rightarrow> bool" where
  "no_transactions c \<longleftrightarrow> \<not> mc_inflight_active c \<and> \<not> mc_sub_pending c \<and> \<not> mc_ping_outstanding c"

definition client_sizes :: "MqttClient \<Rightarrow> bool" where
  "client_sizes c \<longleftrightarrow>
     length (mc_tx_buf c) = 2304 \<and> length (mc_rx_buf c) = 2304 \<and>
     mc_tx_off c \<le> mc_tx_total c \<and> mc_tx_total c \<le> 2304"

definition client_ids :: "MqttClient \<Rightarrow> bool" where
  "client_ids c \<longleftrightarrow>
     mc_next_packet_id c \<noteq> 0 \<and> mc_next_sub_id c \<noteq> 0 \<and>
     (mc_inflight_active c \<longrightarrow> mc_inflight_packet_id c \<noteq> 0) \<and>
     (mc_sub_pending c \<longrightarrow> mc_sub_packet_id c \<noteq> 0) \<and>
     (mc_ack_pending c \<longrightarrow> mc_ack_pending_id c \<noteq> 0)"

definition client_epoch :: "MqttClient \<Rightarrow> bool" where
  "client_epoch c \<longleftrightarrow>
     (mc_state c \<in> {MQTT_STATE_DISCONNECTED, MQTT_STATE_CONNECTING_TRANSPORT, MQTT_STATE_ERROR} \<longrightarrow>
        epoch_clear c) \<and>
     (mc_state c = MQTT_STATE_WAIT_CONNACK \<longrightarrow> no_transactions c \<and>
        (mc_tx_pending c \<longrightarrow> mc_tx_kind c = TX_CONNECT \<or> mc_tx_kind c = TX_PUBACK)) \<and>
     (mc_tx_pending c \<and> mc_tx_kind c = TX_CONNECT \<longrightarrow> no_transactions c)"

definition mqtt_inv :: "MqttClient \<Rightarrow> bool" where
  "mqtt_inv c \<longleftrightarrow> client_sizes c \<and> client_ids c \<and> client_epoch c"

text \<open>The connection is up: \<open>live True\<close> after the CONNACK, \<open>live False\<close> from the CONNECT on.\<close>

definition live :: "bool \<Rightarrow> MqttClient \<Rightarrow> bool" where
  "live b c \<longleftrightarrow> mc_state c = MQTT_STATE_CONNECTED \<or> \<not> b \<and> mc_state c = MQTT_STATE_WAIT_CONNACK"

lemmas mqtt_inv_defs =
  mqtt_inv_def client_sizes_def client_ids_def client_epoch_def epoch_clear_def no_transactions_def

section \<open>Simple updates\<close>

lemma inv_upd_stats [simp]:
  "mqtt_inv (upd_stats f c) = mqtt_inv c" "live b (upd_stats f c) = live b c"
  "mqtt_inv (count_rx c) = mqtt_inv c" "live b (count_rx c) = live b c"
  by (simp_all add: mqtt_inv_defs live_def upd_stats_def count_rx_def)

lemma upd_stats_sel [simp]:
  "mc_state (upd_stats f c) = mc_state c" "mc_tx_pending (upd_stats f c) = mc_tx_pending c"
  "mc_tx_buf (upd_stats f c) = mc_tx_buf c" "mc_rx_buf (upd_stats f c) = mc_rx_buf c"
  "mc_tx_kind (upd_stats f c) = mc_tx_kind c" "mc_tx_total (upd_stats f c) = mc_tx_total c"
  "mc_tx_off (upd_stats f c) = mc_tx_off c"
  "mc_rx_len (upd_stats f c) = mc_rx_len c" "mc_rx_total (upd_stats f c) = mc_rx_total c"
  "mc_inflight_active (upd_stats f c) = mc_inflight_active c"
  "mc_inflight_packet_id (upd_stats f c) = mc_inflight_packet_id c"
  "mc_sub_pending (upd_stats f c) = mc_sub_pending c"
  "mc_sub_packet_id (upd_stats f c) = mc_sub_packet_id c"
  "mc_ack_pending (upd_stats f c) = mc_ack_pending c"
  "mc_ack_pending_id (upd_stats f c) = mc_ack_pending_id c"
  "mc_ping_outstanding (upd_stats f c) = mc_ping_outstanding c"
  "mc_connack_deadline_set (upd_stats f c) = mc_connack_deadline_set c"
  "mc_next_packet_id (upd_stats f c) = mc_next_packet_id c"
  "mc_next_sub_id (upd_stats f c) = mc_next_sub_id c"
  by (simp_all add: upd_stats_def)

lemma upd_c_sel [simp]:
  "mq_c (upd_c f w) = f (mq_c w)" "mq_t (upd_c f w) = mq_t w" "mq_a (upd_c f w) = mq_a w"
  "mq_now (upd_c f w) = mq_now w" "mq_x (upd_c f w) = mq_x w"
  by (simp_all add: upd_c_def)

lemma CloseTransport_c [simp]: "mq_c (CloseTransport ad w) = mq_c w"
  by (simp add: CloseTransport_def split: prod.split)

lemma inv_reset: "mqtt_inv c \<Longrightarrow> mqtt_inv (ResetConnectionEpoch c\<lparr>mc_state := s\<rparr>)"
  if "s = MQTT_STATE_DISCONNECTED \<or> s = MQTT_STATE_ERROR"
  using that by (auto simp: mqtt_inv_defs ResetConnectionEpoch_def)

lemma inv_EnterError: "mqtt_inv c \<Longrightarrow> mqtt_inv (MqttClient_EnterError reason c)"
  by (auto simp: MqttClient_EnterError_def Let_def mqtt_inv_defs ResetConnectionEpoch_def upd_stats_def)

lemma inv_fail: "mqtt_inv (mq_c w) \<Longrightarrow> mqtt_inv (mq_c (fail_connection ad r w))"
  by (simp add: fail_connection_def inv_EnterError)

lemma poke_length: "poke xs off ys = Some zs \<Longrightarrow> length zs = length xs"
  by (auto simp: poke_def split: if_splits)

lemma StartTx_some:
  assumes "StartTx c pkt n kind = Some c'"
  obtains buf where "length buf = length (mc_tx_buf c)"
    "c' = c\<lparr>mc_tx_buf := buf, mc_tx_total := n, mc_tx_off := 0, mc_tx_kind := kind, mc_tx_pending := (n > 0)\<rparr>"
proof -
  from assms obtain buf where
    "(case pkt of Some p \<Rightarrow> if n > 0 then poke (mc_tx_buf c) 0 (take n p) else Some (mc_tx_buf c)
       | None \<Rightarrow> Some (mc_tx_buf c)) = Some buf"
    "c' = c\<lparr>mc_tx_buf := buf, mc_tx_total := n, mc_tx_off := 0, mc_tx_kind := kind, mc_tx_pending := (n > 0)\<rparr>"
    unfolding StartTx_def by (auto simp: bind_eq_Some_conv)
  moreover from this(1) have "length buf = length (mc_tx_buf c)"
    by (auto split: option.splits if_splits dest: poke_length)
  ultimately show ?thesis using that by blast
qed

lemma inv_StartTx:
  assumes "StartTx c pkt n kind = Some c'" "mqtt_inv c" "n \<le> 2304" "live b c"
    and "kind = TX_CONNECT \<longrightarrow> no_transactions c"
    and "mc_state c = MQTT_STATE_WAIT_CONNACK \<longrightarrow> kind = TX_CONNECT \<or> kind = TX_PUBACK"
  shows "mqtt_inv c' \<and> mc_state c' = mc_state c"
proof -
  obtain buf where "length buf = length (mc_tx_buf c)"
    "c' = c\<lparr>mc_tx_buf := buf, mc_tx_total := n, mc_tx_off := 0, mc_tx_kind := kind, mc_tx_pending := (n > 0)\<rparr>"
    using StartTx_some[OF assms(1)] .
  then show ?thesis
    using assms(2-6) by (cases "mc_state c") (simp_all add: mqtt_inv_defs live_def)
qed

section \<open>Draining\<close>

lemma send_loop_accepted: "send_loop t data n = (t', n') \<Longrightarrow> n' \<le> n + length data"
  by (induction data arbitrary: t n) (fastforce split: if_splits)+

lemma Send_accepted: "NetworkTransport_Send t (Some data) = (s, n, t') \<Longrightarrow> n \<le> length data"
  using send_loop_accepted[of t data 0]
  by (auto simp: NetworkTransport_Send_def split: if_splits prod.splits)

lemma inv_tx_complete:
  assumes "mqtt_inv c" "mc_tx_pending c"
  shows "mqtt_inv (tx_complete now c)"
  using assms
  by (cases "mc_tx_kind c") (auto simp: tx_complete_def Let_def mqtt_inv_defs upd_stats_def)

lemma inv_DrainTx:
  assumes "MqttClient_DrainTx ad w = (s, w')" "mqtt_inv (mq_c w)"
  shows "mqtt_inv (mq_c w')"
proof (cases "mc_tx_pending (mq_c w)")
  case False
  then show ?thesis using assms by (simp add: MqttClient_DrainTx_def)
next
  case True
  let ?c = "mq_c w"
  obtain ns k t where send: "NetworkTransport_Send (mq_t w)
      (Some (window (mc_tx_buf ?c) (mc_tx_off ?c) (mc_tx_total ?c - mc_tx_off ?c))) = (ns, k, t)"
    by (metis prod_cases3)
  have k: "k \<le> mc_tx_total ?c - mc_tx_off ?c" using Send_accepted[OF send] by simp
  let ?d = "?c\<lparr>mc_tx_off := mc_tx_off ?c + k\<rparr>" and ?w = "w\<lparr>mq_t := t\<rparr>"
  have "mc_tx_off ?c + k \<le> mc_tx_total ?c"
    using assms(2) k by (auto simp: mqtt_inv_def client_sizes_def)
  then have d: "mqtt_inv ?d" using assms(2) by (simp add: mqtt_inv_defs)
  have eq: "w' = (if ns = NET_OK
      then ?w\<lparr>mq_c := (if mc_tx_off ?d \<ge> mc_tx_total ?d then tx_complete (mq_now w) ?d else ?d)\<rparr>
      else if ns = NET_WOULD_BLOCK then ?w else fail_connection ad MQTT_TRANSPORT_ERROR ?w)"
    using assms(1) True send unfolding MqttClient_DrainTx_def Let_def by (simp split: if_splits)
  have "mqtt_inv (tx_complete (mq_now w) ?d)" using inv_tx_complete[OF d] True by simp
  moreover have "mqtt_inv (mq_c (fail_connection ad MQTT_TRANSPORT_ERROR ?w))"
    using inv_fail[of ?w] assms(2) by simp
  ultimately show ?thesis unfolding eq using d assms(2) by simp
qed

end
