(* ===== verification/Mqtt_Client_Ingest.thy ===== *)
theory Mqtt_Client_Ingest
  imports Mqtt_Client_Inv
begin

text \<open>The inbound side of the client keeps the invariant.\<close>

text \<open>After a handler: the invariant, and while it reports success the connection is live.\<close>

definition handled :: "bool \<Rightarrow> MqttStatus \<Rightarrow> MqttClient \<Rightarrow> bool" where
  "handled b s c \<longleftrightarrow> mqtt_inv c \<and> (s = MQTT_OK \<or> s = MQTT_WOULD_BLOCK \<longrightarrow> live b c)"

lemma handled_same: "mqtt_inv c \<Longrightarrow> live b c \<Longrightarrow> handled b s c"
  by (simp add: handled_def)

lemma handled_fail: "mqtt_inv (mq_c w) \<Longrightarrow> s \<noteq> MQTT_OK \<Longrightarrow> s \<noteq> MQTT_WOULD_BLOCK \<Longrightarrow> handled b s (mq_c (fail_connection ad r w))"
  by (simp add: handled_def inv_fail)

lemma live_states [simp]:
  "mc_state c = MQTT_STATE_CONNECTED \<Longrightarrow> live b c" "mc_state c = MQTT_STATE_WAIT_CONNACK \<Longrightarrow> live False c"
  by (simp_all add: live_def)

lemma handled_Connack:
  assumes "HandleConnack ad w = (s, w')" "mqtt_inv (mq_c w)" "live b (mq_c w)"
  shows "handled b s (mq_c w')"
proof -
  obtain rs ca where d: "MqttCodec_DecodeConnack (rx_body (mq_c w)) = (rs, ca)" by fastforce
  let ?ok = "count_rx ((upd_stats (\<lambda>s. s\<lparr>st_connect_successes := st_connect_successes s + 1\<rparr>) (mq_c w))
    \<lparr>mc_state := MQTT_STATE_CONNECTED, mc_connack_deadline_set := False, mc_last_activity_ms := mq_now w\<rparr>)"
  have ok: "handled b MQTT_OK ?ok"
    using assms(2,3) by (cases "mc_state (mq_c w)")
      (simp_all add: handled_def live_def mqtt_inv_defs upd_stats_def count_rx_def)
  show ?thesis
    using assms d ok unfolding HandleConnack_def Let_def
    by (auto simp: handled_same handled_fail split: if_splits)
qed

lemma inv_clear:
  assumes "mqtt_inv c"
  shows "mqtt_inv (c\<lparr>mc_inflight_active := False\<rparr>)" "mqtt_inv (c\<lparr>mc_sub_pending := False\<rparr>)"
    "mqtt_inv (c\<lparr>mc_ping_outstanding := False\<rparr>)" "mqtt_inv (c\<lparr>mc_last_activity_ms := t\<rparr>)"
    "mqtt_inv (c\<lparr>mc_ack_pending := False\<rparr>)"
  using assms by (simp_all add: mqtt_inv_defs)

lemma live_clear [simp]:
  "live b (c\<lparr>mc_inflight_active := q\<rparr>) = live b c" "live b (c\<lparr>mc_sub_pending := q\<rparr>) = live b c"
  "live b (c\<lparr>mc_ping_outstanding := q\<rparr>) = live b c" "live b (c\<lparr>mc_last_activity_ms := t\<rparr>) = live b c"
  "live b (c\<lparr>mc_ack_pending := q\<rparr>) = live b c" "live b (c\<lparr>mc_ack_pending_id := i\<rparr>) = live b c"
  "live b (c\<lparr>mc_rx_buf := bs\<rparr>) = live b c" "live b (c\<lparr>mc_rx_len := n\<rparr>) = live b c"
  by (simp_all add: live_def)

lemma inv_defer_ack:
  "mqtt_inv c \<Longrightarrow> live b c \<Longrightarrow> i \<noteq> 0 \<Longrightarrow> mqtt_inv (c\<lparr>mc_ack_pending := True, mc_ack_pending_id := i\<rparr>)"
  by (cases "mc_state c") (simp_all add: mqtt_inv_defs live_def)

lemma handled_Puback:
  assumes "HandlePuback c = (s, c')" "mqtt_inv c" "live b c"
  shows "handled b s c'"
  using assms unfolding HandlePuback_def Let_def
  by (auto simp: handled_def inv_clear split: if_splits prod.splits)

lemma handled_Suback:
  assumes "HandleSuback c = (s, c')" "mqtt_inv c" "live b c"
  shows "handled b s c'"
  using assms unfolding HandleSuback_def Let_def
  by (auto simp: handled_def inv_clear split: if_splits prod.splits)

lemma handled_Pingresp:
  assumes "HandlePingresp now c = (s, c')" "mqtt_inv c" "live b c"
  shows "handled b s c'"
  using assms unfolding HandlePingresp_def Let_def
  by (auto simp: handled_def inv_clear split: if_splits)

lemma DecodePublish_pid:
  "MqttCodec_DecodePublish qos r d body = (MQTT_CODEC_OK, p) \<Longrightarrow> qos > 0 \<Longrightarrow> ip_packet_id (the p) \<noteq> 0"
  unfolding MqttCodec_DecodePublish_def Let_def by (auto split: if_splits)

lemma EncodePuback_some:
  assumes "MqttCodec_EncodePuback (replicate 4 0) 4 i = Some (n, pkt)"
  shows "n \<le> 4"
  using assms unfolding MqttCodec_EncodePuback_def by (auto split: if_splits bind_splits)

lemma handled_Publish:
  assumes "HandleInboundPublish cb w = Some (s, w')" "mqtt_inv (mq_c w)" "live b (mq_c w)"
  shows "handled b s (mq_c w')"
proof -
  let ?c = "mq_c w"
  let ?qos = "drop_bit 1 (mc_rx_flags ?c) AND 0x03"
  obtain rs pub where d: "MqttCodec_DecodePublish (ucast ?qos) (mc_rx_flags ?c AND 0x01 \<noteq> 0)
      (mc_rx_flags ?c AND 0x08 \<noteq> 0) (rx_body ?c) = (rs, pub)" by fastforce
  obtain ack x where cb: "(case cb of Some f \<Rightarrow> f ?c (mq_x w) (the pub) | None \<Rightarrow> (False, mq_x w)) = (ack, x)"
    by fastforce
  have c: "mqtt_inv (count_rx ?c)" "live b (count_rx ?c)" using assms(2,3) by simp_all
  show ?thesis
  proof (cases "rs = MQTT_CODEC_OK \<and> ?qos = 1 \<and> ack")
    case False
    then show ?thesis
      using assms d cb c unfolding HandleInboundPublish_def Let_def
      by (auto simp: handled_def split: if_splits)
  next
    case True
    then have pid: "ip_packet_id (the pub) \<noteq> 0" using DecodePublish_pid d by simp
    show ?thesis
    proof (cases "mc_tx_pending (count_rx ?c)")
      case True
      then show ?thesis
        using \<open>rs = _ \<and> _ \<and> _\<close> assms(1) d cb inv_defer_ack[OF c pid] c
        unfolding HandleInboundPublish_def Let_def by (auto simp: handled_def)
    next
      case False
      then show ?thesis
        using \<open>rs = _ \<and> _ \<and> _\<close> assms(1) d cb c inv_StartTx[OF _ c(1) _ c(2)] EncodePuback_some
        unfolding HandleInboundPublish_def Let_def
        by (fastforce simp: handled_def live_def split: bind_splits if_splits)
    qed
  qed
qed


lemma if_someE:
  assumes "(if c then x else y) = Some r"
  obtains "c" "x = Some r" | "\<not> c" "y = Some r"
  using assms by (cases c) auto

lemma handled_Dispatch:
  assumes "DispatchPacket ad cb w = Some (s, w')" "mqtt_inv (mq_c w)" "live b (mq_c w)"
  shows "handled b s (mq_c w')"
  using assms(1) unfolding DispatchPacket_def Let_def
proof (elim if_someE, goal_cases)
  case 3
  then show ?case using handled_Connack[of ad w s w' b] assms(2,3) by simp
next
  case 4
  then show ?case using handled_Publish[of cb w s w' b] assms(2,3) by simp
next
  case 6
  then show ?case using handled_Puback[of "mq_c w" _ _ b] assms(2,3) by (auto split: prod.splits)
next
  case 8
  then show ?case using handled_Suback[of "mq_c w" _ _ b] assms(2,3) by (auto split: prod.splits)
next
  case 10
  then show ?case using handled_Pingresp[of "mq_now w" "mq_c w" _ _ b] assms(2,3) by (auto split: prod.splits)
qed (use assms(2,3) handled_same in auto)

section \<open>The loop\<close>

fun good :: "bool \<Rightarrow> ('a, 'x) mqtt outcome \<Rightarrow> bool" where
  "good b (Return s w) = handled b s (mq_c w)"
| "good b (Continue w) = (mqtt_inv (mq_c w) \<and> live b (mq_c w))"
| "good b (Fall w) = (mqtt_inv (mq_c w) \<and> live b (mq_c w))"

lemma inv_rx:
  assumes "mqtt_inv c" "live b c"
  shows "mqtt_inv (c\<lparr>mc_rx_len := n\<rparr>)"
    and "length bs = length (mc_rx_buf c) \<Longrightarrow> mqtt_inv (c\<lparr>mc_rx_buf := bs\<rparr>)"
    and "mqtt_inv (c\<lparr>mc_rx_fixed_len := a, mc_rx_type := f, mc_rx_flags := d, mc_rx_total := e\<rparr>)"
    and "live b (c\<lparr>mc_rx_fixed_len := a, mc_rx_type := f, mc_rx_flags := d, mc_rx_total := e\<rparr>)"
    and "mqtt_inv (reset_parser c)" "live b (reset_parser c)"
  using assms by (cases "mc_state c"; simp add: mqtt_inv_defs live_def reset_parser_def)+

lemma TryParse_good:
  assumes "TryParseHeader c = (rs, c')" "mqtt_inv c" "live b c"
  shows "mqtt_inv c'" "live b c'"
  using assms inv_rx[OF assms(2,3)]
  by (auto simp: TryParseHeader_def Let_def split: prod.splits if_splits)

lemma receive_into_good:
  assumes "receive_into off want w = Some (ns, n, w')" "mqtt_inv (mq_c w)" "live b (mq_c w)"
  shows "mqtt_inv (mq_c w')" "live b (mq_c w')"
proof -
  obtain s bs t where r: "NetworkTransport_Receive (mq_t w) (Some want) = (s, bs, t)" by (metis prod_cases3)
  then obtain buf where b: "poke (mc_rx_buf (mq_c w)) off bs = Some buf"
      "w' = w\<lparr>mq_t := t, mq_c := (mq_c w)\<lparr>mc_rx_buf := buf\<rparr>\<rparr>"
    using assms(1) by (auto simp: receive_into_def bind_eq_Some_conv)
  then show "mqtt_inv (mq_c w')" "live b (mq_c w')"
    using inv_rx(2)[OF assms(2,3) poke_length] assms(3) by simp_all
qed

lemma after_receive_good:
  assumes "after_receive ad (ns, n, w) k = Some r" "mqtt_inv (mq_c w)" "live b (mq_c w)"
    and "\<And>r. k n w = Some r \<Longrightarrow> good b r"
  shows "good b r"
  using assms by (auto simp: after_receive_def handled_same handled_fail split: if_splits)

lemma header_verdict_good:
  "mqtt_inv (mq_c w) \<Longrightarrow> live b (mq_c w) \<Longrightarrow> good b (header_verdict ad rs w)"
  by (simp add: header_verdict_def handled_fail)

lemma ingest_parse_good:
  assumes "ingest_parse ad w = Some r" "mqtt_inv (mq_c w)" "live b (mq_c w)"
  shows "good b r"
proof -
  obtain rs c where p: "TryParseHeader (mq_c w) = (rs, c)" by fastforce
  note pg = TryParse_good[OF p assms(2,3)]
  show ?thesis
  proof (cases "rs = MQTT_CODEC_WOULD_BLOCK")
    case False
    then show ?thesis using assms(1) p pg by (auto simp: ingest_parse_def Let_def header_verdict_good)
  next
    case True
    let ?w = "w\<lparr>mq_c := c\<rparr>"
    obtain ns n w1 where ri: "receive_into (mc_rx_len c) (MQTT_FIXED_HEADER_MAX - mc_rx_len c) ?w = Some (ns, n, w1)"
        and ar: "after_receive ad (ns, n, w1) (\<lambda>got w.
          case TryParseHeader ((mq_c w)\<lparr>mc_rx_len := mc_rx_len (mq_c w) + got\<rparr>) of (rs, c) \<Rightarrow>
          let w = w\<lparr>mq_c := c\<rparr> in
          if rs = MQTT_CODEC_WOULD_BLOCK then Some (Continue w)
          else Some (header_verdict ad rs w)) = Some r"
      using assms(1) p True by (auto simp: ingest_parse_def Let_def bind_eq_Some_conv)
    have g: "mqtt_inv (mq_c w1)" "live b (mq_c w1)" using receive_into_good[OF ri] pg by simp_all
    show ?thesis
    proof (rule after_receive_good[OF ar g])
      fix r assume k: "(case TryParseHeader ((mq_c w1)\<lparr>mc_rx_len := mc_rx_len (mq_c w1) + n\<rparr>) of (rs, c) \<Rightarrow>
          let w = w1\<lparr>mq_c := c\<rparr> in
          if rs = MQTT_CODEC_WOULD_BLOCK then Some (Continue w)
          else Some (header_verdict ad rs w)) = Some r"
      obtain rs2 c2 where p2: "TryParseHeader ((mq_c w1)\<lparr>mc_rx_len := mc_rx_len (mq_c w1) + n\<rparr>) = (rs2, c2)"
        by fastforce
      show "good b r"
        using k p2 TryParse_good[OF p2] inv_rx(1)[OF g] g(2)
        by (auto simp: Let_def header_verdict_good split: if_splits)
    qed
  qed
qed

lemma ingest_header_good:
  assumes "ingest_header ad w = Some r" "mqtt_inv (mq_c w)" "live b (mq_c w)"
  shows "good b r"
proof (cases "mc_rx_len (mq_c w) = 0")
  case False
  then show ?thesis
    using assms ingest_parse_good[OF _ assms(2,3)] by (auto simp: ingest_header_def split: if_splits)
next
  case True
  obtain ns n w1 where ri: "receive_into 0 MQTT_FIXED_HEADER_MAX w = Some (ns, n, w1)"
      and ar: "after_receive ad (ns, n, w1) (\<lambda>got w. ingest_parse ad (upd_c (\<lambda>c. c\<lparr>mc_rx_len := got\<rparr>) w)) = Some r"
    using assms(1) True by (auto simp: ingest_header_def bind_eq_Some_conv)
  note g = receive_into_good[OF ri assms(2,3)]
  show ?thesis
    by (rule after_receive_good[OF ar g]) (auto intro!: ingest_parse_good simp: inv_rx(1)[OF g] g(2))
qed

lemma ingest_body_good:
  assumes "ingest_body ad w = Some r" "mqtt_inv (mq_c w)" "live b (mq_c w)"
  shows "good b r"
proof (cases "mc_rx_len (mq_c w) < mc_rx_total (mq_c w)")
  case False
  then show ?thesis using assms by (auto simp: ingest_body_def Let_def)
next
  case True
  obtain ns n w1 where ri: "receive_into (mc_rx_len (mq_c w)) (mc_rx_total (mq_c w) - mc_rx_len (mq_c w)) w = Some (ns, n, w1)"
      and ar: "after_receive ad (ns, n, w1) (\<lambda>got w.
          let w = upd_c (\<lambda>c. c\<lparr>mc_rx_len := mc_rx_len c + got\<rparr>) w in
          if mc_rx_len (mq_c w) < mc_rx_total (mq_c w) then Some (Return MQTT_WOULD_BLOCK w)
          else Some (Fall w)) = Some r"
    using assms(1) True by (auto simp: ingest_body_def Let_def bind_eq_Some_conv)
  note g = receive_into_good[OF ri assms(2,3)]
  show ?thesis
  proof (rule after_receive_good[OF ar g])
    fix r assume k: "(let w = upd_c (\<lambda>c. c\<lparr>mc_rx_len := mc_rx_len c + n\<rparr>) w1 in
          if mc_rx_len (mq_c w) < mc_rx_total (mq_c w) then Some (Return MQTT_WOULD_BLOCK w)
          else Some (Fall w)) = Some r"
    have "handled b MQTT_WOULD_BLOCK ((mq_c w1)\<lparr>mc_rx_len := mc_rx_len (mq_c w1) + n\<rparr>)"
      by (rule handled_same) (simp_all add: inv_rx(1)[OF g] g(2))
    then show "good b r" using k by (auto simp: Let_def handled_def split: if_splits)
  qed
qed

lemma ingest_dispatch_good:
  assumes "ingest_dispatch ad cb w = Some r" "mqtt_inv (mq_c w)" "live b (mq_c w)"
  shows "good b r"
proof -
  obtain s w1 where d: "DispatchPacket ad cb w = Some (s, w1)" and r: "r = (if s \<noteq> MQTT_OK
      then Return s (if s = MQTT_PROTOCOL_ERROR \<or> s = MQTT_PACKET_TOO_LARGE then fail_connection ad s w1 else w1)
      else Fall (upd_c reset_parser w1))"
    using assms(1) by (auto simp: ingest_dispatch_def bind_eq_Some_conv)
  from handled_Dispatch[OF d assms(2,3)] show ?thesis
    using inv_rx(5,6) by (auto simp: r handled_def inv_fail)
qed

lemma on_fall_good:
  assumes "on_fall k r = Some r'" "good b r"
    and "\<And>w r. k w = Some r \<Longrightarrow> mqtt_inv (mq_c w) \<Longrightarrow> live b (mq_c w) \<Longrightarrow> good b r"
  shows "good b r'"
  using assms by (cases r) (auto simp: on_fall_def)

lemma Ingest_loop_handled:
  assumes "Ingest_loop ad cb p w = Some (s, w')" "mqtt_inv (mq_c w)" "live b (mq_c w)"
  shows "handled b s (mq_c w')"
  using assms
proof (induction p arbitrary: w)
  case 0
  then show ?case by (simp add: handled_same)
next
  case (Suc p)
  obtain r1 r2 r3 where r: "ingest_header ad w = Some r1" "on_fall (ingest_body ad) r1 = Some r2"
      "on_fall (ingest_dispatch ad cb) r2 = Some r3"
      "(case r3 of Return s w \<Rightarrow> Some (s, w) | Continue w \<Rightarrow> Ingest_loop ad cb p w
        | Fall w \<Rightarrow> Ingest_loop ad cb p w) = Some (s, w')"
    using Suc.prems(1) by (auto simp: bind_eq_Some_conv)
  have "good b r1" using ingest_header_good r(1) Suc.prems(2,3) by blast
  then have "good b r2" using on_fall_good[OF r(2)] ingest_body_good by blast
  then have g: "good b r3" using on_fall_good[OF r(3)] ingest_dispatch_good by blast
  then show ?case using r(4) Suc.IH by (cases r3) simp_all
qed

end
