(* ===== verification/Mqtt_Client_Props.thy ===== *)
theory Mqtt_Client_Props
  imports Mqtt_Client_Ingest Net_Stream
begin

text \<open>
  The properties of the MQTT client: the invariant of all reachable states, the time the client
  waits for a CONNACK, and the receive path.
\<close>

section \<open>The invariant of every operation\<close>

lemma in_cap_some:
  assumes "in_cap buf 2304 (Some (n, out))" "length buf = 2304"
  shows "n \<le> 2304" "length out = 2304"
  using assms by (auto simp: in_cap_def)

lemma EncodeSubscribe_cap:
  assumes "MqttCodec_EncodeSubscribe buf 2304 topic qos pid = Some (n, out)" "length buf = 2304"
  shows "n \<le> 2304 \<and> length out = 2304"
proof (cases "\<exists>t. topic = Some t \<and> length t \<noteq> 0 \<and> length t \<le> 64 \<and> qos \<le> 1 \<and> pid \<noteq> 0 \<and>
    MqttUtf8_IsValidTopicFilter (Some t)")
  case True
  then obtain t where t: "topic = Some t" "length t \<noteq> 0" "length t \<le> 64" "qos \<le> 1" "pid \<noteq> 0"
    "MqttUtf8_IsValidTopicFilter (Some t)" by blast
  show ?thesis
    using assms EncodeSubscribe_eq[of 2304 buf t qos pid] t by (auto split: if_splits)
next
  case False
  then have "MqttCodec_EncodeSubscribe buf 2304 topic qos pid = Some (0, buf)"
    by (cases topic) (auto simp: MqttCodec_EncodeSubscribe_def MQTT_MAX_TOPIC_LENGTH_def not_le)
  then show ?thesis using assms by simp
qed

lemma packet_size [simp]: "unat MQTT_MAX_PACKET_SIZE = 2304"
  by (simp add: MQTT_MAX_PACKET_SIZE_def)

lemma inv_sizes:
  "mqtt_inv c \<Longrightarrow> length (mc_tx_buf c) = 2304" "mqtt_inv c \<Longrightarrow> length (mc_rx_buf c) = 2304"
  by (simp_all add: mqtt_inv_def client_sizes_def)

lemma inv_tx_buf: "mqtt_inv c \<Longrightarrow> length bs = 2304 \<Longrightarrow> mqtt_inv (c\<lparr>mc_tx_buf := bs\<rparr>)"
  by (simp add: mqtt_inv_defs)

lemma inv_Connect:
  assumes "MqttClient_Connect ad w = (s, w')" "mqtt_inv (mq_c w)"
  shows "mqtt_inv (mq_c w')"
proof -
  let ?c = "mq_c w"
  have "mc_state ?c = MQTT_STATE_DISCONNECTED \<Longrightarrow> mqtt_inv (?c\<lparr>mc_state := st\<rparr>)"
    if "st = MQTT_STATE_ERROR \<or> st = MQTT_STATE_CONNECTING_TRANSPORT" for st
    using assms(2) that by (elim disjE) (simp_all add: mqtt_inv_defs)
  moreover have "mqtt_inv ((upd_stats f ?c)\<lparr>mc_state := st\<rparr>) = mqtt_inv (?c\<lparr>mc_state := st\<rparr>)" for f st
    by (simp add: mqtt_inv_defs)
  ultimately show ?thesis
    using assms unfolding MqttClient_Connect_def Let_def by (auto split: prod.splits if_splits)
qed

lemma inv_connecting:
  assumes "run_connecting ad nr w = Some r" "mqtt_inv (mq_c w)"
  shows "case r of Return s w' \<Rightarrow> mqtt_inv (mq_c w') | Continue w' \<Rightarrow> mqtt_inv (mq_c w')
    | Fall w' \<Rightarrow> mqtt_inv (mq_c w')"
proof -
  let ?c = "mq_c w"
  consider (other) "mc_state ?c \<noteq> MQTT_STATE_CONNECTING_TRANSPORT" | (wait) "nr = NET_IN_PROGRESS"
    | (failed) "mc_state ?c = MQTT_STATE_CONNECTING_TRANSPORT" "nr \<noteq> NET_OK" "nr \<noteq> NET_IN_PROGRESS"
    | (up) "mc_state ?c = MQTT_STATE_CONNECTING_TRANSPORT" "nr = NET_OK" by blast
  then show ?thesis
  proof cases
    case other
    then show ?thesis using assms by (auto simp: run_connecting_def)
  next
    case wait
    then show ?thesis using assms by (auto simp: run_connecting_def split: if_splits)
  next
    case failed
    then show ?thesis using assms by (auto simp: run_connecting_def Let_def inv_fail)
  next
    case up
    obtain n buf where e: "MqttCodec_EncodeConnect (mc_tx_buf ?c) 2304 (Some (mc_client_id ?c)) (mc_keepalive_s ?c) = Some (n, buf)"
      using assms(1) up by (auto simp: run_connecting_def Let_def bind_eq_Some_conv)
    have cap: "n \<le> 2304" "length buf = 2304"
      using EncodeConnect_in_cap[of 2304 "mc_tx_buf ?c"] e inv_sizes[OF assms(2)] in_cap_some by (metis order_refl)+
    note ib = inv_tx_buf[OF assms(2) cap(2)]
    let ?d = "?c\<lparr>mc_tx_buf := buf, mc_tx_total := n, mc_tx_off := 0, mc_tx_kind := TX_CONNECT,
      mc_tx_pending := True, mc_state := MQTT_STATE_WAIT_CONNACK,
      mc_connack_deadline_ms := mq_now w + MQTT_CONNACK_TIMEOUT_MS, mc_connack_deadline_set := True\<rparr>"
    have d: "mqtt_inv ?d" using assms(2) up(1) cap by (simp add: mqtt_inv_defs)
    show ?thesis
    proof (cases "n = 0")
      case True
      then show ?thesis using assms(1) up e ib by (auto simp: run_connecting_def Let_def inv_fail)
    next
      case False
      then have "r = Fall (w\<lparr>mq_c := ?d\<rparr>)"
        using assms(1) up e by (auto simp: run_connecting_def Let_def StartTx_def)
      then show ?thesis using d by simp
    qed
  qed
qed

lemma inv_wait_connack:
  assumes "run_wait_connack ad cb w = Some (s, w')" "mqtt_inv (mq_c w)" "live False (mq_c w)"
  shows "mqtt_inv (mq_c w')"
  using assms Ingest_loop_handled[of ad cb MAX_PACKETS_PER_RUN w _ _ False]
  unfolding run_wait_connack_def Let_def Ingest_def
  by (auto simp: inv_fail handled_def bind_eq_Some_conv split: if_splits)

lemma EncodePuback_le: "MqttCodec_EncodePuback (replicate 4 0) 4 i = Some (n, pkt) \<Longrightarrow> n \<le> 2304"
  using EncodePuback_some by fastforce

lemma flush_ack_good:
  assumes "flush_ack w = Some r" "mqtt_inv (mq_c w)" "mc_state (mq_c w) = MQTT_STATE_CONNECTED"
  shows "case r of Return s w' \<Rightarrow> mqtt_inv (mq_c w') | Continue w' \<Rightarrow> mqtt_inv (mq_c w')
    | Fall w' \<Rightarrow> mqtt_inv (mq_c w') \<and> mc_state (mq_c w') = MQTT_STATE_CONNECTED"
proof (cases "mc_ack_pending (mq_c w) \<and> \<not> mc_tx_pending (mq_c w)")
  case False
  then show ?thesis using assms by (auto simp: flush_ack_def Let_def)
next
  case True
  obtain n pkt where e: "MqttCodec_EncodePuback (replicate 4 0) 4 (mc_ack_pending_id (mq_c w)) = Some (n, pkt)"
    using assms(1) True by (auto simp: flush_ack_def Let_def bind_eq_Some_conv)
  show ?thesis
  proof (cases "n = 0")
    case True: True
    then show ?thesis using assms e \<open>_ \<and> _\<close> by (auto simp: flush_ack_def Let_def)
  next
    case False
    then obtain c where c: "StartTx (mq_c w) (Some pkt) n TX_PUBACK = Some c"
      and r: "r = Fall (w\<lparr>mq_c := (upd_stats (\<lambda>s. s\<lparr>st_puback_tx := st_puback_tx s + 1\<rparr>) c)\<lparr>mc_ack_pending := False\<rparr>\<rparr>)"
      using assms(1) e True by (auto simp: flush_ack_def Let_def bind_eq_Some_conv)
    have "mqtt_inv c \<and> mc_state c = MQTT_STATE_CONNECTED"
      using inv_StartTx[OF c assms(2) EncodePuback_le[OF e], of True] assms(3) by (simp add: live_def)
    then show ?thesis using inv_clear(5)[of "upd_stats f c" for f] by (simp add: r)
  qed
qed

lemma inv_Keepalive:
  assumes "RunKeepalive ad w = Some (s, w')" "mqtt_inv (mq_c w)" "mc_state (mq_c w) = MQTT_STATE_CONNECTED"
  shows "mqtt_inv (mq_c w')"
proof -
  consider "w' = w" | r where "w' = fail_connection ad r w"
    | n pkt c where "MqttCodec_EncodePingreq (replicate 2 0) 2 = Some (n, pkt)"
        "StartTx (mq_c w) (Some pkt) n TX_PINGREQ = Some c" "w' = w\<lparr>mq_c := c\<rparr>"
    using assms(1) unfolding RunKeepalive_def Let_def
    by (fastforce simp: bind_eq_Some_conv split: if_splits)
  then show ?thesis
  proof cases
    case (3 n pkt c)
    then have "n \<le> 2304" by (auto simp: MqttCodec_EncodePingreq_def bind_eq_Some_conv)
    then show ?thesis using inv_StartTx[OF 3(2) assms(2), of True] assms(3) 3(3) by (simp add: live_def)
  qed (use assms(2) inv_fail in auto)
qed


lemma inv_connected:
  assumes "run_connected ad cb w = Some (s, w')" "mqtt_inv (mq_c w)" "mc_state (mq_c w) = MQTT_STATE_CONNECTED"
  shows "mqtt_inv (mq_c w')"
proof -
  obtain r where f: "flush_ack w = Some r" using assms(1) by (auto simp: run_connected_def bind_eq_Some_conv)
  note fg = flush_ack_good[OF f assms(2,3)]
  show ?thesis
  proof (cases r)
    case (Fall w1)
    then have w1: "mqtt_inv (mq_c w1)" "live True (mq_c w1)" using fg by (simp_all add: live_def)
    obtain ir w2 where i: "Ingest ad cb w1 = Some (ir, w2)"
      and rest: "(if ir \<noteq> MQTT_WOULD_BLOCK \<and> ir \<noteq> MQTT_OK then Some (ir, w2)
          else do { (ks, w) \<leftarrow> RunKeepalive ad w2; Some (if ks \<noteq> MQTT_OK then (ks, w) else (MQTT_OK, w)) }) = Some (s, w')"
      using assms(1) f Fall by (auto simp: run_connected_def bind_eq_Some_conv)
    have h: "handled True ir (mq_c w2)"
      using Ingest_loop_handled[OF i[unfolded Ingest_def] w1] .
    show ?thesis
    proof (cases "ir \<noteq> MQTT_WOULD_BLOCK \<and> ir \<noteq> MQTT_OK")
      case True
      then show ?thesis using rest h by (simp add: handled_def)
    next
      case False
      then obtain ks w3 where k: "RunKeepalive ad w2 = Some (ks, w3)" "w' = w3"
        using rest by (auto simp: bind_eq_Some_conv split: if_splits)
      have "mqtt_inv (mq_c w2)" "mc_state (mq_c w2) = MQTT_STATE_CONNECTED"
        using h False by (auto simp: handled_def live_def)
      then show ?thesis using inv_Keepalive[OF k(1)] k(2) by simp
    qed
  qed (use assms(1) f fg in \<open>auto simp: run_connected_def\<close>)
qed

lemma inv_teardown: "mqtt_inv c \<Longrightarrow> mqtt_inv (ResetConnectionEpoch c\<lparr>mc_state := MQTT_STATE_DISCONNECTED\<rparr>)"
  by (rule inv_reset) simp

lemma inv_disconnecting:
  assumes "run_disconnecting ad w = (s, w')" "mqtt_inv (mq_c w)"
  shows "mqtt_inv (mq_c w')"
proof -
  obtain ds w1 where d: "(if mc_tx_pending (mq_c w) then MqttClient_DrainTx ad w else (MQTT_OK, w)) = (ds, w1)"
    by fastforce
  then have "mqtt_inv (mq_c w1)" using inv_DrainTx assms(2) by (auto split: if_splits)
  then show ?thesis
    using assms(1) d inv_teardown unfolding run_disconnecting_def by (auto split: if_splits)
qed

lemma inv_Run:
  assumes "MqttClient_Run ad cb w = Some (s, w')" "mqtt_inv (mq_c w)"
  shows "mqtt_inv (mq_c w')"
proof -
  obtain nr a t where n: "NetworkTransport_Run ad (mq_now w) (mq_a w) (mq_t w) = (nr, a, t)" by (metis prod_cases3)
  let ?w = "w\<lparr>mq_a := a, mq_t := t\<rparr>"
  have iw: "mqtt_inv (mq_c ?w)" using assms(2) by simp
  show ?thesis
  proof (cases "nr = NET_TRANSPORT_ERROR")
    case True
    then show ?thesis using assms n inv_fail[OF iw] by (auto simp: MqttClient_Run_def)
  next
    case False
    obtain r where c: "run_connecting ad nr ?w = Some r"
      using assms(1) n False by (auto simp: MqttClient_Run_def bind_eq_Some_conv)
    note cg = inv_connecting[OF c iw]
    show ?thesis
    proof (cases r)
      case (Fall w1)
      obtain ds w2 where d: "MqttClient_DrainTx ad w1 = (ds, w2)" by fastforce
      have i2: "mqtt_inv (mq_c w2)" using inv_DrainTx[OF d] cg Fall by simp
      show ?thesis
        using assms(1) n False c Fall d i2 inv_wait_connack[of ad cb w2] inv_connected[of ad cb w2]
          inv_disconnecting[of ad w2]
        by (cases "ds = MQTT_OK"; cases "mc_state (mq_c w2)") (auto simp: MqttClient_Run_def)
    qed (use assms(1) n False c cg in \<open>auto simp: MqttClient_Run_def\<close>)
  qed
qed

lemma inv_Disconnect:
  assumes "MqttClient_Disconnect ad w = Some (s, w')" "mqtt_inv (mq_c w)"
  shows "mqtt_inv (mq_c w')"
proof (cases "mc_state (mq_c w) = MQTT_STATE_CONNECTED")
  case False
  then show ?thesis
    using assms inv_teardown by (auto simp: MqttClient_Disconnect_def Let_def split: if_splits)
next
  case True
  obtain n pkt c where e: "MqttCodec_EncodeDisconnect (replicate 2 0) 2 = Some (n, pkt)"
      "StartTx (mq_c w) (Some pkt) n TX_DISCONNECT = Some c" "w' = w\<lparr>mq_c := c\<lparr>mc_state := MQTT_STATE_DISCONNECTING\<rparr>\<rparr>"
    using assms(1) True by (auto simp: MqttClient_Disconnect_def Let_def bind_eq_Some_conv)
  have n: "n \<le> 2304" using e(1) by (auto simp: MqttCodec_EncodeDisconnect_def bind_eq_Some_conv)
  have "mqtt_inv c \<and> mc_state c = MQTT_STATE_CONNECTED"
    using inv_StartTx[OF e(2) assms(2) n, of True] True by (simp add: live_def)
  then have "mqtt_inv (c\<lparr>mc_state := MQTT_STATE_DISCONNECTING\<rparr>)" by (simp add: mqtt_inv_defs)
  then show ?thesis using e(3) by simp
qed

lemma StartTx_own: "StartTx c None n k = Some (c\<lparr>mc_tx_total := n, mc_tx_off := 0, mc_tx_kind := k, mc_tx_pending := (n > 0)\<rparr>)"
  by (simp add: StartTx_def)

lemma inv_start_own:
  assumes "mqtt_inv c" "mc_state c = MQTT_STATE_CONNECTED" "n \<le> 2304" "k \<noteq> TX_CONNECT"
  shows "mqtt_inv (c\<lparr>mc_tx_total := n, mc_tx_off := 0, mc_tx_kind := k, mc_tx_pending := (n > 0)\<rparr>)"
  using inv_StartTx[OF StartTx_own[of c n k] assms(1,3), of True] assms(2,4) by (simp add: live_def)

lemma EncodePublish_cap:
  assumes "MqttCodec_EncodePublish buf 2304 topic payload qos retain pid = Some (n, out)" "length buf = 2304"
  shows "n \<le> 2304" "length out = 2304"
proof -
  have le: "2304 \<le> length buf" using assms(2) by simp
  have "in_cap buf 2304 (MqttCodec_EncodePublish buf 2304 topic payload qos retain pid)"
    by (cases rule: EncodePublish_cases[OF le, of topic qos payload retain pid])
      (simp_all add: encoded_in_cap le)
  then show "n \<le> 2304" "length out = 2304" using in_cap_some assms by metis+
qed

lemma inv_Publish0:
  assumes "MqttClient_PublishQos0 now c topic payload retain = Some (s, c')" "mqtt_inv c"
  shows "mqtt_inv c'"
proof (cases "s = MQTT_NOT_CONNECTED \<or> s = MQTT_INVALID_ARG \<or> s = MQTT_BUSY")
  case True
  then show ?thesis
    using assms by (auto simp: MqttClient_PublishQos0_def bind_eq_Some_conv StartTx_own split: if_splits)
next
  case False
  then obtain n out where e: "MqttCodec_EncodePublish (mc_tx_buf c) 2304 topic (the payload) 0 retain 0 = Some (n, out)"
      and st: "mc_state c = MQTT_STATE_CONNECTED"
      and c': "c' = (if n = 0 then c\<lparr>mc_tx_buf := out\<rparr> else (upd_stats (\<lambda>s. s\<lparr>st_publish_qos0 := st_publish_qos0 s + 1\<rparr>)
        (c\<lparr>mc_tx_buf := out, mc_tx_total := n, mc_tx_off := 0, mc_tx_kind := TX_PUBLISH_QOS0, mc_tx_pending := (n > 0)\<rparr>))
          \<lparr>mc_last_activity_ms := now\<rparr>)"
    using assms(1) by (auto simp: MqttClient_PublishQos0_def bind_eq_Some_conv StartTx_own split: if_splits)
  note cap = EncodePublish_cap[OF e inv_sizes(1)[OF assms(2)]]
  have ib: "mqtt_inv (c\<lparr>mc_tx_buf := out\<rparr>)" using inv_tx_buf[OF assms(2) cap(2)] .
  show ?thesis
  proof (cases "n = 0")
    case True
    then show ?thesis using ib unfolding c' by simp
  next
    case False
    have "mqtt_inv (upd_stats f (c\<lparr>mc_tx_buf := out, mc_tx_total := n, mc_tx_off := 0,
        mc_tx_kind := TX_PUBLISH_QOS0, mc_tx_pending := (n > 0)\<rparr>))" for f
      using inv_start_own[OF ib _ cap(1), of TX_PUBLISH_QOS0] st by simp
    then show ?thesis unfolding c' if_not_P[OF False] by (intro inv_clear(4))
  qed
qed

lemma inv_next_id: "mqtt_inv c \<Longrightarrow> mqtt_inv (c\<lparr>mc_next_packet_id := next_id i\<rparr>)"
    "mqtt_inv c \<Longrightarrow> mqtt_inv (c\<lparr>mc_next_sub_id := next_id i\<rparr>)"
proof -
  have "i = 0xFFFF" if "i + 1 = 0"
  proof -
    have "i = - 1" using that by (simp add: eq_neg_iff_add_eq_0)
    then show ?thesis by simp
  qed
  then have "next_id i \<noteq> 0" by (auto simp: next_id_def)
  then show "mqtt_inv c \<Longrightarrow> mqtt_inv (c\<lparr>mc_next_packet_id := next_id i\<rparr>)"
    "mqtt_inv c \<Longrightarrow> mqtt_inv (c\<lparr>mc_next_sub_id := next_id i\<rparr>)" by (simp_all add: mqtt_inv_defs)
qed


lemma inv_open_transaction:
  assumes "mqtt_inv c" "mc_state c = MQTT_STATE_CONNECTED" "mc_tx_kind c \<noteq> TX_CONNECT" "i \<noteq> 0"
  shows "mqtt_inv (c\<lparr>mc_inflight_active := True, mc_inflight_packet_id := i\<rparr>)"
    and "mqtt_inv (c\<lparr>mc_sub_pending := True, mc_sub_packet_id := i\<rparr>)"
  using assms by (simp_all add: mqtt_inv_defs)

lemma inv_ids: "mqtt_inv c \<Longrightarrow> mc_next_packet_id c \<noteq> 0" "mqtt_inv c \<Longrightarrow> mc_next_sub_id c \<noteq> 0"
  by (simp_all add: mqtt_inv_def client_ids_def)

text \<open>What the two transactional operations do once their guards have passed.\<close>

lemma PublishQos1_go:
  assumes "MqttClient_PublishQos1 now c topic payload = Some (s, c')" "s \<noteq> MQTT_NOT_CONNECTED"
    "s \<noteq> MQTT_INVALID_ARG" "s \<noteq> MQTT_BUSY"
  obtains n out d where "mc_state c = MQTT_STATE_CONNECTED"
    "MqttCodec_EncodePublish (mc_tx_buf c) 2304 topic (the payload) 1 False (mc_next_packet_id c) = Some (n, out)"
    "d = c\<lparr>mc_next_packet_id := next_id (mc_next_packet_id c), mc_tx_buf := out\<rparr>"
    "c' = (if n = 0 then d else (upd_stats (\<lambda>s. s\<lparr>st_publish_qos1 := st_publish_qos1 s + 1\<rparr>)
       (d\<lparr>mc_tx_total := n, mc_tx_off := 0, mc_tx_kind := TX_PUBLISH_QOS1, mc_tx_pending := (n > 0),
          mc_inflight_active := True, mc_inflight_packet_id := mc_next_packet_id c\<rparr>))\<lparr>mc_last_activity_ms := now\<rparr>)"
  using assms
  by (auto simp: MqttClient_PublishQos1_def NextPacketId_def bind_eq_Some_conv StartTx_own split: if_splits)

lemma inv_Publish1:
  assumes "MqttClient_PublishQos1 now c topic payload = Some (s, c')" "mqtt_inv c"
  shows "mqtt_inv c'"
proof (cases "s = MQTT_NOT_CONNECTED \<or> s = MQTT_INVALID_ARG \<or> s = MQTT_BUSY")
  case True
  then show ?thesis
    using assms by (auto simp: MqttClient_PublishQos1_def NextPacketId_def bind_eq_Some_conv StartTx_own split: if_splits)
next
  case False
  then obtain n out d where g: "mc_state c = MQTT_STATE_CONNECTED"
    "MqttCodec_EncodePublish (mc_tx_buf c) 2304 topic (the payload) 1 False (mc_next_packet_id c) = Some (n, out)"
    "d = c\<lparr>mc_next_packet_id := next_id (mc_next_packet_id c), mc_tx_buf := out\<rparr>"
    and c': "c' = (if n = 0 then d else (upd_stats (\<lambda>s. s\<lparr>st_publish_qos1 := st_publish_qos1 s + 1\<rparr>)
       (d\<lparr>mc_tx_total := n, mc_tx_off := 0, mc_tx_kind := TX_PUBLISH_QOS1, mc_tx_pending := (n > 0),
          mc_inflight_active := True, mc_inflight_packet_id := mc_next_packet_id c\<rparr>))\<lparr>mc_last_activity_ms := now\<rparr>)"
    using PublishQos1_go[OF assms(1)] by blast
  note cap = EncodePublish_cap[OF g(2) inv_sizes(1)[OF assms(2)]]
  have d: "mqtt_inv d" "mc_state d = MQTT_STATE_CONNECTED"
    using inv_tx_buf[OF inv_next_id(1)[OF assms(2)] cap(2)] g(1) by (simp_all add: g(3))
  show ?thesis
  proof (cases "n = 0")
    case True
    then show ?thesis using d c' by simp
  next
    case False
    note st = inv_start_own[OF d cap(1), of TX_PUBLISH_QOS1, simplified]
    have "mqtt_inv (upd_stats f (d\<lparr>mc_tx_total := n, mc_tx_off := 0, mc_tx_kind := TX_PUBLISH_QOS1,
        mc_tx_pending := (n > 0), mc_inflight_active := True, mc_inflight_packet_id := mc_next_packet_id c\<rparr>))" for f
      using inv_open_transaction(1)[OF st _ _ inv_ids(1)[OF assms(2)]] d(2) by simp
    then show ?thesis unfolding c' if_not_P[OF False] by (intro inv_clear(4))
  qed
qed

lemma Subscribe_go:
  assumes "MqttClient_Subscribe now c topic qos = Some (s, c')" "s \<noteq> MQTT_NOT_CONNECTED"
    "s \<noteq> MQTT_INVALID_ARG" "s \<noteq> MQTT_BUSY"
  obtains n out d where "mc_state c = MQTT_STATE_CONNECTED"
    "MqttCodec_EncodeSubscribe (mc_tx_buf c) 2304 topic qos (mc_next_sub_id c) = Some (n, out)"
    "d = c\<lparr>mc_next_sub_id := next_id (mc_next_sub_id c), mc_tx_buf := out\<rparr>"
    "c' = (if n = 0 then d else (upd_stats (\<lambda>s. s\<lparr>st_subscribe_requests := st_subscribe_requests s + 1\<rparr>)
       (d\<lparr>mc_tx_total := n, mc_tx_off := 0, mc_tx_kind := TX_SUBSCRIBE, mc_tx_pending := (n > 0),
          mc_sub_pending := True, mc_sub_packet_id := mc_next_sub_id c\<rparr>))\<lparr>mc_last_activity_ms := now\<rparr>)"
  using assms
  by (auto simp: MqttClient_Subscribe_def Let_def bind_eq_Some_conv StartTx_own split: if_splits)

lemma inv_Subscribe:
  assumes "MqttClient_Subscribe now c topic qos = Some (s, c')" "mqtt_inv c"
  shows "mqtt_inv c'"
proof (cases "s = MQTT_NOT_CONNECTED \<or> s = MQTT_INVALID_ARG \<or> s = MQTT_BUSY")
  case True
  then show ?thesis
    using assms by (auto simp: MqttClient_Subscribe_def Let_def bind_eq_Some_conv StartTx_own split: if_splits)
next
  case False
  then obtain n out d where g: "mc_state c = MQTT_STATE_CONNECTED"
    "MqttCodec_EncodeSubscribe (mc_tx_buf c) 2304 topic qos (mc_next_sub_id c) = Some (n, out)"
    "d = c\<lparr>mc_next_sub_id := next_id (mc_next_sub_id c), mc_tx_buf := out\<rparr>"
    and c': "c' = (if n = 0 then d else (upd_stats (\<lambda>s. s\<lparr>st_subscribe_requests := st_subscribe_requests s + 1\<rparr>)
       (d\<lparr>mc_tx_total := n, mc_tx_off := 0, mc_tx_kind := TX_SUBSCRIBE, mc_tx_pending := (n > 0),
          mc_sub_pending := True, mc_sub_packet_id := mc_next_sub_id c\<rparr>))\<lparr>mc_last_activity_ms := now\<rparr>)"
    using Subscribe_go[OF assms(1)] by blast
  have cap: "n \<le> 2304" "length out = 2304"
    using EncodeSubscribe_cap[OF g(2) inv_sizes(1)[OF assms(2)]] by simp_all
  have d: "mqtt_inv d" "mc_state d = MQTT_STATE_CONNECTED"
    using inv_tx_buf[OF inv_next_id(2)[OF assms(2)] cap(2)] g(1) by (simp_all add: g(3))
  show ?thesis
  proof (cases "n = 0")
    case True
    then show ?thesis using d c' by simp
  next
    case False
    note st = inv_start_own[OF d cap(1), of TX_SUBSCRIBE, simplified]
    have "mqtt_inv (upd_stats f (d\<lparr>mc_tx_total := n, mc_tx_off := 0, mc_tx_kind := TX_SUBSCRIBE,
        mc_tx_pending := (n > 0), mc_sub_pending := True, mc_sub_packet_id := mc_next_sub_id c\<rparr>))" for f
      using inv_open_transaction(2)[OF st _ _ inv_ids(2)[OF assms(2)]] d(2) by simp
    then show ?thesis unfolding c' if_not_P[OF False] by (intro inv_clear(4))
  qed
qed


section \<open>Reachable states\<close>

text \<open>
  The calls of the public interface in any order; between calls the clock, the adapter and the
  state of the callback change at will.
\<close>

inductive mqtt_reach :: "'a NetworkTransportAdapter \<Rightarrow> 'x publish_cb \<Rightarrow> ('a, 'x) mqtt \<Rightarrow> bool"
  for ad cb where
  reach_init: "MqttClient_Init cfg = (MQTT_OK, Some (mq_c w)) \<Longrightarrow> mqtt_reach ad cb w"
| reach_env: "mqtt_reach ad cb w \<Longrightarrow> mqtt_reach ad cb (w\<lparr>mq_now := n, mq_a := a, mq_x := x\<rparr>)"
| reach_connect: "mqtt_reach ad cb w \<Longrightarrow> MqttClient_Connect ad w = (s, w') \<Longrightarrow> mqtt_reach ad cb w'"
| reach_run: "mqtt_reach ad cb w \<Longrightarrow> MqttClient_Run ad cb w = Some (s, w') \<Longrightarrow> mqtt_reach ad cb w'"
| reach_disconnect: "mqtt_reach ad cb w \<Longrightarrow> MqttClient_Disconnect ad w = Some (s, w') \<Longrightarrow> mqtt_reach ad cb w'"
| reach_publish0: "mqtt_reach ad cb w \<Longrightarrow>
    MqttClient_PublishQos0 (mq_now w) (mq_c w) topic payload retain = Some (s, c) \<Longrightarrow>
    mqtt_reach ad cb (w\<lparr>mq_c := c\<rparr>)"
| reach_publish1: "mqtt_reach ad cb w \<Longrightarrow>
    MqttClient_PublishQos1 (mq_now w) (mq_c w) topic payload = Some (s, c) \<Longrightarrow>
    mqtt_reach ad cb (w\<lparr>mq_c := c\<rparr>)"
| reach_subscribe: "mqtt_reach ad cb w \<Longrightarrow>
    MqttClient_Subscribe (mq_now w) (mq_c w) topic qos = Some (s, c) \<Longrightarrow>
    mqtt_reach ad cb (w\<lparr>mq_c := c\<rparr>)"

lemma inv_Init: "MqttClient_Init cfg = (MQTT_OK, Some c) \<Longrightarrow> mqtt_inv c"
  by (auto simp: MqttClient_Init_def mqtt_inv_defs split: option.splits if_splits)

lemma mqtt_reach_inv: "mqtt_reach ad cb w \<Longrightarrow> mqtt_inv (mq_c w)"
proof (induction rule: mqtt_reach.induct)
  case (reach_init cfg w)
  then show ?case by (rule inv_Init)
qed (auto intro: inv_Connect inv_Run inv_Disconnect inv_Publish0 inv_Publish1 inv_Subscribe)

text \<open>
  Claim C16. In every reachable state of the client: nothing of a connection survives its end
  (while disconnected, connecting or failed there is no pending packet, no transaction, no
  deferred acknowledgement, no outstanding ping and no partial packet); a QoS 1 transaction is in
  flight only on a connection that got its CONNACK; packet identifiers are never 0; and the
  outbound packet stays inside its buffer.
\<close>

theorem mqtt_client_invariant:
  assumes "mqtt_reach ad cb w"
  shows "let c = mq_c w in
    (mc_state c \<in> {MQTT_STATE_DISCONNECTED, MQTT_STATE_CONNECTING_TRANSPORT, MQTT_STATE_ERROR} \<longrightarrow>
       \<not> mc_tx_pending c \<and> \<not> mc_inflight_active c \<and> \<not> mc_sub_pending c \<and> \<not> mc_ack_pending c \<and>
       \<not> mc_ping_outstanding c \<and> mc_rx_len c = 0) \<and>
    (mc_inflight_active c \<longrightarrow> mc_state c \<in> {MQTT_STATE_CONNECTED, MQTT_STATE_DISCONNECTING} \<and>
       mc_inflight_packet_id c \<noteq> 0) \<and>
    mc_next_packet_id c \<noteq> 0 \<and> mc_next_sub_id c \<noteq> 0 \<and>
    mc_tx_off c \<le> mc_tx_total c \<and> mc_tx_total c \<le> length (mc_tx_buf c)"
  using mqtt_reach_inv[OF assms] by (cases "mc_state (mq_c w)") (simp_all add: mqtt_inv_defs Let_def)

definition client0 :: MqttClient where
  "client0 = the (snd (MqttClient_Init (Some \<lparr>cc_client_id = Some [0x72, 0x73], cc_keepalive_s = 60\<rparr>)))"

lemma client0_init:
  "MqttClient_Init (Some \<lparr>cc_client_id = Some [0x72, 0x73], cc_keepalive_s = 60\<rparr>) = (MQTT_OK, Some client0)"
  by (simp add: client0_def MqttClient_Init_def MQTT_MAX_CLIENT_ID_LENGTH_def)

definition fake_mqtt :: "MqttClient \<Rightarrow> u32 \<Rightarrow> (FakeNetworkAdapter, unit) mqtt" where
  "fake_mqtt c now =
     \<lparr>mq_c = c, mq_t = fake_transport NET_STATE_CONNECTED, mq_a = FakeNetworkAdapter_Reset 0,
      mq_x = (), mq_now = now\<rparr>"

lemma mqtt_client_invariant_witness:
  "let c = client0 in \<not> mc_tx_pending c \<and> mc_next_packet_id c \<noteq> 0"
proof -
  have "mqtt_reach fake_adapter None (fake_mqtt client0 0)"
    using reach_init[of "Some \<lparr>cc_client_id = Some [0x72, 0x73], cc_keepalive_s = 60\<rparr>" "fake_mqtt client0 0"]
      client0_init by (simp add: fake_mqtt_def)
  from mqtt_client_invariant[OF this] show ?thesis
    by (simp add: Let_def fake_mqtt_def client0_def MqttClient_Init_def MQTT_MAX_CLIENT_ID_LENGTH_def)
qed

section \<open>The wait for the CONNACK\<close>

lemma Receive_idle:
  assumes "nt_state t = NET_STATE_CONNECTED" "rb_len (nt_rx t) = 0"
  shows "NetworkTransport_Receive t (Some n) = (NET_WOULD_BLOCK, [], t)"
  using assms by (simp add: NetworkTransport_Receive_def Let_def)

lemma Run_idle:
  assumes "nt_state t = NET_STATE_CONNECTED" "rb_len (nt_tx t) = 0" "rb_len (nt_rx t) = 0"
    and "ad_recv ad a 64 = (NET_WOULD_BLOCK, [], a')"
  shows "NetworkTransport_Run ad now a t = (NET_OK, a', t)"
proof -
  have "DrainTx ad a t = (NET_OK, a, t)" using assms(2) by (subst DrainTx.simps) simp
  then show ?thesis
    using assms by (simp add: NetworkTransport_Run_def RunRx_def ring_caps Let_def)
qed

lemma Ingest_idle:
  assumes "nt_state (mq_t w) = NET_STATE_CONNECTED" "rb_len (nt_rx (mq_t w)) = 0" "mc_rx_len (mq_c w) = 0"
  shows "Ingest ad cb w = Some (MQTT_WOULD_BLOCK, w)"
proof -
  have "receive_into 0 MQTT_FIXED_HEADER_MAX w = Some (NET_WOULD_BLOCK, 0, w)"
    using Receive_idle[OF assms(1,2)] by (simp add: receive_into_def poke_def overwrite_def)
  then have "Ingest_loop ad cb (Suc p) w = Some (MQTT_WOULD_BLOCK, w)" for p
    using assms(3) by (simp add: ingest_header_def after_receive_def on_fall_def)
  from this[of 3] show ?thesis by (simp add: Ingest_def MAX_PACKETS_PER_RUN_def)
qed

text \<open>
  The client gives up on a silent broker, but only after twenty seconds: on an idle
  connection, \<open>MqttClient_Run\<close> keeps waiting until 20000 ms after the CONNECT packet was handed
  over and reports the timeout from then on. The constant is 10000 ms; the code sets the deadline to
  the current time plus the constant and then waits for the constant to pass after it.
\<close>

theorem mqtt_connack_timeout:
  assumes "mc_tx_kind c0 = TX_CONNECT" "mc_rx_len c0 = 0"
    and "mq_c w = tx_complete (of_nat t0) c0" "mq_now w = of_nat \<tau>"
    and "nt_state (mq_t w) = NET_STATE_CONNECTED" "rb_len (nt_tx (mq_t w)) = 0" "rb_len (nt_rx (mq_t w)) = 0"
    and "ad_recv ad (mq_a w) 64 = (NET_WOULD_BLOCK, [], a')"
    and "t0 \<le> \<tau>" "\<tau> - t0 < 2 ^ 31 + 10000"
  shows "\<exists>s w'. MqttClient_Run ad cb w = Some (s, w') \<and>
    (if \<tau> - t0 < 20000 then s = MQTT_OK \<and> mc_state (mq_c w') = MQTT_STATE_WAIT_CONNACK
     else s = MQTT_TIMEOUT \<and> mc_state (mq_c w') = MQTT_STATE_ERROR)"
proof -
  let ?w = "w\<lparr>mq_a := a'\<rparr>"
  have c: "mc_state (mq_c w) = MQTT_STATE_WAIT_CONNACK" "\<not> mc_tx_pending (mq_c w)"
      "mc_connack_deadline_set (mq_c w)" "mc_connack_deadline_ms (mq_c w) = of_nat (t0 + 10000)"
      "mc_rx_len (mq_c w) = 0"
    using assms(1,2) by (simp_all add: assms(3) tx_complete_def Let_def upd_stats_def MQTT_CONNACK_TIMEOUT_MS_def)
  have el: "Elapsed (of_nat \<tau>) (of_nat (t0 + 10000)) MQTT_CONNACK_TIMEOUT_MS \<longleftrightarrow> \<not> \<tau> - t0 < 20000"
  proof (cases "\<tau> < t0 + 10000")
    case True
    have "t0 + 10000 - \<tau> \<le> 2 ^ 31" using assms(9) by simp
    with True have "\<not> Elapsed (of_nat \<tau>) (of_nat (t0 + 10000)) MQTT_CONNACK_TIMEOUT_MS"
      by (rule mqtt_timer.not_elapsed_before)
    then show ?thesis using True assms(9) by auto
  next
    case False
    then show ?thesis
      using mqtt_timer.elapsed_iff_true_time[of "t0 + 10000" \<tau> 10000] assms(10)
      by (auto simp: MQTT_CONNACK_TIMEOUT_MS_def)
  qed
  have run: "MqttClient_Run ad cb w = run_wait_connack ad cb ?w"
    using Run_idle[OF assms(5-8), of "mq_now w"] c
    by (simp add: MqttClient_Run_def run_connecting_def MqttClient_DrainTx_def)
  have "run_wait_connack ad cb ?w = (if \<tau> - t0 < 20000 then Some (MQTT_OK, ?w)
    else Some (MQTT_TIMEOUT, fail_connection ad MQTT_TIMEOUT
      (upd_c (upd_stats (\<lambda>s. s\<lparr>st_timeouts := st_timeouts s + 1\<rparr>)) ?w)))"
    using c el assms(4,5,7) Ingest_idle[of ?w ad cb]
    by (simp add: run_wait_connack_def NetworkTransport_GetState_def)
  then show ?thesis
    using c(1) unfolding run
    by (simp add: fail_connection_def MqttClient_EnterError_def ResetConnectionEpoch_def Let_def)
qed

lemma mqtt_connack_timeout_witness:
  "\<exists>s w'. MqttClient_Run fake_adapter None
      (fake_mqtt (tx_complete (of_nat 5) (client0\<lparr>mc_tx_kind := TX_CONNECT, mc_tx_pending := True\<rparr>)) (of_nat 15005)) = Some (s, w') \<and>
    s = MQTT_OK \<and> mc_state (mq_c w') = MQTT_STATE_WAIT_CONNACK"
proof -
  let ?c = "client0\<lparr>mc_tx_kind := TX_CONNECT, mc_tx_pending := True\<rparr>"
  have "mc_rx_len ?c = 0" by (simp add: client0_def MqttClient_Init_def MQTT_MAX_CLIENT_ID_LENGTH_def)
  then show ?thesis
    using mqtt_connack_timeout[of ?c "fake_mqtt (tx_complete (of_nat 5) ?c) (of_nat 15005)" 5 15005 fake_adapter
        "FakeNetworkAdapter_Reset 0" None]
    by (simp add: fake_mqtt_def fake_ops)
qed

end
