(* ===== verification/Mqtt_Rx.thy ===== *)
theory Mqtt_Rx
  imports Mqtt_Client_Props
begin

text \<open>
  The receive path of the MQTT client: the size of the packet buffer against the packets the
  header check admits, and the five bytes the header read may take.
\<close>

lemma Receive_eq:
  assumes "nt_state t = NET_STATE_CONNECTED" "ring_ok (nt_rx t)"
  shows "NetworkTransport_Receive t (Some cap) =
    (if min (rb_len (nt_rx t)) cap > 0
     then (NET_OK, take cap (ring_gather (nt_rx t)),
           t\<lparr>nt_rx := (ring_take ^^ min (rb_len (nt_rx t)) cap) (nt_rx t)\<rparr>)
     else (NET_WOULD_BLOCK, [], t))"
proof -
  have "take (min (rb_len (nt_rx t)) cap) (ring_gather (nt_rx t)) = take cap (ring_gather (nt_rx t))"
    using length_ring_gather[OF assms(2)] by (cases "rb_len (nt_rx t) \<le> cap") (simp_all add: min_def)
  then show ?thesis
    using assms(1) receive_loop_stream[OF assms(2), of "min (rb_len (nt_rx t)) cap"]
    by (auto simp: NetworkTransport_Receive_def Let_def min_def)
qed

lemma receive_into_eq:
  assumes "nt_state (mq_t w) = NET_STATE_CONNECTED" "ring_ok (nt_rx (mq_t w))"
    and "0 < min (rb_len (nt_rx (mq_t w))) want"
  shows "receive_into off want w = do {
      buf \<leftarrow> poke (mc_rx_buf (mq_c w)) off (take want (ring_gather (nt_rx (mq_t w))));
      Some (NET_OK, min (rb_len (nt_rx (mq_t w))) want,
        w\<lparr>mq_t := (mq_t w)\<lparr>nt_rx := (ring_take ^^ min (rb_len (nt_rx (mq_t w))) want) (nt_rx (mq_t w))\<rparr>,
          mq_c := (mq_c w)\<lparr>mc_rx_buf := buf\<rparr>\<rparr>)
    }"
  using assms length_ring_gather[OF assms(2)] by (simp add: receive_into_def Receive_eq)

section \<open>The packet buffer is smaller than the largest admitted packet\<close>

text \<open>
  Claim C17. The receive buffer can be overrun from the network. The client accepts the header of
  every packet with a Remaining Length up to 2304, although the buffer of 2304 bytes must also hold
  the header: once the rest of such a packet has arrived, reading the body writes outside \<open>rx_buf\<close>
  exactly when header and body together exceed 2304 bytes.
\<close>

theorem mqtt_rx_overflow:
  assumes "1 \<le> unat tf div 16" "unat tf div 16 \<le> 14" "n \<le> 2304"
    and "take (mc_rx_len c) (mc_rx_buf c) = tf # varint n @ rest"
    and "nt_state (mq_t w) = NET_STATE_CONNECTED" "ring_ok (nt_rx (mq_t w))"
    and "length (mc_rx_buf (mq_c w)) = 2304" "mc_rx_len (mq_c w) < mc_rx_total (mq_c w)"
    and "mc_rx_total (mq_c w) \<le> mc_rx_len (mq_c w) + rb_len (nt_rx (mq_t w))"
    and "mc_rx_total (mq_c w) = 1 + length (varint n) + n"
  shows "(\<exists>c'. TryParseHeader c = (MQTT_CODEC_OK, c') \<and> mc_rx_total c' = 1 + length (varint n) + n) \<and>
    (ingest_body ad w = None \<longleftrightarrow> 2304 < 1 + length (varint n) + n)"
proof -
  have lv: "length (varint n) \<le> 4" using varint_length_le[of n 3] assms(3) by simp
  have "unat (1 + of_nat (length (varint n)) + of_nat n :: u32) = 1 + length (varint n) + n"
    using unat_of_nat_u32[of "1 + length (varint n) + n"] lv assms(3) by (simp add: add.assoc)
  then have head: "\<exists>c'. TryParseHeader c = (MQTT_CODEC_OK, c') \<and> mc_rx_total c' = 1 + length (varint n) + n"
    using decode_header[OF assms(1-3), of rest] by (simp add: TryParseHeader_def assms(4) Let_def)
  let ?c = "mq_c w" and ?t = "mq_t w"
  let ?want = "mc_rx_total ?c - mc_rx_len ?c"
  have want: "min (rb_len (nt_rx ?t)) ?want = ?want" "0 < ?want" using assms(8,9) by auto
  have len: "length (take ?want (ring_gather (nt_rx ?t))) = ?want"
    using length_ring_gather[OF assms(6)] want by simp
  have "receive_into (mc_rx_len ?c) ?want w = None \<longleftrightarrow> 2304 < mc_rx_total ?c"
    using assms(5-8) want len
    by (simp add: receive_into_eq poke_def)
  then have "ingest_body ad w = None \<longleftrightarrow> 2304 < mc_rx_total ?c"
    using assms(8) by (auto simp: ingest_body_def Let_def after_receive_def split: bind_splits prod.splits if_splits)
  then show ?thesis using head assms(10) by simp
qed


definition full_ring :: "bytes \<Rightarrow> ring" where
  "full_ring bs = foldl ring_put ring_zero bs"

lemma full_ring:
  assumes "length bs \<le> 256"
  shows "ring_ok (full_ring bs)" "ring_gather (full_ring bs) = bs" "rb_len (full_ring bs) = length bs"
  using rx.put_all[of ring_zero bs] rx.len_put_all[of ring_zero bs] assms by (simp_all add: full_ring_def)

lemma mqtt_rx_overflow_witness:
  "let c = client0\<lparr>mc_rx_buf := replicate 2304 0, mc_rx_len := 2300, mc_rx_total := 2305\<rparr> in
   ingest_body fake_adapter ((fake_mqtt c 0)\<lparr>mq_t := (fake_transport NET_STATE_CONNECTED)\<lparr>nt_rx := full_ring [1, 2, 3, 4, 5]\<rparr>\<rparr>) = None"
proof -
  define hc where "hc = client0\<lparr>mc_rx_buf := 0x30 # varint 2302, mc_rx_len := 3\<rparr>"
  have v: "length (varint 2302) = 2" by (simp add: varint.simps)
  then have h: "take (mc_rx_len hc) (mc_rx_buf hc) = 0x30 # varint 2302 @ []"
    by (simp add: hc_def)
  show ?thesis
    using mqtt_rx_overflow[of "0x30" 2302 hc "[]" "(fake_mqtt (client0\<lparr>mc_rx_buf := replicate 2304 0, mc_rx_len := 2300,
        mc_rx_total := 2305\<rparr>) 0)\<lparr>mq_t := (fake_transport NET_STATE_CONNECTED)\<lparr>nt_rx := full_ring [1, 2, 3, 4, 5]\<rparr>\<rparr>" fake_adapter]
      h full_ring[of "[1, 2, 3, 4, 5]"] v
    by (simp add: fake_mqtt_def Let_def)
qed

section \<open>The header read takes bytes of the next packet\<close>

lemma ValidateFlags_pingresp: "MqttClient_ValidateFlags 13 0 = MQTT_CODEC_OK"
  by (simp add: MqttClient_ValidateFlags_def mqtt_packet_types)

text \<open>
  A packet shorter than five bytes makes the client lose the start of the next one. When
  a PINGRESP and further bytes are buffered, one round of the receive loop consumes the PINGRESP and,
  with it, the three bytes that follow, whatever they are: the next round starts in the middle of
  the next packet.
\<close>

theorem mqtt_header_overread:
  assumes "mc_state (mq_c w) = MQTT_STATE_CONNECTED" "mc_rx_len (mq_c w) = 0" "length (mc_rx_buf (mq_c w)) = 2304"
    and "nt_state (mq_t w) = NET_STATE_CONNECTED" "ring_ok (nt_rx (mq_t w))"
    and "ring_gather (nt_rx (mq_t w)) = [0xD0, 0x00] @ rest" "3 \<le> length rest"
  shows "\<exists>w'. Ingest_loop ad cb (Suc p) w = Ingest_loop ad cb p w' \<and>
    mc_state (mq_c w') = MQTT_STATE_CONNECTED \<and> mc_rx_len (mq_c w') = 0 \<and>
    ring_gather (nt_rx (mq_t w')) = drop 3 rest"
proof -
  let ?c = "mq_c w" and ?t = "mq_t w"
  have len: "rb_len (nt_rx ?t) = 2 + length rest"
    using length_ring_gather[OF assms(5)] assms(6) by simp
  define bs where "bs = [0xD0, 0x00] @ take 3 rest"
  have bs: "take 5 (ring_gather (nt_rx ?t)) = bs" "length bs = 5"
    using assms(6,7) by (simp_all add: bs_def)
  define t where "t = ?t\<lparr>nt_rx := (ring_take ^^ 5) (nt_rx ?t)\<rparr>"
  have t: "ring_gather (nt_rx t) = drop 3 rest"
    using rx.drop_all[OF assms(5), of 5] len assms(6,7) by (simp add: t_def)
  define buf where "buf = overwrite (mc_rx_buf ?c) 0 bs"
  have buf: "take 5 buf = bs" using bs(2) assms(3) by (simp add: buf_def overwrite_def)
  have "min (rb_len (nt_rx ?t)) MQTT_FIXED_HEADER_MAX = 5" using len assms(7) by (simp add: MQTT_FIXED_HEADER_MAX_def)
  then have ri: "receive_into 0 MQTT_FIXED_HEADER_MAX w = Some (NET_OK, 5, w\<lparr>mq_t := t, mq_c := ?c\<lparr>mc_rx_buf := buf\<rparr>\<rparr>)"
    using receive_into_eq[OF assms(4,5), of MQTT_FIXED_HEADER_MAX 0] bs assms(3)
    by (simp add: poke_def t_def buf_def MQTT_FIXED_HEADER_MAX_def)
  define h where "h = ?c\<lparr>mc_rx_buf := buf, mc_rx_len := 5, mc_rx_fixed_len := 2, mc_rx_type := 13,
    mc_rx_flags := 0, mc_rx_total := 2\<rparr>"
  have v0: "varint 0 = [0]" by (subst varint.simps) simp
  have "MqttCodec_DecodeFixedHeader bs = (MQTT_CODEC_OK, Some \<lparr>fh_packet_type = 13, fh_flags = 0,
      fh_remaining_length = 0, fh_fixed_header_len = 2\<rparr>)"
    using decode_header[of "0xD0" 0 "take 3 rest"] by (simp add: bs_def v0)
  then have parse: "TryParseHeader (?c\<lparr>mc_rx_buf := buf, mc_rx_len := 5\<rparr>) = (MQTT_CODEC_OK, h)"
    by (simp add: TryParseHeader_def buf h_def)
  have head: "ingest_header ad w = Some (Fall (w\<lparr>mq_t := t, mq_c := h\<rparr>))"
    using assms(2) ri parse
    by (simp add: ingest_header_def after_receive_def ingest_parse_def upd_c_def header_verdict_def)
  have body: "ingest_body ad (w\<lparr>mq_t := t, mq_c := h\<rparr>) = Some (Fall (w\<lparr>mq_t := t, mq_c := h\<rparr>))"
    by (simp add: ingest_body_def h_def)
  obtain c where ping: "HandlePingresp (mq_now w) h = (MQTT_OK, c)" "mc_state c = MQTT_STATE_CONNECTED"
    using assms(1) by (cases "mc_ping_outstanding ?c") (auto simp: HandlePingresp_def h_def count_rx_def Let_def)
  have "DispatchPacket ad cb (w\<lparr>mq_t := t, mq_c := h\<rparr>) = Some (MQTT_OK, w\<lparr>mq_t := t, mq_c := c\<rparr>)"
    using ping assms(1) ValidateFlags_pingresp
    by (simp add: DispatchPacket_def mqtt_packet_types h_def)
  then have disp: "ingest_dispatch ad cb (w\<lparr>mq_t := t, mq_c := h\<rparr>) = Some (Fall (w\<lparr>mq_t := t, mq_c := reset_parser c\<rparr>))"
    by (simp add: ingest_dispatch_def upd_c_def)
  show ?thesis
    using head body disp ping(2) t
    by (intro exI[of _ "w\<lparr>mq_t := t, mq_c := reset_parser c\<rparr>"])
      (simp add: on_fall_def reset_parser_def)
qed

lemma client0_rx [simp]: "mc_rx_len client0 = 0"
  by (simp add: client0_def MqttClient_Init_def MQTT_MAX_CLIENT_ID_LENGTH_def)

lemma mqtt_header_overread_witness:
  "\<exists>w'. Ingest_loop fake_adapter None (Suc 0)
      ((fake_mqtt (client0\<lparr>mc_state := MQTT_STATE_CONNECTED, mc_rx_buf := replicate 2304 0\<rparr>) 0)
        \<lparr>mq_t := (fake_transport NET_STATE_CONNECTED)\<lparr>nt_rx := full_ring [0xD0, 0x00, 0xD0, 0x00, 0xD0, 0x00]\<rparr>\<rparr>)
      = Some (MQTT_OK, w') \<and> ring_gather (nt_rx (mq_t w')) = [0x00]"
proof -
  let ?w = "(fake_mqtt (client0\<lparr>mc_state := MQTT_STATE_CONNECTED, mc_rx_buf := replicate 2304 0\<rparr>) 0)
        \<lparr>mq_t := (fake_transport NET_STATE_CONNECTED)\<lparr>nt_rx := full_ring [0xD0, 0x00, 0xD0, 0x00, 0xD0, 0x00]\<rparr>\<rparr>"
  have "\<exists>w'. Ingest_loop fake_adapter None (Suc 0) ?w = Ingest_loop fake_adapter None 0 w' \<and>
      mc_state (mq_c w') = MQTT_STATE_CONNECTED \<and> mc_rx_len (mq_c w') = 0 \<and>
      ring_gather (nt_rx (mq_t w')) = drop 3 [0xD0, 0x00, 0xD0, 0x00]"
    using full_ring[of "[0xD0, 0x00, 0xD0, 0x00, 0xD0, 0x00]"]
    by (intro mqtt_header_overread) (simp_all add: fake_mqtt_def)
  then show ?thesis by (auto simp del: Ingest_loop.simps(2))
qed

end
