(* ===== verification/Float32.thy ===== *)
theory Float32
  imports Complex_Main Prelude
begin
text \<open>
  The C type \<open>float\<close> of the target and of the host: IEEE single precision with rounding
  to nearest, ties to even. A finite value is a sign and a magnitude, so that the two zeros
  stay apart; every operation computes the exact result and rounds it once. The conversion
  to \<open>int32_t\<close> has no result outside the range of the type, where C leaves the
  behaviour undefined.
\<close>

datatype f32 = F32 (f32_neg: bool) (f32_mag: rat) | F32_Inf bool | F32_NaN

fun f32_val :: "f32 \<Rightarrow> rat" where
  "f32_val (F32 neg m) = (if neg then - m else m)"
| "f32_val (F32_Inf _) = 0"
| "f32_val F32_NaN = 0"

section \<open>Rounding\<close>

function ilog2 :: "int \<Rightarrow> int" where
  "ilog2 n = (if n < 2 then 0 else 1 + ilog2 (n div 2))"
  by pat_completeness auto

termination
  by (relation "measure nat") auto

declare ilog2.simps [simp del]

definition round_half_even :: "rat \<Rightarrow> int" where
  "round_half_even q =
     (let n = \<lfloor>q\<rfloor>; r = q - of_int n in if r < 1 / 2 \<or> r = 1 / 2 \<and> even n then n else n + 1)"

text \<open>The exponent of the leading bit of a positive number.\<close>

definition f32_exponent :: "rat \<Rightarrow> int" where
  "f32_exponent m =
     (let (n, d) = quotient_of m; e = ilog2 n - ilog2 d
      in if 2 powi e \<le> m then e else e - 1)"

definition f32_quantum :: "rat \<Rightarrow> rat" where
  "f32_quantum m = 2 powi (max (f32_exponent m) (-126) - 23)"

definition f32_round :: "bool \<Rightarrow> rat \<Rightarrow> f32" where
  "f32_round neg m =
     (if m = 0 then F32 neg 0
      else let v = of_int (round_half_even (m / f32_quantum m)) * f32_quantum m
      in if v \<ge> 2 ^ 128 then F32_Inf neg else F32 neg v)"

section \<open>Operations\<close>

definition f32_of_int :: "int \<Rightarrow> f32" where
  "f32_of_int k = f32_round (k < 0) (of_int \<bar>k\<bar>)"

fun f32_mul :: "f32 \<Rightarrow> f32 \<Rightarrow> f32" where
  "f32_mul F32_NaN _ = F32_NaN"
| "f32_mul _ F32_NaN = F32_NaN"
| "f32_mul (F32 a x) (F32 b y) = f32_round (a \<noteq> b) (x * y)"
| "f32_mul (F32_Inf a) (F32_Inf b) = F32_Inf (a \<noteq> b)"
| "f32_mul (F32 a x) (F32_Inf b) = (if x = 0 then F32_NaN else F32_Inf (a \<noteq> b))"
| "f32_mul (F32_Inf a) (F32 b y) = (if y = 0 then F32_NaN else F32_Inf (a \<noteq> b))"

fun f32_div :: "f32 \<Rightarrow> f32 \<Rightarrow> f32" where
  "f32_div F32_NaN _ = F32_NaN"
| "f32_div _ F32_NaN = F32_NaN"
| "f32_div (F32 a x) (F32 b y) =
     (if y = 0 then if x = 0 then F32_NaN else F32_Inf (a \<noteq> b) else f32_round (a \<noteq> b) (x / y))"
| "f32_div (F32_Inf a) (F32_Inf b) = F32_NaN"
| "f32_div (F32 a x) (F32_Inf b) = F32 (a \<noteq> b) 0"
| "f32_div (F32_Inf a) (F32 b y) = F32_Inf (a \<noteq> b)"

text \<open>A sum of zero is negative only when both terms are negative zeros.\<close>

fun f32_add :: "f32 \<Rightarrow> f32 \<Rightarrow> f32" where
  "f32_add F32_NaN _ = F32_NaN"
| "f32_add _ F32_NaN = F32_NaN"
| "f32_add (F32_Inf a) (F32_Inf b) = (if a = b then F32_Inf a else F32_NaN)"
| "f32_add (F32_Inf a) (F32 b y) = F32_Inf a"
| "f32_add (F32 a x) (F32_Inf b) = F32_Inf b"
| "f32_add (F32 a x) (F32 b y) =
     (let v = f32_val (F32 a x) + f32_val (F32 b y)
      in if v = 0 then F32 (a \<and> b) 0 else f32_round (v < 0) \<bar>v\<bar>)"

fun f32_minus :: "f32 \<Rightarrow> f32" where
  "f32_minus (F32 a x) = F32 (\<not> a) x"
| "f32_minus (F32_Inf a) = F32_Inf (\<not> a)"
| "f32_minus F32_NaN = F32_NaN"

definition f32_sub :: "f32 \<Rightarrow> f32 \<Rightarrow> f32" where
  "f32_sub x y = f32_add x (f32_minus y)"

text \<open>A literal: the nearest number to the decimal value.\<close>

definition f32_lit :: "rat \<Rightarrow> f32" where
  "f32_lit q = f32_round (q < 0) \<bar>q\<bar>"

fun f32_less :: "f32 \<Rightarrow> f32 \<Rightarrow> bool" where
  "f32_less F32_NaN _ = False"
| "f32_less _ F32_NaN = False"
| "f32_less (F32_Inf a) (F32_Inf b) = (a \<and> \<not> b)"
| "f32_less (F32_Inf a) (F32 _ _) = a"
| "f32_less (F32 _ _) (F32_Inf b) = (\<not> b)"
| "f32_less (F32 a x) (F32 b y) = (f32_val (F32 a x) < f32_val (F32 b y))"

definition f32_isfinite :: "f32 \<Rightarrow> bool" where
  "f32_isfinite v = (case v of F32 _ _ \<Rightarrow> True | _ \<Rightarrow> False)"

text \<open>The cast to \<open>int32_t\<close> truncates; \<open>None\<close> is undefined behaviour.\<close>

definition f32_to_int32 :: "f32 \<Rightarrow> int option" where
  "f32_to_int32 v =
     (case v of F32 neg m \<Rightarrow>
        let k = (if neg then - \<lfloor>m\<rfloor> else \<lfloor>m\<rfloor>) in
        if - (2 ^ 31) \<le> k \<and> k < 2 ^ 31 then Some k else None
      | _ \<Rightarrow> None)"

section \<open>Facts on rounding\<close>

lemma ilog2_bounds: "0 < n \<Longrightarrow> 0 \<le> ilog2 n \<and> 2 ^ nat (ilog2 n) \<le> n \<and> n < 2 ^ Suc (nat (ilog2 n))"
proof (induction n rule: ilog2.induct)
  case (1 n)
  show ?case
  proof (cases "n < 2")
    case True
    with 1(2) show ?thesis by (simp add: ilog2.simps)
  next
    case False
    then have IH: "0 \<le> ilog2 (n div 2)" "2 ^ nat (ilog2 (n div 2)) \<le> n div 2"
      "n div 2 < 2 ^ Suc (nat (ilog2 (n div 2)))"
      using 1(1) by simp_all
    have "ilog2 n = 1 + ilog2 (n div 2)" using False by (simp add: ilog2.simps)
    then have "0 \<le> ilog2 n" "nat (ilog2 n) = Suc (nat (ilog2 (n div 2)))"
      using IH(1) by (simp_all add: nat_add_distrib)
    moreover have "2 * (n div 2) \<le> n" "n < 2 * (n div 2 + 1)" by simp_all
    ultimately show ?thesis using IH(2,3) by simp
  qed
qed

lemma powi_le_2 [simp]: "(2 :: rat) powi a \<le> 2 powi b \<longleftrightarrow> a \<le> b"
  using power_int_increasing[of a b "2 :: rat"] power_int_strict_increasing[of b a "2 :: rat"]
  by (auto simp: not_le[symmetric])

lemma powi_less_2 [simp]: "(2 :: rat) powi a < 2 powi b \<longleftrightarrow> a < b"
  by (simp add: not_le[symmetric])

lemma powi_pos [simp]: "0 < (2 :: rat) powi a"
  by (simp add: zero_less_power_int)

lemma powi_add: "(2 :: rat) powi (a + b) = 2 powi a * 2 powi b"
  by (simp add: power_int_add)

lemma exponent_bounds:
  assumes "0 < m"
  shows "2 powi f32_exponent m \<le> m" "m < 2 powi (f32_exponent m + 1)"
proof -
  obtain n d where q: "quotient_of m = (n, d)" by fastforce
  have d: "0 < d" using quotient_of_denom_pos[OF q] .
  have m: "m = of_int n / of_int d" using quotient_of_div[OF q] .
  then have n: "0 < n" using assms d by (simp add: zero_less_divide_iff)
  define a b where "a = nat (ilog2 n)" and "b = nat (ilog2 d)"
  have ab: "int a = ilog2 n" "int b = ilog2 d"
    and ia: "2 ^ a \<le> n" "n < 2 ^ Suc a" "2 ^ b \<le> d" "d < 2 ^ Suc b"
    using ilog2_bounds[OF n] ilog2_bounds[OF d] by (simp_all add: a_def b_def)
  have "(of_int (2 ^ a) :: rat) \<le> of_int n" "(of_int n :: rat) < of_int (2 ^ Suc a)"
    "(of_int (2 ^ b) :: rat) \<le> of_int d" "(of_int d :: rat) < of_int (2 ^ Suc b)"
    using ia by (simp_all only: of_int_le_iff of_int_less_iff)
  then have ra: "(2 :: rat) ^ a \<le> of_int n" "(of_int n :: rat) < 2 ^ Suc a"
    "(2 :: rat) ^ b \<le> of_int d" "(of_int d :: rat) < 2 ^ Suc b"
    by simp_all
  have rd: "(0 :: rat) < of_int d" "(0 :: rat) \<le> of_int n" using d n by simp_all
  have "(2 :: rat) powi (int a - int b - 1) = 2 ^ a / 2 ^ Suc b"
    by (simp add: power_int_diff)
  also have "\<dots> \<le> m" unfolding m using ra rd by (intro frac_le) simp_all
  finally have lo: "2 powi (int a - int b - 1) \<le> m" .
  have "m < 2 ^ Suc a / 2 ^ b" unfolding m using ra rd by (intro frac_less) simp_all
  also have "\<dots> = (2 :: rat) powi (int a - int b + 1)"
    by (simp add: power_int_diff power_int_add)
  finally have hi: "m < 2 powi (int a - int b + 1)" .
  have e: "f32_exponent m = (if 2 powi (int a - int b) \<le> m then int a - int b else int a - int b - 1)"
    by (simp add: f32_exponent_def q ab)
  show "2 powi f32_exponent m \<le> m" "m < 2 powi (f32_exponent m + 1)"
    unfolding e using lo hi by (simp_all add: not_le)
qed

lemma exponent_ge: "2 powi p \<le> m \<Longrightarrow> p \<le> f32_exponent m"
proof -
  assume p: "2 powi p \<le> m"
  then have "0 < m" by (rule less_le_trans[OF powi_pos])
  from exponent_bounds(2)[OF this] p have "(2 :: rat) powi p < 2 powi (f32_exponent m + 1)" by linarith
  then show ?thesis by simp
qed

lemma exponent_less:
  assumes "0 < m" "m < 2 powi p"
  shows "f32_exponent m < p"
proof -
  have "(2 :: rat) powi f32_exponent m < 2 powi p"
    using exponent_bounds(1)[OF assms(1)] assms(2) by linarith
  then show ?thesis by simp
qed

lemma round_half_even_of_int [simp]: "round_half_even (of_int k) = k"
  by (simp add: round_half_even_def)

lemma round_half_even_ge:
  assumes "of_int k \<le> q"
  shows "k \<le> round_half_even q"
proof -
  have "k \<le> \<lfloor>q\<rfloor>" using assms by (simp add: le_floor_iff)
  then show ?thesis by (simp add: round_half_even_def Let_def)
qed

text \<open>A number of at most 24 significant bits is not changed.\<close>

lemma f32_round_exact:
  assumes "0 \<le> k" "k < 2 ^ 24" "-149 \<le> s" "s \<le> 100"
  shows "f32_round neg (of_int k * 2 powi s) = F32 neg (of_int k * 2 powi s)"
proof (cases "k = 0")
  case False
  let ?m = "of_int k * 2 powi s :: rat" and ?u = "f32_quantum (of_int k * 2 powi s)"
  have pos: "0 < ?m" using assms(1) False by simp
  have "(of_int k :: rat) < of_int (2 ^ 24)" using assms(2) by (simp only: of_int_less_iff)
  then have "(of_int k :: rat) < 2 powi 24" by simp
  then have "?m < 2 powi 24 * 2 powi s" by simp
  then have lt: "?m < 2 powi (24 + s)" by (simp only: powi_add)
  have "f32_exponent ?m < 24 + s" using exponent_less[OF pos lt] .
  then have "max (f32_exponent ?m) (-126) - 23 \<le> s" using assms(3) by linarith
  then obtain j where j: "s = max (f32_exponent ?m) (-126) - 23 + int j"
    by (metis zle_iff_zadd)
  have ms: "?m = of_int (k * 2 ^ j) * ?u"
    by (subst j) (simp add: f32_quantum_def powi_add)
  have u0: "?u \<noteq> 0" using powi_pos[of "max (f32_exponent ?m) (-126) - 23"]
    by (simp add: f32_quantum_def)
  have "?m / ?u = of_int (k * 2 ^ j)" using ms u0 by (metis nonzero_mult_div_cancel_right)
  then have v: "of_int (round_half_even (?m / ?u)) * ?u = ?m"
    using ms by (simp only: round_half_even_of_int)
  have "?m < 2 powi 128" using lt assms(4) powi_le_2[of "24 + s" 128] by linarith
  then have "\<not> 2 ^ 128 \<le> ?m" by (simp add: not_le)
  then show ?thesis using pos by (simp add: f32_round_def Let_def v)
qed (simp add: f32_round_def)

text \<open>Rounding does not fall below a power of two.\<close>

lemma f32_round_ge:
  assumes "2 powi p \<le> m" "-126 \<le> p"
  shows "f32_round neg m = F32_Inf neg \<or> (\<exists>v. f32_round neg m = F32 neg v \<and> 2 powi p \<le> v)"
proof -
  let ?e = "f32_exponent m" and ?u = "f32_quantum m"
  have pos: "0 < m" using less_le_trans[OF powi_pos assms(1)] .
  have e: "p \<le> ?e" using exponent_ge[OF assms(1)] .
  then have u: "?u = 2 powi (?e - 23)" using assms(2) by (simp add: f32_quantum_def)
  define r where "r = round_half_even (m / ?u)"
  have split: "(2 :: rat) powi ?e = 2 ^ 23 * 2 powi (?e - 23)"
    using powi_add[of 23 "?e - 23"] by simp
  have "(2 :: rat) ^ 23 \<le> m / ?u"
    using exponent_bounds(1)[OF pos] by (simp add: u split pos_le_divide_eq)
  then have "2 ^ 23 \<le> r" unfolding r_def by (intro round_half_even_ge) simp
  then have "(of_int (2 ^ 23) :: rat) \<le> of_int r" by (simp only: of_int_le_iff)
  then have "(2 :: rat) ^ 23 * 2 powi (?e - 23) \<le> of_int r * 2 powi (?e - 23)"
    by (intro mult_right_mono) simp_all
  then have "2 powi ?e \<le> of_int r * ?u" unfolding u split .
  then have "2 powi p \<le> of_int r * ?u" using powi_le_2[of p ?e] e by linarith
  then show ?thesis using pos by (simp add: f32_round_def Let_def r_def)
qed

text \<open>A cast that has a result keeps the integer part.\<close>

lemma f32_to_int32_range:
  "f32_to_int32 v = Some k \<Longrightarrow> - (2 ^ 31) \<le> k \<and> k < 2 ^ 31"
  by (auto simp: f32_to_int32_def Let_def split: f32.splits if_splits)

section \<open>Double precision\<close>

text \<open>
  The C type \<open>double\<close>, as \<open>Float32\<close> has \<open>float\<close>: a sign and a rational magnitude, 53
  significant bits, one rounding per operation, and the conversion to \<open>float\<close>.
\<close>

datatype f64 = F64 (f64_neg: bool) (f64_mag: rat) | F64_Inf bool | F64_NaN

fun f64_val :: "f64 \<Rightarrow> rat" where
  "f64_val (F64 neg m) = (if neg then - m else m)"
| "f64_val (F64_Inf _) = 0"
| "f64_val F64_NaN = 0"

definition f64_quantum :: "rat \<Rightarrow> rat" where
  "f64_quantum m = 2 powi (max (f32_exponent m) (-1022) - 52)"

definition f64_round :: "bool \<Rightarrow> rat \<Rightarrow> f64" where
  "f64_round neg m =
     (if m = 0 then F64 neg 0
      else let v = of_int (round_half_even (m / f64_quantum m)) * f64_quantum m
      in if v \<ge> 2 ^ 1024 then F64_Inf neg else F64 neg v)"

definition f64_of_int :: "int \<Rightarrow> f64" where
  "f64_of_int k = f64_round (k < 0) (of_int \<bar>k\<bar>)"

definition f64_lit :: "rat \<Rightarrow> f64" where
  "f64_lit q = f64_round (q < 0) \<bar>q\<bar>"

fun f64_mul :: "f64 \<Rightarrow> f64 \<Rightarrow> f64" where
  "f64_mul F64_NaN _ = F64_NaN"
| "f64_mul _ F64_NaN = F64_NaN"
| "f64_mul (F64 a x) (F64 b y) = f64_round (a \<noteq> b) (x * y)"
| "f64_mul (F64_Inf a) (F64_Inf b) = F64_Inf (a \<noteq> b)"
| "f64_mul (F64 a x) (F64_Inf b) = (if x = 0 then F64_NaN else F64_Inf (a \<noteq> b))"
| "f64_mul (F64_Inf a) (F64 b y) = (if y = 0 then F64_NaN else F64_Inf (a \<noteq> b))"

fun f64_div :: "f64 \<Rightarrow> f64 \<Rightarrow> f64" where
  "f64_div F64_NaN _ = F64_NaN"
| "f64_div _ F64_NaN = F64_NaN"
| "f64_div (F64 a x) (F64 b y) =
     (if y = 0 then if x = 0 then F64_NaN else F64_Inf (a \<noteq> b) else f64_round (a \<noteq> b) (x / y))"
| "f64_div (F64_Inf a) (F64_Inf b) = F64_NaN"
| "f64_div (F64 a x) (F64_Inf b) = F64 (a \<noteq> b) 0"
| "f64_div (F64_Inf a) (F64 b y) = F64_Inf (a \<noteq> b)"

fun f64_add :: "f64 \<Rightarrow> f64 \<Rightarrow> f64" where
  "f64_add F64_NaN _ = F64_NaN"
| "f64_add _ F64_NaN = F64_NaN"
| "f64_add (F64_Inf a) (F64_Inf b) = (if a = b then F64_Inf a else F64_NaN)"
| "f64_add (F64_Inf a) (F64 b y) = F64_Inf a"
| "f64_add (F64 a x) (F64_Inf b) = F64_Inf b"
| "f64_add (F64 a x) (F64 b y) =
     (let v = f64_val (F64 a x) + f64_val (F64 b y)
      in if v = 0 then F64 (a \<and> b) 0 else f64_round (v < 0) \<bar>v\<bar>)"

fun f64_minus :: "f64 \<Rightarrow> f64" where
  "f64_minus (F64 a x) = F64 (\<not> a) x"
| "f64_minus (F64_Inf a) = F64_Inf (\<not> a)"
| "f64_minus F64_NaN = F64_NaN"

definition f64_sub :: "f64 \<Rightarrow> f64 \<Rightarrow> f64" where
  "f64_sub x y = f64_add x (f64_minus y)"

fun f64_less :: "f64 \<Rightarrow> f64 \<Rightarrow> bool" where
  "f64_less F64_NaN _ = False"
| "f64_less _ F64_NaN = False"
| "f64_less (F64_Inf a) (F64_Inf b) = (a \<and> \<not> b)"
| "f64_less (F64_Inf a) (F64 _ _) = a"
| "f64_less (F64 _ _) (F64_Inf b) = (\<not> b)"
| "f64_less (F64 a x) (F64 b y) = (f64_val (F64 a x) < f64_val (F64 b y))"

text \<open>\<open>==\<close>, and \<open><=\<close> as the one or the other.\<close>

fun f64_eq :: "f64 \<Rightarrow> f64 \<Rightarrow> bool" where
  "f64_eq (F64 a x) (F64 b y) = (f64_val (F64 a x) = f64_val (F64 b y))"
| "f64_eq (F64_Inf a) (F64_Inf b) = (a = b)"
| "f64_eq _ _ = False"

definition f64_le :: "f64 \<Rightarrow> f64 \<Rightarrow> bool" where
  "f64_le x y \<longleftrightarrow> f64_less x y \<or> f64_eq x y"

fun f64_to_f32 :: "f64 \<Rightarrow> f32" where
  "f64_to_f32 (F64 neg m) = f32_round neg m"
| "f64_to_f32 (F64_Inf neg) = F32_Inf neg"
| "f64_to_f32 F64_NaN = F32_NaN"

definition f32_to_f64 :: "f32 \<Rightarrow> f64" where
  "f32_to_f64 v = (case v of F32 neg m \<Rightarrow> F64 neg m | F32_Inf neg \<Rightarrow> F64_Inf neg | F32_NaN \<Rightarrow> F64_NaN)"

end
