(* ===== verification/Command_Parser.thy ===== *)
theory Command_Parser
  imports Provisioning Float32 Decimal
begin

text \<open>
  \<open>Command/Src/command_parser.c\<close>: one flat JSON object with fixed field names becomes a
  \<open>CommandRequest\<close>. The data pointer, its size and the position \<open>p\<close> are the part of the
  input from \<open>p\<close> on; a parser returns what it read and the rest, or \<open>None\<close> where the
  source returns false. Characters are their ASCII codes.
\<close>

section \<open>Requests\<close>

datatype CommandType =
    COMMAND_NONE | COMMAND_GET_STATUS | COMMAND_GET_CONFIG | COMMAND_SET_CONFIG
  | COMMAND_RESET_CONFIG | COMMAND_GET_IDENTITY | COMMAND_SELF_TEST | COMMAND_REBOOT
  | COMMAND_GET_CAPABILITIES | COMMAND_GET_MANIFEST | COMMAND_REGISTER_DEVICE
  | COMMAND_UNREGISTER_DEVICE | COMMAND_FACTORY_RESET | COMMAND_GET_PROVISIONING_STATUS
  | COMMAND_ASSIGN_LOCATION | COMMAND_UNKNOWN

record CommandArguments =
  has_light_period_ms :: bool
  light_period_ms :: u32
  has_display_period_ms :: bool
  display_period_ms :: u32
  has_telemetry_period_ms :: bool
  telemetry_period_ms :: u32
  has_light_calibration :: bool
  light_calibration :: f32
  has_installation_id :: bool
  installation_id :: bytes
  has_building_id :: bool
  building_id :: bytes
  has_room_id :: bool
  room_id :: bytes

record CommandRequest =
  rq_type :: CommandType
  rq_request_id :: u32
  rq_args :: CommandArguments
  rq_has_request_id :: bool

definition zero_request :: CommandRequest where
  "zero_request =
     \<lparr>rq_type = COMMAND_UNKNOWN, rq_request_id = 0,
      rq_args = \<lparr>has_light_period_ms = False, light_period_ms = 0, has_display_period_ms = False,
        display_period_ms = 0, has_telemetry_period_ms = False, telemetry_period_ms = 0,
        has_light_calibration = False, light_calibration = F32 False 0,
        has_installation_id = False, installation_id = zero_id, has_building_id = False,
        building_id = zero_id, has_room_id = False, room_id = zero_id\<rparr>,
      rq_has_request_id = False\<rparr>"

definition StrToType :: "bytes \<Rightarrow> CommandType" where
  "StrToType str =
     (if str = ascii ''GET_STATUS'' then COMMAND_GET_STATUS
      else if str = ascii ''GET_CONFIG'' then COMMAND_GET_CONFIG
      else if str = ascii ''SET_CONFIG'' then COMMAND_SET_CONFIG
      else if str = ascii ''RESET_CONFIG'' then COMMAND_RESET_CONFIG
      else if str = ascii ''GET_IDENTITY'' then COMMAND_GET_IDENTITY
      else if str = ascii ''SELF_TEST'' then COMMAND_SELF_TEST
      else if str = ascii ''REBOOT'' then COMMAND_REBOOT
      else if str = ascii ''GET_CAPABILITIES'' then COMMAND_GET_CAPABILITIES
      else if str = ascii ''GET_MANIFEST'' then COMMAND_GET_MANIFEST
      else if str = ascii ''REGISTER_DEVICE'' then COMMAND_REGISTER_DEVICE
      else if str = ascii ''UNREGISTER_DEVICE'' then COMMAND_UNREGISTER_DEVICE
      else if str = ascii ''FACTORY_RESET'' then COMMAND_FACTORY_RESET
      else if str = ascii ''GET_PROVISIONING_STATUS'' then COMMAND_GET_PROVISIONING_STATUS
      else if str = ascii ''ASSIGN_LOCATION'' then COMMAND_ASSIGN_LOCATION
      else COMMAND_UNKNOWN)"

section \<open>Lexical level\<close>

fun starts :: "(u8 \<Rightarrow> bool) \<Rightarrow> bytes \<Rightarrow> bool" where
  "starts P [] = False"
| "starts P (c # _) = P c"

fun SkipW :: "bytes \<Rightarrow> bytes" where
  "SkipW [] = []"
| "SkipW (c # d) = (if c = 0x20 \<or> c = 0x09 \<or> c = 0x0A \<or> c = 0x0D then SkipW d else c # d)"

definition escape_char :: "u8 \<Rightarrow> u8 option" where
  "escape_char esc =
     (if esc = 0x22 then Some 0x22
      else if esc = 0x5C then Some 0x5C
      else if esc = 0x6E then Some 0x0A
      else if esc = 0x72 then Some 0x0D
      else if esc = 0x74 then Some 0x09
      else None)"

text \<open>The loop of \<open>ParseString\<close>; \<open>out\<close> is what it has stored.\<close>

fun parse_string_loop :: "nat \<Rightarrow> bytes \<Rightarrow> bytes \<Rightarrow> (bytes \<times> bytes) option" where
  "parse_string_loop out_max out [] = None"
| "parse_string_loop out_max out (c # d) =
     (if c = 0x22 then Some (out, d)
      else if c = 0x5C
      then (case d of [] \<Rightarrow> None
            | esc # d' \<Rightarrow> (case escape_char esc of None \<Rightarrow> None
              | Some c' \<Rightarrow>
                if c' = 0x0A \<or> c' = 0x0D then None
                else if length out \<ge> out_max - 1 then None
                else parse_string_loop out_max (out @ [c']) d'))
      else if c < 0x20 then None
      else if length out \<ge> out_max - 1 then None
      else parse_string_loop out_max (out @ [c]) d)"

definition ParseString :: "bytes \<Rightarrow> nat \<Rightarrow> (bytes \<times> bytes) option" where
  "ParseString d out_max =
     (case SkipW d of [] \<Rightarrow> None
      | c # d' \<Rightarrow> if c \<noteq> 0x22 then None else parse_string_loop out_max [] d')"

fun parse_uint_loop :: "u32 \<Rightarrow> bytes \<Rightarrow> (u32 \<times> bytes) option" where
  "parse_uint_loop v [] = Some (v, [])"
| "parse_uint_loop v (c # d) =
     (if is_digit c
      then let digit = ucast (c - 0x30) in
        if v > (0xFFFFFFFF - digit) div 10 then None else parse_uint_loop (v * 10 + digit) d
      else Some (v, c # d))"

definition ParseUint :: "bytes \<Rightarrow> (u32 \<times> bytes) option" where
  "ParseUint data =
     (case SkipW data of [] \<Rightarrow> None
      | c # d \<Rightarrow>
        if c = 0x2D \<or> c = 0x2B then None
        else if c = 0x2E \<or> c = 0x65 \<or> c = 0x45 then None
        else if \<not> is_digit c then None
        else case (if c = 0x30 then if starts is_digit d then None else Some (0, d)
                   else parse_uint_loop 0 (c # d)) of
          None \<Rightarrow> None
        | Some (val, r) \<Rightarrow>
          if starts (\<lambda>c. c = 0x2E \<or> c = 0x65 \<or> c = 0x45) r then None else Some (val, r))"

section \<open>Numbers with a fraction\<close>

abbreviation skip_digits :: "bytes \<Rightarrow> bytes" where "skip_digits \<equiv> dropWhile is_digit"

definition scan_int :: "bytes \<Rightarrow> bytes option" where
  "scan_int d =
     (case d of [] \<Rightarrow> None
      | c # d' \<Rightarrow> if 0x31 \<le> c \<and> c \<le> 0x39 then Some (skip_digits d')
                  else if c = 0x30 then Some d' else None)"

definition scan_frac :: "bytes \<Rightarrow> bytes option" where
  "scan_frac d =
     (if starts (\<lambda>c. c = 0x2E) d
      then if \<not> starts is_digit (tl d) then None else Some (skip_digits (tl d))
      else Some d)"

definition scan_exp :: "bytes \<Rightarrow> bytes option" where
  "scan_exp d =
     (if starts (\<lambda>c. c = 0x65 \<or> c = 0x45) d
      then let d' = (if starts (\<lambda>c. c = 0x2B \<or> c = 0x2D) (tl d) then tl (tl d) else tl d)
           in if \<not> starts is_digit d' then None else Some (skip_digits d')
      else Some d)"

text \<open>The scanned text and the rest.\<close>

definition ScanNumberRegion :: "bytes \<Rightarrow> (bytes \<times> bytes) option" where
  "ScanNumberRegion d =
     (case scan_int (if starts (\<lambda>c. c = 0x2D) d then tl d else d) of None \<Rightarrow> None
      | Some d1 \<Rightarrow> (case scan_frac d1 of None \<Rightarrow> None
        | Some d2 \<Rightarrow> (case scan_exp d2 of None \<Rightarrow> None
          | Some d3 \<Rightarrow> Some (take (length d - length d3) d, d3))))"

text \<open>
  \<open>strtof\<close> of the C library on decimal text: the value rounded once, the number of
  characters used, and whether it sets \<open>ERANGE\<close>: on overflow, and when the value is
  below the smallest normal number and not exact.
\<close>

definition strtof_exp :: "bytes \<Rightarrow> int \<times> bytes" where
  "strtof_exp d =
     (case scan_exp d of None \<Rightarrow> (0, d)
      | Some r \<Rightarrow>
        if \<not> starts (\<lambda>c. c = 0x65 \<or> c = 0x45) d then (0, d)
        else let e = tl d; neg = starts (\<lambda>c. c = 0x2D) e;
                 e' = (if starts (\<lambda>c. c = 0x2B \<or> c = 0x2D) e then tl e else e);
                 k = int (dec_number (takeWhile is_digit e'))
             in (if neg then - k else k, r))"

definition strtof :: "bytes \<Rightarrow> f32 \<times> nat \<times> bool" where
  "strtof buf =
     (let neg = starts (\<lambda>c. c = 0x2D) buf;
          d = (if neg then tl buf else buf);
          ds = takeWhile is_digit d; d1 = skip_digits d;
          fs = (if starts (\<lambda>c. c = 0x2E) d1 then takeWhile is_digit (tl d1) else []);
          d2 = (if starts (\<lambda>c. c = 0x2E) d1 then skip_digits (tl d1) else d1)
      in
      if ds = [] \<and> fs = [] then (F32 False 0, 0, False)
      else let
        (e, d3) = strtof_exp d2;
        m = of_nat (dec_number (ds @ fs)) * 10 powi (e - int (length fs));
        v = f32_round neg m
      in (v, length buf - length d3,
          \<not> f32_isfinite v \<or> 0 < m \<and> m < 2 powi (-126) \<and> f32_mag v \<noteq> m))"

definition ParseFloat :: "bytes \<Rightarrow> (f32 \<times> bytes) option" where
  "ParseFloat data =
     (case ScanNumberRegion (SkipW data) of None \<Rightarrow> None
      | Some (buf, r) \<Rightarrow>
        if length buf = 0 then None
        else if length buf \<ge> 64 then None
        else case strtof buf of (v, used, erange) \<Rightarrow>
          if erange \<or> used \<noteq> length buf then None
          else if \<not> f32_isfinite v then None
          else Some (v, r))"

section \<open>Arguments\<close>

definition ValidateArgs :: "CommandRequest \<Rightarrow> bool" where
  "ValidateArgs r =
     (let a = rq_args r;
          has_config = (has_light_period_ms a \<or> has_display_period_ms a \<or>
            has_telemetry_period_ms a \<or> has_light_calibration a);
          has_any = (has_config \<or> has_installation_id a \<or> has_building_id a \<or> has_room_id a)
      in case rq_type r of
        COMMAND_GET_STATUS \<Rightarrow> \<not> has_any
      | COMMAND_GET_CONFIG \<Rightarrow> \<not> has_any
      | COMMAND_GET_IDENTITY \<Rightarrow> \<not> has_any
      | COMMAND_GET_CAPABILITIES \<Rightarrow> \<not> has_any
      | COMMAND_GET_MANIFEST \<Rightarrow> \<not> has_any
      | COMMAND_GET_PROVISIONING_STATUS \<Rightarrow> \<not> has_any
      | COMMAND_SELF_TEST \<Rightarrow> \<not> has_any
      | COMMAND_RESET_CONFIG \<Rightarrow> \<not> has_any
      | COMMAND_FACTORY_RESET \<Rightarrow> \<not> has_any
      | COMMAND_UNREGISTER_DEVICE \<Rightarrow> \<not> has_any
      | COMMAND_REBOOT \<Rightarrow> \<not> has_any
      | COMMAND_SET_CONFIG \<Rightarrow>
          (if has_installation_id a \<or> has_building_id a \<or> has_room_id a then False else has_config)
      | COMMAND_REGISTER_DEVICE \<Rightarrow>
          has_installation_id a \<and> \<not> has_building_id a \<and> \<not> has_room_id a \<and> \<not> has_config
      | COMMAND_ASSIGN_LOCATION \<Rightarrow>
          has_installation_id a \<and> has_building_id a \<and> has_room_id a \<and> \<not> has_config
      | COMMAND_UNKNOWN \<Rightarrow> True
      | COMMAND_NONE \<Rightarrow> False)"

section \<open>The object\<close>

text \<open>The request with the flags \<open>has_id\<close> and \<open>has_cmd\<close>.\<close>

record parse_state =
  pa_request :: CommandRequest
  pa_has_id :: bool
  pa_has_cmd :: bool

abbreviation upd_args :: "(CommandArguments \<Rightarrow> CommandArguments) \<Rightarrow> parse_state \<Rightarrow> parse_state" where
  "upd_args g s \<equiv> s\<lparr>pa_request := (pa_request s)\<lparr>rq_args := g (rq_args (pa_request s))\<rparr>\<rparr>"

definition parse_id :: "bytes \<Rightarrow> (EntityId \<times> bytes) option" where
  "parse_id d =
     (case ParseString d 64 of None \<Rightarrow> None
      | Some (hex, r) \<Rightarrow>
        (case EntityId_Parse zero_id (Some hex) of (ok, ident) \<Rightarrow> if ok then Some (ident, r) else None))"

text \<open>One \<open>else if\<close> branch: the value of a field is parsed and stored.\<close>

definition parse_value :: "bytes \<Rightarrow> bytes \<Rightarrow> parse_state \<Rightarrow> (parse_state \<times> bytes) option" where
  "parse_value field d s =
     (let a = rq_args (pa_request s) in
      if field = ascii ''id''
      then if pa_has_id s then None
           else map_option (\<lambda>(n, r). (s\<lparr>pa_request := (pa_request s)\<lparr>rq_request_id := n,
                    rq_has_request_id := True\<rparr>, pa_has_id := True\<rparr>, r)) (ParseUint d)
      else if field = ascii ''command''
      then if pa_has_cmd s then None
           else map_option (\<lambda>(cmd, r). (s\<lparr>pa_request := (pa_request s)\<lparr>rq_type := StrToType cmd\<rparr>,
                    pa_has_cmd := True\<rparr>, r)) (ParseString d 32)
      else if field = ascii ''light_period_ms''
      then if has_light_period_ms a then None
           else map_option (\<lambda>(n, r). (upd_args (\<lambda>a. a\<lparr>light_period_ms := n,
                    has_light_period_ms := True\<rparr>) s, r)) (ParseUint d)
      else if field = ascii ''display_period_ms''
      then if has_display_period_ms a then None
           else map_option (\<lambda>(n, r). (upd_args (\<lambda>a. a\<lparr>display_period_ms := n,
                    has_display_period_ms := True\<rparr>) s, r)) (ParseUint d)
      else if field = ascii ''telemetry_period_ms''
      then if has_telemetry_period_ms a then None
           else map_option (\<lambda>(n, r). (upd_args (\<lambda>a. a\<lparr>telemetry_period_ms := n,
                    has_telemetry_period_ms := True\<rparr>) s, r)) (ParseUint d)
      else if field = ascii ''light_calibration''
      then if has_light_calibration a then None
           else map_option (\<lambda>(v, r). (upd_args (\<lambda>a. a\<lparr>light_calibration := v,
                    has_light_calibration := True\<rparr>) s, r)) (ParseFloat d)
      else if field = ascii ''installation_id''
      then if has_installation_id a then None
           else map_option (\<lambda>(i, r). (upd_args (\<lambda>a. a\<lparr>installation_id := i,
                    has_installation_id := True\<rparr>) s, r)) (parse_id d)
      else if field = ascii ''building_id''
      then if has_building_id a then None
           else map_option (\<lambda>(i, r). (upd_args (\<lambda>a. a\<lparr>building_id := i,
                    has_building_id := True\<rparr>) s, r)) (parse_id d)
      else if field = ascii ''room_id''
      then if has_room_id a then None
           else map_option (\<lambda>(i, r). (upd_args (\<lambda>a. a\<lparr>room_id := i,
                    has_room_id := True\<rparr>) s, r)) (parse_id d)
      else None)"

text \<open>A field name, the colon and the value.\<close>

definition parse_member :: "bytes \<Rightarrow> parse_state \<Rightarrow> (parse_state \<times> bytes) option" where
  "parse_member d s =
     (case ParseString d 64 of None \<Rightarrow> None
      | Some (field, r) \<Rightarrow>
        (case SkipW r of [] \<Rightarrow> None
         | c # r' \<Rightarrow> if c \<noteq> 0x3A then None else parse_value field (SkipW r') s))"

section \<open>The loop over the fields\<close>

text \<open>Every parser consumes what it reads, so the loop ends.\<close>

lemma length_SkipW: "length (SkipW d) \<le> length d"
  by (induction d) auto

lemma parse_string_loop_shrinks:
  "parse_string_loop m out d = Some (s, r) \<Longrightarrow> length r < length d"
proof (induction m out d rule: parse_string_loop.induct)
  case (2 m out c d)
  show ?case
  proof (cases "c = 0x5C")
    case True
    then obtain esc d' c' where "d = esc # d'" "escape_char esc = Some c'" "c' \<noteq> 0x0A" "c' \<noteq> 0x0D"
      "\<not> m - 1 \<le> length out" "parse_string_loop m (out @ [c']) d' = Some (s, r)"
      using 2(3) by (auto split: list.splits option.splits if_splits)
    then show ?thesis using 2(1)[of esc d' c'] True by simp
  next
    case False
    then show ?thesis using 2(2,3) by (auto split: if_splits dest: less_SucI)
  qed
qed simp

lemma ParseString_shrinks: "ParseString d m = Some (s, r) \<Longrightarrow> length r < length d"
  using length_SkipW[of d]
  by (auto simp: ParseString_def split: list.splits if_splits dest!: parse_string_loop_shrinks)

lemma parse_uint_loop_shrinks: "parse_uint_loop v d = Some (n, r) \<Longrightarrow> length r \<le> length d"
  by (induction v d rule: parse_uint_loop.induct) (auto simp: Let_def split: if_splits)

lemma ParseUint_shrinks: "ParseUint d = Some (n, r) \<Longrightarrow> length r \<le> length d"
  using length_SkipW[of d]
  by (auto simp: ParseUint_def split: list.splits if_splits option.splits dest!: parse_uint_loop_shrinks)

lemma ParseFloat_shrinks: "ParseFloat d = Some (v, r) \<Longrightarrow> length r \<le> length d"
proof -
  have le: "length (tl x) \<le> length x" "length (dropWhile P x) \<le> length x" for x :: bytes and P
    by (simp_all add: length_dropWhile_le)
  have int: "scan_int x = Some y \<Longrightarrow> length y \<le> length x" for x y
    using le(2) by (auto simp: scan_int_def le_SucI split: list.splits if_splits)
  have frac: "scan_frac x = Some y \<Longrightarrow> length y \<le> length x" for x y
    using le(1)[of x] le(2)[of is_digit "tl x"] by (auto simp: scan_frac_def split: if_splits)
  have exp: "scan_exp x = Some y \<Longrightarrow> length y \<le> length x" for x y
    using le(1)[of x] le(1)[of "tl x"] le(2)[of is_digit "tl x"] le(2)[of is_digit "tl (tl x)"]
    by (auto simp: scan_exp_def Let_def split: if_splits)
  assume "ParseFloat d = Some (v, r)"
  then obtain d1 d2 where "scan_int (if starts (\<lambda>c. c = 0x2D) (SkipW d) then tl (SkipW d) else SkipW d) = Some d1"
    "scan_frac d1 = Some d2" "scan_exp d2 = Some r"
    by (auto simp: ParseFloat_def ScanNumberRegion_def split: option.splits if_splits prod.splits)
  then show ?thesis
    using int frac exp le(1)[of "SkipW d"] length_SkipW[of d] by (fastforce split: if_splits)
qed

lemma parse_id_shrinks: "parse_id d = Some (i, r) \<Longrightarrow> length r \<le> length d"
  by (auto simp: parse_id_def split: option.splits prod.splits if_splits dest!: ParseString_shrinks)

lemmas value_shrinks =
  ParseUint_shrinks ParseString_shrinks ParseFloat_shrinks parse_id_shrinks less_imp_le

lemma parse_value_shrinks: "parse_value field d s = Some (s', r) \<Longrightarrow> length r \<le> length d"
  by (auto simp: parse_value_def Let_def split: if_splits intro: value_shrinks)

lemma parse_member_shrinks: "parse_member d s = Some (s', r) \<Longrightarrow> length r < length d"
proof -
  assume "parse_member d s = Some (s', r)"
  then obtain field r1 c r2 where "ParseString d 64 = Some (field, r1)" "SkipW r1 = c # r2"
    "parse_value field (SkipW r2) s = Some (s', r)"
    by (auto simp: parse_member_def split: option.splits list.splits if_splits)
  then show ?thesis
    using ParseString_shrinks parse_value_shrinks length_SkipW[of r1] length_SkipW[of r2] by fastforce
qed

function parse_fields :: "bytes \<Rightarrow> bool \<Rightarrow> parse_state \<Rightarrow> (parse_state \<times> bytes) option" where
  "parse_fields data expect_field s =
     (case SkipW data of [] \<Rightarrow> None
      | c # d \<Rightarrow>
        if c = 0x7D then if expect_field then None else Some (s, d)
        else (case parse_member (c # d) s of None \<Rightarrow> None
          | Some (s', r) \<Rightarrow>
            (case SkipW r of [] \<Rightarrow> None
             | c' # r' \<Rightarrow>
               if c' = 0x2C then parse_fields r' True s'
               else if c' = 0x7D then parse_fields (c' # r') False s'
               else None)))"
  by pat_completeness auto

termination
proof (relation "measure (\<lambda>(d, _, _). length d)")
  fix data :: bytes and c :: u8 and d and s s' :: parse_state and p r and c' :: u8 and r'
  assume "SkipW data = c # d" "parse_member (c # d) s = Some p" "(s', r) = p" "SkipW r = c' # r'"
  then have "length (c' # r') < length data"
    using parse_member_shrinks[of "c # d" s s' r] length_SkipW[of r] length_SkipW[of data] by simp
  then show "((r', True, s'), data, b, s) \<in> measure (\<lambda>(d, _, _). length d)"
    "((c' # r', False, s'), data, b, s) \<in> measure (\<lambda>(d, _, _). length d)" for b
    by simp_all
qed simp

declare parse_fields.simps [simp del]

definition CommandParser_Parse :: "bytes option \<Rightarrow> CommandRequest option" where
  "CommandParser_Parse data =
     (case data of None \<Rightarrow> None
      | Some d \<Rightarrow>
        if length d = 0 then None
        else (case SkipW d of [] \<Rightarrow> None
          | c # r \<Rightarrow>
            if c \<noteq> 0x7B then None
            else (case parse_fields r False \<lparr>pa_request = zero_request, pa_has_id = False, pa_has_cmd = False\<rparr> of
                None \<Rightarrow> None
              | Some (s, r') \<Rightarrow>
                if SkipW r' \<noteq> [] then None
                else if \<not> pa_has_cmd s \<or> \<not> pa_has_id s then None
                else if ValidateArgs (pa_request s) then Some (pa_request s) else None)))"

end
