(* ===== verification/Device_Identity.thy ===== *)
theory Device_Identity
  imports Storage_Integrity Decimal
begin

text \<open>
  \<open>App/Src/device_identity.c\<close>: the identifier of the device, derived from the unique
  number of the chip, and its record in the storage. The statics of the file are the record
  \<open>identity\<close>; \<open>Platform_GetUniqueId\<close> is the argument \<open>uid\<close>, the twelve bytes of
  the chip or \<open>None\<close> when it fails.
\<close>

definition DEVICE_UUID_SIZE :: nat where "DEVICE_UUID_SIZE = 16"
definition IDENTITY_SCHEMA_VERSION :: u32 where "IDENTITY_SCHEMA_VERSION = 2"
definition ROOM_SENSOR_HW_REVISION :: u32 where "ROOM_SENSOR_HW_REVISION = 1"

definition IDENTITY_NAMESPACE :: bytes where
  "IDENTITY_NAMESPACE = ascii ''ClimateHub.RoomSensor.Identity.v2''"

record DeviceIdentity =
  di_device_uuid :: bytes
  di_hardware_revision :: u32

record IdentityStorageV1 =
  is_schema_version :: u32
  is_device_uuid :: bytes
  is_hardware_revision :: u32

record identity =
  id_load_status :: StorageReadStatus
  id_persistence_status :: StorageReadStatus
  id_storage_health :: StorageHealth
  id_last_write_status :: StorageWriteStatus

definition identity_start :: identity where
  "identity_start =
     \<lparr>id_load_status = STORAGE_READ_NOT_FOUND, id_persistence_status = STORAGE_READ_NOT_FOUND,
      id_storage_health = STORAGE_HEALTH_HEALTHY, id_last_write_status = STORAGE_WRITE_OK\<rparr>"

section \<open>Deriving\<close>

abbreviation xor_at :: "nat \<Rightarrow> u8 \<Rightarrow> bytes \<Rightarrow> bytes" where
  "xor_at i b uuid \<equiv> uuid[i := uuid ! i XOR b]"

text \<open>One round of each loop; \<open>i\<close> is the index of the byte \<open>c\<close>.\<close>

definition mix_namespace :: "nat \<Rightarrow> u8 \<Rightarrow> bytes \<Rightarrow> bytes" where
  "mix_namespace i c uuid = xor_at (i * 7 mod 16) c uuid"

definition mix_uid :: "nat \<Rightarrow> u8 \<Rightarrow> bytes \<Rightarrow> bytes" where
  "mix_uid i b uuid =
     (let shift = i * 5 mod 16;
          uuid = xor_at shift b uuid;
          uuid = xor_at ((shift + 3) mod 16) (push_bit 2 b OR drop_bit 6 b) uuid
      in xor_at ((shift + 11) mod 16) (b XOR 0xAA) uuid)"

definition DeriveUuid :: "bytes option \<Rightarrow> bytes" where
  "DeriveUuid uid =
     (case uid of None \<Rightarrow> replicate DEVICE_UUID_SIZE 0
      | Some u \<Rightarrow>
        let uuid = replicate DEVICE_UUID_SIZE 0;
            uuid = fold (\<lambda>(i, c). mix_namespace i c) (enumerate 0 IDENTITY_NAMESPACE) uuid;
            uuid = fold (\<lambda>(i, b). mix_uid i b) (enumerate 0 u) uuid;
            uuid = uuid[6 := (uuid ! 6 AND 0x0F) OR 0x80]
        in uuid[8 := (uuid ! 8 AND 0x3F) OR 0x80])"

definition DeviceIdentity_Validate :: "DeviceIdentity option \<Rightarrow> bool" where
  "DeviceIdentity_Validate ident =
     (case ident of None \<Rightarrow> False
      | Some d \<Rightarrow>
        if di_device_uuid d = replicate DEVICE_UUID_SIZE 0 then False
        else if di_device_uuid d = replicate DEVICE_UUID_SIZE 0xFF then False
        else if di_device_uuid d ! 6 AND 0xF0 \<noteq> 0x80 then False
        else if di_device_uuid d ! 8 AND 0xC0 \<noteq> 0x80 then False
        else if di_hardware_revision d = 0 then False
        else True)"

definition DeviceIdentity_Derive :: "bytes option \<Rightarrow> bool \<times> DeviceIdentity" where
  "DeviceIdentity_Derive uid =
     (let d = \<lparr>di_device_uuid = DeriveUuid uid, di_hardware_revision = ROOM_SENSOR_HW_REVISION\<rparr>
      in (DeviceIdentity_Validate (Some d), d))"

section \<open>The stored record\<close>

definition IDENTITY_STORAGE_V1_SIZE :: nat where "IDENTITY_STORAGE_V1_SIZE = 24"

definition identity_bytes :: "IdentityStorageV1 \<Rightarrow> bytes" where
  "identity_bytes s =
     le_bytes 4 (is_schema_version s) @ is_device_uuid s @ le_bytes 4 (is_hardware_revision s)"

definition identity_of_bytes :: "bytes \<Rightarrow> IdentityStorageV1" where
  "identity_of_bytes bs =
     \<lparr>is_schema_version = of_le (window bs 0 4), is_device_uuid = window bs 4 16,
      is_hardware_revision = of_le (window bs 20 4)\<rparr>"

text \<open>\<open>runtime\<close> is left as it was when the version is another one.\<close>

definition Identity_FromStorage ::
  "DeviceIdentity \<Rightarrow> IdentityStorageV1 option \<Rightarrow> bool \<times> DeviceIdentity" where
  "Identity_FromStorage runtime stored =
     (case stored of None \<Rightarrow> (False, runtime)
      | Some s \<Rightarrow>
        if is_schema_version s \<noteq> IDENTITY_SCHEMA_VERSION then (False, runtime)
        else let r = \<lparr>di_device_uuid = is_device_uuid s, di_hardware_revision = is_hardware_revision s\<rparr>
          in (DeviceIdentity_Validate (Some r), r))"

section \<open>Loading and saving\<close>

definition DeviceIdentity_RefreshHealth :: "'f flash_ops \<Rightarrow> storage \<Rightarrow> 'f \<Rightarrow> identity \<Rightarrow> identity" where
  "DeviceIdentity_RefreshHealth ops st f c =
     (if Storage_IsInitialized st
      then c\<lparr>id_storage_health := Storage_GetHealth ops st f RECORD_TYPE_IDENTITY\<rparr> else c)"

definition DeviceIdentity_RefreshReadState :: "'f flash_ops \<Rightarrow> storage \<Rightarrow> 'f \<Rightarrow> identity \<Rightarrow> identity" where
  "DeviceIdentity_RefreshReadState ops st f c =
     (if \<not> Storage_IsInitialized st then c\<lparr>id_persistence_status := STORAGE_READ_IO_ERROR\<rparr>
      else DeviceIdentity_RefreshHealth ops st f
        (c\<lparr>id_persistence_status := fst (Storage_Read ops st f RECORD_TYPE_IDENTITY (Some zero_payload))\<rparr>))"

definition DeviceIdentity_Load ::
  "'f flash_ops \<Rightarrow> storage \<Rightarrow> 'f \<Rightarrow> identity \<Rightarrow> DeviceIdentity option \<Rightarrow>
   bool \<times> identity \<times> DeviceIdentity option" where
  "DeviceIdentity_Load ops st f c ident =
     (case ident of None \<Rightarrow> (False, c, None)
      | Some d \<Rightarrow>
        (case Storage_Read ops st f RECORD_TYPE_IDENTITY (Some zero_payload) of (rs, payload) \<Rightarrow>
         let c = DeviceIdentity_RefreshHealth ops st f (c\<lparr>id_load_status := rs, id_persistence_status := rs\<rparr>) in
         if rs \<noteq> STORAGE_READ_OK then (False, c, ident)
         else if pl_size (the payload) \<noteq> IDENTITY_STORAGE_V1_SIZE
         then (False, c\<lparr>id_load_status := STORAGE_READ_CORRUPT,
                        id_persistence_status := STORAGE_READ_CORRUPT\<rparr>, ident)
         else case Identity_FromStorage d
                (Some (identity_of_bytes (take IDENTITY_STORAGE_V1_SIZE (pl_data (the payload))))) of
           (ok, d') \<Rightarrow>
             if \<not> ok
             then (False, c\<lparr>id_load_status := STORAGE_READ_CORRUPT,
                            id_persistence_status := STORAGE_READ_CORRUPT\<rparr>, Some d')
             else (True, c, Some d')))"

definition DeviceIdentity_GetLoadStatus :: "identity \<Rightarrow> StorageReadStatus" where
  "DeviceIdentity_GetLoadStatus c = id_load_status c"

definition DeviceIdentity_GetPersistenceStatus :: "identity \<Rightarrow> StorageReadStatus" where
  "DeviceIdentity_GetPersistenceStatus c = id_persistence_status c"

definition DeviceIdentity_GetStorageHealth :: "identity \<Rightarrow> StorageHealth" where
  "DeviceIdentity_GetStorageHealth c = id_storage_health c"

definition DeviceIdentity_GetLastWriteStatus :: "identity \<Rightarrow> StorageWriteStatus" where
  "DeviceIdentity_GetLastWriteStatus c = id_last_write_status c"

definition DeviceIdentity_EnsureRedundancy ::
  "'f flash_ops \<Rightarrow> storage \<Rightarrow> 'f \<Rightarrow> identity \<Rightarrow> StorageRepairStatus \<times> 'f \<times> identity" where
  "DeviceIdentity_EnsureRedundancy ops st f c =
     (if \<not> Storage_IsInitialized st
      then (STORAGE_REPAIR_REFUSED, f,
            c\<lparr>id_persistence_status := STORAGE_READ_IO_ERROR, id_storage_health := STORAGE_HEALTH_IO_ERROR\<rparr>)
      else case Storage_EnsureRedundancy ops st f RECORD_TYPE_IDENTITY of (repair, f1) \<Rightarrow>
        (repair, f1, DeviceIdentity_RefreshReadState ops st f1 c))"

definition DeviceIdentity_SelfCheck :: "'f flash_ops \<Rightarrow> storage \<Rightarrow> 'f \<Rightarrow> StorageReadStatus" where
  "DeviceIdentity_SelfCheck ops st f =
     (if \<not> Storage_IsInitialized st then STORAGE_READ_IO_ERROR
      else case Storage_Read ops st f RECORD_TYPE_IDENTITY (Some zero_payload) of (rs, payload) \<Rightarrow>
        if rs = STORAGE_READ_NOT_FOUND then STORAGE_READ_NOT_FOUND
        else if rs = STORAGE_READ_CORRUPT then STORAGE_READ_CORRUPT
        else if rs = STORAGE_READ_IO_ERROR then STORAGE_READ_IO_ERROR
        else if rs \<noteq> STORAGE_READ_OK then rs
        else if pl_size (the payload) \<noteq> IDENTITY_STORAGE_V1_SIZE then STORAGE_READ_CORRUPT
        else if \<not> fst (Identity_FromStorage \<lparr>di_device_uuid = [], di_hardware_revision = 0\<rparr>
                  (Some (identity_of_bytes (take IDENTITY_STORAGE_V1_SIZE (pl_data (the payload))))))
        then STORAGE_READ_CORRUPT
        else STORAGE_READ_OK)"

definition DeviceIdentity_Save ::
  "'f flash_ops \<Rightarrow> storage \<Rightarrow> 'f \<Rightarrow> identity \<Rightarrow> DeviceIdentity option \<Rightarrow> bool \<times> 'f \<times> identity" where
  "DeviceIdentity_Save ops st f c ident =
     (case ident of None \<Rightarrow> (False, f, c)
      | Some d \<Rightarrow>
        if \<not> DeviceIdentity_Validate ident then (False, f, c)
        else let
          stored = \<lparr>is_schema_version = IDENTITY_SCHEMA_VERSION, is_device_uuid = di_device_uuid d,
                    is_hardware_revision = di_hardware_revision d\<rparr>;
          (ws, f1) = Storage_WriteEx ops st f RECORD_TYPE_IDENTITY (Some (identity_bytes stored))
                       IDENTITY_STORAGE_V1_SIZE;
          c1 = c\<lparr>id_last_write_status := ws\<rparr>;
          c2 = (if ws = STORAGE_WRITE_OK then c1\<lparr>id_persistence_status := STORAGE_READ_OK\<rparr>
                else DeviceIdentity_RefreshReadState ops st f1 c1)
        in (ws = STORAGE_WRITE_OK, f1, DeviceIdentity_RefreshHealth ops st f1 c2))"

text \<open>Six bytes in upper-case hexadecimal; \<open>snprintf\<close> cuts them to the buffer.\<close>

definition upper_hex :: "u8 \<Rightarrow> bytes" where
  "upper_hex b =
     (let digit = (\<lambda>n :: u8. if n < 10 then 0x30 + n else 0x41 + (n - 10))
      in [digit (drop_bit 4 b), digit (b AND 0x0F)])"

definition DeviceIdentity_GetShortId :: "DeviceIdentity option \<Rightarrow> bytes \<Rightarrow> nat \<Rightarrow> bytes" where
  "DeviceIdentity_GetShortId ident out max_len =
     (case ident of None \<Rightarrow> out
      | Some d \<Rightarrow>
        if max_len = 0 then out
        else overwrite out 0
          (take (max_len - 1) (concat (map upper_hex (take 6 (di_device_uuid d)))) @ [0]))"

end
