(* ===== verification/Config.thy ===== *)
theory Config
  imports Storage_Integrity Float32
begin

text \<open>
  \<open>App/Src/config.c\<close>: the settings of the device, their validation and their record in
  the storage. The statics of the file are the record \<open>config\<close>; the packed
  \<open>ConfigStorageV1\<close> has its 28-byte memory image. An operation whose C text has undefined
  behaviour on its arguments (the cast of a calibration to \<open>int32_t\<close>) has no result.
\<close>

definition CONFIG_SCHEMA_VERSION :: u32 where "CONFIG_SCHEMA_VERSION = 1"

record ConfigStorageV1 =
  cs_version :: u32
  cs_light_period_ms :: u32
  cs_display_period_ms :: u32
  cs_diagnostics_period_ms :: u32
  cs_retry_period_ms :: u32
  cs_telemetry_period_ms :: u32
  cs_light_calibration_q16 :: u32

record RoomSensorRuntimeConfig =
  rc_light_calibration_factor :: f32

record RoomSensorConfig =
  rsc_storage :: ConfigStorageV1
  rsc_runtime :: RoomSensorRuntimeConfig

datatype ConfigApplyStatus = CONFIG_APPLY_OK | CONFIG_APPLY_INVALID | CONFIG_APPLY_PERSIST_FAILED

record config =
  cf_config :: RoomSensorConfig
  cf_storage_status :: StorageReadStatus
  cf_storage_health :: StorageHealth
  cf_last_write_status :: StorageWriteStatus

text \<open>The initial values of the statics; \<open>s_config\<close> starts as zero bytes.\<close>

definition config_start :: config where
  "config_start =
     \<lparr>cf_config = \<lparr>rsc_storage = \<lparr>cs_version = 0, cs_light_period_ms = 0, cs_display_period_ms = 0,
        cs_diagnostics_period_ms = 0, cs_retry_period_ms = 0, cs_telemetry_period_ms = 0,
        cs_light_calibration_q16 = 0\<rparr>, rsc_runtime = \<lparr>rc_light_calibration_factor = F32 False 0\<rparr>\<rparr>,
      cf_storage_status = STORAGE_READ_NOT_FOUND, cf_storage_health = STORAGE_HEALTH_HEALTHY,
      cf_last_write_status = STORAGE_WRITE_OK\<rparr>"

section \<open>Fixed-point calibration\<close>

definition Q16_SCALE :: f32 where "Q16_SCALE = f32_of_int 65536"

definition Q16ToFloat :: "u32 \<Rightarrow> f32" where
  "Q16ToFloat q16 = f32_div (f32_of_int (sint q16)) Q16_SCALE"

definition FloatToQ16 :: "f32 \<Rightarrow> u32 option" where
  "FloatToQ16 v =
     (let scaled = f32_mul v Q16_SCALE in
      if f32_less (f32_of_int 2147483647) scaled then Some 0x7FFFFFFF
      else if f32_less scaled (f32_of_int (-2147483648)) then Some 0x80000000
      else map_option word_of_int (f32_to_int32 scaled))"

section \<open>Validation\<close>

definition default_config :: RoomSensorConfig where
  "default_config =
     \<lparr>rsc_storage = \<lparr>cs_version = CONFIG_SCHEMA_VERSION, cs_light_period_ms = 500,
        cs_display_period_ms = 500, cs_diagnostics_period_ms = 10000, cs_retry_period_ms = 5000,
        cs_telemetry_period_ms = 5000, cs_light_calibration_q16 = the (FloatToQ16 (f32_of_int 1))\<rparr>,
      rsc_runtime = \<lparr>rc_light_calibration_factor = f32_of_int 1\<rparr>\<rparr>"

definition Config_LoadDefaults :: "config \<Rightarrow> config" where
  "Config_LoadDefaults c = c\<lparr>cf_config := default_config\<rparr>"

definition Config_Validate :: "ConfigStorageV1 option \<Rightarrow> bool" where
  "Config_Validate storage =
     (case storage of None \<Rightarrow> False
      | Some s \<Rightarrow>
        if cs_version s \<noteq> CONFIG_SCHEMA_VERSION then False
        else if cs_light_period_ms s < 50 \<or> cs_light_period_ms s > 60000 then False
        else if cs_display_period_ms s < 50 \<or> cs_display_period_ms s > 60000 then False
        else if cs_diagnostics_period_ms s < 1000 \<or> cs_diagnostics_period_ms s > 3600000 then False
        else if cs_retry_period_ms s < 1000 \<or> cs_retry_period_ms s > 600000 then False
        else if cs_telemetry_period_ms s < 1000 \<or> cs_telemetry_period_ms s > 3600000 then False
        else let cal = Q16ToFloat (cs_light_calibration_q16 s) in
          if \<not> f32_isfinite cal then False
          else if f32_less cal (f32_round False (1 / 100)) \<or> f32_less (f32_of_int 100) cal then False
          else True)"

section \<open>The stored record\<close>

definition CONFIG_STORAGE_V1_SIZE :: nat where "CONFIG_STORAGE_V1_SIZE = 28"

definition config_bytes :: "ConfigStorageV1 \<Rightarrow> bytes" where
  "config_bytes s =
     le_bytes 4 (cs_version s) @ le_bytes 4 (cs_light_period_ms s) @
     le_bytes 4 (cs_display_period_ms s) @ le_bytes 4 (cs_diagnostics_period_ms s) @
     le_bytes 4 (cs_retry_period_ms s) @ le_bytes 4 (cs_telemetry_period_ms s) @
     le_bytes 4 (cs_light_calibration_q16 s)"

definition config_of_bytes :: "bytes \<Rightarrow> ConfigStorageV1" where
  "config_of_bytes bs =
     \<lparr>cs_version = of_le (window bs 0 4), cs_light_period_ms = of_le (window bs 4 4),
      cs_display_period_ms = of_le (window bs 8 4), cs_diagnostics_period_ms = of_le (window bs 12 4),
      cs_retry_period_ms = of_le (window bs 16 4), cs_telemetry_period_ms = of_le (window bs 20 4),
      cs_light_calibration_q16 = of_le (window bs 24 4)\<rparr>"

section \<open>Loading\<close>

definition Config_RefreshHealth :: "'f flash_ops \<Rightarrow> storage \<Rightarrow> 'f \<Rightarrow> config \<Rightarrow> config" where
  "Config_RefreshHealth ops st f c =
     (if Storage_IsInitialized st
      then c\<lparr>cf_storage_health := Storage_GetHealth ops st f RECORD_TYPE_CONFIG\<rparr> else c)"

definition Config_RefreshReadState :: "'f flash_ops \<Rightarrow> storage \<Rightarrow> 'f \<Rightarrow> config \<Rightarrow> config" where
  "Config_RefreshReadState ops st f c =
     (if \<not> Storage_IsInitialized st then c\<lparr>cf_storage_status := STORAGE_READ_IO_ERROR\<rparr>
      else let rs = fst (Storage_Read ops st f RECORD_TYPE_CONFIG (Some zero_payload)) in
        Config_RefreshHealth ops st f (c\<lparr>cf_storage_status := rs\<rparr>))"

definition Config_Load :: "'f flash_ops \<Rightarrow> storage \<Rightarrow> 'f \<Rightarrow> config \<Rightarrow> bool \<times> config" where
  "Config_Load ops st f c =
     (case Storage_Read ops st f RECORD_TYPE_CONFIG (Some zero_payload) of (rs, payload) \<Rightarrow>
      let c = Config_RefreshHealth ops st f (c\<lparr>cf_storage_status := rs\<rparr>) in
      if rs = STORAGE_READ_NOT_FOUND then (False, c)
      else if rs = STORAGE_READ_CORRUPT then (False, c)
      else if rs = STORAGE_READ_IO_ERROR then (False, c)
      else if rs \<noteq> STORAGE_READ_OK then (False, c)
      else if pl_size (the payload) \<noteq> CONFIG_STORAGE_V1_SIZE
      then (False, c\<lparr>cf_storage_status := STORAGE_READ_CORRUPT\<rparr>)
      else let candidate = config_of_bytes (take CONFIG_STORAGE_V1_SIZE (pl_data (the payload))) in
      if \<not> Config_Validate (Some candidate) then (False, c\<lparr>cf_storage_status := STORAGE_READ_CORRUPT\<rparr>)
      else (True, c\<lparr>cf_config := \<lparr>rsc_storage = candidate,
                      rsc_runtime = \<lparr>rc_light_calibration_factor =
                        Q16ToFloat (cs_light_calibration_q16 candidate)\<rparr>\<rparr>,
                    cf_storage_status := STORAGE_READ_OK\<rparr>))"

definition Config_GetStorageStatus :: "config \<Rightarrow> StorageReadStatus" where
  "Config_GetStorageStatus c = cf_storage_status c"

definition Config_GetStorageHealth :: "config \<Rightarrow> StorageHealth" where
  "Config_GetStorageHealth c = cf_storage_health c"

definition Config_GetLastWriteStatus :: "config \<Rightarrow> StorageWriteStatus" where
  "Config_GetLastWriteStatus c = cf_last_write_status c"

definition Config_Get :: "config \<Rightarrow> RoomSensorConfig" where
  "Config_Get c = cf_config c"

definition Config_EnsureRedundancy ::
  "'f flash_ops \<Rightarrow> storage \<Rightarrow> 'f \<Rightarrow> config \<Rightarrow> StorageRepairStatus \<times> 'f \<times> config" where
  "Config_EnsureRedundancy ops st f c =
     (if \<not> Storage_IsInitialized st
      then (STORAGE_REPAIR_REFUSED, f,
            c\<lparr>cf_storage_status := STORAGE_READ_IO_ERROR, cf_storage_health := STORAGE_HEALTH_IO_ERROR\<rparr>)
      else case Storage_EnsureRedundancy ops st f RECORD_TYPE_CONFIG of (repair, f1) \<Rightarrow>
        (repair, f1, Config_RefreshReadState ops st f1 c))"

definition Config_SelfCheck :: "'f flash_ops \<Rightarrow> storage \<Rightarrow> 'f \<Rightarrow> StorageReadStatus" where
  "Config_SelfCheck ops st f =
     (if \<not> Storage_IsInitialized st then STORAGE_READ_IO_ERROR
      else case Storage_Read ops st f RECORD_TYPE_CONFIG (Some zero_payload) of (rs, payload) \<Rightarrow>
        if rs = STORAGE_READ_NOT_FOUND then STORAGE_READ_NOT_FOUND
        else if rs = STORAGE_READ_CORRUPT then STORAGE_READ_CORRUPT
        else if rs = STORAGE_READ_IO_ERROR then STORAGE_READ_IO_ERROR
        else if rs \<noteq> STORAGE_READ_OK then rs
        else if pl_size (the payload) \<noteq> CONFIG_STORAGE_V1_SIZE then STORAGE_READ_CORRUPT
        else if \<not> Config_Validate
                  (Some (config_of_bytes (take CONFIG_STORAGE_V1_SIZE (pl_data (the payload)))))
        then STORAGE_READ_CORRUPT
        else STORAGE_READ_OK)"

section \<open>Saving\<close>

definition Config_SaveCandidate ::
  "'f flash_ops \<Rightarrow> storage \<Rightarrow> 'f \<Rightarrow> config \<Rightarrow> RoomSensorConfig option \<Rightarrow>
   (bool \<times> 'f \<times> config) option" where
  "Config_SaveCandidate ops st f c candidate =
     (case candidate of None \<Rightarrow> Some (False, f, c)
      | Some cand \<Rightarrow>
        if \<not> Config_Validate (Some (rsc_storage cand)) then Some (False, f, c)
        else case FloatToQ16 (rc_light_calibration_factor (rsc_runtime cand)) of None \<Rightarrow> None
        | Some q \<Rightarrow>
          let storage = (rsc_storage cand)\<lparr>cs_version := CONFIG_SCHEMA_VERSION,
                                           cs_light_calibration_q16 := q\<rparr>;
              (ws, f1) = Storage_WriteEx ops st f RECORD_TYPE_CONFIG (Some (config_bytes storage))
                           CONFIG_STORAGE_V1_SIZE;
              c1 = c\<lparr>cf_last_write_status := ws\<rparr>;
              c2 = (if ws = STORAGE_WRITE_OK then c1\<lparr>cf_storage_status := STORAGE_READ_OK\<rparr>
                    else Config_RefreshReadState ops st f1 c1)
          in Some (ws = STORAGE_WRITE_OK, f1, Config_RefreshHealth ops st f1 c2))"

definition Config_Save ::
  "'f flash_ops \<Rightarrow> storage \<Rightarrow> 'f \<Rightarrow> config \<Rightarrow> (bool \<times> 'f \<times> config) option" where
  "Config_Save ops st f c = Config_SaveCandidate ops st f c (Some (cf_config c))"

definition Config_ApplyPersistent ::
  "'f flash_ops \<Rightarrow> storage \<Rightarrow> 'f \<Rightarrow> config \<Rightarrow> RoomSensorConfig option \<Rightarrow>
   (ConfigApplyStatus \<times> 'f \<times> config) option" where
  "Config_ApplyPersistent ops st f c candidate =
     (case candidate of None \<Rightarrow> Some (CONFIG_APPLY_INVALID, f, c)
      | Some cand \<Rightarrow>
        if \<not> Config_Validate (Some (rsc_storage cand)) then Some (CONFIG_APPLY_INVALID, f, c)
        else case Config_SaveCandidate ops st f c candidate of None \<Rightarrow> None
        | Some (ok, f1, c1) \<Rightarrow>
          Some (if \<not> ok then (CONFIG_APPLY_PERSIST_FAILED, f1, c1)
                else (CONFIG_APPLY_OK, f1, c1\<lparr>cf_config := cand\<rparr>)))"

definition Config_ResetToDefaults ::
  "'f flash_ops \<Rightarrow> storage \<Rightarrow> 'f \<Rightarrow> config \<Rightarrow> (bool \<times> 'f \<times> config) option" where
  "Config_ResetToDefaults ops st f c =
     (let defaults = default_config in
      if \<not> Config_Validate (Some (rsc_storage defaults)) then Some (False, f, c)
      else case Config_SaveCandidate ops st f c (Some defaults) of None \<Rightarrow> None
      | Some (ok, f1, c1) \<Rightarrow>
        Some (if \<not> ok then (False, f1, c1) else (True, f1, c1\<lparr>cf_config := defaults\<rparr>)))"

end
