(* ===== verification/Device_Manifest.thy ===== *)
theory Device_Manifest
  imports Device_Identity Config Lifecycle Decimal
begin

text \<open>
  The description a device gives of itself: \<open>Device/Src/device_capabilities.c\<close>,
  \<open>firmware_metadata.c\<close>, \<open>device_manifest.c\<close> and
  \<open>device_manifest_serializer.c\<close>. The macros \<open>ROOM_SENSOR_GIT_SHA\<close> and
  \<open>ROOM_SENSOR_BUILD_TYPE\<close> of the build, the hardware information and the source of
  boot identifiers are arguments. A serializer keeps the text written so far; the format
  string with its arguments is the text it prints.
\<close>

definition TELEMETRY_SCHEMA_VERSION :: u32 where "TELEMETRY_SCHEMA_VERSION = 5"
definition DEVICE_MANIFEST_SCHEMA_VERSION :: u32 where "DEVICE_MANIFEST_SCHEMA_VERSION = 1"
definition DEVICE_MANIFEST_SERIALIZED_MAX_SIZE :: nat where "DEVICE_MANIFEST_SERIALIZED_MAX_SIZE = 1024"

section \<open>Hardware\<close>

datatype ResetCause =
    RESET_CAUSE_UNKNOWN | RESET_CAUSE_POWER_ON | RESET_CAUSE_SOFTWARE | RESET_CAUSE_WATCHDOG
  | RESET_CAUSE_BROWNOUT | RESET_CAUSE_EXTERNAL

fun reset_cause_index :: "ResetCause \<Rightarrow> nat" where
  "reset_cause_index RESET_CAUSE_UNKNOWN = 0"
| "reset_cause_index RESET_CAUSE_POWER_ON = 1"
| "reset_cause_index RESET_CAUSE_SOFTWARE = 2"
| "reset_cause_index RESET_CAUSE_WATCHDOG = 3"
| "reset_cause_index RESET_CAUSE_BROWNOUT = 4"
| "reset_cause_index RESET_CAUSE_EXTERNAL = 5"

record PlatformHardwareInfo =
  hw_platform_family :: "bytes option"
  hw_board_name :: "bytes option"

text \<open>The target's \<open>Platform_GetHardwareInfo\<close> and \<open>Platform_CreateBootId\<close>.\<close>

definition Platform_GetHardwareInfo :: PlatformHardwareInfo where
  "Platform_GetHardwareInfo =
     \<lparr>hw_platform_family = Some (ascii ''stm32g4''), hw_board_name = Some (ascii ''nucleo-g474re'')\<rparr>"

definition Platform_CreateBootId :: "bytes option \<Rightarrow> ResetCause \<Rightarrow> bool \<times> u64" where
  "Platform_CreateBootId uid rc =
     (case uid of None \<Rightarrow> (False, 0)
      | Some u \<Rightarrow>
        (True, foldl (\<lambda>i b. push_bit 8 i OR ucast b) 0 (take 8 u) XOR
               push_bit 56 (of_nat (reset_cause_index rc))))"

section \<open>The manifest\<close>

record DeviceCapabilities =
  cap_illuminance :: bool
  cap_temperature :: bool
  cap_relative_humidity :: bool
  cap_pressure :: bool
  cap_co2 :: bool
  cap_voc :: bool
  cap_nox :: bool
  cap_presence :: bool
  cap_display :: bool
  cap_persistent_config :: bool
  cap_telemetry :: bool
  cap_command_control :: bool
  cap_watchdog :: bool
  cap_self_test :: bool

definition DeviceCapabilities_Get :: DeviceCapabilities where
  "DeviceCapabilities_Get =
     \<lparr>cap_illuminance = True, cap_temperature = True, cap_relative_humidity = True, cap_pressure = True,
      cap_co2 = True, cap_voc = True, cap_nox = True, cap_presence = False, cap_display = True,
      cap_persistent_config = True, cap_telemetry = True, cap_command_control = True,
      cap_watchdog = True, cap_self_test = True\<rparr>"

record FirmwareMetadata =
  fw_version_major :: u32
  fw_version_minor :: u32
  fw_version_patch :: u32
  fw_version_string :: "bytes option"
  fw_git_commit :: "bytes option"
  fw_build_type :: "bytes option"

definition FirmwareMetadata_Get :: "bytes option \<Rightarrow> bytes option \<Rightarrow> FirmwareMetadata" where
  "FirmwareMetadata_Get git_sha build_type =
     \<lparr>fw_version_major = 0, fw_version_minor = 1, fw_version_patch = 0,
      fw_version_string = Some (ascii ''0.1.0-dev''),
      fw_git_commit = Some (case git_sha of Some s \<Rightarrow> s | None \<Rightarrow> ascii ''unknown''),
      fw_build_type = Some (case build_type of Some s \<Rightarrow> s | None \<Rightarrow> ascii ''unknown'')\<rparr>"

record ProtocolCapabilities =
  pc_telemetry_schema :: u32
  pc_command_schema :: u32
  pc_config_schema :: u32
  pc_identity_schema :: u32
  pc_storage_record_format :: u32

record DeviceManifest =
  dm_identity :: DeviceIdentity
  dm_firmware :: FirmwareMetadata
  dm_capabilities :: DeviceCapabilities
  dm_protocols :: ProtocolCapabilities
  dm_boot_id :: u64

definition zero_identity :: DeviceIdentity where
  "zero_identity = \<lparr>di_device_uuid = replicate DEVICE_UUID_SIZE 0, di_hardware_revision = 0\<rparr>"

definition COMMAND_SCHEMA_VERSION :: u32 where "COMMAND_SCHEMA_VERSION = 1"

text \<open>\<open>boot_id\<close> is what \<open>BootSession_Get\<close> delivers.\<close>

definition DeviceManifest_Build ::
  "bytes option \<Rightarrow> bytes option \<Rightarrow> u64 \<Rightarrow> DeviceIdentity option \<Rightarrow> DeviceManifest" where
  "DeviceManifest_Build git_sha build_type boot_id authoritative_identity =
     \<lparr>dm_identity = (case authoritative_identity of Some i \<Rightarrow> i | None \<Rightarrow> zero_identity),
      dm_firmware = FirmwareMetadata_Get git_sha build_type,
      dm_capabilities = DeviceCapabilities_Get,
      dm_protocols = \<lparr>pc_telemetry_schema = TELEMETRY_SCHEMA_VERSION,
        pc_command_schema = COMMAND_SCHEMA_VERSION, pc_config_schema = CONFIG_SCHEMA_VERSION,
        pc_identity_schema = IDENTITY_SCHEMA_VERSION,
        pc_storage_record_format = ucast STORAGE_RECORD_FORMAT_VERSION\<rparr>,
      dm_boot_id = boot_id\<rparr>"

section \<open>Serializing\<close>

datatype ManifestSerializeStatus =
    MANIFEST_SERIALIZE_OK | MANIFEST_SERIALIZE_BUFFER_TOO_SMALL | MANIFEST_SERIALIZE_INVALID_ARG

type_synonym manifest_text = "ManifestSerializeStatus \<times> bytes"

definition AppendFormat :: "nat \<Rightarrow> bytes \<Rightarrow> bytes \<Rightarrow> manifest_text" where
  "AppendFormat cap txt out =
     (if length out \<ge> cap then (MANIFEST_SERIALIZE_BUFFER_TOO_SMALL, out)
      else if length txt \<ge> cap - length out then (MANIFEST_SERIALIZE_BUFFER_TOO_SMALL, out)
      else (MANIFEST_SERIALIZE_OK, out @ txt))"

definition AppendStr :: "nat \<Rightarrow> string \<Rightarrow> bytes option \<Rightarrow> bytes \<Rightarrow> manifest_text" where
  "AppendStr cap key val =
     AppendFormat cap (ascii ''    \"'' @ ascii key @ ascii ''\": \"'' @
       (case val of Some v \<Rightarrow> v | None \<Rightarrow> []) @ ascii ''\",'' @ [0x0A])"

definition AppendBool :: "nat \<Rightarrow> string \<Rightarrow> bool \<Rightarrow> bytes \<Rightarrow> manifest_text" where
  "AppendBool cap key val =
     AppendFormat cap (ascii ''    \"'' @ ascii key @ ascii ''\": '' @
       (if val then ascii ''true'' else ascii ''false'') @ ascii '','' @ [0x0A])"

definition AppendBoolLast :: "nat \<Rightarrow> string \<Rightarrow> bool \<Rightarrow> bytes \<Rightarrow> manifest_text" where
  "AppendBoolLast cap key val =
     AppendFormat cap (ascii ''    \"'' @ ascii key @ ascii ''\": '' @
       (if val then ascii ''true'' else ascii ''false'') @ [0x0A])"

definition AppendUint :: "nat \<Rightarrow> string \<Rightarrow> u32 \<Rightarrow> bytes \<Rightarrow> manifest_text" where
  "AppendUint cap key val =
     AppendFormat cap (ascii ''    \"'' @ ascii key @ ascii ''\": '' @ dec_digits (unat val) @
       ascii '','' @ [0x0A])"

text \<open>\<open>if (s != MANIFEST_SERIALIZE_OK) return s\<close> between two steps.\<close>

definition m_then :: "(bytes \<Rightarrow> manifest_text) \<Rightarrow> (bytes \<Rightarrow> manifest_text) \<Rightarrow> bytes \<Rightarrow> manifest_text" where
  "m_then p q out = (case p out of (s, out') \<Rightarrow> if s \<noteq> MANIFEST_SERIALIZE_OK then (s, out') else q out')"

text \<open>
  The last member of an object: the comma before its line feed is taken away, and the status
  of the append is not looked at.
\<close>

definition m_last :: "(bytes \<Rightarrow> manifest_text) \<Rightarrow> (bytes \<Rightarrow> manifest_text) \<Rightarrow> bytes \<Rightarrow> manifest_text" where
  "m_last p q out =
     (case p out of (s, out') \<Rightarrow>
        q (if s = MANIFEST_SERIALIZE_OK \<and> length out' > 2 \<and> out' ! (length out' - 2) = 0x2C
           then take (length out' - 2) out' @ [0x0A] else out'))"

definition lower_hex :: "u8 \<Rightarrow> bytes" where
  "lower_hex b = [kHexDigits ! unat (drop_bit 4 b), kHexDigits ! unat (b AND 0x0F)]"

definition uuid_text :: "bytes \<Rightarrow> bytes" where
  "uuid_text u =
     (let h = (\<lambda>i n. concat (map lower_hex (window u i n)))
      in h 0 4 @ ascii ''-'' @ h 4 2 @ ascii ''-'' @ h 6 2 @ ascii ''-'' @ h 8 2 @ ascii ''-'' @ h 10 6)"

definition manifest_steps :: "DeviceManifest \<Rightarrow> PlatformHardwareInfo \<Rightarrow> nat \<Rightarrow> bytes \<Rightarrow> manifest_text" where
  "manifest_steps manifest hw cap =
     (let fmt = AppendFormat cap; fw = dm_firmware manifest; p = dm_protocols manifest;
          c = dm_capabilities manifest;
          unknown = (\<lambda>v. Some (case v of Some s \<Rightarrow> s | None \<Rightarrow> ascii ''unknown''))
      in
      m_then (fmt (ascii ''{'' @ [0x0A])) (
      m_then (fmt (ascii ''  \"schema\": '' @ dec_digits (unat DEVICE_MANIFEST_SCHEMA_VERSION) @
                   ascii '','' @ [0x0A])) (
      m_then (fmt (ascii ''  \"device_type\": \"room_sensor\",'' @ [0x0A])) (
      m_then (fmt (ascii ''  \"model\": \"room-sensor-v1\",'' @ [0x0A])) (
      m_then (fmt (ascii ''  \"device_id\": \"'')) (
      m_then (fmt (uuid_text (di_device_uuid (dm_identity manifest)))) (
      m_then (fmt (ascii ''\",'' @ [0x0A])) (
      m_then (fmt (ascii ''  \"boot_id\": \"'' @ take 16 (Hex64_ToLower (replicate 17 0) (dm_boot_id manifest)) @
                   ascii ''\",'' @ [0x0A])) (
      m_then (fmt (ascii ''  \"firmware\": {'' @ [0x0A])) (
      m_then (AppendStr cap ''version'' (fw_version_string fw)) (
      m_then (AppendStr cap ''git'' (fw_git_commit fw)) (
      m_last (AppendStr cap ''build'' (fw_build_type fw)) (
      m_then (fmt (ascii ''  },'' @ [0x0A])) (
      m_then (fmt (ascii ''  \"hardware\": {'' @ [0x0A])) (
      m_then (AppendUint cap ''revision'' 1) (
      m_then (AppendStr cap ''platform'' (unknown (hw_platform_family hw))) (
      m_last (AppendStr cap ''board'' (unknown (hw_board_name hw))) (
      m_then (fmt (ascii ''  },'' @ [0x0A])) (
      m_then (fmt (ascii ''  \"protocols\": {'' @ [0x0A])) (
      m_then (AppendUint cap ''telemetry'' (pc_telemetry_schema p)) (
      m_then (AppendUint cap ''commands'' (pc_command_schema p)) (
      m_last (AppendUint cap ''config'' (pc_config_schema p)) (
      m_then (fmt (ascii ''  },'' @ [0x0A])) (
      m_then (fmt (ascii ''  \"capabilities\": {'' @ [0x0A])) (
      m_then (AppendBool cap ''illuminance'' (cap_illuminance c)) (
      m_then (AppendBool cap ''temperature'' (cap_temperature c)) (
      m_then (AppendBool cap ''humidity'' (cap_relative_humidity c)) (
      m_then (AppendBool cap ''co2'' (cap_co2 c)) (
      m_then (AppendBool cap ''pressure'' (cap_pressure c)) (
      m_then (AppendBool cap ''voc'' (cap_voc c)) (
      m_then (AppendBool cap ''nox'' (cap_nox c)) (
      m_then (AppendBool cap ''presence'' (cap_presence c)) (
      m_then (AppendBoolLast cap ''display'' (cap_display c)) (
      m_then (fmt (ascii ''  }'' @ [0x0A])) (
      fmt (ascii ''}'' @ [0x0A]))))))))))))))))))))))))))))))))))))"

text \<open>The status and the text; \<open>*written\<close> is its length, and 0 after a failure.\<close>

definition DeviceManifest_Serialize ::
  "DeviceManifest option \<Rightarrow> PlatformHardwareInfo \<Rightarrow> nat \<Rightarrow> ManifestSerializeStatus \<times> bytes" where
  "DeviceManifest_Serialize manifest hw cap =
     (case manifest of None \<Rightarrow> (MANIFEST_SERIALIZE_INVALID_ARG, [])
      | Some m \<Rightarrow>
        (case manifest_steps m hw cap [] of (s, out) \<Rightarrow>
           if s \<noteq> MANIFEST_SERIALIZE_OK then (s, []) else (MANIFEST_SERIALIZE_OK, out)))"

end
