(* ===== verification/Command_Response.thy ===== *)
theory Command_Response
  imports Command_Parser Device_Manifest
begin

text \<open>
  \<open>Command/Src/command_response.c\<close>: the reply under construction. \<open>rsp_payload\<close> is the
  part of the 1024-byte array in use, \<open>payload_size\<close> its length; nothing reads the bytes
  behind it. A format string with its arguments is the text it prints; the keys of the
  sources are so short that the 32-byte format buffer of \<open>AppendJsonFloat\<close> holds them.
\<close>

definition COMMAND_RESPONSE_MAX_SIZE :: nat where "COMMAND_RESPONSE_MAX_SIZE = 1024"

datatype CommandStatus =
    COMMAND_STATUS_OK | COMMAND_STATUS_INVALID_COMMAND | COMMAND_STATUS_INVALID_ARGUMENT
  | COMMAND_STATUS_BUSY | COMMAND_STATUS_NOT_SUPPORTED | COMMAND_STATUS_CONFLICT
  | COMMAND_STATUS_INTERNAL_ERROR | COMMAND_STATUS_UNAUTHORIZED

record CommandResponse =
  rsp_request_id :: u32
  rsp_status :: CommandStatus
  rsp_overflowed :: bool
  rsp_payload :: bytes

section \<open>Printing\<close>

text \<open>The last \<open>d\<close> decimal digits of \<open>k\<close>, and \<open>%.*f\<close> of a finite value.\<close>

fun frac_digits :: "nat \<Rightarrow> nat \<Rightarrow> bytes" where
  "frac_digits 0 k = []"
| "frac_digits (Suc d) k = frac_digits d (k div 10) @ [0x30 + of_nat (k mod 10)]"

definition fixed_text :: "nat \<Rightarrow> f32 \<Rightarrow> bytes" where
  "fixed_text d v =
     (let k = nat (round_half_even (f32_mag v * 10 ^ d)) in
      (if f32_neg v then ascii ''-'' else []) @ dec_digits (k div 10 ^ d) @
      (if d = 0 then [] else ascii ''.'' @ frac_digits d k))"

definition lu :: "u32 \<Rightarrow> bytes" where "lu w = dec_digits (unat w)"

section \<open>Appending\<close>

definition CommandResponse_Init :: "u32 \<Rightarrow> CommandStatus \<Rightarrow> CommandResponse" where
  "CommandResponse_Init request_id status =
     \<lparr>rsp_request_id = request_id, rsp_status = status, rsp_overflowed = False, rsp_payload = []\<rparr>"

definition AppendChecked :: "CommandResponse \<Rightarrow> bytes \<Rightarrow> bool \<times> CommandResponse" where
  "AppendChecked rsp txt =
     (let remaining = COMMAND_RESPONSE_MAX_SIZE - length (rsp_payload rsp) in
      if length txt \<ge> remaining then (False, rsp\<lparr>rsp_overflowed := True\<rparr>)
      else (True, rsp\<lparr>rsp_payload := rsp_payload rsp @ txt\<rparr>))"

definition CommandResponse_Append :: "CommandResponse \<Rightarrow> bytes \<Rightarrow> bool \<times> CommandResponse" where
  "CommandResponse_Append rsp txt =
     (if rsp_overflowed rsp then (False, rsp)
      else if length (rsp_payload rsp) \<ge> COMMAND_RESPONSE_MAX_SIZE
      then (False, rsp\<lparr>rsp_overflowed := True\<rparr>)
      else AppendChecked rsp txt)"

definition escape_text :: "u8 \<Rightarrow> bytes" where
  "escape_text c =
     (if c = 0x22 then [0x5C, 0x22]
      else if c = 0x5C then [0x5C, 0x5C]
      else if c = 0x0A then [0x5C, 0x6E]
      else if c = 0x0D then [0x5C, 0x72]
      else if c = 0x09 then [0x5C, 0x74]
      else if c < 0x20
      then [0x5C, 0x75, 0x30, 0x30] @ [kHexDigits ! unat (drop_bit 4 c), kHexDigits ! unat (c AND 0x0F)]
      else [c])"

fun EscapeStr :: "CommandResponse \<Rightarrow> bytes \<Rightarrow> CommandResponse" where
  "EscapeStr rsp [] = rsp"
| "EscapeStr rsp (c # cs) =
     (let buf = escape_text c in
      if length (rsp_payload rsp) + length buf > COMMAND_RESPONSE_MAX_SIZE - 1
      then rsp\<lparr>rsp_overflowed := True\<rparr>
      else EscapeStr (rsp\<lparr>rsp_payload := rsp_payload rsp @ buf\<rparr>) cs)"

definition AppendChar :: "CommandResponse \<Rightarrow> u8 \<Rightarrow> bool \<times> CommandResponse" where
  "AppendChar rsp c =
     (if length (rsp_payload rsp) \<ge> COMMAND_RESPONSE_MAX_SIZE - 1
      then (False, rsp\<lparr>rsp_overflowed := True\<rparr>)
      else (True, rsp\<lparr>rsp_payload := rsp_payload rsp @ [c]\<rparr>))"

text \<open>A step that ends the function with false when it fails.\<close>

definition and_then ::
  "bool \<times> CommandResponse \<Rightarrow> (CommandResponse \<Rightarrow> bool \<times> CommandResponse) \<Rightarrow> bool \<times> CommandResponse" where
  "and_then x k = (case x of (ok, rsp) \<Rightarrow> if \<not> ok then (False, rsp) else k rsp)"

definition escaped :: "bytes \<Rightarrow> CommandResponse \<Rightarrow> bool \<times> CommandResponse" where
  "escaped txt rsp = (let rsp = EscapeStr rsp txt in (\<not> rsp_overflowed rsp, rsp))"

definition CommandResponse_AppendJson ::
  "CommandResponse \<Rightarrow> bytes \<Rightarrow> bytes option \<Rightarrow> bool \<times> CommandResponse" where
  "CommandResponse_AppendJson rsp key val =
     (if rsp_overflowed rsp then (False, rsp)
      else and_then (AppendChar rsp 0x22) (\<lambda>rsp.
           and_then (escaped key rsp) (\<lambda>rsp.
           and_then (AppendChar rsp 0x22) (\<lambda>rsp.
           and_then (AppendChar rsp 0x3A) (\<lambda>rsp.
           and_then (AppendChar rsp 0x22) (\<lambda>rsp.
           and_then (escaped (case val of Some v \<Rightarrow> v | None \<Rightarrow> []) rsp) (\<lambda>rsp.
           and_then (AppendChar rsp 0x22) (\<lambda>rsp.
           AppendChar rsp 0x2C))))))))"

definition CommandResponse_AppendJsonInt ::
  "CommandResponse \<Rightarrow> bytes \<Rightarrow> u32 \<Rightarrow> bool \<times> CommandResponse" where
  "CommandResponse_AppendJsonInt rsp key val =
     CommandResponse_Append rsp ([0x22] @ key @ [0x22, 0x3A] @ lu val @ [0x2C])"

definition CommandResponse_AppendJsonFloat ::
  "CommandResponse \<Rightarrow> bytes \<Rightarrow> f32 \<Rightarrow> nat \<Rightarrow> bool \<times> CommandResponse" where
  "CommandResponse_AppendJsonFloat rsp key val decimals =
     (if \<not> f32_isfinite val then CommandResponse_Append rsp ([0x22] @ key @ [0x22] @ ascii '':null,'')
      else CommandResponse_Append rsp ([0x22] @ key @ [0x22, 0x3A] @ fixed_text decimals val @ [0x2C]))"

definition CommandResponse_AppendJsonBool ::
  "CommandResponse \<Rightarrow> bytes \<Rightarrow> bool \<Rightarrow> bool \<times> CommandResponse" where
  "CommandResponse_AppendJsonBool rsp key val =
     CommandResponse_Append rsp
       ([0x22] @ key @ [0x22, 0x3A] @ (if val then ascii ''true'' else ascii ''false'') @ [0x2C])"

definition CommandResponse_AppendJsonRaw ::
  "CommandResponse \<Rightarrow> bytes \<Rightarrow> bytes option \<Rightarrow> bool \<times> CommandResponse" where
  "CommandResponse_AppendJsonRaw rsp key raw_json =
     (case raw_json of None \<Rightarrow> (False, rsp)
      | Some raw \<Rightarrow>
        if rsp_overflowed rsp then (False, rsp)
        else and_then (AppendChar rsp 0x22) (\<lambda>rsp.
             and_then (escaped key rsp) (\<lambda>rsp.
             and_then (AppendChar rsp 0x22) (\<lambda>rsp.
             and_then (AppendChar rsp 0x3A) (\<lambda>rsp.
             if length (rsp_payload rsp) + length raw > COMMAND_RESPONSE_MAX_SIZE - 1
             then (False, rsp\<lparr>rsp_overflowed := True\<rparr>)
             else AppendChar (rsp\<lparr>rsp_payload := rsp_payload rsp @ raw\<rparr>) 0x2C)))))"

section \<open>Finishing\<close>

definition status_str :: "CommandStatus \<Rightarrow> bytes" where
  "status_str s =
     (case s of
        COMMAND_STATUS_OK \<Rightarrow> ascii ''ok''
      | COMMAND_STATUS_INVALID_COMMAND \<Rightarrow> ascii ''invalid_command''
      | COMMAND_STATUS_INVALID_ARGUMENT \<Rightarrow> ascii ''invalid_argument''
      | COMMAND_STATUS_BUSY \<Rightarrow> ascii ''busy''
      | COMMAND_STATUS_NOT_SUPPORTED \<Rightarrow> ascii ''not_supported''
      | COMMAND_STATUS_CONFLICT \<Rightarrow> ascii ''conflict''
      | COMMAND_STATUS_UNAUTHORIZED \<Rightarrow> ascii ''unauthorized''
      | COMMAND_STATUS_INTERNAL_ERROR \<Rightarrow> ascii ''internal_error'')"

definition too_large_text :: "u32 \<Rightarrow> bytes" where
  "too_large_text request_id =
     ascii ''{\"id\":'' @ lu request_id @ ascii '',\"status\":\"internal_error\",\"schema\":'' @
     lu COMMAND_SCHEMA_VERSION @ ascii '',\"error\":\"response_too_large\"}'' @ [0x0A]"

definition wrapper_text :: "CommandResponse \<Rightarrow> bytes" where
  "wrapper_text rsp =
     ascii ''{\"id\":'' @ lu (rsp_request_id rsp) @ ascii '',\"status\":\"'' @ status_str (rsp_status rsp) @
     ascii ''\",\"schema\":'' @ lu COMMAND_SCHEMA_VERSION @ ascii '',''"

definition CommandResponse_Finalize :: "CommandResponse \<Rightarrow> CommandResponse" where
  "CommandResponse_Finalize rsp =
     (if rsp_overflowed rsp
      then rsp\<lparr>rsp_payload := too_large_text (rsp_request_id rsp), rsp_overflowed := False\<rparr>
      else let
        wrapper = wrapper_text rsp;
        p = rsp_payload rsp;
        p = (if length p > 0 \<and> last p = 0x2C then butlast p else p);
        tot = length wrapper + length p + 2
      in
      if tot \<ge> COMMAND_RESPONSE_MAX_SIZE
      then rsp\<lparr>rsp_payload := too_large_text (rsp_request_id rsp)\<rparr>
      else rsp\<lparr>rsp_payload := wrapper @ p @ [0x7D, 0x0A]\<rparr>)"

end
