(* ===== verification/Room_State.thy ===== *)
theory Room_State
  imports Room_Types Float32
begin

text \<open>
  \<open>App/Src/room_state.c\<close>: the measurements of the room with an explicit validity per
  channel. \<open>now\<close> is the tick \<open>Platform_GetTickMs\<close> returns during the call.
\<close>

datatype MeasurementState = MEASUREMENT_INVALID | MEASUREMENT_VALID | MEASUREMENT_STALE

record RoomState =
  rs_illuminance_lux :: f32
  rs_illuminance_valid :: bool
  rs_co2_ppm :: f32
  rs_co2_valid :: bool
  rs_scd41_temperature_c :: f32
  rs_scd41_temperature_valid :: bool
  rs_scd41_humidity_pct :: f32
  rs_scd41_humidity_valid :: bool
  rs_sht45_temperature_c :: f32
  rs_sht45_temperature_valid :: bool
  rs_sht45_humidity_pct :: f32
  rs_sht45_humidity_valid :: bool
  rs_environment_temperature_c :: f32
  rs_environment_temperature_valid :: bool
  rs_environment_humidity_pct :: f32
  rs_environment_humidity_valid :: bool
  rs_environment_provider :: EnvironmentProvider
  rs_barometric_pressure_pa :: f32
  rs_barometric_pressure_valid :: bool
  rs_barometric_temperature_c :: f32
  rs_barometric_temperature_valid :: bool
  rs_barometric_provider :: BarometerProvider
  rs_bmp390_pressure_pa :: f32
  rs_bmp390_pressure_valid :: bool
  rs_bmp390_temperature_c :: f32
  rs_bmp390_temperature_valid :: bool
  rs_voc_raw :: f32
  rs_voc_raw_valid :: bool
  rs_nox_raw :: f32
  rs_nox_raw_valid :: bool
  rs_voc_index :: f32
  rs_voc_index_valid :: bool
  rs_nox_index :: f32
  rs_nox_index_valid :: bool
  rs_timestamp_ms :: u32

definition RoomState_Init :: RoomState where
  "RoomState_Init =
     \<lparr>rs_illuminance_lux = F32 False 0, rs_illuminance_valid = False,
      rs_co2_ppm = F32 False 0, rs_co2_valid = False, rs_scd41_temperature_c = F32 False 0,
      rs_scd41_temperature_valid = False, rs_scd41_humidity_pct = F32 False 0,
      rs_scd41_humidity_valid = False, rs_sht45_temperature_c = F32 False 0,
      rs_sht45_temperature_valid = False, rs_sht45_humidity_pct = F32 False 0,
      rs_sht45_humidity_valid = False, rs_environment_temperature_c = F32 False 0,
      rs_environment_temperature_valid = False, rs_environment_humidity_pct = F32 False 0,
      rs_environment_humidity_valid = False,
      rs_environment_provider = ENVIRONMENT_PROVIDER_NONE,
      rs_barometric_pressure_pa = F32 False 0, rs_barometric_pressure_valid = False,
      rs_barometric_temperature_c = F32 False 0, rs_barometric_temperature_valid = False,
      rs_barometric_provider = BAROMETER_PROVIDER_NONE, rs_bmp390_pressure_pa = F32 False 0,
      rs_bmp390_pressure_valid = False, rs_bmp390_temperature_c = F32 False 0,
      rs_bmp390_temperature_valid = False, rs_voc_raw = F32 False 0,
      rs_voc_raw_valid = False, rs_nox_raw = F32 False 0, rs_nox_raw_valid = False,
      rs_voc_index = F32 False 0, rs_voc_index_valid = False, rs_nox_index = F32 False 0,
      rs_nox_index_valid = False, rs_timestamp_ms = 0\<rparr>"

definition RoomState_UpdateIlluminance ::
  "f32 \<Rightarrow> bool \<Rightarrow> u32 \<Rightarrow> RoomState \<Rightarrow> RoomState" where
  "RoomState_UpdateIlluminance lux valid now s =
     s\<lparr>rs_illuminance_lux := lux,
       rs_illuminance_valid := valid,
       rs_timestamp_ms := now\<rparr>"

definition RoomState_UpdateScd41 ::
  "f32 \<Rightarrow> bool \<Rightarrow> f32 \<Rightarrow> bool \<Rightarrow> f32 \<Rightarrow> bool \<Rightarrow> u32 \<Rightarrow> RoomState \<Rightarrow> RoomState" where
  "RoomState_UpdateScd41 co2 co2_ok temp temp_ok hum hum_ok now s =
     s\<lparr>rs_co2_ppm := co2,
       rs_co2_valid := co2_ok,
       rs_scd41_temperature_c := temp,
       rs_scd41_temperature_valid := temp_ok,
       rs_scd41_humidity_pct := hum,
       rs_scd41_humidity_valid := hum_ok,
       rs_timestamp_ms := now\<rparr>"

definition RoomState_InvalidateScd41 ::
  "u32 \<Rightarrow> RoomState \<Rightarrow> RoomState" where
  "RoomState_InvalidateScd41 now s =
     s\<lparr>rs_co2_valid := False,
       rs_scd41_temperature_valid := False,
       rs_scd41_humidity_valid := False,
       rs_timestamp_ms := now\<rparr>"

definition RoomState_UpdateSht45 ::
  "f32 \<Rightarrow> bool \<Rightarrow> f32 \<Rightarrow> bool \<Rightarrow> u32 \<Rightarrow> RoomState \<Rightarrow> RoomState" where
  "RoomState_UpdateSht45 temp temp_ok hum hum_ok now s =
     s\<lparr>rs_sht45_temperature_c := temp,
       rs_sht45_temperature_valid := temp_ok,
       rs_sht45_humidity_pct := hum,
       rs_sht45_humidity_valid := hum_ok,
       rs_timestamp_ms := now\<rparr>"

definition RoomState_InvalidateSht45 ::
  "u32 \<Rightarrow> RoomState \<Rightarrow> RoomState" where
  "RoomState_InvalidateSht45 now s =
     s\<lparr>rs_sht45_temperature_valid := False,
       rs_sht45_humidity_valid := False,
       rs_timestamp_ms := now\<rparr>"

definition RoomState_UpdateEnvironment ::
  "EnvironmentProvider \<Rightarrow> f32 \<Rightarrow> bool \<Rightarrow> f32 \<Rightarrow> bool \<Rightarrow> u32 \<Rightarrow> RoomState \<Rightarrow> RoomState" where
  "RoomState_UpdateEnvironment provider temp temp_ok hum hum_ok now s =
     s\<lparr>rs_environment_provider := provider,
       rs_environment_temperature_c := temp,
       rs_environment_temperature_valid := (temp_ok \<and> provider \<noteq> ENVIRONMENT_PROVIDER_NONE),
       rs_environment_humidity_pct := hum,
       rs_environment_humidity_valid := (hum_ok \<and> provider \<noteq> ENVIRONMENT_PROVIDER_NONE),
       rs_timestamp_ms := now\<rparr>"

definition RoomState_InvalidateEnvironment ::
  "u32 \<Rightarrow> RoomState \<Rightarrow> RoomState" where
  "RoomState_InvalidateEnvironment now s =
     s\<lparr>rs_environment_provider := ENVIRONMENT_PROVIDER_NONE,
       rs_environment_temperature_valid := False,
       rs_environment_humidity_valid := False,
       rs_timestamp_ms := now\<rparr>"

definition RoomState_UpdateBmp390 ::
  "f32 \<Rightarrow> bool \<Rightarrow> f32 \<Rightarrow> bool \<Rightarrow> u32 \<Rightarrow> RoomState \<Rightarrow> RoomState" where
  "RoomState_UpdateBmp390 pres pres_ok temp temp_ok now s =
     s\<lparr>rs_bmp390_pressure_pa := pres,
       rs_bmp390_pressure_valid := pres_ok,
       rs_bmp390_temperature_c := temp,
       rs_bmp390_temperature_valid := temp_ok,
       rs_timestamp_ms := now\<rparr>"

definition RoomState_InvalidateBmp390 ::
  "u32 \<Rightarrow> RoomState \<Rightarrow> RoomState" where
  "RoomState_InvalidateBmp390 now s =
     s\<lparr>rs_bmp390_pressure_valid := False,
       rs_bmp390_temperature_valid := False,
       rs_timestamp_ms := now\<rparr>"

definition RoomState_UpdateBarometric ::
  "BarometerProvider \<Rightarrow> f32 \<Rightarrow> bool \<Rightarrow> f32 \<Rightarrow> bool \<Rightarrow> u32 \<Rightarrow> RoomState \<Rightarrow> RoomState" where
  "RoomState_UpdateBarometric provider pres pres_ok temp temp_ok now s =
     (let s = s\<lparr>rs_barometric_provider := provider,
               rs_barometric_pressure_pa := pres,
               rs_barometric_pressure_valid := (pres_ok \<and> provider \<noteq> BAROMETER_PROVIDER_NONE),
               rs_barometric_temperature_c := temp,
               rs_barometric_temperature_valid := (temp_ok \<and> provider \<noteq> BAROMETER_PROVIDER_NONE)\<rparr>;
          s = (if provider = BAROMETER_PROVIDER_BMP390
               then s\<lparr>rs_bmp390_pressure_pa := pres,
                      rs_bmp390_pressure_valid := (pres_ok \<and> rs_barometric_pressure_valid s),
                      rs_bmp390_temperature_c := temp,
                      rs_bmp390_temperature_valid := (temp_ok \<and> rs_barometric_temperature_valid s)\<rparr>
               else s\<lparr>rs_bmp390_pressure_valid := False, rs_bmp390_temperature_valid := False\<rparr>)
      in s\<lparr>rs_timestamp_ms := now\<rparr>)"

definition RoomState_InvalidateBarometric ::
  "u32 \<Rightarrow> RoomState \<Rightarrow> RoomState" where
  "RoomState_InvalidateBarometric now s =
     s\<lparr>rs_barometric_provider := BAROMETER_PROVIDER_NONE,
       rs_barometric_pressure_valid := False,
       rs_barometric_temperature_valid := False,
       rs_bmp390_pressure_valid := False,
       rs_bmp390_temperature_valid := False,
       rs_timestamp_ms := now\<rparr>"

definition RoomState_UpdateSgp41 ::
  "f32 \<Rightarrow> bool \<Rightarrow> f32 \<Rightarrow> bool \<Rightarrow> f32 \<Rightarrow> bool \<Rightarrow> f32 \<Rightarrow> bool \<Rightarrow> u32 \<Rightarrow> RoomState \<Rightarrow> RoomState" where
  "RoomState_UpdateSgp41 raw_voc raw_voc_ok raw_nox raw_nox_ok idx_voc idx_voc_ok idx_nox idx_nox_ok now s =
     s\<lparr>rs_voc_raw := raw_voc,
       rs_voc_raw_valid := raw_voc_ok,
       rs_nox_raw := raw_nox,
       rs_nox_raw_valid := raw_nox_ok,
       rs_voc_index := idx_voc,
       rs_voc_index_valid := idx_voc_ok,
       rs_nox_index := idx_nox,
       rs_nox_index_valid := idx_nox_ok,
       rs_timestamp_ms := now\<rparr>"

definition RoomState_InvalidateSgp41 ::
  "u32 \<Rightarrow> RoomState \<Rightarrow> RoomState" where
  "RoomState_InvalidateSgp41 now s =
     s\<lparr>rs_voc_raw_valid := False,
       rs_nox_raw_valid := False,
       rs_voc_index_valid := False,
       rs_nox_index_valid := False,
       rs_timestamp_ms := now\<rparr>"

section \<open>Coherent snapshots\<close>

text \<open>
  No generic channel is valid without a provider, whatever sequence of updates ran.
\<close>

definition room_coherent :: "RoomState \<Rightarrow> bool" where
  "room_coherent s \<longleftrightarrow>
     (rs_environment_temperature_valid s \<or> rs_environment_humidity_valid s \<longrightarrow>
        rs_environment_provider s \<noteq> ENVIRONMENT_PROVIDER_NONE) \<and>
     (rs_barometric_pressure_valid s \<or> rs_barometric_temperature_valid s \<longrightarrow>
        rs_barometric_provider s \<noteq> BAROMETER_PROVIDER_NONE)"

lemmas room_updates =
  RoomState_UpdateIlluminance_def RoomState_UpdateScd41_def RoomState_InvalidateScd41_def
  RoomState_UpdateSht45_def RoomState_InvalidateSht45_def RoomState_UpdateEnvironment_def
  RoomState_InvalidateEnvironment_def RoomState_UpdateBmp390_def RoomState_InvalidateBmp390_def
  RoomState_UpdateBarometric_def RoomState_InvalidateBarometric_def RoomState_UpdateSgp41_def
  RoomState_InvalidateSgp41_def

lemma room_coherent_start: "room_coherent RoomState_Init"
  by (simp add: room_coherent_def RoomState_Init_def)

lemma room_coherent_updates:
  assumes "room_coherent s"
  shows "room_coherent (RoomState_UpdateIlluminance lux ok now s)"
    "room_coherent (RoomState_UpdateScd41 co2 a t b h c now s)"
    "room_coherent (RoomState_InvalidateScd41 now s)"
    "room_coherent (RoomState_UpdateSht45 t b h c now s)"
    "room_coherent (RoomState_InvalidateSht45 now s)"
    "room_coherent (RoomState_UpdateEnvironment ep t b h c now s)"
    "room_coherent (RoomState_InvalidateEnvironment now s)"
    "room_coherent (RoomState_UpdateBmp390 p a t b now s)"
    "room_coherent (RoomState_InvalidateBmp390 now s)"
    "room_coherent (RoomState_UpdateBarometric bp p a t b now s)"
    "room_coherent (RoomState_InvalidateBarometric now s)"
    "room_coherent (RoomState_UpdateSgp41 w a x b y c z d now s)"
    "room_coherent (RoomState_InvalidateSgp41 now s)"
  using assms by (simp_all add: room_coherent_def room_updates Let_def)

end
