(* ===== verification/Self_Test.thy ===== *)
theory Self_Test
  imports Config Device_Identity
begin

text \<open>
  \<open>App/Src/self_test.c\<close>: the observational self test. What the driver probes find on the
  bus is the argument \<open>probes\<close>, \<open>None\<close> for the NULL bus; the two barometer entries are
  the success of initialization and detection together. The probes themselves are
  \<open>self_test_probes\<close> of the theory \<open>App\<close>.
\<close>

datatype SelfTestResult =
    SELF_TEST_NOT_RUN | SELF_TEST_PASS | SELF_TEST_FAIL | SELF_TEST_SKIPPED | SELF_TEST_DEGRADED

record SelfTestReport =
  st_platform :: SelfTestResult
  st_i2c :: SelfTestResult
  st_storage :: SelfTestResult
  st_config :: SelfTestResult
  st_identity :: SelfTestResult
  st_light_sensor :: SelfTestResult
  st_display :: SelfTestResult
  st_co2_sensor :: SelfTestResult
  st_temp_humidity_sensor :: SelfTestResult
  st_pressure_sensor :: SelfTestResult
  st_air_quality_sensor :: SelfTestResult

definition SelfTest_Init :: SelfTestReport where
  "SelfTest_Init =
     \<lparr>st_platform = SELF_TEST_NOT_RUN, st_i2c = SELF_TEST_NOT_RUN, st_storage = SELF_TEST_NOT_RUN,
      st_config = SELF_TEST_NOT_RUN, st_identity = SELF_TEST_NOT_RUN,
      st_light_sensor = SELF_TEST_NOT_RUN, st_display = SELF_TEST_NOT_RUN,
      st_co2_sensor = SELF_TEST_NOT_RUN, st_temp_humidity_sensor = SELF_TEST_NOT_RUN,
      st_pressure_sensor = SELF_TEST_NOT_RUN, st_air_quality_sensor = SELF_TEST_NOT_RUN\<rparr>"

record driver_probes =
  pr_veml7700 :: bool
  pr_display :: bool
  pr_scd41 :: bool
  pr_sht45 :: bool
  pr_bmp390 :: bool
  pr_bmp380 :: bool
  pr_sgp41 :: bool

definition ProbeToResult :: "bool \<Rightarrow> SelfTestResult" where
  "ProbeToResult ok = (if ok then SELF_TEST_PASS else SELF_TEST_FAIL)"

definition PersistenceToResult :: "StorageReadStatus \<Rightarrow> StorageHealth \<Rightarrow> SelfTestResult" where
  "PersistenceToResult st h =
     (if st = STORAGE_READ_OK
      then (case h of
              STORAGE_HEALTH_HEALTHY \<Rightarrow> SELF_TEST_PASS
            | STORAGE_HEALTH_DEGRADED \<Rightarrow> SELF_TEST_DEGRADED
            | STORAGE_HEALTH_DEGRADED_IO \<Rightarrow> SELF_TEST_DEGRADED
            | STORAGE_HEALTH_CORRUPT \<Rightarrow> SELF_TEST_FAIL
            | STORAGE_HEALTH_IO_ERROR \<Rightarrow> SELF_TEST_FAIL)
      else if st = STORAGE_READ_NOT_FOUND then SELF_TEST_SKIPPED
      else if st = STORAGE_READ_CORRUPT then SELF_TEST_FAIL
      else if st = STORAGE_READ_IO_ERROR then SELF_TEST_FAIL
      else SELF_TEST_FAIL)"

definition SelfTest_Run ::
  "'f flash_ops \<Rightarrow> storage \<Rightarrow> 'f \<Rightarrow> driver_probes option \<Rightarrow> SelfTestReport" where
  "SelfTest_Run ops st f bus =
     (let r = SelfTest_Init\<lparr>st_platform := (if bus \<noteq> None then SELF_TEST_PASS else SELF_TEST_FAIL),
                           st_i2c := (if bus \<noteq> None then SELF_TEST_PASS else SELF_TEST_FAIL)\<rparr>;
          r = (case bus of None \<Rightarrow>
                 r\<lparr>st_light_sensor := SELF_TEST_SKIPPED, st_display := SELF_TEST_SKIPPED,
                   st_co2_sensor := SELF_TEST_SKIPPED, st_temp_humidity_sensor := SELF_TEST_SKIPPED,
                   st_pressure_sensor := SELF_TEST_SKIPPED, st_air_quality_sensor := SELF_TEST_SKIPPED\<rparr>
               | Some p \<Rightarrow>
                 r\<lparr>st_light_sensor := ProbeToResult (pr_veml7700 p),
                   st_display := ProbeToResult (pr_display p),
                   st_co2_sensor := ProbeToResult (pr_scd41 p),
                   st_temp_humidity_sensor := ProbeToResult (pr_sht45 p),
                   st_pressure_sensor := ProbeToResult (pr_bmp390 p \<or> pr_bmp380 p),
                   st_air_quality_sensor := ProbeToResult (pr_sgp41 p)\<rparr>)
      in r\<lparr>st_storage := (if Storage_IsInitialized st then SELF_TEST_PASS else SELF_TEST_FAIL),
           st_config := PersistenceToResult (Config_SelfCheck ops st f)
                          (Storage_GetHealth ops st f RECORD_TYPE_CONFIG),
           st_identity := PersistenceToResult (DeviceIdentity_SelfCheck ops st f)
                            (Storage_GetHealth ops st f RECORD_TYPE_IDENTITY)\<rparr>)"

definition SelfTestResult_ToProtocolString :: "SelfTestResult \<Rightarrow> bytes" where
  "SelfTestResult_ToProtocolString r =
     (case r of
        SELF_TEST_NOT_RUN \<Rightarrow> ascii ''not_run''
      | SELF_TEST_PASS \<Rightarrow> ascii ''pass''
      | SELF_TEST_FAIL \<Rightarrow> ascii ''fail''
      | SELF_TEST_SKIPPED \<Rightarrow> ascii ''skipped''
      | SELF_TEST_DEGRADED \<Rightarrow> ascii ''degraded'')"

end
