(* ===== verification/Command_Dispatcher.thy ===== *)
theory Command_Dispatcher
  imports Command_Response Room_State Self_Test Provisioning_Props
begin

text \<open>
  \<open>Command/Src/command_dispatcher.c\<close>: one handler per command. The services hold pointers
  to state of other components, set once by \<open>App_Init\<close>; the record \<open>device\<close> is that state:
  the flash, the statics of the provisioning and configuration modules, the identity and the
  self-test report of the application, the boot session, the room and the status snapshot. The
  record \<open>cmd_env\<close> holds what a command cannot change. A handler that saves a calibration may
  have undefined behaviour and then no result.
\<close>

record CommandRuntimeStatus =
  crs_system_health :: SystemHealthState
  crs_storage_initialized :: bool
  crs_config_persistence :: StorageReadStatus
  crs_config_storage_health :: StorageHealth
  crs_identity_persistence :: StorageReadStatus
  crs_identity_storage_health :: StorageHealth
  crs_provisioning_state :: ProvisioningState
  crs_provisioning_persistence :: StorageReadStatus
  crs_provisioning_storage_health :: StorageHealth

record 'f device =
  dv_flash :: 'f
  dv_provisioning :: provisioning
  dv_config :: config
  dv_identity :: DeviceIdentity
  dv_self_test :: "SelfTestReport option"
  dv_boot :: boot_session
  dv_room :: RoomState
  dv_runtime_status :: "CommandRuntimeStatus option"

record 'f cmd_env =
  ce_ops :: "'f flash_ops"
  ce_storage :: storage
  ce_bus :: "driver_probes option"
  ce_uid :: "bytes option"
  ce_reset_cause :: ResetCause
  ce_hardware :: PlatformHardwareInfo
  ce_git_sha :: "bytes option"
  ce_build_type :: "bytes option"

text \<open>The values in \<open>CommandServices\<close> that are not pointers.\<close>

record CommandServices =
  sv_uptime_ms :: u32
  sv_watchdog_active :: bool
  sv_light_sensor :: DeviceRuntime
  sv_display :: DeviceRuntime
  sv_co2_sensor :: DeviceRuntime
  sv_reset_cause :: ResetCause

section \<open>Numeric values of the enumerations in replies\<close>

definition device_state_num :: "DeviceState \<Rightarrow> u32" where
  "device_state_num s =
     (case s of DEVICE_STATE_UNKNOWN \<Rightarrow> 0 | DEVICE_STATE_NOT_FOUND \<Rightarrow> 1 | DEVICE_STATE_PROBING \<Rightarrow> 2
      | DEVICE_STATE_INITIALIZING \<Rightarrow> 3 | DEVICE_STATE_STARTING \<Rightarrow> 4 | DEVICE_STATE_WAITING \<Rightarrow> 5
      | DEVICE_STATE_READY \<Rightarrow> 6 | DEVICE_STATE_ERROR \<Rightarrow> 7 | DEVICE_STATE_RECOVERING \<Rightarrow> 8)"

definition system_health_num :: "SystemHealthState \<Rightarrow> u32" where
  "system_health_num s =
     (case s of SYSTEM_HEALTH_BOOTING \<Rightarrow> 0 | SYSTEM_HEALTH_OK \<Rightarrow> 1 | SYSTEM_HEALTH_DEGRADED \<Rightarrow> 2
      | SYSTEM_HEALTH_FAULT \<Rightarrow> 3)"

definition read_status_num :: "StorageReadStatus \<Rightarrow> u32" where
  "read_status_num s =
     (case s of STORAGE_READ_OK \<Rightarrow> 0 | STORAGE_READ_NOT_FOUND \<Rightarrow> 1
      | STORAGE_READ_CORRUPT \<Rightarrow> 2 | STORAGE_READ_IO_ERROR \<Rightarrow> 3
      | STORAGE_READ_INVALID_ARGUMENT \<Rightarrow> 4)"

definition storage_health_num :: "StorageHealth \<Rightarrow> u32" where
  "storage_health_num s =
     (case s of STORAGE_HEALTH_HEALTHY \<Rightarrow> 0 | STORAGE_HEALTH_DEGRADED \<Rightarrow> 1
      | STORAGE_HEALTH_DEGRADED_IO \<Rightarrow> 2 | STORAGE_HEALTH_CORRUPT \<Rightarrow> 3
      | STORAGE_HEALTH_IO_ERROR \<Rightarrow> 4)"

definition provisioning_state_num :: "ProvisioningState \<Rightarrow> u32" where
  "provisioning_state_num s =
     (case s of PROVISIONING_UNPROVISIONED \<Rightarrow> 0 | PROVISIONING_DISCOVERABLE \<Rightarrow> 1
      | PROVISIONING_REGISTRATION_PENDING \<Rightarrow> 2 | PROVISIONING_REGISTERED \<Rightarrow> 3
      | PROVISIONING_CONFIGURATION_PENDING \<Rightarrow> 4 | PROVISIONING_OPERATIONAL \<Rightarrow> 5
      | PROVISIONING_ERROR \<Rightarrow> 6)"

section \<open>Replies\<close>

text \<open>The appends whose result the handlers ignore, and a finished reply.\<close>

definition put :: "bytes \<Rightarrow> CommandResponse \<Rightarrow> CommandResponse" where
  "put txt rsp = snd (CommandResponse_Append rsp txt)"

definition put_json :: "string \<Rightarrow> bytes \<Rightarrow> CommandResponse \<Rightarrow> CommandResponse" where
  "put_json key val rsp = snd (CommandResponse_AppendJson rsp (ascii key) (Some val))"

definition put_int :: "string \<Rightarrow> u32 \<Rightarrow> CommandResponse \<Rightarrow> CommandResponse" where
  "put_int key val rsp = snd (CommandResponse_AppendJsonInt rsp (ascii key) val)"

definition put_float :: "string \<Rightarrow> f32 \<Rightarrow> nat \<Rightarrow> CommandResponse \<Rightarrow> CommandResponse" where
  "put_float key val decimals rsp = snd (CommandResponse_AppendJsonFloat rsp (ascii key) val decimals)"

definition put_bool :: "string \<Rightarrow> bool \<Rightarrow> CommandResponse \<Rightarrow> CommandResponse" where
  "put_bool key val rsp = snd (CommandResponse_AppendJsonBool rsp (ascii key) val)"

definition reply :: "CommandRequest \<Rightarrow> CommandStatus \<Rightarrow> (CommandResponse \<Rightarrow> CommandResponse) list \<Rightarrow> CommandResponse" where
  "reply req status puts =
     CommandResponse_Finalize (fold (\<lambda>p. p) puts (CommandResponse_Init (rq_request_id req) status))"

definition error_reply :: "CommandRequest \<Rightarrow> CommandStatus \<Rightarrow> string \<Rightarrow> CommandResponse" where
  "error_reply req status err = reply req status [put (ascii ''\"error\":\"'' @ ascii err @ ascii ''\"'')]"

definition result_reply :: "CommandRequest \<Rightarrow> string \<Rightarrow> CommandResponse" where
  "result_reply req res = reply req COMMAND_STATUS_OK [put_json ''result'' (ascii res)]"

section \<open>Reading handlers\<close>

definition persistence_usable :: "StorageReadStatus \<Rightarrow> bool" where
  "persistence_usable s \<longleftrightarrow> s \<noteq> STORAGE_READ_CORRUPT \<and> s \<noteq> STORAGE_READ_IO_ERROR"

definition status_puts :: "CommandRuntimeStatus \<Rightarrow> (CommandResponse \<Rightarrow> CommandResponse) list" where
  "status_puts st =
     [put_int ''system_health'' (system_health_num (crs_system_health st)),
      put_bool ''storage_initialized'' (crs_storage_initialized st),
      put_bool ''config_ok'' (persistence_usable (crs_config_persistence st)),
      put_int ''config_persistence_status'' (read_status_num (crs_config_persistence st)),
      put_int ''config_storage_health'' (storage_health_num (crs_config_storage_health st)),
      put_bool ''identity_ok'' (persistence_usable (crs_identity_persistence st)),
      put_int ''identity_persistence_status'' (read_status_num (crs_identity_persistence st)),
      put_int ''identity_storage_health'' (storage_health_num (crs_identity_storage_health st)),
      put_bool ''provisioning_healthy'' (persistence_usable (crs_provisioning_persistence st)),
      put_int ''provisioning_state'' (provisioning_state_num (crs_provisioning_state st)),
      put_int ''provisioning_persistence_status'' (read_status_num (crs_provisioning_persistence st)),
      put_int ''provisioning_storage_health'' (storage_health_num (crs_provisioning_storage_health st))]"

definition validity_text :: "bool \<Rightarrow> bytes" where
  "validity_text v = (if v then ascii ''valid'' else ascii ''invalid'')"

definition HandleGetStatus :: "CommandRequest \<Rightarrow> CommandServices \<Rightarrow> 'f device \<Rightarrow> CommandResponse" where
  "HandleGetStatus req svc d =
     (let light = sv_light_sensor svc; disp = sv_display svc; co2 = sv_co2_sensor svc; room = dv_room d in
      reply req COMMAND_STATUS_OK
       ([put_int ''uptime_ms'' (sv_uptime_ms svc),
         put_int ''reset'' (of_nat (reset_cause_index (sv_reset_cause svc))),
         put (ascii ''\"light\":{''),
         put_int ''state'' (device_state_num (dr_state light)),
         put_int ''ops'' (dr_operation_successes light),
         put_int ''err'' (dr_operation_failures light),
         put (ascii ''},''),
         put (ascii ''\"display\":{''),
         put_int ''state'' (device_state_num (dr_state disp)),
         put (ascii ''},''),
         put (ascii ''\"co2_sensor\":{''),
         put_int ''state'' (device_state_num (dr_state co2)),
         put_int ''ops'' (dr_operation_successes co2),
         put_int ''err'' (dr_operation_failures co2),
         put_int ''consec'' (dr_consecutive_errors co2),
         put_int ''rec'' (dr_recovery_count co2),
         put (ascii ''},''),
         put (ascii ''\"room\":{''),
         put_float ''illuminance_lux'' (rs_illuminance_lux room) 1,
         put_json ''illuminance'' (validity_text (rs_illuminance_valid room)),
         put_float ''co2_ppm'' (rs_co2_ppm room) 0,
         put_json ''co2'' (validity_text (rs_co2_valid room)),
         put (ascii ''},''),
         put_bool ''watchdog'' (sv_watchdog_active svc),
         put_bool ''storage_ok'' (case dv_runtime_status d of None \<Rightarrow> False
           | Some st \<Rightarrow> crs_storage_initialized st)] @
        (case dv_runtime_status d of None \<Rightarrow> [] | Some st \<Rightarrow> status_puts st)))"

definition HandleGetConfig :: "CommandRequest \<Rightarrow> 'f device \<Rightarrow> CommandResponse" where
  "HandleGetConfig req d =
     (let s = rsc_storage (cf_config (dv_config d)) in
      reply req COMMAND_STATUS_OK
        [put_int ''light_period_ms'' (cs_light_period_ms s),
         put_int ''display_period_ms'' (cs_display_period_ms s),
         put_int ''diagnostics_period_ms'' (cs_diagnostics_period_ms s),
         put_int ''retry_period_ms'' (cs_retry_period_ms s),
         put_int ''telemetry_period_ms'' (cs_telemetry_period_ms s),
         put_float ''light_calibration''
           (rc_light_calibration_factor (rsc_runtime (cf_config (dv_config d)))) 4])"

text \<open>\<open>id_str\<close> is read up to its terminating zero.\<close>

definition HandleGetIdentity :: "CommandRequest \<Rightarrow> 'f device \<Rightarrow> CommandResponse" where
  "HandleGetIdentity req d =
     (let id_str = DeviceIdentity_GetShortId (Some (dv_identity d)) (replicate 64 0) 64 in
      reply req COMMAND_STATUS_OK
        [put_json ''device_uuid_short'' (takeWhile (\<lambda>c. c \<noteq> 0) id_str),
         put_int ''hardware_revision'' (di_hardware_revision (dv_identity d))])"

definition HandleSelfTest :: "'f cmd_env \<Rightarrow> CommandRequest \<Rightarrow> 'f device \<Rightarrow> CommandResponse \<times> 'f device" where
  "HandleSelfTest env req d =
     (let d = (if ce_bus env \<noteq> None \<and> dv_self_test d \<noteq> None
               then d\<lparr>dv_self_test := Some (SelfTest_Run (ce_ops env) (ce_storage env) (dv_flash d) (ce_bus env))\<rparr>
               else d);
          st = (case dv_self_test d of Some r \<Rightarrow> r | None \<Rightarrow> SelfTest_Init);
          res = SelfTestResult_ToProtocolString
      in (reply req COMMAND_STATUS_OK
           [put_json ''platform'' (res (st_platform st)), put_json ''i2c'' (res (st_i2c st)),
            put_json ''storage'' (res (st_storage st)), put_json ''config'' (res (st_config st)),
            put_json ''identity'' (res (st_identity st)),
            put_json ''light_sensor'' (res (st_light_sensor st)),
            put_json ''display'' (res (st_display st)),
            put_json ''co2_sensor'' (res (st_co2_sensor st)),
            put_json ''temp_humidity_sensor'' (res (st_temp_humidity_sensor st)),
            put_json ''pressure_sensor'' (res (st_pressure_sensor st)),
            put_json ''air_quality_sensor'' (res (st_air_quality_sensor st))], d))"

definition HandleReboot :: "CommandRequest \<Rightarrow> CommandResponse" where
  "HandleReboot req =
     reply req COMMAND_STATUS_NOT_SUPPORTED [put (ascii ''\"message\":\"REBOOT_disabled\"'')]"

definition HandleGetCapabilities :: "CommandRequest \<Rightarrow> CommandResponse" where
  "HandleGetCapabilities req =
     (let caps = DeviceCapabilities_Get in
      reply req COMMAND_STATUS_OK
        [put_int ''command_schema'' COMMAND_SCHEMA_VERSION,
         put_int ''telemetry_schema'' TELEMETRY_SCHEMA_VERSION,
         put_int ''config_schema'' CONFIG_SCHEMA_VERSION,
         put_bool ''illuminance'' (cap_illuminance caps),
         put_bool ''temperature'' (cap_temperature caps),
         put_bool ''humidity'' (cap_relative_humidity caps),
         put_bool ''pressure'' (cap_pressure caps),
         put_bool ''co2'' (cap_co2 caps),
         put_bool ''voc'' (cap_voc caps),
         put_bool ''nox'' (cap_nox caps),
         put_bool ''presence'' (cap_presence caps)])"

definition HandleGetManifest :: "'f cmd_env \<Rightarrow> CommandRequest \<Rightarrow> 'f device \<Rightarrow> CommandResponse \<times> 'f device" where
  "HandleGetManifest env req d =
     (case BootSession_Get (\<lambda>p. (snd (Platform_CreateBootId (ce_uid env) (ce_reset_cause env)), p)) (dv_boot d) () of
        (boot_id, bs, _) \<Rightarrow>
        let d = d\<lparr>dv_boot := bs\<rparr>;
            manifest = DeviceManifest_Build (ce_git_sha env) (ce_build_type env) boot_id (Some (dv_identity d));
            (ms, buf) = DeviceManifest_Serialize (Some manifest) (ce_hardware env) DEVICE_MANIFEST_SERIALIZED_MAX_SIZE
        in
        if ms \<noteq> MANIFEST_SERIALIZE_OK \<or> length buf = 0
        then (error_reply req COMMAND_STATUS_INTERNAL_ERROR ''serialization_failed'', d)
        else case CommandResponse_AppendJsonRaw
                    (CommandResponse_Init (rq_request_id req) COMMAND_STATUS_OK) (ascii ''manifest'') (Some buf) of
          (ok, rsp) \<Rightarrow>
            (if \<not> ok \<or> rsp_overflowed rsp
             then error_reply req COMMAND_STATUS_INTERNAL_ERROR ''response_too_large''
             else CommandResponse_Finalize rsp, d))"

definition HandleGetProvisioningStatus :: "CommandRequest \<Rightarrow> 'f device \<Rightarrow> CommandResponse" where
  "HandleGetProvisioningStatus req d =
     (let rt = Provisioning_GetRuntime (dv_provisioning d); ps = rt_status rt in
      reply req COMMAND_STATUS_OK
        [put_int ''state'' (provisioning_state_num (ps_state ps)),
         put_bool ''registered'' (ps_registered ps),
         put_bool ''installation_valid'' (ps_installation_valid ps),
         put_bool ''building_valid'' (ps_building_valid ps),
         put_bool ''room_valid'' (ps_room_valid ps),
         put_int ''revision'' (ps_revision ps),
         put_int ''storage_status'' (read_status_num (rt_storage_status rt))])"

definition HandleUnknown :: "CommandRequest \<Rightarrow> CommandResponse" where
  "HandleUnknown req = error_reply req COMMAND_STATUS_INVALID_COMMAND ''unknown_command''"

section \<open>Mutating handlers\<close>

definition HandleSetConfig ::
  "'f cmd_env \<Rightarrow> CommandRequest \<Rightarrow> 'f device \<Rightarrow> (CommandResponse \<times> 'f device) option" where
  "HandleSetConfig env req d =
     (let a = rq_args req;
          cfg = cf_config (dv_config d);
          cfg = (if has_light_period_ms a
                 then cfg\<lparr>rsc_storage := (rsc_storage cfg)\<lparr>cs_light_period_ms := light_period_ms a\<rparr>\<rparr> else cfg);
          cfg = (if has_display_period_ms a
                 then cfg\<lparr>rsc_storage := (rsc_storage cfg)\<lparr>cs_display_period_ms := display_period_ms a\<rparr>\<rparr> else cfg);
          cfg = (if has_telemetry_period_ms a
                 then cfg\<lparr>rsc_storage := (rsc_storage cfg)\<lparr>cs_telemetry_period_ms := telemetry_period_ms a\<rparr>\<rparr> else cfg);
          cfg = (if has_light_calibration a
                 then cfg\<lparr>rsc_runtime := \<lparr>rc_light_calibration_factor = light_calibration a\<rparr>\<rparr> else cfg)
      in
      case Config_ApplyPersistent (ce_ops env) (ce_storage env) (dv_flash d) (dv_config d) (Some cfg) of
        None \<Rightarrow> None
      | Some (as, f, c) \<Rightarrow>
        Some (if as = CONFIG_APPLY_OK then result_reply req ''saved''
              else if as = CONFIG_APPLY_INVALID
              then error_reply req COMMAND_STATUS_INVALID_ARGUMENT ''invalid_configuration''
              else error_reply req COMMAND_STATUS_INTERNAL_ERROR ''persist_failed'',
              d\<lparr>dv_flash := f, dv_config := c\<rparr>))"

definition HandleResetConfig ::
  "'f cmd_env \<Rightarrow> CommandRequest \<Rightarrow> 'f device \<Rightarrow> (CommandResponse \<times> 'f device) option" where
  "HandleResetConfig env req d =
     (case Config_ResetToDefaults (ce_ops env) (ce_storage env) (dv_flash d) (dv_config d) of
        None \<Rightarrow> None
      | Some (ok, f, c) \<Rightarrow>
        Some (if ok then result_reply req ''defaults_restored''
              else error_reply req COMMAND_STATUS_INTERNAL_ERROR ''persist_failed'',
              d\<lparr>dv_flash := f, dv_config := c\<rparr>))"

definition storage_state_known :: "StorageReadStatus \<Rightarrow> bool" where
  "storage_state_known s \<longleftrightarrow> s = STORAGE_READ_OK \<or> s = STORAGE_READ_NOT_FOUND"

definition HandleRegisterDevice ::
  "'f cmd_env \<Rightarrow> CommandRequest \<Rightarrow> 'f device \<Rightarrow> CommandResponse \<times> 'f device" where
  "HandleRegisterDevice env req d =
     (let a = rq_args req; rt = Provisioning_GetRuntime (dv_provisioning d); current = rt_current rt in
      if \<not> has_installation_id a
      then (error_reply req COMMAND_STATUS_INVALID_ARGUMENT ''missing_installation_id'', d)
      else if \<not> Provisioning_ValidEntityId (Some (installation_id a))
      then (error_reply req COMMAND_STATUS_INVALID_ARGUMENT ''invalid_installation_id'', d)
      else if \<not> storage_state_known (rt_storage_status rt)
      then (error_reply req COMMAND_STATUS_INTERNAL_ERROR ''storage_state_unknown'', d)
      else if reg_registered current \<and> reg_installation_valid current
      then (if reg_installation_id current \<noteq> installation_id a
            then error_reply req COMMAND_STATUS_CONFLICT ''ownership_conflict''
            else result_reply req ''already_registered'', d)
      else let
        updated = current\<lparr>reg_registered := True, reg_installation_id := installation_id a,
                          reg_installation_valid := True, reg_building_id := zero_id,
                          reg_room_id := zero_id, reg_building_valid := False, reg_room_valid := False\<rparr>;
        (ok, f, pv) = Provisioning_Save (ce_ops env) (ce_storage env) (dv_flash d) (dv_provisioning d) (Some updated);
        d = d\<lparr>dv_flash := f, dv_provisioning := pv\<rparr>
      in (if \<not> ok then error_reply req COMMAND_STATUS_INTERNAL_ERROR ''persist_failed''
          else result_reply req ''registered'', d))"

definition HandleUnregisterDevice ::
  "'f cmd_env \<Rightarrow> CommandRequest \<Rightarrow> 'f device \<Rightarrow> CommandResponse \<times> 'f device" where
  "HandleUnregisterDevice env req d =
     (case Provisioning_Clear (ce_ops env) (ce_storage env) (dv_flash d) (dv_provisioning d) of (ok, f, pv) \<Rightarrow>
        (if \<not> ok then error_reply req COMMAND_STATUS_INTERNAL_ERROR ''unregister_failed''
         else result_reply req ''unregistered'', d\<lparr>dv_flash := f, dv_provisioning := pv\<rparr>))"

definition HandleFactoryReset ::
  "'f cmd_env \<Rightarrow> CommandRequest \<Rightarrow> 'f device \<Rightarrow> (CommandResponse \<times> 'f device) option" where
  "HandleFactoryReset env req d =
     (case Provisioning_Clear (ce_ops env) (ce_storage env) (dv_flash d) (dv_provisioning d) of
        (reg_cleared, f, pv) \<Rightarrow>
        let incomplete = error_reply req COMMAND_STATUS_INTERNAL_ERROR ''factory_reset_incomplete'';
            d = d\<lparr>dv_flash := f, dv_provisioning := pv\<rparr>
        in
        if \<not> reg_cleared then Some (incomplete, d)
        else case Config_ResetToDefaults (ce_ops env) (ce_storage env) (dv_flash d) (dv_config d) of
          None \<Rightarrow> None
        | Some (cfg_reset, f, c) \<Rightarrow>
          Some (if cfg_reset then result_reply req ''factory_reset_complete'' else incomplete,
                d\<lparr>dv_flash := f, dv_config := c\<rparr>))"

definition HandleAssignLocation ::
  "'f cmd_env \<Rightarrow> CommandRequest \<Rightarrow> 'f device \<Rightarrow> CommandResponse \<times> 'f device" where
  "HandleAssignLocation env req d =
     (let a = rq_args req; rt = Provisioning_GetRuntime (dv_provisioning d); current = rt_current rt in
      if \<not> has_installation_id a \<or> \<not> has_building_id a \<or> \<not> has_room_id a
      then (error_reply req COMMAND_STATUS_INVALID_ARGUMENT ''missing_required_ids'', d)
      else if \<not> Provisioning_ValidEntityId (Some (installation_id a)) \<or>
              \<not> Provisioning_ValidEntityId (Some (building_id a)) \<or>
              \<not> Provisioning_ValidEntityId (Some (room_id a))
      then (error_reply req COMMAND_STATUS_INVALID_ARGUMENT ''invalid_entity_id'', d)
      else if \<not> storage_state_known (rt_storage_status rt)
      then (error_reply req COMMAND_STATUS_INTERNAL_ERROR ''storage_state_unknown'', d)
      else if \<not> reg_registered current \<or> \<not> reg_installation_valid current
      then (error_reply req COMMAND_STATUS_INVALID_ARGUMENT ''device_not_registered'', d)
      else if reg_installation_id current \<noteq> installation_id a
      then (error_reply req COMMAND_STATUS_CONFLICT ''installation_mismatch'', d)
      else if reg_building_valid current \<and> reg_room_valid current \<and>
              reg_building_id current = building_id a \<and> reg_room_id current = room_id a
      then (result_reply req ''already_assigned'', d)
      else let
        updated = current\<lparr>reg_building_id := building_id a, reg_room_id := room_id a,
                          reg_building_valid := True, reg_room_valid := True\<rparr>;
        (ok, f, pv) = Provisioning_Save (ce_ops env) (ce_storage env) (dv_flash d) (dv_provisioning d) (Some updated);
        d = d\<lparr>dv_flash := f, dv_provisioning := pv\<rparr>
      in (if \<not> ok then error_reply req COMMAND_STATUS_INTERNAL_ERROR ''persist_failed''
          else result_reply req ''location_assigned'', d))"

section \<open>Dispatching\<close>

definition CommandDispatcher_Dispatch ::
  "'f cmd_env \<Rightarrow> CommandRequest \<Rightarrow> CommandServices \<Rightarrow> 'f device \<Rightarrow> (CommandResponse \<times> 'f device) option" where
  "CommandDispatcher_Dispatch env req svc d =
     (case rq_type req of
        COMMAND_GET_STATUS \<Rightarrow> Some (HandleGetStatus req svc d, d)
      | COMMAND_GET_CONFIG \<Rightarrow> Some (HandleGetConfig req d, d)
      | COMMAND_SET_CONFIG \<Rightarrow> HandleSetConfig env req d
      | COMMAND_RESET_CONFIG \<Rightarrow> HandleResetConfig env req d
      | COMMAND_GET_IDENTITY \<Rightarrow> Some (HandleGetIdentity req d, d)
      | COMMAND_SELF_TEST \<Rightarrow> Some (HandleSelfTest env req d)
      | COMMAND_REBOOT \<Rightarrow> Some (HandleReboot req, d)
      | COMMAND_GET_CAPABILITIES \<Rightarrow> Some (HandleGetCapabilities req, d)
      | COMMAND_GET_MANIFEST \<Rightarrow> Some (HandleGetManifest env req d)
      | COMMAND_REGISTER_DEVICE \<Rightarrow> Some (HandleRegisterDevice env req d)
      | COMMAND_UNREGISTER_DEVICE \<Rightarrow> Some (HandleUnregisterDevice env req d)
      | COMMAND_FACTORY_RESET \<Rightarrow> HandleFactoryReset env req d
      | COMMAND_GET_PROVISIONING_STATUS \<Rightarrow> Some (HandleGetProvisioningStatus req d, d)
      | COMMAND_ASSIGN_LOCATION \<Rightarrow> Some (HandleAssignLocation env req d)
      | COMMAND_NONE \<Rightarrow> Some (HandleUnknown req, d)
      | COMMAND_UNKNOWN \<Rightarrow> Some (HandleUnknown req, d))"

end
