(* ===== verification/Command_Parser_Props.thy ===== *)
theory Command_Parser_Props
  imports Command_Parser
begin

text \<open>
  What the command parser accepts: integers are exactly the decimal texts of the 32-bit
  numbers, and a request it returns obeys the argument contract of its command, with
  identifiers of sixteen bytes and a finite calibration.
\<close>

section \<open>Integers\<close>

definition json_space :: "u8 set" where "json_space = {0x20, 0x09, 0x0A, 0x0D}"

lemma SkipW_eq: "SkipW d = dropWhile (\<lambda>c. c \<in> json_space) d"
  by (induction d) (simp_all add: json_space_def)

lemma SkipW_split:
  obtains ws where "d = ws @ SkipW d" "set ws \<subseteq> json_space"
proof -
  have "d = takeWhile (\<lambda>c. c \<in> json_space) d @ SkipW d" by (simp add: SkipW_eq)
  moreover have "set (takeWhile (\<lambda>c. c \<in> json_space) d) \<subseteq> json_space" by (auto dest: set_takeWhileD)
  ultimately show ?thesis using that by blast
qed

lemma SkipW_append:
  assumes "set ws \<subseteq> json_space" "c \<notin> json_space"
  shows "SkipW (ws @ c # d) = c # d"
  using assms by (induction ws) (auto simp: SkipW_eq)

text \<open>The overflow guard, and the loop as a fold over the digits it stands on.\<close>

lemma uint_guard:
  assumes "digit < (10 :: u32)"
  shows "v > (0xFFFFFFFF - digit) div 10 \<longleftrightarrow> 2 ^ 32 \<le> 10 * unat v + unat digit"
proof -
  have d: "unat digit < 10" using assms by (simp add: word_less_nat_alt)
  have "digit \<le> 0xFFFFFFFF" using d by (simp add: word_le_nat_alt)
  then have "unat (0xFFFFFFFF - digit) = 4294967295 - unat digit" by (simp add: unat_sub)
  then have "v > (0xFFFFFFFF - digit) div 10 \<longleftrightarrow> (4294967295 - unat digit) div 10 < unat v"
    by (simp add: word_less_nat_alt unat_div)
  also have "\<dots> \<longleftrightarrow> 2 ^ 32 \<le> 10 * unat v + unat digit"
    using d by (simp add: div_less_iff_less_mult) linarith
  finally show ?thesis .
qed

abbreviation fold_digits :: "nat \<Rightarrow> bytes \<Rightarrow> nat" where
  "fold_digits \<equiv> foldl (\<lambda>n c. 10 * n + unat (c - 0x30))"

lemma fold_digits_ge: "n \<le> fold_digits n ds"
proof (induction ds arbitrary: n)
  case (Cons c ds)
  show ?case using Cons[of "10 * n + unat (c - 0x30)"] by simp
qed simp

lemma parse_uint_loop_eq:
  "parse_uint_loop v d =
     (let m = fold_digits (unat v) (takeWhile is_digit d)
      in if m < 2 ^ 32 then Some (of_nat m, dropWhile is_digit d) else None)"
proof (induction v d rule: parse_uint_loop.induct)
  case (1 v)
  show ?case using unat_u32_less[of v] by (simp add: Let_def)
next
  case (2 v c d)
  show ?case
  proof (cases "is_digit c")
    case False
    then show ?thesis using unat_u32_less[of v] by (simp add: Let_def)
  next
    case True
    define digit :: u32 where "digit = ucast (c - 0x30)"
    have ud: "unat digit = unat (c - 0x30)"
      using digit_number_less[OF True] by (simp add: digit_def unsigned_ucast_eq take_bit_eq_mod)
    then have d10: "digit < 10" using digit_number_less[OF True] by (simp add: word_less_nat_alt)
    let ?n = "10 * unat v + unat (c - 0x30)"
    show ?thesis
    proof (cases "2 ^ 32 \<le> ?n")
      case over: True
      have "\<not> fold_digits ?n (takeWhile is_digit d) < 2 ^ 32"
        using fold_digits_ge[of ?n "takeWhile is_digit d"] over by linarith
      then show ?thesis
        using over uint_guard[OF d10, of v] True by (simp add: Let_def ud flip: digit_def)
    next
      case fits: False
      have "unat (v * 10 + digit) = ?n"
        using fits ud by (simp add: unat_word_ariths mult.commute)
      then show ?thesis
        using fits uint_guard[OF d10, of v] 2[OF True refl] True
        by (simp add: Let_def ud flip: digit_def)
    qed
  qed
qed

abbreviation number_end :: "bytes \<Rightarrow> bool" where
  "number_end r \<equiv> \<not> starts is_digit r \<and> \<not> starts (\<lambda>c. c = 0x2E \<or> c = 0x65 \<or> c = 0x45) r"

lemma digit_no_space: "is_digit c \<Longrightarrow> c \<notin> json_space"
  by (auto simp: is_digit_def json_space_def)

lemma digit_no_mark: "is_digit c \<Longrightarrow> c \<noteq> 0x2D \<and> c \<noteq> 0x2B \<and> c \<noteq> 0x2E \<and> c \<noteq> 0x65 \<and> c \<noteq> 0x45"
  by (auto simp: is_digit_def)

lemma takeWhile_starts:
  assumes "list_all P xs" "\<not> starts P ys"
  shows "takeWhile P (xs @ ys) = xs" "dropWhile P (xs @ ys) = ys"
proof -
  have "takeWhile P ys = []" "dropWhile P ys = ys" using assms(2) by (cases ys; simp)+
  then show "takeWhile P (xs @ ys) = xs" "dropWhile P (xs @ ys) = ys"
    using assms(1) by (simp_all add: takeWhile_append2 dropWhile_append2 list_all_iff)
qed

lemma starts_dropWhile: "\<not> starts P (dropWhile P xs)"
  by (induction xs) auto

text \<open>
  \<open>ParseUint\<close> accepts exactly white space followed by the decimal text, without
  sign and leading zeros, of a number below 2^32 that no digit, point or exponent follows, and
  returns that number: nothing wraps around.
\<close>

theorem parse_uint_exact:
  "ParseUint d = Some (n, r) \<longleftrightarrow>
     (\<exists>ws. d = ws @ dec_digits (unat n) @ r \<and> set ws \<subseteq> {0x20, 0x09, 0x0A, 0x0D} \<and>
       \<not> starts is_digit r \<and> \<not> starts (\<lambda>c. c = 0x2E \<or> c = 0x65 \<or> c = 0x45) r)"
  (is "_ \<longleftrightarrow> ?text")
proof
  assume P: "ParseUint d = Some (n, r)"
  obtain ws where ws: "d = ws @ SkipW d" "set ws \<subseteq> json_space" by (rule SkipW_split)
  obtain c e where e: "SkipW d = c # e" "is_digit c" "\<not> starts (\<lambda>c. c = 0x2E \<or> c = 0x65 \<or> c = 0x45) r"
    and cases: "c = 0x30 \<and> \<not> starts is_digit e \<and> n = 0 \<and> r = e \<or>
      c \<noteq> 0x30 \<and> parse_uint_loop 0 (c # e) = Some (n, r)"
    using P by (auto simp: ParseUint_def split: list.splits if_splits option.splits)
  from cases have "c # e = dec_digits (unat n) @ r \<and> \<not> starts is_digit r"
  proof
    assume "c = 0x30 \<and> \<not> starts is_digit e \<and> n = 0 \<and> r = e"
    then show ?thesis by (simp add: dec_digits.simps)
  next
    assume c: "c \<noteq> 0x30 \<and> parse_uint_loop 0 (c # e) = Some (n, r)"
    let ?ds = "takeWhile is_digit (c # e)"
    have n: "dec_number ?ds < 2 ^ 32" "n = of_nat (dec_number ?ds)" "r = dropWhile is_digit (c # e)"
      using c by (simp_all add: parse_uint_loop_eq dec_number_def Let_def split: if_splits)
    then have "unat n = dec_number ?ds" by (simp add: unat_of_nat take_bit_eq_mod)
    moreover have "dec_digits (dec_number ?ds) = ?ds"
      using e(2) c by (intro dec_digits_dec_number) (auto simp: list_all_iff dest: set_takeWhileD)
    ultimately show ?thesis using n(3) starts_dropWhile[of is_digit "c # e"] by simp
  qed
  then show ?text using ws e(1,3) by (auto simp: json_space_def)
next
  assume ?text
  then obtain ws where d: "d = ws @ dec_digits (unat n) @ r" "set ws \<subseteq> json_space"
    and r: "number_end r" by (auto simp: json_space_def)
  let ?ds = "dec_digits (unat n)"
  obtain c e where ds: "?ds = c # e" by (cases ?ds) simp_all
  have c: "is_digit c" using dec_digits_text[of "unat n"] ds by simp
  have skip: "SkipW d = c # (e @ r)"
    using SkipW_append[OF d(2) digit_no_space[OF c]] d(1) ds by simp
  show "ParseUint d = Some (n, r)"
  proof (cases "n = 0")
    case True
    then have "c = 0x30" "e = []" using ds by (simp_all add: dec_digits.simps)
    then show ?thesis using True r c by (simp add: ParseUint_def skip)
  next
    case False
    then have "c \<noteq> 0x30" using dec_digits_no_zero[of "unat n"] ds by (simp add: unat_gt_0)
    moreover have "parse_uint_loop 0 (?ds @ r) = Some (n, r)"
      using takeWhile_starts[OF dec_digits_text, of r "unat n"] r unat_u32_less[of n]
        dec_number_dec_digits[of "unat n"]
      by (simp add: parse_uint_loop_eq Let_def flip: dec_number_def)
    ultimately show ?thesis
      using r c digit_no_mark[OF c] ds by (simp add: ParseUint_def skip)
  qed
qed

lemma parse_uint_exact_witness:
  "ParseUint (ascii '' 305,'') = Some (305, ascii '','')"
proof -
  have "dec_digits 305 = ascii ''305''" by (simp add: dec_digits.simps ascii_def)
  then have "ascii '' 305,'' = [0x20] @ dec_digits (unat (305 :: u32)) @ ascii '',''"
    by (simp add: ascii_def)
  then show ?thesis unfolding parse_uint_exact by (intro exI[of _ "[0x20]"]) (simp add: ascii_def is_digit_def)
qed

section \<open>The type of requests\<close>

definition has_settings :: "CommandArguments \<Rightarrow> bool" where
  "has_settings a \<longleftrightarrow> has_light_period_ms a \<or> has_display_period_ms a \<or> has_telemetry_period_ms a \<or>
     has_light_calibration a"

text \<open>An identifier is sixteen bytes, a calibration a finite number, and what is not given is zero.\<close>

definition args_typed :: "CommandArguments \<Rightarrow> bool" where
  "args_typed a \<longleftrightarrow>
     length (installation_id a) = ENTITY_ID_SIZE \<and> length (building_id a) = ENTITY_ID_SIZE \<and>
     length (room_id a) = ENTITY_ID_SIZE \<and> f32_isfinite (light_calibration a) \<and>
     (\<not> has_light_period_ms a \<longrightarrow> light_period_ms a = 0) \<and>
     (\<not> has_display_period_ms a \<longrightarrow> display_period_ms a = 0) \<and>
     (\<not> has_telemetry_period_ms a \<longrightarrow> telemetry_period_ms a = 0) \<and>
     (\<not> has_light_calibration a \<longrightarrow> light_calibration a = F32 False 0) \<and>
     (\<not> has_installation_id a \<longrightarrow> installation_id a = zero_id) \<and>
     (\<not> has_building_id a \<longrightarrow> building_id a = zero_id) \<and>
     (\<not> has_room_id a \<longrightarrow> room_id a = zero_id)"

definition state_typed :: "parse_state \<Rightarrow> bool" where
  "state_typed s \<longleftrightarrow> args_typed (rq_args (pa_request s)) \<and>
     (pa_has_id s \<longrightarrow> rq_has_request_id (pa_request s)) \<and> rq_type (pa_request s) \<noteq> COMMAND_NONE"

lemma parse_id_loop_length: "length (snd (parse_id_loop i hex out)) = length out"
  by (induction i hex out rule: parse_id_loop.induct) (subst parse_id_loop.simps, simp add: Let_def)

lemma parse_id_typed: "parse_id d = Some (i, r) \<Longrightarrow> length i = ENTITY_ID_SIZE"
  using parse_id_loop_length[of 0 _ zero_id]
  by (auto simp: parse_id_def EntityId_Parse_def zero_id_def split: option.splits prod.splits if_splits)
    (metis length_replicate snd_conv)

lemma ParseFloat_typed: "ParseFloat d = Some (v, r) \<Longrightarrow> f32_isfinite v"
  by (auto simp: ParseFloat_def split: option.splits prod.splits if_splits)

lemma StrToType_typed: "StrToType str \<noteq> COMMAND_NONE"
  by (simp add: StrToType_def)

lemma args_typed_upd:
  assumes "args_typed a"
  shows "args_typed (a\<lparr>light_period_ms := n, has_light_period_ms := True\<rparr>)"
    "args_typed (a\<lparr>display_period_ms := n, has_display_period_ms := True\<rparr>)"
    "args_typed (a\<lparr>telemetry_period_ms := n, has_telemetry_period_ms := True\<rparr>)"
    "f32_isfinite v \<Longrightarrow> args_typed (a\<lparr>light_calibration := v, has_light_calibration := True\<rparr>)"
    "length i = ENTITY_ID_SIZE \<Longrightarrow> args_typed (a\<lparr>installation_id := i, has_installation_id := True\<rparr>)"
    "length i = ENTITY_ID_SIZE \<Longrightarrow> args_typed (a\<lparr>building_id := i, has_building_id := True\<rparr>)"
    "length i = ENTITY_ID_SIZE \<Longrightarrow> args_typed (a\<lparr>room_id := i, has_room_id := True\<rparr>)"
  using assms by (simp_all add: args_typed_def)

lemma parse_value_typed:
  assumes "parse_value field d s = Some (s', r)" "state_typed s"
  shows "state_typed s'"
  using assms
  by (auto simp: parse_value_def Let_def state_typed_def StrToType_typed split: if_split_asm
      intro: args_typed_upd(1-3) args_typed_upd(4)[OF _ ParseFloat_typed] args_typed_upd(5-7)[OF _ parse_id_typed])

lemma parse_member_typed:
  "parse_member d s = Some (s', r) \<Longrightarrow> state_typed s \<Longrightarrow> state_typed s'"
  by (auto simp: parse_member_def dest: parse_value_typed split: option.splits prod.splits list.splits if_splits)

lemma parse_fields_typed:
  "parse_fields d e s = Some (s', r) \<Longrightarrow> state_typed s \<Longrightarrow> state_typed s'"
proof (induction d e s arbitrary: s' r rule: parse_fields.induct)
  case (1 d e s)
  note run = 1(3)[unfolded parse_fields.simps[of d e s]]
  show ?case
  proof (cases "\<exists>c d'. SkipW d = c # d' \<and> c \<noteq> 0x7D")
    case True
    then obtain c d' where d: "SkipW d = c # d'" "c \<noteq> 0x7D" by blast
    then obtain v r1 c1 r2 where m: "parse_member (c # d') s = Some (v, r1)" "SkipW r1 = c1 # r2"
      "c1 = 0x2C \<and> parse_fields r2 True v = Some (s', r) \<or> c1 = 0x7D \<and> parse_fields (c1 # r2) False v = Some (s', r)"
      using run by (auto split: option.splits prod.splits list.splits if_split_asm)
    note v = parse_member_typed[OF m(1) 1(4)]
    show ?thesis
      using m(3)
    proof (elim disjE conjE)
      assume "c1 = 0x2C" "parse_fields r2 True v = Some (s', r)"
      then show ?thesis using 1(1)[OF d m(1) HOL.refl m(2)] v by blast
    next
      assume "c1 = 0x7D" "parse_fields (c1 # r2) False v = Some (s', r)"
      then show ?thesis using 1(2)[OF d m(1) HOL.refl m(2)] v by simp
    qed
  next
    case False
    then show ?thesis using run 1(4) by (auto split: list.splits if_split_asm)
  qed
qed

text \<open>
  Claim C40. A request that the parser returns is well-typed: it has an identifier, its
  arguments are in their types and zero where they are not given, and it carries exactly the
  arguments of its command: settings for SET_CONFIG, the installation for REGISTER_DEVICE, all
  three places for ASSIGN_LOCATION, and none for any other command that is known.
\<close>

theorem parsed_request_typed:
  assumes "CommandParser_Parse data = Some req"
  defines "a \<equiv> rq_args req"
  shows "rq_has_request_id req \<and> rq_type req \<noteq> COMMAND_NONE \<and> args_typed a \<and>
    (rq_type req \<noteq> COMMAND_UNKNOWN \<longrightarrow>
       has_settings a = (rq_type req = COMMAND_SET_CONFIG) \<and>
       has_installation_id a = (rq_type req \<in> {COMMAND_REGISTER_DEVICE, COMMAND_ASSIGN_LOCATION}) \<and>
       has_building_id a = (rq_type req = COMMAND_ASSIGN_LOCATION) \<and>
       has_room_id a = (rq_type req = COMMAND_ASSIGN_LOCATION))"
proof -
  let ?s0 = "\<lparr>pa_request = zero_request, pa_has_id = False, pa_has_cmd = False\<rparr>"
  obtain d r s r' where p: "parse_fields r False ?s0 = Some (s, r')" "req = pa_request s"
    "pa_has_id s" "ValidateArgs req"
    using assms(1) by (auto simp: CommandParser_Parse_def split: option.splits list.splits if_splits prod.splits)
  have "state_typed ?s0"
    by (simp add: state_typed_def args_typed_def zero_request_def zero_id_def f32_isfinite_def)
  then have "state_typed s" using parse_fields_typed[OF p(1)] by blast
  then show ?thesis
    using p(2-4) unfolding state_typed_def a_def
    by (cases "rq_type req") (simp_all add: ValidateArgs_def has_settings_def Let_def split: if_splits)
qed

lemma parsed_request_typed_witness:
  "\<exists>req. CommandParser_Parse (Some (ascii ''{\"id\":1,\"command\":\"SET_CONFIG\",\"light_period_ms\":900}'')) = Some req \<and>
     has_settings (rq_args req) \<and> \<not> has_room_id (rq_args req)"
proof -
  let ?d = "Some (ascii ''{\"id\":1,\"command\":\"SET_CONFIG\",\"light_period_ms\":900}'')"
  have "map_option rq_type (CommandParser_Parse ?d) = Some COMMAND_SET_CONFIG" by code_simp
  then obtain req where r: "CommandParser_Parse ?d = Some req" "rq_type req = COMMAND_SET_CONFIG" by auto
  show ?thesis using parsed_request_typed[OF r(1)] r by auto
qed

end
