(* ===== verification/Command.thy ===== *)
theory Command
  imports Command_Dispatcher Command_Parser_Props
begin

text \<open>
  \<open>Command/Src/command.c\<close>: a queue of one message, its authorization by the trust of its
  source, and its execution. The statics of the file are the record \<open>command\<close>. What the
  port is given is the list of replies a call sends; without a port a reply is dropped.
\<close>

definition COMMAND_INPUT_BUFFER_SIZE :: nat where "COMMAND_INPUT_BUFFER_SIZE = 512"

datatype CommandSecurityClass =
    COMMAND_SECURITY_READ_ONLY | COMMAND_SECURITY_DIAGNOSTIC_ACTION
  | COMMAND_SECURITY_CONFIG_MUTATION | COMMAND_SECURITY_PROVISIONING_MUTATION
  | COMMAND_SECURITY_DESTRUCTIVE | COMMAND_SECURITY_INVALID

datatype CommandSourceTrust =
    COMMAND_SOURCE_UNTRUSTED | COMMAND_SOURCE_TRUSTED_LOCAL | COMMAND_SOURCE_AUTHENTICATED_REMOTE

record CommandInput =
  in_data :: "bytes option"
  in_trust :: CommandSourceTrust

record command =
  cm_busy :: bool
  cm_services :: CommandServices
  cm_initialized :: bool
  cm_input_buf :: bytes
  cm_input_pos :: nat
  cm_has_pending :: bool
  cm_pending_trust :: CommandSourceTrust
  cm_port :: bool

text \<open>The initial values of the statics.\<close>

definition zero_runtime :: DeviceRuntime where
  "zero_runtime =
     \<lparr>dr_state = DEVICE_STATE_UNKNOWN, dr_init_attempts = 0, dr_init_failures = 0,
      dr_operation_successes = 0, dr_operation_failures = 0, dr_recovery_count = 0,
      dr_consecutive_errors = 0, dr_last_success_ms = 0, dr_last_failure_ms = 0\<rparr>"

definition zero_services :: CommandServices where
  "zero_services =
     \<lparr>sv_uptime_ms = 0, sv_watchdog_active = False, sv_light_sensor = zero_runtime,
      sv_display = zero_runtime, sv_co2_sensor = zero_runtime, sv_reset_cause = RESET_CAUSE_UNKNOWN\<rparr>"

definition command_start :: command where
  "command_start =
     \<lparr>cm_busy = False, cm_services = zero_services, cm_initialized = False,
      cm_input_buf = replicate COMMAND_INPUT_BUFFER_SIZE 0, cm_input_pos = 0, cm_has_pending = False,
      cm_pending_trust = COMMAND_SOURCE_UNTRUSTED, cm_port = False\<rparr>"

section \<open>Authorization\<close>

definition Command_GetSecurityClass :: "CommandType \<Rightarrow> CommandSecurityClass" where
  "Command_GetSecurityClass t =
     (case t of
        COMMAND_GET_STATUS \<Rightarrow> COMMAND_SECURITY_READ_ONLY
      | COMMAND_GET_CONFIG \<Rightarrow> COMMAND_SECURITY_READ_ONLY
      | COMMAND_GET_IDENTITY \<Rightarrow> COMMAND_SECURITY_READ_ONLY
      | COMMAND_GET_CAPABILITIES \<Rightarrow> COMMAND_SECURITY_READ_ONLY
      | COMMAND_GET_MANIFEST \<Rightarrow> COMMAND_SECURITY_READ_ONLY
      | COMMAND_GET_PROVISIONING_STATUS \<Rightarrow> COMMAND_SECURITY_READ_ONLY
      | COMMAND_SELF_TEST \<Rightarrow> COMMAND_SECURITY_DIAGNOSTIC_ACTION
      | COMMAND_SET_CONFIG \<Rightarrow> COMMAND_SECURITY_CONFIG_MUTATION
      | COMMAND_RESET_CONFIG \<Rightarrow> COMMAND_SECURITY_CONFIG_MUTATION
      | COMMAND_REGISTER_DEVICE \<Rightarrow> COMMAND_SECURITY_PROVISIONING_MUTATION
      | COMMAND_ASSIGN_LOCATION \<Rightarrow> COMMAND_SECURITY_PROVISIONING_MUTATION
      | COMMAND_UNREGISTER_DEVICE \<Rightarrow> COMMAND_SECURITY_DESTRUCTIVE
      | COMMAND_REBOOT \<Rightarrow> COMMAND_SECURITY_DESTRUCTIVE
      | COMMAND_FACTORY_RESET \<Rightarrow> COMMAND_SECURITY_DESTRUCTIVE
      | COMMAND_UNKNOWN \<Rightarrow> COMMAND_SECURITY_INVALID
      | COMMAND_NONE \<Rightarrow> COMMAND_SECURITY_INVALID)"

definition CommandAuthorization_IsAllowed :: "CommandType \<Rightarrow> CommandSourceTrust \<Rightarrow> bool" where
  "CommandAuthorization_IsAllowed t trust =
     (let cls = Command_GetSecurityClass t in
      if cls = COMMAND_SECURITY_INVALID then False
      else case trust of
        COMMAND_SOURCE_TRUSTED_LOCAL \<Rightarrow> True
      | COMMAND_SOURCE_AUTHENTICATED_REMOTE \<Rightarrow>
          cls = COMMAND_SECURITY_READ_ONLY \<or> cls = COMMAND_SECURITY_DIAGNOSTIC_ACTION \<or>
          cls = COMMAND_SECURITY_CONFIG_MUTATION \<or> cls = COMMAND_SECURITY_PROVISIONING_MUTATION
      | COMMAND_SOURCE_UNTRUSTED \<Rightarrow> cls = COMMAND_SECURITY_READ_ONLY)"

section \<open>The queue\<close>

definition Command_Init :: "CommandServices option \<Rightarrow> command \<Rightarrow> bool \<times> command" where
  "Command_Init services c =
     (case services of None \<Rightarrow> (False, c)
      | Some s \<Rightarrow>
        (True, c\<lparr>cm_services := s, cm_busy := False, cm_input_pos := 0, cm_has_pending := False,
                 cm_initialized := True\<rparr>))"

definition Command_UpdateRuntime ::
  "u32 \<Rightarrow> bool \<Rightarrow> DeviceRuntime option \<Rightarrow> DeviceRuntime option \<Rightarrow> DeviceRuntime option \<Rightarrow> ResetCause \<Rightarrow>
   command \<Rightarrow> command" where
  "Command_UpdateRuntime uptime wdg light disp co2 rc c =
     (let s = (cm_services c)\<lparr>sv_uptime_ms := uptime, sv_watchdog_active := wdg\<rparr>;
          s = (case light of Some r \<Rightarrow> s\<lparr>sv_light_sensor := r\<rparr> | None \<Rightarrow> s);
          s = (case disp of Some r \<Rightarrow> s\<lparr>sv_display := r\<rparr> | None \<Rightarrow> s);
          s = (case co2 of Some r \<Rightarrow> s\<lparr>sv_co2_sensor := r\<rparr> | None \<Rightarrow> s)
      in c\<lparr>cm_services := s\<lparr>sv_reset_cause := rc\<rparr>\<rparr>)"

definition Command_SetPort :: "bool \<Rightarrow> command \<Rightarrow> command" where
  "Command_SetPort port c = c\<lparr>cm_port := port\<rparr>"

definition EnqueueCommand :: "bytes option \<Rightarrow> CommandSourceTrust \<Rightarrow> command \<Rightarrow> bool \<times> command" where
  "EnqueueCommand data trust c =
     (case data of None \<Rightarrow> (False, c)
      | Some d \<Rightarrow>
        if \<not> cm_initialized c \<or> length d = 0 then (False, c)
        else if cm_has_pending c then (False, c)
        else if length d > COMMAND_INPUT_BUFFER_SIZE - 1 then (False, c)
        else (True, c\<lparr>cm_input_buf := overwrite (cm_input_buf c) 0 (d @ [0]), cm_input_pos := length d,
                      cm_has_pending := True, cm_pending_trust := trust\<rparr>))"

definition Command_ProcessBuffer :: "bytes option \<Rightarrow> command \<Rightarrow> bool \<times> command" where
  "Command_ProcessBuffer data c = EnqueueCommand data COMMAND_SOURCE_UNTRUSTED c"

definition Command_ProcessInput :: "CommandInput option \<Rightarrow> command \<Rightarrow> bool \<times> command" where
  "Command_ProcessInput input c =
     (case input of None \<Rightarrow> (False, c) | Some i \<Rightarrow> EnqueueCommand (in_data i) (in_trust i) c)"

section \<open>Execution\<close>

definition send_reply :: "command \<Rightarrow> CommandResponse \<Rightarrow> bytes list" where
  "send_reply c rsp = (if cm_port c then [rsp_payload rsp] else [])"

definition failure_reply :: "u32 \<Rightarrow> CommandStatus \<Rightarrow> string \<Rightarrow> CommandResponse" where
  "failure_reply request_id status err =
     CommandResponse_Finalize
       (put (ascii ''\"error\":\"'' @ ascii err @ ascii ''\"'') (CommandResponse_Init request_id status))"

text \<open>The replies sent, the statics and the device.\<close>

definition Command_Run ::
  "'f cmd_env \<Rightarrow> command \<Rightarrow> 'f device \<Rightarrow> (bytes list \<times> command \<times> 'f device) option" where
  "Command_Run env c d =
     (if \<not> cm_initialized c then Some ([], c, d)
      else if \<not> cm_has_pending c then Some ([], c, d)
      else if cm_busy c then Some ([], c, d)
      else case CommandParser_Parse (Some (take (cm_input_pos c) (cm_input_buf c))) of
        None \<Rightarrow>
          Some (send_reply c (failure_reply 0 COMMAND_STATUS_INVALID_ARGUMENT ''parse_failed''),
                c\<lparr>cm_has_pending := False, cm_busy := False\<rparr>, d)
      | Some request \<Rightarrow>
        if \<not> CommandAuthorization_IsAllowed (rq_type request) (cm_pending_trust c)
        then Some (send_reply c (failure_reply (rq_request_id request) COMMAND_STATUS_UNAUTHORIZED ''unauthorized''),
                   c\<lparr>cm_has_pending := False, cm_busy := False\<rparr>, d)
        else case CommandDispatcher_Dispatch env request (cm_services c) d of
          None \<Rightarrow> None
        | Some (response, d') \<Rightarrow>
          Some (send_reply c response,
                c\<lparr>cm_input_buf := overwrite (cm_input_buf c) 0 (replicate (cm_input_pos c) 0),
                  cm_input_pos := 0, cm_has_pending := False, cm_busy := False\<rparr>, d'))"

end
