(* ===== verification/Config_Props.thy ===== *)
theory Config_Props
  imports Config Provisioning_Props
begin

text \<open>
  What survives a reboot of a saved configuration. The calibration is stored as a
  fixed-point number that validation bounds only when it is read back.
\<close>

section \<open>Fixed point\<close>

lemma Q16_SCALE_eq: "Q16_SCALE = F32 False 65536"
  by code_simp

lemma calibration_bounds:
  "f32_round False (1 / 100) = F32 False (5368709 / 536870912)" "f32_of_int 100 = F32 False 100"
  by code_simp+

lemma f32_of_int_small:
  assumes "\<bar>k\<bar> < 2 ^ 24"
  shows "f32_of_int k = F32 (k < 0) (of_int \<bar>k\<bar>)"
  using f32_round_exact[of "\<bar>k\<bar>" 0 "k < 0"] assms by (simp add: f32_of_int_def)

lemma Q16ToFloat_small:
  assumes "\<bar>sint q\<bar> < 2 ^ 24"
  shows "Q16ToFloat q = F32 (sint q < 0) (of_int \<bar>sint q\<bar> / 65536)"
proof -
  have p: "(2 :: rat) powi (-16) = 1 / 65536" by (simp add: power_int_minus field_simps)
  have "f32_round (sint q < 0) (of_int \<bar>sint q\<bar> / 65536) = F32 (sint q < 0) (of_int \<bar>sint q\<bar> / 65536)"
    using f32_round_exact[of "\<bar>sint q\<bar>" "-16" "sint q < 0"] assms unfolding p by simp
  then show ?thesis by (simp add: Q16ToFloat_def Q16_SCALE_eq f32_of_int_small[OF assms])
qed

lemma Q16ToFloat_large:
  assumes "2 ^ 24 \<le> \<bar>sint q\<bar>"
  shows "\<not> f32_isfinite (Q16ToFloat q) \<or> f32_less (Q16ToFloat q) (F32 False (5368709 / 536870912)) \<or>
    f32_less (F32 False 100) (Q16ToFloat q)"
proof -
  let ?neg = "sint q < 0"
  have "(of_int (2 ^ 24) :: rat) \<le> of_int \<bar>sint q\<bar>" using assms by (simp only: of_int_le_iff)
  then have "(2 :: rat) powi 24 \<le> of_int \<bar>sint q\<bar>" by simp
  from f32_round_ge[OF this, of ?neg]
  consider "f32_of_int (sint q) = F32_Inf ?neg"
    | v where "f32_of_int (sint q) = F32 ?neg v" "2 powi 24 \<le> v"
    by (auto simp: f32_of_int_def)
  then show ?thesis
  proof cases
    case 1
    then show ?thesis by (simp add: Q16ToFloat_def Q16_SCALE_eq f32_isfinite_def)
  next
    case 2
    have "(2 :: rat) powi 8 \<le> v / 65536" using 2(2) by simp
    from f32_round_ge[OF this, of ?neg] show ?thesis
      using 2(1) by (cases ?neg) (auto simp: Q16ToFloat_def Q16_SCALE_eq f32_isfinite_def)
  qed
qed

text \<open>The stored calibrations that validation admits.\<close>

lemma calibration_valid_iff:
  "f32_isfinite (Q16ToFloat q) \<and> \<not> f32_less (Q16ToFloat q) (f32_round False (1 / 100)) \<and>
     \<not> f32_less (f32_of_int 100) (Q16ToFloat q) \<longleftrightarrow> 656 \<le> sint q \<and> sint q \<le> 6553600"
proof (cases "\<bar>sint q\<bar> < 2 ^ 24")
  case False
  then show ?thesis using Q16ToFloat_large[of q] by (auto simp: calibration_bounds)
next
  case True
  define k where "k = sint q"
  have "(of_int k / 65536 :: rat) < 5368709 / 536870912 \<longleftrightarrow> (of_int k * 8192 :: rat) < 5368709"
    by (rule iffI; linarith)
  also have "\<dots> \<longleftrightarrow> (of_int (k * 8192) :: rat) < of_int 5368709"
    by (simp only: of_int_mult of_int_numeral)
  also have "\<dots> \<longleftrightarrow> k < 656" by (simp only: of_int_less_iff) linarith
  finally have lo: "(of_int k / 65536 :: rat) < 5368709 / 536870912 \<longleftrightarrow> k < 656" .
  have "(100 :: rat) < of_int k / 65536 \<longleftrightarrow> (6553600 :: rat) < of_int k"
    by (rule iffI; linarith)
  also have "\<dots> \<longleftrightarrow> (of_int 6553600 :: rat) < of_int k" by (simp only: of_int_numeral)
  also have "\<dots> \<longleftrightarrow> 6553600 < k" by (simp only: of_int_less_iff)
  finally have hi: "(100 :: rat) < of_int k / 65536 \<longleftrightarrow> 6553600 < k" .
  show ?thesis
    using lo hi
    by (auto simp: Q16ToFloat_small[OF True] calibration_bounds f32_isfinite_def simp flip: k_def)
qed

definition periods_ok :: "ConfigStorageV1 \<Rightarrow> bool" where
  "periods_ok s \<longleftrightarrow>
     cs_version s = CONFIG_SCHEMA_VERSION \<and>
     50 \<le> cs_light_period_ms s \<and> cs_light_period_ms s \<le> 60000 \<and>
     50 \<le> cs_display_period_ms s \<and> cs_display_period_ms s \<le> 60000 \<and>
     1000 \<le> cs_diagnostics_period_ms s \<and> cs_diagnostics_period_ms s \<le> 3600000 \<and>
     1000 \<le> cs_retry_period_ms s \<and> cs_retry_period_ms s \<le> 600000 \<and>
     1000 \<le> cs_telemetry_period_ms s \<and> cs_telemetry_period_ms s \<le> 3600000"

lemma Config_Validate_iff:
  "Config_Validate (Some s) \<longleftrightarrow>
     periods_ok s \<and> 656 \<le> sint (cs_light_calibration_q16 s) \<and> sint (cs_light_calibration_q16 s) \<le> 6553600"
  by (simp add: Config_Validate_def periods_ok_def Let_def not_le not_less
      flip: calibration_valid_iff)

section \<open>The stored record\<close>

lemma config_bytes_roundtrip:
  "length (config_bytes s) = 28" "config_of_bytes (config_bytes s) = s"
  by (simp_all add: config_bytes_def config_of_bytes_def window_def of_le_le_bytes)

section \<open>Saving and loading\<close>

text \<open>The record a candidate is stored as.\<close>

definition stored_config :: "RoomSensorConfig \<Rightarrow> u32 \<Rightarrow> ConfigStorageV1" where
  "stored_config cand q = (rsc_storage cand)\<lparr>cs_version := CONFIG_SCHEMA_VERSION, cs_light_calibration_q16 := q\<rparr>"

definition config_loaded :: "'f flash_ops \<Rightarrow> storage \<Rightarrow> 'f \<Rightarrow> ConfigStorageV1 \<Rightarrow> config \<Rightarrow> config" where
  "config_loaded ops st f s c =
     c\<lparr>cf_config := \<lparr>rsc_storage = s, rsc_runtime = \<lparr>rc_light_calibration_factor =
         Q16ToFloat (cs_light_calibration_q16 s)\<rparr>\<rparr>,
       cf_storage_status := STORAGE_READ_OK, cf_storage_health := Storage_GetHealth ops st f 1\<rparr>"

definition config_refused :: "'f flash_ops \<Rightarrow> storage \<Rightarrow> 'f \<Rightarrow> config \<Rightarrow> config" where
  "config_refused ops st f c =
     c\<lparr>cf_storage_status := STORAGE_READ_CORRUPT, cf_storage_health := Storage_GetHealth ops st f 1\<rparr>"

lemma SaveCandidate_cases:
  assumes "Config_SaveCandidate ops st f c (Some cand) = Some (ok, g, c')"
  obtains (rejected) "\<not> Config_Validate (Some (rsc_storage cand))" "\<not> ok" "g = f" "c' = c"
    | (written) q ws where "Config_Validate (Some (rsc_storage cand))"
      "FloatToQ16 (rc_light_calibration_factor (rsc_runtime cand)) = Some q"
      "Storage_WriteEx ops st f 1 (Some (config_bytes (stored_config cand q))) 28 = (ws, g)"
      "ok \<longleftrightarrow> ws = STORAGE_WRITE_OK" "cf_config c' = cf_config c" "cf_last_write_status c' = ws"
proof -
  have upd: "cf_config (Config_RefreshHealth ops st x y) = cf_config y"
    "cf_last_write_status (Config_RefreshHealth ops st x y) = cf_last_write_status y"
    "cf_config (Config_RefreshReadState ops st x y) = cf_config y"
    "cf_last_write_status (Config_RefreshReadState ops st x y) = cf_last_write_status y" for x y
    by (simp_all add: Config_RefreshHealth_def Config_RefreshReadState_def Let_def)
  show ?thesis
    using assms that
    by (auto simp: Config_SaveCandidate_def Let_def stored_config_def RECORD_TYPE_CONFIG_def
        CONFIG_STORAGE_V1_SIZE_def upd split: if_splits option.splits prod.splits)
qed

context flash_device
begin

lemma Load_of_record:
  assumes "storage_ready info st" "valid f" "record_of ops st f 1 = Some (config_bytes s)"
  shows "Config_Load ops st f c =
    (if Config_Validate (Some s) then (True, config_loaded ops st f s c)
     else (False, config_refused ops st f c))"
proof -
  obtain p where "Storage_Read ops st f 1 (Some zero_payload) = (STORAGE_READ_OK, Some p)"
    "pl_size p = 28" "take 28 (pl_data p) = config_bytes s"
    using record_payload[OF assms(1) record_type_ok_simps(1) assms(2,3)] unfolding config_bytes_roundtrip(1) .
  moreover have "s_initialized st" using assms(1) by (simp add: storage_ready_def)
  ultimately show ?thesis
    by (simp add: Config_Load_def RECORD_TYPE_CONFIG_def CONFIG_STORAGE_V1_SIZE_def Let_def
        config_bytes_roundtrip(2) Config_RefreshHealth_def Storage_IsInitialized_def
        config_loaded_def config_refused_def)
qed

end

context working_flash
begin

lemma SaveCandidate_ok:
  assumes "storage_ready info st" "working f" "Config_SaveCandidate ops st f c (Some cand) = Some (True, g, c')"
  obtains q where "FloatToQ16 (rc_light_calibration_factor (rsc_runtime cand)) = Some q"
    "periods_ok (rsc_storage cand)" "working g" "record_of ops st g 1 = Some (config_bytes (stored_config cand q))"
  using assms(3)
proof (cases rule: SaveCandidate_cases)
  case (written q ws)
  then have "Storage_WriteEx ops st f 1 (Some (config_bytes (stored_config cand q)))
      (length (config_bytes (stored_config cand q))) = (STORAGE_WRITE_OK, g)"
    by (simp add: config_bytes_roundtrip(1))
  from WriteEx_updates_record[OF assms(1,2) record_type_ok_simps(1,1) this]
  show ?thesis using that written(1,2) by (simp add: Config_Validate_iff)
qed simp

lemma Save_then_load:
  assumes "storage_ready info st" "working f" "Config_SaveCandidate ops st f c (Some cand) = Some (True, g, c')"
  shows "\<exists>q. FloatToQ16 (rc_light_calibration_factor (rsc_runtime cand)) = Some q \<and>
    Config_Load ops st g b =
      (if 656 \<le> sint q \<and> sint q \<le> 6553600
       then (True, config_loaded ops st g (stored_config cand q) b)
       else (False, config_refused ops st g b))"
proof -
  obtain q where q: "FloatToQ16 (rc_light_calibration_factor (rsc_runtime cand)) = Some q"
    "periods_ok (rsc_storage cand)" "working g" "record_of ops st g 1 = Some (config_bytes (stored_config cand q))"
    using SaveCandidate_ok[OF assms] .
  have "Config_Validate (Some (stored_config cand q)) \<longleftrightarrow> 656 \<le> sint q \<and> sint q \<le> 6553600"
    using q(2) by (simp add: Config_Validate_iff stored_config_def periods_ok_def)
  then show ?thesis
    using q(1) Load_of_record[OF assms(1) working_valid[OF q(3)] q(4), of b] by simp
qed

end

text \<open>
  Claim C21. Save then reboot, on a working device: whatever calibration
  \<open>Config_SaveCandidate\<close> accepted, the next \<open>Config_Load\<close> restores the saved settings, with
  the calibration cut to a multiple of 1/65536, if the stored fixed-point value lies between
  656 and 6553600, and otherwise refuses the record as corrupt and loses every saved setting.
  Saving checks the previous fixed-point value instead of the new calibration.
\<close>

theorem config_save_reboot:
  assumes "working_flash ops info contents valid working" "storage_ready info st" "working f"
    and "Config_SaveCandidate ops st f c (Some cand) = Some (True, g, c')"
  shows "\<exists>q. FloatToQ16 (rc_light_calibration_factor (rsc_runtime cand)) = Some q \<and>
    Config_Load ops st g b =
      (if 656 \<le> sint q \<and> sint q \<le> 6553600
       then (True, config_loaded ops st g (stored_config cand q) b)
       else (False, config_refused ops st g b))"
  using working_flash.Save_then_load[OF assms] .

text \<open>The first save on the erased host device.\<close>

lemma host_first_config:
  assumes "Config_Validate (Some (rsc_storage cand))"
    and "FloatToQ16 (rc_light_calibration_factor (rsc_runtime cand)) = Some q"
  obtains g c' where "Config_SaveCandidate host_ops host_storage HostFlash_Init c (Some cand) = Some (True, g, c')"
    "host_working g"
proof -
  let ?d = "config_bytes (stored_config cand q)"
  have "length ?d \<le> 256" by (simp add: config_bytes_roundtrip(1))
  from host.WriteEx_working[OF host_storage_ready record_type_ok_simps(1) host_working_init
      host_erased_select[OF record_type_ok_simps(1)] this]
  obtain g where g: "Storage_WriteEx host_ops host_storage HostFlash_Init 1 (Some ?d) 28 = (STORAGE_WRITE_OK, g)"
    "host_working g" unfolding config_bytes_roundtrip(1) .
  then have "\<exists>c'. Config_SaveCandidate host_ops host_storage HostFlash_Init c (Some cand) = Some (True, g, c')"
    using assms by (simp add: Config_SaveCandidate_def stored_config_def RECORD_TYPE_CONFIG_def
        CONFIG_STORAGE_V1_SIZE_def)
  then show ?thesis using that g(2) by blast
qed

definition calibrated_config :: "rat \<Rightarrow> RoomSensorConfig" where
  "calibrated_config r = default_config\<lparr>rsc_runtime := \<lparr>rc_light_calibration_factor = f32_round False r\<rparr>\<rparr>"

lemma default_config_valid: "Config_Validate (Some (rsc_storage default_config))"
  by code_simp

text \<open>The defaults come back; the smallest admissible calibration, 0.01, does not.\<close>

lemma config_save_reboot_witness:
  "(\<exists>g c'. Config_SaveCandidate host_ops host_storage HostFlash_Init config_start (Some (calibrated_config 1)) =
      Some (True, g, c') \<and> fst (Config_Load host_ops host_storage g config_start)) \<and>
   (\<exists>g c'. Config_SaveCandidate host_ops host_storage HostFlash_Init config_start
        (Some (calibrated_config (1 / 100))) = Some (True, g, c') \<and>
      Config_Load host_ops host_storage g config_start = (False, config_refused host_ops host_storage g config_start))"
proof -
  have v: "Config_Validate (Some (rsc_storage (calibrated_config r)))" for r
    using default_config_valid by (simp add: calibrated_config_def)
  have q: "FloatToQ16 (rc_light_calibration_factor (rsc_runtime (calibrated_config 1))) = Some 65536"
    "FloatToQ16 (rc_light_calibration_factor (rsc_runtime (calibrated_config (1 / 100)))) = Some 655"
    by code_simp+
  note reboot = config_save_reboot[OF host.working_flash_axioms host_storage_ready host_working_init,
      where b = config_start]
  obtain g c' where a: "Config_SaveCandidate host_ops host_storage HostFlash_Init config_start
      (Some (calibrated_config 1)) = Some (True, g, c')"
    by (rule host_first_config[OF v q(1), of config_start])
  obtain h d' where b: "Config_SaveCandidate host_ops host_storage HostFlash_Init config_start
      (Some (calibrated_config (1 / 100))) = Some (True, h, d')"
    by (rule host_first_config[OF v q(2), of config_start])
  show ?thesis using a b reboot[OF a] reboot[OF b] by (auto simp: q)
qed

end
