(* ===== verification/Command_Props.thy ===== *)
theory Command_Props
  imports Command Config_Props
begin

text \<open>
  The authority of a message: what the state of the device can become when it runs, by the
  trust of its source. \<open>frame\<close> facts say what a handler leaves alone.
\<close>

section \<open>What the handlers leave alone\<close>

text \<open>The state that only an authorized mutation may touch.\<close>

definition protected_state :: "'f device \<Rightarrow> 'f \<times> provisioning \<times> config \<times> DeviceIdentity" where
  "protected_state d = (dv_flash d, dv_provisioning d, dv_config d, dv_identity d)"

lemma read_only_frame:
  assumes "CommandDispatcher_Dispatch env req svc d = Some (rsp, d')"
    and "Command_GetSecurityClass (rq_type req) = COMMAND_SECURITY_READ_ONLY"
  shows "protected_state d' = protected_state d" "dv_self_test d' = dv_self_test d"
  using assms
  by (auto simp: CommandDispatcher_Dispatch_def Command_GetSecurityClass_def protected_state_def
      HandleGetManifest_def Let_def split: CommandType.splits prod.splits if_splits)

text \<open>The device is registered for the installation \<open>i\<close>.\<close>

definition owned_by :: "EntityId \<Rightarrow> provisioning \<Rightarrow> bool" where
  "owned_by i pv \<longleftrightarrow>
     reg_registered (s_current pv) \<and> reg_installation_valid (s_current pv) \<and>
     reg_installation_id (s_current pv) = i"

lemma Save_owned:
  assumes "owned_by i pv" "reg_registered reg" "reg_installation_valid reg" "reg_installation_id reg = i"
  shows "owned_by i (snd (snd (Provisioning_Save ops st f pv (Some reg))))"
  using assms by (auto simp: Provisioning_Save_def Registration_Save_def owned_by_def Let_def
      split: prod.splits)

lemma Register_owned:
  assumes "owned_by i (dv_provisioning d)"
  shows "snd (HandleRegisterDevice env req d) = d"
  using assms by (auto simp: HandleRegisterDevice_def owned_by_def Provisioning_GetRuntime_def Let_def)

lemma Assign_owned:
  assumes "owned_by i (dv_provisioning d)"
  shows "owned_by i (dv_provisioning (snd (HandleAssignLocation env req d)))"
proof -
  let ?cur = "s_current (dv_provisioning d)"
  let ?up = "?cur\<lparr>reg_building_id := building_id (rq_args req), reg_room_id := room_id (rq_args req),
    reg_building_valid := True, reg_room_valid := True\<rparr>"
  have "owned_by i (snd (snd (Provisioning_Save (ce_ops env) (ce_storage env) (dv_flash d)
      (dv_provisioning d) (Some ?up))))"
    using assms by (intro Save_owned) (simp_all add: owned_by_def)
  then show ?thesis
    using assms by (simp add: HandleAssignLocation_def Provisioning_GetRuntime_def Let_def case_prod_beta)
qed

lemma owner_frame:
  assumes "CommandDispatcher_Dispatch env req svc d = Some (rsp, d')"
    and "Command_GetSecurityClass (rq_type req) \<noteq> COMMAND_SECURITY_DESTRUCTIVE"
    and "owned_by i (dv_provisioning d)"
  shows "owned_by i (dv_provisioning d')"
  using assms Register_owned[OF assms(3), of env req] Assign_owned[OF assms(3), of env req]
  by (auto simp: CommandDispatcher_Dispatch_def Command_GetSecurityClass_def HandleGetManifest_def
      HandleSelfTest_def HandleSetConfig_def HandleResetConfig_def Let_def
      split: CommandType.splits prod.splits if_splits option.splits)

section \<open>One message\<close>

lemma ProcessInput_run:
  assumes "Command_ProcessInput (Some \<lparr>in_data = Some msg, in_trust = t\<rparr>) c = (True, c1)"
    and "length (cm_input_buf c) = COMMAND_INPUT_BUFFER_SIZE"
  shows "cm_initialized c1" "cm_has_pending c1" "cm_pending_trust c1 = t" "cm_port c1 = cm_port c"
    "cm_busy c1 = cm_busy c" "take (cm_input_pos c1) (cm_input_buf c1) = msg"
proof -
  have c: "cm_initialized c" "length msg + 1 \<le> COMMAND_INPUT_BUFFER_SIZE" and
    c1: "c1 = c\<lparr>cm_input_buf := overwrite (cm_input_buf c) 0 (msg @ [0]), cm_input_pos := length msg,
      cm_has_pending := True, cm_pending_trust := t\<rparr>"
    using assms(1)
    by (auto simp: Command_ProcessInput_def EnqueueCommand_def COMMAND_INPUT_BUFFER_SIZE_def split: if_splits)
  then show "cm_initialized c1" "cm_has_pending c1" "cm_pending_trust c1 = t" "cm_port c1 = cm_port c"
    "cm_busy c1 = cm_busy c" "take (cm_input_pos c1) (cm_input_buf c1) = msg"
    by (simp_all add: overwrite_def)
qed

lemma Run_cases:
  assumes "Command_Run env c d = Some (out, c', d')" "cm_initialized c" "cm_has_pending c" "\<not> cm_busy c"
  obtains (rejected) "d' = d" "length out = (if cm_port c then 1 else 0)" "\<not> cm_has_pending c'"
    | (executed) request rsp where
      "CommandParser_Parse (Some (take (cm_input_pos c) (cm_input_buf c))) = Some request"
      "CommandAuthorization_IsAllowed (rq_type request) (cm_pending_trust c)"
      "CommandDispatcher_Dispatch env request (cm_services c) d = Some (rsp, d')"
      "out = send_reply c rsp" "\<not> cm_has_pending c'"
  using assms by (auto simp: Command_Run_def send_reply_def split: option.splits if_splits)

lemma allowed_class:
  assumes "CommandAuthorization_IsAllowed ty t"
  shows "t = COMMAND_SOURCE_UNTRUSTED \<Longrightarrow> Command_GetSecurityClass ty = COMMAND_SECURITY_READ_ONLY"
    "t \<noteq> COMMAND_SOURCE_TRUSTED_LOCAL \<Longrightarrow> Command_GetSecurityClass ty \<noteq> COMMAND_SECURITY_DESTRUCTIVE"
  using assms
  by (auto simp: CommandAuthorization_IsAllowed_def Let_def split: CommandSourceTrust.splits if_splits)

text \<open>
  Claim C22. A message is executed once and, with a port, answered once, and it has only the
  authority of its source: from an untrusted source no message changes the flash, the
  registration, the settings, the identity or the last self-test report; and unless the source
  is the trusted local one, a device registered for an installation stays registered for it.
\<close>

theorem command_trust_confined:
  assumes "Command_ProcessInput (Some \<lparr>in_data = Some msg, in_trust = t\<rparr>) c = (True, c1)"
    and "length (cm_input_buf c) = COMMAND_INPUT_BUFFER_SIZE" "\<not> cm_busy c"
    and "Command_Run env c1 d = Some (out, c2, d')"
  shows "(t = COMMAND_SOURCE_UNTRUSTED \<longrightarrow>
      protected_state d' = protected_state d \<and> dv_self_test d' = dv_self_test d) \<and>
    (t \<noteq> COMMAND_SOURCE_TRUSTED_LOCAL \<and> owned_by i (dv_provisioning d) \<longrightarrow> owned_by i (dv_provisioning d')) \<and>
    length out = (if cm_port c then 1 else 0) \<and> \<not> cm_has_pending c2"
proof -
  note q = ProcessInput_run[OF assms(1,2)]
  have "\<not> cm_busy c1" using assms(3) q(5) by simp
  from assms(4) q(1,2) this show ?thesis
  proof (cases rule: Run_cases)
    case (executed request rsp)
    note allowed = allowed_class[OF executed(2), unfolded q(3)]
    show ?thesis
      using executed(4,5) q(4) allowed read_only_frame[OF executed(3)] owner_frame[OF executed(3)]
      by (auto simp: send_reply_def)
  qed (simp_all add: q(4))
qed

definition sample_env :: "host_flash cmd_env" where
  "sample_env =
     \<lparr>ce_ops = host_ops, ce_storage = host_storage, ce_bus = None, ce_uid = None,
      ce_reset_cause = RESET_CAUSE_POWER_ON, ce_hardware = Platform_GetHardwareInfo,
      ce_git_sha = None, ce_build_type = None\<rparr>"

definition sample_device :: "DeviceRegistration \<Rightarrow> host_flash device" where
  "sample_device r =
     \<lparr>dv_flash = HostFlash_Init, dv_provisioning = fresh_pv\<lparr>s_current := r\<rparr>,
      dv_config = Config_LoadDefaults config_start, dv_identity = zero_identity, dv_self_test = None,
      dv_boot = \<lparr>bs_boot_id = 0, bs_initialized = False\<rparr>, dv_room = RoomState_Init,
      dv_runtime_status = None\<rparr>"

definition started :: command where
  "started = (snd (Command_Init (Some zero_services) command_start))\<lparr>cm_port := True\<rparr>"

text \<open>A factory reset from an untrusted source on a registered device is answered and does nothing.\<close>

lemma command_trust_confined_witness:
  "\<exists>out c2 d'. Command_Run sample_env (snd (Command_ProcessInput (Some \<lparr>in_data =
       Some (ascii ''{\"id\":1,\"command\":\"FACTORY_RESET\"}''), in_trust = COMMAND_SOURCE_UNTRUSTED\<rparr>) started))
     (sample_device sample_reg) = Some (out, c2, d') \<and> length out = 1 \<and>
     protected_state d' = protected_state (sample_device sample_reg) \<and>
     owned_by (replicate 16 0x11) (dv_provisioning d')"
proof -
  let ?msg = "ascii ''{\"id\":1,\"command\":\"FACTORY_RESET\"}''" and ?d = "sample_device sample_reg"
  let ?in = "Some \<lparr>in_data = Some ?msg, in_trust = COMMAND_SOURCE_UNTRUSTED\<rparr>"
  have buf: "length (cm_input_buf started) = COMMAND_INPUT_BUFFER_SIZE" "\<not> cm_busy started"
    "cm_port started"
    by (simp_all add: started_def Command_Init_def command_start_def)
  obtain c1 where c1: "Command_ProcessInput ?in started = (True, c1)"
    by (simp add: Command_ProcessInput_def EnqueueCommand_def started_def Command_Init_def
        command_start_def COMMAND_INPUT_BUFFER_SIZE_def ascii_def)
  note q = ProcessInput_run[OF c1 buf(1)]
  obtain request where "CommandParser_Parse (Some ?msg) = Some request"
    "rq_type request = COMMAND_FACTORY_RESET"
  proof -
    have "map_option rq_type (CommandParser_Parse (Some ?msg)) = Some COMMAND_FACTORY_RESET" by code_simp
    then show ?thesis using that by auto
  qed
  then obtain out c2 d' where run: "Command_Run sample_env c1 ?d = Some (out, c2, d')"
    using q buf by (simp add: Command_Run_def CommandAuthorization_IsAllowed_def Command_GetSecurityClass_def)
  have own: "owned_by (replicate 16 0x11) (dv_provisioning ?d)"
    by (simp add: owned_by_def sample_device_def sample_reg_def)
  show ?thesis
    using command_trust_confined[OF c1 buf(1,2) run] own buf(3) run c1 by auto
qed

end
