(* ===== verification/Command_Reply_Props.thy ===== *)
theory Command_Reply_Props
  imports Command_Dispatcher
begin

text \<open>
  The text of a reply. An append that fits adds its text and nothing else, so a handler's
  reply is the concatenation of the texts of its appends when their bounds fit the 1024
  bytes. With that the reply of GET_STATUS is written out up to its first defect.
\<close>

section \<open>Appends as text\<close>

definition prints :: "(CommandResponse \<Rightarrow> CommandResponse) \<Rightarrow> bytes \<Rightarrow> bool" where
  "prints p txt \<longleftrightarrow>
     (\<forall>rsp. \<not> rsp_overflowed rsp \<and> length (rsp_payload rsp) + length txt < 1024 \<longrightarrow>
        p rsp = rsp\<lparr>rsp_payload := rsp_payload rsp @ txt\<rparr>)"

definition prints_upto :: "nat \<Rightarrow> (CommandResponse \<Rightarrow> CommandResponse) \<Rightarrow> bool" where
  "prints_upto n p \<longleftrightarrow> (\<exists>txt. length txt \<le> n \<and> prints p txt)"

lemma prints_put: "prints (put txt) txt"
  by (auto simp: prints_def put_def CommandResponse_Append_def AppendChecked_def
      COMMAND_RESPONSE_MAX_SIZE_def Let_def)

definition int_text :: "string \<Rightarrow> u32 \<Rightarrow> bytes" where
  "int_text key val = [0x22] @ ascii key @ [0x22, 0x3A] @ lu val @ [0x2C]"

lemma prints_int: "prints (put_int key val) (int_text key val)"
  using prints_put[of "int_text key val"]
  by (simp add: prints_def put_def put_int_def CommandResponse_AppendJsonInt_def int_text_def)

lemma prints_bool: "prints_upto (length key + 9) (put_bool key val)"
proof -
  let ?txt = "[0x22] @ ascii key @ [0x22, 0x3A] @ (if val then ascii ''true'' else ascii ''false'') @ [0x2C]"
  have "prints (put_bool key val) ?txt"
    using prints_put[of ?txt] by (simp add: prints_def put_def put_bool_def CommandResponse_AppendJsonBool_def)
  moreover have "length ?txt \<le> length key + 9" by (simp add: ascii_def)
  ultimately show ?thesis unfolding prints_upto_def by blast
qed

lemma escape_fits:
  "\<not> rsp_overflowed rsp \<Longrightarrow> length (rsp_payload rsp) + length (concat (map escape_text cs)) < 1024 \<Longrightarrow>
     EscapeStr rsp cs = rsp\<lparr>rsp_payload := rsp_payload rsp @ concat (map escape_text cs)\<rparr>"
  by (induction cs arbitrary: rsp) (simp_all add: Let_def COMMAND_RESPONSE_MAX_SIZE_def)

text \<open>Keys and values of the handlers need no escapes.\<close>

definition plain :: "bytes \<Rightarrow> bool" where "plain txt \<longleftrightarrow> concat (map escape_text txt) = txt"

lemma prints_json:
  assumes "plain (ascii key)" "plain val"
  shows "prints_upto (length key + length val + 6) (put_json key val)"
proof -
  let ?txt = "[0x22] @ ascii key @ [0x22, 0x3A, 0x22] @ val @ [0x22, 0x2C]"
  have "prints (put_json key val) ?txt"
    using assms
    by (auto simp: prints_def put_json_def CommandResponse_AppendJson_def and_then_def AppendChar_def
        escaped_def escape_fits plain_def COMMAND_RESPONSE_MAX_SIZE_def Let_def)
  moreover have "length ?txt \<le> length key + length val + 6" by (simp add: ascii_def)
  ultimately show ?thesis unfolding prints_upto_def by blast
qed

lemma length_dec_digits: "n < 10 ^ Suc k \<Longrightarrow> length (dec_digits n) \<le> Suc k"
proof (induction k arbitrary: n)
  case (Suc k)
  have "n div 10 < 10 ^ Suc k" using Suc(2) by (simp add: div_less_iff_less_mult)
  from Suc(1)[OF this] show ?case by (subst dec_digits.simps) simp
qed (simp add: dec_digits.simps)

lemma length_lu: "length (lu w) \<le> 10"
  using length_dec_digits[of "unat w" 9] unat_u32_less[of w] by (simp add: lu_def)

lemma prints_upto_int: "prints_upto (length key + 14) (put_int key val)"
  using prints_int[of key val] length_lu[of val]
  by (auto simp: prints_upto_def int_text_def ascii_def intro!: exI[of _ "int_text key val"])

lemma prints_upto_put: "prints_upto (length txt) (put txt)"
  using prints_put unfolding prints_upto_def by blast

text \<open>A finite single-precision value has at most 39 digits before the point.\<close>

definition f32_in_range :: "f32 \<Rightarrow> bool" where
  "f32_in_range v \<longleftrightarrow> (f32_isfinite v \<longrightarrow> 0 \<le> f32_mag v \<and> f32_mag v < 2 ^ 128)"

lemma length_frac_digits: "length (frac_digits d k) = d"
  by (induction d arbitrary: k) simp_all

lemma length_fixed_text:
  assumes "0 \<le> f32_mag v" "f32_mag v < 2 ^ 128"
  shows "length (fixed_text d v) \<le> d + 41"
proof -
  let ?q = "f32_mag v * 10 ^ d" and ?B = "2 ^ 128 * 10 ^ d :: int"
  have "?q < of_int ?B" using assms(2) by simp
  then have "\<lfloor>?q\<rfloor> < ?B" by (simp only: floor_less_iff)
  then have "round_half_even ?q \<le> ?B" by (simp add: round_half_even_def Let_def)
  then have "nat (round_half_even ?q) \<le> 2 ^ 128 * 10 ^ d" by (simp add: nat_le_iff)
  then have "nat (round_half_even ?q) div 10 ^ d \<le> 2 ^ 128 * 10 ^ d div 10 ^ d" by (rule div_le_mono)
  then have "nat (round_half_even ?q) div 10 ^ d < 10 ^ Suc 38" by simp
  from length_dec_digits[OF this] show ?thesis
    by (auto simp: fixed_text_def Let_def ascii_def length_frac_digits)
qed

lemma prints_float:
  assumes "f32_in_range val"
  shows "prints_upto (length key + decimals + 45) (put_float key val decimals)"
proof -
  let ?txt = "[0x22] @ ascii key @ [0x22, 0x3A] @
    (if f32_isfinite val then fixed_text decimals val else ascii ''null'') @ [0x2C]"
  have "prints (put_float key val decimals) ?txt"
    using prints_put[of ?txt]
    by (auto simp: prints_def put_def put_float_def CommandResponse_AppendJsonFloat_def ascii_def)
  moreover have "length ?txt \<le> length key + decimals + 45"
    using length_fixed_text[of val decimals] assms by (auto simp: f32_in_range_def ascii_def)
  ultimately show ?thesis unfolding prints_upto_def by blast
qed

lemmas prints_upto_rules = prints_upto_int prints_bool prints_upto_put prints_json prints_float

section \<open>Sequences of appends\<close>

lemma fold_prints_upto:
  assumes "list_all2 prints_upto ns ps" "\<not> rsp_overflowed rsp"
    and "length (rsp_payload rsp) + sum_list ns < 1024"
  shows "\<exists>txt. length txt \<le> sum_list ns \<and>
    fold (\<lambda>p. p) ps rsp = rsp\<lparr>rsp_payload := rsp_payload rsp @ txt\<rparr>"
  using assms
proof (induction ns ps arbitrary: rsp rule: list_all2_induct)
  case (Cons n ns p ps)
  obtain t where t: "length t \<le> n" "prints p t" using Cons(1) by (auto simp: prints_upto_def)
  let ?r = "rsp\<lparr>rsp_payload := rsp_payload rsp @ t\<rparr>"
  have "p rsp = ?r" using t Cons(4,5) by (auto simp: prints_def)
  moreover obtain tx where "length tx \<le> sum_list ns"
    "fold (\<lambda>p. p) ps ?r = ?r\<lparr>rsp_payload := rsp_payload ?r @ tx\<rparr>"
    using Cons(3)[of ?r] Cons(4,5) t(1) by auto
  ultimately show ?case using t(1) by (intro exI[of _ "t @ tx"]) simp
qed (auto intro: exI[of _ "[]"])

lemma fold_prints:
  assumes "list_all2 prints ps txts" "\<not> rsp_overflowed rsp"
    and "length (rsp_payload rsp) + length (concat txts) < 1024"
  shows "fold (\<lambda>p. p) ps rsp = rsp\<lparr>rsp_payload := rsp_payload rsp @ concat txts\<rparr>"
  using assms
proof (induction ps txts arbitrary: rsp rule: list_all2_induct)
  case (Cons p ps t ts)
  have "p rsp = rsp\<lparr>rsp_payload := rsp_payload rsp @ t\<rparr>" using Cons(1,4,5) by (simp add: prints_def)
  then show ?case using Cons(3)[of "rsp\<lparr>rsp_payload := rsp_payload rsp @ t\<rparr>"] Cons(4,5) by simp
qed simp

definition strip_comma :: "bytes \<Rightarrow> bytes" where
  "strip_comma p = (if length p > 0 \<and> last p = 0x2C then butlast p else p)"

lemma length_strip_comma: "length (strip_comma p) \<le> length p"
  by (simp add: strip_comma_def)

lemma strip_comma_prefix: "\<exists>post. strip_comma (p @ c # q) = p @ post"
  by (cases q rule: rev_cases) (auto simp: strip_comma_def butlast_append)

lemma Finalize_fits:
  assumes "\<not> rsp_overflowed r" "length (wrapper_text r) + length (strip_comma (rsp_payload r)) + 2 < 1024"
  shows "rsp_payload (CommandResponse_Finalize r) = wrapper_text r @ strip_comma (rsp_payload r) @ [0x7D, 0x0A]"
  using assms by (simp add: CommandResponse_Finalize_def strip_comma_def COMMAND_RESPONSE_MAX_SIZE_def Let_def)

text \<open>A reply whose appends have known texts first and bounded texts after them.\<close>

lemma reply_text:
  assumes "list_all2 prints ps txts" "list_all2 prints_upto ns qs"
    and "length (concat txts) + sum_list ns \<le> 950"
  obtains tx where "length tx \<le> sum_list ns"
    "rsp_payload (reply req COMMAND_STATUS_OK (ps @ qs)) =
       ascii ''{\"id\":'' @ lu (rq_request_id req) @ ascii '',\"status\":\"ok\",\"schema\":1,'' @
       strip_comma (concat txts @ tx) @ [0x7D, 0x0A]"
proof -
  let ?r = "CommandResponse_Init (rq_request_id req) COMMAND_STATUS_OK"
  let ?r1 = "?r\<lparr>rsp_payload := concat txts\<rparr>"
  have "fold (\<lambda>p. p) ps ?r = ?r1"
    using fold_prints[OF assms(1), of ?r] assms(3) by (simp add: CommandResponse_Init_def)
  moreover obtain tx where tx: "length tx \<le> sum_list ns"
    "fold (\<lambda>p. p) qs ?r1 = ?r1\<lparr>rsp_payload := concat txts @ tx\<rparr>"
    using fold_prints_upto[OF assms(2), of ?r1] assms(3) by (auto simp: CommandResponse_Init_def)
  ultimately have f: "fold (\<lambda>p. p) (ps @ qs) ?r = ?r\<lparr>rsp_payload := concat txts @ tx\<rparr>" by simp
  have p: "length (strip_comma (concat txts @ tx)) \<le> 950"
    using length_strip_comma[of "concat txts @ tx"] tx(1) assms(3) by simp
  have one: "lu COMMAND_SCHEMA_VERSION = ascii ''1''"
    by (simp add: lu_def COMMAND_SCHEMA_VERSION_def dec_digits.simps ascii_def)
  have w: "wrapper_text ?r = ascii ''{\"id\":'' @ lu (rq_request_id req) @ ascii '',\"status\":\"ok\",\"schema\":1,''"
    by (simp add: wrapper_text_def CommandResponse_Init_def status_str_def one) (simp add: ascii_def)
  then have "length (wrapper_text ?r) \<le> 50" using length_lu[of "rq_request_id req"] by (simp add: ascii_def)
  moreover define r where "r = ?r\<lparr>rsp_payload := concat txts @ tx\<rparr>"
  moreover have "wrapper_text r = wrapper_text ?r" "\<not> rsp_overflowed r" "rsp_payload r = concat txts @ tx"
    by (simp_all add: wrapper_text_def r_def CommandResponse_Init_def)
  ultimately have "rsp_payload (CommandResponse_Finalize r) =
      wrapper_text ?r @ strip_comma (concat txts @ tx) @ [0x7D, 0x0A]"
    using p Finalize_fits[of r] by simp
  then show ?thesis using that[OF tx(1)] unfolding reply_def f r_def by (simp add: w)
qed

section \<open>GET_STATUS\<close>

lemma plain_texts:
  "plain (validity_text v)" "plain (ascii ''illuminance'')" "plain (ascii ''co2'')"
proof -
  have "plain (validity_text True)" "plain (validity_text False)" by code_simp+
  then show "plain (validity_text v)" by (cases v) simp_all
  show "plain (ascii ''illuminance'')" "plain (ascii ''co2'')" by code_simp+
qed

lemma prints_validity:
  assumes "plain (ascii key)"
  shows "prints_upto (length key + 13) (put_json key (validity_text v))"
proof -
  have "length (validity_text v) \<le> 7" by (simp add: validity_text_def ascii_def)
  then have "length key + length (validity_text v) + 6 \<le> length key + 13" by simp
  then show ?thesis
    using prints_json[OF assms plain_texts(1)[of v]] unfolding prints_upto_def by (meson order_trans)
qed

lemma status_bounded: "\<exists>ns. list_all2 prints_upto ns (status_puts st) \<and> sum_list ns \<le> 400"
  unfolding status_puts_def
  by (rule exI, rule conjI, (rule list.rel_intros prints_upto_int prints_bool)+) simp

text \<open>
  Claim C23. The reply to GET_STATUS is not JSON: whatever the state of the device, it is never
  too large, and the object of the light sensor ends with a comma before its closing brace, as
  the other nested objects do.
\<close>

theorem get_status_trailing_comma:
  assumes "f32_in_range (rs_illuminance_lux (dv_room d))" "f32_in_range (rs_co2_ppm (dv_room d))"
  shows "\<exists>post. rsp_payload (HandleGetStatus req svc d) =
    ascii ''{\"id\":'' @ lu (rq_request_id req) @ ascii '',\"status\":\"ok\",\"schema\":1,\"uptime_ms\":'' @
    lu (sv_uptime_ms svc) @ ascii '',\"reset\":'' @ lu (of_nat (reset_cause_index (sv_reset_cause svc))) @
    ascii '',\"light\":{\"state\":'' @ lu (device_state_num (dr_state (sv_light_sensor svc))) @
    ascii '',\"ops\":'' @ lu (dr_operation_successes (sv_light_sensor svc)) @
    ascii '',\"err\":'' @ lu (dr_operation_failures (sv_light_sensor svc)) @ ascii '',}'' @ post"
proof -
  let ?l = "sv_light_sensor svc" and ?reset = "of_nat (reset_cause_index (sv_reset_cause svc))"
  let ?ps = "[put_int ''uptime_ms'' (sv_uptime_ms svc), put_int ''reset'' ?reset, put (ascii ''\"light\":{''),
    put_int ''state'' (device_state_num (dr_state ?l)), put_int ''ops'' (dr_operation_successes ?l),
    put_int ''err'' (dr_operation_failures ?l), put (ascii ''},'')]"
  let ?ts = "[int_text ''uptime_ms'' (sv_uptime_ms svc), int_text ''reset'' ?reset, ascii ''\"light\":{'',
    int_text ''state'' (device_state_num (dr_state ?l)), int_text ''ops'' (dr_operation_successes ?l),
    int_text ''err'' (dr_operation_failures ?l), ascii ''},'']"
  let ?disp = "sv_display svc" and ?co2 = "sv_co2_sensor svc" and ?room = "dv_room d"
  let ?qs = "[put (ascii ''\"display\":{''),
     put_int ''state'' (device_state_num (dr_state ?disp)),
     put (ascii ''},''),
     put (ascii ''\"co2_sensor\":{''),
     put_int ''state'' (device_state_num (dr_state ?co2)),
     put_int ''ops'' (dr_operation_successes ?co2),
     put_int ''err'' (dr_operation_failures ?co2),
     put_int ''consec'' (dr_consecutive_errors ?co2),
     put_int ''rec'' (dr_recovery_count ?co2),
     put (ascii ''},''),
     put (ascii ''\"room\":{''),
     put_float ''illuminance_lux'' (rs_illuminance_lux ?room) 1,
     put_json ''illuminance'' (validity_text (rs_illuminance_valid ?room)),
     put_float ''co2_ppm'' (rs_co2_ppm ?room) 0,
     put_json ''co2'' (validity_text (rs_co2_valid ?room)),
     put (ascii ''},''),
     put_bool ''watchdog'' (sv_watchdog_active svc),
     put_bool ''storage_ok'' (case dv_runtime_status d of None \<Rightarrow> False
       | Some st \<Rightarrow> crs_storage_initialized st)]"
  let ?st = "case dv_runtime_status d of None \<Rightarrow> [] | Some st \<Rightarrow> status_puts st"
  have H: "HandleGetStatus req svc d = reply req COMMAND_STATUS_OK (?ps @ ?qs @ ?st)"
    by (simp add: HandleGetStatus_def Let_def)
  have "\<exists>ns. list_all2 prints_upto ns ?qs \<and> sum_list ns \<le> 340"
    by (rule exI, rule conjI, (rule list.rel_intros prints_upto_int prints_bool prints_upto_put
        prints_float prints_validity plain_texts assms)+) (simp add: ascii_def)
  moreover have "\<exists>ns. list_all2 prints_upto ns ?st \<and> sum_list ns \<le> 400"
    using status_bounded by (cases "dv_runtime_status d") auto
  ultimately obtain ms ns where b: "list_all2 prints_upto (ms @ ns) (?qs @ ?st)" "sum_list (ms @ ns) \<le> 740"
    by (auto intro!: that list_all2_appendI)
  have t: "list_all2 prints ?ps ?ts" by (simp add: prints_int prints_put)
  have "length (concat ?ts) + sum_list (ms @ ns) \<le> 950"
    using b(2) length_lu[of "sv_uptime_ms svc"] length_lu[of ?reset]
      length_lu[of "device_state_num (dr_state ?l)"] length_lu[of "dr_operation_successes ?l"]
      length_lu[of "dr_operation_failures ?l"]
    by (simp add: int_text_def ascii_def)
  from reply_text[OF t b(1) this, of req] obtain tx where R: "rsp_payload (HandleGetStatus req svc d) =
      ascii ''{\"id\":'' @ lu (rq_request_id req) @ ascii '',\"status\":\"ok\",\"schema\":1,'' @
      strip_comma (concat ?ts @ tx) @ [0x7D, 0x0A]"
    unfolding H by blast
  let ?p = "concat (butlast ?ts) @ [0x7D]"
  have "concat ?ts @ tx = ?p @ 0x2C # tx" by (simp add: ascii_def)
  then obtain post where "strip_comma (concat ?ts @ tx) = ?p @ post"
    using strip_comma_prefix[of ?p "0x2C" tx] by auto
  then show ?thesis
    unfolding R by (intro exI[of _ "post @ [0x7D, 0x0A]"]) (simp add: int_text_def ascii_def)
qed

definition blank_status_device :: "unit device" where
  "blank_status_device =
     \<lparr>dv_flash = (), dv_provisioning = fresh_pv, dv_config = config_start, dv_identity = zero_identity,
      dv_self_test = None, dv_boot = \<lparr>bs_boot_id = 0, bs_initialized = False\<rparr>,
      dv_room = RoomState_Init, dv_runtime_status = None\<rparr>"

lemma get_status_trailing_comma_witness:
  "\<forall>req svc. \<exists>pre post. rsp_payload (HandleGetStatus req svc blank_status_device) = pre @ ascii '',}'' @ post"
proof (intro allI)
  fix req svc
  have "f32_in_range (rs_illuminance_lux (dv_room blank_status_device))"
    "f32_in_range (rs_co2_ppm (dv_room blank_status_device))"
    by (simp_all add: f32_in_range_def blank_status_device_def RoomState_Init_def)
  from get_status_trailing_comma[OF this, of req svc]
  show "\<exists>pre post. rsp_payload (HandleGetStatus req svc blank_status_device) = pre @ ascii '',}'' @ post"
    by (metis append.assoc)
qed

end
