(* ===== verification/Telemetry.thy ===== *)
theory Telemetry
  imports Room_State Command_Response
begin

text \<open>
  \<open>Telemetry/Src/telemetry.c\<close> and \<open>telemetry_serializer.c\<close>: the numbered snapshot of the
  room, and its text. A serializer keeps the text written so far; a format string with its
  arguments is the text it prints. The text of a failed call is what was written before the
  step that failed; \<open>*written\<close> stays 0 then.
\<close>

definition TELEMETRY_SERIALIZED_MAX_SIZE :: nat where "TELEMETRY_SERIALIZED_MAX_SIZE = 2048"
definition SCD41_CO2_MAX_PPM :: u32 where "SCD41_CO2_MAX_PPM = 40000"

section \<open>Snapshots\<close>

record TelemetrySnapshot =
  ts_device_id :: bytes
  ts_boot_id :: u64
  ts_sequence :: u32
  ts_uptime_ms :: u32
  ts_captured_at_ms :: u32
  ts_room :: RoomState
  ts_health :: SystemHealthState

record TelemetrySnapshotInput =
  tsi_device_id :: "bytes option"
  tsi_boot_id :: u64
  tsi_room :: "RoomState option"
  tsi_health :: SystemHealthState
  tsi_uptime_ms :: u32

text \<open>\<open>seqn\<close> is the static \<open>s_sequence\<close>; the result is the snapshot and its new value.\<close>

definition Telemetry_CreateSnapshot ::
  "TelemetrySnapshotInput option \<Rightarrow> u32 \<Rightarrow> TelemetrySnapshot option \<times> u32" where
  "Telemetry_CreateSnapshot input seqn =
     (case input of None \<Rightarrow> (None, seqn)
      | Some i \<Rightarrow> (case tsi_device_id i of None \<Rightarrow> (None, seqn)
        | Some dev \<Rightarrow> (case tsi_room i of None \<Rightarrow> (None, seqn)
          | Some room \<Rightarrow>
            let seqn = seqn + 1 in
            (Some \<lparr>ts_device_id = take 16 dev, ts_boot_id = tsi_boot_id i, ts_sequence = seqn,
                   ts_uptime_ms = tsi_uptime_ms i, ts_captured_at_ms = tsi_uptime_ms i,
                   ts_room = room, ts_health = tsi_health i\<rparr>, seqn))))"

section \<open>Text\<close>

datatype SerializeStatus =
    SERIALIZE_OK | SERIALIZE_BUFFER_TOO_SMALL | SERIALIZE_INVALID_ARG | SERIALIZE_ERROR

type_synonym telemetry_text = "SerializeStatus \<times> bytes"

definition HealthStr :: "SystemHealthState \<Rightarrow> bytes" where
  "HealthStr h =
     (case h of
        SYSTEM_HEALTH_BOOTING \<Rightarrow> ascii ''booting''
      | SYSTEM_HEALTH_OK \<Rightarrow> ascii ''ok''
      | SYSTEM_HEALTH_DEGRADED \<Rightarrow> ascii ''degraded''
      | SYSTEM_HEALTH_FAULT \<Rightarrow> ascii ''fault'')"

definition Telemetry_AppendFormat :: "nat \<Rightarrow> bytes \<Rightarrow> bytes \<Rightarrow> telemetry_text" where
  "Telemetry_AppendFormat cap txt out =
     (if length out \<ge> cap then (SERIALIZE_BUFFER_TOO_SMALL, out)
      else if length txt \<ge> cap - length out then (SERIALIZE_BUFFER_TOO_SMALL, out)
      else (SERIALIZE_OK, out @ txt))"

text \<open>\<open>if (s != SERIALIZE_OK) return s\<close> between two steps.\<close>

definition t_then ::
  "(bytes \<Rightarrow> telemetry_text) \<Rightarrow> (bytes \<Rightarrow> telemetry_text) \<Rightarrow> bytes \<Rightarrow> telemetry_text" where
  "t_then p q out = (case p out of (s, out') \<Rightarrow> if s \<noteq> SERIALIZE_OK then (s, out') else q out')"

definition AppendId :: "nat \<Rightarrow> bytes \<Rightarrow> bytes \<Rightarrow> telemetry_text" where
  "AppendId cap id16 = Telemetry_AppendFormat cap (uuid_text id16)"

definition AppendFieldSeparator :: "nat \<Rightarrow> bool \<Rightarrow> bytes \<Rightarrow> telemetry_text" where
  "AppendFieldSeparator cap prepend out =
     (if \<not> prepend then (SERIALIZE_OK, out) else Telemetry_AppendFormat cap (ascii '','') out)"

definition measurement_text :: "string \<Rightarrow> f32 \<Rightarrow> bool \<Rightarrow> bytes" where
  "measurement_text name v emit_valid =
     (if emit_valid
      then ascii ''      \"'' @ ascii name @ ascii ''\": {'' @ [0x0A] @
           ascii ''        \"value\": '' @ fixed_text 1 v @ ascii '','' @ [0x0A] @
           ascii ''        \"state\": \"valid\"'' @ [0x0A] @ ascii ''      }''
      else ascii ''      \"'' @ ascii name @ ascii ''\": {'' @ [0x0A] @
           ascii ''        \"state\": \"invalid\"'' @ [0x0A] @ ascii ''      }'')"

definition AppendMeasurement ::
  "nat \<Rightarrow> string \<Rightarrow> f32 \<Rightarrow> bool \<Rightarrow> bool \<Rightarrow> bytes \<Rightarrow> telemetry_text" where
  "AppendMeasurement cap name v valid prepend =
     t_then (AppendFieldSeparator cap prepend)
       (Telemetry_AppendFormat cap (measurement_text name v (valid \<and> f32_isfinite v)))"

text \<open>The value is printed after the test for a finite value in range.\<close>

definition co2_ok :: "RoomState \<Rightarrow> bool" where
  "co2_ok room \<longleftrightarrow>
     rs_co2_valid room \<and> f32_isfinite (rs_co2_ppm room) \<and>
     \<not> f32_less (rs_co2_ppm room) (F32 False 0) \<and>
     \<not> f32_less (f32_of_int (uint SCD41_CO2_MAX_PPM)) (rs_co2_ppm room)"

definition AppendCo2 :: "nat \<Rightarrow> RoomState \<Rightarrow> bool \<Rightarrow> bytes \<Rightarrow> telemetry_text" where
  "AppendCo2 cap room prepend =
     t_then (AppendFieldSeparator cap prepend)
       (Telemetry_AppendFormat cap
         (if co2_ok room
          then ascii ''    \"co2_ppm\": {'' @ [0x0A] @
               ascii ''      \"value\": '' @ dec_digits (nat \<lfloor>f32_val (rs_co2_ppm room)\<rfloor>) @ ascii '','' @ [0x0A] @
               ascii ''      \"state\": \"valid\"'' @ [0x0A] @ ascii ''    }''
          else ascii ''    \"co2_ppm\": {'' @ [0x0A] @
               ascii ''      \"state\": \"invalid\"'' @ [0x0A] @ ascii ''    }''))"

definition AppendScd41Block :: "nat \<Rightarrow> RoomState \<Rightarrow> bytes \<Rightarrow> telemetry_text" where
  "AppendScd41Block cap room =
     t_then (AppendCo2 cap room True) (
     t_then (AppendMeasurement cap ''scd41_temperature_c'' (rs_scd41_temperature_c room)
               (rs_scd41_temperature_valid room) True)
            (AppendMeasurement cap ''scd41_humidity_pct'' (rs_scd41_humidity_pct room)
               (rs_scd41_humidity_valid room) True))"

definition AppendSht45Block :: "nat \<Rightarrow> RoomState \<Rightarrow> bytes \<Rightarrow> telemetry_text" where
  "AppendSht45Block cap room =
     t_then (AppendMeasurement cap ''sht45_temperature_c'' (rs_sht45_temperature_c room)
               (rs_sht45_temperature_valid room) True)
            (AppendMeasurement cap ''sht45_humidity_pct'' (rs_sht45_humidity_pct room)
               (rs_sht45_humidity_valid room) True)"

definition AppendBmp390Block :: "nat \<Rightarrow> RoomState \<Rightarrow> bytes \<Rightarrow> telemetry_text" where
  "AppendBmp390Block cap room =
     t_then (AppendMeasurement cap ''bmp390_pressure_pa'' (rs_bmp390_pressure_pa room)
               (rs_bmp390_pressure_valid room) True)
            (AppendMeasurement cap ''bmp390_temperature_c'' (rs_bmp390_temperature_c room)
               (rs_bmp390_temperature_valid room) True)"

definition barometer_name :: "BarometerProvider \<Rightarrow> bytes" where
  "barometer_name p =
     (case p of
        BAROMETER_PROVIDER_BMP390 \<Rightarrow> ascii ''bmp390''
      | BAROMETER_PROVIDER_BMP380 \<Rightarrow> ascii ''bmp380''
      | BAROMETER_PROVIDER_NONE \<Rightarrow> ascii ''none'')"

definition AppendBarometricBlock :: "nat \<Rightarrow> RoomState \<Rightarrow> bytes \<Rightarrow> telemetry_text" where
  "AppendBarometricBlock cap room =
     t_then (AppendFieldSeparator cap True) (
     t_then (Telemetry_AppendFormat cap
               (ascii ''      \"barometric_sensor\": \"'' @ barometer_name (rs_barometric_provider room) @ ascii ''\"'')) (
     t_then (AppendMeasurement cap ''barometric_pressure_pa'' (rs_barometric_pressure_pa room)
               (rs_barometric_pressure_valid room) True)
            (AppendMeasurement cap ''barometric_temperature_c'' (rs_barometric_temperature_c room)
               (rs_barometric_temperature_valid room) True)))"

definition AppendSgp41Block :: "nat \<Rightarrow> RoomState \<Rightarrow> bytes \<Rightarrow> telemetry_text" where
  "AppendSgp41Block cap room =
     t_then (AppendMeasurement cap ''voc_raw'' (rs_voc_raw room) (rs_voc_raw_valid room) True) (
     t_then (AppendMeasurement cap ''nox_raw'' (rs_nox_raw room) (rs_nox_raw_valid room) True) (
     t_then (AppendMeasurement cap ''voc_index'' (rs_voc_index room) (rs_voc_index_valid room) True)
            (AppendMeasurement cap ''nox_index'' (rs_nox_index room) (rs_nox_index_valid room) True)))"

definition telemetry_steps :: "nat \<Rightarrow> TelemetrySnapshot \<Rightarrow> bytes \<Rightarrow> telemetry_text" where
  "telemetry_steps cap snap =
     (let fmt = Telemetry_AppendFormat cap; room = ts_room snap in
      t_then (fmt (ascii ''{'' @ [0x0A])) (
      t_then (fmt (ascii ''  \"schema\": '' @ lu TELEMETRY_SCHEMA_VERSION @ ascii '','' @ [0x0A])) (
      t_then (fmt (ascii ''  \"device_id\": \"'')) (
      t_then (AppendId cap (ts_device_id snap)) (
      t_then (fmt (ascii ''\",'' @ [0x0A])) (
      t_then (fmt (ascii ''  \"boot_id\": \"'' @ take 16 (Hex64_ToLower (replicate 17 0) (ts_boot_id snap)) @
                   ascii ''\",'' @ [0x0A])) (
      t_then (fmt (ascii ''  \"seq\": '' @ lu (ts_sequence snap) @ ascii '','' @ [0x0A] @
                   ascii ''  \"uptime_ms\": '' @ lu (ts_uptime_ms snap) @ ascii '','' @ [0x0A] @
                   ascii ''  \"captured_at_ms\": '' @ lu (ts_captured_at_ms snap) @ ascii '','' @ [0x0A] @
                   ascii ''  \"health\": \"'' @ HealthStr (ts_health snap) @ ascii ''\",'' @ [0x0A])) (
      t_then (fmt (ascii ''  \"room\": {'' @ [0x0A])) (
      t_then (AppendMeasurement cap ''illuminance_lux'' (rs_illuminance_lux room)
                (rs_illuminance_valid room) False) (
      t_then (AppendScd41Block cap room) (
      t_then (AppendSht45Block cap room) (
      t_then (AppendBarometricBlock cap room) (
      t_then (AppendBmp390Block cap room) (
      t_then (AppendSgp41Block cap room) (
      t_then (fmt ([0x0A] @ ascii ''  }'' @ [0x0A]))
             (fmt (ascii ''}'' @ [0x0A])))))))))))))))))"

text \<open>
  \<open>cap\<close> is the size of the buffer, \<open>None\<close> a NULL buffer. The result is the status and the
  bytes \<open>buffer[0 .. *written]\<close>.
\<close>

definition Telemetry_Serialize ::
  "TelemetrySnapshot option \<Rightarrow> nat option \<Rightarrow> SerializeStatus \<times> bytes" where
  "Telemetry_Serialize snapshot buf =
     (case (snapshot, buf) of
        (Some snap, Some cap) \<Rightarrow>
          (case telemetry_steps cap snap [] of (s, out) \<Rightarrow>
             if s \<noteq> SERIALIZE_OK then (s, []) else (SERIALIZE_OK, out))
      | _ \<Rightarrow> (SERIALIZE_INVALID_ARG, []))"

end
