(* ===== verification/Telemetry_Props.thy ===== *)
theory Telemetry_Props
  imports Telemetry Decimal Command_Reply_Props
begin

text \<open>
  The telemetry text: an append that fits adds its text and nothing else, so the frame is the
  concatenation of its pieces; it is a JSON document and it always fits its buffer.
\<close>

section \<open>The grammar of JSON\<close>

text \<open>
  The part of the JSON grammar (RFC 8259) the serializers use, as the meaning of "the text is
  JSON": objects, strings without escapes, numbers without an exponent.
\<close>

definition json_space :: "bytes \<Rightarrow> bool" where
  "json_space s \<longleftrightarrow> list_all (\<lambda>c. c = 0x20 \<or> c = 0x09 \<or> c = 0x0A \<or> c = 0x0D) s"

text \<open>A character of a string that needs no escape; the sources write ASCII only.\<close>

definition json_char :: "u8 \<Rightarrow> bool" where
  "json_char c \<longleftrightarrow> 0x20 \<le> c \<and> c < 0x7F \<and> c \<noteq> 0x22 \<and> c \<noteq> 0x5C"

inductive json_number :: "bytes \<Rightarrow> bool" where
  integer: "list_all is_digit ds \<Longrightarrow> ds \<noteq> [] \<Longrightarrow> (hd ds = 0x30 \<longrightarrow> length ds = 1) \<Longrightarrow> json_number ds"
| fraction: "json_number ds \<Longrightarrow> list_all is_digit ds \<Longrightarrow> list_all is_digit fs \<Longrightarrow> fs \<noteq> [] \<Longrightarrow>
    json_number (ds @ 0x2E # fs)"
| negative: "json_number ds \<Longrightarrow> is_digit (hd ds) \<Longrightarrow> json_number (0x2D # ds)"

inductive json_value :: "bytes \<Rightarrow> bool" and json_member :: "bytes \<Rightarrow> bool"
  and json_members :: "bytes \<Rightarrow> bool" where
  number: "json_number n \<Longrightarrow> json_value n"
| str: "list_all json_char s \<Longrightarrow> json_value (0x22 # s @ [0x22])"
| object: "json_members ms \<Longrightarrow> json_value (0x7B # ms @ [0x7D])"
| member: "json_space s1 \<Longrightarrow> list_all json_char k \<Longrightarrow> json_space s2 \<Longrightarrow> json_value v \<Longrightarrow> json_space s3 \<Longrightarrow>
    json_member (s1 @ 0x22 # k @ [0x22, 0x3A] @ s2 @ v @ s3)"
| single: "json_member m \<Longrightarrow> json_members m"
| several: "json_member m \<Longrightarrow> json_members ms \<Longrightarrow> json_members (m @ 0x2C # ms)"

definition json_document :: "bytes \<Rightarrow> bool" where
  "json_document t \<longleftrightarrow> (\<exists>v s. t = v @ s \<and> json_value v \<and> json_space s)"

fun comma_join :: "bytes list \<Rightarrow> bytes" where
  "comma_join [] = []"
| "comma_join [m] = m"
| "comma_join (m # ms) = m @ 0x2C # comma_join ms"

lemma json_members_join:
  "ms \<noteq> [] \<Longrightarrow> list_all json_member ms \<Longrightarrow> json_members (comma_join ms)"
  by (induction ms rule: comma_join.induct) (auto intro: single several)

lemma json_object_join:
  "ms \<noteq> [] \<Longrightarrow> list_all json_member ms \<Longrightarrow> json_value (0x7B # comma_join ms @ [0x7D])"
  by (intro object json_members_join)

text \<open>White space around members.\<close>

lemma json_space_append [simp]: "json_space (s @ t) \<longleftrightarrow> json_space s \<and> json_space t"
  by (simp add: json_space_def)

lemma json_member_space:
  assumes "json_member m" "json_space s"
  shows "json_member (s @ m)" "json_member (m @ s)"
proof -
  obtain s1 k s2 v s3 where m: "m = s1 @ 0x22 # k @ [0x22, 0x3A] @ s2 @ v @ s3"
      "json_space s1" "list_all json_char k" "json_space s2" "json_value v" "json_space s3"
    using assms(1) by (cases rule: json_member.cases) auto
  then show "json_member (s @ m)" "json_member (m @ s)"
    using member[of "s @ s1" k s2 v s3] member[of s1 k s2 v "s3 @ s"] assms(2) by simp_all
qed

lemma json_members_space:
  assumes "json_members ms" "json_space s"
  shows "json_members (s @ ms)" "json_members (ms @ s)"
proof -
  show "json_members (s @ ms)" using assms(1)
  proof cases
    case single
    then show ?thesis using json_member_space(1) assms(2) json_value_json_member_json_members.single by blast
  next
    case (several m ms')
    then show ?thesis
      using json_member_space(1) assms(2) json_value_json_member_json_members.several[of "s @ m" ms'] by simp
  qed
  show "json_members (ms @ s)" using assms(1)
  proof (induction rule: json_value_json_member_json_members.inducts(3)
      [where ?P1.0 = "\<lambda>_. True" and ?P2.0 = "\<lambda>_. True" and ?P3.0 = "\<lambda>ms. json_members (ms @ s)"])
    case (single m)
    then show ?case using json_member_space(2) assms(2) json_value_json_member_json_members.single by blast
  next
    case (several m ms)
    then show ?case using json_value_json_member_json_members.several[of m "ms @ s"] by simp
  qed simp_all
qed

text \<open>A member in front of which white space stands, as the serializers write it.\<close>

definition jm :: "bytes \<Rightarrow> bytes \<Rightarrow> bytes \<Rightarrow> bytes \<Rightarrow> bytes" where
  "jm s1 k v s3 = s1 @ 0x22 # k @ [0x22, 0x3A] @ [0x20] @ v @ s3"

lemma json_member_jm:
  "json_space s1 \<Longrightarrow> list_all json_char k \<Longrightarrow> json_value v \<Longrightarrow> json_space s3 \<Longrightarrow> json_member (jm s1 k v s3)"
  using member[of s1 k "[0x20]" v s3] by (simp add: jm_def json_space_def)

lemma json_dec_digits: "json_number (dec_digits n)"
proof (cases "n = 0")
  case True
  then show ?thesis by (auto simp: dec_digits.simps is_digit_def intro: integer)
next
  case False
  then show ?thesis using dec_digits_text dec_digits_no_zero[of n] by (intro integer) auto
qed

lemma hd_dec_digit: "is_digit (hd (dec_digits n))"
  using dec_digits_text[of n] dec_digits_nonempty[of n] by (cases "dec_digits n") auto

lemma hd_append_ne: "xs \<noteq> [] \<Longrightarrow> hd (xs @ ys) = hd xs"
  by simp

lemma json_fixed:
  assumes "list_all is_digit fs" "fs \<noteq> []"
  shows "json_number (dec_digits n @ 0x2E # fs)" "json_number (0x2D # dec_digits n @ 0x2E # fs)"
proof -
  show "json_number (dec_digits n @ 0x2E # fs)"
    using fraction[OF json_dec_digits dec_digits_text assms] .
  then show "json_number (0x2D # dec_digits n @ 0x2E # fs)"
    by (rule negative) (simp add: hd_dec_digit)
qed

section \<open>Appends as text\<close>

definition appends :: "nat \<Rightarrow> (bytes \<Rightarrow> telemetry_text) \<Rightarrow> bytes \<Rightarrow> bool" where
  "appends cap p txt \<longleftrightarrow>
     (\<forall>out. length out < cap \<longrightarrow>
        (if length out + length txt < cap then p out = (SERIALIZE_OK, out @ txt)
         else fst (p out) = SERIALIZE_BUFFER_TOO_SMALL))"

lemma appends_fmt: "appends cap (Telemetry_AppendFormat cap txt) txt"
  by (auto simp: appends_def Telemetry_AppendFormat_def)

lemma appends_then: "appends cap p t \<Longrightarrow> appends cap q u \<Longrightarrow> appends cap (t_then p q) (t @ u)"
  unfolding appends_def
proof (intro allI impI)
  fix out :: bytes
  assume p: "\<forall>out. length out < cap \<longrightarrow> (if length out + length t < cap then p out = (SERIALIZE_OK, out @ t)
      else fst (p out) = SERIALIZE_BUFFER_TOO_SMALL)"
    and q: "\<forall>out. length out < cap \<longrightarrow> (if length out + length u < cap then q out = (SERIALIZE_OK, out @ u)
      else fst (q out) = SERIALIZE_BUFFER_TOO_SMALL)" and out: "length out < cap"
  show "if length out + length (t @ u) < cap then t_then p q out = (SERIALIZE_OK, out @ t @ u)
      else fst (t_then p q out) = SERIALIZE_BUFFER_TOO_SMALL"
    using p[rule_format, OF out] q[rule_format, of "out @ t"]
    by (cases "length out + length t < cap") (simp_all add: t_then_def case_prod_beta split: if_splits)
qed

lemma appends_sep:
  "appends cap (AppendFieldSeparator cap True) [0x2C]" "appends cap (AppendFieldSeparator cap False) []"
  using appends_fmt[of cap "[0x2C]"] by (auto simp: appends_def AppendFieldSeparator_def ascii_def)

definition channel :: "string \<Rightarrow> f32 \<Rightarrow> bool \<Rightarrow> bytes" where
  "channel name v valid = measurement_text name v (valid \<and> f32_isfinite v)"

lemma appends_measurement:
  "appends cap (AppendMeasurement cap name v valid True) (0x2C # channel name v valid)"
  "appends cap (AppendMeasurement cap name v valid False) (channel name v valid)"
  using appends_then[OF appends_sep(1) appends_fmt] appends_then[OF appends_sep(2) appends_fmt]
  unfolding AppendMeasurement_def channel_def by fastforce+

definition co2_text :: "RoomState \<Rightarrow> bytes" where
  "co2_text room =
     (if co2_ok room
      then ascii ''    \"co2_ppm\": {'' @ [0x0A] @
           ascii ''      \"value\": '' @ dec_digits (nat \<lfloor>f32_val (rs_co2_ppm room)\<rfloor>) @ ascii '','' @ [0x0A] @
           ascii ''      \"state\": \"valid\"'' @ [0x0A] @ ascii ''    }''
      else ascii ''    \"co2_ppm\": {'' @ [0x0A] @
           ascii ''      \"state\": \"invalid\"'' @ [0x0A] @ ascii ''    }'')"

lemma appends_co2: "appends cap (AppendCo2 cap room True) (0x2C # co2_text room)"
  using appends_then[OF appends_sep(1) appends_fmt] unfolding AppendCo2_def co2_text_def by fastforce

definition room_channels :: "RoomState \<Rightarrow> bytes list" where
  "room_channels r =
     [channel ''illuminance_lux'' (rs_illuminance_lux r) (rs_illuminance_valid r),
      co2_text r,
      channel ''scd41_temperature_c'' (rs_scd41_temperature_c r) (rs_scd41_temperature_valid r),
      channel ''scd41_humidity_pct'' (rs_scd41_humidity_pct r) (rs_scd41_humidity_valid r),
      channel ''sht45_temperature_c'' (rs_sht45_temperature_c r) (rs_sht45_temperature_valid r),
      channel ''sht45_humidity_pct'' (rs_sht45_humidity_pct r) (rs_sht45_humidity_valid r),
      ascii ''      \"barometric_sensor\": \"'' @ barometer_name (rs_barometric_provider r) @ ascii ''\"'',
      channel ''barometric_pressure_pa'' (rs_barometric_pressure_pa r) (rs_barometric_pressure_valid r),
      channel ''barometric_temperature_c'' (rs_barometric_temperature_c r) (rs_barometric_temperature_valid r),
      channel ''bmp390_pressure_pa'' (rs_bmp390_pressure_pa r) (rs_bmp390_pressure_valid r),
      channel ''bmp390_temperature_c'' (rs_bmp390_temperature_c r) (rs_bmp390_temperature_valid r),
      channel ''voc_raw'' (rs_voc_raw r) (rs_voc_raw_valid r),
      channel ''nox_raw'' (rs_nox_raw r) (rs_nox_raw_valid r),
      channel ''voc_index'' (rs_voc_index r) (rs_voc_index_valid r),
      channel ''nox_index'' (rs_nox_index r) (rs_nox_index_valid r)]"

lemma appends_room:
  "appends cap (t_then (AppendMeasurement cap ''illuminance_lux'' (rs_illuminance_lux room)
                  (rs_illuminance_valid room) False) (
      t_then (AppendScd41Block cap room) (
      t_then (AppendSht45Block cap room) (
      t_then (AppendBarometricBlock cap room) (
      t_then (AppendBmp390Block cap room) (
      t_then (AppendSgp41Block cap room) q))))))
     (comma_join (room_channels room) @ u)" if "appends cap q u"
proof -
  have eq: "(a @ (b1 @ b2 @ b3) @ (c1 @ c2) @ (d1 @ d2 @ d3 @ d4) @ (e1 @ e2) @ (f1 @ f2 @ f3 @ f4) @ u) =
      a @ b1 @ b2 @ b3 @ c1 @ c2 @ d1 @ d2 @ d3 @ d4 @ e1 @ e2 @ f1 @ f2 @ f3 @ f4 @ u"
    for a b1 b2 b3 c1 c2 d1 d2 d3 d4 e1 e2 f1 f2 f3 f4 :: bytes by simp
  note R = appends_then appends_measurement appends_co2 appends_sep appends_fmt that
  show ?thesis
    unfolding AppendScd41Block_def AppendSht45Block_def AppendBarometricBlock_def AppendBmp390Block_def
      AppendSgp41Block_def
    by (rule back_subst[of "appends cap _"], (rule R)+, unfold eq) (simp add: room_channels_def)
qed

text \<open>The whole frame.\<close>

definition frame_members :: "TelemetrySnapshot \<Rightarrow> bytes list" where
  "frame_members snap =
     [[0x0A] @ ascii ''  \"schema\": '' @ lu TELEMETRY_SCHEMA_VERSION,
      [0x0A] @ ascii ''  \"device_id\": \"'' @ uuid_text (ts_device_id snap) @ [0x22],
      [0x0A] @ ascii ''  \"boot_id\": \"'' @ take 16 (Hex64_ToLower (replicate 17 0) (ts_boot_id snap)) @ [0x22],
      [0x0A] @ ascii ''  \"seq\": '' @ lu (ts_sequence snap),
      [0x0A] @ ascii ''  \"uptime_ms\": '' @ lu (ts_uptime_ms snap),
      [0x0A] @ ascii ''  \"captured_at_ms\": '' @ lu (ts_captured_at_ms snap),
      [0x0A] @ ascii ''  \"health\": \"'' @ HealthStr (ts_health snap) @ [0x22],
      [0x0A] @ ascii ''  \"room\": '' @
        (0x7B # ([0x0A] @ comma_join (room_channels (ts_room snap)) @ [0x0A, 0x20, 0x20]) @ [0x7D]) @ [0x0A]]"

definition frame :: "TelemetrySnapshot \<Rightarrow> bytes" where
  "frame snap = (0x7B # comma_join (frame_members snap) @ [0x7D]) @ [0x0A]"

lemma appends_frame: "appends cap (telemetry_steps cap snap) (frame snap)"
  unfolding telemetry_steps_def Let_def AppendId_def
  by (rule back_subst[of "appends cap _"], (rule appends_then appends_room appends_fmt)+)
    (simp add: frame_def frame_members_def ascii_def)

lemma Serialize_frame:
  "Telemetry_Serialize (Some snap) (Some cap) =
     (if length (frame snap) < cap then (SERIALIZE_OK, frame snap) else (SERIALIZE_BUFFER_TOO_SMALL, []))"
proof (cases "cap = 0")
  case True
  then show ?thesis
    by (simp add: Telemetry_Serialize_def telemetry_steps_def Let_def t_then_def Telemetry_AppendFormat_def)
next
  case False
  then show ?thesis
    using appends_frame[of cap snap, unfolded appends_def, rule_format, of "[]"]
    by (cases "telemetry_steps cap snap []") (auto simp: Telemetry_Serialize_def split: if_splits)
qed


section \<open>The frame is JSON\<close>

abbreviation plain_text :: "bytes \<Rightarrow> bool" where
  "plain_text \<equiv> list_all json_char"

lemma plain_hex: "set s \<subseteq> set kHexDigits \<Longrightarrow> plain_text s"
proof -
  have "plain_text kHexDigits" by code_simp
  then show "set s \<subseteq> set kHexDigits \<Longrightarrow> plain_text s" by (auto simp: list_all_iff)
qed

lemma nibble_u8: "unat (drop_bit 4 b :: u8) < 16" "unat (b AND 0x0F :: u8) < 16"
proof -
  show "unat (drop_bit 4 b) < 16"
    using unsigned_less[of b, where ?'a = nat] by (simp add: drop_bit_eq_div unat_div_distrib)
  have "b AND 0x0F = b mod 16"
    using take_bit_eq_mask[of 4 b] take_bit_eq_mod[of 4 b] by (simp add: mask_eq_exp_minus_1)
  then show "unat (b AND 0x0F) < 16" by (simp only: unat_mod_distrib) simp
qed

lemma plain_lower_hex: "plain_text (concat (map lower_hex bs))"
  by (rule plain_hex) (auto simp: lower_hex_def nibble_u8)

lemma plain_uuid: "plain_text (uuid_text u)"
proof -
  have "plain_text (ascii ''-'')" by code_simp
  then show ?thesis by (simp add: uuid_text_def Let_def plain_lower_hex)
qed

lemma plain_boot_id: "plain_text (take 16 (Hex64_ToLower (replicate 17 0) v))"
  using plain_hex[OF hex64_loop_digits[of 16 "replicate 17 0" v]] by (simp add: Hex64_ToLower_def)

lemma frac_digits_text: "list_all is_digit (frac_digits d k)"
proof (induction d arbitrary: k)
  case (Suc d)
  then show ?case using digit_of_nat(1)[of "k mod 10"] by simp
qed simp

lemma json_fixed_text: "json_number (fixed_text 1 v)"
proof -
  let ?k = "nat (round_half_even (f32_mag v * 10 ^ 1))"
  have f: "frac_digits 1 ?k \<noteq> []" by simp
  have e: "fixed_text 1 v = (if f32_neg v then [0x2D] else []) @ dec_digits (?k div 10 ^ 1) @ 0x2E # frac_digits 1 ?k"
    by (simp add: fixed_text_def ascii_def Let_def)
  show ?thesis
    using json_fixed[OF frac_digits_text f] unfolding e by (cases "f32_neg v") (simp_all only: if_True if_False append.simps)
qed

lemma json_lu: "json_value (lu w)"
  unfolding lu_def by (rule number json_dec_digits)+

text \<open>The two shapes of a member whose value has a state.\<close>

lemma json_stated:
  assumes "json_space s1" "plain_text key" "json_space sp" "json_number n"
    and "json_space sp2"
  shows "json_member (jm s1 key (0x7B # comma_join [jm sp (ascii ''value'') n [],
      jm sp (ascii ''state'') (0x22 # ascii ''valid'' @ [0x22]) sp2] @ [0x7D]) [])"
    and "json_member (jm s1 key (0x7B # comma_join [jm sp (ascii ''state'') (0x22 # ascii ''invalid'' @ [0x22]) sp2] @ [0x7D]) [])"
proof -
  have k: "plain_text (ascii ''value'')" "plain_text (ascii ''state'')" "plain_text (ascii ''valid'')"
    "plain_text (ascii ''invalid'')" "json_space []" by code_simp+
  note m = json_member_jm[OF assms(1,2) _ k(5)]
  show "json_member (jm s1 key (0x7B # comma_join [jm sp (ascii ''value'') n [],
      jm sp (ascii ''state'') (0x22 # ascii ''valid'' @ [0x22]) sp2] @ [0x7D]) [])"
    using assms k by (intro m json_object_join) (auto intro!: json_member_jm number str)
  show "json_member (jm s1 key (0x7B # comma_join [jm sp (ascii ''state'') (0x22 # ascii ''invalid'' @ [0x22]) sp2] @ [0x7D]) [])"
    using assms k by (intro m json_object_join) (auto intro!: json_member_jm str)
qed

abbreviation indent :: "nat \<Rightarrow> bytes" where
  "indent n \<equiv> 0x0A # replicate n 0x20"

lemma json_indent: "json_space (indent n)" "json_space (replicate n 0x20)"
  by (auto simp: json_space_def list_all_iff)

lemma json_channel:
  assumes "plain_text (ascii name)"
  shows "json_member (channel name v valid)"
  using json_stated[OF json_indent(2)[of 6] assms json_indent(1)[of 8] json_fixed_text[of v] json_indent(1)[of 6]]
  by (simp add: channel_def measurement_text_def jm_def ascii_def numeral_eq_Suc split: if_splits)

lemma json_co2: "json_member (co2_text r)"
proof -
  have "plain_text (ascii ''co2_ppm'')" by code_simp
  from json_stated[OF json_indent(2)[of 4] this json_indent(1)[of 6] json_dec_digits json_indent(1)[of 4]]
  show ?thesis by (simp add: co2_text_def jm_def ascii_def numeral_eq_Suc)
qed


lemma json_names:
  "list_all (\<lambda>k. plain_text (ascii k)) [''illuminance_lux'', ''scd41_temperature_c'', ''scd41_humidity_pct'',
     ''sht45_temperature_c'', ''sht45_humidity_pct'', ''barometric_pressure_pa'', ''barometric_temperature_c'',
     ''bmp390_pressure_pa'', ''bmp390_temperature_c'', ''voc_raw'', ''nox_raw'', ''voc_index'', ''nox_index'',
     ''schema'', ''device_id'', ''boot_id'', ''seq'', ''uptime_ms'', ''captured_at_ms'', ''health'', ''room'',
     ''barometric_sensor'']"
  by code_simp

lemma plain_names: "plain_text (barometer_name p)" "plain_text (HealthStr h)"
proof -
  have b: "list_all (plain_text \<circ> barometer_name)
      [BAROMETER_PROVIDER_NONE, BAROMETER_PROVIDER_BMP390, BAROMETER_PROVIDER_BMP380]"
    and h: "list_all (plain_text \<circ> HealthStr)
      [SYSTEM_HEALTH_BOOTING, SYSTEM_HEALTH_OK, SYSTEM_HEALTH_DEGRADED, SYSTEM_HEALTH_FAULT]"
    by code_simp+
  show "plain_text (barometer_name p)" using b by (cases p) simp_all
  show "plain_text (HealthStr h)" using h by (cases h) simp_all
qed

lemma json_barometer:
  "json_member (ascii ''      \"barometric_sensor\": \"'' @ barometer_name p @ ascii ''\"'')"
proof -
  have "json_member (jm (replicate 6 0x20) (ascii ''barometric_sensor'') (0x22 # barometer_name p @ [0x22]) [])"
    using json_names by (intro json_member_jm str json_indent plain_names) (simp_all add: json_space_def)
  then show ?thesis by (simp add: jm_def ascii_def numeral_eq_Suc)
qed

lemma json_room: "json_members (comma_join (room_channels r))"
  using json_names
  by (intro json_members_join)
    (simp_all add: room_channels_def json_channel json_co2 json_barometer del: jm_def)

lemma json_frame: "json_document (frame snap)"
proof -
  note h = plain_names(2)
  have m: "json_member (jm (indent 2) (ascii k) v s)" if "plain_text (ascii k)" "json_value v" "json_space s" for k v s
    using json_member_jm[OF json_indent(1) that] .
  have sp: "json_space []" "json_space [0x0A]" "json_space [0x0A, 0x20, 0x20]" by code_simp+
  have "json_members ([0x0A] @ comma_join (room_channels (ts_room snap)) @ [0x0A, 0x20, 0x20])"
    by (intro json_members_space json_room sp)
  note room = object[OF this]
  let ?ms = "[jm (indent 2) (ascii ''schema'') (lu TELEMETRY_SCHEMA_VERSION) [],
    jm (indent 2) (ascii ''device_id'') (0x22 # uuid_text (ts_device_id snap) @ [0x22]) [],
    jm (indent 2) (ascii ''boot_id'') (0x22 # take 16 (Hex64_ToLower (replicate 17 0) (ts_boot_id snap)) @ [0x22]) [],
    jm (indent 2) (ascii ''seq'') (lu (ts_sequence snap)) [],
    jm (indent 2) (ascii ''uptime_ms'') (lu (ts_uptime_ms snap)) [],
    jm (indent 2) (ascii ''captured_at_ms'') (lu (ts_captured_at_ms snap)) [],
    jm (indent 2) (ascii ''health'') (0x22 # HealthStr (ts_health snap) @ [0x22]) [],
    jm (indent 2) (ascii ''room'')
      (0x7B # ([0x0A] @ comma_join (room_channels (ts_room snap)) @ [0x0A, 0x20, 0x20]) @ [0x7D]) [0x0A]]"
  have "frame_members snap = ?ms"
    by (simp add: frame_members_def jm_def ascii_def numeral_eq_Suc)
  moreover have "list_all json_member ?ms"
    using json_names by (simp only: list.pred_inject) (intro conjI m json_lu str plain_uuid plain_boot_id h room sp; simp)
  ultimately have "json_value (0x7B # comma_join (frame_members snap) @ [0x7D])"
    by (intro json_object_join) simp_all
  then show ?thesis unfolding json_document_def frame_def using sp(2) by blast
qed

section \<open>The frame fits\<close>

definition room_in_range :: "RoomState \<Rightarrow> bool" where
  "room_in_range r \<longleftrightarrow> list_all f32_in_range
     [rs_illuminance_lux r, rs_scd41_temperature_c r, rs_scd41_humidity_pct r, rs_sht45_temperature_c r,
      rs_sht45_humidity_pct r, rs_barometric_pressure_pa r, rs_barometric_temperature_c r,
      rs_bmp390_pressure_pa r, rs_bmp390_temperature_c r, rs_voc_raw r, rs_nox_raw r, rs_voc_index r,
      rs_nox_index r]"

lemma length_ascii [simp]: "length (ascii s) = length s"
  by (simp add: ascii_def)

lemma length_channel:
  assumes "f32_in_range v"
  shows "length (channel name v valid) \<le> length name + 105"
  using length_fixed_text[of v 1] assms by (auto simp: channel_def measurement_text_def f32_in_range_def)

lemma length_co2: "length (co2_text r) \<le> 67"
proof (cases "co2_ok r")
  case True
  then obtain n m where c: "rs_co2_ppm r = F32 n m" "\<not> f32_less (f32_of_int 40000) (F32 n m)"
    by (auto simp: co2_ok_def f32_isfinite_def SCD41_CO2_MAX_PPM_def split: f32.splits)
  have "f32_of_int 40000 = F32 False 40000" by code_simp
  then have "f32_val (F32 n m) \<le> 40000" using c(2) by simp
  then have "nat \<lfloor>f32_val (rs_co2_ppm r)\<rfloor> \<le> 40000" unfolding c(1) by (simp add: nat_le_iff floor_le_iff)
  then have "length (dec_digits (nat \<lfloor>f32_val (rs_co2_ppm r)\<rfloor>)) \<le> 5"
    using length_dec_digits[of "nat \<lfloor>f32_val (rs_co2_ppm r)\<rfloor>" 4] by simp
  then show ?thesis using True by (simp add: co2_text_def)
qed (simp add: co2_text_def)

lemma length_comma_join: "length (comma_join ms) \<le> sum_list (map (\<lambda>m. Suc (length m)) ms)"
  by (induction ms rule: comma_join.induct) simp_all

lemma length_room:
  assumes "room_in_range r"
  shows "length (comma_join (room_channels r)) \<le> 1690"
proof -
  have "length (barometer_name (rs_barometric_provider r)) \<le> 6"
    by (cases "rs_barometric_provider r") (simp_all add: barometer_name_def)
  moreover note length_comma_join[of "room_channels r"] length_co2[of r]
  moreover have "length (channel name v valid) \<le> length name + 105"
    if "v \<in> set [rs_illuminance_lux r, rs_scd41_temperature_c r, rs_scd41_humidity_pct r, rs_sht45_temperature_c r,
      rs_sht45_humidity_pct r, rs_barometric_pressure_pa r, rs_barometric_temperature_c r,
      rs_bmp390_pressure_pa r, rs_bmp390_temperature_c r, rs_voc_raw r, rs_nox_raw r, rs_voc_index r,
      rs_nox_index r]" for name v valid
    using that assms by (intro length_channel) (auto simp: room_in_range_def list_all_iff)
  note c = this
  ultimately show ?thesis
    using c[of "rs_illuminance_lux r" "''illuminance_lux''" "rs_illuminance_valid r"]
      c[of "rs_scd41_temperature_c r" "''scd41_temperature_c''" "rs_scd41_temperature_valid r"]
      c[of "rs_scd41_humidity_pct r" "''scd41_humidity_pct''" "rs_scd41_humidity_valid r"]
      c[of "rs_sht45_temperature_c r" "''sht45_temperature_c''" "rs_sht45_temperature_valid r"]
      c[of "rs_sht45_humidity_pct r" "''sht45_humidity_pct''" "rs_sht45_humidity_valid r"]
      c[of "rs_barometric_pressure_pa r" "''barometric_pressure_pa''" "rs_barometric_pressure_valid r"]
      c[of "rs_barometric_temperature_c r" "''barometric_temperature_c''" "rs_barometric_temperature_valid r"]
      c[of "rs_bmp390_pressure_pa r" "''bmp390_pressure_pa''" "rs_bmp390_pressure_valid r"]
      c[of "rs_bmp390_temperature_c r" "''bmp390_temperature_c''" "rs_bmp390_temperature_valid r"]
      c[of "rs_voc_raw r" "''voc_raw''" "rs_voc_raw_valid r"]
      c[of "rs_nox_raw r" "''nox_raw''" "rs_nox_raw_valid r"]
      c[of "rs_voc_index r" "''voc_index''" "rs_voc_index_valid r"]
      c[of "rs_nox_index r" "''nox_index''" "rs_nox_index_valid r"]
    by (simp add: room_channels_def)
qed


lemma length_frame:
  assumes "room_in_range (ts_room snap)"
  shows "length (frame snap) \<le> 1950"
proof -
  have u: "length (concat (map lower_hex (window (ts_device_id snap) i n))) \<le> 2 * n" for i n
    by (simp add: length_concat lower_hex_def sum_list_triv comp_def)
  have "length (uuid_text (ts_device_id snap)) \<le> 36"
    using u[of 0 4] u[of 4 2] u[of 6 2] u[of 8 2] u[of 10 6] by (simp add: uuid_text_def Let_def)
  moreover have "length (HealthStr (ts_health snap)) \<le> 8"
    by (cases "ts_health snap") (simp_all add: HealthStr_def)
  moreover note length_room[OF assms] length_comma_join[of "frame_members snap"]
    length_lu[of TELEMETRY_SCHEMA_VERSION] length_lu[of "ts_sequence snap"] length_lu[of "ts_uptime_ms snap"]
    length_lu[of "ts_captured_at_ms snap"]
  ultimately show ?thesis by (simp add: frame_def frame_members_def)
qed

text \<open>
  Claim C24. The telemetry of a device is JSON and always fits: for every snapshot whose values
  are single-precision numbers, with any mix of valid and invalid channels, the serializer
  succeeds with the 2048 bytes its callers give it and writes one JSON document; with a smaller
  buffer it writes the same document or reports that the buffer is too small and that nothing
  was written, never a cut one.
\<close>

theorem telemetry_is_json:
  assumes "room_in_range (ts_room snap)"
  shows "\<exists>doc. json_document doc \<and>
    Telemetry_Serialize (Some snap) (Some TELEMETRY_SERIALIZED_MAX_SIZE) = (SERIALIZE_OK, doc) \<and>
    (\<forall>cap. Telemetry_Serialize (Some snap) (Some cap) =
       (if length doc < cap then (SERIALIZE_OK, doc) else (SERIALIZE_BUFFER_TOO_SMALL, [])))"
  using json_frame[of snap] length_frame[OF assms] Serialize_frame[of snap]
  by (intro exI[of _ "frame snap"]) (simp add: TELEMETRY_SERIALIZED_MAX_SIZE_def)

definition cold_snapshot :: TelemetrySnapshot where
  "cold_snapshot =
     \<lparr>ts_device_id = replicate 16 0xAB, ts_boot_id = 1, ts_sequence = 1, ts_uptime_ms = 5, ts_captured_at_ms = 5,
      ts_room = RoomState_Init\<lparr>rs_sht45_temperature_c := F32 True (41 / 2), rs_sht45_temperature_valid := True\<rparr>,
      ts_health = SYSTEM_HEALTH_DEGRADED\<rparr>"

lemma telemetry_is_json_witness:
  "\<exists>doc. json_document doc \<and>
     Telemetry_Serialize (Some cold_snapshot) (Some TELEMETRY_SERIALIZED_MAX_SIZE) = (SERIALIZE_OK, doc)"
proof -
  have "room_in_range (ts_room cold_snapshot)"
    by (simp add: room_in_range_def f32_in_range_def cold_snapshot_def RoomState_Init_def)
  from telemetry_is_json[OF this] show ?thesis by blast
qed

end
