(* ===== verification/Communication.thy ===== *)
theory Communication
  imports Telemetry
begin

text \<open>
  \<open>Communication/Src/communication.c\<close> and \<open>communication_debug.c\<close>: the delivery of the
  latest snapshot over a port. A port is a record of functions on its own state (the
  \<open>context\<close> of the source); \<open>is_ready\<close> is optional, as the code tests it for NULL. The
  statics of the file are the record \<open>comm\<close>; \<open>s_tx_buffer\<close> is written and sent within one
  call and has no field.
\<close>

datatype CommunicationStatus =
    COMM_STATUS_OK | COMM_STATUS_BUSY | COMM_STATUS_DISCONNECTED | COMM_STATUS_ERROR
  | COMM_STATUS_INVALID_ARG

record 'p CommunicationPort =
  port_send :: "'p \<Rightarrow> bytes \<Rightarrow> CommunicationStatus \<times> 'p"
  port_is_ready :: "('p \<Rightarrow> bool) option"

datatype CommunicationState =
    COMM_STATE_DISABLED | COMM_STATE_DISCONNECTED | COMM_STATE_CONNECTING | COMM_STATE_READY
  | COMM_STATE_ERROR

record CommunicationRuntime =
  cr_state :: CommunicationState
  cr_send_successes :: u32
  cr_send_failures :: u32
  cr_serialization_failures :: u32
  cr_last_success_ms :: u32
  cr_last_failure_ms :: u32

definition COMM_RETRY_PERIOD_MS :: u32 where "COMM_RETRY_PERIOD_MS = 1000"

text \<open>\<open>TelemetryBuffer\<close>: the snapshot and whether it waits; the zeroed one waits for nothing.\<close>

record comm =
  co_port_configured :: bool
  co_latest :: "TelemetrySnapshot option"
  co_pending :: bool
  co_runtime :: CommunicationRuntime
  co_initialized :: bool
  co_last_send_attempt_ms :: u32

definition zero_comm_runtime :: CommunicationRuntime where
  "zero_comm_runtime =
     \<lparr>cr_state = COMM_STATE_DISABLED, cr_send_successes = 0, cr_send_failures = 0,
      cr_serialization_failures = 0, cr_last_success_ms = 0, cr_last_failure_ms = 0\<rparr>"

definition Communication_Init :: comm where
  "Communication_Init =
     \<lparr>co_port_configured = False, co_latest = None, co_pending = False,
      co_runtime = zero_comm_runtime\<lparr>cr_state := COMM_STATE_DISABLED\<rparr>,
      co_initialized = True, co_last_send_attempt_ms = 0\<rparr>"

definition upd_runtime :: "(CommunicationRuntime \<Rightarrow> CommunicationRuntime) \<Rightarrow> comm \<Rightarrow> comm" where
  "upd_runtime f c = c\<lparr>co_runtime := f (co_runtime c)\<rparr>"

text \<open>The port is an argument of the calls that use it; \<open>None\<close> is a NULL port.\<close>

definition Communication_SetPort :: "('p CommunicationPort \<times> 'p) option \<Rightarrow> comm \<Rightarrow> comm" where
  "Communication_SetPort port c =
     (case port of
        Some (p, ctx) \<Rightarrow>
          upd_runtime (\<lambda>r. r\<lparr>cr_state :=
            (case port_is_ready p of
               Some ready \<Rightarrow> (if ready ctx then COMM_STATE_READY else COMM_STATE_DISCONNECTED)
             | None \<Rightarrow> COMM_STATE_DISCONNECTED)\<rparr>) (c\<lparr>co_port_configured := True\<rparr>)
      | None \<Rightarrow>
          upd_runtime (\<lambda>r. r\<lparr>cr_state := COMM_STATE_DISABLED\<rparr>) (c\<lparr>co_port_configured := False\<rparr>))"

definition Communication_SubmitSnapshot :: "TelemetrySnapshot option \<Rightarrow> comm \<Rightarrow> comm" where
  "Communication_SubmitSnapshot snapshot c =
     (if \<not> co_initialized c \<or> snapshot = None then c
      else c\<lparr>co_latest := snapshot, co_pending := True\<rparr>)"

definition Communication_Run ::
  "'p CommunicationPort \<Rightarrow> u32 \<Rightarrow> 'p \<Rightarrow> comm \<Rightarrow> 'p \<times> comm" where
  "Communication_Run p now ctx c =
     (if \<not> co_initialized c \<or> \<not> co_pending c then (ctx, c)
      else if \<not> co_port_configured c then (ctx, c)
      else if (case port_is_ready p of Some ready \<Rightarrow> \<not> ready ctx | None \<Rightarrow> False)
      then (ctx, upd_runtime (\<lambda>r. r\<lparr>cr_state := COMM_STATE_DISCONNECTED\<rparr>) c)
      else if now - co_last_send_attempt_ms c < COMM_RETRY_PERIOD_MS then (ctx, c)
      else let c = c\<lparr>co_last_send_attempt_ms := now\<rparr> in
      case Telemetry_Serialize (co_latest c) (Some TELEMETRY_SERIALIZED_MAX_SIZE) of (ss, out) \<Rightarrow>
      if ss \<noteq> SERIALIZE_OK
      then (ctx, upd_runtime (\<lambda>r. r\<lparr>cr_serialization_failures := cr_serialization_failures r + 1\<rparr>) c)
      else case port_send p ctx out of (cs, ctx) \<Rightarrow>
      if cs = COMM_STATUS_OK
      then (ctx, upd_runtime (\<lambda>r. r\<lparr>cr_send_successes := cr_send_successes r + 1,
              cr_last_success_ms := now, cr_state := COMM_STATE_READY\<rparr>) (c\<lparr>co_pending := False\<rparr>))
      else if cs = COMM_STATUS_BUSY
      then (ctx, upd_runtime (\<lambda>r. r\<lparr>cr_state := COMM_STATE_READY\<rparr>) c)
      else (ctx, upd_runtime (\<lambda>r. r\<lparr>cr_send_failures := cr_send_failures r + 1,
              cr_last_failure_ms := now, cr_state := COMM_STATE_ERROR\<rparr>) c))"

definition Communication_GetRuntime :: "comm \<Rightarrow> CommunicationRuntime" where
  "Communication_GetRuntime c = co_runtime c"

section \<open>The debug port\<close>

text \<open>Its context counts the messages; \<open>stdout\<close> is the list of the texts written.\<close>

record DebugPortContext =
  dp_send_count :: u32
  dp_stdout :: "bytes list"

definition DebugPort_Send ::
  "DebugPortContext \<Rightarrow> bytes option \<Rightarrow> CommunicationStatus \<times> DebugPortContext" where
  "DebugPort_Send ctx data =
     (case data of None \<Rightarrow> (COMM_STATUS_INVALID_ARG, ctx)
      | Some d \<Rightarrow>
        if length d = 0 then (COMM_STATUS_INVALID_ARG, ctx)
        else (COMM_STATUS_OK,
              ctx\<lparr>dp_send_count := dp_send_count ctx + 1, dp_stdout := dp_stdout ctx @ [d]\<rparr>))"

definition DebugPort_IsReady :: "DebugPortContext \<Rightarrow> bool" where
  "DebugPort_IsReady ctx = True"

definition CommunicationDebug_Init ::
  "DebugPortContext \<Rightarrow> DebugPortContext CommunicationPort \<times> DebugPortContext" where
  "CommunicationDebug_Init ctx =
     (\<lparr>port_send = (\<lambda>ctx d. DebugPort_Send ctx (Some d)), port_is_ready = Some DebugPort_IsReady\<rparr>,
      ctx\<lparr>dp_send_count := 0\<rparr>)"

end
