(* ===== verification/Communication_Props.thy ===== *)
theory Communication_Props
  imports Communication Telemetry_Props "HOL-Library.Sublist"
begin

text \<open>
  The delivery of snapshots seen from the port: a history of submitted snapshots and of calls
  of \<open>Communication_Run\<close> at given ticks, and the log of what the port was given.
\<close>

text \<open>A port that keeps a log: the tick of the call, the text and the answer.\<close>

type_synonym 'p logged = "'p \<times> u32 \<times> (u32 \<times> bytes \<times> CommunicationStatus) list"

definition logging :: "'p CommunicationPort \<Rightarrow> 'p logged CommunicationPort" where
  "logging p =
     \<lparr>port_send = (\<lambda>(ctx, now, sent) d. case port_send p ctx d of (s, ctx) \<Rightarrow> (s, ctx, now, sent @ [(now, d, s)])),
      port_is_ready = map_option (\<lambda>ready (ctx, now, sent). ready ctx) (port_is_ready p)\<rparr>"

datatype comm_event = Submit TelemetrySnapshot | Tick u32

fun comm_step :: "'p CommunicationPort \<Rightarrow> comm_event \<Rightarrow> 'p logged \<times> comm \<Rightarrow> 'p logged \<times> comm" where
  "comm_step p (Submit snap) (ctx, c) = (ctx, Communication_SubmitSnapshot (Some snap) c)"
| "comm_step p (Tick now) ((ctx, _, sent), c) = Communication_Run (logging p) now (ctx, now, sent) c"

definition comm_history :: "'p CommunicationPort \<Rightarrow> comm_event list \<Rightarrow> 'p logged \<times> comm \<Rightarrow> 'p logged \<times> comm" where
  "comm_history p es s = foldl (\<lambda>s e. comm_step p e s) s es"

fun submitted :: "comm_event list \<Rightarrow> TelemetrySnapshot list" where
  "submitted [] = []"
| "submitted (Submit s # es) = s # submitted es"
| "submitted (Tick _ # es) = submitted es"

definition delivered :: "(u32 \<times> bytes \<times> CommunicationStatus) list \<Rightarrow> bytes list" where
  "delivered sent = map (\<lambda>(_, d, _). d) (filter (\<lambda>(_, _, s). s = COMM_STATUS_OK) sent)"

lemma submitted_snoc:
  "submitted (es @ [Submit s]) = submitted es @ [s]" "submitted (es @ [Tick t]) = submitted es"
  by (induction es rule: submitted.induct) simp_all

lemma delivered_snoc:
  "delivered (sent @ [(t, d, s)]) = delivered sent @ (if s = COMM_STATUS_OK then [d] else [])"
  by (simp add: delivered_def)

section \<open>The invariant of a history\<close>

definition spaced :: "(u32 \<times> bytes \<times> CommunicationStatus) list \<Rightarrow> bool" where
  "spaced sent \<longleftrightarrow> (\<forall>i. Suc i < length sent \<longrightarrow> COMM_RETRY_PERIOD_MS \<le> fst (sent ! Suc i) - fst (sent ! i))"

lemma spaced_snoc:
  assumes "spaced sent" "sent \<noteq> [] \<Longrightarrow> COMM_RETRY_PERIOD_MS \<le> t - fst (last sent)"
  shows "spaced (sent @ [(t, x)])"
  unfolding spaced_def
proof (intro allI impI)
  fix i assume i: "Suc i < length (sent @ [(t, x)])"
  show "COMM_RETRY_PERIOD_MS \<le> fst ((sent @ [(t, x)]) ! Suc i) - fst ((sent @ [(t, x)]) ! i)"
  proof (cases "Suc i < length sent")
    case True
    then show ?thesis using assms(1) by (simp add: spaced_def nth_append)
  next
    case False
    then have "Suc i = length sent" using i by simp
    moreover from this have "sent \<noteq> []" by auto
    moreover from this have "sent ! i = last sent" using \<open>Suc i = length sent\<close>
      by (metis last_conv_nth diff_Suc_1)
    ultimately show ?thesis using assms(2) by (simp add: nth_append)
  qed
qed

definition comm_inv :: "TelemetrySnapshot list \<Rightarrow> (u32 \<times> bytes \<times> CommunicationStatus) list \<Rightarrow> comm \<Rightarrow> bool" where
  "comm_inv subs sent c \<longleftrightarrow>
     co_initialized c \<and> spaced sent \<and> (sent \<noteq> [] \<longrightarrow> co_last_send_attempt_ms c = fst (last sent)) \<and>
     (if co_pending c
      then subs \<noteq> [] \<and> co_latest c = Some (last subs) \<and> subseq (delivered sent) (map frame (butlast subs))
      else subseq (delivered sent) (map frame subs))"

lemma upd_runtime_sel [simp]:
  "co_initialized (upd_runtime f c) = co_initialized c" "co_pending (upd_runtime f c) = co_pending c"
  "co_latest (upd_runtime f c) = co_latest c" "co_port_configured (upd_runtime f c) = co_port_configured c"
  "co_last_send_attempt_ms (upd_runtime f c) = co_last_send_attempt_ms c"
  by (simp_all add: upd_runtime_def)

lemma comm_inv_upd [simp]: "comm_inv subs sent (upd_runtime f c) = comm_inv subs sent c"
  by (simp add: comm_inv_def)

lemma attempt_now:
  assumes "co_initialized c" "co_pending c" "co_port_configured c" "co_latest c = Some snap"
    and "room_in_range (ts_room snap)" "\<forall>ready. port_is_ready p = Some ready \<longrightarrow> ready ctx"
    and "1000 \<le> now - co_last_send_attempt_ms c"
  shows "\<exists>s ctx' c'. Communication_Run (logging p) now (ctx, now, sent) c =
      ((ctx', now, sent @ [(now, frame snap, s)]), c') \<and>
    co_pending c' = (s \<noteq> COMM_STATUS_OK) \<and> co_latest c' = co_latest c \<and>
    co_last_send_attempt_ms c' = now \<and> co_initialized c' \<and> co_port_configured c'"
proof -
  have "Telemetry_Serialize (Some snap) (Some TELEMETRY_SERIALIZED_MAX_SIZE) = (SERIALIZE_OK, frame snap)"
    using Serialize_frame[of snap] length_frame[OF assms(5)] by (simp add: TELEMETRY_SERIALIZED_MAX_SIZE_def)
  moreover obtain s ctx2 where "port_send p ctx (frame snap) = (s, ctx2)" by fastforce
  moreover have "\<not> now - co_last_send_attempt_ms c < COMM_RETRY_PERIOD_MS"
    using assms(7) by (simp add: COMM_RETRY_PERIOD_MS_def not_less)
  ultimately show ?thesis
    using assms by (cases s; cases "port_is_ready p")
      (simp_all add: Communication_Run_def logging_def Let_def)
qed

text \<open>What one call does: nothing to the port, or one attempt with the latest snapshot.\<close>

lemma attempt_cases:
  assumes "Communication_Run (logging p) now (ctx, now, sent) c = ((ctx', now', sent'), c')"
    and "co_pending c \<longrightarrow> (\<exists>snap. co_latest c = Some snap \<and> room_in_range (ts_room snap))"
  obtains (idle) "sent' = sent" "co_pending c' = co_pending c" "co_latest c' = co_latest c"
      "co_last_send_attempt_ms c' = co_last_send_attempt_ms c" "co_initialized c' = co_initialized c"
  | (attempt) snap s where "co_pending c" "co_latest c = Some snap" "sent' = sent @ [(now, frame snap, s)]"
      "COMM_RETRY_PERIOD_MS \<le> now - co_last_send_attempt_ms c"
      "co_pending c' = (s \<noteq> COMM_STATUS_OK)" "co_latest c' = co_latest c"
      "co_last_send_attempt_ms c' = now" "co_initialized c' = co_initialized c"
proof (cases "co_initialized c \<and> co_pending c \<and> co_port_configured c \<and>
    \<not> (case port_is_ready (logging p) of Some ready \<Rightarrow> \<not> ready (ctx, now, sent) | None \<Rightarrow> False) \<and>
    \<not> now - co_last_send_attempt_ms c < COMM_RETRY_PERIOD_MS")
  case False
  then show ?thesis
    using assms(1) by (intro idle) (auto simp: Communication_Run_def split: if_splits)
next
  case True
  obtain snap where snap: "co_latest c = Some snap" "room_in_range (ts_room snap)" using True assms(2) by blast
  have r: "\<forall>ready. port_is_ready p = Some ready \<longrightarrow> ready ctx" using True by (auto simp: logging_def)
  have t: "1000 \<le> now - co_last_send_attempt_ms c" using True by (simp add: COMM_RETRY_PERIOD_MS_def not_less)
  show ?thesis
    using attempt_now[OF _ _ _ snap r t, of sent] assms(1) True snap(1) t
    by (auto simp: COMM_RETRY_PERIOD_MS_def intro: attempt)
qed

lemma subseq_butlast: "subseq (map f (butlast xs)) (map f xs)"
  by (intro subseq_map prefix_imp_subseq) (simp add: prefixeq_butlast)

lemma comm_Run_inv:
  assumes "comm_inv subs sent c" "\<forall>s \<in> set subs. room_in_range (ts_room s)"
    and "Communication_Run (logging p) now (ctx, now, sent) c = ((ctx', now', sent'), c')"
  shows "comm_inv subs sent' c'"
proof -
  have l: "co_pending c \<longrightarrow> (\<exists>snap. co_latest c = Some snap \<and> room_in_range (ts_room snap))"
    using assms(1,2) by (auto simp: comm_inv_def)
  show ?thesis
  proof (cases rule: attempt_cases[OF assms(3) l, case_names idle attempt])
    case idle
    then show ?thesis using assms(1) by (simp add: comm_inv_def)
  next
    case (attempt snap s)
    have i: "subs \<noteq> []" "snap = last subs" "subseq (delivered sent) (map frame (butlast subs))"
        "spaced sent" "sent \<noteq> [] \<Longrightarrow> co_last_send_attempt_ms c = fst (last sent)" "co_initialized c"
      using assms(1) attempt(1,2) by (auto simp: comm_inv_def)
    have "map frame subs = map frame (butlast subs) @ [frame (last subs)]"
      using i(1) by (metis append_butlast_last_id list.simps(8,9) map_append)
    then have "subseq (delivered sent @ [frame snap]) (map frame subs)"
      using i(2,3) by (simp add: subseq_append)
    moreover have "spaced (sent @ [(now, frame snap, s)])"
      using i(4,5) attempt(4) by (intro spaced_snoc) auto
    ultimately show ?thesis using i attempt by (simp add: comm_inv_def delivered_snoc)
  qed
qed

lemma history_inv:
  assumes "comm_inv subs0 sent0 c0" "comm_history p es ((ctx0, now0, sent0), c0) = ((ctx, now, sent), c)"
    and "\<forall>s \<in> set (subs0 @ submitted es). room_in_range (ts_room s)"
  shows "comm_inv (subs0 @ submitted es) sent c"
  using assms(2,3)
proof (induction es arbitrary: ctx now sent c rule: rev_induct)
  case Nil
  then show ?case using assms(1) by (simp add: comm_history_def)
next
  case (snoc e es)
  obtain ctx1 now1 sent1 c1 where h: "comm_history p es ((ctx0, now0, sent0), c0) = ((ctx1, now1, sent1), c1)"
    by (metis prod_cases3 prod.exhaust)
  have i: "comm_inv (subs0 @ submitted es) sent1 c1"
    using snoc.IH[OF h] snoc.prems(2) by (cases e) (simp_all add: submitted_snoc)
  have st: "comm_step p e ((ctx1, now1, sent1), c1) = ((ctx, now, sent), c)"
    using snoc.prems(1) h by (simp add: comm_history_def)
  show ?case
  proof (cases e)
    case (Submit snap)
    have "subseq (delivered sent1) (map frame (subs0 @ submitted es))"
      using i subseq_butlast by (auto simp: comm_inv_def map_append simp del: map_append split: if_splits
          intro: subseq_order.trans)
    then show ?thesis
      using Submit st i by (auto simp: comm_inv_def Communication_SubmitSnapshot_def submitted_snoc butlast_append)
  next
    case (Tick t)
    then show ?thesis using st i snoc.prems(2) comm_Run_inv[OF i] by (auto simp: submitted_snoc)
  qed
qed

lemma history_port:
  assumes "comm_history p es ((ctx0, now0, sent0), c0) = ((ctx, now, sent), c)"
  shows "co_port_configured c = co_port_configured c0"
proof -
  have st: "co_port_configured (snd (comm_step p e s)) = co_port_configured (snd s)" for e s
    by (cases "(p, e, s)" rule: comm_step.cases)
      (auto simp: Communication_SubmitSnapshot_def Communication_Run_def Let_def case_prod_beta)
  have "co_port_configured (snd (comm_history p es s)) = co_port_configured (snd s)" for s
    by (induction es arbitrary: s) (simp_all add: comm_history_def st)
  from this[of "((ctx0, now0, sent0), c0)"] assms show ?thesis by simp
qed

text \<open>
  Claim C25. Delivery of telemetry over any port: the frames the port accepts are, in order and
  each at most once, frames of submitted snapshots; an attempt always carries the newest one, so
  an older snapshot is never delivered after a newer one; two attempts are at least
  \<open>COMM_RETRY_PERIOD_MS\<close> apart, however often the port refuses; and a snapshot that waits is
  handed over by the first call that finds the port ready after that period.
\<close>

theorem communication_latest_in_order:
  assumes "\<forall>s \<in> set (submitted es). room_in_range (ts_room s)"
    and "comm_history p es ((ctx0, 0, []), Communication_SetPort (Some (p, ctx0)) Communication_Init) = ((ctx, t, sent), c)"
  shows "subseq (delivered sent) (map frame (submitted es)) \<and>
    (\<forall>i. Suc i < length sent \<longrightarrow> 1000 \<le> fst (sent ! Suc i) - fst (sent ! i)) \<and>
    (co_pending c \<longrightarrow> subseq (delivered sent) (map frame (butlast (submitted es))) \<and>
      (\<forall>now. (\<forall>ready. port_is_ready p = Some ready \<longrightarrow> ready ctx) \<and> 1000 \<le> now - co_last_send_attempt_ms c \<longrightarrow>
        (\<exists>s ctx' c'. comm_step p (Tick now) ((ctx, t, sent), c) =
           ((ctx', now, sent @ [(now, frame (last (submitted es)), s)]), c'))))"
proof -
  let ?c0 = "Communication_SetPort (Some (p, ctx0)) Communication_Init"
  have "comm_inv [] [] ?c0"
    by (simp add: comm_inv_def Communication_SetPort_def Communication_Init_def spaced_def delivered_def)
  from history_inv[OF this assms(2)] assms(1) have i: "comm_inv (submitted es) sent c" by simp
  have po: "co_port_configured c" using history_port[OF assms(2)]
    by (simp add: Communication_SetPort_def)
  have "\<exists>s ctx' c'. comm_step p (Tick now) ((ctx, t, sent), c) =
      ((ctx', now, sent @ [(now, frame (last (submitted es)), s)]), c')"
    if "co_pending c" "\<forall>ready. port_is_ready p = Some ready \<longrightarrow> ready ctx" "1000 \<le> now - co_last_send_attempt_ms c" for now
    using that i po assms(1) attempt_now[of c "last (submitted es)" p ctx now sent] by (auto simp: comm_inv_def)
  then show ?thesis
    using i subseq_butlast[of frame "submitted es"]
    by (auto simp: comm_inv_def spaced_def COMM_RETRY_PERIOD_MS_def split: if_splits)
qed


definition debug_history :: "comm_event list \<Rightarrow> DebugPortContext logged \<times> comm" where
  "debug_history es =
     (case CommunicationDebug_Init \<lparr>dp_send_count = 7, dp_stdout = []\<rparr> of (p, ctx) \<Rightarrow>
        comm_history p es ((ctx, 0, []), Communication_SetPort (Some (p, ctx)) Communication_Init))"

lemma communication_latest_in_order_witness:
  "subseq (delivered (snd (snd (fst (debug_history [Submit cold_snapshot, Tick 500, Tick 1500])))))
     [frame cold_snapshot]"
proof -
  let ?es = "[Submit cold_snapshot, Tick 500, Tick 1500]"
  obtain ctx t sent c where h: "debug_history ?es = ((ctx, t, sent), c)" by (metis prod_cases3 prod.exhaust)
  have "room_in_range (ts_room cold_snapshot)"
    by (simp add: room_in_range_def f32_in_range_def cold_snapshot_def RoomState_Init_def)
  then show ?thesis
    using communication_latest_in_order[of ?es "fst (CommunicationDebug_Init \<lparr>dp_send_count = 7, dp_stdout = []\<rparr>)"
        "snd (CommunicationDebug_Init \<lparr>dp_send_count = 7, dp_stdout = []\<rparr>)" ctx t sent c] h
    by (simp add: debug_history_def case_prod_beta)
qed

end
