(* ===== verification/Mqtt_App.thy ===== *)
theory Mqtt_App
  imports Mqtt_Client Command Communication
begin

text \<open>
  \<open>App/Src/mqtt_app.c\<close>: the connection manager of the application and its bridge between
  MQTT and the commands. The structure \<open>MqttApp\<close> holds the client and the transport; here
  these are fields of the state \<open>mqtt\<close> of a call, whose callback state is the rest of the
  structure together with the statics of the command module, since the callback
  \<open>MqttApp_OnInboundPublish\<close> reads and writes both. The adapter is an argument;
  \<open>ma_adapter\<close> tells whether the pointer to it is NULL and \<open>ma_net_bound\<close> whether the
  transport got it. A topic or the client identifier is the text before the NUL of its array.
\<close>

definition MQTT_APP_POLL_PERIOD_MS :: u32 where "MQTT_APP_POLL_PERIOD_MS = 50"
definition MQTT_APP_KEEPALIVE_S :: u16 where "MQTT_APP_KEEPALIVE_S = 60"
definition MQTT_APP_TOPIC_MAX :: nat where "MQTT_APP_TOPIC_MAX = 64"
definition MQTT_APP_SHORT_ID_LEN :: nat where "MQTT_APP_SHORT_ID_LEN = 12"
definition MQTT_APP_BACKOFF_STEPS :: u32 where "MQTT_APP_BACKOFF_STEPS = 6"
definition MQTT_APP_PREFIX :: bytes where "MQTT_APP_PREFIX = ascii ''room-sensor/''"

datatype MqttAppState =
    MQTT_APP_DISABLED | MQTT_APP_DISCONNECTED | MQTT_APP_CONNECTING | MQTT_APP_MQTT_CONNECTING
  | MQTT_APP_SUBSCRIBING | MQTT_APP_ONLINE | MQTT_APP_BACKOFF

record MqttAppStats =
  as_connect_attempts :: u32
  as_connect_successes :: u32
  as_connect_failures :: u32
  as_reconnect_backoff_ms :: u32
  as_telemetry_publish_attempts :: u32
  as_telemetry_publish_accepted :: u32
  as_command_messages_received :: u32
  as_command_responses_published :: u32
  as_command_responses_busy_rejected :: u32
  as_epoch :: u32

record MqttApp =
  ma_adapter :: bool
  ma_endpoint :: "NetworkEndpoint option"
  ma_net_bound :: bool
  ma_topic_telemetry :: bytes
  ma_topic_command :: bytes
  ma_topic_response :: bytes
  ma_topic_status :: bytes
  ma_client_id :: bytes
  ma_topics_built :: bool
  ma_state :: MqttAppState
  ma_last_tick_ms :: u32
  ma_backoff_index :: u32
  ma_backoff_until_ms :: u32
  ma_backoff_step :: u8
  ma_telemetry_pending :: bool
  ma_response_pending :: bool
  ma_stats :: MqttAppStats
  ma_identity :: DeviceIdentity

type_synonym 'a mqtt_app = "('a, MqttApp \<times> command) mqtt"

definition upd_app :: "(MqttApp \<Rightarrow> MqttApp) \<Rightarrow> 'a mqtt_app \<Rightarrow> 'a mqtt_app" where
  "upd_app f w = w\<lparr>mq_x := (f (fst (mq_x w)), snd (mq_x w))\<rparr>"

definition upd_app_stats :: "(MqttAppStats \<Rightarrow> MqttAppStats) \<Rightarrow> MqttApp \<Rightarrow> MqttApp" where
  "upd_app_stats f app = app\<lparr>ma_stats := f (ma_stats app)\<rparr>"

abbreviation the_app :: "'a mqtt_app \<Rightarrow> MqttApp" where "the_app w \<equiv> fst (mq_x w)"

section \<open>Backoff\<close>

definition BackoffTable :: "u32 list" where
  "BackoffTable = [1000, 2000, 5000, 10000, 30000, 60000]"

definition MqttApp_BackoffScheduleMs :: "u32 \<Rightarrow> u32" where
  "MqttApp_BackoffScheduleMs i =
     (let i = (if i \<ge> MQTT_APP_BACKOFF_STEPS then MQTT_APP_BACKOFF_STEPS - 1 else i)
      in BackoffTable ! unat i)"

definition elapsed :: "u32 \<Rightarrow> u32 \<Rightarrow> u32 \<Rightarrow> bool" where
  "elapsed now since period \<longleftrightarrow> now - since \<ge> period"

definition set_disconnected :: "MqttApp \<Rightarrow> MqttApp" where
  "set_disconnected app =
     upd_app_stats (\<lambda>s. s\<lparr>as_epoch := as_epoch s + 1\<rparr>)
       (app\<lparr>ma_state := MQTT_APP_DISCONNECTED, ma_telemetry_pending := False, ma_response_pending := False\<rparr>)"

definition enter_backoff :: "u32 \<Rightarrow> MqttApp \<Rightarrow> MqttApp" where
  "enter_backoff now app =
     (let app = app\<lparr>ma_state := MQTT_APP_BACKOFF\<rparr>;
          app = (if ucast (ma_backoff_step app) < MQTT_APP_BACKOFF_STEPS - 1
                 then app\<lparr>ma_backoff_step := ma_backoff_step app + 1\<rparr> else app);
          delay = MqttApp_BackoffScheduleMs (ucast (ma_backoff_step app))
      in upd_app_stats (\<lambda>s. s\<lparr>as_reconnect_backoff_ms := delay\<rparr>) (app\<lparr>ma_backoff_until_ms := now + delay\<rparr>))"

section \<open>Topics\<close>

text \<open>
  \<open>snprintf\<close> of the prefix, the short identifier and a suffix: the length the text would
  have, and what the array holds of it.
\<close>

definition topic_print :: "bytes \<Rightarrow> string \<Rightarrow> nat \<times> bytes" where
  "topic_print short_id suffix =
     (let t = MQTT_APP_PREFIX @ short_id @ ascii suffix in (length t, take MQTT_APP_TOPIC_MAX t))"

definition topic_misfit :: "nat \<Rightarrow> bool" where
  "topic_misfit n \<longleftrightarrow> n \<ge> MQTT_APP_TOPIC_MAX + 1 \<or> n = 0"

definition c_string :: "bytes \<Rightarrow> bytes" where
  "c_string buf = takeWhile (\<lambda>c. c \<noteq> 0) buf"

text \<open>The array \<open>short_id\<close> of 13 bytes is written by \<open>DeviceIdentity_GetShortId\<close> before it is read.\<close>

definition app_short_id :: "DeviceIdentity \<Rightarrow> bytes" where
  "app_short_id i =
     c_string ((DeviceIdentity_GetShortId (Some i) (replicate (MQTT_APP_SHORT_ID_LEN + 1) 0)
                  (MQTT_APP_SHORT_ID_LEN + 1))[MQTT_APP_SHORT_ID_LEN := 0])"

definition BuildTopics :: "MqttApp \<Rightarrow> bool \<times> MqttApp" where
  "BuildTopics app =
     (let short_id = app_short_id (ma_identity app);
          app = app\<lparr>ma_client_id := take MQTT_MAX_CLIENT_ID_LENGTH short_id\<rparr>;
          (n, t) = topic_print short_id ''/telemetry''; app = app\<lparr>ma_topic_telemetry := t\<rparr>
      in if topic_misfit n then (False, app)
      else let (n, t) = topic_print short_id ''/command''; app = app\<lparr>ma_topic_command := t\<rparr>
      in if topic_misfit n then (False, app)
      else let (n, t) = topic_print short_id ''/response''; app = app\<lparr>ma_topic_response := t\<rparr>
      in if topic_misfit n then (False, app)
      else let (n, t) = topic_print short_id ''/status''; app = app\<lparr>ma_topic_status := t\<rparr>
      in if topic_misfit n then (False, app)
      else (True, app\<lparr>ma_topics_built := True\<rparr>))"

section \<open>Initialisation\<close>

definition zero_app_stats :: MqttAppStats where
  "zero_app_stats =
     \<lparr>as_connect_attempts = 0, as_connect_successes = 0, as_connect_failures = 0, as_reconnect_backoff_ms = 0,
      as_telemetry_publish_attempts = 0, as_telemetry_publish_accepted = 0, as_command_messages_received = 0,
      as_command_responses_published = 0, as_command_responses_busy_rejected = 0, as_epoch = 0\<rparr>"

definition zero_app :: MqttApp where
  "zero_app =
     \<lparr>ma_adapter = False, ma_endpoint = None, ma_net_bound = False, ma_topic_telemetry = [],
      ma_topic_command = [], ma_topic_response = [], ma_topic_status = [], ma_client_id = [],
      ma_topics_built = False, ma_state = MQTT_APP_DISABLED, ma_last_tick_ms = 0, ma_backoff_index = 0,
      ma_backoff_until_ms = 0, ma_backoff_step = 0, ma_telemetry_pending = False, ma_response_pending = False,
      ma_stats = zero_app_stats, ma_identity = zero_identity\<rparr>"

text \<open>The zeroed memory of the client and of the transport.\<close>

definition zero_client :: MqttClient where
  "zero_client =
     \<lparr>mc_client_id = [], mc_keepalive_s = 0, mc_state = MQTT_STATE_DISCONNECTED,
      mc_tx_buf = replicate (unat MQTT_MAX_PACKET_SIZE) 0, mc_tx_total = 0, mc_tx_off = 0, mc_tx_kind = TX_NONE,
      mc_tx_pending = False, mc_rx_buf = replicate (unat MQTT_MAX_PACKET_SIZE) 0, mc_rx_len = 0, mc_rx_total = 0,
      mc_rx_fixed_len = 0, mc_rx_type = 0, mc_rx_flags = 0, mc_inflight_active = False, mc_inflight_packet_id = 0,
      mc_sub_pending = False, mc_sub_packet_id = 0, mc_ack_pending = False, mc_ack_pending_id = 0,
      mc_last_activity_ms = 0, mc_ping_outstanding = False, mc_ping_sent_ms = 0, mc_connack_deadline_set = False,
      mc_connack_deadline_ms = 0, mc_next_packet_id = 0, mc_next_sub_id = 0, mc_stats = zero_stats\<rparr>"

definition zero_transport :: NetworkTransport where
  "zero_transport =
     \<lparr>nt_state = NET_STATE_DISCONNECTED,
      nt_endpoint = \<lparr>ep_host = replicate (NETWORK_ENDPOINT_HOST_MAX + 1) 0, ep_port = 0\<rparr>,
      nt_tx = ring_zero, nt_rx = ring_zero, nt_connect_deadline_ms = 0, nt_connect_timeout_set = False,
      nt_tx_accepted = 0, nt_tx_bytes = 0, nt_rx_bytes = 0, nt_connect_attempts = 0, nt_connect_failures = 0,
      nt_remote_closed = 0, nt_transport_errors = 0\<rparr>"

text \<open>\<open>adapter\<close> tells whether the pointer is given; its functions are never NULL.\<close>

definition MqttApp_Init ::
  "u32 \<Rightarrow> bool \<Rightarrow> NetworkEndpoint option \<Rightarrow> DeviceIdentity option \<Rightarrow> 'a \<Rightarrow> command \<Rightarrow> 'a mqtt_app" where
  "MqttApp_Init now adapter endpoint identity a cmd =
     (let app = zero_app\<lparr>ma_state := MQTT_APP_DISABLED, ma_last_tick_ms := now\<rparr>;
          w = \<lparr>mq_c = zero_client, mq_t = zero_transport, mq_a = a, mq_x = (app, cmd), mq_now = now\<rparr>
      in if \<not> adapter \<or> endpoint = None then w
      else let
        app = (case identity of Some i \<Rightarrow> app\<lparr>ma_identity := i\<rparr> | None \<Rightarrow> app);
        app = app\<lparr>ma_adapter := True, ma_endpoint := endpoint\<rparr>
      in case BuildTopics app of (built, app) \<Rightarrow>
      if \<not> built then w\<lparr>mq_x := (app\<lparr>ma_adapter := False\<rparr>, cmd)\<rparr>
      else case NetworkTransport_Init endpoint of (_, t) \<Rightarrow>
      let w = w\<lparr>mq_t := (case t of Some t \<Rightarrow> t | None \<Rightarrow> mq_t w)\<rparr>; app = app\<lparr>ma_net_bound := (t \<noteq> None)\<rparr>
      in case MqttClient_Init (Some \<lparr>cc_client_id = Some (ma_client_id app), cc_keepalive_s = MQTT_APP_KEEPALIVE_S\<rparr>) of
        (st, c) \<Rightarrow>
        let w = w\<lparr>mq_c := (case c of Some c \<Rightarrow> c | None \<Rightarrow> mq_c w)\<rparr> in
        if st \<noteq> MQTT_OK then w\<lparr>mq_x := (app\<lparr>ma_adapter := False\<rparr>, cmd)\<rparr>
        else w\<lparr>mq_x := (app\<lparr>ma_state := MQTT_APP_DISCONNECTED, ma_topics_built := True\<rparr>, cmd)\<rparr>)"

section \<open>Inbound publishes\<close>

text \<open>\<open>strncmp\<close> stops at the first difference, at a NUL of both, or after \<open>n\<close> characters.\<close>

fun strncmp_equal :: "bytes \<Rightarrow> bytes \<Rightarrow> nat \<Rightarrow> bool" where
  "strncmp_equal (a # as) (b # bs) (Suc n) = (a = b \<and> (a = 0 \<or> strncmp_equal as bs n))"
| "strncmp_equal _ _ 0 = True"
| "strncmp_equal [] _ (Suc n) = False"
| "strncmp_equal _ [] (Suc n) = False"

definition MqttApp_OnInboundPublish ::
  "MqttClient \<Rightarrow> MqttApp \<times> command \<Rightarrow> MqttInboundPublish \<Rightarrow> bool \<times> MqttApp \<times> command" where
  "MqttApp_OnInboundPublish client ctx pub =
     (case ctx of (app, cmd) \<Rightarrow>
      if length (ip_topic pub) \<noteq> length (ma_topic_command app) \<or>
         \<not> strncmp_equal (ip_topic pub) (ma_topic_command app) (length (ip_topic pub))
      then (False, app, cmd)
      else if length (ip_payload pub) = 0 \<or> length (ip_payload pub) > COMMAND_INPUT_BUFFER_SIZE
      then (False, app, cmd)
      else if mc_inflight_active client
      then (False, upd_app_stats (\<lambda>s. s\<lparr>as_command_responses_busy_rejected :=
              as_command_responses_busy_rejected s + 1\<rparr>) app, cmd)
      else case Command_ProcessInput
          (Some \<lparr>in_data = Some (ip_payload pub), in_trust = COMMAND_SOURCE_AUTHENTICATED_REMOTE\<rparr>) cmd of
        (ok, cmd) \<Rightarrow>
        if \<not> ok then (False, app, cmd)
        else (True, upd_app_stats (\<lambda>s. s\<lparr>as_command_messages_received :=
                as_command_messages_received s + 1\<rparr>) app, cmd))"

section \<open>The state machine\<close>

abbreviation app_client_run ::
  "'a NetworkTransportAdapter \<Rightarrow> 'a mqtt_app \<Rightarrow> (MqttStatus \<times> 'a mqtt_app) option" where
  "app_client_run ad w \<equiv> MqttClient_Run ad (Some MqttApp_OnInboundPublish) w"

text \<open>A connect over a transport without an adapter calls through a NULL pointer.\<close>

definition run_disconnected ::
  "'a NetworkTransportAdapter \<Rightarrow> 'a mqtt_app \<Rightarrow> 'a mqtt_app option" where
  "run_disconnected ad w =
     (if \<not> ma_net_bound (the_app w) then None
      else case MqttClient_Connect ad w of (_, w) \<Rightarrow>
        Some (upd_app (\<lambda>app. upd_app_stats (\<lambda>s. s\<lparr>as_connect_attempts := as_connect_attempts s + 1\<rparr>)
               (app\<lparr>ma_state := MQTT_APP_CONNECTING\<rparr>)) w))"

definition run_handshake ::
  "'a NetworkTransportAdapter \<Rightarrow> 'a mqtt_app \<Rightarrow> 'a mqtt_app option" where
  "run_handshake ad w = do {
     (_, w) \<leftarrow> app_client_run ad w;
     let ms = MqttClient_GetState (Some (mq_c w)); st = ma_state (the_app w) in
     if ms = MQTT_STATE_CONNECTED
     then (if st = MQTT_APP_CONNECTING \<or> st = MQTT_APP_MQTT_CONNECTING
           then let w = upd_app (upd_app_stats (\<lambda>s. s\<lparr>as_connect_successes := as_connect_successes s + 1\<rparr>)) w in do {
             (_, c) \<leftarrow> MqttClient_Subscribe (mq_now w) (mq_c w) (Some (ma_topic_command (the_app w))) 1;
             Some (upd_app (\<lambda>app. app\<lparr>ma_state := MQTT_APP_SUBSCRIBING\<rparr>) (w\<lparr>mq_c := c\<rparr>))
           }
           else if st = MQTT_APP_SUBSCRIBING \<and> \<not> mc_sub_pending (mq_c w)
           then Some (upd_app (\<lambda>app. app\<lparr>ma_state := MQTT_APP_ONLINE, ma_backoff_step := 0\<rparr>) w)
           else Some w)
     else if ms = MQTT_STATE_ERROR
     then let w = upd_app (upd_app_stats (\<lambda>s. s\<lparr>as_connect_failures := as_connect_failures s + 1\<rparr>)) w in do {
       (_, w) \<leftarrow> MqttClient_Disconnect ad w;
       Some (upd_app (enter_backoff (mq_now w)) w)
     }
     else if ms = MQTT_STATE_DISCONNECTED \<and> st \<noteq> MQTT_APP_CONNECTING
     then Some (upd_app (enter_backoff (mq_now w) \<circ> set_disconnected) w)
     else Some w
   }"

definition run_online ::
  "'a NetworkTransportAdapter \<Rightarrow> 'a mqtt_app \<Rightarrow> 'a mqtt_app option" where
  "run_online ad w = do {
     (st, w) \<leftarrow> app_client_run ad w;
     let ms = MqttClient_GetState (Some (mq_c w)) in
     if ms = MQTT_STATE_ERROR \<or> st = MQTT_TRANSPORT_ERROR \<or> st = MQTT_PROTOCOL_ERROR \<or> st = MQTT_TIMEOUT
     then let w = upd_app (upd_app_stats (\<lambda>s. s\<lparr>as_connect_failures := as_connect_failures s + 1\<rparr>)) w in do {
       (_, w) \<leftarrow> MqttClient_Disconnect ad w;
       Some (upd_app (enter_backoff (mq_now w) \<circ> set_disconnected) w)
     }
     else if ms = MQTT_STATE_DISCONNECTED
     then Some (upd_app (enter_backoff (mq_now w) \<circ> set_disconnected) w)
     else Some w
   }"

definition run_backoff :: "'a mqtt_app \<Rightarrow> 'a mqtt_app" where
  "run_backoff w =
     (let now = mq_now w; till = ma_backoff_until_ms (the_app w) in
      if elapsed now till 0 \<and> now - till < 0x80000000
      then upd_app (\<lambda>app. app\<lparr>ma_state := MQTT_APP_DISCONNECTED\<rparr>) w
      else w)"

definition MqttApp_Run ::
  "'a NetworkTransportAdapter \<Rightarrow> 'a mqtt_app \<Rightarrow> (bool \<times> 'a mqtt_app) option" where
  "MqttApp_Run ad w =
     (if elapsed (mq_now w) (ma_last_tick_ms (the_app w)) MQTT_APP_POLL_PERIOD_MS = False then Some (False, w)
      else let w = upd_app (\<lambda>app. app\<lparr>ma_last_tick_ms := mq_now w\<rparr>) w in
      if \<not> ma_adapter (the_app w) \<or> \<not> ma_topics_built (the_app w)
      then Some (False, upd_app (\<lambda>app. app\<lparr>ma_state := MQTT_APP_DISABLED\<rparr>) w)
      else do {
        w \<leftarrow> (case ma_state (the_app w) of
                MQTT_APP_DISABLED \<Rightarrow> run_disconnected ad w
              | MQTT_APP_DISCONNECTED \<Rightarrow> run_disconnected ad w
              | MQTT_APP_CONNECTING \<Rightarrow> run_handshake ad w
              | MQTT_APP_MQTT_CONNECTING \<Rightarrow> run_handshake ad w
              | MQTT_APP_SUBSCRIBING \<Rightarrow> run_handshake ad w
              | MQTT_APP_ONLINE \<Rightarrow> run_online ad w
              | MQTT_APP_BACKOFF \<Rightarrow> Some (run_backoff w));
        Some (True, w)
      })"

section \<open>Publishing\<close>

text \<open>\<open>None\<close> is a NULL payload.\<close>

definition MqttApp_PublishTelemetry :: "bytes option \<Rightarrow> 'a mqtt_app \<Rightarrow> 'a mqtt_app option" where
  "MqttApp_PublishTelemetry payload w =
     (if payload = None then Some w
      else let w = upd_app (upd_app_stats (\<lambda>s. s\<lparr>as_telemetry_publish_attempts :=
             as_telemetry_publish_attempts s + 1\<rparr>)) w in
      if \<not> ma_adapter (the_app w) \<or> ma_state (the_app w) \<noteq> MQTT_APP_ONLINE then Some w
      else do {
        (st, c) \<leftarrow> MqttClient_PublishQos0 (mq_now w) (mq_c w) (Some (ma_topic_telemetry (the_app w))) payload False;
        let w = w\<lparr>mq_c := c\<rparr> in
        Some (if st = MQTT_OK \<or> st = MQTT_BUSY
              then upd_app (upd_app_stats (\<lambda>s. s\<lparr>as_telemetry_publish_accepted :=
                     as_telemetry_publish_accepted s + 1\<rparr>)) w
              else w)
      })"

definition MqttApp_PublishResponse :: "bytes option \<Rightarrow> 'a mqtt_app \<Rightarrow> 'a mqtt_app option" where
  "MqttApp_PublishResponse payload w =
     (if payload = None then Some w
      else if \<not> ma_adapter (the_app w) \<or> ma_state (the_app w) \<noteq> MQTT_APP_ONLINE then Some w
      else do {
        (st, c) \<leftarrow> MqttClient_PublishQos1 (mq_now w) (mq_c w) (Some (ma_topic_response (the_app w))) payload;
        let w = w\<lparr>mq_c := c\<rparr> in
        Some (if st = MQTT_OK
              then upd_app (upd_app_stats (\<lambda>s. s\<lparr>as_command_responses_published :=
                     as_command_responses_published s + 1\<rparr>)) w
              else if st = MQTT_BUSY
              then upd_app (upd_app_stats (\<lambda>s. s\<lparr>as_command_responses_busy_rejected :=
                     as_command_responses_busy_rejected s + 1\<rparr>)) w
              else w)
      })"

text \<open>The bridge the command module sends its replies over.\<close>

definition MqttApp_PortSend :: "bytes option \<Rightarrow> 'a mqtt_app \<Rightarrow> (CommunicationStatus \<times> 'a mqtt_app) option" where
  "MqttApp_PortSend data w =
     (if data = None then Some (COMM_STATUS_INVALID_ARG, w)
      else do { w \<leftarrow> MqttApp_PublishResponse data w; Some (COMM_STATUS_OK, w) })"

definition MqttApp_PortReady :: "MqttApp option \<Rightarrow> bool" where
  "MqttApp_PortReady app = (case app of Some a \<Rightarrow> ma_state a = MQTT_APP_ONLINE | None \<Rightarrow> False)"

definition MqttApp_GetState :: "MqttApp option \<Rightarrow> MqttAppState" where
  "MqttApp_GetState app = (case app of Some a \<Rightarrow> ma_state a | None \<Rightarrow> MQTT_APP_DISABLED)"

definition MqttApp_GetStats :: "MqttApp \<Rightarrow> MqttAppStats" where
  "MqttApp_GetStats app = ma_stats app"

end
