(* ===== verification/Mqtt_Client_Frame.thy ===== *)
theory Mqtt_Client_Frame
  imports Mqtt_Client_Ingest
begin

text \<open>
  The inbound loop as an interface: what is kept by a read into the receive buffer, by the
  parser, by the end of a connection and by the handlers is kept by \<open>Ingest\<close>.
\<close>

locale ingest_invariant =
  fixes ad :: "'a NetworkTransportAdapter"
    and cb :: "'x publish_cb"
    and P :: "('a, 'x) mqtt \<Rightarrow> bool"
  assumes received: "P w \<Longrightarrow> P (w\<lparr>mq_t := t, mq_c := (mq_c w)\<lparr>mc_rx_buf := b\<rparr>\<rparr>)"
    and parsed: "P w \<Longrightarrow> P (w\<lparr>mq_c := (mq_c w)\<lparr>mc_rx_len := l, mc_rx_fixed_len := f,
      mc_rx_type := ty, mc_rx_flags := fl, mc_rx_total := to\<rparr>\<rparr>)"
    and failed: "P w \<Longrightarrow> P (fail_connection ad r w)"
    and oversized: "P w \<Longrightarrow> P (upd_c (upd_stats (\<lambda>s. s\<lparr>st_oversized_packets := st_oversized_packets s + 1\<rparr>)) w)"
    and dispatched: "DispatchPacket ad cb w = Some (s, w') \<Longrightarrow> P w \<Longrightarrow> P w'"
begin

fun kept :: "('a, 'x) mqtt outcome \<Rightarrow> bool" where
  "kept (Return s w) = P w"
| "kept (Continue w) = P w"
| "kept (Fall w) = P w"

lemma len_kept: "P w \<Longrightarrow> P (w\<lparr>mq_c := (mq_c w)\<lparr>mc_rx_len := l\<rparr>\<rparr>)"
  using parsed[where w = w and l = l and to = "mc_rx_total (mq_c w)" and f = "mc_rx_fixed_len (mq_c w)"
      and ty = "mc_rx_type (mq_c w)" and fl = "mc_rx_flags (mq_c w)"]
  by simp

lemma len_upd_kept: "P w \<Longrightarrow> P (upd_c (\<lambda>c. c\<lparr>mc_rx_len := h c\<rparr>) w)"
  using len_kept by (simp add: upd_c_def)

lemma reset_kept: "P w \<Longrightarrow> P (upd_c reset_parser w)"
proof -
  have "reset_parser c = c\<lparr>mc_rx_len := 0, mc_rx_fixed_len := 0, mc_rx_type := 0, mc_rx_flags := 0, mc_rx_total := 0\<rparr>" for c
    by (rule MqttClient.equality) (simp_all add: reset_parser_def)
  then show "P w \<Longrightarrow> P (upd_c reset_parser w)" using parsed by (simp add: upd_c_def)
qed

lemma TryParse_kept:
  assumes "TryParseHeader ((mq_c w)\<lparr>mc_rx_len := l\<rparr>) = (rs, c')" "P w"
  shows "P (w\<lparr>mq_c := c'\<rparr>)"
  using assms(1) parsed[OF assms(2)] len_kept[OF assms(2)]
  by (auto simp: TryParseHeader_def Let_def split: prod.splits if_splits)

lemma receive_into_kept: "receive_into off want w = Some (ns, k, w') \<Longrightarrow> P w \<Longrightarrow> P w'"
  using received by (auto simp: receive_into_def bind_eq_Some_conv split: prod.splits)

lemma after_receive_kept:
  assumes "after_receive ad (ns, k, w) f = Some r" "P w" "\<And>r. f k w = Some r \<Longrightarrow> kept r"
  shows "kept r"
  using assms failed by (auto simp: after_receive_def split: if_splits)

lemma header_verdict_kept: "P w \<Longrightarrow> kept (header_verdict ad rs w)"
  using failed oversized by (simp add: header_verdict_def)

lemma ingest_parse_kept:
  assumes "ingest_parse ad w = Some r" "P w"
  shows "kept r"
proof -
  obtain rs c where p: "TryParseHeader (mq_c w) = (rs, c)" by fastforce
  have c: "P (w\<lparr>mq_c := c\<rparr>)" using TryParse_kept[where w = w and l = "mc_rx_len (mq_c w)"] p assms(2) by simp
  show ?thesis
  proof (cases "rs = MQTT_CODEC_WOULD_BLOCK")
    case False
    then show ?thesis using assms(1) p c by (auto simp: ingest_parse_def Let_def header_verdict_kept)
  next
    case True
    let ?k = "\<lambda>got w. case TryParseHeader ((mq_c w)\<lparr>mc_rx_len := mc_rx_len (mq_c w) + got\<rparr>) of (rs, c) \<Rightarrow>
          let w = w\<lparr>mq_c := c\<rparr> in
          if rs = MQTT_CODEC_WOULD_BLOCK then Some (Continue w) else Some (header_verdict ad rs w)"
    obtain ns k w1 where ri: "receive_into (mc_rx_len c) (MQTT_FIXED_HEADER_MAX - mc_rx_len c) (w\<lparr>mq_c := c\<rparr>)
        = Some (ns, k, w1)" and ar: "after_receive ad (ns, k, w1) ?k = Some r"
      using assms(1) p True by (auto simp: ingest_parse_def Let_def bind_eq_Some_conv)
    have w1: "P w1" using receive_into_kept[OF ri c] .
    show ?thesis
    proof (rule after_receive_kept[OF ar w1])
      fix r assume f: "?k k w1 = Some r"
      obtain rs2 c2 where p2: "TryParseHeader ((mq_c w1)\<lparr>mc_rx_len := mc_rx_len (mq_c w1) + k\<rparr>) = (rs2, c2)"
        by fastforce
      show "kept r"
        using f p2 TryParse_kept[OF p2 w1] by (auto simp: Let_def header_verdict_kept split: if_splits)
    qed
  qed
qed

lemma ingest_header_kept:
  assumes "ingest_header ad w = Some r" "P w"
  shows "kept r"
proof (cases "mc_rx_len (mq_c w) = 0")
  case False
  then show ?thesis using assms ingest_parse_kept by (auto simp: ingest_header_def split: if_splits)
next
  case True
  obtain ns k w1 where ri: "receive_into 0 MQTT_FIXED_HEADER_MAX w = Some (ns, k, w1)"
      and ar: "after_receive ad (ns, k, w1) (\<lambda>got w. ingest_parse ad (upd_c (\<lambda>c. c\<lparr>mc_rx_len := got\<rparr>) w)) = Some r"
    using assms(1) True by (auto simp: ingest_header_def bind_eq_Some_conv)
  note w1 = receive_into_kept[OF ri assms(2)]
  show ?thesis
    by (rule after_receive_kept[OF ar w1]) (erule ingest_parse_kept[OF _ len_upd_kept[OF w1]])
qed

lemma ingest_body_kept:
  assumes "ingest_body ad w = Some r" "P w"
  shows "kept r"
proof (cases "mc_rx_len (mq_c w) < mc_rx_total (mq_c w)")
  case False
  then show ?thesis using assms by (auto simp: ingest_body_def Let_def)
next
  case True
  let ?k = "\<lambda>got w. let w = upd_c (\<lambda>c. c\<lparr>mc_rx_len := mc_rx_len c + got\<rparr>) w in
          if mc_rx_len (mq_c w) < mc_rx_total (mq_c w) then Some (Return MQTT_WOULD_BLOCK w) else Some (Fall w)"
  obtain ns k w1 where ri: "receive_into (mc_rx_len (mq_c w)) (mc_rx_total (mq_c w) - mc_rx_len (mq_c w)) w = Some (ns, k, w1)"
      and ar: "after_receive ad (ns, k, w1) ?k = Some r"
    using assms(1) True by (auto simp: ingest_body_def Let_def bind_eq_Some_conv)
  note w1 = len_upd_kept[OF receive_into_kept[OF ri assms(2)], of "\<lambda>c. mc_rx_len c + k"]
  show ?thesis
    by (rule after_receive_kept[OF ar receive_into_kept[OF ri assms(2)]])
      (use w1 in \<open>auto simp: Let_def split: if_splits\<close>)
qed

lemma ingest_dispatch_kept: "ingest_dispatch ad cb w = Some r \<Longrightarrow> P w \<Longrightarrow> kept r"
  using dispatched failed reset_kept by (auto simp: ingest_dispatch_def bind_eq_Some_conv)

lemma on_fall_kept:
  "on_fall k r = Some r' \<Longrightarrow> kept r \<Longrightarrow> (\<And>w r. k w = Some r \<Longrightarrow> P w \<Longrightarrow> kept r) \<Longrightarrow> kept r'"
  by (cases r) (auto simp: on_fall_def)

lemma Ingest_loop_kept: "Ingest_loop ad cb p w = Some (s, w') \<Longrightarrow> P w \<Longrightarrow> P w'"
proof (induction p arbitrary: w)
  case (Suc p)
  obtain r1 r2 r3 where r: "ingest_header ad w = Some r1" "on_fall (ingest_body ad) r1 = Some r2"
      "on_fall (ingest_dispatch ad cb) r2 = Some r3"
      "(case r3 of Return s w \<Rightarrow> Some (s, w) | Continue w \<Rightarrow> Ingest_loop ad cb p w
        | Fall w \<Rightarrow> Ingest_loop ad cb p w) = Some (s, w')"
    using Suc.prems(1) by (auto simp: bind_eq_Some_conv)
  have "kept r1" using ingest_header_kept r(1) Suc.prems(2) by blast
  then have "kept r2" using on_fall_kept[OF r(2)] ingest_body_kept by blast
  then have "kept r3" using on_fall_kept[OF r(3)] ingest_dispatch_kept by blast
  then show ?case using r(4) Suc.IH by (cases r3) auto
qed simp

lemma Ingest_kept: "Ingest ad cb w = Some (s, w') \<Longrightarrow> P w \<Longrightarrow> P w'"
  unfolding Ingest_def by (rule Ingest_loop_kept)

end

section \<open>The state of the callback\<close>

text \<open>
  A property of the callback's state that the callback keeps is kept by \<open>Ingest\<close>, and the tick
  of the call does not change.
\<close>

definition callback_keeps :: "'x publish_cb \<Rightarrow> ('x \<Rightarrow> bool) \<Rightarrow> bool" where
  "callback_keeps cb Q \<longleftrightarrow> (case cb of None \<Rightarrow> True | Some f \<Rightarrow> \<forall>c x p. Q x \<longrightarrow> Q (snd (f c x p)))"

definition context_ok :: "'x publish_cb \<Rightarrow> ('x \<Rightarrow> bool) \<Rightarrow> u32 \<Rightarrow> ('a, 'x) mqtt \<Rightarrow> bool" where
  "context_ok cb Q now w \<longleftrightarrow> mq_now w = now \<and> (callback_keeps cb Q \<longrightarrow> Q (mq_x w))"

lemma context_fields [simp]:
  "context_ok cb Q now (w\<lparr>mq_c := c\<rparr>) = context_ok cb Q now w"
  "context_ok cb Q now (w\<lparr>mq_t := t\<rparr>) = context_ok cb Q now w"
  "context_ok cb Q now (w\<lparr>mq_a := a\<rparr>) = context_ok cb Q now w"
  "context_ok cb Q now (upd_c f w) = context_ok cb Q now w"
  "context_ok cb Q now (CloseTransport ad w) = context_ok cb Q now w"
  "context_ok cb Q now (fail_connection ad r w) = context_ok cb Q now w"
  by (simp_all add: context_ok_def upd_c_def CloseTransport_def fail_connection_def case_prod_beta)

lemma Publish_context:
  assumes "HandleInboundPublish cb w = Some (s, w')" "context_ok cb Q now w"
  shows "context_ok cb Q now w'"
  using assms
  by (auto simp: HandleInboundPublish_def Let_def context_ok_def callback_keeps_def bind_eq_Some_conv
      split: prod.splits if_splits option.splits) (metis snd_conv)+

lemma Dispatch_context:
  assumes "DispatchPacket ad cb w = Some (s, w')" "context_ok cb Q now w"
  shows "context_ok cb Q now w'"
  using assms(1) unfolding DispatchPacket_def Let_def
proof (elim if_someE, goal_cases)
  case 3
  then show ?case using assms(2) by (auto simp: HandleConnack_def Let_def split: prod.splits if_splits)
next
  case 4
  then show ?case using Publish_context assms(2) by blast
qed (use assms(2) in \<open>auto split: prod.splits\<close>)

interpretation callback_context: ingest_invariant ad cb "context_ok cb Q now" for ad cb Q now
  by unfold_locales (simp_all add: Dispatch_context)


lemma Drain_context: "MqttClient_DrainTx ad w = (s, w') \<Longrightarrow> context_ok cb Q now w \<Longrightarrow> context_ok cb Q now w'"
  by (auto simp: MqttClient_DrainTx_def Let_def split: prod.splits if_splits)

lemma Keepalive_context:
  "RunKeepalive ad w = Some (s, w') \<Longrightarrow> context_ok cb Q now w \<Longrightarrow> context_ok cb Q now w'"
  by (auto simp: RunKeepalive_def Let_def bind_eq_Some_conv split: if_splits)

lemma wait_connack_context:
  assumes "run_wait_connack ad cb w = Some (s, w')" "context_ok cb Q now w"
  shows "context_ok cb Q now w'"
  using assms callback_context.Ingest_kept[of ad cb w _ _ Q now]
  by (auto simp: run_wait_connack_def Let_def bind_eq_Some_conv split: if_splits)

lemma connected_context:
  assumes "run_connected ad cb w = Some (s, w')" "context_ok cb Q now w"
  shows "context_ok cb Q now w'"
proof -
  obtain r where f: "flush_ack w = Some r" using assms(1) by (auto simp: run_connected_def bind_eq_Some_conv)
  consider w1 where "r = Fall w1" "context_ok cb Q now w1"
    | s1 w1 where "r = Return s1 w1" "context_ok cb Q now w1"
    using f assms(2) by (auto simp: flush_ack_def Let_def bind_eq_Some_conv split: if_splits)
  then show ?thesis
  proof cases
    case 1
    obtain st1 w2 where i: "Ingest ad cb w1 = Some (st1, w2)"
      and k: "(if st1 \<noteq> MQTT_WOULD_BLOCK \<and> st1 \<noteq> MQTT_OK then Some (st1, w2) else do {
            (ks, w) \<leftarrow> RunKeepalive ad w2; Some (if ks \<noteq> MQTT_OK then (ks, w) else (MQTT_OK, w)) }) = Some (s, w')"
      using assms(1) f 1(1) by (auto simp: run_connected_def bind_eq_Some_conv)
    have "context_ok cb Q now w2" using callback_context.Ingest_kept[OF i 1(2)] .
    then show ?thesis using k Keepalive_context by (auto simp: bind_eq_Some_conv split: if_splits)
  qed (use assms(1) f in \<open>auto simp: run_connected_def\<close>)
qed

lemma disconnecting_context:
  "run_disconnecting ad w = (s, w') \<Longrightarrow> context_ok cb Q now w \<Longrightarrow> context_ok cb Q now w'"
  using Drain_context[of ad w _ _ cb Q now] by (auto simp: run_disconnecting_def split: prod.splits if_splits)

lemma Run_context:
  assumes "MqttClient_Run ad cb w = Some (s, w')" "context_ok cb Q now w"
  shows "context_ok cb Q now w'"
proof -
  obtain nr a t where n: "NetworkTransport_Run ad (mq_now w) (mq_a w) (mq_t w) = (nr, a, t)" by (metis prod_cases3)
  let ?w = "w\<lparr>mq_a := a, mq_t := t\<rparr>"
  have w: "context_ok cb Q now ?w" using assms(2) by simp
  show ?thesis
  proof (cases "nr = NET_TRANSPORT_ERROR")
    case True
    then show ?thesis using assms w n by (auto simp: MqttClient_Run_def)
  next
    case False
    obtain r where c: "run_connecting ad nr ?w = Some r"
      using assms(1) n False by (auto simp: MqttClient_Run_def bind_eq_Some_conv)
    consider w1 where "r = Fall w1" "context_ok cb Q now w1"
      | s1 w1 where "r = Return s1 w1" "context_ok cb Q now w1"
      using c w by (auto simp: run_connecting_def Let_def bind_eq_Some_conv split: if_splits)
    then show ?thesis
    proof cases
      case (1 w1)
      obtain ds w2 where d: "MqttClient_DrainTx ad w1 = (ds, w2)" by fastforce
      note w2 = Drain_context[OF d 1(2)]
      show ?thesis
        using assms(1) n False c 1 d w2 wait_connack_context[of ad cb w2] connected_context[of ad cb w2]
          disconnecting_context[of ad w2]
        by (cases "ds = MQTT_OK"; cases "mc_state (mq_c w2)") (auto simp: MqttClient_Run_def)
    qed (use assms(1) n False c in \<open>auto simp: MqttClient_Run_def\<close>)
  qed
qed

lemma Disconnect_context:
  "MqttClient_Disconnect ad w = Some (s, w') \<Longrightarrow> context_ok cb Q now w \<Longrightarrow> context_ok cb Q now w'"
  by (auto simp: MqttClient_Disconnect_def Let_def bind_eq_Some_conv split: if_splits)

lemma Connect_context:
  "MqttClient_Connect ad w = (s, w') \<Longrightarrow> context_ok cb Q now w \<Longrightarrow> context_ok cb Q now w'"
  by (auto simp: MqttClient_Connect_def Let_def split: prod.splits if_splits)

end
