(* ===== verification/Mqtt_Client_States.thy ===== *)
theory Mqtt_Client_States
  imports Mqtt_Client_Props Mqtt_Client_Frame
begin
text \<open>
  What a call of \<open>MqttClient_Run\<close> can do to the state of the client: a reported error leaves it
  in \<open>MQTT_STATE_ERROR\<close>, and a client that has begun to connect never falls back to
  \<open>MQTT_STATE_DISCONNECTED\<close> by itself. And what it does to the outbound slot: once an
  acknowledgement is owed, the slot stays taken until the call ends.
\<close>

section \<open>Errors end in the error state\<close>

definition progress :: "MqttStatus \<Rightarrow> bool" where
  "progress s \<longleftrightarrow> s = MQTT_OK \<or> s = MQTT_WOULD_BLOCK"

fun ended :: "('a, 'x) mqtt outcome \<Rightarrow> bool" where
  "ended (Return s w) = (progress s \<or> mc_state (mq_c w) = MQTT_STATE_ERROR)"
| "ended _ = True"

lemma fail_state [simp]: "mc_state (mq_c (fail_connection ad r w)) = MQTT_STATE_ERROR"
  by (simp add: fail_connection_def MqttClient_EnterError_def ResetConnectionEpoch_def Let_def)

lemma after_receive_ended:
  assumes "after_receive ad res k = Some r" "\<And>n w r. k n w = Some r \<Longrightarrow> ended r"
  shows "ended r"
  using assms by (auto simp: after_receive_def progress_def split: prod.splits if_splits)

lemma header_verdict_ended: "ended (header_verdict ad rs w)"
  by (simp add: header_verdict_def)

lemma ingest_parse_ended: "ingest_parse ad w = Some r \<Longrightarrow> ended r"
  by (auto simp: ingest_parse_def Let_def bind_eq_Some_conv header_verdict_ended
      elim!: after_receive_ended split: prod.splits if_splits)

lemma ingest_header_ended: "ingest_header ad w = Some r \<Longrightarrow> ended r"
  by (auto simp: ingest_header_def bind_eq_Some_conv intro: ingest_parse_ended
      elim!: after_receive_ended split: if_splits)

lemma ingest_body_ended: "ingest_body ad w = Some r \<Longrightarrow> ended r"
  by (auto simp: ingest_body_def Let_def bind_eq_Some_conv progress_def
      elim!: after_receive_ended split: if_splits)

lemma Dispatch_status:
  assumes "DispatchPacket ad cb w = Some (s, w')"
  shows "s = MQTT_OK \<or> s = MQTT_PROTOCOL_ERROR \<or> mc_state (mq_c w') = MQTT_STATE_ERROR"
  using assms unfolding DispatchPacket_def Let_def
proof (elim if_someE, goal_cases)
  case 3
  then show ?case by (auto simp: HandleConnack_def Let_def split: prod.splits if_splits)
next
  case 4
  then show ?case
    by (auto simp: HandleInboundPublish_def Let_def bind_eq_Some_conv split: prod.splits if_splits)
next
  case 6
  then show ?case by (auto simp: HandlePuback_def Let_def split: prod.splits if_splits)
next
  case 8
  then show ?case by (auto simp: HandleSuback_def Let_def split: prod.splits if_splits)
next
  case 10
  then show ?case by (auto simp: HandlePingresp_def Let_def split: prod.splits if_splits)
qed auto

lemma ingest_dispatch_ended: "ingest_dispatch ad cb w = Some r \<Longrightarrow> ended r"
  using Dispatch_status by (fastforce simp: ingest_dispatch_def bind_eq_Some_conv)

lemma on_fall_ended:
  "on_fall k r = Some r' \<Longrightarrow> ended r \<Longrightarrow> (\<And>w r. k w = Some r \<Longrightarrow> ended r) \<Longrightarrow> ended r'"
  by (cases r) (auto simp: on_fall_def)

lemma Ingest_loop_error:
  "Ingest_loop ad cb p w = Some (s, w') \<Longrightarrow> progress s \<or> mc_state (mq_c w') = MQTT_STATE_ERROR"
proof (induction p arbitrary: w)
  case 0
  then show ?case by (simp add: progress_def)
next
  case (Suc p)
  then obtain r1 r2 r3 where r: "ingest_header ad w = Some r1" "on_fall (ingest_body ad) r1 = Some r2"
      "on_fall (ingest_dispatch ad cb) r2 = Some r3"
      "(case r3 of Return s w \<Rightarrow> Some (s, w) | Continue w \<Rightarrow> Ingest_loop ad cb p w
        | Fall w \<Rightarrow> Ingest_loop ad cb p w) = Some (s, w')"
    by (auto simp: bind_eq_Some_conv)
  have "ended r3"
    using on_fall_ended[OF r(3) on_fall_ended[OF r(2) ingest_header_ended[OF r(1)]]]
      ingest_body_ended ingest_dispatch_ended by blast
  then show ?case using r(4) Suc.IH by (cases r3) auto
qed

lemma Ingest_error: "Ingest ad cb w = Some (s, w') \<Longrightarrow> progress s \<or> mc_state (mq_c w') = MQTT_STATE_ERROR"
  unfolding Ingest_def by (rule Ingest_loop_error)

lemma Puback_encoded: "MqttCodec_EncodePuback (replicate 4 0) 4 i = Some (n, pkt) \<Longrightarrow> i \<noteq> 0 \<Longrightarrow> n = 4"
  by (auto simp: MqttCodec_EncodePuback_def bind_eq_Some_conv split: if_splits)

lemma Pingreq_encoded: "MqttCodec_EncodePingreq (replicate 2 0) 2 = Some (n, pkt) \<Longrightarrow> n = 2"
  by (auto simp: MqttCodec_EncodePingreq_def bind_eq_Some_conv split: if_splits)

text \<open>A client that has begun to connect and has not been told to disconnect.\<close>

definition begun :: "MqttClient \<Rightarrow> bool" where
  "begun c \<longleftrightarrow> mc_state c \<in> {MQTT_STATE_CONNECTING_TRANSPORT, MQTT_STATE_WAIT_CONNACK,
     MQTT_STATE_CONNECTED, MQTT_STATE_ERROR}"

lemma begun_error: "mc_state c = MQTT_STATE_ERROR \<Longrightarrow> begun c"
  by (simp add: begun_def)

text \<open>After a call: the client is still begun, and an error is in its state.\<close>

definition still_begun :: "MqttStatus \<Rightarrow> MqttClient \<Rightarrow> bool" where
  "still_begun s c \<longleftrightarrow> begun c \<and> (progress s \<or> s = MQTT_IN_PROGRESS \<or> mc_state c = MQTT_STATE_ERROR)"

lemma Ingest_begun:
  assumes "Ingest ad cb w = Some (s, w')" "mqtt_inv (mq_c w)" "live b (mq_c w)"
  shows "still_begun s (mq_c w')" "progress s \<Longrightarrow> live b (mq_c w')"
proof -
  have h: "handled b s (mq_c w')"
    using assms Ingest_loop_handled unfolding Ingest_def by blast
  then show "progress s \<Longrightarrow> live b (mq_c w')" by (simp add: handled_def progress_def)
  then show "still_begun s (mq_c w')"
    using Ingest_error[OF assms(1)] by (auto simp: still_begun_def begun_def live_def)
qed

lemma wait_connack_begun:
  assumes "run_wait_connack ad cb w = Some (s, w')" "mqtt_inv (mq_c w)" "mc_state (mq_c w) = MQTT_STATE_WAIT_CONNACK"
  shows "still_begun s (mq_c w')"
  using assms(1) unfolding run_wait_connack_def Let_def
proof (elim if_someE, goal_cases)
  case 3
  then obtain st1 w1 where i: "Ingest ad cb w = Some (st1, w1)"
      "(s, w') = (if st1 \<noteq> MQTT_WOULD_BLOCK \<and> st1 \<noteq> MQTT_OK then (st1, w1) else (MQTT_OK, w1))"
    by (auto simp: bind_eq_Some_conv)
  then show ?case
    using Ingest_begun[OF i(1) assms(2), of False] assms(3) by (auto simp: still_begun_def progress_def split: if_splits)
qed (auto simp: still_begun_def begun_error)

lemma flush_ack_begun:
  assumes "flush_ack w = Some r" "mqtt_inv (mq_c w)" "mc_state (mq_c w) = MQTT_STATE_CONNECTED"
  obtains w1 where "r = Fall w1" "mqtt_inv (mq_c w1)" "mc_state (mq_c w1) = MQTT_STATE_CONNECTED"
    "mq_a w1 = mq_a w" "mq_x w1 = mq_x w" "mq_now w1 = mq_now w"
proof -
  have id: "mc_ack_pending (mq_c w) \<Longrightarrow> mc_ack_pending_id (mq_c w) \<noteq> 0"
    using assms(2) by (simp add: mqtt_inv_def client_ids_def)
  note flush_ack_good[OF assms]
  moreover have "\<exists>w1. r = Fall w1 \<and> mq_a w1 = mq_a w \<and> mq_x w1 = mq_x w \<and> mq_now w1 = mq_now w"
    using assms(1) id Puback_encoded[of "mc_ack_pending_id (mq_c w)"]
    by (fastforce simp: flush_ack_def Let_def bind_eq_Some_conv split: if_splits)
  ultimately show ?thesis using that by auto
qed

lemma Keepalive_begun:
  assumes "RunKeepalive ad w = Some (s, w')" "mc_state (mq_c w) = MQTT_STATE_CONNECTED"
  shows "still_begun s (mq_c w')"
  using assms Pingreq_encoded
  by (auto simp: RunKeepalive_def Let_def bind_eq_Some_conv still_begun_def begun_def progress_def
      StartTx_def split: if_splits option.splits)

lemma connected_begun:
  assumes "run_connected ad cb w = Some (s, w')" "mqtt_inv (mq_c w)" "mc_state (mq_c w) = MQTT_STATE_CONNECTED"
  shows "still_begun s (mq_c w')"
proof -
  obtain r where f: "flush_ack w = Some r" using assms(1) by (auto simp: run_connected_def bind_eq_Some_conv)
  obtain w1 where w1: "r = Fall w1" "mqtt_inv (mq_c w1)" "mc_state (mq_c w1) = MQTT_STATE_CONNECTED"
    using flush_ack_begun[OF f assms(2,3)] .
  obtain st1 w2 where i: "Ingest ad cb w1 = Some (st1, w2)"
    and k: "(if st1 \<noteq> MQTT_WOULD_BLOCK \<and> st1 \<noteq> MQTT_OK then Some (st1, w2) else do {
            (ks, w) \<leftarrow> RunKeepalive ad w2; Some (if ks \<noteq> MQTT_OK then (ks, w) else (MQTT_OK, w)) }) = Some (s, w')"
    using assms(1) f w1(1) by (auto simp: run_connected_def bind_eq_Some_conv)
  note ib = Ingest_begun[OF i w1(2), of True]
  show ?thesis
  proof (cases "progress st1")
    case False
    then show ?thesis using k ib(1) w1(3) by (auto simp: progress_def)
  next
    case True
    then have "mc_state (mq_c w2) = MQTT_STATE_CONNECTED" using ib(2) w1(3) by (simp add: live_def)
    then show ?thesis
      using k True Keepalive_begun[of ad w2] by (auto simp: progress_def bind_eq_Some_conv split: if_splits)
  qed
qed

lemma Drain_state:
  assumes "MqttClient_DrainTx ad w = (s, w')"
  shows "s = MQTT_OK \<Longrightarrow> mc_state (mq_c w') = mc_state (mq_c w) \<or> mc_state (mq_c w') = MQTT_STATE_WAIT_CONNACK"
    "s \<noteq> MQTT_OK \<Longrightarrow> mc_state (mq_c w') = MQTT_STATE_ERROR"
  using assms
  by (auto simp: MqttClient_DrainTx_def Let_def tx_complete_def split: prod.splits if_splits TxKind.splits)

lemma Run_begun:
  assumes "MqttClient_Run ad cb w = Some (s, w')" "mqtt_inv (mq_c w)" "begun (mq_c w)"
  shows "still_begun s (mq_c w')"
proof -
  obtain nr a t where n: "NetworkTransport_Run ad (mq_now w) (mq_a w) (mq_t w) = (nr, a, t)" by (metis prod_cases3)
  let ?w = "w\<lparr>mq_a := a, mq_t := t\<rparr>"
  have iw: "mqtt_inv (mq_c ?w)" using assms(2) by simp
  show ?thesis
  proof (cases "nr = NET_TRANSPORT_ERROR")
    case True
    then show ?thesis using assms n by (auto simp: MqttClient_Run_def still_begun_def begun_error)
  next
    case False
    obtain r where c: "run_connecting ad nr ?w = Some r"
      using assms(1) n False by (auto simp: MqttClient_Run_def bind_eq_Some_conv)
    note cg = inv_connecting[OF c iw]
    show ?thesis
    proof (cases r)
      case (Fall w1)
      have b1: "mc_state (mq_c w1) \<in> {MQTT_STATE_WAIT_CONNACK, MQTT_STATE_CONNECTED, MQTT_STATE_ERROR}"
        using c Fall assms(3)
        by (auto simp: run_connecting_def begun_def bind_eq_Some_conv Let_def split: if_splits)
      obtain ds w2 where d: "MqttClient_DrainTx ad w1 = (ds, w2)" by fastforce
      have i2: "mqtt_inv (mq_c w2)" using inv_DrainTx[OF d] cg Fall by simp
      show ?thesis
        using assms(1) n False c Fall d i2 Drain_state[OF d] b1 wait_connack_begun[of ad cb w2] connected_begun[of ad cb w2]
        by (cases "ds = MQTT_OK"; cases "mc_state (mq_c w2)")
          (auto simp: MqttClient_Run_def still_begun_def begun_def progress_def)
    next
      case (Return s1 w1)
      then show ?thesis
        using assms n False c
        by (auto simp: MqttClient_Run_def run_connecting_def still_begun_def begun_def bind_eq_Some_conv Let_def
            split: if_splits)
    next
      case (Continue w1)
      then show ?thesis using c by (auto simp: run_connecting_def bind_eq_Some_conv Let_def split: if_splits)
    qed
  qed
qed

section \<open>What a call owes\<close>

text \<open>
  The outbound slot and acknowledgements: when a call of \<open>MqttClient_Run\<close> acknowledges an
  inbound publish, or defers the acknowledgement, the slot is taken when the call returns.
\<close>

text \<open>\<open>n\<close> is the number of acknowledgements started before the call.\<close>

definition owes :: "u32 \<Rightarrow> MqttClient \<Rightarrow> bool" where
  "owes n c \<longleftrightarrow> mc_tx_pending c \<or> mc_state c = MQTT_STATE_ERROR \<or>
     (st_puback_tx (mc_stats c) = n \<and> \<not> mc_ack_pending c)"

lemma owes_fail [simp]: "owes n (mq_c (fail_connection ad r w))"
  by (simp add: owes_def)

lemma owes_count_rx [simp]: "owes n (count_rx c) = owes n c"
  by (simp add: owes_def count_rx_def upd_stats_def)

lemma StartTx_pending: "StartTx c pkt n k = Some c' \<Longrightarrow> 0 < n \<Longrightarrow> mc_tx_pending c'"
  by (auto simp: StartTx_def bind_eq_Some_conv split: option.splits)

lemma Publish_owes:
  assumes "HandleInboundPublish cb w = Some (s, w')" "owes n (mq_c w)"
  shows "owes n (mq_c w')"
proof -
  let ?c = "mq_c w" and ?qos = "drop_bit 1 (mc_rx_flags (mq_c w)) AND 0x03"
  obtain rs p where d: "MqttCodec_DecodePublish (ucast ?qos) (mc_rx_flags ?c AND 0x01 \<noteq> 0)
      (mc_rx_flags ?c AND 0x08 \<noteq> 0) (rx_body ?c) = (rs, p)" by fastforce
  show ?thesis
  proof (cases "rs = MQTT_CODEC_OK")
    case False
    then show ?thesis using assms d by (simp add: HandleInboundPublish_def Let_def)
  next
    case True
    obtain ack x where a: "(case cb of Some f \<Rightarrow> f ?c (mq_x w) (the p) | None \<Rightarrow> (False, mq_x w)) = (ack, x)" by fastforce
    let ?w = "w\<lparr>mq_c := count_rx ?c, mq_x := x\<rparr>"
    have w: "owes n (mq_c ?w)" using assms(2) by simp
    show ?thesis
    proof (cases "?qos = 1 \<and> ack \<and> \<not> mc_tx_pending ?c")
      case False
      then show ?thesis
        using assms(1) d True a w
        by (auto simp: HandleInboundPublish_def Let_def owes_def count_rx_def upd_stats_def split: if_splits)
    next
      case q: True
      have i: "ip_packet_id (the p) \<noteq> 0" using DecodePublish_pid[OF d[unfolded True]] q by simp
      obtain k pkt where e: "MqttCodec_EncodePuback (replicate 4 0) 4 (ip_packet_id (the p)) = Some (k, pkt)"
        using assms(1) d True a q by (auto simp: HandleInboundPublish_def Let_def bind_eq_Some_conv count_rx_def)
      have k: "k = 4" using Puback_encoded[OF e i] .
      obtain c where "StartTx (count_rx ?c) (Some pkt) 4 TX_PUBACK = Some c"
          "w' = ?w\<lparr>mq_c := upd_stats (\<lambda>s. s\<lparr>st_puback_tx := st_puback_tx s + 1\<rparr>) c\<rparr>"
        using assms(1) d True a q e k by (auto simp: HandleInboundPublish_def Let_def bind_eq_Some_conv count_rx_def)
      then show ?thesis using StartTx_pending by (simp add: owes_def)
    qed
  qed
qed

lemma Dispatch_owes:
  assumes "DispatchPacket ad cb w = Some (s, w')" "owes n (mq_c w)"
  shows "owes n (mq_c w')"
  using assms(1) unfolding DispatchPacket_def Let_def
proof (elim if_someE, goal_cases)
  case 3
  then show ?case
    using assms(2) by (auto simp: HandleConnack_def Let_def owes_def count_rx_def upd_stats_def split: prod.splits if_splits)
next
  case 4
  then show ?case using Publish_owes assms(2) by blast
next
  case 6
  then show ?case using assms(2) by (auto simp: HandlePuback_def Let_def owes_def count_rx_def upd_stats_def split: prod.splits if_splits)
next
  case 8
  then show ?case using assms(2) by (auto simp: HandleSuback_def Let_def owes_def count_rx_def upd_stats_def split: prod.splits if_splits)
next
  case 10
  then show ?case using assms(2) by (auto simp: HandlePingresp_def Let_def owes_def count_rx_def upd_stats_def split: prod.splits if_splits)
qed (use assms(2) in auto)

interpretation owed: ingest_invariant ad cb "\<lambda>w. owes n (mq_c w)" for ad cb n
proof
  fix s and w w' :: "('a, 'b) mqtt"
  show "DispatchPacket ad cb w = Some (s, w') \<Longrightarrow> owes n (mq_c w) \<Longrightarrow> owes n (mq_c w')"
    by (rule Dispatch_owes)
qed (simp_all add: owes_def upd_c_def upd_stats_def)

lemma flush_ack_owes:
  assumes "flush_ack w = Some (Fall w')" "mqtt_inv (mq_c w)" "n = st_puback_tx (mc_stats (mq_c w))"
  shows "owes n (mq_c w')"
proof (cases "mc_ack_pending (mq_c w) \<and> \<not> mc_tx_pending (mq_c w)")
  case False
  then show ?thesis using assms by (auto simp: flush_ack_def Let_def owes_def)
next
  case True
  have id: "mc_ack_pending_id (mq_c w) \<noteq> 0" using assms(2) True by (simp add: mqtt_inv_def client_ids_def)
  obtain k pkt where e: "MqttCodec_EncodePuback (replicate 4 0) 4 (mc_ack_pending_id (mq_c w)) = Some (k, pkt)"
    using assms(1) True by (auto simp: flush_ack_def Let_def bind_eq_Some_conv)
  then obtain c where "StartTx (mq_c w) (Some pkt) 4 TX_PUBACK = Some c"
      "w' = w\<lparr>mq_c := (upd_stats (\<lambda>s. s\<lparr>st_puback_tx := st_puback_tx s + 1\<rparr>) c)\<lparr>mc_ack_pending := False\<rparr>\<rparr>"
    using assms(1) True Puback_encoded[OF e id] by (auto simp: flush_ack_def Let_def bind_eq_Some_conv)
  then show ?thesis using StartTx_pending by (simp add: owes_def)
qed

lemma Keepalive_owes:
  "RunKeepalive ad w = Some (s, w') \<Longrightarrow> owes n (mq_c w) \<Longrightarrow> owes n (mq_c w')"
  using Pingreq_encoded StartTx_pending
  by (fastforce simp: RunKeepalive_def Let_def bind_eq_Some_conv owes_def split: if_splits)

lemma Run_owes:
  assumes "MqttClient_Run ad cb w = Some (s, w')" "mqtt_inv (mq_c w)"
    and "mc_state (mq_c w) = MQTT_STATE_CONNECTED" "mc_tx_pending (mq_c w) \<Longrightarrow> mc_tx_kind (mq_c w) \<noteq> TX_CONNECT"
  shows "owes (st_puback_tx (mc_stats (mq_c w))) (mq_c w')"
proof -
  let ?n = "st_puback_tx (mc_stats (mq_c w))"
  obtain nr a t where n: "NetworkTransport_Run ad (mq_now w) (mq_a w) (mq_t w) = (nr, a, t)" by (metis prod_cases3)
  let ?w = "w\<lparr>mq_a := a, mq_t := t\<rparr>"
  obtain ds w2 where d: "MqttClient_DrainTx ad ?w = (ds, w2)" by fastforce
  have i2: "mqtt_inv (mq_c w2)" using inv_DrainTx[OF d] assms(2) by simp
  have w2: "ds = MQTT_OK \<Longrightarrow> mc_state (mq_c w2) = MQTT_STATE_CONNECTED \<and> st_puback_tx (mc_stats (mq_c w2)) = ?n"
    using d assms(3,4)
    by (auto simp: MqttClient_DrainTx_def Let_def tx_complete_def upd_stats_def split: prod.splits if_splits TxKind.splits)
  show ?thesis
  proof (cases "nr = NET_TRANSPORT_ERROR \<or> ds \<noteq> MQTT_OK")
    case True
    then show ?thesis
      using assms(1,3) n d Drain_state(2)[OF d]
      by (auto simp: MqttClient_Run_def run_connecting_def owes_def Let_def split: if_splits)
  next
    case False
    then have st: "mc_state (mq_c w2) = MQTT_STATE_CONNECTED" and n2: "?n = st_puback_tx (mc_stats (mq_c w2))"
      using w2 by simp_all
    have c: "run_connected ad cb w2 = Some (s, w')"
      using assms(1,3) n d False st by (simp add: MqttClient_Run_def run_connecting_def)
    obtain r where f: "flush_ack w2 = Some r" using c by (auto simp: run_connected_def bind_eq_Some_conv)
    obtain w3 where w3: "r = Fall w3" using flush_ack_begun[OF f i2 st] by metis
    obtain st1 w4 where i: "Ingest ad cb w3 = Some (st1, w4)"
      and k: "(if st1 \<noteq> MQTT_WOULD_BLOCK \<and> st1 \<noteq> MQTT_OK then Some (st1, w4) else do {
            (ks, w) \<leftarrow> RunKeepalive ad w4; Some (if ks \<noteq> MQTT_OK then (ks, w) else (MQTT_OK, w)) }) = Some (s, w')"
      using c f w3 by (auto simp: run_connected_def bind_eq_Some_conv)
    have "owes ?n (mq_c w3)" using flush_ack_owes[OF f[unfolded w3] i2 n2] .
    then have "owes ?n (mq_c w4)" using owed.Ingest_kept[OF i] by blast
    then show ?thesis using k Keepalive_owes by (fastforce simp: bind_eq_Some_conv split: if_splits)
  qed
qed

end
