(* ===== verification/Mqtt_App_Inv.thy ===== *)
theory Mqtt_App_Inv
  imports Mqtt_App Mqtt_Client_States
begin

text \<open>
  The invariant of the connection manager: it and its client are in step, and the backoff
  follows its table.
\<close>

section \<open>What the callback leaves alone\<close>

definition same_manager :: "MqttApp \<Rightarrow> MqttApp \<Rightarrow> bool" where
  "same_manager app0 app \<longleftrightarrow>
     app\<lparr>ma_stats := zero_app_stats\<rparr> = app0\<lparr>ma_stats := zero_app_stats\<rparr> \<and>
     as_reconnect_backoff_ms (ma_stats app) = as_reconnect_backoff_ms (ma_stats app0) \<and>
     as_connect_attempts (ma_stats app) = as_connect_attempts (ma_stats app0) \<and>
     as_command_responses_published (ma_stats app) = as_command_responses_published (ma_stats app0)"

lemma same_managerD:
  assumes "same_manager app0 app"
  shows "ma_adapter app = ma_adapter app0" "ma_net_bound app = ma_net_bound app0"
    "ma_topics_built app = ma_topics_built app0" "ma_state app = ma_state app0"
    "ma_backoff_step app = ma_backoff_step app0" "ma_backoff_until_ms app = ma_backoff_until_ms app0"
    "ma_last_tick_ms app = ma_last_tick_ms app0" "ma_topic_command app = ma_topic_command app0"
    "ma_topic_response app = ma_topic_response app0"
    "as_reconnect_backoff_ms (ma_stats app) = as_reconnect_backoff_ms (ma_stats app0)"
proof -
  have e: "app\<lparr>ma_stats := zero_app_stats\<rparr> = app0\<lparr>ma_stats := zero_app_stats\<rparr>"
    and "as_reconnect_backoff_ms (ma_stats app) = as_reconnect_backoff_ms (ma_stats app0)"
    using assms by (simp_all add: same_manager_def)
  from this(2) show "as_reconnect_backoff_ms (ma_stats app) = as_reconnect_backoff_ms (ma_stats app0)" .
  show "ma_adapter app = ma_adapter app0" using arg_cong[OF e, of ma_adapter] by simp
  show "ma_net_bound app = ma_net_bound app0" using arg_cong[OF e, of ma_net_bound] by simp
  show "ma_topics_built app = ma_topics_built app0" using arg_cong[OF e, of ma_topics_built] by simp
  show "ma_state app = ma_state app0" using arg_cong[OF e, of ma_state] by simp
  show "ma_backoff_step app = ma_backoff_step app0" using arg_cong[OF e, of ma_backoff_step] by simp
  show "ma_backoff_until_ms app = ma_backoff_until_ms app0" using arg_cong[OF e, of ma_backoff_until_ms] by simp
  show "ma_last_tick_ms app = ma_last_tick_ms app0" using arg_cong[OF e, of ma_last_tick_ms] by simp
  show "ma_topic_command app = ma_topic_command app0" using arg_cong[OF e, of ma_topic_command] by simp
  show "ma_topic_response app = ma_topic_response app0" using arg_cong[OF e, of ma_topic_response] by simp
qed

lemma same_manager_stats:
  assumes "same_manager app0 app" "\<And>s. as_reconnect_backoff_ms (f s) = as_reconnect_backoff_ms s"
    "\<And>s. as_connect_attempts (f s) = as_connect_attempts s"
    "\<And>s. as_command_responses_published (f s) = as_command_responses_published s"
  shows "same_manager app0 (upd_app_stats f app)"
  using assms by (simp add: same_manager_def upd_app_stats_def)

lemma inbound_same_manager:
  "callback_keeps (Some MqttApp_OnInboundPublish) (\<lambda>x. same_manager app0 (fst x))"
  by (auto simp: callback_keeps_def MqttApp_OnInboundPublish_def Let_def case_prod_beta intro!: same_manager_stats)

lemma client_run_manager:
  assumes "app_client_run ad w = Some (s, w')"
  shows "mq_now w' = mq_now w" "same_manager (the_app w) (the_app w')"
proof -
  have "context_ok (Some MqttApp_OnInboundPublish) (\<lambda>x. same_manager (the_app w) (fst x)) (mq_now w) w"
    by (simp add: context_ok_def same_manager_def)
  from Run_context[OF assms this] show "mq_now w' = mq_now w" "same_manager (the_app w) (the_app w')"
    using inbound_same_manager by (simp_all add: context_ok_def)
qed

section \<open>The invariant\<close>

fun in_step :: "MqttAppState \<Rightarrow> MqttClient \<Rightarrow> bool" where
  "in_step MQTT_APP_DISCONNECTED c = (mc_state c = MQTT_STATE_DISCONNECTED)"
| "in_step MQTT_APP_BACKOFF c = (mc_state c = MQTT_STATE_DISCONNECTED)"
| "in_step MQTT_APP_CONNECTING c = begun c"
| "in_step MQTT_APP_SUBSCRIBING c = begun c"
| "in_step MQTT_APP_ONLINE c = begun c"
| "in_step MQTT_APP_DISABLED c = False"
| "in_step MQTT_APP_MQTT_CONNECTING c = False"

definition backoff_ok :: "MqttApp \<Rightarrow> bool" where
  "backoff_ok app \<longleftrightarrow>
     ma_backoff_step app \<le> 5 \<and> (ma_state app = MQTT_APP_ONLINE \<longrightarrow> ma_backoff_step app = 0) \<and>
     (ma_state app = MQTT_APP_BACKOFF \<longrightarrow> 1 \<le> ma_backoff_step app \<and>
        as_reconnect_backoff_ms (ma_stats app) = MqttApp_BackoffScheduleMs (ucast (ma_backoff_step app)))"

definition app_inv :: "'a mqtt_app \<Rightarrow> bool" where
  "app_inv w \<longleftrightarrow>
     mqtt_inv (mq_c w) \<and> in_step (ma_state (the_app w)) (mq_c w) \<and> backoff_ok (the_app w) \<and>
     ma_adapter (the_app w) \<and> ma_net_bound (the_app w) \<and> ma_topics_built (the_app w)"

lemma upd_app_sel [simp]:
  "mq_c (upd_app f w) = mq_c w" "mq_now (upd_app f w) = mq_now w" "mq_a (upd_app f w) = mq_a w"
  "the_app (upd_app f w) = f (the_app w)" "mq_t (upd_app f w) = mq_t w"
  by (simp_all add: upd_app_def)

lemma upd_app_stats_sel [simp]:
  "ma_state (upd_app_stats f app) = ma_state app" "ma_adapter (upd_app_stats f app) = ma_adapter app"
  "ma_net_bound (upd_app_stats f app) = ma_net_bound app" "ma_topics_built (upd_app_stats f app) = ma_topics_built app"
  "ma_backoff_step (upd_app_stats f app) = ma_backoff_step app" "ma_stats (upd_app_stats f app) = f (ma_stats app)"
  "ma_backoff_until_ms (upd_app_stats f app) = ma_backoff_until_ms app"
  "ma_last_tick_ms (upd_app_stats f app) = ma_last_tick_ms app"
  by (simp_all add: upd_app_stats_def)

lemma enter_backoff_sel [simp]:
  "ma_state (enter_backoff now app) = MQTT_APP_BACKOFF" "ma_adapter (enter_backoff now app) = ma_adapter app"
  "ma_net_bound (enter_backoff now app) = ma_net_bound app"
  "ma_topics_built (enter_backoff now app) = ma_topics_built app"
  "ma_last_tick_ms (enter_backoff now app) = ma_last_tick_ms app"
  by (simp_all add: enter_backoff_def Let_def)

lemma set_disconnected_sel [simp]:
  "ma_adapter (set_disconnected app) = ma_adapter app" "ma_net_bound (set_disconnected app) = ma_net_bound app"
  "ma_topics_built (set_disconnected app) = ma_topics_built app"
  "ma_backoff_step (set_disconnected app) = ma_backoff_step app"
  "ma_last_tick_ms (set_disconnected app) = ma_last_tick_ms app"
  by (simp_all add: set_disconnected_def)

text \<open>The next step of the table.\<close>

definition next_step :: "u8 \<Rightarrow> u8" where
  "next_step k = (if k < 5 then k + 1 else k)"

lemma unat_ucast_u8: "unat (ucast (k :: u8) :: u32) = unat k"
  using unsigned_less[of k, where ?'a = nat] by (simp add: unsigned_ucast_eq take_bit_eq_mod)

lemma enter_backoff_step:
  assumes "ma_backoff_step app \<le> 5"
  shows "ma_backoff_step (enter_backoff now app) = next_step (ma_backoff_step app)"
    "ma_backoff_until_ms (enter_backoff now app) =
       now + MqttApp_BackoffScheduleMs (ucast (next_step (ma_backoff_step app)))"
    "as_reconnect_backoff_ms (ma_stats (enter_backoff now app)) =
       MqttApp_BackoffScheduleMs (ucast (next_step (ma_backoff_step app)))"
proof -
  have "ucast (ma_backoff_step app) < (5 :: u32) \<longleftrightarrow> ma_backoff_step app < 5"
    by (simp add: word_less_nat_alt unat_ucast_u8)
  then show "ma_backoff_step (enter_backoff now app) = next_step (ma_backoff_step app)"
    "ma_backoff_until_ms (enter_backoff now app) =
       now + MqttApp_BackoffScheduleMs (ucast (next_step (ma_backoff_step app)))"
    "as_reconnect_backoff_ms (ma_stats (enter_backoff now app)) =
       MqttApp_BackoffScheduleMs (ucast (next_step (ma_backoff_step app)))"
    by (simp_all add: enter_backoff_def Let_def next_step_def MQTT_APP_BACKOFF_STEPS_def)
qed

lemma next_step_range:
  assumes "k \<le> 5"
  shows "next_step k \<le> 5" "1 \<le> next_step k"
  using assms by (auto simp: next_step_def word_le_nat_alt word_less_nat_alt unat_word_ariths)

lemma backoff_entered: "ma_backoff_step app \<le> 5 \<Longrightarrow> backoff_ok (enter_backoff now app)"
  using next_step_range by (simp add: backoff_ok_def enter_backoff_step)


section \<open>Every operation keeps it\<close>

lemma unat_small: "(k :: u8) \<le> 5 \<Longrightarrow> unat k \<le> 5"
  by (simp add: word_le_nat_alt)

lemma Connect_begun:
  assumes "MqttClient_Connect ad w = (s, w')" "mc_state (mq_c w) = MQTT_STATE_DISCONNECTED"
  shows "begun (mq_c w')" "mq_x w' = mq_x w" "mq_now w' = mq_now w"
  using assms by (auto simp: MqttClient_Connect_def Let_def begun_def upd_c_def upd_stats_def split: prod.splits if_splits)

lemma Disconnect_done:
  assumes "MqttClient_Disconnect ad w = Some (s, w')" "mc_state (mq_c w) = MQTT_STATE_ERROR"
  shows "mc_state (mq_c w') = MQTT_STATE_DISCONNECTED" "mq_x w' = mq_x w" "mq_now w' = mq_now w"
  using assms by (auto simp: MqttClient_Disconnect_def Let_def upd_c_def CloseTransport_def case_prod_beta)

lemma run_disconnected_inv:
  assumes "run_disconnected ad w = Some w'" "app_inv w" "mc_state (mq_c w) = MQTT_STATE_DISCONNECTED"
  shows "app_inv w'"
proof -
  obtain s w1 where c: "MqttClient_Connect ad w = (s, w1)" by fastforce
  show ?thesis
    using assms(1,2) c Connect_begun[OF c assms(3)] inv_Connect[OF c]
    by (auto simp: run_disconnected_def app_inv_def backoff_ok_def split: if_splits)
qed

lemma Subscribe_state:
  assumes "MqttClient_Subscribe now c topic q = Some (s, c')"
  shows "mc_state c' = mc_state c"
  using assms by (auto simp: MqttClient_Subscribe_def Let_def bind_eq_Some_conv StartTx_own split: if_splits)

text \<open>The wait that begins on the way from one state to another.\<close>

definition backoff_from :: "'a mqtt_app \<Rightarrow> 'a mqtt_app \<Rightarrow> bool" where
  "backoff_from w w' \<longleftrightarrow> (ma_state (the_app w') = MQTT_APP_BACKOFF \<longrightarrow>
     (\<exists>app. the_app w' = enter_backoff (mq_now w) app \<and> ma_backoff_step app = ma_backoff_step (the_app w) \<and>
        ma_last_tick_ms app = ma_last_tick_ms (the_app w)))"

lemma run_handshake_inv:
  assumes "run_handshake ad w = Some w'" "app_inv w" "ma_state (the_app w) \<in> {MQTT_APP_CONNECTING, MQTT_APP_SUBSCRIBING}"
  shows "app_inv w' \<and> backoff_from w w'"
proof -
  have b: "begun (mq_c w)" using assms(2,3) by (auto simp: app_inv_def)
  obtain s w1 where r: "app_client_run ad w = Some (s, w1)"
    using assms(1) by (auto simp: run_handshake_def bind_eq_Some_conv)
  have i1: "mqtt_inv (mq_c w1)" using inv_Run[OF r] assms(2) by (simp add: app_inv_def)
  have sb: "still_begun s (mq_c w1)" using Run_begun[OF r _ b] assms(2) by (simp add: app_inv_def)
  note sm = same_managerD[OF client_run_manager(2)[OF r]] client_run_manager(1)[OF r]
  have a1: "app_inv w1"
    using assms(2,3) i1 sb sm by (auto simp: app_inv_def backoff_ok_def still_begun_def)
  show ?thesis
  proof (cases "mc_state (mq_c w1) = MQTT_STATE_ERROR")
    case True
    obtain s2 w2 where d: "MqttClient_Disconnect ad (upd_app (upd_app_stats (\<lambda>s. s\<lparr>as_connect_failures := as_connect_failures s + 1\<rparr>)) w1) = Some (s2, w2)"
        "w' = upd_app (enter_backoff (mq_now w2)) w2"
      using assms(1) r True by (auto simp: run_handshake_def bind_eq_Some_conv MqttClient_GetState_def Let_def)
    have i2: "mqtt_inv (mq_c w2)" using inv_Disconnect[OF d(1)] i1 by simp
    note dd = Disconnect_done[OF d(1)]
    have "the_app w2 = upd_app_stats (\<lambda>s. s\<lparr>as_connect_failures := as_connect_failures s + 1\<rparr>) (the_app w1)"
      "mc_state (mq_c w2) = MQTT_STATE_DISCONNECTED" "mq_now w2 = mq_now w"
      using dd True sm by (simp_all add: upd_app_def)
    moreover from this have "ma_backoff_step (the_app w2) = ma_backoff_step (the_app w)"
      "ma_last_tick_ms (the_app w2) = ma_last_tick_ms (the_app w)" using sm by simp_all
    moreover have "ma_backoff_step (the_app w) \<le> 5" using assms(2) by (simp add: app_inv_def backoff_ok_def)
    ultimately show ?thesis
      using d(2) i2 a1 backoff_entered[of "the_app w2"] by (auto simp: app_inv_def backoff_from_def)
  next
    case False
    have nd: "mc_state (mq_c w1) \<noteq> MQTT_STATE_DISCONNECTED" using sb by (auto simp: still_begun_def begun_def)
    show ?thesis
    proof (cases "mc_state (mq_c w1) = MQTT_STATE_CONNECTED \<and> ma_state (the_app w1) = MQTT_APP_CONNECTING")
      case True
      let ?w2 = "upd_app (upd_app_stats (\<lambda>s. s\<lparr>as_connect_successes := as_connect_successes s + 1\<rparr>)) w1"
      obtain s2 c where c: "MqttClient_Subscribe (mq_now ?w2) (mq_c ?w2) (Some (ma_topic_command (the_app ?w2))) 1 = Some (s2, c)"
          "w' = upd_app (\<lambda>app. app\<lparr>ma_state := MQTT_APP_SUBSCRIBING\<rparr>) (?w2\<lparr>mq_c := c\<rparr>)"
        using assms(1) r True
        by (auto simp: run_handshake_def bind_eq_Some_conv MqttClient_GetState_def Let_def simp del: upd_app_sel)
      have "mqtt_inv c" "mc_state c = mc_state (mq_c w1)"
        using inv_Subscribe[OF c(1)] Subscribe_state[OF c(1)] i1 by simp_all
      then show ?thesis
        using a1 True by (simp add: c(2) app_inv_def backoff_ok_def begun_def backoff_from_def)
    next
      case f: False
      then have "w' = w1 \<or> mc_state (mq_c w1) = MQTT_STATE_CONNECTED \<and> w' = upd_app (\<lambda>app. app\<lparr>ma_state := MQTT_APP_ONLINE, ma_backoff_step := 0\<rparr>) w1"
        using assms(1,3) r False nd sm(4)
        by (auto simp: run_handshake_def bind_eq_Some_conv MqttClient_GetState_def Let_def split: if_splits)
      moreover have "ma_state (the_app w1) \<noteq> MQTT_APP_BACKOFF" using assms(3) sm(4) by auto
      ultimately show ?thesis using a1 by (auto simp: app_inv_def backoff_ok_def begun_def backoff_from_def)
    qed
  qed
qed

lemma run_online_inv:
  assumes "run_online ad w = Some w'" "app_inv w" "ma_state (the_app w) = MQTT_APP_ONLINE"
  shows "app_inv w' \<and> backoff_from w w'"
proof -
  have b: "begun (mq_c w)" using assms(2,3) by (simp add: app_inv_def)
  obtain s w1 where r: "app_client_run ad w = Some (s, w1)"
    using assms(1) by (auto simp: run_online_def bind_eq_Some_conv)
  have i1: "mqtt_inv (mq_c w1)" using inv_Run[OF r] assms(2) by (simp add: app_inv_def)
  have sb: "still_begun s (mq_c w1)" using Run_begun[OF r _ b] assms(2) by (simp add: app_inv_def)
  note sm = same_managerD[OF client_run_manager(2)[OF r]] client_run_manager(1)[OF r]
  have a1: "app_inv w1"
    using assms(2,3) i1 sb sm by (auto simp: app_inv_def backoff_ok_def still_begun_def)
  show ?thesis
  proof (cases "mc_state (mq_c w1) = MQTT_STATE_ERROR")
    case True
    obtain s2 w2 where d: "MqttClient_Disconnect ad (upd_app (upd_app_stats (\<lambda>s. s\<lparr>as_connect_failures := as_connect_failures s + 1\<rparr>)) w1) = Some (s2, w2)"
        "w' = upd_app (enter_backoff (mq_now w2) \<circ> set_disconnected) w2"
      using assms(1) r True by (auto simp: run_online_def bind_eq_Some_conv MqttClient_GetState_def Let_def)
    have i2: "mqtt_inv (mq_c w2)" using inv_Disconnect[OF d(1)] i1 by simp
    note dd = Disconnect_done[OF d(1)]
    have "the_app w2 = upd_app_stats (\<lambda>s. s\<lparr>as_connect_failures := as_connect_failures s + 1\<rparr>) (the_app w1)"
      "mc_state (mq_c w2) = MQTT_STATE_DISCONNECTED" "mq_now w2 = mq_now w"
      using dd True sm by (simp_all add: upd_app_def)
    moreover from this have "ma_backoff_step (set_disconnected (the_app w2)) = ma_backoff_step (the_app w)"
      "ma_last_tick_ms (set_disconnected (the_app w2)) = ma_last_tick_ms (the_app w)" using sm by simp_all
    moreover have "ma_backoff_step (the_app w) \<le> 5" using assms(2) by (simp add: app_inv_def backoff_ok_def)
    ultimately show ?thesis
      using d(2) i2 a1 backoff_entered[of "set_disconnected (the_app w2)"] by (auto simp: app_inv_def backoff_from_def)
  next
    case False
    have "mc_state (mq_c w1) \<noteq> MQTT_STATE_DISCONNECTED" "progress s \<or> s = MQTT_IN_PROGRESS"
      using sb False by (auto simp: still_begun_def begun_def)
    then have "w' = w1"
      using assms(1) r False
      by (auto simp: run_online_def bind_eq_Some_conv MqttClient_GetState_def Let_def progress_def split: if_splits)
    then show ?thesis using a1 assms(3) sm(4) by (simp add: backoff_from_def)
  qed
qed

lemma run_backoff_inv:
  assumes "app_inv w" "ma_state (the_app w) = MQTT_APP_BACKOFF"
  shows "app_inv (run_backoff w)"
  using assms by (simp add: run_backoff_def Let_def app_inv_def backoff_ok_def)

lemma MqttApp_Run_inv:
  assumes "MqttApp_Run ad w = Some (b, w')" "app_inv w"
  shows "app_inv w'"
    and "ma_state (the_app w) \<noteq> MQTT_APP_BACKOFF \<Longrightarrow>
      backoff_from (upd_app (\<lambda>app. app\<lparr>ma_last_tick_ms := mq_now w\<rparr>) w) w'"
proof -
  let ?w = "upd_app (\<lambda>app. app\<lparr>ma_last_tick_ms := mq_now w\<rparr>) w"
  have i: "app_inv ?w" using assms(2) by (simp add: app_inv_def backoff_ok_def)
  have ad: "ma_adapter (the_app w)" "ma_topics_built (the_app w)" using assms(2) by (simp_all add: app_inv_def)
  have st: "in_step (ma_state (the_app w)) (mq_c w)" using assms(2) by (simp add: app_inv_def)
  have rd: "backoff_from ?w w'" if "run_disconnected ad ?w = Some w'"
    using that by (auto simp: run_disconnected_def backoff_from_def split: prod.splits if_splits)
  have "app_inv w' \<and> (ma_state (the_app w) \<noteq> MQTT_APP_BACKOFF \<longrightarrow> backoff_from ?w w')"
  proof (cases "elapsed (mq_now w) (ma_last_tick_ms (the_app w)) MQTT_APP_POLL_PERIOD_MS")
    case False
    then show ?thesis using assms by (simp add: MqttApp_Run_def backoff_from_def)
  next
    case True
    then show ?thesis
      using assms(1) ad st run_handshake_inv[OF _ i] run_online_inv[OF _ i] run_backoff_inv[OF i]
        run_disconnected_inv[OF _ i] rd
      by (cases "ma_state (the_app w)") (auto simp: MqttApp_Run_def Let_def bind_eq_Some_conv)
  qed
  then show "app_inv w'" "ma_state (the_app w) \<noteq> MQTT_APP_BACKOFF \<Longrightarrow> backoff_from ?w w'" by blast+
qed

lemma Publish_state:
  "MqttClient_PublishQos0 now c topic p r = Some (s, c') \<Longrightarrow> mc_state c' = mc_state c"
  "MqttClient_PublishQos1 now c topic p = Some (s, c') \<Longrightarrow> mc_state c' = mc_state c"
  by (auto simp: MqttClient_PublishQos0_def MqttClient_PublishQos1_def NextPacketId_def Let_def bind_eq_Some_conv
      StartTx_own split: if_splits)

lemma in_step_state: "mc_state c' = mc_state c \<Longrightarrow> in_step st c' = in_step st c"
  by (cases st) (simp_all add: begun_def)

lemma Telemetry_frame:
  assumes "MqttApp_PublishTelemetry p w = Some w'"
  shows "mq_c w' = mq_c w \<or>
      (\<exists>s. MqttClient_PublishQos0 (mq_now w) (mq_c w) (Some (ma_topic_telemetry (the_app w))) p False = Some (s, mq_c w'))"
    "ma_state (the_app w') = ma_state (the_app w)" "ma_backoff_step (the_app w') = ma_backoff_step (the_app w)"
    "ma_adapter (the_app w') = ma_adapter (the_app w)" "ma_net_bound (the_app w') = ma_net_bound (the_app w)"
    "ma_topics_built (the_app w') = ma_topics_built (the_app w)"
    "as_reconnect_backoff_ms (ma_stats (the_app w')) = as_reconnect_backoff_ms (ma_stats (the_app w))"
proof -
  have t: "ma_topic_telemetry (upd_app_stats f app) = ma_topic_telemetry app" for f app
    by (simp add: upd_app_stats_def)
  show "mq_c w' = mq_c w \<or>
      (\<exists>s. MqttClient_PublishQos0 (mq_now w) (mq_c w) (Some (ma_topic_telemetry (the_app w))) p False = Some (s, mq_c w'))"
    "ma_state (the_app w') = ma_state (the_app w)" "ma_backoff_step (the_app w') = ma_backoff_step (the_app w)"
    "ma_adapter (the_app w') = ma_adapter (the_app w)" "ma_net_bound (the_app w') = ma_net_bound (the_app w)"
    "ma_topics_built (the_app w') = ma_topics_built (the_app w)"
    "as_reconnect_backoff_ms (ma_stats (the_app w')) = as_reconnect_backoff_ms (ma_stats (the_app w))"
    using assms by (auto simp: MqttApp_PublishTelemetry_def Let_def bind_eq_Some_conv t split: if_splits)
qed

lemma Telemetry_inv:
  assumes "MqttApp_PublishTelemetry p w = Some w'" "app_inv w"
  shows "app_inv w'"
proof -
  note f = Telemetry_frame[OF assms(1)]
  have "mqtt_inv (mq_c w') \<and> mc_state (mq_c w') = mc_state (mq_c w)"
    using f(1) inv_Publish0 Publish_state(1) assms(2) by (metis app_inv_def)
  then show ?thesis
    using assms(2) f(2-) in_step_state[of "mq_c w'" "mq_c w"] by (simp add: app_inv_def backoff_ok_def)
qed

lemma Response_frame:
  assumes "MqttApp_PublishResponse p w = Some w'"
  shows "mq_c w' = mq_c w \<or>
      (\<exists>s. MqttClient_PublishQos1 (mq_now w) (mq_c w) (Some (ma_topic_response (the_app w))) p = Some (s, mq_c w'))"
    "ma_state (the_app w') = ma_state (the_app w)" "ma_backoff_step (the_app w') = ma_backoff_step (the_app w)"
    "ma_adapter (the_app w') = ma_adapter (the_app w)" "ma_net_bound (the_app w') = ma_net_bound (the_app w)"
    "ma_topics_built (the_app w') = ma_topics_built (the_app w)"
    "as_reconnect_backoff_ms (ma_stats (the_app w')) = as_reconnect_backoff_ms (ma_stats (the_app w))"
  using assms by (auto simp: MqttApp_PublishResponse_def Let_def bind_eq_Some_conv split: if_splits)

lemma Response_inv:
  assumes "MqttApp_PublishResponse p w = Some w'" "app_inv w"
  shows "app_inv w'"
proof -
  note f = Response_frame[OF assms(1)]
  have "mqtt_inv (mq_c w') \<and> mc_state (mq_c w') = mc_state (mq_c w)"
    using f(1) inv_Publish1 Publish_state(2) assms(2) by (metis app_inv_def)
  then show ?thesis
    using assms(2) f(2-) in_step_state[of "mq_c w'" "mq_c w"] by (simp add: app_inv_def backoff_ok_def)
qed

end
