(* ===== verification/Mqtt_App_Topics.thy ===== *)
theory Mqtt_App_Topics
  imports Mqtt_App_Inv Mqtt_Topic
begin

text \<open>
  The short identifier and the topics of a device, and with them the state
  \<open>MqttApp_Init\<close> leaves.
\<close>

section \<open>The short identifier\<close>

definition upper_digits :: bytes where
  "upper_digits = ascii ''0123456789ABCDEF''"

lemma upper_hex_digits: "set (upper_hex b) \<subseteq> set upper_digits"
proof -
  let ?d = "\<lambda>n :: u8. if n < 10 then 0x30 + n else 0x41 + (n - 10)"
  have all: "\<forall>k \<in> set [0..<16]. ?d (of_nat k) \<in> set upper_digits" by code_simp
  have d: "?d n \<in> set upper_digits" if "unat n < 16" for n
  proof -
    have "unat n \<in> set [0..<16]" using that by simp
    then have "?d (of_nat (unat n)) \<in> set upper_digits" using all by blast
    then show ?thesis by (simp only: of_nat_unat ucast_id)
  qed
  have "b AND 0x0F = b mod 16"
    using take_bit_eq_mask[of 4 b] take_bit_eq_mod[of 4 b] by (simp add: mask_eq_exp_minus_1)
  then have "unat (b AND 0x0F) < 16" by (simp only: unat_mod_distrib) simp
  moreover have "unat (drop_bit 4 b) < 16"
    using unsigned_less[of b, where ?'a = nat] by (simp add: drop_bit_eq_div unat_div_distrib)
  ultimately show ?thesis using d[of "drop_bit 4 b"] d[of "b AND 0x0F"] by (simp add: upper_hex_def Let_def)
qed

lemma length_upper_hex [simp]: "length (upper_hex b) = 2"
  by (simp add: upper_hex_def Let_def)

definition short_hex :: "DeviceIdentity \<Rightarrow> bytes" where
  "short_hex i = concat (map upper_hex (take 6 (di_device_uuid i)))"

lemma set_short_hex: "set (short_hex i) \<subseteq> set upper_digits"
  using upper_hex_digits by (auto simp: short_hex_def)

lemma length_short_hex: "length (di_device_uuid i) = 16 \<Longrightarrow> length (short_hex i) = 12"
  by (simp add: short_hex_def length_concat comp_def sum_list_triv)

lemma short_id_hex:
  assumes "length (di_device_uuid i) = 16"
  shows "app_short_id i = short_hex i"
proof -
  have n: "\<forall>c \<in> set (short_hex i). c \<noteq> 0"
  proof -
    have "\<forall>c \<in> set upper_digits. c \<noteq> 0" by code_simp
    then show ?thesis using set_short_hex by blast
  qed
  have "(DeviceIdentity_GetShortId (Some i) (replicate 13 0) 13)[12 := 0] = short_hex i @ [0]"
    using length_short_hex[OF assms]
    by (simp add: DeviceIdentity_GetShortId_def overwrite_def short_hex_def[symmetric] list_update_append)
  then show ?thesis
    using n by (simp add: app_short_id_def MQTT_APP_SHORT_ID_LEN_def c_string_def)
qed

section \<open>The topics\<close>

definition topic_of :: "DeviceIdentity \<Rightarrow> string \<Rightarrow> bytes" where
  "topic_of i name = MQTT_APP_PREFIX @ short_hex i @ ascii name"

lemma topic_print_fits:
  assumes "length s = 12" "length name \<le> 40"
  shows "topic_print s name = (24 + length name, MQTT_APP_PREFIX @ s @ ascii name)"
  using assms by (simp add: topic_print_def MQTT_APP_PREFIX_def MQTT_APP_TOPIC_MAX_def ascii_def)

lemma BuildTopics_ok:
  assumes "length (di_device_uuid (ma_identity app)) = 16"
  shows "BuildTopics app = (True, app\<lparr>ma_client_id := short_hex (ma_identity app),
    ma_topic_telemetry := topic_of (ma_identity app) ''/telemetry'',
    ma_topic_command := topic_of (ma_identity app) ''/command'',
    ma_topic_response := topic_of (ma_identity app) ''/response'',
    ma_topic_status := topic_of (ma_identity app) ''/status'', ma_topics_built := True\<rparr>)"
  using short_id_hex[OF assms] length_short_hex[OF assms]
  by (simp add: BuildTopics_def Let_def topic_print_fits topic_misfit_def MQTT_APP_TOPIC_MAX_def topic_of_def
      MQTT_MAX_CLIENT_ID_LENGTH_def)

section \<open>The initial state\<close>

text \<open>The identifier of a given identity has its sixteen bytes; without one it is zero.\<close>

definition identity_given :: "DeviceIdentity option \<Rightarrow> bool" where
  "identity_given i \<longleftrightarrow> (case i of Some d \<Rightarrow> length (di_device_uuid d) = 16 | None \<Rightarrow> True)"

definition used_identity :: "DeviceIdentity option \<Rightarrow> DeviceIdentity" where
  "used_identity i = (case i of Some d \<Rightarrow> d | None \<Rightarrow> zero_identity)"

lemma MqttApp_Init_ready:
  assumes "identity_given ident" "EndpointValid (Some ep)"
  shows "app_inv (MqttApp_Init now True (Some ep) ident a cmd)"
    "ma_state (the_app (MqttApp_Init now True (Some ep) ident a cmd)) = MQTT_APP_DISCONNECTED"
    "ma_topic_command (the_app (MqttApp_Init now True (Some ep) ident a cmd)) = topic_of (used_identity ident) ''/command''"
    "ma_topic_telemetry (the_app (MqttApp_Init now True (Some ep) ident a cmd)) = topic_of (used_identity ident) ''/telemetry''"
    "ma_topic_response (the_app (MqttApp_Init now True (Some ep) ident a cmd)) = topic_of (used_identity ident) ''/response''"
    "mq_now (MqttApp_Init now True (Some ep) ident a cmd) = now" "mq_a (MqttApp_Init now True (Some ep) ident a cmd) = a"
    "nt_state (mq_t (MqttApp_Init now True (Some ep) ident a cmd)) = NET_STATE_DISCONNECTED"
    "ma_last_tick_ms (the_app (MqttApp_Init now True (Some ep) ident a cmd)) = now" "ma_backoff_step (the_app (MqttApp_Init now True (Some ep) ident a cmd)) = 0"
proof -
  let ?app = "(case ident of Some i \<Rightarrow> zero_app\<lparr>ma_state := MQTT_APP_DISABLED, ma_last_tick_ms := now, ma_identity := i\<rparr>
      | None \<Rightarrow> zero_app\<lparr>ma_state := MQTT_APP_DISABLED, ma_last_tick_ms := now\<rparr>)\<lparr>ma_adapter := True, ma_endpoint := Some ep\<rparr>"
  define app where "app = ?app"
  have i: "ma_identity app = used_identity ident" "length (di_device_uuid (used_identity ident)) = 16"
    using assms(1) by (auto simp: app_def used_identity_def identity_given_def zero_app_def zero_identity_def
        DEVICE_UUID_SIZE_def split: option.splits)
  have b: "ma_backoff_step app = 0" by (simp add: app_def zero_app_def split: option.splits)
  obtain t where t: "NetworkTransport_Init (Some ep) = (NET_OK, Some t)"
    using assms(2) by (simp add: NetworkTransport_Init_def)
  have td: "nt_state t = NET_STATE_DISCONNECTED" using t by (auto simp: NetworkTransport_Init_def split: if_splits)
  have lt: "ma_last_tick_ms app = now" by (simp add: app_def split: option.splits)
  obtain c where c: "MqttClient_Init (Some \<lparr>cc_client_id = Some (short_hex (used_identity ident)),
      cc_keepalive_s = MQTT_APP_KEEPALIVE_S\<rparr>) = (MQTT_OK, Some c)"
    using length_short_hex[OF i(2)] by (simp add: MqttClient_Init_def MQTT_MAX_CLIENT_ID_LENGTH_def)
  have cs: "mqtt_inv c" by (rule inv_Init[OF c])
  have cd: "mc_state c = MQTT_STATE_DISCONNECTED" using c by (auto simp: MqttClient_Init_def split: if_splits)
  have e: "MqttApp_Init now True (Some ep) ident a cmd =
      \<lparr>mq_c = c, mq_t = t, mq_a = a, mq_x = ((snd (BuildTopics app))\<lparr>ma_net_bound := True,
        ma_state := MQTT_APP_DISCONNECTED, ma_topics_built := True\<rparr>, cmd), mq_now = now\<rparr>"
    using c t BuildTopics_ok[of app] i by (cases ident) (simp_all add: MqttApp_Init_def Let_def app_def)
  have ad: "ma_adapter app" by (simp add: app_def)
  show "app_inv (MqttApp_Init now True (Some ep) ident a cmd)"
    "ma_state (the_app (MqttApp_Init now True (Some ep) ident a cmd)) = MQTT_APP_DISCONNECTED"
    "ma_topic_command (the_app (MqttApp_Init now True (Some ep) ident a cmd)) = topic_of (used_identity ident) ''/command''"
    "ma_topic_telemetry (the_app (MqttApp_Init now True (Some ep) ident a cmd)) = topic_of (used_identity ident) ''/telemetry''"
    "ma_topic_response (the_app (MqttApp_Init now True (Some ep) ident a cmd)) = topic_of (used_identity ident) ''/response''"
    "mq_now (MqttApp_Init now True (Some ep) ident a cmd) = now" "mq_a (MqttApp_Init now True (Some ep) ident a cmd) = a"
    "nt_state (mq_t (MqttApp_Init now True (Some ep) ident a cmd)) = NET_STATE_DISCONNECTED"
    "ma_last_tick_ms (the_app (MqttApp_Init now True (Some ep) ident a cmd)) = now" "ma_backoff_step (the_app (MqttApp_Init now True (Some ep) ident a cmd)) = 0"
    unfolding e using BuildTopics_ok[of app] i b ad cs cd td lt by (simp_all add: app_inv_def backoff_ok_def)
qed

end
