(* ===== verification/Mqtt_App_Props.thy ===== *)
theory Mqtt_App_Props
  imports Mqtt_App_Topics Command_Props
begin

text \<open>
  The properties of the connection manager over every history of its operations: it and the
  client stay in step, reconnection follows the schedule, and what a message from the network
  can do.
\<close>

section \<open>Reachable states\<close>

text \<open>
  A manager with an adapter, a valid endpoint and a device identity, and its operations in any
  order; between calls the clock, the adapter and the command module change at will.
\<close>

inductive app_reach :: "'a NetworkTransportAdapter \<Rightarrow> 'a mqtt_app \<Rightarrow> bool" for ad where
  start: "EndpointValid (Some ep) \<Longrightarrow> identity_given ident \<Longrightarrow>
    app_reach ad (MqttApp_Init now True (Some ep) ident a cmd)"
| environment: "app_reach ad w \<Longrightarrow> app_reach ad (w\<lparr>mq_now := n, mq_a := a, mq_x := (the_app w, cmd)\<rparr>)"
| run: "app_reach ad w \<Longrightarrow> MqttApp_Run ad w = Some (b, w') \<Longrightarrow> app_reach ad w'"
| telemetry: "app_reach ad w \<Longrightarrow> MqttApp_PublishTelemetry p w = Some w' \<Longrightarrow> app_reach ad w'"
| response: "app_reach ad w \<Longrightarrow> MqttApp_PublishResponse p w = Some w' \<Longrightarrow> app_reach ad w'"

lemma app_reach_inv: "app_reach ad w \<Longrightarrow> app_inv w"
proof (induction rule: app_reach.induct)
  case (start ep ident now a cmd)
  show ?case by (rule MqttApp_Init_ready(1)[OF start(2,1)])
next
  case (environment w n a cmd)
  then show ?case by (simp add: app_inv_def)
qed (auto intro: MqttApp_Run_inv Telemetry_inv Response_inv)

lemma backoff_delays:
  assumes "1 \<le> k" "k \<le> (5 :: u8)"
  shows "MqttApp_BackoffScheduleMs (ucast k) \<in> {2000, 5000, 10000, 30000, 60000}"
proof -
  have "\<forall>n \<in> set [1..<6]. MqttApp_BackoffScheduleMs (ucast (of_nat n :: u8)) \<in> {2000, 5000, 10000, 30000, 60000}"
    by code_simp
  moreover have "unat k \<in> set [1..<6]" using assms by (auto simp: word_le_nat_alt)
  ultimately show ?thesis by (metis of_nat_unat ucast_id)
qed

text \<open>
  Claim C26. The connection manager and its MQTT client are never out of step: in every reachable
  state the client is disconnected exactly when the manager is idle or waits to reconnect, so a
  connect is never refused as busy and the manager is never left waiting for a connection nobody
  drives; the backoff step stays in its table, is reset whenever the connection is up, and a
  wait is never shorter than two seconds or longer than a minute.
\<close>

theorem mqtt_app_in_step:
  assumes "app_reach ad w"
  shows "let app = the_app w; st = ma_state app in
    st \<noteq> MQTT_APP_DISABLED \<and>
    (st \<in> {MQTT_APP_DISCONNECTED, MQTT_APP_BACKOFF} \<longleftrightarrow> mc_state (mq_c w) = MQTT_STATE_DISCONNECTED) \<and>
    (st = MQTT_APP_DISCONNECTED \<longrightarrow> fst (MqttClient_Connect ad w) \<noteq> MQTT_BUSY) \<and>
    ma_backoff_step app \<le> 5 \<and> (st = MQTT_APP_ONLINE \<longrightarrow> ma_backoff_step app = 0) \<and>
    (st = MQTT_APP_BACKOFF \<longrightarrow>
       as_reconnect_backoff_ms (ma_stats app) \<in> {2000, 5000, 10000, 30000, 60000})"
proof -
  have i: "app_inv w" using app_reach_inv[OF assms] .
  have busy: "mc_state (mq_c w) = MQTT_STATE_DISCONNECTED \<Longrightarrow> fst (MqttClient_Connect ad w) \<noteq> MQTT_BUSY"
    by (simp add: MqttClient_Connect_def Let_def case_prod_beta)
  show ?thesis
    using i busy backoff_delays by (cases "ma_state (the_app w)") (auto simp: app_inv_def backoff_ok_def begun_def Let_def)
qed

text \<open>A device whose broker refuses every connection.\<close>

definition broker :: NetworkEndpoint where
  "broker = \<lparr>ep_host = overwrite (replicate (NETWORK_ENDPOINT_HOST_MAX + 1) 0) 0 (ascii ''broker''), ep_port = 1883\<rparr>"

definition refused :: "FakeNetworkAdapter mqtt_app" where
  "refused = MqttApp_Init 0 True (Some broker) None
     ((FakeNetworkAdapter_Reset 0)\<lparr>fk_connect_mode := FAKE_NET_CONNECT_REFUSED\<rparr>) command_start"

lemma broker_valid: "EndpointValid (Some broker)"
  by (simp add: EndpointValid_def broker_def overwrite_def ascii_def NETWORK_ENDPOINT_HOST_MAX_def)

lemma refused_reach: "app_reach fake_adapter refused"
  unfolding refused_def by (rule app_reach.start[OF broker_valid]) (simp add: identity_given_def)

lemmas refused_ready = MqttApp_Init_ready[where ident = None and ep = broker and now = 0 and
    a = "(FakeNetworkAdapter_Reset 0)\<lparr>fk_connect_mode := FAKE_NET_CONNECT_REFUSED\<rparr>" and cmd = command_start,
  folded refused_def, OF _ broker_valid]

lemma refused_fields:
  "ma_state (the_app refused) = MQTT_APP_DISCONNECTED" "app_inv refused" "mq_now refused = 0"
  "mq_a refused = (FakeNetworkAdapter_Reset 0)\<lparr>fk_connect_mode := FAKE_NET_CONNECT_REFUSED\<rparr>"
  "nt_state (mq_t refused) = NET_STATE_DISCONNECTED" "ma_last_tick_ms (the_app refused) = 0"
  "ma_backoff_step (the_app refused) = 0"
  using refused_ready by (simp_all add: identity_given_def)

lemma mqtt_app_in_step_witness:
  "ma_state (the_app refused) = MQTT_APP_DISCONNECTED \<and> mc_state (mq_c refused) = MQTT_STATE_DISCONNECTED \<and>
   fst (MqttClient_Connect fake_adapter refused) \<noteq> MQTT_BUSY"
  using mqtt_app_in_step[OF refused_reach] refused_fields(1) by (simp add: Let_def)

section \<open>Reconnection\<close>

definition poll :: "'a NetworkTransportAdapter \<Rightarrow> nat \<Rightarrow> 'a mqtt_app \<Rightarrow> 'a mqtt_app option" where
  "poll ad t w = map_option snd (MqttApp_Run ad (w\<lparr>mq_now := of_nat t\<rparr>))"

fun polls :: "'a NetworkTransportAdapter \<Rightarrow> nat list \<Rightarrow> 'a mqtt_app \<Rightarrow> 'a mqtt_app option" where
  "polls ad [] w = Some w"
| "polls ad (t # ts) w = do { w \<leftarrow> poll ad t w; polls ad ts w }"

lemma polls_append: "polls ad (ts @ us) w = do { w \<leftarrow> polls ad ts w; polls ad us w }"
  by (induction ts arbitrary: w) (auto split: bind_splits)

interpretation backoff_timer: wrap_timer "\<lambda>now since rel. elapsed now since rel \<and> now - since < 0x80000000"
  by unfold_locales (auto simp: elapsed_def word_less_nat_alt word_le_nat_alt)

lemma elapsed_true_time:
  assumes "s \<le> t" "t - s < 2 ^ 32"
  shows "elapsed (of_nat t) (of_nat s) MQTT_APP_POLL_PERIOD_MS \<longleftrightarrow> 50 \<le> t - s"
  using backoff_timer.tick_difference[OF assms]
  by (simp add: elapsed_def MQTT_APP_POLL_PERIOD_MS_def word_le_nat_alt)


text \<open>The manager waits until \<open>due\<close>, having last run at \<open>l\<close>.\<close>

definition waiting :: "nat \<Rightarrow> nat \<Rightarrow> 'a mqtt_app \<Rightarrow> bool" where
  "waiting due l w \<longleftrightarrow> app_inv w \<and> ma_state (the_app w) = MQTT_APP_BACKOFF \<and>
     ma_backoff_until_ms (the_app w) = of_nat due \<and> ma_last_tick_ms (the_app w) = of_nat l"

definition untouched :: "'a mqtt_app \<Rightarrow> 'a mqtt_app \<Rightarrow> bool" where
  "untouched w w' \<longleftrightarrow> mq_c w' = mq_c w \<and> mq_t w' = mq_t w \<and> mq_a w' = mq_a w \<and>
     ma_stats (the_app w') = ma_stats (the_app w)"

lemma poll_waiting:
  assumes "waiting due l w" "t < due" "due - t \<le> 2 ^ 31"
  shows "\<exists>w' l'. poll ad t w = Some w' \<and> waiting due l' w' \<and> (l' = l \<or> l' = t) \<and> untouched w w'"
proof -
  let ?w = "w\<lparr>mq_now := of_nat t\<rparr>"
  have a: "app_inv w" "ma_state (the_app w) = MQTT_APP_BACKOFF" "ma_backoff_until_ms (the_app w) = of_nat due"
      "ma_last_tick_ms (the_app w) = of_nat l"
    using assms(1) by (simp_all add: waiting_def)
  have ad: "ma_adapter (the_app w)" "ma_topics_built (the_app w)" using a(1) by (simp_all add: app_inv_def)
  have n: "\<not> (elapsed (of_nat t) (of_nat due) 0 \<and> of_nat t - of_nat due < (0x80000000 :: u32))"
    using backoff_timer.not_elapsed_before[OF assms(2,3)] .
  show ?thesis
  proof (cases "elapsed (of_nat t) (ma_last_tick_ms (the_app w)) MQTT_APP_POLL_PERIOD_MS")
    case False
    then have "poll ad t w = Some ?w" by (simp add: poll_def MqttApp_Run_def)
    then show ?thesis using a by (auto simp: waiting_def untouched_def app_inv_def)
  next
    case True
    let ?w' = "upd_app (\<lambda>app. app\<lparr>ma_last_tick_ms := of_nat t\<rparr>) ?w"
    have "poll ad t w = Some ?w'"
      using True a ad by (simp add: poll_def MqttApp_Run_def Let_def run_backoff_def if_not_P[OF n])
    then show ?thesis using a by (auto simp: waiting_def untouched_def app_inv_def backoff_ok_def)
  qed
qed

lemma polls_waiting:
  assumes "waiting due l w" "\<forall>t \<in> set ts. t < due \<and> due - t \<le> 2 ^ 31"
  shows "\<exists>w' l'. polls ad ts w = Some w' \<and> waiting due l' w' \<and> (l' = l \<or> l' \<in> set ts) \<and> untouched w w'"
  using assms
proof (induction ts arbitrary: w l)
  case (Cons t ts)
  obtain w1 l1 where w1: "poll ad t w = Some w1" "waiting due l1 w1" "l1 = l \<or> l1 = t" "untouched w w1"
    using poll_waiting[where ad = ad and t = t, OF Cons.prems(1)] Cons.prems(2) by auto
  obtain w2 l2 where "polls ad ts w1 = Some w2" "waiting due l2 w2" "l2 = l1 \<or> l2 \<in> set ts" "untouched w1 w2"
    using Cons.IH[OF w1(2)] Cons.prems(2) by auto
  then show ?case using w1 by (intro exI[of _ w2] exI[of _ l2]) (auto simp: untouched_def)
qed (auto simp: untouched_def)

lemma poll_due:
  assumes "waiting due l w" "due \<le> t" "t - due < 2 ^ 31" "l + 50 \<le> t" "t - l < 2 ^ 32"
  shows "\<exists>w'. poll ad t w = Some w' \<and> app_inv w' \<and> ma_state (the_app w') = MQTT_APP_DISCONNECTED \<and>
    ma_last_tick_ms (the_app w') = of_nat t \<and> untouched w w'"
proof -
  have a: "app_inv w" "ma_state (the_app w) = MQTT_APP_BACKOFF" "ma_backoff_until_ms (the_app w) = of_nat due"
      "ma_last_tick_ms (the_app w) = of_nat l"
    using assms(1) by (simp_all add: waiting_def)
  have ad: "ma_adapter (the_app w)" "ma_topics_built (the_app w)" using a(1) by (simp_all add: app_inv_def)
  have n: "elapsed (of_nat t) (of_nat due) 0 \<and> of_nat t - of_nat due < (0x80000000 :: u32)"
    using backoff_timer.elapsed_iff_true_time[OF assms(2,3), of 0] by simp
  have el: "elapsed (of_nat t) (of_nat l) MQTT_APP_POLL_PERIOD_MS"
    using elapsed_true_time[of l t] assms(4,5) by simp
  let ?w = "upd_app (\<lambda>app. app\<lparr>ma_last_tick_ms := of_nat t\<rparr>) (w\<lparr>mq_now := of_nat t\<rparr>)"
  let ?w' = "upd_app (\<lambda>app. app\<lparr>ma_state := MQTT_APP_DISCONNECTED\<rparr>) ?w"
  have "poll ad t w = Some ?w'"
    using a ad n el by (simp add: poll_def MqttApp_Run_def Let_def run_backoff_def)
  then show ?thesis using a by (auto simp: untouched_def app_inv_def backoff_ok_def)
qed

lemma poll_connects:
  assumes "app_inv w" "ma_state (the_app w) = MQTT_APP_DISCONNECTED" "ma_last_tick_ms (the_app w) = of_nat l"
    and "l + 50 \<le> t" "t - l < 2 ^ 32"
  shows "\<exists>w'. poll ad t w = Some w' \<and> ma_state (the_app w') = MQTT_APP_CONNECTING \<and>
    as_connect_attempts (ma_stats (the_app w')) = as_connect_attempts (ma_stats (the_app w)) + 1"
proof -
  have ad: "ma_adapter (the_app w)" "ma_topics_built (the_app w)" "ma_net_bound (the_app w)"
    using assms(1) by (simp_all add: app_inv_def)
  have el: "elapsed (of_nat t) (of_nat l) MQTT_APP_POLL_PERIOD_MS"
    using elapsed_true_time[of l t] assms(4,5) by simp
  let ?w = "upd_app (\<lambda>app. app\<lparr>ma_last_tick_ms := of_nat t\<rparr>) (w\<lparr>mq_now := of_nat t\<rparr>)"
  obtain s w1 where c: "MqttClient_Connect ad ?w = (s, w1)" by fastforce
  have "mc_state (mq_c ?w) = MQTT_STATE_DISCONNECTED" using assms(1,2) by (simp add: app_inv_def)
  note cb = Connect_begun[OF c this]
  show ?thesis
    using assms(2,3) ad el c cb by (simp add: poll_def MqttApp_Run_def Let_def run_disconnected_def)
qed

text \<open>
  Claim C27. After a lost or failed connection the manager waits and then tries again: the wait is
  the entry of the schedule behind the current step, however often it runs during the wait it
  calls neither the client nor the adapter, and the first run after the wait (and after the next
  poll period) leaves it idle, the one after that starts a new attempt. The first wait after a
  good connection is the second entry of the schedule, two seconds.
\<close>

theorem mqtt_reconnect_schedule:
  assumes "app_reach ad w" "mq_now w = of_nat t0" "ma_state (the_app w) \<noteq> MQTT_APP_BACKOFF"
    and "MqttApp_Run ad w = Some (b, w')" "ma_state (the_app w') = MQTT_APP_BACKOFF"
    and "d = unat (as_reconnect_backoff_ms (ma_stats (the_app w')))"
    and "\<forall>t \<in> set ts. t0 \<le> t \<and> t < t0 + d"
    and "t0 + d + 50 \<le> t1" "t1 < t0 + d + 2 ^ 31" "t1 + 50 \<le> t2" "t2 < t1 + 2 ^ 32"
  shows "d = unat (BackoffTable ! min (unat (ma_backoff_step (the_app w)) + 1) 5) \<and>
    (\<exists>v. polls ad ts w' = Some v \<and> ma_state (the_app v) = MQTT_APP_BACKOFF \<and> untouched w' v \<and>
      (\<exists>v1. poll ad t1 v = Some v1 \<and> ma_state (the_app v1) = MQTT_APP_DISCONNECTED \<and> untouched v v1 \<and>
        (\<exists>v2. poll ad t2 v1 = Some v2 \<and> ma_state (the_app v2) = MQTT_APP_CONNECTING \<and>
           as_connect_attempts (ma_stats (the_app v2)) = as_connect_attempts (ma_stats (the_app w')) + 1)))"
proof -
  have i: "app_inv w" using app_reach_inv[OF assms(1)] .
  note r = MqttApp_Run_inv[OF assms(4) i]
  let ?k = "next_step (ma_backoff_step (the_app w))"
  have k: "ma_backoff_step (the_app w) \<le> 5" using i by (simp add: app_inv_def backoff_ok_def)
  obtain app where app: "the_app w' = enter_backoff (mq_now w) app" "ma_backoff_step app = ma_backoff_step (the_app w)"
      "ma_last_tick_ms app = mq_now w"
    using r(2)[OF assms(3)] assms(5) by (auto simp: backoff_from_def)
  note e = enter_backoff_step[of app "mq_now w"]
  have dk: "as_reconnect_backoff_ms (ma_stats (the_app w')) = MqttApp_BackoffScheduleMs (ucast ?k)"
    using e(3) k app by simp
  have d: "d \<le> 60000" "2000 \<le> d"
    using backoff_delays[OF next_step_range(2,1)[OF k]] assms(6) dk by auto
  have od: "of_nat d = as_reconnect_backoff_ms (ma_stats (the_app w'))" using assms(6) by simp
  have wt: "waiting (t0 + d) t0 w'"
    using r(1) assms(2,5) e(2) k app od dk by (simp add: waiting_def)
  have bnd: "\<forall>t \<in> set ts. t < t0 + d \<and> t0 + d - t \<le> 2 ^ 31"
  proof
    fix t assume "t \<in> set ts"
    then have "t0 \<le> t" "t < t0 + d" using assms(7) by auto
    then show "t < t0 + d \<and> t0 + d - t \<le> 2 ^ 31" using d(1) by simp
  qed
  obtain v l where v: "polls ad ts w' = Some v" "waiting (t0 + d) l v" "l = t0 \<or> l \<in> set ts" "untouched w' v"
    using polls_waiting[where ad = ad, OF wt bnd] by blast
  have l: "t0 \<le> l" "l < t0 + d" using v(3) assms(7) d(2) by auto
  have t1: "t0 + d \<le> t1" "t1 - (t0 + d) < 2 ^ 31" "l + 50 \<le> t1" "t1 - l < 2 ^ 32"
    using assms(8,9) l d by simp_all
  obtain v1 where v1: "poll ad t1 v = Some v1" "app_inv v1" "ma_state (the_app v1) = MQTT_APP_DISCONNECTED"
      "ma_last_tick_ms (the_app v1) = of_nat t1" "untouched v v1"
    using poll_due[where ad = ad and t = t1, OF v(2) t1] by blast
  have t2: "t1 + 50 \<le> t2" "t2 - t1 < 2 ^ 32" using assms(10,11) by simp_all
  obtain v2 where v2: "poll ad t2 v1 = Some v2" "ma_state (the_app v2) = MQTT_APP_CONNECTING"
      "as_connect_attempts (ma_stats (the_app v2)) = as_connect_attempts (ma_stats (the_app v1)) + 1"
    using poll_connects[where ad = ad and t = t2, OF v1(2-4) t2] by blast
  have "MqttApp_BackoffScheduleMs (ucast ?k) = BackoffTable ! min (unat (ma_backoff_step (the_app w)) + 1) 5"
  proof -
    have "\<forall>n \<in> set [0..<6]. MqttApp_BackoffScheduleMs (ucast (next_step (of_nat n))) = BackoffTable ! min (n + 1) 5"
      by code_simp
    moreover have "unat (ma_backoff_step (the_app w)) \<in> set [0..<6]" using k by (auto simp: word_le_nat_alt)
    ultimately show ?thesis by (metis of_nat_unat ucast_id)
  qed
  moreover have "ma_state (the_app v) = MQTT_APP_BACKOFF" using v(2) by (simp add: waiting_def)
  moreover have "ma_stats (the_app v1) = ma_stats (the_app w')" using v(4) v1(5) by (simp add: untouched_def)
  ultimately show ?thesis using v v1 v2 assms(6) dk by auto
qed

text \<open>
  The refused device runs at 50 ms and at 100 ms: the first wait is 2000 ms, whatever it does at
  600 and 1700 ms, and the next attempt starts at 2250 ms.
\<close>

lemma CloseTransport_context [simp]: "mq_x (CloseTransport ad w) = mq_x w" "mq_now (CloseTransport ad w) = mq_now w"
  by (simp_all add: CloseTransport_def case_prod_beta)

lemma backoff_two: "MqttApp_BackoffScheduleMs (ucast (next_step 0)) = 2000"
  by code_simp

lemma refused_waits:
  "\<exists>w1 w2. MqttApp_Run fake_adapter (refused\<lparr>mq_now := 50\<rparr>) = Some (True, w1) \<and>
     ma_state (the_app w1) = MQTT_APP_CONNECTING \<and>
     MqttApp_Run fake_adapter (w1\<lparr>mq_now := 100\<rparr>) = Some (True, w2) \<and>
     ma_state (the_app w2) = MQTT_APP_BACKOFF \<and> as_reconnect_backoff_ms (ma_stats (the_app w2)) = 2000"
proof -
  have r: "ma_adapter (the_app refused)" "ma_topics_built (the_app refused)" "ma_net_bound (the_app refused)"
      "mc_state (mq_c refused) = MQTT_STATE_DISCONNECTED"
    using refused_fields(1,2) by (simp_all add: app_inv_def)
  obtain w1 where w1: "MqttApp_Run fake_adapter (refused\<lparr>mq_now := 50\<rparr>) = Some (True, w1)"
      "ma_state (the_app w1) = MQTT_APP_CONNECTING" "ma_last_tick_ms (the_app w1) = 50" "ma_adapter (the_app w1)"
      "ma_topics_built (the_app w1)" "ma_backoff_step (the_app w1) = 0"
      "mc_state (mq_c w1) = MQTT_STATE_ERROR" "nt_state (mq_t w1) = NET_STATE_ERROR"
    using r refused_fields
    by (simp add: MqttApp_Run_def elapsed_def MQTT_APP_POLL_PERIOD_MS_def Let_def run_disconnected_def
        MqttClient_Connect_def NetworkTransport_Connect_def fake_ops upd_c_def)
  let ?w = "upd_app (\<lambda>app. app\<lparr>ma_last_tick_ms := 100\<rparr>) (w1\<lparr>mq_now := 100\<rparr>)"
  let ?f = "fail_connection fake_adapter MQTT_TRANSPORT_ERROR (?w\<lparr>mq_a := mq_a w1, mq_t := mq_t w1\<rparr>)"
  have r: "app_client_run fake_adapter ?w = Some (MQTT_TRANSPORT_ERROR, ?f)"
    using w1 by (simp add: MqttClient_Run_def NetworkTransport_Run_def)
  have f: "mc_state (mq_c ?f) = MQTT_STATE_ERROR" "mq_x ?f = mq_x ?w" "mq_now ?f = 100"
    by (simp_all, simp_all add: fail_connection_def upd_app_def)
  have "\<exists>w2. MqttApp_Run fake_adapter (w1\<lparr>mq_now := 100\<rparr>) = Some (True, w2) \<and>
     ma_state (the_app w2) = MQTT_APP_BACKOFF \<and> as_reconnect_backoff_ms (ma_stats (the_app w2)) = 2000"
    using w1(2-6) r f enter_backoff_step(3) backoff_two
    by (simp add: MqttApp_Run_def elapsed_def MQTT_APP_POLL_PERIOD_MS_def Let_def run_handshake_def MqttClient_GetState_def
        MqttClient_Disconnect_def upd_c_def)
  then show ?thesis using w1 by blast
qed

lemma mqtt_reconnect_schedule_witness:
  "\<exists>w v v1 v2. ma_state (the_app w) = MQTT_APP_BACKOFF \<and> polls fake_adapter [600, 1700] w = Some v \<and>
     ma_state (the_app v) = MQTT_APP_BACKOFF \<and> poll fake_adapter 2200 v = Some v1 \<and>
     poll fake_adapter 2250 v1 = Some v2 \<and> ma_state (the_app v2) = MQTT_APP_CONNECTING"
proof -
  obtain w1 w2 where w: "MqttApp_Run fake_adapter (refused\<lparr>mq_now := 50\<rparr>) = Some (True, w1)"
      "ma_state (the_app w1) = MQTT_APP_CONNECTING"
      "MqttApp_Run fake_adapter (w1\<lparr>mq_now := 100\<rparr>) = Some (True, w2)"
      "ma_state (the_app w2) = MQTT_APP_BACKOFF" "as_reconnect_backoff_ms (ma_stats (the_app w2)) = 2000"
    using refused_waits by blast
  have e: "app_reach ad w \<Longrightarrow> app_reach ad (w\<lparr>mq_now := n\<rparr>)" for ad :: "'b NetworkTransportAdapter" and w n
    using app_reach.environment[where n = n and a = "mq_a w" and cmd = "snd (mq_x w)"] by fastforce
  have "app_reach fake_adapter (w1\<lparr>mq_now := 100\<rparr>)" using e e[OF refused_reach] app_reach.run w(1) by blast
  from mqtt_reconnect_schedule[OF this _ _ w(3,4), of 100 2000 "[600, 1700]" 2200 2250] w(2,5) show ?thesis
    using w(4) by auto
qed

end
