(* ===== verification/Mqtt_Bridge_Props.thy ===== *)
theory Mqtt_Bridge_Props
  imports Mqtt_App_Topics Command_Props Net_Stream Mqtt_Client_Props
begin

text \<open>
  The bridge between MQTT and the commands: which messages of the network reach the command
  queue, what authority they have there, and what becomes of the reply.
\<close>

section \<open>Acceptance\<close>

lemma strncmp_equal_eq:
  "length as = length bs \<Longrightarrow> 0 \<notin> set bs \<Longrightarrow> strncmp_equal as bs (length as) \<longleftrightarrow> as = bs"
  by (induction as bs rule: list_induct2) auto

lemma topic_of_no_nul: "0 \<notin> set (topic_of i ''/command'')"
proof -
  have "0 \<notin> set MQTT_APP_PREFIX" "0 \<notin> set (ascii ''/command'')" "0 \<notin> set upper_digits" by code_simp+
  then show ?thesis using set_short_hex[of i] by (auto simp: topic_of_def)
qed

text \<open>
  A publish is taken as a command exactly when its topic is the command topic of this
  device, character for character, its payload has between 1 and 511 bytes, no reply is in
  flight and the command queue is initialised and empty; it then waits in the queue as a
  message of the authenticated remote source. Otherwise the command module does not change.
\<close>

theorem mqtt_inbound_accepts:
  assumes "0 \<notin> set (ma_topic_command app)"
    and "MqttApp_OnInboundPublish client (app, cmd) pub = (ok, app', cmd')"
  shows "(ok \<longleftrightarrow> ip_topic pub = ma_topic_command app \<and> length (ip_payload pub) \<in> {1..511} \<and>
      \<not> mc_inflight_active client \<and> cm_initialized cmd \<and> \<not> cm_has_pending cmd) \<and>
    (if ok then cm_has_pending cmd' \<and> cm_pending_trust cmd' = COMMAND_SOURCE_AUTHENTICATED_REMOTE \<and>
       cm_input_pos cmd' = length (ip_payload pub) \<and>
       cm_input_buf cmd' = overwrite (cm_input_buf cmd) 0 (ip_payload pub @ [0])
     else cmd' = cmd)"
proof -
  have t: "\<not> (length (ip_topic pub) \<noteq> length (ma_topic_command app) \<or>
      \<not> strncmp_equal (ip_topic pub) (ma_topic_command app) (length (ip_topic pub))) \<longleftrightarrow>
      ip_topic pub = ma_topic_command app"
    using strncmp_equal_eq[OF _ assms(1), of "ip_topic pub"] by auto
  show ?thesis
    using assms(2) t
    by (auto simp: MqttApp_OnInboundPublish_def Command_ProcessInput_def EnqueueCommand_def
        COMMAND_INPUT_BUFFER_SIZE_def Let_def Suc_le_eq split: if_splits)
qed

definition bridge_app :: MqttApp where
  "bridge_app = zero_app\<lparr>ma_topic_command := topic_of zero_identity ''/command''\<rparr>"

lemma mqtt_inbound_accepts_witness:
  "let cmd = snd (Command_Init (Some zero_services) command_start);
       pub = \<lparr>ip_topic = topic_of zero_identity ''/command'', ip_qos = 1, ip_retain = False,
         ip_dup = False, ip_packet_id = 7, ip_payload = ascii ''{}''\<rparr>
   in fst (MqttApp_OnInboundPublish zero_client (bridge_app, cmd) pub)"
proof -
  let ?cmd = "snd (Command_Init (Some zero_services) command_start)"
  let ?pub = "\<lparr>ip_topic = topic_of zero_identity ''/command'', ip_qos = 1, ip_retain = False,
         ip_dup = False, ip_packet_id = 7, ip_payload = ascii ''{}''\<rparr>"
  obtain ok app' cmd' where r: "MqttApp_OnInboundPublish zero_client (bridge_app, ?cmd) ?pub = (ok, app', cmd')"
    by (metis prod_cases3)
  have n: "0 \<notin> set (ma_topic_command bridge_app)" using topic_of_no_nul by (simp add: bridge_app_def)
  show ?thesis
    using mqtt_inbound_accepts[OF n r] r
    by (simp add: bridge_app_def ascii_def zero_client_def Command_Init_def command_start_def split: if_splits)
qed

section \<open>The authority of the network\<close>

definition remote_message :: "command \<Rightarrow> command \<Rightarrow> bool" where
  "remote_message cmd cmd' \<longleftrightarrow> (\<exists>msg. Command_ProcessInput
     (Some \<lparr>in_data = Some msg, in_trust = COMMAND_SOURCE_AUTHENTICATED_REMOTE\<rparr>) cmd = (True, cmd'))"

lemma ProcessInput_full: "cm_has_pending c \<Longrightarrow> Command_ProcessInput i c = (False, c)"
  by (auto simp: Command_ProcessInput_def EnqueueCommand_def split: option.splits)

lemma ProcessInput_pending: "Command_ProcessInput i c = (True, c') \<Longrightarrow> cm_has_pending c' \<and> \<not> cm_has_pending c"
  by (auto simp: Command_ProcessInput_def EnqueueCommand_def split: option.splits if_splits)

lemma ProcessInput_refused: "Command_ProcessInput i c = (False, c') \<Longrightarrow> c' = c"
  by (auto simp: Command_ProcessInput_def EnqueueCommand_def split: option.splits if_splits)

lemma inbound_remote:
  "callback_keeps (Some MqttApp_OnInboundPublish) (\<lambda>x. snd x = cmd \<or> remote_message cmd (snd x))"
proof -
  have "snd (snd (MqttApp_OnInboundPublish c (app, cm) p)) = cm \<or>
      remote_message cm (snd (snd (MqttApp_OnInboundPublish c (app, cm) p)))" for c app cm p
    using ProcessInput_refused
    by (auto simp: MqttApp_OnInboundPublish_def remote_message_def split: prod.splits)
  moreover have "\<not> remote_message cm cm'" if "remote_message cmd cm" for cm cm'
    using that by (auto simp: remote_message_def dest: ProcessInput_pending)
  ultimately show ?thesis
    unfolding callback_keeps_def by (simp del: split_paired_All) (metis surjective_pairing)
qed

lemma Connect_callback: "MqttClient_Connect ad w = (s, w') \<Longrightarrow> mq_x w' = mq_x w"
  by (auto simp: MqttClient_Connect_def Let_def upd_c_def split: prod.splits if_splits)

lemma Disconnect_callback: "MqttClient_Disconnect ad w = Some (s, w') \<Longrightarrow> mq_x w' = mq_x w"
  by (auto simp: MqttClient_Disconnect_def Let_def upd_c_def CloseTransport_def bind_eq_Some_conv
      split: prod.splits if_splits)

lemma upd_app_command [simp]: "snd (mq_x (upd_app f w)) = snd (mq_x w)"
  by (simp add: upd_app_def)

lemma client_run_remote:
  assumes "app_client_run ad w = Some (s, w')" "snd (mq_x w) = cmd"
  shows "snd (mq_x w') = cmd \<or> remote_message cmd (snd (mq_x w'))"
proof -
  have "context_ok (Some MqttApp_OnInboundPublish) (\<lambda>x. snd x = cmd \<or> remote_message cmd (snd x)) (mq_now w) w"
    using assms(2) by (simp add: context_ok_def)
  from Run_context[OF assms(1) this] show ?thesis using inbound_remote by (simp add: context_ok_def)
qed

lemma MqttApp_Run_remote:
  assumes "MqttApp_Run ad w = Some (b, w')"
  shows "snd (mq_x w') = snd (mq_x w) \<or> remote_message (snd (mq_x w)) (snd (mq_x w'))"
proof -
  let ?ok = "\<lambda>v. snd (mq_x v) = snd (mq_x w) \<or> remote_message (snd (mq_x w)) (snd (mq_x v))"
  let ?w = "upd_app (\<lambda>app. app\<lparr>ma_last_tick_ms := mq_now w\<rparr>) w"
  have c: "?ok v" if "snd (mq_x u) = snd (mq_x w)" "app_client_run ad u = Some (s, v)" for u v s
    using client_run_remote[OF that(2,1)] .
  have "?ok v" if "run_handshake ad ?w = Some v" for v
    using that c[of ?w] by (auto simp: run_handshake_def bind_eq_Some_conv Let_def split: if_splits dest: Disconnect_callback)
  moreover have "?ok v" if "run_online ad ?w = Some v" for v
    using that c[of ?w] by (auto simp: run_online_def bind_eq_Some_conv Let_def split: if_splits dest: Disconnect_callback)
  moreover have "?ok v" if "run_disconnected ad ?w = Some v" for v
    using that Connect_callback[of ad ?w] by (auto simp: run_disconnected_def split: if_splits prod.splits)
  moreover have "?ok (run_backoff ?w)" by (simp add: run_backoff_def Let_def)
  ultimately show ?thesis
    using assms by (auto simp: MqttApp_Run_def Let_def bind_eq_Some_conv split: if_splits MqttAppState.splits)
qed

text \<open>
  Claim C28. Whatever arrives over MQTT, and whatever the message says: when the manager runs on
  a device whose command queue is empty and the command module runs after it, a device
  registered for an installation stays registered for it. The manager adds at most one message
  to the queue, with the authority of the authenticated remote source, and without one the
  command module changes nothing and sends nothing.
\<close>

theorem network_message_confined:
  assumes "MqttApp_Run ad w = Some (b, w')" "cmd = snd (mq_x w)" "cmd' = snd (mq_x w')"
    and "length (cm_input_buf cmd) = COMMAND_INPUT_BUFFER_SIZE" "\<not> cm_busy cmd" "\<not> cm_has_pending cmd"
    and "Command_Run env cmd' d = Some (out, cmd2, d')" "owned_by i (dv_provisioning d)"
  shows "owned_by i (dv_provisioning d') \<and> length out \<le> 1 \<and>
    (cm_has_pending cmd' \<longrightarrow> cm_pending_trust cmd' = COMMAND_SOURCE_AUTHENTICATED_REMOTE) \<and>
    (\<not> cm_has_pending cmd' \<longrightarrow> d' = d \<and> out = [] \<and> cmd2 = cmd)"
proof (cases "cmd' = cmd")
  case True
  then show ?thesis using assms(6-8) by (auto simp: Command_Run_def split: if_splits)
next
  case False
  then obtain msg where m: "Command_ProcessInput
      (Some \<lparr>in_data = Some msg, in_trust = COMMAND_SOURCE_AUTHENTICATED_REMOTE\<rparr>) cmd = (True, cmd')"
    using MqttApp_Run_remote[OF assms(1)] assms(2,3) by (auto simp: remote_message_def)
  note q = ProcessInput_run[OF m assms(4)]
  have "\<not> cm_busy cmd'" using q(5) assms(5) by simp
  from assms(7) q(1,2) this show ?thesis
  proof (cases rule: Run_cases)
    case (executed request rsp)
    then show ?thesis
      using owner_frame[OF executed(3) _ assms(8)] allowed_class(2)[OF executed(2)] q by (simp add: send_reply_def)
  qed (use q assms(8) in \<open>simp_all split: if_splits\<close>)
qed

text \<open>A poll that finds nothing, and a pass of the command module over an empty queue.\<close>

definition quiet :: "unit mqtt_app" where
  "quiet = \<lparr>mq_c = zero_client, mq_t = zero_transport, mq_a = (), mq_x = (bridge_app, started), mq_now = 0\<rparr>"

lemma network_message_confined_witness:
  "\<exists>out cmd2 d'. Command_Run sample_env (snd (mq_x quiet)) (sample_device sample_reg) = Some (out, cmd2, d') \<and>
     owned_by (replicate 16 0x11) (dv_provisioning d') \<and> out = [] \<and> cmd2 = started"
proof -
  let ?d = "sample_device sample_reg" and ?ad = "undefined :: unit NetworkTransportAdapter"
  have q: "length (cm_input_buf started) = COMMAND_INPUT_BUFFER_SIZE" "\<not> cm_busy started" "\<not> cm_has_pending started"
    by (simp_all add: started_def Command_Init_def command_start_def)
  have r: "MqttApp_Run ?ad quiet = Some (False, quiet)"
    by (simp add: MqttApp_Run_def elapsed_def quiet_def bridge_app_def zero_app_def MQTT_APP_POLL_PERIOD_MS_def)
  obtain out cmd2 d' where run: "Command_Run sample_env started ?d = Some (out, cmd2, d')"
    using q by (cases "cm_initialized started") (simp_all add: Command_Run_def)
  have own: "owned_by (replicate 16 0x11) (dv_provisioning ?d)"
    by (simp add: owned_by_def sample_device_def sample_reg_def)
  have s: "started = snd (mq_x quiet)" by (simp add: quiet_def)
  show ?thesis
    using network_message_confined[OF r s s q run own] run q(3) s by auto
qed

section \<open>The reply\<close>

text \<open>
  Claim C29. A reply to a command that asked for an acknowledgement is never sent when it is
  produced in the same pass of the main loop: if the run of the manager acknowledged a publish,
  or put its acknowledgement off, then the reply handed to the port right after it changes
  nothing in the client, nothing is counted as published, and the port still answers that the
  reply was sent. (The client has one slot for outgoing packets, and the acknowledgement sits
  in it until the next run.)
\<close>

theorem mqtt_reply_lost:
  assumes "app_inv w" "ma_state (the_app w) = MQTT_APP_ONLINE" "mc_state (mq_c w) = MQTT_STATE_CONNECTED"
    and "\<not> (mc_tx_pending (mq_c w) \<and> mc_tx_kind (mq_c w) = TX_CONNECT)"
    and "MqttApp_Run ad w = Some (True, w')"
    and "st_puback_tx (mc_stats (mq_c w')) \<noteq> st_puback_tx (mc_stats (mq_c w)) \<or> mc_ack_pending (mq_c w')"
    and "MqttApp_PortSend (Some answer) w' = Some (s, w'')"
  shows "s = COMM_STATUS_OK \<and> mq_c w'' = mq_c w' \<and>
    as_command_responses_published (ma_stats (the_app w'')) = as_command_responses_published (ma_stats (the_app w'))"
proof -
  let ?w = "upd_app (\<lambda>app. app\<lparr>ma_last_tick_ms := mq_now w\<rparr>) w"
  let ?n = "st_puback_tx (mc_stats (mq_c w))"
  have el: "elapsed (mq_now w) (ma_last_tick_ms (the_app w)) MQTT_APP_POLL_PERIOD_MS"
    using assms(5) by (cases "elapsed (mq_now w) (ma_last_tick_ms (the_app w)) MQTT_APP_POLL_PERIOD_MS")
      (simp_all add: MqttApp_Run_def)
  have ro: "run_online ad ?w = Some w'"
    using assms(1,2,5) el by (auto simp: MqttApp_Run_def app_inv_def Let_def bind_eq_Some_conv)
  obtain st w1 where r: "app_client_run ad ?w = Some (st, w1)"
    using ro by (auto simp: run_online_def bind_eq_Some_conv)
  have ow: "owes ?n (mq_c w1)" using Run_owes[OF r] assms(1,3,4) by (auto simp: app_inv_def)
  consider "ma_state (the_app w') = MQTT_APP_BACKOFF" | "w' = w1" "mc_state (mq_c w1) \<noteq> MQTT_STATE_ERROR"
    using ro r by (auto simp: run_online_def MqttClient_GetState_def Let_def bind_eq_Some_conv split: if_splits)
  then show ?thesis
  proof cases
    case 1
    then show ?thesis
      using assms(7) by (auto simp: MqttApp_PortSend_def MqttApp_PublishResponse_def bind_eq_Some_conv)
  next
    case 2
    then have "mc_tx_pending (mq_c w')" using ow assms(6) by (auto simp: owes_def)
    then show ?thesis
      using assms(7)
      by (auto simp: MqttApp_PortSend_def MqttApp_PublishResponse_def MqttClient_PublishQos1_def
          bind_eq_Some_conv split: if_splits)
  qed
qed

text \<open>An idle connection with one acknowledgement put off.\<close>

definition deferred :: "FakeNetworkAdapter mqtt_app" where
  "deferred =
     \<lparr>mq_c = client0\<lparr>mc_state := MQTT_STATE_CONNECTED, mc_ack_pending := True, mc_ack_pending_id := 7\<rparr>,
      mq_t = fake_transport NET_STATE_CONNECTED, mq_a = FakeNetworkAdapter_Reset 0,
      mq_x = (zero_app\<lparr>ma_adapter := True, ma_net_bound := True, ma_topics_built := True, ma_state := MQTT_APP_ONLINE,
        ma_topic_response := topic_of zero_identity ''/response''\<rparr>, started), mq_now = 50\<rparr>"

lemma deferred_client:
  "mqtt_inv (mq_c deferred)" "mc_state (mq_c deferred) = MQTT_STATE_CONNECTED" "\<not> mc_tx_pending (mq_c deferred)"
  "mc_ack_pending (mq_c deferred)" "mc_ack_pending_id (mq_c deferred) = 7" "mc_rx_len (mq_c deferred) = 0"
  "length (mc_tx_buf (mq_c deferred)) = 2304" "mc_keepalive_s (mq_c deferred) = 60"
  "mc_last_activity_ms (mq_c deferred) = 0" "\<not> mc_ping_outstanding (mq_c deferred)"
  using inv_Init[OF client0_init]
  by (simp_all add: deferred_def mqtt_inv_defs client0_def MqttClient_Init_def MQTT_MAX_CLIENT_ID_LENGTH_def)

lemma mqtt_reply_lost_witness:
  "\<exists>w' s w''. MqttApp_Run fake_adapter deferred = Some (True, w') \<and>
     st_puback_tx (mc_stats (mq_c w')) = st_puback_tx (mc_stats (mq_c deferred)) + 1 \<and>
     MqttApp_PortSend (Some (ascii ''{}'')) w' = Some (s, w'') \<and> s = COMM_STATUS_OK \<and> mq_c w'' = mq_c w'"
proof -
  note d = deferred_client
  let ?w = "upd_app (\<lambda>app. app\<lparr>ma_last_tick_ms := 50\<rparr>) deferred"
  have f: "mq_t ?w = fake_transport NET_STATE_CONNECTED" "mq_a ?w = FakeNetworkAdapter_Reset 0" "mq_now ?w = 50"
      "ma_state (the_app ?w) = MQTT_APP_ONLINE"
    by (simp_all add: deferred_def)
  obtain pkt where e: "MqttCodec_EncodePuback (replicate 4 0) 4 7 = Some (4, pkt)" "length pkt = 4"
    by (simp add: MqttCodec_EncodePuback_def poke_def overwrite_def)
  obtain c where c: "StartTx (mq_c ?w) (Some pkt) 4 TX_PUBACK = Some c"
    using d(7) e by (simp add: StartTx_def poke_def)
  let ?c = "(upd_stats (\<lambda>s. s\<lparr>st_puback_tx := st_puback_tx s + 1\<rparr>) c)\<lparr>mc_ack_pending := False\<rparr>"
  have tx: "mc_state ?c = MQTT_STATE_CONNECTED" "mc_rx_len ?c = 0" "mc_keepalive_s ?c = 60" "mc_last_activity_ms ?c = 0"
      "\<not> mc_ping_outstanding ?c" "st_puback_tx (mc_stats ?c) = st_puback_tx (mc_stats (mq_c deferred)) + 1"
    using c d by (auto simp: StartTx_def upd_stats_def bind_eq_Some_conv)
  have fl: "flush_ack ?w = Some (Fall (?w\<lparr>mq_c := ?c\<rparr>))"
    using c d e by (simp add: flush_ack_def Let_def)
  have "RunKeepalive fake_adapter (?w\<lparr>mq_c := ?c\<rparr>) = Some (MQTT_OK, ?w\<lparr>mq_c := ?c\<rparr>)"
    using tx f by (simp add: RunKeepalive_def Elapsed_def Let_def)
  moreover have "Ingest fake_adapter (Some MqttApp_OnInboundPublish) (?w\<lparr>mq_c := ?c\<rparr>) = Some (MQTT_WOULD_BLOCK, ?w\<lparr>mq_c := ?c\<rparr>)"
    using Ingest_idle[of "?w\<lparr>mq_c := ?c\<rparr>"] tx f by simp
  ultimately have rc: "run_connected fake_adapter (Some MqttApp_OnInboundPublish) ?w = Some (MQTT_OK, ?w\<lparr>mq_c := ?c\<rparr>)"
    using fl by (simp add: run_connected_def)
  have nr: "NetworkTransport_Run fake_adapter 50 (FakeNetworkAdapter_Reset 0) (fake_transport NET_STATE_CONNECTED) =
      (NET_OK, FakeNetworkAdapter_Reset 0, fake_transport NET_STATE_CONNECTED)"
    by (rule Run_idle) (simp_all add: fake_ops)
  have same: "?w\<lparr>mq_a := FakeNetworkAdapter_Reset 0, mq_t := fake_transport NET_STATE_CONNECTED\<rparr> = ?w"
    by (simp add: upd_app_def deferred_def)
  have "app_client_run fake_adapter ?w = Some (MQTT_OK, ?w\<lparr>mq_c := ?c\<rparr>)"
    unfolding MqttClient_Run_def f(1-3) nr prod.case Let_def same
    using d rc by (simp add: run_connecting_def MqttClient_DrainTx_def)
  then have "run_online fake_adapter ?w = Some (?w\<lparr>mq_c := ?c\<rparr>)"
    using tx by (simp add: run_online_def MqttClient_GetState_def)
  then have r: "MqttApp_Run fake_adapter deferred = Some (True, ?w\<lparr>mq_c := ?c\<rparr>)"
    using f by (simp add: MqttApp_Run_def elapsed_def MQTT_APP_POLL_PERIOD_MS_def deferred_def upd_app_def zero_app_def)
  obtain s w'' where p: "MqttApp_PortSend (Some (ascii ''{}'')) (?w\<lparr>mq_c := ?c\<rparr>) = Some (s, w'')"
    using StartTx_pending[OF c] tx(1) f(4)
    by (fastforce simp: MqttApp_PortSend_def MqttApp_PublishResponse_def MqttClient_PublishQos1_def)
  have i: "app_inv deferred"
    using d by (simp add: app_inv_def begun_def backoff_ok_def deferred_def zero_app_def)
  show ?thesis
    using mqtt_reply_lost[OF i _ d(2) _ r _ p] tx(6) r p d by (auto simp: deferred_def)
qed

end
