(* ===== verification/Fix16.thy ===== *)
theory Fix16
  imports Complex_Main Prelude "HOL-Library.While_Combinator"
begin

text \<open>
  The fixed-point arithmetic of \<open>Drivers/gas_index/Src/gas_index.c\<close>: \<open>fix16_t\<close> is
  \<open>int32_t\<close>, here a 32-bit word read with its sign. Additions and negations wrap; C leaves
  a signed overflow undefined, and nothing is claimed of the code there. The one loop of the
  sources whose end depends on its arguments, the alignment at the start of a division, has no
  result when it does not end; \<open>Fix16_Props\<close> shows that it always does.
\<close>

type_synonym fix16 = "32 word"

definition FIX16_MAXIMUM :: fix16 where "FIX16_MAXIMUM = 0x7FFFFFFF"
definition FIX16_MINIMUM :: fix16 where "FIX16_MINIMUM = 0x80000000"
definition FIX16_OVERFLOW :: fix16 where "FIX16_OVERFLOW = 0x80000000"
definition FIX16_ONE :: fix16 where "FIX16_ONE = 0x00010000"

text \<open>The macro: the constant rounded to a multiple of 1/65536, halves away from zero.\<close>

definition F16 :: "rat \<Rightarrow> fix16" where
  "F16 x = of_int (if x \<ge> 0 then \<lfloor>x * 65536 + 1 / 2\<rfloor> else \<lceil>x * 65536 - 1 / 2\<rceil>)"

definition fix16_from_int :: "fix16 \<Rightarrow> fix16" where
  "fix16_from_int a = a * FIX16_ONE"

definition fix16_cast_to_int :: "fix16 \<Rightarrow> fix16" where
  "fix16_cast_to_int a = (if 0 \<le>s a then signed_drop_bit 16 a else - (signed_drop_bit 16 (- a)))"

text \<open>The magnitude of an argument, as both routines below take it.\<close>

definition fix16_abs :: "fix16 \<Rightarrow> u32" where
  "fix16_abs a = (if 0 \<le>s a then a else - a)"

section \<open>Multiplication\<close>

text \<open>The 64-bit product of two magnitudes, in two words.\<close>

definition fix16_product :: "u32 \<Rightarrow> u32 \<Rightarrow> u32 \<times> u32" where
  "fix16_product abs0 abs1 =
     (let A = drop_bit 16 abs0; C = drop_bit 16 abs1; B = abs0 AND 0xFFFF; D = abs1 AND 0xFFFF;
          AC = A * C; AD_CB = A * D + C * B; BD = B * D;
          product_hi = AC + drop_bit 16 AD_CB;
          ad_cb_temp = push_bit 16 AD_CB;
          product_lo = BD + ad_cb_temp
      in (if product_lo < BD then product_hi + 1 else product_hi, product_lo))"

definition fix16_mul :: "fix16 \<Rightarrow> fix16 \<Rightarrow> fix16" where
  "fix16_mul inArg0 inArg1 =
     (case fix16_product (fix16_abs inArg0) (fix16_abs inArg1) of (product_hi, product_lo) \<Rightarrow>
      if drop_bit 15 product_hi \<noteq> 0 then FIX16_OVERFLOW
      else let product_lo_tmp = product_lo; product_lo = product_lo + 0x8000;
               product_hi = (if product_lo < product_lo_tmp then product_hi + 1 else product_hi);
               result = push_bit 16 product_hi OR drop_bit 16 product_lo
      in if (inArg0 <s 0) \<noteq> (inArg1 <s 0) then - result else result)"

section \<open>Division\<close>

partial_function (option) fix16_align :: "u32 \<Rightarrow> u32 \<Rightarrow> u32 \<Rightarrow> (u32 \<times> u32) option" where
  "fix16_align rmd divider bt =
     (if divider < rmd then fix16_align rmd (push_bit 1 divider) (push_bit 1 bt)
      else Some (divider, bt))"

declare fix16_align.simps [code]

text \<open>One trial subtraction, and the main loop over the bits of the quotient.\<close>

definition fix16_try :: "u32 \<Rightarrow> u32 \<Rightarrow> u32 \<times> u32 \<Rightarrow> u32 \<times> u32" where
  "fix16_try divider bt = (\<lambda>(quo, rmd).
     if rmd \<ge> divider then (quo OR bt, rmd - divider) else (quo, rmd))"

lemma drop_bit_less:
  assumes "0 < n" "b \<noteq> (0 :: u32)"
  shows "unat (drop_bit n b) < unat b"
proof -
  have "0 < unat b" using assms(2) by (simp add: unat_gt_0)
  moreover have "1 < (2 :: nat) ^ n" using assms(1) by (intro one_less_power) simp_all
  ultimately show ?thesis
    unfolding unat_drop_bit_eq by (simp only: drop_bit_eq_div div_less_dividend)
qed

function fix16_div_loop :: "u32 \<Rightarrow> u32 \<Rightarrow> u32 \<times> u32 \<Rightarrow> u32 \<times> u32" where
  "fix16_div_loop divider bt (quo, rmd) =
     (if bt \<noteq> 0 \<and> rmd \<noteq> 0
      then case fix16_try divider bt (quo, rmd) of (quo, rmd) \<Rightarrow>
        fix16_div_loop divider (drop_bit 1 bt) (quo, push_bit 1 rmd)
      else (quo, rmd))"
  by pat_completeness auto

termination
  by (relation "measure (\<lambda>(_, bt, _). unat bt)") (auto intro: drop_bit_less)

declare fix16_div_loop.simps [simp del]

definition fix16_div :: "fix16 \<Rightarrow> fix16 \<Rightarrow> fix16" where
  "fix16_div a b =
     (if b = 0 then FIX16_MINIMUM
      else case fix16_align (fix16_abs a) (fix16_abs b) 0x10000 of
        None \<Rightarrow> 0
      | Some (divider, bt) \<Rightarrow>
        if bt = 0 then FIX16_OVERFLOW
        else let (divider, bt, quo, rmd) =
                   (if divider AND 0x80000000 \<noteq> 0
                    then (drop_bit 1 divider, drop_bit 1 bt, fix16_try divider bt (0, fix16_abs a))
                    else (divider, bt, 0, fix16_abs a));
                 (quo, rmd) = fix16_div_loop divider bt (quo, rmd);
                 result = (if rmd \<ge> divider then quo + 1 else quo)
        in if (a <s 0) \<noteq> (b <s 0)
           then (if result = FIX16_MINIMUM then FIX16_OVERFLOW else - result)
           else result)"

section \<open>Square root\<close>

function fix16_sqrt_start :: "u32 \<Rightarrow> u32 \<Rightarrow> u32" where
  "fix16_sqrt_start num bt = (if bt > num then fix16_sqrt_start num (drop_bit 2 bt) else bt)"
  by pat_completeness auto

termination
  by (relation "measure (\<lambda>(_, bt). unat bt)") (auto intro!: drop_bit_less)

declare fix16_sqrt_start.simps [simp del]

function fix16_sqrt_loop :: "u32 \<Rightarrow> u32 \<times> u32 \<Rightarrow> u32 \<times> u32" where
  "fix16_sqrt_loop bt (num, result) =
     (if bt = 0 then (num, result)
      else fix16_sqrt_loop (drop_bit 2 bt)
        (if num \<ge> result + bt then (num - (result + bt), drop_bit 1 result + bt)
         else (num, drop_bit 1 result)))"
  by pat_completeness auto

termination
  by (relation "measure (\<lambda>(bt, _). unat bt)") (auto intro!: drop_bit_less)

declare fix16_sqrt_loop.simps [simp del]

definition fix16_sqrt :: "fix16 \<Rightarrow> fix16" where
  "fix16_sqrt x =
     (case fix16_sqrt_loop (fix16_sqrt_start x (push_bit 30 1)) (x, 0) of (num, result) \<Rightarrow>
      let (num, result) =
        (if num > 65535 then (push_bit 16 (num - result) - 0x8000, push_bit 16 result + 0x8000)
         else (push_bit 16 num, push_bit 16 result)) in
      case fix16_sqrt_loop (push_bit 14 1) (num, result) of (num, result) \<Rightarrow>
        if num > result then result + 1 else result)"

section \<open>Exponential\<close>

definition exp_pos_values :: "fix16 list" where
  "exp_pos_values = [F16 (27182818 / 10 ^ 7), F16 (11331485 / 10 ^ 7), F16 (10157477 / 10 ^ 7), F16 (10019550 / 10 ^ 7)]"

definition exp_neg_values :: "fix16 list" where
  "exp_neg_values = [F16 (3678794 / 10 ^ 7), F16 (8824969 / 10 ^ 7), F16 (9844964 / 10 ^ 7), F16 (9980488 / 10 ^ 7)]"

text \<open>The inner loop for one table entry; \<open>arg\<close> is positive in every call.\<close>

function fix16_exp_step :: "fix16 \<Rightarrow> fix16 \<Rightarrow> fix16 \<times> fix16 \<Rightarrow> fix16 \<times> fix16" where
  "fix16_exp_step v arg (res, x) =
     (if 0 <s arg \<and> arg \<le>s x then fix16_exp_step v arg (fix16_mul res v, x - arg) else (res, x))"
  by pat_completeness auto

termination
proof (relation "measure (\<lambda>(_, _, _, x). nat (sint x))", goal_cases)
  case (2 v arg res x)
  have r: "0 < sint arg" "sint arg \<le> sint x" using 2 by (simp_all add: word_sless_alt word_sle_eq)
  then have "sint (x - arg) = sint x - sint arg"
    using sint_greater_eq[of arg] sint_less[of x]
    by (simp add: sint_word_ariths signed_take_bit_int_eq_self)
  then show ?case using r by simp
qed simp

declare fix16_exp_step.simps [simp del]

fun fix16_exp_loop :: "fix16 list \<Rightarrow> fix16 \<Rightarrow> fix16 \<times> fix16 \<Rightarrow> fix16" where
  "fix16_exp_loop [] arg (res, x) = res"
| "fix16_exp_loop (v # vs) arg (res, x) =
     fix16_exp_loop vs (signed_drop_bit 3 arg) (fix16_exp_step v arg (res, x))"

definition fix16_exp :: "fix16 \<Rightarrow> fix16" where
  "fix16_exp x =
     (if F16 (103972 / 10 ^ 4) \<le>s x then FIX16_MAXIMUM
      else if x \<le>s F16 (- 117835 / 10 ^ 4) then 0
      else if x <s 0 then fix16_exp_loop exp_neg_values FIX16_ONE (FIX16_ONE, - x)
      else fix16_exp_loop exp_pos_values FIX16_ONE (FIX16_ONE, x))"

end
