(* ===== verification/Fix16_Props.thy ===== *)
theory Fix16_Props
  imports Fix16
begin

text \<open>
  The division of \<open>Fix16\<close> over the numbers: its alignment loop ends for every non-zero
  divisor, it reports an overflow exactly when the quotient exceeds 32768 in magnitude, and
  otherwise its result is the quotient rounded to the nearest multiple of 1/65536, halves away
  from zero.
\<close>

section \<open>Magnitudes\<close>

lemma unat_fix16_abs: "unat (fix16_abs a) = nat \<bar>sint a\<bar>"
proof (cases "0 \<le> sint a")
  case True
  then have "uint a = sint a"
    using sint_less [of a] uint_sint [of a] by (simp add: take_bit_int_eq_self)
  with True show ?thesis
    by (simp add: fix16_abs_def word_sle_eq unat_eq_nat_uint)
next
  case False
  have "uint a = (sint a + 2 ^ 32) mod 2 ^ 32"
    using uint_sint [of a] by (simp add: take_bit_eq_mod)
  also have "\<dots> = sint a + 2 ^ 32"
    using False sint_greater_eq [of a] by (intro mod_pos_pos_trivial) simp_all
  finally have u: "uint a = sint a + 2 ^ 32" .
  have "uint (- a) = (- uint a) mod 2 ^ 32"
    by (simp add: uint_word_ariths)
  also have "\<dots> = (- sint a) mod 2 ^ 32"
    using minus_mod_self2 [of "- sint a" "2 ^ 32"] by (simp add: u)
  also have "\<dots> = - sint a"
    using False sint_greater_eq [of a] by (intro mod_pos_pos_trivial) simp_all
  finally have "uint (- a) = - sint a" .
  with False show ?thesis
    by (simp add: fix16_abs_def word_sle_eq unat_eq_nat_uint)
qed

lemma fix16_abs_le: "unat (fix16_abs a) \<le> 2 ^ 31"
  using sint_greater_eq [of a] sint_less [of a] by (simp add: unat_fix16_abs)

section \<open>Alignment\<close>

lemma fix16_align_ends:
  assumes "unat rmd \<le> 2 ^ 31" "0 < unat divider"
  shows "\<exists>k. fix16_align rmd divider bt = Some (push_bit k divider, push_bit k bt) \<and>
    unat (push_bit k divider) = unat divider * 2 ^ k \<and> unat rmd \<le> unat divider * 2 ^ k \<and>
    (k > 0 \<longrightarrow> unat divider * 2 ^ (k - 1) < unat rmd)"
  using assms
proof (induction "unat rmd - unat divider" arbitrary: divider bt rule: less_induct)
  case less
  show ?case
  proof (cases "divider < rmd")
    case False
    then show ?thesis
      by (intro exI [of _ 0]) (simp add: fix16_align.simps [of rmd divider] word_less_nat_alt)
  next
    case True
    let ?d = "divider * 2 :: u32"
    have d: "unat ?d = 2 * unat divider"
      using True less.prems by (simp add: unat_word_ariths word_less_nat_alt)
    obtain k where k: "fix16_align rmd ?d (bt * 2) = Some (push_bit k ?d, push_bit k (bt * 2))"
      "unat (push_bit k ?d) = unat ?d * 2 ^ k" "unat rmd \<le> unat ?d * 2 ^ k"
      "k > 0 \<longrightarrow> unat ?d * 2 ^ (k - 1) < unat rmd"
      using less.hyps [of ?d "bt * 2"] True less.prems d by (fastforce simp: word_less_nat_alt)
    have "k > 0 \<Longrightarrow> unat divider * 2 ^ k < unat rmd"
      using k(4) d by (cases k) (simp_all add: ac_simps)
    moreover have "unat divider < unat rmd" using True by (simp add: word_less_nat_alt)
    ultimately have "unat divider * 2 ^ k < unat rmd" by (cases k) simp_all
    then show ?thesis
      using k True d
      by (intro exI [of _ "Suc k"]) (simp add: fix16_align.simps [of rmd divider] ac_simps
          push_bit_push_bit)
  qed
qed

section \<open>Trial subtractions\<close>

lemma unat_power2: "j < 32 \<Longrightarrow> unat ((2 :: u32) ^ j) = 2 ^ j"
proof -
  assume "j < 32"
  then have "(2 :: nat) ^ j < 2 ^ 32" by (intro power_strict_increasing) simp_all
  then have "unat (of_nat (2 ^ j) :: u32) = 2 ^ j" unfolding unat_of_nat by simp
  then show ?thesis by simp
qed

text \<open>The quotient so far has only bits above the one under trial, so OR adds.\<close>

lemma and_power2_eq_0: "\<not> bit w j \<Longrightarrow> w AND 2 ^ j = (0 :: u32)"
  by (rule bit_word_eqI) (auto simp: bit_and_iff bit_exp_iff)

lemma or_next_bit:
  assumes "2 ^ (j + 1) dvd unat (q :: u32)" "j < 32"
  shows "unat (q OR 2 ^ j) = unat q + 2 ^ j"
proof -
  obtain m where m: "unat q = 2 ^ (j + 1) * m" using assms(1) by (auto elim: dvdE)
  have "\<not> bit (unat q) j" unfolding bit_iff_odd by (simp add: m)
  then have nb: "\<not> bit q j" using assms(2) by (simp add: bit_unsigned_iff)
  have disj: "q AND 2 ^ j = 0" using nb by (rule and_power2_eq_0)
  have "q OR 2 ^ j = q + 2 ^ j"
    using disjunctive_add_eq_or [OF disj] by simp
  moreover have "unat q + 2 ^ j < 2 ^ 32"
  proof -
    have "unat q < 2 ^ 32" by (rule less_le_trans [OF unsigned_less]) simp
    then have "2 ^ (j + 1) * m < 2 ^ 32" using m by simp
    moreover have "(2 :: nat) ^ 32 = 2 ^ (j + 1) * 2 ^ (31 - j)" using assms(2) by (simp flip: power_add)
    ultimately have "2 ^ (j + 1) * m < 2 ^ (j + 1) * 2 ^ (31 - j)" by argo
    then have "m < 2 ^ (31 - j)" by (simp only: mult_less_cancel1)
    then have "2 ^ (j + 1) * (m + 1) \<le> (2 :: nat) ^ (j + 1) * 2 ^ (31 - j)"
      by (intro mult_left_mono) simp_all
    then have "unat q + 2 * 2 ^ j \<le> 4294967296"
      using \<open>(2 :: nat) ^ 32 = _\<close> m by (simp add: mult.assoc)
    moreover have "0 < (2 :: nat) ^ j" by simp
    ultimately have "unat q + 2 ^ j < 4294967296" by linarith
    then show ?thesis by simp
  qed
  moreover have "unat ((2 :: u32) ^ j) = 2 ^ j" using assms(2) by (rule unat_power2)
  ultimately show ?thesis by (simp add: unat_word_ariths)
qed

lemma fix16_try_keeps:
  assumes "fix16_try divider (2 ^ j) (quo, rmd) = (q, r)" "j < 32"
    and "unat rmd < 2 * unat divider" "2 ^ (j + 1) dvd unat quo"
  shows "unat r < unat divider \<and> 2 ^ j dvd unat q \<and>
    unat r * 2 ^ j + unat q * unat divider = unat rmd * 2 ^ j + unat quo * unat divider"
proof (cases "divider \<le> rmd")
  case True
  have "unat q = unat quo + 2 ^ j"
    using assms True or_next_bit [OF assms(4,2)] by (simp add: fix16_try_def)
  moreover have le: "unat divider \<le> unat rmd" using True by (simp add: word_le_nat_alt)
  have r: "unat r = unat rmd - unat divider"
    using assms(1) True by (auto simp: fix16_try_def unat_sub)
  have s: "unat rmd = unat r + unat divider" using r le by simp
  moreover have "2 ^ j dvd unat quo" using assms(4) by (rule dvd_trans [rotated]) simp
  ultimately show ?thesis using assms(3) by (simp add: s algebra_simps)
next
  case False
  then show ?thesis
    using assms by (auto simp: fix16_try_def word_le_nat_alt elim: dvd_trans [rotated])
qed

lemma fix16_div_loop_correct:
  assumes "fix16_div_loop divider bt (quo, rmd) = (q, r)" "bt = 2 ^ j" "j < 32"
    and "0 < unat divider" "unat divider < 2 ^ 31"
    and "unat rmd < 2 * unat divider" "2 ^ (j + 1) dvd unat quo"
  shows "unat r < 2 * unat divider \<and>
    2 * unat q * unat divider + unat r = 2 * (unat rmd * 2 ^ j + unat quo * unat divider)"
  using assms
proof (induction divider bt "(quo, rmd)" arbitrary: quo rmd j rule: fix16_div_loop.induct)
  case (1 divider bt quo rmd)
  note \<open>bt = 2 ^ j\<close> \<open>j < 32\<close>
  have bt: "bt \<noteq> 0" using 1 by (simp add: exp_eq_zero_iff)
  show ?case
  proof (cases "rmd = 0")
    case True
    with 1(2) have "q = quo \<and> r = 0" by (simp add: fix16_div_loop.simps)
    with True 1 show ?thesis by simp
  next
    case False
    obtain q1 r1 where t: "fix16_try divider bt (quo, rmd) = (q1, r1)" by fastforce
    have k: "unat r1 < unat divider" "2 ^ j dvd unat q1"
      "unat r1 * 2 ^ j + unat q1 * unat divider = unat rmd * 2 ^ j + unat quo * unat divider"
      using fix16_try_keeps [of divider j quo rmd q1 r1] t 1 by simp_all
    have r2: "unat (push_bit 1 r1) = 2 * unat r1"
      using k(1) 1 by (simp add: unat_word_ariths)
    have run: "fix16_div_loop divider (drop_bit 1 bt) (q1, push_bit 1 r1) = (q, r)"
      using 1(2) t bt False unfolding fix16_div_loop.simps [of divider bt quo rmd] by simp
    show ?thesis
    proof (cases j)
      case 0
      then have "drop_bit 1 bt = 0" using 1 by simp
      then show ?thesis
        using run k r2 0 by (auto simp: fix16_div_loop.simps [of divider 0])
    next
      case (Suc i)
      have d: "drop_bit 1 bt = 2 ^ i"
        unfolding \<open>bt = 2 ^ j\<close> Suc
        by (rule bit_word_eqI) (use \<open>j < 32\<close> Suc in \<open>auto simp: bit_drop_bit_eq bit_exp_iff simp del: power_Suc\<close>)
      have "unat r < 2 * unat divider \<and> 2 * unat q * unat divider + unat r =
          2 * (unat (push_bit 1 r1) * 2 ^ i + unat q1 * unat divider)"
        using 1 t bt False run k(1,2) r2 d Suc by (intro 1(1)) simp_all
      then show ?thesis using k(3) r2 Suc by (simp add: algebra_simps)
    qed
  qed
qed

section \<open>The quotient\<close>

text \<open>The main loop and the final rounding, on a divider below 2 ^ 31.\<close>

lemma fix16_div_rounded:
  assumes "fix16_div_loop divider (2 ^ j) (quo, rmd) = (q, r)" "j < 32"
    and "0 < unat divider" "unat divider < 2 ^ 31"
    and "unat rmd < 2 * unat divider" "2 ^ (j + 1) dvd unat quo"
    and "t = unat rmd * 2 ^ j + unat quo * unat divider" "t \<le> 2 ^ 31 * unat divider"
  shows "unat (if divider \<le> r then q + 1 else q) = (2 * t + unat divider) div (2 * unat divider)"
proof -
  let ?D = "unat divider"
  have l: "unat r < 2 * ?D" "2 * unat q * ?D + unat r = 2 * t"
    using fix16_div_loop_correct [OF assms(1) refl assms(2-6)] assms(7) by simp_all
  have "unat q * ?D \<le> 2 ^ 31 * ?D" using l(2) assms(8) by linarith
  then have q: "unat q \<le> 2 ^ 31" using assms(3) by simp
  have e: "2 * t + ?D = unat q * (2 * ?D) + (unat r + ?D)" using l(2) by simp
  show ?thesis
  proof (cases "divider \<le> r")
    case True
    have "(unat r + ?D) div (2 * ?D) = 1"
      using True l(1) by (intro div_nat_eqI) (simp_all add: word_le_nat_alt)
    with True q show ?thesis unfolding e using assms(3) by (simp add: unat_word_ariths)
  next
    case False
    have "(unat r + ?D) div (2 * ?D) = 0"
      using False by (intro div_less) (simp add: word_le_nat_alt)
    with False show ?thesis unfolding e using assms(3) by simp
  qed
qed

text \<open>The magnitude the code computes, after the alignment by \<open>k\<close> places.\<close>

definition fix16_quotient :: "u32 \<Rightarrow> u32 \<Rightarrow> u32 \<Rightarrow> u32" where
  "fix16_quotient rmd divider bt =
     (let (divider, bt, quo, rmd) =
        (if divider AND 0x80000000 \<noteq> 0
         then (drop_bit 1 divider, drop_bit 1 bt, fix16_try divider bt (0, rmd))
         else (divider, bt, 0, rmd));
          (quo, rmd) = fix16_div_loop divider bt (quo, rmd)
      in if rmd \<ge> divider then quo + 1 else quo)"

lemma top_bit: "(w AND 0x80000000 \<noteq> (0 :: u32)) \<longleftrightarrow> 2 ^ 31 \<le> unat w"
proof -
  have "w AND 0x80000000 \<noteq> 0 \<longleftrightarrow> bit w 31"
  proof
    show "w AND 0x80000000 \<noteq> 0 \<Longrightarrow> bit w 31" using and_power2_eq_0 [of w 31] by auto
  next
    assume "bit w 31"
    then have "bit (w AND 2 ^ 31) 31" by (simp only: bit_and_iff bit_exp_iff) simp
    then show "w AND 0x80000000 \<noteq> 0" by auto
  qed
  also have "\<dots> \<longleftrightarrow> bit (unat w) 31" by (simp add: bit_unsigned_iff)
  also have "\<dots> \<longleftrightarrow> odd (unat w div 2 ^ 31)" by (rule bit_iff_odd)
  also have "\<dots> \<longleftrightarrow> 2 ^ 31 \<le> unat w"
  proof -
    have "unat w < 2 ^ 32" by (rule less_le_trans [OF unsigned_less]) simp
    then have "unat w div 2 ^ 31 < 2" by (simp add: less_mult_imp_div_less)
    then have "unat w div 2 ^ 31 = 0 \<or> unat w div 2 ^ 31 = 1" by linarith
    then show ?thesis by (auto simp: div_eq_0_iff)
  qed
  finally show ?thesis .
qed

text \<open>The two ways through the top bit of the divider agree.\<close>

lemma fix16_quotient_rounded:
  assumes "unat rmd \<le> unat divider" "0 < unat divider" "even (unat divider) \<or> unat divider < 2 ^ 31"
    and "j < 32" "0 < j" "unat rmd * 2 ^ j \<le> 2 ^ 31 * unat divider"
  shows "unat (fix16_quotient rmd divider (2 ^ j)) =
    (2 * (unat rmd * 2 ^ j) + unat divider) div (2 * unat divider)"
proof (cases "unat divider < 2 ^ 31")
  case True
  then have "divider AND 0x80000000 = 0" using top_bit [of divider] by simp
  then show ?thesis
    using fix16_div_rounded [of divider j 0 rmd _ _ "unat rmd * 2 ^ j"] assms True
    by (simp add: fix16_quotient_def Let_def split: prod.splits)
next
  case False
  let ?D = "unat divider" and ?h = "drop_bit 1 divider" and ?T = "unat rmd * 2 ^ j"
  obtain i where i: "j = Suc i" using assms(5) by (cases j) simp_all
  obtain q1 r1 where t: "fix16_try divider (2 ^ j) (0, rmd) = (q1, r1)" by fastforce
  have k: "unat r1 < ?D" "2 ^ j dvd unat q1" "unat r1 * 2 ^ j + unat q1 * ?D = ?T"
    using fix16_try_keeps [OF t] assms by simp_all
  obtain h where h: "?D = 2 * h" using assms(3) False by auto
  then have hh: "unat ?h = h" by (simp add: drop_bit_eq_div unat_div)
  have bt: "drop_bit 1 (2 ^ j) = (2 :: u32) ^ i"
    unfolding i by (rule bit_word_eqI)
      (use assms(4) i in \<open>auto simp: bit_drop_bit_eq bit_exp_iff simp del: power_Suc\<close>)
  have top: "divider AND 0x80000000 \<noteq> 0" using False top_bit [of divider] by simp
  obtain q r where l: "fix16_div_loop ?h (2 ^ i) (q1, r1) = (q, r)" by fastforce
  have T: "?T = 2 * (unat r1 * 2 ^ i + unat q1 * h)" using k(3) h i by simp
  have "?D < 2 ^ 32" by (rule less_le_trans [OF unsigned_less]) simp
  then have "unat (if ?h \<le> r then q + 1 else q) =
      (2 * (unat r1 * 2 ^ i + unat q1 * h) + h) div (2 * h)"
    using fix16_div_rounded [OF l, of "unat r1 * 2 ^ i + unat q1 * h"] k(1,2) h hh i assms(2,4,6) T
    by simp
  also have "\<dots> = (2 * (2 * (unat r1 * 2 ^ i + unat q1 * h) + h)) div (2 * (2 * h))"
    by (rule div_mult_mult1 [symmetric]) simp
  also have "\<dots> = (2 * ?T + ?D) div (2 * ?D)" unfolding T h by (simp add: algebra_simps)
  finally show ?thesis
    using top t l bt by (simp add: fix16_quotient_def Let_def)
qed

lemma fix16_div_aligned:
  assumes "b \<noteq> 0" "fix16_align (fix16_abs a) (fix16_abs b) 0x10000 = Some (divider, bt)"
  shows "fix16_div a b =
    (if bt = 0 then FIX16_OVERFLOW
     else if (a <s 0) \<noteq> (b <s 0) then - fix16_quotient (fix16_abs a) divider bt
     else fix16_quotient (fix16_abs a) divider bt)"
  using assms
  by (auto simp: fix16_div_def fix16_quotient_def Let_def FIX16_OVERFLOW_def FIX16_MINIMUM_def
      split: prod.splits)

lemma fix16_start_bit: "push_bit k (0x10000 :: u32) = (if k < 16 then 2 ^ (16 + k) else 0)"
proof -
  have "push_bit k (0x10000 :: u32) = 2 ^ (16 + k)" by (simp add: push_bit_eq_mult power_add)
  moreover have "(2 :: u32) ^ (16 + k) = 0" if "\<not> k < 16" using that by (simp add: exp_eq_zero_iff)
  ultimately show ?thesis by simp
qed

text \<open>The magnitude of the result, over the numbers.\<close>

lemma fix16_magnitude:
  fixes rmd divider :: u32
  assumes "unat rmd \<le> 2 ^ 31" "0 < unat divider" "unat divider \<le> 2 ^ 31"
  obtains d bt where "fix16_align rmd divider 0x10000 = Some (d, bt)"
    "bt = 0 \<longleftrightarrow> 2 ^ 15 * unat divider < unat rmd"
    "bt \<noteq> 0 \<Longrightarrow> unat (fix16_quotient rmd d bt) =
       (2 ^ 17 * unat rmd + unat divider) div (2 * unat divider)"
proof -
  obtain k where k: "fix16_align rmd divider 0x10000 = Some (push_bit k divider, push_bit k 0x10000)"
    "unat (push_bit k divider) = unat divider * 2 ^ k" "unat rmd \<le> unat divider * 2 ^ k"
    "k > 0 \<longrightarrow> unat divider * 2 ^ (k - 1) < unat rmd"
    using fix16_align_ends [OF assms(1,2)] by blast
  let ?R = "unat rmd" and ?D = "unat divider"
  show ?thesis
  proof (cases "k < 16")
    case True
    have le: "?R \<le> 2 ^ 15 * ?D"
    proof -
      have "?D * 2 ^ k \<le> ?D * 2 ^ 15" using True by (intro mult_left_mono power_increasing) simp_all
      then have "?R \<le> ?D * 2 ^ 15" using k(3) by (rule le_trans [rotated])
      then show ?thesis by (simp add: mult.commute)
    qed
    have bt: "push_bit k (0x10000 :: u32) = 2 ^ (16 + k)" using True by (simp add: fix16_start_bit)
    have nz: "(2 :: u32) ^ (16 + k) \<noteq> 0" using True by (simp add: exp_eq_zero_iff)
    have fit: "?R * 2 ^ (16 + k) \<le> 2 ^ 31 * (?D * 2 ^ k)"
    proof -
      have "?R * 2 ^ (16 + k) \<le> (2 ^ 15 * ?D) * 2 ^ (16 + k)" using le by (rule mult_right_mono) simp
      then show ?thesis by (simp add: power_add algebra_simps)
    qed
    have ev: "even (?D * 2 ^ k) \<or> ?D * 2 ^ k < 2 ^ 31"
      using assms(3) by (cases k) auto
    have "unat (fix16_quotient rmd (push_bit k divider) (2 ^ (16 + k))) =
        (2 * (?R * 2 ^ (16 + k)) + ?D * 2 ^ k) div (2 * (?D * 2 ^ k))"
      using fix16_quotient_rounded [of rmd "push_bit k divider" "16 + k"] k(2,3) ev fit True assms(2)
      by simp
    also have "\<dots> = (2 ^ k * (2 ^ 17 * ?R + ?D)) div (2 ^ k * (2 * ?D))"
      by (simp add: power_add algebra_simps)
    also have "\<dots> = (2 ^ 17 * ?R + ?D) div (2 * ?D)" by (rule div_mult_mult1) simp
    finally show ?thesis using k(1) le nz unfolding bt by (intro that) auto
  next
    case False
    have "?D * 2 ^ 15 \<le> ?D * 2 ^ (k - 1)" using False by (intro mult_left_mono power_increasing) simp_all
    moreover have "?D * 2 ^ (k - 1) < ?R" using k(4) False by simp
    ultimately have "?D * 2 ^ 15 < ?R" by (rule le_less_trans)
    then have "2 ^ 15 * ?D < ?R" by (simp add: mult.commute)
    then show ?thesis using k(1) False by (intro that) (auto simp: fix16_start_bit)
  qed
qed

text \<open>
  Claim C31. Division of fixed-point numbers. For every pair of arguments with a divisor other
  than zero the alignment loop ends and the result is the exact quotient of the two numbers,
  rounded to the nearest multiple of 1/65536 with halves away from zero, in two's complement; it
  is the overflow value exactly when the quotient is larger than 32768 in magnitude. A divisor of
  zero gives the smallest number.
\<close>

theorem fix16_div_correct:
  "if b = 0 then fix16_div a b = FIX16_MINIMUM
   else (\<exists>divider bt. fix16_align (fix16_abs a) (fix16_abs b) 0x10000 = Some (divider, bt)) \<and>
     fix16_div a b =
       (if 32768 * \<bar>sint b\<bar> < \<bar>sint a\<bar> then FIX16_OVERFLOW
        else of_int (sgn (sint a) * sgn (sint b) *
               ((131072 * \<bar>sint a\<bar> + \<bar>sint b\<bar>) div (2 * \<bar>sint b\<bar>))))"
proof (cases "b = 0")
  case True
  then show ?thesis by (simp add: fix16_div_def)
next
  case False
  let ?R = "nat \<bar>sint a\<bar>" and ?D = "nat \<bar>sint b\<bar>"
  let ?m = "(131072 * ?R + ?D) div (2 * ?D)"
  have pos: "0 < ?D" using False by (simp add: signed_eq_0_iff)
  obtain d bt where m: "fix16_align (fix16_abs a) (fix16_abs b) 0x10000 = Some (d, bt)"
    "bt = 0 \<longleftrightarrow> 32768 * ?D < ?R"
    "bt \<noteq> 0 \<Longrightarrow> unat (fix16_quotient (fix16_abs a) d bt) = ?m"
    using fix16_magnitude [of "fix16_abs a" "fix16_abs b"] fix16_abs_le [of a] fix16_abs_le [of b] pos
    unfolding unat_fix16_abs by (auto simp: unat_fix16_abs)
  have over: "32768 * ?D < ?R \<longleftrightarrow> 32768 * \<bar>sint b\<bar> < \<bar>sint a\<bar>" by linarith
  have int_m: "int ?m = (131072 * \<bar>sint a\<bar> + \<bar>sint b\<bar>) div (2 * \<bar>sint b\<bar>)"
    by (simp add: zdiv_int)
  have q: "fix16_quotient (fix16_abs a) d bt = of_int (int ?m)" if "bt \<noteq> 0"
  proof -
    have "fix16_quotient (fix16_abs a) d bt = of_nat (unat (fix16_quotient (fix16_abs a) d bt))" by simp
    then show ?thesis unfolding m(3) [OF that] by simp
  qed
  show ?thesis
    using False m(1,2) over q pos unfolding fix16_div_aligned [OF False m(1)] int_m
    by (auto simp: word_sless_alt sgn_if)
qed

end
