(* ===== verification/I2c_Bus.thy ===== *)
theory I2c_Bus
  imports Recovery_Policy
begin

text \<open>
  \<open>Platform/Inc/i2c_bus.h\<close>: the bus as a record of optional functions on its state (the
  \<open>context\<close> of the source), the checks of the wrappers. A driver's bus pointer is an option, and
  the state of the bus is threaded through every call.
\<close>

record 'b I2cBus =
  bus_write :: "('b \<Rightarrow> u16 \<Rightarrow> bytes \<Rightarrow> DriverStatus \<times> 'b) option"
  bus_read_mem :: "('b \<Rightarrow> u16 \<Rightarrow> u8 \<Rightarrow> nat \<Rightarrow> DriverStatus \<times> bytes \<times> 'b) option"
  bus_read :: "('b \<Rightarrow> u16 \<Rightarrow> nat \<Rightarrow> DriverStatus \<times> bytes \<times> 'b) option"
  bus_probe :: "('b \<Rightarrow> u16 \<Rightarrow> DriverStatus \<times> 'b) option"
  bus_recover :: "('b \<Rightarrow> DriverStatus \<times> 'b) option"

definition I2cBus_Write :: "'b I2cBus option \<Rightarrow> u16 \<Rightarrow> bytes option \<Rightarrow> 'b \<Rightarrow> DriverStatus \<times> 'b" where
  "I2cBus_Write bus addr data b =
     (case bus of None \<Rightarrow> (DRIVER_STATUS_INVALID_ARG, b)
      | Some ops \<Rightarrow> (case bus_write ops of None \<Rightarrow> (DRIVER_STATUS_NOT_SUPPORTED, b)
        | Some wr \<Rightarrow> (case data of None \<Rightarrow> (DRIVER_STATUS_INVALID_ARG, b)
          | Some d \<Rightarrow> if length d = 0 \<or> length d > 65535 then (DRIVER_STATUS_INVALID_ARG, b)
            else wr b addr d)))"

definition I2cBus_ReadMem ::
  "'b I2cBus option \<Rightarrow> u16 \<Rightarrow> u8 \<Rightarrow> nat \<Rightarrow> 'b \<Rightarrow> DriverStatus \<times> bytes \<times> 'b" where
  "I2cBus_ReadMem bus addr reg n b =
     (case bus of None \<Rightarrow> (DRIVER_STATUS_INVALID_ARG, [], b)
      | Some ops \<Rightarrow> (case bus_read_mem ops of None \<Rightarrow> (DRIVER_STATUS_NOT_SUPPORTED, [], b)
        | Some rd \<Rightarrow> if n = 0 \<or> n > 65535 then (DRIVER_STATUS_INVALID_ARG, [], b)
            else rd b addr reg n))"

definition I2cBus_Read :: "'b I2cBus option \<Rightarrow> u16 \<Rightarrow> nat \<Rightarrow> 'b \<Rightarrow> DriverStatus \<times> bytes \<times> 'b" where
  "I2cBus_Read bus addr n b =
     (case bus of None \<Rightarrow> (DRIVER_STATUS_INVALID_ARG, [], b)
      | Some ops \<Rightarrow> (case bus_read ops of None \<Rightarrow> (DRIVER_STATUS_NOT_SUPPORTED, [], b)
        | Some rd \<Rightarrow> if n = 0 \<or> n > 65535 then (DRIVER_STATUS_INVALID_ARG, [], b)
            else rd b addr n))"

definition I2cBus_Probe :: "'b I2cBus option \<Rightarrow> u16 \<Rightarrow> 'b \<Rightarrow> DriverStatus \<times> 'b" where
  "I2cBus_Probe bus addr b =
     (case bus of None \<Rightarrow> (DRIVER_STATUS_INVALID_ARG, b)
      | Some ops \<Rightarrow> (case bus_probe ops of None \<Rightarrow> (DRIVER_STATUS_NOT_SUPPORTED, b)
        | Some pr \<Rightarrow> pr b addr))"

definition I2cBus_Recover :: "'b I2cBus option \<Rightarrow> 'b \<Rightarrow> DriverStatus \<times> 'b" where
  "I2cBus_Recover bus b =
     (case bus of None \<Rightarrow> (DRIVER_STATUS_INVALID_ARG, b)
      | Some ops \<Rightarrow> (case bus_recover ops of None \<Rightarrow> (DRIVER_STATUS_NOT_SUPPORTED, b)
        | Some f \<Rightarrow> f b))"

section \<open>Probing behind the ladder\<close>

text \<open>
  Every runtime and the application itself hold a count of failed probes in a row and the tick
  of the next probe, with the same test whether it is due.
\<close>

definition probe_held :: "u32 \<Rightarrow> u32 \<Rightarrow> u32 \<Rightarrow> bool" where
  "probe_held consecutive_absent next_probe_ms now \<longleftrightarrow>
     consecutive_absent > 0 \<and>
     (RecoveryPolicy_Elapsed now next_probe_ms 0 = False \<or> now - next_probe_ms \<ge> 0x80000000)"

definition probe_due :: "u32 \<Rightarrow> u32 \<Rightarrow> u32 \<Rightarrow> bool" where
  "probe_due consecutive_absent next_probe_ms now \<longleftrightarrow>
     (if consecutive_absent = 0 then True
      else if RecoveryPolicy_Elapsed now next_probe_ms 0 = False then False
      else now - next_probe_ms < 0x80000000)"

lemma probe_due_iff: "probe_due k t now \<longleftrightarrow> \<not> probe_held k t now"
  by (auto simp: probe_due_def probe_held_def word_gt_0 not_less)

section \<open>CRC-8 of the Sensirion sensors\<close>

text \<open>Polynomial 0x31, initial value 0xFF; one step of the inner loop, one byte, one buffer.\<close>

definition crc8_bit :: "u8 \<Rightarrow> u8" where
  "crc8_bit crc = (if crc AND 0x80 \<noteq> 0 then push_bit 1 crc XOR 0x31 else push_bit 1 crc)"

definition crc8_byte :: "u8 \<Rightarrow> u8 \<Rightarrow> u8" where
  "crc8_byte crc d = (crc8_bit ^^ 8) (crc XOR d)"

definition Sensirion_Crc8 :: "bytes \<Rightarrow> u8" where
  "Sensirion_Crc8 data = foldl crc8_byte 0xFF data"

text \<open>Two bytes, most significant first, and their CRC.\<close>

definition ReadWordWithCrc :: "bytes \<Rightarrow> DriverStatus \<times> u16" where
  "ReadWordWithCrc p =
     (let crc = Sensirion_Crc8 (take 2 p) in
      if crc \<noteq> p ! 2 then (DRIVER_STATUS_CRC_ERROR, 0)
      else (DRIVER_STATUS_OK, push_bit 8 (ucast (p ! 0)) OR ucast (p ! 1)))"

end
