(* ===== verification/Sensor_Runtime.thy ===== *)
theory Sensor_Runtime
  imports I2c_Bus
begin

text \<open>
  What the application relies on in every sensor runtime (\<open>Start\<close>, \<open>Poll\<close>, \<open>Recover\<close> of
  \<open>scd41_runtime.c\<close>, \<open>sht45_runtime.c\<close>, \<open>sgp41_runtime.c\<close>, \<open>bmp390_runtime.c\<close> and
  \<open>bmp380_runtime.c\<close>), as one interface: the laws each runtime has, what follows from them for
  every history of calls, and the history itself. Each sensor's theory interprets the interface
  on its own operations.
\<close>

text \<open>The states in which a runtime waits for the application.\<close>

definition sensor_resting :: "DeviceState \<Rightarrow> bool" where
  "sensor_resting s \<longleftrightarrow> s = DEVICE_STATE_NOT_FOUND \<or> s = DEVICE_STATE_ERROR \<or> s = DEVICE_STATE_RECOVERING"

text \<open>
  One call of the application on a runtime and the bus: \<open>App_DoRetry\<close> starts a sensor only from
  a resting state.
\<close>

datatype sensor_event = Sensor_Poll u32 | Sensor_Start u32 | Sensor_Recover

fun sensor_run ::
  "('r \<Rightarrow> DeviceState) \<Rightarrow> (u32 \<Rightarrow> 'r \<Rightarrow> 'b \<Rightarrow> 'r \<times> 'b) \<Rightarrow> (u32 \<Rightarrow> 'r \<Rightarrow> 'b \<Rightarrow> DriverStatus \<times> 'r \<times> 'b) \<Rightarrow>
   ('r \<Rightarrow> 'r) \<Rightarrow> sensor_event list \<Rightarrow> 'r \<Rightarrow> 'b \<Rightarrow> 'r \<times> 'b" where
  "sensor_run state poll start recover [] rt b = (rt, b)"
| "sensor_run state poll start recover (Sensor_Poll now # es) rt b =
     (case poll now rt b of (rt, b) \<Rightarrow> sensor_run state poll start recover es rt b)"
| "sensor_run state poll start recover (Sensor_Start now # es) rt b =
     (if sensor_resting (state rt)
      then case start now rt b of (_, rt, b) \<Rightarrow> sensor_run state poll start recover es rt b
      else sensor_run state poll start recover es rt b)"
| "sensor_run state poll start recover (Sensor_Recover # es) rt b =
     sensor_run state poll start recover es (recover rt) b"

text \<open>What every call keeps, every history keeps; \<open>Start\<close> is called in a resting state.\<close>

lemma sensor_run_keeps:
  assumes "\<And>now rt b rt' b'. P rt \<Longrightarrow> poll now rt b = (rt', b') \<Longrightarrow> P rt'"
    and "\<And>now rt b s rt' b'. P rt \<Longrightarrow> sensor_resting (state rt) \<Longrightarrow> start now rt b = (s, rt', b') \<Longrightarrow> P rt'"
    and "\<And>rt. P rt \<Longrightarrow> P (recover rt)"
    and "P rt" "sensor_run state poll start recover es rt b = (rt', b')"
  shows "P rt'"
  using assms(4,5)
proof (induction es arbitrary: rt b)
  case (Cons e es)
  then show ?case
    by (cases e) (auto split: prod.splits if_splits intro: assms(1-3))
qed simp

text \<open>The calls of a history but \<open>Recover\<close>, with their ticks.\<close>

fun before_probe :: "(u32 \<Rightarrow> bool) \<Rightarrow> sensor_event \<Rightarrow> bool" where
  "before_probe held (Sensor_Poll now) = True"
| "before_probe held (Sensor_Start now) = held now"
| "before_probe held Sensor_Recover = True"

locale sensor_runtime =
  fixes state :: "'r \<Rightarrow> DeviceState"
    and valid :: "'r \<Rightarrow> bool"
    and stamp :: "'r \<Rightarrow> u32"
    and stale :: u32
    and held :: "'r \<Rightarrow> u32 \<Rightarrow> bool"
    and poll :: "u32 \<Rightarrow> 'r \<Rightarrow> 'b \<Rightarrow> 'r \<times> 'b"
    and start :: "u32 \<Rightarrow> 'r \<Rightarrow> 'b \<Rightarrow> DriverStatus \<times> 'r \<times> 'b"
    and recover :: "'r \<Rightarrow> 'r"
  assumes poll_resting: "sensor_resting (state rt) \<Longrightarrow> poll now rt b = (rt', b') \<Longrightarrow>
      b' = b \<and> state rt' = state rt \<and> valid rt' = valid rt \<and> held rt' = held rt"
    and poll_fresh: "\<not> sensor_resting (state rt) \<Longrightarrow> poll now rt b = (rt', b') \<Longrightarrow> valid rt' \<Longrightarrow>
      \<not> sensor_resting (state rt') \<and> now - stamp rt' < stale"
    and start_held: "held rt now \<Longrightarrow> start now rt b = (s, rt', b') \<Longrightarrow>
      b' = b \<and> s = DRIVER_STATUS_NOT_FOUND \<and> state rt' = DEVICE_STATE_NOT_FOUND \<and> held rt' = held rt"
    and start_valid: "start now rt b = (s, rt', b') \<Longrightarrow> valid rt' \<Longrightarrow> valid rt"
    and recover_state: "state (recover rt) = DEVICE_STATE_RECOVERING"
    and recover_valid: "\<not> valid (recover rt)"
    and recover_held: "held (recover rt) = held rt"
begin

text \<open>A resting runtime has no valid sample.\<close>

definition settled :: "'r \<Rightarrow> bool" where
  "settled rt \<longleftrightarrow> (sensor_resting (state rt) \<longrightarrow> \<not> valid rt)"

lemma poll_settled: "settled rt \<Longrightarrow> poll now rt b = (rt', b') \<Longrightarrow> settled rt'"
  using poll_resting [of rt now b rt' b'] poll_fresh [of rt now b rt' b'] unfolding settled_def by metis

lemma start_settled:
  "settled rt \<Longrightarrow> sensor_resting (state rt) \<Longrightarrow> start now rt b = (s, rt', b') \<Longrightarrow> settled rt'"
  using start_valid by (auto simp: settled_def)

lemma recover_settled: "settled (recover rt)"
  by (simp add: settled_def recover_valid)

lemma run_settled:
  "settled rt \<Longrightarrow> sensor_run state poll start recover es rt b = (rt', b') \<Longrightarrow> settled rt'"
  by (rule sensor_run_keeps [where P = settled])
    (auto intro: poll_settled start_settled recover_settled)

text \<open>After a poll, a valid sample is fresh.\<close>

lemma run_fresh:
  assumes "settled rt" "sensor_run state poll start recover es rt b = (rt1, b1)"
    and "poll now rt1 b1 = (rt2, b2)" "valid rt2"
  shows "now - stamp rt2 < stale"
  using run_settled [OF assms(1,2)] poll_resting [OF _ assms(3)] poll_fresh [OF _ assms(3,4)] assms(4)
  unfolding settled_def by metis

lemma after_fresh:
  assumes "settled rt"
  shows "\<not> (valid (case sensor_run state poll start recover es rt b of (rt, b) \<Rightarrow> fst (poll now rt b)) \<and>
    stale \<le> now - stamp (case sensor_run state poll start recover es rt b of (rt, b) \<Rightarrow> fst (poll now rt b)))"
proof -
  obtain rt1 b1 where r: "sensor_run state poll start recover es rt b = (rt1, b1)" by fastforce
  obtain rt2 b2 where p: "poll now rt1 b1 = (rt2, b2)" by fastforce
  show ?thesis using run_fresh [OF assms r p] by (auto simp: r p not_le)
qed

text \<open>Until its next probe is due, a resting runtime does not touch the bus.\<close>

lemma run_quiet:
  assumes "sensor_resting (state rt)" "list_all (before_probe (held rt)) es"
    and "sensor_run state poll start recover es rt b = (rt', b')"
  shows "b' = b \<and> sensor_resting (state rt')"
  using assms
proof (induction es arbitrary: rt)
  case (Cons e es)
  show ?case
  proof (cases e)
    case (Sensor_Poll now)
    then show ?thesis
      using Cons.prems Cons.IH poll_resting [OF Cons.prems(1)]
      by (clarsimp split: prod.splits) (metis prod.collapse)
  next
    case (Sensor_Start now)
    then show ?thesis
      using Cons.prems Cons.IH start_held [of rt now b]
      by (clarsimp split: prod.splits simp: sensor_resting_def) metis
  next
    case Sensor_Recover
    then show ?thesis
      using Cons.prems Cons.IH [of "recover rt"] recover_state [of rt] recover_held [of rt]
      by (simp add: sensor_resting_def)
  qed
qed simp

end

end
