(* ===== verification/Scd41.thy ===== *)
theory Scd41
  imports Sensor_Runtime Float32
begin

text \<open>
  \<open>Drivers/scd41/Src/scd41.c\<close> and \<open>scd41_runtime.c\<close>: the CO2 sensor and its state machine.
  The runtime reads the tick once per call here, as the tick is one argument of a call. A
  measurement that fails leaves the caller's structure with \<open>valid = false\<close>, and the caller
  does not look at it.
\<close>

section \<open>Driver\<close>

definition SCD41_I2C_ADDR :: u16 where "SCD41_I2C_ADDR = 0x62"
definition SCD41_CMD_START_PERIODIC :: u16 where "SCD41_CMD_START_PERIODIC = 0x21B1"
definition SCD41_CMD_STOP_PERIODIC :: u16 where "SCD41_CMD_STOP_PERIODIC = 0x3F86"
definition SCD41_CMD_GET_DATA_READY :: u16 where "SCD41_CMD_GET_DATA_READY = 0xE4B8"
definition SCD41_CMD_READ_MEASUREMENT :: u16 where "SCD41_CMD_READ_MEASUREMENT = 0xEC05"
definition SCD41_PERIODIC_INTERVAL_MS :: u32 where "SCD41_PERIODIC_INTERVAL_MS = 5000"
definition SCD41_DATA_READY_MASK :: u16 where "SCD41_DATA_READY_MASK = 0x07FF"
definition SCD41_COMMAND_RESPONSE_DELAY_MS :: u32 where "SCD41_COMMAND_RESPONSE_DELAY_MS = 1"

record Scd41Measurement =
  sm_co2_ppm :: u16
  sm_temperature_c :: f32
  sm_relative_humidity_pct :: f32
  sm_valid :: bool

record 'b Scd41 =
  sd_bus :: "'b I2cBus option"
  sd_address :: u16
  sd_initialized :: u8

definition SCD41_SendCommand :: "'b Scd41 \<Rightarrow> u16 \<Rightarrow> 'b \<Rightarrow> DriverStatus \<times> 'b" where
  "SCD41_SendCommand dev cmd b =
     (if sd_bus dev = None then (DRIVER_STATUS_INVALID_ARG, b)
      else I2cBus_Write (sd_bus dev) (sd_address dev) (Some [ucast (drop_bit 8 cmd), ucast (cmd AND 0xFF)]) b)"

definition SCD41_Crc8 :: "bytes \<Rightarrow> u8" where
  "SCD41_Crc8 data = Sensirion_Crc8 data"

text \<open>The address is left-shifted into the byte convention of the bus.\<close>

definition SCD41_Init :: "'b Scd41 \<Rightarrow> 'b I2cBus option \<Rightarrow> DriverStatus \<times> 'b Scd41" where
  "SCD41_Init dev bus =
     (case bus of None \<Rightarrow> (DRIVER_STATUS_INVALID_ARG, dev)
      | Some ops \<Rightarrow> (DRIVER_STATUS_OK,
          \<lparr>sd_bus = Some ops, sd_address = push_bit 1 SCD41_I2C_ADDR, sd_initialized = 1\<rparr>))"

definition SCD41_Probe :: "'b I2cBus option \<Rightarrow> 'b \<Rightarrow> DriverStatus \<times> 'b" where
  "SCD41_Probe bus b =
     (if bus = None then (DRIVER_STATUS_INVALID_ARG, b) else I2cBus_Probe bus (push_bit 1 SCD41_I2C_ADDR) b)"

definition SCD41_StartPeriodicMeasurement :: "'b Scd41 \<Rightarrow> 'b \<Rightarrow> DriverStatus \<times> 'b" where
  "SCD41_StartPeriodicMeasurement dev b = SCD41_SendCommand dev SCD41_CMD_START_PERIODIC b"

definition SCD41_StopPeriodicMeasurement :: "'b Scd41 \<Rightarrow> 'b \<Rightarrow> DriverStatus \<times> 'b" where
  "SCD41_StopPeriodicMeasurement dev b = SCD41_SendCommand dev SCD41_CMD_STOP_PERIODIC b"

definition SCD41_BeginGetDataReady :: "'b Scd41 \<Rightarrow> 'b \<Rightarrow> DriverStatus \<times> 'b" where
  "SCD41_BeginGetDataReady dev b =
     (if sd_initialized dev = 0 then (DRIVER_STATUS_NOT_READY, b)
      else SCD41_SendCommand dev SCD41_CMD_GET_DATA_READY b)"

text \<open>The status and, when it is OK, the flag.\<close>

definition SCD41_FinishGetDataReady :: "'b Scd41 \<Rightarrow> 'b \<Rightarrow> DriverStatus \<times> bool \<times> 'b" where
  "SCD41_FinishGetDataReady dev b =
     (if sd_initialized dev = 0 then (DRIVER_STATUS_NOT_READY, False, b)
      else case I2cBus_Read (sd_bus dev) (sd_address dev) 3 b of (s, raw, b) \<Rightarrow>
      if s \<noteq> DRIVER_STATUS_OK then (s, False, b)
      else case ReadWordWithCrc raw of (cstatus, word) \<Rightarrow>
      if cstatus \<noteq> DRIVER_STATUS_OK then (cstatus, False, b)
      else (DRIVER_STATUS_OK, word AND SCD41_DATA_READY_MASK \<noteq> 0, b))"

definition SCD41_BeginReadMeasurement :: "'b Scd41 \<Rightarrow> 'b \<Rightarrow> DriverStatus \<times> 'b" where
  "SCD41_BeginReadMeasurement dev b =
     (if sd_initialized dev = 0 then (DRIVER_STATUS_NOT_READY, b)
      else SCD41_SendCommand dev SCD41_CMD_READ_MEASUREMENT b)"

text \<open>\<open>a + k * (float)raw / 65535.0f\<close>, rounded after each operation.\<close>

definition scaled :: "int \<Rightarrow> int \<Rightarrow> u16 \<Rightarrow> f32" where
  "scaled a k raw =
     f32_add (f32_of_int a) (f32_div (f32_mul (f32_of_int k) (f32_of_int (uint raw))) (f32_of_int 65535))"

definition scd41_sample :: "u16 \<Rightarrow> u16 \<Rightarrow> u16 \<Rightarrow> Scd41Measurement" where
  "scd41_sample co2 t rh =
     \<lparr>sm_co2_ppm = co2, sm_temperature_c = scaled (-45) 175 t,
      sm_relative_humidity_pct = f32_div (f32_mul (f32_of_int 100) (f32_of_int (uint rh))) (f32_of_int 65535),
      sm_valid = True\<rparr>"

definition SCD41_FinishReadMeasurement ::
  "'b Scd41 \<Rightarrow> 'b \<Rightarrow> DriverStatus \<times> Scd41Measurement option \<times> 'b" where
  "SCD41_FinishReadMeasurement dev b =
     (if sd_initialized dev = 0 then (DRIVER_STATUS_NOT_READY, None, b)
      else case I2cBus_Read (sd_bus dev) (sd_address dev) 9 b of (s, raw, b) \<Rightarrow>
      if s \<noteq> DRIVER_STATUS_OK then (s, None, b)
      else let (c1, co2) = ReadWordWithCrc raw;
               (c2, t) = ReadWordWithCrc (drop 3 raw);
               (c3, rh) = ReadWordWithCrc (drop 6 raw) in
      if c1 \<noteq> DRIVER_STATUS_OK then (c1, None, b)
      else if c2 \<noteq> DRIVER_STATUS_OK then (c2, None, b)
      else if c3 \<noteq> DRIVER_STATUS_OK then (c3, None, b)
      else (DRIVER_STATUS_OK, Some (scd41_sample co2 t rh), b))"

section \<open>Runtime\<close>

definition SCD41_RUNTIME_STALE_MS :: u32 where "SCD41_RUNTIME_STALE_MS = 3 * SCD41_PERIODIC_INTERVAL_MS"
definition SCD41_RUNTIME_POLL_INTERVAL_MS :: u32 where "SCD41_RUNTIME_POLL_INTERVAL_MS = 500"
definition SCD41_RUNTIME_ERROR_THRESHOLD :: u32 where "SCD41_RUNTIME_ERROR_THRESHOLD = 3"
definition SCD41_RUNTIME_STOP_SETTLE_MS :: u32 where "SCD41_RUNTIME_STOP_SETTLE_MS = 500"

datatype Scd41RuntimePhase =
    SCD41_PHASE_IDLE | SCD41_PHASE_WAIT_DATA_READY_RESPONSE | SCD41_PHASE_WAIT_MEASUREMENT_RESPONSE
  | SCD41_PHASE_RECOVER_STOP_SETTLE

record 'b Scd41Runtime =
  sr_state :: DeviceState
  sr_phase :: Scd41RuntimePhase
  sr_deadline_ms :: u32
  sr_dev :: "'b Scd41"
  sr_last_sample :: Scd41Measurement
  sr_operation_successes :: u32
  sr_operation_failures :: u32
  sr_consecutive_errors :: u32
  sr_recovery_count :: u32
  sr_last_success_ms :: u32
  sr_last_failure_ms :: u32
  sr_last_valid_measurement_ms :: u32
  sr_started_at_ms :: u32
  sr_last_tick_ms :: u32
  sr_start_pending :: bool
  sr_stop_settle_deadline_ms :: u32
  sr_consecutive_absent :: u32
  sr_next_probe_ms :: u32
  sr_last_error_class :: DriverStatus

definition Scd41Runtime_RecordSuccess :: "u32 \<Rightarrow> 'b Scd41Runtime \<Rightarrow> 'b Scd41Runtime" where
  "Scd41Runtime_RecordSuccess now rt =
     rt\<lparr>sr_operation_successes := sr_operation_successes rt + 1, sr_consecutive_errors := 0,
        sr_last_success_ms := now\<rparr>"

definition Scd41Runtime_RecordFailure :: "u32 \<Rightarrow> 'b Scd41Runtime \<Rightarrow> 'b Scd41Runtime" where
  "Scd41Runtime_RecordFailure now rt =
     rt\<lparr>sr_operation_failures := sr_operation_failures rt + 1,
        sr_consecutive_errors := sr_consecutive_errors rt + 1, sr_last_failure_ms := now\<rparr>"

definition Scd41Runtime_EscalateError :: "'b Scd41Runtime \<Rightarrow> 'b Scd41Runtime" where
  "Scd41Runtime_EscalateError rt =
     rt\<lparr>sr_last_sample := (sr_last_sample rt)\<lparr>sm_valid := False\<rparr>, sr_state := DEVICE_STATE_ERROR\<rparr>"

definition Scd41Runtime_DeadlinePassed :: "u32 \<Rightarrow> u32 \<Rightarrow> bool" where
  "Scd41Runtime_DeadlinePassed now deadline \<longleftrightarrow> now - deadline < 0x80000000"

definition Scd41Runtime_RecordFailureEscalate :: "u32 \<Rightarrow> 'b Scd41Runtime \<Rightarrow> 'b Scd41Runtime" where
  "Scd41Runtime_RecordFailureEscalate now rt =
     (let rt = Scd41Runtime_RecordFailure now rt in
      if sr_consecutive_errors rt \<ge> SCD41_RUNTIME_ERROR_THRESHOLD
      then Scd41Runtime_EscalateError (rt\<lparr>sr_phase := SCD41_PHASE_IDLE\<rparr>) else rt)"

text \<open>The zeroed structure.\<close>

definition zero_scd41 :: "'b Scd41Runtime" where
  "zero_scd41 =
     \<lparr>sr_state = DEVICE_STATE_UNKNOWN, sr_phase = SCD41_PHASE_IDLE, sr_deadline_ms = 0,
      sr_dev = \<lparr>sd_bus = None, sd_address = 0, sd_initialized = 0\<rparr>,
      sr_last_sample = \<lparr>sm_co2_ppm = 0, sm_temperature_c = F32 False 0,
        sm_relative_humidity_pct = F32 False 0, sm_valid = False\<rparr>,
      sr_operation_successes = 0, sr_operation_failures = 0, sr_consecutive_errors = 0,
      sr_recovery_count = 0, sr_last_success_ms = 0, sr_last_failure_ms = 0,
      sr_last_valid_measurement_ms = 0, sr_started_at_ms = 0, sr_last_tick_ms = 0,
      sr_start_pending = False, sr_stop_settle_deadline_ms = 0, sr_consecutive_absent = 0,
      sr_next_probe_ms = 0, sr_last_error_class = DRIVER_STATUS_OK\<rparr>"

definition Scd41Runtime_Init :: "u32 \<Rightarrow> 'b I2cBus option \<Rightarrow> 'b Scd41Runtime" where
  "Scd41Runtime_Init now bus =
     (let rt = zero_scd41\<lparr>sr_state := DEVICE_STATE_NOT_FOUND, sr_last_tick_ms := now\<rparr> in
      if bus \<noteq> None then rt\<lparr>sr_dev := snd (SCD41_Init (sr_dev rt) bus)\<rparr> else rt)"

definition Scd41Runtime_HasValidSample :: "'b Scd41Runtime \<Rightarrow> bool" where
  "Scd41Runtime_HasValidSample rt \<longleftrightarrow> sr_state rt = DEVICE_STATE_READY \<and> sm_valid (sr_last_sample rt)"

definition Scd41Runtime_IsMissing :: "'b Scd41Runtime \<Rightarrow> bool" where
  "Scd41Runtime_IsMissing rt \<longleftrightarrow> sr_state rt = DEVICE_STATE_NOT_FOUND"

definition Scd41Runtime_EnforceFreshness :: "u32 \<Rightarrow> 'b Scd41Runtime \<Rightarrow> 'b Scd41Runtime" where
  "Scd41Runtime_EnforceFreshness now rt =
     (if sr_state rt \<noteq> DEVICE_STATE_READY then rt
      else if now - sr_last_valid_measurement_ms rt \<ge> SCD41_RUNTIME_STALE_MS
      then rt\<lparr>sr_last_sample := (sr_last_sample rt)\<lparr>sm_valid := False\<rparr>, sr_state := DEVICE_STATE_WAITING\<rparr>
      else rt)"

definition Scd41Runtime_ProbeDue :: "'b Scd41Runtime \<Rightarrow> u32 \<Rightarrow> bool" where
  "Scd41Runtime_ProbeDue rt now = probe_due (sr_consecutive_absent rt) (sr_next_probe_ms rt) now"

definition Scd41Runtime_LastError :: "'b Scd41Runtime \<Rightarrow> DriverStatus" where
  "Scd41Runtime_LastError rt = sr_last_error_class rt"

definition Scd41Runtime_Start :: "u32 \<Rightarrow> 'b Scd41Runtime \<Rightarrow> 'b \<Rightarrow> DriverStatus \<times> 'b Scd41Runtime \<times> 'b" where
  "Scd41Runtime_Start now rt b =
     (if probe_held (sr_consecutive_absent rt) (sr_next_probe_ms rt) now
      then (DRIVER_STATUS_NOT_FOUND, rt\<lparr>sr_state := DEVICE_STATE_NOT_FOUND\<rparr>, b)
      else case SCD41_Probe (sd_bus (sr_dev rt)) b of (ps, b) \<Rightarrow>
      if ps \<noteq> DRIVER_STATUS_OK
      then let k = RecoveryPolicy_TrackAbsence (sr_consecutive_absent rt) True in
        (ps, rt\<lparr>sr_state := DEVICE_STATE_NOT_FOUND, sr_last_error_class := ps, sr_consecutive_absent := k,
               sr_next_probe_ms := now + RecoveryPolicy_BackoffMs k\<rparr>, b)
      else let rt = rt\<lparr>sr_consecutive_absent := 0, sr_last_error_class := DRIVER_STATUS_OK\<rparr>;
               rt = (if sd_initialized (sr_dev rt) = 0
                     then rt\<lparr>sr_dev := snd (SCD41_Init (sr_dev rt) (sd_bus (sr_dev rt)))\<rparr> else rt) in
      case SCD41_StartPeriodicMeasurement (sr_dev rt) b of (ss, b) \<Rightarrow>
      if ss = DRIVER_STATUS_OK
      then (DRIVER_STATUS_OK, Scd41Runtime_RecordSuccess now
             (rt\<lparr>sr_started_at_ms := now, sr_state := DEVICE_STATE_STARTING, sr_phase := SCD41_PHASE_IDLE\<rparr>), b)
      else case SCD41_StopPeriodicMeasurement (sr_dev rt) b of (stops, b) \<Rightarrow>
      if stops \<noteq> DRIVER_STATUS_OK
      then let rt = Scd41Runtime_RecordFailure now (rt\<lparr>sr_last_error_class := stops\<rparr>) in
        (stops, if sr_consecutive_errors rt \<ge> SCD41_RUNTIME_ERROR_THRESHOLD
                then rt\<lparr>sr_state := DEVICE_STATE_ERROR\<rparr> else rt, b)
      else (DRIVER_STATUS_OK, rt\<lparr>sr_stop_settle_deadline_ms := now + SCD41_RUNTIME_STOP_SETTLE_MS,
              sr_state := DEVICE_STATE_STARTING, sr_phase := SCD41_PHASE_RECOVER_STOP_SETTLE\<rparr>, b))"

section \<open>Polling\<close>

definition scd41_failed :: "u32 \<Rightarrow> DriverStatus \<Rightarrow> 'b Scd41Runtime \<Rightarrow> 'b Scd41Runtime" where
  "scd41_failed now s rt = Scd41Runtime_RecordFailureEscalate now (rt\<lparr>sr_last_error_class := s\<rparr>)"

text \<open>The branch for the state STARTING.\<close>

definition scd41_starting :: "u32 \<Rightarrow> 'b Scd41Runtime \<Rightarrow> 'b \<Rightarrow> 'b Scd41Runtime \<times> 'b" where
  "scd41_starting now rt b =
     (if sr_phase rt = SCD41_PHASE_RECOVER_STOP_SETTLE
      then (if Scd41Runtime_DeadlinePassed now (sr_stop_settle_deadline_ms rt) = False then (rt, b)
            else case SCD41_StartPeriodicMeasurement (sr_dev rt) b of (rs, b) \<Rightarrow>
              let rt = rt\<lparr>sr_phase := SCD41_PHASE_IDLE\<rparr> in
              if rs \<noteq> DRIVER_STATUS_OK then (scd41_failed now rs rt, b)
              else (Scd41Runtime_RecordSuccess now (rt\<lparr>sr_started_at_ms := now,
                      sr_state := DEVICE_STATE_STARTING, sr_last_error_class := DRIVER_STATUS_OK\<rparr>), b))
      else if now - sr_started_at_ms rt \<ge> SCD41_PERIODIC_INTERVAL_MS
      then (rt\<lparr>sr_state := DEVICE_STATE_WAITING, sr_phase := SCD41_PHASE_IDLE\<rparr>, b)
      else (rt, b))"

text \<open>The two-phase transaction.\<close>

definition scd41_begin :: "u32 \<Rightarrow> 'b Scd41Runtime \<Rightarrow> 'b \<Rightarrow> 'b Scd41Runtime \<times> 'b" where
  "scd41_begin now rt b =
     (case SCD41_BeginGetDataReady (sr_dev rt) b of (bs, b) \<Rightarrow>
      if bs \<noteq> DRIVER_STATUS_OK then (scd41_failed now bs rt, b)
      else (rt\<lparr>sr_deadline_ms := now + SCD41_COMMAND_RESPONSE_DELAY_MS,
               sr_phase := SCD41_PHASE_WAIT_DATA_READY_RESPONSE\<rparr>, b))"

definition scd41_data_ready :: "u32 \<Rightarrow> 'b Scd41Runtime \<Rightarrow> 'b \<Rightarrow> 'b Scd41Runtime \<times> 'b" where
  "scd41_data_ready now rt b =
     (if Scd41Runtime_DeadlinePassed now (sr_deadline_ms rt) = False then (rt, b)
      else case SCD41_FinishGetDataReady (sr_dev rt) b of (fs, new_data, b) \<Rightarrow>
      if fs \<noteq> DRIVER_STATUS_OK then (scd41_failed now fs (rt\<lparr>sr_phase := SCD41_PHASE_IDLE\<rparr>), b)
      else if \<not> new_data then (rt\<lparr>sr_phase := SCD41_PHASE_IDLE\<rparr>, b)
      else case SCD41_BeginReadMeasurement (sr_dev rt) b of (mbs, b) \<Rightarrow>
      if mbs \<noteq> DRIVER_STATUS_OK then (scd41_failed now mbs (rt\<lparr>sr_phase := SCD41_PHASE_IDLE\<rparr>), b)
      else (rt\<lparr>sr_deadline_ms := now + SCD41_COMMAND_RESPONSE_DELAY_MS,
               sr_phase := SCD41_PHASE_WAIT_MEASUREMENT_RESPONSE\<rparr>, b))"

definition scd41_measurement :: "u32 \<Rightarrow> 'b Scd41Runtime \<Rightarrow> 'b \<Rightarrow> 'b Scd41Runtime \<times> 'b" where
  "scd41_measurement now rt b =
     (if Scd41Runtime_DeadlinePassed now (sr_deadline_ms rt) = False then (rt, b)
      else case SCD41_FinishReadMeasurement (sr_dev rt) b of (rs, meas, b) \<Rightarrow>
      let rt = rt\<lparr>sr_phase := SCD41_PHASE_IDLE\<rparr> in
      if rs \<noteq> DRIVER_STATUS_OK then (scd41_failed now rs rt, b)
      else case meas of
        Some m \<Rightarrow> (if sm_valid m
          then (Scd41Runtime_RecordSuccess now (rt\<lparr>sr_last_sample := m, sr_last_valid_measurement_ms := now,
                  sr_state := DEVICE_STATE_READY, sr_last_error_class := DRIVER_STATUS_OK\<rparr>), b)
          else (rt, b))
      | None \<Rightarrow> (rt, b))"

definition Scd41Runtime_Poll :: "u32 \<Rightarrow> 'b Scd41Runtime \<Rightarrow> 'b \<Rightarrow> 'b Scd41Runtime \<times> 'b" where
  "Scd41Runtime_Poll now rt b =
     (let rt = rt\<lparr>sr_last_tick_ms := now\<rparr> in
      if sr_state rt = DEVICE_STATE_STARTING then scd41_starting now rt b
      else if sr_state rt = DEVICE_STATE_NOT_FOUND \<or> sr_state rt = DEVICE_STATE_ERROR \<or>
              sr_state rt = DEVICE_STATE_RECOVERING then (rt, b)
      else if sr_state rt \<noteq> DEVICE_STATE_WAITING \<and> sr_state rt \<noteq> DEVICE_STATE_READY then (rt, b)
      else let rt = Scd41Runtime_EnforceFreshness now rt in
      if sr_consecutive_errors rt \<ge> SCD41_RUNTIME_ERROR_THRESHOLD
      then (Scd41Runtime_EscalateError (rt\<lparr>sr_phase := SCD41_PHASE_IDLE\<rparr>), b)
      else if sr_phase rt = SCD41_PHASE_IDLE then scd41_begin now rt b
      else if sr_phase rt = SCD41_PHASE_WAIT_DATA_READY_RESPONSE then scd41_data_ready now rt b
      else if sr_phase rt = SCD41_PHASE_WAIT_MEASUREMENT_RESPONSE then scd41_measurement now rt b
      else (rt, b))"

definition Scd41Runtime_Recover :: "'b Scd41Runtime \<Rightarrow> 'b Scd41Runtime" where
  "Scd41Runtime_Recover rt =
     rt\<lparr>sr_recovery_count := sr_recovery_count rt + 1, sr_consecutive_errors := 0,
        sr_last_sample := (sr_last_sample rt)\<lparr>sm_valid := False\<rparr>, sr_state := DEVICE_STATE_RECOVERING\<rparr>"

definition Scd41Runtime_GetDiagnostics :: "'b Scd41Runtime \<Rightarrow> DeviceRuntime" where
  "Scd41Runtime_GetDiagnostics rt =
     \<lparr>dr_state = sr_state rt, dr_init_attempts = 0, dr_init_failures = 0,
      dr_operation_successes = sr_operation_successes rt, dr_operation_failures = sr_operation_failures rt,
      dr_recovery_count = sr_recovery_count rt, dr_consecutive_errors = sr_consecutive_errors rt,
      dr_last_success_ms = sr_last_success_ms rt, dr_last_failure_ms = sr_last_failure_ms rt\<rparr>"

section \<open>The interface of the application\<close>

definition scd41_held :: "'b Scd41Runtime \<Rightarrow> u32 \<Rightarrow> bool" where
  "scd41_held rt = probe_held (sr_consecutive_absent rt) (sr_next_probe_ms rt)"

text \<open>A valid sample is fresh at the tick; only the state READY has one.\<close>

definition scd41_fresh :: "u32 \<Rightarrow> 'b Scd41Runtime \<Rightarrow> bool" where
  "scd41_fresh now rt \<longleftrightarrow> (Scd41Runtime_HasValidSample rt \<longrightarrow>
     now - sr_last_valid_measurement_ms rt < SCD41_RUNTIME_STALE_MS)"

lemmas scd41_fresh_simps =
  scd41_fresh_def Scd41Runtime_HasValidSample_def sensor_resting_def Let_def
  Scd41Runtime_RecordFailureEscalate_def Scd41Runtime_RecordFailure_def Scd41Runtime_EscalateError_def
  Scd41Runtime_RecordSuccess_def scd41_failed_def

lemma scd41_begin_fresh: "scd41_fresh now rt \<Longrightarrow> scd41_begin now rt b = (rt', b') \<Longrightarrow> scd41_fresh now rt'"
  by (auto simp: scd41_begin_def scd41_fresh_simps split: prod.splits if_splits)

lemma scd41_data_ready_fresh:
  "scd41_fresh now rt \<Longrightarrow> scd41_data_ready now rt b = (rt', b') \<Longrightarrow> scd41_fresh now rt'"
  by (auto simp: scd41_data_ready_def scd41_fresh_simps split: prod.splits if_splits)

lemma scd41_measurement_fresh:
  "scd41_fresh now rt \<Longrightarrow> scd41_measurement now rt b = (rt', b') \<Longrightarrow> scd41_fresh now rt'"
  by (auto simp: scd41_measurement_def scd41_fresh_simps SCD41_RUNTIME_STALE_MS_def
      SCD41_PERIODIC_INTERVAL_MS_def split: prod.splits if_splits option.splits)

lemma scd41_starting_fresh:
  "sr_state rt = DEVICE_STATE_STARTING \<Longrightarrow> scd41_starting now rt b = (rt', b') \<Longrightarrow> scd41_fresh now rt'"
  by (auto simp: scd41_starting_def scd41_fresh_simps split: prod.splits if_splits)

lemma scd41_enforce_fresh: "scd41_fresh now (Scd41Runtime_EnforceFreshness now rt)"
  by (simp add: Scd41Runtime_EnforceFreshness_def scd41_fresh_simps not_le)

lemma scd41_poll_fresh:
  assumes "\<not> sensor_resting (sr_state rt)" "Scd41Runtime_Poll now rt b = (rt', b')"
  shows "scd41_fresh now rt'"
proof -
  let ?e = "Scd41Runtime_EnforceFreshness now (rt\<lparr>sr_last_tick_ms := now\<rparr>)"
  have g: "scd41_fresh now (Scd41Runtime_EscalateError (?e\<lparr>sr_phase := SCD41_PHASE_IDLE\<rparr>))"
    by (simp add: scd41_fresh_simps)
  have h: "scd41_fresh now (rt\<lparr>sr_last_tick_ms := now\<rparr>)" if "sr_state rt \<noteq> DEVICE_STATE_READY"
    using that by (simp add: scd41_fresh_simps)
  show ?thesis
    using assms scd41_enforce_fresh [of now] g h unfolding Scd41Runtime_Poll_def Let_def sensor_resting_def
    by (auto split: if_splits elim: scd41_begin_fresh [rotated] scd41_data_ready_fresh [rotated]
        scd41_measurement_fresh [rotated] scd41_starting_fresh [rotated])
qed

lemma scd41_start_valid:
  "Scd41Runtime_Start now rt b = (s, rt', b') \<Longrightarrow> Scd41Runtime_HasValidSample rt' \<Longrightarrow>
   Scd41Runtime_HasValidSample rt"
  by (auto simp: Scd41Runtime_Start_def scd41_fresh_simps split: prod.splits if_splits)

interpretation scd41: sensor_runtime sr_state Scd41Runtime_HasValidSample sr_last_valid_measurement_ms
  SCD41_RUNTIME_STALE_MS scd41_held Scd41Runtime_Poll Scd41Runtime_Start Scd41Runtime_Recover
proof
  show "\<not> sensor_resting (sr_state rt) \<Longrightarrow> Scd41Runtime_Poll now rt b = (rt', b') \<Longrightarrow>
      Scd41Runtime_HasValidSample rt' \<Longrightarrow>
      \<not> sensor_resting (sr_state rt') \<and> now - sr_last_valid_measurement_ms rt' < SCD41_RUNTIME_STALE_MS"
    for rt :: "'a Scd41Runtime" and now b rt' b'
    using scd41_poll_fresh [of rt now b rt' b']
    by (simp add: scd41_fresh_def Scd41Runtime_HasValidSample_def sensor_resting_def)
next
  show "Scd41Runtime_Start now rt b = (s, rt', b') \<Longrightarrow> Scd41Runtime_HasValidSample rt' \<Longrightarrow>
      Scd41Runtime_HasValidSample rt" for rt :: "'a Scd41Runtime" and now b s rt' b'
    by (rule scd41_start_valid)
qed (auto simp: sensor_resting_def Scd41Runtime_Poll_def Scd41Runtime_Start_def Scd41Runtime_Recover_def
      Scd41Runtime_HasValidSample_def scd41_held_def)

end
