(* ===== verification/Sht45.thy ===== *)
theory Sht45
  imports Scd41
begin

text \<open>
  \<open>Drivers/sht45/Src/sht45.c\<close> and \<open>sht45_runtime.c\<close>: the temperature and humidity sensor
  and its single-shot state machine, over the bus, the CRC and the scaling of \<open>Scd41\<close>.
\<close>

section \<open>Driver\<close>

definition SHT45_I2C_ADDR :: u16 where "SHT45_I2C_ADDR = 0x44"
definition SHT45_CMD_MEASURE_HPM :: u8 where "SHT45_CMD_MEASURE_HPM = 0xFD"
definition SHT45_CMD_SOFT_RESET :: u8 where "SHT45_CMD_SOFT_RESET = 0x94"
definition SHT45_MEASUREMENT_RESPONSE_LEN :: nat where "SHT45_MEASUREMENT_RESPONSE_LEN = 6"
definition SHT45_MEASUREMENT_DURATION_MS :: u32 where "SHT45_MEASUREMENT_DURATION_MS = 10"

record Sht45Measurement =
  hm_temperature_c :: f32
  hm_relative_humidity_pct :: f32
  hm_valid :: bool

record 'b Sht45 =
  hd_bus :: "'b I2cBus option"
  hd_address :: u16
  hd_initialized :: u8

definition SHT45_SendCommand :: "'b Sht45 \<Rightarrow> u8 \<Rightarrow> 'b \<Rightarrow> DriverStatus \<times> 'b" where
  "SHT45_SendCommand dev cmd b =
     (if hd_bus dev = None then (DRIVER_STATUS_INVALID_ARG, b)
      else I2cBus_Write (hd_bus dev) (hd_address dev) (Some [cmd]) b)"

definition SHT45_Crc8 :: "bytes \<Rightarrow> u8" where
  "SHT45_Crc8 data = Sensirion_Crc8 data"

definition SHT45_Init :: "'b Sht45 \<Rightarrow> 'b I2cBus option \<Rightarrow> DriverStatus \<times> 'b Sht45" where
  "SHT45_Init dev bus =
     (case bus of None \<Rightarrow> (DRIVER_STATUS_INVALID_ARG, dev)
      | Some ops \<Rightarrow> (DRIVER_STATUS_OK,
          \<lparr>hd_bus = Some ops, hd_address = push_bit 1 SHT45_I2C_ADDR, hd_initialized = 1\<rparr>))"

definition SHT45_Probe :: "'b I2cBus option \<Rightarrow> 'b \<Rightarrow> DriverStatus \<times> 'b" where
  "SHT45_Probe bus b =
     (if bus = None then (DRIVER_STATUS_INVALID_ARG, b) else I2cBus_Probe bus (push_bit 1 SHT45_I2C_ADDR) b)"

definition SHT45_BeginMeasurement :: "'b Sht45 \<Rightarrow> 'b \<Rightarrow> DriverStatus \<times> 'b" where
  "SHT45_BeginMeasurement dev b =
     (if hd_initialized dev = 0 then (DRIVER_STATUS_NOT_READY, b)
      else SHT45_SendCommand dev SHT45_CMD_MEASURE_HPM b)"

definition clamp_pct :: "f32 \<Rightarrow> f32" where
  "clamp_pct hum =
     (let hum = (if f32_less hum (F32 False 0) then F32 False 0 else hum)
      in if f32_less (f32_of_int 100) hum then f32_of_int 100 else hum)"

definition sht45_sample :: "u16 \<Rightarrow> u16 \<Rightarrow> Sht45Measurement" where
  "sht45_sample t rh =
     \<lparr>hm_temperature_c = scaled (-45) 175 t, hm_relative_humidity_pct = clamp_pct (scaled (-6) 125 rh),
      hm_valid = True\<rparr>"

definition SHT45_FinishMeasurement :: "'b Sht45 \<Rightarrow> 'b \<Rightarrow> DriverStatus \<times> Sht45Measurement option \<times> 'b" where
  "SHT45_FinishMeasurement dev b =
     (if hd_initialized dev = 0 then (DRIVER_STATUS_NOT_READY, None, b)
      else case I2cBus_Read (hd_bus dev) (hd_address dev) SHT45_MEASUREMENT_RESPONSE_LEN b of (s, raw, b) \<Rightarrow>
      if s \<noteq> DRIVER_STATUS_OK then (s, None, b)
      else let (c1, t) = ReadWordWithCrc raw; (c2, rh) = ReadWordWithCrc (drop 3 raw) in
      if c1 \<noteq> DRIVER_STATUS_OK then (c1, None, b)
      else if c2 \<noteq> DRIVER_STATUS_OK then (c2, None, b)
      else (DRIVER_STATUS_OK, Some (sht45_sample t rh), b))"

definition SHT45_SoftReset :: "'b Sht45 \<Rightarrow> 'b \<Rightarrow> DriverStatus \<times> 'b" where
  "SHT45_SoftReset dev b =
     (if hd_initialized dev = 0 then (DRIVER_STATUS_NOT_READY, b)
      else SHT45_SendCommand dev SHT45_CMD_SOFT_RESET b)"

section \<open>Runtime\<close>

definition SHT45_RUNTIME_POLL_INTERVAL_MS :: u32 where "SHT45_RUNTIME_POLL_INTERVAL_MS = 500"
definition SHT45_RUNTIME_MEASUREMENT_INTERVAL_MS :: u32 where "SHT45_RUNTIME_MEASUREMENT_INTERVAL_MS = 2000"
definition SHT45_RUNTIME_STALE_MS :: u32 where "SHT45_RUNTIME_STALE_MS = 3 * SHT45_RUNTIME_MEASUREMENT_INTERVAL_MS"
definition SHT45_RUNTIME_ERROR_THRESHOLD :: u32 where "SHT45_RUNTIME_ERROR_THRESHOLD = 3"

datatype Sht45RuntimePhase = SHT45_PHASE_IDLE | SHT45_PHASE_MEASURING | SHT45_PHASE_BETWEEN_MEASUREMENTS

record 'b Sht45Runtime =
  hr_state :: DeviceState
  hr_phase :: Sht45RuntimePhase
  hr_deadline_ms :: u32
  hr_dev :: "'b Sht45"
  hr_last_sample :: Sht45Measurement
  hr_operation_successes :: u32
  hr_operation_failures :: u32
  hr_consecutive_errors :: u32
  hr_recovery_count :: u32
  hr_last_success_ms :: u32
  hr_last_failure_ms :: u32
  hr_last_valid_measurement_ms :: u32
  hr_consecutive_absent :: u32
  hr_next_probe_ms :: u32
  hr_last_error_class :: DriverStatus
  hr_last_tick_ms :: u32

definition Sht45Runtime_RecordSuccess :: "u32 \<Rightarrow> 'b Sht45Runtime \<Rightarrow> 'b Sht45Runtime" where
  "Sht45Runtime_RecordSuccess now rt =
     rt\<lparr>hr_operation_successes := hr_operation_successes rt + 1, hr_consecutive_errors := 0,
        hr_last_success_ms := now\<rparr>"

definition Sht45Runtime_RecordFailure :: "u32 \<Rightarrow> 'b Sht45Runtime \<Rightarrow> 'b Sht45Runtime" where
  "Sht45Runtime_RecordFailure now rt =
     rt\<lparr>hr_operation_failures := hr_operation_failures rt + 1,
        hr_consecutive_errors := hr_consecutive_errors rt + 1, hr_last_failure_ms := now\<rparr>"

definition Sht45Runtime_InvalidateSample :: "'b Sht45Runtime \<Rightarrow> 'b Sht45Runtime" where
  "Sht45Runtime_InvalidateSample rt = rt\<lparr>hr_last_sample := (hr_last_sample rt)\<lparr>hm_valid := False\<rparr>\<rparr>"

definition Sht45Runtime_EscalateError :: "'b Sht45Runtime \<Rightarrow> 'b Sht45Runtime" where
  "Sht45Runtime_EscalateError rt =
     rt\<lparr>hr_last_sample := (hr_last_sample rt)\<lparr>hm_valid := False\<rparr>, hr_state := DEVICE_STATE_ERROR\<rparr>"

definition Sht45Runtime_DeadlinePassed :: "u32 \<Rightarrow> u32 \<Rightarrow> bool" where
  "Sht45Runtime_DeadlinePassed now deadline \<longleftrightarrow> now - deadline < 0x80000000"

definition Sht45Runtime_RecordFailureEscalate :: "u32 \<Rightarrow> 'b Sht45Runtime \<Rightarrow> 'b Sht45Runtime" where
  "Sht45Runtime_RecordFailureEscalate now rt =
     (let rt = Sht45Runtime_RecordFailure now rt in
      if hr_consecutive_errors rt \<ge> SHT45_RUNTIME_ERROR_THRESHOLD
      then Sht45Runtime_EscalateError (rt\<lparr>hr_phase := SHT45_PHASE_IDLE\<rparr>) else rt)"

definition zero_sht45 :: "'b Sht45Runtime" where
  "zero_sht45 =
     \<lparr>hr_state = DEVICE_STATE_UNKNOWN, hr_phase = SHT45_PHASE_IDLE, hr_deadline_ms = 0,
      hr_dev = \<lparr>hd_bus = None, hd_address = 0, hd_initialized = 0\<rparr>,
      hr_last_sample = \<lparr>hm_temperature_c = F32 False 0, hm_relative_humidity_pct = F32 False 0, hm_valid = False\<rparr>,
      hr_operation_successes = 0, hr_operation_failures = 0, hr_consecutive_errors = 0,
      hr_recovery_count = 0, hr_last_success_ms = 0, hr_last_failure_ms = 0,
      hr_last_valid_measurement_ms = 0, hr_consecutive_absent = 0, hr_next_probe_ms = 0,
      hr_last_error_class = DRIVER_STATUS_OK, hr_last_tick_ms = 0\<rparr>"

definition Sht45Runtime_Init :: "u32 \<Rightarrow> 'b I2cBus option \<Rightarrow> 'b Sht45Runtime" where
  "Sht45Runtime_Init now bus =
     (let rt = zero_sht45\<lparr>hr_state := DEVICE_STATE_NOT_FOUND, hr_last_tick_ms := now\<rparr> in
      if bus \<noteq> None then rt\<lparr>hr_dev := snd (SHT45_Init (hr_dev rt) bus)\<rparr> else rt)"

definition Sht45Runtime_HasValidSample :: "'b Sht45Runtime \<Rightarrow> bool" where
  "Sht45Runtime_HasValidSample rt \<longleftrightarrow> hm_valid (hr_last_sample rt)"

definition Sht45Runtime_IsMissing :: "'b Sht45Runtime \<Rightarrow> bool" where
  "Sht45Runtime_IsMissing rt \<longleftrightarrow> hr_state rt = DEVICE_STATE_NOT_FOUND"

definition Sht45Runtime_Recover :: "'b Sht45Runtime \<Rightarrow> 'b Sht45Runtime" where
  "Sht45Runtime_Recover rt =
     rt\<lparr>hr_recovery_count := hr_recovery_count rt + 1, hr_consecutive_errors := 0,
        hr_last_sample := (hr_last_sample rt)\<lparr>hm_valid := False\<rparr>, hr_phase := SHT45_PHASE_IDLE,
        hr_state := DEVICE_STATE_RECOVERING\<rparr>"

definition Sht45Runtime_EnforceFreshness :: "u32 \<Rightarrow> 'b Sht45Runtime \<Rightarrow> 'b Sht45Runtime" where
  "Sht45Runtime_EnforceFreshness now rt =
     (if hm_valid (hr_last_sample rt) = False then rt
      else if now - hr_last_valid_measurement_ms rt \<ge> SHT45_RUNTIME_STALE_MS
      then rt\<lparr>hr_last_sample := (hr_last_sample rt)\<lparr>hm_valid := False\<rparr>\<rparr> else rt)"

definition Sht45Runtime_ProbeDue :: "'b Sht45Runtime \<Rightarrow> u32 \<Rightarrow> bool" where
  "Sht45Runtime_ProbeDue rt now = probe_due (hr_consecutive_absent rt) (hr_next_probe_ms rt) now"

definition Sht45Runtime_LastError :: "'b Sht45Runtime \<Rightarrow> DriverStatus" where
  "Sht45Runtime_LastError rt = hr_last_error_class rt"

definition Sht45Runtime_Start :: "u32 \<Rightarrow> 'b Sht45Runtime \<Rightarrow> 'b \<Rightarrow> DriverStatus \<times> 'b Sht45Runtime \<times> 'b" where
  "Sht45Runtime_Start now rt b =
     (if probe_held (hr_consecutive_absent rt) (hr_next_probe_ms rt) now
      then (DRIVER_STATUS_NOT_FOUND, rt\<lparr>hr_state := DEVICE_STATE_NOT_FOUND\<rparr>, b)
      else case SHT45_Probe (hd_bus (hr_dev rt)) b of (ps, b) \<Rightarrow>
      if ps \<noteq> DRIVER_STATUS_OK
      then let k = RecoveryPolicy_TrackAbsence (hr_consecutive_absent rt) True in
        (ps, rt\<lparr>hr_state := DEVICE_STATE_NOT_FOUND, hr_last_error_class := ps, hr_consecutive_absent := k,
               hr_next_probe_ms := now + RecoveryPolicy_BackoffMs k\<rparr>, b)
      else let rt = rt\<lparr>hr_consecutive_absent := 0, hr_last_error_class := DRIVER_STATUS_OK\<rparr>;
               rt = (if hd_initialized (hr_dev rt) = 0
                     then rt\<lparr>hr_dev := snd (SHT45_Init (hr_dev rt) (hd_bus (hr_dev rt)))\<rparr> else rt) in
      case SHT45_BeginMeasurement (hr_dev rt) b of (ms, b) \<Rightarrow>
      if ms \<noteq> DRIVER_STATUS_OK
      then let rt = (Sht45Runtime_RecordFailure now rt)\<lparr>hr_last_error_class := ms\<rparr> in
        (ms, if hr_consecutive_errors rt \<ge> SHT45_RUNTIME_ERROR_THRESHOLD
             then rt\<lparr>hr_state := DEVICE_STATE_ERROR\<rparr> else rt, b)
      else (DRIVER_STATUS_OK, rt\<lparr>hr_deadline_ms := now + SHT45_MEASUREMENT_DURATION_MS,
              hr_state := DEVICE_STATE_STARTING, hr_phase := SHT45_PHASE_MEASURING\<rparr>, b))"

section \<open>Polling\<close>

definition sht45_failed :: "u32 \<Rightarrow> DriverStatus \<Rightarrow> 'b Sht45Runtime \<Rightarrow> 'b Sht45Runtime" where
  "sht45_failed now s rt = Sht45Runtime_RecordFailureEscalate now (rt\<lparr>hr_last_error_class := s\<rparr>)"

text \<open>A measurement command, at the end of a failed read and at the start of a cycle.\<close>

definition sht45_issue :: "u32 \<Rightarrow> 'b Sht45Runtime \<Rightarrow> 'b \<Rightarrow> 'b Sht45Runtime \<times> 'b" where
  "sht45_issue now rt b =
     (case SHT45_BeginMeasurement (hr_dev rt) b of (ms, b) \<Rightarrow>
      if ms \<noteq> DRIVER_STATUS_OK then (sht45_failed now ms rt, b)
      else (rt\<lparr>hr_deadline_ms := now + SHT45_MEASUREMENT_DURATION_MS, hr_phase := SHT45_PHASE_MEASURING,
               hr_state := DEVICE_STATE_STARTING\<rparr>, b))"

definition sht45_read :: "u32 \<Rightarrow> 'b Sht45Runtime \<Rightarrow> 'b \<Rightarrow> 'b Sht45Runtime \<times> 'b" where
  "sht45_read now rt b =
     (if Sht45Runtime_DeadlinePassed now (hr_deadline_ms rt) = False then (rt, b)
      else case SHT45_FinishMeasurement (hr_dev rt) b of (rs, meas, b) \<Rightarrow>
      let rt = rt\<lparr>hr_phase := SHT45_PHASE_IDLE\<rparr> in
      if rs \<noteq> DRIVER_STATUS_OK
      then let rt = rt\<lparr>hr_last_error_class := rs\<rparr> in
        if rs = DRIVER_STATUS_BUS_ERROR
        then let rt = Sht45Runtime_RecordFailure now rt in
          if hr_consecutive_errors rt \<ge> SHT45_RUNTIME_ERROR_THRESHOLD then (Sht45Runtime_EscalateError rt, b)
          else sht45_issue now rt b
        else if rs = DRIVER_STATUS_NOT_READY
        then (rt\<lparr>hr_deadline_ms := now + SHT45_MEASUREMENT_DURATION_MS, hr_phase := SHT45_PHASE_MEASURING,
                 hr_state := DEVICE_STATE_STARTING\<rparr>, b)
        else (Sht45Runtime_RecordFailureEscalate now rt, b)
      else case meas of
        Some m \<Rightarrow> (if \<not> hm_valid m then (rt, b)
          else (Sht45Runtime_RecordSuccess now (rt\<lparr>hr_last_sample := m, hr_last_valid_measurement_ms := now,
                  hr_state := DEVICE_STATE_READY, hr_phase := SHT45_PHASE_BETWEEN_MEASUREMENTS,
                  hr_last_error_class := DRIVER_STATUS_OK\<rparr>), b))
      | None \<Rightarrow> (rt, b))"

definition Sht45Runtime_Poll :: "u32 \<Rightarrow> 'b Sht45Runtime \<Rightarrow> 'b \<Rightarrow> 'b Sht45Runtime \<times> 'b" where
  "Sht45Runtime_Poll now rt b =
     (let rt = rt\<lparr>hr_last_tick_ms := now\<rparr> in
      if hr_state rt = DEVICE_STATE_NOT_FOUND \<or> hr_state rt = DEVICE_STATE_ERROR \<or>
         hr_state rt = DEVICE_STATE_RECOVERING then (rt, b)
      else let rt = Sht45Runtime_EnforceFreshness now rt in
      if hr_consecutive_errors rt \<ge> SHT45_RUNTIME_ERROR_THRESHOLD
      then (Sht45Runtime_EscalateError (rt\<lparr>hr_phase := SHT45_PHASE_IDLE\<rparr>), b)
      else if hr_state rt = DEVICE_STATE_STARTING
      then (if hr_phase rt = SHT45_PHASE_MEASURING then sht45_read now rt b else (rt, b))
      else if hr_state rt = DEVICE_STATE_READY
      then (if hr_phase rt = SHT45_PHASE_BETWEEN_MEASUREMENTS
            then (if now - hr_last_valid_measurement_ms rt < SHT45_RUNTIME_MEASUREMENT_INTERVAL_MS then (rt, b)
                  else sht45_issue now rt b)
            else (rt, b))
      else (rt, b))"

definition Sht45Runtime_GetDiagnostics :: "'b Sht45Runtime \<Rightarrow> DeviceRuntime" where
  "Sht45Runtime_GetDiagnostics rt =
     \<lparr>dr_state = hr_state rt, dr_init_attempts = 0, dr_init_failures = 0,
      dr_operation_successes = hr_operation_successes rt, dr_operation_failures = hr_operation_failures rt,
      dr_recovery_count = hr_recovery_count rt, dr_consecutive_errors = hr_consecutive_errors rt,
      dr_last_success_ms = hr_last_success_ms rt, dr_last_failure_ms = hr_last_failure_ms rt\<rparr>"

section \<open>The interface of the application\<close>

definition sht45_held :: "'b Sht45Runtime \<Rightarrow> u32 \<Rightarrow> bool" where
  "sht45_held rt = probe_held (hr_consecutive_absent rt) (hr_next_probe_ms rt)"

text \<open>A valid sample belongs to a running sensor and is fresh at the tick.\<close>

definition sht45_fresh :: "u32 \<Rightarrow> 'b Sht45Runtime \<Rightarrow> bool" where
  "sht45_fresh now rt \<longleftrightarrow> (Sht45Runtime_HasValidSample rt \<longrightarrow>
     \<not> sensor_resting (hr_state rt) \<and> now - hr_last_valid_measurement_ms rt < SHT45_RUNTIME_STALE_MS)"

lemmas sht45_fresh_simps =
  sht45_fresh_def Sht45Runtime_HasValidSample_def sensor_resting_def Let_def
  Sht45Runtime_RecordFailureEscalate_def Sht45Runtime_RecordFailure_def Sht45Runtime_EscalateError_def
  Sht45Runtime_RecordSuccess_def sht45_failed_def

lemma sht45_issue_fresh: "sht45_fresh now rt \<Longrightarrow> sht45_issue now rt b = (rt', b') \<Longrightarrow> sht45_fresh now rt'"
  by (auto simp: sht45_issue_def sht45_fresh_simps split: prod.splits if_splits)

lemma sht45_read_fresh: "sht45_fresh now rt \<Longrightarrow> sht45_read now rt b = (rt', b') \<Longrightarrow> sht45_fresh now rt'"
  by (auto simp: sht45_read_def sht45_issue_def sht45_fresh_simps SHT45_RUNTIME_STALE_MS_def
      SHT45_RUNTIME_MEASUREMENT_INTERVAL_MS_def split: prod.splits if_splits option.splits)

lemma sht45_enforce_fresh:
  "\<not> sensor_resting (hr_state rt) \<Longrightarrow> sht45_fresh now (Sht45Runtime_EnforceFreshness now rt)"
  by (simp add: Sht45Runtime_EnforceFreshness_def sht45_fresh_simps not_le)

lemma sht45_poll_fresh:
  assumes "\<not> sensor_resting (hr_state rt)" "Sht45Runtime_Poll now rt b = (rt', b')"
  shows "sht45_fresh now rt'"
proof -
  let ?e = "Sht45Runtime_EnforceFreshness now (rt\<lparr>hr_last_tick_ms := now\<rparr>)"
  have f: "sht45_fresh now ?e"
    using assms(1) by (intro sht45_enforce_fresh) simp
  have g: "sht45_fresh now (Sht45Runtime_EscalateError (?e\<lparr>hr_phase := SHT45_PHASE_IDLE\<rparr>))"
    by (simp add: sht45_fresh_simps)
  show ?thesis
    using assms f g unfolding Sht45Runtime_Poll_def Let_def sensor_resting_def
    by (auto split: if_splits elim: sht45_read_fresh [rotated] sht45_issue_fresh [rotated])
qed

lemma sht45_start_valid:
  "Sht45Runtime_Start now rt b = (s, rt', b') \<Longrightarrow> Sht45Runtime_HasValidSample rt' \<Longrightarrow>
   Sht45Runtime_HasValidSample rt"
  by (auto simp: Sht45Runtime_Start_def Let_def Sht45Runtime_HasValidSample_def Sht45Runtime_RecordFailure_def
      split: prod.splits if_splits)

interpretation sht45: sensor_runtime hr_state Sht45Runtime_HasValidSample hr_last_valid_measurement_ms
  SHT45_RUNTIME_STALE_MS sht45_held Sht45Runtime_Poll Sht45Runtime_Start Sht45Runtime_Recover
proof
  show "\<not> sensor_resting (hr_state rt) \<Longrightarrow> Sht45Runtime_Poll now rt b = (rt', b') \<Longrightarrow>
      Sht45Runtime_HasValidSample rt' \<Longrightarrow>
      \<not> sensor_resting (hr_state rt') \<and> now - hr_last_valid_measurement_ms rt' < SHT45_RUNTIME_STALE_MS"
    for rt :: "'a Sht45Runtime" and now b rt' b'
    using sht45_poll_fresh [of rt now b rt' b'] by (simp add: sht45_fresh_def)
next
  show "Sht45Runtime_Start now rt b = (s, rt', b') \<Longrightarrow> Sht45Runtime_HasValidSample rt' \<Longrightarrow>
      Sht45Runtime_HasValidSample rt" for rt :: "'a Sht45Runtime" and now b s rt' b'
    by (rule sht45_start_valid)
qed (auto simp: sensor_resting_def Sht45Runtime_Poll_def Sht45Runtime_Start_def Sht45Runtime_Recover_def
      Sht45Runtime_HasValidSample_def sht45_held_def)

end
