(* ===== verification/Gas_Index.thy ===== *)
theory Gas_Index
  imports Fix16
begin

text \<open>
  \<open>Drivers/gas_index/Src/gas_index.c\<close>: the algorithm that turns the raw ticks of the air
  quality sensor into the VOC and NOx indices, as a step on one record of parameters and state.
  The fields keep the names of the C structure, with \<open>m_Mean_Variance_Estimator\<close> as \<open>mve\<close>,
  \<open>m_Mox_Model\<close> as \<open>mox\<close>, \<open>m_Sigmoid_Scaled\<close> as \<open>sig\<close> and \<open>m_Adaptive_Lowpass\<close> as \<open>alp\<close>.
\<close>

section \<open>Constants\<close>

definition ALGORITHM_TYPE_VOC :: "32 word" where "ALGORITHM_TYPE_VOC = 0"
definition ALGORITHM_TYPE_NOX :: "32 word" where "ALGORITHM_TYPE_NOX = 1"
definition SAMPLING_INTERVAL :: rat where "SAMPLING_INTERVAL = 1"
definition INITIAL_BLACKOUT :: rat where "INITIAL_BLACKOUT = 45"
definition INDEX_GAIN :: rat where "INDEX_GAIN = 230"
definition SRAW_STD_INITIAL :: rat where "SRAW_STD_INITIAL = 50"
definition SRAW_STD_BONUS_VOC :: rat where "SRAW_STD_BONUS_VOC = 220"
definition SRAW_STD_NOX :: rat where "SRAW_STD_NOX = 2000"
definition TAU_MEAN_HOURS :: rat where "TAU_MEAN_HOURS = 12"
definition TAU_VARIANCE_HOURS :: rat where "TAU_VARIANCE_HOURS = 12"
definition TAU_INITIAL_MEAN_VOC :: rat where "TAU_INITIAL_MEAN_VOC = 20"
definition TAU_INITIAL_MEAN_NOX :: rat where "TAU_INITIAL_MEAN_NOX = 1200"
definition INIT_DURATION_MEAN_VOC :: rat where "INIT_DURATION_MEAN_VOC = 3600 * (75 / 100)"
definition INIT_DURATION_MEAN_NOX :: rat where "INIT_DURATION_MEAN_NOX = 3600 * (475 / 100)"
definition INIT_TRANSITION_MEAN :: rat where "INIT_TRANSITION_MEAN = 1 / 100"
definition TAU_INITIAL_VARIANCE :: rat where "TAU_INITIAL_VARIANCE = 2500"
definition INIT_DURATION_VARIANCE_VOC :: rat where "INIT_DURATION_VARIANCE_VOC = 3600 * (145 / 100)"
definition INIT_DURATION_VARIANCE_NOX :: rat where "INIT_DURATION_VARIANCE_NOX = 3600 * (570 / 100)"
definition INIT_TRANSITION_VARIANCE :: rat where "INIT_TRANSITION_VARIANCE = 1 / 100"
definition GATING_THRESHOLD_VOC :: rat where "GATING_THRESHOLD_VOC = 340"
definition GATING_THRESHOLD_NOX :: rat where "GATING_THRESHOLD_NOX = 30"
definition GATING_THRESHOLD_INITIAL :: rat where "GATING_THRESHOLD_INITIAL = 510"
definition GATING_THRESHOLD_TRANSITION :: rat where "GATING_THRESHOLD_TRANSITION = 9 / 100"
definition GATING_VOC_MAX_DURATION_MINUTES :: rat where "GATING_VOC_MAX_DURATION_MINUTES = 60 * 3"
definition GATING_NOX_MAX_DURATION_MINUTES :: rat where "GATING_NOX_MAX_DURATION_MINUTES = 60 * 12"
definition GATING_MAX_RATIO :: rat where "GATING_MAX_RATIO = 3 / 10"
definition SIGMOID_L :: rat where "SIGMOID_L = 500"
definition SIGMOID_K_VOC :: rat where "SIGMOID_K_VOC = - 65 / 10000"
definition SIGMOID_X0_VOC :: rat where "SIGMOID_X0_VOC = 213"
definition SIGMOID_K_NOX :: rat where "SIGMOID_K_NOX = - 101 / 10000"
definition SIGMOID_X0_NOX :: rat where "SIGMOID_X0_NOX = 614"
definition VOC_INDEX_OFFSET_DEFAULT :: rat where "VOC_INDEX_OFFSET_DEFAULT = 100"
definition NOX_INDEX_OFFSET_DEFAULT :: rat where "NOX_INDEX_OFFSET_DEFAULT = 1"
definition LP_TAU_FAST :: rat where "LP_TAU_FAST = 20"
definition LP_TAU_SLOW :: rat where "LP_TAU_SLOW = 500"
definition LP_ALPHA :: rat where "LP_ALPHA = - 2 / 10"
definition VOC_SRAW_MINIMUM :: "32 word" where "VOC_SRAW_MINIMUM = 20000"
definition NOX_SRAW_MINIMUM :: "32 word" where "NOX_SRAW_MINIMUM = 10000"
definition PERSISTENCE_UPTIME_GAMMA :: rat where "PERSISTENCE_UPTIME_GAMMA = 3 * 3600"
definition GAMMA_SCALING :: rat where "GAMMA_SCALING = 64"
definition ADDITIONAL_GAMMA_MEAN_SCALING :: rat where "ADDITIONAL_GAMMA_MEAN_SCALING = 8"
definition ESTIMATOR_FIX16_MAX :: rat where "ESTIMATOR_FIX16_MAX = 32767"

section \<open>State\<close>

record GasIndexAlgorithmParams =
  mAlgorithm_Type :: "32 word"
  mIndex_Offset :: fix16
  mSraw_Minimum :: "32 word"
  mGating_Max_Duration_Minutes :: fix16
  mInit_Duration_Mean :: fix16
  mInit_Duration_Variance :: fix16
  mGating_Threshold :: fix16
  mIndex_Gain :: fix16
  mTau_Mean_Hours :: fix16
  mTau_Variance_Hours :: fix16
  mSraw_Std_Initial :: fix16
  mUptime :: fix16
  mSraw :: fix16
  mGas_Index :: fix16
  mve___Initialized :: bool
  mve___Mean :: fix16
  mve___Sraw_Offset :: fix16
  mve___Std :: fix16
  mve___Gamma_Mean :: fix16
  mve___Gamma_Variance :: fix16
  mve___Gamma_Initial_Mean :: fix16
  mve___Gamma_Initial_Variance :: fix16
  mve__Gamma_Mean :: fix16
  mve__Gamma_Variance :: fix16
  mve___Uptime_Gamma :: fix16
  mve___Uptime_Gating :: fix16
  mve___Gating_Duration_Minutes :: fix16
  mve___Sigmoid__K :: fix16
  mve___Sigmoid__X0 :: fix16
  mox__Sraw_Std :: fix16
  mox__Sraw_Mean :: fix16
  sig__K :: fix16
  sig__X0 :: fix16
  sig__Offset_Default :: fix16
  alp__A1 :: fix16
  alp__A2 :: fix16
  alp___Initialized :: bool
  alp___X1 :: fix16
  alp___X2 :: fix16
  alp___X3 :: fix16

type_synonym gas = GasIndexAlgorithmParams

section \<open>Mean and variance estimator\<close>

definition estimator_set_parameters :: "gas \<Rightarrow> gas" where
  "estimator_set_parameters p = p\<lparr>
     mve___Initialized := False,
     mve___Mean := F16 0,
     mve___Sraw_Offset := F16 0,
     mve___Std := mSraw_Std_Initial p,
     mve___Gamma_Mean := fix16_div
       (F16 (ADDITIONAL_GAMMA_MEAN_SCALING * GAMMA_SCALING * (SAMPLING_INTERVAL / 3600)))
       (mTau_Mean_Hours p + F16 (SAMPLING_INTERVAL / 3600)),
     mve___Gamma_Variance := fix16_div
       (F16 (GAMMA_SCALING * (SAMPLING_INTERVAL / 3600)))
       (mTau_Variance_Hours p + F16 (SAMPLING_INTERVAL / 3600)),
     mve___Gamma_Initial_Mean :=
       (if mAlgorithm_Type p = ALGORITHM_TYPE_NOX
        then F16 (ADDITIONAL_GAMMA_MEAN_SCALING * GAMMA_SCALING * SAMPLING_INTERVAL /
                  (TAU_INITIAL_MEAN_NOX + SAMPLING_INTERVAL))
        else F16 (ADDITIONAL_GAMMA_MEAN_SCALING * GAMMA_SCALING * SAMPLING_INTERVAL /
                  (TAU_INITIAL_MEAN_VOC + SAMPLING_INTERVAL))),
     mve___Gamma_Initial_Variance :=
       F16 (GAMMA_SCALING * SAMPLING_INTERVAL / (TAU_INITIAL_VARIANCE + SAMPLING_INTERVAL)),
     mve__Gamma_Mean := F16 0,
     mve__Gamma_Variance := F16 0,
     mve___Uptime_Gamma := F16 0,
     mve___Uptime_Gating := F16 0,
     mve___Gating_Duration_Minutes := F16 0\<rparr>"

definition estimator_set_states :: "fix16 \<Rightarrow> fix16 \<Rightarrow> fix16 \<Rightarrow> gas \<Rightarrow> gas" where
  "estimator_set_states mean std uptime_gamma p = p\<lparr>
     mve___Mean := mean, mve___Std := std, mve___Uptime_Gamma := uptime_gamma, mve___Initialized := True\<rparr>"

definition estimator_get_std :: "gas \<Rightarrow> fix16" where
  "estimator_get_std p = mve___Std p"

definition estimator_get_mean :: "gas \<Rightarrow> fix16" where
  "estimator_get_mean p = mve___Mean p + mve___Sraw_Offset p"

definition estimator_is_initialized :: "gas \<Rightarrow> bool" where
  "estimator_is_initialized p = mve___Initialized p"

definition estimator_sigmoid_set_parameters :: "fix16 \<Rightarrow> fix16 \<Rightarrow> gas \<Rightarrow> gas" where
  "estimator_sigmoid_set_parameters X0 K p = p\<lparr>mve___Sigmoid__K := K, mve___Sigmoid__X0 := X0\<rparr>"

definition estimator_sigmoid_process :: "gas \<Rightarrow> fix16 \<Rightarrow> fix16" where
  "estimator_sigmoid_process p s =
     (let x = fix16_mul (mve___Sigmoid__K p) (s - mve___Sigmoid__X0 p) in
      if x <s F16 (-50) then F16 1
      else if F16 50 <s x then F16 0
      else fix16_div (F16 1) (F16 1 + fix16_exp x))"

text \<open>The threshold of the gating, from the current sigmoid.\<close>

definition gating_threshold :: "gas \<Rightarrow> fix16" where
  "gating_threshold p = mGating_Threshold p +
     fix16_mul (F16 GATING_THRESHOLD_INITIAL - mGating_Threshold p)
       (estimator_sigmoid_process p (mve___Uptime_Gating p))"

definition estimator_uptimes :: "gas \<Rightarrow> gas" where
  "estimator_uptimes p =
     (let uptime_limit = F16 (ESTIMATOR_FIX16_MAX - SAMPLING_INTERVAL);
          p = (if mve___Uptime_Gamma p <s uptime_limit
               then p\<lparr>mve___Uptime_Gamma := mve___Uptime_Gamma p + F16 SAMPLING_INTERVAL\<rparr> else p)
      in if mve___Uptime_Gating p <s uptime_limit
         then p\<lparr>mve___Uptime_Gating := mve___Uptime_Gating p + F16 SAMPLING_INTERVAL\<rparr> else p)"

definition estimator_calculate_gamma :: "gas \<Rightarrow> gas" where
  "estimator_calculate_gamma p =
     (let p = estimator_uptimes p;
          p = estimator_sigmoid_set_parameters (mInit_Duration_Mean p) (F16 INIT_TRANSITION_MEAN) p;
          sigmoid_gamma_mean = estimator_sigmoid_process p (mve___Uptime_Gamma p);
          gamma_mean = mve___Gamma_Mean p +
            fix16_mul (mve___Gamma_Initial_Mean p - mve___Gamma_Mean p) sigmoid_gamma_mean;
          p = estimator_sigmoid_set_parameters (gating_threshold p) (F16 GATING_THRESHOLD_TRANSITION) p;
          sigmoid_gating_mean = estimator_sigmoid_process p (mGas_Index p);
          p = p\<lparr>mve__Gamma_Mean := fix16_mul sigmoid_gating_mean gamma_mean\<rparr>;
          p = estimator_sigmoid_set_parameters (mInit_Duration_Variance p) (F16 INIT_TRANSITION_VARIANCE) p;
          sigmoid_gamma_variance = estimator_sigmoid_process p (mve___Uptime_Gamma p);
          gamma_variance = mve___Gamma_Variance p +
            fix16_mul (mve___Gamma_Initial_Variance p - mve___Gamma_Variance p)
              (sigmoid_gamma_variance - sigmoid_gamma_mean);
          p = estimator_sigmoid_set_parameters (gating_threshold p) (F16 GATING_THRESHOLD_TRANSITION) p;
          sigmoid_gating_variance = estimator_sigmoid_process p (mGas_Index p);
          p = p\<lparr>mve__Gamma_Variance := fix16_mul sigmoid_gating_variance gamma_variance\<rparr>;
          p = p\<lparr>mve___Gating_Duration_Minutes := mve___Gating_Duration_Minutes p +
                 fix16_mul (F16 (SAMPLING_INTERVAL / 60))
                   (fix16_mul (F16 1 - sigmoid_gating_mean) (F16 (1 + GATING_MAX_RATIO)) - F16 GATING_MAX_RATIO)\<rparr>;
          p = (if mve___Gating_Duration_Minutes p <s F16 0
               then p\<lparr>mve___Gating_Duration_Minutes := F16 0\<rparr> else p)
      in if mGating_Max_Duration_Minutes p <s mve___Gating_Duration_Minutes p
         then p\<lparr>mve___Uptime_Gating := F16 0\<rparr> else p)"

text \<open>The new standard deviation, from the scaled difference and the current gammas.\<close>

definition estimator_std :: "gas \<Rightarrow> fix16 \<Rightarrow> fix16" where
  "estimator_std p delta_sgp =
     (let c = (if delta_sgp <s F16 0 then mve___Std p - delta_sgp else mve___Std p + delta_sgp);
          additional_scaling =
            (if F16 1440 <s c then fix16_mul (fix16_div c (F16 1440)) (fix16_div c (F16 1440)) else F16 1)
      in fix16_mul
           (fix16_sqrt (fix16_mul additional_scaling (F16 GAMMA_SCALING - mve__Gamma_Variance p)))
           (fix16_sqrt
             (fix16_mul (mve___Std p)
                (fix16_div (mve___Std p) (fix16_mul (F16 GAMMA_SCALING) additional_scaling)) +
              fix16_mul (fix16_div (fix16_mul (mve__Gamma_Variance p) delta_sgp) additional_scaling) delta_sgp)))"

definition estimator_process :: "fix16 \<Rightarrow> gas \<Rightarrow> gas" where
  "estimator_process sraw p =
     (if mve___Initialized p = False
      then p\<lparr>mve___Initialized := True, mve___Sraw_Offset := sraw, mve___Mean := F16 0\<rparr>
      else let
        p = (if F16 100 \<le>s mve___Mean p \<or> mve___Mean p \<le>s F16 (-100)
             then p\<lparr>mve___Sraw_Offset := mve___Sraw_Offset p + mve___Mean p, mve___Mean := F16 0\<rparr> else p);
        sraw = sraw - mve___Sraw_Offset p;
        p = estimator_calculate_gamma p;
        delta_sgp = fix16_div (sraw - mve___Mean p) (F16 GAMMA_SCALING);
        p = p\<lparr>mve___Std := estimator_std p delta_sgp\<rparr>
      in p\<lparr>mve___Mean := mve___Mean p +
             fix16_div (fix16_mul (mve__Gamma_Mean p) delta_sgp) (F16 ADDITIONAL_GAMMA_MEAN_SCALING)\<rparr>)"

section \<open>Gas model, scaled sigmoid, adaptive low-pass filter\<close>

definition mox_model_set_parameters :: "fix16 \<Rightarrow> fix16 \<Rightarrow> gas \<Rightarrow> gas" where
  "mox_model_set_parameters SRAW_STD SRAW_MEAN p = p\<lparr>mox__Sraw_Std := SRAW_STD, mox__Sraw_Mean := SRAW_MEAN\<rparr>"

definition mox_model_process :: "gas \<Rightarrow> fix16 \<Rightarrow> fix16" where
  "mox_model_process p sraw =
     (if mAlgorithm_Type p = ALGORITHM_TYPE_NOX
      then fix16_mul (fix16_div (sraw - mox__Sraw_Mean p) (F16 SRAW_STD_NOX)) (mIndex_Gain p)
      else fix16_mul (fix16_div (sraw - mox__Sraw_Mean p) (- (mox__Sraw_Std p + F16 SRAW_STD_BONUS_VOC)))
             (mIndex_Gain p))"

definition sigmoid_scaled_set_parameters :: "fix16 \<Rightarrow> fix16 \<Rightarrow> fix16 \<Rightarrow> gas \<Rightarrow> gas" where
  "sigmoid_scaled_set_parameters X0 K offset_default p =
     p\<lparr>sig__K := K, sig__X0 := X0, sig__Offset_Default := offset_default\<rparr>"

definition sigmoid_shift :: "gas \<Rightarrow> fix16" where
  "sigmoid_shift p =
     (if sig__Offset_Default p = F16 1
      then fix16_mul (F16 (500 / 499)) (F16 1 - mIndex_Offset p)
      else fix16_div (F16 SIGMOID_L - fix16_mul (F16 5) (mIndex_Offset p)) (F16 4))"

definition sigmoid_scaled_process :: "gas \<Rightarrow> fix16 \<Rightarrow> fix16" where
  "sigmoid_scaled_process p s =
     (let x = fix16_mul (sig__K p) (s - sig__X0 p) in
      if x <s F16 (-50) then F16 SIGMOID_L
      else if F16 50 <s x then F16 0
      else if F16 0 \<le>s s
      then let shift = sigmoid_shift p in
        fix16_div (F16 SIGMOID_L + shift) (F16 1 + fix16_exp x) - shift
      else fix16_mul (fix16_div (mIndex_Offset p) (sig__Offset_Default p))
             (fix16_div (F16 SIGMOID_L) (F16 1 + fix16_exp x)))"

definition adaptive_lowpass_set_parameters :: "gas \<Rightarrow> gas" where
  "adaptive_lowpass_set_parameters p = p\<lparr>
     alp__A1 := F16 (SAMPLING_INTERVAL / (LP_TAU_FAST + SAMPLING_INTERVAL)),
     alp__A2 := F16 (SAMPLING_INTERVAL / (LP_TAU_SLOW + SAMPLING_INTERVAL)),
     alp___Initialized := False\<rparr>"

text \<open>One filter step: \<open>(1 - a) * x + a * s\<close>.\<close>

definition lowpass_mix :: "fix16 \<Rightarrow> fix16 \<Rightarrow> fix16 \<Rightarrow> fix16" where
  "lowpass_mix a x s = fix16_mul (F16 1 - a) x + fix16_mul a s"

definition adaptive_lowpass_process :: "fix16 \<Rightarrow> gas \<Rightarrow> fix16 \<times> gas" where
  "adaptive_lowpass_process s p =
     (let p = (if alp___Initialized p = False
               then p\<lparr>alp___X1 := s, alp___X2 := s, alp___X3 := s, alp___Initialized := True\<rparr> else p);
          p = p\<lparr>alp___X1 := lowpass_mix (alp__A1 p) (alp___X1 p) s\<rparr>;
          p = p\<lparr>alp___X2 := lowpass_mix (alp__A2 p) (alp___X2 p) s\<rparr>;
          abs_delta = alp___X1 p - alp___X2 p;
          abs_delta = (if abs_delta <s F16 0 then - abs_delta else abs_delta);
          F1 = fix16_exp (fix16_mul (F16 LP_ALPHA) abs_delta);
          tau_a = fix16_mul (F16 (LP_TAU_SLOW - LP_TAU_FAST)) F1 + F16 LP_TAU_FAST;
          a3 = fix16_div (F16 SAMPLING_INTERVAL) (F16 SAMPLING_INTERVAL + tau_a);
          p = p\<lparr>alp___X3 := lowpass_mix a3 (alp___X3 p) s\<rparr>
      in (alp___X3 p, p))"

section \<open>The algorithm\<close>

definition GasIndexAlgorithm_init_instances :: "gas \<Rightarrow> gas" where
  "GasIndexAlgorithm_init_instances p =
     (let p = estimator_set_parameters p;
          p = mox_model_set_parameters (estimator_get_std p) (estimator_get_mean p) p;
          p = (if mAlgorithm_Type p = ALGORITHM_TYPE_NOX
               then sigmoid_scaled_set_parameters (F16 SIGMOID_X0_NOX) (F16 SIGMOID_K_NOX)
                      (F16 NOX_INDEX_OFFSET_DEFAULT) p
               else sigmoid_scaled_set_parameters (F16 SIGMOID_X0_VOC) (F16 SIGMOID_K_VOC)
                      (F16 VOC_INDEX_OFFSET_DEFAULT) p)
      in adaptive_lowpass_set_parameters p)"

definition GasIndexAlgorithm_reset :: "gas \<Rightarrow> gas" where
  "GasIndexAlgorithm_reset p =
     GasIndexAlgorithm_init_instances (p\<lparr>mUptime := F16 0, mSraw := F16 0, mGas_Index := 0\<rparr>)"

definition GasIndexAlgorithm_init :: "32 word \<Rightarrow> gas \<Rightarrow> gas" where
  "GasIndexAlgorithm_init algorithm_type p =
     (let p = p\<lparr>mAlgorithm_Type := algorithm_type\<rparr>;
          p = (if algorithm_type = ALGORITHM_TYPE_NOX
               then p\<lparr>mIndex_Offset := F16 NOX_INDEX_OFFSET_DEFAULT,
                      mSraw_Minimum := NOX_SRAW_MINIMUM,
                      mGating_Max_Duration_Minutes := F16 GATING_NOX_MAX_DURATION_MINUTES,
                      mInit_Duration_Mean := F16 INIT_DURATION_MEAN_NOX,
                      mInit_Duration_Variance := F16 INIT_DURATION_VARIANCE_NOX,
                      mGating_Threshold := F16 GATING_THRESHOLD_NOX\<rparr>
               else p\<lparr>mIndex_Offset := F16 VOC_INDEX_OFFSET_DEFAULT,
                      mSraw_Minimum := VOC_SRAW_MINIMUM,
                      mGating_Max_Duration_Minutes := F16 GATING_VOC_MAX_DURATION_MINUTES,
                      mInit_Duration_Mean := F16 INIT_DURATION_MEAN_VOC,
                      mInit_Duration_Variance := F16 INIT_DURATION_VARIANCE_VOC,
                      mGating_Threshold := F16 GATING_THRESHOLD_VOC\<rparr>)
      in GasIndexAlgorithm_reset (p\<lparr>
           mIndex_Gain := F16 INDEX_GAIN,
           mTau_Mean_Hours := F16 TAU_MEAN_HOURS,
           mTau_Variance_Hours := F16 TAU_VARIANCE_HOURS,
           mSraw_Std_Initial := F16 SRAW_STD_INITIAL\<rparr>))"

definition GasIndexAlgorithm_get_states :: "gas \<Rightarrow> fix16 \<times> fix16" where
  "GasIndexAlgorithm_get_states p = (estimator_get_mean p, estimator_get_std p)"

definition GasIndexAlgorithm_set_states :: "fix16 \<Rightarrow> fix16 \<Rightarrow> gas \<Rightarrow> gas" where
  "GasIndexAlgorithm_set_states state0 state1 p =
     (let p = estimator_set_states state0 state1 (F16 PERSISTENCE_UPTIME_GAMMA) p;
          p = mox_model_set_parameters (estimator_get_std p) (estimator_get_mean p) p
      in p\<lparr>mSraw := state0\<rparr>)"

definition GasIndexAlgorithm_set_tuning_parameters ::
  "32 word \<Rightarrow> 32 word \<Rightarrow> 32 word \<Rightarrow> 32 word \<Rightarrow> 32 word \<Rightarrow> 32 word \<Rightarrow> gas \<Rightarrow> gas" where
  "GasIndexAlgorithm_set_tuning_parameters index_offset learning_time_offset_hours
     learning_time_gain_hours gating_max_duration_minutes std_initial gain_factor p =
     GasIndexAlgorithm_init_instances (p\<lparr>
       mIndex_Offset := fix16_from_int index_offset,
       mTau_Mean_Hours := fix16_from_int learning_time_offset_hours,
       mTau_Variance_Hours := fix16_from_int learning_time_gain_hours,
       mGating_Max_Duration_Minutes := fix16_from_int gating_max_duration_minutes,
       mSraw_Std_Initial := fix16_from_int std_initial,
       mIndex_Gain := fix16_from_int gain_factor\<rparr>)"

definition GasIndexAlgorithm_get_tuning_parameters ::
  "gas \<Rightarrow> 32 word \<times> 32 word \<times> 32 word \<times> 32 word \<times> 32 word \<times> 32 word" where
  "GasIndexAlgorithm_get_tuning_parameters p =
     (fix16_cast_to_int (mIndex_Offset p), fix16_cast_to_int (mTau_Mean_Hours p),
      fix16_cast_to_int (mTau_Variance_Hours p), fix16_cast_to_int (mGating_Max_Duration_Minutes p),
      fix16_cast_to_int (mSraw_Std_Initial p), fix16_cast_to_int (mIndex_Gain p))"

text \<open>The admitted raw value, clamped to the range the algorithm works in.\<close>

definition gas_admit :: "32 word \<Rightarrow> gas \<Rightarrow> gas" where
  "gas_admit sraw p =
     (if 0 <s sraw \<and> sraw <s 65000
      then let sraw = (if sraw <s mSraw_Minimum p + 1 then mSraw_Minimum p + 1
                       else if mSraw_Minimum p + 32767 <s sraw then mSraw_Minimum p + 32767 else sraw)
        in p\<lparr>mSraw := fix16_from_int (sraw - mSraw_Minimum p)\<rparr>
      else p)"

text \<open>The index before the filter, the filter with its lower bound, the estimator.\<close>

definition gas_index_raw :: "gas \<Rightarrow> gas" where
  "gas_index_raw p =
     (if mAlgorithm_Type p = ALGORITHM_TYPE_VOC \<or> estimator_is_initialized p
      then let p = p\<lparr>mGas_Index := mox_model_process p (mSraw p)\<rparr>
        in p\<lparr>mGas_Index := sigmoid_scaled_process p (mGas_Index p)\<rparr>
      else p\<lparr>mGas_Index := mIndex_Offset p\<rparr>)"

definition gas_index_filter :: "gas \<Rightarrow> gas" where
  "gas_index_filter p =
     (case adaptive_lowpass_process (mGas_Index p) p of (x3, p) \<Rightarrow>
      let p = p\<lparr>mGas_Index := x3\<rparr> in
      if mGas_Index p <s F16 (5 / 10) then p\<lparr>mGas_Index := F16 (5 / 10)\<rparr> else p)"

definition gas_index_learn :: "gas \<Rightarrow> gas" where
  "gas_index_learn p =
     (if F16 0 <s mSraw p
      then let p = estimator_process (mSraw p) p
        in mox_model_set_parameters (estimator_get_std p) (estimator_get_mean p) p
      else p)"

definition GasIndexAlgorithm_process :: "32 word \<Rightarrow> gas \<Rightarrow> 32 word \<times> gas" where
  "GasIndexAlgorithm_process sraw p =
     (let p = (if mUptime p \<le>s F16 INITIAL_BLACKOUT
               then p\<lparr>mUptime := mUptime p + F16 SAMPLING_INTERVAL\<rparr>
               else gas_index_learn (gas_index_filter (gas_index_raw (gas_admit sraw p))))
      in (fix16_cast_to_int (mGas_Index p + F16 (5 / 10)), p))"

end
