(* ===== verification/Sgp41.thy ===== *)
theory Sgp41
  imports Sensor_Runtime Float32 Gas_Index
begin

text \<open>
  \<open>Drivers/sgp41/Src/sgp41.c\<close> and \<open>sgp41_runtime.c\<close>: the air quality sensor and its state
  machine, which conditions the sensor, samples it and feeds the two instances of the gas index
  algorithm.
\<close>

section \<open>Driver\<close>

definition SGP41_I2C_ADDR :: u16 where "SGP41_I2C_ADDR = 0x59"
definition SGP41_CONDITIONING_RESPONSE_BYTES :: nat where "SGP41_CONDITIONING_RESPONSE_BYTES = 3"
definition SGP41_MEASURE_RESPONSE_BYTES :: nat where "SGP41_MEASURE_RESPONSE_BYTES = 6"
definition SGP41_SELF_TEST_RESPONSE_BYTES :: nat where "SGP41_SELF_TEST_RESPONSE_BYTES = 3"
definition SGP41_SERIAL_RESPONSE_BYTES :: nat where "SGP41_SERIAL_RESPONSE_BYTES = 9"
definition SGP41_CMD_MEASURE_RAW_SIGNALS :: u16 where "SGP41_CMD_MEASURE_RAW_SIGNALS = 0x2619"
definition SGP41_CMD_EXECUTE_CONDITIONING :: u16 where "SGP41_CMD_EXECUTE_CONDITIONING = 0x2612"
definition SGP41_CMD_EXECUTE_SELF_TEST :: u16 where "SGP41_CMD_EXECUTE_SELF_TEST = 0x280E"
definition SGP41_CMD_TURN_HEATER_OFF :: u16 where "SGP41_CMD_TURN_HEATER_OFF = 0x3615"
definition SGP41_CMD_GET_SERIAL_NUMBER :: u16 where "SGP41_CMD_GET_SERIAL_NUMBER = 0x3682"
definition SGP41_MEASURE_EXECUTION_MS :: u32 where "SGP41_MEASURE_EXECUTION_MS = 50"
definition SGP41_CONDITIONING_EXECUTION_MS :: u32 where "SGP41_CONDITIONING_EXECUTION_MS = 50"
definition SGP41_DEFAULT_RH_TICKS :: u16 where "SGP41_DEFAULT_RH_TICKS = 0x8000"
definition SGP41_DEFAULT_T_TICKS :: u16 where "SGP41_DEFAULT_T_TICKS = 0x6666"
definition SGP41_CONDITIONING_MAX_MS :: u32 where "SGP41_CONDITIONING_MAX_MS = 10000"

record Sgp41RawMeasurement =
  gm_raw_voc :: u16
  gm_raw_nox :: u16
  gm_valid :: bool

record 'b Sgp41 =
  gd_bus :: "'b I2cBus option"
  gd_address :: u16
  gd_initialized :: u8

text \<open>The transmit buffer has nine bytes; longer arguments are left out.\<close>

definition SGP41_SendCommandArgs :: "'b Sgp41 \<Rightarrow> u16 \<Rightarrow> bytes option \<Rightarrow> 'b \<Rightarrow> DriverStatus \<times> 'b" where
  "SGP41_SendCommandArgs dev cmd args b =
     (if gd_bus dev = None then (DRIVER_STATUS_INVALID_ARG, b)
      else if gd_initialized dev = 0 then (DRIVER_STATUS_NOT_READY, b)
      else let tx = [ucast (drop_bit 8 cmd), ucast (cmd AND 0xFF)];
               tx = (case args of
                       Some a \<Rightarrow> if length a > 0 \<and> 2 + length a \<le> 9 then tx @ a else tx
                     | None \<Rightarrow> tx)
      in I2cBus_Write (gd_bus dev) (gd_address dev) (Some tx) b)"

definition SGP41_Crc8 :: "bytes \<Rightarrow> u8" where
  "SGP41_Crc8 data = Sensirion_Crc8 data"

definition SGP41_Init :: "'b Sgp41 \<Rightarrow> 'b I2cBus option \<Rightarrow> DriverStatus \<times> 'b Sgp41" where
  "SGP41_Init dev bus =
     (case bus of None \<Rightarrow> (DRIVER_STATUS_INVALID_ARG, dev)
      | Some ops \<Rightarrow> (DRIVER_STATUS_OK,
          \<lparr>gd_bus = Some ops, gd_address = push_bit 1 SGP41_I2C_ADDR, gd_initialized = 1\<rparr>))"

definition SGP41_Probe :: "'b I2cBus option \<Rightarrow> 'b \<Rightarrow> DriverStatus \<times> 'b" where
  "SGP41_Probe bus b =
     (if bus = None then (DRIVER_STATUS_INVALID_ARG, b) else I2cBus_Probe bus (push_bit 1 SGP41_I2C_ADDR) b)"

definition word_and_crc :: "u16 \<Rightarrow> bytes" where
  "word_and_crc w = (let d = [ucast (drop_bit 8 w), ucast (w AND 0xFF)] in d @ [SGP41_Crc8 d])"

definition SGP41_BuildCompArg :: "u16 \<Rightarrow> u16 \<Rightarrow> bytes" where
  "SGP41_BuildCompArg rh_ticks t_ticks = word_and_crc rh_ticks @ word_and_crc t_ticks"

definition SGP41_BeginMeasure :: "'b Sgp41 \<Rightarrow> u16 \<Rightarrow> u16 \<Rightarrow> 'b \<Rightarrow> DriverStatus \<times> 'b" where
  "SGP41_BeginMeasure dev rh_ticks t_ticks b =
     SGP41_SendCommandArgs dev SGP41_CMD_MEASURE_RAW_SIGNALS (Some (SGP41_BuildCompArg rh_ticks t_ticks)) b"

definition SGP41_FinishMeasure :: "'b Sgp41 \<Rightarrow> 'b \<Rightarrow> DriverStatus \<times> Sgp41RawMeasurement option \<times> 'b" where
  "SGP41_FinishMeasure dev b =
     (if gd_initialized dev = 0 then (DRIVER_STATUS_NOT_READY, None, b)
      else case I2cBus_Read (gd_bus dev) (gd_address dev) SGP41_MEASURE_RESPONSE_BYTES b of (s, raw, b) \<Rightarrow>
      if s \<noteq> DRIVER_STATUS_OK then (s, None, b)
      else let (c1, voc) = ReadWordWithCrc raw; (c2, nox) = ReadWordWithCrc (drop 3 raw) in
      if c1 \<noteq> DRIVER_STATUS_OK then (c1, None, b)
      else if c2 \<noteq> DRIVER_STATUS_OK then (c2, None, b)
      else (DRIVER_STATUS_OK, Some \<lparr>gm_raw_voc = voc, gm_raw_nox = nox, gm_valid = True\<rparr>, b))"

definition SGP41_BeginConditioning :: "'b Sgp41 \<Rightarrow> u16 \<Rightarrow> u16 \<Rightarrow> 'b \<Rightarrow> DriverStatus \<times> 'b" where
  "SGP41_BeginConditioning dev rh_ticks t_ticks b =
     SGP41_SendCommandArgs dev SGP41_CMD_EXECUTE_CONDITIONING (Some (SGP41_BuildCompArg rh_ticks t_ticks)) b"

text \<open>A response of one word: of the conditioning, and of the self test.\<close>

definition sgp41_read_word :: "'b Sgp41 \<Rightarrow> nat \<Rightarrow> 'b \<Rightarrow> DriverStatus \<times> u16 option \<times> 'b" where
  "sgp41_read_word dev n b =
     (if gd_initialized dev = 0 then (DRIVER_STATUS_NOT_READY, None, b)
      else case I2cBus_Read (gd_bus dev) (gd_address dev) n b of (s, raw, b) \<Rightarrow>
      if s \<noteq> DRIVER_STATUS_OK then (s, None, b)
      else case ReadWordWithCrc raw of (c1, word) \<Rightarrow>
      if c1 \<noteq> DRIVER_STATUS_OK then (c1, None, b) else (DRIVER_STATUS_OK, Some word, b))"

definition SGP41_FinishConditioning :: "'b Sgp41 \<Rightarrow> 'b \<Rightarrow> DriverStatus \<times> u16 option \<times> 'b" where
  "SGP41_FinishConditioning dev b = sgp41_read_word dev SGP41_CONDITIONING_RESPONSE_BYTES b"

definition SGP41_BeginSelfTest :: "'b Sgp41 \<Rightarrow> 'b \<Rightarrow> DriverStatus \<times> 'b" where
  "SGP41_BeginSelfTest dev b = SGP41_SendCommandArgs dev SGP41_CMD_EXECUTE_SELF_TEST None b"

definition SGP41_FinishSelfTest :: "'b Sgp41 \<Rightarrow> 'b \<Rightarrow> DriverStatus \<times> u8 option \<times> 'b" where
  "SGP41_FinishSelfTest dev b =
     (case sgp41_read_word dev SGP41_SELF_TEST_RESPONSE_BYTES b of (s, word, b) \<Rightarrow>
        (s, map_option (\<lambda>w. ucast (w AND 0x0F)) word, b))"

definition SGP41_TurnHeaterOff :: "'b Sgp41 \<Rightarrow> 'b \<Rightarrow> DriverStatus \<times> 'b" where
  "SGP41_TurnHeaterOff dev b = SGP41_SendCommandArgs dev SGP41_CMD_TURN_HEATER_OFF None b"

definition SGP41_BeginGetSerial :: "'b Sgp41 \<Rightarrow> 'b \<Rightarrow> DriverStatus \<times> 'b" where
  "SGP41_BeginGetSerial dev b = SGP41_SendCommandArgs dev SGP41_CMD_GET_SERIAL_NUMBER None b"

definition SGP41_FinishGetSerial :: "'b Sgp41 \<Rightarrow> 'b \<Rightarrow> DriverStatus \<times> (u16 \<times> u16 \<times> u16) option \<times> 'b" where
  "SGP41_FinishGetSerial dev b =
     (if gd_initialized dev = 0 then (DRIVER_STATUS_NOT_READY, None, b)
      else case I2cBus_Read (gd_bus dev) (gd_address dev) SGP41_SERIAL_RESPONSE_BYTES b of (s, raw, b) \<Rightarrow>
      if s \<noteq> DRIVER_STATUS_OK then (s, None, b)
      else let (c1, w0) = ReadWordWithCrc raw;
               (c2, w1) = ReadWordWithCrc (drop 3 raw);
               (c3, w2) = ReadWordWithCrc (drop 6 raw) in
      if c1 \<noteq> DRIVER_STATUS_OK then (c1, None, b)
      else if c2 \<noteq> DRIVER_STATUS_OK then (c2, None, b)
      else if c3 \<noteq> DRIVER_STATUS_OK then (c3, None, b)
      else (DRIVER_STATUS_OK, Some (w0, w1, w2), b))"

section \<open>Compensation\<close>

record Sgp41Compensation =
  gc_temperature_c :: f32
  gc_relative_humidity_pct :: f32
  gc_valid :: bool

definition f32_le :: "f32 \<Rightarrow> f32 \<Rightarrow> bool" where
  "f32_le x y \<longleftrightarrow> f64_le (f32_to_f64 x) (f32_to_f64 y)"

text \<open>The clamp and the cast of \<open>ticks + 0.5f\<close>, whose argument is at most 65535.5.\<close>

definition comp_ticks :: "f32 \<Rightarrow> u16" where
  "comp_ticks ticks =
     (let ticks = (if f32_less ticks (f32_of_int 0) then f32_of_int 0
                   else if f32_less (f32_of_int 65535) ticks then f32_of_int 65535 else ticks)
      in case f32_to_int32 (f32_add ticks (f32_lit (5 / 10))) of Some k \<Rightarrow> of_int k | None \<Rightarrow> 0)"

definition SGP41_CompensationToTicks :: "Sgp41Compensation option \<Rightarrow> u16 \<times> u16" where
  "SGP41_CompensationToTicks input =
     (case input of
        Some c \<Rightarrow> (if gc_valid c
          then let rhp = gc_relative_humidity_pct c; tc = gc_temperature_c c;
                   rh_ok = f32_le (f32_of_int 0) rhp \<and> f32_le rhp (f32_of_int 100);
                   t_ok = f32_le (f32_of_int (-45)) tc \<and> f32_le tc (f32_of_int 130)
            in (if rh_ok then comp_ticks (f32_div (f32_mul rhp (f32_of_int 65535)) (f32_of_int 100))
                else SGP41_DEFAULT_RH_TICKS,
                if t_ok then comp_ticks (f32_div (f32_mul (f32_add tc (f32_of_int 45)) (f32_of_int 65535))
                               (f32_of_int 175))
                else SGP41_DEFAULT_T_TICKS)
          else (SGP41_DEFAULT_RH_TICKS, SGP41_DEFAULT_T_TICKS))
      | None \<Rightarrow> (SGP41_DEFAULT_RH_TICKS, SGP41_DEFAULT_T_TICKS))"

section \<open>Runtime\<close>

definition SGP41_RUNTIME_POLL_INTERVAL_MS :: u32 where "SGP41_RUNTIME_POLL_INTERVAL_MS = 500"
definition SGP41_RUNTIME_SAMPLE_PERIOD_MS :: u32 where "SGP41_RUNTIME_SAMPLE_PERIOD_MS = 1000"
definition SGP41_RUNTIME_CONDITIONING_TICKS_MS :: u32 where "SGP41_RUNTIME_CONDITIONING_TICKS_MS = 1000"
definition SGP41_RUNTIME_CONDITIONING_MAX_MS :: u32 where
  "SGP41_RUNTIME_CONDITIONING_MAX_MS = SGP41_CONDITIONING_MAX_MS"
definition SGP41_RUNTIME_STALE_MS :: u32 where "SGP41_RUNTIME_STALE_MS = 3 * SGP41_RUNTIME_SAMPLE_PERIOD_MS"
definition SGP41_RUNTIME_ERROR_THRESHOLD :: u32 where "SGP41_RUNTIME_ERROR_THRESHOLD = 3"
definition SGP41_RUNTIME_NOX_CONDITIONING_MS :: u32 where
  "SGP41_RUNTIME_NOX_CONDITIONING_MS = SGP41_CONDITIONING_MAX_MS"

datatype Sgp41RuntimePhase = SGP41_PHASE_IDLE | SGP41_PHASE_CONDITIONING | SGP41_PHASE_MEASURING

record 'b Sgp41Runtime =
  gr_state :: DeviceState
  gr_phase :: Sgp41RuntimePhase
  gr_deadline_ms :: u32
  gr_dev :: "'b Sgp41"
  gr_last_sample :: Sgp41RawMeasurement
  gr_voc_alg :: gas
  gr_nox_alg :: gas
  gr_operation_successes :: u32
  gr_operation_failures :: u32
  gr_consecutive_errors :: u32
  gr_recovery_count :: u32
  gr_last_success_ms :: u32
  gr_last_failure_ms :: u32
  gr_last_valid_measurement_ms :: u32
  gr_conditioning_ms :: u32
  gr_comp_rh_ticks :: u16
  gr_comp_t_ticks :: u16
  gr_voc_index :: "32 word"
  gr_nox_index :: "32 word"
  gr_voc_index_valid :: bool
  gr_nox_index_valid :: bool
  gr_fed_this_second :: bool
  gr_last_index_feed_ms :: u32
  gr_fed_count_since_start :: u32
  gr_consecutive_absent :: u32
  gr_next_probe_ms :: u32
  gr_last_error_class :: DriverStatus
  gr_last_tick_ms :: u32
  gr_comp_seen :: bool

definition Sgp41Runtime_DeadlinePassed :: "u32 \<Rightarrow> u32 \<Rightarrow> bool" where
  "Sgp41Runtime_DeadlinePassed now deadline \<longleftrightarrow> now - deadline < 0x80000000"

definition Sgp41Runtime_RecordSuccess :: "u32 \<Rightarrow> 'b Sgp41Runtime \<Rightarrow> 'b Sgp41Runtime" where
  "Sgp41Runtime_RecordSuccess now rt =
     rt\<lparr>gr_operation_successes := gr_operation_successes rt + 1, gr_consecutive_errors := 0,
        gr_last_success_ms := now\<rparr>"

definition Sgp41Runtime_RecordFailure :: "u32 \<Rightarrow> 'b Sgp41Runtime \<Rightarrow> 'b Sgp41Runtime" where
  "Sgp41Runtime_RecordFailure now rt =
     rt\<lparr>gr_operation_failures := gr_operation_failures rt + 1,
        gr_consecutive_errors := gr_consecutive_errors rt + 1, gr_last_failure_ms := now\<rparr>"

definition Sgp41Runtime_InvalidateSample :: "'b Sgp41Runtime \<Rightarrow> 'b Sgp41Runtime" where
  "Sgp41Runtime_InvalidateSample rt =
     rt\<lparr>gr_last_sample := (gr_last_sample rt)\<lparr>gm_valid := False\<rparr>, gr_voc_index_valid := False,
        gr_nox_index_valid := False\<rparr>"

definition Sgp41Runtime_EscalateError :: "'b Sgp41Runtime \<Rightarrow> 'b Sgp41Runtime" where
  "Sgp41Runtime_EscalateError rt =
     rt\<lparr>gr_last_sample := (gr_last_sample rt)\<lparr>gm_valid := False\<rparr>, gr_voc_index_valid := False,
        gr_nox_index_valid := False, gr_state := DEVICE_STATE_ERROR\<rparr>"

text \<open>The bytes of a zeroed instance of the algorithm.\<close>

definition zero_gas :: gas where
  "zero_gas =
     \<lparr>mAlgorithm_Type = 0, mIndex_Offset = 0, mSraw_Minimum = 0, mGating_Max_Duration_Minutes = 0,
      mInit_Duration_Mean = 0, mInit_Duration_Variance = 0, mGating_Threshold = 0, mIndex_Gain = 0,
      mTau_Mean_Hours = 0, mTau_Variance_Hours = 0, mSraw_Std_Initial = 0, mUptime = 0, mSraw = 0,
      mGas_Index = 0, mve___Initialized = False, mve___Mean = 0, mve___Sraw_Offset = 0, mve___Std = 0,
      mve___Gamma_Mean = 0, mve___Gamma_Variance = 0, mve___Gamma_Initial_Mean = 0,
      mve___Gamma_Initial_Variance = 0, mve__Gamma_Mean = 0, mve__Gamma_Variance = 0,
      mve___Uptime_Gamma = 0, mve___Uptime_Gating = 0, mve___Gating_Duration_Minutes = 0,
      mve___Sigmoid__K = 0, mve___Sigmoid__X0 = 0, mox__Sraw_Std = 0, mox__Sraw_Mean = 0, sig__K = 0,
      sig__X0 = 0, sig__Offset_Default = 0, alp__A1 = 0, alp__A2 = 0, alp___Initialized = False,
      alp___X1 = 0, alp___X2 = 0, alp___X3 = 0\<rparr>"

definition zero_sgp41 :: "'b Sgp41Runtime" where
  "zero_sgp41 =
     \<lparr>gr_state = DEVICE_STATE_UNKNOWN, gr_phase = SGP41_PHASE_IDLE, gr_deadline_ms = 0,
      gr_dev = \<lparr>gd_bus = None, gd_address = 0, gd_initialized = 0\<rparr>,
      gr_last_sample = \<lparr>gm_raw_voc = 0, gm_raw_nox = 0, gm_valid = False\<rparr>,
      gr_voc_alg = zero_gas, gr_nox_alg = zero_gas, gr_operation_successes = 0,
      gr_operation_failures = 0, gr_consecutive_errors = 0, gr_recovery_count = 0,
      gr_last_success_ms = 0, gr_last_failure_ms = 0, gr_last_valid_measurement_ms = 0,
      gr_conditioning_ms = 0, gr_comp_rh_ticks = 0, gr_comp_t_ticks = 0, gr_voc_index = 0,
      gr_nox_index = 0, gr_voc_index_valid = False, gr_nox_index_valid = False,
      gr_fed_this_second = False, gr_last_index_feed_ms = 0, gr_fed_count_since_start = 0,
      gr_consecutive_absent = 0, gr_next_probe_ms = 0, gr_last_error_class = DRIVER_STATUS_OK,
      gr_last_tick_ms = 0, gr_comp_seen = False\<rparr>"

definition Sgp41Runtime_Init :: "u32 \<Rightarrow> 'b I2cBus option \<Rightarrow> 'b Sgp41Runtime" where
  "Sgp41Runtime_Init now bus =
     (let rt = zero_sgp41\<lparr>gr_state := DEVICE_STATE_NOT_FOUND, gr_last_tick_ms := now\<rparr> in
      if bus \<noteq> None then rt\<lparr>gr_dev := snd (SGP41_Init (gr_dev rt) bus)\<rparr> else rt)"

definition Sgp41Runtime_SetCompensation :: "Sgp41Compensation option \<Rightarrow> 'b Sgp41Runtime \<Rightarrow> 'b Sgp41Runtime" where
  "Sgp41Runtime_SetCompensation input rt =
     (case SGP41_CompensationToTicks input of (rh, t) \<Rightarrow>
        rt\<lparr>gr_comp_rh_ticks := rh, gr_comp_t_ticks := t, gr_comp_seen := True\<rparr>)"

definition Sgp41Runtime_HasValidSample :: "'b Sgp41Runtime \<Rightarrow> bool" where
  "Sgp41Runtime_HasValidSample rt \<longleftrightarrow> gm_valid (gr_last_sample rt)"

definition Sgp41Runtime_HasValidVocIndex :: "'b Sgp41Runtime \<Rightarrow> bool" where
  "Sgp41Runtime_HasValidVocIndex rt \<longleftrightarrow> gr_voc_index_valid rt \<and> gm_valid (gr_last_sample rt)"

definition Sgp41Runtime_HasValidNoxIndex :: "'b Sgp41Runtime \<Rightarrow> bool" where
  "Sgp41Runtime_HasValidNoxIndex rt \<longleftrightarrow> gr_nox_index_valid rt \<and> gm_valid (gr_last_sample rt)"

definition Sgp41Runtime_IsMissing :: "'b Sgp41Runtime \<Rightarrow> bool" where
  "Sgp41Runtime_IsMissing rt \<longleftrightarrow> gr_state rt = DEVICE_STATE_NOT_FOUND"

definition Sgp41Runtime_EnforceFreshness :: "u32 \<Rightarrow> 'b Sgp41Runtime \<Rightarrow> 'b Sgp41Runtime" where
  "Sgp41Runtime_EnforceFreshness now rt =
     (if gm_valid (gr_last_sample rt) = False then rt
      else if now - gr_last_valid_measurement_ms rt \<ge> SGP41_RUNTIME_STALE_MS
      then rt\<lparr>gr_last_sample := (gr_last_sample rt)\<lparr>gm_valid := False\<rparr>, gr_voc_index_valid := False,
              gr_nox_index_valid := False\<rparr>
      else rt)"

definition Sgp41Runtime_ProbeDue :: "'b Sgp41Runtime \<Rightarrow> u32 \<Rightarrow> bool" where
  "Sgp41Runtime_ProbeDue rt now = probe_due (gr_consecutive_absent rt) (gr_next_probe_ms rt) now"

definition Sgp41Runtime_LastError :: "'b Sgp41Runtime \<Rightarrow> DriverStatus" where
  "Sgp41Runtime_LastError rt = gr_last_error_class rt"

text \<open>The command in flight and its phase, before and after the conditioning budget is used up.\<close>

definition Sgp41Runtime_BeginStartup ::
  "u32 \<Rightarrow> 'b Sgp41Runtime \<Rightarrow> 'b \<Rightarrow> DriverStatus \<times> 'b Sgp41Runtime \<times> 'b" where
  "Sgp41Runtime_BeginStartup now rt b =
     (if gr_conditioning_ms rt < SGP41_RUNTIME_CONDITIONING_MAX_MS
      then (case SGP41_BeginConditioning (gr_dev rt) (gr_comp_rh_ticks rt) (gr_comp_t_ticks rt) b of (cs, b) \<Rightarrow>
        if cs \<noteq> DRIVER_STATUS_OK then (cs, rt, b)
        else (DRIVER_STATUS_OK, rt\<lparr>gr_phase := SGP41_PHASE_CONDITIONING,
                gr_deadline_ms := now + SGP41_CONDITIONING_EXECUTION_MS\<rparr>, b))
      else (case SGP41_BeginMeasure (gr_dev rt) (gr_comp_rh_ticks rt) (gr_comp_t_ticks rt) b of (ms, b) \<Rightarrow>
        if ms \<noteq> DRIVER_STATUS_OK then (ms, rt, b)
        else (DRIVER_STATUS_OK, rt\<lparr>gr_phase := SGP41_PHASE_MEASURING,
                gr_deadline_ms := now + SGP41_MEASURE_EXECUTION_MS\<rparr>, b)))"

text \<open>A counted failure, and the state ERROR at the threshold.\<close>

definition sgp41_failed :: "u32 \<Rightarrow> DriverStatus \<Rightarrow> 'b Sgp41Runtime \<Rightarrow> 'b Sgp41Runtime" where
  "sgp41_failed now s rt =
     (let rt = Sgp41Runtime_RecordFailure now (rt\<lparr>gr_last_error_class := s\<rparr>) in
      if gr_consecutive_errors rt \<ge> SGP41_RUNTIME_ERROR_THRESHOLD then Sgp41Runtime_EscalateError rt else rt)"

definition sgp41_prepare :: "'b Sgp41Runtime \<Rightarrow> 'b Sgp41Runtime" where
  "sgp41_prepare rt =
     (let rt = (if gr_voc_index rt = 0 \<and> gr_last_valid_measurement_ms rt = 0
                then rt\<lparr>gr_voc_alg := GasIndexAlgorithm_init ALGORITHM_TYPE_VOC (gr_voc_alg rt),
                        gr_nox_alg := GasIndexAlgorithm_init ALGORITHM_TYPE_NOX (gr_nox_alg rt),
                        gr_voc_index_valid := False, gr_nox_index_valid := False, gr_conditioning_ms := 0\<rparr>
                else rt);
          rt = (if gd_initialized (gr_dev rt) = 0
                then rt\<lparr>gr_dev := snd (SGP41_Init (gr_dev rt) (gd_bus (gr_dev rt)))\<rparr> else rt)
      in if gr_comp_seen rt = False
         then (case SGP41_CompensationToTicks
                 (Some \<lparr>gc_temperature_c = F32 False 0, gc_relative_humidity_pct = F32 False 0, gc_valid = False\<rparr>)
               of (rh, t) \<Rightarrow> rt\<lparr>gr_comp_rh_ticks := rh, gr_comp_t_ticks := t, gr_comp_seen := True\<rparr>)
         else rt)"

definition Sgp41Runtime_Start :: "u32 \<Rightarrow> 'b Sgp41Runtime \<Rightarrow> 'b \<Rightarrow> DriverStatus \<times> 'b Sgp41Runtime \<times> 'b" where
  "Sgp41Runtime_Start now rt b =
     (if probe_held (gr_consecutive_absent rt) (gr_next_probe_ms rt) now
      then (DRIVER_STATUS_NOT_FOUND, rt\<lparr>gr_state := DEVICE_STATE_NOT_FOUND\<rparr>, b)
      else case SGP41_Probe (gd_bus (gr_dev rt)) b of (ps, b) \<Rightarrow>
      if ps \<noteq> DRIVER_STATUS_OK
      then let k = RecoveryPolicy_TrackAbsence (gr_consecutive_absent rt) True in
        (ps, rt\<lparr>gr_state := DEVICE_STATE_NOT_FOUND, gr_last_error_class := ps, gr_consecutive_absent := k,
               gr_next_probe_ms := now + RecoveryPolicy_BackoffMs k\<rparr>, b)
      else let rt = sgp41_prepare (rt\<lparr>gr_consecutive_absent := 0, gr_last_error_class := DRIVER_STATUS_OK\<rparr>) in
      case Sgp41Runtime_BeginStartup now rt b of (ss, rt, b) \<Rightarrow>
      if ss \<noteq> DRIVER_STATUS_OK
      then let rt = Sgp41Runtime_RecordFailure now (rt\<lparr>gr_last_error_class := ss\<rparr>) in
        (ss, if gr_consecutive_errors rt \<ge> SGP41_RUNTIME_ERROR_THRESHOLD
             then Sgp41Runtime_EscalateError (rt\<lparr>gr_phase := SGP41_PHASE_IDLE\<rparr>) else rt, b)
      else (DRIVER_STATUS_OK, rt\<lparr>gr_state := DEVICE_STATE_STARTING\<rparr>, b))"

section \<open>Polling\<close>

definition Sgp41Runtime_IssueNextMeasure :: "u32 \<Rightarrow> 'b Sgp41Runtime \<Rightarrow> 'b \<Rightarrow> 'b Sgp41Runtime \<times> 'b" where
  "Sgp41Runtime_IssueNextMeasure now rt b =
     (case SGP41_BeginMeasure (gr_dev rt) (gr_comp_rh_ticks rt) (gr_comp_t_ticks rt) b of (ms, b) \<Rightarrow>
      if ms \<noteq> DRIVER_STATUS_OK then (sgp41_failed now ms rt, b)
      else (rt\<lparr>gr_phase := SGP41_PHASE_MEASURING, gr_deadline_ms := now + SGP41_MEASURE_EXECUTION_MS\<rparr>, b))"

definition Sgp41Runtime_FinishConditioning :: "u32 \<Rightarrow> 'b Sgp41Runtime \<Rightarrow> 'b \<Rightarrow> 'b Sgp41Runtime \<times> 'b" where
  "Sgp41Runtime_FinishConditioning now rt b =
     (case SGP41_FinishConditioning (gr_dev rt) b of (rs, raw_voc, b) \<Rightarrow>
      let rt = rt\<lparr>gr_phase := SGP41_PHASE_IDLE\<rparr> in
      if rs \<noteq> DRIVER_STATUS_OK
      then let rt = Sgp41Runtime_RecordFailure now (rt\<lparr>gr_last_error_class := rs\<rparr>) in
        (if gr_consecutive_errors rt \<ge> SGP41_RUNTIME_ERROR_THRESHOLD then Sgp41Runtime_EscalateError rt
         else rt\<lparr>gr_state := DEVICE_STATE_STARTING\<rparr>, b)
      else let rt = rt\<lparr>gr_conditioning_ms := gr_conditioning_ms rt + SGP41_RUNTIME_CONDITIONING_TICKS_MS\<rparr> in
      if gr_conditioning_ms rt \<ge> SGP41_RUNTIME_CONDITIONING_MAX_MS
      then (case SGP41_BeginMeasure (gr_dev rt) (gr_comp_rh_ticks rt) (gr_comp_t_ticks rt) b of (ms, b) \<Rightarrow>
        if ms \<noteq> DRIVER_STATUS_OK then (sgp41_failed now ms rt, b)
        else (rt\<lparr>gr_phase := SGP41_PHASE_MEASURING, gr_deadline_ms := now + SGP41_MEASURE_EXECUTION_MS,
                 gr_state := DEVICE_STATE_WAITING\<rparr>, b))
      else (rt\<lparr>gr_state := DEVICE_STATE_STARTING\<rparr>, b))"

text \<open>The feed of the two algorithms and the validity of the two indices.\<close>

definition sgp41_feed :: "u32 \<Rightarrow> Sgp41RawMeasurement \<Rightarrow> 'b Sgp41Runtime \<Rightarrow> 'b Sgp41Runtime" where
  "sgp41_feed now m rt =
     (if now - gr_last_index_feed_ms rt \<ge> SGP41_RUNTIME_SAMPLE_PERIOD_MS \<or> gr_last_index_feed_ms rt = 0
      then case GasIndexAlgorithm_process (ucast (gm_raw_voc m)) (gr_voc_alg rt) of (voc, voc_alg) \<Rightarrow>
        case GasIndexAlgorithm_process (ucast (gm_raw_nox m)) (gr_nox_alg rt) of (nox, nox_alg) \<Rightarrow>
        let rt = rt\<lparr>gr_voc_alg := voc_alg, gr_voc_index := voc, gr_nox_alg := nox_alg, gr_nox_index := nox,
                    gr_last_index_feed_ms := now\<rparr>;
            rt = (if gr_fed_count_since_start rt \<ge> 46 \<and> gm_valid (gr_last_sample rt)
                  then rt\<lparr>gr_voc_index_valid := True\<rparr> else rt);
            rt = (if gr_conditioning_ms rt \<ge> SGP41_RUNTIME_NOX_CONDITIONING_MS \<and>
                     gr_fed_count_since_start rt \<ge> 46 \<and> mve___Initialized (gr_nox_alg rt) \<and>
                     gm_valid (gr_last_sample rt)
                  then rt\<lparr>gr_nox_index_valid := True\<rparr> else rt)
        in rt\<lparr>gr_fed_count_since_start := gr_fed_count_since_start rt + 1\<rparr>
      else rt)"

definition sgp41_measured :: "u32 \<Rightarrow> 'b Sgp41Runtime \<Rightarrow> 'b \<Rightarrow> 'b Sgp41Runtime \<times> 'b" where
  "sgp41_measured now rt b =
     (if Sgp41Runtime_DeadlinePassed now (gr_deadline_ms rt) = False then (rt, b)
      else case SGP41_FinishMeasure (gr_dev rt) b of (rs, meas, b) \<Rightarrow>
      let rt = rt\<lparr>gr_phase := SGP41_PHASE_IDLE\<rparr> in
      if rs \<noteq> DRIVER_STATUS_OK
      then let rt = Sgp41Runtime_RecordFailure now (rt\<lparr>gr_last_error_class := rs\<rparr>) in
        if gr_consecutive_errors rt \<ge> SGP41_RUNTIME_ERROR_THRESHOLD then (Sgp41Runtime_EscalateError rt, b)
        else Sgp41Runtime_IssueNextMeasure now rt b
      else case meas of
        Some m \<Rightarrow> (sgp41_feed now m (Sgp41Runtime_RecordSuccess now
          (rt\<lparr>gr_last_sample := m, gr_last_valid_measurement_ms := now, gr_state := DEVICE_STATE_READY,
              gr_last_error_class := DRIVER_STATUS_OK\<rparr>)), b)
      | None \<Rightarrow> (rt, b))"

definition Sgp41Runtime_Poll :: "u32 \<Rightarrow> 'b Sgp41Runtime \<Rightarrow> 'b \<Rightarrow> 'b Sgp41Runtime \<times> 'b" where
  "Sgp41Runtime_Poll now rt b =
     (let rt = rt\<lparr>gr_last_tick_ms := now\<rparr> in
      if gr_state rt = DEVICE_STATE_NOT_FOUND \<or> gr_state rt = DEVICE_STATE_ERROR \<or>
         gr_state rt = DEVICE_STATE_RECOVERING then (rt, b)
      else let rt = Sgp41Runtime_EnforceFreshness now rt in
      if gr_consecutive_errors rt \<ge> SGP41_RUNTIME_ERROR_THRESHOLD
      then (Sgp41Runtime_EscalateError (rt\<lparr>gr_phase := SGP41_PHASE_IDLE\<rparr>), b)
      else if gr_state rt = DEVICE_STATE_STARTING \<and> gr_phase rt = SGP41_PHASE_CONDITIONING
      then (if Sgp41Runtime_DeadlinePassed now (gr_deadline_ms rt) = False then (rt, b)
            else Sgp41Runtime_FinishConditioning now rt b)
      else if gr_state rt = DEVICE_STATE_STARTING \<and> gr_phase rt = SGP41_PHASE_IDLE
      then (case Sgp41Runtime_BeginStartup now rt b of (ss, rt, b) \<Rightarrow>
            (if ss \<noteq> DRIVER_STATUS_OK then sgp41_failed now ss rt else rt, b))
      else if gr_state rt = DEVICE_STATE_WAITING \<and> gr_phase rt = SGP41_PHASE_MEASURING
      then sgp41_measured now rt b
      else if gr_state rt = DEVICE_STATE_READY
      then (if now - gr_last_valid_measurement_ms rt < SGP41_RUNTIME_SAMPLE_PERIOD_MS then (rt, b)
            else case Sgp41Runtime_IssueNextMeasure now rt b of (rt, b) \<Rightarrow>
              (if gr_phase rt = SGP41_PHASE_MEASURING then rt\<lparr>gr_state := DEVICE_STATE_WAITING\<rparr> else rt, b))
      else (rt, b))"

definition Sgp41Runtime_Recover :: "'b Sgp41Runtime \<Rightarrow> 'b Sgp41Runtime" where
  "Sgp41Runtime_Recover rt =
     rt\<lparr>gr_recovery_count := gr_recovery_count rt + 1, gr_consecutive_errors := 0,
        gr_last_sample := (gr_last_sample rt)\<lparr>gm_valid := False\<rparr>, gr_voc_index_valid := False,
        gr_nox_index_valid := False, gr_phase := SGP41_PHASE_IDLE, gr_state := DEVICE_STATE_RECOVERING\<rparr>"

definition Sgp41Runtime_GetDiagnostics :: "'b Sgp41Runtime \<Rightarrow> DeviceRuntime" where
  "Sgp41Runtime_GetDiagnostics rt =
     \<lparr>dr_state = gr_state rt, dr_init_attempts = 0, dr_init_failures = 0,
      dr_operation_successes = gr_operation_successes rt, dr_operation_failures = gr_operation_failures rt,
      dr_recovery_count = gr_recovery_count rt, dr_consecutive_errors = gr_consecutive_errors rt,
      dr_last_success_ms = gr_last_success_ms rt, dr_last_failure_ms = gr_last_failure_ms rt\<rparr>"

section \<open>The interface of the application\<close>

definition sgp41_held :: "'b Sgp41Runtime \<Rightarrow> u32 \<Rightarrow> bool" where
  "sgp41_held rt = probe_held (gr_consecutive_absent rt) (gr_next_probe_ms rt)"

text \<open>A valid sample belongs to a running sensor and is fresh at the tick.\<close>

definition sgp41_fresh :: "u32 \<Rightarrow> 'b Sgp41Runtime \<Rightarrow> bool" where
  "sgp41_fresh now rt \<longleftrightarrow> (Sgp41Runtime_HasValidSample rt \<longrightarrow>
     \<not> sensor_resting (gr_state rt) \<and> now - gr_last_valid_measurement_ms rt < SGP41_RUNTIME_STALE_MS)"

lemmas sgp41_fresh_simps =
  sgp41_fresh_def Sgp41Runtime_HasValidSample_def sensor_resting_def Let_def Sgp41Runtime_RecordFailure_def
  Sgp41Runtime_EscalateError_def Sgp41Runtime_RecordSuccess_def sgp41_failed_def

lemma sgp41_failed_fresh: "sgp41_fresh now rt \<Longrightarrow> sgp41_fresh now (sgp41_failed now s rt)"
  by (auto simp: sgp41_fresh_simps)

lemma sgp41_issue_fresh:
  "sgp41_fresh now rt \<Longrightarrow> Sgp41Runtime_IssueNextMeasure now rt b = (rt', b') \<Longrightarrow> sgp41_fresh now rt'"
  by (auto simp: Sgp41Runtime_IssueNextMeasure_def sgp41_fresh_simps split: prod.splits if_splits)

lemma sgp41_conditioning_fresh:
  "sgp41_fresh now rt \<Longrightarrow> Sgp41Runtime_FinishConditioning now rt b = (rt', b') \<Longrightarrow> sgp41_fresh now rt'"
  by (auto simp: Sgp41Runtime_FinishConditioning_def sgp41_fresh_simps split: prod.splits if_splits)

lemma sgp41_begin_fresh:
  "sgp41_fresh now rt \<Longrightarrow> Sgp41Runtime_BeginStartup now rt b = (s, rt', b') \<Longrightarrow> sgp41_fresh now rt'"
  by (auto simp: Sgp41Runtime_BeginStartup_def sgp41_fresh_simps split: prod.splits if_splits)

lemma sgp41_feed_kept:
  "gr_last_sample (sgp41_feed now m rt) = gr_last_sample rt \<and> gr_state (sgp41_feed now m rt) = gr_state rt \<and>
   gr_last_valid_measurement_ms (sgp41_feed now m rt) = gr_last_valid_measurement_ms rt"
  by (simp add: sgp41_feed_def Let_def split: prod.splits)

lemma sgp41_feed_fresh: "sgp41_fresh now (sgp41_feed now m rt) = sgp41_fresh now rt"
  by (simp add: sgp41_fresh_def Sgp41Runtime_HasValidSample_def sgp41_feed_kept)

lemma sgp41_taken_fresh:
  "sgp41_fresh now (Sgp41Runtime_RecordSuccess now (rt\<lparr>gr_last_sample := m,
     gr_last_valid_measurement_ms := now, gr_state := DEVICE_STATE_READY,
     gr_last_error_class := DRIVER_STATUS_OK\<rparr>))"
  by (simp add: sgp41_fresh_simps SGP41_RUNTIME_STALE_MS_def SGP41_RUNTIME_SAMPLE_PERIOD_MS_def)

lemma sgp41_retry_fresh:
  "sgp41_fresh now rt \<Longrightarrow> sgp41_fresh now (Sgp41Runtime_EscalateError
     (Sgp41Runtime_RecordFailure now (rt\<lparr>gr_phase := p, gr_last_error_class := s\<rparr>)))"
  "sgp41_fresh now rt \<Longrightarrow>
     sgp41_fresh now (Sgp41Runtime_RecordFailure now (rt\<lparr>gr_phase := p, gr_last_error_class := s\<rparr>))"
  by (simp_all add: sgp41_fresh_simps)

lemma sgp41_measured_fresh:
  "sgp41_fresh now rt \<Longrightarrow> sgp41_measured now rt b = (rt', b') \<Longrightarrow> sgp41_fresh now rt'"
  unfolding sgp41_measured_def Let_def
  by (auto split: prod.splits if_splits option.splits simp: sgp41_feed_fresh sgp41_taken_fresh
      sgp41_retry_fresh dest: sgp41_issue_fresh [rotated]) (simp add: sgp41_fresh_simps)

lemma sgp41_enforce_fresh:
  "\<not> sensor_resting (gr_state rt) \<Longrightarrow> sgp41_fresh now (Sgp41Runtime_EnforceFreshness now rt)"
  by (simp add: Sgp41Runtime_EnforceFreshness_def sgp41_fresh_simps not_le)

lemma sgp41_waiting_fresh: "sgp41_fresh now rt \<Longrightarrow> sgp41_fresh now (rt\<lparr>gr_state := DEVICE_STATE_WAITING\<rparr>)"
  by (simp add: sgp41_fresh_simps)

lemma sgp41_poll_fresh:
  assumes "\<not> sensor_resting (gr_state rt)" "Sgp41Runtime_Poll now rt b = (rt', b')"
  shows "sgp41_fresh now rt'"
proof -
  let ?e = "Sgp41Runtime_EnforceFreshness now (rt\<lparr>gr_last_tick_ms := now\<rparr>)"
  have f: "sgp41_fresh now ?e"
    using assms(1) by (intro sgp41_enforce_fresh) simp
  have g: "sgp41_fresh now (Sgp41Runtime_EscalateError (?e\<lparr>gr_phase := SGP41_PHASE_IDLE\<rparr>))"
    by (simp add: sgp41_fresh_simps)
  show ?thesis
    using assms f g unfolding Sgp41Runtime_Poll_def Let_def sensor_resting_def
    by (auto split: if_splits prod.splits simp: sgp41_failed_fresh sgp41_waiting_fresh
        dest: sgp41_conditioning_fresh [rotated] sgp41_begin_fresh [rotated] sgp41_measured_fresh [rotated]
        sgp41_issue_fresh [rotated])
qed

lemma sgp41_prepare_sample: "gr_last_sample (sgp41_prepare rt) = gr_last_sample rt"
  by (simp add: sgp41_prepare_def Let_def split: prod.splits)

lemma sgp41_begin_sample:
  "Sgp41Runtime_BeginStartup now rt b = (s, rt', b') \<Longrightarrow> gr_last_sample rt' = gr_last_sample rt"
  by (auto simp: Sgp41Runtime_BeginStartup_def split: prod.splits if_splits)

lemma sgp41_start_valid:
  "Sgp41Runtime_Start now rt b = (s, rt', b') \<Longrightarrow> Sgp41Runtime_HasValidSample rt' \<Longrightarrow>
   Sgp41Runtime_HasValidSample rt"
  by (auto simp: Sgp41Runtime_Start_def Let_def Sgp41Runtime_HasValidSample_def Sgp41Runtime_RecordFailure_def
      Sgp41Runtime_EscalateError_def sgp41_prepare_sample split: prod.splits if_splits
      dest!: sgp41_begin_sample)

interpretation sgp41: sensor_runtime gr_state Sgp41Runtime_HasValidSample gr_last_valid_measurement_ms
  SGP41_RUNTIME_STALE_MS sgp41_held Sgp41Runtime_Poll Sgp41Runtime_Start Sgp41Runtime_Recover
proof
  show "\<not> sensor_resting (gr_state rt) \<Longrightarrow> Sgp41Runtime_Poll now rt b = (rt', b') \<Longrightarrow>
      Sgp41Runtime_HasValidSample rt' \<Longrightarrow>
      \<not> sensor_resting (gr_state rt') \<and> now - gr_last_valid_measurement_ms rt' < SGP41_RUNTIME_STALE_MS"
    for rt :: "'a Sgp41Runtime" and now b rt' b'
    using sgp41_poll_fresh [of rt now b rt' b'] by (simp add: sgp41_fresh_def)
next
  show "Sgp41Runtime_Start now rt b = (s, rt', b') \<Longrightarrow> Sgp41Runtime_HasValidSample rt' \<Longrightarrow>
      Sgp41Runtime_HasValidSample rt" for rt :: "'a Sgp41Runtime" and now b s rt' b'
    by (rule sgp41_start_valid)
qed (auto simp: sensor_resting_def Sgp41Runtime_Poll_def Sgp41Runtime_Start_def Sgp41Runtime_Recover_def
      Sgp41Runtime_HasValidSample_def sgp41_held_def)

end
