(* ===== verification/Bmp3.thy ===== *)
theory Bmp3
  imports I2c_Bus Float32
begin

text \<open>
  The pressure sensors of one family. \<open>Drivers/bmp390/Src/bmp390.c\<close> and
  \<open>Drivers/bmp380/Src/bmp380.c\<close> are the same driver but for the chip identifier, and their
  state machines but for one branch, so both are instances of the definitions here: the driver
  takes the identifier, the state machine a \<open>bmp3_model\<close>. The arithmetic is that of
  \<open>double\<close> with a rounding after every operation.
\<close>

section \<open>Driver\<close>

definition BMP390_I2C_ADDR_PRIM :: u16 where "BMP390_I2C_ADDR_PRIM = 0x76"
definition BMP390_I2C_ADDR_SEC :: u16 where "BMP390_I2C_ADDR_SEC = 0x77"
definition BMP390_CHIP_ID :: u8 where "BMP390_CHIP_ID = 0x60"
definition BMP380_CHIP_ID :: u8 where "BMP380_CHIP_ID = 0x50"
definition BMP390_REG_CHIP_ID :: u8 where "BMP390_REG_CHIP_ID = 0x00"
definition BMP390_REG_ERR :: u8 where "BMP390_REG_ERR = 0x02"
definition BMP390_REG_STATUS :: u8 where "BMP390_REG_STATUS = 0x03"
definition BMP390_REG_DATA :: u8 where "BMP390_REG_DATA = 0x04"
definition BMP390_REG_PWR_CTRL :: u8 where "BMP390_REG_PWR_CTRL = 0x1B"
definition BMP390_REG_OSR :: u8 where "BMP390_REG_OSR = 0x1C"
definition BMP390_REG_ODR :: u8 where "BMP390_REG_ODR = 0x1D"
definition BMP390_REG_CONFIG :: u8 where "BMP390_REG_CONFIG = 0x1F"
definition BMP390_REG_CALIB_DATA :: u8 where "BMP390_REG_CALIB_DATA = 0x31"
definition BMP390_REG_CMD :: u8 where "BMP390_REG_CMD = 0x7E"
definition BMP390_ERR_FATAL :: u8 where "BMP390_ERR_FATAL = 0x01"
definition BMP390_ERR_CMD :: u8 where "BMP390_ERR_CMD = 0x02"
definition BMP390_ERR_CONF :: u8 where "BMP390_ERR_CONF = 0x04"
definition BMP390_STATUS_DRDY_PRESS :: u8 where "BMP390_STATUS_DRDY_PRESS = 0x20"
definition BMP390_STATUS_DRDY_TEMP :: u8 where "BMP390_STATUS_DRDY_TEMP = 0x40"
definition BMP390_MODE_SLEEP :: u8 where "BMP390_MODE_SLEEP = 0x00"
definition BMP390_MODE_FORCED :: u8 where "BMP390_MODE_FORCED = 0x01"
definition BMP390_SOFT_RESET_CMD :: u8 where "BMP390_SOFT_RESET_CMD = 0xB6"
definition BMP390_ODR_25_HZ :: u8 where "BMP390_ODR_25_HZ = 0x01"
definition BMP390_LEN_CALIB_DATA :: nat where "BMP390_LEN_CALIB_DATA = 21"
definition BMP390_LEN_P_T_DATA :: nat where "BMP390_LEN_P_T_DATA = 6"
definition BMP390_MIN_PRES_PA :: f64 where "BMP390_MIN_PRES_PA = f64_lit 30000"
definition BMP390_MAX_PRES_PA :: f64 where "BMP390_MAX_PRES_PA = f64_lit 125000"

record Bmp3Calib =
  par_t1 :: f64
  par_t2 :: f64
  par_t3 :: f64
  par_p1 :: f64
  par_p2 :: f64
  par_p3 :: f64
  par_p4 :: f64
  par_p5 :: f64
  par_p6 :: f64
  par_p7 :: f64
  par_p8 :: f64
  par_p9 :: f64
  par_p10 :: f64
  par_p11 :: f64
  t_lin :: f64

record 'b Bmp3 =
  bd_bus :: "'b I2cBus option"
  bd_address :: u16
  bd_initialized :: u8
  bd_quantized :: Bmp3Calib
  bd_calibrated :: u8

record Bmp3Sample =
  bm_pressure_pa :: f32
  bm_temperature_c :: f32
  bm_valid :: bool

definition bmp3_unusable :: "'b Bmp3 \<Rightarrow> bool" where
  "bmp3_unusable dev \<longleftrightarrow> bd_bus dev = None \<or> bd_initialized dev = 0"

definition bmp3_ReadRegs :: "'b Bmp3 \<Rightarrow> u8 \<Rightarrow> nat \<Rightarrow> 'b \<Rightarrow> DriverStatus \<times> bytes \<times> 'b" where
  "bmp3_ReadRegs dev reg len b =
     (if bmp3_unusable dev then (DRIVER_STATUS_INVALID_ARG, [], b)
      else I2cBus_ReadMem (bd_bus dev) (bd_address dev) reg len b)"

definition bmp3_WriteReg :: "'b Bmp3 \<Rightarrow> u8 \<Rightarrow> u8 \<Rightarrow> 'b \<Rightarrow> DriverStatus \<times> 'b" where
  "bmp3_WriteReg dev reg val b =
     (if bmp3_unusable dev then (DRIVER_STATUS_INVALID_ARG, b)
      else I2cBus_Write (bd_bus dev) (bd_address dev) (Some [reg, val]) b)"

definition zero_bmp3_calib :: Bmp3Calib where
  "zero_bmp3_calib =
     (let z = F64 False 0 in
      \<lparr>par_t1 = z, par_t2 = z, par_t3 = z, par_p1 = z, par_p2 = z, par_p3 = z, par_p4 = z, par_p5 = z,
       par_p6 = z, par_p7 = z, par_p8 = z, par_p9 = z, par_p10 = z, par_p11 = z, t_lin = z\<rparr>)"

definition bmp3_Init :: "'b Bmp3 \<Rightarrow> 'b I2cBus option \<Rightarrow> DriverStatus \<times> 'b Bmp3" where
  "bmp3_Init dev bus =
     (case bus of None \<Rightarrow> (DRIVER_STATUS_INVALID_ARG, dev)
      | Some ops \<Rightarrow> (DRIVER_STATUS_OK,
          \<lparr>bd_bus = Some ops, bd_address = 0, bd_initialized = 1, bd_quantized = zero_bmp3_calib,
           bd_calibrated = 0\<rparr>))"

text \<open>The loop over the two addresses.\<close>

fun bmp3_detect_at :: "u8 \<Rightarrow> u16 list \<Rightarrow> 'b Bmp3 \<Rightarrow> 'b \<Rightarrow> DriverStatus \<times> 'b Bmp3 \<times> 'b" where
  "bmp3_detect_at chip_id [] dev b = (DRIVER_STATUS_NOT_FOUND, dev, b)"
| "bmp3_detect_at chip_id (addr # addrs) dev b =
     (case I2cBus_Probe (bd_bus dev) addr b of (p, b) \<Rightarrow>
      if p \<noteq> DRIVER_STATUS_OK then bmp3_detect_at chip_id addrs dev b
      else case I2cBus_ReadMem (bd_bus dev) addr BMP390_REG_CHIP_ID 1 b of (r, chip, b) \<Rightarrow>
      if r \<noteq> DRIVER_STATUS_OK then bmp3_detect_at chip_id addrs dev b
      else if chip ! 0 = chip_id then (DRIVER_STATUS_OK, dev\<lparr>bd_address := addr\<rparr>, b)
      else bmp3_detect_at chip_id addrs dev b)"

definition bmp3_Detect :: "u8 \<Rightarrow> 'b Bmp3 \<Rightarrow> 'b \<Rightarrow> DriverStatus \<times> 'b Bmp3 \<times> 'b" where
  "bmp3_Detect chip_id dev b =
     (if bmp3_unusable dev then (DRIVER_STATUS_INVALID_ARG, dev, b)
      else bmp3_detect_at chip_id [push_bit 1 BMP390_I2C_ADDR_PRIM, push_bit 1 BMP390_I2C_ADDR_SEC] dev b)"

definition bmp3_ReadChipId :: "'b Bmp3 \<Rightarrow> 'b \<Rightarrow> DriverStatus \<times> bytes \<times> 'b" where
  "bmp3_ReadChipId dev b = bmp3_ReadRegs dev BMP390_REG_CHIP_ID 1 b"

section \<open>Calibration and compensation\<close>

text \<open>Two registers as a 16-bit word, one register as a signed byte.\<close>

definition reg16 :: "bytes \<Rightarrow> nat \<Rightarrow> u16" where
  "reg16 r i = push_bit 8 (ucast (r ! (i + 1))) OR ucast (r ! i)"

definition unsigned16 :: "bytes \<Rightarrow> nat \<Rightarrow> f64" where
  "unsigned16 r i = f64_of_int (uint (reg16 r i))"

definition signed8 :: "bytes \<Rightarrow> nat \<Rightarrow> f64" where
  "signed8 r i = f64_of_int (sint (r ! i))"

definition bmp3_ParseCalibration :: "bytes \<Rightarrow> Bmp3Calib" where
  "bmp3_ParseCalibration r =
     \<lparr>par_t1 = f64_div (unsigned16 r 0) (f64_lit (390625 / 10 ^ 8)),
      par_t2 = f64_div (unsigned16 r 2) (f64_lit 1073741824),
      par_t3 = f64_div (signed8 r 4) (f64_lit 281474976710656),
      par_p1 = f64_div (f64_of_int (sint (reg16 r 5) - 16384)) (f64_lit 1048576),
      par_p2 = f64_div (f64_of_int (sint (reg16 r 7) - 16384)) (f64_lit 536870912),
      par_p3 = f64_div (signed8 r 9) (f64_lit 4294967296),
      par_p4 = f64_div (signed8 r 10) (f64_lit 137438953472),
      par_p5 = f64_div (unsigned16 r 11) (f64_lit (125 / 10 ^ 3)),
      par_p6 = f64_div (unsigned16 r 13) (f64_lit 64),
      par_p7 = f64_div (signed8 r 15) (f64_lit 256),
      par_p8 = f64_div (signed8 r 16) (f64_lit 32768),
      par_p9 = f64_div (f64_of_int (sint (reg16 r 17))) (f64_lit 281474976710656),
      par_p10 = f64_div (signed8 r 19) (f64_lit 281474976710656),
      par_p11 = f64_div (signed8 r 20) (f64_lit 36893488147419103232),
      t_lin = F64 False 0\<rparr>"

definition bmp3_InitCalibration :: "'b Bmp3 \<Rightarrow> 'b \<Rightarrow> DriverStatus \<times> 'b Bmp3 \<times> 'b" where
  "bmp3_InitCalibration dev b =
     (case bmp3_ReadRegs dev BMP390_REG_CALIB_DATA BMP390_LEN_CALIB_DATA b of (r, raw, b) \<Rightarrow>
      if r \<noteq> DRIVER_STATUS_OK then (r, dev, b)
      else (DRIVER_STATUS_OK, dev\<lparr>bd_quantized := bmp3_ParseCalibration raw, bd_calibrated := 1\<rparr>, b))"

definition bmp3_Raw24 :: "bytes \<Rightarrow> u32" where
  "bmp3_Raw24 p = ucast (p ! 0) OR push_bit 8 (ucast (p ! 1)) OR push_bit 16 (ucast (p ! 2))"

text \<open>The temperature step, clamped, and the pressure step, which is not.\<close>

definition bmp3_temperature :: "Bmp3Calib \<Rightarrow> int \<Rightarrow> f64" where
  "bmp3_temperature q raw_temp =
     (let d1 = f64_sub (f64_of_int raw_temp) (par_t1 q);
          d2 = f64_mul d1 (par_t2 q);
          t = f64_add d2 (f64_mul (f64_mul d1 d1) (par_t3 q));
          t = (if f64_less t (f64_lit (-40)) then f64_lit (-40) else t)
      in if f64_less (f64_lit 85) t then f64_lit 85 else t)"

definition bmp3_pressure :: "Bmp3Calib \<Rightarrow> f64 \<Rightarrow> int \<Rightarrow> f64" where
  "bmp3_pressure q t raw_press =
     (let p = f64_of_int raw_press;
          d1 = f64_mul (par_p6 q) t;
          d2 = f64_mul (f64_mul (par_p7 q) t) t;
          d3 = f64_mul (f64_mul (f64_mul (par_p8 q) t) t) t;
          out1 = f64_add (f64_add (f64_add (par_p5 q) d1) d2) d3;
          d1 = f64_mul (par_p2 q) t;
          d2 = f64_mul (f64_mul (par_p3 q) t) t;
          d3 = f64_mul (f64_mul (f64_mul (par_p4 q) t) t) t;
          out2 = f64_mul p (f64_add (f64_add (f64_add (par_p1 q) d1) d2) d3);
          p2 = f64_mul p p;
          d2 = f64_add (par_p9 q) (f64_mul (par_p10 q) t);
          d3 = f64_mul p2 d2;
          d4 = f64_add d3 (f64_mul (f64_mul (f64_mul p p) p) (par_p11 q))
      in f64_add (f64_add out1 out2) d4)"

definition bmp3_Compensate :: "Bmp3Calib \<Rightarrow> int \<Rightarrow> int \<Rightarrow> Bmp3Calib \<times> f64 \<times> f64" where
  "bmp3_Compensate q raw_press raw_temp =
     (let t = bmp3_temperature q raw_temp in (q\<lparr>t_lin := t\<rparr>, t, bmp3_pressure q t raw_press))"

section \<open>Measuring\<close>

definition bmp3_ReadError :: "'b Bmp3 \<Rightarrow> 'b \<Rightarrow> DriverStatus \<times> 'b" where
  "bmp3_ReadError dev b =
     (case bmp3_ReadRegs dev BMP390_REG_ERR 1 b of (r, err, b) \<Rightarrow>
      if r \<noteq> DRIVER_STATUS_OK then (r, b)
      else if err ! 0 AND (BMP390_ERR_FATAL OR BMP390_ERR_CMD OR BMP390_ERR_CONF) \<noteq> 0
      then (DRIVER_STATUS_DEVICE_ERROR, b) else (DRIVER_STATUS_OK, b))"

text \<open>Writes in a row, up to the first that fails.\<close>

fun bmp3_write_all :: "'b Bmp3 \<Rightarrow> (u8 \<times> u8) list \<Rightarrow> 'b \<Rightarrow> DriverStatus \<times> 'b" where
  "bmp3_write_all dev [] b = (DRIVER_STATUS_OK, b)"
| "bmp3_write_all dev ((reg, val) # ws) b =
     (case bmp3_WriteReg dev reg val b of (s, b) \<Rightarrow>
      if s \<noteq> DRIVER_STATUS_OK then (s, b) else bmp3_write_all dev ws b)"

definition bmp3_ConfigureRoomProfile :: "'b Bmp3 \<Rightarrow> 'b \<Rightarrow> DriverStatus \<times> 'b" where
  "bmp3_ConfigureRoomProfile dev b =
     bmp3_write_all dev
       [(BMP390_REG_PWR_CTRL, 0x01 OR push_bit 1 0x01 OR push_bit 4 BMP390_MODE_SLEEP),
        (BMP390_REG_OSR, 0x03 OR push_bit 3 0x02),
        (BMP390_REG_ODR, BMP390_ODR_25_HZ),
        (BMP390_REG_CONFIG, push_bit 1 0x02)] b"

definition bmp3_TriggerMeasurement :: "'b Bmp3 \<Rightarrow> 'b \<Rightarrow> DriverStatus \<times> 'b" where
  "bmp3_TriggerMeasurement dev b =
     bmp3_WriteReg dev BMP390_REG_PWR_CTRL ((0x01 OR push_bit 1 0x01) OR push_bit 4 BMP390_MODE_FORCED) b"

definition bmp3_ReadStatus :: "'b Bmp3 \<Rightarrow> 'b \<Rightarrow> DriverStatus \<times> bytes \<times> 'b" where
  "bmp3_ReadStatus dev b = bmp3_ReadRegs dev BMP390_REG_STATUS 1 b"

definition bmp3_finite :: "f64 \<Rightarrow> bool" where
  "bmp3_finite v \<longleftrightarrow> f64_eq v v \<and> f64_less (f64_lit (- 3 * 10 ^ 300)) v \<and> f64_less v (f64_lit (3 * 10 ^ 300))"

definition bmp3_in_range :: "f64 \<Rightarrow> f64 \<Rightarrow> bool" where
  "bmp3_in_range temp press \<longleftrightarrow>
     bmp3_finite press \<and> bmp3_finite temp \<and>
     f64_le BMP390_MIN_PRES_PA press \<and> f64_le press BMP390_MAX_PRES_PA \<and>
     f64_le (f64_lit (-40)) temp \<and> f64_le temp (f64_lit 85)"

definition bmp3_ReadSample :: "'b Bmp3 \<Rightarrow> 'b \<Rightarrow> DriverStatus \<times> Bmp3Sample option \<times> 'b Bmp3 \<times> 'b" where
  "bmp3_ReadSample dev b =
     (if bd_calibrated dev = 0 then (DRIVER_STATUS_NOT_READY, None, dev, b)
      else case bmp3_ReadRegs dev BMP390_REG_DATA BMP390_LEN_P_T_DATA b of (r, d, b) \<Rightarrow>
      if r \<noteq> DRIVER_STATUS_OK then (r, None, dev, b)
      else let raw_p = bmp3_Raw24 d; raw_t = bmp3_Raw24 (drop 3 d) in
      case bmp3_Compensate (bd_quantized dev) (uint raw_p) (uint raw_t) of (q, temp, press) \<Rightarrow>
        (DRIVER_STATUS_OK, Some \<lparr>bm_pressure_pa = f64_to_f32 press, bm_temperature_c = f64_to_f32 temp,
           bm_valid = bmp3_in_range temp press\<rparr>, dev\<lparr>bd_quantized := q\<rparr>, b))"

definition bmp3_SoftReset :: "'b Bmp3 \<Rightarrow> 'b \<Rightarrow> DriverStatus \<times> 'b" where
  "bmp3_SoftReset dev b = bmp3_WriteReg dev BMP390_REG_CMD BMP390_SOFT_RESET_CMD b"

end
