(* ===== verification/Bmp3_Runtime.thy ===== *)
theory Bmp3_Runtime
  imports Bmp3 Sensor_Runtime
begin
text \<open>
  \<open>Drivers/bmp390/Src/bmp390_runtime.c\<close> and \<open>Drivers/bmp380/Src/bmp380_runtime.c\<close>: the
  forced-mode state machine. The two files differ in one place, after a failed look at the
  error register: one of them reconfigures the sensor only when the register reports a fault,
  the other after any failure.
\<close>

record bmp3_model =
  model_chip_id :: u8
  model_reconfigures :: "DriverStatus \<Rightarrow> bool"

definition BMP390 :: bmp3_model where
  "BMP390 = \<lparr>model_chip_id = BMP390_CHIP_ID, model_reconfigures = (\<lambda>s. s = DRIVER_STATUS_DEVICE_ERROR)\<rparr>"

definition BMP380 :: bmp3_model where
  "BMP380 = \<lparr>model_chip_id = BMP380_CHIP_ID, model_reconfigures = (\<lambda>s. True)\<rparr>"

definition BMP390_RUNTIME_POLL_INTERVAL_MS :: u32 where "BMP390_RUNTIME_POLL_INTERVAL_MS = 500"
definition BMP390_RUNTIME_MEASUREMENT_INTERVAL_MS :: u32 where "BMP390_RUNTIME_MEASUREMENT_INTERVAL_MS = 5000"
definition BMP390_RUNTIME_MEASUREMENT_DEADLINE_MS :: u32 where "BMP390_RUNTIME_MEASUREMENT_DEADLINE_MS = 2000"
definition BMP390_RUNTIME_STALE_MS :: u32 where "BMP390_RUNTIME_STALE_MS = 3 * BMP390_RUNTIME_MEASUREMENT_INTERVAL_MS"
definition BMP390_RUNTIME_ERROR_THRESHOLD :: u32 where "BMP390_RUNTIME_ERROR_THRESHOLD = 3"

datatype Bmp3RuntimePhase =
    BMP3_PHASE_IDLE | BMP3_PHASE_CONFIGURING | BMP3_PHASE_MEASURING | BMP3_PHASE_BETWEEN_MEASUREMENTS

record 'b Bmp3Runtime =
  br_state :: DeviceState
  br_phase :: Bmp3RuntimePhase
  br_deadline_ms :: u32
  br_dev :: "'b Bmp3"
  br_last_sample :: Bmp3Sample
  br_operation_successes :: u32
  br_operation_failures :: u32
  br_consecutive_errors :: u32
  br_recovery_count :: u32
  br_last_success_ms :: u32
  br_last_failure_ms :: u32
  br_last_valid_measurement_ms :: u32
  br_consecutive_absent :: u32
  br_next_probe_ms :: u32
  br_last_error_class :: DriverStatus
  br_last_tick_ms :: u32

definition bmp3_DeadlinePassed :: "u32 \<Rightarrow> u32 \<Rightarrow> bool" where
  "bmp3_DeadlinePassed now deadline \<longleftrightarrow> now - deadline < 0x80000000"

definition bmp3_RecordSuccess :: "u32 \<Rightarrow> 'b Bmp3Runtime \<Rightarrow> 'b Bmp3Runtime" where
  "bmp3_RecordSuccess now rt =
     rt\<lparr>br_operation_successes := br_operation_successes rt + 1, br_consecutive_errors := 0,
        br_last_success_ms := now\<rparr>"

definition bmp3_RecordFailure :: "u32 \<Rightarrow> 'b Bmp3Runtime \<Rightarrow> 'b Bmp3Runtime" where
  "bmp3_RecordFailure now rt =
     rt\<lparr>br_operation_failures := br_operation_failures rt + 1,
        br_consecutive_errors := br_consecutive_errors rt + 1, br_last_failure_ms := now\<rparr>"

definition bmp3_EscalateError :: "'b Bmp3Runtime \<Rightarrow> 'b Bmp3Runtime" where
  "bmp3_EscalateError rt =
     rt\<lparr>br_last_sample := (br_last_sample rt)\<lparr>bm_valid := False\<rparr>, br_state := DEVICE_STATE_ERROR\<rparr>"

text \<open>A failure with its class; whether the threshold is reached is asked afterwards.\<close>

definition bmp3_failed :: "u32 \<Rightarrow> DriverStatus \<Rightarrow> 'b Bmp3Runtime \<Rightarrow> 'b Bmp3Runtime" where
  "bmp3_failed now s rt = bmp3_RecordFailure now (rt\<lparr>br_last_error_class := s\<rparr>)"

definition bmp3_exhausted :: "'b Bmp3Runtime \<Rightarrow> bool" where
  "bmp3_exhausted rt \<longleftrightarrow> br_consecutive_errors rt \<ge> BMP390_RUNTIME_ERROR_THRESHOLD"

definition zero_bmp3 :: "'b Bmp3Runtime" where
  "zero_bmp3 =
     \<lparr>br_state = DEVICE_STATE_UNKNOWN, br_phase = BMP3_PHASE_IDLE, br_deadline_ms = 0,
      br_dev = \<lparr>bd_bus = None, bd_address = 0, bd_initialized = 0, bd_quantized = zero_bmp3_calib, bd_calibrated = 0\<rparr>,
      br_last_sample = \<lparr>bm_pressure_pa = F32 False 0, bm_temperature_c = F32 False 0, bm_valid = False\<rparr>,
      br_operation_successes = 0, br_operation_failures = 0, br_consecutive_errors = 0,
      br_recovery_count = 0, br_last_success_ms = 0, br_last_failure_ms = 0,
      br_last_valid_measurement_ms = 0, br_consecutive_absent = 0, br_next_probe_ms = 0,
      br_last_error_class = DRIVER_STATUS_OK, br_last_tick_ms = 0\<rparr>"

definition bmp3_runtime_Init :: "u32 \<Rightarrow> 'b I2cBus option \<Rightarrow> 'b Bmp3Runtime" where
  "bmp3_runtime_Init now bus =
     (let rt = zero_bmp3\<lparr>br_state := DEVICE_STATE_NOT_FOUND, br_last_tick_ms := now\<rparr> in
      if bus \<noteq> None then rt\<lparr>br_dev := snd (bmp3_Init (br_dev rt) bus)\<rparr> else rt)"

definition bmp3_HasValidSample :: "'b Bmp3Runtime \<Rightarrow> bool" where
  "bmp3_HasValidSample rt \<longleftrightarrow> bm_valid (br_last_sample rt)"

definition bmp3_IsMissing :: "'b Bmp3Runtime \<Rightarrow> bool" where
  "bmp3_IsMissing rt \<longleftrightarrow> br_state rt = DEVICE_STATE_NOT_FOUND"

definition bmp3_InvalidateSample :: "'b Bmp3Runtime \<Rightarrow> 'b Bmp3Runtime" where
  "bmp3_InvalidateSample rt = rt\<lparr>br_last_sample := (br_last_sample rt)\<lparr>bm_valid := False\<rparr>\<rparr>"

definition bmp3_EnforceFreshness :: "u32 \<Rightarrow> 'b Bmp3Runtime \<Rightarrow> 'b Bmp3Runtime" where
  "bmp3_EnforceFreshness now rt =
     (if bm_valid (br_last_sample rt) = False then rt
      else if now - br_last_valid_measurement_ms rt \<ge> BMP390_RUNTIME_STALE_MS
      then rt\<lparr>br_last_sample := (br_last_sample rt)\<lparr>bm_valid := False\<rparr>\<rparr> else rt)"

definition bmp3_ProbeDue :: "'b Bmp3Runtime \<Rightarrow> u32 \<Rightarrow> bool" where
  "bmp3_ProbeDue rt now = probe_due (br_consecutive_absent rt) (br_next_probe_ms rt) now"

definition bmp3_LastError :: "'b Bmp3Runtime \<Rightarrow> DriverStatus" where
  "bmp3_LastError rt = br_last_error_class rt"

definition bmp3_ReTriggerMeasurement :: "u32 \<Rightarrow> 'b Bmp3Runtime \<Rightarrow> 'b \<Rightarrow> 'b Bmp3Runtime \<times> 'b" where
  "bmp3_ReTriggerMeasurement now rt b =
     (case bmp3_TriggerMeasurement (br_dev rt) b of (ts, b) \<Rightarrow>
      if ts \<noteq> DRIVER_STATUS_OK
      then let rt = bmp3_failed now ts rt in
        (if bmp3_exhausted rt then bmp3_EscalateError (rt\<lparr>br_phase := BMP3_PHASE_IDLE\<rparr>)
         else rt\<lparr>br_phase := BMP3_PHASE_MEASURING, br_state := DEVICE_STATE_STARTING\<rparr>, b)
      else (rt\<lparr>br_deadline_ms := now + BMP390_RUNTIME_MEASUREMENT_DEADLINE_MS,
               br_phase := BMP3_PHASE_MEASURING, br_state := DEVICE_STATE_STARTING\<rparr>, b))"

section \<open>Starting\<close>

text \<open>A failed command after the identity is known: counted, and ERROR at the threshold.\<close>

definition bmp3_start_failed ::
  "u32 \<Rightarrow> DriverStatus \<Rightarrow> 'b Bmp3Runtime \<Rightarrow> 'b \<Rightarrow> DriverStatus \<times> 'b Bmp3Runtime \<times> 'b" where
  "bmp3_start_failed now s rt b =
     (let rt = bmp3_failed now s rt in
      (s, if bmp3_exhausted rt then rt\<lparr>br_state := DEVICE_STATE_ERROR\<rparr> else rt, b))"

definition bmp3_configure_and_trigger ::
  "u32 \<Rightarrow> 'b Bmp3Runtime \<Rightarrow> 'b \<Rightarrow> DriverStatus \<times> 'b Bmp3Runtime \<times> 'b" where
  "bmp3_configure_and_trigger now rt b =
     (case bmp3_ConfigureRoomProfile (br_dev rt) b of (s, b) \<Rightarrow>
      if s \<noteq> DRIVER_STATUS_OK then bmp3_start_failed now s rt b
      else case bmp3_TriggerMeasurement (br_dev rt) b of (s, b) \<Rightarrow>
      if s \<noteq> DRIVER_STATUS_OK then bmp3_start_failed now s rt b
      else (DRIVER_STATUS_OK, rt\<lparr>br_deadline_ms := now + BMP390_RUNTIME_MEASUREMENT_DEADLINE_MS,
              br_phase := BMP3_PHASE_MEASURING, br_state := DEVICE_STATE_STARTING\<rparr>, b))"

definition bmp3_Start :: "bmp3_model \<Rightarrow> u32 \<Rightarrow> 'b Bmp3Runtime \<Rightarrow> 'b \<Rightarrow> DriverStatus \<times> 'b Bmp3Runtime \<times> 'b" where
  "bmp3_Start model now rt b =
     (if probe_held (br_consecutive_absent rt) (br_next_probe_ms rt) now
      then (DRIVER_STATUS_NOT_FOUND, rt\<lparr>br_state := DEVICE_STATE_NOT_FOUND\<rparr>, b)
      else case bmp3_Detect (model_chip_id model) (br_dev rt) b of (s, dev, b) \<Rightarrow>
      let rt = rt\<lparr>br_dev := dev\<rparr> in
      if s \<noteq> DRIVER_STATUS_OK
      then let k = RecoveryPolicy_TrackAbsence (br_consecutive_absent rt) True in
        (s, rt\<lparr>br_state := DEVICE_STATE_NOT_FOUND, br_last_error_class := s, br_consecutive_absent := k,
               br_next_probe_ms := now + RecoveryPolicy_BackoffMs k\<rparr>, b)
      else let rt = rt\<lparr>br_consecutive_absent := 0, br_last_error_class := DRIVER_STATUS_OK\<rparr> in
      if bd_calibrated (br_dev rt) = 0
      then (case bmp3_InitCalibration (br_dev rt) b of (s, dev, b) \<Rightarrow>
        let rt = rt\<lparr>br_dev := dev\<rparr> in
        if s \<noteq> DRIVER_STATUS_OK then (s, rt\<lparr>br_last_error_class := s\<rparr>, b)
        else bmp3_configure_and_trigger now rt b)
      else bmp3_configure_and_trigger now rt b)"

definition bmp3_Recover :: "'b Bmp3Runtime \<Rightarrow> 'b Bmp3Runtime" where
  "bmp3_Recover rt =
     rt\<lparr>br_recovery_count := br_recovery_count rt + 1, br_consecutive_errors := 0,
        br_last_sample := (br_last_sample rt)\<lparr>bm_valid := False\<rparr>, br_phase := BMP3_PHASE_IDLE,
        br_state := DEVICE_STATE_RECOVERING\<rparr>"

section \<open>Polling\<close>

text \<open>A failed status or error register: counted, and the wait begins again.\<close>

definition bmp3_register_failed :: "u32 \<Rightarrow> DriverStatus \<Rightarrow> 'b Bmp3Runtime \<Rightarrow> 'b Bmp3Runtime" where
  "bmp3_register_failed now s rt =
     (let rt = bmp3_failed now s rt; rt = (if bmp3_exhausted rt then bmp3_EscalateError rt else rt)
      in rt\<lparr>br_phase := BMP3_PHASE_MEASURING, br_deadline_ms := now + BMP390_RUNTIME_MEASUREMENT_DEADLINE_MS\<rparr>)"

text \<open>A failed or implausible sample: counted, and a fresh measurement is triggered.\<close>

definition bmp3_sample_failed :: "u32 \<Rightarrow> DriverStatus \<Rightarrow> 'b Bmp3Runtime \<Rightarrow> 'b \<Rightarrow> 'b Bmp3Runtime \<times> 'b" where
  "bmp3_sample_failed now s rt b =
     (let rt = bmp3_failed now s rt in
      if bmp3_exhausted rt then (bmp3_EscalateError (rt\<lparr>br_phase := BMP3_PHASE_IDLE\<rparr>), b)
      else bmp3_ReTriggerMeasurement now rt b)"

definition bmp3_sample :: "u32 \<Rightarrow> 'b Bmp3Runtime \<Rightarrow> 'b \<Rightarrow> 'b Bmp3Runtime \<times> 'b" where
  "bmp3_sample now rt b =
     (case bmp3_ReadSample (br_dev rt) b of (rr, sample, dev, b) \<Rightarrow>
      let rt = rt\<lparr>br_dev := dev\<rparr> in
      if rr \<noteq> DRIVER_STATUS_OK then bmp3_sample_failed now rr rt b
      else case sample of
        Some m \<Rightarrow> (if bm_valid m = False then bmp3_sample_failed now DRIVER_STATUS_CRC_ERROR rt b
          else (bmp3_RecordSuccess now (rt\<lparr>br_last_sample := m, br_last_valid_measurement_ms := now,
                  br_state := DEVICE_STATE_READY, br_phase := BMP3_PHASE_BETWEEN_MEASUREMENTS,
                  br_last_error_class := DRIVER_STATUS_OK\<rparr>), b))
      | None \<Rightarrow> (rt, b))"

definition bmp3_measuring :: "bmp3_model \<Rightarrow> u32 \<Rightarrow> 'b Bmp3Runtime \<Rightarrow> 'b \<Rightarrow> 'b Bmp3Runtime \<times> 'b" where
  "bmp3_measuring model now rt b =
     (if bmp3_DeadlinePassed now (br_deadline_ms rt) = False then (rt, b)
      else case bmp3_ReadStatus (br_dev rt) b of (rs, status, b) \<Rightarrow>
      if rs \<noteq> DRIVER_STATUS_OK then (bmp3_register_failed now rs rt, b)
      else if status ! 0 AND (BMP390_STATUS_DRDY_PRESS OR BMP390_STATUS_DRDY_TEMP)
              \<noteq> (BMP390_STATUS_DRDY_PRESS OR BMP390_STATUS_DRDY_TEMP)
      then (rt\<lparr>br_deadline_ms := now + BMP390_RUNTIME_MEASUREMENT_DEADLINE_MS\<rparr>, b)
      else case bmp3_ReadError (br_dev rt) b of (er, b) \<Rightarrow>
      if er \<noteq> DRIVER_STATUS_OK
      then (bmp3_register_failed now er rt,
            if model_reconfigures model er then snd (bmp3_ConfigureRoomProfile (br_dev rt) b) else b)
      else bmp3_sample now rt b)"

definition bmp3_between :: "u32 \<Rightarrow> 'b Bmp3Runtime \<Rightarrow> 'b \<Rightarrow> 'b Bmp3Runtime \<times> 'b" where
  "bmp3_between now rt b =
     (if now - br_last_valid_measurement_ms rt < BMP390_RUNTIME_MEASUREMENT_INTERVAL_MS then (rt, b)
      else case bmp3_TriggerMeasurement (br_dev rt) b of (ms, b) \<Rightarrow>
      if ms \<noteq> DRIVER_STATUS_OK
      then let rt = bmp3_failed now ms rt in (if bmp3_exhausted rt then bmp3_EscalateError rt else rt, b)
      else (rt\<lparr>br_deadline_ms := now + BMP390_RUNTIME_MEASUREMENT_DEADLINE_MS,
               br_phase := BMP3_PHASE_MEASURING, br_state := DEVICE_STATE_STARTING\<rparr>, b))"

definition bmp3_Poll :: "bmp3_model \<Rightarrow> u32 \<Rightarrow> 'b Bmp3Runtime \<Rightarrow> 'b \<Rightarrow> 'b Bmp3Runtime \<times> 'b" where
  "bmp3_Poll model now rt b =
     (let rt = rt\<lparr>br_last_tick_ms := now\<rparr> in
      if br_state rt = DEVICE_STATE_NOT_FOUND \<or> br_state rt = DEVICE_STATE_ERROR \<or>
         br_state rt = DEVICE_STATE_RECOVERING then (rt, b)
      else let rt = bmp3_EnforceFreshness now rt in
      if bmp3_exhausted rt then (bmp3_EscalateError (rt\<lparr>br_phase := BMP3_PHASE_IDLE\<rparr>), b)
      else if br_state rt = DEVICE_STATE_STARTING \<and> br_phase rt = BMP3_PHASE_MEASURING
      then bmp3_measuring model now rt b
      else if br_state rt = DEVICE_STATE_READY \<and> br_phase rt = BMP3_PHASE_BETWEEN_MEASUREMENTS
      then bmp3_between now rt b
      else (rt, b))"

definition bmp3_GetDiagnostics :: "'b Bmp3Runtime \<Rightarrow> DeviceRuntime" where
  "bmp3_GetDiagnostics rt =
     \<lparr>dr_state = br_state rt, dr_init_attempts = 0, dr_init_failures = 0,
      dr_operation_successes = br_operation_successes rt, dr_operation_failures = br_operation_failures rt,
      dr_recovery_count = br_recovery_count rt, dr_consecutive_errors = br_consecutive_errors rt,
      dr_last_success_ms = br_last_success_ms rt, dr_last_failure_ms = br_last_failure_ms rt\<rparr>"

section \<open>The interface of the application\<close>

definition bmp3_held :: "'b Bmp3Runtime \<Rightarrow> u32 \<Rightarrow> bool" where
  "bmp3_held rt = probe_held (br_consecutive_absent rt) (br_next_probe_ms rt)"

text \<open>A valid sample belongs to a running sensor and is fresh at the tick.\<close>

definition bmp3_fresh :: "u32 \<Rightarrow> 'b Bmp3Runtime \<Rightarrow> bool" where
  "bmp3_fresh now rt \<longleftrightarrow> (bmp3_HasValidSample rt \<longrightarrow>
     \<not> sensor_resting (br_state rt) \<and> now - br_last_valid_measurement_ms rt < BMP390_RUNTIME_STALE_MS)"

lemmas bmp3_fresh_simps =
  bmp3_fresh_def bmp3_HasValidSample_def sensor_resting_def Let_def bmp3_failed_def bmp3_exhausted_def
  bmp3_RecordFailure_def bmp3_EscalateError_def bmp3_RecordSuccess_def

lemma bmp3_register_failed_fresh: "bmp3_fresh now rt \<Longrightarrow> bmp3_fresh now (bmp3_register_failed now s rt)"
  by (auto simp: bmp3_register_failed_def bmp3_fresh_simps)

lemma bmp3_sample_failed_fresh:
  "bmp3_fresh now rt \<Longrightarrow> bmp3_sample_failed now s rt b = (rt', b') \<Longrightarrow> bmp3_fresh now rt'"
  by (auto simp: bmp3_sample_failed_def bmp3_ReTriggerMeasurement_def bmp3_fresh_simps
      split: prod.splits if_splits)

lemma bmp3_fresh_dev: "bmp3_fresh now (rt\<lparr>br_dev := d\<rparr>) = bmp3_fresh now rt"
  by (simp add: bmp3_fresh_simps)

lemma bmp3_taken_fresh:
  "bmp3_fresh now (bmp3_RecordSuccess now (rt\<lparr>br_last_sample := m, br_last_valid_measurement_ms := now,
     br_state := DEVICE_STATE_READY, br_phase := BMP3_PHASE_BETWEEN_MEASUREMENTS,
     br_last_error_class := DRIVER_STATUS_OK\<rparr>))"
  by (simp add: bmp3_fresh_simps BMP390_RUNTIME_STALE_MS_def BMP390_RUNTIME_MEASUREMENT_INTERVAL_MS_def)

lemma bmp3_sample_fresh: "bmp3_fresh now rt \<Longrightarrow> bmp3_sample now rt b = (rt', b') \<Longrightarrow> bmp3_fresh now rt'"
  unfolding bmp3_sample_def Let_def
  by (auto split: prod.splits if_splits option.splits simp: bmp3_fresh_dev bmp3_taken_fresh
      dest: bmp3_sample_failed_fresh [rotated])

lemma bmp3_measuring_fresh:
  "bmp3_fresh now rt \<Longrightarrow> bmp3_measuring model now rt b = (rt', b') \<Longrightarrow> bmp3_fresh now rt'"
  unfolding bmp3_measuring_def
  by (auto split: prod.splits if_splits simp: bmp3_register_failed_fresh dest: bmp3_sample_fresh [rotated])
    (simp add: bmp3_fresh_simps)

lemma bmp3_between_fresh: "bmp3_fresh now rt \<Longrightarrow> bmp3_between now rt b = (rt', b') \<Longrightarrow> bmp3_fresh now rt'"
  by (auto simp: bmp3_between_def bmp3_fresh_simps split: prod.splits if_splits)

lemma bmp3_enforce_fresh:
  "\<not> sensor_resting (br_state rt) \<Longrightarrow> bmp3_fresh now (bmp3_EnforceFreshness now rt)"
  by (simp add: bmp3_EnforceFreshness_def bmp3_fresh_simps not_le)

lemma bmp3_poll_fresh:
  assumes "\<not> sensor_resting (br_state rt)" "bmp3_Poll model now rt b = (rt', b')"
  shows "bmp3_fresh now rt'"
proof -
  let ?e = "bmp3_EnforceFreshness now (rt\<lparr>br_last_tick_ms := now\<rparr>)"
  have f: "bmp3_fresh now ?e"
    using assms(1) by (intro bmp3_enforce_fresh) simp
  have g: "bmp3_fresh now (bmp3_EscalateError (?e\<lparr>br_phase := BMP3_PHASE_IDLE\<rparr>))"
    by (simp add: bmp3_fresh_simps)
  show ?thesis
    using assms f g unfolding bmp3_Poll_def Let_def sensor_resting_def
    by (auto split: if_splits elim: bmp3_measuring_fresh [rotated] bmp3_between_fresh [rotated])
qed

lemma bmp3_configure_sample:
  "bmp3_configure_and_trigger now rt b = (s, rt', b') \<Longrightarrow> br_last_sample rt' = br_last_sample rt"
  by (auto simp: bmp3_configure_and_trigger_def bmp3_start_failed_def bmp3_fresh_simps
      split: prod.splits if_splits)

lemma bmp3_start_valid:
  "bmp3_Start model now rt b = (s, rt', b') \<Longrightarrow> bmp3_HasValidSample rt' \<Longrightarrow> bmp3_HasValidSample rt"
  by (auto simp: bmp3_Start_def Let_def bmp3_HasValidSample_def split: prod.splits if_splits
      dest!: bmp3_configure_sample)

lemma bmp3_interface:
  "sensor_runtime br_state bmp3_HasValidSample br_last_valid_measurement_ms BMP390_RUNTIME_STALE_MS
     bmp3_held (bmp3_Poll model) (bmp3_Start model) bmp3_Recover"
proof
  show "\<not> sensor_resting (br_state rt) \<Longrightarrow> bmp3_Poll model now rt b = (rt', b') \<Longrightarrow>
      bmp3_HasValidSample rt' \<Longrightarrow>
      \<not> sensor_resting (br_state rt') \<and> now - br_last_valid_measurement_ms rt' < BMP390_RUNTIME_STALE_MS"
    for rt :: "'a Bmp3Runtime" and now b rt' b'
    using bmp3_poll_fresh [of rt model now b rt' b'] by (simp add: bmp3_fresh_def)
next
  show "bmp3_Start model now rt b = (s, rt', b') \<Longrightarrow> bmp3_HasValidSample rt' \<Longrightarrow> bmp3_HasValidSample rt"
    for rt :: "'a Bmp3Runtime" and now b s rt' b'
    by (rule bmp3_start_valid)
qed (auto simp: sensor_resting_def bmp3_Poll_def bmp3_Start_def bmp3_Recover_def bmp3_HasValidSample_def
      bmp3_held_def)

interpretation bmp390: sensor_runtime br_state bmp3_HasValidSample br_last_valid_measurement_ms
  BMP390_RUNTIME_STALE_MS bmp3_held "bmp3_Poll BMP390" "bmp3_Start BMP390" bmp3_Recover
  by (rule bmp3_interface)

section \<open>The BMP380\<close>

text \<open>
  \<open>Drivers/bmp380/Src/bmp380.c\<close> and \<open>bmp380_runtime.c\<close>. The files repeat those of the other
  pressure sensor function by function, with the chip identifier 0x50 and another reaction to a
  failed look at the error register; each function is the instance of the shared definition.
\<close>

section \<open>Driver\<close>

definition BMP380_ReadRegs :: "'b Bmp3 \<Rightarrow> u8 \<Rightarrow> nat \<Rightarrow> 'b \<Rightarrow> DriverStatus \<times> bytes \<times> 'b" where
  "BMP380_ReadRegs = bmp3_ReadRegs"

definition BMP380_WriteReg :: "'b Bmp3 \<Rightarrow> u8 \<Rightarrow> u8 \<Rightarrow> 'b \<Rightarrow> DriverStatus \<times> 'b" where
  "BMP380_WriteReg = bmp3_WriteReg"

definition BMP380_Init :: "'b Bmp3 \<Rightarrow> 'b I2cBus option \<Rightarrow> DriverStatus \<times> 'b Bmp3" where
  "BMP380_Init = bmp3_Init"

definition BMP380_Detect :: "'b Bmp3 \<Rightarrow> 'b \<Rightarrow> DriverStatus \<times> 'b Bmp3 \<times> 'b" where
  "BMP380_Detect = bmp3_Detect BMP380_CHIP_ID"

definition BMP380_ReadChipId :: "'b Bmp3 \<Rightarrow> 'b \<Rightarrow> DriverStatus \<times> bytes \<times> 'b" where
  "BMP380_ReadChipId = bmp3_ReadChipId"

definition BMP380_ParseCalibration :: "bytes \<Rightarrow> Bmp3Calib" where
  "BMP380_ParseCalibration = bmp3_ParseCalibration"

definition BMP380_InitCalibration :: "'b Bmp3 \<Rightarrow> 'b \<Rightarrow> DriverStatus \<times> 'b Bmp3 \<times> 'b" where
  "BMP380_InitCalibration = bmp3_InitCalibration"

definition BMP380_ReadError :: "'b Bmp3 \<Rightarrow> 'b \<Rightarrow> DriverStatus \<times> 'b" where
  "BMP380_ReadError = bmp3_ReadError"

definition BMP380_ConfigureRoomProfile :: "'b Bmp3 \<Rightarrow> 'b \<Rightarrow> DriverStatus \<times> 'b" where
  "BMP380_ConfigureRoomProfile = bmp3_ConfigureRoomProfile"

definition BMP380_TriggerMeasurement :: "'b Bmp3 \<Rightarrow> 'b \<Rightarrow> DriverStatus \<times> 'b" where
  "BMP380_TriggerMeasurement = bmp3_TriggerMeasurement"

definition BMP380_ReadStatus :: "'b Bmp3 \<Rightarrow> 'b \<Rightarrow> DriverStatus \<times> bytes \<times> 'b" where
  "BMP380_ReadStatus = bmp3_ReadStatus"

definition BMP380_Raw24 :: "bytes \<Rightarrow> u32" where
  "BMP380_Raw24 = bmp3_Raw24"

definition BMP380_Compensate :: "Bmp3Calib \<Rightarrow> int \<Rightarrow> int \<Rightarrow> Bmp3Calib \<times> f64 \<times> f64" where
  "BMP380_Compensate = bmp3_Compensate"

definition BMP380_ReadSample :: "'b Bmp3 \<Rightarrow> 'b \<Rightarrow> DriverStatus \<times> Bmp3Sample option \<times> 'b Bmp3 \<times> 'b" where
  "BMP380_ReadSample = bmp3_ReadSample"

definition BMP380_SoftReset :: "'b Bmp3 \<Rightarrow> 'b \<Rightarrow> DriverStatus \<times> 'b" where
  "BMP380_SoftReset = bmp3_SoftReset"

section \<open>Runtime\<close>

definition Bmp380Runtime_Init :: "u32 \<Rightarrow> 'b I2cBus option \<Rightarrow> 'b Bmp3Runtime" where
  "Bmp380Runtime_Init = bmp3_runtime_Init"

definition Bmp380Runtime_HasValidSample :: "'b Bmp3Runtime \<Rightarrow> bool" where
  "Bmp380Runtime_HasValidSample = bmp3_HasValidSample"

definition Bmp380Runtime_IsMissing :: "'b Bmp3Runtime \<Rightarrow> bool" where
  "Bmp380Runtime_IsMissing = bmp3_IsMissing"

definition Bmp380Runtime_InvalidateSample :: "'b Bmp3Runtime \<Rightarrow> 'b Bmp3Runtime" where
  "Bmp380Runtime_InvalidateSample = bmp3_InvalidateSample"

definition Bmp380Runtime_EnforceFreshness :: "u32 \<Rightarrow> 'b Bmp3Runtime \<Rightarrow> 'b Bmp3Runtime" where
  "Bmp380Runtime_EnforceFreshness = bmp3_EnforceFreshness"

definition Bmp380Runtime_ProbeDue :: "'b Bmp3Runtime \<Rightarrow> u32 \<Rightarrow> bool" where
  "Bmp380Runtime_ProbeDue = bmp3_ProbeDue"

definition Bmp380Runtime_ReTriggerMeasurement :: "u32 \<Rightarrow> 'b Bmp3Runtime \<Rightarrow> 'b \<Rightarrow> 'b Bmp3Runtime \<times> 'b" where
  "Bmp380Runtime_ReTriggerMeasurement = bmp3_ReTriggerMeasurement"

definition Bmp380Runtime_LastError :: "'b Bmp3Runtime \<Rightarrow> DriverStatus" where
  "Bmp380Runtime_LastError = bmp3_LastError"

definition Bmp380Runtime_Start :: "u32 \<Rightarrow> 'b Bmp3Runtime \<Rightarrow> 'b \<Rightarrow> DriverStatus \<times> 'b Bmp3Runtime \<times> 'b" where
  "Bmp380Runtime_Start = bmp3_Start BMP380"

definition Bmp380Runtime_Recover :: "'b Bmp3Runtime \<Rightarrow> 'b Bmp3Runtime" where
  "Bmp380Runtime_Recover = bmp3_Recover"

definition Bmp380Runtime_Poll :: "u32 \<Rightarrow> 'b Bmp3Runtime \<Rightarrow> 'b \<Rightarrow> 'b Bmp3Runtime \<times> 'b" where
  "Bmp380Runtime_Poll = bmp3_Poll BMP380"

definition Bmp380Runtime_GetDiagnostics :: "'b Bmp3Runtime \<Rightarrow> DeviceRuntime" where
  "Bmp380Runtime_GetDiagnostics = bmp3_GetDiagnostics"

interpretation bmp380: sensor_runtime br_state Bmp380Runtime_HasValidSample br_last_valid_measurement_ms
  BMP390_RUNTIME_STALE_MS bmp3_held Bmp380Runtime_Poll Bmp380Runtime_Start Bmp380Runtime_Recover
  unfolding Bmp380Runtime_HasValidSample_def Bmp380Runtime_Poll_def Bmp380Runtime_Start_def
    Bmp380Runtime_Recover_def
  by (rule bmp3_interface)

end
