(* ===== verification/Veml7700.thy ===== *)
theory Veml7700
  imports I2c_Bus Float32
begin

text \<open>
  \<open>Drivers/veml7700/Src/veml7700.c\<close>: the light sensor with its ten ranges, the wait after a
  change of range and the hysteresis of the automatic choice.
\<close>

section \<open>Types and ranges\<close>

definition VEML7700_I2C_ADDR :: u16 where "VEML7700_I2C_ADDR = push_bit 1 0x10"
definition VEML7700_REG_ALS_CONF :: u8 where "VEML7700_REG_ALS_CONF = 0x00"
definition VEML7700_REG_ALS :: u8 where "VEML7700_REG_ALS = 0x04"
definition VEML7700_GAIN_BITS_POS :: nat where "VEML7700_GAIN_BITS_POS = 11"
definition VEML7700_IT_BITS_POS :: nat where "VEML7700_IT_BITS_POS = 6"
definition VEML7700_PERS_BITS_POS :: nat where "VEML7700_PERS_BITS_POS = 4"
definition VEML7700_RANGE_COUNT :: nat where "VEML7700_RANGE_COUNT = 10"
definition VEML7700_RANGE_CONVERGE :: u8 where "VEML7700_RANGE_CONVERGE = 3"
definition VEML7700_RANGE_LOW :: u16 where "VEML7700_RANGE_LOW = 80"
definition VEML7700_RANGE_HIGH :: u16 where "VEML7700_RANGE_HIGH = 12000"
definition VEML7700_RANGE_SATURATION :: u16 where "VEML7700_RANGE_SATURATION = 64000"

datatype VEML7700_Gain = VEML7700_GAIN_1 | VEML7700_GAIN_2 | VEML7700_GAIN_1_8 | VEML7700_GAIN_1_4

fun gain_code :: "VEML7700_Gain \<Rightarrow> u16" where
  "gain_code VEML7700_GAIN_1 = 0"
| "gain_code VEML7700_GAIN_2 = 1"
| "gain_code VEML7700_GAIN_1_8 = 2"
| "gain_code VEML7700_GAIN_1_4 = 3"

datatype VEML7700_IntegrationTime =
    VEML7700_IT_25_MS | VEML7700_IT_50_MS | VEML7700_IT_100_MS | VEML7700_IT_200_MS
  | VEML7700_IT_400_MS | VEML7700_IT_800_MS

fun it_code :: "VEML7700_IntegrationTime \<Rightarrow> u16" where
  "it_code VEML7700_IT_25_MS = 0xC"
| "it_code VEML7700_IT_50_MS = 0x8"
| "it_code VEML7700_IT_100_MS = 0x0"
| "it_code VEML7700_IT_200_MS = 0x1"
| "it_code VEML7700_IT_400_MS = 0x2"
| "it_code VEML7700_IT_800_MS = 0x3"

datatype VEML7700_Persistence = VEML7700_PERS_1 | VEML7700_PERS_2 | VEML7700_PERS_4 | VEML7700_PERS_8

fun pers_code :: "VEML7700_Persistence \<Rightarrow> u16" where
  "pers_code VEML7700_PERS_1 = 0"
| "pers_code VEML7700_PERS_2 = 1"
| "pers_code VEML7700_PERS_4 = 2"
| "pers_code VEML7700_PERS_8 = 3"

datatype VEML7700_RangeState = VEML7700_RANGE_STABLE | VEML7700_RANGE_SETTLING

datatype VEML7700_AdjustDirection = VEML7700_ADJUST_NONE | VEML7700_ADJUST_MORE | VEML7700_ADJUST_LESS

record RangeEntry =
  range_gain :: VEML7700_Gain
  range_it :: VEML7700_IntegrationTime
  range_sensitivity :: f32
  range_resolution :: f32

definition range_entry :: "VEML7700_Gain \<Rightarrow> VEML7700_IntegrationTime \<Rightarrow> rat \<Rightarrow> rat \<Rightarrow> RangeEntry" where
  "range_entry g it s r =
     \<lparr>range_gain = g, range_it = it, range_sensitivity = f32_lit s, range_resolution = f32_lit r\<rparr>"

definition s_ranges :: "RangeEntry list" where
  "s_ranges =
     [range_entry VEML7700_GAIN_1_8 VEML7700_IT_25_MS (3125 / 1000) (1843200 / 10 ^ 6),
      range_entry VEML7700_GAIN_1_8 VEML7700_IT_50_MS (625 / 100) (921600 / 10 ^ 6),
      range_entry VEML7700_GAIN_1_4 VEML7700_IT_50_MS (125 / 10) (460800 / 10 ^ 6),
      range_entry VEML7700_GAIN_1 VEML7700_IT_25_MS 25 (230400 / 10 ^ 6),
      range_entry VEML7700_GAIN_1 VEML7700_IT_50_MS 50 (115200 / 10 ^ 6),
      range_entry VEML7700_GAIN_1 VEML7700_IT_100_MS 100 (57600 / 10 ^ 6),
      range_entry VEML7700_GAIN_1 VEML7700_IT_200_MS 200 (28800 / 10 ^ 6),
      range_entry VEML7700_GAIN_2 VEML7700_IT_200_MS 400 (14400 / 10 ^ 6),
      range_entry VEML7700_GAIN_2 VEML7700_IT_400_MS 800 (7200 / 10 ^ 6),
      range_entry VEML7700_GAIN_2 VEML7700_IT_800_MS 1600 (3600 / 10 ^ 6)]"

record VEML7700_Sample =
  vs_als_raw :: u16
  vs_lux :: f32
  vs_gain :: VEML7700_Gain
  vs_integration_time :: VEML7700_IntegrationTime
  vs_resolution :: f32
  vs_valid :: bool
  vs_range_changed :: bool
  vs_saturated :: bool
  vs_settling :: bool

record VEML7700_DriverStats =
  vc_read_success :: u32
  vc_read_error :: u32
  vc_config_error :: u32

record 'b VEML7700 =
  vd_bus :: "'b I2cBus option"
  vd_initialized :: u8
  vd_gain :: VEML7700_Gain
  vd_integration_time :: VEML7700_IntegrationTime
  vd_persistence :: VEML7700_Persistence
  vd_als_conf_value :: u16
  vd_resolution :: f32
  vd_range_index :: nat
  vd_range_state :: VEML7700_RangeState
  vd_pending_adjust :: VEML7700_AdjustDirection
  vd_range_consecutive :: u8
  vd_settle_start_ms :: u32
  vd_settle_duration_ms :: u32
  vd_last_valid :: VEML7700_Sample
  vd_last_attempt :: VEML7700_Sample
  vd_counters :: VEML7700_DriverStats

text \<open>Zeroed memory: the enumerations read as their members of value zero.\<close>

definition zero_veml_sample :: VEML7700_Sample where
  "zero_veml_sample =
     \<lparr>vs_als_raw = 0, vs_lux = F32 False 0, vs_gain = VEML7700_GAIN_1,
      vs_integration_time = VEML7700_IT_100_MS, vs_resolution = F32 False 0, vs_valid = False,
      vs_range_changed = False, vs_saturated = False, vs_settling = False\<rparr>"

definition zero_veml :: "'b VEML7700" where
  "zero_veml =
     \<lparr>vd_bus = None, vd_initialized = 0, vd_gain = VEML7700_GAIN_1,
      vd_integration_time = VEML7700_IT_100_MS, vd_persistence = VEML7700_PERS_1,
      vd_als_conf_value = 0, vd_resolution = F32 False 0, vd_range_index = 0,
      vd_range_state = VEML7700_RANGE_STABLE, vd_pending_adjust = VEML7700_ADJUST_NONE,
      vd_range_consecutive = 0, vd_settle_start_ms = 0, vd_settle_duration_ms = 0,
      vd_last_valid = zero_veml_sample, vd_last_attempt = zero_veml_sample,
      vd_counters = \<lparr>vc_read_success = 0, vc_read_error = 0, vc_config_error = 0\<rparr>\<rparr>"

section \<open>Setting a range\<close>

definition VEML7700_ALS_CONF_MASK :: u16 where
  "VEML7700_ALS_CONF_MASK =
     push_bit 11 3 OR push_bit 6 0xF OR push_bit 4 3 OR push_bit 1 1 OR 1"

fun VEML7700_ItMs :: "VEML7700_IntegrationTime \<Rightarrow> f32" where
  "VEML7700_ItMs VEML7700_IT_25_MS = f32_of_int 25"
| "VEML7700_ItMs VEML7700_IT_50_MS = f32_of_int 50"
| "VEML7700_ItMs VEML7700_IT_100_MS = f32_of_int 100"
| "VEML7700_ItMs VEML7700_IT_200_MS = f32_of_int 200"
| "VEML7700_ItMs VEML7700_IT_400_MS = f32_of_int 400"
| "VEML7700_ItMs VEML7700_IT_800_MS = f32_of_int 800"

definition VEML7700_BuildConf :: "VEML7700_Gain \<Rightarrow> VEML7700_IntegrationTime \<Rightarrow> VEML7700_Persistence \<Rightarrow> u16" where
  "VEML7700_BuildConf g it p =
     push_bit VEML7700_GAIN_BITS_POS (gain_code g) OR push_bit VEML7700_IT_BITS_POS (it_code it)
     OR push_bit VEML7700_PERS_BITS_POS (pers_code p)"

definition le16 :: "bytes \<Rightarrow> u16" where
  "le16 rx = push_bit 8 (ucast (rx ! 1)) OR ucast (rx ! 0)"

definition settle_ms :: "VEML7700_IntegrationTime \<Rightarrow> u32" where
  "settle_ms it =
     (case f32_to_int32 (f32_mul (VEML7700_ItMs it) (f32_lit (3 / 2))) of Some k \<Rightarrow> of_int k | None \<Rightarrow> 0)"

definition VEML7700_ApplyIndex :: "'b VEML7700 \<Rightarrow> nat \<Rightarrow> 'b \<Rightarrow> bool \<times> 'b VEML7700 \<times> 'b" where
  "VEML7700_ApplyIndex dev idx b =
     (if idx \<ge> VEML7700_RANGE_COUNT then (False, dev, b)
      else let r = s_ranges ! idx;
               conf = VEML7700_BuildConf (range_gain r) (range_it r) (vd_persistence dev) in
      case I2cBus_Write (vd_bus dev) VEML7700_I2C_ADDR
             (Some [VEML7700_REG_ALS_CONF, ucast (conf AND 0xFF), ucast (drop_bit 8 conf)]) b of (ws, b) \<Rightarrow>
      if ws \<noteq> DRIVER_STATUS_OK then (False, dev, b)
      else case I2cBus_ReadMem (vd_bus dev) VEML7700_I2C_ADDR VEML7700_REG_ALS_CONF 2 b of (rs, rx, b) \<Rightarrow>
      if rs \<noteq> DRIVER_STATUS_OK then (False, dev, b)
      else if le16 rx AND VEML7700_ALS_CONF_MASK \<noteq> conf AND VEML7700_ALS_CONF_MASK then (False, dev, b)
      else (True, dev\<lparr>vd_range_index := idx, vd_gain := range_gain r, vd_integration_time := range_it r,
              vd_als_conf_value := conf, vd_resolution := range_resolution r,
              vd_settle_duration_ms := settle_ms (range_it r), vd_settle_start_ms := 0\<rparr>, b))"

definition VEML7700_EnterSettling :: "u32 \<Rightarrow> 'b VEML7700 \<Rightarrow> 'b VEML7700" where
  "VEML7700_EnterSettling now dev =
     dev\<lparr>vd_range_state := VEML7700_RANGE_SETTLING, vd_range_consecutive := 0,
         vd_pending_adjust := VEML7700_ADJUST_NONE, vd_settle_start_ms := now\<rparr>"

definition VEML7700_ExitSettling :: "'b VEML7700 \<Rightarrow> 'b VEML7700" where
  "VEML7700_ExitSettling dev =
     dev\<lparr>vd_range_state := VEML7700_RANGE_STABLE, vd_range_consecutive := 0,
         vd_pending_adjust := VEML7700_ADJUST_NONE\<rparr>"

definition VEML7700_SetMoreSensitive :: "u32 \<Rightarrow> 'b VEML7700 \<Rightarrow> 'b \<Rightarrow> bool \<times> 'b VEML7700 \<times> 'b" where
  "VEML7700_SetMoreSensitive now dev b =
     (if vd_range_index dev \<ge> VEML7700_RANGE_COUNT - 1 then (False, dev, b)
      else case VEML7700_ApplyIndex dev (vd_range_index dev + 1) b of (ok, dev, b) \<Rightarrow>
      if \<not> ok then (False, dev, b) else (True, VEML7700_EnterSettling now dev, b))"

definition VEML7700_SetLessSensitive :: "u32 \<Rightarrow> 'b VEML7700 \<Rightarrow> 'b \<Rightarrow> bool \<times> 'b VEML7700 \<times> 'b" where
  "VEML7700_SetLessSensitive now dev b =
     (if vd_range_index dev = 0 then (False, dev, b)
      else case VEML7700_ApplyIndex dev (vd_range_index dev - 1) b of (ok, dev, b) \<Rightarrow>
      if \<not> ok then (False, dev, b) else (True, VEML7700_EnterSettling now dev, b))"

section \<open>Operations\<close>

text \<open>The counted end of an attempt.\<close>

definition VEML7700_FinalizeAttempt :: "'b VEML7700 \<Rightarrow> VEML7700_Sample \<Rightarrow> 'b VEML7700" where
  "VEML7700_FinalizeAttempt dev s =
     (let dev = dev\<lparr>vd_last_attempt := s\<rparr> in if vs_valid s then dev\<lparr>vd_last_valid := s\<rparr> else dev)"

definition veml_attempt ::
  "'b VEML7700 \<Rightarrow> VEML7700_Sample \<Rightarrow> 'b \<Rightarrow> bool \<times> VEML7700_Sample option \<times> 'b VEML7700 \<times> 'b" where
  "veml_attempt dev s b =
     (let dev = dev\<lparr>vd_counters := (vd_counters dev)\<lparr>vc_read_success := vc_read_success (vd_counters dev) + 1\<rparr>\<rparr>
      in (True, Some s, VEML7700_FinalizeAttempt dev s, b))"

definition VEML7700_Probe :: "'b I2cBus option \<Rightarrow> 'b \<Rightarrow> bool \<times> 'b" where
  "VEML7700_Probe bus b =
     (if bus = None then (False, b)
      else case I2cBus_Probe bus VEML7700_I2C_ADDR b of (s, b) \<Rightarrow> (s = DRIVER_STATUS_OK, b))"

definition VEML7700_Init :: "u32 \<Rightarrow> 'b I2cBus option \<Rightarrow> 'b VEML7700 \<Rightarrow> 'b \<Rightarrow> bool \<times> 'b VEML7700 \<times> 'b" where
  "VEML7700_Init now bus dev b =
     (if bus = None then (False, dev, b)
      else let dev = zero_veml\<lparr>vd_bus := bus, vd_persistence := VEML7700_PERS_1\<rparr> in
      case I2cBus_Probe bus VEML7700_I2C_ADDR b of (s, b) \<Rightarrow>
      if s \<noteq> DRIVER_STATUS_OK then (False, dev, b)
      else case VEML7700_ApplyIndex dev 4 b of (ok, dev, b) \<Rightarrow>
      if \<not> ok
      then (False, dev\<lparr>vd_counters := (vd_counters dev)\<lparr>vc_config_error := vc_config_error (vd_counters dev) + 1\<rparr>\<rparr>, b)
      else (True, (VEML7700_EnterSettling now dev)\<lparr>vd_initialized := 1\<rparr>, b))"

text \<open>
  A reading outside the comfortable part of the range. After the third in a row the range is
  changed; when that does not succeed, for whatever reason, the reading is used as it is.
\<close>

definition veml_lean ::
  "VEML7700_AdjustDirection \<Rightarrow> (u32 \<Rightarrow> 'b VEML7700 \<Rightarrow> 'b \<Rightarrow> bool \<times> 'b VEML7700 \<times> 'b) \<Rightarrow>
   u32 \<Rightarrow> 'b VEML7700 \<Rightarrow> 'b \<Rightarrow> bool \<times> 'b VEML7700 \<times> 'b" where
  "veml_lean dir change now dev b =
     (let dev = (if vd_pending_adjust dev \<noteq> dir
                 then dev\<lparr>vd_pending_adjust := dir, vd_range_consecutive := 1\<rparr>
                 else dev\<lparr>vd_range_consecutive := vd_range_consecutive dev + 1\<rparr>) in
      if vd_range_consecutive dev \<ge> VEML7700_RANGE_CONVERGE
      then (case change now dev b of (ok, dev, b) \<Rightarrow>
            if ok then (True, dev, b)
            else (False, dev\<lparr>vd_range_consecutive := 0, vd_pending_adjust := VEML7700_ADJUST_NONE\<rparr>, b))
      else (False, dev, b))"

definition veml_decide ::
  "u32 \<Rightarrow> 'b VEML7700 \<Rightarrow> VEML7700_Sample \<Rightarrow> 'b \<Rightarrow> bool \<times> VEML7700_Sample option \<times> 'b VEML7700 \<times> 'b" where
  "veml_decide now dev s b =
     (let raw = vs_als_raw s in
      if raw \<ge> VEML7700_RANGE_SATURATION
      then (case VEML7700_SetLessSensitive now dev b of (ok, dev, b) \<Rightarrow>
            veml_attempt dev (s\<lparr>vs_saturated := True, vs_range_changed := ok\<rparr>) b)
      else case (if raw < VEML7700_RANGE_LOW
                 then veml_lean VEML7700_ADJUST_MORE VEML7700_SetMoreSensitive now dev b
                 else if raw > VEML7700_RANGE_HIGH
                 then veml_lean VEML7700_ADJUST_LESS VEML7700_SetLessSensitive now dev b
                 else (False, dev\<lparr>vd_range_consecutive := 0, vd_pending_adjust := VEML7700_ADJUST_NONE\<rparr>, b))
           of (should_change, dev, b) \<Rightarrow>
      if should_change
      then veml_attempt dev (s\<lparr>vs_range_changed := True, vs_settling := True, vs_valid := False\<rparr>) b
      else veml_attempt dev (s\<lparr>vs_lux := f32_mul (f32_of_int (uint raw)) (vd_resolution dev), vs_valid := True\<rparr>) b)"

definition VEML7700_ReadWithAutoRange ::
  "u32 \<Rightarrow> 'b VEML7700 \<Rightarrow> 'b \<Rightarrow> bool \<times> VEML7700_Sample option \<times> 'b VEML7700 \<times> 'b" where
  "VEML7700_ReadWithAutoRange now dev b =
     (if vd_initialized dev = 0 then (False, None, dev, b)
      else let s = zero_veml_sample\<lparr>vs_gain := vd_gain dev, vs_integration_time := vd_integration_time dev,
                   vs_resolution := vd_resolution dev, vs_valid := False\<rparr> in
      case I2cBus_ReadMem (vd_bus dev) VEML7700_I2C_ADDR VEML7700_REG_ALS 2 b of (rs, rx, b) \<Rightarrow>
      if rs \<noteq> DRIVER_STATUS_OK
      then (False, Some s,
            dev\<lparr>vd_counters := (vd_counters dev)\<lparr>vc_read_error := vc_read_error (vd_counters dev) + 1\<rparr>\<rparr>, b)
      else let s = s\<lparr>vs_als_raw := le16 rx\<rparr> in
      if vd_range_state dev = VEML7700_RANGE_SETTLING
      then let s = s\<lparr>vs_settling := True\<rparr> in
        (if now - vd_settle_start_ms dev < vd_settle_duration_ms dev then veml_attempt dev s b
         else veml_decide now (VEML7700_ExitSettling dev) s b)
      else veml_decide now dev s b)"

definition VEML7700_GetDiagnostics :: "'b VEML7700 \<Rightarrow> VEML7700_Sample" where
  "VEML7700_GetDiagnostics dev = vd_last_attempt dev"

definition VEML7700_IsInitialized :: "'b VEML7700 \<Rightarrow> bool" where
  "VEML7700_IsInitialized dev \<longleftrightarrow> vd_initialized dev \<noteq> 0"

end
