(* ===== verification/Display.thy ===== *)
theory Display
  imports I2c_Bus Command_Response Float32
begin
text \<open>
  \<open>Drivers/display/Src/display.c\<close>: the frame buffer of the display, drawing into it, and the
  transfer of the eight pages over the bus. The delays of the start sequence pass no tick here.
\<close>

definition DISPLAY_WIDTH :: nat where "DISPLAY_WIDTH = 128"
definition DISPLAY_HEIGHT :: nat where "DISPLAY_HEIGHT = 64"
definition DISPLAY_PAGES :: nat where "DISPLAY_PAGES = DISPLAY_HEIGHT div 8"
definition DISPLAY_I2C_ADDR_PRIMARY :: u16 where "DISPLAY_I2C_ADDR_PRIMARY = push_bit 1 0x3C"
definition DISPLAY_I2C_ADDR_ALT :: u16 where "DISPLAY_I2C_ADDR_ALT = push_bit 1 0x3D"
definition FONT_WIDTH :: nat where "FONT_WIDTH = 5"
definition FONT_HEIGHT :: nat where "FONT_HEIGHT = 8"
definition FONT_CHAR_SPACING :: u8 where "FONT_CHAR_SPACING = 6"
definition DISPLAY_CMD_CTRL :: u8 where "DISPLAY_CMD_CTRL = 0x00"
definition DISPLAY_DATA_CTRL :: u8 where "DISPLAY_DATA_CTRL = 0x40"
definition DISPLAY_CMD_PAGE :: u8 where "DISPLAY_CMD_PAGE = 0xB0"
definition DISPLAY_CMD_SETLOWCOL :: u8 where "DISPLAY_CMD_SETLOWCOL = 0x00"
definition DISPLAY_CMD_SETHIGHCOL :: u8 where "DISPLAY_CMD_SETHIGHCOL = 0x10"

datatype DisplayController = DISPLAY_CONTROLLER_SSD1306 | DISPLAY_CONTROLLER_SH1106

record 'b Display =
  dd_bus :: "'b I2cBus option"
  dd_i2c_addr :: u8
  dd_initialized :: u8
  dd_addr_valid :: u8
  dd_controller :: DisplayController
  dd_column_offset :: u8
  dd_buffer :: bytes

definition zero_display :: "'b Display" where
  "zero_display =
     \<lparr>dd_bus = None, dd_i2c_addr = 0, dd_initialized = 0, dd_addr_valid = 0,
      dd_controller = DISPLAY_CONTROLLER_SSD1306, dd_column_offset = 0,
      dd_buffer = replicate (DISPLAY_WIDTH * DISPLAY_PAGES) 0\<rparr>"

text \<open>The table of the glyphs; the last row is the one the initializer leaves zero.\<close>

definition s_font :: "bytes list" where
  "s_font =
     [
      [0x00, 0x00, 0x00, 0x00, 0x00], [0x00, 0x00, 0x5F, 0x00, 0x00], [0x00, 0x07, 0x00, 0x07, 0x00],
      [0x14, 0x7F, 0x14, 0x7F, 0x14], [0x24, 0x2A, 0x7F, 0x2A, 0x12], [0x23, 0x13, 0x08, 0x64, 0x62],
      [0x36, 0x49, 0x55, 0x22, 0x50], [0x00, 0x05, 0x03, 0x00, 0x00], [0x00, 0x1C, 0x22, 0x41, 0x00],
      [0x00, 0x41, 0x22, 0x1C, 0x00], [0x08, 0x2A, 0x1C, 0x2A, 0x08], [0x08, 0x08, 0x3E, 0x08, 0x08],
      [0x00, 0x50, 0x30, 0x00, 0x00], [0x08, 0x08, 0x08, 0x08, 0x08], [0x00, 0x60, 0x60, 0x00, 0x00],
      [0x20, 0x10, 0x08, 0x04, 0x02], [0x3E, 0x51, 0x49, 0x45, 0x3E], [0x00, 0x42, 0x7F, 0x40, 0x00],
      [0x42, 0x61, 0x51, 0x49, 0x46], [0x21, 0x41, 0x45, 0x4B, 0x31], [0x18, 0x14, 0x12, 0x7F, 0x10],
      [0x27, 0x45, 0x45, 0x45, 0x39], [0x3C, 0x4A, 0x49, 0x49, 0x30], [0x01, 0x71, 0x09, 0x05, 0x03],
      [0x36, 0x49, 0x49, 0x49, 0x36], [0x06, 0x49, 0x49, 0x29, 0x1E], [0x00, 0x36, 0x36, 0x00, 0x00],
      [0x00, 0x56, 0x36, 0x00, 0x00], [0x00, 0x08, 0x14, 0x22, 0x41], [0x14, 0x14, 0x14, 0x14, 0x14],
      [0x41, 0x22, 0x14, 0x08, 0x00], [0x02, 0x01, 0x51, 0x09, 0x06], [0x32, 0x49, 0x79, 0x41, 0x3E],
      [0x7E, 0x11, 0x11, 0x11, 0x7E], [0x7F, 0x49, 0x49, 0x49, 0x36], [0x3E, 0x41, 0x41, 0x41, 0x22],
      [0x7F, 0x41, 0x41, 0x22, 0x1C], [0x7F, 0x49, 0x49, 0x49, 0x41], [0x7F, 0x09, 0x09, 0x01, 0x01],
      [0x3E, 0x41, 0x41, 0x51, 0x32], [0x7F, 0x08, 0x08, 0x08, 0x7F], [0x00, 0x41, 0x7F, 0x41, 0x00],
      [0x20, 0x40, 0x41, 0x3F, 0x01], [0x7F, 0x08, 0x14, 0x22, 0x41], [0x7F, 0x40, 0x40, 0x40, 0x40],
      [0x7F, 0x02, 0x04, 0x02, 0x7F], [0x7F, 0x04, 0x08, 0x10, 0x7F], [0x3E, 0x41, 0x41, 0x41, 0x3E],
      [0x7F, 0x09, 0x09, 0x09, 0x06], [0x3E, 0x41, 0x51, 0x21, 0x5E], [0x7F, 0x09, 0x19, 0x29, 0x46],
      [0x46, 0x49, 0x49, 0x49, 0x31], [0x01, 0x01, 0x7F, 0x01, 0x01], [0x3F, 0x40, 0x40, 0x40, 0x3F],
      [0x1F, 0x20, 0x40, 0x20, 0x1F], [0x7F, 0x20, 0x18, 0x20, 0x7F], [0x63, 0x14, 0x08, 0x14, 0x63],
      [0x03, 0x04, 0x78, 0x04, 0x03], [0x61, 0x51, 0x49, 0x45, 0x43], [0x00, 0x00, 0x7F, 0x41, 0x41],
      [0x02, 0x04, 0x08, 0x10, 0x20], [0x41, 0x41, 0x7F, 0x00, 0x00], [0x04, 0x02, 0x01, 0x02, 0x04],
      [0x40, 0x40, 0x40, 0x40, 0x40], [0x00, 0x01, 0x02, 0x04, 0x00], [0x20, 0x54, 0x54, 0x54, 0x78],
      [0x7F, 0x48, 0x44, 0x44, 0x38], [0x38, 0x44, 0x44, 0x44, 0x20], [0x38, 0x44, 0x44, 0x48, 0x7F],
      [0x38, 0x54, 0x54, 0x54, 0x18], [0x08, 0x7E, 0x09, 0x01, 0x02], [0x08, 0x14, 0x54, 0x54, 0x3C],
      [0x7F, 0x08, 0x04, 0x04, 0x78], [0x00, 0x44, 0x7D, 0x40, 0x00], [0x20, 0x40, 0x44, 0x3D, 0x00],
      [0x7F, 0x10, 0x28, 0x44, 0x00], [0x00, 0x41, 0x7F, 0x40, 0x00], [0x7C, 0x04, 0x18, 0x04, 0x78],
      [0x7C, 0x08, 0x04, 0x04, 0x78], [0x38, 0x44, 0x44, 0x44, 0x38], [0x7C, 0x14, 0x14, 0x14, 0x08],
      [0x08, 0x14, 0x14, 0x18, 0x7C], [0x7C, 0x08, 0x04, 0x04, 0x08], [0x48, 0x54, 0x54, 0x54, 0x20],
      [0x04, 0x3F, 0x44, 0x40, 0x20], [0x3C, 0x40, 0x40, 0x20, 0x7C], [0x1C, 0x20, 0x40, 0x20, 0x1C],
      [0x3C, 0x40, 0x30, 0x40, 0x3C], [0x44, 0x28, 0x10, 0x28, 0x44], [0x0C, 0x50, 0x50, 0x50, 0x3C],
      [0x44, 0x64, 0x54, 0x4C, 0x44], [0x00, 0x08, 0x36, 0x41, 0x00], [0x00, 0x00, 0x7F, 0x00, 0x00],
      [0x00, 0x41, 0x36, 0x08, 0x00], [0x08, 0x04, 0x08, 0x10, 0x08], [0x00, 0x00, 0x00, 0x00, 0x00]
     ]"

section \<open>Drawing\<close>

definition Display_Clear :: "'b Display \<Rightarrow> 'b Display" where
  "Display_Clear dev = dev\<lparr>dd_buffer := replicate (DISPLAY_WIDTH * DISPLAY_PAGES) 0\<rparr>"

definition pixel_index :: "u8 \<Rightarrow> u8 \<Rightarrow> nat" where
  "pixel_index x y = unat x + (unat y div 8) * DISPLAY_WIDTH"

definition Display_DrawPixel :: "u8 \<Rightarrow> u8 \<Rightarrow> bool \<Rightarrow> 'b Display \<Rightarrow> 'b Display" where
  "Display_DrawPixel x y color dev =
     (if unat x \<ge> DISPLAY_WIDTH \<or> unat y \<ge> DISPLAY_HEIGHT then dev
      else let i = pixel_index x y; m = push_bit (unat y mod 8) 1 in
      if color then dev\<lparr>dd_buffer := (dd_buffer dev)[i := dd_buffer dev ! i OR m]\<rparr>
      else dev\<lparr>dd_buffer := (dd_buffer dev)[i := dd_buffer dev ! i AND NOT m]\<rparr>)"

text \<open>One column of a character, top to bottom, and the five columns.\<close>

definition draw_column :: "u8 \<Rightarrow> u8 \<Rightarrow> u8 \<Rightarrow> 'b Display \<Rightarrow> 'b Display" where
  "draw_column x y line dev =
     fold (\<lambda>j. Display_DrawPixel x (y + of_nat j) (line AND push_bit j 1 \<noteq> 0)) [0..<FONT_HEIGHT] dev"

definition glyph :: "u8 \<Rightarrow> bytes" where
  "glyph ch = (let idx = (if ch < 32 \<or> ch > 127 then 0x3F else ch) in s_font ! unat (idx - 32))"

definition Display_DrawChar :: "u8 \<Rightarrow> u8 \<Rightarrow> u8 \<Rightarrow> 'b Display \<Rightarrow> 'b Display" where
  "Display_DrawChar x y ch dev =
     fold (\<lambda>i. draw_column (x + of_nat i) y (glyph ch ! i)) [0..<FONT_WIDTH] dev"

fun Display_DrawString :: "u8 \<Rightarrow> u8 \<Rightarrow> bytes \<Rightarrow> 'b Display \<Rightarrow> 'b Display" where
  "Display_DrawString x y [] dev = dev"
| "Display_DrawString x y (ch # str) dev =
     (let dev = Display_DrawChar x y ch dev; x = x + FONT_CHAR_SPACING in
      if unat x + unat FONT_CHAR_SPACING \<ge> DISPLAY_WIDTH
      then Display_DrawString 0 (y + of_nat FONT_HEIGHT) str dev
      else Display_DrawString x y str dev)"

section \<open>The bus\<close>

definition Display_WriteCmd :: "'b Display \<Rightarrow> u8 \<Rightarrow> 'b \<Rightarrow> DriverStatus \<times> 'b" where
  "Display_WriteCmd dev cmd b = I2cBus_Write (dd_bus dev) (ucast (dd_i2c_addr dev)) (Some [DISPLAY_CMD_CTRL, cmd]) b"

text \<open>Commands in a row, up to the first that fails.\<close>

fun display_commands :: "'b Display \<Rightarrow> bytes \<Rightarrow> 'b \<Rightarrow> DriverStatus \<times> 'b" where
  "display_commands dev [] b = (DRIVER_STATUS_OK, b)"
| "display_commands dev (c # cs) b =
     (case Display_WriteCmd dev c b of (s, b) \<Rightarrow>
      if s \<noteq> DRIVER_STATUS_OK then (s, b) else display_commands dev cs b)"

definition init_commands :: bytes where
  "init_commands =
     [0xAE,
      0xD5, 0x80, 0xA8, 0x3F, 0xD3, 0x00, 0x40, 0x8D, 0x14, 0xA0 OR 0x01, 0xC8, 0xDA, 0x12,
      0x81, 0x7F, 0xD9, 0xF1, 0xDB, 0x40, 0xA4, 0xA6, 0xAF]"

definition Display_InitSequence :: "'b Display \<Rightarrow> 'b \<Rightarrow> bool \<times> 'b" where
  "Display_InitSequence dev b =
     (case display_commands dev init_commands b of (s, b) \<Rightarrow> (s = DRIVER_STATUS_OK, b))"

definition Display_Probe :: "'b I2cBus option \<Rightarrow> 'b \<Rightarrow> u8 option \<times> 'b" where
  "Display_Probe bus b =
     (if bus = None then (None, b)
      else case I2cBus_Probe bus DISPLAY_I2C_ADDR_PRIMARY b of (s, b) \<Rightarrow>
      if s = DRIVER_STATUS_OK then (Some (ucast DISPLAY_I2C_ADDR_PRIMARY), b)
      else case I2cBus_Probe bus DISPLAY_I2C_ADDR_ALT b of (s, b) \<Rightarrow>
      if s = DRIVER_STATUS_OK then (Some (ucast DISPLAY_I2C_ADDR_ALT), b) else (None, b))"

definition page_data :: "'b Display \<Rightarrow> nat \<Rightarrow> bytes" where
  "page_data dev p = DISPLAY_DATA_CTRL # map (\<lambda>x. dd_buffer dev ! (p * DISPLAY_WIDTH + x)) [0..<DISPLAY_WIDTH]"

fun display_send_pages :: "'b Display \<Rightarrow> nat list \<Rightarrow> 'b \<Rightarrow> DriverStatus \<times> 'b" where
  "display_send_pages dev [] b = (DRIVER_STATUS_OK, b)"
| "display_send_pages dev (p # ps) b =
     (case display_commands dev
        [DISPLAY_CMD_PAGE OR of_nat p, DISPLAY_CMD_SETLOWCOL OR (dd_column_offset dev AND 0x0F),
         DISPLAY_CMD_SETHIGHCOL OR (drop_bit 4 (dd_column_offset dev) AND 0x0F)] b of (s, b) \<Rightarrow>
      if s \<noteq> DRIVER_STATUS_OK then (s, b)
      else case I2cBus_Write (dd_bus dev) (ucast (dd_i2c_addr dev)) (Some (page_data dev p)) b of (s, b) \<Rightarrow>
      if s \<noteq> DRIVER_STATUS_OK then (s, b) else display_send_pages dev ps b)"

definition Display_Update :: "'b Display \<Rightarrow> 'b \<Rightarrow> DriverStatus \<times> 'b" where
  "Display_Update dev b =
     (if dd_initialized dev = 0 then (DRIVER_STATUS_NOT_READY, b)
      else display_send_pages dev [0..<DISPLAY_PAGES] b)"

definition Display_Init ::
  "'b Display \<Rightarrow> 'b I2cBus option \<Rightarrow> u8 \<Rightarrow> DisplayController \<Rightarrow> 'b \<Rightarrow> bool \<times> 'b Display \<times> 'b" where
  "Display_Init dev bus i2c_addr controller b =
     (if bus = None then (False, dev, b)
      else let dev = zero_display\<lparr>dd_bus := bus, dd_i2c_addr := i2c_addr, dd_addr_valid := 1,
                       dd_controller := controller,
                       dd_column_offset := (if controller = DISPLAY_CONTROLLER_SH1106 then 2 else 0)\<rparr> in
      case Display_InitSequence dev b of (ok, b) \<Rightarrow>
      if \<not> ok then (False, dev, b)
      else let dev = Display_Clear (dev\<lparr>dd_initialized := 1\<rparr>) in
      case Display_Update dev b of (_, b) \<Rightarrow> (True, dev, b))"

text \<open>Every pixel of the squares where the sum of the square's coordinates is even is cleared.\<close>

definition Display_TestPattern :: "'b Display \<Rightarrow> 'b \<Rightarrow> 'b Display \<times> 'b" where
  "Display_TestPattern dev b =
     (let dev = (Display_Clear dev)\<lparr>dd_buffer := replicate (DISPLAY_WIDTH * DISPLAY_PAGES) 0xFF\<rparr>;
          dev = fold (\<lambda>(y, x) dev.
                  if (x div 8 + y div 8) mod 2 = 1 then dev
                  else let i = x + y div 8 * DISPLAY_WIDTH in
                    dev\<lparr>dd_buffer := (dd_buffer dev)[i := dd_buffer dev ! i AND NOT (push_bit (y mod 8) 1)]\<rparr>)
                (List.product [0..<DISPLAY_HEIGHT] [0..<DISPLAY_WIDTH]) dev
      in (dev, snd (Display_Update dev b)))"

definition Display_IsInitialized :: "'b Display \<Rightarrow> bool" where
  "Display_IsInitialized dev \<longleftrightarrow> dd_initialized dev \<noteq> 0"

section \<open>The pages\<close>

text \<open>
  \<open>App/Src/display_pages.c\<close>: which page is shown, and the text of the gas and pressure lines.
  \<open>snprintf\<close> into a buffer of \<open>cap\<close> bytes keeps the first \<open>cap - 1\<close> characters. A NULL
  buffer or label is not modelled: the callers pass arrays and literals.
\<close>

definition DISPLAY_PAGE_ENV :: u8 where "DISPLAY_PAGE_ENV = 0"
definition DISPLAY_PAGE_AIR_QUALITY :: u8 where "DISPLAY_PAGE_AIR_QUALITY = 1"
definition DISPLAY_PAGE_PRESSURE :: u8 where "DISPLAY_PAGE_PRESSURE = 2"
definition DISPLAY_PAGE_COUNT :: u8 where "DISPLAY_PAGE_COUNT = 3"
definition DISPLAY_PAGE_PERIOD_MS :: u32 where "DISPLAY_PAGE_PERIOD_MS = 5000"

datatype DisplayGasState = DISPLAY_GAS_STATE_UNAVAILABLE | DISPLAY_GAS_STATE_WARM | DISPLAY_GAS_STATE_NUMERIC

text \<open>The new page and the new marker of the last switch.\<close>

definition DisplayPages_Advance :: "u32 \<Rightarrow> u32 \<Rightarrow> u8 \<Rightarrow> u8 \<times> u32" where
  "DisplayPages_Advance now last_switch_ms current_page =
     (let (page, last) =
        (if now - last_switch_ms \<ge> DISPLAY_PAGE_PERIOD_MS
         then (let p = current_page + 1 in if p \<ge> DISPLAY_PAGE_COUNT then DISPLAY_PAGE_ENV else p,
               last_switch_ms + DISPLAY_PAGE_PERIOD_MS)
         else (current_page, last_switch_ms))
      in (if page \<ge> DISPLAY_PAGE_COUNT then DISPLAY_PAGE_ENV else page, last))"

definition DisplayPages_GasState :: "bool \<Rightarrow> bool \<Rightarrow> DisplayGasState" where
  "DisplayPages_GasState index_valid raw_valid =
     (if index_valid then DISPLAY_GAS_STATE_NUMERIC
      else if raw_valid then DISPLAY_GAS_STATE_WARM
      else DISPLAY_GAS_STATE_UNAVAILABLE)"

definition snprintf_cut :: "nat \<Rightarrow> bytes \<Rightarrow> bytes" where
  "snprintf_cut cap txt = take (cap - 1) txt"

text \<open>\<open>%ld\<close>.\<close>

definition ld_text :: "32 word \<Rightarrow> bytes" where
  "ld_text w = (if sint w < 0 then ascii ''-'' @ dec_digits (nat (- sint w)) else dec_digits (nat (sint w)))"

definition DisplayPages_FormatGasLine :: "nat \<Rightarrow> string \<Rightarrow> 32 word \<Rightarrow> DisplayGasState \<Rightarrow> bytes" where
  "DisplayPages_FormatGasLine cap label v state =
     snprintf_cut cap (case state of
        DISPLAY_GAS_STATE_NUMERIC \<Rightarrow> ascii label @ ascii '': '' @ ld_text v
      | DISPLAY_GAS_STATE_WARM \<Rightarrow> ascii label @ ascii '': WARM''
      | DISPLAY_GAS_STATE_UNAVAILABLE \<Rightarrow> ascii label @ ascii '': ---'')"

text \<open>The divisor is the \<open>double\<close> constant cast to \<open>float\<close>.\<close>

definition PA_PER_MMHG :: f64 where "PA_PER_MMHG = f64_lit (133322387415 / 10 ^ 9)"

definition DisplayPages_FormatPressure :: "nat \<Rightarrow> f32 \<Rightarrow> bool \<Rightarrow> bytes" where
  "DisplayPages_FormatPressure cap pressure_pa valid =
     snprintf_cut cap
       (if \<not> valid \<or> \<not> f32_isfinite pressure_pa then ascii ''--- mmHg''
        else fixed_text 0 (f32_div pressure_pa (f64_to_f32 PA_PER_MMHG)) @ ascii '' mmHg'')"

end
