(* ===== verification/App_Sensors.thy ===== *)
theory App_Sensors
  imports Room_State Bus_Health Config Scd41 Sht45 Sgp41 Bmp3_Runtime Veml7700 Display
begin

text \<open>
  The part of \<open>App/Src/app.c\<close> that owns the devices on the I2C bus: the sensors, the display, the
  health of the bus and the room state. Its statics are the record \<open>sensing\<close>; every operation
  takes the tick, the statics and the state of the bus. The configuration, which belongs to
  \<open>config.c\<close>, is an argument. The prints of the diagnostics are left out.
\<close>

record 'b sensing =
  ap_veml :: "'b VEML7700"
  ap_display :: "'b Display"
  ap_scd41 :: "'b Scd41Runtime"
  ap_sht45 :: "'b Sht45Runtime"
  ap_bmp390 :: "'b Bmp3Runtime"
  ap_bmp380 :: "'b Bmp3Runtime"
  ap_sgp41 :: "'b Sgp41Runtime"
  ap_i2c_bus :: "'b I2cBus option"
  ap_light_rt :: DeviceRuntime
  ap_disp_rt :: DeviceRuntime
  ap_co2_rt :: DeviceRuntime
  ap_temp_rt :: DeviceRuntime
  ap_pres_rt :: DeviceRuntime
  ap_bmp390_rt :: DeviceRuntime
  ap_pres_rt_bmp380 :: DeviceRuntime
  ap_gas_rt :: DeviceRuntime
  ap_display_addr :: u8
  ap_display_addr_valid :: bool
  ap_last_light_ms :: u32
  ap_last_display_ms :: u32
  ap_last_retry_ms :: u32
  ap_last_scd41_ms :: u32
  ap_last_sht45_ms :: u32
  ap_last_bmp390_ms :: u32
  ap_last_bmp380_ms :: u32
  ap_last_sgp41_ms :: u32
  ap_display_page_switch_ms :: u32
  ap_display_page :: u8
  ap_bmp390_room_commit_ms :: u32
  ap_sht45_room_commit_ms :: u32
  ap_bus_health :: I2cBusHealth
  ap_veml_absent :: u32
  ap_veml_next_probe_ms :: u32
  ap_disp_absent :: u32
  ap_disp_next_probe_ms :: u32
  ap_room :: RoomState

section \<open>Bookkeeping of the devices\<close>

definition DeviceRuntime_Init :: "DeviceState \<Rightarrow> DeviceRuntime" where
  "DeviceRuntime_Init initial =
     \<lparr>dr_state = initial, dr_init_attempts = 0, dr_init_failures = 0, dr_operation_successes = 0,
      dr_operation_failures = 0, dr_recovery_count = 0, dr_consecutive_errors = 0,
      dr_last_success_ms = 0, dr_last_failure_ms = 0\<rparr>"

definition DeviceRuntime_RecordSuccess :: "u32 \<Rightarrow> DeviceRuntime \<Rightarrow> DeviceRuntime" where
  "DeviceRuntime_RecordSuccess now rt =
     rt\<lparr>dr_operation_successes := dr_operation_successes rt + 1, dr_consecutive_errors := 0,
        dr_last_success_ms := now\<rparr>"

definition DeviceRuntime_RecordFailure :: "u32 \<Rightarrow> DeviceRuntime \<Rightarrow> DeviceRuntime" where
  "DeviceRuntime_RecordFailure now rt =
     rt\<lparr>dr_operation_failures := dr_operation_failures rt + 1,
        dr_consecutive_errors := dr_consecutive_errors rt + 1, dr_last_failure_ms := now\<rparr>"

definition upd_light :: "(DeviceRuntime \<Rightarrow> DeviceRuntime) \<Rightarrow> 'b sensing \<Rightarrow> 'b sensing" where
  "upd_light f s = s\<lparr>ap_light_rt := f (ap_light_rt s)\<rparr>"

definition upd_disp :: "(DeviceRuntime \<Rightarrow> DeviceRuntime) \<Rightarrow> 'b sensing \<Rightarrow> 'b sensing" where
  "upd_disp f s = s\<lparr>ap_disp_rt := f (ap_disp_rt s)\<rparr>"

definition upd_room :: "(RoomState \<Rightarrow> RoomState) \<Rightarrow> 'b sensing \<Rightarrow> 'b sensing" where
  "upd_room f s = s\<lparr>ap_room := f (ap_room s)\<rparr>"

definition set_dr_state :: "DeviceState \<Rightarrow> DeviceRuntime \<Rightarrow> DeviceRuntime" where
  "set_dr_state st rt = rt\<lparr>dr_state := st\<rparr>"

section \<open>The light sensor\<close>

definition App_DoProbeVeml :: "u32 \<Rightarrow> 'b sensing \<Rightarrow> 'b \<Rightarrow> 'b sensing \<times> 'b" where
  "App_DoProbeVeml now s b =
     (if probe_held (ap_veml_absent s) (ap_veml_next_probe_ms s) now
      then (upd_light (set_dr_state DEVICE_STATE_NOT_FOUND) s, b)
      else case VEML7700_Probe (ap_i2c_bus s) b of (found, b) \<Rightarrow>
      if found then (upd_light (set_dr_state DEVICE_STATE_INITIALIZING) (s\<lparr>ap_veml_absent := 0\<rparr>), b)
      else let absent = RecoveryPolicy_TrackAbsence (ap_veml_absent s) True in
        (upd_light (set_dr_state DEVICE_STATE_NOT_FOUND)
           (s\<lparr>ap_veml_absent := absent, ap_veml_next_probe_ms := now + RecoveryPolicy_BackoffMs absent\<rparr>), b))"

definition App_DoInitVeml :: "u32 \<Rightarrow> 'b sensing \<Rightarrow> 'b \<Rightarrow> 'b sensing \<times> 'b" where
  "App_DoInitVeml now s b =
     (let s = upd_light (\<lambda>rt. rt\<lparr>dr_init_attempts := dr_init_attempts rt + 1\<rparr>) s in
      case VEML7700_Init now (ap_i2c_bus s) (ap_veml s) b of (ok, veml, b) \<Rightarrow>
      let s = s\<lparr>ap_veml := veml\<rparr> in
      if ok then (upd_light (DeviceRuntime_RecordSuccess now \<circ> set_dr_state DEVICE_STATE_READY) s, b)
      else (upd_light (\<lambda>rt. DeviceRuntime_RecordFailure now (set_dr_state DEVICE_STATE_ERROR
              (rt\<lparr>dr_init_failures := dr_init_failures rt + 1\<rparr>))) s, b))"

definition App_DoReadLight :: "u32 \<Rightarrow> RoomSensorConfig \<Rightarrow> 'b sensing \<Rightarrow> 'b \<Rightarrow> 'b sensing \<times> 'b" where
  "App_DoReadLight now cfg s b =
     (case VEML7700_ReadWithAutoRange now (ap_veml s) b of (ok, sample, veml, b) \<Rightarrow>
      let s = s\<lparr>ap_veml := veml\<rparr> in
      case (if ok then sample else None) of
        Some m \<Rightarrow>
          (if vs_valid m
           then let calibrated = f32_mul (vs_lux m) (rc_light_calibration_factor (rsc_runtime cfg)) in
             (upd_light (DeviceRuntime_RecordSuccess now)
                (upd_room (RoomState_UpdateIlluminance calibrated True now) s), b)
           else (upd_room (\<lambda>r. RoomState_UpdateIlluminance (rs_illuminance_lux r) False now r) s, b))
      | None \<Rightarrow>
          let s = upd_light (DeviceRuntime_RecordFailure now) s in
          (if dr_consecutive_errors (ap_light_rt s) \<ge> CONSECUTIVE_ERROR_THRESHOLD
           then upd_light (set_dr_state DEVICE_STATE_ERROR) s else s, b))"

section \<open>The sensors with a runtime of their own\<close>

definition App_RefreshScd41Diagnostics :: "'b sensing \<Rightarrow> 'b sensing" where
  "App_RefreshScd41Diagnostics s = s\<lparr>ap_co2_rt := Scd41Runtime_GetDiagnostics (ap_scd41 s)\<rparr>"

definition App_DoStartScd41 :: "u32 \<Rightarrow> 'b sensing \<Rightarrow> 'b \<Rightarrow> 'b sensing \<times> 'b" where
  "App_DoStartScd41 now s b =
     (case Scd41Runtime_Start now (ap_scd41 s) b of (st, rt, b) \<Rightarrow>
      let s = s\<lparr>ap_scd41 := rt\<rparr> in
      (if st = DRIVER_STATUS_OK then s else App_RefreshScd41Diagnostics s, b))"

definition App_DoPollScd41 :: "u32 \<Rightarrow> 'b sensing \<Rightarrow> 'b \<Rightarrow> 'b sensing \<times> 'b" where
  "App_DoPollScd41 now s b =
     (let had_valid = Scd41Runtime_HasValidSample (ap_scd41 s) in
      case Scd41Runtime_Poll now (ap_scd41 s) b of (rt, b) \<Rightarrow>
      let s = App_RefreshScd41Diagnostics (s\<lparr>ap_scd41 := rt\<rparr>);
          s = (if Scd41Runtime_HasValidSample rt
               then let m = sr_last_sample rt in
                 upd_room (RoomState_UpdateScd41 (f32_of_int (uint (sm_co2_ppm m))) True (sm_temperature_c m) True
                   (sm_relative_humidity_pct m) True now) s
               else if had_valid then upd_room (RoomState_InvalidateScd41 now) s else s)
      in (if sr_state rt = DEVICE_STATE_ERROR \<and> had_valid
          then upd_room (RoomState_InvalidateScd41 now) s else s, b))"

definition App_RefreshSht45Diagnostics :: "'b sensing \<Rightarrow> 'b sensing" where
  "App_RefreshSht45Diagnostics s = s\<lparr>ap_temp_rt := Sht45Runtime_GetDiagnostics (ap_sht45 s)\<rparr>"

definition App_DoStartSht45 :: "u32 \<Rightarrow> 'b sensing \<Rightarrow> 'b \<Rightarrow> 'b sensing \<times> 'b" where
  "App_DoStartSht45 now s b =
     (case Sht45Runtime_Start now (ap_sht45 s) b of (st, rt, b) \<Rightarrow>
      let s = s\<lparr>ap_sht45 := rt\<rparr> in
      (if st = DRIVER_STATUS_OK then s else App_RefreshSht45Diagnostics s, b))"

text \<open>A sample is committed once, when its tick differs from that of the last one committed.\<close>

definition App_DoPollSht45 :: "u32 \<Rightarrow> 'b sensing \<Rightarrow> 'b \<Rightarrow> 'b sensing \<times> 'b" where
  "App_DoPollSht45 now s b =
     (let had_valid = Sht45Runtime_HasValidSample (ap_sht45 s) in
      case Sht45Runtime_Poll now (ap_sht45 s) b of (rt, b) \<Rightarrow>
      let s = App_RefreshSht45Diagnostics (s\<lparr>ap_sht45 := rt\<rparr>);
          s = (if Sht45Runtime_HasValidSample rt
               then if hr_last_valid_measurement_ms rt \<noteq> ap_sht45_room_commit_ms s
                 then let m = hr_last_sample rt in
                   (upd_room (RoomState_UpdateSht45 (hm_temperature_c m) True (hm_relative_humidity_pct m) True now) s)
                     \<lparr>ap_sht45_room_commit_ms := hr_last_valid_measurement_ms rt\<rparr>
                 else s
               else if had_valid then upd_room (RoomState_InvalidateSht45 now) s else s)
      in (if hr_state rt = DEVICE_STATE_ERROR \<and> had_valid
          then upd_room (RoomState_InvalidateSht45 now) s else s, b))"

definition App_RefreshBmp390Diagnostics :: "'b sensing \<Rightarrow> 'b sensing" where
  "App_RefreshBmp390Diagnostics s = s\<lparr>ap_bmp390_rt := bmp3_GetDiagnostics (ap_bmp390 s)\<rparr>"

definition App_DoStartBmp390 :: "u32 \<Rightarrow> 'b sensing \<Rightarrow> 'b \<Rightarrow> 'b sensing \<times> 'b" where
  "App_DoStartBmp390 now s b =
     (case bmp3_Start BMP390 now (ap_bmp390 s) b of (st, rt, b) \<Rightarrow>
      let s = s\<lparr>ap_bmp390 := rt\<rparr> in
      (if st = DRIVER_STATUS_OK then s else App_RefreshBmp390Diagnostics s, b))"

definition App_DoPollBmp390 :: "u32 \<Rightarrow> 'b sensing \<Rightarrow> 'b \<Rightarrow> 'b sensing \<times> 'b" where
  "App_DoPollBmp390 now s b =
     (let had_valid = bmp3_HasValidSample (ap_bmp390 s) in
      case bmp3_Poll BMP390 now (ap_bmp390 s) b of (rt, b) \<Rightarrow>
      let s = App_RefreshBmp390Diagnostics (s\<lparr>ap_bmp390 := rt\<rparr>);
          s = (if bmp3_HasValidSample rt
               then if br_last_valid_measurement_ms rt \<noteq> ap_bmp390_room_commit_ms s
                 then let m = br_last_sample rt in
                   (upd_room (RoomState_UpdateBmp390 (bm_pressure_pa m) True (bm_temperature_c m) True now) s)
                     \<lparr>ap_bmp390_room_commit_ms := br_last_valid_measurement_ms rt\<rparr>
                 else s
               else if had_valid then upd_room (RoomState_InvalidateBmp390 now) s else s)
      in (if br_state rt = DEVICE_STATE_ERROR \<and> had_valid
          then upd_room (RoomState_InvalidateBmp390 now) s else s, b))"

definition App_RefreshBmp380Diagnostics :: "'b sensing \<Rightarrow> 'b sensing" where
  "App_RefreshBmp380Diagnostics s = s\<lparr>ap_pres_rt_bmp380 := Bmp380Runtime_GetDiagnostics (ap_bmp380 s)\<rparr>"

definition App_DoStartBmp380 :: "u32 \<Rightarrow> 'b sensing \<Rightarrow> 'b \<Rightarrow> 'b sensing \<times> 'b" where
  "App_DoStartBmp380 now s b =
     (case Bmp380Runtime_Start now (ap_bmp380 s) b of (st, rt, b) \<Rightarrow>
      let s = s\<lparr>ap_bmp380 := rt\<rparr> in
      (if st = DRIVER_STATUS_OK then s else App_RefreshBmp380Diagnostics s, b))"

definition App_DoPollBmp380 :: "u32 \<Rightarrow> 'b sensing \<Rightarrow> 'b \<Rightarrow> 'b sensing \<times> 'b" where
  "App_DoPollBmp380 now s b =
     (case Bmp380Runtime_Poll now (ap_bmp380 s) b of (rt, b) \<Rightarrow>
      (App_RefreshBmp380Diagnostics (s\<lparr>ap_bmp380 := rt\<rparr>), b))"

section \<open>Selecting a provider\<close>

definition App_CommitBarometricRoomState :: "u32 \<Rightarrow> 'b sensing \<Rightarrow> 'b sensing" where
  "App_CommitBarometricRoomState now s =
     (if bmp3_HasValidSample (ap_bmp390 s)
      then let m = br_last_sample (ap_bmp390 s) in
        (upd_room (RoomState_UpdateBarometric BAROMETER_PROVIDER_BMP390 (bm_pressure_pa m) True
           (bm_temperature_c m) True now) s)\<lparr>ap_pres_rt := ap_bmp390_rt s\<rparr>
      else if Bmp380Runtime_HasValidSample (ap_bmp380 s)
      then let m = br_last_sample (ap_bmp380 s) in
        (upd_room (RoomState_UpdateBarometric BAROMETER_PROVIDER_BMP380 (bm_pressure_pa m) True
           (bm_temperature_c m) True now) s)\<lparr>ap_pres_rt := ap_pres_rt_bmp380 s\<rparr>
      else (upd_room (RoomState_InvalidateBarometric now) s)
        \<lparr>ap_pres_rt := (if dr_state (ap_pres_rt_bmp380 s) \<noteq> DEVICE_STATE_UNKNOWN
                         then ap_pres_rt_bmp380 s else ap_bmp390_rt s)\<rparr>)"

definition App_CommitEnvironmentRoomState :: "u32 \<Rightarrow> 'b sensing \<Rightarrow> 'b sensing" where
  "App_CommitEnvironmentRoomState now s =
     (let r = ap_room s in
      if rs_sht45_temperature_valid r \<and> rs_sht45_humidity_valid r
      then upd_room (RoomState_UpdateEnvironment ENVIRONMENT_PROVIDER_SHT45 (rs_sht45_temperature_c r) True
             (rs_sht45_humidity_pct r) True now) s
      else if rs_scd41_temperature_valid r \<and> rs_scd41_humidity_valid r
      then upd_room (RoomState_UpdateEnvironment ENVIRONMENT_PROVIDER_SCD41 (rs_scd41_temperature_c r) True
             (rs_scd41_humidity_pct r) True now) s
      else upd_room (RoomState_InvalidateEnvironment now) s)"

section \<open>The air quality sensor\<close>

definition App_RefreshSgp41Diagnostics :: "'b sensing \<Rightarrow> 'b sensing" where
  "App_RefreshSgp41Diagnostics s = s\<lparr>ap_gas_rt := Sgp41Runtime_GetDiagnostics (ap_sgp41 s)\<rparr>"

definition App_DoStartSgp41 :: "u32 \<Rightarrow> 'b sensing \<Rightarrow> 'b \<Rightarrow> 'b sensing \<times> 'b" where
  "App_DoStartSgp41 now s b =
     (case Sgp41Runtime_Start now (ap_sgp41 s) b of (st, rt, b) \<Rightarrow>
      let s = s\<lparr>ap_sgp41 := rt\<rparr> in
      (if st = DRIVER_STATUS_OK then s else App_RefreshSgp41Diagnostics s, b))"

definition room_compensation :: "RoomState \<Rightarrow> Sgp41Compensation" where
  "room_compensation r =
     (if rs_environment_provider r \<noteq> ENVIRONMENT_PROVIDER_NONE \<and>
         rs_environment_temperature_valid r \<and> rs_environment_humidity_valid r
      then \<lparr>gc_temperature_c = rs_environment_temperature_c r,
            gc_relative_humidity_pct = rs_environment_humidity_pct r, gc_valid = True\<rparr>
      else \<lparr>gc_temperature_c = F32 False 0, gc_relative_humidity_pct = F32 False 0, gc_valid = False\<rparr>)"

definition App_DoPollSgp41 :: "u32 \<Rightarrow> 'b sensing \<Rightarrow> 'b \<Rightarrow> 'b sensing \<times> 'b" where
  "App_DoPollSgp41 now s b =
     (let had_valid = Sgp41Runtime_HasValidSample (ap_sgp41 s);
          rt = Sgp41Runtime_SetCompensation (Some (room_compensation (ap_room s))) (ap_sgp41 s) in
      case Sgp41Runtime_Poll now rt b of (rt, b) \<Rightarrow>
      let s = App_RefreshSgp41Diagnostics (s\<lparr>ap_sgp41 := rt\<rparr>);
          s = (if Sgp41Runtime_HasValidSample rt
               then let m = gr_last_sample rt in
                 upd_room (RoomState_UpdateSgp41 (f32_of_int (uint (gm_raw_voc m))) True
                   (f32_of_int (uint (gm_raw_nox m))) True
                   (f32_of_int (sint (gr_voc_index rt))) (Sgp41Runtime_HasValidVocIndex rt)
                   (f32_of_int (sint (gr_nox_index rt))) (Sgp41Runtime_HasValidNoxIndex rt) now) s
               else if had_valid then upd_room (RoomState_InvalidateSgp41 now) s else s)
      in (if gr_state rt = DEVICE_STATE_ERROR \<and> had_valid
          then upd_room (RoomState_InvalidateSgp41 now) s else s, b))"

section \<open>The display\<close>

definition App_DoProbeDisplay :: "u32 \<Rightarrow> 'b sensing \<Rightarrow> 'b \<Rightarrow> 'b sensing \<times> 'b" where
  "App_DoProbeDisplay now s b =
     (if probe_held (ap_disp_absent s) (ap_disp_next_probe_ms s) now
      then (upd_disp (set_dr_state DEVICE_STATE_NOT_FOUND) s, b)
      else case Display_Probe (ap_i2c_bus s) b of (found, b) \<Rightarrow>
      case found of
        Some addr \<Rightarrow>
          (upd_disp (set_dr_state DEVICE_STATE_INITIALIZING)
             (s\<lparr>ap_disp_absent := 0, ap_display_addr := addr, ap_display_addr_valid := True\<rparr>), b)
      | None \<Rightarrow>
          let absent = RecoveryPolicy_TrackAbsence (ap_disp_absent s) True in
          (upd_disp (set_dr_state DEVICE_STATE_NOT_FOUND)
             (s\<lparr>ap_disp_absent := absent, ap_disp_next_probe_ms := now + RecoveryPolicy_BackoffMs absent,
                ap_display_addr_valid := False\<rparr>), b))"

definition App_DoInitDisplay :: "u32 \<Rightarrow> 'b sensing \<Rightarrow> 'b \<Rightarrow> 'b sensing \<times> 'b" where
  "App_DoInitDisplay now s b =
     (let s = upd_disp (\<lambda>rt. rt\<lparr>dr_init_attempts := dr_init_attempts rt + 1\<rparr>) s in
      if \<not> ap_display_addr_valid s then (upd_disp (set_dr_state DEVICE_STATE_ERROR) s, b)
      else case Display_Init (ap_display s) (ap_i2c_bus s) (ap_display_addr s) DISPLAY_CONTROLLER_SH1106 b of
        (ok, dev, b) \<Rightarrow>
        let s = s\<lparr>ap_display := dev\<rparr> in
        if ok then (upd_disp (DeviceRuntime_RecordSuccess now \<circ> set_dr_state DEVICE_STATE_READY) s, b)
        else (upd_disp (\<lambda>rt. DeviceRuntime_RecordFailure now (set_dr_state DEVICE_STATE_ERROR
                (rt\<lparr>dr_init_failures := dr_init_failures rt + 1\<rparr>))) s, b))"

text \<open>
  The casts of a \<open>float\<close> to an integer truncate. The values come from integers of the width, so
  the range is never left; there the definitions take the end of the range, and zero for a NaN.
\<close>

definition f32_truncated :: "int \<Rightarrow> int \<Rightarrow> f32 \<Rightarrow> int" where
  "f32_truncated lo hi v =
     (case v of F32 neg m \<Rightarrow> max lo (min hi (if neg then - \<lfloor>m\<rfloor> else \<lfloor>m\<rfloor>))
      | F32_Inf neg \<Rightarrow> (if neg then lo else hi)
      | F32_NaN \<Rightarrow> 0)"

definition f32_to_ulong :: "f32 \<Rightarrow> u32" where
  "f32_to_ulong v = of_int (f32_truncated 0 (2 ^ 32 - 1) v)"

definition f32_to_long :: "f32 \<Rightarrow> 32 word" where
  "f32_to_long v = of_int (f32_truncated (- (2 ^ 31)) (2 ^ 31 - 1) v)"

text \<open>A line of the first page; the literals are shorter than the buffer of 22 bytes.\<close>

definition draw_line :: "u8 \<Rightarrow> bytes \<Rightarrow> 'b Display \<Rightarrow> 'b Display" where
  "draw_line y txt dev = Display_DrawString 0 y (snprintf_cut 22 txt) dev"

definition env_co2_line :: "DeviceState \<Rightarrow> RoomState \<Rightarrow> bytes" where
  "env_co2_line st room =
     (if st = DEVICE_STATE_READY \<and> rs_co2_valid room
      then ascii ''CO2: '' @ lu (f32_to_ulong (rs_co2_ppm room)) @ ascii '' ppm''
      else ascii ''CO2: -- ppm'')"

definition env_climate_line :: "RoomState \<Rightarrow> bytes" where
  "env_climate_line room =
     (if rs_environment_provider room \<noteq> ENVIRONMENT_PROVIDER_NONE \<and>
         rs_environment_temperature_valid room \<and> rs_environment_humidity_valid room
      then ascii ''RH: '' @ fixed_text 0 (rs_environment_humidity_pct room) @ ascii ''%  T: '' @
           fixed_text 1 (rs_environment_temperature_c room)
      else ascii ''RH: --  T: --'')"

definition env_light_line :: "DeviceState \<Rightarrow> RoomState \<Rightarrow> bytes" where
  "env_light_line st room =
     (if st = DEVICE_STATE_READY \<and> rs_illuminance_valid room
      then ascii ''Light: '' @ fixed_text 0 (rs_illuminance_lux room) @ ascii '' lx''
      else if st = DEVICE_STATE_READY then ascii ''Light: ---''
      else if st = DEVICE_STATE_RECOVERING \<or> st = DEVICE_STATE_INITIALIZING \<or> st = DEVICE_STATE_PROBING
      then ascii ''Light: ---''
      else ascii ''Light: N/A'')"

definition App_RenderDisplayPageEnv :: "'b sensing \<Rightarrow> 'b Display" where
  "App_RenderDisplayPageEnv s =
     (let room = ap_room s; dev = Display_Clear (ap_display s);
          dev = draw_line 0 (ascii ''Room Sensor'') dev;
          dev = draw_line 16 (env_co2_line (dr_state (ap_co2_rt s)) room) dev;
          dev = draw_line 32 (env_climate_line room) dev
      in draw_line 48 (env_light_line (dr_state (ap_light_rt s)) room) dev)"

definition App_RenderGasLine :: "string \<Rightarrow> bool \<Rightarrow> bool \<Rightarrow> 32 word \<Rightarrow> u8 \<Rightarrow> 'b Display \<Rightarrow> 'b Display" where
  "App_RenderGasLine label index_valid raw_valid v line_y dev =
     Display_DrawString 0 line_y
       (DisplayPages_FormatGasLine 22 label v (DisplayPages_GasState index_valid raw_valid)) dev"

definition App_RenderDisplayPageAirQuality :: "'b sensing \<Rightarrow> 'b Display" where
  "App_RenderDisplayPageAirQuality s =
     (let room = ap_room s; dev = Display_Clear (ap_display s);
          dev = Display_DrawString 0 0 (ascii ''Air Quality'') dev;
          dev = App_RenderGasLine ''VOC'' (rs_voc_index_valid room) (rs_voc_raw_valid room)
                  (f32_to_long (rs_voc_index room)) 16 dev
      in App_RenderGasLine ''NOx'' (rs_nox_index_valid room) (rs_nox_raw_valid room)
           (f32_to_long (rs_nox_index room)) 32 dev)"

definition App_RenderDisplayPagePressure :: "'b sensing \<Rightarrow> 'b Display" where
  "App_RenderDisplayPagePressure s =
     (let room = ap_room s; dev = Display_Clear (ap_display s);
          dev = Display_DrawString 0 0 (ascii ''Pressure'') dev;
          dev = Display_DrawString 0 16
                  (DisplayPages_FormatPressure 22 (rs_barometric_pressure_pa room)
                     (rs_barometric_pressure_valid room)) dev
      in case rs_barometric_provider room of
           BAROMETER_PROVIDER_BMP390 \<Rightarrow> Display_DrawString 0 32 (ascii ''BMP390'') dev
         | BAROMETER_PROVIDER_BMP380 \<Rightarrow> Display_DrawString 0 32 (ascii ''BMP380'') dev
         | BAROMETER_PROVIDER_NONE \<Rightarrow> dev)"

definition App_DoUpdateDisplay :: "u32 \<Rightarrow> 'b sensing \<Rightarrow> 'b \<Rightarrow> 'b sensing \<times> 'b" where
  "App_DoUpdateDisplay now s b =
     (case DisplayPages_Advance now (ap_display_page_switch_ms s) (ap_display_page s) of (page, switched) \<Rightarrow>
      let s = s\<lparr>ap_display_page := page, ap_display_page_switch_ms := switched\<rparr>;
          s = s\<lparr>ap_display :=
                 (if page = DISPLAY_PAGE_AIR_QUALITY then App_RenderDisplayPageAirQuality s
                  else if page = DISPLAY_PAGE_PRESSURE then App_RenderDisplayPagePressure s
                  else App_RenderDisplayPageEnv s)\<rparr> in
      case Display_Update (ap_display s) b of (st, b) \<Rightarrow>
      if st = DRIVER_STATUS_OK
      then (upd_disp (\<lambda>rt. DeviceRuntime_RecordSuccess now (rt\<lparr>dr_consecutive_errors := 0\<rparr>)) s, b)
      else let s = upd_disp (DeviceRuntime_RecordFailure now) s in
        (if dr_consecutive_errors (ap_disp_rt s) \<ge> CONSECUTIVE_ERROR_THRESHOLD
         then upd_disp (set_dr_state DEVICE_STATE_ERROR) s else s, b))"

section \<open>Recovery\<close>

text \<open>What the runtimes tell the monitor of the bus.\<close>

definition app_report_health :: "u32 \<Rightarrow> 'b sensing \<Rightarrow> 'b sensing" where
  "app_report_health now s =
     (let h = ap_bus_health s;
          h = I2cBusHealth_MarkHealth h 2 (Scd41Runtime_HasValidSample (ap_scd41 s));
          h = I2cBusHealth_MarkHealth h 3 (Sht45Runtime_HasValidSample (ap_sht45 s));
          h = I2cBusHealth_MarkHealth h 4 (bmp3_HasValidSample (ap_bmp390 s));
          h = I2cBusHealth_MarkHealth h 5 (Sgp41Runtime_HasValidSample (ap_sgp41 s));
          h = I2cBusHealth_MarkHealth h 6 (Bmp380Runtime_HasValidSample (ap_bmp380 s));
          h = snd (I2cBusHealth_Report h 2 (Scd41Runtime_LastError (ap_scd41 s)) now);
          h = snd (I2cBusHealth_Report h 3 (Sht45Runtime_LastError (ap_sht45 s)) now);
          h = snd (I2cBusHealth_Report h 4 (bmp3_LastError (ap_bmp390 s)) now);
          h = snd (I2cBusHealth_Report h 5 (Sgp41Runtime_LastError (ap_sgp41 s)) now);
          h = snd (I2cBusHealth_Report h 6 (Bmp380Runtime_LastError (ap_bmp380 s)) now)
      in s\<lparr>ap_bus_health := h\<rparr>)"

definition app_reset_devices :: "'b sensing \<Rightarrow> 'b sensing" where
  "app_reset_devices s =
     upd_light (set_dr_state DEVICE_STATE_NOT_FOUND) (upd_disp (set_dr_state DEVICE_STATE_NOT_FOUND)
       (s\<lparr>ap_veml_absent := 0, ap_disp_absent := 0, ap_veml := (ap_veml s)\<lparr>vd_initialized := 0\<rparr>,
          ap_display := (ap_display s)\<lparr>dd_initialized := 0\<rparr>, ap_display_addr_valid := False,
          ap_scd41 := Scd41Runtime_Recover (ap_scd41 s), ap_sht45 := Sht45Runtime_Recover (ap_sht45 s),
          ap_bmp390 := bmp3_Recover (ap_bmp390 s), ap_sgp41 := Sgp41Runtime_Recover (ap_sgp41 s),
          ap_bmp380 := Bmp380Runtime_Recover (ap_bmp380 s)\<rparr>))"

definition app_refresh_diagnostics :: "'b sensing \<Rightarrow> 'b sensing" where
  "app_refresh_diagnostics s =
     App_RefreshBmp380Diagnostics (App_RefreshSgp41Diagnostics (App_RefreshBmp390Diagnostics
       (App_RefreshSht45Diagnostics (App_RefreshScd41Diagnostics s))))"

definition app_recover_bus :: "u32 \<Rightarrow> 'b sensing \<Rightarrow> 'b \<Rightarrow> 'b sensing \<times> 'b" where
  "app_recover_bus now s b =
     (if I2cBusHealth_ShouldRecover (ap_bus_health s) \<and>
         I2cBusHealth_RecoveryEligible (ap_bus_health s) now \<and> ap_i2c_bus s \<noteq> None
      then let s = s\<lparr>ap_bus_health := I2cBusHealth_BeginRecovery (ap_bus_health s) now\<rparr> in
        case I2cBus_Recover (ap_i2c_bus s) b of (rs, b) \<Rightarrow>
        (app_refresh_diagnostics
           (if rs = DRIVER_STATUS_OK
            then app_reset_devices (s\<lparr>ap_bus_health := I2cBusHealth_OnRecoverySuccess (ap_bus_health s)\<rparr>)
            else s\<lparr>ap_bus_health := I2cBusHealth_OnRecoveryFailure (ap_bus_health s)\<rparr>), b)
      else (s, b))"

text \<open>The states of the light sensor and of the display on the way back to READY.\<close>

definition retry_light_state :: "DeviceRuntime \<Rightarrow> DeviceRuntime" where
  "retry_light_state rt =
     (case dr_state rt of
        DEVICE_STATE_NOT_FOUND \<Rightarrow> rt\<lparr>dr_state := DEVICE_STATE_PROBING\<rparr>
      | DEVICE_STATE_RECOVERING \<Rightarrow> rt\<lparr>dr_state := DEVICE_STATE_PROBING\<rparr>
      | DEVICE_STATE_ERROR \<Rightarrow>
          rt\<lparr>dr_recovery_count := dr_recovery_count rt + 1, dr_state := DEVICE_STATE_RECOVERING\<rparr>
      | _ \<Rightarrow> rt)"

definition app_retry_light :: "u32 \<Rightarrow> 'b sensing \<Rightarrow> 'b sensing" where
  "app_retry_light now s =
     (let s = upd_light retry_light_state s in
      if dr_state (ap_light_rt s) \<noteq> DEVICE_STATE_READY \<or> vd_initialized (ap_veml s) = 0
      then upd_room (\<lambda>r. RoomState_UpdateIlluminance (rs_illuminance_lux r) False now r) s
      else s)"

definition app_probe_light_display :: "u32 \<Rightarrow> 'b sensing \<Rightarrow> 'b \<Rightarrow> 'b sensing \<times> 'b" where
  "app_probe_light_display now s b =
     (case (if dr_state (ap_light_rt s) = DEVICE_STATE_PROBING then App_DoProbeVeml now s b else (s, b)) of (s, b) \<Rightarrow>
      case (if dr_state (ap_light_rt s) = DEVICE_STATE_INITIALIZING then App_DoInitVeml now s b else (s, b)) of (s, b) \<Rightarrow>
      case (if dr_state (ap_disp_rt s) = DEVICE_STATE_PROBING then App_DoProbeDisplay now s b else (s, b)) of (s, b) \<Rightarrow>
      if dr_state (ap_disp_rt s) = DEVICE_STATE_INITIALIZING then App_DoInitDisplay now s b else (s, b))"

definition app_retry_scd41 :: "u32 \<Rightarrow> 'b sensing \<Rightarrow> 'b \<Rightarrow> 'b sensing \<times> 'b" where
  "app_retry_scd41 now s b =
     (case sr_state (ap_scd41 s) of
        DEVICE_STATE_NOT_FOUND \<Rightarrow> App_DoStartScd41 now s b
      | DEVICE_STATE_RECOVERING \<Rightarrow> App_DoStartScd41 now s b
      | DEVICE_STATE_ERROR \<Rightarrow>
          (upd_room (RoomState_InvalidateScd41 now)
             (App_RefreshScd41Diagnostics (s\<lparr>ap_scd41 := Scd41Runtime_Recover (ap_scd41 s)\<rparr>)), b)
      | _ \<Rightarrow> (s, b))"

definition app_retry_sht45 :: "u32 \<Rightarrow> 'b sensing \<Rightarrow> 'b \<Rightarrow> 'b sensing \<times> 'b" where
  "app_retry_sht45 now s b =
     (case hr_state (ap_sht45 s) of
        DEVICE_STATE_NOT_FOUND \<Rightarrow> App_DoStartSht45 now s b
      | DEVICE_STATE_RECOVERING \<Rightarrow> App_DoStartSht45 now s b
      | DEVICE_STATE_ERROR \<Rightarrow>
          (let s = upd_room (RoomState_InvalidateSht45 now) (App_RefreshSht45Diagnostics s) in
           (App_RefreshSht45Diagnostics (s\<lparr>ap_sht45 := Sht45Runtime_Recover (ap_sht45 s)\<rparr>), b))
      | _ \<Rightarrow> (s, b))"

definition app_retry_bmp390 :: "u32 \<Rightarrow> 'b sensing \<Rightarrow> 'b \<Rightarrow> 'b sensing \<times> 'b" where
  "app_retry_bmp390 now s b =
     (case br_state (ap_bmp390 s) of
        DEVICE_STATE_NOT_FOUND \<Rightarrow> App_DoStartBmp390 now s b
      | DEVICE_STATE_RECOVERING \<Rightarrow> App_DoStartBmp390 now s b
      | DEVICE_STATE_ERROR \<Rightarrow>
          (let s = upd_room (RoomState_InvalidateBmp390 now) (App_RefreshBmp390Diagnostics s) in
           (App_RefreshBmp390Diagnostics (s\<lparr>ap_bmp390 := bmp3_Recover (ap_bmp390 s)\<rparr>), b))
      | _ \<Rightarrow> (s, b))"

definition app_retry_bmp380 :: "u32 \<Rightarrow> 'b sensing \<Rightarrow> 'b \<Rightarrow> 'b sensing \<times> 'b" where
  "app_retry_bmp380 now s b =
     (case br_state (ap_bmp380 s) of
        DEVICE_STATE_NOT_FOUND \<Rightarrow> App_DoStartBmp380 now s b
      | DEVICE_STATE_RECOVERING \<Rightarrow> App_DoStartBmp380 now s b
      | DEVICE_STATE_ERROR \<Rightarrow>
          (let s = App_RefreshBmp380Diagnostics s in
           (App_RefreshBmp380Diagnostics (s\<lparr>ap_bmp380 := Bmp380Runtime_Recover (ap_bmp380 s)\<rparr>), b))
      | _ \<Rightarrow> (s, b))"

definition app_retry_sgp41 :: "u32 \<Rightarrow> 'b sensing \<Rightarrow> 'b \<Rightarrow> 'b sensing \<times> 'b" where
  "app_retry_sgp41 now s b =
     (case gr_state (ap_sgp41 s) of
        DEVICE_STATE_NOT_FOUND \<Rightarrow> App_DoStartSgp41 now s b
      | DEVICE_STATE_RECOVERING \<Rightarrow> App_DoStartSgp41 now s b
      | DEVICE_STATE_ERROR \<Rightarrow>
          (let s = upd_room (RoomState_InvalidateSgp41 now) (App_RefreshSgp41Diagnostics s) in
           (App_RefreshSgp41Diagnostics (s\<lparr>ap_sgp41 := Sgp41Runtime_Recover (ap_sgp41 s)\<rparr>), b))
      | _ \<Rightarrow> (s, b))"

definition retry_display_state :: "DeviceRuntime \<Rightarrow> DeviceRuntime" where
  "retry_display_state rt =
     (case dr_state rt of
        DEVICE_STATE_NOT_FOUND \<Rightarrow> rt\<lparr>dr_state := DEVICE_STATE_PROBING\<rparr>
      | DEVICE_STATE_ERROR \<Rightarrow>
          rt\<lparr>dr_recovery_count := dr_recovery_count rt + 1, dr_state := DEVICE_STATE_RECOVERING\<rparr>
      | DEVICE_STATE_RECOVERING \<Rightarrow> rt\<lparr>dr_state := DEVICE_STATE_PROBING\<rparr>
      | _ \<Rightarrow> rt)"

definition App_DoRetry :: "u32 \<Rightarrow> 'b sensing \<Rightarrow> 'b \<Rightarrow> 'b sensing \<times> 'b" where
  "App_DoRetry now s b =
     (case app_recover_bus now (app_report_health now s) b of (s, b) \<Rightarrow>
      case app_probe_light_display now (upd_disp retry_display_state (app_retry_light now s)) b of (s, b) \<Rightarrow>
      case app_retry_scd41 now s b of (s, b) \<Rightarrow>
      case app_retry_sht45 now s b of (s, b) \<Rightarrow>
      case app_retry_bmp390 now s b of (s, b) \<Rightarrow>
      case app_retry_bmp380 now s b of (s, b) \<Rightarrow>
      app_retry_sgp41 now s b)"

section \<open>The schedule of the devices\<close>

definition runtime_active :: "DeviceState \<Rightarrow> bool" where
  "runtime_active st \<longleftrightarrow>
     st = DEVICE_STATE_STARTING \<or> st = DEVICE_STATE_WAITING \<or> st = DEVICE_STATE_READY"

definition due_retry :: "u32 \<Rightarrow> ConfigStorageV1 \<Rightarrow> 'b sensing \<Rightarrow> 'b \<Rightarrow> 'b sensing \<times> 'b" where
  "due_retry now cs s b =
     (if now - ap_last_retry_ms s \<ge> cs_retry_period_ms cs
      then App_DoRetry now (s\<lparr>ap_last_retry_ms := now\<rparr>) b else (s, b))"

definition due_light :: "u32 \<Rightarrow> RoomSensorConfig \<Rightarrow> 'b sensing \<Rightarrow> 'b \<Rightarrow> 'b sensing \<times> 'b" where
  "due_light now cfg s b =
     (if now - ap_last_light_ms s \<ge> cs_light_period_ms (rsc_storage cfg)
      then let s = s\<lparr>ap_last_light_ms := now\<rparr> in
        (if dr_state (ap_light_rt s) = DEVICE_STATE_READY then App_DoReadLight now cfg s b else (s, b))
      else (s, b))"

definition due_scd41 :: "u32 \<Rightarrow> 'b sensing \<Rightarrow> 'b \<Rightarrow> 'b sensing \<times> 'b" where
  "due_scd41 now s b =
     (if now - ap_last_scd41_ms s \<ge> SCD41_RUNTIME_POLL_INTERVAL_MS
      then let s = s\<lparr>ap_last_scd41_ms := now\<rparr> in
        (if runtime_active (sr_state (ap_scd41 s)) then App_DoPollScd41 now s b else (s, b))
      else (s, b))"

definition due_sht45 :: "u32 \<Rightarrow> 'b sensing \<Rightarrow> 'b \<Rightarrow> 'b sensing \<times> 'b" where
  "due_sht45 now s b =
     (if now - ap_last_sht45_ms s \<ge> SHT45_RUNTIME_POLL_INTERVAL_MS
      then let s = s\<lparr>ap_last_sht45_ms := now\<rparr> in
        (if runtime_active (hr_state (ap_sht45 s)) then App_DoPollSht45 now s b else (s, b))
      else (s, b))"

definition due_bmp390 :: "u32 \<Rightarrow> 'b sensing \<Rightarrow> 'b \<Rightarrow> 'b sensing \<times> 'b" where
  "due_bmp390 now s b =
     (if now - ap_last_bmp390_ms s \<ge> BMP390_RUNTIME_POLL_INTERVAL_MS
      then let s = s\<lparr>ap_last_bmp390_ms := now\<rparr> in
        (if runtime_active (br_state (ap_bmp390 s)) then App_DoPollBmp390 now s b else (s, b))
      else (s, b))"

text \<open>The period of the BMP380 has the value of that of the BMP390.\<close>

definition due_bmp380 :: "u32 \<Rightarrow> 'b sensing \<Rightarrow> 'b \<Rightarrow> 'b sensing \<times> 'b" where
  "due_bmp380 now s b =
     (if now - ap_last_bmp380_ms s \<ge> BMP390_RUNTIME_POLL_INTERVAL_MS
      then let s = s\<lparr>ap_last_bmp380_ms := now\<rparr> in
        (if runtime_active (br_state (ap_bmp380 s)) then App_DoPollBmp380 now s b else (s, b))
      else (s, b))"

definition due_sgp41 :: "u32 \<Rightarrow> 'b sensing \<Rightarrow> 'b \<Rightarrow> 'b sensing \<times> 'b" where
  "due_sgp41 now s b =
     (if now - ap_last_sgp41_ms s \<ge> SGP41_RUNTIME_POLL_INTERVAL_MS
      then let s = s\<lparr>ap_last_sgp41_ms := now\<rparr> in
        (if runtime_active (gr_state (ap_sgp41 s)) then App_DoPollSgp41 now s b else (s, b))
      else (s, b))"

definition due_display :: "u32 \<Rightarrow> ConfigStorageV1 \<Rightarrow> 'b sensing \<Rightarrow> 'b \<Rightarrow> 'b sensing \<times> 'b" where
  "due_display now cs s b =
     (if now - ap_last_display_ms s \<ge> cs_display_period_ms cs
      then let s = s\<lparr>ap_last_display_ms := now\<rparr> in
        (if dr_state (ap_disp_rt s) = DEVICE_STATE_READY then App_DoUpdateDisplay now s b else (s, b))
      else (s, b))"

definition app_sense :: "u32 \<Rightarrow> RoomSensorConfig \<Rightarrow> 'b sensing \<Rightarrow> 'b \<Rightarrow> 'b sensing \<times> 'b" where
  "app_sense now cfg s b =
     (case due_retry now (rsc_storage cfg) s b of (s, b) \<Rightarrow>
      case due_light now cfg s b of (s, b) \<Rightarrow>
      case due_scd41 now s b of (s, b) \<Rightarrow>
      case due_sht45 now s b of (s, b) \<Rightarrow>
      case due_bmp390 now s b of (s, b) \<Rightarrow>
      case due_bmp380 now s b of (s, b) \<Rightarrow>
      case due_sgp41 now (App_CommitEnvironmentRoomState now (App_CommitBarometricRoomState now s)) b of (s, b) \<Rightarrow>
      due_display now (rsc_storage cfg) s b)"

section \<open>The initial state\<close>

definition zero_sensing :: "'b I2cBus option \<Rightarrow> 'b sensing" where
  "zero_sensing bus =
     \<lparr>ap_veml = zero_veml, ap_display = zero_display, ap_scd41 = zero_scd41,
      ap_sht45 = zero_sht45, ap_bmp390 = zero_bmp3, ap_bmp380 = zero_bmp3, ap_sgp41 = zero_sgp41,
      ap_i2c_bus = bus, ap_light_rt = DeviceRuntime_Init DEVICE_STATE_UNKNOWN,
      ap_disp_rt = DeviceRuntime_Init DEVICE_STATE_UNKNOWN, ap_co2_rt = DeviceRuntime_Init DEVICE_STATE_UNKNOWN,
      ap_temp_rt = DeviceRuntime_Init DEVICE_STATE_UNKNOWN, ap_pres_rt = DeviceRuntime_Init DEVICE_STATE_UNKNOWN,
      ap_bmp390_rt = DeviceRuntime_Init DEVICE_STATE_UNKNOWN,
      ap_pres_rt_bmp380 = DeviceRuntime_Init DEVICE_STATE_UNKNOWN,
      ap_gas_rt = DeviceRuntime_Init DEVICE_STATE_UNKNOWN, ap_display_addr = 0, ap_display_addr_valid = False,
      ap_last_light_ms = 0, ap_last_display_ms = 0, ap_last_retry_ms = 0, ap_last_scd41_ms = 0,
      ap_last_sht45_ms = 0, ap_last_bmp390_ms = 0, ap_last_bmp380_ms = 0, ap_last_sgp41_ms = 0,
      ap_display_page_switch_ms = 0, ap_display_page = DISPLAY_PAGE_ENV,
      ap_bmp390_room_commit_ms = 0xFFFFFFFF, ap_sht45_room_commit_ms = 0xFFFFFFFF,
      ap_bus_health = I2cBusHealth_Init, ap_veml_absent = 0, ap_veml_next_probe_ms = 0,
      ap_disp_absent = 0, ap_disp_next_probe_ms = 0, ap_room = RoomState_Init\<rparr>"

text \<open>What \<open>App_Init\<close> does to the devices.\<close>

definition app_init_devices :: "u32 \<Rightarrow> 'b sensing \<Rightarrow> 'b sensing" where
  "app_init_devices now s =
     (let bus = ap_i2c_bus s in
      app_refresh_diagnostics
        (s\<lparr>ap_bus_health := I2cBusHealth_Init, ap_light_rt := DeviceRuntime_Init DEVICE_STATE_NOT_FOUND,
           ap_disp_rt := DeviceRuntime_Init DEVICE_STATE_NOT_FOUND,
           ap_scd41 := Scd41Runtime_Init now bus, ap_sht45 := Sht45Runtime_Init now bus,
           ap_bmp390 := bmp3_runtime_Init now bus, ap_bmp380 := Bmp380Runtime_Init now bus,
           ap_sgp41 := Sgp41Runtime_Init now bus, ap_room := RoomState_Init\<rparr>))"

end
