(* ===== verification/App.thy ===== *)
theory App
  imports App_Sensors Command Communication Mqtt_App
begin

text \<open>
  \<open>App/Src/app.c\<close> as a whole: \<open>App_Init\<close> and \<open>App_Run\<close> over the record \<open>app\<close>, which
  joins the statics of the loop with those of the modules it calls. \<open>sensing\<close> holds the devices, and
  \<open>device\<close> what the command services point to: the flash, the registration, the configuration, the
  identity, the self test, the boot session and the command status. The room of the command services
  is that of \<open>sensing\<close>, taken before a command runs. \<open>cmd_env\<close> holds what the platform gives.
  No network adapter is registered, as in the sources.
\<close>

section \<open>Self test\<close>

text \<open>The probes of \<open>SelfTest_Run\<close>, in their order on the bus.\<close>

definition self_test_probes :: "'b I2cBus option \<Rightarrow> 'b \<Rightarrow> driver_probes option \<times> 'b" where
  "self_test_probes bus b =
     (if bus = None then (None, b)
      else case VEML7700_Probe bus b of (veml, b) \<Rightarrow>
      case Display_Probe bus b of (disp, b) \<Rightarrow>
      case SCD41_Probe bus b of (scd41, b) \<Rightarrow>
      case SHT45_Probe bus b of (sht45, b) \<Rightarrow>
      case bmp3_Init (br_dev zero_bmp3) bus of (init390, dev390) \<Rightarrow>
      case (if init390 = DRIVER_STATUS_OK
            then case bmp3_Detect BMP390_CHIP_ID dev390 b of (st, _, b) \<Rightarrow> (st = DRIVER_STATUS_OK, b)
            else (False, b)) of (ok390, b) \<Rightarrow>
      case BMP380_Init (br_dev zero_bmp3) bus of (init380, dev380) \<Rightarrow>
      case (if init380 = DRIVER_STATUS_OK
            then case BMP380_Detect dev380 b of (st, _, b) \<Rightarrow> (st = DRIVER_STATUS_OK, b)
            else (False, b)) of (ok380, b) \<Rightarrow>
      case SGP41_Probe bus b of (sgp41, b) \<Rightarrow>
        (Some \<lparr>pr_veml7700 = veml, pr_display = (disp \<noteq> None), pr_scd41 = (scd41 = DRIVER_STATUS_OK),
               pr_sht45 = (sht45 = DRIVER_STATUS_OK), pr_bmp390 = ok390, pr_bmp380 = ok380,
               pr_sgp41 = (sgp41 = DRIVER_STATUS_OK)\<rparr>, b))"

section \<open>State\<close>

record AppStatus =
  aps_light_sensor :: DeviceRuntime
  aps_display :: DeviceRuntime
  aps_co2_sensor :: DeviceRuntime
  aps_temp_humidity_sensor :: DeviceRuntime
  aps_pressure_sensor :: DeviceRuntime
  aps_gas_sensor :: DeviceRuntime
  aps_health :: SystemHealthState
  aps_reset_cause :: ResetCause
  aps_watchdog_active :: bool
  aps_self_test :: "SelfTestReport option"
  aps_storage_initialized :: bool
  aps_provisioning_initialized :: bool
  aps_config_storage_status :: StorageReadStatus
  aps_identity_storage_status :: StorageReadStatus
  aps_config_storage_health :: StorageHealth
  aps_identity_storage_health :: StorageHealth
  aps_provisioning_storage_health :: StorageHealth
  aps_uptime_ms :: u32

record ('b, 'f, 'a) app =
  aw_sensing :: "'b sensing"
  aw_device :: "'f device"
  aw_identity :: identity
  aw_storage :: storage
  aw_lifecycle :: lifecycle
  aw_comm :: comm
  aw_debug :: DebugPortContext
  aw_mqtt :: "'a mqtt_app"
  aw_sequence :: u32
  aw_last_diag_ms :: u32
  aw_last_telemetry_ms :: u32
  aw_start_ms :: u32
  aw_health :: SystemHealthState
  aw_reset_cause :: ResetCause
  aw_watchdog_active :: bool
  aw_boot_id :: u64
  aw_device_id_valid :: bool
  aw_config_boot_load_status :: StorageReadStatus
  aw_identity_boot_load_status :: StorageReadStatus
  aw_storage_init_ok :: bool
  aw_status :: AppStatus

definition upd_cmd :: "(command \<Rightarrow> command) \<Rightarrow> ('b, 'f, 'a) app \<Rightarrow> ('b, 'f, 'a) app" where
  "upd_cmd f w =
     (let m = aw_mqtt w in w\<lparr>aw_mqtt := m\<lparr>mq_x := (fst (mq_x m), f (snd (mq_x m)))\<rparr>\<rparr>)"

definition upd_dev :: "('f device \<Rightarrow> 'f device) \<Rightarrow> ('b, 'f, 'a) app \<Rightarrow> ('b, 'f, 'a) app" where
  "upd_dev f w = w\<lparr>aw_device := f (aw_device w)\<rparr>"

definition on_sensing ::
  "('b sensing \<Rightarrow> 'b \<Rightarrow> 'b sensing \<times> 'b) \<Rightarrow> ('b, 'f, 'a) app \<Rightarrow> 'b \<Rightarrow> ('b, 'f, 'a) app \<times> 'b" where
  "on_sensing f w b = (case f (aw_sensing w) b of (s, b) \<Rightarrow> (w\<lparr>aw_sensing := s\<rparr>, b))"

definition printf_out :: "bytes \<Rightarrow> ('b, 'f, 'a) app \<Rightarrow> ('b, 'f, 'a) app" where
  "printf_out txt w = w\<lparr>aw_debug := (aw_debug w)\<lparr>dp_stdout := dp_stdout (aw_debug w) @ [txt]\<rparr>\<rparr>"

text \<open>The configuration that is in effect.\<close>

definition app_config :: "('b, 'f, 'a) app \<Rightarrow> RoomSensorConfig" where
  "app_config w = Config_Get (dv_config (aw_device w))"

section \<open>Health\<close>

definition App_Scd41HealthOk :: "DeviceState \<Rightarrow> bool" where
  "App_Scd41HealthOk st \<longleftrightarrow>
     st = DEVICE_STATE_STARTING \<or> st = DEVICE_STATE_WAITING \<or> st = DEVICE_STATE_READY"

definition App_Sht45HealthOk :: "DeviceState \<Rightarrow> bool" where
  "App_Sht45HealthOk st \<longleftrightarrow>
     st = DEVICE_STATE_STARTING \<or> st = DEVICE_STATE_WAITING \<or> st = DEVICE_STATE_READY"

definition App_Bmp390HealthOk :: "DeviceState \<Rightarrow> bool" where
  "App_Bmp390HealthOk st \<longleftrightarrow>
     st = DEVICE_STATE_STARTING \<or> st = DEVICE_STATE_WAITING \<or> st = DEVICE_STATE_READY"

definition App_BarometerHealthOk :: "DeviceState \<Rightarrow> DeviceState \<Rightarrow> bool" where
  "App_BarometerHealthOk st390 st380 \<longleftrightarrow> App_Bmp390HealthOk st390 \<or> App_Bmp390HealthOk st380"

definition App_Sgp41HealthOk :: "DeviceState \<Rightarrow> bool" where
  "App_Sgp41HealthOk st \<longleftrightarrow>
     st = DEVICE_STATE_STARTING \<or> st = DEVICE_STATE_WAITING \<or> st = DEVICE_STATE_READY"

definition persistence_redundant_ok :: "'f cmd_env \<Rightarrow> ('b, 'f, 'a) app \<Rightarrow> bool" where
  "persistence_redundant_ok env w \<longleftrightarrow> (let d = aw_device w; c = dv_config d; i = aw_identity w in
     Config_GetStorageHealth c = STORAGE_HEALTH_HEALTHY \<and>
     DeviceIdentity_GetStorageHealth i = STORAGE_HEALTH_HEALTHY \<and>
     Provisioning_GetStorageHealth (ce_ops env) (aw_storage w) (dv_flash d) = STORAGE_HEALTH_HEALTHY \<and>
     Config_GetStorageStatus c \<noteq> STORAGE_READ_CORRUPT \<and> Config_GetStorageStatus c \<noteq> STORAGE_READ_IO_ERROR \<and>
     DeviceIdentity_GetPersistenceStatus i \<noteq> STORAGE_READ_CORRUPT \<and>
     DeviceIdentity_GetPersistenceStatus i \<noteq> STORAGE_READ_IO_ERROR \<and>
     Provisioning_IsHealthy (dv_provisioning d))"

definition App_UpdateHealth :: "'f cmd_env \<Rightarrow> ('b, 'f, 'a) app \<Rightarrow> ('b, 'f, 'a) app" where
  "App_UpdateHealth env w =
     (let s = aw_sensing w in
      if ap_i2c_bus s = None then w\<lparr>aw_health := SYSTEM_HEALTH_FAULT\<rparr>
      else let
        runtime_ok = (dr_state (ap_light_rt s) = DEVICE_STATE_READY \<and> dr_state (ap_disp_rt s) = DEVICE_STATE_READY \<and>
                      aw_storage_init_ok w \<and> Storage_IsInitialized (aw_storage w));
        scd41_ok = App_Scd41HealthOk (sr_state (ap_scd41 s));
        sht45_ok = App_Sht45HealthOk (hr_state (ap_sht45 s));
        barometer_ok = App_BarometerHealthOk (br_state (ap_bmp390 s)) (br_state (ap_bmp380 s));
        sgp41_ok = App_Sgp41HealthOk (gr_state (ap_sgp41 s))
      in w\<lparr>aw_health :=
           (if runtime_ok \<and> persistence_redundant_ok env w \<and> scd41_ok \<and> sht45_ok \<and> barometer_ok \<and> sgp41_ok
            then SYSTEM_HEALTH_OK else SYSTEM_HEALTH_DEGRADED)\<rparr>)"

section \<open>Reports\<close>

definition App_FillCommandRuntimeStatus :: "'f cmd_env \<Rightarrow> ('b, 'f, 'a) app \<Rightarrow> ('b, 'f, 'a) app" where
  "App_FillCommandRuntimeStatus env w =
     (let d = aw_device w; pr = Provisioning_GetRuntime (dv_provisioning d) in
      upd_dev (\<lambda>d. d\<lparr>dv_runtime_status := Some
        \<lparr>crs_system_health = aw_health w,
         crs_storage_initialized = (aw_storage_init_ok w \<and> Storage_IsInitialized (aw_storage w)),
         crs_config_persistence = Config_GetStorageStatus (dv_config d),
         crs_config_storage_health = Config_GetStorageHealth (dv_config d),
         crs_identity_persistence = DeviceIdentity_GetPersistenceStatus (aw_identity w),
         crs_identity_storage_health = DeviceIdentity_GetStorageHealth (aw_identity w),
         crs_provisioning_state = ps_state (rt_status pr),
         crs_provisioning_persistence = rt_storage_status pr,
         crs_provisioning_storage_health =
           Provisioning_GetStorageHealth (ce_ops env) (aw_storage w) (dv_flash d)\<rparr>\<rparr>) w)"

definition App_GetStatus :: "'f cmd_env \<Rightarrow> u32 \<Rightarrow> ('b, 'f, 'a) app \<Rightarrow> ('b, 'f, 'a) app" where
  "App_GetStatus env now w =
     (let s = aw_sensing w; d = aw_device w in w\<lparr>aw_status :=
        \<lparr>aps_light_sensor = ap_light_rt s, aps_display = ap_disp_rt s, aps_co2_sensor = ap_co2_rt s,
         aps_temp_humidity_sensor = ap_temp_rt s, aps_pressure_sensor = ap_pres_rt s,
         aps_gas_sensor = ap_gas_rt s, aps_health = aw_health w, aps_reset_cause = aw_reset_cause w,
         aps_watchdog_active = aw_watchdog_active w, aps_self_test = dv_self_test d,
         aps_storage_initialized = (aw_storage_init_ok w \<and> Storage_IsInitialized (aw_storage w)),
         aps_provisioning_initialized = Provisioning_IsHealthy (dv_provisioning d),
         aps_config_storage_status = Config_GetStorageStatus (dv_config d),
         aps_identity_storage_status = DeviceIdentity_GetPersistenceStatus (aw_identity w),
         aps_config_storage_health = Config_GetStorageHealth (dv_config d),
         aps_identity_storage_health = DeviceIdentity_GetStorageHealth (aw_identity w),
         aps_provisioning_storage_health =
           Provisioning_GetStorageHealth (ce_ops env) (aw_storage w) (dv_flash d),
         aps_uptime_ms = now - aw_start_ms w\<rparr>\<rparr>)"

section \<open>Prints\<close>

definition ResetCauseStr :: "ResetCause \<Rightarrow> bytes" where
  "ResetCauseStr c = ascii
     (case c of RESET_CAUSE_POWER_ON \<Rightarrow> ''POWER_ON'' | RESET_CAUSE_SOFTWARE \<Rightarrow> ''SOFTWARE''
      | RESET_CAUSE_WATCHDOG \<Rightarrow> ''WATCHDOG'' | RESET_CAUSE_BROWNOUT \<Rightarrow> ''BROWNOUT''
      | RESET_CAUSE_EXTERNAL \<Rightarrow> ''EXTERNAL'' | RESET_CAUSE_UNKNOWN \<Rightarrow> ''UNKNOWN'')"

definition SelfTestResultStr :: "SelfTestResult \<Rightarrow> bytes" where
  "SelfTestResultStr r = ascii
     (case r of SELF_TEST_PASS \<Rightarrow> ''PASS'' | SELF_TEST_FAIL \<Rightarrow> ''FAIL'' | SELF_TEST_SKIPPED \<Rightarrow> ''SKIPPED''
      | SELF_TEST_DEGRADED \<Rightarrow> ''DEGRADED'' | SELF_TEST_NOT_RUN \<Rightarrow> ''NOT_RUN'')"

definition StorageReadStatus_Str :: "StorageReadStatus \<Rightarrow> bytes" where
  "StorageReadStatus_Str st = ascii
     (case st of STORAGE_READ_OK \<Rightarrow> ''OK'' | STORAGE_READ_NOT_FOUND \<Rightarrow> ''NOT_FOUND''
      | STORAGE_READ_CORRUPT \<Rightarrow> ''CORRUPT'' | STORAGE_READ_IO_ERROR \<Rightarrow> ''IO_ERROR''
      | STORAGE_READ_INVALID_ARGUMENT \<Rightarrow> ''INVALID_ARGUMENT'')"

definition StorageHealth_Str :: "StorageHealth \<Rightarrow> bytes" where
  "StorageHealth_Str h = ascii
     (case h of STORAGE_HEALTH_HEALTHY \<Rightarrow> ''HEALTHY'' | STORAGE_HEALTH_DEGRADED \<Rightarrow> ''DEGRADED''
      | STORAGE_HEALTH_DEGRADED_IO \<Rightarrow> ''DEGRADED_IO'' | STORAGE_HEALTH_CORRUPT \<Rightarrow> ''CORRUPT''
      | STORAGE_HEALTH_IO_ERROR \<Rightarrow> ''IO_ERROR'')"

text \<open>\<open>%.*f\<close>, with what it prints for values that are not finite, and \<open>%d\<close> of a flag.\<close>

definition float_text :: "nat \<Rightarrow> f32 \<Rightarrow> bytes" where
  "float_text d v =
     (case v of F32 _ _ \<Rightarrow> fixed_text d v | F32_Inf neg \<Rightarrow> ascii (if neg then ''-inf'' else ''inf'')
      | F32_NaN \<Rightarrow> ascii ''nan'')"

definition flag_text :: "bool \<Rightarrow> bytes" where
  "flag_text p = ascii (if p then ''1'' else ''0'')"

definition App_PrintBootDiag :: "('b, 'f, 'a) app \<Rightarrow> ('b, 'f, 'a) app" where
  "App_PrintBootDiag w =
     (let d = aw_device w; i = aw_identity w; c = dv_config d; cfg = app_config w;
          short_id = c_string (DeviceIdentity_GetShortId (Some (dv_identity d)) (replicate 16 0) 16);
          st = (case dv_self_test d of Some r \<Rightarrow> r | None \<Rightarrow> SelfTest_Init);
          res = SelfTestResultStr;
          w = printf_out (ascii ''BOOT Reset='' @ ResetCauseStr (aw_reset_cause w) @ [13, 10]) w;
          w = printf_out (ascii ''SELFTEST Platform='' @ res (st_platform st) @ ascii '' I2C='' @ res (st_i2c st) @
                ascii '' Storage='' @ res (st_storage st) @ ascii '' Config='' @ res (st_config st) @
                ascii '' ID='' @ res (st_identity st) @ ascii '' VEML='' @ res (st_light_sensor st) @
                ascii '' Disp='' @ res (st_display st) @ ascii '' CO2='' @ res (st_co2_sensor st) @
                ascii '' SHT45='' @ res (st_temp_humidity_sensor st) @
                ascii '' SGP41='' @ res (st_air_quality_sensor st) @ [10]) w;
          w = printf_out (ascii ''CONFIG boot_source='' @
                ascii (if aw_config_boot_load_status w = STORAGE_READ_OK then ''persisted'' else ''defaults'') @
                ascii '' cur=read='' @ StorageReadStatus_Str (Config_GetStorageStatus c) @
                ascii '' health='' @ StorageHealth_Str (Config_GetStorageHealth c) @
                ascii '' seq='' @ lu (cs_version (rsc_storage cfg)) @
                ascii '' calib='' @ float_text 3 (rc_light_calibration_factor (rsc_runtime cfg)) @
                ascii '' ID='' @ short_id @ [13, 10]) w;
          w = printf_out (ascii ''IDENTITY valid='' @ flag_text (aw_device_id_valid w) @ ascii '' boot_source='' @
                ascii (if aw_identity_boot_load_status w = STORAGE_READ_OK then ''persisted'' else ''derived'') @
                ascii '' cur=read='' @ StorageReadStatus_Str (DeviceIdentity_GetPersistenceStatus i) @
                ascii '' health='' @ StorageHealth_Str (DeviceIdentity_GetStorageHealth i) @ [13, 10]) w;
          w = printf_out (ascii ''TELEMETRY schema='' @ lu TELEMETRY_SCHEMA_VERSION @ ascii '' period='' @
                lu (cs_telemetry_period_ms (rsc_storage cfg)) @ [13, 10]) w;
          w = printf_out (ascii ''WDG active='' @ flag_text (aw_watchdog_active w) @ [13, 10]) w
      in printf_out (ascii ''Health='' @ lu (system_health_num (aw_health w)) @ [13, 10]) w)"

text \<open>The report of the diagnostics tick, line by line of the format.\<close>

definition comm_state_num :: "CommunicationState \<Rightarrow> u32" where
  "comm_state_num st =
     (case st of COMM_STATE_DISABLED \<Rightarrow> 0 | COMM_STATE_DISCONNECTED \<Rightarrow> 1 | COMM_STATE_CONNECTING \<Rightarrow> 2
      | COMM_STATE_READY \<Rightarrow> 3 | COMM_STATE_ERROR \<Rightarrow> 4)"

definition counters_text :: "DeviceRuntime \<Rightarrow> bytes" where
  "counters_text rt =
     ascii '' ops='' @ lu (dr_operation_successes rt) @ ascii '' err='' @ lu (dr_operation_failures rt) @
     ascii '' consec='' @ lu (dr_consecutive_errors rt) @ ascii '' rec='' @ lu (dr_recovery_count rt) @ [13, 10]"

definition state_text :: "string \<Rightarrow> DeviceRuntime \<Rightarrow> bytes" where
  "state_text label rt = ascii label @ ascii '' state='' @ lu (device_state_num (dr_state rt))"

definition diagnostics_text :: "u32 \<Rightarrow> ('b, 'f, 'a) app \<Rightarrow> bytes" where
  "diagnostics_text now w =
     (let s = aw_sensing w; r = ap_room s; d = aw_device w; cr = Communication_GetRuntime (aw_comm w) in
      ascii ''APP uptime='' @ lu (now - aw_start_ms w) @ [13, 10] @
      state_text ''LIGHT'' (ap_light_rt s) @ ascii '' room_lux='' @ float_text 0 (rs_illuminance_lux r) @
        counters_text (ap_light_rt s) @
      state_text ''DISPLAY'' (ap_disp_rt s) @ counters_text (ap_disp_rt s) @
      state_text ''CO2'' (ap_co2_rt s) @ ascii '' ppm='' @ float_text 0 (rs_co2_ppm r) @
        ascii '' valid='' @ flag_text (rs_co2_valid r) @ ascii '' T='' @ float_text 1 (rs_scd41_temperature_c r) @
        ascii '' RH='' @ float_text 1 (rs_scd41_humidity_pct r) @ counters_text (ap_co2_rt s) @
      state_text ''SHT45'' (ap_temp_rt s) @ ascii '' T='' @ float_text 1 (rs_sht45_temperature_c r) @
        ascii '' RH='' @ float_text 1 (rs_sht45_humidity_pct r) @
        ascii '' Tvalid='' @ flag_text (rs_sht45_temperature_valid r) @
        ascii '' RHvalid='' @ flag_text (rs_sht45_humidity_valid r) @ counters_text (ap_temp_rt s) @
      state_text ''SGP41'' (ap_gas_rt s) @ ascii '' voc_raw='' @ float_text 0 (rs_voc_raw r) @
        ascii '' nox_raw='' @ float_text 0 (rs_nox_raw r) @
        ascii '' voc_idx='' @ ld_text (f32_to_long (rs_voc_index r)) @
        ascii '' nox_idx='' @ ld_text (f32_to_long (rs_nox_index r)) @
        ascii '' valid='' @ flag_text (rs_voc_raw_valid r) @ ascii ''/'' @ flag_text (rs_voc_index_valid r) @
        ascii ''/'' @ flag_text (rs_nox_index_valid r) @ counters_text (ap_gas_rt s) @
      ascii ''HEALTH='' @ lu (system_health_num (aw_health w)) @ ascii '' WDG='' @ flag_text (aw_watchdog_active w) @
        ascii '' BUS_ATT='' @ lu (I2cBusHealth_GetBusRecoveryAttempts (ap_bus_health s)) @
        ascii '' SUC='' @ lu (I2cBusHealth_GetBusRecoverySuccesses (ap_bus_health s)) @
        ascii '' FAIL='' @ lu (I2cBusHealth_GetBusRecoveryFailures (ap_bus_health s)) @
        ascii '' CFG read='' @ StorageReadStatus_Str (Config_GetStorageStatus (dv_config d)) @
        ascii '' health='' @ StorageHealth_Str (Config_GetStorageHealth (dv_config d)) @
      ascii '' IDENT read='' @ StorageReadStatus_Str (DeviceIdentity_GetPersistenceStatus (aw_identity w)) @
        ascii '' health='' @ StorageHealth_Str (DeviceIdentity_GetStorageHealth (aw_identity w)) @
        ascii '' COMM='' @ lu (comm_state_num (cr_state cr)) @ ascii '' sent='' @ lu (cr_send_successes cr) @
        ascii '' failed='' @ lu (cr_send_failures cr) @ [13, 10])"

section \<open>The boot sequence\<close>

definition lc_to :: "u32 \<Rightarrow> LifecycleState \<Rightarrow> ('b, 'f, 'a) app \<Rightarrow> ('b, 'f, 'a) app" where
  "lc_to now nxt w = w\<lparr>aw_lifecycle := snd (DeviceLifecycle_TransitionTo now nxt (aw_lifecycle w))\<rparr>"

definition app_load_configuration :: "'f cmd_env \<Rightarrow> ('b, 'f, 'a) app \<Rightarrow> ('b, 'f, 'a) app" where
  "app_load_configuration env w =
     (let d = aw_device w in
      case Config_Load (ce_ops env) (aw_storage w) (dv_flash d) (dv_config d) of (ok, c) \<Rightarrow>
      let c = (if \<not> ok then Config_LoadDefaults c else c)
      in upd_dev (\<lambda>d. d\<lparr>dv_config := c\<rparr>) (w\<lparr>aw_config_boot_load_status := Config_GetStorageStatus c\<rparr>))"

definition app_load_identity :: "'f cmd_env \<Rightarrow> ('b, 'f, 'a) app \<Rightarrow> ('b, 'f, 'a) app" where
  "app_load_identity env w =
     (let d = aw_device w in
      case DeviceIdentity_Load (ce_ops env) (aw_storage w) (dv_flash d) (aw_identity w) (Some (dv_identity d)) of
        (ok, i, ident) \<Rightarrow>
      let w = upd_dev (\<lambda>d. d\<lparr>dv_identity := the ident\<rparr>) (w\<lparr>aw_identity := i\<rparr>);
          w = (if ok then w\<lparr>aw_device_id_valid := True\<rparr>
               else case DeviceIdentity_Derive (ce_uid env) of (derived_ok, derived) \<Rightarrow>
                 if \<not> derived_ok then w
                 else let w = upd_dev (\<lambda>d. d\<lparr>dv_identity := derived\<rparr>) (w\<lparr>aw_device_id_valid := True\<rparr>) in
                 if DeviceIdentity_GetLoadStatus (aw_identity w) = STORAGE_READ_NOT_FOUND
                 then case DeviceIdentity_Save (ce_ops env) (aw_storage w) (dv_flash (aw_device w))
                        (aw_identity w) (Some derived) of
                      (_, f, i) \<Rightarrow> upd_dev (\<lambda>d. d\<lparr>dv_flash := f\<rparr>) (w\<lparr>aw_identity := i\<rparr>)
                 else w)
      in w\<lparr>aw_identity_boot_load_status := DeviceIdentity_GetLoadStatus (aw_identity w)\<rparr>)"

definition App_BootEnsureRedundancy :: "'f cmd_env \<Rightarrow> ('b, 'f, 'a) app \<Rightarrow> ('b, 'f, 'a) app" where
  "App_BootEnsureRedundancy env w =
     (let d = aw_device w in
      case Config_EnsureRedundancy (ce_ops env) (aw_storage w) (dv_flash d) (dv_config d) of (_, f, c) \<Rightarrow>
      case DeviceIdentity_EnsureRedundancy (ce_ops env) (aw_storage w) f (aw_identity w) of (_, f, i) \<Rightarrow>
      upd_dev (\<lambda>d. d\<lparr>dv_flash := f, dv_config := c\<rparr>) (w\<lparr>aw_identity := i\<rparr>))"

definition app_boot_session :: "'f cmd_env \<Rightarrow> ('b, 'f, 'a) app \<Rightarrow> ('b, 'f, 'a) app" where
  "app_boot_session env w =
     (case BootSession_Get (\<lambda>p. (snd (Platform_CreateBootId (ce_uid env) (ce_reset_cause env)), p))
             (dv_boot (aw_device w)) () of
        (boot_id, bs, _) \<Rightarrow> upd_dev (\<lambda>d. d\<lparr>dv_boot := bs\<rparr>) (w\<lparr>aw_boot_id := boot_id\<rparr>))"

definition app_save_defaults :: "'f cmd_env \<Rightarrow> ('b, 'f, 'a) app \<Rightarrow> ('b, 'f, 'a) app option" where
  "app_save_defaults env w =
     (if aw_config_boot_load_status w = STORAGE_READ_NOT_FOUND
      then let d = aw_device w in
        case Config_Save (ce_ops env) (aw_storage w) (dv_flash d) (dv_config d) of None \<Rightarrow> None
        | Some (_, f, c) \<Rightarrow> Some (upd_dev (\<lambda>d. d\<lparr>dv_flash := f, dv_config := c\<rparr>) w)
      else Some w)"

definition app_create_boot_session :: "'f cmd_env \<Rightarrow> ('b, 'f, 'a) app \<Rightarrow> ('b, 'f, 'a) app option" where
  "app_create_boot_session env w = do {
     w \<leftarrow> app_save_defaults env (app_boot_session env w);
     Some (App_BootEnsureRedundancy env w)
   }"

definition app_self_test :: "'f cmd_env \<Rightarrow> ('b, 'f, 'a) app \<Rightarrow> 'b \<Rightarrow> ('b, 'f, 'a) app \<times> 'b" where
  "app_self_test env w b =
     (case self_test_probes (ap_i2c_bus (aw_sensing w)) b of (p, b) \<Rightarrow>
      (upd_dev (\<lambda>d. d\<lparr>dv_self_test := Some (SelfTest_Run (ce_ops env) (aw_storage w) (dv_flash d) p)\<rparr>) w, b))"

text \<open>\<open>watchdog\<close> is what \<open>Platform_WatchdogInit\<close> returns.\<close>

definition app_lifecycle ::
  "'f cmd_env \<Rightarrow> bool \<Rightarrow> u32 \<Rightarrow> ('b, 'f, 'a) app \<Rightarrow> 'b \<Rightarrow> (('b, 'f, 'a) app \<times> 'b) option" where
  "app_lifecycle env watchdog now w b =
     (case DeviceLifecycle_GetState (aw_lifecycle w) of
        LIFECYCLE_BOOT \<Rightarrow> Some (lc_to now LIFECYCLE_LOAD_CONFIGURATION w, b)
      | LIFECYCLE_LOAD_CONFIGURATION \<Rightarrow> Some (lc_to now LIFECYCLE_LOAD_IDENTITY (app_load_configuration env w), b)
      | LIFECYCLE_LOAD_IDENTITY \<Rightarrow> Some (lc_to now LIFECYCLE_CREATE_BOOT_SESSION (app_load_identity env w), b)
      | LIFECYCLE_CREATE_BOOT_SESSION \<Rightarrow> do {
          w \<leftarrow> app_create_boot_session env w;
          Some (lc_to now LIFECYCLE_SELF_TEST w, b)
        }
      | LIFECYCLE_SELF_TEST \<Rightarrow>
          (case app_self_test env w b of (w, b) \<Rightarrow> Some (lc_to now LIFECYCLE_PROBE_PERIPHERALS w, b))
      | LIFECYCLE_PROBE_PERIPHERALS \<Rightarrow>
          (case on_sensing (App_DoRetry now) w b of (w, b) \<Rightarrow>
           Some (lc_to now LIFECYCLE_INITIALIZE_DRIVERS (w\<lparr>aw_watchdog_active := watchdog\<rparr>), b))
      | LIFECYCLE_INITIALIZE_DRIVERS \<Rightarrow>
          (case on_sensing (App_DoRetry now) w b of (w, b) \<Rightarrow> Some (lc_to now LIFECYCLE_READY w, b))
      | LIFECYCLE_READY \<Rightarrow> Some (lc_to now LIFECYCLE_OPERATIONAL (App_PrintBootDiag (App_UpdateHealth env w)), b)
      | _ \<Rightarrow> Some (w, b))"

section \<open>The scheduler\<close>

definition app_diagnostics :: "'f cmd_env \<Rightarrow> u32 \<Rightarrow> ('b, 'f, 'a) app \<Rightarrow> ('b, 'f, 'a) app" where
  "app_diagnostics env now w =
     (if now - aw_last_diag_ms w \<ge> cs_diagnostics_period_ms (rsc_storage (app_config w))
      then let w = App_UpdateHealth env (w\<lparr>aw_last_diag_ms := now\<rparr>) in printf_out (diagnostics_text now w) w
      else w)"

definition app_snapshot_input :: "u32 \<Rightarrow> ('b, 'f, 'a) app \<Rightarrow> TelemetrySnapshotInput" where
  "app_snapshot_input now w =
     \<lparr>tsi_device_id = Some (di_device_uuid (dv_identity (aw_device w))), tsi_boot_id = aw_boot_id w,
      tsi_room = Some (ap_room (aw_sensing w)), tsi_health = aw_health w, tsi_uptime_ms = now - aw_start_ms w\<rparr>"

definition app_telemetry :: "u32 \<Rightarrow> ('b, 'f, 'a) app \<Rightarrow> ('b, 'f, 'a) app option" where
  "app_telemetry now w =
     (if now - aw_last_telemetry_ms w \<ge> cs_telemetry_period_ms (rsc_storage (app_config w))
      then let w = w\<lparr>aw_last_telemetry_ms := now\<rparr> in
        if \<not> aw_device_id_valid w then Some w
        else case Telemetry_CreateSnapshot (Some (app_snapshot_input now w)) (aw_sequence w) of (snap, seqn) \<Rightarrow>
        let w = w\<lparr>aw_sequence := seqn\<rparr> in
        if snap = None then Some w
        else let w = w\<lparr>aw_comm := Communication_SubmitSnapshot snap (aw_comm w)\<rparr> in
        case Telemetry_Serialize snap (Some TELEMETRY_SERIALIZED_MAX_SIZE) of (ss, out) \<Rightarrow>
        if ss = SERIALIZE_OK
        then do {
          m \<leftarrow> MqttApp_PublishTelemetry (Some out) ((aw_mqtt w)\<lparr>mq_now := now\<rparr>);
          Some (w\<lparr>aw_mqtt := m\<rparr>)
        }
        else Some w
      else Some w)"

definition app_mqtt ::
  "'a NetworkTransportAdapter \<Rightarrow> u32 \<Rightarrow> ('b, 'f, 'a) app \<Rightarrow> ('b, 'f, 'a) app option" where
  "app_mqtt ad now w = do {
     (_, m) \<leftarrow> MqttApp_Run ad ((aw_mqtt w)\<lparr>mq_now := now\<rparr>);
     Some (w\<lparr>aw_mqtt := m\<rparr>)
   }"

text \<open>The port of the telemetry is the debug port, registered by \<open>App_Init\<close>.\<close>

definition debug_port :: "DebugPortContext CommunicationPort" where
  "debug_port = fst (CommunicationDebug_Init \<lparr>dp_send_count = 0, dp_stdout = []\<rparr>)"

definition app_communication :: "u32 \<Rightarrow> ('b, 'f, 'a) app \<Rightarrow> ('b, 'f, 'a) app" where
  "app_communication now w =
     (case Communication_Run debug_port now (aw_debug w) (aw_comm w) of (ctx, c) \<Rightarrow>
      w\<lparr>aw_debug := ctx, aw_comm := c\<rparr>)"

text \<open>Whether the waiting command makes a self test on the bus.\<close>

definition runs_self_test :: "command \<Rightarrow> bool" where
  "runs_self_test c \<longleftrightarrow> cm_initialized c \<and> cm_has_pending c \<and> \<not> cm_busy c \<and>
     (case CommandParser_Parse (Some (take (cm_input_pos c) (cm_input_buf c))) of
        None \<Rightarrow> False
      | Some req \<Rightarrow> rq_type req = COMMAND_SELF_TEST \<and> CommandAuthorization_IsAllowed (rq_type req) (cm_pending_trust c))"

text \<open>A reply goes to the MQTT bridge, where it is registered.\<close>

fun send_replies :: "bytes list \<Rightarrow> 'a mqtt_app \<Rightarrow> 'a mqtt_app option" where
  "send_replies [] m = Some m"
| "send_replies (r # rs) m = do { (_, m) \<leftarrow> MqttApp_PortSend (Some r) m; send_replies rs m }"

definition app_command ::
  "'f cmd_env \<Rightarrow> u32 \<Rightarrow> ('b, 'f, 'a) app \<Rightarrow> 'b \<Rightarrow> (('b, 'f, 'a) app \<times> 'b) option" where
  "app_command env now w b =
     (let cmd = snd (mq_x (aw_mqtt w)); s = aw_sensing w in
      case (if runs_self_test cmd then self_test_probes (ap_i2c_bus s) b else (None, b)) of (probes, b) \<Rightarrow> do {
        (replies, cmd, d) \<leftarrow> Command_Run (env\<lparr>ce_storage := aw_storage w, ce_bus := probes\<rparr>) cmd
                               ((aw_device w)\<lparr>dv_room := ap_room s\<rparr>);
        m \<leftarrow> send_replies replies ((aw_mqtt w)\<lparr>mq_x := (fst (mq_x (aw_mqtt w)), cmd), mq_now := now\<rparr>);
        Some (w\<lparr>aw_device := d, aw_mqtt := m\<rparr>, b)
      })"

definition app_schedule ::
  "'a NetworkTransportAdapter \<Rightarrow> 'f cmd_env \<Rightarrow> u32 \<Rightarrow> ('b, 'f, 'a) app \<Rightarrow> 'b \<Rightarrow>
   (('b, 'f, 'a) app \<times> 'b) option" where
  "app_schedule ad env now w b =
     (case on_sensing (app_sense now (app_config w)) w b of (w, b) \<Rightarrow> do {
        w \<leftarrow> app_telemetry now (app_diagnostics env now w);
        w \<leftarrow> app_mqtt ad now w;
        app_command env now
          (App_GetStatus env now (App_FillCommandRuntimeStatus env (app_communication now w))) b
      })"

definition app_update_command :: "u32 \<Rightarrow> ('b, 'f, 'a) app \<Rightarrow> ('b, 'f, 'a) app" where
  "app_update_command now w =
     (let s = aw_sensing w in
      upd_cmd (Command_UpdateRuntime (now - aw_start_ms w) (aw_watchdog_active w) (Some (ap_light_rt s))
        (Some (ap_disp_rt s)) (Some (ap_co2_rt s)) (aw_reset_cause w)) w)"

definition App_Run ::
  "'a NetworkTransportAdapter \<Rightarrow> 'f cmd_env \<Rightarrow> bool \<Rightarrow> u32 \<Rightarrow> ('b, 'f, 'a) app \<Rightarrow> 'b \<Rightarrow>
   (('b, 'f, 'a) app \<times> 'b) option" where
  "App_Run ad env watchdog now w b = do {
     (w, b) \<leftarrow> app_lifecycle env watchdog now (app_update_command now w) b;
     if \<not> DeviceLifecycle_IsOperational (aw_lifecycle w) then Some (w, b)
     else app_schedule ad env now w b
   }"

section \<open>Initialization\<close>

definition App_SetI2C :: "'b I2cBus option \<Rightarrow> ('b, 'f, 'a) app \<Rightarrow> ('b, 'f, 'a) app" where
  "App_SetI2C bus w = w\<lparr>aw_sensing := (aw_sensing w)\<lparr>ap_i2c_bus := bus\<rparr>\<rparr>"

definition app_init_services :: "'f cmd_env \<Rightarrow> u32 \<Rightarrow> ('b, 'f, 'a) app \<Rightarrow> ('b, 'f, 'a) app" where
  "app_init_services env now w =
     (case Storage_Init (ce_ops env) (dv_flash (aw_device w)) of (ok, st) \<Rightarrow>
      let pv = snd (Provisioning_Init (ce_ops env) st (dv_flash (aw_device w)));
          w = upd_dev (\<lambda>d. d\<lparr>dv_self_test := Some SelfTest_Init, dv_provisioning := pv\<rparr>)
                (w\<lparr>aw_storage_init_ok := ok, aw_storage := st\<rparr>)
      in w\<lparr>aw_lifecycle := DeviceLifecycle_Init now LIFECYCLE_BOOT\<rparr>)"

definition app_init_ports :: "'f cmd_env \<Rightarrow> u32 \<Rightarrow> ('b, 'f, 'a) app \<Rightarrow> ('b, 'f, 'a) app" where
  "app_init_ports env now w =
     (case CommunicationDebug_Init (aw_debug w) of (port, ctx) \<Rightarrow>
      let w = w\<lparr>aw_debug := ctx, aw_comm := Communication_SetPort (Some (port, ctx)) Communication_Init\<rparr>;
          w = App_GetStatus env now (App_FillCommandRuntimeStatus env w);
          w = upd_cmd (snd \<circ> Command_Init (Some zero_services)) w;
          m = aw_mqtt w;
          m = MqttApp_Init now False None (Some (dv_identity (aw_device w))) (mq_a m) (snd (mq_x m));
          w = w\<lparr>aw_mqtt := m\<rparr>
      in if ma_adapter (the_app m) then upd_cmd (Command_SetPort True) w else w)"

definition App_Init :: "'f cmd_env \<Rightarrow> u32 \<Rightarrow> ('b, 'f, 'a) app \<Rightarrow> RoomSensor_Status \<times> ('b, 'f, 'a) app" where
  "App_Init env now w =
     (if ap_i2c_bus (aw_sensing w) = None then (ROOM_SENSOR_ERROR, w)
      else let w = w\<lparr>aw_reset_cause := ce_reset_cause env, aw_start_ms := now,
                     aw_sensing := app_init_devices now (aw_sensing w)\<rparr>
      in (ROOM_SENSOR_OK, app_init_ports env now (app_init_services env now w)))"

text \<open>The statics of all the modules before \<open>App_Init\<close>, with a bus, a flash and a network device.\<close>

definition zero_app_status :: AppStatus where
  "zero_app_status =
     \<lparr>aps_light_sensor = zero_runtime, aps_display = zero_runtime, aps_co2_sensor = zero_runtime,
      aps_temp_humidity_sensor = zero_runtime, aps_pressure_sensor = zero_runtime,
      aps_gas_sensor = zero_runtime, aps_health = SYSTEM_HEALTH_BOOTING, aps_reset_cause = RESET_CAUSE_UNKNOWN,
      aps_watchdog_active = False, aps_self_test = Some SelfTest_Init, aps_storage_initialized = False,
      aps_provisioning_initialized = False, aps_config_storage_status = STORAGE_READ_OK,
      aps_identity_storage_status = STORAGE_READ_OK, aps_config_storage_health = STORAGE_HEALTH_HEALTHY,
      aps_identity_storage_health = STORAGE_HEALTH_HEALTHY,
      aps_provisioning_storage_health = STORAGE_HEALTH_HEALTHY, aps_uptime_ms = 0\<rparr>"

definition zero_command_status :: CommandRuntimeStatus where
  "zero_command_status =
     \<lparr>crs_system_health = SYSTEM_HEALTH_BOOTING, crs_storage_initialized = False,
      crs_config_persistence = STORAGE_READ_OK, crs_config_storage_health = STORAGE_HEALTH_HEALTHY,
      crs_identity_persistence = STORAGE_READ_OK, crs_identity_storage_health = STORAGE_HEALTH_HEALTHY,
      crs_provisioning_state = PROVISIONING_UNPROVISIONED, crs_provisioning_persistence = STORAGE_READ_OK,
      crs_provisioning_storage_health = STORAGE_HEALTH_HEALTHY\<rparr>"

definition app_power_on :: "'b I2cBus option \<Rightarrow> 'f \<Rightarrow> 'a \<Rightarrow> ('b, 'f, 'a) app" where
  "app_power_on bus f a =
     \<lparr>aw_sensing = zero_sensing bus,
      aw_device = \<lparr>dv_flash = f,
        dv_provisioning = \<lparr>s_current = blank_registration, s_status = zero_status,
                           s_storage_status = STORAGE_READ_NOT_FOUND, s_revision = 0\<rparr>,
        dv_config = config_start,
        dv_identity = \<lparr>di_device_uuid = replicate DEVICE_UUID_SIZE 0, di_hardware_revision = 0\<rparr>,
        dv_self_test = Some SelfTest_Init, dv_boot = \<lparr>bs_boot_id = 0, bs_initialized = False\<rparr>,
        dv_room = RoomState_Init, dv_runtime_status = Some zero_command_status\<rparr>,
      aw_identity = identity_start, aw_storage = storage_reset,
      aw_lifecycle = \<lparr>lc_state = LIFECYCLE_POWER_ON, lc_last_transition_ms = 0, lc_log = []\<rparr>,
      aw_comm = Communication_Init\<lparr>co_initialized := False\<rparr>,
      aw_debug = \<lparr>dp_send_count = 0, dp_stdout = []\<rparr>,
      aw_mqtt = \<lparr>mq_c = zero_client, mq_t = zero_transport, mq_a = a, mq_x = (zero_app, command_start), mq_now = 0\<rparr>,
      aw_sequence = 0, aw_last_diag_ms = 0, aw_last_telemetry_ms = 0, aw_start_ms = 0,
      aw_health = SYSTEM_HEALTH_BOOTING, aw_reset_cause = RESET_CAUSE_UNKNOWN, aw_watchdog_active = False,
      aw_boot_id = 0, aw_device_id_valid = False, aw_config_boot_load_status = STORAGE_READ_NOT_FOUND,
      aw_identity_boot_load_status = STORAGE_READ_NOT_FOUND, aw_storage_init_ok = False,
      aw_status = zero_app_status\<rparr>"

end
