(* ===== verification/App_Feed.thy ===== *)
theory App_Feed
  imports App_Sensors
begin

text \<open>
  How the samples of the sensors reach the room state: the contract of a runtime that the
  schedule of the application drives, interpreted on the five runtimes, and the invariant of the
  application that no value of the room is called valid without a sample behind it.
\<close>

section \<open>A runtime on a schedule\<close>

definition in_cycle :: "DeviceState \<Rightarrow> bool" where
  "in_cycle st \<longleftrightarrow> sensor_resting st \<or> runtime_active st"

locale sensor_feed = sensor_runtime +
  assumes poll_cycle: "in_cycle (state rt) \<Longrightarrow> poll now rt b = (rt', b') \<Longrightarrow> in_cycle (state rt')"
    and start_cycle: "in_cycle (state rt) \<Longrightarrow> start now rt b = (s, rt', b') \<Longrightarrow> in_cycle (state rt')"
begin

text \<open>A valid sample was fresh t the tick \<open>t\<close>, the one of the last poll.\<close>

definition tracked :: "u32 \<Rightarrow> 'a \<Rightarrow> bool" where
  "tracked t rt \<longleftrightarrow> in_cycle (state rt) \<and> settled rt \<and> (valid rt \<longrightarrow> t - stamp rt < stale)"

lemma poll_tracked:
  assumes "tracked t rt" "runtime_active (state rt)" "poll now rt b = (rt', b')"
  shows "tracked now rt'"
proof -
  have "\<not> sensor_resting (state rt)"
    using assms(2) by (auto simp: runtime_active_def sensor_resting_def)
  then show ?thesis
    using assms poll_cycle [OF _ assms(3)] poll_settled [OF _ assms(3)] poll_fresh [OF _ assms(3)]
    by (auto simp: tracked_def)
qed

lemma resting_tracked: "tracked t rt \<Longrightarrow> \<not> runtime_active (state rt) \<Longrightarrow> tracked now rt"
  by (auto simp: tracked_def in_cycle_def settled_def)

lemma start_tracked:
  assumes "tracked t rt" "sensor_resting (state rt)" "start now rt b = (s, rt', b')"
  shows "tracked t rt' \<and> \<not> valid rt'"
proof -
  have "\<not> valid rt'"
    using assms start_valid [OF assms(3)] by (auto simp: tracked_def settled_def)
  then show ?thesis
    using assms start_cycle [OF _ assms(3)] start_settled [OF _ assms(2,3)] by (auto simp: tracked_def)
qed

lemma recover_tracked: "tracked t (recover rt) \<and> \<not> valid (recover rt)"
  by (simp add: tracked_def recover_settled recover_valid recover_state in_cycle_def sensor_resting_def)

lemma tracked_fresh:
  assumes "tracked t rt" "valid rt" "now - t < period" "stale \<le> 0x7FFFFFFF" "period \<le> 0x7FFFFFFF"
  shows "now - stamp rt < stale + period"
proof -
  have a: "unat (t - stamp rt) < unat stale" "unat (now - t) < unat period"
    using assms(1-3) by (simp_all add: tracked_def word_less_nat_alt)
  have b: "unat stale < 2 ^ 31" "unat period < 2 ^ 31"
    using assms(4,5) by (simp_all add: word_le_nat_alt)
  have "unat (now - stamp rt) = unat ((now - t) + (t - stamp rt))" by simp
  also have "\<dots> = unat (now - t) + unat (t - stamp rt)"
    using a b by (subst unat_add_lem [THEN iffD1]) simp_all
  finally show ?thesis
    using a b by (simp add: word_less_nat_alt unat_add_lem [THEN iffD1])
qed

end

section \<open>The five runtimes\<close>

lemma in_cycle_states [simp]:
  "in_cycle DEVICE_STATE_NOT_FOUND" "in_cycle DEVICE_STATE_ERROR" "in_cycle DEVICE_STATE_RECOVERING"
  "in_cycle DEVICE_STATE_STARTING" "in_cycle DEVICE_STATE_WAITING" "in_cycle DEVICE_STATE_READY"
  by (simp_all add: in_cycle_def sensor_resting_def runtime_active_def)

lemmas scd41_cycle_simps =
  Let_def Scd41Runtime_RecordFailureEscalate_def Scd41Runtime_RecordFailure_def Scd41Runtime_EscalateError_def
  Scd41Runtime_RecordSuccess_def scd41_failed_def Scd41Runtime_EnforceFreshness_def

lemma scd41_step_cycle:
  "in_cycle (sr_state rt) \<Longrightarrow> scd41_begin now rt b = (rt', b') \<Longrightarrow> in_cycle (sr_state rt')"
  "in_cycle (sr_state rt) \<Longrightarrow> scd41_data_ready now rt b = (rt', b') \<Longrightarrow> in_cycle (sr_state rt')"
  "in_cycle (sr_state rt) \<Longrightarrow> scd41_measurement now rt b = (rt', b') \<Longrightarrow> in_cycle (sr_state rt')"
  "in_cycle (sr_state rt) \<Longrightarrow> scd41_starting now rt b = (rt', b') \<Longrightarrow> in_cycle (sr_state rt')"
  "in_cycle (sr_state rt) \<Longrightarrow> in_cycle (sr_state (Scd41Runtime_EnforceFreshness now rt))"
  by (auto simp: scd41_begin_def scd41_data_ready_def scd41_measurement_def scd41_starting_def
      scd41_cycle_simps split: prod.splits if_splits option.splits)

interpretation scd41f: sensor_feed sr_state Scd41Runtime_HasValidSample sr_last_valid_measurement_ms
  SCD41_RUNTIME_STALE_MS scd41_held Scd41Runtime_Poll Scd41Runtime_Start Scd41Runtime_Recover
proof
  show "in_cycle (sr_state rt) \<Longrightarrow> Scd41Runtime_Poll now rt b = (rt', b') \<Longrightarrow> in_cycle (sr_state rt')"
    for rt :: "'a Scd41Runtime" and now b rt' b'
    using scd41_step_cycle(5) [of "rt\<lparr>sr_last_tick_ms := now\<rparr>" now]
    by (auto simp: Scd41Runtime_Poll_def Let_def Scd41Runtime_EscalateError_def split: if_splits
        elim: scd41_step_cycle(1-4) [rotated])
  show "in_cycle (sr_state rt) \<Longrightarrow> Scd41Runtime_Start now rt b = (s, rt', b') \<Longrightarrow> in_cycle (sr_state rt')"
    for rt :: "'a Scd41Runtime" and now b s rt' b'
    by (auto simp: Scd41Runtime_Start_def scd41_cycle_simps split: prod.splits if_splits)
qed

lemmas sht45_cycle_simps =
  Let_def Sht45Runtime_RecordFailureEscalate_def Sht45Runtime_RecordFailure_def Sht45Runtime_EscalateError_def
  Sht45Runtime_RecordSuccess_def sht45_failed_def Sht45Runtime_EnforceFreshness_def

lemma sht45_step_cycle:
  "in_cycle (hr_state rt) \<Longrightarrow> sht45_issue now rt b = (rt', b') \<Longrightarrow> in_cycle (hr_state rt')"
  "in_cycle (hr_state rt) \<Longrightarrow> sht45_read now rt b = (rt', b') \<Longrightarrow> in_cycle (hr_state rt')"
  "in_cycle (hr_state rt) \<Longrightarrow> in_cycle (hr_state (Sht45Runtime_EnforceFreshness now rt))"
  by (auto simp: sht45_issue_def sht45_read_def sht45_cycle_simps split: prod.splits if_splits option.splits)

interpretation sht45f: sensor_feed hr_state Sht45Runtime_HasValidSample hr_last_valid_measurement_ms
  SHT45_RUNTIME_STALE_MS sht45_held Sht45Runtime_Poll Sht45Runtime_Start Sht45Runtime_Recover
proof
  show "in_cycle (hr_state rt) \<Longrightarrow> Sht45Runtime_Poll now rt b = (rt', b') \<Longrightarrow> in_cycle (hr_state rt')"
    for rt :: "'a Sht45Runtime" and now b rt' b'
    using sht45_step_cycle(3) [of "rt\<lparr>hr_last_tick_ms := now\<rparr>" now]
    by (auto simp: Sht45Runtime_Poll_def Let_def Sht45Runtime_EscalateError_def split: if_splits
        elim: sht45_step_cycle(1-2) [rotated])
  show "in_cycle (hr_state rt) \<Longrightarrow> Sht45Runtime_Start now rt b = (s, rt', b') \<Longrightarrow> in_cycle (hr_state rt')"
    for rt :: "'a Sht45Runtime" and now b s rt' b'
    by (auto simp: Sht45Runtime_Start_def sht45_cycle_simps split: prod.splits if_splits)
qed

lemmas bmp3_cycle_simps =
  Let_def bmp3_failed_def bmp3_RecordFailure_def bmp3_EscalateError_def bmp3_RecordSuccess_def
  bmp3_EnforceFreshness_def

lemma bmp3_step_cycle:
  "in_cycle (br_state rt) \<Longrightarrow> in_cycle (br_state (bmp3_register_failed now s rt))"
  "in_cycle (br_state rt) \<Longrightarrow> bmp3_sample_failed now s rt b = (rt', b') \<Longrightarrow> in_cycle (br_state rt')"
  "in_cycle (br_state rt) \<Longrightarrow> bmp3_between now rt b = (rt', b') \<Longrightarrow> in_cycle (br_state rt')"
  "in_cycle (br_state rt) \<Longrightarrow> in_cycle (br_state (bmp3_EnforceFreshness now rt))"
  "in_cycle (br_state rt) \<Longrightarrow> bmp3_configure_and_trigger now rt b = (st, rt', b') \<Longrightarrow> in_cycle (br_state rt')"
  by (auto simp: bmp3_register_failed_def bmp3_sample_failed_def bmp3_ReTriggerMeasurement_def
      bmp3_between_def bmp3_configure_and_trigger_def bmp3_start_failed_def bmp3_cycle_simps
      split: prod.splits if_splits)

lemma bmp3_sample_cycle:
  "in_cycle (br_state rt) \<Longrightarrow> bmp3_sample now rt b = (rt', b') \<Longrightarrow> in_cycle (br_state rt')"
  by (auto simp: bmp3_sample_def Let_def bmp3_RecordSuccess_def split: prod.splits if_splits option.splits
      elim: bmp3_step_cycle(2) [rotated])

lemma bmp3_measuring_cycle:
  "in_cycle (br_state rt) \<Longrightarrow> bmp3_measuring model now rt b = (rt', b') \<Longrightarrow> in_cycle (br_state rt')"
  by (auto simp: bmp3_measuring_def bmp3_step_cycle(1) split: prod.splits if_splits
      elim: bmp3_sample_cycle [rotated])

lemma bmp3_feed:
  "sensor_feed br_state bmp3_HasValidSample br_last_valid_measurement_ms BMP390_RUNTIME_STALE_MS
     bmp3_held (bmp3_Poll model) (bmp3_Start model) bmp3_Recover"
proof (intro sensor_feed.intro bmp3_interface sensor_feed_axioms.intro)
  show "in_cycle (br_state rt) \<Longrightarrow> bmp3_Poll model now rt b = (rt', b') \<Longrightarrow> in_cycle (br_state rt')"
    for rt :: "'a Bmp3Runtime" and now b rt' b'
    using bmp3_step_cycle(4) [of "rt\<lparr>br_last_tick_ms := now\<rparr>" now]
    by (auto simp: bmp3_Poll_def Let_def bmp3_EscalateError_def split: if_splits
        elim: bmp3_step_cycle(3) [rotated] bmp3_measuring_cycle [rotated])
  show "in_cycle (br_state rt) \<Longrightarrow> bmp3_Start model now rt b = (s, rt', b') \<Longrightarrow> in_cycle (br_state rt')"
    for rt :: "'a Bmp3Runtime" and now b s rt' b'
    by (auto simp: bmp3_Start_def Let_def split: prod.splits if_splits elim: bmp3_step_cycle(5) [rotated])
qed

interpretation bmp390f: sensor_feed br_state bmp3_HasValidSample br_last_valid_measurement_ms
  BMP390_RUNTIME_STALE_MS bmp3_held "bmp3_Poll BMP390" "bmp3_Start BMP390" bmp3_Recover
  by (rule bmp3_feed)

interpretation bmp380f: sensor_feed br_state Bmp380Runtime_HasValidSample br_last_valid_measurement_ms
  BMP390_RUNTIME_STALE_MS bmp3_held Bmp380Runtime_Poll Bmp380Runtime_Start Bmp380Runtime_Recover
  unfolding Bmp380Runtime_HasValidSample_def Bmp380Runtime_Poll_def Bmp380Runtime_Start_def
    Bmp380Runtime_Recover_def
  by (rule bmp3_feed)

lemmas sgp41_cycle_simps =
  Let_def Sgp41Runtime_RecordFailure_def Sgp41Runtime_EscalateError_def Sgp41Runtime_RecordSuccess_def
  sgp41_failed_def Sgp41Runtime_EnforceFreshness_def

lemma sgp41_feed_state: "gr_state (sgp41_feed now m rt) = gr_state rt"
  by (auto simp: sgp41_feed_def Let_def split: prod.splits)

lemma sgp41_prepare_state: "gr_state (sgp41_prepare rt) = gr_state rt"
  by (auto simp: sgp41_prepare_def Let_def split: prod.splits)

lemma sgp41_begin_state:
  "Sgp41Runtime_BeginStartup now rt b = (s, rt', b') \<Longrightarrow> gr_state rt' = gr_state rt"
  by (auto simp: Sgp41Runtime_BeginStartup_def split: prod.splits if_splits)

lemma sgp41_step_cycle:
  "in_cycle (gr_state rt) \<Longrightarrow> Sgp41Runtime_IssueNextMeasure now rt b = (rt', b') \<Longrightarrow> in_cycle (gr_state rt')"
  "in_cycle (gr_state rt) \<Longrightarrow> Sgp41Runtime_FinishConditioning now rt b = (rt', b') \<Longrightarrow> in_cycle (gr_state rt')"
  "in_cycle (gr_state rt) \<Longrightarrow> in_cycle (gr_state (Sgp41Runtime_EnforceFreshness now rt))"
  "in_cycle (gr_state rt) \<Longrightarrow> in_cycle (gr_state (sgp41_failed now s rt))"
  by (auto simp: Sgp41Runtime_IssueNextMeasure_def Sgp41Runtime_FinishConditioning_def sgp41_cycle_simps
      split: prod.splits if_splits)

lemma sgp41_measured_cycle:
  "in_cycle (gr_state rt) \<Longrightarrow> sgp41_measured now rt b = (rt', b') \<Longrightarrow> in_cycle (gr_state rt')"
  by (auto simp: sgp41_measured_def Let_def Sgp41Runtime_RecordFailure_def Sgp41Runtime_EscalateError_def
      Sgp41Runtime_RecordSuccess_def sgp41_feed_state split: prod.splits if_splits option.splits
      elim: sgp41_step_cycle(1) [rotated])

interpretation sgp41f: sensor_feed gr_state Sgp41Runtime_HasValidSample gr_last_valid_measurement_ms
  SGP41_RUNTIME_STALE_MS sgp41_held Sgp41Runtime_Poll Sgp41Runtime_Start Sgp41Runtime_Recover
proof
  show "in_cycle (gr_state rt) \<Longrightarrow> Sgp41Runtime_Poll now rt b = (rt', b') \<Longrightarrow> in_cycle (gr_state rt')"
    for rt :: "'a Sgp41Runtime" and now b rt' b'
    using sgp41_step_cycle(3) [of "rt\<lparr>gr_last_tick_ms := now\<rparr>" now]
    by (auto simp: Sgp41Runtime_Poll_def Let_def Sgp41Runtime_EscalateError_def split: if_splits prod.splits
        elim: sgp41_step_cycle(1-2) [rotated] sgp41_measured_cycle [rotated]
        dest!: sgp41_begin_state intro!: sgp41_step_cycle(4))
  show "in_cycle (gr_state rt) \<Longrightarrow> Sgp41Runtime_Start now rt b = (s, rt', b') \<Longrightarrow> in_cycle (gr_state rt')"
    for rt :: "'a Sgp41Runtime" and now b s rt' b'
    by (auto simp: Sgp41Runtime_Start_def Let_def Sgp41Runtime_RecordFailure_def Sgp41Runtime_EscalateError_def
        sgp41_prepare_state split: prod.splits if_splits dest!: sgp41_begin_state)
qed

section \<open>What the schedule keeps\<close>

text \<open>
  The part of the statics the invariant is about, by sensor; light sensor and display do not touch
  it. For each sensor: its runtime, the tick of its last poll, and what the room says of it.
\<close>

definition scd41_shown :: "RoomState \<Rightarrow> bool" where
  "scd41_shown r \<longleftrightarrow> rs_co2_valid r \<or> rs_scd41_temperature_valid r \<or> rs_scd41_humidity_valid r"

definition sht45_shown :: "RoomState \<Rightarrow> bool" where
  "sht45_shown r \<longleftrightarrow> rs_sht45_temperature_valid r \<or> rs_sht45_humidity_valid r"

definition sgp41_shown :: "RoomState \<Rightarrow> bool" where
  "sgp41_shown r \<longleftrightarrow>
     rs_voc_raw_valid r \<or> rs_nox_raw_valid r \<or> rs_voc_index_valid r \<or> rs_nox_index_valid r"

text \<open>What the room says of two of the sensors, values included.\<close>

definition scd41_view :: "RoomState \<Rightarrow> (f32 \<times> bool) list" where
  "scd41_view r = [(rs_co2_ppm r, rs_co2_valid r), (rs_scd41_temperature_c r, rs_scd41_temperature_valid r),
     (rs_scd41_humidity_pct r, rs_scd41_humidity_valid r)]"

definition sht45_view :: "RoomState \<Rightarrow> (f32 \<times> bool) list" where
  "sht45_view r = [(rs_sht45_temperature_c r, rs_sht45_temperature_valid r),
     (rs_sht45_humidity_pct r, rs_sht45_humidity_valid r)]"

lemma shown_view:
  "scd41_shown r \<longleftrightarrow> list_ex snd (scd41_view r)" "sht45_shown r \<longleftrightarrow> list_ex snd (sht45_view r)"
  by (simp_all add: scd41_shown_def scd41_view_def sht45_shown_def sht45_view_def)

lemma shown_updates [simp]:
  "scd41_shown (RoomState_UpdateScd41 c True x True h True now r)" "\<not> scd41_shown (RoomState_InvalidateScd41 now r)"
  "sht45_shown (RoomState_UpdateSht45 x True h True now r)" "\<not> sht45_shown (RoomState_InvalidateSht45 now r)"
  "sgp41_shown (RoomState_UpdateSgp41 a True c True v vk n nk now r)" "\<not> sgp41_shown (RoomState_InvalidateSgp41 now r)"
  by (simp_all add: scd41_shown_def sht45_shown_def sgp41_shown_def RoomState_UpdateScd41_def
      RoomState_InvalidateScd41_def RoomState_UpdateSht45_def RoomState_InvalidateSht45_def
      RoomState_UpdateSgp41_def RoomState_InvalidateSgp41_def)

lemma scd41_view_frame [simp]:
  "scd41_view (RoomState_UpdateIlluminance l lk now r) = scd41_view r"
  "scd41_view (RoomState_UpdateSht45 x xk h hk now r) = scd41_view r"
  "scd41_view (RoomState_InvalidateSht45 now r) = scd41_view r"
  "scd41_view (RoomState_UpdateEnvironment pr x xk h hk now r) = scd41_view r"
  "scd41_view (RoomState_InvalidateEnvironment now r) = scd41_view r"
  "scd41_view (RoomState_UpdateBmp390 x xk h hk now r) = scd41_view r"
  "scd41_view (RoomState_InvalidateBmp390 now r) = scd41_view r"
  "scd41_view (RoomState_UpdateBarometric bp x xk h hk now r) = scd41_view r"
  "scd41_view (RoomState_InvalidateBarometric now r) = scd41_view r"
  "scd41_view (RoomState_UpdateSgp41 a ak c ck v vk n nk now r) = scd41_view r"
  "scd41_view (RoomState_InvalidateSgp41 now r) = scd41_view r"
  by (simp_all add: scd41_view_def RoomState_UpdateIlluminance_def RoomState_UpdateSht45_def
      RoomState_InvalidateSht45_def RoomState_UpdateEnvironment_def RoomState_InvalidateEnvironment_def
      RoomState_UpdateBmp390_def RoomState_InvalidateBmp390_def RoomState_UpdateBarometric_def
      RoomState_InvalidateBarometric_def RoomState_UpdateSgp41_def RoomState_InvalidateSgp41_def Let_def)

lemma scd41_shown_frame [simp]:
  "scd41_shown (RoomState_UpdateIlluminance l lk now r) = scd41_shown r"
  "scd41_shown (RoomState_UpdateSht45 x xk h hk now r) = scd41_shown r"
  "scd41_shown (RoomState_InvalidateSht45 now r) = scd41_shown r"
  "scd41_shown (RoomState_UpdateEnvironment pr x xk h hk now r) = scd41_shown r"
  "scd41_shown (RoomState_InvalidateEnvironment now r) = scd41_shown r"
  "scd41_shown (RoomState_UpdateBmp390 x xk h hk now r) = scd41_shown r"
  "scd41_shown (RoomState_InvalidateBmp390 now r) = scd41_shown r"
  "scd41_shown (RoomState_UpdateBarometric bp x xk h hk now r) = scd41_shown r"
  "scd41_shown (RoomState_InvalidateBarometric now r) = scd41_shown r"
  "scd41_shown (RoomState_UpdateSgp41 a ak c ck v vk n nk now r) = scd41_shown r"
  "scd41_shown (RoomState_InvalidateSgp41 now r) = scd41_shown r"
  by (simp_all add: shown_view)

lemma sht45_view_frame [simp]:
  "sht45_view (RoomState_UpdateIlluminance l lk now r) = sht45_view r"
  "sht45_view (RoomState_UpdateScd41 c ck x xk h hk now r) = sht45_view r"
  "sht45_view (RoomState_InvalidateScd41 now r) = sht45_view r"
  "sht45_view (RoomState_UpdateEnvironment pr x xk h hk now r) = sht45_view r"
  "sht45_view (RoomState_InvalidateEnvironment now r) = sht45_view r"
  "sht45_view (RoomState_UpdateBmp390 x xk h hk now r) = sht45_view r"
  "sht45_view (RoomState_InvalidateBmp390 now r) = sht45_view r"
  "sht45_view (RoomState_UpdateBarometric bp x xk h hk now r) = sht45_view r"
  "sht45_view (RoomState_InvalidateBarometric now r) = sht45_view r"
  "sht45_view (RoomState_UpdateSgp41 a ak c' ck' v vk n nk now r) = sht45_view r"
  "sht45_view (RoomState_InvalidateSgp41 now r) = sht45_view r"
  by (simp_all add: sht45_view_def RoomState_UpdateIlluminance_def RoomState_UpdateScd41_def
      RoomState_InvalidateScd41_def RoomState_UpdateEnvironment_def RoomState_InvalidateEnvironment_def
      RoomState_UpdateBmp390_def RoomState_InvalidateBmp390_def RoomState_UpdateBarometric_def
      RoomState_InvalidateBarometric_def RoomState_UpdateSgp41_def RoomState_InvalidateSgp41_def Let_def)

lemma sht45_shown_frame [simp]:
  "sht45_shown (RoomState_UpdateIlluminance l lk now r) = sht45_shown r"
  "sht45_shown (RoomState_UpdateScd41 c ck x xk h hk now r) = sht45_shown r"
  "sht45_shown (RoomState_InvalidateScd41 now r) = sht45_shown r"
  "sht45_shown (RoomState_UpdateEnvironment pr x xk h hk now r) = sht45_shown r"
  "sht45_shown (RoomState_InvalidateEnvironment now r) = sht45_shown r"
  "sht45_shown (RoomState_UpdateBmp390 x xk h hk now r) = sht45_shown r"
  "sht45_shown (RoomState_InvalidateBmp390 now r) = sht45_shown r"
  "sht45_shown (RoomState_UpdateBarometric bp x xk h hk now r) = sht45_shown r"
  "sht45_shown (RoomState_InvalidateBarometric now r) = sht45_shown r"
  "sht45_shown (RoomState_UpdateSgp41 a ak c' ck' v vk n nk now r) = sht45_shown r"
  "sht45_shown (RoomState_InvalidateSgp41 now r) = sht45_shown r"
  by (simp_all add: shown_view)

lemma sgp41_shown_frame [simp]:
  "sgp41_shown (RoomState_UpdateIlluminance l lk now r) = sgp41_shown r"
  "sgp41_shown (RoomState_UpdateScd41 c ck x xk h hk now r) = sgp41_shown r"
  "sgp41_shown (RoomState_InvalidateScd41 now r) = sgp41_shown r"
  "sgp41_shown (RoomState_UpdateSht45 x xk h hk now r) = sgp41_shown r"
  "sgp41_shown (RoomState_InvalidateSht45 now r) = sgp41_shown r"
  "sgp41_shown (RoomState_UpdateEnvironment pr x xk h hk now r) = sgp41_shown r"
  "sgp41_shown (RoomState_InvalidateEnvironment now r) = sgp41_shown r"
  "sgp41_shown (RoomState_UpdateBmp390 x xk h hk now r) = sgp41_shown r"
  "sgp41_shown (RoomState_InvalidateBmp390 now r) = sgp41_shown r"
  "sgp41_shown (RoomState_UpdateBarometric bp x xk h hk now r) = sgp41_shown r"
  "sgp41_shown (RoomState_InvalidateBarometric now r) = sgp41_shown r"
  by (simp_all add: sgp41_shown_def RoomState_UpdateIlluminance_def RoomState_UpdateScd41_def
      RoomState_InvalidateScd41_def RoomState_UpdateSht45_def RoomState_InvalidateSht45_def
      RoomState_UpdateEnvironment_def RoomState_InvalidateEnvironment_def RoomState_UpdateBmp390_def
      RoomState_InvalidateBmp390_def RoomState_UpdateBarometric_def RoomState_InvalidateBarometric_def
      Let_def)

definition feed :: "'b sensing \<Rightarrow> _" where
  "feed s =
     ((ap_scd41 s, ap_last_scd41_ms s, scd41_view (ap_room s)),
      (ap_sht45 s, ap_last_sht45_ms s, sht45_view (ap_room s)),
      (ap_sgp41 s, ap_last_sgp41_ms s, sgp41_shown (ap_room s)),
      (ap_bmp390 s, ap_last_bmp390_ms s), (ap_bmp380 s, ap_last_bmp380_ms s),
      ap_i2c_bus s, ap_sht45_room_commit_ms s)"

text \<open>The invariant, by sensor.\<close>

definition scd41_trk :: "'b sensing \<Rightarrow> bool" where
  "scd41_trk s \<longleftrightarrow> scd41f.tracked (ap_last_scd41_ms s) (ap_scd41 s)"

definition scd41_ok :: "'b sensing \<Rightarrow> bool" where
  "scd41_ok s \<longleftrightarrow> scd41_trk s \<and> (scd41_shown (ap_room s) \<longrightarrow> Scd41Runtime_HasValidSample (ap_scd41 s))"

definition sht45_trk :: "'b sensing \<Rightarrow> bool" where
  "sht45_trk s \<longleftrightarrow> sht45f.tracked (ap_last_sht45_ms s) (ap_sht45 s)"

definition sht45_ok :: "'b sensing \<Rightarrow> bool" where
  "sht45_ok s \<longleftrightarrow> sht45_trk s \<and> (sht45_shown (ap_room s) \<longrightarrow> Sht45Runtime_HasValidSample (ap_sht45 s))"

definition sgp41_trk :: "'b sensing \<Rightarrow> bool" where
  "sgp41_trk s \<longleftrightarrow> sgp41f.tracked (ap_last_sgp41_ms s) (ap_sgp41 s)"

definition sgp41_ok :: "'b sensing \<Rightarrow> bool" where
  "sgp41_ok s \<longleftrightarrow> sgp41_trk s \<and> (sgp41_shown (ap_room s) \<longrightarrow> Sgp41Runtime_HasValidSample (ap_sgp41 s))"

definition barometers_ok :: "'b sensing \<Rightarrow> bool" where
  "barometers_ok s \<longleftrightarrow> bmp390f.tracked (ap_last_bmp390_ms s) (ap_bmp390 s) \<and>
     bmp380f.tracked (ap_last_bmp380_ms s) (ap_bmp380 s)"

definition feed_ok :: "'b I2cBus option \<Rightarrow> 'b sensing \<Rightarrow> bool" where
  "feed_ok bus s \<longleftrightarrow> scd41_ok s \<and> sht45_ok s \<and> sgp41_ok s \<and> barometers_ok s \<and> ap_i2c_bus s = bus"

lemmas ok_defs =
  scd41_trk_def scd41_ok_def sht45_trk_def sht45_ok_def sgp41_trk_def sgp41_ok_def barometers_ok_def

lemma feed_ok_frame: "feed s' = feed s \<Longrightarrow> feed_ok bus s' = feed_ok bus s"
  by (simp add: feed_ok_def ok_defs feed_def shown_view)

lemma upd_room_simps [simp]:
  "ap_room (upd_room f s) = f (ap_room s)" "ap_i2c_bus (upd_room f s) = ap_i2c_bus s"
  "ap_scd41 (upd_room f s) = ap_scd41 s" "ap_sht45 (upd_room f s) = ap_sht45 s"
  "ap_sgp41 (upd_room f s) = ap_sgp41 s" "ap_bmp390 (upd_room f s) = ap_bmp390 s"
  "ap_bmp380 (upd_room f s) = ap_bmp380 s"
  "ap_last_scd41_ms (upd_room f s) = ap_last_scd41_ms s" "ap_last_sht45_ms (upd_room f s) = ap_last_sht45_ms s"
  "ap_last_sgp41_ms (upd_room f s) = ap_last_sgp41_ms s" "ap_last_bmp390_ms (upd_room f s) = ap_last_bmp390_ms s"
  "ap_last_bmp380_ms (upd_room f s) = ap_last_bmp380_ms s"
  "ap_sht45_room_commit_ms (upd_room f s) = ap_sht45_room_commit_ms s"
  by (simp_all add: upd_room_def)

lemma scd41_ok_simps [simp]:
  "scd41_ok (upd_room (RoomState_UpdateScd41 c True x True h True now) s) \<longleftrightarrow>
     scd41_trk s \<and> Scd41Runtime_HasValidSample (ap_scd41 s)"
  "scd41_ok (upd_room (RoomState_InvalidateScd41 now) s) = scd41_trk s"
  "scd41_ok (upd_room (RoomState_UpdateSht45 x xk h hk now) s) = scd41_ok s"
  "scd41_ok (upd_room (RoomState_InvalidateSht45 now) s) = scd41_ok s"
  "scd41_ok (upd_room (RoomState_UpdateBmp390 x xk h hk now) s) = scd41_ok s"
  "scd41_ok (upd_room (RoomState_InvalidateBmp390 now) s) = scd41_ok s"
  "scd41_ok (upd_room (RoomState_UpdateSgp41 a ak c' ck v vk n nk now) s) = scd41_ok s"
  "scd41_ok (upd_room (RoomState_InvalidateSgp41 now) s) = scd41_ok s"
  "scd41_ok (s\<lparr>ap_sht45 := h45\<rparr>) = scd41_ok s" "scd41_ok (s\<lparr>ap_sgp41 := g41\<rparr>) = scd41_ok s"
  "scd41_ok (s\<lparr>ap_bmp390 := b390\<rparr>) = scd41_ok s" "scd41_ok (s\<lparr>ap_bmp380 := b380\<rparr>) = scd41_ok s"
  "scd41_ok (s\<lparr>ap_last_sht45_ms := u\<rparr>) = scd41_ok s" "scd41_ok (s\<lparr>ap_last_sgp41_ms := u\<rparr>) = scd41_ok s"
  "scd41_ok (s\<lparr>ap_last_bmp390_ms := u\<rparr>) = scd41_ok s" "scd41_ok (s\<lparr>ap_last_bmp380_ms := u\<rparr>) = scd41_ok s"
  "scd41_ok (s\<lparr>ap_sht45_room_commit_ms := u\<rparr>) = scd41_ok s"
  "scd41_ok (s\<lparr>ap_bmp390_room_commit_ms := u\<rparr>) = scd41_ok s"
  "scd41_ok (s\<lparr>ap_scd41 := rt\<rparr>) \<longleftrightarrow> scd41f.tracked (ap_last_scd41_ms s) rt \<and>
     (scd41_shown (ap_room s) \<longrightarrow> Scd41Runtime_HasValidSample rt)"
  "scd41_trk (s\<lparr>ap_scd41 := rt\<rparr>) \<longleftrightarrow> scd41f.tracked (ap_last_scd41_ms s) rt"
  by (simp_all add: scd41_ok_def scd41_trk_def)

lemma sht45_ok_simps [simp]:
  "sht45_ok (upd_room (RoomState_UpdateSht45 x True h True now) s) \<longleftrightarrow>
     sht45_trk s \<and> Sht45Runtime_HasValidSample (ap_sht45 s)"
  "sht45_ok (upd_room (RoomState_InvalidateSht45 now) s) = sht45_trk s"
  "sht45_ok (upd_room (RoomState_UpdateScd41 c ck x xk h hk now) s) = sht45_ok s"
  "sht45_ok (upd_room (RoomState_InvalidateScd41 now) s) = sht45_ok s"
  "sht45_ok (upd_room (RoomState_UpdateBmp390 x xk h hk now) s) = sht45_ok s"
  "sht45_ok (upd_room (RoomState_InvalidateBmp390 now) s) = sht45_ok s"
  "sht45_ok (upd_room (RoomState_UpdateSgp41 a ak c' ck v vk n nk now) s) = sht45_ok s"
  "sht45_ok (upd_room (RoomState_InvalidateSgp41 now) s) = sht45_ok s"
  "sht45_ok (s\<lparr>ap_scd41 := s41\<rparr>) = sht45_ok s" "sht45_ok (s\<lparr>ap_sgp41 := g41\<rparr>) = sht45_ok s"
  "sht45_ok (s\<lparr>ap_bmp390 := b390\<rparr>) = sht45_ok s" "sht45_ok (s\<lparr>ap_bmp380 := b380\<rparr>) = sht45_ok s"
  "sht45_ok (s\<lparr>ap_last_scd41_ms := u\<rparr>) = sht45_ok s" "sht45_ok (s\<lparr>ap_last_sgp41_ms := u\<rparr>) = sht45_ok s"
  "sht45_ok (s\<lparr>ap_last_bmp390_ms := u\<rparr>) = sht45_ok s" "sht45_ok (s\<lparr>ap_last_bmp380_ms := u\<rparr>) = sht45_ok s"
  "sht45_ok (s\<lparr>ap_sht45_room_commit_ms := u\<rparr>) = sht45_ok s"
  "sht45_ok (s\<lparr>ap_bmp390_room_commit_ms := u\<rparr>) = sht45_ok s"
  "sht45_ok (s\<lparr>ap_sht45 := rt\<rparr>) \<longleftrightarrow> sht45f.tracked (ap_last_sht45_ms s) rt \<and>
     (sht45_shown (ap_room s) \<longrightarrow> Sht45Runtime_HasValidSample rt)"
  "sht45_trk (s\<lparr>ap_sht45 := rt\<rparr>) \<longleftrightarrow> sht45f.tracked (ap_last_sht45_ms s) rt"
  by (simp_all add: sht45_ok_def sht45_trk_def)

lemma sgp41_ok_simps [simp]:
  "sgp41_ok (upd_room (RoomState_UpdateSgp41 a True c True v vk n nk now) s) \<longleftrightarrow>
     sgp41_trk s \<and> Sgp41Runtime_HasValidSample (ap_sgp41 s)"
  "sgp41_ok (upd_room (RoomState_InvalidateSgp41 now) s) = sgp41_trk s"
  "sgp41_ok (upd_room (RoomState_UpdateScd41 c ck x xk h hk now) s) = sgp41_ok s"
  "sgp41_ok (upd_room (RoomState_InvalidateScd41 now) s) = sgp41_ok s"
  "sgp41_ok (upd_room (RoomState_UpdateSht45 x xk h hk now) s) = sgp41_ok s"
  "sgp41_ok (upd_room (RoomState_InvalidateSht45 now) s) = sgp41_ok s"
  "sgp41_ok (upd_room (RoomState_UpdateBmp390 x xk h hk now) s) = sgp41_ok s"
  "sgp41_ok (upd_room (RoomState_InvalidateBmp390 now) s) = sgp41_ok s"
  "sgp41_ok (s\<lparr>ap_scd41 := s41\<rparr>) = sgp41_ok s" "sgp41_ok (s\<lparr>ap_sht45 := h45\<rparr>) = sgp41_ok s"
  "sgp41_ok (s\<lparr>ap_bmp390 := b390\<rparr>) = sgp41_ok s" "sgp41_ok (s\<lparr>ap_bmp380 := b380\<rparr>) = sgp41_ok s"
  "sgp41_ok (s\<lparr>ap_last_scd41_ms := u\<rparr>) = sgp41_ok s" "sgp41_ok (s\<lparr>ap_last_sht45_ms := u\<rparr>) = sgp41_ok s"
  "sgp41_ok (s\<lparr>ap_last_bmp390_ms := u\<rparr>) = sgp41_ok s" "sgp41_ok (s\<lparr>ap_last_bmp380_ms := u\<rparr>) = sgp41_ok s"
  "sgp41_ok (s\<lparr>ap_sht45_room_commit_ms := u\<rparr>) = sgp41_ok s"
  "sgp41_ok (s\<lparr>ap_bmp390_room_commit_ms := u\<rparr>) = sgp41_ok s"
  "sgp41_ok (s\<lparr>ap_sgp41 := rt\<rparr>) \<longleftrightarrow> sgp41f.tracked (ap_last_sgp41_ms s) rt \<and>
     (sgp41_shown (ap_room s) \<longrightarrow> Sgp41Runtime_HasValidSample rt)"
  "sgp41_trk (s\<lparr>ap_sgp41 := rt\<rparr>) \<longleftrightarrow> sgp41f.tracked (ap_last_sgp41_ms s) rt"
  by (simp_all add: sgp41_ok_def sgp41_trk_def)

lemma barometers_ok_simps [simp]:
  "barometers_ok (upd_room f s) = barometers_ok s"
  "barometers_ok (s\<lparr>ap_scd41 := s41\<rparr>) = barometers_ok s" "barometers_ok (s\<lparr>ap_sht45 := h45\<rparr>) = barometers_ok s"
  "barometers_ok (s\<lparr>ap_sgp41 := g41\<rparr>) = barometers_ok s"
  "barometers_ok (s\<lparr>ap_last_scd41_ms := u\<rparr>) = barometers_ok s"
  "barometers_ok (s\<lparr>ap_last_sht45_ms := u\<rparr>) = barometers_ok s"
  "barometers_ok (s\<lparr>ap_last_sgp41_ms := u\<rparr>) = barometers_ok s"
  "barometers_ok (s\<lparr>ap_sht45_room_commit_ms := u\<rparr>) = barometers_ok s"
  "barometers_ok (s\<lparr>ap_bmp390_room_commit_ms := u\<rparr>) = barometers_ok s"
  by (simp_all add: barometers_ok_def)

lemma trk_room [simp]:
  "scd41_trk (upd_room f s) = scd41_trk s" "sht45_trk (upd_room f s) = sht45_trk s"
  "sgp41_trk (upd_room f s) = sgp41_trk s" "sht45_trk (s\<lparr>ap_sht45_room_commit_ms := u\<rparr>) = sht45_trk s"
  by (simp_all add: ok_defs)

lemma feed_simps [simp]:
  "feed (upd_light f s) = feed s" "feed (upd_disp f s) = feed s"
  "feed (upd_room (RoomState_UpdateIlluminance x v now) s) = feed s"
  "feed (upd_room (\<lambda>r. RoomState_UpdateIlluminance (g r) v now r) s) = feed s"
  "feed (s\<lparr>ap_veml := veml\<rparr>) = feed s" "feed (s\<lparr>ap_display := dev\<rparr>) = feed s"
  "feed (s\<lparr>ap_veml_absent := k\<rparr>) = feed s" "feed (s\<lparr>ap_veml_next_probe_ms := u\<rparr>) = feed s"
  "feed (s\<lparr>ap_disp_absent := k\<rparr>) = feed s" "feed (s\<lparr>ap_disp_next_probe_ms := u\<rparr>) = feed s"
  "feed (s\<lparr>ap_display_addr := a\<rparr>) = feed s" "feed (s\<lparr>ap_display_addr_valid := v\<rparr>) = feed s"
  "feed (s\<lparr>ap_last_light_ms := u\<rparr>) = feed s" "feed (s\<lparr>ap_last_display_ms := u\<rparr>) = feed s"
  "feed (s\<lparr>ap_last_retry_ms := u\<rparr>) = feed s" "feed (s\<lparr>ap_bus_health := h\<rparr>) = feed s"
  "feed (s\<lparr>ap_display_page := pg\<rparr>) = feed s" "feed (s\<lparr>ap_display_page_switch_ms := u\<rparr>) = feed s"
  "feed (App_RefreshScd41Diagnostics s) = feed s" "feed (App_RefreshSht45Diagnostics s) = feed s"
  "feed (App_RefreshBmp390Diagnostics s) = feed s" "feed (App_RefreshBmp380Diagnostics s) = feed s"
  "feed (App_RefreshSgp41Diagnostics s) = feed s" "feed (app_refresh_diagnostics s) = feed s"
  "feed (app_report_health now s) = feed s"
  by (simp_all add: feed_def upd_light_def upd_disp_def upd_room_def
      App_RefreshScd41Diagnostics_def App_RefreshSht45Diagnostics_def App_RefreshBmp390Diagnostics_def
      App_RefreshBmp380Diagnostics_def App_RefreshSgp41Diagnostics_def app_refresh_diagnostics_def
      app_report_health_def Let_def)

lemma light_display_feed:
  "App_DoProbeVeml now s b = (s', b') \<Longrightarrow> feed s' = feed s"
  "App_DoInitVeml now s b = (s', b') \<Longrightarrow> feed s' = feed s"
  "App_DoReadLight now cfg s b = (s', b') \<Longrightarrow> feed s' = feed s"
  "App_DoProbeDisplay now s b = (s', b') \<Longrightarrow> feed s' = feed s"
  "App_DoInitDisplay now s b = (s', b') \<Longrightarrow> feed s' = feed s"
  "App_DoUpdateDisplay now s b = (s', b') \<Longrightarrow> feed s' = feed s"
  by (auto simp: App_DoProbeVeml_def App_DoInitVeml_def App_DoReadLight_def App_DoProbeDisplay_def
      App_DoInitDisplay_def App_DoUpdateDisplay_def Let_def split: prod.splits if_splits option.splits)

lemma app_probe_light_display_feed:
  "app_probe_light_display now s b = (s', b') \<Longrightarrow> feed s' = feed s"
  unfolding app_probe_light_display_def
  by (auto split: prod.splits if_splits dest!: light_display_feed(1,2,4,5))

lemma app_retry_light_feed [simp]: "feed (app_retry_light now s) = feed s"
  by (simp add: app_retry_light_def Let_def)

text \<open>A call on one sensor changes its own part only.\<close>

text \<open>The snapshots of the diagnostics are outside the invariant.\<close>

lemma refresh_simps [simp]:
  "scd41_ok (App_RefreshScd41Diagnostics s) = scd41_ok s" "scd41_trk (App_RefreshScd41Diagnostics s) = scd41_trk s"
  "sht45_ok (App_RefreshScd41Diagnostics s) = sht45_ok s" "sht45_trk (App_RefreshScd41Diagnostics s) = sht45_trk s"
  "sgp41_ok (App_RefreshScd41Diagnostics s) = sgp41_ok s" "sgp41_trk (App_RefreshScd41Diagnostics s) = sgp41_trk s"
  "barometers_ok (App_RefreshScd41Diagnostics s) = barometers_ok s" "ap_room (App_RefreshScd41Diagnostics s) = ap_room s"
  "ap_i2c_bus (App_RefreshScd41Diagnostics s) = ap_i2c_bus s" "ap_scd41 (App_RefreshScd41Diagnostics s) = ap_scd41 s"
  "ap_sht45 (App_RefreshScd41Diagnostics s) = ap_sht45 s" "ap_sgp41 (App_RefreshScd41Diagnostics s) = ap_sgp41 s"
  "ap_bmp390 (App_RefreshScd41Diagnostics s) = ap_bmp390 s" "ap_bmp380 (App_RefreshScd41Diagnostics s) = ap_bmp380 s"
  "ap_last_scd41_ms (App_RefreshScd41Diagnostics s) = ap_last_scd41_ms s" "ap_last_sht45_ms (App_RefreshScd41Diagnostics s) = ap_last_sht45_ms s"
  "ap_last_sgp41_ms (App_RefreshScd41Diagnostics s) = ap_last_sgp41_ms s" "ap_last_bmp390_ms (App_RefreshScd41Diagnostics s) = ap_last_bmp390_ms s"
  "ap_last_bmp380_ms (App_RefreshScd41Diagnostics s) = ap_last_bmp380_ms s" "ap_sht45_room_commit_ms (App_RefreshScd41Diagnostics s) = ap_sht45_room_commit_ms s"
  "ap_bmp390_room_commit_ms (App_RefreshScd41Diagnostics s) = ap_bmp390_room_commit_ms s"
  "scd41_ok (App_RefreshSht45Diagnostics s) = scd41_ok s" "scd41_trk (App_RefreshSht45Diagnostics s) = scd41_trk s"
  "sht45_ok (App_RefreshSht45Diagnostics s) = sht45_ok s" "sht45_trk (App_RefreshSht45Diagnostics s) = sht45_trk s"
  "sgp41_ok (App_RefreshSht45Diagnostics s) = sgp41_ok s" "sgp41_trk (App_RefreshSht45Diagnostics s) = sgp41_trk s"
  "barometers_ok (App_RefreshSht45Diagnostics s) = barometers_ok s" "ap_room (App_RefreshSht45Diagnostics s) = ap_room s"
  "ap_i2c_bus (App_RefreshSht45Diagnostics s) = ap_i2c_bus s" "ap_scd41 (App_RefreshSht45Diagnostics s) = ap_scd41 s"
  "ap_sht45 (App_RefreshSht45Diagnostics s) = ap_sht45 s" "ap_sgp41 (App_RefreshSht45Diagnostics s) = ap_sgp41 s"
  "ap_bmp390 (App_RefreshSht45Diagnostics s) = ap_bmp390 s" "ap_bmp380 (App_RefreshSht45Diagnostics s) = ap_bmp380 s"
  "ap_last_scd41_ms (App_RefreshSht45Diagnostics s) = ap_last_scd41_ms s" "ap_last_sht45_ms (App_RefreshSht45Diagnostics s) = ap_last_sht45_ms s"
  "ap_last_sgp41_ms (App_RefreshSht45Diagnostics s) = ap_last_sgp41_ms s" "ap_last_bmp390_ms (App_RefreshSht45Diagnostics s) = ap_last_bmp390_ms s"
  "ap_last_bmp380_ms (App_RefreshSht45Diagnostics s) = ap_last_bmp380_ms s" "ap_sht45_room_commit_ms (App_RefreshSht45Diagnostics s) = ap_sht45_room_commit_ms s"
  "ap_bmp390_room_commit_ms (App_RefreshSht45Diagnostics s) = ap_bmp390_room_commit_ms s"
  "scd41_ok (App_RefreshSgp41Diagnostics s) = scd41_ok s" "scd41_trk (App_RefreshSgp41Diagnostics s) = scd41_trk s"
  "sht45_ok (App_RefreshSgp41Diagnostics s) = sht45_ok s" "sht45_trk (App_RefreshSgp41Diagnostics s) = sht45_trk s"
  "sgp41_ok (App_RefreshSgp41Diagnostics s) = sgp41_ok s" "sgp41_trk (App_RefreshSgp41Diagnostics s) = sgp41_trk s"
  "barometers_ok (App_RefreshSgp41Diagnostics s) = barometers_ok s" "ap_room (App_RefreshSgp41Diagnostics s) = ap_room s"
  "ap_i2c_bus (App_RefreshSgp41Diagnostics s) = ap_i2c_bus s" "ap_scd41 (App_RefreshSgp41Diagnostics s) = ap_scd41 s"
  "ap_sht45 (App_RefreshSgp41Diagnostics s) = ap_sht45 s" "ap_sgp41 (App_RefreshSgp41Diagnostics s) = ap_sgp41 s"
  "ap_bmp390 (App_RefreshSgp41Diagnostics s) = ap_bmp390 s" "ap_bmp380 (App_RefreshSgp41Diagnostics s) = ap_bmp380 s"
  "ap_last_scd41_ms (App_RefreshSgp41Diagnostics s) = ap_last_scd41_ms s" "ap_last_sht45_ms (App_RefreshSgp41Diagnostics s) = ap_last_sht45_ms s"
  "ap_last_sgp41_ms (App_RefreshSgp41Diagnostics s) = ap_last_sgp41_ms s" "ap_last_bmp390_ms (App_RefreshSgp41Diagnostics s) = ap_last_bmp390_ms s"
  "ap_last_bmp380_ms (App_RefreshSgp41Diagnostics s) = ap_last_bmp380_ms s" "ap_sht45_room_commit_ms (App_RefreshSgp41Diagnostics s) = ap_sht45_room_commit_ms s"
  "ap_bmp390_room_commit_ms (App_RefreshSgp41Diagnostics s) = ap_bmp390_room_commit_ms s"
  "scd41_ok (App_RefreshBmp390Diagnostics s) = scd41_ok s" "scd41_trk (App_RefreshBmp390Diagnostics s) = scd41_trk s"
  "sht45_ok (App_RefreshBmp390Diagnostics s) = sht45_ok s" "sht45_trk (App_RefreshBmp390Diagnostics s) = sht45_trk s"
  "sgp41_ok (App_RefreshBmp390Diagnostics s) = sgp41_ok s" "sgp41_trk (App_RefreshBmp390Diagnostics s) = sgp41_trk s"
  "barometers_ok (App_RefreshBmp390Diagnostics s) = barometers_ok s" "ap_room (App_RefreshBmp390Diagnostics s) = ap_room s"
  "ap_i2c_bus (App_RefreshBmp390Diagnostics s) = ap_i2c_bus s" "ap_scd41 (App_RefreshBmp390Diagnostics s) = ap_scd41 s"
  "ap_sht45 (App_RefreshBmp390Diagnostics s) = ap_sht45 s" "ap_sgp41 (App_RefreshBmp390Diagnostics s) = ap_sgp41 s"
  "ap_bmp390 (App_RefreshBmp390Diagnostics s) = ap_bmp390 s" "ap_bmp380 (App_RefreshBmp390Diagnostics s) = ap_bmp380 s"
  "ap_last_scd41_ms (App_RefreshBmp390Diagnostics s) = ap_last_scd41_ms s" "ap_last_sht45_ms (App_RefreshBmp390Diagnostics s) = ap_last_sht45_ms s"
  "ap_last_sgp41_ms (App_RefreshBmp390Diagnostics s) = ap_last_sgp41_ms s" "ap_last_bmp390_ms (App_RefreshBmp390Diagnostics s) = ap_last_bmp390_ms s"
  "ap_last_bmp380_ms (App_RefreshBmp390Diagnostics s) = ap_last_bmp380_ms s" "ap_sht45_room_commit_ms (App_RefreshBmp390Diagnostics s) = ap_sht45_room_commit_ms s"
  "ap_bmp390_room_commit_ms (App_RefreshBmp390Diagnostics s) = ap_bmp390_room_commit_ms s"
  "scd41_ok (App_RefreshBmp380Diagnostics s) = scd41_ok s" "scd41_trk (App_RefreshBmp380Diagnostics s) = scd41_trk s"
  "sht45_ok (App_RefreshBmp380Diagnostics s) = sht45_ok s" "sht45_trk (App_RefreshBmp380Diagnostics s) = sht45_trk s"
  "sgp41_ok (App_RefreshBmp380Diagnostics s) = sgp41_ok s" "sgp41_trk (App_RefreshBmp380Diagnostics s) = sgp41_trk s"
  "barometers_ok (App_RefreshBmp380Diagnostics s) = barometers_ok s" "ap_room (App_RefreshBmp380Diagnostics s) = ap_room s"
  "ap_i2c_bus (App_RefreshBmp380Diagnostics s) = ap_i2c_bus s" "ap_scd41 (App_RefreshBmp380Diagnostics s) = ap_scd41 s"
  "ap_sht45 (App_RefreshBmp380Diagnostics s) = ap_sht45 s" "ap_sgp41 (App_RefreshBmp380Diagnostics s) = ap_sgp41 s"
  "ap_bmp390 (App_RefreshBmp380Diagnostics s) = ap_bmp390 s" "ap_bmp380 (App_RefreshBmp380Diagnostics s) = ap_bmp380 s"
  "ap_last_scd41_ms (App_RefreshBmp380Diagnostics s) = ap_last_scd41_ms s" "ap_last_sht45_ms (App_RefreshBmp380Diagnostics s) = ap_last_sht45_ms s"
  "ap_last_sgp41_ms (App_RefreshBmp380Diagnostics s) = ap_last_sgp41_ms s" "ap_last_bmp390_ms (App_RefreshBmp380Diagnostics s) = ap_last_bmp390_ms s"
  "ap_last_bmp380_ms (App_RefreshBmp380Diagnostics s) = ap_last_bmp380_ms s" "ap_sht45_room_commit_ms (App_RefreshBmp380Diagnostics s) = ap_sht45_room_commit_ms s"
  "ap_bmp390_room_commit_ms (App_RefreshBmp380Diagnostics s) = ap_bmp390_room_commit_ms s"
  by (simp_all add: ok_defs App_RefreshScd41Diagnostics_def App_RefreshSht45Diagnostics_def
      App_RefreshSgp41Diagnostics_def App_RefreshBmp390Diagnostics_def App_RefreshBmp380Diagnostics_def)

lemma App_DoPollScd41_ok:
  assumes "feed_ok bus s" "runtime_active (sr_state (ap_scd41 s))"
    and "App_DoPollScd41 now (s\<lparr>ap_last_scd41_ms := now\<rparr>) b = (s', b')"
  shows "feed_ok bus s'"
proof -
  obtain rt b1 where p: "Scd41Runtime_Poll now (ap_scd41 s) b = (rt, b1)" by fastforce
  have "scd41f.tracked now rt"
    using scd41f.poll_tracked [OF _ assms(2) p, of "ap_last_scd41_ms s"] assms(1) by (simp add: feed_ok_def scd41_ok_def scd41_trk_def)
  moreover have "scd41_shown (ap_room s) \<longrightarrow> Scd41Runtime_HasValidSample (ap_scd41 s)"
    using assms(1) by (simp add: feed_ok_def scd41_ok_def)
  ultimately show ?thesis
    using assms(1,3) by (auto simp: App_DoPollScd41_def p Let_def feed_ok_def split: if_splits)
qed

lemma App_DoPollSht45_ok:
  assumes "feed_ok bus s" "runtime_active (hr_state (ap_sht45 s))"
    and "App_DoPollSht45 now (s\<lparr>ap_last_sht45_ms := now\<rparr>) b = (s', b')"
  shows "feed_ok bus s'"
proof -
  obtain rt b1 where p: "Sht45Runtime_Poll now (ap_sht45 s) b = (rt, b1)" by fastforce
  have "sht45f.tracked now rt"
    using sht45f.poll_tracked [OF _ assms(2) p, of "ap_last_sht45_ms s"] assms(1) by (simp add: feed_ok_def sht45_ok_def sht45_trk_def)
  moreover have "sht45_shown (ap_room s) \<longrightarrow> Sht45Runtime_HasValidSample (ap_sht45 s)"
    using assms(1) by (simp add: feed_ok_def sht45_ok_def)
  ultimately show ?thesis
    using assms(1,3) by (auto simp: App_DoPollSht45_def p Let_def feed_ok_def split: if_splits)
qed

lemma App_DoPollBmp390_ok:
  assumes "feed_ok bus s" "runtime_active (br_state (ap_bmp390 s))"
    and "App_DoPollBmp390 now (s\<lparr>ap_last_bmp390_ms := now\<rparr>) b = (s', b')"
  shows "feed_ok bus s'"
proof -
  obtain rt b1 where p: "bmp3_Poll BMP390 now (ap_bmp390 s) b = (rt, b1)" by fastforce
  have "bmp390f.tracked now rt"
    using bmp390f.poll_tracked [OF _ assms(2) p, of "ap_last_bmp390_ms s"] assms(1) by (simp add: feed_ok_def barometers_ok_def)
  then show ?thesis
    using assms(1,3) by (auto simp: App_DoPollBmp390_def p Let_def feed_ok_def barometers_ok_def split: if_splits)
qed

lemma App_DoPollBmp380_ok:
  assumes "feed_ok bus s" "runtime_active (br_state (ap_bmp380 s))"
    and "App_DoPollBmp380 now (s\<lparr>ap_last_bmp380_ms := now\<rparr>) b = (s', b')"
  shows "feed_ok bus s'"
proof -
  obtain rt b1 where p: "Bmp380Runtime_Poll now (ap_bmp380 s) b = (rt, b1)" by fastforce
  have "bmp380f.tracked now rt"
    using bmp380f.poll_tracked [OF _ assms(2) p, of "ap_last_bmp380_ms s"] assms(1) by (simp add: feed_ok_def barometers_ok_def)
  then show ?thesis
    using assms(1,3) by (auto simp: App_DoPollBmp380_def p Let_def feed_ok_def barometers_ok_def split: if_splits)
qed

lemma sgp41_compensation_tracked:
  "sgp41f.tracked t (Sgp41Runtime_SetCompensation c rt) = sgp41f.tracked t rt"
  "gr_state (Sgp41Runtime_SetCompensation c rt) = gr_state rt"
  by (auto simp: Sgp41Runtime_SetCompensation_def sgp41f.tracked_def sgp41.settled_def
      Sgp41Runtime_HasValidSample_def split: option.splits prod.splits)

lemma App_DoPollSgp41_ok:
  assumes "feed_ok bus s" "runtime_active (gr_state (ap_sgp41 s))"
    and "App_DoPollSgp41 now (s\<lparr>ap_last_sgp41_ms := now\<rparr>) b = (s', b')"
  shows "feed_ok bus s'"
proof -
  let ?c = "Sgp41Runtime_SetCompensation (Some (room_compensation (ap_room s))) (ap_sgp41 s)"
  obtain rt b1 where p: "Sgp41Runtime_Poll now ?c b = (rt, b1)" by fastforce
  have "sgp41f.tracked now rt"
    using sgp41f.poll_tracked [OF _ _ p, of "ap_last_sgp41_ms s"] assms(1,2)
    by (simp add: feed_ok_def sgp41_ok_def sgp41_trk_def sgp41_compensation_tracked)
  moreover have "sgp41_shown (ap_room s) \<longrightarrow> Sgp41Runtime_HasValidSample (ap_sgp41 s)"
    using assms(1) by (simp add: feed_ok_def sgp41_ok_def)
  ultimately show ?thesis
    using assms(1,3) by (auto simp: App_DoPollSgp41_def p Let_def feed_ok_def split: if_splits)
qed

text \<open>A restart in a resting state leaves the runtime without a valid sample, as it was.\<close>

lemma app_retry_scd41_ok:
  assumes "feed_ok bus s" "app_retry_scd41 now s b = (s', b')"
  shows "feed_ok bus s'"
proof -
  obtain st rt b1 where p: "Scd41Runtime_Start now (ap_scd41 s) b = (st, rt, b1)" by (metis prod.collapse)
  have "scd41f.tracked (ap_last_scd41_ms s) rt \<and> \<not> Scd41Runtime_HasValidSample rt \<and> \<not> Scd41Runtime_HasValidSample (ap_scd41 s)"
    if "sensor_resting (sr_state (ap_scd41 s))"
    using scd41f.start_tracked [OF _ that p, of "ap_last_scd41_ms s"] that assms(1)
    by (auto simp: feed_ok_def scd41_ok_def scd41_trk_def scd41f.tracked_def scd41.settled_def)
  then show ?thesis
    using assms scd41f.recover_tracked [of "ap_last_scd41_ms s" "ap_scd41 s"]
    by (cases "sr_state (ap_scd41 s)")
      (auto simp: app_retry_scd41_def App_DoStartScd41_def p Let_def feed_ok_def scd41_ok_def scd41_trk_def sensor_resting_def
        split: if_splits)
qed

lemma app_retry_sht45_ok:
  assumes "feed_ok bus s" "app_retry_sht45 now s b = (s', b')"
  shows "feed_ok bus s'"
proof -
  obtain st rt b1 where p: "Sht45Runtime_Start now (ap_sht45 s) b = (st, rt, b1)" by (metis prod.collapse)
  have "sht45f.tracked (ap_last_sht45_ms s) rt \<and> \<not> Sht45Runtime_HasValidSample rt \<and> \<not> Sht45Runtime_HasValidSample (ap_sht45 s)"
    if "sensor_resting (hr_state (ap_sht45 s))"
    using sht45f.start_tracked [OF _ that p, of "ap_last_sht45_ms s"] that assms(1)
    by (auto simp: feed_ok_def sht45_ok_def sht45_trk_def sht45f.tracked_def sht45.settled_def)
  then show ?thesis
    using assms sht45f.recover_tracked [of "ap_last_sht45_ms s" "ap_sht45 s"]
    by (cases "hr_state (ap_sht45 s)")
      (auto simp: app_retry_sht45_def App_DoStartSht45_def p Let_def feed_ok_def sht45_ok_def sht45_trk_def sensor_resting_def
        split: if_splits)
qed

lemma app_retry_bmp390_ok:
  assumes "feed_ok bus s" "app_retry_bmp390 now s b = (s', b')"
  shows "feed_ok bus s'"
proof -
  obtain st rt b1 where p: "bmp3_Start BMP390 now (ap_bmp390 s) b = (st, rt, b1)" by (metis prod.collapse)
  have "bmp390f.tracked (ap_last_bmp390_ms s) rt"
    if "sensor_resting (br_state (ap_bmp390 s))"
    using bmp390f.start_tracked [OF _ that p, of "ap_last_bmp390_ms s"] that assms(1)
    by (auto simp: feed_ok_def barometers_ok_def)
  then show ?thesis
    using assms bmp390f.recover_tracked [of "ap_last_bmp390_ms s" "ap_bmp390 s"]
    by (cases "br_state (ap_bmp390 s)")
      (auto simp: app_retry_bmp390_def App_DoStartBmp390_def p Let_def feed_ok_def barometers_ok_def sensor_resting_def
        split: if_splits)
qed

lemma app_retry_bmp380_ok:
  assumes "feed_ok bus s" "app_retry_bmp380 now s b = (s', b')"
  shows "feed_ok bus s'"
proof -
  obtain st rt b1 where p: "Bmp380Runtime_Start now (ap_bmp380 s) b = (st, rt, b1)" by (metis prod.collapse)
  have "bmp380f.tracked (ap_last_bmp380_ms s) rt"
    if "sensor_resting (br_state (ap_bmp380 s))"
    using bmp380f.start_tracked [OF _ that p, of "ap_last_bmp380_ms s"] that assms(1)
    by (auto simp: feed_ok_def barometers_ok_def)
  then show ?thesis
    using assms bmp380f.recover_tracked [of "ap_last_bmp380_ms s" "ap_bmp380 s"]
    by (cases "br_state (ap_bmp380 s)")
      (auto simp: app_retry_bmp380_def App_DoStartBmp380_def p Let_def feed_ok_def barometers_ok_def sensor_resting_def
        split: if_splits)
qed

lemma app_retry_sgp41_ok:
  assumes "feed_ok bus s" "app_retry_sgp41 now s b = (s', b')"
  shows "feed_ok bus s'"
proof -
  obtain st rt b1 where p: "Sgp41Runtime_Start now (ap_sgp41 s) b = (st, rt, b1)" by (metis prod.collapse)
  have "sgp41f.tracked (ap_last_sgp41_ms s) rt \<and> \<not> Sgp41Runtime_HasValidSample rt \<and> \<not> Sgp41Runtime_HasValidSample (ap_sgp41 s)"
    if "sensor_resting (gr_state (ap_sgp41 s))"
    using sgp41f.start_tracked [OF _ that p, of "ap_last_sgp41_ms s"] that assms(1)
    by (auto simp: feed_ok_def sgp41_ok_def sgp41_trk_def sgp41f.tracked_def sgp41.settled_def)
  then show ?thesis
    using assms sgp41f.recover_tracked [of "ap_last_sgp41_ms s" "ap_sgp41 s"]
    by (cases "gr_state (ap_sgp41 s)")
      (auto simp: app_retry_sgp41_def App_DoStartSgp41_def p Let_def feed_ok_def sgp41_ok_def sgp41_trk_def sensor_resting_def
        split: if_splits)
qed

section \<open>Passes of the schedule\<close>

definition no_bus_recovery :: "'b I2cBus option \<Rightarrow> bool" where
  "no_bus_recovery bus \<longleftrightarrow> (\<forall>b. fst (I2cBus_Recover bus b) \<noteq> DRIVER_STATUS_OK)"

lemma app_recover_bus_feed:
  assumes "no_bus_recovery (ap_i2c_bus s)" "app_recover_bus now s b = (s', b')"
  shows "feed s' = feed s"
proof -
  obtain rs b1 where r: "I2cBus_Recover (ap_i2c_bus s) b = (rs, b1)" by fastforce
  then have "rs \<noteq> DRIVER_STATUS_OK" using assms(1) by (metis fst_conv no_bus_recovery_def)
  then show ?thesis using assms(2) r by (auto simp: app_recover_bus_def Let_def split: if_splits)
qed

lemma App_DoRetry_ok:
  assumes "feed_ok bus s" "no_bus_recovery bus" "App_DoRetry now s b = (s', b')"
  shows "feed_ok bus s'"
proof -
  let ?r = "app_report_health now s"
  obtain s1 b1 where 1: "app_recover_bus now ?r b = (s1, b1)" by fastforce
  obtain s2 b2 where 2: "app_probe_light_display now (upd_disp retry_display_state (app_retry_light now s1)) b1 = (s2, b2)"
    by fastforce
  obtain s3 b3 where 3: "app_retry_scd41 now s2 b2 = (s3, b3)" by fastforce
  obtain s4 b4 where 4: "app_retry_sht45 now s3 b3 = (s4, b4)" by fastforce
  obtain s5 b5 where 5: "app_retry_bmp390 now s4 b4 = (s5, b5)" by fastforce
  obtain s6 b6 where 6: "app_retry_bmp380 now s5 b5 = (s6, b6)" by fastforce
  have r: "feed_ok bus ?r"
    using assms(1) by (simp add: feed_ok_frame [of ?r s])
  then have "ap_i2c_bus ?r = bus" by (simp add: feed_ok_def)
  then have "feed s1 = feed ?r"
    using app_recover_bus_feed [OF _ 1] assms(2) by simp
  then have "feed s2 = feed ?r"
    using app_probe_light_display_feed [OF 2] by simp
  then have "feed_ok bus s2" using r feed_ok_frame [of s2 ?r] by simp
  then have 8: "feed_ok bus s6"
    by (intro app_retry_bmp380_ok [OF _ 6] app_retry_bmp390_ok [OF _ 5] app_retry_sht45_ok [OF _ 4]
        app_retry_scd41_ok [OF _ 3])
  have "app_retry_sgp41 now s6 b6 = (s', b')"
    using assms(3) unfolding App_DoRetry_def 1 2 3 4 5 6 prod.case .
  with 8 show ?thesis by (rule app_retry_sgp41_ok)
qed

text \<open>The ticks of the last polls, which every poll but the sensor's own leaves alone.\<close>

definition polls :: "'b sensing \<Rightarrow> u32 list" where
  "polls s = [ap_last_scd41_ms s, ap_last_sht45_ms s, ap_last_bmp390_ms s, ap_last_bmp380_ms s, ap_last_sgp41_ms s]"

lemma App_DoPoll_polls:
  "App_DoPollScd41 now s b = (s', b') \<Longrightarrow> polls s' = polls s"
  "App_DoPollSht45 now s b = (s', b') \<Longrightarrow> polls s' = polls s"
  "App_DoPollBmp390 now s b = (s', b') \<Longrightarrow> polls s' = polls s"
  "App_DoPollBmp380 now s b = (s', b') \<Longrightarrow> polls s' = polls s"
  "App_DoPollSgp41 now s b = (s', b') \<Longrightarrow> polls s' = polls s"
  by (auto simp: App_DoPollScd41_def App_DoPollSht45_def App_DoPollBmp390_def App_DoPollBmp380_def
      App_DoPollSgp41_def polls_def Let_def split: prod.splits if_splits)

lemma polls_feed: "feed s' = feed s \<Longrightarrow> polls s' = polls s"
  by (simp add: feed_def polls_def)

definition recent :: "u32 \<Rightarrow> u32 \<Rightarrow> bool" where
  "recent now t \<longleftrightarrow> now - t < 500"

lemmas poll_intervals =
  SCD41_RUNTIME_POLL_INTERVAL_MS_def SHT45_RUNTIME_POLL_INTERVAL_MS_def BMP390_RUNTIME_POLL_INTERVAL_MS_def
  SGP41_RUNTIME_POLL_INTERVAL_MS_def

lemma due_scd41_ok:
  assumes "feed_ok bus s" "due_scd41 now s b = (s', b')"
  shows "feed_ok bus s' \<and> recent now (ap_last_scd41_ms s') \<and> polls s' ! 1 = polls s ! 1 \<and>
    polls s' ! 2 = polls s ! 2 \<and> polls s' ! 3 = polls s ! 3 \<and> polls s' ! 4 = polls s ! 4"
proof -
  have "feed_ok bus (s\<lparr>ap_last_scd41_ms := now\<rparr>)" if "\<not> runtime_active (sr_state (ap_scd41 s))"
    using assms(1) scd41f.resting_tracked [OF _ that, of "ap_last_scd41_ms s" now]
    by (simp add: feed_ok_def ok_defs)
  then show ?thesis
    using assms App_DoPollScd41_ok [OF assms(1)] App_DoPoll_polls(1)
    by (fastforce simp: due_scd41_def Let_def polls_def recent_def poll_intervals not_le split: if_splits)
qed

lemma due_sht45_ok:
  assumes "feed_ok bus s" "due_sht45 now s b = (s', b')"
  shows "feed_ok bus s' \<and> recent now (ap_last_sht45_ms s') \<and> polls s' ! 0 = polls s ! 0 \<and>
    polls s' ! 2 = polls s ! 2 \<and> polls s' ! 3 = polls s ! 3 \<and> polls s' ! 4 = polls s ! 4"
proof -
  have "feed_ok bus (s\<lparr>ap_last_sht45_ms := now\<rparr>)" if "\<not> runtime_active (hr_state (ap_sht45 s))"
    using assms(1) sht45f.resting_tracked [OF _ that, of "ap_last_sht45_ms s" now]
    by (simp add: feed_ok_def ok_defs)
  then show ?thesis
    using assms App_DoPollSht45_ok [OF assms(1)] App_DoPoll_polls(2)
    by (fastforce simp: due_sht45_def Let_def polls_def recent_def poll_intervals not_le split: if_splits)
qed

lemma due_bmp390_ok:
  assumes "feed_ok bus s" "due_bmp390 now s b = (s', b')"
  shows "feed_ok bus s' \<and> recent now (ap_last_bmp390_ms s') \<and> polls s' ! 0 = polls s ! 0 \<and>
    polls s' ! 1 = polls s ! 1 \<and> polls s' ! 3 = polls s ! 3 \<and> polls s' ! 4 = polls s ! 4"
proof -
  have "feed_ok bus (s\<lparr>ap_last_bmp390_ms := now\<rparr>)" if "\<not> runtime_active (br_state (ap_bmp390 s))"
    using assms(1) bmp390f.resting_tracked [OF _ that, of "ap_last_bmp390_ms s" now]
    by (simp add: feed_ok_def ok_defs)
  then show ?thesis
    using assms App_DoPollBmp390_ok [OF assms(1)] App_DoPoll_polls(3)
    by (fastforce simp: due_bmp390_def Let_def polls_def recent_def poll_intervals not_le split: if_splits)
qed

lemma due_bmp380_ok:
  assumes "feed_ok bus s" "due_bmp380 now s b = (s', b')"
  shows "feed_ok bus s' \<and> recent now (ap_last_bmp380_ms s') \<and> polls s' ! 0 = polls s ! 0 \<and>
    polls s' ! 1 = polls s ! 1 \<and> polls s' ! 2 = polls s ! 2 \<and> polls s' ! 4 = polls s ! 4"
proof -
  have "feed_ok bus (s\<lparr>ap_last_bmp380_ms := now\<rparr>)" if "\<not> runtime_active (br_state (ap_bmp380 s))"
    using assms(1) bmp380f.resting_tracked [OF _ that, of "ap_last_bmp380_ms s" now]
    by (simp add: feed_ok_def ok_defs)
  then show ?thesis
    using assms App_DoPollBmp380_ok [OF assms(1)] App_DoPoll_polls(4)
    by (fastforce simp: due_bmp380_def Let_def polls_def recent_def poll_intervals not_le split: if_splits)
qed

lemma due_sgp41_ok:
  assumes "feed_ok bus s" "due_sgp41 now s b = (s', b')"
  shows "feed_ok bus s' \<and> recent now (ap_last_sgp41_ms s') \<and> polls s' ! 0 = polls s ! 0 \<and>
    polls s' ! 1 = polls s ! 1 \<and> polls s' ! 2 = polls s ! 2 \<and> polls s' ! 3 = polls s ! 3"
proof -
  have "feed_ok bus (s\<lparr>ap_last_sgp41_ms := now\<rparr>)" if "\<not> runtime_active (gr_state (ap_sgp41 s))"
    using assms(1) sgp41f.resting_tracked [OF _ that, of "ap_last_sgp41_ms s" now]
    by (simp add: feed_ok_def ok_defs)
  then show ?thesis
    using assms App_DoPollSgp41_ok [OF assms(1)] App_DoPoll_polls(5)
    by (fastforce simp: due_sgp41_def Let_def polls_def recent_def poll_intervals not_le split: if_splits)
qed

text \<open>The two selections change the generic channels only, and leave them with their source.\<close>

definition environment_sourced :: "RoomState \<Rightarrow> bool" where
  "environment_sourced r \<longleftrightarrow>
     (rs_environment_temperature_valid r \<or> rs_environment_humidity_valid r \<longrightarrow>
        rs_environment_provider r = ENVIRONMENT_PROVIDER_SHT45 \<and> sht45_shown r \<and>
          rs_environment_temperature_c r = rs_sht45_temperature_c r \<and>
          rs_environment_humidity_pct r = rs_sht45_humidity_pct r \<or>
        rs_environment_provider r = ENVIRONMENT_PROVIDER_SCD41 \<and> scd41_shown r \<and>
          rs_environment_temperature_c r = rs_scd41_temperature_c r \<and>
          rs_environment_humidity_pct r = rs_scd41_humidity_pct r)"

definition barometer_sourced :: "'b Bmp3Runtime \<Rightarrow> 'b Bmp3Runtime \<Rightarrow> RoomState \<Rightarrow> bool" where
  "barometer_sourced rt390 rt380 r \<longleftrightarrow>
     (rs_bmp390_pressure_valid r \<or> rs_bmp390_temperature_valid r \<longrightarrow> bmp3_HasValidSample rt390) \<and>
     (rs_barometric_pressure_valid r \<or> rs_barometric_temperature_valid r \<longrightarrow>
        rs_barometric_provider r = BAROMETER_PROVIDER_BMP390 \<and> bmp3_HasValidSample rt390 \<and>
          rs_barometric_pressure_pa r = bm_pressure_pa (br_last_sample rt390) \<or>
        rs_barometric_provider r = BAROMETER_PROVIDER_BMP380 \<and> Bmp380Runtime_HasValidSample rt380 \<and>
          rs_barometric_pressure_pa r = bm_pressure_pa (br_last_sample rt380))"

lemma commits_feed:
  "feed (App_CommitBarometricRoomState now s) = feed s"
  "feed (App_CommitEnvironmentRoomState now s) = feed s"
  by (simp_all add: App_CommitBarometricRoomState_def App_CommitEnvironmentRoomState_def feed_def Let_def)

lemma commit_environment_sourced: "environment_sourced (ap_room (App_CommitEnvironmentRoomState now s))"
  by (simp add: App_CommitEnvironmentRoomState_def environment_sourced_def sht45_shown_def scd41_shown_def
      RoomState_UpdateEnvironment_def RoomState_InvalidateEnvironment_def Let_def)

lemma commit_barometer_sourced:
  "barometer_sourced (ap_bmp390 s) (ap_bmp380 s) (ap_room (App_CommitBarometricRoomState now s))"
  by (simp add: App_CommitBarometricRoomState_def barometer_sourced_def RoomState_UpdateBarometric_def
      RoomState_InvalidateBarometric_def Let_def)

lemma barometer_sourced_environment:
  "barometer_sourced a c (ap_room (App_CommitEnvironmentRoomState now s)) = barometer_sourced a c (ap_room s)"
  by (simp add: App_CommitEnvironmentRoomState_def barometer_sourced_def
      RoomState_UpdateEnvironment_def RoomState_InvalidateEnvironment_def Let_def)

lemma sourced_sgp41 [simp]:
  "environment_sourced (RoomState_UpdateSgp41 a ak c ck v vk n nk now r) = environment_sourced r"
  "environment_sourced (RoomState_InvalidateSgp41 now r) = environment_sourced r"
  "barometer_sourced x y (RoomState_UpdateSgp41 a ak c ck v vk n nk now r) = barometer_sourced x y r"
  "barometer_sourced x y (RoomState_InvalidateSgp41 now r) = barometer_sourced x y r"
  unfolding environment_sourced_def barometer_sourced_def sht45_shown_frame scd41_shown_frame
  by (simp_all add: RoomState_UpdateSgp41_def RoomState_InvalidateSgp41_def)

lemma due_sgp41_sourced:
  assumes "due_sgp41 now s b = (s', b')"
  shows "environment_sourced (ap_room s') = environment_sourced (ap_room s) \<and>
    barometer_sourced (ap_bmp390 s') (ap_bmp380 s') (ap_room s') =
      barometer_sourced (ap_bmp390 s) (ap_bmp380 s) (ap_room s)"
  using assms
  by (auto simp: due_sgp41_def App_DoPollSgp41_def Let_def split: if_splits prod.splits)

lemma due_display_room:
  "due_display now cs s b = (s', b') \<Longrightarrow> feed s' = feed s \<and> ap_room s' = ap_room s"
  by (auto simp: due_display_def App_DoUpdateDisplay_def Let_def upd_disp_def feed_def
      split: if_splits prod.splits)

lemma due_light_feed: "due_light now cfg s b = (s', b') \<Longrightarrow> feed s' = feed s"
  by (auto simp: due_light_def Let_def split: if_splits dest!: light_display_feed(3))

lemma due_retry_ok:
  assumes "feed_ok bus s" "no_bus_recovery bus" "due_retry now cs s b = (s', b')"
  shows "feed_ok bus s'"
  using assms App_DoRetry_ok [of bus "s\<lparr>ap_last_retry_ms := now\<rparr>" now b s' b']
    feed_ok_frame [of "s\<lparr>ap_last_retry_ms := now\<rparr>" s bus]
  by (auto simp: due_retry_def split: if_splits)

text \<open>One pass: the invariant, the recent polls, and the sources of the generic channels.\<close>

lemma app_sense_ok:
  assumes "feed_ok bus s" "no_bus_recovery bus" "app_sense now cfg s b = (s', b')"
  shows "feed_ok bus s' \<and> list_all (recent now) (polls s') \<and> environment_sourced (ap_room s') \<and>
    barometer_sourced (ap_bmp390 s') (ap_bmp380 s') (ap_room s')"
proof -
  obtain s1 b1 where 1: "due_retry now (rsc_storage cfg) s b = (s1, b1)" by fastforce
  obtain s2 b2 where 2: "due_light now cfg s1 b1 = (s2, b2)" by fastforce
  obtain s3 b3 where 3: "due_scd41 now s2 b2 = (s3, b3)" by fastforce
  obtain s4 b4 where 4: "due_sht45 now s3 b3 = (s4, b4)" by fastforce
  obtain s5 b5 where 5: "due_bmp390 now s4 b4 = (s5, b5)" by fastforce
  obtain s6 b6 where 6: "due_bmp380 now s5 b5 = (s6, b6)" by fastforce
  let ?b = "App_CommitBarometricRoomState now s6"
  let ?c = "App_CommitEnvironmentRoomState now ?b"
  obtain s7 b7 where 7: "due_sgp41 now ?c b6 = (s7, b7)" by fastforce
  have 8: "due_display now (rsc_storage cfg) s7 b7 = (s', b')"
    using assms(3) unfolding app_sense_def 1 2 3 4 5 6 7 prod.case .
  have "feed_ok bus s2"
    using due_retry_ok [OF assms(1,2) 1] due_light_feed [OF 2] feed_ok_frame [of s2 s1] by simp
  note k3 = due_scd41_ok [OF this 3]
  note k4 = due_sht45_ok [OF k3 [THEN conjunct1] 4]
  note k5 = due_bmp390_ok [OF k4 [THEN conjunct1] 5]
  note k6 = due_bmp380_ok [OF k5 [THEN conjunct1] 6]
  have c: "feed ?c = feed s6" by (simp only: commits_feed)
  then have "feed_ok bus ?c" using k6 feed_ok_frame [of ?c s6] by simp
  note k7 = due_sgp41_ok [OF this 7]
  have d: "feed s' = feed s7" "ap_room s' = ap_room s7" using due_display_room [OF 8] by simp_all
  have "list_all (recent now) (polls s7)"
    using k3 k4 k5 k6 k7 polls_feed [OF c] by (simp add: polls_def)
  moreover have "environment_sourced (ap_room s7)"
    using due_sgp41_sourced [OF 7] commit_environment_sourced by simp
  moreover have "barometer_sourced (ap_bmp390 s7) (ap_bmp380 s7) (ap_room s7)"
    using due_sgp41_sourced [OF 7] commit_barometer_sourced [of s6 now] c
    by (simp add: barometer_sourced_environment feed_def)
  moreover have "ap_bmp390 s' = ap_bmp390 s7" "ap_bmp380 s' = ap_bmp380 s7"
    using d(1) by (simp_all add: feed_def)
  ultimately show ?thesis
    using k7 d polls_feed [OF d(1)] feed_ok_frame [OF d(1), of bus] by simp
qed

end
