(* ===== verification/Crc8_Props.thy ===== *)
theory Crc8_Props
  imports I2c_Bus
begin

text \<open>
  What the CRC of the Sensirion sensors detects: it is linear, its step is injective, and its
  generator has a factor \<open>x + 1\<close>. A response whose check succeeds is therefore never mistaken
  for another one that differs from it in a single byte, or in at most three bits.
\<close>

section \<open>Linearity\<close>

lemma crc8_bit_xor: "crc8_bit (a XOR b) = crc8_bit a XOR crc8_bit b"
proof -
  have top: "x AND 0x80 = 0 \<longleftrightarrow> \<not> bit x 7" for x :: u8
    using and_exp_eq_0_iff_not_bit[of x 7] by simp
  show ?thesis
    by (simp add: crc8_bit_def top bit_xor_iff push_bit_xor) (auto simp: ac_simps)
qed

lemma crc8_steps_xor: "(crc8_bit ^^ n) (a XOR b) = (crc8_bit ^^ n) a XOR (crc8_bit ^^ n) b"
  by (induction n) (simp_all add: crc8_bit_xor)

lemma crc8_byte_xor: "crc8_byte (c XOR c') (d XOR d') = crc8_byte c d XOR crc8_byte c' d'"
proof -
  have "(c XOR c') XOR (d XOR d') = (c XOR d) XOR (c' XOR d')"
    by (simp add: ac_simps)
  then show ?thesis
    by (simp only: crc8_byte_def crc8_steps_xor)
qed

text \<open>The difference of two accepted responses is itself a code word of the generator.\<close>

definition crc8_word :: "u8 \<Rightarrow> u8 \<Rightarrow> u8" where
  "crc8_word a b = crc8_byte (crc8_byte 0 a) b"

lemma accepted_iff:
  "length p = 3 \<Longrightarrow> fst (ReadWordWithCrc p) = DRIVER_STATUS_OK \<longleftrightarrow>
     crc8_byte (crc8_byte 0xFF (p ! 0)) (p ! 1) = p ! 2"
  by (auto simp: ReadWordWithCrc_def Sensirion_Crc8_def Let_def numeral_eq_Suc length_Suc_conv)

lemma rejected_iff:
  "fst (ReadWordWithCrc p) = DRIVER_STATUS_CRC_ERROR \<longleftrightarrow> fst (ReadWordWithCrc p) \<noteq> DRIVER_STATUS_OK"
  by (simp add: ReadWordWithCrc_def Let_def)

lemma accepted_difference:
  assumes "length p = 3" "length p' = 3"
    "fst (ReadWordWithCrc p) = DRIVER_STATUS_OK" "fst (ReadWordWithCrc p') = DRIVER_STATUS_OK"
  shows "crc8_word (p ! 0 XOR p' ! 0) (p ! 1 XOR p' ! 1) = p ! 2 XOR p' ! 2"
proof -
  have "crc8_byte 0 (a XOR b) = crc8_byte 0xFF a XOR crc8_byte 0xFF b" for a b
    using crc8_byte_xor[of "0xFF" "0xFF" a b] by simp
  then show ?thesis
    using assms by (simp add: crc8_word_def accepted_iff crc8_byte_xor)
qed

section \<open>Bits of a byte\<close>

definition bits_set :: "u8 \<Rightarrow> nat" where
  "bits_set x = length (filter (bit x) [0..<8])"

lemma even_of_bool: "even (of_bool b :: nat) \<longleftrightarrow> \<not> b"
  by simp

lemma bits_set_sum:
  "bits_set x = of_bool (bit x 0) + of_bool (bit x 1) + of_bool (bit x 2) + of_bool (bit x 3)
     + of_bool (bit x 4) + of_bool (bit x 5) + of_bool (bit x 6) + of_bool (bit x 7)"
  by (simp add: bits_set_def upt_rec numeral_eq_Suc)

lemma byte_zero_iff:
  "x = 0 \<longleftrightarrow> \<not> bit x 0 \<and> \<not> bit x 1 \<and> \<not> bit x 2 \<and> \<not> bit x 3 \<and>
     \<not> bit x 4 \<and> \<not> bit x 5 \<and> \<not> bit x 6 \<and> \<not> bit (x :: u8) 7" (is "_ \<longleftrightarrow> ?z")
proof
  assume z: ?z
  show "x = 0"
  proof (rule bit_word_eqI)
    fix n :: nat
    assume "n < LENGTH(8)"
    then have "n = 0 \<or> n = 1 \<or> n = 2 \<or> n = 3 \<or> n = 4 \<or> n = 5 \<or> n = 6 \<or> n = 7" by auto
    with z show "bit x n = bit 0 n" by (elim disjE) simp_all
  qed
qed simp

text \<open>The eight steps, bit by bit.\<close>

lemma bit_crc8_bit:
  "bit (crc8_bit x) 0 = bit x 7" "bit (crc8_bit x) 1 = bit x 0" "bit (crc8_bit x) 2 = bit x 1"
  "bit (crc8_bit x) 3 = bit x 2" "bit (crc8_bit x) 4 = (bit x 3 \<noteq> bit x 7)"
  "bit (crc8_bit x) 5 = (bit x 4 \<noteq> bit x 7)" "bit (crc8_bit x) 6 = bit x 5" "bit (crc8_bit x) 7 = bit x 6"
proof -
  have "crc8_bit x = (if bit x 7 then push_bit 1 x XOR 0x31 else push_bit 1 x)"
    unfolding crc8_bit_def using and_exp_eq_0_iff_not_bit[of x 7] by simp
  then have b: "bit (crc8_bit x) n \<longleftrightarrow> (1 \<le> n \<and> n < 8 \<and> bit x (n - 1)) \<noteq> (bit x 7 \<and> bit (0x31 :: u8) n)" for n
    by (cases "bit x 7") (simp_all only: if_True if_False bit_xor_iff bit_push_bit_iff possible_bit_word len_of_numeral_defs, auto)
  show "bit (crc8_bit x) 0 = bit x 7" "bit (crc8_bit x) 1 = bit x 0" "bit (crc8_bit x) 2 = bit x 1"
    "bit (crc8_bit x) 3 = bit x 2" "bit (crc8_bit x) 4 = (bit x 3 \<noteq> bit x 7)"
    "bit (crc8_bit x) 5 = (bit x 4 \<noteq> bit x 7)" "bit (crc8_bit x) 6 = bit x 5" "bit (crc8_bit x) 7 = bit x 6"
    unfolding b by simp_all
qed

lemma crc8_byte_steps':
  "crc8_byte c x =
     crc8_bit (crc8_bit (crc8_bit (crc8_bit (crc8_bit (crc8_bit (crc8_bit (crc8_bit (c XOR x))))))))"
  by (simp add: crc8_byte_def eval_nat_numeral)

lemma crc8_byte_steps:
  "crc8_byte 0 x = crc8_bit (crc8_bit (crc8_bit (crc8_bit (crc8_bit (crc8_bit (crc8_bit (crc8_bit x)))))))"
  by (simp add: crc8_byte_steps')

lemma crc8_zero: "crc8_byte 0 x = 0 \<longleftrightarrow> x = 0"
  unfolding crc8_byte_steps byte_zero_iff bit_crc8_bit by argo

lemma crc8_zero_zero [simp]: "crc8_byte 0 0 = 0"
  by (simp add: crc8_zero)

lemma crc8_bit_parity: "even (bits_set (crc8_bit x)) \<longleftrightarrow> even (bits_set x)"
  unfolding bits_set_sum even_add even_of_bool bit_crc8_bit by (cases "bit x 7") auto

lemma crc8_parity: "even (bits_set (crc8_byte 0 x)) \<longleftrightarrow> even (bits_set x)"
  unfolding crc8_byte_steps crc8_bit_parity ..

lemma one_bit_set:
  assumes "bits_set x = 1"
  shows "\<exists>n<8. x = 2 ^ n"
proof -
  obtain n where n: "filter (bit x) [0..<8] = [n]"
    using assms by (auto simp: bits_set_def length_Suc_conv)
  have set: "set (filter (bit x) [0..<8]) = {n}" unfolding n by simp
  have iff: "bit x m \<longleftrightarrow> m = n" if "m < 8" for m
    using set that by auto
  have "n < 8" using set by auto
  moreover have "x = 2 ^ n"
    by (rule bit_word_eqI) (use \<open>n < 8\<close> in \<open>auto simp: iff bit_exp_iff\<close>)
  ultimately show ?thesis by blast
qed

lemma crc8_powers:
  "crc8_byte 0 1 = 49" "crc8_byte 0 2 = 98" "crc8_byte 0 4 = 196" "crc8_byte 0 8 = 185"
  "crc8_byte 0 16 = 67" "crc8_byte 0 32 = 134" "crc8_byte 0 64 = 61" "crc8_byte 0 128 = 122"
  "crc8_byte 0 49 = 244" "crc8_byte 0 98 = 217" "crc8_byte 0 196 = 131" "crc8_byte 0 185 = 55"
  "crc8_byte 0 67 = 110" "crc8_byte 0 134 = 220" "crc8_byte 0 61 = 137" "crc8_byte 0 122 = 35"
  by (simp_all add: crc8_byte_steps crc8_bit_def)

lemma crc8_spreads_power:
  assumes "n < 8"
  shows "bits_set (crc8_byte 0 (2 ^ n)) \<noteq> 1 \<and> bits_set (crc8_byte 0 (crc8_byte 0 (2 ^ n))) \<noteq> 1"
proof -
  have "n = 0 \<or> n = 1 \<or> n = 2 \<or> n = 3 \<or> n = 4 \<or> n = 5 \<or> n = 6 \<or> n = 7" using assms by arith
  then show ?thesis
    by (elim disjE) (simp_all add: crc8_powers bits_set_sum)
qed

lemma crc8_spreads:
  "bits_set x = 1 \<Longrightarrow> bits_set (crc8_byte 0 x) \<noteq> 1 \<and> bits_set (crc8_byte 0 (crc8_byte 0 x)) \<noteq> 1"
  using one_bit_set[of x] crc8_spreads_power by blast

lemma even_filter_neq:
  "even (length (filter (\<lambda>i. P i \<noteq> Q i) xs)) \<longleftrightarrow>
     (even (length (filter P xs)) \<longleftrightarrow> even (length (filter Q xs)))"
  by (induction xs) auto

lemma bits_set_xor: "even (bits_set (a XOR b)) \<longleftrightarrow> (even (bits_set a) \<longleftrightarrow> even (bits_set b))"
  unfolding bits_set_def bit_xor_iff by (rule even_filter_neq)

lemma crc8_word_alt: "crc8_word a b = crc8_byte 0 (crc8_byte 0 a XOR b)"
  by (simp add: crc8_word_def crc8_byte_def)

text \<open>No code word is confined to one byte, or has fewer than four bits.\<close>

lemma code_word_one_byte:
  assumes "crc8_word a b = c"
  shows "b = 0 \<Longrightarrow> c = 0 \<Longrightarrow> a = 0" "a = 0 \<Longrightarrow> c = 0 \<Longrightarrow> b = 0" "a = 0 \<Longrightarrow> b = 0 \<Longrightarrow> c = 0"
  using assms by (auto simp: crc8_word_alt crc8_zero)

lemma code_word_weight:
  assumes w: "crc8_word a b = c" and n: "bits_set a + bits_set b + bits_set c \<le> 3"
  shows "a = 0 \<and> b = 0 \<and> c = 0"
proof -
  have "even (bits_set c) \<longleftrightarrow> even (bits_set a + bits_set b)"
    unfolding w[symmetric] crc8_word_alt crc8_parity bits_set_xor by simp
  then have "even (bits_set a + bits_set b + bits_set c)" by simp
  with n have total: "bits_set a + bits_set b + bits_set c = 0 \<or> bits_set a + bits_set b + bits_set c = 2"
    by presburger
  have zero: "bits_set x = 0 \<Longrightarrow> x = 0" for x by (simp add: bits_set_sum byte_zero_iff)
  have ab: "\<not> (bits_set a = 1 \<and> bits_set b = 1 \<and> c = 0)"
  proof
    assume h: "bits_set a = 1 \<and> bits_set b = 1 \<and> c = 0"
    then have "crc8_byte 0 a XOR b = 0" using w crc8_zero by (simp add: crc8_word_alt)
    then have "crc8_byte 0 a = b"
      using word_xor_right_cancel[of "crc8_byte 0 a" b b] by (simp only: xor_self_eq simp_thms)
    with h crc8_spreads[of a] show False by simp
  qed
  have ac: "\<not> (bits_set a = 1 \<and> b = 0 \<and> bits_set c = 1)"
    using w crc8_spreads[of a] by (auto simp: crc8_word_alt)
  have bc: "\<not> (a = 0 \<and> bits_set b = 1 \<and> bits_set c = 1)"
    using w crc8_spreads[of b] crc8_zero[of 0] by (auto simp: crc8_word_alt)
  consider "a = 0" "b = 0" | "a = 0" "c = 0" | "b = 0" "c = 0" | "bits_set a = 1" "bits_set b = 1" "c = 0"
    | "bits_set a = 1" "b = 0" "bits_set c = 1" | "a = 0" "bits_set b = 1" "bits_set c = 1"
  proof -
    have "bits_set a = 0 \<or> bits_set a = 1 \<or> bits_set a = 2" "bits_set b = 0 \<or> bits_set b = 1 \<or> bits_set b = 2"
      "bits_set c = 0 \<or> bits_set c = 1 \<or> bits_set c = 2"
      using total by linarith+
    then have "bits_set a = 0 \<and> bits_set b = 0 \<or> bits_set a = 0 \<and> bits_set c = 0 \<or> bits_set b = 0 \<and> bits_set c = 0
      \<or> bits_set a = 1 \<and> bits_set b = 1 \<and> bits_set c = 0 \<or> bits_set a = 1 \<and> bits_set b = 0 \<and> bits_set c = 1
      \<or> bits_set a = 0 \<and> bits_set b = 1 \<and> bits_set c = 1"
      using total by (elim disjE) simp_all
    then show thesis using zero that by blast
  qed
  then show ?thesis
    by cases (use ab ac bc code_word_one_byte[OF w] in blast)+
qed

section \<open>The property\<close>

definition changed_bits :: "bytes \<Rightarrow> bytes \<Rightarrow> nat" where
  "changed_bits p q = sum_list (map2 (\<lambda>a b. bits_set (a XOR b)) p q)"

text \<open>
  Claim C30. If the CRC of a three-byte response is right, then every response that differs
  from it in one byte, or in at most three of its 24 bits, is rejected with a CRC error, so that
  no such disturbance of the bus becomes a measurement.
\<close>

theorem sensirion_crc_detects:
  assumes "length p = 3" "fst (ReadWordWithCrc p) = DRIVER_STATUS_OK"
    and "length q = 3" "q \<noteq> p"
    and "changed_bits p q \<le> 3 \<or> (\<exists>i x. q = p[i := x])"
  shows "fst (ReadWordWithCrc q) = DRIVER_STATUS_CRC_ERROR"
proof (rule ccontr)
  assume "fst (ReadWordWithCrc q) \<noteq> DRIVER_STATUS_CRC_ERROR"
  then have ok: "fst (ReadWordWithCrc q) = DRIVER_STATUS_OK" by (simp add: rejected_iff)
  obtain a b c where p: "p = [a, b, c]" using assms(1) by (auto simp: numeral_eq_Suc length_Suc_conv)
  obtain a' b' c' where q: "q = [a', b', c']" using assms(3) by (auto simp: numeral_eq_Suc length_Suc_conv)
  have same: "x XOR y = 0 \<longleftrightarrow> x = y" for x y :: u8
    using word_xor_right_cancel[of x y y] by (simp only: xor_self_eq)
  have w: "crc8_word (a XOR a') (b XOR b') = c XOR c'"
    using accepted_difference[OF assms(1,3,2) ok] by (simp add: p q)
  have "a = a' \<and> b = b' \<and> c = c'"
    using assms(5)
  proof
    assume "changed_bits p q \<le> 3"
    then show ?thesis
      using code_word_weight[OF w] by (simp add: changed_bits_def p q same)
  next
    assume "\<exists>i x. q = p[i := x]"
    then obtain i x where i: "q = p[i := x]" by blast
    have "a = a' \<and> b = b' \<or> a = a' \<and> c = c' \<or> b = b' \<and> c = c'"
      using i by (auto simp: p q split: nat.splits)
    then show ?thesis
      using code_word_one_byte[OF w] by (auto simp: same)
  qed
  with assms(4) show False by (simp add: p q)
qed

lemma sensirion_crc_detects_witness:
  "fst (ReadWordWithCrc [0xBE, 0xEF, 0x92]) = DRIVER_STATUS_OK \<and>
   fst (ReadWordWithCrc [0xBE, 0xEF, 0x90]) = DRIVER_STATUS_CRC_ERROR \<and>
   fst (ReadWordWithCrc [0xBA, 0xEE, 0x93]) = DRIVER_STATUS_CRC_ERROR"
proof -
  have ok: "fst (ReadWordWithCrc [0xBE, 0xEF, 0x92]) = DRIVER_STATUS_OK"
  proof -
    have "crc8_byte 0xFF 0xBE = 0x0C" "crc8_byte 0x0C 0xEF = 0x92"
      by (simp_all add: crc8_byte_steps' crc8_bit_def)
    then show ?thesis by (simp add: accepted_iff)
  qed
  have "[0xBE, 0xEF, 0x90] = [0xBE, 0xEF, 0x92 :: u8][2 := 0x90]" by simp
  then have "fst (ReadWordWithCrc [0xBE, 0xEF, 0x90]) = DRIVER_STATUS_CRC_ERROR"
    by (intro sensirion_crc_detects[OF _ ok] disjI2 exI[where x = 2] exI[where x = "0x90"]) simp_all
  moreover have "changed_bits [0xBE, 0xEF, 0x92] [0xBA, 0xEE, 0x93] \<le> 3"
    by (simp add: changed_bits_def bits_set_sum)
  then have "fst (ReadWordWithCrc [0xBA, 0xEE, 0x93]) = DRIVER_STATUS_CRC_ERROR"
    by (intro sensirion_crc_detects[OF _ ok] disjI1) simp_all
  ultimately show ?thesis using ok by blast
qed

end
