(* ===== verification/Sensor_Props.thy ===== *)
theory Sensor_Props
  imports Crc8_Props Sht45 Sgp41 Bmp3_Runtime
begin

text \<open>
  Properties of the sensor runtimes over whole histories of calls: no sensor hands out a sample
  that is older than its limit, and the two ways in which a sensor that answers again is never
  measured again.
\<close>

section \<open>Fresh samples\<close>

text \<open>The state after \<open>Init\<close>, which is settled in the sense of the interface.\<close>

lemma init_settled:
  "scd41.settled (Scd41Runtime_Init t bus)" "sht45.settled (Sht45Runtime_Init t bus)"
  "sgp41.settled (Sgp41Runtime_Init t bus)" "bmp390.settled (bmp3_runtime_Init t bus)"
  "bmp380.settled (Bmp380Runtime_Init t bus)"
  by (simp_all add: scd41.settled_def sht45.settled_def sgp41.settled_def bmp390.settled_def
      bmp380.settled_def sensor_resting_def Scd41Runtime_Init_def Scd41Runtime_HasValidSample_def
      Sht45Runtime_Init_def Sht45Runtime_HasValidSample_def zero_sht45_def Sgp41Runtime_Init_def
      Sgp41Runtime_HasValidSample_def zero_sgp41_def bmp3_runtime_Init_def bmp3_HasValidSample_def
      zero_bmp3_def Bmp380Runtime_Init_def Bmp380Runtime_HasValidSample_def Let_def)

text \<open>The runtime after a history from its initial state and one more poll.\<close>

definition scd41_after :: "u32 \<Rightarrow> 'b I2cBus option \<Rightarrow> sensor_event list \<Rightarrow> u32 \<Rightarrow> 'b \<Rightarrow> 'b Scd41Runtime" where
  "scd41_after t bus es now b =
     (case sensor_run sr_state Scd41Runtime_Poll Scd41Runtime_Start Scd41Runtime_Recover es
        (Scd41Runtime_Init t bus) b of (rt, b) \<Rightarrow> fst (Scd41Runtime_Poll now rt b))"

definition sht45_after :: "u32 \<Rightarrow> 'b I2cBus option \<Rightarrow> sensor_event list \<Rightarrow> u32 \<Rightarrow> 'b \<Rightarrow> 'b Sht45Runtime" where
  "sht45_after t bus es now b =
     (case sensor_run hr_state Sht45Runtime_Poll Sht45Runtime_Start Sht45Runtime_Recover es
        (Sht45Runtime_Init t bus) b of (rt, b) \<Rightarrow> fst (Sht45Runtime_Poll now rt b))"

definition sgp41_after :: "u32 \<Rightarrow> 'b I2cBus option \<Rightarrow> sensor_event list \<Rightarrow> u32 \<Rightarrow> 'b \<Rightarrow> 'b Sgp41Runtime" where
  "sgp41_after t bus es now b =
     (case sensor_run gr_state Sgp41Runtime_Poll Sgp41Runtime_Start Sgp41Runtime_Recover es
        (Sgp41Runtime_Init t bus) b of (rt, b) \<Rightarrow> fst (Sgp41Runtime_Poll now rt b))"

definition bmp390_after :: "u32 \<Rightarrow> 'b I2cBus option \<Rightarrow> sensor_event list \<Rightarrow> u32 \<Rightarrow> 'b \<Rightarrow> 'b Bmp3Runtime" where
  "bmp390_after t bus es now b =
     (case sensor_run br_state (bmp3_Poll BMP390) (bmp3_Start BMP390) bmp3_Recover es
        (bmp3_runtime_Init t bus) b of (rt, b) \<Rightarrow> fst (bmp3_Poll BMP390 now rt b))"

definition bmp380_after :: "u32 \<Rightarrow> 'b I2cBus option \<Rightarrow> sensor_event list \<Rightarrow> u32 \<Rightarrow> 'b \<Rightarrow> 'b Bmp3Runtime" where
  "bmp380_after t bus es now b =
     (case sensor_run br_state Bmp380Runtime_Poll Bmp380Runtime_Start Bmp380Runtime_Recover es
        (Bmp380Runtime_Init t bus) b of (rt, b) \<Rightarrow> fst (Bmp380Runtime_Poll now rt b))"

text \<open>A bus with one sensor on it, which answers every read with the same bytes.\<close>

definition echo_bus :: "bytes \<Rightarrow> unit I2cBus" where
  "echo_bus d =
     \<lparr>bus_write = Some (\<lambda>b addr w. (DRIVER_STATUS_OK, b)),
      bus_read_mem = Some (\<lambda>b addr reg n. (DRIVER_STATUS_OK, take n d, b)),
      bus_read = Some (\<lambda>b addr n. (DRIVER_STATUS_OK, take n d, b)),
      bus_probe = Some (\<lambda>b addr. (DRIVER_STATUS_OK, b)), bus_recover = None\<rparr>"

lemma ReadWordWithCrc_take: "ReadWordWithCrc (a # b # c # d # e) = ReadWordWithCrc [a, b, c]"
  by (simp add: ReadWordWithCrc_def)

lemma echo_word: "fst (ReadWordWithCrc [0xBE, 0xEF, 0x92]) = DRIVER_STATUS_OK"
proof -
  have "crc8_byte 0xFF 0xBE = 0x0C" "crc8_byte 0x0C 0xEF = 0x92"
    by (simp_all add: crc8_byte_steps' crc8_bit_def)
  then show ?thesis by (simp add: accepted_iff)
qed

lemma echo_bus_answers:
  "I2cBus_Probe (Some (echo_bus d)) a b = (DRIVER_STATUS_OK, b)"
  "0 < length w \<Longrightarrow> length w \<le> 65535 \<Longrightarrow> I2cBus_Write (Some (echo_bus d)) a (Some w) b = (DRIVER_STATUS_OK, b)"
  "0 < n \<Longrightarrow> n \<le> 65535 \<Longrightarrow> I2cBus_Read (Some (echo_bus d)) a n b = (DRIVER_STATUS_OK, take n d, b)"
  by (auto simp: I2cBus_Probe_def I2cBus_Write_def I2cBus_Read_def echo_bus_def)

text \<open>A temperature sensor on that bus: started, and polled after the conversion.\<close>

definition echo_sht45 :: "unit Sht45Runtime" where
  "echo_sht45 = (Sht45Runtime_Init 0 (Some (echo_bus [0xBE, 0xEF, 0x92, 0xBE, 0xEF, 0x92])))
     \<lparr>hr_consecutive_absent := 0, hr_last_error_class := DRIVER_STATUS_OK, hr_deadline_ms := 110,
      hr_state := DEVICE_STATE_STARTING, hr_phase := SHT45_PHASE_MEASURING\<rparr>"

lemma sht45_start_ok:
  assumes "\<not> probe_held (hr_consecutive_absent rt) (hr_next_probe_ms rt) now"
    and "SHT45_Probe (hd_bus (hr_dev rt)) b = (DRIVER_STATUS_OK, b1)" "hd_initialized (hr_dev rt) \<noteq> 0"
    and "SHT45_BeginMeasurement (hr_dev rt) b1 = (DRIVER_STATUS_OK, b2)"
  shows "Sht45Runtime_Start now rt b =
    (DRIVER_STATUS_OK, rt\<lparr>hr_consecutive_absent := 0, hr_last_error_class := DRIVER_STATUS_OK,
       hr_deadline_ms := now + SHT45_MEASUREMENT_DURATION_MS, hr_state := DEVICE_STATE_STARTING,
       hr_phase := SHT45_PHASE_MEASURING\<rparr>, b2)"
  using assms by (simp add: Sht45Runtime_Start_def Let_def)

lemma echo_init:
  "hr_dev (Sht45Runtime_Init 0 (Some ops)) = \<lparr>hd_bus = Some ops, hd_address = 0x88, hd_initialized = 1\<rparr>"
  "hr_consecutive_absent (Sht45Runtime_Init 0 (Some ops)) = 0"
  by (simp_all add: Sht45Runtime_Init_def zero_sht45_def SHT45_Init_def SHT45_I2C_ADDR_def Let_def)

lemma echo_started:
  "Sht45Runtime_Start 100 (Sht45Runtime_Init 0 (Some (echo_bus [0xBE, 0xEF, 0x92, 0xBE, 0xEF, 0x92]))) () =
     (DRIVER_STATUS_OK, echo_sht45, ())"
proof -
  let ?ops = "echo_bus [0xBE, 0xEF, 0x92, 0xBE, 0xEF, 0x92]"
  let ?i = "Sht45Runtime_Init 0 (Some ?ops)"
  have "\<not> probe_held (hr_consecutive_absent ?i) (hr_next_probe_ms ?i) 100"
    unfolding echo_init probe_held_def by simp
  moreover have "SHT45_Probe (hd_bus (hr_dev ?i)) () = (DRIVER_STATUS_OK, ())"
    unfolding echo_init SHT45_Probe_def by (simp add: echo_bus_answers)
  moreover have "hd_initialized (hr_dev ?i) \<noteq> 0"
    unfolding echo_init by simp
  moreover have "SHT45_BeginMeasurement (hr_dev ?i) () = (DRIVER_STATUS_OK, ())"
    unfolding echo_init SHT45_BeginMeasurement_def SHT45_SendCommand_def by (simp add: echo_bus_answers)
  ultimately have "Sht45Runtime_Start 100 ?i () =
      (DRIVER_STATUS_OK, ?i\<lparr>hr_consecutive_absent := 0, hr_last_error_class := DRIVER_STATUS_OK,
         hr_deadline_ms := 100 + SHT45_MEASUREMENT_DURATION_MS, hr_state := DEVICE_STATE_STARTING,
         hr_phase := SHT45_PHASE_MEASURING\<rparr>, ())"
    by (rule sht45_start_ok)
  then show ?thesis by (simp add: echo_sht45_def SHT45_MEASUREMENT_DURATION_MS_def)
qed

lemma echo_measured:
  "\<exists>m. SHT45_FinishMeasurement (hr_dev echo_sht45) () = (DRIVER_STATUS_OK, Some m, ()) \<and> hm_valid m"
proof -
  obtain w where w: "ReadWordWithCrc [0xBE, 0xEF, 0x92] = (DRIVER_STATUS_OK, w)"
    using echo_word by (metis prod.collapse)
  show ?thesis
    by (simp add: echo_sht45_def echo_init SHT45_FinishMeasurement_def
        echo_bus_answers SHT45_MEASUREMENT_RESPONSE_LEN_def w sht45_sample_def Let_def
        ReadWordWithCrc_take)
qed

lemma echo_polled:
  "Sht45Runtime_HasValidSample
     (sht45_after 0 (Some (echo_bus [0xBE, 0xEF, 0x92, 0xBE, 0xEF, 0x92])) [Sensor_Start 100] 110 ())"
proof -
  obtain m where m: "SHT45_FinishMeasurement (hr_dev echo_sht45) () = (DRIVER_STATUS_OK, Some m, ())" "hm_valid m"
    using echo_measured by blast
  have s: "hr_state (Sht45Runtime_Init 0 bus) = DEVICE_STATE_NOT_FOUND" for bus :: "unit I2cBus option"
    by (simp add: Sht45Runtime_Init_def Let_def)
  have e: "hr_state echo_sht45 = DEVICE_STATE_STARTING" "hr_phase echo_sht45 = SHT45_PHASE_MEASURING"
    "hr_deadline_ms echo_sht45 = 110" "hr_consecutive_errors echo_sht45 = 0"
    "\<not> hm_valid (hr_last_sample echo_sht45)"
    by (simp_all add: echo_sht45_def Sht45Runtime_Init_def zero_sht45_def Let_def)
  show ?thesis
    by (simp add: sht45_after_def sensor_resting_def echo_started s e m Sht45Runtime_Poll_def
        Sht45Runtime_EnforceFreshness_def SHT45_RUNTIME_ERROR_THRESHOLD_def sht45_read_def
        Sht45Runtime_DeadlinePassed_def Sht45Runtime_RecordSuccess_def Sht45Runtime_HasValidSample_def)
qed

text \<open>
  Claim C32. Freshness of every sensor. Take any history of polls, starts and recoveries of a
  runtime, with any ticks and any answers of the bus, and one more poll: if the runtime then says
  it has a valid sample, the sample was taken less than three measurement periods before the tick
  of that poll. It holds for each of the five runtimes on their own limits.
\<close>

theorem sensor_samples_fresh:
  fixes t now :: u32 and es :: "sensor_event list" and bus :: "'b I2cBus option" and b :: 'b
  shows
    "\<not> (Scd41Runtime_HasValidSample (scd41_after t bus es now b) \<and>
        SCD41_RUNTIME_STALE_MS \<le> now - sr_last_valid_measurement_ms (scd41_after t bus es now b)) \<and>
     \<not> (Sht45Runtime_HasValidSample (sht45_after t bus es now b) \<and>
        SHT45_RUNTIME_STALE_MS \<le> now - hr_last_valid_measurement_ms (sht45_after t bus es now b)) \<and>
     \<not> (Sgp41Runtime_HasValidSample (sgp41_after t bus es now b) \<and>
        SGP41_RUNTIME_STALE_MS \<le> now - gr_last_valid_measurement_ms (sgp41_after t bus es now b)) \<and>
     \<not> (bmp3_HasValidSample (bmp390_after t bus es now b) \<and>
        BMP390_RUNTIME_STALE_MS \<le> now - br_last_valid_measurement_ms (bmp390_after t bus es now b)) \<and>
     \<not> (Bmp380Runtime_HasValidSample (bmp380_after t bus es now b) \<and>
        BMP390_RUNTIME_STALE_MS \<le> now - br_last_valid_measurement_ms (bmp380_after t bus es now b))"
  unfolding scd41_after_def sht45_after_def sgp41_after_def bmp390_after_def bmp380_after_def
  by (intro conjI scd41.after_fresh sht45.after_fresh sgp41.after_fresh bmp390.after_fresh
      bmp380.after_fresh init_settled)

theorem sensor_samples_fresh_witness:
  "Sht45Runtime_HasValidSample
     (sht45_after 0 (Some (echo_bus [0xBE, 0xEF, 0x92, 0xBE, 0xEF, 0x92])) [Sensor_Start 100] 110 ()) \<and>
   110 - hr_last_valid_measurement_ms
     (sht45_after 0 (Some (echo_bus [0xBE, 0xEF, 0x92, 0xBE, 0xEF, 0x92])) [Sensor_Start 100] 110 ()) <
   SHT45_RUNTIME_STALE_MS"
  using sensor_samples_fresh [of 0 "Some (echo_bus [0xBE, 0xEF, 0x92, 0xBE, 0xEF, 0x92])"
      "[Sensor_Start 100]" 110 "()"] echo_polled
  by (simp add: not_le)

section \<open>The air quality sensor after its conditioning\<close>

text \<open>
  Conditioning is behind the sensor, which has measured before and now neither measures nor
  conditions. \<open>BeginStartup\<close> then puts a measurement in flight while the state is STARTING, and
  no branch of \<open>Poll\<close> handles that pair.
\<close>

definition sgp41_stuck :: "'b Sgp41Runtime \<Rightarrow> bool" where
  "sgp41_stuck rt \<longleftrightarrow>
     SGP41_RUNTIME_CONDITIONING_MAX_MS \<le> gr_conditioning_ms rt \<and> gr_last_valid_measurement_ms rt \<noteq> 0 \<and>
     \<not> gm_valid (gr_last_sample rt) \<and>
     (sensor_resting (gr_state rt) \<or> gr_state rt = DEVICE_STATE_STARTING \<and> gr_phase rt \<noteq> SGP41_PHASE_CONDITIONING)"

lemmas sgp41_stuck_simps =
  sgp41_stuck_def sensor_resting_def Let_def Sgp41Runtime_RecordFailure_def Sgp41Runtime_EscalateError_def

lemma sgp41_failed_stuck: "sgp41_stuck rt \<Longrightarrow> sgp41_stuck (sgp41_failed now s rt)"
  by (auto simp: sgp41_failed_def sgp41_stuck_simps)

lemma sgp41_begin_stuck:
  "sgp41_stuck rt \<Longrightarrow> Sgp41Runtime_BeginStartup now rt b = (s, rt', b') \<Longrightarrow>
   sgp41_stuck rt' \<and> gr_state rt' = gr_state rt \<and> (s = DRIVER_STATUS_OK \<longrightarrow> gr_phase rt' = SGP41_PHASE_MEASURING)"
  by (auto simp: Sgp41Runtime_BeginStartup_def sgp41_stuck_simps not_less[symmetric]
      split: prod.splits if_splits)

lemma sgp41_poll_stuck:
  assumes "sgp41_stuck rt" "Sgp41Runtime_Poll now rt b = (rt', b')"
  shows "sgp41_stuck rt'"
proof -
  let ?t = "rt\<lparr>gr_last_tick_ms := now\<rparr>"
  have t: "sgp41_stuck ?t" using assms(1) by (simp add: sgp41_stuck_def)
  have e: "Sgp41Runtime_EnforceFreshness now ?t = ?t"
    using assms(1) by (simp add: Sgp41Runtime_EnforceFreshness_def sgp41_stuck_def)
  have x: "sgp41_stuck (Sgp41Runtime_EscalateError (?t\<lparr>gr_phase := SGP41_PHASE_IDLE\<rparr>))"
    using assms(1) by (simp add: sgp41_stuck_simps)
  note poll = assms(2) [unfolded Sgp41Runtime_Poll_def Let_def e]
  consider "sensor_resting (gr_state rt)"
    | "\<not> sensor_resting (gr_state rt)" "gr_consecutive_errors rt \<ge> SGP41_RUNTIME_ERROR_THRESHOLD"
    | "gr_state rt = DEVICE_STATE_STARTING" "gr_phase rt \<noteq> SGP41_PHASE_CONDITIONING"
      "\<not> gr_consecutive_errors rt \<ge> SGP41_RUNTIME_ERROR_THRESHOLD"
    using assms(1) by (auto simp: sgp41_stuck_def)
  then show ?thesis
  proof cases
    case 1
    then show ?thesis using poll t by (auto simp: sensor_resting_def)
  next
    case 2
    then show ?thesis using poll x by (simp add: sensor_resting_def)
  next
    case 3
    obtain s rt1 b1 where g: "Sgp41Runtime_BeginStartup now ?t b = (s, rt1, b1)" by (metis prod.collapse)
    have "rt' = ?t \<or> rt' = rt1 \<or> rt' = sgp41_failed now s rt1"
      using 3 poll g by (simp split: if_splits)
    then show ?thesis
      using t sgp41_begin_stuck [OF t g] sgp41_failed_stuck [of rt1 now s] by blast
  qed
qed

lemma sgp41_prepare_stuck:
  "sgp41_stuck rt \<Longrightarrow> sgp41_stuck (sgp41_prepare rt) \<and> gr_state (sgp41_prepare rt) = gr_state rt"
  by (auto simp: sgp41_prepare_def sgp41_stuck_simps split: prod.splits)

lemma sgp41_count_stuck:
  "sgp41_stuck rt \<Longrightarrow> sgp41_stuck (Sgp41Runtime_RecordFailure now (rt\<lparr>gr_last_error_class := s\<rparr>))"
  "sgp41_stuck rt \<Longrightarrow> sgp41_stuck (Sgp41Runtime_EscalateError
     ((Sgp41Runtime_RecordFailure now (rt\<lparr>gr_last_error_class := s\<rparr>))\<lparr>gr_phase := SGP41_PHASE_IDLE\<rparr>))"
  by (auto simp: sgp41_stuck_simps)

lemma sgp41_started_stuck:
  "sgp41_stuck rt \<Longrightarrow> gr_phase rt = SGP41_PHASE_MEASURING \<Longrightarrow>
   sgp41_stuck (rt\<lparr>gr_state := DEVICE_STATE_STARTING\<rparr>)"
  by (auto simp: sgp41_stuck_simps)

lemma sgp41_absent_stuck:
  "sgp41_stuck rt \<Longrightarrow> sgp41_stuck (rt\<lparr>gr_state := DEVICE_STATE_NOT_FOUND\<rparr>)"
  "sgp41_stuck rt \<Longrightarrow> sgp41_stuck (rt\<lparr>gr_state := DEVICE_STATE_NOT_FOUND, gr_last_error_class := s,
     gr_consecutive_absent := k, gr_next_probe_ms := m\<rparr>)"
  "sgp41_stuck rt \<Longrightarrow> sgp41_stuck (rt\<lparr>gr_consecutive_absent := k, gr_last_error_class := s\<rparr>)"
  by (auto simp: sgp41_stuck_simps)

lemma sgp41_start_stuck:
  assumes "sgp41_stuck rt" "Sgp41Runtime_Start now rt b = (s, rt', b')"
  shows "sgp41_stuck rt'"
proof -
  let ?p = "sgp41_prepare (rt\<lparr>gr_consecutive_absent := 0, gr_last_error_class := DRIVER_STATUS_OK\<rparr>)"
  have p: "sgp41_stuck ?p"
    using assms(1) by (intro sgp41_prepare_stuck [THEN conjunct1] sgp41_absent_stuck)
  obtain ps b1 where pr: "SGP41_Probe (gd_bus (gr_dev rt)) b = (ps, b1)" by fastforce
  obtain ss rt2 b2 where bs: "Sgp41Runtime_BeginStartup now ?p b1 = (ss, rt2, b2)" by (metis prod.collapse)
  have k: "sgp41_stuck rt2" "ss = DRIVER_STATUS_OK \<Longrightarrow> gr_phase rt2 = SGP41_PHASE_MEASURING"
    using sgp41_begin_stuck [OF p bs] by simp_all
  note start = assms(2) [unfolded Sgp41Runtime_Start_def Let_def]
  show ?thesis
  proof (cases "probe_held (gr_consecutive_absent rt) (gr_next_probe_ms rt) now")
    case True
    then show ?thesis using start sgp41_absent_stuck(1) [OF assms(1)] by simp
  next
    case held: False
    show ?thesis
    proof (cases "ps = DRIVER_STATUS_OK")
      case False
      then show ?thesis using start held pr sgp41_absent_stuck(2) [OF assms(1)] by auto
    next
      case True
      then show ?thesis
        using start held pr bs k(2) sgp41_count_stuck [OF k(1)] sgp41_started_stuck [OF k(1)]
        by (cases "ss = DRIVER_STATUS_OK") (auto split: if_splits)
    qed
  qed
qed

lemma sgp41_recover_stuck: "sgp41_stuck rt \<Longrightarrow> sgp41_stuck (Sgp41Runtime_Recover rt)"
  by (simp add: sgp41_stuck_def Sgp41Runtime_Recover_def sensor_resting_def)

text \<open>
  Claim C33. The end of the air quality sensor. Once the sensor has been conditioned and has
  delivered a sample, the first \<open>Recover\<close> (after three errors, or when the shared bus was reset)
  ends its measurements until the next reboot: whatever history of polls, restarts and further
  recoveries follows, and whatever the bus answers, the runtime never again has a valid raw sample
  or a valid VOC or NOx index and never reaches the state READY. The restart puts a measurement in
  flight in the state STARTING, where \<open>Poll\<close> reads only conditioning responses.
\<close>

theorem sgp41_recovery_stalls:
  assumes "SGP41_RUNTIME_CONDITIONING_MAX_MS \<le> gr_conditioning_ms rt" "gr_last_valid_measurement_ms rt \<noteq> 0"
    and "sensor_run gr_state Sgp41Runtime_Poll Sgp41Runtime_Start Sgp41Runtime_Recover es
      (Sgp41Runtime_Recover rt) b = (rt', b')"
  shows "\<not> Sgp41Runtime_HasValidSample rt' \<and> \<not> Sgp41Runtime_HasValidVocIndex rt' \<and>
    \<not> Sgp41Runtime_HasValidNoxIndex rt' \<and> gr_state rt' \<noteq> DEVICE_STATE_READY"
proof -
  have "sgp41_stuck (Sgp41Runtime_Recover rt)"
    using assms(1,2) by (simp add: sgp41_stuck_def Sgp41Runtime_Recover_def sensor_resting_def)
  then have "sgp41_stuck rt'"
    using assms(3) by (rule sensor_run_keeps [rotated -2])
      (auto intro: sgp41_poll_stuck sgp41_start_stuck sgp41_recover_stuck)
  then show ?thesis
    by (auto simp: sgp41_stuck_def sensor_resting_def Sgp41Runtime_HasValidSample_def
        Sgp41Runtime_HasValidVocIndex_def Sgp41Runtime_HasValidNoxIndex_def)
qed

text \<open>A conditioned sensor on a bus that accepts everything, recovered and started again.\<close>

definition conditioned_sgp41 :: "unit Sgp41Runtime" where
  "conditioned_sgp41 = (Sgp41Runtime_Init 0 (Some (echo_bus [])))
     \<lparr>gr_conditioning_ms := 10000, gr_last_valid_measurement_ms := 20000,
      gr_comp_seen := True\<rparr>"

lemma sgp41_start_conditioned:
  assumes "\<not> probe_held (gr_consecutive_absent rt) (gr_next_probe_ms rt) now"
    and "SGP41_Probe (gd_bus (gr_dev rt)) b = (DRIVER_STATUS_OK, b1)" "gd_initialized (gr_dev rt) \<noteq> 0"
    and "gr_last_valid_measurement_ms rt \<noteq> 0" "gr_comp_seen rt"
    and "\<not> gr_conditioning_ms rt < SGP41_RUNTIME_CONDITIONING_MAX_MS"
    and "SGP41_BeginMeasure (gr_dev rt) (gr_comp_rh_ticks rt) (gr_comp_t_ticks rt) b1 = (DRIVER_STATUS_OK, b2)"
  shows "Sgp41Runtime_Start now rt b = (DRIVER_STATUS_OK,
    rt\<lparr>gr_consecutive_absent := 0, gr_last_error_class := DRIVER_STATUS_OK, gr_phase := SGP41_PHASE_MEASURING,
       gr_deadline_ms := now + SGP41_MEASURE_EXECUTION_MS, gr_state := DEVICE_STATE_STARTING\<rparr>, b2)"
  using assms by (simp add: Sgp41Runtime_Start_def sgp41_prepare_def Sgp41Runtime_BeginStartup_def Let_def)

lemma conditioned_fields:
  "gr_dev conditioned_sgp41 = \<lparr>gd_bus = Some (echo_bus []), gd_address = 0xB2, gd_initialized = 1\<rparr>"
  "gr_consecutive_absent conditioned_sgp41 = 0" "gr_comp_seen conditioned_sgp41"
  "gr_last_valid_measurement_ms conditioned_sgp41 = 20000" "gr_conditioning_ms conditioned_sgp41 = 10000"
  by (simp_all add: conditioned_sgp41_def Sgp41Runtime_Init_def zero_sgp41_def SGP41_Init_def
      SGP41_I2C_ADDR_def Let_def)

lemma conditioned_start:
  "Sgp41Runtime_Start 30000 (Sgp41Runtime_Recover conditioned_sgp41) () =
     (DRIVER_STATUS_OK, (Sgp41Runtime_Recover conditioned_sgp41)
       \<lparr>gr_consecutive_absent := 0, gr_last_error_class := DRIVER_STATUS_OK, gr_phase := SGP41_PHASE_MEASURING,
        gr_deadline_ms := 30000 + SGP41_MEASURE_EXECUTION_MS, gr_state := DEVICE_STATE_STARTING\<rparr>, ())"
proof (rule sgp41_start_conditioned)
  let ?r = "Sgp41Runtime_Recover conditioned_sgp41"
  have f: "gr_dev ?r = gr_dev conditioned_sgp41" "gr_consecutive_absent ?r = 0" "gr_comp_seen ?r"
    "gr_last_valid_measurement_ms ?r = 20000" "gr_conditioning_ms ?r = 10000"
    by (simp_all add: Sgp41Runtime_Recover_def conditioned_fields)
  show "\<not> probe_held (gr_consecutive_absent ?r) (gr_next_probe_ms ?r) 30000"
    unfolding f probe_held_def by simp
  show "SGP41_Probe (gd_bus (gr_dev ?r)) () = (DRIVER_STATUS_OK, ())"
    unfolding f conditioned_fields SGP41_Probe_def by (simp add: echo_bus_answers)
  show "gd_initialized (gr_dev ?r) \<noteq> 0" "gr_last_valid_measurement_ms ?r \<noteq> 0" "gr_comp_seen ?r"
    using f by (simp_all add: conditioned_fields)
  show "\<not> gr_conditioning_ms ?r < SGP41_RUNTIME_CONDITIONING_MAX_MS"
    unfolding f SGP41_RUNTIME_CONDITIONING_MAX_MS_def SGP41_CONDITIONING_MAX_MS_def by simp
  show "SGP41_BeginMeasure (gr_dev ?r) (gr_comp_rh_ticks ?r) (gr_comp_t_ticks ?r) () = (DRIVER_STATUS_OK, ())"
    unfolding f conditioned_fields SGP41_BeginMeasure_def SGP41_SendCommandArgs_def SGP41_BuildCompArg_def
      word_and_crc_def Let_def by (simp add: echo_bus_answers)
qed

theorem sgp41_recovery_stalls_witness:
  "\<exists>rt' b'. sensor_run gr_state Sgp41Runtime_Poll Sgp41Runtime_Start Sgp41Runtime_Recover
       [Sensor_Start 30000, Sensor_Poll 30500] (Sgp41Runtime_Recover conditioned_sgp41) () = (rt', b') \<and>
     gr_state rt' = DEVICE_STATE_STARTING \<and> gr_phase rt' = SGP41_PHASE_MEASURING \<and>
     \<not> Sgp41Runtime_HasValidSample rt' \<and> gr_state rt' \<noteq> DEVICE_STATE_READY"
proof -
  obtain rt' b' where r: "sensor_run gr_state Sgp41Runtime_Poll Sgp41Runtime_Start Sgp41Runtime_Recover
      [Sensor_Start 30000, Sensor_Poll 30500] (Sgp41Runtime_Recover conditioned_sgp41) () = (rt', b')"
    by (metis prod.collapse)
  moreover have "sensor_resting (gr_state (Sgp41Runtime_Recover conditioned_sgp41))"
    by (simp add: sensor_resting_def Sgp41Runtime_Recover_def)
  moreover have "gr_consecutive_errors (Sgp41Runtime_Recover conditioned_sgp41) = 0"
    "\<not> gm_valid (gr_last_sample (Sgp41Runtime_Recover conditioned_sgp41))"
    by (simp_all add: Sgp41Runtime_Recover_def)
  ultimately have "gr_state rt' = DEVICE_STATE_STARTING \<and> gr_phase rt' = SGP41_PHASE_MEASURING"
    using conditioned_start
    by (auto simp: Sgp41Runtime_Poll_def Sgp41Runtime_EnforceFreshness_def
        SGP41_RUNTIME_ERROR_THRESHOLD_def Let_def)
  then show ?thesis
    using r sgp41_recovery_stalls [of conditioned_sgp41 "[Sensor_Start 30000, Sensor_Poll 30500]" "()" rt' b']
    by (simp add: conditioned_fields SGP41_RUNTIME_CONDITIONING_MAX_MS_def SGP41_CONDITIONING_MAX_MS_def)
qed

section \<open>The temperature sensor after a checksum error\<close>

text \<open>STARTING with nothing in flight: no branch of \<open>Poll\<close> issues a measurement.\<close>

definition sht45_stalled :: "'b Sht45Runtime \<Rightarrow> bool" where
  "sht45_stalled rt \<longleftrightarrow> hr_state rt = DEVICE_STATE_STARTING \<and> hr_phase rt = SHT45_PHASE_IDLE \<and>
     hr_consecutive_errors rt < SHT45_RUNTIME_ERROR_THRESHOLD"

lemma sht45_poll_stalled:
  "sht45_stalled rt \<Longrightarrow> Sht45Runtime_Poll now rt b = (rt', b') \<Longrightarrow> sht45_stalled rt' \<and> b' = b"
  by (auto simp: sht45_stalled_def Sht45Runtime_Poll_def Sht45Runtime_EnforceFreshness_def Let_def
      split: if_splits)

lemma sht45_run_stalled:
  "sht45_stalled rt \<Longrightarrow> Sensor_Recover \<notin> set es \<Longrightarrow>
   sensor_run hr_state Sht45Runtime_Poll Sht45Runtime_Start Sht45Runtime_Recover es rt b = (rt', b') \<Longrightarrow>
   sht45_stalled rt' \<and> b' = b"
proof (induction es arbitrary: rt b)
  case (Cons e es)
  show ?case
  proof (cases e)
    case (Sensor_Poll now)
    obtain rt1 b1 where p: "Sht45Runtime_Poll now rt b = (rt1, b1)" by fastforce
    then show ?thesis
      using Cons.IH [of rt1 b1] Cons.prems Sensor_Poll sht45_poll_stalled [OF Cons.prems(1) p] by simp
  next
    case (Sensor_Start now)
    then show ?thesis
      using Cons by (simp add: sht45_stalled_def sensor_resting_def)
  qed (use Cons in simp)
qed simp

text \<open>
  Claim C34. One checksum error stops the temperature and humidity sensor. When the result of a
  measurement arrives with a wrong checksum, or with any other failure but a bus error or a sensor
  that is not ready, and it is not the third failure in a row, the runtime counts the failure and
  is left STARTING with nothing in flight. From there no poll and no attempt of the application to
  start sensors touches the bus again: only a recovery of the shared bus, for which two other
  sensors have to fail, ends it. The comment at the call says the failure leads to a bounded
  escalation.
\<close>

theorem sht45_crc_error_stalls:
  assumes "hr_state rt = DEVICE_STATE_STARTING" "hr_phase rt = SHT45_PHASE_MEASURING"
    and "hr_consecutive_errors rt + 1 < SHT45_RUNTIME_ERROR_THRESHOLD"
    and "hr_consecutive_errors rt < SHT45_RUNTIME_ERROR_THRESHOLD"
    and "Sht45Runtime_DeadlinePassed now (hr_deadline_ms rt)"
    and "SHT45_FinishMeasurement (hr_dev rt) b = (rs, m, b1)"
    and "rs \<notin> {DRIVER_STATUS_OK, DRIVER_STATUS_BUS_ERROR, DRIVER_STATUS_NOT_READY}"
    and "Sensor_Recover \<notin> set es"
    and "sensor_run hr_state Sht45Runtime_Poll Sht45Runtime_Start Sht45Runtime_Recover
      (Sensor_Poll now # es) rt b = (rt', b')"
  shows "b' = b1 \<and> hr_state rt' = DEVICE_STATE_STARTING \<and> hr_phase rt' = SHT45_PHASE_IDLE"
proof -
  obtain rt1 b2 where p: "Sht45Runtime_Poll now rt b = (rt1, b2)" by fastforce
  have "sht45_stalled rt1 \<and> b2 = b1"
    using p assms(1-7)
    by (auto simp: Sht45Runtime_Poll_def sht45_read_def Sht45Runtime_EnforceFreshness_def Let_def
        sht45_stalled_def Sht45Runtime_RecordFailureEscalate_def Sht45Runtime_RecordFailure_def
        not_le split: if_splits)
  then show ?thesis
    using sht45_run_stalled [of rt1 es b2 rt' b'] assms(8,9) p by (simp add: sht45_stalled_def)
qed

text \<open>The sensor of the other witness, with a wrong checksum in the answer.\<close>

lemma echo_bad_word: "ReadWordWithCrc [0xBE, 0xEF, 0x93] = (DRIVER_STATUS_CRC_ERROR, 0)"
proof -
  have "crc8_byte 0xFF 0xBE = 0x0C" "crc8_byte 0x0C 0xEF = 0x92"
    by (simp_all add: crc8_byte_steps' crc8_bit_def)
  then show ?thesis by (simp add: ReadWordWithCrc_def Sensirion_Crc8_def)
qed

definition garbled_sht45 :: "unit Sht45Runtime" where
  "garbled_sht45 = (Sht45Runtime_Init 0 (Some (echo_bus [0xBE, 0xEF, 0x93, 0xBE, 0xEF, 0x92])))
     \<lparr>hr_deadline_ms := 110, hr_state := DEVICE_STATE_STARTING, hr_phase := SHT45_PHASE_MEASURING\<rparr>"

theorem sht45_crc_error_stalls_witness:
  "\<exists>rt' b'. sensor_run hr_state Sht45Runtime_Poll Sht45Runtime_Start Sht45Runtime_Recover
       [Sensor_Poll 110, Sensor_Poll 610, Sensor_Start 60000, Sensor_Poll 60500] garbled_sht45 () = (rt', b') \<and>
     hr_state rt' = DEVICE_STATE_STARTING \<and> hr_phase rt' = SHT45_PHASE_IDLE"
proof -
  obtain rt' b' where r: "sensor_run hr_state Sht45Runtime_Poll Sht45Runtime_Start Sht45Runtime_Recover
      [Sensor_Poll 110, Sensor_Poll 610, Sensor_Start 60000, Sensor_Poll 60500] garbled_sht45 () = (rt', b')"
    by (metis prod.collapse)
  have f: "SHT45_FinishMeasurement (hr_dev garbled_sht45) () = (DRIVER_STATUS_CRC_ERROR, None, ())"
    by (simp add: garbled_sht45_def echo_init SHT45_FinishMeasurement_def echo_bus_answers
        SHT45_MEASUREMENT_RESPONSE_LEN_def ReadWordWithCrc_take echo_bad_word split: prod.splits)
  have "hr_state garbled_sht45 = DEVICE_STATE_STARTING" "hr_phase garbled_sht45 = SHT45_PHASE_MEASURING"
    "hr_consecutive_errors garbled_sht45 = 0" "hr_deadline_ms garbled_sht45 = 110"
    by (simp_all add: garbled_sht45_def Sht45Runtime_Init_def zero_sht45_def Let_def)
  then have "b' = () \<and> hr_state rt' = DEVICE_STATE_STARTING \<and> hr_phase rt' = SHT45_PHASE_IDLE"
    using sht45_crc_error_stalls [OF _ _ _ _ _ f _ _ r]
    by (simp add: SHT45_RUNTIME_ERROR_THRESHOLD_def Sht45Runtime_DeadlinePassed_def)
  then show ?thesis using r by blast
qed

end
