(* ===== verification/App_Feed_Props.thy ===== *)
theory App_Feed_Props
  imports App_Feed Sensor_Props
begin

text \<open>
  Properties of the application over histories of its calls on the devices: what the room state
  says comes from a fresh sample, as long as the shared bus is not recovered; and after a recovery
  of the bus it keeps saying what it said before.
\<close>

text \<open>
  The calls of \<open>App_Run\<close> on the devices: the two calls of \<open>App_DoRetry\<close> while it boots, and the
  passes of the scheduler.
\<close>

datatype sensing_call = Sensing_Retry u32 | Sensing_Pass u32 RoomSensorConfig

fun sensing_step :: "sensing_call \<Rightarrow> 'b sensing \<Rightarrow> 'b \<Rightarrow> 'b sensing \<times> 'b" where
  "sensing_step (Sensing_Retry now) s b = App_DoRetry now s b"
| "sensing_step (Sensing_Pass now cfg) s b = app_sense now cfg s b"

fun sensing_run :: "sensing_call list \<Rightarrow> 'b sensing \<Rightarrow> 'b \<Rightarrow> 'b sensing \<times> 'b" where
  "sensing_run [] s b = (s, b)"
| "sensing_run (c # cs) s b = (case sensing_step c s b of (s, b) \<Rightarrow> sensing_run cs s b)"

lemma sensing_run_keeps:
  assumes "\<And>c s b s' b'. P s \<Longrightarrow> sensing_step c s b = (s', b') \<Longrightarrow> P s'"
    and "P s" "sensing_run cs s b = (s', b')"
  shows "P s'"
  using assms(2,3)
  by (induction cs arbitrary: s b) (auto split: prod.splits dest: assms(1))

lemma sensing_run_append:
  "sensing_run (cs @ ds) s b = (case sensing_run cs s b of (s, b) \<Rightarrow> sensing_run ds s b)"
  by (induction cs arbitrary: s b) (auto split: prod.splits)

section \<open>The light sensor\<close>

text \<open>
  The light value has no limit of age: it stays until a read says otherwise, or until three reads in a
  row have failed and the next retry withdraws it.
\<close>

definition light_live :: "'b sensing \<Rightarrow> bool" where
  "light_live s \<longleftrightarrow>
     dr_state (ap_light_rt s) = DEVICE_STATE_READY \<and>
       dr_consecutive_errors (ap_light_rt s) < CONSECUTIVE_ERROR_THRESHOLD \<or>
     dr_state (ap_light_rt s) = DEVICE_STATE_ERROR \<and>
       dr_consecutive_errors (ap_light_rt s) = CONSECUTIVE_ERROR_THRESHOLD"

definition light_ok :: "'b sensing \<Rightarrow> bool" where
  "light_ok s \<longleftrightarrow> (rs_illuminance_valid (ap_room s) \<longrightarrow> light_live s)"

definition light_side :: "'b sensing \<Rightarrow> DeviceRuntime \<times> bool" where
  "light_side s = (ap_light_rt s, rs_illuminance_valid (ap_room s))"

lemma light_side_cong: "light_side s' = light_side s \<Longrightarrow> light_ok s' = light_ok s"
  by (simp add: light_side_def light_ok_def light_live_def)

text \<open>The rest of the application leaves the light sensor and its value alone.\<close>

lemma light_side_room [simp]:
  "rs_illuminance_valid (RoomState_UpdateScd41 x1 v1 x2 v2 x3 v3 now r) = rs_illuminance_valid r"
  "rs_illuminance_valid (RoomState_InvalidateScd41 now r) = rs_illuminance_valid r"
  "rs_illuminance_valid (RoomState_UpdateSht45 x1 v1 x2 v2 now r) = rs_illuminance_valid r"
  "rs_illuminance_valid (RoomState_InvalidateSht45 now r) = rs_illuminance_valid r"
  "rs_illuminance_valid (RoomState_UpdateEnvironment e x1 v1 x2 v2 now r) = rs_illuminance_valid r"
  "rs_illuminance_valid (RoomState_InvalidateEnvironment now r) = rs_illuminance_valid r"
  "rs_illuminance_valid (RoomState_UpdateBmp390 x1 v1 x2 v2 now r) = rs_illuminance_valid r"
  "rs_illuminance_valid (RoomState_InvalidateBmp390 now r) = rs_illuminance_valid r"
  "rs_illuminance_valid (RoomState_UpdateBarometric p x1 v1 x2 v2 now r) = rs_illuminance_valid r"
  "rs_illuminance_valid (RoomState_InvalidateBarometric now r) = rs_illuminance_valid r"
  "rs_illuminance_valid (RoomState_UpdateSgp41 x1 v1 x2 v2 x3 v3 x4 v4 now r) = rs_illuminance_valid r"
  "rs_illuminance_valid (RoomState_InvalidateSgp41 now r) = rs_illuminance_valid r"
  by (simp_all add: RoomState_UpdateScd41_def RoomState_InvalidateScd41_def RoomState_UpdateSht45_def
      RoomState_InvalidateSht45_def RoomState_UpdateEnvironment_def RoomState_InvalidateEnvironment_def
      RoomState_UpdateBmp390_def RoomState_InvalidateBmp390_def RoomState_UpdateBarometric_def
      RoomState_InvalidateBarometric_def RoomState_UpdateSgp41_def RoomState_InvalidateSgp41_def Let_def)

lemma light_side_refresh [simp]:
  "light_side (App_RefreshScd41Diagnostics s) = light_side s" "light_side (App_RefreshSht45Diagnostics s) = light_side s"
  "light_side (App_RefreshBmp390Diagnostics s) = light_side s" "light_side (App_RefreshBmp380Diagnostics s) = light_side s"
  "light_side (App_RefreshSgp41Diagnostics s) = light_side s" "light_side (app_refresh_diagnostics s) = light_side s"
  "light_side (app_report_health now s) = light_side s"
  by (simp_all add: light_side_def App_RefreshScd41Diagnostics_def App_RefreshSht45Diagnostics_def
      App_RefreshBmp390Diagnostics_def App_RefreshBmp380Diagnostics_def App_RefreshSgp41Diagnostics_def
      app_refresh_diagnostics_def app_report_health_def Let_def)

lemma light_side_updates [simp]:
  "light_side (upd_disp f s) = light_side s" "light_side (s\<lparr>ap_display := dev\<rparr>) = light_side s"
  "(\<And>r. rs_illuminance_valid (g r) = rs_illuminance_valid r) \<Longrightarrow> light_side (upd_room g s) = light_side s"
  "light_side (s\<lparr>ap_scd41 := a\<rparr>) = light_side s" "light_side (s\<lparr>ap_sht45 := c\<rparr>) = light_side s"
  "light_side (s\<lparr>ap_bmp390 := d\<rparr>) = light_side s" "light_side (s\<lparr>ap_bmp380 := d\<rparr>) = light_side s"
  "light_side (s\<lparr>ap_sgp41 := e\<rparr>) = light_side s" "light_side (s\<lparr>ap_pres_rt := rt\<rparr>) = light_side s"
  "light_side (s\<lparr>ap_disp_absent := k\<rparr>) = light_side s" "light_side (s\<lparr>ap_disp_next_probe_ms := u\<rparr>) = light_side s"
  "light_side (s\<lparr>ap_display_addr := ad\<rparr>) = light_side s" "light_side (s\<lparr>ap_display_addr_valid := v\<rparr>) = light_side s"
  "light_side (s\<lparr>ap_last_display_ms := u\<rparr>) = light_side s" "light_side (s\<lparr>ap_last_light_ms := u\<rparr>) = light_side s"
  "light_side (s\<lparr>ap_last_retry_ms := u\<rparr>) = light_side s" "light_side (s\<lparr>ap_last_scd41_ms := u\<rparr>) = light_side s"
  "light_side (s\<lparr>ap_last_sht45_ms := u\<rparr>) = light_side s" "light_side (s\<lparr>ap_last_bmp390_ms := u\<rparr>) = light_side s"
  "light_side (s\<lparr>ap_last_bmp380_ms := u\<rparr>) = light_side s" "light_side (s\<lparr>ap_last_sgp41_ms := u\<rparr>) = light_side s"
  "light_side (s\<lparr>ap_sht45_room_commit_ms := u\<rparr>) = light_side s"
  "light_side (s\<lparr>ap_bmp390_room_commit_ms := u\<rparr>) = light_side s"
  "light_side (s\<lparr>ap_display_page := pg\<rparr>) = light_side s" "light_side (s\<lparr>ap_display_page_switch_ms := u\<rparr>) = light_side s"
  "light_side (s\<lparr>ap_bus_health := h\<rparr>) = light_side s"
  by (simp_all add: light_side_def upd_disp_def upd_room_def)

lemma light_side_retry:
  "app_retry_scd41 now s b = (s', b') \<Longrightarrow> light_side s' = light_side s"
  "app_retry_sht45 now s b = (s', b') \<Longrightarrow> light_side s' = light_side s"
  "app_retry_bmp390 now s b = (s', b') \<Longrightarrow> light_side s' = light_side s"
  "app_retry_bmp380 now s b = (s', b') \<Longrightarrow> light_side s' = light_side s"
  "app_retry_sgp41 now s b = (s', b') \<Longrightarrow> light_side s' = light_side s"
  by (auto simp: app_retry_scd41_def App_DoStartScd41_def app_retry_sht45_def App_DoStartSht45_def
      app_retry_bmp390_def App_DoStartBmp390_def app_retry_bmp380_def App_DoStartBmp380_def
      app_retry_sgp41_def App_DoStartSgp41_def Let_def split: DeviceState.splits prod.splits if_splits)

lemma light_side_due:
  "due_scd41 now s b = (s', b') \<Longrightarrow> light_side s' = light_side s"
  "due_sht45 now s b = (s', b') \<Longrightarrow> light_side s' = light_side s"
  "due_bmp390 now s b = (s', b') \<Longrightarrow> light_side s' = light_side s"
  "due_bmp380 now s b = (s', b') \<Longrightarrow> light_side s' = light_side s"
  "due_sgp41 now s b = (s', b') \<Longrightarrow> light_side s' = light_side s"
  "due_display now cs s b = (s', b') \<Longrightarrow> light_side s' = light_side s"
  by (auto simp: due_scd41_def App_DoPollScd41_def due_sht45_def App_DoPollSht45_def due_bmp390_def
      App_DoPollBmp390_def due_bmp380_def App_DoPollBmp380_def due_sgp41_def App_DoPollSgp41_def
      due_display_def App_DoUpdateDisplay_def Let_def split: prod.splits if_splits)

lemma light_side_commits:
  "light_side (App_CommitBarometricRoomState now s) = light_side s"
  "light_side (App_CommitEnvironmentRoomState now s) = light_side s"
  by (simp_all add: App_CommitBarometricRoomState_def App_CommitEnvironmentRoomState_def Let_def)

lemma light_side_display:
  "App_DoProbeDisplay now s b = (s', b') \<Longrightarrow> light_side s' = light_side s"
  "App_DoInitDisplay now s b = (s', b') \<Longrightarrow> light_side s' = light_side s"
  by (auto simp: App_DoProbeDisplay_def App_DoInitDisplay_def Let_def split: prod.splits if_splits option.splits)

text \<open>A retry withdraws the value of a sensor that is not ready before it probes it.\<close>

lemma app_recover_bus_light:
  assumes "light_ok s" "app_recover_bus now s b = (s', b')"
  shows "rs_illuminance_valid (ap_room s') \<Longrightarrow> dr_state (ap_light_rt s') = DEVICE_STATE_READY \<Longrightarrow>
    dr_consecutive_errors (ap_light_rt s') < CONSECUTIVE_ERROR_THRESHOLD"
proof -
  assume v: "rs_illuminance_valid (ap_room s')" "dr_state (ap_light_rt s') = DEVICE_STATE_READY"
  have "light_side s' = light_side s \<or> dr_state (ap_light_rt s') = DEVICE_STATE_NOT_FOUND"
    using assms(2)
    by (auto simp: app_recover_bus_def Let_def app_reset_devices_def app_refresh_diagnostics_def upd_light_def
        upd_disp_def set_dr_state_def light_side_def App_RefreshScd41Diagnostics_def App_RefreshSht45Diagnostics_def
        App_RefreshBmp390Diagnostics_def App_RefreshBmp380Diagnostics_def App_RefreshSgp41Diagnostics_def
        split: prod.splits if_splits)
  then show ?thesis using v assms(1) by (auto simp: light_side_def light_ok_def light_live_def)
qed

lemma app_retry_light_ok:
  assumes "rs_illuminance_valid (ap_room s) \<Longrightarrow> dr_state (ap_light_rt s) = DEVICE_STATE_READY \<Longrightarrow>
    dr_consecutive_errors (ap_light_rt s) < CONSECUTIVE_ERROR_THRESHOLD"
  shows "rs_illuminance_valid (ap_room (app_retry_light now s)) \<Longrightarrow>
    dr_state (ap_light_rt (app_retry_light now s)) = DEVICE_STATE_READY \<and>
    dr_consecutive_errors (ap_light_rt (app_retry_light now s)) < CONSECUTIVE_ERROR_THRESHOLD"
  using assms
  by (auto simp: app_retry_light_def upd_light_def upd_room_def retry_light_state_def Let_def
      RoomState_UpdateIlluminance_def split: DeviceState.splits if_splits)

lemma veml_keeps_room:
  "App_DoProbeVeml now s b = (s', b') \<Longrightarrow> ap_room s' = ap_room s"
  "App_DoInitVeml now s b = (s', b') \<Longrightarrow> ap_room s' = ap_room s"
  by (auto simp: App_DoProbeVeml_def App_DoInitVeml_def upd_light_def Let_def split: prod.splits if_splits)

lemma probe_light_ok:
  assumes r: "rs_illuminance_valid (ap_room s) \<Longrightarrow> dr_state (ap_light_rt s) = DEVICE_STATE_READY \<and>
      dr_consecutive_errors (ap_light_rt s) < CONSECUTIVE_ERROR_THRESHOLD"
    and p: "app_probe_light_display now s b = (s', b')"
  shows "light_ok s'"
proof -
  obtain s1 b1 where 1: "(if dr_state (ap_light_rt s) = DEVICE_STATE_PROBING then App_DoProbeVeml now s b else (s, b)) = (s1, b1)"
    by fastforce
  obtain s2 b2 where 2: "(if dr_state (ap_light_rt s1) = DEVICE_STATE_INITIALIZING then App_DoInitVeml now s1 b1 else (s1, b1)) = (s2, b2)"
    by fastforce
  have "light_side s' = light_side s2"
    using p unfolding app_probe_light_display_def 1 2 prod.case
    by (auto split: prod.splits if_splits dest!: light_side_display)
  moreover have "light_ok s2"
  proof (cases "rs_illuminance_valid (ap_room s)")
    case True
    then show ?thesis using r 1 2 by (auto simp: light_ok_def light_live_def split: if_splits)
  next
    case False
    then have "\<not> rs_illuminance_valid (ap_room s2)"
      using 1 2 by (auto split: if_splits dest!: veml_keeps_room)
    then show ?thesis by (simp add: light_ok_def)
  qed
  ultimately show ?thesis using light_side_cong by blast
qed

lemma App_DoRetry_light:
  assumes "light_ok s" "App_DoRetry now s b = (s', b')"
  shows "light_ok s'"
proof -
  obtain s1 b1 where 1: "app_recover_bus now (app_report_health now s) b = (s1, b1)" by fastforce
  obtain s2 b2 where 2: "app_probe_light_display now (upd_disp retry_display_state (app_retry_light now s1)) b1 = (s2, b2)"
    by fastforce
  obtain s3 b3 where 3: "app_retry_scd41 now s2 b2 = (s3, b3)" by fastforce
  obtain s4 b4 where 4: "app_retry_sht45 now s3 b3 = (s4, b4)" by fastforce
  obtain s5 b5 where 5: "app_retry_bmp390 now s4 b4 = (s5, b5)" by fastforce
  obtain s6 b6 where 6: "app_retry_bmp380 now s5 b5 = (s6, b6)" by fastforce
  have 7: "app_retry_sgp41 now s6 b6 = (s', b')"
    using assms(2) unfolding App_DoRetry_def 1 2 3 4 5 6 prod.case .
  have "light_ok (app_report_health now s)" using assms(1) light_side_cong [OF light_side_refresh(7)] by blast
  note w = app_retry_light_ok [OF app_recover_bus_light [OF this 1], of now]
  have "light_ok s2"
    using w by (intro probe_light_ok [OF _ 2]) (simp add: upd_disp_def)
  then show ?thesis
    using light_side_retry(1) [OF 3] light_side_retry(2) [OF 4] light_side_retry(3) [OF 5]
      light_side_retry(4) [OF 6] light_side_retry(5) [OF 7] light_side_cong by metis
qed

text \<open>A read counts its failures, and gives the sensor up at the third.\<close>

lemma read_light_ok:
  assumes "light_ok s" "dr_state (ap_light_rt s) = DEVICE_STATE_READY" "App_DoReadLight now cfg s b = (s', b')"
  shows "light_ok s'"
proof -
  have step: "n + 1 < CONSECUTIVE_ERROR_THRESHOLD \<or> n + 1 = CONSECUTIVE_ERROR_THRESHOLD"
    if "n < CONSECUTIVE_ERROR_THRESHOLD" for n
    using that
    by (simp add: CONSECUTIVE_ERROR_THRESHOLD_def word_less_nat_alt unat_word_ariths word_unat_eq_iff) linarith
  show ?thesis
    using assms step [of "dr_consecutive_errors (ap_light_rt s)"]
    by (auto simp: App_DoReadLight_def light_ok_def light_live_def upd_light_def upd_room_def set_dr_state_def
        RoomState_UpdateIlluminance_def DeviceRuntime_RecordSuccess_def DeviceRuntime_RecordFailure_def Let_def
        CONSECUTIVE_ERROR_THRESHOLD_def not_le split: prod.splits if_splits option.splits)
qed

lemma app_sense_light:
  assumes "light_ok s" "app_sense now cfg s b = (s', b')"
  shows "light_ok s'"
proof -
  obtain s1 b1 where 1: "due_retry now (rsc_storage cfg) s b = (s1, b1)" by fastforce
  obtain s2 b2 where 2: "due_light now cfg s1 b1 = (s2, b2)" by fastforce
  obtain s3 b3 where 3: "due_scd41 now s2 b2 = (s3, b3)" by fastforce
  obtain s4 b4 where 4: "due_sht45 now s3 b3 = (s4, b4)" by fastforce
  obtain s5 b5 where 5: "due_bmp390 now s4 b4 = (s5, b5)" by fastforce
  obtain s6 b6 where 6: "due_bmp380 now s5 b5 = (s6, b6)" by fastforce
  let ?c = "App_CommitEnvironmentRoomState now (App_CommitBarometricRoomState now s6)"
  obtain s7 b7 where 7: "due_sgp41 now ?c b6 = (s7, b7)" by fastforce
  have 8: "due_display now (rsc_storage cfg) s7 b7 = (s', b')"
    using assms(2) unfolding app_sense_def 1 2 3 4 5 6 7 prod.case .
  have "light_ok (s\<lparr>ap_last_retry_ms := now\<rparr>)" using assms(1) by (simp add: light_ok_def light_live_def)
  then have "light_ok s1"
    using 1 assms(1) App_DoRetry_light by (auto simp: due_retry_def split: if_splits)
  moreover from this have "light_ok (s1\<lparr>ap_last_light_ms := now\<rparr>)" by (simp add: light_ok_def light_live_def)
  ultimately have "light_ok s2"
    using 2 read_light_ok [of "s1\<lparr>ap_last_light_ms := now\<rparr>" now cfg b1 s2 b2]
    by (auto simp: due_light_def Let_def split: if_splits)
  then show ?thesis
    using light_side_due(1) [OF 3] light_side_due(2) [OF 4] light_side_due(3) [OF 5] light_side_due(4) [OF 6]
      light_side_due(5) [OF 7] light_side_due(6) [OF 8] light_side_commits light_side_cong by metis
qed

lemma init_light_ok: "light_ok (app_init_devices t (zero_sensing bus))"
  by (simp add: light_ok_def app_init_devices_def app_refresh_diagnostics_def RoomState_Init_def Let_def)

lemma sensing_call_light: "light_ok s \<Longrightarrow> sensing_step c s b = (s', b') \<Longrightarrow> light_ok s'"
  by (cases c) (auto intro: App_DoRetry_light app_sense_light)

section \<open>What the room says is fresh\<close>

text \<open>The limit of the runtime, and the interval between two polls on top.\<close>

definition scd41_live :: "u32 \<Rightarrow> 'b sensing \<Rightarrow> bool" where
  "scd41_live now s \<longleftrightarrow> Scd41Runtime_HasValidSample (ap_scd41 s) \<and>
     now - sr_last_valid_measurement_ms (ap_scd41 s) < SCD41_RUNTIME_STALE_MS + 500"

definition sht45_live :: "u32 \<Rightarrow> 'b sensing \<Rightarrow> bool" where
  "sht45_live now s \<longleftrightarrow> Sht45Runtime_HasValidSample (ap_sht45 s) \<and>
     now - hr_last_valid_measurement_ms (ap_sht45 s) < SHT45_RUNTIME_STALE_MS + 500"

definition sgp41_live :: "u32 \<Rightarrow> 'b sensing \<Rightarrow> bool" where
  "sgp41_live now s \<longleftrightarrow> Sgp41Runtime_HasValidSample (ap_sgp41 s) \<and>
     now - gr_last_valid_measurement_ms (ap_sgp41 s) < SGP41_RUNTIME_STALE_MS + 500"

definition bmp390_live :: "u32 \<Rightarrow> 'b sensing \<Rightarrow> bool" where
  "bmp390_live now s \<longleftrightarrow> bmp3_HasValidSample (ap_bmp390 s) \<and>
     now - br_last_valid_measurement_ms (ap_bmp390 s) < BMP390_RUNTIME_STALE_MS + 500"

definition bmp380_live :: "u32 \<Rightarrow> 'b sensing \<Rightarrow> bool" where
  "bmp380_live now s \<longleftrightarrow> Bmp380Runtime_HasValidSample (ap_bmp380 s) \<and>
     now - br_last_valid_measurement_ms (ap_bmp380 s) < BMP390_RUNTIME_STALE_MS + 500"

definition room_live :: "u32 \<Rightarrow> 'b sensing \<Rightarrow> bool" where
  "room_live now s \<longleftrightarrow> (let r = ap_room s in
     (rs_illuminance_valid r \<longrightarrow> light_live s) \<and>
     (rs_co2_valid r \<or> rs_scd41_temperature_valid r \<or> rs_scd41_humidity_valid r \<longrightarrow> scd41_live now s) \<and>
     (rs_sht45_temperature_valid r \<or> rs_sht45_humidity_valid r \<longrightarrow> sht45_live now s) \<and>
     (rs_voc_raw_valid r \<or> rs_nox_raw_valid r \<or> rs_voc_index_valid r \<or> rs_nox_index_valid r \<longrightarrow>
        sgp41_live now s) \<and>
     (rs_bmp390_pressure_valid r \<or> rs_bmp390_temperature_valid r \<longrightarrow> bmp390_live now s) \<and>
     (rs_barometric_pressure_valid r \<or> rs_barometric_temperature_valid r \<longrightarrow>
        rs_barometric_provider r = BAROMETER_PROVIDER_BMP390 \<and> bmp390_live now s \<and>
          rs_barometric_pressure_pa r = bm_pressure_pa (br_last_sample (ap_bmp390 s)) \<or>
        rs_barometric_provider r = BAROMETER_PROVIDER_BMP380 \<and> bmp380_live now s \<and>
          rs_barometric_pressure_pa r = bm_pressure_pa (br_last_sample (ap_bmp380 s))) \<and>
     (rs_environment_temperature_valid r \<or> rs_environment_humidity_valid r \<longrightarrow>
        rs_environment_provider r = ENVIRONMENT_PROVIDER_SHT45 \<and> sht45_live now s \<and>
          rs_environment_temperature_c r = rs_sht45_temperature_c r \<and>
          rs_environment_humidity_pct r = rs_sht45_humidity_pct r \<or>
        rs_environment_provider r = ENVIRONMENT_PROVIDER_SCD41 \<and> scd41_live now s \<and>
          rs_environment_temperature_c r = rs_scd41_temperature_c r \<and>
          rs_environment_humidity_pct r = rs_scd41_humidity_pct r))"

lemma stale_limits:
  "SCD41_RUNTIME_STALE_MS \<le> 0x7FFFFFFF" "SHT45_RUNTIME_STALE_MS \<le> 0x7FFFFFFF"
  "SGP41_RUNTIME_STALE_MS \<le> 0x7FFFFFFF" "BMP390_RUNTIME_STALE_MS \<le> 0x7FFFFFFF"
  by (simp_all add: SCD41_RUNTIME_STALE_MS_def SCD41_PERIODIC_INTERVAL_MS_def SHT45_RUNTIME_STALE_MS_def
      SHT45_RUNTIME_MEASUREMENT_INTERVAL_MS_def SGP41_RUNTIME_STALE_MS_def SGP41_RUNTIME_SAMPLE_PERIOD_MS_def
      BMP390_RUNTIME_STALE_MS_def BMP390_RUNTIME_MEASUREMENT_INTERVAL_MS_def)

lemma feed_ok_live:
  assumes "feed_ok bus s" "list_all (recent now) (polls s)"
  shows "Scd41Runtime_HasValidSample (ap_scd41 s) \<Longrightarrow> scd41_live now s"
    and "Sht45Runtime_HasValidSample (ap_sht45 s) \<Longrightarrow> sht45_live now s"
    and "Sgp41Runtime_HasValidSample (ap_sgp41 s) \<Longrightarrow> sgp41_live now s"
    and "bmp3_HasValidSample (ap_bmp390 s) \<Longrightarrow> bmp390_live now s"
    and "Bmp380Runtime_HasValidSample (ap_bmp380 s) \<Longrightarrow> bmp380_live now s"
  using assms scd41f.tracked_fresh [of "ap_last_scd41_ms s" "ap_scd41 s" now 500]
    sht45f.tracked_fresh [of "ap_last_sht45_ms s" "ap_sht45 s" now 500]
    sgp41f.tracked_fresh [of "ap_last_sgp41_ms s" "ap_sgp41 s" now 500]
    bmp390f.tracked_fresh [of "ap_last_bmp390_ms s" "ap_bmp390 s" now 500]
    bmp380f.tracked_fresh [of "ap_last_bmp380_ms s" "ap_bmp380 s" now 500]
  by (simp_all add: scd41_live_def sht45_live_def sgp41_live_def bmp390_live_def bmp380_live_def
      stale_limits recent_def polls_def feed_ok_def ok_defs)

lemma init_feed_ok: "feed_ok bus (app_init_devices t (zero_sensing bus))"
proof -
  have "\<not> Scd41Runtime_HasValidSample (Scd41Runtime_Init t bus)" "\<not> Sht45Runtime_HasValidSample (Sht45Runtime_Init t bus)"
    "\<not> Sgp41Runtime_HasValidSample (Sgp41Runtime_Init t bus)" "\<not> bmp3_HasValidSample (bmp3_runtime_Init t bus)"
    "\<not> Bmp380Runtime_HasValidSample (Bmp380Runtime_Init t bus)"
    "in_cycle (sr_state (Scd41Runtime_Init t bus))" "in_cycle (hr_state (Sht45Runtime_Init t bus))"
    "in_cycle (gr_state (Sgp41Runtime_Init t bus))" "in_cycle (br_state (bmp3_runtime_Init t bus))"
    "in_cycle (br_state (Bmp380Runtime_Init t bus))"
    by (simp_all add: Scd41Runtime_Init_def Scd41Runtime_HasValidSample_def
        Sht45Runtime_Init_def Sht45Runtime_HasValidSample_def zero_sht45_def Sgp41Runtime_Init_def
        Sgp41Runtime_HasValidSample_def zero_sgp41_def bmp3_runtime_Init_def bmp3_HasValidSample_def
        zero_bmp3_def Bmp380Runtime_Init_def Bmp380Runtime_HasValidSample_def Let_def)
  then show ?thesis
    using init_settled [of t bus]
    by (simp add: feed_ok_def ok_defs app_init_devices_def zero_sensing_def app_refresh_diagnostics_def Let_def
        scd41f.tracked_def sht45f.tracked_def sgp41f.tracked_def bmp390f.tracked_def bmp380f.tracked_def
        scd41_shown_def sht45_shown_def sgp41_shown_def RoomState_Init_def)
qed

lemma sensing_call_ok:
  "no_bus_recovery bus \<Longrightarrow> feed_ok bus s \<Longrightarrow> sensing_step c s b = (s', b') \<Longrightarrow> feed_ok bus s'"
  by (cases c) (auto dest: App_DoRetry_ok app_sense_ok)

text \<open>
  Claim C35. What the room state calls valid is alive. Take any history of retries and passes of the
  scheduler after the initialization, with any ticks, any configurations and any answers of the
  bus, in which the bus itself was never recovered. After the last pass, every value of CO2, temperature,
  humidity, pressure and gas the room calls valid is backed by a valid sample of its runtime, taken less
  than the limit of that runtime plus one poll interval before. The light value has no limit of age
  in the code: when it is valid, its sensor is ready with fewer than three failed reads in a row, or
  the third has just put it in the error state. The generic pressure and climate are those of exactly
  the provider the room names, pressure from BMP390 or BMP380 and climate as a pair of SHT45 or
  SCD41, never mixed, and as fresh.
\<close>

theorem room_values_live:
  assumes "no_bus_recovery bus"
    and "sensing_run (cs @ [Sensing_Pass now cfg]) (app_init_devices t (zero_sensing bus)) b = (s, b')"
  shows "room_live now s"
proof -
  obtain s1 b1 where r: "sensing_run cs (app_init_devices t (zero_sensing bus)) b = (s1, b1)" by fastforce
  then have p: "app_sense now cfg s1 b1 = (s, b')"
    using assms(2) by (auto simp: sensing_run_append split: prod.splits)
  have "feed_ok bus s1"
    using sensing_call_ok [OF assms(1)] init_feed_ok r by (rule sensing_run_keeps)
  note k = app_sense_ok [OF this assms(1) p]
  note l = feed_ok_live [OF k [THEN conjunct1] k [THEN conjunct2, THEN conjunct1]]
  have v: "scd41_shown (ap_room s) \<Longrightarrow> scd41_live now s" "sht45_shown (ap_room s) \<Longrightarrow> sht45_live now s"
    "sgp41_shown (ap_room s) \<Longrightarrow> sgp41_live now s"
    using k l(1-3) by (simp_all add: feed_ok_def ok_defs)
  have e: "environment_sourced (ap_room s)" and m: "barometer_sourced (ap_bmp390 s) (ap_bmp380 s) (ap_room s)"
    using k by simp_all
  have "light_ok s"
    by (rule sensing_run_keeps [where P = light_ok, OF sensing_call_light init_light_ok assms(2)])
  then have light: "rs_illuminance_valid (ap_room s) \<Longrightarrow> light_live s" by (simp add: light_ok_def)
  show ?thesis
    unfolding room_live_def Let_def
  proof (intro conjI impI)
    show "rs_barometric_pressure_valid (ap_room s) \<or> rs_barometric_temperature_valid (ap_room s) \<Longrightarrow>
        rs_barometric_provider (ap_room s) = BAROMETER_PROVIDER_BMP390 \<and> bmp390_live now s \<and>
          rs_barometric_pressure_pa (ap_room s) = bm_pressure_pa (br_last_sample (ap_bmp390 s)) \<or>
        rs_barometric_provider (ap_room s) = BAROMETER_PROVIDER_BMP380 \<and> bmp380_live now s \<and>
          rs_barometric_pressure_pa (ap_room s) = bm_pressure_pa (br_last_sample (ap_bmp380 s))"
      using m l(4,5) unfolding barometer_sourced_def by blast
    show "rs_environment_temperature_valid (ap_room s) \<or> rs_environment_humidity_valid (ap_room s) \<Longrightarrow>
        rs_environment_provider (ap_room s) = ENVIRONMENT_PROVIDER_SHT45 \<and> sht45_live now s \<and>
          rs_environment_temperature_c (ap_room s) = rs_sht45_temperature_c (ap_room s) \<and>
          rs_environment_humidity_pct (ap_room s) = rs_sht45_humidity_pct (ap_room s) \<or>
        rs_environment_provider (ap_room s) = ENVIRONMENT_PROVIDER_SCD41 \<and> scd41_live now s \<and>
          rs_environment_temperature_c (ap_room s) = rs_scd41_temperature_c (ap_room s) \<and>
          rs_environment_humidity_pct (ap_room s) = rs_scd41_humidity_pct (ap_room s)"
      using e v(1,2) unfolding environment_sourced_def by blast
    show "rs_bmp390_pressure_valid (ap_room s) \<or> rs_bmp390_temperature_valid (ap_room s) \<Longrightarrow> bmp390_live now s"
      using m l(4) unfolding barometer_sourced_def by blast
  qed (simp_all add: light v scd41_shown_def sht45_shown_def sgp41_shown_def)
qed

text \<open>
  A history in which a value is shown: on a bus that answers every read with a good word, the
  temperature sensor is started by the first retry and read by the first pass after it.
\<close>

definition thermal :: "'b sensing \<Rightarrow> 'b Sht45Runtime \<times> u32 \<times> u32 \<times> (f32 \<times> bool) list" where
  "thermal s = (ap_sht45 s, ap_last_sht45_ms s, ap_sht45_room_commit_ms s, sht45_view (ap_room s))"

lemma thermal_feed: "feed s' = feed s \<Longrightarrow> thermal s' = thermal s"
  by (simp add: feed_def thermal_def)

lemma thermal_retry:
  "app_retry_scd41 now s b = (s', b') \<Longrightarrow> thermal s' = thermal s"
  "app_retry_bmp390 now s b = (s', b') \<Longrightarrow> thermal s' = thermal s"
  "app_retry_bmp380 now s b = (s', b') \<Longrightarrow> thermal s' = thermal s"
  "app_retry_sgp41 now s b = (s', b') \<Longrightarrow> thermal s' = thermal s"
  by (auto simp: app_retry_scd41_def App_DoStartScd41_def app_retry_bmp390_def App_DoStartBmp390_def
      app_retry_bmp380_def App_DoStartBmp380_def app_retry_sgp41_def App_DoStartSgp41_def
      thermal_def Let_def split: DeviceState.splits prod.splits if_splits)

lemma thermal_due:
  "due_scd41 now s b = (s', b') \<Longrightarrow> thermal s' = thermal s"
  "due_bmp390 now s b = (s', b') \<Longrightarrow> thermal s' = thermal s"
  "due_bmp380 now s b = (s', b') \<Longrightarrow> thermal s' = thermal s"
  "due_sgp41 now s b = (s', b') \<Longrightarrow> thermal s' = thermal s"
  by (auto simp: due_scd41_def App_DoPollScd41_def due_bmp390_def App_DoPollBmp390_def
      due_bmp380_def App_DoPollBmp380_def due_sgp41_def App_DoPollSgp41_def
      thermal_def Let_def split: prod.splits if_splits)

text \<open>A retry is, for the temperature sensor, its own step.\<close>

lemma App_DoRetry_thermal:
  assumes "no_bus_recovery (ap_i2c_bus s)" "App_DoRetry now s b = (s', b')"
  obtains s1 b1 s2 b2 where "thermal s1 = thermal s" "app_retry_sht45 now s1 b1 = (s2, b2)" "thermal s' = thermal s2"
proof -
  obtain s1 b1 where 1: "app_recover_bus now (app_report_health now s) b = (s1, b1)" by fastforce
  obtain s2 b2 where 2: "app_probe_light_display now (upd_disp retry_display_state (app_retry_light now s1)) b1 = (s2, b2)"
    by fastforce
  obtain s3 b3 where 3: "app_retry_scd41 now s2 b2 = (s3, b3)" by fastforce
  obtain s4 b4 where 4: "app_retry_sht45 now s3 b3 = (s4, b4)" by fastforce
  obtain s5 b5 where 5: "app_retry_bmp390 now s4 b4 = (s5, b5)" by fastforce
  obtain s6 b6 where 6: "app_retry_bmp380 now s5 b5 = (s6, b6)" by fastforce
  have 7: "app_retry_sgp41 now s6 b6 = (s', b')"
    using assms(2) unfolding App_DoRetry_def 1 2 3 4 5 6 prod.case .
  have "ap_i2c_bus (app_report_health now s) = ap_i2c_bus s" by (simp add: app_report_health_def Let_def)
  then have "feed s1 = feed s" using app_recover_bus_feed [OF _ 1] assms(1) by simp
  then have "feed s2 = feed s" using app_probe_light_display_feed [OF 2] by simp
  then have "thermal s3 = thermal s" using thermal_retry(1) [OF 3] thermal_feed [of s2 s] by simp
  moreover have "thermal s' = thermal s4"
    using thermal_retry(2) [OF 5] thermal_retry(3) [OF 6] thermal_retry(4) [OF 7] by simp
  ultimately show thesis using that [OF _ 4] by blast
qed

definition good_bus :: "unit I2cBus" where
  "good_bus = echo_bus [0xBE, 0xEF, 0x92, 0xBE, 0xEF, 0x92]"

lemma good_bus_not_recovered: "no_bus_recovery (Some good_bus)"
  by (simp add: no_bus_recovery_def good_bus_def I2cBus_Recover_def echo_bus_def)

lemma good_retry:
  assumes "App_DoRetry 100 (app_init_devices 0 (zero_sensing (Some good_bus))) () = (s, b)"
  shows "ap_sht45 s = echo_sht45 \<and> ap_last_sht45_ms s = 0 \<and> ap_sht45_room_commit_ms s = 0xFFFFFFFF"
proof -
  let ?i = "app_init_devices 0 (zero_sensing (Some good_bus))"
  have i: "ap_sht45 ?i = Sht45Runtime_Init 0 (Some good_bus)" "ap_last_sht45_ms ?i = 0"
    "ap_sht45_room_commit_ms ?i = 0xFFFFFFFF" "ap_i2c_bus ?i = Some good_bus"
    by (simp_all add: app_init_devices_def zero_sensing_def app_refresh_diagnostics_def Let_def)
  obtain s1 b1 s2 b2 where r: "thermal s1 = thermal ?i" "app_retry_sht45 100 s1 b1 = (s2, b2)" "thermal s = thermal s2"
    using App_DoRetry_thermal [OF _ assms] i(4) good_bus_not_recovered by metis
  have "ap_sht45 s1 = Sht45Runtime_Init 0 (Some good_bus)" "ap_last_sht45_ms s1 = 0"
    "ap_sht45_room_commit_ms s1 = 0xFFFFFFFF"
    using r(1) i by (simp_all add: thermal_def)
  moreover have "hr_state (Sht45Runtime_Init 0 (Some good_bus)) = DEVICE_STATE_NOT_FOUND"
    by (simp add: Sht45Runtime_Init_def Let_def)
  ultimately have "ap_sht45 s2 = echo_sht45 \<and> ap_last_sht45_ms s2 = 0 \<and> ap_sht45_room_commit_ms s2 = 0xFFFFFFFF"
    using r(2) echo_started by (auto simp: app_retry_sht45_def App_DoStartSht45_def good_bus_def)
  then show ?thesis using r(3) by (simp add: thermal_def)
qed

lemma starting_retry:
  assumes "hr_state (ap_sht45 s) = DEVICE_STATE_STARTING" "no_bus_recovery (ap_i2c_bus s)"
    and "due_retry now cs s b = (s', b')"
  shows "thermal s' = thermal s"
proof (cases "now - ap_last_retry_ms s \<ge> cs_retry_period_ms cs")
  case True
  then have r: "App_DoRetry now (s\<lparr>ap_last_retry_ms := now\<rparr>) b = (s', b')" using assms(3) by (simp add: due_retry_def)
  have "no_bus_recovery (ap_i2c_bus (s\<lparr>ap_last_retry_ms := now\<rparr>))" using assms(2) by simp
  then obtain s1 b1 s2 b2 where "thermal s1 = thermal (s\<lparr>ap_last_retry_ms := now\<rparr>)"
    "app_retry_sht45 now s1 b1 = (s2, b2)" "thermal s' = thermal s2"
    using App_DoRetry_thermal r by metis
  then show ?thesis using assms(1) by (auto simp: thermal_def app_retry_sht45_def)
qed (use assms(3) in \<open>simp add: due_retry_def\<close>)

lemma good_pass:
  assumes "ap_sht45 s = echo_sht45" "ap_last_sht45_ms s = 0" "ap_sht45_room_commit_ms s = 0xFFFFFFFF"
    and "ap_i2c_bus s = Some good_bus" "app_sense 600 cfg s () = (s', b')"
  shows "sht45_shown (ap_room s')"
proof -
  obtain s1 b1 where 1: "due_retry 600 (rsc_storage cfg) s () = (s1, b1)" by (metis prod.collapse)
  obtain s2 b2 where 2: "due_light 600 cfg s1 b1 = (s2, b2)" by (metis prod.collapse)
  obtain s3 b3 where 3: "due_scd41 600 s2 b2 = (s3, b3)" by (metis prod.collapse)
  obtain s4 b4 where 4: "due_sht45 600 s3 b3 = (s4, b4)" by (metis prod.collapse)
  obtain s5 b5 where 5: "due_bmp390 600 s4 b4 = (s5, b5)" by (metis prod.collapse)
  obtain s6 b6 where 6: "due_bmp380 600 s5 b5 = (s6, b6)" by (metis prod.collapse)
  let ?c = "App_CommitEnvironmentRoomState 600 (App_CommitBarometricRoomState 600 s6)"
  obtain s7 b7 where 7: "due_sgp41 600 ?c b6 = (s7, b7)" by (metis prod.collapse)
  have 8: "due_display 600 (rsc_storage cfg) s7 b7 = (s', b')"
    using assms(5) unfolding app_sense_def 1 2 3 4 5 6 7 prod.case .
  have e: "hr_state echo_sht45 = DEVICE_STATE_STARTING" "hr_phase echo_sht45 = SHT45_PHASE_MEASURING"
    "hr_deadline_ms echo_sht45 = 110" "hr_consecutive_errors echo_sht45 = 0"
    "\<not> hm_valid (hr_last_sample echo_sht45)"
    by (simp_all add: echo_sht45_def Sht45Runtime_Init_def zero_sht45_def Let_def)
  have "thermal s1 = thermal s"
    using starting_retry [OF _ _ 1] assms(1,4) good_bus_not_recovered e(1) by simp
  then have "thermal s3 = thermal s"
    using thermal_due(1) [OF 3] thermal_feed [OF due_light_feed [OF 2]] by simp
  then have s3: "ap_sht45 s3 = echo_sht45" "ap_last_sht45_ms s3 = 0" "ap_sht45_room_commit_ms s3 = 0xFFFFFFFF"
    using assms(1-3) by (simp_all add: thermal_def)
  obtain m where m: "SHT45_FinishMeasurement (hr_dev echo_sht45) () = (DRIVER_STATUS_OK, Some m, ())" "hm_valid m"
    using echo_measured by blast
  obtain rt where rt: "Sht45Runtime_Poll 600 echo_sht45 () = (rt, ())" by (metis prod.collapse old.unit.exhaust)
  then have "hm_valid (hr_last_sample rt)" "hr_last_valid_measurement_ms rt = 600" "hr_state rt = DEVICE_STATE_READY"
    by (auto simp: e m Sht45Runtime_Poll_def Sht45Runtime_EnforceFreshness_def SHT45_RUNTIME_ERROR_THRESHOLD_def
        sht45_read_def Sht45Runtime_DeadlinePassed_def Sht45Runtime_RecordSuccess_def)
  then have "sht45_shown (ap_room s4)"
    using 4 rt by (auto simp: due_sht45_def s3 e runtime_active_def App_DoPollSht45_def
        Sht45Runtime_HasValidSample_def poll_intervals Let_def)
  moreover have "thermal s7 = thermal s4"
    using thermal_due(2) [OF 5] thermal_due(3) [OF 6] thermal_due(4) [OF 7] commits_feed(1) [of 600 s6]
      commits_feed(2) [of 600 "App_CommitBarometricRoomState 600 s6"] thermal_feed by metis
  ultimately show ?thesis
    using thermal_feed [OF due_display_room [OF 8, THEN conjunct1]] by (simp add: thermal_def shown_view)
qed

theorem room_values_live_witness:
  "\<exists>s b'. sensing_run [Sensing_Retry 100, Sensing_Pass 600 default_config]
       (app_init_devices 0 (zero_sensing (Some good_bus))) () = (s, b') \<and>
     sht45_shown (ap_room s) \<and> room_live 600 s \<and> sht45_live 600 s"
proof -
  let ?i = "app_init_devices 0 (zero_sensing (Some good_bus))"
  obtain s1 b1 where 1: "App_DoRetry 100 ?i () = (s1, b1)" by (metis prod.collapse)
  obtain s2 b2 where 2: "app_sense 600 default_config s1 () = (s2, b2)" by (metis prod.collapse)
  have r: "sensing_run ([Sensing_Retry 100] @ [Sensing_Pass 600 default_config]) ?i () = (s2, b2)"
    using 1 2 by (simp add: sensing_run_append)
  have "ap_i2c_bus s1 = Some good_bus"
    using App_DoRetry_ok [OF init_feed_ok good_bus_not_recovered 1] by (simp add: feed_ok_def)
  then have v: "sht45_shown (ap_room s2)" using good_retry [OF 1] good_pass [OF _ _ _ _ 2] by simp
  have l: "room_live 600 s2" using room_values_live [OF good_bus_not_recovered r] .
  have "sht45_live 600 s2" using l v unfolding room_live_def sht45_shown_def Let_def by blast
  then show ?thesis using r v l by auto
qed

section \<open>What the room says after the bus was recovered\<close>

definition scd41_side :: "'b sensing \<Rightarrow> 'b Scd41Runtime \<times> (f32 \<times> bool) list" where
  "scd41_side s = (ap_scd41 s, scd41_view (ap_room s))"

lemma scd41_side_feed: "feed s' = feed s \<Longrightarrow> scd41_side s' = scd41_side s"
  by (simp add: feed_def scd41_side_def)

lemma scd41_side_retry:
  "app_retry_sht45 now s b = (s', b') \<Longrightarrow> scd41_side s' = scd41_side s"
  "app_retry_bmp390 now s b = (s', b') \<Longrightarrow> scd41_side s' = scd41_side s"
  "app_retry_bmp380 now s b = (s', b') \<Longrightarrow> scd41_side s' = scd41_side s"
  "app_retry_sgp41 now s b = (s', b') \<Longrightarrow> scd41_side s' = scd41_side s"
  by (auto simp: app_retry_sht45_def App_DoStartSht45_def app_retry_bmp390_def App_DoStartBmp390_def
      app_retry_bmp380_def App_DoStartBmp380_def app_retry_sgp41_def App_DoStartSgp41_def
      scd41_side_def Let_def split: DeviceState.splits prod.splits if_splits)

lemma scd41_side_due:
  "due_sht45 now s b = (s', b') \<Longrightarrow> scd41_side s' = scd41_side s"
  "due_bmp390 now s b = (s', b') \<Longrightarrow> scd41_side s' = scd41_side s"
  "due_bmp380 now s b = (s', b') \<Longrightarrow> scd41_side s' = scd41_side s"
  "due_sgp41 now s b = (s', b') \<Longrightarrow> scd41_side s' = scd41_side s"
  by (auto simp: due_sht45_def App_DoPollSht45_def due_bmp390_def App_DoPollBmp390_def
      due_bmp380_def App_DoPollBmp380_def due_sgp41_def App_DoPollSgp41_def
      scd41_side_def Let_def split: prod.splits if_splits)

text \<open>A sensor that does not answer any more, and a room that does not know.\<close>

definition scd41_lost :: "'b I2cBus option \<Rightarrow> (f32 \<times> bool) list \<Rightarrow> 'b sensing \<Rightarrow> bool" where
  "scd41_lost bus v s \<longleftrightarrow> (case scd41_side s of (rt, w) \<Rightarrow>
     (sr_state rt = DEVICE_STATE_NOT_FOUND \<or> sr_state rt = DEVICE_STATE_RECOVERING) \<and>
     sd_bus (sr_dev rt) = bus \<and> w = v)"

definition scd41_silent :: "'b I2cBus option \<Rightarrow> bool" where
  "scd41_silent bus \<longleftrightarrow> (\<forall>b. fst (SCD41_Probe bus b) \<noteq> DRIVER_STATUS_OK)"

lemma scd41_lost_side: "scd41_side s' = scd41_side s \<Longrightarrow> scd41_lost bus v s' = scd41_lost bus v s"
  by (simp add: scd41_lost_def)

lemma scd41_side_simps:
  "scd41_side (app_refresh_diagnostics s) = scd41_side s" "scd41_side (s\<lparr>ap_bus_health := h\<rparr>) = scd41_side s"
  "scd41_side (app_reset_devices s) = (Scd41Runtime_Recover (ap_scd41 s), scd41_view (ap_room s))"
  by (simp_all add: app_refresh_diagnostics_def scd41_side_def app_reset_devices_def upd_light_def upd_disp_def)

lemma app_recover_bus_side:
  assumes "app_recover_bus now s b = (s', b')"
  shows "scd41_side s' = scd41_side s \<or>
    scd41_side s' = (Scd41Runtime_Recover (ap_scd41 s), scd41_view (ap_room s))"
  using assms by (auto simp: app_recover_bus_def Let_def scd41_side_simps split: prod.splits if_splits)

lemma scd41_recover_lost:
  "scd41_side s' = (Scd41Runtime_Recover (ap_scd41 s), scd41_view (ap_room s)) \<Longrightarrow>
   scd41_lost (sd_bus (sr_dev (ap_scd41 s))) (scd41_view (ap_room s)) s'"
  by (simp add: scd41_lost_def Scd41Runtime_Recover_def)

lemma app_recover_bus_lost:
  assumes "scd41_lost bus v s" "app_recover_bus now s b = (s', b')"
  shows "scd41_lost bus v s'"
  using app_recover_bus_side [OF assms(2)] scd41_lost_side [of s' s bus v] scd41_recover_lost [of s' s] assms(1)
  by (auto simp: scd41_lost_def scd41_side_def Scd41Runtime_Recover_def)

lemma scd41_start_silent:
  assumes "scd41_silent (sd_bus (sr_dev rt))" "Scd41Runtime_Start now rt b = (st, rt', b')"
  shows "sr_state rt' = DEVICE_STATE_NOT_FOUND \<and> sr_dev rt' = sr_dev rt"
proof -
  obtain ps b1 where p: "SCD41_Probe (sd_bus (sr_dev rt)) b = (ps, b1)" by fastforce
  then have "ps \<noteq> DRIVER_STATUS_OK" using assms(1) by (metis fst_conv scd41_silent_def)
  then show ?thesis using assms(2) by (auto simp: Scd41Runtime_Start_def p Let_def split: if_splits)
qed

lemma app_retry_scd41_lost:
  assumes "scd41_silent bus" "scd41_lost bus v s" "app_retry_scd41 now s b = (s', b')"
  shows "scd41_lost bus v s'"
proof -
  obtain st rt b1 where r: "Scd41Runtime_Start now (ap_scd41 s) b = (st, rt, b1)" by (metis prod.collapse)
  have "sr_state rt = DEVICE_STATE_NOT_FOUND" "sr_dev rt = sr_dev (ap_scd41 s)"
    using scd41_start_silent [OF _ r] assms(1,2) by (simp_all add: scd41_lost_def scd41_side_def)
  then show ?thesis
    using assms(2,3)
    by (auto simp: scd41_lost_def scd41_side_def app_retry_scd41_def App_DoStartScd41_def r Let_def
        split: if_splits)
qed

text \<open>The rest of a retry, after the recovery of the bus.\<close>

lemma App_DoRetry_lost:
  assumes "scd41_silent bus" "App_DoRetry now s b = (s', b')"
    and "\<And>s1 b1. app_recover_bus now (app_report_health now s) b = (s1, b1) \<Longrightarrow> scd41_lost bus v s1"
  shows "scd41_lost bus v s'"
proof -
  obtain s1 b1 where 1: "app_recover_bus now (app_report_health now s) b = (s1, b1)" by fastforce
  obtain s2 b2 where 2: "app_probe_light_display now (upd_disp retry_display_state (app_retry_light now s1)) b1 = (s2, b2)"
    by fastforce
  obtain s3 b3 where 3: "app_retry_scd41 now s2 b2 = (s3, b3)" by fastforce
  obtain s4 b4 where 4: "app_retry_sht45 now s3 b3 = (s4, b4)" by fastforce
  obtain s5 b5 where 5: "app_retry_bmp390 now s4 b4 = (s5, b5)" by fastforce
  obtain s6 b6 where 6: "app_retry_bmp380 now s5 b5 = (s6, b6)" by fastforce
  have 7: "app_retry_sgp41 now s6 b6 = (s', b')"
    using assms(2) unfolding App_DoRetry_def 1 2 3 4 5 6 prod.case .
  have "feed s2 = feed s1" using app_probe_light_display_feed [OF 2] by simp
  then have "scd41_lost bus v s2"
    using assms(3) [OF 1] scd41_lost_side [OF scd41_side_feed] by blast
  then have "scd41_lost bus v s3" by (rule app_retry_scd41_lost [OF assms(1) _ 3])
  then show ?thesis
    using scd41_side_retry(1) [OF 4] scd41_side_retry(2) [OF 5] scd41_side_retry(3) [OF 6]
      scd41_side_retry(4) [OF 7] by (simp add: scd41_lost_def)
qed

lemma App_DoRetry_stays_lost:
  assumes "scd41_silent bus" "scd41_lost bus v s" "App_DoRetry now s b = (s', b')"
  shows "scd41_lost bus v s'"
proof (rule App_DoRetry_lost [OF assms(1,3)])
  fix s1 b1 assume r: "app_recover_bus now (app_report_health now s) b = (s1, b1)"
  have "scd41_side (app_report_health now s) = scd41_side s" by (rule scd41_side_feed) simp
  then show "scd41_lost bus v s1"
    using app_recover_bus_lost [OF _ r] assms(2) scd41_lost_side by blast
qed

lemma app_sense_stays_lost:
  assumes "scd41_silent bus" "scd41_lost bus v s" "app_sense now cfg s b = (s', b')"
  shows "scd41_lost bus v s'"
proof -
  obtain s1 b1 where 1: "due_retry now (rsc_storage cfg) s b = (s1, b1)" by fastforce
  obtain s2 b2 where 2: "due_light now cfg s1 b1 = (s2, b2)" by fastforce
  obtain s3 b3 where 3: "due_scd41 now s2 b2 = (s3, b3)" by fastforce
  obtain s4 b4 where 4: "due_sht45 now s3 b3 = (s4, b4)" by fastforce
  obtain s5 b5 where 5: "due_bmp390 now s4 b4 = (s5, b5)" by fastforce
  obtain s6 b6 where 6: "due_bmp380 now s5 b5 = (s6, b6)" by fastforce
  let ?c = "App_CommitEnvironmentRoomState now (App_CommitBarometricRoomState now s6)"
  obtain s7 b7 where 7: "due_sgp41 now ?c b6 = (s7, b7)" by fastforce
  have 8: "due_display now (rsc_storage cfg) s7 b7 = (s', b')"
    using assms(3) unfolding app_sense_def 1 2 3 4 5 6 7 prod.case .
  have "scd41_lost bus v (s\<lparr>ap_last_retry_ms := now\<rparr>)"
    using assms(2) by (simp add: scd41_lost_def scd41_side_def)
  then have "scd41_lost bus v s1"
    using 1 assms(2) App_DoRetry_stays_lost [OF assms(1)] by (auto simp: due_retry_def split: if_splits)
  then have "scd41_lost bus v s2"
    using scd41_lost_side [OF scd41_side_feed [OF due_light_feed [OF 2]]] by simp
  then have "scd41_lost bus v s3"
    using 3 by (auto simp: due_scd41_def Let_def scd41_lost_def scd41_side_def runtime_active_def split: if_splits)
  moreover have "scd41_side ?c = scd41_side s6"
    using commits_feed(1) [of now s6] commits_feed(2) [of now "App_CommitBarometricRoomState now s6"]
      scd41_side_feed by metis
  ultimately show ?thesis
    using scd41_side_due(1) [OF 4] scd41_side_due(2) [OF 5] scd41_side_due(3) [OF 6] scd41_side_due(4) [OF 7]
      scd41_side_feed [OF due_display_room [OF 8, THEN conjunct1]] by (simp add: scd41_lost_def)
qed

lemma sensing_step_lost:
  assumes "scd41_silent bus" "scd41_lost bus v s" "sensing_step c s b = (s', b')"
  shows "scd41_lost bus v s'"
  using assms by (cases c) (auto intro: App_DoRetry_stays_lost app_sense_stays_lost)

text \<open>
  Claim C36. A recovery of the shared bus freezes the values of the CO2 sensor. When a retry recovers the
  bus and the CO2 sensor does not answer any more, the room state goes on calling the last CO2, temperature
  and humidity of that sensor valid, whatever retries and passes follow and however long, while its
  runtime has no valid sample: the recovery invalidates the sample in the runtime only, and the
  poll that would tell the room finds nothing to withdraw. The comment there says that a fresh
  sample is required before any is trusted again.
\<close>

theorem bus_recovery_freezes_room:
  assumes "I2cBusHealth_ShouldRecover (ap_bus_health (app_report_health now s))"
    and "I2cBusHealth_RecoveryEligible (ap_bus_health (app_report_health now s)) now"
    and "ap_i2c_bus s = Some ops" "I2cBus_Recover (Some ops) b = (DRIVER_STATUS_OK, b1)"
    and "scd41_silent (sd_bus (sr_dev (ap_scd41 s)))"
    and "sensing_run (Sensing_Retry now # cs) s b = (s', b')"
  shows "scd41_view (ap_room s') = scd41_view (ap_room s) \<and> \<not> Scd41Runtime_HasValidSample (ap_scd41 s')"
proof -
  let ?bus = "sd_bus (sr_dev (ap_scd41 s))" and ?v = "scd41_view (ap_room s)"
  have h: "ap_i2c_bus (app_report_health now s) = Some ops"
    "ap_scd41 (app_report_health now s) = ap_scd41 s" "ap_room (app_report_health now s) = ap_room s"
    using assms(3) by (simp_all add: app_report_health_def Let_def)
  obtain s1 b2 where r: "App_DoRetry now s b = (s1, b2)" by fastforce
  have "scd41_lost ?bus ?v s1"
  proof (rule App_DoRetry_lost [OF assms(5) r])
    fix s2 b3 assume "app_recover_bus now (app_report_health now s) b = (s2, b3)"
    then have "scd41_side s2 = (Scd41Runtime_Recover (ap_scd41 s), ?v)"
      using assms(1,2,4) by (auto simp: app_recover_bus_def h Let_def scd41_side_simps)
    then show "scd41_lost ?bus ?v s2" by (rule scd41_recover_lost)
  qed
  moreover have "sensing_run cs s1 b2 = (s', b')" using assms(6) r by simp
  ultimately have "scd41_lost ?bus ?v s'"
    by (rule sensing_run_keeps [where P = "scd41_lost ?bus ?v", rotated])
      (rule sensing_step_lost [OF assms(5)])
  then show ?thesis
    by (auto simp: scd41_lost_def scd41_side_def Scd41Runtime_HasValidSample_def)
qed

text \<open>A bus that can be recovered and on which nothing answers, and a room with a CO2 value.\<close>

definition dead_bus :: "unit I2cBus" where
  "dead_bus =
     \<lparr>bus_write = None, bus_read_mem = None, bus_read = None,
      bus_probe = Some (\<lambda>b addr. (DRIVER_STATUS_NOT_FOUND, b)), bus_recover = Some (\<lambda>b. (DRIVER_STATUS_OK, b))\<rparr>"

definition measured_room :: "unit sensing" where
  "measured_room = (app_init_devices 0 (zero_sensing (Some dead_bus)))
     \<lparr>ap_room := RoomState_UpdateScd41 (f32_of_int 800) True (f32_of_int 21) True (f32_of_int 40) True 9000 RoomState_Init,
      ap_bus_health := I2cBusHealth_Init\<lparr>bh_state := I2C_BUS_HEALTH_RECOVERING, bh_transport_evidence := 2\<rparr>\<rparr>"

lemma report_ok: "snd (I2cBusHealth_Report h k DRIVER_STATUS_OK now) = h"
  by (simp add: I2cBusHealth_Report_def RecoveryPolicy_Classify_def Let_def)

lemma mark_unseen: "I2cBusHealth_MarkHealth h k False = h"
  by (simp add: I2cBusHealth_MarkHealth_def)

lemma measured_fields:
  "ap_i2c_bus measured_room = Some dead_bus" "sd_bus (sr_dev (ap_scd41 measured_room)) = Some dead_bus"
  "ap_bus_health (app_report_health now measured_room) =
     I2cBusHealth_Init\<lparr>bh_state := I2C_BUS_HEALTH_RECOVERING, bh_transport_evidence := 2\<rparr>"
  "scd41_view (ap_room measured_room) = [(f32_of_int 800, True), (f32_of_int 21, True), (f32_of_int 40, True)]"
proof -
  show "ap_i2c_bus measured_room = Some dead_bus" "sd_bus (sr_dev (ap_scd41 measured_room)) = Some dead_bus"
    by (simp_all add: measured_room_def app_init_devices_def zero_sensing_def app_refresh_diagnostics_def
        Scd41Runtime_Init_def SCD41_Init_def Let_def)
  show "scd41_view (ap_room measured_room) = [(f32_of_int 800, True), (f32_of_int 21, True), (f32_of_int 40, True)]"
    by (simp add: measured_room_def scd41_view_def RoomState_UpdateScd41_def)
  have r: "ap_scd41 measured_room = Scd41Runtime_Init 0 (Some dead_bus)"
    "ap_sht45 measured_room = Sht45Runtime_Init 0 (Some dead_bus)"
    "ap_bmp390 measured_room = bmp3_runtime_Init 0 (Some dead_bus)"
    "ap_bmp380 measured_room = Bmp380Runtime_Init 0 (Some dead_bus)"
    "ap_sgp41 measured_room = Sgp41Runtime_Init 0 (Some dead_bus)"
    by (simp_all add: measured_room_def app_init_devices_def zero_sensing_def app_refresh_diagnostics_def Let_def)
  have v: "Scd41Runtime_HasValidSample (Scd41Runtime_Init t bus) = False" "Sht45Runtime_HasValidSample (Sht45Runtime_Init t bus) = False"
    "Sgp41Runtime_HasValidSample (Sgp41Runtime_Init t bus) = False" "bmp3_HasValidSample (bmp3_runtime_Init t bus) = False"
    "Bmp380Runtime_HasValidSample (Bmp380Runtime_Init t bus) = False"
    "Scd41Runtime_LastError (Scd41Runtime_Init t bus) = DRIVER_STATUS_OK" "Sht45Runtime_LastError (Sht45Runtime_Init t bus) = DRIVER_STATUS_OK"
    "Sgp41Runtime_LastError (Sgp41Runtime_Init t bus) = DRIVER_STATUS_OK" "bmp3_LastError (bmp3_runtime_Init t bus) = DRIVER_STATUS_OK"
    "Bmp380Runtime_LastError (Bmp380Runtime_Init t bus) = DRIVER_STATUS_OK" for t and bus :: "unit I2cBus option"
    by (simp_all add: Scd41Runtime_Init_def zero_scd41_def Scd41Runtime_HasValidSample_def Scd41Runtime_LastError_def
        Sht45Runtime_Init_def Sht45Runtime_HasValidSample_def Sht45Runtime_LastError_def zero_sht45_def
        Sgp41Runtime_Init_def Sgp41Runtime_HasValidSample_def Sgp41Runtime_LastError_def zero_sgp41_def
        bmp3_runtime_Init_def bmp3_HasValidSample_def bmp3_LastError_def zero_bmp3_def Bmp380Runtime_Init_def
        Bmp380Runtime_HasValidSample_def Bmp380Runtime_LastError_def Let_def)
  show "ap_bus_health (app_report_health now measured_room) =
      I2cBusHealth_Init\<lparr>bh_state := I2C_BUS_HEALTH_RECOVERING, bh_transport_evidence := 2\<rparr>"
    by (simp add: app_report_health_def Let_def r v report_ok mark_unseen) (simp add: measured_room_def)
qed

theorem bus_recovery_freezes_room_witness:
  "\<exists>s b. sensing_run [Sensing_Retry 10000, Sensing_Pass 15000 default_config, Sensing_Pass 86400000 default_config]
       measured_room () = (s, b) \<and>
     scd41_view (ap_room s) = [(f32_of_int 800, True), (f32_of_int 21, True), (f32_of_int 40, True)] \<and>
     \<not> Scd41Runtime_HasValidSample (ap_scd41 s)"
proof -
  let ?cs = "[Sensing_Pass 15000 default_config, Sensing_Pass 86400000 default_config]"
  obtain s b where r: "sensing_run (Sensing_Retry 10000 # ?cs) measured_room () = (s, b)" by (metis prod.collapse)
  have "I2cBus_Recover (Some dead_bus) () = (DRIVER_STATUS_OK, ())"
    by (simp add: I2cBus_Recover_def dead_bus_def)
  moreover have "scd41_silent (Some dead_bus)"
    by (simp add: scd41_silent_def SCD41_Probe_def I2cBus_Probe_def dead_bus_def)
  ultimately have "scd41_view (ap_room s) = scd41_view (ap_room measured_room) \<and> \<not> Scd41Runtime_HasValidSample (ap_scd41 s)"
    using measured_fields by (intro bus_recovery_freezes_room [OF _ _ _ _ _ r])
      (simp_all add: I2cBusHealth_ShouldRecover_def I2cBusHealth_RecoveryEligible_def I2cBusHealth_Init_def
        RECOVERY_BUS_EVIDENCE_MIN_def)
  then show ?thesis using r measured_fields(4) by metis
qed

end
