(* ===== verification/App_Props.thy ===== *)
theory App_Props
  imports App Command_Props App_Feed_Props
begin

text \<open>
  Properties of the application as a whole. The boot sequence always ends in the operational
  phase, whatever the flash, the bus and the devices on it do; on a working flash it writes the
  records that are absent and no other; and without a network adapter the MQTT part stays silent.
\<close>

section \<open>Frames\<close>

lemmas app_folds = upd_cmd_def upd_dev_def on_sensing_def printf_out_def Let_def

lemma app_update_command_frame [simp]:
  "aw_device (app_update_command now w) = aw_device w" "aw_storage (app_update_command now w) = aw_storage w"
  "aw_sensing (app_update_command now w) = aw_sensing w" "aw_identity (app_update_command now w) = aw_identity w"
  "aw_lifecycle (app_update_command now w) = aw_lifecycle w"
  "aw_config_boot_load_status (app_update_command now w) = aw_config_boot_load_status w"
  by (simp_all add: app_update_command_def app_folds)

lemma printf_out_frame [simp]:
  "aw_device (printf_out txt w) = aw_device w" "aw_storage (printf_out txt w) = aw_storage w"
  "aw_mqtt (printf_out txt w) = aw_mqtt w" "aw_lifecycle (printf_out txt w) = aw_lifecycle w"
  "aw_identity (printf_out txt w) = aw_identity w"
  "aw_config_boot_load_status (printf_out txt w) = aw_config_boot_load_status w"
  by (simp_all add: printf_out_def)

lemma App_PrintBootDiag_frame [simp]:
  "aw_device (App_PrintBootDiag w) = aw_device w" "aw_storage (App_PrintBootDiag w) = aw_storage w"
  "aw_mqtt (App_PrintBootDiag w) = aw_mqtt w" "aw_lifecycle (App_PrintBootDiag w) = aw_lifecycle w"
  "aw_config_boot_load_status (App_PrintBootDiag w) = aw_config_boot_load_status w"
  by (simp_all add: App_PrintBootDiag_def Let_def)

lemma App_UpdateHealth_frame [simp]:
  "aw_device (App_UpdateHealth env w) = aw_device w" "aw_storage (App_UpdateHealth env w) = aw_storage w"
  "aw_mqtt (App_UpdateHealth env w) = aw_mqtt w" "aw_lifecycle (App_UpdateHealth env w) = aw_lifecycle w"
  "aw_config_boot_load_status (App_UpdateHealth env w) = aw_config_boot_load_status w"
  by (simp_all add: App_UpdateHealth_def Let_def)

lemma lc_to_frame [simp]:
  "aw_device (lc_to now nxt w) = aw_device w" "aw_storage (lc_to now nxt w) = aw_storage w"
  "aw_mqtt (lc_to now nxt w) = aw_mqtt w" "aw_sensing (lc_to now nxt w) = aw_sensing w"
  "aw_identity (lc_to now nxt w) = aw_identity w"
  "aw_config_boot_load_status (lc_to now nxt w) = aw_config_boot_load_status w"
  by (simp_all add: lc_to_def)

lemma lc_to_state:
  "DeviceLifecycle_CanTransition (lc_state (aw_lifecycle w)) nxt \<Longrightarrow> lc_state (aw_lifecycle (lc_to now nxt w)) = nxt"
  by (simp add: lc_to_def DeviceLifecycle_TransitionTo_def)

lemma on_sensing_frame:
  assumes "on_sensing f w b = (w', b')"
  shows "aw_device w' = aw_device w" "aw_storage w' = aw_storage w" "aw_mqtt w' = aw_mqtt w"
    "aw_lifecycle w' = aw_lifecycle w" "aw_identity w' = aw_identity w"
    "aw_config_boot_load_status w' = aw_config_boot_load_status w"
  using assms by (auto simp: on_sensing_def split: prod.splits)

section \<open>Without a network adapter\<close>

lemma MqttApp_Run_off:
  assumes "\<not> ma_adapter (the_app m)"
  shows "\<exists>m'. MqttApp_Run ad m = Some (False, m') \<and> \<not> ma_adapter (the_app m') \<and>
    snd (mq_x m') = snd (mq_x m) \<and> mq_a m' = mq_a m \<and> mq_t m' = mq_t m \<and> mq_c m' = mq_c m \<and>
    (ma_state (the_app m) = MQTT_APP_DISABLED \<longrightarrow> ma_state (the_app m') = MQTT_APP_DISABLED)"
  using assms by (auto simp: MqttApp_Run_def upd_app_def Let_def)

lemma MqttApp_PublishTelemetry_off:
  assumes "\<not> ma_adapter (the_app m)"
  shows "\<exists>m'. MqttApp_PublishTelemetry payload m = Some m' \<and> \<not> ma_adapter (the_app m') \<and>
    snd (mq_x m') = snd (mq_x m) \<and> mq_a m' = mq_a m \<and> mq_t m' = mq_t m \<and> mq_c m' = mq_c m \<and>
    ma_state (the_app m') = ma_state (the_app m)"
  using assms by (auto simp: MqttApp_PublishTelemetry_def upd_app_def upd_app_stats_def Let_def)

lemma send_replies_off:
  "\<not> ma_adapter (the_app m) \<Longrightarrow> send_replies rs m = Some m"
  by (induction rs) (auto simp: MqttApp_PortSend_def MqttApp_PublishResponse_def)

text \<open>The network side of the application: the manager is off and nothing below it has moved.\<close>

definition offline :: "'a mqtt_app \<Rightarrow> 'a mqtt_app \<Rightarrow> bool" where
  "offline m0 m \<longleftrightarrow> \<not> ma_adapter (the_app m) \<and> ma_state (the_app m) = MQTT_APP_DISABLED \<and>
     mq_a m = mq_a m0 \<and> mq_t m = mq_t m0 \<and> mq_c m = mq_c m0"

lemma offline_upd [simp]:
  "offline m0 (m\<lparr>mq_now := now\<rparr>) = offline m0 m"
  "offline m0 (m\<lparr>mq_x := (fst (mq_x m), c)\<rparr>) = offline m0 m"
  "offline m0 (m\<lparr>mq_x := (fst (mq_x m), c), mq_now := now\<rparr>) = offline m0 m"
  by (simp_all add: offline_def)

text \<open>What the scheduler leaves alone, up to the command.\<close>

definition kept :: "('b, 'f, 'a) app \<Rightarrow> ('b, 'f, 'a) app \<Rightarrow> bool" where
  "kept w w' \<longleftrightarrow>
     dv_flash (aw_device w') = dv_flash (aw_device w) \<and> dv_config (aw_device w') = dv_config (aw_device w) \<and>
     aw_storage w' = aw_storage w \<and> aw_lifecycle w' = aw_lifecycle w \<and>
     aw_config_boot_load_status w' = aw_config_boot_load_status w \<and>
     snd (mq_x (aw_mqtt w')) = snd (mq_x (aw_mqtt w))"

lemma kept_refl: "kept w w" by (simp add: kept_def)

lemma kept_trans: "kept u v \<Longrightarrow> kept v w \<Longrightarrow> kept u w" by (simp add: kept_def)

lemma app_diagnostics_kept: "kept w (app_diagnostics env now w)" "aw_mqtt (app_diagnostics env now w) = aw_mqtt w"
  by (simp_all add: app_diagnostics_def kept_def Let_def)

lemma app_telemetry_off:
  assumes "offline m0 (aw_mqtt w)"
  shows "\<exists>w'. app_telemetry now w = Some w' \<and> offline m0 (aw_mqtt w') \<and> kept w w'"
proof -
  note p = MqttApp_PublishTelemetry_off[of "(aw_mqtt w)\<lparr>mq_now := now\<rparr>"]
  have "\<not> ma_adapter (the_app (aw_mqtt w))" using assms by (simp add: offline_def)
  then show ?thesis
    using assms p by (fastforce simp: app_telemetry_def kept_def offline_def Let_def bind_eq_Some_conv
        split: prod.split)
qed

lemma app_mqtt_off:
  assumes "offline m0 (aw_mqtt w)"
  shows "\<exists>w'. app_mqtt ad now w = Some w' \<and> offline m0 (aw_mqtt w') \<and> kept w w'"
proof -
  obtain m' where "MqttApp_Run ad ((aw_mqtt w)\<lparr>mq_now := now\<rparr>) = Some (False, m')"
    "\<not> ma_adapter (the_app m')" "snd (mq_x m') = snd (mq_x (aw_mqtt w))" "mq_a m' = mq_a (aw_mqtt w)"
    "mq_t m' = mq_t (aw_mqtt w)" "mq_c m' = mq_c (aw_mqtt w)" "ma_state (the_app m') = MQTT_APP_DISABLED"
    using MqttApp_Run_off[of "(aw_mqtt w)\<lparr>mq_now := now\<rparr>" ad] assms by (auto simp: offline_def)
  then show ?thesis using assms by (simp add: app_mqtt_def kept_def offline_def)
qed

lemma app_reports_kept:
  "kept w (App_GetStatus env now (App_FillCommandRuntimeStatus env (app_communication now w)))"
  "aw_mqtt (App_GetStatus env now (App_FillCommandRuntimeStatus env (app_communication now w))) = aw_mqtt w"
  by (simp_all add: kept_def App_GetStatus_def App_FillCommandRuntimeStatus_def app_communication_def app_folds
      split: prod.split)

lemma app_command_off:
  assumes "offline m0 (aw_mqtt w)" "app_command env now w b = Some (w', b')"
  shows "offline m0 (aw_mqtt w')"
proof -
  have "\<not> ma_adapter (the_app (aw_mqtt w))" using assms(1) by (simp add: offline_def)
  then show ?thesis
    using assms by (auto simp: app_command_def Let_def bind_eq_Some_conv send_replies_off offline_def
        split: prod.splits)
qed

lemma app_command_idle:
  assumes "offline m0 (aw_mqtt w)" "\<not> cm_has_pending (snd (mq_x (aw_mqtt w)))"
  shows "\<exists>w'. app_command env now w b = Some (w', b) \<and> offline m0 (aw_mqtt w') \<and> kept w w'"
proof -
  have r: "\<not> runs_self_test (snd (mq_x (aw_mqtt w)))" using assms(2) by (simp add: runs_self_test_def)
  have c: "Command_Run e (snd (mq_x (aw_mqtt w))) d = Some ([], snd (mq_x (aw_mqtt w)), d)" for e d
    using assms(2) by (simp add: Command_Run_def)
  show ?thesis
    unfolding app_command_def Let_def if_not_P[OF r] c prod.case
    using assms by (simp add: kept_def c)
qed

lemma app_schedule_off:
  assumes "offline m0 (aw_mqtt w)" "app_schedule ad env now w b = Some (w', b')"
  shows "offline m0 (aw_mqtt w')"
proof -
  obtain w1 b1 where s: "on_sensing (app_sense now (app_config w)) w b = (w1, b1)" by (meson surj_pair)
  have "offline m0 (aw_mqtt (app_diagnostics env now w1))"
    using on_sensing_frame(3)[OF s] assms(1) by (simp add: app_diagnostics_kept(2))
  then obtain w2 where t: "app_telemetry now (app_diagnostics env now w1) = Some w2" "offline m0 (aw_mqtt w2)"
    using app_telemetry_off by blast
  then obtain w3 where m: "app_mqtt ad now w2 = Some w3" "offline m0 (aw_mqtt w3)"
    using app_mqtt_off by blast
  show ?thesis
    using assms(2) m(2) app_command_off
    unfolding app_schedule_def s t(1) m(1) prod.case Option.bind.bind_lunit
    by (metis app_reports_kept(2))
qed

lemma app_schedule_idle:
  assumes "offline m0 (aw_mqtt w)" "\<not> cm_has_pending (snd (mq_x (aw_mqtt w)))"
  shows "\<exists>w' b'. app_schedule ad env now w b = Some (w', b') \<and> offline m0 (aw_mqtt w') \<and> kept w w'"
proof -
  obtain w1 b1 where s: "on_sensing (app_sense now (app_config w)) w b = (w1, b1)" by (meson surj_pair)
  note f = on_sensing_frame[OF s]
  have d: "offline m0 (aw_mqtt (app_diagnostics env now w1))" "kept w (app_diagnostics env now w1)"
    using f assms(1) kept_trans[of w w1 "app_diagnostics env now w1"]
    by (simp_all add: app_diagnostics_kept) (simp add: kept_def)
  obtain w2 where t: "app_telemetry now (app_diagnostics env now w1) = Some w2" "offline m0 (aw_mqtt w2)" "kept w w2"
    using app_telemetry_off[OF d(1)] kept_trans[OF d(2)] by blast
  obtain w3 where m: "app_mqtt ad now w2 = Some w3" "offline m0 (aw_mqtt w3)" "kept w w3"
    using app_mqtt_off[OF t(2)] kept_trans[OF t(3)] by blast
  define w4 where "w4 = App_GetStatus env now (App_FillCommandRuntimeStatus env (app_communication now w3))"
  have w4: "offline m0 (aw_mqtt w4)" "kept w w4"
    using m(2) kept_trans[OF m(3) app_reports_kept(1)] by (simp_all add: w4_def app_reports_kept(2))
  then have "\<not> cm_has_pending (snd (mq_x (aw_mqtt w4)))" using assms(2) by (simp add: kept_def)
  then obtain w5 where "app_command env now w4 b1 = Some (w5, b1)" "offline m0 (aw_mqtt w5)" "kept w w5"
    using app_command_idle[OF w4(1)] kept_trans[OF w4(2)] by blast
  then show ?thesis
    unfolding app_schedule_def s t(1) m(1) prod.case Option.bind.bind_lunit w4_def[symmetric] by blast
qed

section \<open>The boot sequence\<close>

text \<open>Nothing is connected and no command waits.\<close>

definition quiet :: "'a mqtt_app \<Rightarrow> ('b, 'f, 'a) app \<Rightarrow> bool" where
  "quiet m0 w \<longleftrightarrow> offline m0 (aw_mqtt w) \<and> \<not> cm_has_pending (snd (mq_x (aw_mqtt w)))"

lemma quiet_update_command [simp]: "quiet m0 (app_update_command now w) = quiet m0 w"
  by (simp add: quiet_def app_update_command_def Command_UpdateRuntime_def app_folds)

lemma quiet_cong: "aw_mqtt w' = aw_mqtt w \<Longrightarrow> quiet m0 w' = quiet m0 w"
  by (simp add: quiet_def)

lemma App_Init_state:
  assumes "ap_i2c_bus (aw_sensing w) \<noteq> None" "App_Init env t w = (st, w0)"
  shows "st = ROOM_SENSOR_OK" "quiet (aw_mqtt w0) w0" "lc_state (aw_lifecycle w0) = LIFECYCLE_BOOT"
    "dv_flash (aw_device w0) = dv_flash (aw_device w)"
    "aw_storage w0 = snd (Storage_Init (ce_ops env) (dv_flash (aw_device w)))"
    "mq_a (aw_mqtt w0) = mq_a (aw_mqtt w)"
  using assms
  by (auto simp: App_Init_def app_init_ports_def app_init_services_def app_folds CommunicationDebug_Init_def
      App_GetStatus_def App_FillCommandRuntimeStatus_def MqttApp_Init_def zero_app_def quiet_def offline_def
      Command_Init_def DeviceLifecycle_Init_def split: prod.splits)

lemma app_pass:
  assumes "app_lifecycle env wd now (app_update_command now w) b = Some (w', b')"
    and "\<not> DeviceLifecycle_IsOperational (aw_lifecycle w')"
  shows "App_Run ad env wd now w b = Some (w', b')"
  using assms by (simp add: App_Run_def)

lemma not_operational: "\<not> running_phase (lc_state lc) \<Longrightarrow> \<not> DeviceLifecycle_IsOperational lc"
  by (auto simp: DeviceLifecycle_IsOperational_def running_phase_def)

lemmas boot_edges = lc_to_state DeviceLifecycle_CanTransition_def s_edges_def

text \<open>The phases that leave the persistent state alone.\<close>

definition unchanged :: "('b, 'f, 'a) app \<Rightarrow> ('b, 'f, 'a) app \<Rightarrow> bool" where
  "unchanged w w' \<longleftrightarrow> dv_flash (aw_device w') = dv_flash (aw_device w) \<and>
     dv_config (aw_device w') = dv_config (aw_device w) \<and> aw_storage w' = aw_storage w \<and>
     aw_config_boot_load_status w' = aw_config_boot_load_status w"

definition app_at :: "'a mqtt_app \<Rightarrow> LifecycleState \<Rightarrow> ('b, 'f, 'a) app \<Rightarrow> bool" where
  "app_at m0 phase w \<longleftrightarrow> quiet m0 w \<and> lc_state (aw_lifecycle w) = phase"

definition boot_idle_edges :: "(LifecycleState \<times> LifecycleState) set" where
  "boot_idle_edges =
     {(LIFECYCLE_BOOT, LIFECYCLE_LOAD_CONFIGURATION), (LIFECYCLE_SELF_TEST, LIFECYCLE_PROBE_PERIPHERALS),
      (LIFECYCLE_PROBE_PERIPHERALS, LIFECYCLE_INITIALIZE_DRIVERS),
      (LIFECYCLE_INITIALIZE_DRIVERS, LIFECYCLE_READY)}"

lemma app_self_test_frame:
  assumes "app_self_test env w b = (w', b')"
  shows "aw_mqtt w' = aw_mqtt w" "aw_lifecycle w' = aw_lifecycle w" "unchanged w w'"
  using assms by (auto simp: app_self_test_def unchanged_def upd_dev_def split: prod.splits)

lemma boot_idle_pass:
  assumes "app_at m0 p w" "(p, q) \<in> boot_idle_edges"
  shows "\<exists>w' b'. App_Run ad env wd now w b = Some (w', b') \<and> app_at m0 q w' \<and> unchanged w w'"
proof -
  let ?w = "app_update_command now w"
  have w: "quiet m0 ?w" "lc_state (aw_lifecycle ?w) = p" using assms(1) by (simp_all add: app_at_def)
  have "\<exists>v w' b'. app_lifecycle env wd now ?w b = Some (w', b') \<and> w' = lc_to now q v \<and>
    aw_mqtt v = aw_mqtt ?w \<and> lc_state (aw_lifecycle v) = p \<and> unchanged w v"
  proof (cases "p = LIFECYCLE_SELF_TEST")
    case True
    obtain v b1 where t: "app_self_test env ?w b = (v, b1)" by (meson surj_pair)
    show ?thesis
      using app_self_test_frame[OF t] assms(2) w(2) True
      by (intro exI[of _ v] exI[of _ "lc_to now q v"] exI[of _ b1])
        (auto simp: app_lifecycle_def DeviceLifecycle_GetState_def t boot_idle_edges_def unchanged_def)
  next
    case False
    obtain v b1 where r: "on_sensing (App_DoRetry now) ?w b = (v, b1)" by (meson surj_pair)
    show ?thesis
    proof (cases "p = LIFECYCLE_BOOT")
      case True
      show ?thesis
        by (rule exI[of _ ?w], use w(2) assms(2) True in
          \<open>auto simp: app_lifecycle_def DeviceLifecycle_GetState_def boot_idle_edges_def unchanged_def\<close>)
    next
      case b: False
      show ?thesis
        by (rule exI[of _ "if p = LIFECYCLE_PROBE_PERIPHERALS then v\<lparr>aw_watchdog_active := wd\<rparr> else v"],
            use on_sensing_frame[OF r] assms(2) w(2) False b in
          \<open>auto simp: app_lifecycle_def DeviceLifecycle_GetState_def r boot_idle_edges_def unchanged_def\<close>)
    qed
  qed
  then obtain v w' b' where v: "app_lifecycle env wd now ?w b = Some (w', b')" "w' = lc_to now q v"
    "aw_mqtt v = aw_mqtt ?w" "lc_state (aw_lifecycle v) = p" "unchanged w v" by blast
  have "lc_state (aw_lifecycle w') = q"
    using v(2,4) assms(2) by (auto simp: boot_idle_edges_def boot_edges)
  moreover have "\<not> running_phase q" using assms(2) by (auto simp: boot_idle_edges_def running_phase_def)
  moreover have "quiet m0 w'" using v(2,3) w(1) quiet_cong[of w' ?w m0] by simp
  ultimately show ?thesis
    using app_pass[OF v(1) not_operational] v(2,5) by (auto simp: app_at_def unchanged_def)
qed

definition read_status :: "'f flash_ops \<Rightarrow> storage \<Rightarrow> 'f \<Rightarrow> u8 \<Rightarrow> StorageReadStatus" where
  "read_status ops st f rt = fst (Storage_Read ops st f rt (Some zero_payload))"

lemma Config_Load_status:
  assumes "Config_Load ops st f c = (ok, c')"
  shows "cf_storage_status c' = STORAGE_READ_NOT_FOUND \<longleftrightarrow>
      read_status ops st f RECORD_TYPE_CONFIG = STORAGE_READ_NOT_FOUND"
    "ok \<Longrightarrow> cf_storage_status c' = STORAGE_READ_OK"
  using assms by (auto simp: Config_Load_def Config_RefreshHealth_def read_status_def Let_def
      split: prod.splits if_splits)

lemma load_configuration_pass:
  assumes "app_at m0 LIFECYCLE_LOAD_CONFIGURATION w"
  shows "\<exists>w'. App_Run ad env wd now w b = Some (w', b) \<and> app_at m0 LIFECYCLE_LOAD_IDENTITY w' \<and>
    dv_flash (aw_device w') = dv_flash (aw_device w) \<and> aw_storage w' = aw_storage w \<and>
    (aw_config_boot_load_status w' = STORAGE_READ_NOT_FOUND \<longleftrightarrow>
       read_status (ce_ops env) (aw_storage w) (dv_flash (aw_device w)) RECORD_TYPE_CONFIG = STORAGE_READ_NOT_FOUND) \<and>
    (aw_config_boot_load_status w' = STORAGE_READ_NOT_FOUND \<longrightarrow>
       cf_config (dv_config (aw_device w')) = default_config)"
proof -
  let ?w = "app_update_command now w"
  obtain ok c where l: "Config_Load (ce_ops env) (aw_storage w) (dv_flash (aw_device w)) (dv_config (aw_device w)) = (ok, c)"
    by (meson surj_pair)
  define v where "v = app_load_configuration env ?w"
  have v: "aw_mqtt v = aw_mqtt ?w" "aw_lifecycle v = aw_lifecycle w"
    "dv_flash (aw_device v) = dv_flash (aw_device w)" "aw_storage v = aw_storage w"
    "aw_config_boot_load_status v = cf_storage_status c"
    "\<not> ok \<Longrightarrow> cf_config (dv_config (aw_device v)) = default_config"
    by (simp_all add: v_def app_load_configuration_def l upd_dev_def Config_GetStorageStatus_def
        Config_LoadDefaults_def Let_def)
  have s: "app_lifecycle env wd now ?w b = Some (lc_to now LIFECYCLE_LOAD_IDENTITY v, b)"
    using assms by (simp add: app_lifecycle_def app_at_def DeviceLifecycle_GetState_def v_def)
  have p: "app_at m0 LIFECYCLE_LOAD_IDENTITY (lc_to now LIFECYCLE_LOAD_IDENTITY v)"
    using assms v quiet_cong[of "lc_to now LIFECYCLE_LOAD_IDENTITY v" ?w m0]
    by (simp add: app_at_def boot_edges)
  have d: "aw_config_boot_load_status v = STORAGE_READ_NOT_FOUND \<longrightarrow> cf_config (dv_config (aw_device v)) = default_config"
    using v(5,6) Config_Load_status(2)[OF l] by (cases ok) simp_all
  show ?thesis
    using app_pass[OF s not_operational] p v(3-5) d Config_Load_status(1)[OF l]
    by (auto simp: app_at_def running_phase_def)
qed

text \<open>The flash after the phase that loads the identity.\<close>

definition derived_identity :: "'f cmd_env \<Rightarrow> bytes" where
  "derived_identity env = (let d = snd (DeviceIdentity_Derive (ce_uid env)) in identity_bytes
     \<lparr>is_schema_version = IDENTITY_SCHEMA_VERSION, is_device_uuid = di_device_uuid d,
      is_hardware_revision = di_hardware_revision d\<rparr>)"

definition identity_derivable :: "'f cmd_env \<Rightarrow> bool" where
  "identity_derivable env \<longleftrightarrow> fst (DeviceIdentity_Derive (ce_uid env))"

definition boot_identity_flash :: "'f cmd_env \<Rightarrow> storage \<Rightarrow> 'f \<Rightarrow> 'f" where
  "boot_identity_flash env st f =
     (if read_status (ce_ops env) st f RECORD_TYPE_IDENTITY = STORAGE_READ_NOT_FOUND \<and> identity_derivable env
      then snd (Storage_WriteEx (ce_ops env) st f RECORD_TYPE_IDENTITY (Some (derived_identity env))
                  IDENTITY_STORAGE_V1_SIZE)
      else f)"

lemma DeviceIdentity_Load_status:
  assumes "DeviceIdentity_Load ops st f c (Some d) = (ok, c', d')"
  shows "id_load_status c' = STORAGE_READ_NOT_FOUND \<longleftrightarrow>
      read_status ops st f RECORD_TYPE_IDENTITY = STORAGE_READ_NOT_FOUND"
    "ok \<Longrightarrow> id_load_status c' = STORAGE_READ_OK"
  using assms by (auto simp: DeviceIdentity_Load_def DeviceIdentity_RefreshHealth_def read_status_def Let_def
      split: prod.splits if_splits)

lemma DeviceIdentity_Save_flash:
  assumes "identity_derivable env" "DeviceIdentity_Derive (ce_uid env) = (ok, d)"
    "DeviceIdentity_Save ops st f c (Some d) = (r, f', c')"
  shows "f' = snd (Storage_WriteEx ops st f RECORD_TYPE_IDENTITY (Some (derived_identity env)) IDENTITY_STORAGE_V1_SIZE)"
  using assms
  by (auto simp: DeviceIdentity_Save_def identity_derivable_def derived_identity_def DeviceIdentity_Derive_def
      Let_def split: prod.splits if_splits)

lemma app_load_identity_frame:
  "aw_mqtt (app_load_identity env w) = aw_mqtt w" "aw_lifecycle (app_load_identity env w) = aw_lifecycle w"
  "dv_config (aw_device (app_load_identity env w)) = dv_config (aw_device w)"
  "aw_storage (app_load_identity env w) = aw_storage w"
  "aw_config_boot_load_status (app_load_identity env w) = aw_config_boot_load_status w"
  by (simp_all add: app_load_identity_def upd_dev_def Let_def split: prod.split)

lemma app_load_identity_flash:
  "dv_flash (aw_device (app_load_identity env w)) = boot_identity_flash env (aw_storage w) (dv_flash (aw_device w))"
proof -
  obtain ok i d where l: "DeviceIdentity_Load (ce_ops env) (aw_storage w) (dv_flash (aw_device w)) (aw_identity w)
      (Some (dv_identity (aw_device w))) = (ok, i, d)" by (metis prod_cases3)
  obtain dok dd where d: "DeviceIdentity_Derive (ce_uid env) = (dok, dd)" by (meson surj_pair)
  show ?thesis
    using DeviceIdentity_Load_status[OF l] DeviceIdentity_Save_flash[OF _ d]
    by (auto simp: app_load_identity_def boot_identity_flash_def upd_dev_def Let_def l d identity_derivable_def
        DeviceIdentity_GetLoadStatus_def split: prod.split)
qed

lemma load_identity_pass:
  assumes "app_at m0 LIFECYCLE_LOAD_IDENTITY w"
  shows "\<exists>w'. App_Run ad env wd now w b = Some (w', b) \<and> app_at m0 LIFECYCLE_CREATE_BOOT_SESSION w' \<and>
    dv_flash (aw_device w') = boot_identity_flash env (aw_storage w) (dv_flash (aw_device w)) \<and>
    dv_config (aw_device w') = dv_config (aw_device w) \<and> aw_storage w' = aw_storage w \<and>
    aw_config_boot_load_status w' = aw_config_boot_load_status w"
proof -
  let ?w = "app_update_command now w"
  define v where "v = app_load_identity env ?w"
  have s: "app_lifecycle env wd now ?w b = Some (lc_to now LIFECYCLE_CREATE_BOOT_SESSION v, b)"
    using assms by (simp add: app_lifecycle_def app_at_def DeviceLifecycle_GetState_def v_def)
  note f = app_load_identity_frame[of env ?w, folded v_def] app_load_identity_flash[of env ?w, folded v_def]
  have p: "app_at m0 LIFECYCLE_CREATE_BOOT_SESSION (lc_to now LIFECYCLE_CREATE_BOOT_SESSION v)"
    using assms f quiet_cong[of "lc_to now LIFECYCLE_CREATE_BOOT_SESSION v" ?w m0]
    by (simp add: app_at_def boot_edges)
  show ?thesis
    using app_pass[OF s not_operational] p f by (auto simp: app_at_def running_phase_def)
qed

text \<open>The flash after the phase that creates the boot session.\<close>

definition boot_config_flash :: "'f cmd_env \<Rightarrow> storage \<Rightarrow> bool \<Rightarrow> 'f \<Rightarrow> 'f" where
  "boot_config_flash env st first f =
     (if first then snd (Storage_WriteEx (ce_ops env) st f RECORD_TYPE_CONFIG
                       (Some (config_bytes (rsc_storage default_config))) CONFIG_STORAGE_V1_SIZE)
      else f)"

definition mirrored :: "'f cmd_env \<Rightarrow> storage \<Rightarrow> u8 \<Rightarrow> 'f \<Rightarrow> 'f" where
  "mirrored env st rt f =
     (if Storage_IsInitialized st then snd (Storage_EnsureRedundancy (ce_ops env) st f rt) else f)"

definition boot_session_flash :: "'f cmd_env \<Rightarrow> storage \<Rightarrow> bool \<Rightarrow> 'f \<Rightarrow> 'f" where
  "boot_session_flash env st first f =
     mirrored env st RECORD_TYPE_IDENTITY (mirrored env st RECORD_TYPE_CONFIG (boot_config_flash env st first f))"

lemma default_calibration: "\<exists>q. FloatToQ16 (rc_light_calibration_factor (rsc_runtime default_config)) = Some q \<and>
    cs_light_calibration_q16 (rsc_storage default_config) = q"
proof -
  have "FloatToQ16 (f32_of_int 1) = Some 65536" by code_simp
  then show ?thesis by (simp add: default_config_def)
qed

lemma Config_Save_default:
  assumes "cf_config c = default_config"
  shows "\<exists>ok c'. Config_Save ops st f c = Some (ok, snd (Storage_WriteEx ops st f RECORD_TYPE_CONFIG
    (Some (config_bytes (rsc_storage default_config))) CONFIG_STORAGE_V1_SIZE), c') \<and> cf_config c' = default_config"
proof -
  obtain q where q: "FloatToQ16 (rc_light_calibration_factor (rsc_runtime default_config)) = Some q"
    "cs_light_calibration_q16 (rsc_storage default_config) = q" using default_calibration by blast
  have r: "(rsc_storage default_config)\<lparr>cs_version := CONFIG_SCHEMA_VERSION, cs_light_calibration_q16 := q\<rparr> =
      rsc_storage default_config" using q(2) by (simp add: default_config_def)
  show ?thesis
    using assms r by (auto simp: Config_Save_def Config_SaveCandidate_def default_config_valid q(1) Let_def
        Config_RefreshHealth_def Config_RefreshReadState_def split: prod.split)
qed

lemma create_boot_session_run:
  assumes "aw_config_boot_load_status w = STORAGE_READ_NOT_FOUND \<Longrightarrow> cf_config (dv_config (aw_device w)) = default_config"
  shows "\<exists>w'. app_create_boot_session env w = Some w' \<and> aw_mqtt w' = aw_mqtt w \<and> aw_lifecycle w' = aw_lifecycle w \<and>
    aw_storage w' = aw_storage w \<and>
    dv_flash (aw_device w') = boot_session_flash env (aw_storage w)
      (aw_config_boot_load_status w = STORAGE_READ_NOT_FOUND) (dv_flash (aw_device w))"
proof -
  define first where "first = (aw_config_boot_load_status w = STORAGE_READ_NOT_FOUND)"
  define v where "v = app_boot_session env w"
  have v: "aw_mqtt v = aw_mqtt w" "aw_lifecycle v = aw_lifecycle w" "aw_storage v = aw_storage w"
    "dv_flash (aw_device v) = dv_flash (aw_device w)" "dv_config (aw_device v) = dv_config (aw_device w)"
    "aw_config_boot_load_status v = aw_config_boot_load_status w"
    by (simp_all add: v_def app_boot_session_def upd_dev_def split: prod.split)
  obtain u where u: "app_save_defaults env v = Some u" "aw_mqtt u = aw_mqtt w" "aw_lifecycle u = aw_lifecycle w"
    "aw_storage u = aw_storage w"
    "dv_flash (aw_device u) = boot_config_flash env (aw_storage w) first (dv_flash (aw_device w))"
  proof (cases first)
    case True
    then obtain ok c' where "Config_Save (ce_ops env) (aw_storage v) (dv_flash (aw_device v)) (dv_config (aw_device v)) =
        Some (ok, snd (Storage_WriteEx (ce_ops env) (aw_storage v) (dv_flash (aw_device v)) RECORD_TYPE_CONFIG
          (Some (config_bytes (rsc_storage default_config))) CONFIG_STORAGE_V1_SIZE), c')"
      using Config_Save_default assms v(5) by (metis first_def)
    then show ?thesis
      using that True v by (simp add: app_save_defaults_def first_def upd_dev_def boot_config_flash_def)
  next
    case False
    then show ?thesis
      using that v by (simp add: app_save_defaults_def first_def boot_config_flash_def)
  qed
  define w' where "w' = App_BootEnsureRedundancy env u"
  have w': "aw_mqtt w' = aw_mqtt u" "aw_lifecycle w' = aw_lifecycle u" "aw_storage w' = aw_storage u"
    "dv_flash (aw_device w') = boot_session_flash env (aw_storage w) first (dv_flash (aw_device w))"
    using u(4,5) by (auto simp: w'_def App_BootEnsureRedundancy_def upd_dev_def boot_session_flash_def
        mirrored_def Config_EnsureRedundancy_def DeviceIdentity_EnsureRedundancy_def Let_def split: prod.split)
  then show ?thesis
    using u(1-4) by (simp add: app_create_boot_session_def v_def[symmetric] w'_def[symmetric] first_def)
qed

lemma create_boot_session_pass:
  assumes "app_at m0 LIFECYCLE_CREATE_BOOT_SESSION w"
    and "aw_config_boot_load_status w = STORAGE_READ_NOT_FOUND \<Longrightarrow> cf_config (dv_config (aw_device w)) = default_config"
  shows "\<exists>w'. App_Run ad env wd now w b = Some (w', b) \<and> app_at m0 LIFECYCLE_SELF_TEST w' \<and>
    aw_storage w' = aw_storage w \<and> dv_flash (aw_device w') = boot_session_flash env (aw_storage w)
      (aw_config_boot_load_status w = STORAGE_READ_NOT_FOUND) (dv_flash (aw_device w))"
proof -
  let ?w = "app_update_command now w"
  have "\<exists>v. app_create_boot_session env ?w = Some v \<and> aw_mqtt v = aw_mqtt ?w \<and> aw_lifecycle v = aw_lifecycle ?w \<and>
    aw_storage v = aw_storage ?w \<and> dv_flash (aw_device v) = boot_session_flash env (aw_storage ?w)
      (aw_config_boot_load_status ?w = STORAGE_READ_NOT_FOUND) (dv_flash (aw_device ?w))"
    using assms(2) by (intro create_boot_session_run) simp
  then obtain v where v: "app_create_boot_session env ?w = Some v" "aw_mqtt v = aw_mqtt ?w"
    "aw_lifecycle v = aw_lifecycle w" "aw_storage v = aw_storage w"
    "dv_flash (aw_device v) = boot_session_flash env (aw_storage w)
      (aw_config_boot_load_status w = STORAGE_READ_NOT_FOUND) (dv_flash (aw_device w))" by auto
  have s: "app_lifecycle env wd now ?w b = Some (lc_to now LIFECYCLE_SELF_TEST v, b)"
    using assms v(1) by (simp add: app_lifecycle_def app_at_def DeviceLifecycle_GetState_def)
  have p: "app_at m0 LIFECYCLE_SELF_TEST (lc_to now LIFECYCLE_SELF_TEST v)"
    using assms(1) v quiet_cong[of "lc_to now LIFECYCLE_SELF_TEST v" ?w m0] by (simp add: app_at_def boot_edges)
  show ?thesis
    using app_pass[OF s not_operational] p v by (auto simp: app_at_def running_phase_def)
qed

lemma ready_pass:
  assumes "app_at m0 LIFECYCLE_READY w"
  shows "\<exists>w' b'. App_Run ad env wd now w b = Some (w', b') \<and> app_at m0 LIFECYCLE_OPERATIONAL w' \<and>
    aw_storage w' = aw_storage w \<and> dv_flash (aw_device w') = dv_flash (aw_device w)"
proof -
  let ?w = "app_update_command now w"
  define v where "v = lc_to now LIFECYCLE_OPERATIONAL (App_PrintBootDiag (App_UpdateHealth env ?w))"
  have s: "app_lifecycle env wd now ?w b = Some (v, b)"
    using assms by (simp add: app_lifecycle_def app_at_def DeviceLifecycle_GetState_def v_def)
  have v: "quiet m0 v" "lc_state (aw_lifecycle v) = LIFECYCLE_OPERATIONAL" "aw_storage v = aw_storage w"
    "dv_flash (aw_device v) = dv_flash (aw_device w)"
    using assms quiet_cong[of v ?w m0] by (simp_all add: app_at_def v_def boot_edges)
  obtain w' b' where "app_schedule ad env now v b = Some (w', b')" "offline m0 (aw_mqtt w')" "kept v w'"
    using app_schedule_idle[of m0 v ad env now b] v(1) by (auto simp: quiet_def)
  then show ?thesis
    using s v by (auto simp: App_Run_def DeviceLifecycle_IsOperational_def app_at_def quiet_def kept_def)
qed

lemma operational_pass:
  assumes "app_at m0 LIFECYCLE_OPERATIONAL w"
  shows "\<exists>w' b'. App_Run ad env wd now w b = Some (w', b') \<and> app_at m0 LIFECYCLE_OPERATIONAL w' \<and>
    aw_storage w' = aw_storage w \<and> dv_flash (aw_device w') = dv_flash (aw_device w)"
proof -
  let ?w = "app_update_command now w"
  obtain w' b' where "app_schedule ad env now ?w b = Some (w', b')" "offline m0 (aw_mqtt w')" "kept ?w w'"
    using app_schedule_idle[of m0 ?w ad env now b] assms quiet_update_command[of m0 now w]
    unfolding app_at_def quiet_def by blast
  then show ?thesis
    using assms quiet_update_command[of m0 now w]
    by (auto simp: App_Run_def app_lifecycle_def DeviceLifecycle_GetState_def DeviceLifecycle_IsOperational_def
        app_at_def quiet_def kept_def)
qed

section \<open>Runs\<close>

fun app_passes ::
  "'a NetworkTransportAdapter \<Rightarrow> 'f cmd_env \<Rightarrow> bool \<Rightarrow> u32 list \<Rightarrow> ('b, 'f, 'a) app \<Rightarrow> 'b \<Rightarrow>
   (('b, 'f, 'a) app \<times> 'b) option" where
  "app_passes ad env wd [] w b = Some (w, b)"
| "app_passes ad env wd (now # nows) w b = do {
     (w, b) \<leftarrow> App_Run ad env wd now w b;
     app_passes ad env wd nows w b
   }"

definition boot_flash :: "'f cmd_env \<Rightarrow> storage \<Rightarrow> 'f \<Rightarrow> 'f" where
  "boot_flash env st f =
     boot_session_flash env st (read_status (ce_ops env) st f RECORD_TYPE_CONFIG = STORAGE_READ_NOT_FOUND)
       (boot_identity_flash env st f)"

lemma operational_passes:
  "app_at m0 LIFECYCLE_OPERATIONAL w \<Longrightarrow>
     \<exists>w' b'. app_passes ad env wd ts w b = Some (w', b') \<and> app_at m0 LIFECYCLE_OPERATIONAL w' \<and>
       aw_storage w' = aw_storage w \<and> dv_flash (aw_device w') = dv_flash (aw_device w)"
proof (induction ts arbitrary: w b)
  case (Cons t ts)
  obtain w1 b1 where w1: "App_Run ad env wd t w b = Some (w1, b1)" "app_at m0 LIFECYCLE_OPERATIONAL w1"
    "aw_storage w1 = aw_storage w" "dv_flash (aw_device w1) = dv_flash (aw_device w)"
    using operational_pass[OF Cons.prems] by blast
  then show ?case using Cons.IH[OF w1(2)] by auto
qed simp

lemma boot_run:
  assumes "ap_i2c_bus (aw_sensing w) \<noteq> None" "App_Init env t w = (st, w0)" "8 \<le> length ts"
  obtains w' b' where "app_passes ad env wd ts w0 b = Some (w', b')"
    "app_at (aw_mqtt w0) LIFECYCLE_OPERATIONAL w'" "aw_storage w' = aw_storage w0"
    "dv_flash (aw_device w') = boot_flash env (aw_storage w0) (dv_flash (aw_device w0))"
proof -
  obtain t1 t2 t3 t4 t5 t6 t7 t8 rest where ts: "ts = t1 # t2 # t3 # t4 # t5 # t6 # t7 # t8 # rest"
    using assms(3) by (auto simp: numeral_eq_Suc Suc_le_length_iff)
  let ?m = "aw_mqtt w0"
  have w0: "app_at ?m LIFECYCLE_BOOT w0" using App_Init_state[OF assms(1,2)] by (simp add: app_at_def)
  obtain w1 b1 where w1: "App_Run ad env wd t1 w0 b = Some (w1, b1)" "app_at ?m LIFECYCLE_LOAD_CONFIGURATION w1"
    "unchanged w0 w1" using boot_idle_pass[OF w0] by (fastforce simp: boot_idle_edges_def)
  obtain w2 where w2: "App_Run ad env wd t2 w1 b1 = Some (w2, b1)" "app_at ?m LIFECYCLE_LOAD_IDENTITY w2"
    "dv_flash (aw_device w2) = dv_flash (aw_device w1)" "aw_storage w2 = aw_storage w1"
    "aw_config_boot_load_status w2 = STORAGE_READ_NOT_FOUND \<longleftrightarrow>
       read_status (ce_ops env) (aw_storage w1) (dv_flash (aw_device w1)) RECORD_TYPE_CONFIG = STORAGE_READ_NOT_FOUND"
    "aw_config_boot_load_status w2 = STORAGE_READ_NOT_FOUND \<longrightarrow> cf_config (dv_config (aw_device w2)) = default_config"
    using load_configuration_pass[OF w1(2)] by blast
  obtain w3 where w3: "App_Run ad env wd t3 w2 b1 = Some (w3, b1)" "app_at ?m LIFECYCLE_CREATE_BOOT_SESSION w3"
    "dv_flash (aw_device w3) = boot_identity_flash env (aw_storage w2) (dv_flash (aw_device w2))"
    "dv_config (aw_device w3) = dv_config (aw_device w2)" "aw_storage w3 = aw_storage w2"
    "aw_config_boot_load_status w3 = aw_config_boot_load_status w2"
    using load_identity_pass[OF w2(2)] by blast
  have d: "aw_config_boot_load_status w3 = STORAGE_READ_NOT_FOUND \<Longrightarrow> cf_config (dv_config (aw_device w3)) = default_config"
    using w3(4,6) w2(6) by simp
  obtain w4 where w4: "App_Run ad env wd t4 w3 b1 = Some (w4, b1)" "app_at ?m LIFECYCLE_SELF_TEST w4"
    "aw_storage w4 = aw_storage w3" "dv_flash (aw_device w4) = boot_session_flash env (aw_storage w3)
      (aw_config_boot_load_status w3 = STORAGE_READ_NOT_FOUND) (dv_flash (aw_device w3))"
    using create_boot_session_pass[OF w3(2) d] by blast
  obtain w5 b5 where w5: "App_Run ad env wd t5 w4 b1 = Some (w5, b5)" "app_at ?m LIFECYCLE_PROBE_PERIPHERALS w5"
    "unchanged w4 w5" using boot_idle_pass[OF w4(2)] by (fastforce simp: boot_idle_edges_def)
  obtain w6 b6 where w6: "App_Run ad env wd t6 w5 b5 = Some (w6, b6)" "app_at ?m LIFECYCLE_INITIALIZE_DRIVERS w6"
    "unchanged w5 w6" using boot_idle_pass[OF w5(2)] by (fastforce simp: boot_idle_edges_def)
  obtain w7 b7 where w7: "App_Run ad env wd t7 w6 b6 = Some (w7, b7)" "app_at ?m LIFECYCLE_READY w7"
    "unchanged w6 w7" using boot_idle_pass[OF w6(2)] by (fastforce simp: boot_idle_edges_def)
  obtain w8 b8 where w8: "App_Run ad env wd t8 w7 b7 = Some (w8, b8)" "app_at ?m LIFECYCLE_OPERATIONAL w8"
    "aw_storage w8 = aw_storage w7" "dv_flash (aw_device w8) = dv_flash (aw_device w7)"
    using ready_pass[OF w7(2)] by blast
  obtain w' b' where w': "app_passes ad env wd rest w8 b8 = Some (w', b')" "app_at ?m LIFECYCLE_OPERATIONAL w'"
    "aw_storage w' = aw_storage w8" "dv_flash (aw_device w') = dv_flash (aw_device w8)"
    using operational_passes[OF w8(2)] by blast
  have "app_passes ad env wd ts w0 b = Some (w', b')"
    by (simp add: ts w1(1) w2(1) w3(1) w4(1) w5(1) w6(1) w7(1) w8(1) w'(1))
  moreover have "dv_flash (aw_device w') = boot_flash env (aw_storage w0) (dv_flash (aw_device w0))"
    using w1(3) w2(3-5) w3(3,5,6) w4(3,4) w5(3) w6(3) w7(3) w8(4) w'(4)
    by (simp add: unchanged_def boot_flash_def)
  moreover have "aw_storage w' = aw_storage w0"
    using w1(3) w2(4) w3(5) w4(3) w5(3) w6(3) w7(3) w8(3) w'(3) by (simp add: unchanged_def)
  ultimately show ?thesis using that w'(2) by blast
qed

section \<open>The boot on a working flash\<close>

context working_flash
begin

lemma absent_is_erased:
  assumes "storage_ready info st" "record_type_ok rt" "read_status ops st f rt = STORAGE_READ_NOT_FOUND"
  shows "ss_state (ReadSlotSnapshot ops st f rt 0) = SLOT_STATE_ERASED"
    "ss_state (ReadSlotSnapshot ops st f rt 1) = SLOT_STATE_ERASED"
proof -
  obtain l where l: "Storage_GetLayout st rt = Some l" using GetLayout_Some[OF assms(1,2)] by blast
  have i: "s_initialized st" using assms(1) by (simp add: storage_ready_def)
  show "ss_state (ReadSlotSnapshot ops st f rt 0) = SLOT_STATE_ERASED"
    "ss_state (ReadSlotSnapshot ops st f rt 1) = SLOT_STATE_ERASED"
    using assms(3) by (auto simp: read_status_def Storage_Read_def l i Let_def split: if_splits)
qed

text \<open>The first write of an absent record.\<close>

lemma first_write:
  assumes "storage_ready info st" "working f" "record_type_ok rt" "length d \<le> 256"
    and "read_status ops st f rt = STORAGE_READ_NOT_FOUND"
  shows "working (snd (Storage_WriteEx ops st f rt (Some d) (length d)))"
    "record_of ops st (snd (Storage_WriteEx ops st f rt (Some d) (length d))) rt = Some d"
proof -
  have "SelectWriteSlot ops st f rt \<noteq> None"
    using absent_is_erased[OF assms(1,3,5)] by (simp add: SelectWriteSlot_def Let_def)
  then obtain g where "Storage_WriteEx ops st f rt (Some d) (length d) = (STORAGE_WRITE_OK, g)"
    using WriteEx_succeeds_iff[OF assms(1-4)] by (metis prod.collapse)
  then show "working (snd (Storage_WriteEx ops st f rt (Some d) (length d)))"
    "record_of ops st (snd (Storage_WriteEx ops st f rt (Some d) (length d))) rt = Some d"
    using WriteEx_updates_record[OF assms(1,2,3,3)] by auto
qed

lemma mirrored_keeps:
  assumes "storage_ready info st" "working f" "record_type_ok rt"
  shows "working (snd (Storage_EnsureRedundancy ops st f rt)) \<and>
    record_of ops st (snd (Storage_EnsureRedundancy ops st f rt)) rt = record_of ops st f rt"
proof -
  obtain s g where W: "Storage_EnsureRedundancy ops st f rt = (s, g)" by (meson surj_pair)
  from assms(1,3) working_valid[OF assms(2)] W show ?thesis
  proof (cases rule: EnsureRedundancy_cases)
    case untouched
    then show ?thesis using W assms(2) by simp
  next
    case (repaired v body)
    obtain g' where "Storage_EnsureRedundancy ops st f rt = (STORAGE_REPAIR_DONE, g')" "working g'"
      using EnsureRedundancy_working[OF assms(1,3,2) repaired(1,4,5)] .
    then show ?thesis
      using EnsureRedundancy_mirrors[OF assms(1,3,2) repaired(1,4,5)] by (simp add: Let_def)
  qed
qed

end

lemma boot_record_types:
  "record_type_ok RECORD_TYPE_CONFIG" "record_type_ok RECORD_TYPE_IDENTITY" "record_type_ok RECORD_TYPE_REGISTRATION"
  "RECORD_TYPE_CONFIG \<noteq> RECORD_TYPE_IDENTITY" "RECORD_TYPE_CONFIG \<noteq> RECORD_TYPE_REGISTRATION"
  "RECORD_TYPE_IDENTITY \<noteq> RECORD_TYPE_REGISTRATION"
  by (simp_all add: record_type_ok_def RECORD_TYPE_CONFIG_def RECORD_TYPE_IDENTITY_def RECORD_TYPE_REGISTRATION_def)

text \<open>Both pages of a record type hold the same bytes in two states of the device.\<close>

definition same_pages :: "PlatformFlashInfo \<Rightarrow> ('f \<Rightarrow> bytes) \<Rightarrow> u8 \<Rightarrow> 'f \<Rightarrow> 'f \<Rightarrow> bool" where
  "same_pages info contents rt f g \<longleftrightarrow>
     page_at info (contents g) (page_of rt 0) = page_at info (contents f) (page_of rt 0) \<and>
     page_at info (contents g) (page_of rt 1) = page_at info (contents f) (page_of rt 1)"

lemma same_pages_same [simp]: "same_pages info contents rt f f"
  by (simp add: same_pages_def)

text \<open>
  A step on one record type: the flash stays working, the pages of the other types are not
  touched, and neither are its own when its record is corrupt.
\<close>

definition touches_only ::
  "u8 \<Rightarrow> PlatformFlashInfo \<Rightarrow> ('f \<Rightarrow> bytes) \<Rightarrow> ('f \<Rightarrow> bool) \<Rightarrow> 'f flash_ops \<Rightarrow> storage \<Rightarrow> 'f \<Rightarrow> 'f \<Rightarrow> bool" where
  "touches_only rt info contents working ops st f g \<longleftrightarrow> working g \<and>
     (\<forall>rt'. record_type_ok rt' \<longrightarrow> rt' \<noteq> rt \<or> read_status ops st f rt' = STORAGE_READ_CORRUPT \<longrightarrow>
        same_pages info contents rt' f g)"

lemma length_derived_identity: "length (derived_identity env) = IDENTITY_STORAGE_V1_SIZE"
proof -
  have "length (DeriveUuid uid) = 16" for uid
  proof (cases uid)
    case (Some u)
    have f: "length (fold g xs b) = length b" if "\<And>x b. length (g x b) = length b"
      for g :: "(nat \<times> u8) \<Rightarrow> bytes \<Rightarrow> bytes" and xs b
      using that by (induction xs arbitrary: b) simp_all
    show ?thesis
      by (simp add: DeriveUuid_def Some Let_def DEVICE_UUID_SIZE_def f mix_namespace_def mix_uid_def split_def)
  qed (simp add: DeriveUuid_def DEVICE_UUID_SIZE_def)
  then show ?thesis
    by (simp add: derived_identity_def identity_bytes_def DeviceIdentity_Derive_def IDENTITY_STORAGE_V1_SIZE_def Let_def)
qed

context flash_device
begin

lemma same_pages_read:
  assumes "storage_ready info st" "record_type_ok rt" "valid f" "valid g" "same_pages info contents rt f g"
  shows "Storage_Read ops st g rt p = Storage_Read ops st f rt p"
proof (intro Storage_Read_cong snapshot_local)
  fix i :: u8 assume "i < 2"
  then have "i = 0 \<or> i = 1" by (simp add: slot_index_cases)
  then show "page_at info (contents g) (page_of rt i) = page_at info (contents f) (page_of rt i)"
    using assms(5) by (auto simp: same_pages_def)
qed (use assms in auto)

lemma other_pages:
  assumes "record_type_ok rt" "record_type_ok rt'" "rt' \<noteq> rt" "w < 2"
    and "\<And>p. p \<noteq> page_of rt w \<Longrightarrow> page_at info (contents g) p = page_at info (contents f) p"
  shows "same_pages info contents rt' f g"
  using assms(5) page_of_inj[OF assms(2,1) _ assms(4)] assms(3) unfolding same_pages_def by fastforce

lemma WriteEx_same_pages:
  assumes r: "storage_ready info st" "record_type_ok rt" and f: "valid f" and o: "record_type_ok rt'" "rt' \<noteq> rt"
  shows "same_pages info contents rt' f (snd (Storage_WriteEx ops st f rt data sz))"
proof -
  obtain s g where W: "Storage_WriteEx ops st f rt data sz = (s, g)" by (meson surj_pair)
  from r f W show ?thesis
  proof (cases rule: WriteEx_cases)
    case refused
    then show ?thesis using W by simp
  next
    case (written w q)
    then show ?thesis using other_pages[OF r(2) o written(2)] W by simp
  qed
qed

lemma corrupt_has_no_valid_slot:
  assumes "storage_ready info st" "record_type_ok rt" "read_status ops st f rt = STORAGE_READ_CORRUPT" "i < 2"
  shows "ss_state (ReadSlotSnapshot ops st f rt i) \<noteq> SLOT_STATE_VALID"
proof -
  obtain l where l: "Storage_GetLayout st rt = Some l" using GetLayout_Some[OF assms(1,2)] by blast
  have i: "s_initialized st" using assms(1) by (simp add: storage_ready_def)
  have "i = 0 \<or> i = 1" using assms(4) by (simp add: slot_index_cases)
  then show ?thesis
    using assms(3)
    by (cases "ss_state (ReadSlotSnapshot ops st f rt 0)"; cases "ss_state (ReadSlotSnapshot ops st f rt 1)")
      (auto simp: read_status_def Storage_Read_def l i Let_def split: if_splits)
qed

lemma EnsureRedundancy_same_pages:
  assumes r: "storage_ready info st" "record_type_ok rt" and f: "valid f" and o: "record_type_ok rt'"
    and e: "rt' \<noteq> rt \<or> read_status ops st f rt' = STORAGE_READ_CORRUPT"
  shows "same_pages info contents rt' f (snd (Storage_EnsureRedundancy ops st f rt))"
proof -
  obtain s g where W: "Storage_EnsureRedundancy ops st f rt = (s, g)" by (meson surj_pair)
  from r f W show ?thesis
  proof (cases rule: EnsureRedundancy_cases)
    case untouched
    then show ?thesis using W by simp
  next
    case (repaired v body)
    then have "rt' \<noteq> rt" using e corrupt_has_no_valid_slot[OF r] by blast
    moreover have "other_slot v < (2 :: u8)" by simp
    ultimately show ?thesis using other_pages[OF r(2) o] repaired(7) W by auto
  qed
qed

end

context working_flash
begin

lemma touches_onlyD:
  assumes "touches_only rt info contents working ops st f g" "storage_ready info st" "valid f" "record_type_ok rt'"
  shows "working g" "rt' \<noteq> rt \<Longrightarrow> record_of ops st g rt' = record_of ops st f rt'"
    "rt' \<noteq> rt \<Longrightarrow> read_status ops st g rt' = read_status ops st f rt'"
    "read_status ops st f rt' = STORAGE_READ_CORRUPT \<Longrightarrow> read_status ops st g rt' = STORAGE_READ_CORRUPT"
    "rt' \<noteq> rt \<or> read_status ops st f rt' = STORAGE_READ_CORRUPT \<Longrightarrow> same_pages info contents rt' f g"
proof -
  show w: "working g" using assms(1) by (simp add: touches_only_def)
  show p: "same_pages info contents rt' f g" if "rt' \<noteq> rt \<or> read_status ops st f rt' = STORAGE_READ_CORRUPT"
    using assms(1,4) that by (auto simp: touches_only_def)
  note r = same_pages_read[OF assms(2,4,3) working_valid[OF w] p]
  show "record_of ops st g rt' = record_of ops st f rt'" if "rt' \<noteq> rt"
    using r that by (simp add: record_of_def)
  show "read_status ops st g rt' = read_status ops st f rt'" if "rt' \<noteq> rt"
    using r that by (simp add: read_status_def)
  show "read_status ops st g rt' = STORAGE_READ_CORRUPT" if "read_status ops st f rt' = STORAGE_READ_CORRUPT"
    using r that unfolding read_status_def by metis
qed

lemma untouched_only: "working f \<Longrightarrow> touches_only rt info contents working ops st f f"
  by (simp add: touches_only_def)

lemma first_write_only:
  assumes "storage_ready info st" "working f" "record_type_ok rt"
    and "working (snd (Storage_WriteEx ops st f rt data sz))" "read_status ops st f rt = STORAGE_READ_NOT_FOUND"
  shows "touches_only rt info contents working ops st f (snd (Storage_WriteEx ops st f rt data sz))"
  using assms(4,5) WriteEx_same_pages[OF assms(1,3) working_valid[OF assms(2)]] by (auto simp: touches_only_def)

lemma boot_identity_step:
  assumes "ce_ops env = ops" "storage_ready info st" "working f"
  shows "touches_only RECORD_TYPE_IDENTITY info contents working ops st f (boot_identity_flash env st f) \<and>
    record_of ops st (boot_identity_flash env st f) RECORD_TYPE_IDENTITY =
      (if read_status ops st f RECORD_TYPE_IDENTITY = STORAGE_READ_NOT_FOUND \<and> identity_derivable env
       then Some (derived_identity env) else record_of ops st f RECORD_TYPE_IDENTITY)"
proof (cases "read_status ops st f RECORD_TYPE_IDENTITY = STORAGE_READ_NOT_FOUND \<and> identity_derivable env")
  case True
  let ?g = "snd (Storage_WriteEx ops st f RECORD_TYPE_IDENTITY (Some (derived_identity env)) IDENTITY_STORAGE_V1_SIZE)"
  have "boot_identity_flash env st f = ?g" using True assms(1) by (simp add: boot_identity_flash_def)
  moreover have "working ?g" "record_of ops st ?g RECORD_TYPE_IDENTITY = Some (derived_identity env)"
    using first_write[OF assms(2,3) boot_record_types(2), of "derived_identity env"] True
    by (simp_all add: length_derived_identity IDENTITY_STORAGE_V1_SIZE_def)
  ultimately show ?thesis
    using first_write_only[OF assms(2,3) boot_record_types(2)] True by auto
next
  case False
  then have "boot_identity_flash env st f = f" using assms(1) by (auto simp: boot_identity_flash_def)
  then show ?thesis
    using untouched_only[OF assms(3)] False by auto
qed

lemma boot_config_step:
  assumes "ce_ops env = ops" "storage_ready info st" "working f"
    and "first \<longleftrightarrow> read_status ops st f RECORD_TYPE_CONFIG = STORAGE_READ_NOT_FOUND"
  shows "touches_only RECORD_TYPE_CONFIG info contents working ops st f (boot_config_flash env st first f) \<and>
    record_of ops st (boot_config_flash env st first f) RECORD_TYPE_CONFIG =
      (if first then Some (config_bytes (rsc_storage default_config)) else record_of ops st f RECORD_TYPE_CONFIG)"
proof (cases first)
  case True
  let ?d = "config_bytes (rsc_storage default_config)"
  let ?g = "snd (Storage_WriteEx ops st f RECORD_TYPE_CONFIG (Some ?d) CONFIG_STORAGE_V1_SIZE)"
  have "boot_config_flash env st first f = ?g" using True assms(1) by (simp add: boot_config_flash_def)
  moreover have "working ?g" "record_of ops st ?g RECORD_TYPE_CONFIG = Some ?d"
    using first_write[OF assms(2,3) boot_record_types(1), of ?d] True assms(4)
    by (simp_all add: config_bytes_roundtrip CONFIG_STORAGE_V1_SIZE_def)
  ultimately show ?thesis
    using first_write_only[OF assms(2,3) boot_record_types(1)] True assms(4) by auto
next
  case False
  then show ?thesis
    using untouched_only[OF assms(3)] by (auto simp: boot_config_flash_def)
qed

lemma mirrored_step:
  assumes "ce_ops env = ops" "storage_ready info st" "working f" "record_type_ok rt"
  shows "touches_only rt info contents working ops st f (mirrored env st rt f) \<and>
    record_of ops st (mirrored env st rt f) rt = record_of ops st f rt"
  using assms mirrored_keeps[OF assms(2-4)] EnsureRedundancy_same_pages[OF assms(2,4) working_valid[OF assms(3)]]
  by (auto simp: touches_only_def mirrored_def Storage_IsInitialized_def storage_ready_def)

text \<open>The records after the boot, as an update of those before.\<close>

lemma boot_flash_records:
  assumes "ce_ops env = ops" "storage_ready info st" "working f"
  defines "g \<equiv> boot_flash env st f"
  shows "working g \<and>
    record_of ops st g RECORD_TYPE_CONFIG =
      (if read_status ops st f RECORD_TYPE_CONFIG = STORAGE_READ_NOT_FOUND
       then Some (config_bytes (rsc_storage default_config)) else record_of ops st f RECORD_TYPE_CONFIG) \<and>
    record_of ops st g RECORD_TYPE_IDENTITY =
      (if read_status ops st f RECORD_TYPE_IDENTITY = STORAGE_READ_NOT_FOUND \<and> identity_derivable env
       then Some (derived_identity env) else record_of ops st f RECORD_TYPE_IDENTITY) \<and>
    (\<forall>rt. record_type_ok rt \<longrightarrow> rt = RECORD_TYPE_REGISTRATION \<or> read_status ops st f rt = STORAGE_READ_CORRUPT \<longrightarrow>
       same_pages info contents rt f g)"
proof -
  define first where "first = (read_status ops st f RECORD_TYPE_CONFIG = STORAGE_READ_NOT_FOUND)"
  define f1 where "f1 = boot_identity_flash env st f"
  define f2 where "f2 = boot_config_flash env st first f1"
  define f3 where "f3 = mirrored env st RECORD_TYPE_CONFIG f2"
  note t = boot_record_types boot_record_types(4-6)[symmetric]
  note s1 = boot_identity_step[OF assms(1-3), folded f1_def]
  note d1 = touches_onlyD[OF s1[THEN conjunct1] assms(2) working_valid[OF assms(3)]]
  note w1 = d1(1)[OF t(1)]
  have "first \<longleftrightarrow> read_status ops st f1 RECORD_TYPE_CONFIG = STORAGE_READ_NOT_FOUND"
    using d1(3)[OF t(1)] t by (simp add: first_def)
  note s2 = boot_config_step[OF assms(1,2) w1 this, folded f2_def]
  note d2 = touches_onlyD[OF s2[THEN conjunct1] assms(2) working_valid[OF w1]]
  note w2 = d2(1)[OF t(1)]
  note s3 = mirrored_step[OF assms(1,2) w2 t(1), folded f3_def]
  note d3 = touches_onlyD[OF s3[THEN conjunct1] assms(2) working_valid[OF w2]]
  note w3 = d3(1)[OF t(1)]
  have g: "g = mirrored env st RECORD_TYPE_IDENTITY f3"
    using assms(1) by (simp add: g_def boot_flash_def boot_session_flash_def f1_def f2_def f3_def first_def)
  note s4 = mirrored_step[OF assms(1,2) w3 t(2), folded g]
  note d4 = touches_onlyD[OF s4[THEN conjunct1] assms(2) working_valid[OF w3]]
  have "same_pages info contents rt f g"
    if ok: "record_type_ok rt" and k: "rt = RECORD_TYPE_REGISTRATION \<or> read_status ops st f rt = STORAGE_READ_CORRUPT"
    for rt
  proof -
    have "rt = RECORD_TYPE_REGISTRATION \<or> read_status ops st f1 rt = STORAGE_READ_CORRUPT"
      using k d1(4)[OF ok] by blast
    moreover from this have "rt = RECORD_TYPE_REGISTRATION \<or> read_status ops st f2 rt = STORAGE_READ_CORRUPT"
      using d2(4)[OF ok] by blast
    moreover from this have "rt = RECORD_TYPE_REGISTRATION \<or> read_status ops st f3 rt = STORAGE_READ_CORRUPT"
      using d3(4)[OF ok] by blast
    ultimately have "same_pages info contents rt f f1" "same_pages info contents rt f1 f2"
      "same_pages info contents rt f2 f3" "same_pages info contents rt f3 g"
      using k d1(5)[OF ok] d2(5)[OF ok] d3(5)[OF ok] d4(5)[OF ok] t(5,6) by metis+
    then show ?thesis by (simp add: same_pages_def)
  qed
  moreover have "working g" using d4(1)[OF t(1)] .
  moreover have "record_of ops st g RECORD_TYPE_CONFIG =
      (if first then Some (config_bytes (rsc_storage default_config)) else record_of ops st f RECORD_TYPE_CONFIG)"
    using d1(2)[OF t(1,4)] s2 s3 d4(2)[OF t(1,4)] by simp
  moreover have "record_of ops st g RECORD_TYPE_IDENTITY =
      (if read_status ops st f RECORD_TYPE_IDENTITY = STORAGE_READ_NOT_FOUND \<and> identity_derivable env
       then Some (derived_identity env) else record_of ops st f RECORD_TYPE_IDENTITY)"
    using s1 d2(2)[OF t(2,7)] d3(2)[OF t(2,7)] s4 by simp
  ultimately show ?thesis by (simp add: first_def)
qed

end

section \<open>Properties\<close>

text \<open>
  Claim C37. The application starts whatever its devices do: once the bus is set, \<open>App_Init\<close>
  succeeds, and after eight passes of \<open>App_Run\<close>, and every later one, the boot sequence has
  ended in the operational phase, for every content and every failure of the flash and of the bus,
  and no pass is stuck in undefined behaviour.
\<close>

theorem application_boots:
  fixes w :: "('b, 'f, 'a) app"
  assumes "ap_i2c_bus (aw_sensing w) \<noteq> None" "App_Init env t w = (st, w0)" "8 \<le> length ts"
  shows "st = ROOM_SENSOR_OK \<and>
    (\<exists>w' b'. app_passes ad env wd ts w0 b = Some (w', b') \<and>
       lc_state (aw_lifecycle w') = LIFECYCLE_OPERATIONAL)"
  using App_Init_state(1)[OF assms(1,2)] boot_run[OF assms, of ad wd b] by (metis app_at_def)

definition bare_app :: "(unit, host_flash, unit) app" where
  "bare_app = app_power_on (Some dead_bus) HostFlash_Init ()"

lemma bare_app_bus: "ap_i2c_bus (aw_sensing bare_app) \<noteq> None"
  by (simp add: bare_app_def app_power_on_def zero_sensing_def)

text \<open>Nothing answers on the bus, the flash is erased, and the chip has no unique number.\<close>

theorem application_boots_witness:
  "\<forall>ad. \<exists>w' b'. app_passes ad sample_env True [10, 20, 30, 40, 50, 60, 70, 80] (snd (App_Init sample_env 0 bare_app)) () =
     Some (w', b') \<and> lc_state (aw_lifecycle w') = LIFECYCLE_OPERATIONAL"
  using application_boots[OF bare_app_bus prod.collapse[symmetric], of "[10, 20, 30, 40, 50, 60, 70, 80]" sample_env 0]
  by simp

text \<open>
  Claim C38. On a working flash the boot is an update of the records that touches only what is
  absent: without a configuration it stores the defaults, without an identity the one derived from
  the chip where the chip has a number to derive it from, and a readable configuration or identity
  reads after the boot as it did before. Of a
  corrupt record, and of the registration in any state, both flash pages keep every byte, so
  nothing a repair could still use is lost.
\<close>

theorem boot_fills_absent_records:
  fixes w :: "('b, 'f, 'a) app"
  assumes "working_flash (ce_ops env) info contents valid working" "fo_info (ce_ops env) = Some info"
    and "working (dv_flash (aw_device w))" "fst (Storage_Init (ce_ops env) (dv_flash (aw_device w)))"
    and "ap_i2c_bus (aw_sensing w) \<noteq> None" "App_Init env t w = (st, w0)" "8 \<le> length ts"
    and "app_passes ad env wd ts w0 b = Some (w', b')"
  defines "before \<equiv> dv_flash (aw_device w)" and "after \<equiv> dv_flash (aw_device w')" and "store \<equiv> aw_storage w0"
  shows "record_of (ce_ops env) store after RECORD_TYPE_CONFIG =
      (if read_status (ce_ops env) store before RECORD_TYPE_CONFIG = STORAGE_READ_NOT_FOUND
       then Some (config_bytes (rsc_storage default_config))
       else record_of (ce_ops env) store before RECORD_TYPE_CONFIG) \<and>
    record_of (ce_ops env) store after RECORD_TYPE_IDENTITY =
      (if read_status (ce_ops env) store before RECORD_TYPE_IDENTITY = STORAGE_READ_NOT_FOUND \<and> identity_derivable env
       then Some (derived_identity env)
       else record_of (ce_ops env) store before RECORD_TYPE_IDENTITY) \<and>
    (\<forall>rt i. record_type_ok rt \<longrightarrow> i < 2 \<longrightarrow>
       rt = RECORD_TYPE_REGISTRATION \<or> read_status (ce_ops env) store before rt = STORAGE_READ_CORRUPT \<longrightarrow>
       page_at info (contents after) (page_of rt i) = page_at info (contents before) (page_of rt i))"
proof -
  note i = App_Init_state[OF assms(5,6)]
  have r: "storage_ready info store" using storage_init_ready[OF assms(2,4)] i(5) by (simp add: store_def)
  have "after = boot_flash env store before"
    using boot_run[OF assms(5-7), of ad wd b] assms(8) i(4) by (auto simp: after_def before_def store_def)
  then show ?thesis
    using working_flash.boot_flash_records[OF assms(1) HOL.refl r, of before] assms(3)
    by (auto simp: before_def same_pages_def slot_index_cases)
qed

text \<open>The first boot of an erased flash stores the defaults.\<close>

theorem boot_fills_absent_records_witness:
  "\<forall>ad. \<exists>w' b'. app_passes ad sample_env True [10, 20, 30, 40, 50, 60, 70, 80] (snd (App_Init sample_env 0 bare_app)) () =
     Some (w', b') \<and>
     record_of host_ops (aw_storage (snd (App_Init sample_env 0 bare_app))) (dv_flash (aw_device w')) RECORD_TYPE_CONFIG =
       Some (config_bytes (rsc_storage default_config))"
proof
  fix ad :: "unit NetworkTransportAdapter"
  let ?w0 = "snd (App_Init sample_env 0 bare_app)" and ?ts = "[10, 20, 30, 40, 50, 60, 70, 80] :: u32 list"
  have o: "ce_ops sample_env = host_ops" by (simp add: sample_env_def)
  have f: "dv_flash (aw_device bare_app) = HostFlash_Init" by (simp add: bare_app_def app_power_on_def)
  note i = App_Init_state[OF bare_app_bus prod.collapse[symmetric], of sample_env 0]
  have s: "aw_storage ?w0 = host_storage" using i(5) by (simp add: o f host_storage_def)
  have l: "8 \<le> length ?ts" by simp
  obtain w' b' where r: "app_passes ad sample_env True ?ts ?w0 () = Some (w', b')"
    using boot_run[OF bare_app_bus prod.collapse[symmetric] l, where env = sample_env and t = 0 and ad = ad
        and wd = True and b = "()"] by blast
  have n: "read_status host_ops host_storage HostFlash_Init RECORD_TYPE_CONFIG = STORAGE_READ_NOT_FOUND"
    using host_erased_slot[OF boot_record_types(1), of 0] host_erased_slot[OF boot_record_types(1), of 1]
      GetLayout_Some[OF host_storage_ready boot_record_types(1)] host_storage_ready
    by (auto simp: read_status_def Storage_Read_def Let_def storage_ready_def)
  have "record_of (ce_ops sample_env) (aw_storage ?w0) (dv_flash (aw_device w')) RECORD_TYPE_CONFIG =
      Some (config_bytes (rsc_storage default_config))"
    using boot_fills_absent_records[OF _ _ _ _ bare_app_bus prod.collapse[symmetric] _ r, where info = host_info
        and contents = hf_data and valid = host_valid and working = host_working]
      host.working_flash_axioms host_ops_info host_working_init host_init_ok n
    by (simp add: o f s)
  then show "\<exists>w' b'. app_passes ad sample_env True ?ts ?w0 () = Some (w', b') \<and>
      record_of host_ops (aw_storage ?w0) (dv_flash (aw_device w')) RECORD_TYPE_CONFIG =
        Some (config_bytes (rsc_storage default_config))"
    using r o by metis
qed

text \<open>The life of the application: passes, and messages of a local port between them.\<close>

datatype app_event = App_Pass bool u32 | App_Input CommandInput

fun app_event_step ::
  "'a NetworkTransportAdapter \<Rightarrow> 'f cmd_env \<Rightarrow> app_event \<Rightarrow> ('b, 'f, 'a) app \<Rightarrow> 'b \<Rightarrow>
   (('b, 'f, 'a) app \<times> 'b) option" where
  "app_event_step ad env (App_Pass wd now) w b = App_Run ad env wd now w b"
| "app_event_step ad env (App_Input i) w b = Some (upd_cmd (snd \<circ> Command_ProcessInput (Some i)) w, b)"

fun app_events ::
  "'a NetworkTransportAdapter \<Rightarrow> 'f cmd_env \<Rightarrow> app_event list \<Rightarrow> ('b, 'f, 'a) app \<Rightarrow> 'b \<Rightarrow>
   (('b, 'f, 'a) app \<times> 'b) option" where
  "app_events ad env [] w b = Some (w, b)"
| "app_events ad env (e # es) w b = do {
     (w, b) \<leftarrow> app_event_step ad env e w b;
     app_events ad env es w b
   }"

lemma app_load_configuration_mqtt: "aw_mqtt (app_load_configuration env w) = aw_mqtt w"
  by (simp add: app_load_configuration_def upd_dev_def Let_def split: prod.split)

lemma boot_session_mqtt:
  "aw_mqtt (app_boot_session env w) = aw_mqtt w" "aw_mqtt (App_BootEnsureRedundancy env w) = aw_mqtt w"
  "app_save_defaults env w = Some w' \<Longrightarrow> aw_mqtt w' = aw_mqtt w"
  by (auto simp: app_save_defaults_def app_boot_session_def App_BootEnsureRedundancy_def upd_dev_def Let_def
      split: prod.splits if_splits option.splits)

lemma app_create_boot_session_mqtt:
  "app_create_boot_session env w = Some w' \<Longrightarrow> aw_mqtt w' = aw_mqtt w"
  using boot_session_mqtt(3) by (fastforce simp: app_create_boot_session_def boot_session_mqtt(1,2) bind_eq_Some_conv)

lemma app_lifecycle_mqtt:
  assumes "app_lifecycle env wd now w b = Some (w', b')"
  shows "aw_mqtt w' = aw_mqtt w"
  using assms on_sensing_frame(3)[OF prod.collapse[symmetric], of "App_DoRetry now" w b]
    app_self_test_frame(1)[OF prod.collapse[symmetric], of env w b]
  by (auto simp: app_lifecycle_def DeviceLifecycle_GetState_def app_load_configuration_mqtt app_load_identity_frame(1)
      bind_eq_Some_conv split_def dest: app_create_boot_session_mqtt split: LifecycleState.splits)

lemma app_event_offline:
  assumes "offline m0 (aw_mqtt w)" "app_event_step ad env e w b = Some (w', b')"
  shows "offline m0 (aw_mqtt w')"
proof (cases e)
  case (App_Pass wd now)
  have u: "offline m0 (aw_mqtt (app_update_command now w))"
    using assms(1) by (simp add: app_update_command_def upd_cmd_def Let_def)
  obtain w1 b1 where l: "app_lifecycle env wd now (app_update_command now w) b = Some (w1, b1)"
    using assms(2) App_Pass by (auto simp: App_Run_def bind_eq_Some_conv)
  then have "offline m0 (aw_mqtt w1)" using u app_lifecycle_mqtt by metis
  then show ?thesis
    using assms(2) App_Pass l app_schedule_off by (auto simp: App_Run_def split: if_splits)
next
  case (App_Input i)
  then show ?thesis using assms by (auto simp: upd_cmd_def Let_def)
qed

text \<open>
  Claim C39. As long as no network adapter is registered, MQTT stays disabled: along every
  history of passes and local messages after \<open>App_Init\<close> the manager is in the state
  \<open>MQTT_APP_DISABLED\<close> and refuses the reply port, and client, transport and network device are as
  \<open>MqttApp_Init\<close> left them.
\<close>

theorem application_offline:
  fixes w :: "('b, 'f, 'a) app"
  assumes "ap_i2c_bus (aw_sensing w) \<noteq> None" "App_Init env t w = (st, w0)"
    and "app_events ad env es w0 b = Some (w', b')"
  shows "MqttApp_GetState (Some (the_app (aw_mqtt w'))) = MQTT_APP_DISABLED \<and>
    \<not> MqttApp_PortReady (Some (the_app (aw_mqtt w'))) \<and>
    mq_a (aw_mqtt w') = mq_a (aw_mqtt w) \<and> mq_t (aw_mqtt w') = mq_t (aw_mqtt w0) \<and>
    mq_c (aw_mqtt w') = mq_c (aw_mqtt w0)"
proof -
  have "offline m0 (aw_mqtt v) \<Longrightarrow> app_events ad env es v c = Some (w', b') \<Longrightarrow> offline m0 (aw_mqtt w')" for m0 v c
    by (induction es arbitrary: v c) (auto simp: bind_eq_Some_conv dest: app_event_offline)
  moreover have "offline (aw_mqtt w0) (aw_mqtt w0)" using App_Init_state(2)[OF assms(1,2)] by (simp add: quiet_def)
  ultimately have "offline (aw_mqtt w0) (aw_mqtt w')" using assms(3) by blast
  then show ?thesis
    using App_Init_state(6)[OF assms(1,2)]
    by (simp add: offline_def MqttApp_GetState_def MqttApp_PortReady_def)
qed

text \<open>A boot with nothing on the bus.\<close>

theorem application_offline_witness:
  "\<forall>ad. \<exists>w' b'. app_events ad sample_env (map (App_Pass True) [10, 20]) (snd (App_Init sample_env 0 bare_app)) () =
     Some (w', b') \<and> MqttApp_GetState (Some (the_app (aw_mqtt w'))) = MQTT_APP_DISABLED"
proof
  fix ad :: "unit NetworkTransportAdapter"
  let ?w0 = "snd (App_Init sample_env 0 bare_app)"
  note i = App_Init_state[OF bare_app_bus prod.collapse[symmetric], of sample_env 0]
  have w0: "app_at (aw_mqtt ?w0) LIFECYCLE_BOOT ?w0" using i(2,3) by (simp add: app_at_def)
  obtain w1 b1 where 1: "App_Run ad sample_env True 10 ?w0 () = Some (w1, b1)"
    "app_at (aw_mqtt ?w0) LIFECYCLE_LOAD_CONFIGURATION w1"
    using boot_idle_pass[OF w0] by (fastforce simp: boot_idle_edges_def)
  obtain w2 where 2: "App_Run ad sample_env True 20 w1 b1 = Some (w2, b1)"
    using load_configuration_pass[OF 1(2)] by blast
  have r: "app_events ad sample_env (map (App_Pass True) [10, 20]) ?w0 () = Some (w2, b1)"
    by (simp only: list.map app_events.simps app_event_step.simps 1(1) 2 Option.bind.bind_lunit prod.case)
  show "\<exists>w' b'. app_events ad sample_env (map (App_Pass True) [10, 20]) ?w0 () = Some (w', b') \<and>
      MqttApp_GetState (Some (the_app (aw_mqtt w'))) = MQTT_APP_DISABLED"
    using application_offline[OF bare_app_bus prod.collapse[symmetric] r] r by blast
qed

end
