(* ===== verification/Flash_Stm32.thy ===== *)
theory Flash_Stm32
  imports Storage_Props
begin

text \<open>
  The flash driver of the target, \<open>Platform/Src/platform_flash_stm32.c\<close>, over the vendor's HAL.
  The HAL is a record of functions on the state of the chip with the laws its manual gives, the locale
  \<open>stm32_flash\<close>; which page an erase selects is computed as the HAL does. The driver keeps the laws
  \<open>flash_writer\<close> of the storage layer, and the storage accepts it, but an erase reaches another page
  than the one it names: the driver counts pages of 2 KiB, and in the only bank mode it admits the
  chip has pages of 4 KiB.
\<close>

section \<open>The vendor's interface\<close>

datatype HAL_StatusTypeDef = HAL_OK | HAL_ERROR | HAL_BUSY | HAL_TIMEOUT

record FLASH_EraseInitTypeDef =
  er_TypeErase :: u32
  er_Banks :: u32
  er_Page :: u32
  er_NbPages :: u32

text \<open>
  \<open>hal_optr\<close> is \<open>FLASH->OPTR\<close> and \<open>hal_mem\<close> the mapped memory. An erase is given the value of
  the variable \<open>PageError\<close> points to and returns the value it leaves there.
\<close>

record 'h stm32_hal =
  hal_optr :: "'h \<Rightarrow> u32"
  hal_mem :: "'h \<Rightarrow> u32 \<Rightarrow> u8"
  hal_unlock :: "'h \<Rightarrow> HAL_StatusTypeDef \<times> 'h"
  hal_lock :: "'h \<Rightarrow> HAL_StatusTypeDef \<times> 'h"
  hal_program :: "'h \<Rightarrow> u32 \<Rightarrow> u32 \<Rightarrow> u64 \<Rightarrow> HAL_StatusTypeDef \<times> 'h"
  hal_erase :: "'h \<Rightarrow> FLASH_EraseInitTypeDef \<Rightarrow> u32 \<Rightarrow> HAL_StatusTypeDef \<times> u32 \<times> 'h"
  hal_clear_errors :: "'h \<Rightarrow> 'h"

definition FLASH_OPTR_DBANK :: u32 where "FLASH_OPTR_DBANK = 0x00400000"
definition FLASH_TYPEERASE_PAGES :: u32 where "FLASH_TYPEERASE_PAGES = 0"
definition FLASH_TYPEPROGRAM_DOUBLEWORD :: u32 where "FLASH_TYPEPROGRAM_DOUBLEWORD = 0"
definition FLASH_BANK_1 :: u32 where "FLASH_BANK_1 = 1"
definition FLASH_CR_PNB :: u32 where "FLASH_CR_PNB = 0x3F8"
definition FLASH_PAGE_SIZE_128_BITS :: nat where "FLASH_PAGE_SIZE_128_BITS = 0x1000"

text \<open>
  \<open>FLASH_PageErase\<close> replaces the field of the page number in the control register; the chip erases
  the page the field holds. The mask of the HAL is wider than the field.
\<close>

definition FLASH_PageErase_cr :: "u32 \<Rightarrow> u32 \<Rightarrow> u32" where
  "FLASH_PageErase_cr cr page = (cr AND NOT FLASH_CR_PNB) OR push_bit 3 (page AND 0xFF)"

definition flash_cr_page :: "u32 \<Rightarrow> u32" where
  "flash_cr_page cr = drop_bit 3 (cr AND FLASH_CR_PNB)"

text \<open>The byte at a place of the flash, counted from its base address 0x08000000.\<close>

definition flash_at :: "'h stm32_hal \<Rightarrow> 'h \<Rightarrow> nat \<Rightarrow> u8" where
  "flash_at hal h i = hal_mem hal h (0x08000000 + of_nat i)"

definition single_bank :: "'h stm32_hal \<Rightarrow> 'h \<Rightarrow> bool" where
  "single_bank hal h \<longleftrightarrow> hal_optr hal h AND FLASH_OPTR_DBANK = 0"

section \<open>The driver\<close>

definition FLASH_START_ADDR :: u32 where "FLASH_START_ADDR = 0x0807D000"
definition STORAGE_PAGE_SIZE :: u32 where "STORAGE_PAGE_SIZE = 2048"
definition FLASH_TOTAL_SIZE :: u32 where "FLASH_TOTAL_SIZE = 0x3000"
definition STORAGE_PROGRAM_UNIT :: nat where "STORAGE_PROGRAM_UNIT = 8"
definition STORAGE_PHYS_BASE :: u32 where "STORAGE_PHYS_BASE = 0x08000000"
definition STORAGE_FIRST_PHYS_PAGE :: u32 where
  "STORAGE_FIRST_PHYS_PAGE = (FLASH_START_ADDR - STORAGE_PHYS_BASE) div STORAGE_PAGE_SIZE"

lemmas stm32_geometry =
  FLASH_START_ADDR_def STORAGE_PAGE_SIZE_def FLASH_TOTAL_SIZE_def STORAGE_PROGRAM_UNIT_def
  STORAGE_PHYS_BASE_def

definition FlashAddr :: "u32 \<Rightarrow> u32" where "FlashAddr offset = FLASH_START_ADDR + offset"

definition Stm32_FlashValidateConfiguration :: "'h stm32_hal \<Rightarrow> 'h \<Rightarrow> PlatformFlashStatus" where
  "Stm32_FlashValidateConfiguration hal h =
     (if hal_optr hal h AND FLASH_OPTR_DBANK \<noteq> 0 then PLATFORM_FLASH_ERROR else PLATFORM_FLASH_OK)"

definition stm32_info :: PlatformFlashInfo where
  "stm32_info =
     \<lparr>fi_start_address = FLASH_START_ADDR, fi_page_size = STORAGE_PAGE_SIZE,
      fi_total_size = FLASH_TOTAL_SIZE, fi_page_count = 6,
      fi_program_unit = of_nat STORAGE_PROGRAM_UNIT\<rparr>"

definition Stm32_FlashRead :: "'h stm32_hal \<Rightarrow> 'h \<Rightarrow> u32 \<Rightarrow> nat \<Rightarrow> PlatformFlashStatus \<times> bytes" where
  "Stm32_FlashRead hal h offset sz =
     (if sz = 0 then (PLATFORM_FLASH_INVALID_ARG, [])
      else if offset > FLASH_TOTAL_SIZE then (PLATFORM_FLASH_INVALID_ARG, [])
      else if sz > unat (FLASH_TOTAL_SIZE - offset) then (PLATFORM_FLASH_INVALID_ARG, [])
      else let src = FLASH_START_ADDR + offset
           in (PLATFORM_FLASH_OK, map (\<lambda>i. hal_mem hal h (src + of_nat i)) [0..<sz]))"

text \<open>The doubleword of the inner loop, and the outer loop from one address on.\<close>

definition program_doubleword :: "bytes \<Rightarrow> u64" where
  "program_doubleword src =
     foldl (\<lambda>val b. val OR push_bit (8 * b) (ucast (src ! b))) 0 [0..<STORAGE_PROGRAM_UNIT]"

fun program_loop :: "'h stm32_hal \<Rightarrow> 'h \<Rightarrow> u32 \<Rightarrow> bytes \<Rightarrow> bool \<times> 'h" where
  "program_loop hal h addr [] = (True, h)"
| "program_loop hal h addr (b # bs) =
     (case hal_program hal h FLASH_TYPEPROGRAM_DOUBLEWORD addr
             (program_doubleword (take 8 (b # bs))) of (status, h) \<Rightarrow>
      if status \<noteq> HAL_OK then (False, h)
      else program_loop hal h (addr + of_nat STORAGE_PROGRAM_UNIT) (drop 8 (b # bs)))"

definition Stm32_FlashWrite :: "'h stm32_hal \<Rightarrow> 'h \<Rightarrow> u32 \<Rightarrow> bytes \<Rightarrow> PlatformFlashStatus \<times> 'h" where
  "Stm32_FlashWrite hal h offset data =
     (if length data = 0 then (PLATFORM_FLASH_INVALID_ARG, h)
      else if offset > FLASH_TOTAL_SIZE then (PLATFORM_FLASH_INVALID_ARG, h)
      else if length data > unat (FLASH_TOTAL_SIZE - offset) then (PLATFORM_FLASH_INVALID_ARG, h)
      else if unat offset mod STORAGE_PROGRAM_UNIT \<noteq> 0 then (PLATFORM_FLASH_INVALID_ARG, h)
      else if length data mod STORAGE_PROGRAM_UNIT \<noteq> 0 then (PLATFORM_FLASH_INVALID_ARG, h)
      else if Stm32_FlashValidateConfiguration hal h \<noteq> PLATFORM_FLASH_OK then (PLATFORM_FLASH_ERROR, h)
      else case hal_unlock hal h of (status, h) \<Rightarrow>
        if status \<noteq> HAL_OK then (PLATFORM_FLASH_ERROR, h)
        else case program_loop hal h (FlashAddr offset) data of (all_ok, h) \<Rightarrow>
          if \<not> all_ok then (PLATFORM_FLASH_ERROR, snd (hal_lock hal (hal_clear_errors hal h)))
          else (PLATFORM_FLASH_OK, snd (hal_lock hal h)))"

definition Stm32_FlashErase :: "'h stm32_hal \<Rightarrow> 'h \<Rightarrow> u32 \<Rightarrow> PlatformFlashStatus \<times> 'h" where
  "Stm32_FlashErase hal h page_index =
     (if page_index \<ge> 6 then (PLATFORM_FLASH_INVALID_ARG, h)
      else if Stm32_FlashValidateConfiguration hal h \<noteq> PLATFORM_FLASH_OK then (PLATFORM_FLASH_ERROR, h)
      else case hal_unlock hal h of (status, h) \<Rightarrow>
        if status \<noteq> HAL_OK then (PLATFORM_FLASH_ERROR, h)
        else let phys_page = STORAGE_FIRST_PHYS_PAGE + page_index;
                 erase = \<lparr>er_TypeErase = FLASH_TYPEERASE_PAGES, er_Banks = FLASH_BANK_1,
                          er_Page = phys_page, er_NbPages = 1\<rparr>
             in case hal_erase hal h erase 0 of (status, page_error, h) \<Rightarrow>
                let h = snd (hal_lock hal h)
                in if status \<noteq> HAL_OK \<or> page_error \<noteq> 0xFFFFFFFF
                   then (PLATFORM_FLASH_ERROR, hal_clear_errors hal h)
                   else (PLATFORM_FLASH_OK, h))"

definition stm32_ops :: "'h stm32_hal \<Rightarrow> 'h flash_ops" where
  "stm32_ops hal =
     \<lparr>fo_info = Some stm32_info, fo_validate = Stm32_FlashValidateConfiguration hal,
      fo_read = Stm32_FlashRead hal, fo_write = Stm32_FlashWrite hal, fo_erase = Stm32_FlashErase hal\<rparr>"

text \<open>The bytes of the storage, at the end of the flash.\<close>

definition stm32_contents :: "'h stm32_hal \<Rightarrow> 'h \<Rightarrow> bytes" where
  "stm32_contents hal h = map (\<lambda>i. flash_at hal h (0x7D000 + i)) [0..<0x3000]"


section \<open>The laws of the chip\<close>

text \<open>
  Documented behaviour of the flash of the STM32G474 (512 KiB) behind the HAL: only the option bytes
  change \<open>FLASH->OPTR\<close>; locking and flags do not concern the memory; programming a doubleword
  touches its eight bytes and, where they are erased and it succeeds, leaves the value; where they are
  not erased only the value zero may be programmed; in single-bank mode the erase of one page touches
  the 4 KiB page the control register selects and, when it succeeds, leaves it erased. What a failed operation leaves in the bytes it addresses is open.
\<close>

locale stm32_flash =
  fixes hal :: "'h stm32_hal"
  assumes optr_unlock: "hal_optr hal (snd (hal_unlock hal h)) = hal_optr hal h"
    and optr_lock: "hal_optr hal (snd (hal_lock hal h)) = hal_optr hal h"
    and optr_clear: "hal_optr hal (hal_clear_errors hal h) = hal_optr hal h"
    and optr_program: "hal_optr hal (snd (hal_program hal h ty addr v)) = hal_optr hal h"
    and optr_erase: "hal_optr hal (snd (snd (hal_erase hal h e x))) = hal_optr hal h"
    and mem_unlock: "hal_mem hal (snd (hal_unlock hal h)) = hal_mem hal h"
    and mem_lock: "hal_mem hal (snd (hal_lock hal h)) = hal_mem hal h"
    and mem_clear: "hal_mem hal (hal_clear_errors hal h) = hal_mem hal h"
    and program_frame: "p mod 8 = 0 \<Longrightarrow> p + 8 \<le> 0x80000 \<Longrightarrow> i < 0x80000 \<Longrightarrow> i < p \<or> p + 8 \<le> i \<Longrightarrow>
      flash_at hal (snd (hal_program hal h FLASH_TYPEPROGRAM_DOUBLEWORD (0x08000000 + of_nat p) v)) i =
        flash_at hal h i"
    and program_ok: "p mod 8 = 0 \<Longrightarrow> p + 8 \<le> 0x80000 \<Longrightarrow>
      hal_program hal h FLASH_TYPEPROGRAM_DOUBLEWORD (0x08000000 + of_nat p) v = (HAL_OK, g) \<Longrightarrow>
      \<forall>j<8. flash_at hal h (p + j) = 255 \<Longrightarrow> j < 8 \<Longrightarrow>
      flash_at hal g (p + j) = ucast (drop_bit (8 * j) v)"
    and program_erased: "p mod 8 = 0 \<Longrightarrow> p + 8 \<le> 0x80000 \<Longrightarrow>
      hal_program hal h FLASH_TYPEPROGRAM_DOUBLEWORD (0x08000000 + of_nat p) v = (HAL_OK, g) \<Longrightarrow>
      v \<noteq> 0 \<Longrightarrow> j < 8 \<Longrightarrow> flash_at hal h (p + j) = 255"
    and erase_frame_chip: "single_bank hal h \<Longrightarrow> er_TypeErase e = FLASH_TYPEERASE_PAGES \<Longrightarrow>
      er_NbPages e = 1 \<Longrightarrow> i < 0x80000 \<Longrightarrow>
      i div FLASH_PAGE_SIZE_128_BITS \<noteq> unat (flash_cr_page (FLASH_PageErase_cr 0 (er_Page e))) \<Longrightarrow>
      flash_at hal (snd (snd (hal_erase hal h e x))) i = flash_at hal h i"
    and erase_ok_chip: "single_bank hal h \<Longrightarrow> er_TypeErase e = FLASH_TYPEERASE_PAGES \<Longrightarrow>
      er_NbPages e = 1 \<Longrightarrow> hal_erase hal h e x = (HAL_OK, pe, g) \<Longrightarrow> i < 0x80000 \<Longrightarrow>
      i div FLASH_PAGE_SIZE_128_BITS = unat (flash_cr_page (FLASH_PageErase_cr 0 (er_Page e))) \<Longrightarrow>
      flash_at hal g i = 255"

section \<open>Reading and programming\<close>

text \<open>Whatever else the control register holds, the field gets seven bits of the page number.\<close>

lemma field_replaced:
  fixes cr x :: "'a::len word"
  assumes "k \<le> m" "k + d \<le> LENGTH('a)"
  shows "drop_bit d (((cr AND NOT (push_bit d (mask k))) OR push_bit d (x AND mask m)) AND push_bit d (mask k)) =
    x AND mask k"
  using assms by (intro bit_word_eqI) (auto simp: bit_simps)

lemma flash_cr_page_erase: "flash_cr_page (FLASH_PageErase_cr cr page) = page AND 0x7F"
proof -
  have "FLASH_CR_PNB = push_bit 3 (mask 7)" "(0xFF :: u32) = mask 8" "(0x7F :: u32) = mask 7"
    by (simp_all add: FLASH_CR_PNB_def mask_eq_exp_minus_1)
  note masks = this
  show ?thesis
    unfolding flash_cr_page_def FLASH_PageErase_cr_def masks by (rule field_replaced) simp_all
qed

lemma stm32_info_simps [simp]:
  "unat (fi_page_size stm32_info) = 2048" "unat (fi_total_size stm32_info) = 12288"
  "unat (fi_page_count stm32_info) = 6" "unat (fi_program_unit stm32_info) = 8"
  by (simp_all add: stm32_info_def stm32_geometry)

lemma stm32_ops_simps [simp]:
  "fo_info (stm32_ops hal) = Some stm32_info"
  "fo_validate (stm32_ops hal) = Stm32_FlashValidateConfiguration hal"
  "fo_read (stm32_ops hal) = Stm32_FlashRead hal" "fo_write (stm32_ops hal) = Stm32_FlashWrite hal"
  "fo_erase (stm32_ops hal) = Stm32_FlashErase hal"
  by (simp_all add: stm32_ops_def)

lemma length_stm32_contents [simp]: "length (stm32_contents hal h) = 12288"
  by (simp add: stm32_contents_def)

lemma nth_stm32_contents: "i < 12288 \<Longrightarrow> stm32_contents hal h ! i = flash_at hal h (0x7D000 + i)"
  by (simp add: stm32_contents_def)

lemma stm32_bounds:
  "offset > FLASH_TOTAL_SIZE \<or> sz > unat (FLASH_TOTAL_SIZE - offset) \<longleftrightarrow> \<not> unat offset + sz \<le> 12288"
proof -
  have total: "unat FLASH_TOTAL_SIZE = 12288" by (simp add: FLASH_TOTAL_SIZE_def)
  have "unat (FLASH_TOTAL_SIZE - offset) = 12288 - unat offset" if "offset \<le> FLASH_TOTAL_SIZE"
    using that total by (simp add: unat_sub)
  then show ?thesis
    using total by (cases "offset \<le> FLASH_TOTAL_SIZE") (auto simp: word_le_nat_alt word_less_nat_alt)
qed

lemma start_addr: "FLASH_START_ADDR + offset + of_nat i = 0x08000000 + of_nat (0x7D000 + (unat offset + i))"
  by (simp add: FLASH_START_ADDR_def)

lemma Stm32_FlashRead_eq:
  "Stm32_FlashRead hal h offset n =
     (if n = 0 \<or> \<not> unat offset + n \<le> 12288 then (PLATFORM_FLASH_INVALID_ARG, [])
      else (PLATFORM_FLASH_OK, window (stm32_contents hal h) (unat offset) n))"
proof -
  have "map (\<lambda>i. hal_mem hal h (FLASH_START_ADDR + offset + of_nat i)) [0..<n] =
      window (stm32_contents hal h) (unat offset) n" if "unat offset + n \<le> 12288"
    using that
    by (intro nth_equalityI) (simp_all add: window_def nth_stm32_contents flash_at_def start_addr)
  then show ?thesis
    using stm32_bounds[of offset n] by (auto simp: Stm32_FlashRead_def Let_def)
qed

lemma program_doubleword_of_le:
  assumes "length src = 8"
  shows "program_doubleword src = of_le src"
proof -
  obtain a b c d e f g h where src: "src = [a, b, c, d, e, f, g, h]"
    using assms by (auto simp: numeral_eq_Suc length_Suc_conv)
  show ?thesis
    by (simp add: src program_doubleword_def STORAGE_PROGRAM_UNIT_def upt_rec push_bit_or ac_simps)
qed

lemma program_doubleword_byte:
  assumes "length src = 8" "j < 8"
  shows "ucast (drop_bit (8 * j) (program_doubleword src)) = src ! j"
proof -
  have "le_bytes 8 (program_doubleword src) = src"
    unfolding program_doubleword_of_le[OF assms(1)] using assms(1) by (simp add: le_bytes_of_le)
  then have "le_bytes 8 (program_doubleword src) ! j = src ! j" by simp
  then show ?thesis using assms(2) by (simp add: le_bytes_def)
qed

text \<open>The loop takes the data in doublewords.\<close>

lemma doublewords_induct [consumes 1, case_names Nil doubleword]:
  assumes "length bs mod 8 = 0" and "P []"
    and "\<And>ds bs. length ds = 8 \<Longrightarrow> length bs mod 8 = 0 \<Longrightarrow> P bs \<Longrightarrow> P (ds @ bs)"
  shows "P bs"
  using assms(1)
proof (induction bs rule: length_induct)
  case (1 bs)
  show ?case
  proof (cases "bs = []")
    case False
    then have "8 \<le> length bs" using 1(2) by (cases "length bs < 8") auto
    moreover have "P (drop 8 bs)"
      using 1 calculation by (intro 1(1)[rule_format]) (auto simp: mod_if)
    ultimately have "P (take 8 bs @ drop 8 bs)"
      using 1(2) by (intro assms(3)) (auto simp: le_mod_geq)
    then show ?thesis by simp
  qed (simp add: assms(2))
qed

lemma program_loop_step:
  assumes "length ds = 8"
  shows "program_loop hal h addr (ds @ bs) =
    (case hal_program hal h FLASH_TYPEPROGRAM_DOUBLEWORD addr (program_doubleword ds) of (status, h) \<Rightarrow>
     if status \<noteq> HAL_OK then (False, h) else program_loop hal h (addr + 8) bs)"
proof -
  obtain d es where "ds = d # es" using assms by (cases ds) auto
  then show ?thesis using assms by (simp add: STORAGE_PROGRAM_UNIT_def split: prod.split)
qed

context stm32_flash
begin

lemma program_loop_optr:
  "length bs mod 8 = 0 \<Longrightarrow> hal_optr hal (snd (program_loop hal h addr bs)) = hal_optr hal h"
proof (induction bs arbitrary: h addr rule: doublewords_induct)
  case (doubleword ds bs)
  obtain s g where "hal_program hal h FLASH_TYPEPROGRAM_DOUBLEWORD addr (program_doubleword ds) = (s, g)"
    by (meson surj_pair)
  with optr_program[of h FLASH_TYPEPROGRAM_DOUBLEWORD addr "program_doubleword ds"] doubleword(1,3)
  show ?case by (simp add: program_loop_step)
qed simp

lemma program_loop_frame:
  "length bs mod 8 = 0 \<Longrightarrow> p mod 8 = 0 \<Longrightarrow> p + length bs \<le> 0x80000 \<Longrightarrow> i < 0x80000 \<Longrightarrow>
   i < p \<or> p + length bs \<le> i \<Longrightarrow>
   flash_at hal (snd (program_loop hal h (0x08000000 + of_nat p) bs)) i = flash_at hal h i"
proof (induction bs arbitrary: h p rule: doublewords_induct)
  case (doubleword ds bs)
  obtain s g where g: "hal_program hal h FLASH_TYPEPROGRAM_DOUBLEWORD (0x08000000 + of_nat p)
      (program_doubleword ds) = (s, g)" by (meson surj_pair)
  have "flash_at hal g i = flash_at hal h i"
    using program_frame[of p i h "program_doubleword ds"] g doubleword(1,4-7) by auto
  moreover have "flash_at hal (snd (program_loop hal g (0x08000000 + of_nat (p + 8)) bs)) i = flash_at hal g i"
    using doubleword by (intro doubleword(3)) auto
  ultimately show ?case
    using g doubleword(1) by (simp add: program_loop_step add.assoc)
qed simp

lemma program_loop_ok:
  "length bs mod 8 = 0 \<Longrightarrow> p mod 8 = 0 \<Longrightarrow> p + length bs \<le> 0x80000 \<Longrightarrow>
   program_loop hal h (0x08000000 + of_nat p) bs = (True, g) \<Longrightarrow>
   \<forall>j<length bs. flash_at hal h (p + j) = 255 \<Longrightarrow> j < length bs \<Longrightarrow>
   flash_at hal g (p + j) = bs ! j"
proof (induction bs arbitrary: h p j rule: doublewords_induct)
  case (doubleword ds bs)
  obtain s h' where h': "hal_program hal h FLASH_TYPEPROGRAM_DOUBLEWORD (0x08000000 + of_nat p)
      (program_doubleword ds) = (s, h')" by (meson surj_pair)
  with doubleword(1,6) have s: "s = HAL_OK"
    and g: "program_loop hal h' (0x08000000 + of_nat (p + 8)) bs = (True, g)"
    by (auto simp: program_loop_step add.assoc split: if_splits)
  note h' = h'[unfolded s]
  have fr: "flash_at hal h' i = flash_at hal h i" if "i < p \<or> p + 8 \<le> i" "i < 0x80000" for i
    using program_frame[of p i h "program_doubleword ds"] h' doubleword(1,4,5) that by auto
  show ?case
  proof (cases "j < 8")
    case True
    have "flash_at hal h' (p + j) = ds ! j"
      using program_ok[OF doubleword(4) _ h' _ True] program_doubleword_byte[OF doubleword(1) True]
        doubleword(1,5,7) by simp
    moreover have "flash_at hal g (p + j) = flash_at hal h' (p + j)"
      using program_loop_frame[of bs "p + 8" "p + j" h'] doubleword(1,2,4,5) g True by simp
    ultimately show ?thesis using True doubleword(1) by (simp add: nth_append)
  next
    case False
    have "flash_at hal g (p + 8 + (j - 8)) = bs ! (j - 8)"
    proof (rule doubleword(3)[OF _ _ g])
      show "\<forall>k<length bs. flash_at hal h' (p + 8 + k) = 255"
      proof (intro allI impI)
        fix k assume "k < length bs"
        then show "flash_at hal h' (p + 8 + k) = 255"
          using fr[of "p + 8 + k"] doubleword(7)[rule_format, of "8 + k"] doubleword(1,5) by (simp add: add.assoc)
      qed
    qed (use doubleword(1,4,5,8) False in auto)
    then show ?thesis using False doubleword(1) by (simp add: nth_append)
  qed
qed simp

text \<open>A write of the driver: refused without effect on the bytes, or the loop on its range.\<close>

lemma single_bank_valid: "Stm32_FlashValidateConfiguration hal h = PLATFORM_FLASH_OK \<longleftrightarrow> single_bank hal h"
  by (simp add: Stm32_FlashValidateConfiguration_def single_bank_def)

lemma single_bank_cong: "hal_optr hal g = hal_optr hal h \<Longrightarrow> single_bank hal g \<longleftrightarrow> single_bank hal h"
  by (simp add: single_bank_def)

lemma flash_at_cong: "hal_mem hal g = hal_mem hal h \<Longrightarrow> flash_at hal g = flash_at hal h"
  by (simp add: flash_at_def fun_eq_iff)

lemma Stm32_FlashWrite_cases:
  assumes "Stm32_FlashWrite hal h off bs = (st, g)"
  obtains (refused) "hal_optr hal g = hal_optr hal h" "flash_at hal g = flash_at hal h" "st \<noteq> PLATFORM_FLASH_OK"
  | (looped) h1 h2 ok where "hal_optr hal g = hal_optr hal h" "flash_at hal h1 = flash_at hal h"
      "flash_at hal g = flash_at hal h2" "length bs mod 8 = 0" "unat off mod 8 = 0" "unat off + length bs \<le> 12288"
      "program_loop hal h1 (0x08000000 + of_nat (0x7D000 + unat off)) bs = (ok, h2)"
      "st = (if ok then PLATFORM_FLASH_OK else PLATFORM_FLASH_ERROR)"
proof -
  obtain u h1 where u: "hal_unlock hal h = (u, h1)" by (meson surj_pair)
  have h1: "hal_optr hal h1 = hal_optr hal h" "flash_at hal h1 = flash_at hal h"
    using optr_unlock[of h] mem_unlock[of h] u flash_at_cong[of h1 h] by simp_all
  have addr: "FlashAddr off = 0x08000000 + of_nat (0x7D000 + unat off)"
    by (simp add: FlashAddr_def FLASH_START_ADDR_def)
  obtain ok h2 where l: "program_loop hal h1 (FlashAddr off) bs = (ok, h2)" by (meson surj_pair)
  show ?thesis
  proof (cases "length bs \<noteq> 0 \<and> unat off + length bs \<le> 12288 \<and> unat off mod 8 = 0 \<and> length bs mod 8 = 0 \<and>
      single_bank hal h \<and> u = HAL_OK")
    case True
    moreover have "\<not> (off > FLASH_TOTAL_SIZE \<or> length bs > unat (FLASH_TOTAL_SIZE - off))"
      using True by (simp only: stm32_bounds) simp
    ultimately have W: "Stm32_FlashWrite hal h off bs =
        (if \<not> ok then (PLATFORM_FLASH_ERROR, snd (hal_lock hal (hal_clear_errors hal h2)))
         else (PLATFORM_FLASH_OK, snd (hal_lock hal h2)))"
      using u l by (simp add: Stm32_FlashWrite_def single_bank_valid STORAGE_PROGRAM_UNIT_def)
    have "hal_optr hal g = hal_optr hal h2" "flash_at hal g = flash_at hal h2"
      using W assms
      by (auto simp: optr_lock optr_clear mem_lock mem_clear intro!: flash_at_cong split: if_splits)
    moreover have "hal_optr hal h2 = hal_optr hal h"
      using program_loop_optr[of bs h1 "FlashAddr off"] l h1(1) True by simp
    ultimately show ?thesis
      using True h1(2) l[unfolded addr] W assms by (intro looped[of h1 h2 ok]) (auto split: if_splits)
  next
    case False
    have "hal_optr hal g = hal_optr hal h \<and> flash_at hal g = flash_at hal h \<and> st \<noteq> PLATFORM_FLASH_OK"
    proof (cases "off > FLASH_TOTAL_SIZE \<or> length bs > unat (FLASH_TOTAL_SIZE - off)")
      case True
      then show ?thesis using assms by (auto simp: Stm32_FlashWrite_def split: if_splits)
    next
      case bounds: False
      then have "unat off + length bs \<le> 12288" by (simp only: stm32_bounds not_not)
      with False bounds show ?thesis
        using assms u h1
        by (auto simp: Stm32_FlashWrite_def single_bank_valid STORAGE_PROGRAM_UNIT_def split: if_splits)
    qed
    then show ?thesis by (intro refused) auto
  qed
qed

lemma window_contents_eqI:
  assumes "\<And>i. a \<le> i \<Longrightarrow> i < a + n \<Longrightarrow> i < 12288 \<Longrightarrow> flash_at hal g (0x7D000 + i) = flash_at hal h (0x7D000 + i)"
  shows "window (stm32_contents hal g) a n = window (stm32_contents hal h) a n"
  using assms by (intro window_eqI) (simp_all add: nth_stm32_contents)

end

text \<open>The driver is a reader and a writer the storage layer may rely on.\<close>

sublocale stm32_flash \<subseteq> flash_writer "stm32_ops hal" stm32_info "stm32_contents hal" "single_bank hal"
proof (unfold_locales, goal_cases)
  case (3 h off n bs)
  then show ?case by (auto simp: Stm32_FlashRead_eq split: if_splits)
next
  case (4 f g off n)
  then show ?case by (simp add: Stm32_FlashRead_eq)
next
  case (5 h off bs)
  obtain st g where W: "Stm32_FlashWrite hal h off bs = (st, g)" by (meson surj_pair)
  then have "hal_optr hal g = hal_optr hal h" by (cases rule: Stm32_FlashWrite_cases) auto
  with 5 W show ?case by (simp add: single_bank_def)
next
  case (6 h a n off bs)
  obtain st g where W: "Stm32_FlashWrite hal h off bs = (st, g)" by (meson surj_pair)
  then have "window (stm32_contents hal g) a n = window (stm32_contents hal h) a n"
  proof (cases rule: Stm32_FlashWrite_cases)
    case (looped h1 h2 ok)
    show ?thesis
    proof (rule window_contents_eqI)
      fix i assume i: "a \<le> i" "i < a + n" "i < 12288"
      have "flash_at hal (snd (program_loop hal h1 (0x08000000 + of_nat (0x7D000 + unat off)) bs)) (0x7D000 + i) =
          flash_at hal h1 (0x7D000 + i)"
        using looped 6(2) i by (intro program_loop_frame) auto
      then show "flash_at hal g (0x7D000 + i) = flash_at hal h (0x7D000 + i)" using looped by simp
    qed
  qed (auto intro: window_contents_eqI)
  with W show ?case by simp
next
  case (7 h off bs g)
  then have "Stm32_FlashWrite hal h off bs = (PLATFORM_FLASH_OK, g)" by simp
  then show ?case
  proof (cases rule: Stm32_FlashWrite_cases)
    case (looped h1 h2 ok)
    have at: "window (stm32_contents hal k) (unat off) (length bs) ! j = flash_at hal k (0x7D000 + unat off + j)"
      if "j < length bs" for k j
      using that looped by (simp add: window_def nth_stm32_contents add.assoc)
    have "flash_at hal h1 (0x7D000 + unat off + j) = 255" if "j < length bs" for j
      using at[OF that, of h] 7(3) that looped by simp
    then have "flash_at hal h2 (0x7D000 + unat off + j) = bs ! j" if "j < length bs" for j
      using looped that by (intro program_loop_ok[of bs "0x7D000 + unat off" h1 h2]) (auto split: if_splits)
    then show ?thesis
      using looped at by (intro nth_equalityI) simp_all
  qed simp
qed simp_all

section \<open>Erasing\<close>

lemma first_phys_page: "STORAGE_FIRST_PHYS_PAGE = 250"
  by (simp add: STORAGE_FIRST_PHYS_PAGE_def stm32_geometry)

lemma selected_page:
  assumes "unat p < 6"
  shows "unat (flash_cr_page (FLASH_PageErase_cr cr (STORAGE_FIRST_PHYS_PAGE + p))) = 122 + unat p"
proof -
  have "unat p \<in> {0, 1, 2, 3, 4, 5}" using assms by auto
  then have "p \<in> {0, 1, 2, 3, 4, 5}" by (simp add: word_unat_eq_iff)
  then show ?thesis unfolding flash_cr_page_erase first_phys_page by auto
qed

context stm32_flash
begin

text \<open>What an erase reaches: one block of 4 KiB, which is not where the page is.\<close>

lemma Stm32_FlashErase_spec:
  assumes sb: "single_bank hal h" and E: "Stm32_FlashErase hal h p = (st, g)"
  shows "single_bank hal g"
    and "i < 0x80000 \<Longrightarrow> \<not> (unat p < 6 \<and> i div 0x1000 = 122 + unat p) \<Longrightarrow> flash_at hal g i = flash_at hal h i"
    and "st = PLATFORM_FLASH_OK \<Longrightarrow> unat p < 6"
    and "st = PLATFORM_FLASH_OK \<Longrightarrow> i < 0x80000 \<Longrightarrow> i div 0x1000 = 122 + unat p \<Longrightarrow> flash_at hal g i = 255"
proof -
  let ?e = "\<lparr>er_TypeErase = FLASH_TYPEERASE_PAGES, er_Banks = FLASH_BANK_1,
              er_Page = STORAGE_FIRST_PHYS_PAGE + p, er_NbPages = 1\<rparr>"
  obtain u h1 where u: "hal_unlock hal h = (u, h1)" by (meson surj_pair)
  obtain s pe h2 where e: "hal_erase hal h1 ?e 0 = (s, pe, h2)" by (metis prod_cases3)
  have h1: "hal_optr hal h1 = hal_optr hal h" "flash_at hal h1 = flash_at hal h"
    using optr_unlock[of h] mem_unlock[of h] u flash_at_cong[of h1 h] by simp_all
  have sb1: "single_bank hal h1" using sb h1(1) by (simp add: single_bank_def)
  have h2: "hal_optr hal h2 = hal_optr hal h" using optr_erase[of h1 ?e 0] e h1(1) by simp
  have same: "flash_at hal h2 i = flash_at hal h i" if "i < 0x80000" "unat p < 6" "i div 0x1000 \<noteq> 122 + unat p" for i
    using erase_frame_chip[OF sb1, of ?e i 0] e h1(2) that
    by (simp add: selected_page FLASH_PAGE_SIZE_128_BITS_def)
  have wiped: "flash_at hal h2 i = 255" if "s = HAL_OK" "i < 0x80000" "unat p < 6" "i div 0x1000 = 122 + unat p" for i
    using erase_ok_chip[OF sb1, of ?e 0 pe h2 i] e that
    by (simp add: selected_page FLASH_PAGE_SIZE_128_BITS_def)
  have left: "hal_optr hal (snd (hal_lock hal h2)) = hal_optr hal h"
    "flash_at hal (snd (hal_lock hal h2)) = flash_at hal h2"
    "hal_optr hal (hal_clear_errors hal (snd (hal_lock hal h2))) = hal_optr hal h"
    "flash_at hal (hal_clear_errors hal (snd (hal_lock hal h2))) = flash_at hal h2"
    using h2 flash_at_cong[OF mem_lock, of h2] flash_at_cong[OF mem_clear, of "snd (hal_lock hal h2)"]
    by (simp_all add: optr_lock optr_clear)
  have p6: "p \<ge> 6 \<longleftrightarrow> \<not> unat p < 6" by (simp add: word_le_nat_alt not_less)
  have valid: "Stm32_FlashValidateConfiguration hal h = PLATFORM_FLASH_OK" using sb by (simp add: single_bank_valid)
  have cases: "(st \<noteq> PLATFORM_FLASH_OK \<and> (g = h \<or> g = h1)) \<or>
      (unat p < 6 \<and> s = HAL_OK \<and> st = PLATFORM_FLASH_OK \<and> g = snd (hal_lock hal h2)) \<or>
      (unat p < 6 \<and> st \<noteq> PLATFORM_FLASH_OK \<and> g = hal_clear_errors hal (snd (hal_lock hal h2)))"
    using E u e valid by (auto simp: Stm32_FlashErase_def p6 Let_def split: if_splits)
  show "single_bank hal g" using cases sb h1 left by (auto simp: single_bank_def)
  show "flash_at hal g i = flash_at hal h i"
    if "i < 0x80000" "\<not> (unat p < 6 \<and> i div 0x1000 = 122 + unat p)"
    using cases that h1(2) left(2,4) same[of i] by auto
  show "unat p < 6" if "st = PLATFORM_FLASH_OK" using cases that by blast
  show "flash_at hal g i = 255" if "st = PLATFORM_FLASH_OK" "i < 0x80000" "i div 0x1000 = 122 + unat p"
    using cases that left(2) wiped[of i] by auto
qed

lemma page_at_stm32:
  assumes "q < 6" "r < 2048"
  shows "page_at stm32_info (stm32_contents hal h) q ! r = flash_at hal h (0x7D000 + q * 2048 + r)"
proof -
  have "q * 2048 + r < 12288" using assms by simp
  then show ?thesis
    using assms by (simp add: page_at_def window_def nth_stm32_contents add.assoc)
qed

lemma block_of_page:
  fixes q r :: nat
  assumes "r < 2048"
  shows "(0x7D000 + q * 2048 + r) div 0x1000 = 125 + q div 2"
proof -
  obtain a b where q: "q = 2 * a + b" "b < 2" by (metis mult_div_mod_eq mod_less_divisor zero_less_numeral)
  then have "q div 2 = a" by simp
  then show ?thesis using assms q by (intro div_nat_eqI) simp_all
qed

lemma length_page_stm32: "q < 6 \<Longrightarrow> length (page_at stm32_info (stm32_contents hal h) q) = 2048"
  by (simp add: page_at_def)

lemma erase_pages:
  assumes "single_bank hal h" "Stm32_FlashErase hal h p = (PLATFORM_FLASH_OK, g)" "q < 6"
  shows "page_at stm32_info (stm32_contents hal g) q =
    (if q div 2 + 3 = unat p then replicate 2048 255 else page_at stm32_info (stm32_contents hal h) q)"
proof (rule nth_equalityI)
  fix r assume "r < length (page_at stm32_info (stm32_contents hal g) q)"
  then have r: "r < 2048" using assms(3) by (simp add: length_page_stm32)
  have "0x7D000 + q * 2048 + r < 0x80000" using r assms(3) by simp
  with Stm32_FlashErase_spec(2)[OF assms(1,2), of "0x7D000 + q * 2048 + r"]
    Stm32_FlashErase_spec(4)[OF assms(1,2) HOL.refl, of "0x7D000 + q * 2048 + r"]
    Stm32_FlashErase_spec(3)[OF assms(1,2) HOL.refl] block_of_page[OF r, of q]
  show "page_at stm32_info (stm32_contents hal g) q ! r =
      (if q div 2 + 3 = unat p then replicate 2048 255 else page_at stm32_info (stm32_contents hal h) q) ! r"
    using r assms(3) by (auto simp: page_at_stm32)
qed (use assms(3) in \<open>simp add: length_page_stm32\<close>)

text \<open>Every read inside the storage succeeds, so a slot is what its page says.\<close>

lemma snapshot_stm32:
  assumes "storage_ready stm32_info st" "record_type_ok rt" "i < 2" "single_bank hal h"
  shows "ReadSlotSnapshot (stm32_ops hal) st h rt i =
    slot_view rt (page_at stm32_info (stm32_contents hal h) (page_of rt i))"
  using snapshot_read_cases[OF assms] by (auto simp: Stm32_FlashRead_eq)

text \<open>The pages of the storage after an erase, and the reads of erased slots.\<close>

lemma erased_read:
  assumes "storage_ready stm32_info st" "record_type_ok rt" "single_bank hal h"
    and "\<And>i. i < 2 \<Longrightarrow> page_at stm32_info (stm32_contents hal h) (page_of rt i) = replicate 2048 255"
  shows "Storage_Read (stm32_ops hal) st h rt (Some p) = (STORAGE_READ_NOT_FOUND, Some p)"
proof -
  obtain l where "Storage_GetLayout st rt = Some l" using GetLayout_Some[OF assms(1,2)] by blast
  moreover have "ss_state (ReadSlotSnapshot (stm32_ops hal) st h rt i) = SLOT_STATE_ERASED" if "i < 2" for i
    using snapshot_stm32[OF assms(1,2) that assms(3)] slot_view_erased[OF assms(4)[OF that]] by simp
  ultimately show ?thesis
    using assms(1) by (simp add: Storage_Read_def Let_def storage_ready_def)
qed

text \<open>The steps of a write that succeeds.\<close>

lemma WriteEx_steps:
  assumes r: "storage_ready stm32_info st" "record_type_ok rt"
    and sel: "SelectWriteSlot (stm32_ops hal) st h rt = Some (w, q)"
    and W: "Storage_WriteEx (stm32_ops hal) st h rt data sz = (STORAGE_WRITE_OK, g)"
  obtains p f off where "Stm32_FlashErase hal h p = (PLATFORM_FLASH_OK, f)" "unat p = page_of rt w" "w < 2"
    "WriteProgramRecord (stm32_ops hal) st f off rt data sz (next_sequence q) = (STORAGE_WRITE_OK, g)"
    "unat off = page_of rt w * 2048"
proof -
  have w: "w = 0 \<or> w = 1" using sel by (cases rule: SelectWriteSlot_cases) auto
  obtain l where l: "Storage_GetLayout st rt = Some l"
    "unat (slot_a_page l) = page_of rt 0" "unat (slot_b_page l) = page_of rt 1"
    "unat (slot_a_offset l) = page_of rt 0 * unat (fi_page_size stm32_info)"
    "unat (slot_b_offset l) = page_of rt 1 * unat (fi_page_size stm32_info)"
    using GetLayout_Some[OF r] .
  define pg where "pg = (if w = 0 then slot_a_page l else slot_b_page l)"
  define off where "off = (if w = 0 then slot_a_offset l else slot_b_offset l)"
  obtain es f where e: "Stm32_FlashErase hal h pg = (es, f)" by (meson surj_pair)
  have "\<not> (sz > STORAGE_PAYLOAD_MAX)" "\<not> (data = None \<and> sz > 0)"
    using W r(1) by (auto simp: Storage_WriteEx_def storage_ready_def split: if_splits)
  then have "(if es \<noteq> PLATFORM_FLASH_OK then (STORAGE_WRITE_IO_ERROR, f)
      else WriteProgramRecord (stm32_ops hal) st f off rt data sz (next_sequence q)) = (STORAGE_WRITE_OK, g)"
    using W r(1) e
    unfolding Storage_WriteEx_def storage_ready_def
    by (simp only: sel l(1) pg_def[symmetric] off_def[symmetric] next_sequence_def[symmetric]
        stm32_ops_simps Let_def option.case prod.case if_False not_True_eq_False)
  then show ?thesis
    using that[of pg f off] e w l by (auto simp: pg_def off_def split: if_splits)
qed

text \<open>After a write the other pages are as its erase left them.\<close>

lemma WriteEx_pages:
  assumes "storage_ready stm32_info st" "record_type_ok rt" "single_bank hal h"
    and "SelectWriteSlot (stm32_ops hal) st h rt = Some (w, q)"
    and "Storage_WriteEx (stm32_ops hal) st h rt (Some d) (length d) = (STORAGE_WRITE_OK, g)"
  shows "single_bank hal g"
    and "p < 6 \<Longrightarrow> p \<noteq> page_of rt w \<Longrightarrow> page_at stm32_info (stm32_contents hal g) p =
      (if p div 2 + 3 = page_of rt w then replicate 2048 255 else page_at stm32_info (stm32_contents hal h) p)"
    and "slot_view rt (page_at stm32_info (stm32_contents hal g) (page_of rt w)) =
      record_snapshot rt d (next_sequence q)"
proof -
  obtain e f off where s: "Stm32_FlashErase hal h e = (PLATFORM_FLASH_OK, f)" "unat e = page_of rt w"
    "WriteProgramRecord (stm32_ops hal) st f off rt (Some d) (length d) (next_sequence q) = (STORAGE_WRITE_OK, g)"
    "unat off = page_of rt w * 2048"
    using WriteEx_steps[OF assms(1,2,4,5)] by metis
  have f: "single_bank hal f" by (rule Stm32_FlashErase_spec(1)[OF assms(3) s(1)])
  have off: "unat off = page_of rt w * unat (fi_page_size stm32_info)" using s(4) by simp
  show "single_bank hal g"
    using WriteProgramRecord_frame(1)[OF assms(1) f off, of rt "Some d" "length d" "next_sequence q"] s(3) by simp
  show "page_at stm32_info (stm32_contents hal g) p =
      (if p div 2 + 3 = page_of rt w then replicate 2048 255 else page_at stm32_info (stm32_contents hal h) p)"
    if "p < 6" "p \<noteq> page_of rt w"
    using WriteProgramRecord_frame(2)[OF assms(1) f off that(2), of rt "Some d" "length d" "next_sequence q"]
      erase_pages[OF assms(3) s(1) that(1)] s(2,3) by simp
  show "slot_view rt (page_at stm32_info (stm32_contents hal g) (page_of rt w)) =
      record_snapshot rt d (next_sequence q)"
    by (rule WriteProgramRecord_ok[OF assms(1) f off s(3)]) simp_all
qed

end

section \<open>A chip\<close>

text \<open>
  A chip that keeps the laws: every operation on an unlocked flash succeeds, but a doubleword that is
  not erased is refused, and so is every erase in dual-bank mode.
\<close>

record g4_chip =
  g4_optr :: u32
  g4_locked :: bool
  g4_mem :: "nat \<Rightarrow> u8"

definition g4_program :: "g4_chip \<Rightarrow> u32 \<Rightarrow> u32 \<Rightarrow> u64 \<Rightarrow> HAL_StatusTypeDef \<times> g4_chip" where
  "g4_program c ty addr v =
     (let p = unat (addr - 0x08000000) in
      if g4_locked c \<or> \<not> list_all (\<lambda>j. g4_mem c (p + j) = 255) [0..<8] then (HAL_ERROR, c)
      else (HAL_OK, c\<lparr>g4_mem := \<lambda>i. if p \<le> i \<and> i < p + 8 then ucast (drop_bit (8 * (i - p)) v) else g4_mem c i\<rparr>))"

definition g4_erase :: "g4_chip \<Rightarrow> FLASH_EraseInitTypeDef \<Rightarrow> u32 \<Rightarrow> HAL_StatusTypeDef \<times> u32 \<times> g4_chip" where
  "g4_erase c e page_error =
     (if g4_locked c \<or> g4_optr c AND FLASH_OPTR_DBANK \<noteq> 0 then (HAL_ERROR, page_error, c)
      else let b = unat (flash_cr_page (FLASH_PageErase_cr 0 (er_Page e)))
      in (HAL_OK, 0xFFFFFFFF, c\<lparr>g4_mem := \<lambda>i. if i div FLASH_PAGE_SIZE_128_BITS = b then 255 else g4_mem c i\<rparr>))"

definition g4_hal :: "g4_chip stm32_hal" where
  "g4_hal =
     \<lparr>hal_optr = g4_optr, hal_mem = \<lambda>c a. g4_mem c (unat (a - 0x08000000)),
      hal_unlock = \<lambda>c. (HAL_OK, c\<lparr>g4_locked := False\<rparr>), hal_lock = \<lambda>c. (HAL_OK, c\<lparr>g4_locked := True\<rparr>),
      hal_program = g4_program, hal_erase = g4_erase, hal_clear_errors = \<lambda>c. c\<rparr>"

definition g4_fresh :: g4_chip where
  "g4_fresh = \<lparr>g4_optr = 0, g4_locked = True, g4_mem = \<lambda>i. 255\<rparr>"

lemma g4_hal_simps [simp]:
  "hal_optr g4_hal = g4_optr" "hal_unlock g4_hal c = (HAL_OK, c\<lparr>g4_locked := False\<rparr>)"
  "hal_lock g4_hal c = (HAL_OK, c\<lparr>g4_locked := True\<rparr>)" "hal_program g4_hal = g4_program"
  "hal_erase g4_hal = g4_erase" "hal_clear_errors g4_hal c = c"
  by (simp_all add: g4_hal_def)

lemma g4_at: "i < 0x80000 \<Longrightarrow> flash_at g4_hal c i = g4_mem c i"
  by (simp add: flash_at_def g4_hal_def unat_of_nat take_bit_eq_mod)

lemma g4_program_place:
  "p + 8 \<le> 0x80000 \<Longrightarrow> g4_program c ty (0x08000000 + of_nat p) v =
     (if g4_locked c \<or> \<not> (\<forall>j<8. g4_mem c (p + j) = 255) then (HAL_ERROR, c)
      else (HAL_OK, c\<lparr>g4_mem := \<lambda>i. if p \<le> i \<and> i < p + 8 then ucast (drop_bit (8 * (i - p)) v) else g4_mem c i\<rparr>))"
  by (simp add: g4_program_def Let_def unat_of_nat take_bit_eq_mod list_all_iff)

interpretation g4: stm32_flash g4_hal
proof (unfold_locales, goal_cases)
  case (4 h ty addr v)
  then show ?case by (simp add: g4_program_def Let_def)
next
  case (5 h e x)
  then show ?case by (simp add: g4_erase_def Let_def)
next
  case (9 p i h v)
  then show ?case by (auto simp: g4_program_place g4_at)
next
  case (10 p h v g j)
  then show ?case by (auto simp: g4_program_place g4_at split: if_splits)
next
  case (11 p h v g j)
  then show ?case by (auto simp: g4_program_place g4_at split: if_splits)
next
  case (12 h e i x)
  then show ?case by (auto simp: g4_erase_def g4_at Let_def)
next
  case (13 h e x pe g i)
  then show ?case by (auto simp: g4_erase_def g4_at Let_def split: if_splits)
qed (simp_all add: g4_hal_def)

lemma g4_loop_ok:
  "length bs mod 8 = 0 \<Longrightarrow> p + length bs \<le> 0x80000 \<Longrightarrow> \<not> g4_locked c \<Longrightarrow>
   \<forall>j<length bs. g4_mem c (p + j) = 255 \<Longrightarrow>
   fst (program_loop g4_hal c (0x08000000 + of_nat p) bs)"
proof (induction bs arbitrary: c p rule: doublewords_induct)
  case (doubleword ds bs)
  let ?c = "c\<lparr>g4_mem := \<lambda>i. if p \<le> i \<and> i < p + 8 then ucast (drop_bit (8 * (i - p)) (program_doubleword ds))
    else g4_mem c i\<rparr>"
  have "\<forall>j<8. g4_mem c (p + j) = 255" using doubleword(1,6) by simp
  then have "g4_program c FLASH_TYPEPROGRAM_DOUBLEWORD (0x08000000 + of_nat p) (program_doubleword ds) = (HAL_OK, ?c)"
    using doubleword(1,4,5) by (simp add: g4_program_place)
  moreover have "fst (program_loop g4_hal ?c (0x08000000 + of_nat (p + 8)) bs)"
  proof (rule doubleword(3))
    show "\<forall>j<length bs. g4_mem ?c (p + 8 + j) = 255"
      using doubleword(1,6) by (auto dest!: spec[of _ "8 + _"] simp: add.assoc)
  qed (use doubleword(1,4,5) in auto)
  ultimately show ?case using doubleword(1) by (simp add: program_loop_step add.assoc)
qed simp

lemma g4_written:
  assumes "single_bank g4_hal c" "bs \<noteq> []" "unat off + length bs \<le> 12288" "unat off mod 8 = 0" "length bs mod 8 = 0"
    and "window (stm32_contents g4_hal c) (unat off) (length bs) = replicate (length bs) 255"
  shows "fst (Stm32_FlashWrite g4_hal c off bs) = PLATFORM_FLASH_OK"
proof -
  let ?c = "c\<lparr>g4_locked := False\<rparr>"
  have "g4_mem ?c (0x7D000 + unat off + j) = 255" if "j < length bs" for j
  proof -
    have "window (stm32_contents g4_hal c) (unat off) (length bs) ! j = 255"
      using assms(6) that by simp
    then show ?thesis using that assms(3) by (simp add: window_def nth_stm32_contents g4_at add.assoc)
  qed
  then have "fst (program_loop g4_hal ?c (0x08000000 + of_nat (0x7D000 + unat off)) bs)"
    using assms(3,5) by (intro g4_loop_ok) simp_all
  moreover have "FlashAddr off = 0x08000000 + of_nat (0x7D000 + unat off)"
    by (simp add: FlashAddr_def FLASH_START_ADDR_def)
  moreover have "\<not> (off > FLASH_TOTAL_SIZE \<or> length bs > unat (FLASH_TOTAL_SIZE - off))"
    using assms(3) by (simp only: stm32_bounds) simp
  ultimately show ?thesis
    using assms(1,2,4,5) g4.single_bank_valid[of c]
    by (auto simp: Stm32_FlashWrite_def STORAGE_PROGRAM_UNIT_def split: prod.split)
qed

interpretation g4: working_writer "stm32_ops g4_hal" stm32_info "stm32_contents g4_hal"
  "single_bank g4_hal" "single_bank g4_hal"
proof (unfold_locales, goal_cases)
  case (2 f n off)
  then show ?case by (simp add: Stm32_FlashRead_eq)
next
  case (3 f bs off)
  then show ?case using g4_written[of f bs off] g4.write_valid[of f off bs] by simp
qed simp_all

lemma g4_erase_ok:
  assumes "single_bank g4_hal c" "unat p < 6"
  obtains f where "Stm32_FlashErase g4_hal c p = (PLATFORM_FLASH_OK, f)"
proof -
  have "\<not> p \<ge> 6" using assms(2) by (simp add: word_le_nat_alt)
  then have "fst (Stm32_FlashErase g4_hal c p) = PLATFORM_FLASH_OK"
    using assms(1) g4.single_bank_valid[of c]
    by (simp add: Stm32_FlashErase_def g4_erase_def single_bank_def Let_def)
  then show ?thesis using that by (metis prod.collapse)
qed

lemma stm32_init:
  assumes "single_bank hal h"
  obtains st where "Storage_Init (stm32_ops hal) h = (True, st)"
proof -
  have "fst (Storage_Init (stm32_ops hal) h)"
    using assms slots_fit_host
    by (simp add: Storage_Init_def stm32_info_def stm32_geometry Stm32_FlashValidateConfiguration_def
        single_bank_def storage_constants storage_reset_def)
  then show ?thesis using that by (metis prod.collapse)
qed

lemma stm32_ready: "Storage_Init (stm32_ops hal) h = (True, st) \<Longrightarrow> storage_ready stm32_info st"
  using storage_init_ready[of "stm32_ops hal" stm32_info h] by simp

section \<open>The wrong page\<close>

text \<open>
  Claim C8. On the target, in the only bank mode the driver admits, an erase of page p of the storage that reports
  success erases the 4 KiB at 0x0807A000 + 4096 p and changes nothing else. For p = 0, 1, 2 that is
  the end of the region the linker gives to the program, and no page of the storage is erased; for
  p = 3, 4, 5 it is both pages of one record type, the first to the third. Page 5 is the only page an
  erase of its own number reaches.
\<close>

theorem target_erase_misses_page:
  assumes "stm32_flash hal" "single_bank hal h"
    and "Stm32_FlashErase hal h p = (PLATFORM_FLASH_OK, g)"
  shows "unat p < 6 \<and>
    (\<forall>i<0x80000. flash_at hal g i =
       (if i div 0x1000 = 0x7A + unat p then 255 else flash_at hal h i)) \<and>
    (\<forall>q<6. page_at stm32_info (stm32_contents hal g) q =
       (if q div 2 + 3 = unat p then replicate 2048 255 else page_at stm32_info (stm32_contents hal h) q))"
proof -
  note spec = stm32_flash.Stm32_FlashErase_spec[OF assms]
  show ?thesis
    using spec(3) spec(2,4) stm32_flash.erase_pages[OF assms] by auto
qed

lemma g4_fresh_single: "single_bank g4_hal g4_fresh"
  by (simp add: single_bank_def g4_fresh_def)

theorem target_erase_misses_page_witness:
  "\<exists>c g. single_bank g4_hal c \<and> Stm32_FlashErase g4_hal c 0 = (PLATFORM_FLASH_OK, g) \<and>
     page_at stm32_info (stm32_contents g4_hal c) 0 = replicate 2048 7 \<and>
     page_at stm32_info (stm32_contents g4_hal g) 0 = replicate 2048 7"
proof -
  let ?c = "g4_fresh\<lparr>g4_mem := \<lambda>i. 7\<rparr>"
  have c: "single_bank g4_hal ?c" by (simp add: single_bank_def g4_fresh_def)
  obtain g where g: "Stm32_FlashErase g4_hal ?c 0 = (PLATFORM_FLASH_OK, g)"
    using g4_erase_ok[OF c, of 0] by auto
  have "page_at stm32_info (stm32_contents g4_hal ?c) 0 = replicate 2048 7"
    by (rule nth_equalityI) (simp_all add: g4.length_page_stm32 g4.page_at_stm32 g4_at)
  with c g target_erase_misses_page[OF g4.stm32_flash_axioms c g] show ?thesis by auto
qed

section \<open>What the storage loses\<close>

text \<open>
  Claim C9. On the target, the first registration that is stored erases the identity of the device: the
  storage starts, no registration is stored, the write reports success and the registration reads
  back, but afterwards both slots of the identity are erased and it is not found.
\<close>

theorem target_registration_erases_identity:
  assumes "stm32_flash hal" "single_bank hal h" "Storage_Init (stm32_ops hal) h = (True, st)"
    and "\<forall>i<2. ss_state (ReadSlotSnapshot (stm32_ops hal) st h RECORD_TYPE_REGISTRATION i) = SLOT_STATE_ERASED"
    and W: "Storage_WriteEx (stm32_ops hal) st h RECORD_TYPE_REGISTRATION (Some d) (length d) = (STORAGE_WRITE_OK, g)"
  shows "fst (Storage_Read (stm32_ops hal) st g RECORD_TYPE_REGISTRATION (Some p)) = STORAGE_READ_OK \<and>
    Storage_Read (stm32_ops hal) st g RECORD_TYPE_IDENTITY (Some p) = (STORAGE_READ_NOT_FOUND, Some p)"
proof -
  note r = stm32_ready[OF assms(3)]
  have rt: "record_type_ok RECORD_TYPE_REGISTRATION" "record_type_ok RECORD_TYPE_IDENTITY"
    by (simp_all add: record_type_ok_def)
  have "\<forall>i \<in> {0, 1}. ss_state (ReadSlotSnapshot (stm32_ops hal) st h RECORD_TYPE_REGISTRATION i) = SLOT_STATE_ERASED"
    using assms(4) by simp
  then have sel: "SelectWriteSlot (stm32_ops hal) st h RECORD_TYPE_REGISTRATION = Some (0, 0)"
    by (simp add: SelectWriteSlot_def Let_def)
  note pages = stm32_flash.WriteEx_pages[OF assms(1) r rt(1) assms(2) sel W]
  have pg: "page_of RECORD_TYPE_REGISTRATION 0 = 4" "page_of RECORD_TYPE_IDENTITY 0 = 2" "page_of RECORD_TYPE_IDENTITY 1 = 3"
    by (simp_all add: page_of_def record_types)
  have "ss_state (ReadSlotSnapshot (stm32_ops hal) st g RECORD_TYPE_REGISTRATION 0) = SLOT_STATE_VALID"
    using stm32_flash.snapshot_stm32[OF assms(1) r rt(1) _ pages(1), of 0] pages(3) by simp
  then have "fst (Storage_Read (stm32_ops hal) st g RECORD_TYPE_REGISTRATION (Some p)) = STORAGE_READ_OK"
    by (intro Storage_Read_one_valid[OF r rt(1)]) simp
  moreover have "page_at stm32_info (stm32_contents hal g) (page_of RECORD_TYPE_IDENTITY i) = replicate 2048 255"
    if "i < 2" for i
    using that pages(2)[of "page_of RECORD_TYPE_IDENTITY i"] pg by (auto simp: slot_index_cases)
  then have "Storage_Read (stm32_ops hal) st g RECORD_TYPE_IDENTITY (Some p) = (STORAGE_READ_NOT_FOUND, Some p)"
    by (intro stm32_flash.erased_read[OF assms(1) r rt(2) pages(1)])
  ultimately show ?thesis ..
qed

text \<open>On the chip: a write to erased slots succeeds when the erase leaves its page alone or erased.\<close>

lemma g4_first_write:
  assumes c: "single_bank g4_hal c" and r: "storage_ready stm32_info st" "record_type_ok rt"
    and e: "\<And>i. i < 2 \<Longrightarrow> page_at stm32_info (stm32_contents g4_hal c) (page_of rt i) = replicate 2048 255"
    and d: "length d \<le> 256"
  obtains g where "Storage_WriteEx (stm32_ops g4_hal) st c rt (Some d) (length d) = (STORAGE_WRITE_OK, g)"
    "SelectWriteSlot (stm32_ops g4_hal) st c rt = Some (0, 0)"
proof -
  obtain l where l: "Storage_GetLayout st rt = Some l" "unat (slot_a_page l) = page_of rt 0"
    "unat (slot_a_offset l) = page_of rt 0 * unat (fi_page_size stm32_info)"
    using GetLayout_Some[OF r] by metis
  have p: "page_of rt 0 < 6" using page_of_less[OF r(2), of 0] by simp
  have "ss_state (ReadSlotSnapshot (stm32_ops g4_hal) st c rt i) = SLOT_STATE_ERASED" if "i < 2" for i
    using g4.snapshot_stm32[OF r that c] slot_view_erased[OF e[OF that]] by simp
  then have sel: "SelectWriteSlot (stm32_ops g4_hal) st c rt = Some (0, 0)"
    by (simp add: SelectWriteSlot_def Let_def)
  obtain f where f: "Stm32_FlashErase g4_hal c (slot_a_page l) = (PLATFORM_FLASH_OK, f)"
    using g4_erase_ok[OF c] p l(2) by metis
  have e0: "page_at stm32_info (stm32_contents g4_hal f) (page_of rt 0) = replicate (unat (fi_page_size stm32_info)) 255"
    using g4.erase_pages[OF c f p] e[of 0] by simp
  obtain g where "WriteProgramRecord (stm32_ops g4_hal) st f (slot_a_offset l) rt (Some d) (length d) 1 = (STORAGE_WRITE_OK, g)"
    by (rule g4.WriteProgramRecord_working[OF r(1) g4.Stm32_FlashErase_spec(1)[OF c f] l(3) p e0 _ HOL.refl d,
          of "Some d"]) simp_all
  then have "Storage_WriteEx (stm32_ops g4_hal) st c rt (Some d) (length d) = (STORAGE_WRITE_OK, g)"
    using r(1) d l(1) sel f
    by (simp add: Storage_WriteEx_def storage_ready_def STORAGE_PAYLOAD_MAX_def Let_def)
  then show ?thesis using that sel by blast
qed

theorem target_registration_erases_identity_witness:
  "\<exists>st c g. fst (Storage_Read (stm32_ops g4_hal) st c RECORD_TYPE_IDENTITY (Some zero_payload)) = STORAGE_READ_OK \<and>
     Storage_WriteEx (stm32_ops g4_hal) st c RECORD_TYPE_REGISTRATION (Some [1, 2]) 2 = (STORAGE_WRITE_OK, g) \<and>
     Storage_Read (stm32_ops g4_hal) st g RECORD_TYPE_IDENTITY (Some zero_payload) =
       (STORAGE_READ_NOT_FOUND, Some zero_payload)"
proof -
  obtain st where st: "Storage_Init (stm32_ops g4_hal) g4_fresh = (True, st)"
    using stm32_init[OF g4_fresh_single] .
  note r = stm32_ready[OF st]
  have rt: "record_type_ok RECORD_TYPE_REGISTRATION" "record_type_ok RECORD_TYPE_IDENTITY"
    by (simp_all add: record_type_ok_def)
  have fresh: "page_at stm32_info (stm32_contents g4_hal g4_fresh) q = replicate 2048 255" if "q < 6" for q
    using that by (intro nth_equalityI) (simp_all add: g4.length_page_stm32 g4.page_at_stm32 g4_at g4_fresh_def)
  obtain c where c: "Storage_WriteEx (stm32_ops g4_hal) st g4_fresh RECORD_TYPE_IDENTITY (Some [7]) (length [7 :: u8]) =
      (STORAGE_WRITE_OK, c)" "SelectWriteSlot (stm32_ops g4_hal) st g4_fresh RECORD_TYPE_IDENTITY = Some (0, 0)"
    by (rule g4_first_write[OF g4_fresh_single r rt(2) fresh, of "[7]"]) (simp_all add: page_of_less[OF rt(2)])
  note pages = g4.WriteEx_pages[OF r rt(2) g4_fresh_single c(2,1)]
  have pg: "page_of RECORD_TYPE_REGISTRATION 0 = 4" "page_of RECORD_TYPE_REGISTRATION 1 = 5" "page_of RECORD_TYPE_IDENTITY 0 = 2"
    by (simp_all add: page_of_def record_types)
  have reg: "page_at stm32_info (stm32_contents g4_hal c) (page_of RECORD_TYPE_REGISTRATION i) = replicate 2048 255"
    if "i < 2" for i
    using that pages(2)[of "page_of RECORD_TYPE_REGISTRATION i"] pg fresh by (auto simp: slot_index_cases)
  have "ss_state (ReadSlotSnapshot (stm32_ops g4_hal) st c RECORD_TYPE_IDENTITY 0) = SLOT_STATE_VALID"
    using g4.snapshot_stm32[OF r rt(2) _ pages(1), of 0] pages(3) by simp
  then have before: "fst (Storage_Read (stm32_ops g4_hal) st c RECORD_TYPE_IDENTITY (Some zero_payload)) = STORAGE_READ_OK"
    by (intro Storage_Read_one_valid[OF r rt(2)]) simp
  have erased: "\<forall>i<2. ss_state (ReadSlotSnapshot (stm32_ops g4_hal) st c RECORD_TYPE_REGISTRATION i) = SLOT_STATE_ERASED"
    using g4.snapshot_stm32[OF r rt(1) _ pages(1)] slot_view_erased[OF reg] by simp
  obtain g where g: "Storage_WriteEx (stm32_ops g4_hal) st c RECORD_TYPE_REGISTRATION (Some [1, 2]) (length [1, 2 :: u8]) =
      (STORAGE_WRITE_OK, g)"
    by (rule g4_first_write[OF pages(1) r rt(1) reg, of "[1, 2]"]) simp_all
  obtain st' where st': "Storage_Init (stm32_ops g4_hal) c = (True, st')" using stm32_init[OF pages(1)] .
  have "st' = st"
    using st st' pages(1) g4_fresh_single
    by (simp add: Storage_Init_def g4.single_bank_valid)
  with st' have "Storage_Init (stm32_ops g4_hal) c = (True, st)" by simp
  from target_registration_erases_identity[OF g4.stm32_flash_axioms pages(1) this erased g, of zero_payload]
  have "Storage_Read (stm32_ops g4_hal) st g RECORD_TYPE_IDENTITY (Some zero_payload) =
      (STORAGE_READ_NOT_FOUND, Some zero_payload)" ..
  moreover have "Storage_WriteEx (stm32_ops g4_hal) st c RECORD_TYPE_REGISTRATION (Some [1, 2]) 2 = (STORAGE_WRITE_OK, g)"
    using g by (simp add: numeral_2_eq_2)
  ultimately show ?thesis using before by blast
qed

section \<open>A full record\<close>

lemma valid_page_magic:
  assumes "ss_state (slot_view rt page) = SLOT_STATE_VALID" "length page = 2048"
  shows "page ! 0 = 0x43"
proof -
  have "hdr_magic (header_of_bytes (take 22 page)) = STORAGE_MAGIC"
    using assms(1) by (auto simp: slot_view_def Let_def header_ok_def split: if_splits)
  then have "le_bytes 4 (of_le (take 4 page) :: u32) = le_bytes 4 STORAGE_MAGIC"
    by (simp add: header_of_bytes_def window_def)
  then have "take 4 page = [0x43, 0x4D, 0x53, 0x52]"
    using assms(2) by (simp add: le_bytes_of_le magic_bytes)
  then have "take 4 page ! 0 = 0x43" by simp
  then show ?thesis by simp
qed

lemma WriteProgramRecord_writes:
  assumes "WriteProgramRecord ops st f off rt (Some d) (length d) seq = (STORAGE_WRITE_OK, g)"
  obtains bs where "fo_write ops f off (0x43 # bs) = (PLATFORM_FLASH_OK, g)"
proof -
  let ?buf = "program_buffer rt d (length d) seq"
  let ?al = "aligned_size (s_program_unit st) (22 + length d)"
  have al: "22 + length d \<le> ?al" and d: "length d \<le> 256" and w: "fo_write ops f off (take ?al ?buf) = (PLATFORM_FLASH_OK, g)"
    using assms
    by (auto simp: WriteProgramRecord_def Let_def STORAGE_HEADER_SIZE_def STORAGE_PAYLOAD_MAX_def
        split: if_splits prod.splits)
  have "take 1 ?buf = [0x43]"
    using program_buffer_eq[OF d, of d d rt seq]
    by (simp add: record_image_def Let_def header_bytes_def magic_bytes record_header_def)
  then have "take ?al ?buf = 0x43 # drop 1 (take ?al ?buf)"
    using al by (cases ?buf) (auto simp: take_Cons')
  with w that show ?thesis by metis
qed

context stm32_flash
begin

text \<open>A write that succeeds found its first doubleword erased.\<close>

lemma write_found_erased:
  assumes W: "Stm32_FlashWrite hal h off (b # bs) = (PLATFORM_FLASH_OK, g)" and "b \<noteq> 0"
  shows "flash_at hal h (0x7D000 + unat off) = 255"
  using W
proof (cases rule: Stm32_FlashWrite_cases)
  case (looped h1 h2 ok)
  let ?ds = "take 8 (b # bs)"
  have "8 \<le> length (b # bs)" using looped(4) by (cases "length (b # bs) < 8") auto
  then have ds: "length ?ds = 8" "b # bs = ?ds @ drop 8 (b # bs)" by simp_all
  obtain s k where k: "hal_program hal h1 FLASH_TYPEPROGRAM_DOUBLEWORD (0x08000000 + of_nat (0x7D000 + unat off))
      (program_doubleword ?ds) = (s, k)" by (meson surj_pair)
  have "program_loop hal h1 (0x08000000 + of_nat (0x7D000 + unat off)) (?ds @ drop 8 (b # bs)) = (True, h2)"
    using looped ds(2) by (simp split: if_splits)
  then have "s = HAL_OK" using k by (simp add: program_loop_step[OF ds(1)] split: if_splits)
  moreover have "program_doubleword ?ds \<noteq> 0"
    using program_doubleword_byte[OF ds(1), of 0] assms(2) by auto
  ultimately have "flash_at hal h1 (0x7D000 + unat off + 0) = 255"
    using k looped(5,6) by (intro program_erased[of _ h1 "program_doubleword ?ds" k 0]) auto
  then show ?thesis using looped(2) by simp
qed simp

end

text \<open>
  Claim C10. On the target a configuration or an identity that fills both its slots cannot be stored
  again: while both hold a valid record no write of it succeeds, because the erase before the write
  does not reach the slot and the chip refuses to program it.
\<close>

theorem target_record_full:
  assumes "stm32_flash hal" "single_bank hal h" "Storage_Init (stm32_ops hal) h = (True, st)"
    and "rt = RECORD_TYPE_CONFIG \<or> rt = RECORD_TYPE_IDENTITY"
    and "\<forall>i<2. ss_state (ReadSlotSnapshot (stm32_ops hal) st h rt i) = SLOT_STATE_VALID"
  shows "fst (Storage_WriteEx (stm32_ops hal) st h rt (Some d) (length d)) \<noteq> STORAGE_WRITE_OK"
proof
  assume "fst (Storage_WriteEx (stm32_ops hal) st h rt (Some d) (length d)) = STORAGE_WRITE_OK"
  then obtain g where W: "Storage_WriteEx (stm32_ops hal) st h rt (Some d) (length d) = (STORAGE_WRITE_OK, g)"
    by (metis prod.collapse)
  note r = stm32_ready[OF assms(3)]
  have rt: "record_type_ok rt" using assms(4) by (auto simp: record_type_ok_def)
  have "\<forall>i \<in> {0, 1}. ss_state (ReadSlotSnapshot (stm32_ops hal) st h rt i) = SLOT_STATE_VALID"
    using assms(5) by simp
  then obtain w q where sel: "SelectWriteSlot (stm32_ops hal) st h rt = Some (w, q)"
    by (simp add: SelectWriteSlot_def Let_def)
  obtain p f off where s: "Stm32_FlashErase hal h p = (PLATFORM_FLASH_OK, f)" "unat p = page_of rt w" "w < 2"
    "WriteProgramRecord (stm32_ops hal) st f off rt (Some d) (length d) (next_sequence q) = (STORAGE_WRITE_OK, g)"
    "unat off = page_of rt w * 2048"
    by (rule stm32_flash.WriteEx_steps[OF assms(1) r rt sel W])
  have pg: "page_of rt w < 4"
    using assms(4) s(3) by (auto simp: page_of_def record_types slot_index_cases)
  then have "page_at stm32_info (stm32_contents hal f) (page_of rt w) = page_at stm32_info (stm32_contents hal h) (page_of rt w)"
    using stm32_flash.erase_pages[OF assms(1,2) s(1), of "page_of rt w"] s(2) by auto
  moreover have "ss_state (slot_view rt (page_at stm32_info (stm32_contents hal h) (page_of rt w))) = SLOT_STATE_VALID"
    using stm32_flash.snapshot_stm32[OF assms(1) r rt s(3) assms(2)] assms(5)[rule_format, OF s(3)] by metis
  ultimately have "page_at stm32_info (stm32_contents hal f) (page_of rt w) ! 0 = 0x43"
    using stm32_flash.length_page_stm32[OF assms(1)] pg by (intro valid_page_magic[of rt]) auto
  moreover obtain bs where "Stm32_FlashWrite hal f off (0x43 # bs) = (PLATFORM_FLASH_OK, g)"
    using WriteProgramRecord_writes[OF s(4)] by auto
  then have "flash_at hal f (0x7D000 + unat off) = 255"
    by (rule stm32_flash.write_found_erased[OF assms(1)]) simp
  ultimately show False
    using stm32_flash.page_at_stm32[OF assms(1), of "page_of rt w" 0 f] pg s(5) by simp
qed

text \<open>On the chip: two writes fill a configuration.\<close>

lemma g4_second_write:
  assumes c: "single_bank g4_hal c" and r: "storage_ready stm32_info st"
    and v: "slot_view RECORD_TYPE_CONFIG (page_at stm32_info (stm32_contents g4_hal c) 0) =
      record_snapshot RECORD_TYPE_CONFIG e 1"
    and b: "page_at stm32_info (stm32_contents g4_hal c) 1 = replicate 2048 255" and d: "length d \<le> 256"
  obtains g where "Storage_WriteEx (stm32_ops g4_hal) st c RECORD_TYPE_CONFIG (Some d) (length d) = (STORAGE_WRITE_OK, g)"
    "SelectWriteSlot (stm32_ops g4_hal) st c RECORD_TYPE_CONFIG = Some (1, 1)"
proof -
  have rt: "record_type_ok RECORD_TYPE_CONFIG" by (simp add: record_type_ok_def)
  have pg: "page_of RECORD_TYPE_CONFIG 0 = 0" "page_of RECORD_TYPE_CONFIG 1 = 1"
    by (simp_all add: page_of_def record_types)
  obtain l where l: "Storage_GetLayout st RECORD_TYPE_CONFIG = Some l" "unat (slot_b_page l) = 1"
    "unat (slot_b_offset l) = 1 * unat (fi_page_size stm32_info)"
    using GetLayout_Some[OF r rt] pg by metis
  have snap: "ReadSlotSnapshot (stm32_ops g4_hal) st c RECORD_TYPE_CONFIG 0 = record_snapshot RECORD_TYPE_CONFIG e 1"
    "ss_state (ReadSlotSnapshot (stm32_ops g4_hal) st c RECORD_TYPE_CONFIG 1) = SLOT_STATE_ERASED"
    using g4.snapshot_stm32[OF r rt _ c, of 0] g4.snapshot_stm32[OF r rt _ c, of 1] v slot_view_erased[OF b] pg
    by simp_all
  then have sel: "SelectWriteSlot (stm32_ops g4_hal) st c RECORD_TYPE_CONFIG = Some (1, 1)"
    by (simp add: SelectWriteSlot_def Let_def)
  obtain f where f: "Stm32_FlashErase g4_hal c (slot_b_page l) = (PLATFORM_FLASH_OK, f)"
    using g4_erase_ok[OF c] l(2) by (metis one_less_numeral_iff semiring_norm(76))
  have e0: "page_at stm32_info (stm32_contents g4_hal f) 1 = replicate (unat (fi_page_size stm32_info)) 255"
    using g4.erase_pages[OF c f, of 1] b l(2) by simp
  obtain g where "WriteProgramRecord (stm32_ops g4_hal) st f (slot_b_offset l) RECORD_TYPE_CONFIG (Some d) (length d) 2 =
      (STORAGE_WRITE_OK, g)"
    by (rule g4.WriteProgramRecord_working[OF r g4.Stm32_FlashErase_spec(1)[OF c f] l(3) _ e0 _ HOL.refl d,
          of "Some d"]) simp_all
  then have "Storage_WriteEx (stm32_ops g4_hal) st c RECORD_TYPE_CONFIG (Some d) (length d) = (STORAGE_WRITE_OK, g)"
    using r d l(1) sel f
    by (simp add: Storage_WriteEx_def storage_ready_def STORAGE_PAYLOAD_MAX_def Let_def)
  then show ?thesis using that sel by blast
qed

theorem target_record_full_witness:
  "\<exists>st c0 c1 c. Storage_WriteEx (stm32_ops g4_hal) st c0 RECORD_TYPE_CONFIG (Some [1]) 1 = (STORAGE_WRITE_OK, c1) \<and>
     Storage_WriteEx (stm32_ops g4_hal) st c1 RECORD_TYPE_CONFIG (Some [2]) 1 = (STORAGE_WRITE_OK, c) \<and>
     fst (Storage_WriteEx (stm32_ops g4_hal) st c RECORD_TYPE_CONFIG (Some [3]) 1) \<noteq> STORAGE_WRITE_OK"
proof -
  obtain st where st: "Storage_Init (stm32_ops g4_hal) g4_fresh = (True, st)"
    using stm32_init[OF g4_fresh_single] .
  note r = stm32_ready[OF st]
  have rt: "record_type_ok RECORD_TYPE_CONFIG" by (simp add: record_type_ok_def)
  have pg: "page_of RECORD_TYPE_CONFIG 0 = 0" "page_of RECORD_TYPE_CONFIG 1 = 1"
    by (simp_all add: page_of_def record_types)
  have fresh: "page_at stm32_info (stm32_contents g4_hal g4_fresh) q = replicate 2048 255" if "q < 6" for q
    using that by (intro nth_equalityI) (simp_all add: g4.length_page_stm32 g4.page_at_stm32 g4_at g4_fresh_def)
  obtain c1 where c1: "Storage_WriteEx (stm32_ops g4_hal) st g4_fresh RECORD_TYPE_CONFIG (Some [1]) (length [1 :: u8]) =
      (STORAGE_WRITE_OK, c1)" "SelectWriteSlot (stm32_ops g4_hal) st g4_fresh RECORD_TYPE_CONFIG = Some (0, 0)"
    by (rule g4_first_write[OF g4_fresh_single r rt fresh, of "[1]"]) (simp_all add: page_of_less[OF rt])
  note p1 = g4.WriteEx_pages[OF r rt g4_fresh_single c1(2,1)]
  have v1: "slot_view RECORD_TYPE_CONFIG (page_at stm32_info (stm32_contents g4_hal c1) 0) =
      record_snapshot RECORD_TYPE_CONFIG [1] 1"
    using p1(3) by (simp add: pg next_sequence_def)
  have b1: "page_at stm32_info (stm32_contents g4_hal c1) 1 = replicate 2048 255"
    using p1(2)[of 1] fresh[of 1] by (simp add: pg)
  obtain c where c: "Storage_WriteEx (stm32_ops g4_hal) st c1 RECORD_TYPE_CONFIG (Some [2]) (length [2 :: u8]) =
      (STORAGE_WRITE_OK, c)" "SelectWriteSlot (stm32_ops g4_hal) st c1 RECORD_TYPE_CONFIG = Some (1, 1)"
    by (rule g4_second_write[OF p1(1) r v1 b1, of "[2]"]) simp_all
  note p2 = g4.WriteEx_pages[OF r rt p1(1) c(2,1)]
  have "ss_state (slot_view RECORD_TYPE_CONFIG (page_at stm32_info (stm32_contents g4_hal c) (page_of RECORD_TYPE_CONFIG i))) =
      SLOT_STATE_VALID" if "i < 2" for i
    using that p2(3) p2(2)[of 0] v1 by (auto simp: slot_index_cases pg)
  then have full: "\<forall>i<2. ss_state (ReadSlotSnapshot (stm32_ops g4_hal) st c RECORD_TYPE_CONFIG i) = SLOT_STATE_VALID"
    using g4.snapshot_stm32[OF r rt _ p2(1)] by metis
  have "Storage_Init (stm32_ops g4_hal) c = (True, st)"
    using st p2(1) g4_fresh_single by (simp add: Storage_Init_def g4.single_bank_valid)
  from target_record_full[OF g4.stm32_flash_axioms p2(1) this _ full, of "[3]"] c1(1) c(1)
  show ?thesis by auto
qed

section \<open>The other bank mode\<close>

text \<open>
  In dual-bank mode the driver refuses every erase and every write without touching the chip, and the
  storage does not start; this needs no law of the chip.
\<close>

lemma target_dual_bank_refused:
  assumes "\<not> single_bank hal h"
  shows "Storage_Init (stm32_ops hal) h = (False, storage_reset)"
    and "snd (Stm32_FlashWrite hal h off bs) = h" "fst (Stm32_FlashWrite hal h off bs) \<noteq> PLATFORM_FLASH_OK"
    and "snd (Stm32_FlashErase hal h p) = h" "fst (Stm32_FlashErase hal h p) \<noteq> PLATFORM_FLASH_OK"
  using assms
  by (simp_all add: Storage_Init_def Stm32_FlashWrite_def Stm32_FlashErase_def
      Stm32_FlashValidateConfiguration_def single_bank_def)

end
