(* ===== verification/Spec2Isabelle.thy ===== *)
theory Spec2Isabelle
  imports Lifecycle Bus_Health Storage_Integrity Provisioning_Props Mqtt_Topic Net_Props Mqtt_Rx
    Command_Props Command_Reply_Props Telemetry_Props Communication_Props Mqtt_App_Props Mqtt_Bridge_Props
    Fix16_Props App_Props Flash_Stm32
begin

text \<open>
  A verification library for the room-sensor firmware (\<open>src/Application/User\<close>).

  \<^bold>\<open>The program.\<close> The firmware measures a room and reports to a hub. \<open>App/Src/app.c\<close> is
  a loop over components that keep their state in static variables or in structures the loop
  owns: persistent storage and its three records (configuration, identity, registration); the
  health of the I2C bus and the recovery of absent devices; a network transport over an adapter,
  an MQTT client over the transport; and a command processor whose messages come from MQTT or
  a local port. The library models these components, and states what each of them promises to
  the ones above it.

  \<^bold>\<open>Conventions.\<close> A translation unit's static variables are a record that its operations take
  and return. Handles to a component's own state are never NULL; optional data are options, with
  the NULL branch of the source. \<open>uint8_t\<close> to \<open>uint64_t\<close> are words, which wrap; \<open>size_t\<close>
  and lengths, which stay far below the width, are natural numbers. A C array with writes that may
  leave it is a list with \<open>poke\<close>, whose result outside the array is \<open>None\<close>; \<open>None\<close> is also the
  result of the one cast that may be undefined. The millisecond tick is one argument per call.
  The flash device, the network adapter, the unique number of the chip and the publish callback
  belong to the environment and are arguments, with their documented laws in locales.

  \<^bold>\<open>The theories, from the bottom.\<close>
  \<^item> \<open>Prelude\<close>: machine integers, windows of byte lists, little-endian fields, and the locale
    \<open>wrap_timer\<close> of the wrap-safe timers, interpreted on every copy of the comparison in the
    sources. \<open>Decimal\<close>: decimal and hexadecimal text (\<open>Common/Src/hex64.c\<close>).
    \<open>Float32\<close>: IEEE single and double precision on rational magnitudes, with rounding.
  \<^item> \<open>Room_Types\<close>, \<open>Room_State\<close>: \<open>Common/Inc/room_sensor_types.h\<close> and
    \<open>App/Src/room_state.c\<close>.
  \<^item> \<open>Lifecycle\<close>: \<open>Device/Src/device_lifecycle.c\<close> and \<open>boot_session.c\<close>; the boot
    sequence as a step relation.
  \<^item> \<open>Recovery_Policy\<close>, \<open>Bus_Health\<close>: \<open>Platform/Inc/recovery_policy.h\<close> and
    \<open>i2c_bus_health.h\<close>; when a shared bus may be reset, over reachable monitor states, both as a
    report of the monitor and as the decision of the application, \<open>recovery_decided\<close>.
  \<^item> \<open>Flash_Device\<close>: the interface of \<open>platform_flash.h\<close> as a hierarchy of locales:
    \<open>flash_reader\<close>, \<open>flash_writer\<close> (programming), \<open>flash_device\<close> (an erase concerns the page it
    names, and a failed access may leave anything there) and \<open>working_flash\<close>, interpreted on the
    host device \<open>platform_host_flash.c\<close>.
  \<^item> \<open>Storage_Record\<close>, \<open>Storage_Slots\<close>, \<open>Storage_Write\<close>: \<open>Storage/Src/storage.c\<close>, the
    two-slot record store. \<open>Storage_View\<close>, \<open>Storage_Program\<close>, \<open>Storage_Laws\<close> and
    \<open>Storage_Repair\<close> relate its bytes to the abstract map \<open>record_of\<close> from record types to
    contents; \<open>Storage_Props\<close> and \<open>Storage_Integrity\<close> hold the properties: crash safety,
    refinement of the map update, isolation, recovery, redundancy, layout and detection of a
    changed byte.
  \<^item> \<open>Flash_Stm32\<close>: the driver of the target, \<open>platform_flash_stm32.c\<close>, over a record of the
    HAL functions it calls; the locale \<open>stm32_flash\<close> states what the manual of the chip says of
    them, and a model of the chip interprets it. The driver is a \<open>flash_writer\<close> and not a
    \<open>flash_device\<close>: its erases reach other pages than the ones they name. What the storage theories
    show for a \<open>flash_device\<close> therefore holds on the host and for a driver that numbers the pages
    as the chip does; what happens with this one is stated in \<open>Flash_Stm32\<close>.
  \<^item> \<open>Config\<close> (\<open>App/Src/config.c\<close>), \<open>Device_Identity\<close> (\<open>App/Src/device_identity.c\<close>) and
    \<open>Provisioning\<close> (\<open>Provisioning/Src/provisioning.c\<close>) are the clients of the store, with
    \<open>Config_Props\<close> and \<open>Provisioning_Props\<close>: what comes back after a reboot, and what fails
    closed.
  \<^item> \<open>Net_Ring\<close>, \<open>Net_Transport\<close>: \<open>Network/Src/network_transport.c\<close>. The locale
    \<open>byte_fifo\<close> is the contract of its two rings, \<open>net_adapter\<close> that of the adapter,
    interpreted on the scripted adapter of the host tests (\<open>Fake_Adapter\<close>). \<open>Net_Stream\<close>
    shows that no byte is lost or reordered; \<open>Net_Props\<close> the connect deadline.
  \<^item> \<open>Mqtt_Utf8\<close>, \<open>Mqtt_Topic\<close>, \<open>Mqtt_Varint\<close>, \<open>Mqtt_Codec\<close>, \<open>Mqtt_Packets\<close>: the
    packet format (\<open>Mqtt/Src/mqtt_utf8.c\<close>, \<open>mqtt_codec.c\<close>) against the grammar of MQTT;
    \<open>Mqtt_Codec_Props\<close> its bounds and round trips. \<open>Mqtt_Client\<close>: \<open>mqtt_client.c\<close> as a
    whole; \<open>Mqtt_Client_Inv\<close>, \<open>Mqtt_Client_Ingest\<close> and \<open>Mqtt_Client_Props\<close> its invariant
    over every operation, \<open>Mqtt_Rx\<close> the receive path.
  \<^item> \<open>Device_Manifest\<close>, \<open>Self_Test\<close>: the manifest and its text (\<open>Device/Src\<close>), and
    \<open>App/Src/self_test.c\<close>.
  \<^item> \<open>Command_Parser\<close>, \<open>Command_Response\<close>, \<open>Command_Dispatcher\<close>, \<open>Command\<close>:
    \<open>Command/Src\<close>. The record \<open>device\<close> is the state the command services point to.
    \<open>Command_Parser_Props\<close>: integers are exactly the decimal texts of 32-bit numbers.
    \<open>Command_Props\<close>: a message has the authority of its source and no more, through the
    queue, the parser, the authorization and the handlers. \<open>Command_Reply_Props\<close>: the text of
    replies.
  \<^item> \<open>Telemetry\<close>: \<open>Telemetry/Src\<close>, and \<open>Telemetry_Props\<close>: a grammar of JSON values, which the
    sources do not contain, and that what the serializer writes is in the grammar.
    \<open>Communication\<close>: \<open>Communication/Src\<close>; \<open>Communication_Props\<close>: what the port receives,
    in order and never stale.
  \<^item> \<open>Mqtt_App\<close>: \<open>App/Src/mqtt_app.c\<close>, the manager of the connection. \<open>Mqtt_App_Inv\<close>,
    \<open>Mqtt_App_Topics\<close> and \<open>Mqtt_App_Props\<close> relate its state to that of the client and the
    transport; \<open>Mqtt_Client_States\<close> and \<open>Mqtt_Client_Frame\<close> hold what
    the operations of the client keep. \<open>Mqtt_Bridge_Props\<close>: how a command of the broker and
    its reply pass through the client, the manager and the command queue.
  \<^item> \<open>I2c_Bus\<close>: \<open>Platform/Inc/i2c_bus.h\<close>, a bus as two functions over the state of the world,
    and a scripted bus for the witnesses. \<open>Scd41\<close>, \<open>Sht45\<close>, \<open>Sgp41\<close>, \<open>Bmp3\<close> with
    \<open>Bmp3_Runtime\<close> (BMP390 and BMP380), and \<open>Veml7700\<close>: the drivers under
    \<open>Drivers/\<close> and their runtimes, which Poll drives as state machines. \<open>Crc8_Props\<close>: the checksum of
    the Sensirion parts detects every error of at most three bits and every change of one byte.
  \<^item> \<open>Sensor_Runtime\<close>: the locale \<open>sensor_runtime\<close> is the contract the application relies on
    (a valid sample is fresh after every Poll and EnforceFreshness, a runtime that is not found or
    in error has none, Invalidate and Recover clear it, Poll does nothing in a resting state),
    interpreted on all five runtimes; \<open>Sensor_Props\<close> holds the properties.
  \<^item> \<open>Fix16\<close> and \<open>Gas_Index\<close>: \<open>Drivers/gas_index/Src/gas_index.c\<close>, the 16.16 fixed-point
    arithmetic and the VOC and NOx algorithms on it; \<open>Fix16_Props\<close>: the bitwise division is the
    rounded quotient.
  \<^item> \<open>Display\<close>: \<open>Drivers/display\<close> (frame buffer, font, transfer) and
    \<open>App/Src/display_pages.c\<close>.
  \<^item> \<open>App_Sensors\<close>: the half of \<open>App/Src/app.c\<close> that owns the devices. \<open>App_Feed\<close>: the locale
    \<open>sensor_feed\<close> adds the polling by the scheduler to \<open>sensor_runtime\<close> (a sample that was
    looked at less than one interval ago is not much older than its limit), interpreted on the
    five runtimes; on it rests the relation between the samples and the room state that every
    operation keeps. \<open>App_Feed_Props\<close>: what it means over histories of the application, and what
    keeps a light value valid, which has no limit of age.
  \<^item> \<open>App\<close>: \<open>App_Init\<close> and \<open>App_Run\<close> over the statics of all the modules: the boot sequence, one
    function per phase, and the scheduler. \<open>App_Props\<close>: the boot ends in the operational phase
    whatever flash and bus do; on a working flash it is an update of \<open>record_of\<close> that touches only
    absent records and keeps the pages of corrupt ones byte for byte; without a network adapter the
    network side is never touched.

  \<^bold>\<open>Bounds and fuel.\<close> Loops are structural recursion, or functions with a measure: the drain of
  a ring ends because every round removes a byte, the parser because every field consumes one.
  The bounded loops of the sources keep their bounds: four packets per call of the MQTT receive
  path, four bytes of a Remaining Length, sixteen digits. The loops of the fixed-point division,
  square root and exponential have the shifted bit or the rest of the argument as their measure;
  no theory uses fuel.

  \<^bold>\<open>Where the code does not do what it means to.\<close> Some properties state a defect exactly:
  a stored registration that is well-formed and invalid can never be cleared; a calibration
  outside the admissible range is accepted and costs every setting at the next boot; the length
  of SUBSCRIBE packets is two bytes short; the receive path of the client reads past a short
  packet and can overrun its buffer; the CONNACK deadline is counted twice; a receive error
  without bytes goes unseen; GET_STATUS does not answer in JSON; the reply to a command of
  quality of service 1 is lost when its acknowledgement waits; the first wait before a reconnection
  is not the documented one; an air quality sensor that was conditioned before its recovery is
  never read again, and neither is a temperature sensor after one checksum error; a recovery of
  the shared bus leaves the values of the CO2 sensor valid for ever where it stays away, and may
  rest on failures a minute old; and on the target an erase of the storage reaches another page,
  so that storing the first registration erases the identity.

  \<^bold>\<open>Not modelled.\<close> One tick stands for the readings of the clock within one pass of the application,
  and what it prints is the list of the printed texts. Beside its flash driver the platform layers of
  the target call the vendor HAL, those of the host the operating system; \<open>Core/\<close>, \<open>Drivers/\<close> beside
  \<open>src/Application\<close> and the start-up code are vendor or generated code; the tests are not part of
  the device, except for the scripted network adapter, and neither are the hooks of the fault
  injection. No network adapter exists in the sources beside that one, so the application runs
  without; the MQTT theories take any. Concurrency with interrupt handlers does not occur in the
  modelled components.
\<close>

end
